(* ===== verification/Prelude.thy ===== *)
theory Prelude
  imports Main "HOL-Library.Word"
begin

text \<open>
  Shared ground of the development: the results of fallible Rust code, the error
  enumerations of the two on-chain programs, Rust's integer operations, array access
  with its panics, counted loops, and the list lemmas every component uses.

  Conventions. A value of a Rust integer type whose bits matter (bit masks, packed
  scores, status flags, bytes) is an Isabelle word. Amounts, epochs, slots and indices
  are natural numbers, and every operation that can leave the type's range takes the
  maximum of its type and says what Rust does there: checked operations give \<open>None\<close>,
  saturating operations clamp, and the plain operators panic, since the workspace is
  built with \<^verbatim>\<open>overflow-checks = true\<close>.
\<close>

section \<open>Errors and results\<close>

text \<open>\<^verbatim>\<open>StewardError\<close> of programs/steward/src/errors.rs.\<close>

datatype StewardError =
    InvalidAuthorityType
  | ScoringNotComplete
  | ValidatorNotInList
  | Unauthorized
  | BitmaskOutOfBounds
  | InvalidState
  | StakeStateIsNotStake
  | ValidatorBelowStakeMinimum
  | ValidatorBelowLivenessMinimum
  | VoteHistoryNotRecentEnough
  | StakeHistoryNotRecentEnough
  | ClusterHistoryNotRecentEnough
  | StateMachinePaused
  | InvalidParameterValue
  | InstantUnstakeNotReady
  | ValidatorIndexOutOfBounds
  | ValidatorListTypeMismatch
  | ArithmeticError
  | ValidatorNotRemovable
  | ValidatorMarkedActive
  | MaxValidatorsReached
  | EpochMaintenanceNotComplete
  | StakePoolNotUpdated
  | EpochMaintenanceAlreadyComplete
  | ValidatorsNeedToBeRemoved
  | ValidatorNotMarkedForRemoval
  | ValidatorsHaveNotBeenRemoved
  | ListStateMismatch
  | VoteAccountDoesNotMatch
  | ValidatorNeedsToBeMarkedForRemoval
  | InvalidStakeState
  | ArithmeticCastError
  | DirectedStakeValidatorListFull
  | DirectedStakeStakerListFull
  | AlreadyPermissioned
  | StakerNotInWhitelist
  | ValidatorNotInWhitelist
  | WhitelistAuthorityUnset
  | DirectedStakeVoteAccountMismatch
  | ValidatorAlreadyRebalanced

text \<open>\<^verbatim>\<open>ValidatorHistoryError\<close> of programs/validator-history/src/errors.rs. One of its
  constructors has the name of a constructor above and carries a prefix.\<close>

datatype ValidatorHistoryError =
    AccountFullySized
  | InvalidEpochCredits
  | EpochOutOfRange
  | NotSigVerified
  | GossipDataInvalid
  | UnsupportedIpFormat
  | NotEnoughVotingHistory
  | GossipDataTooOld
  | GossipDataInFuture
  | VH_ArithmeticError
  | SlotHistoryOutOfDate
  | EpochTooLarge
  | DuplicateEpoch
  | NoReallocNeeded
  | PriorityFeeDistributionAccountAlreadyCopied
  | PriorityFeeDistributionAccountNotFinalized
  | InvalidBamClientValue

text \<open>
  What a fallible function of the programs can fail with: an error of one of the two
  programs, an error of a program it calls, or a panic (an index out of range, a failed
  \<^verbatim>\<open>unwrap\<close>, an arithmetic overflow). All of them abort the transaction.
\<close>

datatype error =
    Steward StewardError
  | History ValidatorHistoryError
  | External nat
  | Panic

type_synonym 'a result = "error + 'a"

abbreviation Err :: "error \<Rightarrow> 'a result" where "Err \<equiv> Inl"
abbreviation Ok :: "'a \<Rightarrow> 'a result" where "Ok \<equiv> Inr"

named_theorems result_simps \<open>equations that compute through fallible code\<close>

text \<open>\<^verbatim>\<open>Result::and_then\<close>, which is what the \<^verbatim>\<open>?\<close> operator does with the rest of the body.\<close>

definition and_then :: "'a result \<Rightarrow> ('a \<Rightarrow> 'b result) \<Rightarrow> 'b result" where
  "and_then r k = (case r of Inl e \<Rightarrow> Inl e | Inr x \<Rightarrow> k x)"

definition ok_or :: "'a option \<Rightarrow> error \<Rightarrow> 'a result" where
  "ok_or m e = (case m of None \<Rightarrow> Inl e | Some x \<Rightarrow> Inr x)"

text \<open>Anchor's \<^verbatim>\<open>require!\<close>.\<close>

definition require :: "bool \<Rightarrow> StewardError \<Rightarrow> unit result" where
  "require c e = (if c then Inr () else Inl (Steward e))"

lemma and_then_simps [simp, result_simps]:
  "and_then (Inl e) k = Inl e"
  "and_then (Inr x) k = k x"
  by (simp_all add: and_then_def)

lemma and_then_eq_Inr [result_simps]:
  "and_then r k = Inr y \<longleftrightarrow> (\<exists>x. r = Inr x \<and> k x = Inr y)"
  by (cases r) simp_all

lemma and_then_eq_Inl:
  "and_then r k = Inl e \<longleftrightarrow> r = Inl e \<or> (\<exists>x. r = Inr x \<and> k x = Inl e)"
  by (cases r) simp_all

lemma and_then_assoc: "and_then (and_then r f) g = and_then r (\<lambda>x. and_then (f x) g)"
  by (cases r) simp_all

lemma ok_or_simps [simp, result_simps]:
  "ok_or None e = Inl e"
  "ok_or (Some x) e = Inr x"
  by (simp_all add: ok_or_def)

lemma ok_or_eq_Inr [result_simps]: "ok_or m e = Inr y \<longleftrightarrow> m = Some y"
  by (cases m) simp_all

lemma require_True [simp]: "require True e = Inr ()"
  and require_False [simp]: "require False e = Inl (Steward e)"
  by (simp_all add: require_def)

lemma require_eq_Inr [result_simps]: "require c e = Inr u \<longleftrightarrow> c"
  by (simp add: require_def)

text \<open>
  A property of the value that a computation returns when it succeeds. The rules take a body
  of \<open>and_then\<close>s apart from the left, as many statements of the source as it has.
\<close>

definition ok_all :: "('a \<Rightarrow> bool) \<Rightarrow> 'a result \<Rightarrow> bool" where
  "ok_all P r \<longleftrightarrow> (\<forall>x. r = Inr x \<longrightarrow> P x)"

lemma ok_allD: "ok_all P r \<Longrightarrow> r = Inr x \<Longrightarrow> P x"
  by (simp add: ok_all_def)

lemma ok_all_simps [simp]: "ok_all P (Inr x) = P x" "ok_all P (Inl e)"
  by (simp_all add: ok_all_def)

lemma ok_all_bind: "(\<And>x. r = Inr x \<Longrightarrow> ok_all P (k x)) \<Longrightarrow> ok_all P (and_then r k)"
  by (auto simp: ok_all_def and_then_eq_Inr)

text \<open>Keeping only what is known of an intermediate value, or nothing at all.\<close>

lemma ok_all_with: "ok_all Q r \<Longrightarrow> (\<And>x. Q x \<Longrightarrow> ok_all P (k x)) \<Longrightarrow> ok_all P (and_then r k)"
  by (auto simp: ok_all_def and_then_eq_Inr)

lemma ok_all_any: "(\<And>x. ok_all P (k x)) \<Longrightarrow> ok_all P (and_then r k)"
  by (auto simp: ok_all_def and_then_eq_Inr)

lemma ok_all_split: "(\<And>x y. p = (x, y) \<Longrightarrow> ok_all P (f x y)) \<Longrightarrow> ok_all P (case p of (x, y) \<Rightarrow> f x y)"
  by (cases p) simp

lemma ok_all_if: "(c \<Longrightarrow> ok_all P r) \<Longrightarrow> (\<not> c \<Longrightarrow> ok_all P s) \<Longrightarrow> ok_all P (if c then r else s)"
  by simp

section \<open>Rust integers\<close>

definition U8_MAX :: nat where "U8_MAX = 255"
definition U16_MAX :: nat where "U16_MAX = 65535"
definition U32_MAX :: nat where "U32_MAX = 4294967295"
definition U64_MAX :: nat where "U64_MAX = 18446744073709551615"
definition U128_MAX :: nat where "U128_MAX = 340282366920938463463374607431768211455"

lemmas int_limits = U8_MAX_def U16_MAX_def U32_MAX_def U64_MAX_def U128_MAX_def

lemma int_limits_mono [simp]:
  "U64_MAX \<le> U128_MAX" "U32_MAX \<le> U64_MAX" "U16_MAX \<le> U32_MAX" "U8_MAX \<le> U16_MAX"
  by (simp_all add: int_limits)

lemma int_limits_pos [simp]: "0 < U64_MAX" "0 < U128_MAX" "0 < U32_MAX" "0 < U16_MAX" "0 < U8_MAX"
  by (simp_all add: int_limits)

text \<open>The checked and the saturating operations of a type with maximum \<open>m\<close>.\<close>

definition checked_add :: "nat \<Rightarrow> nat \<Rightarrow> nat \<Rightarrow> nat option" where
  "checked_add m a b = (if a + b \<le> m then Some (a + b) else None)"

definition checked_sub :: "nat \<Rightarrow> nat \<Rightarrow> nat option" where
  "checked_sub a b = (if b \<le> a then Some (a - b) else None)"

definition checked_mul :: "nat \<Rightarrow> nat \<Rightarrow> nat \<Rightarrow> nat option" where
  "checked_mul m a b = (if a * b \<le> m then Some (a * b) else None)"

definition checked_div :: "nat \<Rightarrow> nat \<Rightarrow> nat option" where
  "checked_div a b = (if b = 0 then None else Some (a div b))"

definition saturating_add :: "nat \<Rightarrow> nat \<Rightarrow> nat \<Rightarrow> nat" where
  "saturating_add m a b = min m (a + b)"

definition saturating_sub :: "nat \<Rightarrow> nat \<Rightarrow> nat" where
  "saturating_sub a b = a - b"

definition saturating_mul :: "nat \<Rightarrow> nat \<Rightarrow> nat \<Rightarrow> nat" where
  "saturating_mul m a b = min m (a * b)"

text \<open>\<^verbatim>\<open>try_from\<close> into a type with maximum \<open>m\<close>, and the truncating cast \<^verbatim>\<open>as\<close> into it.\<close>

definition try_into :: "nat \<Rightarrow> nat \<Rightarrow> nat option" where
  "try_into m a = (if a \<le> m then Some a else None)"

definition cast :: "nat \<Rightarrow> nat \<Rightarrow> nat" where
  "cast m a = a mod (m + 1)"

text \<open>The plain operators, which panic when the result leaves the type.\<close>

definition plus_or_panic :: "nat \<Rightarrow> nat \<Rightarrow> nat \<Rightarrow> nat result" where
  "plus_or_panic m a b = ok_or (checked_add m a b) Panic"

definition minus_or_panic :: "nat \<Rightarrow> nat \<Rightarrow> nat result" where
  "minus_or_panic a b = ok_or (checked_sub a b) Panic"

definition times_or_panic :: "nat \<Rightarrow> nat \<Rightarrow> nat \<Rightarrow> nat result" where
  "times_or_panic m a b = ok_or (checked_mul m a b) Panic"

definition div_or_panic :: "nat \<Rightarrow> nat \<Rightarrow> nat result" where
  "div_or_panic a b = ok_or (checked_div a b) Panic"

lemmas checked_defs = checked_add_def checked_sub_def checked_mul_def checked_div_def try_into_def
lemmas saturating_defs = saturating_add_def saturating_sub_def saturating_mul_def
lemmas panic_defs = plus_or_panic_def minus_or_panic_def times_or_panic_def div_or_panic_def

lemma checked_add_eq_Some [result_simps]: "checked_add m a b = Some c \<longleftrightarrow> c = a + b \<and> a + b \<le> m"
  by (auto simp: checked_add_def)

lemma checked_sub_eq_Some [result_simps]: "checked_sub a b = Some c \<longleftrightarrow> b \<le> a \<and> c = a - b"
  by (auto simp: checked_sub_def)

lemma checked_mul_eq_Some [result_simps]: "checked_mul m a b = Some c \<longleftrightarrow> c = a * b \<and> a * b \<le> m"
  by (auto simp: checked_mul_def)

lemma checked_div_eq_Some [result_simps]: "checked_div a b = Some c \<longleftrightarrow> b \<noteq> 0 \<and> c = a div b"
  by (auto simp: checked_div_def)

lemma try_into_eq_Some [result_simps]: "try_into m a = Some c \<longleftrightarrow> c = a \<and> a \<le> m"
  by (auto simp: try_into_def)

lemma cast_le: "cast m a \<le> m"
  by (simp add: cast_def less_Suc_eq_le [symmetric])

lemma cast_id: "a \<le> m \<Longrightarrow> cast m a = a"
  by (simp add: cast_def)

section \<open>Arrays and loops\<close>

text \<open>Reading and writing an array element; both panic out of range.\<close>

definition arr_get :: "'a list \<Rightarrow> nat \<Rightarrow> 'a result" where
  "arr_get xs i = (if i < length xs then Inr (xs ! i) else Inl Panic)"

definition arr_set :: "'a list \<Rightarrow> nat \<Rightarrow> 'a \<Rightarrow> 'a list result" where
  "arr_set xs i v = (if i < length xs then Inr (xs[i := v]) else Inl Panic)"

text \<open>The slice \<^verbatim>\<open>xs[a..b]\<close>, which panics unless \<open>a \<le> b\<close> and \<open>b\<close> is within the array.\<close>

definition arr_slice :: "'a list \<Rightarrow> nat \<Rightarrow> nat \<Rightarrow> 'a list result" where
  "arr_slice xs a b =
     (if a \<le> b \<and> b \<le> length xs then Inr (take (b - a) (drop a xs)) else Inl Panic)"

lemma arr_get_ok [simp]: "i < length xs \<Longrightarrow> arr_get xs i = Inr (xs ! i)"
  by (simp add: arr_get_def)

lemma arr_set_ok [simp]: "i < length xs \<Longrightarrow> arr_set xs i v = Inr (xs[i := v])"
  by (simp add: arr_set_def)

lemma arr_slice_prefix [simp]: "n \<le> length xs \<Longrightarrow> arr_slice xs 0 n = Inr (take n xs)"
  by (simp add: arr_slice_def)

lemma arr_get_eq_Inr [result_simps]: "arr_get xs i = Inr v \<longleftrightarrow> i < length xs \<and> v = xs ! i"
  by (auto simp: arr_get_def)

lemma arr_set_eq_Inr [result_simps]:
  "arr_set xs i v = Inr ys \<longleftrightarrow> i < length xs \<and> ys = xs[i := v]"
  by (auto simp: arr_set_def)

text \<open>
  A \<^verbatim>\<open>for\<close> loop over the elements of a list with a fallible body that updates a state; the
  range \<^verbatim>\<open>a..b\<close> is the list \<open>[a..<b]\<close> and its reverse is \<open>rev [a..<b]\<close>.
\<close>

primrec for_each :: "('i \<Rightarrow> 's \<Rightarrow> 's result) \<Rightarrow> 'i list \<Rightarrow> 's \<Rightarrow> 's result" where
  "for_each f [] s = Inr s"
| "for_each f (x # xs) s = and_then (f x s) (for_each f xs)"

lemma for_each_append [simp]:
  "for_each f (xs @ ys) s = and_then (for_each f xs s) (for_each f ys)"
proof (induction xs arbitrary: s)
  case (Cons x xs)
  then show ?case by (cases "f x s") simp_all
qed simp

lemma for_each_invariant:
  assumes "for_each f xs s = Inr t" and "I s"
    and "\<And>x s t. x \<in> set xs \<Longrightarrow> I s \<Longrightarrow> f x s = Inr t \<Longrightarrow> I t"
  shows "I t"
  using assms
proof (induction xs arbitrary: s)
  case (Cons x xs)
  then obtain u where u: "f x s = Inr u" and rest: "for_each f xs u = Inr t"
    by (auto simp: and_then_eq_Inr)
  have "I u" by (rule Cons.prems(3) [OF _ Cons.prems(2) u]) simp
  moreover have "\<And>y s t. y \<in> set xs \<Longrightarrow> I s \<Longrightarrow> f y s = Inr t \<Longrightarrow> I t"
    using Cons.prems(3) by (metis list.set_intros(2))
  ultimately show ?case using Cons.IH rest by metis
qed simp

lemma for_each_cong:
  "(\<And>x s. x \<in> set xs \<Longrightarrow> f x s = g x s) \<Longrightarrow> for_each f xs s = for_each g xs s"
proof (induction xs arbitrary: s)
  case (Cons x xs)
  have "for_each f xs = for_each g xs"
    by (rule ext, rule Cons.IH) (simp add: Cons.prems)
  then show ?case using Cons.prems by simp
qed simp

text \<open>Mapping a fallible function over a list, and \<^verbatim>\<open>unwrap\<close> on a result.\<close>

primrec map_result :: "('a \<Rightarrow> 'b result) \<Rightarrow> 'a list \<Rightarrow> 'b list result" where
  "map_result f [] = Ok []"
| "map_result f (x # xs) = and_then (f x) (\<lambda>y. and_then (map_result f xs) (\<lambda>ys. Ok (y # ys)))"

lemma map_result_pure: "(\<And>x. x \<in> set xs \<Longrightarrow> f x = Ok (g x)) \<Longrightarrow> map_result f xs = Ok (map g xs)"
  by (induction xs) auto

lemma map_result_eq_Inr:
  "map_result f xs = Inr ys \<longleftrightarrow> length ys = length xs \<and> (\<forall>i<length xs. f (xs ! i) = Inr (ys ! i))"
proof (induction xs arbitrary: ys)
  case (Cons x xs)
  show ?case
    by (cases ys) (auto simp: and_then_eq_Inr Cons.IH All_less_Suc2)
qed auto

definition unwrap :: "'a result \<Rightarrow> 'a result" where
  "unwrap r = (case r of Inl e \<Rightarrow> Err Panic | Inr x \<Rightarrow> Ok x)"

lemma unwrap_simps [simp, result_simps]:
  "unwrap (Inl e) = Inl Panic"
  "unwrap (Inr x) = Inr x"
  by (simp_all add: unwrap_def)

lemma unwrap_eq_Inr [result_simps]: "unwrap r = Inr y \<longleftrightarrow> r = Inr y"
  by (cases r) simp_all

text \<open>\<^verbatim>\<open>Iterator::position\<close> with a predicate that may panic, evaluated from the left.\<close>

primrec position :: "('a \<Rightarrow> bool result) \<Rightarrow> 'a list \<Rightarrow> nat option result" where
  "position p [] = Inr None"
| "position p (x # xs) =
     and_then (p x) (\<lambda>b. if b then Inr (Some 0)
                          else and_then (position p xs) (\<lambda>r. Inr (map_option Suc r)))"

lemma position_pure:
  "(\<And>x. x \<in> set xs \<Longrightarrow> p x = Inr (q x)) \<Longrightarrow>
   position p xs = Inr (if \<exists>x\<in>set xs. q x then Some (length (takeWhile (\<lambda>x. \<not> q x) xs)) else None)"
  by (induction xs) auto

lemma first_index_less: "k \<in> set xs \<Longrightarrow> length (takeWhile (\<lambda>x. x \<noteq> k) xs) < length xs"
  by (induction xs) auto

lemma in_set_tl: "x \<in> set (tl xs) \<Longrightarrow> x \<in> set xs"
  by (cases xs) simp_all

section \<open>Shifting array elements\<close>

text \<open>
  The loops \<^verbatim>\<open>for i in a..b { xs[i] = xs[i + 1] }\<close> and
  \<^verbatim>\<open>for i in (a..b).rev() { xs[i + 1] = xs[i] }\<close>, on their effect.
\<close>

definition shl_range :: "nat \<Rightarrow> nat \<Rightarrow> 'a list \<Rightarrow> 'a list" where
  "shl_range a b xs =
     map (\<lambda>j. if a \<le> j \<and> j < b then xs ! Suc j else xs ! j) [0..<length xs]"

definition shr_range :: "nat \<Rightarrow> nat \<Rightarrow> 'a list \<Rightarrow> 'a list" where
  "shr_range a b xs =
     map (\<lambda>j. if a < j \<and> j \<le> b then xs ! (j - 1) else xs ! j) [0..<length xs]"

lemma length_shl_range [simp]: "length (shl_range a b xs) = length xs"
  by (simp add: shl_range_def)

lemma length_shr_range [simp]: "length (shr_range a b xs) = length xs"
  by (simp add: shr_range_def)

lemma nth_shl_range [simp]:
  "j < length xs \<Longrightarrow> shl_range a b xs ! j = (if a \<le> j \<and> j < b then xs ! Suc j else xs ! j)"
  by (simp add: shl_range_def)

lemma nth_shr_range [simp]:
  "j < length xs \<Longrightarrow> shr_range a b xs ! j = (if a < j \<and> j \<le> b then xs ! (j - 1) else xs ! j)"
  by (simp add: shr_range_def)

lemma shl_range_empty [simp]: "b \<le> a \<Longrightarrow> shl_range a b xs = xs"
  by (rule nth_equalityI) auto

lemma shr_range_empty [simp]: "b \<le> a \<Longrightarrow> shr_range a b xs = xs"
  by (rule nth_equalityI) auto

lemma shl_range_Suc:
  "a \<le> b \<Longrightarrow> Suc b < length xs \<Longrightarrow>
   (shl_range a b xs)[b := xs ! Suc b] = shl_range a (Suc b) xs"
  by (rule nth_equalityI) (auto simp: nth_list_update less_Suc_eq)

lemma shr_range_rev_step:
  "a < b \<Longrightarrow> b < length xs \<Longrightarrow>
   shr_range a (b - 1) (xs[b := xs ! (b - 1)]) = shr_range a b xs"
  by (rule nth_equalityI) (auto simp: nth_list_update)

lemma for_each_shl:
  assumes "a \<le> b" "b < length xs"
  shows "for_each (\<lambda>i ys. and_then (arr_get ys (Suc i)) (\<lambda>v. arr_set ys i v)) [a..<b] xs
       = Inr (shl_range a b xs)"
  using assms
proof (induction b)
  case (Suc b)
  show ?case
  proof (cases "a \<le> b")
    case True
    then show ?thesis using Suc by (simp add: shl_range_Suc)
  next
    case False
    then have "a = Suc b" using Suc.prems by simp
    then show ?thesis by simp
  qed
qed simp

lemma for_each_shr:
  assumes "b < length xs"
  shows "for_each (\<lambda>i ys. and_then (arr_get ys i) (\<lambda>v. arr_set ys (Suc i) v)) (rev [a..<b]) xs
       = Inr (shr_range a b xs)"
  using assms
proof (induction b arbitrary: xs)
  case (Suc b)
  show ?case
  proof (cases "a \<le> b")
    case True
    then have "shr_range a b (xs[Suc b := xs ! b]) = shr_range a (Suc b) xs"
      using Suc.prems shr_range_rev_step [of a "Suc b" xs] by simp
    then show ?thesis using Suc True by simp
  next
    case False
    then show ?thesis by simp
  qed
qed simp

lemma take_shr_range:
  "a \<le> b \<Longrightarrow> b < length xs \<Longrightarrow>
   take (Suc b) ((shr_range a b xs)[a := v]) = take a xs @ v # take (b - a) (drop a xs)"
proof (rule nth_equalityI)
  fix i
  assume ab: "a \<le> b" "b < length xs"
    and "i < length (take (Suc b) ((shr_range a b xs)[a := v]))"
  then have i: "i \<le> b" by simp
  consider "i < a" | "i = a" | k where "i = Suc (a + k)"
    by (metis less_iff_Suc_add linorder_neqE_nat)
  then show "take (Suc b) ((shr_range a b xs)[a := v]) ! i
           = (take a xs @ v # take (b - a) (drop a xs)) ! i"
    using ab i by cases (simp_all add: nth_append)
qed simp

section \<open>Little-endian bytes\<close>

primrec from_le_bytes :: "8 word list \<Rightarrow> nat" where
  "from_le_bytes [] = 0"
| "from_le_bytes (b # bs) = unat b + 256 * from_le_bytes bs"

primrec to_le_bytes :: "nat \<Rightarrow> nat \<Rightarrow> 8 word list" where
  "to_le_bytes 0 x = []"
| "to_le_bytes (Suc n) x = word_of_nat (x mod 256) # to_le_bytes n (x div 256)"

lemma length_to_le_bytes [simp]: "length (to_le_bytes n x) = n"
  by (induction n arbitrary: x) simp_all

lemma from_to_le_bytes: "x < 256 ^ n \<Longrightarrow> from_le_bytes (to_le_bytes n x) = x"
proof (induction n arbitrary: x)
  case (Suc n)
  have "x div 256 < 256 ^ n" using Suc.prems by (simp add: less_mult_imp_div_less mult.commute)
  moreover have "unat (word_of_nat (x mod 256) :: 8 word) = x mod 256"
    by (simp add: unat_of_nat)
  ultimately show ?case using Suc.IH by simp
qed simp

lemma from_le_bytes_less: "from_le_bytes bs < 256 ^ length bs"
proof (induction bs)
  case (Cons b bs)
  have "unat b < 256" using unsigned_less [of b] by simp
  then have "unat b + 256 * from_le_bytes bs < 256 * (from_le_bytes bs + 1)" by simp
  also have "\<dots> \<le> 256 * 256 ^ length bs"
    using Cons.IH by (intro mult_le_mono2) simp
  finally show ?case by simp
qed simp

lemma to_from_le_bytes: "to_le_bytes (length bs) (from_le_bytes bs) = bs"
proof (induction bs)
  case (Cons b bs)
  have b: "unat b < 256" using unsigned_less [of b] by simp
  then have "(unat b + 256 * from_le_bytes bs) mod 256 = unat b"
    "(unat b + 256 * from_le_bytes bs) div 256 = from_le_bytes bs" by simp_all
  then show ?case using Cons.IH by simp
qed simp

section \<open>Invariants of a step relation\<close>

text \<open>
  An invariant that every step keeps except those of a named kind, which break it: it holds all
  along a run exactly when the run has no such step.
\<close>

locale step_system_upto =
  fixes step :: "'s \<Rightarrow> 's \<Rightarrow> bool"
    and inv :: "'s \<Rightarrow> bool"
    and breaks :: "'s \<Rightarrow> 's \<Rightarrow> bool"
  assumes step_inv_or: "step s t \<Longrightarrow> inv s \<Longrightarrow> inv t \<or> breaks s t"
    and breaks_inv: "breaks s t \<Longrightarrow> \<not> inv t"
begin

lemma run_inv_iff:
  "successively step ps \<Longrightarrow> ps \<noteq> [] \<Longrightarrow> inv (hd ps) \<Longrightarrow>
   (\<forall>p\<in>set ps. inv p) \<longleftrightarrow> successively (\<lambda>p q. \<not> breaks p q) ps"
proof (induction ps rule: induct_list012)
  case (3 p q ps)
  then show ?case
  proof (cases "breaks p q")
    case True
    then show ?thesis using breaks_inv by auto
  next
    case False
    then have "inv q" using step_inv_or [of p q] 3(3,5) by auto
    then show ?thesis using 3 False by auto
  qed
qed simp_all

end

locale step_system =
  fixes step :: "'s \<Rightarrow> 's \<Rightarrow> bool"
    and inv :: "'s \<Rightarrow> bool"
  assumes step_inv: "step s t \<Longrightarrow> inv s \<Longrightarrow> inv t"
begin

lemma reachable_inv: "step\<^sup>*\<^sup>* s t \<Longrightarrow> inv s \<Longrightarrow> inv t"
  by (induction rule: rtranclp_induct) (auto intro: step_inv)

lemma reachable_transitive: "step\<^sup>*\<^sup>* s t \<Longrightarrow> step\<^sup>*\<^sup>* t u \<Longrightarrow> inv s \<Longrightarrow> inv t \<and> inv u"
  using reachable_inv by blast

end

sublocale step_system \<subseteq> upto: step_system_upto step inv "\<lambda>_ _. False"
  by unfold_locales (simp_all add: step_inv)

end
