(* ===== verification/BitMask.thy ===== *)
theory BitMask
  imports Prelude
begin

unbundle bit_operations_syntax

text \<open>
  The progress bit masks of programs/steward/src/state/bitmask.rs and large_bitmask.rs.
  The two files hold the same code at two capacities (the source says so), so each
  operation is written once with the capacity as its first argument and specialised
  twice. The contract of a mask is the locale \<open>bit_array\<close>: the mask stands for a finite
  set of indices, and each operation is described by its effect on that set.
\<close>

section \<open>Model\<close>

definition MAX_VALIDATORS :: nat where "MAX_VALIDATORS = 5000"
definition BITMASK_SIZE :: nat where "BITMASK_SIZE = (MAX_VALIDATORS + 64 - 1) div 64"
definition LARGE_BITMASK_INDEXES :: nat where "LARGE_BITMASK_INDEXES = 20000"
definition LARGE_BITMASK :: nat where "LARGE_BITMASK = (LARGE_BITMASK_INDEXES + 64 - 1) div 64"

record bitmask =
  words :: "64 word list"

type_synonym BitMask = bitmask
type_synonym LargeBitMask = bitmask

text \<open>The number of words a mask of capacity \<open>cap\<close> is declared with.\<close>

definition mask_words :: "nat \<Rightarrow> nat" where
  "mask_words cap = (cap + 64 - 1) div 64"

definition mask_default :: "nat \<Rightarrow> bitmask" where
  "mask_default cap = \<lparr>words = replicate (mask_words cap) 0\<rparr>"

definition mask_set :: "nat \<Rightarrow> nat \<Rightarrow> bool \<Rightarrow> bitmask \<Rightarrow> bitmask result" where
  "mask_set cap index value m =
     (if cap \<le> index then Err (Steward BitmaskOutOfBounds)
      else let word = index div 64; b = index mod 64 in
        and_then (arr_get (words m) word) (\<lambda>w.
        and_then (arr_set (words m) word
                    (if value then w OR push_bit b 1 else w AND NOT (push_bit b 1))) (\<lambda>vs.
        Ok (m\<lparr>words := vs\<rparr>))))"

definition mask_get :: "nat \<Rightarrow> nat \<Rightarrow> bitmask \<Rightarrow> bool result" where
  "mask_get cap index m =
     (if cap \<le> index then Err (Steward BitmaskOutOfBounds)
      else let word = index div 64; b = index mod 64 in
        and_then (arr_get (words m) word) (\<lambda>w. Ok (drop_bit b w AND 1 = 1)))"

text \<open>\<^verbatim>\<open>get_unsafe\<close> has no check of its own, but the array access still panics.\<close>

definition mask_get_unsafe :: "nat \<Rightarrow> bitmask \<Rightarrow> bool result" where
  "mask_get_unsafe index m =
     (let word = index div 64; b = index mod 64 in
        and_then (arr_get (words m) word) (\<lambda>w. Ok (drop_bit b w AND 1 = 1)))"

definition mask_reset :: "nat \<Rightarrow> bitmask \<Rightarrow> bitmask" where
  "mask_reset cap m = m\<lparr>words := replicate (mask_words cap) 0\<rparr>"

definition mask_is_empty :: "bitmask \<Rightarrow> bool" where
  "mask_is_empty m = list_all (\<lambda>x. x = 0) (words m)"

definition count_ones :: "64 word \<Rightarrow> nat" where
  "count_ones w = length (filter (bit w) [0..<64])"

definition mask_count :: "bitmask \<Rightarrow> nat" where
  "mask_count m = sum_list (map count_ones (words m))"

definition mask_is_complete :: "nat \<Rightarrow> nat \<Rightarrow> bitmask \<Rightarrow> bool result" where
  "mask_is_complete cap num_validators m =
     (if cap < num_validators then Err (Steward BitmaskOutOfBounds)
      else let full_words = num_validators div 64 in
        and_then (arr_slice (words m) 0 full_words) (\<lambda>ws.
        if \<not> list_all (\<lambda>x. x = -1) ws then Ok False
        else let remainder = num_validators mod 64 in
          if 0 < remainder then
            and_then (ok_or (if 1 \<le> push_bit remainder (1 :: 64 word)
                             then Some (push_bit remainder 1 - 1) else None)
                        (Steward ArithmeticError)) (\<lambda>lowbits.
            and_then (arr_get (words m) full_words) (\<lambda>w.
            Ok (w AND lowbits = lowbits)))
          else Ok True))"

abbreviation BitMask_default :: BitMask where "BitMask_default \<equiv> mask_default MAX_VALIDATORS"
abbreviation BitMask_set :: "nat \<Rightarrow> bool \<Rightarrow> BitMask \<Rightarrow> BitMask result" where
  "BitMask_set \<equiv> mask_set MAX_VALIDATORS"
abbreviation BitMask_get :: "nat \<Rightarrow> BitMask \<Rightarrow> bool result" where
  "BitMask_get \<equiv> mask_get MAX_VALIDATORS"
abbreviation BitMask_reset :: "BitMask \<Rightarrow> BitMask" where
  "BitMask_reset \<equiv> mask_reset MAX_VALIDATORS"
abbreviation BitMask_is_complete :: "nat \<Rightarrow> BitMask \<Rightarrow> bool result" where
  "BitMask_is_complete \<equiv> mask_is_complete MAX_VALIDATORS"

abbreviation LargeBitMask_default :: LargeBitMask where
  "LargeBitMask_default \<equiv> mask_default LARGE_BITMASK_INDEXES"
abbreviation LargeBitMask_set :: "nat \<Rightarrow> bool \<Rightarrow> LargeBitMask \<Rightarrow> LargeBitMask result" where
  "LargeBitMask_set \<equiv> mask_set LARGE_BITMASK_INDEXES"
abbreviation LargeBitMask_get :: "nat \<Rightarrow> LargeBitMask \<Rightarrow> bool result" where
  "LargeBitMask_get \<equiv> mask_get LARGE_BITMASK_INDEXES"
abbreviation LargeBitMask_reset :: "LargeBitMask \<Rightarrow> LargeBitMask" where
  "LargeBitMask_reset \<equiv> mask_reset LARGE_BITMASK_INDEXES"
abbreviation LargeBitMask_is_complete :: "nat \<Rightarrow> LargeBitMask \<Rightarrow> bool result" where
  "LargeBitMask_is_complete \<equiv> mask_is_complete LARGE_BITMASK_INDEXES"

section \<open>The contract of a bit array\<close>

text \<open>
  A mask of capacity \<open>cap\<close> represents the set \<open>bits m\<close>. The laws give every operation
  on that set, the errors out of range included.
\<close>

locale bit_array =
  fixes cap :: nat
    and invar :: "'m \<Rightarrow> bool"
    and bits :: "'m \<Rightarrow> nat set"
    and empty :: 'm
    and setb :: "nat \<Rightarrow> bool \<Rightarrow> 'm \<Rightarrow> 'm result"
    and getb :: "nat \<Rightarrow> 'm \<Rightarrow> bool result"
    and emptyb :: "'m \<Rightarrow> bool"
    and countb :: "'m \<Rightarrow> nat"
    and complete :: "nat \<Rightarrow> 'm \<Rightarrow> bool result"
  assumes invar_empty: "invar empty"
    and bits_empty: "bits empty = {}"
    and bits_finite: "finite (bits m)"
    and set_in: "invar m \<Longrightarrow> i < cap \<Longrightarrow>
      \<exists>m'. setb i v m = Ok m' \<and> invar m' \<and> bits m' = (if v then insert i (bits m) else bits m - {i})"
    and set_out: "cap \<le> i \<Longrightarrow> setb i v m = Err (Steward BitmaskOutOfBounds)"
    and get_eq: "invar m \<Longrightarrow>
      getb i m = (if i < cap then Ok (i \<in> bits m) else Err (Steward BitmaskOutOfBounds))"
    and empty_eq: "invar m \<Longrightarrow> emptyb m \<longleftrightarrow> bits m = {}"
    and count_eq: "invar m \<Longrightarrow> countb m = card (bits m)"
    and complete_eq: "invar m \<Longrightarrow>
      complete n m = (if n \<le> cap then Ok ({..<n} \<subseteq> bits m) else Err (Steward BitmaskOutOfBounds))"
begin

lemma set_ok_D:
  assumes "setb i v m = Ok m'" "invar m"
  shows "i < cap \<and> invar m' \<and> bits m' = (if v then insert i (bits m) else bits m - {i})"
proof -
  have "i < cap" using assms set_out [of i v m] by (cases "cap \<le> i") auto
  then show ?thesis using set_in [OF assms(2), of i v] assms(1) by auto
qed

lemma get_after_set:
  "setb i v m = Ok m' \<Longrightarrow> invar m \<Longrightarrow> j < cap \<Longrightarrow>
   getb j m' = (if j = i then Ok v else getb j m)"
  using set_ok_D [of i v m m'] by (auto simp: get_eq)

text \<open>Marking a list of in-range indices succeeds and adds exactly these indices.\<close>

lemma mark_all:
  assumes "invar m" "set is \<subseteq> {..<cap}"
  shows "\<exists>m'. for_each (\<lambda>i. setb i True) is m = Ok m' \<and> invar m' \<and> bits m' = bits m \<union> set is"
  using assms
proof (induction "is" arbitrary: m)
  case (Cons i "is")
  then obtain u where u: "setb i True m = Ok u" "invar u" "bits u = insert i (bits m)"
    using set_in [of m i True] by auto
  with Cons.IH [of u] Cons.prems(2) show ?case by auto
qed simp

text \<open>A stage that starts with an empty mask and marks every one of the \<open>n\<close> validators ends
  complete, whatever the order of the marks and however often each is repeated.\<close>

lemma complete_iff_marked:
  assumes "invar m" "bits m = {}" "set is \<subseteq> {..<cap}" "n \<le> cap"
  shows "\<exists>m'. for_each (\<lambda>i. setb i True) is m = Ok m' \<and> complete n m' = Ok ({..<n} \<subseteq> set is)"
  using mark_all [OF assms(1,3)] assms(2,4) complete_eq by force

lemma count_le_complete:
  assumes "invar m" "bits m \<subseteq> {..<n}" "n \<le> cap"
  shows "complete n m = Ok (countb m = n)"
proof -
  have "({..<n} \<subseteq> bits m) = (card (bits m) = n)"
    using assms(2) by (metis card_lessThan card_subset_eq finite_lessThan order_refl subset_antisym)
  then show ?thesis using assms complete_eq count_eq by simp
qed

end

section \<open>The model meets the contract\<close>

definition mask_invar :: "nat \<Rightarrow> bitmask \<Rightarrow> bool" where
  "mask_invar cap m \<longleftrightarrow> length (words m) = mask_words cap"

fun word_bits :: "64 word list \<Rightarrow> nat set" where
  "word_bits [] = {}"
| "word_bits (w # ws) = {i. i < 64 \<and> bit w i} \<union> (\<lambda>i. i + 64) ` word_bits ws"

abbreviation mask_bits :: "bitmask \<Rightarrow> nat set" where
  "mask_bits m \<equiv> word_bits (words m)"

lemma finite_word_bits [simp]: "finite (word_bits ws)"
  by (induction ws) simp_all

lemma word_bits_less: "i \<in> word_bits ws \<Longrightarrow> i < 64 * length ws"
  by (induction ws arbitrary: i) auto

lemma word_bits_iff:
  "i \<in> word_bits ws \<longleftrightarrow> i < 64 * length ws \<and> bit (ws ! (i div 64)) (i mod 64)"
proof (induction ws arbitrary: i)
  case (Cons w ws)
  show ?case
  proof (cases "i < 64")
    case True
    then show ?thesis by auto
  next
    case False
    then have "i = (i - 64) + 64" by simp
    moreover have "i \<in> word_bits (w # ws) \<longleftrightarrow> i - 64 \<in> word_bits ws"
      using False by (auto simp: image_iff intro!: bexI [of _ "i - 64"])
    ultimately show ?thesis
      using Cons.IH [of "i - 64"] False by (simp add: le_div_geq le_mod_geq) linarith
  qed
qed simp

lemma word_bits_replicate [simp]: "word_bits (replicate n 0) = {}"
  by (induction n) simp_all

lemma word_bits_update:
  assumes "i div 64 < length ws"
    and "\<And>k. k < 64 \<Longrightarrow> bit w k = (if k = i mod 64 then v else bit (ws ! (i div 64)) k)"
  shows "word_bits (ws[i div 64 := w]) = (if v then insert i (word_bits ws) else word_bits ws - {i})"
proof -
  have mem: "j \<in> word_bits (ws[i div 64 := w]) \<longleftrightarrow> (if j = i then v else j \<in> word_bits ws)" for j
  proof (cases "j div 64 = i div 64")
    case True
    then have "j mod 64 = i mod 64 \<longleftrightarrow> j = i"
      by (metis div_mult_mod_eq)
    moreover have "i < 64 * length ws" using assms(1)
      by (simp add: less_mult_imp_div_less div_less_iff_less_mult mult.commute)
    moreover have "j < 64 * length ws" using True assms(1)
      by (metis div_less_iff_less_mult mult.commute zero_less_numeral)
    ultimately show ?thesis using True assms by (auto simp: word_bits_iff)
  next
    case False
    then show ?thesis by (auto simp: word_bits_iff)
  qed
  show ?thesis by (rule set_eqI) (simp add: mem)
qed

lemma count_ones_card: "count_ones w = card {i. i < 64 \<and> bit w i}"
proof -
  have "count_ones w = card (set (filter (bit w) [0..<64]))"
    unfolding count_ones_def by (simp only: distinct_card distinct_filter distinct_upt)
  also have "set (filter (bit w) [0..<64]) = {i. i < 64 \<and> bit w i}"
    by (simp only: set_filter set_upt) auto
  finally show ?thesis .
qed

lemma count_word_bits: "sum_list (map count_ones ws) = card (word_bits ws)"
proof (induction ws)
  case (Cons w ws)
  have "card (word_bits (w # ws)) = card {i. i < 64 \<and> bit w i} + card ((\<lambda>i. i + 64) ` word_bits ws)"
    by (simp only: word_bits.simps, rule card_Un_disjoint) auto
  also have "card ((\<lambda>i. i + 64) ` word_bits ws) = card (word_bits ws)"
    by (rule card_image) simp
  finally show ?case using Cons.IH by (simp add: count_ones_card)
qed simp

lemma drop_bit_and_1: "(drop_bit n w AND 1 = (1 :: 64 word)) \<longleftrightarrow> bit w n"
  by (simp add: and_one_eq odd_iff_mod_2_eq_one [symmetric] bit_iff_odd_drop_bit)

lemma word_eq_minus_1: "(w :: 64 word) = -1 \<longleftrightarrow> (\<forall>k<64. bit w k)"
  by (auto simp: bit_eq_iff possible_bit_word bit_minus_1_iff)

lemma word_and_low:
  "r < 64 \<Longrightarrow> ((w :: 64 word) AND (2 ^ r - 1) = 2 ^ r - 1) \<longleftrightarrow> (\<forall>k<r. bit w k)"
  by (simp add: mask_eq_exp_minus_1 [symmetric] bit_eq_iff bit_and_iff bit_mask_iff
        possible_bit_word) (metis order.strict_trans)

lemma one_le_exp: "r < 64 \<Longrightarrow> 1 \<le> (2 :: 64 word) ^ r"
  by (simp add: linorder_not_less [symmetric] del: linorder_not_less)

lemma mask_words_index: "i < cap \<Longrightarrow> i div 64 < mask_words cap"
  unfolding mask_words_def by linarith

lemma mask_words_le: "n \<le> cap \<Longrightarrow> n div 64 \<le> mask_words cap"
  unfolding mask_words_def by linarith

lemma remainder_word:
  assumes "n \<le> cap"
  shows "n mod 64 = 0 \<or> n div 64 < mask_words cap"
proof (cases "n mod 64 = 0")
  case False
  have "n = 64 * (n div 64) + n mod 64" by simp
  then have "64 * (n div 64) + 64 \<le> cap + 64 - 1" using False assms by linarith
  then have "(64 * (n div 64) + 64) div 64 \<le> (cap + 64 - 1) div 64" by (rule div_le_mono)
  then show ?thesis by (simp add: mask_words_def)
qed simp

lemma full_words_iff:
  assumes "q \<le> length ws"
  shows "list_all (\<lambda>x. x = -1) (take q ws) \<longleftrightarrow> {..<64 * q} \<subseteq> word_bits ws"
proof -
  have "list_all (\<lambda>x. x = -1) (take q ws) \<longleftrightarrow> (\<forall>j<q. \<forall>k<64. bit (ws ! j) k)"
    using assms by (auto simp: list_all_length word_eq_minus_1)
  also have "\<dots> \<longleftrightarrow> (\<forall>i<64 * q. bit (ws ! (i div 64)) (i mod 64))"
  proof safe
    fix j k :: nat
    assume all: "\<forall>i<64 * q. bit (ws ! (i div 64)) (i mod 64)" and jk: "j < q" "k < 64"
    have "64 * j + k < 64 * q" using jk by simp
    with all have "bit (ws ! ((64 * j + k) div 64)) ((64 * j + k) mod 64)" by blast
    then show "bit (ws ! j) k" using jk by simp
  next
    fix i :: nat
    assume "\<forall>j<q. \<forall>k<64. bit (ws ! j) k" "i < 64 * q"
    moreover have "i div 64 < q" using \<open>i < 64 * q\<close> by simp
    ultimately show "bit (ws ! (i div 64)) (i mod 64)" by simp
  qed
  also have "\<dots> \<longleftrightarrow> {..<64 * q} \<subseteq> word_bits ws"
    using assms by (auto simp: word_bits_iff subset_iff)
  finally show ?thesis .
qed


lemma split_at_word:
  assumes "n mod 64 = 0 \<or> n div 64 < length ws" "n div 64 \<le> length ws"
  shows "{..<n} \<subseteq> word_bits ws \<longleftrightarrow>
    {..<64 * (n div 64)} \<subseteq> word_bits ws \<and> (\<forall>k<n mod 64. bit (ws ! (n div 64)) k)"
proof -
  have n: "n = 64 * (n div 64) + n mod 64" by simp
  have "64 * (n div 64) + k \<in> word_bits ws \<longleftrightarrow> bit (ws ! (n div 64)) k" if "k < n mod 64" for k
  proof -
    have "k < 64" using that by (meson mod_less_divisor order.strict_trans zero_less_numeral)
    moreover have "64 * (n div 64) + k < 64 * length ws" using that assms \<open>k < 64\<close> by auto
    ultimately show ?thesis by (simp add: word_bits_iff)
  qed
  moreover have "{..<n} = {..<64 * (n div 64)} \<union> (\<lambda>k. 64 * (n div 64) + k) ` {..<n mod 64}"
  proof (rule set_eqI)
    fix i
    show "i \<in> {..<n} \<longleftrightarrow> i \<in> {..<64 * (n div 64)} \<union> (\<lambda>k. 64 * (n div 64) + k) ` {..<n mod 64}"
    proof (cases "i < 64 * (n div 64)")
      case True
      then show ?thesis using n by (simp add: less_le_trans [of i "64 * (n div 64)"])
    next
      case False
      then obtain k where "i = 64 * (n div 64) + k" by (metis le_iff_add linorder_not_less)
      moreover have "64 * (n div 64) + k < n \<longleftrightarrow> k < n mod 64" using n by linarith
      ultimately show ?thesis using False by auto
    qed
  qed
  ultimately show ?thesis by (auto simp: image_subset_iff)
qed

lemma mask_is_complete_eq:
  assumes "mask_invar cap m"
  shows "mask_is_complete cap n m =
    (if n \<le> cap then Ok ({..<n} \<subseteq> mask_bits m) else Err (Steward BitmaskOutOfBounds))"
proof (cases "n \<le> cap")
  case True
  have len: "length (words m) = mask_words cap" using assms by (simp add: mask_invar_def)
  have q: "n div 64 \<le> length (words m)" using True by (simp add: len mask_words_le)
  have r: "n mod 64 = 0 \<or> n div 64 < length (words m)"
    using True unfolding len by (rule remainder_word)
  note split = split_at_word [OF r q] and full = full_words_iff [OF q]
  show ?thesis
  proof (cases "n mod 64 = 0")
    case True
    then show ?thesis using \<open>n \<le> cap\<close> q split full by (simp add: mask_is_complete_def Let_def)
  next
    case False
    then have "n div 64 < length (words m)" using r by simp
    then show ?thesis using \<open>n \<le> cap\<close> q False split full
      by (simp add: mask_is_complete_def one_le_exp word_and_low Let_def)
  qed
qed (simp add: mask_is_complete_def)

lemma mask_set_in:
  assumes "mask_invar cap m" "i < cap"
  shows "\<exists>m'. mask_set cap i v m = Ok m' \<and> mask_invar cap m' \<and>
    mask_bits m' = (if v then insert i (mask_bits m) else mask_bits m - {i})"
proof -
  let ?w = "words m ! (i div 64)"
  let ?w' = "if v then ?w OR push_bit (i mod 64) 1 else ?w AND NOT (push_bit (i mod 64) 1)"
  have idx: "i div 64 < length (words m)"
    using assms by (simp add: mask_invar_def mask_words_index)
  have "bit ?w' k = (if k = i mod 64 then v else bit ?w k)" if "k < 64" for k
    using that by (auto simp: bit_or_iff bit_and_iff bit_not_iff bit_push_bit_iff bit_exp_iff possible_bit_word)
  note upd = word_bits_update [OF idx this]
  show ?thesis using assms idx upd
    by (intro exI [of _ "m\<lparr>words := (words m)[i div 64 := ?w']\<rparr>"])
       (simp add: mask_set_def mask_invar_def Let_def)
qed

lemma mask_get_eq:
  assumes "mask_invar cap m"
  shows "mask_get cap i m =
    (if i < cap then Ok (i \<in> mask_bits m) else Err (Steward BitmaskOutOfBounds))"
proof (cases "i < cap")
  case True
  then have idx: "i div 64 < length (words m)"
    using assms by (simp add: mask_invar_def mask_words_index)
  then have "i < 64 * length (words m)"
    by (metis div_less_iff_less_mult mult.commute zero_less_numeral)
  then show ?thesis using idx True by (simp add: mask_get_def word_bits_iff drop_bit_and_1)
qed (simp add: mask_get_def)

lemma mask_is_empty_eq: "mask_is_empty m \<longleftrightarrow> mask_bits m = {}"
proof -
  have "(w = 0) \<longleftrightarrow> {i. i < 64 \<and> bit w i} = {}" for w :: "64 word"
    by (auto simp: bit_eq_iff possible_bit_word)
  then have "list_all (\<lambda>x. x = 0) ws \<longleftrightarrow> word_bits ws = {}" for ws
    by (induction ws) auto
  then show ?thesis by (simp add: mask_is_empty_def)
qed

lemma mask_reset_default: "mask_reset cap m = mask_default cap"
  by (simp add: mask_reset_def mask_default_def)

lemma mask_invar_default [simp]: "mask_invar cap (mask_default cap)"
  by (simp add: mask_invar_def mask_default_def)

lemma mask_bits_default [simp]: "mask_bits (mask_default cap) = {}"
  by (simp add: mask_default_def)

lemma mask_set_out: "cap \<le> i \<Longrightarrow> mask_set cap i v m = Err (Steward BitmaskOutOfBounds)"
  by (simp add: mask_set_def)

lemma mask_bit_array:
  "bit_array cap (mask_invar cap) mask_bits (mask_default cap) (mask_set cap) (mask_get cap)
     mask_is_empty mask_count (mask_is_complete cap)"
  by (unfold_locales; (rule mask_set_in; assumption)?)
    (simp_all add: mask_set_out mask_get_eq mask_is_empty_eq mask_count_def count_word_bits
      mask_is_complete_eq)

interpretation bm: bit_array MAX_VALIDATORS "mask_invar MAX_VALIDATORS" mask_bits
  BitMask_default BitMask_set BitMask_get mask_is_empty mask_count BitMask_is_complete
  by (rule mask_bit_array)

interpretation lbm: bit_array LARGE_BITMASK_INDEXES "mask_invar LARGE_BITMASK_INDEXES" mask_bits
  LargeBitMask_default LargeBitMask_set LargeBitMask_get mask_is_empty mask_count
  LargeBitMask_is_complete
  by (rule mask_bit_array)

text \<open>\<^verbatim>\<open>get_unsafe\<close> agrees with \<^verbatim>\<open>get\<close> wherever the latter succeeds.\<close>

lemma mask_get_unsafe_eq:
  "mask_invar cap m \<Longrightarrow> i < cap \<Longrightarrow> mask_get_unsafe i m = mask_get cap i m"
  by (simp add: mask_get_unsafe_def mask_get_def Let_def)

end
