(* ===== verification/Circ_Buf.thy ===== *)
theory Circ_Buf
  imports Prelude
begin

text \<open>
  The circular buffers of programs/validator-history/src/state.rs (\<^verbatim>\<open>CircBuf\<close> and
  \<^verbatim>\<open>CircBufCluster\<close>, the same code over two entry types) and the binary search
  \<^verbatim>\<open>find_insert_position\<close> of its utils.rs. The operations take the epoch field of the entry
  type as their argument \<open>ep\<close>. A buffer stands for the list \<open>entries\<close> of its recorded
  entries from the oldest to the newest; the invariant says that this list is strictly
  ascending in the epoch and that the slots never written come before it.
\<close>

section \<open>Model\<close>

definition MAX_ITEMS :: nat where "MAX_ITEMS = 512"

text \<open>The epoch of a default entry, \<^verbatim>\<open>u16::MAX\<close>, marks a slot that holds no record.\<close>

abbreviation EPOCH_UNSET :: nat where "EPOCH_UNSET \<equiv> U16_MAX"

record 'e circ_buf =
  idx :: nat
  is_empty_flag :: nat
  arr :: "'e list"

definition circ_default :: "'e \<Rightarrow> 'e circ_buf" where
  "circ_default d = \<lparr>idx = 0, is_empty_flag = 1, arr = replicate MAX_ITEMS d\<rparr>"

definition circ_push :: "'e \<Rightarrow> 'e circ_buf \<Rightarrow> 'e circ_buf result" where
  "circ_push item cb =
     and_then (plus_or_panic U64_MAX (idx cb) 1) (\<lambda>n.
     let i = n mod length (arr cb) in
     and_then (arr_set (arr cb) i item) (\<lambda>a.
     Ok (cb\<lparr>idx := i, arr := a, is_empty_flag := 0\<rparr>)))"

definition circ_is_empty :: "'e circ_buf \<Rightarrow> bool" where
  "circ_is_empty cb \<longleftrightarrow> is_empty_flag cb = 1"

definition circ_last :: "'e circ_buf \<Rightarrow> 'e option result" where
  "circ_last cb =
     (if circ_is_empty cb then Ok None
      else and_then (arr_get (arr cb) (idx cb)) (\<lambda>e. Ok (Some e)))"

text \<open>Writing through the reference that \<^verbatim>\<open>last_mut\<close> returns.\<close>

definition circ_update_last :: "('e \<Rightarrow> 'e) \<Rightarrow> 'e circ_buf \<Rightarrow> 'e circ_buf result" where
  "circ_update_last f cb =
     and_then (arr_get (arr cb) (idx cb)) (\<lambda>e.
     and_then (arr_set (arr cb) (idx cb) (f e)) (\<lambda>a. Ok (cb\<lparr>arr := a\<rparr>)))"

text \<open>
  The two binary search loops of \<^verbatim>\<open>find_insert_position\<close>: they differ in the array position
  that the middle stands for, here \<open>at\<close>. \<open>None\<close> is the early return on an equal epoch.
\<close>

function search_loop :: "(nat \<Rightarrow> nat result) \<Rightarrow> nat \<Rightarrow> nat \<Rightarrow> nat \<Rightarrow> nat option result" where
  "search_loop at epoch left right =
     (if left < right then
        let mid = (left + right) div 2 in
        and_then (at mid) (\<lambda>x.
          if x = epoch then Ok None
          else if x < epoch then search_loop at epoch (mid + 1) right
          else search_loop at epoch left mid)
      else Ok (Some left))"
  by pat_completeness auto
termination by (relation "measure (\<lambda>(at, epoch, left, right). right - left)") auto

declare search_loop.simps [simp del]

definition epoch_at :: "('e \<Rightarrow> nat) \<Rightarrow> 'e list \<Rightarrow> nat \<Rightarrow> nat result" where
  "epoch_at ep xs i = and_then (arr_get xs i) (\<lambda>e. Ok (ep e))"

definition find_insert_position :: "('e \<Rightarrow> nat) \<Rightarrow> 'e list \<Rightarrow> nat \<Rightarrow> nat \<Rightarrow> nat option result" where
  "find_insert_position ep xs i epoch =
     (let len = length xs in
      if len = 0 then Ok None
      else
        and_then
          (if i \<noteq> len - 1 then and_then (epoch_at ep xs (i + 1)) (\<lambda>x. Ok (x = EPOCH_UNSET))
           else Ok False) (\<lambda>partial.
        and_then
          (if partial
           then and_then (search_loop (epoch_at ep xs) epoch 0 (i + 1)) (\<lambda>r.
                Ok (map_option (\<lambda>left. left mod len) r))
           else and_then (search_loop (\<lambda>mid. epoch_at ep xs ((i + 1 + mid) mod len)) epoch 0 len) (\<lambda>r.
                Ok (map_option (\<lambda>left. (i + 1 + left) mod len) r))) (\<lambda>r.
        case r of None \<Rightarrow> Ok None
        | Some insert_pos \<Rightarrow>
            and_then (epoch_at ep xs insert_pos) (\<lambda>x.
            Ok (if x = epoch then None else Some insert_pos)))))"

text \<open>The shift of \<^verbatim>\<open>insert\<close>: \<open>arr[(i + 1) % len] = arr[i % len]\<close> from the end down.\<close>

definition shift_step :: "nat \<Rightarrow> 'e list \<Rightarrow> 'e list result" where
  "shift_step i a =
     (let i = i mod length a in
      and_then (arr_get a i) (\<lambda>e. arr_set a ((i + 1) mod length a) e))"

definition circ_insert :: "('e \<Rightarrow> nat) \<Rightarrow> 'e \<Rightarrow> nat \<Rightarrow> 'e circ_buf \<Rightarrow> 'e circ_buf result" where
  "circ_insert ep entry epoch cb =
     (if circ_is_empty cb then Err (History EpochOutOfRange)
      else let len = length (arr cb); next_i = (idx cb + 1) mod len in
        and_then (epoch_at ep (arr cb) next_i) (\<lambda>next_epoch.
        and_then (if next_epoch = EPOCH_UNSET then epoch_at ep (arr cb) 0 else Ok next_epoch)
          (\<lambda>min_epoch.
        and_then (epoch_at ep (arr cb) (idx cb)) (\<lambda>max_epoch.
        if epoch < min_epoch \<or> max_epoch < epoch then Err (History EpochOutOfRange)
        else
          and_then (find_insert_position ep (arr cb) (idx cb) epoch) (\<lambda>pos.
          and_then (ok_or pos (History DuplicateEpoch)) (\<lambda>insert_pos.
          let end_index = (if idx cb < insert_pos then idx cb + len else idx cb) in
          and_then (for_each shift_step (rev [insert_pos..<Suc end_index]) (arr cb)) (\<lambda>a.
          and_then (arr_set a insert_pos entry) (\<lambda>a.
          Ok (cb\<lparr>arr := a, idx := (idx cb + 1) mod len\<rparr>)))))))))"

text \<open>The peeking iterator of \<^verbatim>\<open>epoch_range\<close>: each epoch takes the next entry if it matches.\<close>

fun take_matching :: "('e \<Rightarrow> nat) \<Rightarrow> nat list \<Rightarrow> 'e list \<Rightarrow> 'e option list" where
  "take_matching ep [] es = []"
| "take_matching ep (x # xs) [] = None # take_matching ep xs []"
| "take_matching ep (x # xs) (e # es) =
     (if ep e = x then Some e # take_matching ep xs es
      else None # take_matching ep xs (e # es))"

definition circ_epoch_range :: "('e \<Rightarrow> nat) \<Rightarrow> nat \<Rightarrow> nat \<Rightarrow> 'e circ_buf \<Rightarrow> 'e option list result" where
  "circ_epoch_range ep start_epoch end_epoch cb =
     and_then (arr_slice (arr cb) (idx cb + 1) (length (arr cb))) (\<lambda>older.
     and_then (arr_slice (arr cb) 0 (idx cb + 1)) (\<lambda>newer.
     Ok (take_matching ep [start_epoch..<Suc end_epoch]
           (filter (\<lambda>e. start_epoch \<le> ep e \<and> ep e \<le> end_epoch) (older @ newer)))))"

text \<open>The macros \<^verbatim>\<open>field_latest!\<close> and \<^verbatim>\<open>field_range!\<close>: \<open>unset\<close> is the field of the default entry.\<close>

definition field_latest :: "('e \<Rightarrow> 'v) \<Rightarrow> 'v \<Rightarrow> 'e circ_buf \<Rightarrow> 'v option result" where
  "field_latest field unset cb =
     and_then (circ_last cb) (\<lambda>l.
     Ok (case l of None \<Rightarrow> None | Some e \<Rightarrow> if field e \<noteq> unset then Some (field e) else None))"

definition field_range ::
  "('e \<Rightarrow> nat) \<Rightarrow> ('e \<Rightarrow> 'v) \<Rightarrow> 'v \<Rightarrow> nat \<Rightarrow> nat \<Rightarrow> 'e circ_buf \<Rightarrow> 'v option list result" where
  "field_range ep field unset start_epoch end_epoch cb =
     and_then (circ_epoch_range ep start_epoch end_epoch cb) (\<lambda>r.
     Ok (map (\<lambda>m. case m of None \<Rightarrow> None
                  | Some e \<Rightarrow> if field e \<noteq> unset then Some (field e) else None) r))"

text \<open>
  The body shared by the setters: overwrite the newest entry if it is of this epoch, an
  older entry of this epoch if there is one, and append a new entry if this epoch is newer
  than every entry. When the epoch is older and has no entry, the setters with a single
  upload authority fail (\<open>strict\<close>) and the others succeed without an effect.
\<close>

definition update_first :: "('e \<Rightarrow> bool) \<Rightarrow> ('e \<Rightarrow> 'e) \<Rightarrow> 'e list \<Rightarrow> 'e list option" where
  "update_first p f xs =
     (let n = length (takeWhile (\<lambda>e. \<not> p e) xs)
      in if n < length xs then Some (xs[n := f (xs ! n)]) else None)"

definition set_entry ::
  "('e \<Rightarrow> nat) \<Rightarrow> bool \<Rightarrow> nat \<Rightarrow> ('e \<Rightarrow> 'e) \<Rightarrow> 'e \<Rightarrow> 'e circ_buf \<Rightarrow> 'e circ_buf result" where
  "set_entry ep strict epoch f fresh cb =
     and_then (circ_last cb) (\<lambda>l.
     case l of
       Some entry \<Rightarrow>
         if ep entry = epoch then circ_update_last f cb
         else if epoch < ep entry then
           (case update_first (\<lambda>e. ep e = epoch) f (arr cb) of
              Some a \<Rightarrow> Ok (cb\<lparr>arr := a\<rparr>)
            | None \<Rightarrow> if strict then Err (History EpochOutOfRange) else Ok cb)
         else circ_push fresh cb
     | None \<Rightarrow> circ_push fresh cb)"

section \<open>The list a buffer stands for\<close>

definition layout :: "'e circ_buf \<Rightarrow> 'e list" where
  "layout cb = rotate (Suc (idx cb)) (arr cb)"

definition entries :: "('e \<Rightarrow> nat) \<Rightarrow> 'e circ_buf \<Rightarrow> 'e list" where
  "entries ep cb = filter (\<lambda>e. ep e \<noteq> EPOCH_UNSET) (layout cb)"

text \<open>
  The invariant: the slots that hold no record come first in the layout, the records after
  them ascend strictly, and unless the buffer is full the records start at position 0.
\<close>

definition circ_inv :: "nat \<Rightarrow> ('e \<Rightarrow> nat) \<Rightarrow> 'e circ_buf \<Rightarrow> bool" where
  "circ_inv n ep cb \<longleftrightarrow>
     length (arr cb) = n \<and> idx cb < n \<and> n \<le> U64_MAX \<and>
     (\<exists>free. layout cb = free @ entries ep cb \<and> (free \<noteq> [] \<longrightarrow> Suc (idx cb) mod n = length (entries ep cb))
        \<and> (\<forall>e\<in>set free. ep e = EPOCH_UNSET)) \<and>
     sorted_wrt (<) (map ep (entries ep cb)) \<and>
     (\<forall>e\<in>set (entries ep cb). ep e < EPOCH_UNSET) \<and>
     (circ_is_empty cb \<longleftrightarrow> entries ep cb = [])"

section \<open>Rotated arrays\<close>

lemma mod_add_inj:
  assumes "(a + i) mod n = (a + j) mod n" "i < n" "j < (n :: nat)"
  shows "i = j"
proof -
  have *: "x = y" if "(a + x) mod n = (a + y) mod n" "x \<le> y" "y < n" for x y
  proof -
    have "n dvd (a + y) - (a + x)"
      using that mod_eq_dvd_iff_nat [of "a + x" "a + y" n] by simp
    then show ?thesis using that by (auto dest: dvd_imp_le)
  qed
  show ?thesis using *[of i j] *[of j i] assms by (cases "i \<le> j") simp_all
qed

lemma Suc_mod_add: "Suc (Suc i mod n + p) mod n = Suc (Suc (i + p)) mod n"
  by (metis mod_Suc_eq mod_add_left_eq add_Suc)

lemma length_layout [simp]: "length (layout cb) = length (arr cb)"
  by (simp add: layout_def)

lemma nth_layout:
  "p < length (arr cb) \<Longrightarrow> layout cb ! p = arr cb ! ((Suc (idx cb) + p) mod length (arr cb))"
  by (simp add: layout_def nth_rotate del: rotate_Suc)

lemma layout_split:
  "idx cb < length (arr cb) \<Longrightarrow>
   layout cb = drop (Suc (idx cb)) (arr cb) @ take (Suc (idx cb)) (arr cb)"
  by (cases "Suc (idx cb) = length (arr cb)") (simp_all add: layout_def rotate_drop_take)

lemma set_layout [simp]: "set (layout cb) = set (arr cb)"
  by (simp add: layout_def)

lemma layout_push:
  assumes n: "n = length (arr cb)" and i: "idx cb < n"
  shows "layout (cb\<lparr>idx := Suc (idx cb) mod n, arr := (arr cb)[Suc (idx cb) mod n := e],
                    is_empty_flag := b\<rparr>) = tl (layout cb) @ [e]"
    (is "layout ?cb = _")
proof (rule nth_equalityI)
  show "length (layout ?cb) = length (tl (layout cb) @ [e])" using n i by simp
  fix p
  assume "p < length (layout ?cb)"
  then have p: "p < n" using n by simp
  let ?a = "Suc (idx cb) mod n"
  have idx: "(Suc ?a + p) mod n = (?a + Suc p) mod n" by simp
  have at: "layout ?cb ! p = (arr cb)[?a := e] ! ((?a + Suc p) mod n)"
    using p n by (simp add: nth_layout idx)
  have a: "?a < n" using i by simp
  show "layout ?cb ! p = (tl (layout cb) @ [e]) ! p"
  proof (cases "Suc p = n")
    case True
    then show ?thesis using at a n p by (simp add: nth_append less_diff_conv)
  next
    case False
    then have q: "Suc p < n" using p by simp
    then have "(?a + Suc p) mod n \<noteq> ?a"
      using mod_add_inj [of ?a "Suc p" n 0] by auto
    moreover have "(?a + Suc p) mod n = (Suc (idx cb) + Suc p) mod n"
      by (simp add: Suc_mod_add)
    ultimately show ?thesis using at q n
      by (simp add: nth_append nth_tl nth_layout less_diff_conv)
  qed
qed

text \<open>The shift moves the \<open>c\<close> elements from position \<open>a\<close> on one place up, around the end.\<close>

lemma shift_loop:
  assumes "n = length xs" "0 < n" "c < n"
  shows "\<exists>ys. for_each shift_step (rev [a..<a + c]) xs = Ok ys \<and> length ys = n \<and>
    (\<forall>s<c. ys ! ((a + Suc s) mod n) = xs ! ((a + s) mod n)) \<and>
    (\<forall>s. c < s \<longrightarrow> s \<le> n \<longrightarrow> ys ! ((a + s) mod n) = xs ! ((a + s) mod n))"
  using assms
proof (induction c arbitrary: xs)
  case (Suc c)
  let ?xs = "xs[(a + Suc c) mod n := xs ! ((a + c) mod n)]"
  have step: "shift_step (a + c) xs = Ok ?xs"
    using Suc.prems by (simp add: shift_step_def mod_Suc_eq Let_def)
  obtain ys where ys: "for_each shift_step (rev [a..<a + c]) ?xs = Ok ys" "length ys = n"
    "\<forall>s<c. ys ! ((a + Suc s) mod n) = ?xs ! ((a + s) mod n)"
    "\<forall>s. c < s \<longrightarrow> s \<le> n \<longrightarrow> ys ! ((a + s) mod n) = ?xs ! ((a + s) mod n)"
    using Suc.IH [of ?xs] Suc.prems by auto
  have same: "?xs ! ((a + s) mod n) = xs ! ((a + s) mod n)" if "s \<noteq> Suc c" "s \<le> n" for s
  proof -
    have "(a + s) mod n \<noteq> (a + Suc c) mod n"
    proof (cases "s = n")
      case True
      then show ?thesis using mod_add_inj [of a 0 n "Suc c"] Suc.prems by auto
    next
      case False
      then show ?thesis using mod_add_inj [of a s n "Suc c"] that Suc.prems by auto
    qed
    then show ?thesis by simp
  qed
  have "ys ! ((a + Suc s) mod n) = xs ! ((a + s) mod n)" if "s < Suc c" for s
  proof (cases "s < c")
    case True
    then show ?thesis using ys(3) same [of s] Suc.prems by simp
  next
    case False
    then have "s = c" using that by simp
    then show ?thesis using ys(4) [rule_format, of "Suc c"] Suc.prems by simp
  qed
  moreover have "ys ! ((a + s) mod n) = xs ! ((a + s) mod n)" if "Suc c < s" "s \<le> n" for s
    using ys(4) same [of s] that by auto
  ultimately show ?case using step ys(1,2) by auto
qed simp

text \<open>
  Inserting before the element at layout position \<open>q\<close>: the first element of the layout is
  dropped, and the new one takes its place between the two halves.
\<close>

lemma layout_insert:
  assumes n: "n = length (arr cb)" and i: "idx cb < n" and q: "0 < q" "q < n"
    and pos: "pos = (Suc (idx cb) + q) mod n"
    and fin: "fin = (if idx cb < pos then idx cb + n else idx cb)"
  shows "\<exists>a. for_each shift_step (rev [pos..<Suc fin]) (arr cb) = Ok a \<and> length a = n \<and>
    layout (cb\<lparr>arr := a[pos := e], idx := Suc (idx cb) mod n\<rparr>) =
      tl (take q (layout cb)) @ e # drop q (layout cb)"
proof -
  have posn: "pos < n" using pos i by simp
  have range: "Suc fin = pos + (n - q)"
  proof (cases "Suc (idx cb) + q < n")
    case True
    then show ?thesis using pos fin q by simp
  next
    case False
    then have "pos = Suc (idx cb) + q - n" using pos i q by (simp add: mod_if)
    then show ?thesis using fin False i q by simp
  qed
  obtain a where a: "for_each shift_step (rev [pos..<Suc fin]) (arr cb) = Ok a" "length a = n"
    and up: "\<And>s. s < n - q \<Longrightarrow> a ! ((pos + Suc s) mod n) = arr cb ! ((pos + s) mod n)"
    and keep: "\<And>s. n - q < s \<Longrightarrow> s \<le> n \<Longrightarrow> a ! ((pos + s) mod n) = arr cb ! ((pos + s) mod n)"
    using shift_loop [OF n, of "n - q" pos] i q(1) unfolding range by auto
  let ?cb = "cb\<lparr>arr := a[pos := e], idx := Suc (idx cb) mod n\<rparr>"
  have "layout ?cb = tl (take q (layout cb)) @ e # drop q (layout cb)"
  proof (rule nth_equalityI)
    show "length (layout ?cb) = length (tl (take q (layout cb)) @ e # drop q (layout cb))"
      using a n q by simp
    fix p
    assume "p < length (layout ?cb)"
    then have p: "p < n" using a by simp
    have at: "layout ?cb ! p = a[pos := e] ! ((Suc (Suc (idx cb)) + p) mod n)"
      using p a by (simp add: nth_layout Suc_mod_add del: upt_Suc)
    consider "Suc p < q" | "Suc p = q" | s where "Suc p = q + Suc s"
      by (metis less_iff_Suc_add linorder_neqE_nat add_Suc_right)
    then show "layout ?cb ! p = (tl (take q (layout cb)) @ e # drop q (layout cb)) ! p"
    proof cases
      case 1
      define s where "s = n - q + Suc p"
      have s: "n - q < s" "s < n" using 1 q by (auto simp: s_def)
      have "(Suc (Suc (idx cb)) + p) mod n = (Suc (idx cb) + q + s) mod n"
        using q by (simp add: s_def algebra_simps) (metis mod_add_self2 add.commute add_Suc)
      also have "\<dots> = (pos + s) mod n" by (simp add: pos mod_simps)
      finally have ix: "(Suc (Suc (idx cb)) + p) mod n = (pos + s) mod n" .
      have "(pos + s) mod n \<noteq> pos" using mod_add_inj [of pos s n 0] s posn by auto
      then have "layout ?cb ! p = arr cb ! ((Suc (Suc (idx cb)) + p) mod n)"
        using at ix keep [OF s(1)] s by simp
      then show ?thesis using 1 q n by (simp add: nth_append nth_tl nth_layout less_diff_conv)
    next
      case 2
      have "(Suc (Suc (idx cb)) + p) mod n = pos" unfolding pos 2 [symmetric] by simp
      then show ?thesis using at 2 a posn q n by (simp add: nth_append less_diff_conv)
    next
      case 3
      have s: "s < n - q" "Suc s < n" using 3 p q by simp_all
      have "(Suc (Suc (idx cb)) + p) mod n = (Suc (idx cb) + q + Suc s) mod n"
        using 3 by (simp add: add.assoc)
      also have "\<dots> = (pos + Suc s) mod n" unfolding pos by (metis mod_add_left_eq)
      finally have ix: "(Suc (Suc (idx cb)) + p) mod n = (pos + Suc s) mod n" .
      have "(pos + Suc s) mod n \<noteq> pos" using mod_add_inj [of pos "Suc s" n 0] s posn by auto
      then have "layout ?cb ! p = arr cb ! ((pos + s) mod n)"
        using at ix up [OF s(1)] by simp
      also have "(pos + s) mod n = (Suc (idx cb) + p) mod n"
        using 3 unfolding pos by (simp add: mod_simps add.assoc)
      finally show ?thesis using 3 p q n by (simp add: nth_append nth_layout less_diff_conv)
    qed
  qed
  with a show ?thesis by blast
qed

section \<open>The operations on the recorded entries\<close>

lemma circ_invD:
  assumes "circ_inv n ep cb"
  shows "length (arr cb) = n" "idx cb < n" "idx cb < U64_MAX"
    "sorted_wrt (<) (map ep (entries ep cb))" "\<And>e. e \<in> set (entries ep cb) \<Longrightarrow> ep e < EPOCH_UNSET"
    "circ_is_empty cb \<longleftrightarrow> entries ep cb = []"
  using assms by (auto simp: circ_inv_def)

lemma circ_inv_layout:
  assumes "circ_inv n ep cb"
  shows "\<exists>free. layout cb = free @ entries ep cb \<and> (\<forall>e\<in>set free. ep e = EPOCH_UNSET) \<and>
    (free \<noteq> [] \<longrightarrow> Suc (idx cb) mod n = length (entries ep cb)) \<and>
    length free + length (entries ep cb) = n"
proof -
  obtain free where f: "layout cb = free @ entries ep cb" "\<forall>e\<in>set free. ep e = EPOCH_UNSET"
    "free \<noteq> [] \<longrightarrow> Suc (idx cb) mod n = length (entries ep cb)"
    using assms by (auto simp: circ_inv_def)
  then have "length free + length (entries ep cb) = n"
    using length_layout [of cb] circ_invD(1) [OF assms] by simp
  then show ?thesis using f by blast
qed

text \<open>A buffer whose layout splits into free slots and ascending records is well formed.\<close>

lemma circ_inv_intro:
  assumes "length (arr cb) = n" "idx cb < n" "n \<le> U64_MAX"
    and lay: "layout cb = free @ es" and free: "\<And>e. e \<in> set free \<Longrightarrow> ep e = EPOCH_UNSET"
    and pos: "free \<noteq> [] \<Longrightarrow> Suc (idx cb) mod n = length es"
    and es: "sorted_wrt (<) (map ep es)" "\<And>e. e \<in> set es \<Longrightarrow> ep e < EPOCH_UNSET"
    and emp: "circ_is_empty cb \<longleftrightarrow> es = []"
  shows "circ_inv n ep cb \<and> entries ep cb = es"
proof -
  have "filter (\<lambda>e. ep e \<noteq> EPOCH_UNSET) es = es" by (rule filter_True) (use es(2) in fastforce)
  moreover have "filter (\<lambda>e. ep e \<noteq> EPOCH_UNSET) free = []"
    using free by (auto simp: filter_empty_conv)
  ultimately have "entries ep cb = es" by (simp add: entries_def lay)
  then show ?thesis using assms by (auto simp: circ_inv_def)
qed

lemma last_entries:
  assumes "circ_inv n ep cb" "entries ep cb \<noteq> []"
  shows "last (entries ep cb) = arr cb ! idx cb"
proof -
  obtain free where "layout cb = free @ entries ep cb" using circ_inv_layout [OF assms(1)] by blast
  then have "last (entries ep cb) = last (layout cb)" using assms(2) by simp
  also have "\<dots> = arr cb ! idx cb"
    using circ_invD [OF assms(1)] by (simp add: layout_split take_Suc_conv_app_nth)
  finally show ?thesis .
qed

lemma circ_last_eq:
  "circ_inv n ep cb \<Longrightarrow>
   circ_last cb = Ok (if entries ep cb = [] then None else Some (last (entries ep cb)))"
  using circ_invD [of n ep cb] last_entries [of n ep cb] by (auto simp: circ_last_def)

text \<open>Appending a record newer than every other one; a full buffer loses its oldest record.\<close>

lemma circ_push_ok:
  assumes inv: "circ_inv n ep cb" and new: "\<And>e. e \<in> set (entries ep cb) \<Longrightarrow> ep e < ep item"
    and valid: "ep item < EPOCH_UNSET"
  shows "\<exists>cb'. circ_push item cb = Ok cb' \<and> circ_inv n ep cb' \<and>
    entries ep cb' = (if length (entries ep cb) = n then tl (entries ep cb) else entries ep cb) @ [item]"
proof -
  let ?es = "entries ep cb"
  note D = circ_invD [OF inv]
  obtain free where lay: "layout cb = free @ ?es" and free: "\<forall>e\<in>set free. ep e = EPOCH_UNSET"
    and pos: "free \<noteq> [] \<longrightarrow> Suc (idx cb) mod n = length ?es" and len: "length free + length ?es = n"
    using circ_inv_layout [OF inv] by blast
  define cb' where "cb' = cb\<lparr>idx := Suc (idx cb) mod n,
    arr := (arr cb)[Suc (idx cb) mod n := item], is_empty_flag := 0\<rparr>"
  define es' where "es' = (if length ?es = n then tl ?es else ?es) @ [item]"
  have push: "circ_push item cb = Ok cb'"
    using D(1-3) by (simp add: circ_push_def plus_or_panic_def checked_add_def cb'_def Let_def)
  have lay': "layout cb' = tl (layout cb) @ [item]"
    unfolding cb'_def by (rule layout_push) (use D in simp_all)
  have "layout cb' = tl free @ es'"
    using lay' lay len by (cases free) (auto simp: es'_def)
  moreover have "sorted_wrt (<) (map ep es')"
    using D(4) new by (cases ?es) (auto simp: es'_def sorted_wrt_append)
  moreover have "\<And>e. e \<in> set es' \<Longrightarrow> ep e < EPOCH_UNSET"
    using D(5) valid by (auto simp: es'_def dest!: in_set_tl split: if_splits)
  moreover have "Suc (idx cb') mod n = length es'" if "tl free \<noteq> []"
    using that pos len D(2) by (cases free) (auto simp: cb'_def es'_def mod_Suc)
  ultimately have "circ_inv n ep cb' \<and> entries ep cb' = es'"
    using D inv free
    by (intro circ_inv_intro [of _ _ "tl free"])
       (auto simp: cb'_def circ_is_empty_def es'_def circ_inv_def dest: in_set_tl)
  then show ?thesis using push by (auto simp: es'_def)
qed

lemma search_loop_spec:
  assumes "l \<le> r" "r \<le> length ks" "sorted_wrt (<) ks"
    and "\<And>m. m < length ks \<Longrightarrow> at m = Ok (ks ! m)"
    and "\<And>i. i < l \<Longrightarrow> ks ! i < x" "\<And>i. r \<le> i \<Longrightarrow> i < length ks \<Longrightarrow> x < ks ! i"
  shows "search_loop at x l r =
    Ok (if x \<in> set ks then None else Some (length (takeWhile (\<lambda>k. k < x) ks)))"
  using assms
proof (induction at x l r rule: search_loop.induct)
  case (1 at x l r)
  show ?case
  proof (cases "l < r")
    case True
    let ?m = "(l + r) div 2"
    have m: "l \<le> ?m" "?m < r" "?m < length ks" using True 1(4) by auto
    have mono: "ks ! i < ks ! j" if "i < j" "j < length ks" for i j
      using that 1(5) by (simp add: sorted_wrt_iff_nth_less)
    consider "ks ! ?m = x" | "ks ! ?m < x" | "x < ks ! ?m" by linarith
    then show ?thesis
    proof cases
      case 1
      then show ?thesis using True m \<open>\<And>m. m < length ks \<Longrightarrow> at m = Ok (ks ! m)\<close>
        by (subst search_loop.simps) (auto simp: Let_def)
    next
      case 2
      have "ks ! i < x" if "i < ?m + 1" for i
        using that 2 mono [of i ?m] m by (cases "i = ?m") auto
      then have "search_loop at x (?m + 1) r =
          Ok (if x \<in> set ks then None else Some (length (takeWhile (\<lambda>k. k < x) ks)))"
        using 1(1) [OF True refl _ _ _ 1(4,5,6) _ 1(8), of "ks ! ?m"] 2 m by simp
      then show ?thesis using True m 2 1(6) by (subst search_loop.simps) (simp add: Let_def)
    next
      case 3
      have "x < ks ! i" if "?m \<le> i" "i < length ks" for i
        using that 3 mono [of ?m i] by (cases "i = ?m") auto
      then have "search_loop at x l ?m =
          Ok (if x \<in> set ks then None else Some (length (takeWhile (\<lambda>k. k < x) ks)))"
        using 1(2) [OF True refl _ _ _ _ 1(5,6,7), of "ks ! ?m"] 3 m by simp
      then show ?thesis using True m 3 1(6) by (subst search_loop.simps) (simp add: Let_def)
    qed
  next
    case False
    then have lr: "l = r" using 1(3) by simp
    have "ks ! i \<noteq> x" if "i < length ks" for i
      using that 1(7) [of i] 1(8) [of i] lr by (cases "i < l") auto
    then have "x \<notin> set ks" by (auto simp: in_set_conv_nth)
    moreover have "takeWhile (\<lambda>k. k < x) ks = take l ks"
      using 1(7) 1(8) [of l] lr by (intro takeWhile_eq_take_P_nth) auto
    ultimately show ?thesis using False lr 1(4) by (subst search_loop.simps) simp
  qed
qed

text \<open>Where the records of a well-formed buffer are in the array.\<close>

lemma entries_full:
  assumes inv: "circ_inv n ep cb" and "length (entries ep cb) = n" "m < n"
  shows "arr cb ! ((Suc (idx cb) + m) mod n) = entries ep cb ! m"
proof -
  obtain free where "layout cb = free @ entries ep cb" "length free + length (entries ep cb) = n"
    using circ_inv_layout [OF inv] by blast
  then have "layout cb = entries ep cb" using assms(2) by simp
  then show ?thesis using nth_layout [of m cb] assms circ_invD(1) [OF inv] by simp
qed

lemma entries_partial:
  assumes inv: "circ_inv n ep cb" and "length (entries ep cb) < n" "entries ep cb \<noteq> []"
  shows "Suc (idx cb) = length (entries ep cb)" "Suc (idx cb) < n"
    "take (Suc (idx cb)) (arr cb) = entries ep cb" "ep (arr cb ! Suc (idx cb)) = EPOCH_UNSET"
proof -
  obtain free where f: "layout cb = free @ entries ep cb" "\<forall>e\<in>set free. ep e = EPOCH_UNSET"
    "free \<noteq> [] \<longrightarrow> Suc (idx cb) mod n = length (entries ep cb)"
    "length free + length (entries ep cb) = n"
    using circ_inv_layout [OF inv] by blast
  note D = circ_invD [OF inv]
  have "free \<noteq> []" using f(4) assms(2) by auto
  then have m: "Suc (idx cb) mod n = length (entries ep cb)" using f(3) by simp
  moreover have "Suc (idx cb) \<noteq> n" using m assms(3) by auto
  ultimately show len: "Suc (idx cb) = length (entries ep cb)" and "Suc (idx cb) < n"
    using D(2) by simp_all
  have eq: "drop (Suc (idx cb)) (arr cb) @ take (Suc (idx cb)) (arr cb) = free @ entries ep cb"
    using f(1) layout_split [of cb] D(1,2) by simp
  then show "take (Suc (idx cb)) (arr cb) = entries ep cb"
    using len D(1) \<open>Suc (idx cb) < n\<close> by simp
  have "drop (Suc (idx cb)) (arr cb) = free"
    using eq len D(1) \<open>Suc (idx cb) < n\<close> by simp
  then have "arr cb ! Suc (idx cb) \<in> set free"
    using D(1) \<open>Suc (idx cb) < n\<close> by (metis Cons_nth_drop_Suc list.set_intros(1))
  then show "ep (arr cb ! Suc (idx cb)) = EPOCH_UNSET" using f(2) by simp
qed

abbreviation before :: "('e \<Rightarrow> nat) \<Rightarrow> nat \<Rightarrow> 'e list \<Rightarrow> 'e list" where
  "before ep x es \<equiv> takeWhile (\<lambda>e. ep e < x) es"

lemma before_nth:
  assumes "sorted_wrt (<) (map ep es)" "x \<notin> ep ` set es" "es \<noteq> []" "x \<le> ep (last es)"
  shows "length (before ep x es) < length es" "x < ep (es ! length (before ep x es))"
proof -
  have "x < ep (last es)" using assms(2-4) by (metis image_eqI last_in_set le_neq_implies_less)
  then show less: "length (before ep x es) < length es"
    using assms(3) by (metis last_in_set length_takeWhile_le linorder_neqE_nat not_less_iff_gr_or_eq
        order.strict_trans2 takeWhile_eq_all_conv takeWhile_eq_take take_all_iff order_refl)
  have "\<not> ep (es ! length (before ep x es)) < x"
    using nth_length_takeWhile [OF less] by simp
  moreover have "ep (es ! length (before ep x es)) \<noteq> x"
    using assms(2) less by (metis image_eqI nth_mem)
  ultimately show "x < ep (es ! length (before ep x es))" by simp
qed

lemma find_insert_position_eq:
  assumes inv: "circ_inv n ep cb" and ne: "entries ep cb \<noteq> []"
    and le: "epoch \<le> ep (last (entries ep cb))"
  shows "find_insert_position ep (arr cb) (idx cb) epoch =
    Ok (if epoch \<in> ep ` set (entries ep cb) then None
        else Some ((Suc (idx cb) + (n - length (entries ep cb) + length (before ep epoch (entries ep cb)))) mod n))"
proof -
  let ?es = "entries ep cb" and ?b = "length (before ep epoch (entries ep cb))"
  note D = circ_invD [OF inv]
  have before: "length (takeWhile (\<lambda>k. k < epoch) (map ep ?es)) = ?b"
    by (simp add: takeWhile_map comp_def)
  have len: "length ?es \<le> n" using circ_inv_layout [OF inv] by auto
  show ?thesis
  proof (cases "length ?es = n")
    case True
    have loop: "search_loop (\<lambda>mid. epoch_at ep (arr cb) ((Suc (idx cb) + mid) mod n)) epoch 0 n =
        Ok (if epoch \<in> set (map ep ?es) then None else Some ?b)"
      unfolding before [symmetric] using D entries_full [OF inv True] True
      by (intro search_loop_spec) (auto simp: epoch_at_def)
    have test: "idx cb = n - 1 \<or> ep (arr cb ! Suc (idx cb)) \<noteq> EPOCH_UNSET"
    proof (cases "Suc (idx cb) < n")
      case s: True
      then have "arr cb ! Suc (idx cb) = ?es ! 0"
        using entries_full [OF inv True, of 0] by simp
      then show ?thesis using D(5) [of "?es ! 0"] ne by auto
    qed (use D(2) in auto)
    have part: "(if idx cb \<noteq> n - 1 then and_then (epoch_at ep (arr cb) (idx cb + 1)) (\<lambda>x. Ok (x = EPOCH_UNSET))
           else Ok False) = Ok False"
      using test D(1,2) by (auto simp: epoch_at_def)
    show ?thesis
    proof (cases "epoch \<in> ep ` set ?es")
      case True
      then show ?thesis using loop part D(1,2) by (simp add: find_insert_position_def Let_def)
    next
      case False
      have b: "?b < length ?es" "epoch < ep (?es ! ?b)"
        using before_nth [OF D(4) False ne le] by auto
      then have "arr cb ! ((Suc (idx cb) + ?b) mod n) = ?es ! ?b"
        using entries_full [OF inv True] True by simp
      then show ?thesis using loop part D(1,2) False b True
        by (simp add: find_insert_position_def Let_def epoch_at_def)
    qed
  next
    case False
    then have lt: "length ?es < n" using len by simp
    note P = entries_partial [OF inv lt ne]
    have nth: "arr cb ! m = ?es ! m" if "m < length ?es" for m
      using that P(1,3) by (metis nth_take)
    have loop: "search_loop (epoch_at ep (arr cb)) epoch 0 (length ?es) =
        Ok (if epoch \<in> set (map ep ?es) then None else Some ?b)"
      unfolding before [symmetric] using D nth lt
      by (intro search_loop_spec) (auto simp: epoch_at_def)
    have part: "(if idx cb \<noteq> n - 1 then and_then (epoch_at ep (arr cb) (idx cb + 1)) (\<lambda>x. Ok (x = EPOCH_UNSET))
           else Ok False) = Ok True"
      using P D(1) by (auto simp: epoch_at_def)
    show ?thesis
    proof (cases "epoch \<in> ep ` set ?es")
      case True
      then show ?thesis using loop part D(1) P(1,2) by (simp add: find_insert_position_def Let_def)
    next
      case ne_ep: False
      have b: "?b < length ?es" "epoch < ep (?es ! ?b)"
        using before_nth [OF D(4) ne_ep ne le] by auto
      have "Suc (idx cb) + (n - length ?es + ?b) = n + ?b" using P(1) lt by simp
      then have "(Suc (idx cb) + (n - length ?es + ?b)) mod n = ?b" using b(1) lt by simp
      then show ?thesis using loop part D(1) P(1,2) ne_ep b lt nth
        by (simp add: find_insert_position_def Let_def epoch_at_def)
    qed
  qed
qed

text \<open>
  Insertion: out of range and duplicate epochs are refused, any other epoch is put in its
  place, and a full buffer loses its oldest record.
\<close>

definition insert_entry :: "('e \<Rightarrow> nat) \<Rightarrow> 'e \<Rightarrow> 'e list \<Rightarrow> 'e list" where
  "insert_entry ep x es = before ep (ep x) es @ x # dropWhile (\<lambda>e. ep e < ep x) es"

lemma insert_entry_sorted:
  assumes "sorted_wrt (<) (map ep es)" "ep x \<notin> ep ` set es"
  shows "sorted_wrt (<) (map ep (insert_entry ep x es))"
  using assms
proof (induction es)
  case (Cons e es)
  show ?case
  proof (cases "ep e < ep x")
    case True
    have "set (insert_entry ep x es) = insert x (set es)"
      unfolding insert_entry_def by (auto dest: set_takeWhileD set_dropWhileD)
         (metis UnE set_append takeWhile_dropWhile_id)
    then show ?thesis using Cons True by (auto simp: insert_entry_def)
  next
    case False
    then have "ep x < ep e" using Cons.prems by auto
    then show ?thesis using Cons.prems by (auto simp: insert_entry_def)
  qed
qed (simp add: insert_entry_def)

lemma set_insert_entry [simp]: "set (insert_entry ep x es) = insert x (set es)"
  unfolding insert_entry_def by (auto dest: set_takeWhileD set_dropWhileD)
    (metis UnE set_append takeWhile_dropWhile_id)

lemma length_insert_entry [simp]: "length (insert_entry ep x es) = Suc (length es)"
  unfolding insert_entry_def
  by (metis add_Suc_right length_Cons length_append takeWhile_dropWhile_id)

lemma sorted_hd_le_last:
  "sorted_wrt (<) (map ep es) \<Longrightarrow> e \<in> set es \<Longrightarrow> ep (hd es) \<le> ep e \<and> ep e \<le> (ep (last es) :: nat)"
  by (induction es) (auto simp: less_imp_le)

lemma circ_insert_bounds:
  assumes inv: "circ_inv n ep cb" and ne: "entries ep cb \<noteq> []"
  shows "circ_insert ep entry epoch cb =
    (if epoch < ep (hd (entries ep cb)) \<or> ep (last (entries ep cb)) < epoch
     then Err (History EpochOutOfRange)
     else and_then (find_insert_position ep (arr cb) (idx cb) epoch) (\<lambda>pos.
          and_then (ok_or pos (History DuplicateEpoch)) (\<lambda>insert_pos.
          let end_index = (if idx cb < insert_pos then idx cb + n else idx cb) in
          and_then (for_each shift_step (rev [insert_pos..<Suc end_index]) (arr cb)) (\<lambda>a.
          and_then (arr_set a insert_pos entry) (\<lambda>a.
          Ok (cb\<lparr>arr := a, idx := (idx cb + 1) mod n\<rparr>))))))"
proof -
  let ?es = "entries ep cb"
  note D = circ_invD [OF inv]
  have n0: "0 < n" using D(2) by simp
  have len: "length ?es \<le> n" using circ_inv_layout [OF inv] by auto
  have max: "epoch_at ep (arr cb) (idx cb) = Ok (ep (last ?es))"
    using D last_entries [OF inv ne] by (simp add: epoch_at_def)
  let ?next = "arr cb ! (Suc (idx cb) mod n)"
  have next_at: "epoch_at ep (arr cb) (Suc (idx cb) mod n) = Ok (ep ?next)"
    using D n0 by (simp add: epoch_at_def)
  have min: "(if ep ?next = EPOCH_UNSET then epoch_at ep (arr cb) 0 else Ok (ep ?next))
      = Ok (ep (hd ?es))"
  proof (cases "length ?es = n")
    case True
    then have "?next = hd ?es" using entries_full [OF inv True, of 0] n0 ne by (simp add: hd_conv_nth)
    then show ?thesis using D(5) [of "hd ?es"] ne by auto
  next
    case False
    then have lt: "length ?es < n" using len by simp
    note P = entries_partial [OF inv lt ne]
    have "arr cb ! 0 = hd ?es" using P(1,3) ne by (metis hd_conv_nth nth_take length_greater_0_conv)
    then show ?thesis using P D(1) n0 by (simp add: epoch_at_def)
  qed
  show ?thesis
    using D(1,6) ne max next_at min by (simp add: circ_insert_def Let_def)
qed

lemma circ_insert_ok:
  assumes inv: "circ_inv n ep cb" and ne: "entries ep cb \<noteq> []"
    and lo: "ep (hd (entries ep cb)) \<le> ep entry" and hi: "ep entry \<le> ep (last (entries ep cb))"
    and new: "ep entry \<notin> ep ` set (entries ep cb)"
  shows "\<exists>cb'. circ_insert ep entry (ep entry) cb = Ok cb' \<and> circ_inv n ep cb' \<and>
    entries ep cb' = (if length (entries ep cb) = n then tl (insert_entry ep entry (entries ep cb))
                      else insert_entry ep entry (entries ep cb))"
proof -
  let ?es = "entries ep cb" and ?b = "length (before ep (ep entry) (entries ep cb))"
  define q where "q = n - length ?es + ?b"
  define pos where "pos = (Suc (idx cb) + q) mod n"
  define fin where "fin = (if idx cb < pos then idx cb + n else idx cb)"
  note D = circ_invD [OF inv]
  obtain free where lay: "layout cb = free @ ?es" and free: "\<forall>e\<in>set free. ep e = EPOCH_UNSET"
    and fpos: "free \<noteq> [] \<longrightarrow> Suc (idx cb) mod n = length ?es" and len: "length free + length ?es = n"
    using circ_inv_layout [OF inv] by blast
  have b: "?b < length ?es" using before_nth [OF D(4) new ne hi] by simp
  have hd_in: "ep (hd ?es) < ep entry" using lo new ne by (metis hd_in_set image_eqI le_neq_implies_less)
  have entry_ok: "ep entry < EPOCH_UNSET" using D(5) [OF last_in_set [OF ne]] hi by simp
  have b0: "0 < ?b" using hd_in ne by (cases ?es) auto
  have q: "0 < q" "q < n" using b b0 len by (auto simp: q_def)
  have qf: "q = length free + ?b" using len by (simp add: q_def)
  obtain a where a: "for_each shift_step (rev [pos..<Suc fin]) (arr cb) = Ok a" "length a = n"
    and lay': "layout (cb\<lparr>arr := a[pos := entry], idx := Suc (idx cb) mod n\<rparr>) =
        tl (take q (layout cb)) @ entry # drop q (layout cb)"
    using layout_insert [OF D(1) [symmetric] D(2) q pos_def fin_def, of entry] by blast
  define cb' where "cb' = cb\<lparr>arr := a[pos := entry], idx := Suc (idx cb) mod n\<rparr>"
  define es' where "es' = (if length ?es = n then tl (insert_entry ep entry ?es) else insert_entry ep entry ?es)"
  have posn: "pos < n" using D(2) by (simp add: pos_def)
  have "find_insert_position ep (arr cb) (idx cb) (ep entry) = Ok (Some pos)"
    using find_insert_position_eq [OF inv ne hi] new by (simp add: q_def pos_def)
  then have ok: "circ_insert ep entry (ep entry) cb = Ok cb'"
    using lo hi a posn
    by (simp add: circ_insert_bounds [OF inv ne] Let_def fin_def cb'_def del: upt_Suc split: if_splits)
  have split: "insert_entry ep entry ?es = take ?b ?es @ entry # drop ?b ?es"
    by (simp add: insert_entry_def takeWhile_eq_take [symmetric] dropWhile_eq_drop [symmetric])
  have "layout cb' = tl free @ es'"
  proof (cases free)
    case Nil
    then show ?thesis using lay' lay qf len split b0
      by (cases ?es) (auto simp: cb'_def es'_def)
  next
    case (Cons f fs)
    then show ?thesis using lay' lay qf len split by (auto simp: cb'_def es'_def)
  qed
  moreover have "sorted_wrt (<) (map ep es')"
    using insert_entry_sorted [OF D(4) new] by (cases "insert_entry ep entry ?es") (auto simp: es'_def)
  moreover have "\<And>e. e \<in> set es' \<Longrightarrow> ep e < EPOCH_UNSET"
    using D(5) entry_ok by (auto simp: es'_def dest!: in_set_tl split: if_splits)
  moreover have "Suc (idx cb') mod n = length es'" if "tl free \<noteq> []"
    using that fpos len D(2) by (cases free) (auto simp: cb'_def es'_def mod_Suc)
  moreover have "es' \<noteq> []"
    using b by (cases ?es) (auto simp: es'_def split simp flip: length_greater_0_conv)
  ultimately have "circ_inv n ep cb' \<and> entries ep cb' = es'"
    using D inv free a ne posn
    by (intro circ_inv_intro [of _ _ "tl free"])
       (auto simp: cb'_def circ_is_empty_def circ_inv_def dest: in_set_tl)
  then show ?thesis using ok by (auto simp: es'_def)
qed

text \<open>Reading a range of epochs is looking up each of them.\<close>

definition lookup_epoch :: "('e \<Rightarrow> nat) \<Rightarrow> 'e list \<Rightarrow> nat \<Rightarrow> 'e option" where
  "lookup_epoch ep es x = find (\<lambda>e. ep e = x) es"

lemma lookup_epoch_mem:
  "distinct (map ep es) \<Longrightarrow> e \<in> set es \<Longrightarrow> lookup_epoch ep es (ep e) = Some e"
  by (induction es) (auto simp: lookup_epoch_def)

lemma take_matching_lookup:
  "sorted_wrt (<) (map ep es) \<Longrightarrow> (\<And>e. e \<in> set es \<Longrightarrow> s \<le> ep e) \<Longrightarrow>
   take_matching ep [s..<t] es = map (lookup_epoch ep es) [s..<t]"
proof (induction "t - s" arbitrary: s es)
  case (Suc d)
  then have st: "s < t" by simp
  have nomatch: "lookup_epoch ep xs s = None" if "\<forall>e\<in>set xs. s < ep e" for xs
    using that by (auto simp: lookup_epoch_def find_None_iff)
  show ?case
  proof (cases es)
    case Nil
    have "take_matching ep xs [] = map (lookup_epoch ep []) xs" for xs
      by (induction xs) (simp_all add: lookup_epoch_def)
    then show ?thesis using Nil by simp
  next
    case (Cons e es')
    show ?thesis
    proof (cases "ep e = s")
      case True
      have "take_matching ep [Suc s..<t] es' = map (lookup_epoch ep es') [Suc s..<t]"
        using Suc.prems Suc.hyps(2) Cons True by (intro Suc.hyps(1)) (auto simp: Suc_le_eq)
      moreover have "lookup_epoch ep es' x = lookup_epoch ep (e # es') x" if "x \<noteq> s" for x
        using that True by (simp add: lookup_epoch_def)
      ultimately show ?thesis using Cons True st
        by (simp add: upt_rec [of s]) (simp add: lookup_epoch_def)
    next
      case False
      have all: "\<forall>a\<in>set es. s < ep a"
        using Suc.prems False Cons by (auto simp: order.strict_iff_order) (metis le_antisym nat_less_le)
      have "take_matching ep [Suc s..<t] es = map (lookup_epoch ep es) [Suc s..<t]"
        using Suc.prems Suc.hyps(2) all by (intro Suc.hyps(1)) (auto simp: Suc_le_eq)
      then show ?thesis using Cons False st nomatch [OF all] by (simp add: upt_rec [of s])
    qed
  qed
qed simp

lemma lookup_filter:
  "P x \<Longrightarrow> lookup_epoch ep (filter (\<lambda>e. P (ep e)) es) x = lookup_epoch ep es x"
  unfolding lookup_epoch_def by (induction es) auto

lemma epoch_range_eq:
  assumes inv: "circ_inv n ep cb" and valid: "t < EPOCH_UNSET"
  shows "circ_epoch_range ep s t cb = Ok (map (lookup_epoch ep (entries ep cb)) [s..<Suc t])"
proof -
  note D = circ_invD [OF inv]
  let ?in = "\<lambda>x. s \<le> x \<and> x \<le> t"
  have lay: "drop (Suc (idx cb)) (arr cb) @ take (Suc (idx cb)) (arr cb) = layout cb"
    using layout_split D(1,2) by metis
  have "filter (\<lambda>e. ?in (ep e)) (layout cb) = filter (\<lambda>e. ?in (ep e)) (entries ep cb)"
    unfolding entries_def filter_filter using valid by (intro filter_cong) auto
  moreover have "take_matching ep [s..<Suc t] (filter (\<lambda>e. ?in (ep e)) (entries ep cb)) =
      map (lookup_epoch ep (filter (\<lambda>e. ?in (ep e)) (entries ep cb))) [s..<Suc t]"
    using sorted_wrt_filter [OF D(4) [unfolded sorted_wrt_map], of "\<lambda>e. ?in (ep e)"]
    by (intro take_matching_lookup) (auto simp: sorted_wrt_map)
  moreover have "lookup_epoch ep (filter (\<lambda>e. ?in (ep e)) (entries ep cb)) x =
      lookup_epoch ep (entries ep cb) x" if "x \<in> set [s..<Suc t]" for x
    using that by (intro lookup_filter) auto
  ultimately show ?thesis
    using D(1,2) lay by (simp add: circ_epoch_range_def arr_slice_def del: upt_Suc filter_append)
qed

text \<open>Overwriting the one entry of an epoch.\<close>

definition overwrite :: "('e \<Rightarrow> nat) \<Rightarrow> nat \<Rightarrow> ('e \<Rightarrow> 'e) \<Rightarrow> 'e list \<Rightarrow> 'e list" where
  "overwrite ep x f es = map (\<lambda>e. if ep e = x then f e else e) es"

lemma overwrite_length [simp]: "length (overwrite ep x f es) = length es"
  and overwrite_Nil_iff [simp]: "overwrite ep x f es = [] \<longleftrightarrow> es = []"
  by (simp_all add: overwrite_def)

lemma entries_distinct:
  assumes "circ_inv n ep cb"
  shows "distinct (map ep (filter (\<lambda>e. ep e \<noteq> EPOCH_UNSET) (arr cb)))"
proof -
  note D = circ_invD [OF assms]
  let ?P = "\<lambda>e. ep e \<noteq> EPOCH_UNSET"
  have "distinct (map ep (entries ep cb))" using D(4) by (simp add: strict_sorted_iff)
  then have "distinct (map ep (filter ?P (take (Suc (idx cb)) (arr cb)) @
                               filter ?P (drop (Suc (idx cb)) (arr cb))))"
    using D(1,2) by (auto simp: entries_def layout_split)
  then show ?thesis by (simp flip: filter_append)
qed

lemma distinct_epoch_index:
  "distinct (map ep (filter (\<lambda>e. ep e \<noteq> u) xs)) \<Longrightarrow> i < length xs \<Longrightarrow> j < length xs \<Longrightarrow>
   ep (xs ! i) \<noteq> u \<Longrightarrow> ep (xs ! j) = ep (xs ! i) \<Longrightarrow> j = i"
proof (induction xs arbitrary: i j)
  case (Cons x xs)
  have "ep (xs ! k) \<noteq> ep x" if "k < length xs" "ep x \<noteq> u" for k
    using that Cons.prems(1) nth_mem by (fastforce simp: image_iff)
  then show ?case using Cons
    by (cases i; cases j) (auto split: if_splits)
qed simp

lemma update_unique:
  assumes "distinct (map ep (filter (\<lambda>e. ep e \<noteq> u) xs))" "j < length xs" "ep (xs ! j) \<noteq> u"
  shows "xs[j := f (xs ! j)] = overwrite ep (ep (xs ! j)) f xs"
  using distinct_epoch_index [OF assms(1,2) _ assms(3)] assms(2)
  by (auto simp: overwrite_def list_eq_iff_nth_eq nth_list_update)

lemma update_first_overwrite:
  assumes "distinct (map ep (filter (\<lambda>e. ep e \<noteq> u) xs))" "x \<noteq> u"
  shows "update_first (\<lambda>e. ep e = x) f xs =
    (if x \<in> ep ` set xs then Some (overwrite ep x f xs) else None)"
proof -
  let ?n = "length (takeWhile (\<lambda>e. ep e \<noteq> x) xs)"
  have iff: "?n < length xs \<longleftrightarrow> x \<in> ep ` set xs"
    by (induction xs) auto
  moreover have "xs[?n := f (xs ! ?n)] = overwrite ep x f xs" if "?n < length xs"
    using update_unique [OF assms(1) that, of f] nth_length_takeWhile [OF that] assms(2) by simp
  ultimately show ?thesis by (simp add: update_first_def Let_def)
qed

lemma overwrite_entries:
  assumes inv: "circ_inv n ep cb" and f: "\<And>e. ep (f e) = ep e"
  shows "circ_inv n ep (cb\<lparr>arr := overwrite ep x f (arr cb)\<rparr>) \<and>
    entries ep (cb\<lparr>arr := overwrite ep x f (arr cb)\<rparr>) = overwrite ep x f (entries ep cb)"
proof -
  let ?cb = "cb\<lparr>arr := overwrite ep x f (arr cb)\<rparr>" and ?g = "\<lambda>e. if ep e = x then f e else e"
  note D = circ_invD [OF inv]
  obtain free where lay: "layout cb = free @ entries ep cb" and free: "\<forall>e\<in>set free. ep e = EPOCH_UNSET"
    and pos: "free \<noteq> [] \<longrightarrow> Suc (idx cb) mod n = length (entries ep cb)"
    using circ_inv_layout [OF inv] by blast
  have map_g: "map ep (overwrite ep x f es) = map ep es" for es
    by (simp add: overwrite_def f)
  have "layout ?cb = map ?g (layout cb)"
    by (simp add: layout_def overwrite_def rotate_map del: rotate_Suc)
  then have "layout ?cb = map ?g free @ overwrite ep x f (entries ep cb)"
    by (simp add: lay overwrite_def)
  moreover have "ep e < EPOCH_UNSET" if "e \<in> set (overwrite ep x f (entries ep cb))" for e
    using that D(5) by (auto simp: overwrite_def f)
  ultimately show ?thesis using D inv free pos
    by (intro circ_inv_intro [of _ _ "map ?g free"])
       (auto simp: map_g f circ_is_empty_def circ_inv_def)
qed

text \<open>What a setter does to the list of records.\<close>

definition upsert :: "('e \<Rightarrow> nat) \<Rightarrow> nat \<Rightarrow> nat \<Rightarrow> ('e \<Rightarrow> 'e) \<Rightarrow> 'e \<Rightarrow> 'e list \<Rightarrow> 'e list option" where
  "upsert ep n epoch f fresh es =
     (if epoch \<in> ep ` set es then Some (overwrite ep epoch f es)
      else if \<forall>e\<in>set es. ep e < epoch then Some ((if length es = n then tl es else es) @ [fresh])
      else None)"

lemma set_entry_eq:
  assumes inv: "circ_inv n ep cb" and f: "\<And>e. ep (f e) = ep e"
    and fresh: "ep fresh = epoch" and valid: "epoch < EPOCH_UNSET"
  shows "case upsert ep n epoch f fresh (entries ep cb) of
      Some es \<Rightarrow> \<exists>cb'. set_entry ep strict epoch f fresh cb = Ok cb' \<and> circ_inv n ep cb' \<and> entries ep cb' = es
    | None \<Rightarrow> set_entry ep strict epoch f fresh cb = (if strict then Err (History EpochOutOfRange) else Ok cb)"
proof -
  let ?es = "entries ep cb"
  note D = circ_invD [OF inv]
  show ?thesis
  proof (cases "\<forall>e\<in>set ?es. ep e < epoch")
    case True
    then have "?es \<noteq> [] \<Longrightarrow> ep (last ?es) < epoch" by simp
    then have "set_entry ep strict epoch f fresh cb = circ_push fresh cb"
      by (auto simp: set_entry_def circ_last_eq [OF inv])
    then show ?thesis
      using circ_push_ok [OF inv, of fresh] True fresh valid by (auto simp: upsert_def)
  next
    case False
    then have ne: "?es \<noteq> []" and ge: "epoch \<le> ep (last ?es)"
      using sorted_hd_le_last [OF D(4)] by (auto simp: not_less intro: order_trans)
    have mem: "epoch \<in> ep ` set (arr cb) \<longleftrightarrow> epoch \<in> ep ` set ?es"
      using valid by (auto simp: entries_def)
    have last_at: "last ?es = arr cb ! idx cb" by (rule last_entries [OF inv ne])
    show ?thesis
    proof (cases "ep (last ?es) = epoch")
      case True
      then have "set_entry ep strict epoch f fresh cb = Ok (cb\<lparr>arr := overwrite ep epoch f (arr cb)\<rparr>)"
        using ne D(1,2) last_at valid update_unique [OF entries_distinct [OF inv], of "idx cb" f]
        by (simp add: set_entry_def circ_last_eq [OF inv] circ_update_last_def)
      moreover have "epoch \<in> ep ` set ?es" using True ne by auto
      ultimately show ?thesis using overwrite_entries [OF inv f] by (simp add: upsert_def)
    next
      case neq: False
      then have "set_entry ep strict epoch f fresh cb =
          (if epoch \<in> ep ` set ?es then Ok (cb\<lparr>arr := overwrite ep epoch f (arr cb)\<rparr>)
           else if strict then Err (History EpochOutOfRange) else Ok cb)"
        using ne ge valid mem update_first_overwrite [OF entries_distinct [OF inv], of epoch f]
        by (simp add: set_entry_def circ_last_eq [OF inv])
      then show ?thesis using overwrite_entries [OF inv f] False by (auto simp: upsert_def)
    qed
  qed
qed

section \<open>The contract of an epoch log\<close>

text \<open>
  What the rest of the program relies on: a bounded log of records in strictly ascending
  epochs that forgets its oldest record, and whose range query is a lookup per epoch.
\<close>

definition take_last :: "nat \<Rightarrow> 'a list \<Rightarrow> 'a list" where
  "take_last n xs = drop (length xs - n) xs"

lemma take_last_snoc:
  "length xs \<le> n \<Longrightarrow> 0 < n \<Longrightarrow> take_last n (xs @ [x]) = (if length xs = n then tl xs else xs) @ [x]"
  by (cases xs) (auto simp: take_last_def)

lemma take_last_append [simp]: "take_last n (take_last n xs @ ys) = take_last n (xs @ ys)"
proof (cases "length xs \<le> n")
  case False
  let ?k = "length xs - n"
  have "drop (length ys) (drop ?k (xs @ ys)) = drop (length (xs @ ys) - n) (xs @ ys)"
    using False by (simp only: drop_drop length_append) (simp add: add.commute)
  then show ?thesis using False by (simp add: take_last_def)
qed (simp add: take_last_def)

locale epoch_log =
  fixes cap :: nat
    and ep :: "'e \<Rightarrow> nat"
    and invar :: "'b \<Rightarrow> bool"
    and recs :: "'b \<Rightarrow> 'e list"
    and push :: "'e \<Rightarrow> 'b \<Rightarrow> 'b result"
    and latest :: "'b \<Rightarrow> 'e option result"
    and range_query :: "nat \<Rightarrow> nat \<Rightarrow> 'b \<Rightarrow> 'e option list result"
  assumes cap_pos: "0 < cap"
    and recs_cap: "invar b \<Longrightarrow> length (recs b) \<le> cap"
    and recs_sorted: "invar b \<Longrightarrow> sorted_wrt (<) (map ep (recs b))"
    and push_law: "invar b \<Longrightarrow> (\<And>e. e \<in> set (recs b) \<Longrightarrow> ep e < ep x) \<Longrightarrow> ep x < EPOCH_UNSET \<Longrightarrow>
      \<exists>b'. push x b = Ok b' \<and> invar b' \<and> recs b' = take_last cap (recs b @ [x])"
    and latest_law: "invar b \<Longrightarrow>
      latest b = Ok (if recs b = [] then None else Some (last (recs b)))"
    and range_law: "invar b \<Longrightarrow> t < EPOCH_UNSET \<Longrightarrow>
      range_query s t b = Ok (map (lookup_epoch ep (recs b)) [s..<Suc t])"
begin

lemma push_all:
  assumes "invar b" "sorted_wrt (<) (map ep (recs b @ xs))" "\<And>x. x \<in> set xs \<Longrightarrow> ep x < EPOCH_UNSET"
  shows "\<exists>b'. for_each push xs b = Ok b' \<and> invar b' \<and> recs b' = take_last cap (recs b @ xs)"
  using assms
proof (induction xs arbitrary: b)
  case Nil
  then show ?case using recs_cap [of b] by (simp add: take_last_def)
next
  case (Cons x xs)
  then obtain b1 where b1: "push x b = Ok b1" "invar b1" "recs b1 = take_last cap (recs b @ [x])"
    using push_law [of b x] by (auto simp: sorted_wrt_append)
  have "sorted_wrt (<) (map ep (recs b1 @ xs))"
  proof -
    let ?k = "length (recs b @ [x]) - cap"
    have "recs b1 @ xs = drop ?k ((recs b @ [x]) @ xs)"
      unfolding b1(3) take_last_def by (subst drop_append [of ?k "recs b @ [x]" xs]) simp
    then show ?thesis using sorted_wrt_drop [OF Cons.prems(2), of ?k]
      by (simp add: drop_map [symmetric] del: drop_append)
  qed
  then show ?case using Cons.IH [OF b1(2)] Cons.prems(3) b1 by auto
qed

text \<open>Among the latest \<open>cap\<close> records written, each is found at its epoch.\<close>

lemma lookup_recorded:
  assumes "invar b" "e \<in> set (recs b)" "ep e < EPOCH_UNSET"
  shows "range_query (ep e) (ep e) b = Ok [Some e]"
proof -
  have d: "distinct (map ep (recs b))"
    using recs_sorted [OF assms(1)] by (simp add: strict_sorted_iff)
  have "lookup_epoch ep (recs b) (ep e) = Some e" by (rule lookup_epoch_mem [OF d assms(2)])
  then show ?thesis using range_law [OF assms(1,3), of "ep e"] by simp
qed

end

lemma circ_epoch_log:
  assumes "0 < n"
  shows "epoch_log n ep (circ_inv n ep) (entries ep) circ_push circ_last (circ_epoch_range ep)"
proof
  fix b :: "'a circ_buf" and x :: 'a and s t :: nat
  assume inv: "circ_inv n ep b"
  show len: "length (entries ep b) \<le> n" using circ_inv_layout [OF inv] by auto
  show "sorted_wrt (<) (map ep (entries ep b))" by (rule circ_invD(4) [OF inv])
  show "circ_last b = Ok (if entries ep b = [] then None else Some (last (entries ep b)))"
    by (rule circ_last_eq [OF inv])
  show "circ_epoch_range ep s t b = Ok (map (lookup_epoch ep (entries ep b)) [s..<Suc t])"
    if "t < EPOCH_UNSET" by (rule epoch_range_eq [OF inv that])
  show "\<exists>b'. circ_push x b = Ok b' \<and> circ_inv n ep b' \<and> entries ep b' = take_last n (entries ep b @ [x])"
    if "\<And>e. e \<in> set (entries ep b) \<Longrightarrow> ep e < ep x" "ep x < EPOCH_UNSET"
    using circ_push_ok [OF inv that] len assms by (simp add: take_last_snoc)
qed (rule assms)

text \<open>
  The initialisation of \<^verbatim>\<open>realloc_validator_history_account\<close> and
  \<^verbatim>\<open>realloc_cluster_history_account\<close>: the index is put on the last slot, every slot is
  overwritten with a default entry, and the buffer is marked empty.
\<close>

definition circ_init :: "'e \<Rightarrow> 'e circ_buf \<Rightarrow> 'e circ_buf result" where
  "circ_init d cb =
     and_then (minus_or_panic (length (arr cb)) 1) (\<lambda>n.
     and_then (for_each (\<lambda>_. circ_push d) [0..<length (arr cb)] (cb\<lparr>idx := n\<rparr>)) (\<lambda>cb.
     Ok (cb\<lparr>is_empty_flag := 1\<rparr>)))"

lemma circ_init_loop:
  assumes "length (arr cb) = n" "0 < n" "n \<le> U64_MAX" "k \<le> n" "idx cb = n - 1"
  shows "\<exists>cb'. for_each (\<lambda>_. circ_push d) [0..<k] cb = Ok cb' \<and> length (arr cb') = n \<and>
    idx cb' = (n - 1 + k) mod n \<and> (\<forall>i<k. arr cb' ! i = d)"
  using assms(4)
proof (induction k)
  case (Suc k)
  then obtain cb1 where cb1: "for_each (\<lambda>_. circ_push d) [0..<k] cb = Ok cb1"
    "length (arr cb1) = n" "idx cb1 = (n - 1 + k) mod n" "\<forall>i<k. arr cb1 ! i = d" by auto
  have "Suc (idx cb1) mod n = k"
    using Suc.prems assms(2) unfolding cb1(3) by (simp add: mod_Suc_eq)
  moreover have "idx cb1 < U64_MAX"
    using cb1(3) assms(2,3) by (metis mod_less_divisor order.strict_trans2)
  ultimately have "circ_push d cb1 = Ok (cb1\<lparr>idx := k, arr := (arr cb1)[k := d], is_empty_flag := 0\<rparr>)"
    using Suc.prems cb1(2) by (simp add: circ_push_def plus_or_panic_def checked_add_def Let_def)
  moreover have "(n - 1 + Suc k) mod n = k" using Suc.prems assms(2) by simp
  ultimately show ?case using cb1(1,2,4) Suc.prems
    by (simp add: nth_list_update less_Suc_eq)
qed (use assms in simp)

lemma circ_init_ok:
  assumes "length (arr cb) = n" "0 < n" "n \<le> U64_MAX" "ep d = EPOCH_UNSET"
  shows "\<exists>cb'. circ_init d cb = Ok cb' \<and> circ_inv n ep cb' \<and> entries ep cb' = []"
proof -
  obtain cb1 where cb1: "for_each (\<lambda>_. circ_push d) [0..<n] (cb\<lparr>idx := n - 1\<rparr>) = Ok cb1"
    "length (arr cb1) = n" "idx cb1 = (n - 1 + n) mod n" "\<forall>i<n. arr cb1 ! i = d"
    using circ_init_loop [of "cb\<lparr>idx := n - 1\<rparr>" n n d] assms by auto
  have idx: "idx cb1 = n - 1"
    using cb1(3) assms(2) by (metis mod_add_self2 mod_less diff_less zero_less_one)
  have arr: "arr cb1 = replicate n d" using cb1(2,4) by (simp add: list_eq_iff_nth_eq)
  let ?cb = "cb1\<lparr>is_empty_flag := 1\<rparr>"
  have "layout ?cb = replicate n d @ []"
    using idx arr assms(2) by (simp add: layout_split)
  then have "circ_inv n ep ?cb \<and> entries ep ?cb = []"
    using idx arr assms by (intro circ_inv_intro) (auto simp: circ_is_empty_def)
  then show ?thesis using cb1(1) assms
    by (auto simp: circ_init_def minus_or_panic_def checked_sub_def simp del: upt_Suc)
qed

end
