(* ===== verification/F64.thy ===== *)
theory F64
  imports Complex_Main Prelude
begin

text \<open>
  Rust's \<^verbatim>\<open>f64\<close>, as far as the programs use it: conversion from integers, division,
  multiplication, comparison, \<^verbatim>\<open>round\<close> and the saturating cast \<^verbatim>\<open>as u64\<close>. A finite value is
  the rational number it denotes; every operation rounds its exact result to the nearest
  value with 53 significant bits, ties to even, with gradual underflow at
  \<open>2 ^ (-1074)\<close> and overflow at \<open>2 ^ 1024\<close>. The two zeros are not distinguished: the
  programs divide only by conversions of unsigned integers and products of those, which
  are never negative.
\<close>

section \<open>Rounding\<close>

datatype f64 = Fin rat | PInf | NInf | NaN

fun ilog2 :: "nat \<Rightarrow> nat" where
  "ilog2 n = (if n \<le> 1 then 0 else Suc (ilog2 (n div 2)))"

declare ilog2.simps [simp del]

definition pow2 :: "int \<Rightarrow> rat" where
  "pow2 e = (if 0 \<le> e then 2 ^ nat e else 1 / 2 ^ nat (- e))"

text \<open>The exponent \<open>e\<close> with \<open>2 ^ e \<le> a < 2 ^ (e + 1)\<close>, for a positive rational \<open>a\<close>.\<close>

definition exponent :: "rat \<Rightarrow> int" where
  "exponent a =
     (let (p, d) = quotient_of a;
          e = int (ilog2 (nat p)) - int (ilog2 (nat d))
      in if pow2 e \<le> a then e else e - 1)"

definition round_half_even :: "rat \<Rightarrow> int" where
  "round_half_even x =
     (let n = \<lfloor>x\<rfloor>; r = x - of_int n
      in if r < 1 / 2 then n else if 1 / 2 < r then n + 1
         else if even n then n else n + 1)"

definition round_pos :: "rat \<Rightarrow> rat" where
  "round_pos a =
     (let q = max (exponent a - 52) (- 1074)
      in of_int (round_half_even (a / pow2 q)) * pow2 q)"

definition round_f64 :: "rat \<Rightarrow> f64" where
  "round_f64 x =
     (if x = 0 then Fin 0
      else let r = round_pos \<bar>x\<bar> in
        if pow2 1024 \<le> r then (if 0 < x then PInf else NInf)
        else Fin (if 0 < x then r else - r))"

section \<open>Operations\<close>

definition f64_of_nat :: "nat \<Rightarrow> f64" where
  "f64_of_nat n = round_f64 (of_nat n)"

definition f64_inf :: "bool \<Rightarrow> f64" where
  "f64_inf neg = (if neg then NInf else PInf)"

fun f64_div :: "f64 \<Rightarrow> f64 \<Rightarrow> f64" where
  "f64_div NaN y = NaN"
| "f64_div x NaN = NaN"
| "f64_div (Fin a) (Fin b) =
     (if b \<noteq> 0 then round_f64 (a / b) else if a = 0 then NaN else f64_inf (a < 0))"
| "f64_div (Fin a) y = Fin 0"
| "f64_div PInf (Fin b) = f64_inf (b < 0)"
| "f64_div NInf (Fin b) = f64_inf (\<not> b < 0)"
| "f64_div x y = NaN"

fun f64_mul :: "f64 \<Rightarrow> f64 \<Rightarrow> f64" where
  "f64_mul NaN y = NaN"
| "f64_mul x NaN = NaN"
| "f64_mul (Fin a) (Fin b) = round_f64 (a * b)"
| "f64_mul (Fin a) PInf = (if a = 0 then NaN else f64_inf (a < 0))"
| "f64_mul (Fin a) NInf = (if a = 0 then NaN else f64_inf (0 < a))"
| "f64_mul PInf (Fin b) = (if b = 0 then NaN else f64_inf (b < 0))"
| "f64_mul NInf (Fin b) = (if b = 0 then NaN else f64_inf (0 < b))"
| "f64_mul PInf PInf = PInf"
| "f64_mul PInf NInf = NInf"
| "f64_mul NInf PInf = NInf"
| "f64_mul NInf NInf = PInf"

text \<open>Comparisons with a NaN are false.\<close>

fun f64_le :: "f64 \<Rightarrow> f64 \<Rightarrow> bool" where
  "f64_le NaN y \<longleftrightarrow> False"
| "f64_le x NaN \<longleftrightarrow> False"
| "f64_le NInf y \<longleftrightarrow> True"
| "f64_le x PInf \<longleftrightarrow> True"
| "f64_le (Fin a) (Fin b) \<longleftrightarrow> a \<le> b"
| "f64_le x y \<longleftrightarrow> False"

fun f64_lt :: "f64 \<Rightarrow> f64 \<Rightarrow> bool" where
  "f64_lt NaN y \<longleftrightarrow> False"
| "f64_lt x NaN \<longleftrightarrow> False"
| "f64_lt (Fin a) (Fin b) \<longleftrightarrow> a < b"
| "f64_lt NInf (Fin b) \<longleftrightarrow> True"
| "f64_lt NInf PInf \<longleftrightarrow> True"
| "f64_lt (Fin a) PInf \<longleftrightarrow> True"
| "f64_lt x y \<longleftrightarrow> False"

text \<open>\<^verbatim>\<open>f64::round\<close> rounds half away from zero. The result is a float again: it has at most
  as many significant bits as the argument, or is a power of two.\<close>

fun f64_round :: "f64 \<Rightarrow> f64" where
  "f64_round (Fin a) = Fin (if 0 \<le> a then of_int \<lfloor>a + 1 / 2\<rfloor> else - of_int \<lfloor>- a + 1 / 2\<rfloor>)"
| "f64_round x = x"

fun f64_to_uint :: "nat \<Rightarrow> f64 \<Rightarrow> nat" where
  "f64_to_uint m (Fin a) = min m (nat \<lfloor>a\<rfloor>)"
| "f64_to_uint m PInf = m"
| "f64_to_uint m x = 0"

section \<open>Facts\<close>

lemma pow2_pos [simp]: "0 < pow2 e"
  by (simp add: pow2_def)

lemma pow2_nonneg_exp: "pow2 (int n) = 2 ^ n"
  by (simp add: pow2_def)

lemma pow2_add: "pow2 (a + b) = pow2 a * pow2 b"
proof -
  have powr: "pow2 e = 2 powi e" for e
    by (auto simp: pow2_def power_int_def power_inverse inverse_eq_divide power_one_over)
  show ?thesis by (simp add: powr power_int_add)
qed

lemma ilog2_bounds: "0 < n \<Longrightarrow> 2 ^ ilog2 n \<le> n \<and> n < 2 ^ Suc (ilog2 n)"
proof (induction n rule: ilog2.induct)
  case (1 n)
  show ?case
  proof (cases "n \<le> 1")
    case True
    then show ?thesis using 1 by (simp add: ilog2.simps [of n])
  next
    case False
    then have "2 ^ ilog2 (n div 2) \<le> n div 2 \<and> n div 2 < 2 ^ Suc (ilog2 (n div 2))"
      using 1 by simp
    then show ?thesis using False by (subst (1 2) ilog2.simps) (simp, linarith)
  qed
qed

lemma round_half_even_int [simp]: "round_half_even (of_int k) = k"
  by (simp add: round_half_even_def)

lemma f64_lt_le: "f64_lt x y \<Longrightarrow> f64_le x y"
  by (cases x; cases y) simp_all

lemma f64_le_total: "x \<noteq> NaN \<Longrightarrow> y \<noteq> NaN \<Longrightarrow> f64_le x y \<longleftrightarrow> \<not> f64_lt y x"
  by (cases x; cases y) auto

lemma f64_le_trans: "f64_le x y \<Longrightarrow> f64_le y z \<Longrightarrow> f64_le x z"
  by (cases x; cases y; cases z) simp_all

end
