(* ===== verification/Validator_History.thy ===== *)
theory Validator_History
  imports Circ_Buf F64
begin

text \<open>
  The accounts of the validator-history program and their setters and readers
  (programs/validator-history/src/state.rs) with the helpers of its utils.rs. Padding
  fields carry no behaviour and are left out. The setters are stated on \<open>set_entry\<close>, whose
  effect on the recorded entries is \<open>upsert\<close>.
\<close>

section \<open>Entries\<close>

type_synonym Pubkey = "8 word list"

datatype MerkleRootUploadAuthority = Unset | Other | OldJitoLabs | TipRouter | DNE

text \<open>The authority addresses are constants of lib.rs; they are the arguments of the mapping.\<close>

definition from_pubkey :: "Pubkey \<Rightarrow> Pubkey \<Rightarrow> Pubkey \<Rightarrow> Pubkey \<Rightarrow> MerkleRootUploadAuthority" where
  "from_pubkey JITO_LABS_AUTHORITY TIP_ROUTER_AUTHORITY DNE_AUTHORITY tda_authority =
     (if tda_authority = JITO_LABS_AUTHORITY then OldJitoLabs
      else if tda_authority = TIP_ROUTER_AUTHORITY then TipRouter
      else if tda_authority = DNE_AUTHORITY then DNE
      else Other)"

record ClientVersion =
  cv_major :: nat
  cv_minor :: nat
  cv_patch :: nat

record ValidatorHistoryEntry =
  activated_stake_lamports :: nat
  vhe_epoch :: nat
  vhe_mev_commission :: nat
  vhe_epoch_credits :: nat
  vhe_commission :: nat
  vhe_client_type :: nat
  vhe_version :: ClientVersion
  vhe_ip :: "nat list"
  vhe_merkle_root_upload_authority :: MerkleRootUploadAuthority
  vhe_is_superminority :: nat
  vhe_rank :: nat
  vote_account_last_update_slot :: nat
  vhe_mev_earned :: nat
  priority_fee_commission :: nat
  vhe_priority_fee_tips :: nat
  vhe_total_priority_fees :: nat
  vhe_total_leader_slots :: nat
  vhe_blocks_produced :: nat
  block_data_updated_at_slot :: nat
  priority_fee_merkle_root_upload_authority :: MerkleRootUploadAuthority
  vhe_is_bam_connected :: nat

definition ValidatorHistoryEntry_default :: ValidatorHistoryEntry where
  "ValidatorHistoryEntry_default = \<lparr>
     activated_stake_lamports = U64_MAX,
     vhe_epoch = U16_MAX,
     vhe_mev_commission = U16_MAX,
     vhe_epoch_credits = U32_MAX,
     vhe_commission = U8_MAX,
     vhe_client_type = U8_MAX,
     vhe_version = \<lparr>cv_major = U8_MAX, cv_minor = U8_MAX, cv_patch = U16_MAX\<rparr>,
     vhe_ip = replicate 4 U8_MAX,
     vhe_merkle_root_upload_authority = Unset,
     vhe_is_superminority = U8_MAX,
     vhe_rank = U32_MAX,
     vote_account_last_update_slot = U64_MAX,
     vhe_mev_earned = U32_MAX,
     priority_fee_commission = U16_MAX,
     vhe_priority_fee_tips = U64_MAX,
     vhe_total_priority_fees = U64_MAX,
     vhe_total_leader_slots = U32_MAX,
     vhe_blocks_produced = U32_MAX,
     block_data_updated_at_slot = U64_MAX,
     priority_fee_merkle_root_upload_authority = Unset,
     vhe_is_bam_connected = U8_MAX\<rparr>"

abbreviation vhe_default :: ValidatorHistoryEntry where
  "vhe_default \<equiv> ValidatorHistoryEntry_default"

type_synonym CircBuf = "ValidatorHistoryEntry circ_buf"

record ValidatorHistory =
  vh_struct_version :: nat
  vh_vote_account :: Pubkey
  vh_index :: nat
  vh_bump :: nat
  last_ip_timestamp :: nat
  last_version_timestamp :: nat
  validator_age :: nat
  validator_age_last_updated_epoch :: nat
  vh_history :: CircBuf

record ClusterHistoryEntry =
  che_total_blocks :: nat
  che_epoch :: nat
  che_epoch_start_timestamp :: nat

definition ClusterHistoryEntry_default :: ClusterHistoryEntry where
  "ClusterHistoryEntry_default =
     \<lparr>che_total_blocks = U32_MAX, che_epoch = U16_MAX, che_epoch_start_timestamp = U64_MAX\<rparr>"

type_synonym CircBufCluster = "ClusterHistoryEntry circ_buf"

record ClusterHistory =
  ch_struct_version :: nat
  ch_bump :: nat
  cluster_history_last_update_slot :: nat
  ch_history :: CircBufCluster

section \<open>Readers\<close>

abbreviation vh_latest :: "(ValidatorHistoryEntry \<Rightarrow> 'v) \<Rightarrow> CircBuf \<Rightarrow> 'v option result" where
  "vh_latest field \<equiv> field_latest field (field vhe_default)"

abbreviation vh_range :: "(ValidatorHistoryEntry \<Rightarrow> 'v) \<Rightarrow> nat \<Rightarrow> nat \<Rightarrow> CircBuf \<Rightarrow> 'v option list result" where
  "vh_range field \<equiv> field_range vhe_epoch field (field vhe_default)"

definition TVC_MULTIPLIER :: nat where "TVC_MULTIPLIER = 16"

definition commission_latest :: "CircBuf \<Rightarrow> nat option result" where
  "commission_latest = vh_latest vhe_commission"
definition commission_range :: "nat \<Rightarrow> nat \<Rightarrow> CircBuf \<Rightarrow> nat option list result" where
  "commission_range = vh_range vhe_commission"
definition mev_commission_latest :: "CircBuf \<Rightarrow> nat option result" where
  "mev_commission_latest = vh_latest vhe_mev_commission"
definition mev_commission_range :: "nat \<Rightarrow> nat \<Rightarrow> CircBuf \<Rightarrow> nat option list result" where
  "mev_commission_range = vh_range vhe_mev_commission"
definition epoch_credits_latest :: "CircBuf \<Rightarrow> nat option result" where
  "epoch_credits_latest = vh_latest vhe_epoch_credits"
definition merkle_root_upload_authority_latest :: "CircBuf \<Rightarrow> MerkleRootUploadAuthority option result" where
  "merkle_root_upload_authority_latest = vh_latest vhe_merkle_root_upload_authority"
definition priority_fee_merkle_root_upload_authority_latest ::
  "CircBuf \<Rightarrow> MerkleRootUploadAuthority option result" where
  "priority_fee_merkle_root_upload_authority_latest = vh_latest priority_fee_merkle_root_upload_authority"
definition priority_fee_tips_range :: "nat \<Rightarrow> nat \<Rightarrow> CircBuf \<Rightarrow> nat option list result" where
  "priority_fee_tips_range = vh_range vhe_priority_fee_tips"
definition total_priority_fees_range :: "nat \<Rightarrow> nat \<Rightarrow> CircBuf \<Rightarrow> nat option list result" where
  "total_priority_fees_range = vh_range vhe_total_priority_fees"
definition priority_fee_tips_latest :: "CircBuf \<Rightarrow> nat option result" where
  "priority_fee_tips_latest = vh_latest vhe_priority_fee_tips"
definition total_priority_fees_latest :: "CircBuf \<Rightarrow> nat option result" where
  "total_priority_fees_latest = vh_latest vhe_total_priority_fees"
definition merkle_root_upload_authority_range ::
  "nat \<Rightarrow> nat \<Rightarrow> CircBuf \<Rightarrow> MerkleRootUploadAuthority option list result" where
  "merkle_root_upload_authority_range = vh_range vhe_merkle_root_upload_authority"
definition priority_fee_merkle_root_upload_authority_range ::
  "nat \<Rightarrow> nat \<Rightarrow> CircBuf \<Rightarrow> MerkleRootUploadAuthority option list result" where
  "priority_fee_merkle_root_upload_authority_range = vh_range priority_fee_merkle_root_upload_authority"
definition vote_account_last_update_slot_range :: "nat \<Rightarrow> nat \<Rightarrow> CircBuf \<Rightarrow> nat option list result" where
  "vote_account_last_update_slot_range = vh_range vote_account_last_update_slot"

definition normalize_credits :: "nat \<Rightarrow> nat \<Rightarrow> nat \<Rightarrow> nat" where
  "normalize_credits epoch tvc_activation_epoch credits =
     (if epoch < tvc_activation_epoch then saturating_mul U32_MAX credits TVC_MULTIPLIER else credits)"

definition epoch_credits_latest_normalized :: "nat \<Rightarrow> nat \<Rightarrow> CircBuf \<Rightarrow> nat option result" where
  "epoch_credits_latest_normalized current_epoch tvc_activation_epoch cb =
     and_then (epoch_credits_latest cb) (\<lambda>m.
     Ok (map_option (normalize_credits current_epoch tvc_activation_epoch) m))"

definition epoch_credits_range :: "nat \<Rightarrow> nat \<Rightarrow> CircBuf \<Rightarrow> nat option list result" where
  "epoch_credits_range = vh_range vhe_epoch_credits"

definition epoch_credits_range_normalized :: "nat \<Rightarrow> nat \<Rightarrow> nat \<Rightarrow> CircBuf \<Rightarrow> nat option list result" where
  "epoch_credits_range_normalized start_epoch end_epoch tvc_activation_epoch cb =
     and_then (vh_range vhe_epoch_credits start_epoch end_epoch cb) (\<lambda>r.
     Ok (map (\<lambda>(m, epoch). map_option (normalize_credits epoch tvc_activation_epoch) m)
             (zip r [start_epoch..<Suc end_epoch])))"

text \<open>
  The macro \<^verbatim>\<open>field_latest!\<close> returns from the enclosing function when the field is set, so the
  check of the value that follows it in \<^verbatim>\<open>superminority_latest\<close> is never reached with a value.
\<close>

definition superminority_latest :: "CircBuf \<Rightarrow> nat option result" where
  "superminority_latest = vh_latest vhe_is_superminority"

definition superminority_range :: "nat \<Rightarrow> nat \<Rightarrow> CircBuf \<Rightarrow> nat option list result" where
  "superminority_range start_epoch end_epoch cb =
     and_then (vh_range vhe_is_superminority start_epoch end_epoch cb) (\<lambda>r.
     Ok (map (\<lambda>m. case m of None \<Rightarrow> None | Some v \<Rightarrow> if v = 0 \<or> v = 1 then Some v else None) r))"

definition vote_account_last_update_slot_latest :: "CircBuf \<Rightarrow> nat option result" where
  "vote_account_last_update_slot_latest = vh_latest vote_account_last_update_slot"
definition activated_stake_lamports_latest :: "CircBuf \<Rightarrow> nat option result" where
  "activated_stake_lamports_latest = vh_latest activated_stake_lamports"
definition activated_stake_lamports_range :: "nat \<Rightarrow> nat \<Rightarrow> CircBuf \<Rightarrow> nat option list result" where
  "activated_stake_lamports_range = vh_range activated_stake_lamports"
definition client_type_latest :: "CircBuf \<Rightarrow> nat option result" where
  "client_type_latest = vh_latest vhe_client_type"
definition client_type_range :: "nat \<Rightarrow> nat \<Rightarrow> CircBuf \<Rightarrow> nat option list result" where
  "client_type_range = vh_range vhe_client_type"
definition version_latest :: "CircBuf \<Rightarrow> ClientVersion option result" where
  "version_latest = vh_latest vhe_version"
definition version_range :: "nat \<Rightarrow> nat \<Rightarrow> CircBuf \<Rightarrow> ClientVersion option list result" where
  "version_range = vh_range vhe_version"
definition ip_latest :: "CircBuf \<Rightarrow> nat list option result" where
  "ip_latest = vh_latest vhe_ip"
definition ip_range :: "nat \<Rightarrow> nat \<Rightarrow> CircBuf \<Rightarrow> nat list option list result" where
  "ip_range = vh_range vhe_ip"
definition rank_latest :: "CircBuf \<Rightarrow> nat option result" where
  "rank_latest = vh_latest vhe_rank"
definition rank_range :: "nat \<Rightarrow> nat \<Rightarrow> CircBuf \<Rightarrow> nat option list result" where
  "rank_range = vh_range vhe_rank"
definition mev_earned_latest :: "CircBuf \<Rightarrow> nat option result" where
  "mev_earned_latest = vh_latest vhe_mev_earned"
definition mev_earned_range :: "nat \<Rightarrow> nat \<Rightarrow> CircBuf \<Rightarrow> nat option list result" where
  "mev_earned_range = vh_range vhe_mev_earned"
definition priority_fee_commission_latest :: "CircBuf \<Rightarrow> nat option result" where
  "priority_fee_commission_latest = vh_latest priority_fee_commission"
definition priority_fee_commission_range :: "nat \<Rightarrow> nat \<Rightarrow> CircBuf \<Rightarrow> nat option list result" where
  "priority_fee_commission_range = vh_range priority_fee_commission"
definition total_leader_slots_latest :: "CircBuf \<Rightarrow> nat option result" where
  "total_leader_slots_latest = vh_latest vhe_total_leader_slots"
definition total_leader_slots_range :: "nat \<Rightarrow> nat \<Rightarrow> CircBuf \<Rightarrow> nat option list result" where
  "total_leader_slots_range = vh_range vhe_total_leader_slots"
definition blocks_produced_latest :: "CircBuf \<Rightarrow> nat option result" where
  "blocks_produced_latest = vh_latest vhe_blocks_produced"
definition blocks_produced_range :: "nat \<Rightarrow> nat \<Rightarrow> CircBuf \<Rightarrow> nat option list result" where
  "blocks_produced_range = vh_range vhe_blocks_produced"
definition block_data_updated_at_slot_latest :: "CircBuf \<Rightarrow> nat option result" where
  "block_data_updated_at_slot_latest = vh_latest block_data_updated_at_slot"
definition block_data_updated_at_slot_range :: "nat \<Rightarrow> nat \<Rightarrow> CircBuf \<Rightarrow> nat option list result" where
  "block_data_updated_at_slot_range = vh_range block_data_updated_at_slot"
definition is_bam_connected_range :: "nat \<Rightarrow> nat \<Rightarrow> CircBuf \<Rightarrow> nat option list result" where
  "is_bam_connected_range = vh_range vhe_is_bam_connected"

definition total_blocks_latest :: "CircBufCluster \<Rightarrow> nat option result" where
  "total_blocks_latest =
     field_latest che_total_blocks (che_total_blocks ClusterHistoryEntry_default)"
definition total_blocks_range :: "nat \<Rightarrow> nat \<Rightarrow> CircBufCluster \<Rightarrow> nat option list result" where
  "total_blocks_range =
     field_range che_epoch che_total_blocks (che_total_blocks ClusterHistoryEntry_default)"

section \<open>Setters\<close>

definition on_history :: "(CircBuf \<Rightarrow> CircBuf result) \<Rightarrow> ValidatorHistory \<Rightarrow> ValidatorHistory result" where
  "on_history f vh = and_then (f (vh_history vh)) (\<lambda>h. Ok (vh\<lparr>vh_history := h\<rparr>))"

text \<open>
  A setter overwrites the fields of the entry of an epoch with \<open>f\<close>; the entry it creates is
  the default entry of that epoch with the same fields set. \<open>strict\<close> is explained at
  \<open>set_entry\<close>.
\<close>

definition vh_set :: "bool \<Rightarrow> nat \<Rightarrow> (ValidatorHistoryEntry \<Rightarrow> ValidatorHistoryEntry) \<Rightarrow>
    ValidatorHistory \<Rightarrow> ValidatorHistory result" where
  "vh_set strict epoch f =
     on_history (set_entry vhe_epoch strict epoch f (f (vhe_default\<lparr>vhe_epoch := epoch\<rparr>)))"

definition set_mev_commission ::
  "nat \<Rightarrow> nat \<Rightarrow> nat \<Rightarrow> MerkleRootUploadAuthority \<Rightarrow> ValidatorHistory \<Rightarrow> ValidatorHistory result" where
  "set_mev_commission epoch commission mev_earned authority =
     vh_set False epoch (\<lambda>e. e\<lparr>vhe_mev_earned := mev_earned, vhe_mev_commission := commission,
       vhe_merkle_root_upload_authority := authority\<rparr>)"

definition set_priority_fees_transferred_and_commission ::
  "nat \<Rightarrow> nat \<Rightarrow> nat \<Rightarrow> MerkleRootUploadAuthority \<Rightarrow> ValidatorHistory \<Rightarrow> ValidatorHistory result" where
  "set_priority_fees_transferred_and_commission epoch commission tips authority =
     vh_set False epoch (\<lambda>e. e\<lparr>priority_fee_commission := commission, vhe_priority_fee_tips := tips,
       priority_fee_merkle_root_upload_authority := authority\<rparr>)"

definition set_stake :: "nat \<Rightarrow> nat \<Rightarrow> nat \<Rightarrow> bool \<Rightarrow> ValidatorHistory \<Rightarrow> ValidatorHistory result" where
  "set_stake epoch stake rank is_superminority =
     vh_set True epoch (\<lambda>e. e\<lparr>activated_stake_lamports := stake, vhe_rank := rank,
       vhe_is_superminority := of_bool is_superminority\<rparr>)"

definition set_total_priority_fees_and_block_metadata ::
  "nat \<Rightarrow> nat \<Rightarrow> nat \<Rightarrow> nat \<Rightarrow> nat \<Rightarrow> ValidatorHistory \<Rightarrow> ValidatorHistory result" where
  "set_total_priority_fees_and_block_metadata epoch fees leader_slots blocks recorded_slot =
     vh_set True epoch (\<lambda>e. e\<lparr>vhe_total_priority_fees := fees, vhe_total_leader_slots := leader_slots,
       vhe_blocks_produced := blocks, block_data_updated_at_slot := recorded_slot\<rparr>)"

definition set_commission_and_slot :: "nat \<Rightarrow> nat \<Rightarrow> nat \<Rightarrow> ValidatorHistory \<Rightarrow> ValidatorHistory result" where
  "set_commission_and_slot epoch commission slot =
     vh_set False epoch (\<lambda>e. e\<lparr>vhe_commission := commission, vote_account_last_update_slot := slot\<rparr>)"

definition set_is_bam_connected :: "nat \<Rightarrow> nat \<Rightarrow> ValidatorHistory \<Rightarrow> ValidatorHistory result" where
  "set_is_bam_connected epoch is_connected =
     vh_set True epoch (\<lambda>e. e\<lparr>vhe_is_bam_connected := is_connected\<rparr>)"

text \<open>Gossip data: the fields of crds_value.rs that the setters read.\<close>

datatype IpAddr = V4 "nat list" | V6

record Version =
  ver_major :: nat
  ver_minor :: nat
  ver_patch :: nat
  ver_client :: nat

record ContactInfo =
  ci_version :: Version
  ci_addrs :: "IpAddr list"

definition client_version :: "nat \<Rightarrow> nat \<Rightarrow> nat \<Rightarrow> ClientVersion" where
  "client_version major minor patch =
     \<lparr>cv_major = cast U8_MAX major, cv_minor = cast U8_MAX minor, cv_patch = patch\<rparr>"

definition set_contact_info :: "nat \<Rightarrow> ContactInfo \<Rightarrow> nat \<Rightarrow> ValidatorHistory \<Rightarrow> ValidatorHistory result" where
  "set_contact_info epoch contact_info ts vh =
     and_then (arr_get (ci_addrs contact_info) 0) (\<lambda>addr.
     case addr of
       V6 \<Rightarrow> Err (History UnsupportedIpFormat)
     | V4 ip \<Rightarrow>
         if ts < last_ip_timestamp vh \<or> ts < last_version_timestamp vh
         then Err (History GossipDataTooOld)
         else let v = ci_version contact_info in
           vh_set False epoch (\<lambda>e. e\<lparr>vhe_ip := ip, vhe_client_type := cast U8_MAX (ver_client v),
               vhe_version := client_version (ver_major v) (ver_minor v) (ver_patch v)\<rparr>)
             (vh\<lparr>last_ip_timestamp := ts, last_version_timestamp := ts\<rparr>))"

definition set_legacy_contact_info :: "nat \<Rightarrow> IpAddr \<Rightarrow> nat \<Rightarrow> ValidatorHistory \<Rightarrow> ValidatorHistory result" where
  "set_legacy_contact_info epoch gossip_ip ts vh =
     (case gossip_ip of
        V6 \<Rightarrow> Err (History UnsupportedIpFormat)
      | V4 ip \<Rightarrow>
          if ts < last_ip_timestamp vh then Err (History GossipDataTooOld)
          else vh_set False epoch (\<lambda>e. e\<lparr>vhe_ip := ip\<rparr>) (vh\<lparr>last_ip_timestamp := ts\<rparr>))"

definition set_version :: "nat \<Rightarrow> nat \<Rightarrow> nat \<Rightarrow> nat \<Rightarrow> nat \<Rightarrow> ValidatorHistory \<Rightarrow> ValidatorHistory result" where
  "set_version epoch major minor patch ts vh =
     (if ts < last_version_timestamp vh then Err (History GossipDataTooOld)
      else vh_set False epoch (\<lambda>e. e\<lparr>vhe_version := client_version major minor patch\<rparr>)
             (vh\<lparr>last_version_timestamp := ts\<rparr>))"

text \<open>\<^verbatim>\<open>set_legacy_version\<close> has the body of \<^verbatim>\<open>set_version\<close> over the older version struct.\<close>

definition set_legacy_version :: "nat \<Rightarrow> nat \<Rightarrow> nat \<Rightarrow> nat \<Rightarrow> nat \<Rightarrow> ValidatorHistory \<Rightarrow> ValidatorHistory result" where
  "set_legacy_version epoch major minor patch ts vh =
     (if ts < last_version_timestamp vh then Err (History GossipDataTooOld)
      else vh_set False epoch (\<lambda>e. e\<lparr>vhe_version := client_version major minor patch\<rparr>)
             (vh\<lparr>last_version_timestamp := ts\<rparr>))"

section \<open>Epoch credits\<close>

definition cast_epoch :: "nat \<Rightarrow> nat result" where
  "cast_epoch epoch = (if epoch < U16_MAX then Ok epoch else Err (History EpochTooLarge))"

type_synonym epoch_credits = "(nat \<times> nat \<times> nat) list"

definition get_min_epoch :: "epoch_credits \<Rightarrow> nat result" where
  "get_min_epoch ecs =
     (if ecs = [] then Err (History InvalidEpochCredits) else cast_epoch (Min (set (map fst ecs))))"

definition get_max_epoch :: "epoch_credits \<Rightarrow> nat result" where
  "get_max_epoch ecs =
     (if ecs = [] then Err (History InvalidEpochCredits) else cast_epoch (Max (set (map fst ecs))))"

text \<open>
  The map from epochs to credits: both \<^verbatim>\<open>unwrap\<close>s panic, the difference is truncated to 32
  bits, and a later triple of the same epoch replaces an earlier one.
\<close>

definition credit_of :: "nat \<times> nat \<times> nat \<Rightarrow> (nat \<times> nat) result" where
  "credit_of t = (case t of (epoch, cur, prev) \<Rightarrow>
     and_then (unwrap (cast_epoch epoch)) (\<lambda>k.
     and_then (ok_or (checked_sub cur prev) Panic) (\<lambda>d. Ok (k, cast U32_MAX d))))"

definition epoch_credits_map :: "epoch_credits \<Rightarrow> (nat \<Rightarrow> nat option) result" where
  "epoch_credits_map ecs =
     and_then (map_result credit_of ecs) (\<lambda>kvs. Ok (map_of (rev kvs)))"

text \<open>\<^verbatim>\<open>unwrap_or_default\<close> drops the error of an insertion; a panic still ends the program.\<close>

definition ignore_error :: "'s result \<Rightarrow> 's \<Rightarrow> 's result" where
  "ignore_error r s = (case r of Inl Panic \<Rightarrow> Err Panic | Inl _ \<Rightarrow> Ok s | Inr s' \<Rightarrow> Ok s')"

definition insert_missing_step ::
  "(nat \<Rightarrow> nat option) \<Rightarrow> bool \<times> nat \<Rightarrow> CircBuf \<Rightarrow> CircBuf result" where
  "insert_missing_step m p cb = (case p of (entry_is_some, epoch) \<Rightarrow>
     if \<not> entry_is_some \<and> m epoch \<noteq> None
     then ignore_error (circ_insert vhe_epoch (vhe_default\<lparr>vhe_epoch := epoch\<rparr>) epoch cb) cb
     else Ok cb)"

definition insert_missing_entries :: "epoch_credits \<Rightarrow> ValidatorHistory \<Rightarrow> ValidatorHistory result" where
  "insert_missing_entries ecs vh =
     and_then (get_min_epoch ecs) (\<lambda>start_epoch.
     and_then (get_max_epoch ecs) (\<lambda>end_epoch.
     and_then (circ_epoch_range vhe_epoch start_epoch end_epoch (vh_history vh)) (\<lambda>r.
     and_then (epoch_credits_map ecs) (\<lambda>m.
     on_history (for_each (insert_missing_step m)
       (zip (map (\<lambda>e. e \<noteq> None) r) [start_epoch..<Suc end_epoch])) vh))))"

text \<open>The loop of \<^verbatim>\<open>set_epoch_credits\<close> from the newest slot backwards, with its \<^verbatim>\<open>break\<close>.\<close>

fun credits_loop :: "(nat \<Rightarrow> nat option) \<Rightarrow> nat \<Rightarrow> nat list \<Rightarrow> CircBuf \<Rightarrow> CircBuf result" where
  "credits_loop m min_epoch [] cb = Ok cb"
| "credits_loop m min_epoch (i # is) cb =
     (let len = length (arr cb); position = (idx cb + len - i) mod len in
      and_then (arr_get (arr cb) position) (\<lambda>entry.
      and_then (arr_set (arr cb) position
         (case m (vhe_epoch entry) of None \<Rightarrow> entry | Some c \<Rightarrow> entry\<lparr>vhe_epoch_credits := c\<rparr>)) (\<lambda>a.
      if vhe_epoch entry = min_epoch then Ok (cb\<lparr>arr := a\<rparr>)
      else credits_loop m min_epoch is (cb\<lparr>arr := a\<rparr>))))"

definition set_epoch_credits :: "epoch_credits \<Rightarrow> ValidatorHistory \<Rightarrow> ValidatorHistory result" where
  "set_epoch_credits ecs vh =
     (if ecs = [] then Ok vh
      else and_then (epoch_credits_map ecs) (\<lambda>m.
        and_then (get_min_epoch ecs) (\<lambda>min_epoch.
        on_history (credits_loop m min_epoch [0..<length (arr (vh_history vh))]) vh)))"

section \<open>Validator age\<close>

definition VALIDATOR_AGE_EPOCH_DEFAULT :: nat where "VALIDATOR_AGE_EPOCH_DEFAULT = 0"

definition has_credits_until :: "nat \<Rightarrow> ValidatorHistoryEntry \<Rightarrow> bool" where
  "has_credits_until end_epoch entry \<longleftrightarrow>
     vhe_epoch entry \<noteq> vhe_epoch vhe_default \<and> vhe_epoch entry \<le> end_epoch \<and>
     vhe_epoch_credits entry \<noteq> vhe_epoch_credits vhe_default \<and> 0 < vhe_epoch_credits entry"

definition initialize_validator_age :: "nat \<Rightarrow> ValidatorHistory \<Rightarrow> ValidatorHistory" where
  "initialize_validator_age current_epoch vh =
     (if current_epoch = 0
      then vh\<lparr>validator_age := 0, validator_age_last_updated_epoch := 0\<rparr>
      else let end_epoch = saturating_sub current_epoch 1 in
        vh\<lparr>validator_age :=
             fold (\<lambda>entry n. if has_credits_until end_epoch entry then saturating_add U32_MAX n 1 else n)
               (arr (vh_history vh)) 0,
           validator_age_last_updated_epoch := end_epoch\<rparr>)"

definition count_epochs_with_credits_from_range :: "nat option list \<Rightarrow> nat" where
  "count_epochs_with_credits_from_range credits_range =
     fold (\<lambda>c n. case c of Some credits \<Rightarrow> if 0 < credits then saturating_add U32_MAX n 1 else n
                  | None \<Rightarrow> n) credits_range 0"

definition update_validator_age :: "nat \<Rightarrow> ValidatorHistory \<Rightarrow> ValidatorHistory result" where
  "update_validator_age current_epoch vh =
     (if validator_age_last_updated_epoch vh = VALIDATOR_AGE_EPOCH_DEFAULT
      then Ok (initialize_validator_age current_epoch vh)
      else let end_epoch = saturating_sub current_epoch 1 in
        if end_epoch \<le> validator_age_last_updated_epoch vh then Ok vh
        else let start_epoch = saturating_add U16_MAX (validator_age_last_updated_epoch vh) 1 in
          if end_epoch < start_epoch then Ok vh
          else and_then (epoch_credits_range start_epoch end_epoch (vh_history vh)) (\<lambda>credits_range.
            Ok (vh\<lparr>validator_age := saturating_add U32_MAX (validator_age vh)
                     (count_epochs_with_credits_from_range credits_range),
                   validator_age_last_updated_epoch := end_epoch\<rparr>)))"

section \<open>Cluster history\<close>

definition on_cluster :: "(CircBufCluster \<Rightarrow> CircBufCluster result) \<Rightarrow> ClusterHistory \<Rightarrow> ClusterHistory result" where
  "on_cluster f ch = and_then (f (ch_history ch)) (\<lambda>h. Ok (ch\<lparr>ch_history := h\<rparr>))"

definition set_blocks :: "nat \<Rightarrow> nat \<Rightarrow> ClusterHistory \<Rightarrow> ClusterHistory result" where
  "set_blocks epoch blocks_in_epoch =
     on_cluster (set_entry che_epoch False epoch (\<lambda>e. e\<lparr>che_total_blocks := blocks_in_epoch\<rparr>)
       (ClusterHistoryEntry_default\<lparr>che_epoch := epoch, che_total_blocks := blocks_in_epoch\<rparr>))"

definition set_epoch_start_timestamp :: "nat \<Rightarrow> nat \<Rightarrow> ClusterHistory \<Rightarrow> ClusterHistory result" where
  "set_epoch_start_timestamp epoch epoch_start_timestamp ch =
     and_then (circ_last (ch_history ch)) (\<lambda>l.
     case l of
       Some entry \<Rightarrow>
         if che_epoch entry = epoch
         then on_cluster (circ_update_last (\<lambda>e. e\<lparr>che_epoch_start_timestamp := epoch_start_timestamp\<rparr>)) ch
         else Ok ch
     | None \<Rightarrow> Ok ch)"

section \<open>The buffers are epoch logs\<close>

lemma MAX_ITEMS_bounds [simp]: "0 < MAX_ITEMS" "MAX_ITEMS \<le> U64_MAX" "MAX_ITEMS \<le> U32_MAX"
  by (simp_all add: MAX_ITEMS_def int_limits)

lemma vhe_default_epoch [simp]: "vhe_epoch vhe_default = EPOCH_UNSET"
  by (simp add: ValidatorHistoryEntry_default_def)

abbreviation vh_entries :: "ValidatorHistory \<Rightarrow> ValidatorHistoryEntry list" where
  "vh_entries vh \<equiv> entries vhe_epoch (vh_history vh)"

abbreviation vh_inv :: "ValidatorHistory \<Rightarrow> bool" where
  "vh_inv vh \<equiv> circ_inv MAX_ITEMS vhe_epoch (vh_history vh)"

abbreviation ch_entries :: "ClusterHistory \<Rightarrow> ClusterHistoryEntry list" where
  "ch_entries ch \<equiv> entries che_epoch (ch_history ch)"

abbreviation ch_inv :: "ClusterHistory \<Rightarrow> bool" where
  "ch_inv ch \<equiv> circ_inv MAX_ITEMS che_epoch (ch_history ch)"

interpretation vh_log: epoch_log MAX_ITEMS vhe_epoch "circ_inv MAX_ITEMS vhe_epoch"
  "entries vhe_epoch" circ_push circ_last "circ_epoch_range vhe_epoch"
  by (rule circ_epoch_log) simp

interpretation ch_log: epoch_log MAX_ITEMS che_epoch "circ_inv MAX_ITEMS che_epoch"
  "entries che_epoch" circ_push circ_last "circ_epoch_range che_epoch"
  by (rule circ_epoch_log) simp

section \<open>The contract of a setter\<close>

lemma lookup_overwrite:
  assumes "\<And>e. ep (f e) = ep e"
  shows "lookup_epoch ep (overwrite ep x f es) y =
    (if y = x then map_option f (lookup_epoch ep es y) else lookup_epoch ep es y)"
  by (induction es) (auto simp: overwrite_def lookup_epoch_def assms)

lemma lookup_epoch_eq_None: "lookup_epoch ep es x = None \<longleftrightarrow> x \<notin> ep ` set es"
  by (auto simp: lookup_epoch_def find_None_iff)

lemma lookup_append:
  "lookup_epoch ep (es @ [e]) x =
   (case lookup_epoch ep es x of None \<Rightarrow> if ep e = x then Some e else None | Some d \<Rightarrow> Some d)"
  by (induction es) (auto simp: lookup_epoch_def)

lemma lookup_upsert_frame:
  assumes up: "upsert ep n x f fresh es = Some es'" and f: "\<And>e. ep (f e) = ep e"
    and fresh: "ep fresh = x" and y: "y \<noteq> x" and hd: "length es = n \<Longrightarrow> y \<noteq> ep (hd es)"
  shows "lookup_epoch ep es' y = lookup_epoch ep es y"
proof (cases "x \<in> ep ` set es")
  case True
  then have "es' = overwrite ep x f es" using up by (simp add: upsert_def)
  then show ?thesis using y by (simp add: lookup_overwrite f)
next
  case False
  then have es': "es' = (if length es = n then tl es else es) @ [fresh]"
    using up by (simp add: upsert_def split: if_splits)
  have "lookup_epoch ep (tl es) y = lookup_epoch ep es y" if "y \<noteq> ep (hd es)"
    using that by (cases es) (auto simp: lookup_epoch_def)
  then show ?thesis using es' y hd fresh by (auto simp: lookup_append split: option.splits)
qed

text \<open>
  A setter is given by the update \<open>f\<close> of an entry, which leaves the epoch alone. Unless the
  epoch is older than the newest entry and not recorded, the setter succeeds, the entry of
  that epoch is \<open>f\<close> of what it was (of the default entry if it was not recorded), and every
  other record stays, except the oldest one when a full buffer has to make room.
\<close>

locale history_setter =
  fixes strict :: bool
    and f :: "ValidatorHistoryEntry \<Rightarrow> ValidatorHistoryEntry"
  assumes keeps_epoch: "vhe_epoch (f e) = vhe_epoch e"
begin

lemma setter_cases:
  assumes "vh_inv vh" "x < EPOCH_UNSET"
  shows "case upsert vhe_epoch MAX_ITEMS x f (f (vhe_default\<lparr>vhe_epoch := x\<rparr>)) (vh_entries vh) of
      Some es \<Rightarrow> \<exists>h. vh_set strict x f vh = Ok (vh\<lparr>vh_history := h\<rparr>) \<and>
        circ_inv MAX_ITEMS vhe_epoch h \<and> entries vhe_epoch h = es
    | None \<Rightarrow> vh_set strict x f vh = (if strict then Err (History EpochOutOfRange) else Ok vh)"
  using set_entry_eq [OF assms(1) keeps_epoch _ assms(2), of "f (vhe_default\<lparr>vhe_epoch := x\<rparr>)" strict]
  by (auto simp: keeps_epoch vh_set_def on_history_def split: option.splits)

lemma setter_keeps_inv:
  assumes "vh_inv vh" "x < EPOCH_UNSET" "vh_set strict x f vh = Ok vh'"
  shows "vh_inv vh'"
  using setter_cases [OF assms(1,2)] assms by (auto split: option.splits if_splits)

lemma setter_writes:
  assumes "vh_inv vh" "x < EPOCH_UNSET" "x \<in> vhe_epoch ` set (vh_entries vh) \<or>
    (\<forall>e\<in>set (vh_entries vh). vhe_epoch e < x)"
  shows "\<exists>h. vh_set strict x f vh = Ok (vh\<lparr>vh_history := h\<rparr>) \<and>
    lookup_epoch vhe_epoch (entries vhe_epoch h) x =
      Some (f (case lookup_epoch vhe_epoch (vh_entries vh) x of
                 Some e \<Rightarrow> e | None \<Rightarrow> vhe_default\<lparr>vhe_epoch := x\<rparr>))"
proof (cases "x \<in> vhe_epoch ` set (vh_entries vh)")
  case True
  then obtain e where e: "lookup_epoch vhe_epoch (vh_entries vh) x = Some e"
    using lookup_epoch_eq_None by (metis not_None_eq)
  then show ?thesis using setter_cases [OF assms(1,2)] True
    by (auto simp: upsert_def lookup_overwrite keeps_epoch)
next
  case False
  then have new: "\<forall>e\<in>set (vh_entries vh). vhe_epoch e < x" using assms(3) by simp
  let ?es = "if length (vh_entries vh) = MAX_ITEMS then tl (vh_entries vh) else vh_entries vh"
  have "x \<notin> vhe_epoch ` set ?es" using new by (auto dest: in_set_tl)
  then have "lookup_epoch vhe_epoch ?es x = None" by (simp add: lookup_epoch_eq_None)
  moreover have "lookup_epoch vhe_epoch (vh_entries vh) x = None"
    using False by (simp add: lookup_epoch_eq_None)
  ultimately show ?thesis using setter_cases [OF assms(1,2)] False new
    by (auto simp: upsert_def lookup_append keeps_epoch)
qed

lemma setter_frame:
  assumes "vh_inv vh" "x < EPOCH_UNSET" "vh_set strict x f vh = Ok vh'" "y \<noteq> x"
    and "length (vh_entries vh) = MAX_ITEMS \<Longrightarrow> y \<noteq> vhe_epoch (hd (vh_entries vh))"
  shows "lookup_epoch vhe_epoch (vh_entries vh') y = lookup_epoch vhe_epoch (vh_entries vh) y"
proof (cases "upsert vhe_epoch MAX_ITEMS x f (f (vhe_default\<lparr>vhe_epoch := x\<rparr>)) (vh_entries vh)")
  case None
  then show ?thesis using setter_cases [OF assms(1,2)] assms(3) by (auto split: if_splits)
next
  case (Some es)
  then have "vh_entries vh' = es" using setter_cases [OF assms(1,2)] assms(3) by auto
  then show ?thesis using lookup_upsert_frame [OF Some keeps_epoch _ assms(4,5)] by (simp add: keeps_epoch)
qed

end

interpretation mev_setter: history_setter False
  "\<lambda>e. e\<lparr>vhe_mev_earned := m, vhe_mev_commission := c, vhe_merkle_root_upload_authority := a\<rparr>" for m c a
  by unfold_locales simp

interpretation fee_setter: history_setter False
  "\<lambda>e. e\<lparr>priority_fee_commission := c, vhe_priority_fee_tips := t,
     priority_fee_merkle_root_upload_authority := a\<rparr>" for c t a
  by unfold_locales simp

interpretation stake_setter: history_setter True
  "\<lambda>e. e\<lparr>activated_stake_lamports := s, vhe_rank := r, vhe_is_superminority := m\<rparr>" for s r m
  by unfold_locales simp

interpretation block_setter: history_setter True
  "\<lambda>e. e\<lparr>vhe_total_priority_fees := p, vhe_total_leader_slots := l, vhe_blocks_produced := b,
     block_data_updated_at_slot := s\<rparr>" for p l b s
  by unfold_locales simp

interpretation commission_setter: history_setter False
  "\<lambda>e. e\<lparr>vhe_commission := c, vote_account_last_update_slot := s\<rparr>" for c s
  by unfold_locales simp

interpretation bam_setter: history_setter True "\<lambda>e. e\<lparr>vhe_is_bam_connected := b\<rparr>" for b
  by unfold_locales simp

interpretation contact_setter: history_setter False
  "\<lambda>e. e\<lparr>vhe_ip := ip, vhe_client_type := c, vhe_version := v\<rparr>" for ip c v
  by unfold_locales simp

interpretation ip_setter: history_setter False "\<lambda>e. e\<lparr>vhe_ip := ip\<rparr>" for ip
  by unfold_locales simp

interpretation version_setter: history_setter False "\<lambda>e. e\<lparr>vhe_version := v\<rparr>" for v
  by unfold_locales simp

end
