(* ===== verification/Config_Params.thy ===== *)
theory Config_Params
  imports BitMask Validator_History
begin

text \<open>
  The steward's configuration: \<^verbatim>\<open>Parameters\<close> with its update and validation
  (programs/steward/src/state/parameters.rs), \<^verbatim>\<open>Config\<close> (state/accounts.rs), the constants of
  constants.rs and the boolean byte \<^verbatim>\<open>U8Bool\<close> of utils.rs. Constants that depend on the build
  feature have their \<^verbatim>\<open>mainnet-beta\<close> values.
\<close>

section \<open>Constants\<close>

definition BASIS_POINTS_MAX :: nat where "BASIS_POINTS_MAX = 10000"
definition COMMISSION_MAX :: nat where "COMMISSION_MAX = 100"
definition VOTE_CREDITS_RATIO_MAX :: nat where "VOTE_CREDITS_RATIO_MAX = 10000000"
definition SORTED_INDEX_DEFAULT :: nat where "SORTED_INDEX_DEFAULT = U16_MAX"
definition LAMPORT_BALANCE_DEFAULT :: nat where "LAMPORT_BALANCE_DEFAULT = U64_MAX"
definition EPOCH_DEFAULT :: nat where "EPOCH_DEFAULT = U16_MAX"
definition EPOCH_PROGRESS_MAX :: f64 where "EPOCH_PROGRESS_MAX = round_f64 (99 / 100)"
definition NUM_EPOCHS_BETWEEN_SCORING_MAX :: nat where "NUM_EPOCHS_BETWEEN_SCORING_MAX = 100"
definition COMPUTE_SCORE_SLOT_RANGE_MIN :: nat where "COMPUTE_SCORE_SLOT_RANGE_MIN = 100"
definition VALIDATOR_HISTORY_FIRST_RELIABLE_EPOCH :: nat where
  "VALIDATOR_HISTORY_FIRST_RELIABLE_EPOCH = 520"
definition TVC_ACTIVATION_EPOCH :: nat where "TVC_ACTIVATION_EPOCH = 703"

section \<open>U8Bool\<close>

record U8Bool =
  u8_value :: "8 word"

definition U8Bool_is_true :: "U8Bool \<Rightarrow> bool" where
  "U8Bool_is_true b \<longleftrightarrow> u8_value b \<noteq> 0"

definition U8Bool_not :: "U8Bool \<Rightarrow> U8Bool" where
  "U8Bool_not b = \<lparr>u8_value = and (not (u8_value b)) 1\<rparr>"

definition U8Bool_from :: "bool \<Rightarrow> U8Bool" where
  "U8Bool_from v = \<lparr>u8_value = of_bool v\<rparr>"

lemma U8Bool_from_is_true [simp]: "U8Bool_is_true (U8Bool_from v) = v"
  by (simp add: U8Bool_is_true_def U8Bool_from_def)

lemma U8Bool_not_from: "U8Bool_not (U8Bool_from v) = U8Bool_from (\<not> v)"
  by (cases v) (simp_all add: U8Bool_not_def U8Bool_from_def)

section \<open>Parameters\<close>

record Parameters =
  p_mev_commission_range :: nat
  p_epoch_credits_range :: nat
  p_commission_range :: nat
  p_mev_commission_bps_threshold :: nat
  p_scoring_delinquency_threshold_ratio :: f64
  p_instant_unstake_delinquency_threshold_ratio :: f64
  p_commission_threshold :: nat
  p_historical_commission_threshold :: nat
  p_priority_fee_lookback_epochs :: nat
  p_priority_fee_lookback_offset :: nat
  p_priority_fee_max_commission_bps :: nat
  p_priority_fee_error_margin_bps :: nat
  p_num_delegation_validators :: nat
  p_scoring_unstake_cap_bps :: nat
  p_instant_unstake_cap_bps :: nat
  p_stake_deposit_unstake_cap_bps :: nat
  p_compute_score_slot_range :: nat
  p_instant_unstake_epoch_progress :: f64
  p_instant_unstake_inputs_epoch_progress :: f64
  p_num_epochs_between_scoring :: nat
  p_minimum_stake_lamports :: nat
  p_minimum_voting_epochs :: nat
  p_priority_fee_scoring_start_epoch :: nat
  p_jito_bam_minimum_epochs :: nat
  p_jito_bam_window_epochs :: nat
  p_compute_score_epoch_progress :: f64
  p_directed_stake_unstake_cap_bps :: nat
  p_undirected_stake_ceiling_lamports :: "8 word list"

record UpdateParametersArgs =
  a_mev_commission_range :: "nat option"
  a_epoch_credits_range :: "nat option"
  a_commission_range :: "nat option"
  a_scoring_delinquency_threshold_ratio :: "f64 option"
  a_instant_unstake_delinquency_threshold_ratio :: "f64 option"
  a_mev_commission_bps_threshold :: "nat option"
  a_commission_threshold :: "nat option"
  a_historical_commission_threshold :: "nat option"
  a_num_delegation_validators :: "nat option"
  a_scoring_unstake_cap_bps :: "nat option"
  a_instant_unstake_cap_bps :: "nat option"
  a_stake_deposit_unstake_cap_bps :: "nat option"
  a_directed_stake_unstake_cap_bps :: "nat option"
  a_undirected_stake_ceiling_lamports :: "nat option"
  a_instant_unstake_epoch_progress :: "f64 option"
  a_compute_score_slot_range :: "nat option"
  a_instant_unstake_inputs_epoch_progress :: "f64 option"
  a_num_epochs_between_scoring :: "nat option"
  a_minimum_stake_lamports :: "nat option"
  a_minimum_voting_epochs :: "nat option"
  a_compute_score_epoch_progress :: "f64 option"
  a_jito_bam_minimum_epochs :: "nat option"
  a_jito_bam_window_epochs :: "nat option"

record UpdatePriorityFeeParametersArgs =
  f_priority_fee_lookback_epochs :: "nat option"
  f_priority_fee_lookback_offset :: "nat option"
  f_priority_fee_max_commission_bps :: "nat option"
  f_priority_fee_error_margin_bps :: "nat option"
  f_priority_fee_scoring_start_epoch :: "nat option"

definition undirected_stake_ceiling_lamports :: "Parameters \<Rightarrow> nat" where
  "undirected_stake_ceiling_lamports p = from_le_bytes (p_undirected_stake_ceiling_lamports p)"

text \<open>\<^verbatim>\<open>(a..=b).contains(&x)\<close> on floats.\<close>

definition f64_in :: "f64 \<Rightarrow> f64 \<Rightarrow> f64 \<Rightarrow> bool" where
  "f64_in a b x \<longleftrightarrow> f64_le a x \<and> f64_le x b"

definition window_max_for :: "nat \<Rightarrow> nat result" where
  "window_max_for current_epoch =
     and_then (ok_or (checked_sub current_epoch VALIDATOR_HISTORY_FIRST_RELIABLE_EPOCH)
                (Steward ArithmeticError)) (\<lambda>d.
     cast_epoch (min d (MAX_ITEMS - 1)))"

definition validate :: "nat \<Rightarrow> nat \<Rightarrow> Parameters \<Rightarrow> unit result" where
  "validate current_epoch slots_per_epoch p =
     and_then (window_max_for current_epoch) (\<lambda>window_max.
     if window_max < p_mev_commission_range p
        \<or> window_max < p_epoch_credits_range p
        \<or> window_max < p_commission_range p
        \<or> \<not> f64_in (Fin 0) (Fin 1) (p_scoring_delinquency_threshold_ratio p)
        \<or> \<not> f64_in (Fin 0) (Fin 1) (p_instant_unstake_delinquency_threshold_ratio p)
        \<or> BASIS_POINTS_MAX < p_mev_commission_bps_threshold p
        \<or> COMMISSION_MAX < p_commission_threshold p
        \<or> COMMISSION_MAX < p_historical_commission_threshold p
        \<or> p_num_delegation_validators p = 0 \<or> MAX_VALIDATORS < p_num_delegation_validators p
        \<or> BASIS_POINTS_MAX < p_scoring_unstake_cap_bps p
        \<or> BASIS_POINTS_MAX < p_instant_unstake_cap_bps p
        \<or> BASIS_POINTS_MAX < p_stake_deposit_unstake_cap_bps p
        \<or> \<not> f64_in (Fin 0) EPOCH_PROGRESS_MAX (p_instant_unstake_epoch_progress p)
        \<or> \<not> f64_in (Fin 0) EPOCH_PROGRESS_MAX (p_instant_unstake_inputs_epoch_progress p)
        \<or> window_max < p_minimum_voting_epochs p
        \<or> \<not> (COMPUTE_SCORE_SLOT_RANGE_MIN \<le> p_compute_score_slot_range p
              \<and> p_compute_score_slot_range p \<le> slots_per_epoch)
        \<or> p_num_epochs_between_scoring p = 0
        \<or> NUM_EPOCHS_BETWEEN_SCORING_MAX < p_num_epochs_between_scoring p
        \<or> BASIS_POINTS_MAX < p_priority_fee_max_commission_bps p
        \<or> BASIS_POINTS_MAX < p_priority_fee_error_margin_bps p
        \<or> f64_lt (p_compute_score_epoch_progress p) (Fin 0)
        \<or> f64_le (Fin 1) (p_compute_score_epoch_progress p)
        \<or> BASIS_POINTS_MAX < p_directed_stake_unstake_cap_bps p
        \<or> window_max < p_jito_bam_window_epochs p
        \<or> p_jito_bam_window_epochs p < p_jito_bam_minimum_epochs p
     then Err (Steward InvalidParameterValue) else Ok ())"

definition set_if :: "'v option \<Rightarrow> ('v \<Rightarrow> 'p \<Rightarrow> 'p) \<Rightarrow> 'p \<Rightarrow> 'p" where
  "set_if v f p = (case v of None \<Rightarrow> p | Some x \<Rightarrow> f x p)"

definition merge_parameters :: "UpdateParametersArgs \<Rightarrow> Parameters \<Rightarrow> Parameters" where
  "merge_parameters a =
     set_if (a_jito_bam_window_epochs a) (\<lambda>v p. p\<lparr>p_jito_bam_window_epochs := v\<rparr>)
   \<circ> set_if (a_jito_bam_minimum_epochs a) (\<lambda>v p. p\<lparr>p_jito_bam_minimum_epochs := v\<rparr>)
   \<circ> set_if (a_undirected_stake_ceiling_lamports a)
       (\<lambda>v p. p\<lparr>p_undirected_stake_ceiling_lamports := to_le_bytes 8 v\<rparr>)
   \<circ> set_if (a_compute_score_epoch_progress a) (\<lambda>v p. p\<lparr>p_compute_score_epoch_progress := v\<rparr>)
   \<circ> set_if (a_minimum_voting_epochs a) (\<lambda>v p. p\<lparr>p_minimum_voting_epochs := v\<rparr>)
   \<circ> set_if (a_minimum_stake_lamports a) (\<lambda>v p. p\<lparr>p_minimum_stake_lamports := v\<rparr>)
   \<circ> set_if (a_num_epochs_between_scoring a) (\<lambda>v p. p\<lparr>p_num_epochs_between_scoring := v\<rparr>)
   \<circ> set_if (a_compute_score_slot_range a) (\<lambda>v p. p\<lparr>p_compute_score_slot_range := v\<rparr>)
   \<circ> set_if (a_instant_unstake_inputs_epoch_progress a)
       (\<lambda>v p. p\<lparr>p_instant_unstake_inputs_epoch_progress := v\<rparr>)
   \<circ> set_if (a_instant_unstake_epoch_progress a) (\<lambda>v p. p\<lparr>p_instant_unstake_epoch_progress := v\<rparr>)
   \<circ> set_if (a_directed_stake_unstake_cap_bps a) (\<lambda>v p. p\<lparr>p_directed_stake_unstake_cap_bps := v\<rparr>)
   \<circ> set_if (a_stake_deposit_unstake_cap_bps a) (\<lambda>v p. p\<lparr>p_stake_deposit_unstake_cap_bps := v\<rparr>)
   \<circ> set_if (a_instant_unstake_cap_bps a) (\<lambda>v p. p\<lparr>p_instant_unstake_cap_bps := v\<rparr>)
   \<circ> set_if (a_scoring_unstake_cap_bps a) (\<lambda>v p. p\<lparr>p_scoring_unstake_cap_bps := v\<rparr>)
   \<circ> set_if (a_num_delegation_validators a) (\<lambda>v p. p\<lparr>p_num_delegation_validators := v\<rparr>)
   \<circ> set_if (a_historical_commission_threshold a) (\<lambda>v p. p\<lparr>p_historical_commission_threshold := v\<rparr>)
   \<circ> set_if (a_commission_threshold a) (\<lambda>v p. p\<lparr>p_commission_threshold := v\<rparr>)
   \<circ> set_if (a_mev_commission_bps_threshold a) (\<lambda>v p. p\<lparr>p_mev_commission_bps_threshold := v\<rparr>)
   \<circ> set_if (a_instant_unstake_delinquency_threshold_ratio a)
       (\<lambda>v p. p\<lparr>p_instant_unstake_delinquency_threshold_ratio := v\<rparr>)
   \<circ> set_if (a_scoring_delinquency_threshold_ratio a)
       (\<lambda>v p. p\<lparr>p_scoring_delinquency_threshold_ratio := v\<rparr>)
   \<circ> set_if (a_commission_range a) (\<lambda>v p. p\<lparr>p_commission_range := v\<rparr>)
   \<circ> set_if (a_epoch_credits_range a) (\<lambda>v p. p\<lparr>p_epoch_credits_range := v\<rparr>)
   \<circ> set_if (a_mev_commission_range a) (\<lambda>v p. p\<lparr>p_mev_commission_range := v\<rparr>)"

definition get_valid_updated_parameters ::
  "UpdateParametersArgs \<Rightarrow> nat \<Rightarrow> nat \<Rightarrow> Parameters \<Rightarrow> Parameters result" where
  "get_valid_updated_parameters args current_epoch slots_per_epoch p =
     (let new_parameters = merge_parameters args p in
      and_then (validate current_epoch slots_per_epoch new_parameters) (\<lambda>_. Ok new_parameters))"

definition priority_fee_parameters ::
  "UpdatePriorityFeeParametersArgs \<Rightarrow> nat \<Rightarrow> nat \<Rightarrow> Parameters \<Rightarrow> Parameters result" where
  "priority_fee_parameters args current_epoch slots_per_epoch p =
     (let new_parameters =
        (set_if (f_priority_fee_scoring_start_epoch args) (\<lambda>v p. p\<lparr>p_priority_fee_scoring_start_epoch := v\<rparr>)
       \<circ> set_if (f_priority_fee_error_margin_bps args) (\<lambda>v p. p\<lparr>p_priority_fee_error_margin_bps := v\<rparr>)
       \<circ> set_if (f_priority_fee_max_commission_bps args) (\<lambda>v p. p\<lparr>p_priority_fee_max_commission_bps := v\<rparr>)
       \<circ> set_if (f_priority_fee_lookback_offset args) (\<lambda>v p. p\<lparr>p_priority_fee_lookback_offset := v\<rparr>)
       \<circ> set_if (f_priority_fee_lookback_epochs args) (\<lambda>v p. p\<lparr>p_priority_fee_lookback_epochs := v\<rparr>)) p in
      and_then (validate current_epoch slots_per_epoch new_parameters) (\<lambda>_. Ok new_parameters))"

section \<open>Config\<close>

record Config =
  c_stake_pool :: Pubkey
  c_validator_list :: Pubkey
  c_admin :: Pubkey
  c_parameters_authority :: Pubkey
  c_blacklist_authority :: Pubkey
  c_validator_history_blacklist :: LargeBitMask
  c_parameters :: Parameters
  c_paused :: U8Bool
  c_priority_fee_parameters_authority :: Pubkey
  c_directed_stake_meta_upload_authority :: Pubkey
  c_directed_stake_whitelist_authority :: Pubkey
  c_directed_stake_ticket_override_authority :: Pubkey

definition is_paused :: "Config \<Rightarrow> bool" where
  "is_paused c = U8Bool_is_true (c_paused c)"

definition set_paused :: "bool \<Rightarrow> Config \<Rightarrow> Config" where
  "set_paused b c = c\<lparr>c_paused := U8Bool_from b\<rparr>"

definition max_avg_commission :: "Config \<Rightarrow> nat" where
  "max_avg_commission c =
     saturating_add U16_MAX (p_priority_fee_max_commission_bps (c_parameters c))
       (p_priority_fee_error_margin_bps (c_parameters c))"

definition priority_fee_epoch_range :: "nat \<Rightarrow> Config \<Rightarrow> nat \<times> nat" where
  "priority_fee_epoch_range current_epoch c =
     (let end_epoch = saturating_sub current_epoch (p_priority_fee_lookback_offset (c_parameters c))
      in (saturating_sub end_epoch (p_priority_fee_lookback_epochs (c_parameters c)), end_epoch))"

lemma set_paused_is_paused [simp]: "is_paused (set_paused b c) = b"
  by (simp add: is_paused_def set_paused_def)

text \<open>Sample parameters and a sample configuration, for the witnesses.\<close>

definition sample_parameters :: Parameters where
  "sample_parameters = \<lparr>p_mev_commission_range = 30, p_epoch_credits_range = 30, p_commission_range = 30,
     p_mev_commission_bps_threshold = 1000, p_scoring_delinquency_threshold_ratio = Fin (3 / 4),
     p_instant_unstake_delinquency_threshold_ratio = Fin (1 / 2), p_commission_threshold = 5,
     p_historical_commission_threshold = 50, p_priority_fee_lookback_epochs = 10,
     p_priority_fee_lookback_offset = 2, p_priority_fee_max_commission_bps = 5000,
     p_priority_fee_error_margin_bps = 100, p_num_delegation_validators = 2,
     p_scoring_unstake_cap_bps = 750, p_instant_unstake_cap_bps = 1000,
     p_stake_deposit_unstake_cap_bps = 1000, p_compute_score_slot_range = 1000,
     p_instant_unstake_epoch_progress = Fin (1 / 2), p_instant_unstake_inputs_epoch_progress = Fin (1 / 2),
     p_num_epochs_between_scoring = 10, p_minimum_stake_lamports = 5000000, p_minimum_voting_epochs = 5,
     p_priority_fee_scoring_start_epoch = 800, p_jito_bam_minimum_epochs = 1, p_jito_bam_window_epochs = 3,
     p_compute_score_epoch_progress = Fin (1 / 2), p_directed_stake_unstake_cap_bps = 1000,
     p_undirected_stake_ceiling_lamports = to_le_bytes 8 10000\<rparr>"

definition sample_config :: Config where
  "sample_config = \<lparr>c_stake_pool = replicate 32 1, c_validator_list = replicate 32 2,
     c_admin = replicate 32 3, c_parameters_authority = replicate 32 3, c_blacklist_authority = replicate 32 3,
     c_validator_history_blacklist = LargeBitMask_default, c_parameters = sample_parameters,
     c_paused = U8Bool_from False, c_priority_fee_parameters_authority = replicate 32 3,
     c_directed_stake_meta_upload_authority = replicate 32 3,
     c_directed_stake_whitelist_authority = replicate 32 3,
     c_directed_stake_ticket_override_authority = replicate 32 3\<rparr>"

end
