(* ===== verification/Score.thy ===== *)
theory Score
  imports Config_Params
begin

unbundle bit_operations_syntax

text \<open>
  Validator scoring: programs/steward/src/score.rs and score/running_bam.rs. A score packs
  four tiers into one 64-bit word, so it is a word here; the binary filters are the numbers
  0 and 1 that multiply it. Ratios are computed on the floats of \<open>F64\<close>.
\<close>

section \<open>The packed score\<close>

record ValidatorScoreComponents =
  sc_inflation_commission :: nat
  sc_mev_commission_bps :: nat
  sc_validator_age :: nat
  sc_vote_credits :: nat

definition decode :: "64 word \<Rightarrow> ValidatorScoreComponents" where
  "decode raw_score =
     (let inflation_score = drop_bit 56 raw_score AND 0xFF;
          mev_score = drop_bit 42 raw_score AND 0x3FFF
      in \<lparr>sc_inflation_commission = saturating_sub 100 (cast U8_MAX (unat inflation_score)),
          sc_mev_commission_bps = saturating_sub 10000 (cast U16_MAX (unat mev_score)),
          sc_validator_age = cast U32_MAX (unat (drop_bit 25 raw_score AND 0x1FFFF)),
          sc_vote_credits = cast U32_MAX (unat (raw_score AND 0x1FFFFFF))\<rparr>)"

definition encode_validator_score :: "nat \<Rightarrow> nat \<Rightarrow> nat \<Rightarrow> nat \<Rightarrow> 64 word" where
  "encode_validator_score inflation_commission mev_commission_bps age vote_credits =
     (let inflation_score = saturating_sub 100 (min inflation_commission COMMISSION_MAX);
          mev_score = saturating_sub BASIS_POINTS_MAX (min mev_commission_bps BASIS_POINTS_MAX);
          age_score = min age (2 ^ 17 - 1);
          credits_score = min vote_credits (2 ^ 25 - 1)
      in push_bit 56 (word_of_nat inflation_score) OR push_bit 42 (word_of_nat mev_score)
         OR push_bit 25 (word_of_nat age_score) OR word_of_nat credits_score)"

definition calculate_avg_mev_commission :: "ValidatorHistory \<Rightarrow> nat \<Rightarrow> nat \<Rightarrow> nat result" where
  "calculate_avg_mev_commission validator current_epoch window_size =
     (let start_epoch = saturating_sub current_epoch window_size in
      and_then (mev_commission_range start_epoch current_epoch (vh_history validator)) (\<lambda>window.
      let (s, c) = fold (\<lambda>c (s, n). (saturating_add U64_MAX s c, n + 1)) (List.map_filter id window) (0, 0) in
      if c = 0 then Ok BASIS_POINTS_MAX
      else let num = (case checked_add U64_MAX s (saturating_sub c 1) of Some x \<Rightarrow> x | None \<Rightarrow> s);
               avg = (case checked_div num c of Some x \<Rightarrow> x | None \<Rightarrow> BASIS_POINTS_MAX)
           in Ok (min avg BASIS_POINTS_MAX)))"

section \<open>Components of the score\<close>

text \<open>\<^verbatim>\<open>max_by_key\<close>, which gives the last of several maxima.\<close>

definition max_by_key :: "('a \<Rightarrow> nat) \<Rightarrow> 'a list \<Rightarrow> 'a option" where
  "max_by_key key xs =
     fold (\<lambda>x acc. case acc of None \<Rightarrow> Some x | Some y \<Rightarrow> if key y \<le> key x then Some x else Some y) xs None"

text \<open>
  The values of a window from the newest back, each with its epoch: the iterator
  \<^verbatim>\<open>.iter().rev().enumerate().filter_map(..)\<close> that the commission checks share.
\<close>

definition dated_window :: "nat \<Rightarrow> nat option list \<Rightarrow> (nat \<times> nat option) list" where
  "dated_window current_epoch window =
     List.map_filter (\<lambda>(i, commission).
        map_option (\<lambda>c. (c, checked_sub current_epoch (cast U16_MAX i))) commission)
       (enumerate 0 (rev window))"

definition max_in_window :: "nat \<Rightarrow> nat option list \<Rightarrow> nat \<times> nat option \<Rightarrow> nat \<times> nat option" where
  "max_in_window current_epoch window default_pair =
     (case max_by_key fst (dated_window current_epoch window) of
        Some m \<Rightarrow> m | None \<Rightarrow> default_pair)"

definition calculate_max_mev_commission :: "nat option list \<Rightarrow> nat \<Rightarrow> nat \<Rightarrow> (nat \<times> nat \<times> nat) result" where
  "calculate_max_mev_commission window current_epoch threshold =
     (let (max_commission, max_epoch) =
            max_in_window current_epoch window (BASIS_POINTS_MAX, Some current_epoch) in
      and_then (ok_or max_epoch (Steward ArithmeticError)) (\<lambda>max_epoch.
      Ok (if max_commission \<le> threshold then 1 else 0, max_commission, max_epoch)))"

definition sum_u32 :: "nat list \<Rightarrow> nat result" where
  "sum_u32 xs = for_each (\<lambda>x s. plus_or_panic U32_MAX s x) xs 0"

text \<open>The delinquency loop with its \<^verbatim>\<open>break\<close>; the result is (score, ratio, epoch).\<close>

fun delinquency_loop :: "nat \<Rightarrow> f64 \<Rightarrow> (nat \<times> nat option \<times> nat option) list \<Rightarrow> (nat \<times> f64 \<times> nat) result" where
  "delinquency_loop start threshold [] = Ok (1, Fin 1, EPOCH_DEFAULT)"
| "delinquency_loop start threshold ((i, maybe_credits, maybe_blocks) # rest) =
     (case maybe_blocks of
        None \<Rightarrow> delinquency_loop start threshold rest
      | Some blocks \<Rightarrow>
          let credits = (case maybe_credits of Some c \<Rightarrow> c | None \<Rightarrow> 0) in
          and_then (times_or_panic U32_MAX blocks TVC_MULTIPLIER) (\<lambda>max_credits.
          let ratio = f64_div (f64_of_nat credits) (f64_of_nat max_credits) in
          if f64_lt ratio threshold
          then and_then (ok_or (checked_add U16_MAX start (cast U16_MAX i)) (Steward ArithmeticError))
                 (\<lambda>e. Ok (0, ratio, e))
          else delinquency_loop start threshold rest))"

definition calculate_epoch_credits ::
  "nat option list \<Rightarrow> nat option list \<Rightarrow> nat \<Rightarrow> f64 \<Rightarrow> (f64 \<times> nat \<times> f64 \<times> nat) result" where
  "calculate_epoch_credits credits_window blocks_window epoch_credits_start threshold =
     (if credits_window = [] \<or> blocks_window = [] then Err (Steward ArithmeticError)
      else and_then (sum_u32 (List.map_filter id credits_window)) (\<lambda>credits_sum.
        let average_vote_credits = f64_div (f64_of_nat credits_sum) (f64_of_nat (length credits_window));
            nonzero_blocks = length (filter (\<lambda>b. b \<noteq> None) blocks_window) in
        if nonzero_blocks = 0 then Err (Steward ArithmeticError)
        else and_then (sum_u32 (List.map_filter id blocks_window)) (\<lambda>blocks_sum.
          let average_blocks = f64_div (f64_of_nat blocks_sum) (f64_of_nat nonzero_blocks) in
          and_then (delinquency_loop epoch_credits_start threshold
                      (enumerate 0 (zip credits_window blocks_window))) (\<lambda>(score, ratio, epoch).
          Ok (f64_div average_vote_credits (f64_mul average_blocks (f64_of_nat TVC_MULTIPLIER)),
              score, ratio, epoch)))))"

definition calculate_max_commission :: "nat option list \<Rightarrow> nat \<Rightarrow> nat \<Rightarrow> (nat \<times> nat \<times> nat) result" where
  "calculate_max_commission window current_epoch threshold =
     (let (max_commission, max_epoch) = max_in_window current_epoch window (0, Some current_epoch) in
      and_then (ok_or max_epoch (Steward ArithmeticError)) (\<lambda>max_epoch.
      Ok (if max_commission \<le> threshold then 1 else 0, max_commission, max_epoch)))"

definition calculate_historical_commission :: "ValidatorHistory \<Rightarrow> nat \<Rightarrow> nat \<Rightarrow> (nat \<times> nat \<times> nat) result" where
  "calculate_historical_commission validator current_epoch threshold =
     (if circ_is_empty (vh_history validator) then Err (Steward ArithmeticError)
      else and_then (commission_range VALIDATOR_HISTORY_FIRST_RELIABLE_EPOCH current_epoch
                       (vh_history validator)) (\<lambda>window.
        let (max_commission, max_epoch) =
              max_in_window current_epoch window (0, Some VALIDATOR_HISTORY_FIRST_RELIABLE_EPOCH) in
        and_then (ok_or max_epoch (Steward ArithmeticError)) (\<lambda>max_epoch.
        Ok (if max_commission \<le> threshold then 1 else 0, max_commission, max_epoch))))"

definition calculate_superminority :: "ValidatorHistory \<Rightarrow> nat \<Rightarrow> nat \<Rightarrow> (nat \<times> nat) result" where
  "calculate_superminority validator current_epoch window_size =
     and_then (epoch_credits_latest (vh_history validator)) (\<lambda>credits.
     if credits \<noteq> None then
       and_then (superminority_latest (vh_history validator)) (\<lambda>s.
       case s of
         Some superminority \<Rightarrow> if superminority = 1 then Ok (0, current_epoch) else Ok (1, EPOCH_DEFAULT)
       | None \<Rightarrow> Err (Steward StakeHistoryNotRecentEnough))
     else
       and_then (ok_or (checked_sub current_epoch window_size) (Steward ArithmeticError)) (\<lambda>start.
       and_then (superminority_range start current_epoch (vh_history validator)) (\<lambda>window.
       let (status, epoch) = (case dated_window current_epoch window of
                                [] \<Rightarrow> (0, Some current_epoch) | d # _ \<Rightarrow> d) in
       and_then (ok_or epoch (Steward ArithmeticError)) (\<lambda>epoch.
       if status = 1 then Ok (0, epoch) else Ok (1, EPOCH_DEFAULT)))))"

definition calculate_blacklist_score :: "Config \<Rightarrow> nat \<Rightarrow> nat result" where
  "calculate_blacklist_score config validator_index =
     and_then (LargeBitMask_get validator_index (c_validator_history_blacklist config)) (\<lambda>b.
     Ok (if b then 0 else 1))"

definition calculate_instant_unstake_merkle_root_upload_auth ::
  "MerkleRootUploadAuthority option \<Rightarrow> bool" where
  "calculate_instant_unstake_merkle_root_upload_auth latest_authority =
     (case latest_authority of
        Some a \<Rightarrow> (case a of Unset \<Rightarrow> False | OldJitoLabs \<Rightarrow> False | TipRouter \<Rightarrow> False | _ \<Rightarrow> True)
      | None \<Rightarrow> False)"

definition calculate_merkle_root_authority_score :: "ValidatorHistory \<Rightarrow> nat result" where
  "calculate_merkle_root_authority_score validator =
     and_then (merkle_root_upload_authority_latest (vh_history validator)) (\<lambda>a.
     Ok (if calculate_instant_unstake_merkle_root_upload_auth a then 0 else 1))"

definition calculate_priority_fee_merkle_root_authority_score :: "ValidatorHistory \<Rightarrow> nat result" where
  "calculate_priority_fee_merkle_root_authority_score validator =
     and_then (priority_fee_merkle_root_upload_authority_latest (vh_history validator)) (\<lambda>a.
     Ok (if calculate_instant_unstake_merkle_root_upload_auth a then 0 else 1))"

definition calculate_realized_commission_bps :: "nat option \<Rightarrow> nat option \<Rightarrow> nat" where
  "calculate_realized_commission_bps tips total_fees =
     (case total_fees of
        None \<Rightarrow> 0
      | Some fees \<Rightarrow>
          if fees = 0 then 0
          else let tips = (case tips of Some t \<Rightarrow> t | None \<Rightarrow> 0);
                   validators_rake = saturating_sub fees tips;
                   numerator = saturating_mul U64_MAX validators_rake BASIS_POINTS_MAX;
                   commission = (case checked_div numerator fees of Some c \<Rightarrow> c | None \<Rightarrow> 0)
               in if commission \<le> U16_MAX then commission else BASIS_POINTS_MAX)"

text \<open>
  One step of the \<^verbatim>\<open>flat_map\<close> closure over the priority fee window, on the collected
  commissions, the largest one and its epoch.
\<close>

definition priority_fee_step ::
  "nat \<Rightarrow> nat \<times> (nat option \<times> nat option) \<times> MerkleRootUploadAuthority option \<Rightarrow>
   nat list \<times> nat \<times> nat \<Rightarrow> nat list \<times> nat \<times> nat" where
  "priority_fee_step start_epoch item acc =
     (case (item, acc) of ((relative_epoch, (tips, total_fees), authority), (cs, max_c, max_e)) \<Rightarrow>
        case authority of
          None \<Rightarrow> acc
        | Some a \<Rightarrow>
            if a = Unset then acc
            else let bps = (if a = DNE then BASIS_POINTS_MAX
                            else calculate_realized_commission_bps tips total_fees) in
              if max_c < bps
              then (cs @ [bps], bps, saturating_add U16_MAX start_epoch (cast U16_MAX relative_epoch))
              else (cs @ [bps], max_c, max_e))"

definition calculate_priority_fee_commission ::
  "Config \<Rightarrow> ValidatorHistory \<Rightarrow> nat \<Rightarrow> (nat \<times> nat \<times> nat) result" where
  "calculate_priority_fee_commission config validator current_epoch =
     (let (start_epoch, end_epoch) = priority_fee_epoch_range current_epoch config;
          h = vh_history validator in
      and_then (priority_fee_tips_range start_epoch end_epoch h) (\<lambda>tips.
      and_then (total_priority_fees_range start_epoch end_epoch h) (\<lambda>fees.
      and_then (priority_fee_merkle_root_upload_authority_range start_epoch end_epoch h) (\<lambda>auths.
      let (commissions, max_c, max_e) =
            fold (priority_fee_step start_epoch) (enumerate 0 (zip (zip tips fees) auths)) ([], 0, EPOCH_DEFAULT) in
      and_then (arr_get tips 0) (\<lambda>tips0.
      and_then (if tips0 = None then arr_get fees 0 else Ok None) (\<lambda>fees0.
      if tips0 = None \<and> fees0 = None then Ok (1, 0, max_e)
      else if commissions = [] then Ok (1, 0, max_e)
      else let num_epochs = length commissions in
        and_then (for_each (\<lambda>v agg. ok_or (checked_add U64_MAX agg v) Panic) commissions 0) (\<lambda>total.
        and_then (ok_or (checked_sub num_epochs 1) (Steward ArithmeticError)) (\<lambda>n1.
        and_then (ok_or (checked_add U64_MAX total n1) (Steward ArithmeticError)) (\<lambda>num.
        and_then (ok_or (checked_div num num_epochs) (Steward ArithmeticError)) (\<lambda>avg.
        and_then (ok_or (try_into U16_MAX avg) (Steward ArithmeticError)) (\<lambda>avg_commission.
        if current_epoch < p_priority_fee_scoring_start_epoch (c_parameters config)
        then Ok (1, avg_commission, EPOCH_DEFAULT)
        else if avg_commission \<le> max_avg_commission config
        then Ok (1, avg_commission, max_e)
        else Ok (0, avg_commission, max_e))))))))))))"

definition calculate_running_bam_score :: "nat option list \<Rightarrow> nat \<Rightarrow> nat" where
  "calculate_running_bam_score window minimum_epochs =
     (let num_missed_epochs = length (filter (\<lambda>e. e = None) window);
          bam_connected_count = length (filter (\<lambda>e. e = Some 1) window)
      in if saturating_sub minimum_epochs num_missed_epochs \<le> bam_connected_count then 1 else 0)"

section \<open>The score of a validator\<close>

record ScoreDetails =
  sd_max_mev_commission :: nat
  sd_max_mev_commission_epoch :: nat
  sd_superminority_epoch :: nat
  sd_delinquency_ratio :: f64
  sd_delinquency_epoch :: nat
  sd_max_commission :: nat
  sd_max_commission_epoch :: nat
  sd_max_historical_commission :: nat
  sd_max_historical_commission_epoch :: nat
  sd_avg_priority_fee_commission :: nat
  sd_max_priority_fee_commission_epoch :: nat

record ScoreComponentsV5 =
  s_score :: "64 word"
  s_raw_score :: "64 word"
  s_commission_max :: nat
  s_mev_commission_avg :: nat
  s_validator_age :: nat
  s_vote_credits_avg :: nat
  s_mev_commission_score :: nat
  s_blacklisted_score :: nat
  s_superminority_score :: nat
  s_delinquency_score :: nat
  s_running_bam_score :: nat
  s_commission_score :: nat
  s_historical_commission_score :: nat
  s_merkle_root_upload_authority_score :: nat
  s_vote_account :: Pubkey
  s_epoch :: nat
  s_details :: ScoreDetails
  s_priority_fee_commission_score :: nat
  s_priority_fee_merkle_root_upload_authority_score :: nat

abbreviation arith :: "nat option \<Rightarrow> nat result" where
  "arith m \<equiv> ok_or m (Steward ArithmeticError)"

text \<open>\<^verbatim>\<open>u64\<close> multiplication, which panics on overflow.\<close>

definition word_times :: "64 word \<Rightarrow> nat \<Rightarrow> 64 word result" where
  "word_times w n = (if unat w * n \<le> U64_MAX then Ok (w * word_of_nat n) else Err Panic)"

definition validator_score ::
  "ValidatorHistory \<Rightarrow> ClusterHistory \<Rightarrow> Config \<Rightarrow> nat \<Rightarrow> nat \<Rightarrow> ScoreComponentsV5 result" where
  "validator_score validator cluster config current_epoch tvc_activation_epoch =
     (let params = c_parameters config; h = vh_history validator in
      and_then (arith (checked_sub current_epoch (p_mev_commission_range params))) (\<lambda>mev_start.
      and_then (mev_commission_range mev_start current_epoch h) (\<lambda>mev_commission_window.
      and_then (arith (checked_sub current_epoch (p_epoch_credits_range params))) (\<lambda>epoch_credits_start.
      and_then (arith (checked_sub current_epoch 1)) (\<lambda>epoch_credits_end.
      and_then (epoch_credits_range_normalized epoch_credits_start epoch_credits_end tvc_activation_epoch h)
        (\<lambda>credits_window.
      and_then (total_blocks_range epoch_credits_start epoch_credits_end (ch_history cluster))
        (\<lambda>total_blocks_window.
      and_then (arith (checked_sub current_epoch (p_commission_range params))) (\<lambda>commission_start.
      and_then (commission_range commission_start current_epoch h) (\<lambda>commission_window.
      and_then (calculate_max_mev_commission mev_commission_window current_epoch
                  (p_mev_commission_bps_threshold params))
        (\<lambda>(mev_commission_score, max_mev_commission, max_mev_commission_epoch).
      and_then (calculate_epoch_credits credits_window total_blocks_window epoch_credits_start
                  (p_scoring_delinquency_threshold_ratio params))
        (\<lambda>(vote_credits_ratio, delinquency_score, delinquency_ratio, delinquency_epoch).
      and_then (calculate_max_commission commission_window current_epoch (p_commission_threshold params))
        (\<lambda>(commission_score, max_commission, max_commission_epoch).
      and_then (calculate_avg_mev_commission validator current_epoch (p_mev_commission_range params))
        (\<lambda>mev_commission_avg.
      let scaled_ratio = f64_to_uint U64_MAX (f64_mul vote_credits_ratio (f64_of_nat VOTE_CREDITS_RATIO_MAX));
          vote_credits_avg = min scaled_ratio (2 ^ 25 - 1);
          raw_score = encode_validator_score max_commission mev_commission_avg
                        (validator_age validator) vote_credits_avg in
      and_then (calculate_historical_commission validator current_epoch
                  (p_historical_commission_threshold params))
        (\<lambda>(historical_commission_score, max_historical_commission, max_historical_commission_epoch).
      and_then (calculate_superminority validator current_epoch (p_commission_range params))
        (\<lambda>(superminority_score, superminority_epoch).
      and_then (calculate_blacklist_score config (vh_index validator)) (\<lambda>blacklisted_score.
      and_then (calculate_merkle_root_authority_score validator) (\<lambda>merkle_score.
      and_then (calculate_priority_fee_merkle_root_authority_score validator) (\<lambda>fee_merkle_score.
      and_then (calculate_priority_fee_commission config validator current_epoch)
        (\<lambda>(fee_commission_score, avg_fee_commission, max_fee_commission_epoch).
      and_then (arith (checked_sub current_epoch 1)) (\<lambda>bam_window_end.
      and_then (arith (checked_sub bam_window_end (p_jito_bam_window_epochs params))) (\<lambda>bam_start.
      and_then (is_bam_connected_range bam_start bam_window_end h) (\<lambda>bam_window.
      let running_bam_score = calculate_running_bam_score bam_window (p_jito_bam_minimum_epochs params) in
      and_then (for_each (\<lambda>n s. word_times s n)
                  [mev_commission_score, commission_score, historical_commission_score, blacklisted_score,
                   superminority_score, delinquency_score, running_bam_score, merkle_score,
                   fee_commission_score, fee_merkle_score] raw_score) (\<lambda>score.
      Ok \<lparr>s_score = score, s_raw_score = raw_score, s_commission_max = max_commission,
          s_mev_commission_avg = mev_commission_avg, s_validator_age = validator_age validator,
          s_vote_credits_avg = vote_credits_avg, s_mev_commission_score = mev_commission_score,
          s_blacklisted_score = blacklisted_score, s_superminority_score = superminority_score,
          s_delinquency_score = delinquency_score, s_running_bam_score = running_bam_score,
          s_commission_score = commission_score,
          s_historical_commission_score = historical_commission_score,
          s_merkle_root_upload_authority_score = merkle_score,
          s_vote_account = vh_vote_account validator, s_epoch = current_epoch,
          s_details = \<lparr>sd_max_mev_commission = max_mev_commission,
            sd_max_mev_commission_epoch = max_mev_commission_epoch,
            sd_superminority_epoch = superminority_epoch, sd_delinquency_ratio = delinquency_ratio,
            sd_delinquency_epoch = delinquency_epoch, sd_max_commission = max_commission,
            sd_max_commission_epoch = max_commission_epoch,
            sd_max_historical_commission = max_historical_commission,
            sd_max_historical_commission_epoch = max_historical_commission_epoch,
            sd_avg_priority_fee_commission = avg_fee_commission,
            sd_max_priority_fee_commission_epoch = max_fee_commission_epoch\<rparr>,
          s_priority_fee_commission_score = fee_commission_score,
          s_priority_fee_merkle_root_upload_authority_score = fee_merkle_score\<rparr>)))))))))))))))))))))))"

section \<open>Instant unstake\<close>

record InstantUnstakeDetails =
  id_epoch_credits_latest :: nat
  id_vote_account_last_update_slot :: nat
  id_total_blocks_latest :: nat
  id_cluster_history_slot_index :: nat
  id_commission :: nat
  id_mev_commission :: nat

record InstantUnstakeComponentsV3 =
  iu_instant_unstake :: bool
  iu_delinquency_check :: bool
  iu_commission_check :: bool
  iu_mev_commission_check :: bool
  iu_is_blacklisted :: bool
  iu_is_bad_merkle_root_upload_authority :: bool
  iu_is_bad_priority_fee_merkle_root_upload_authority :: bool
  iu_vote_account :: Pubkey
  iu_epoch :: nat
  iu_details :: InstantUnstakeDetails

definition calculate_instant_unstake_delinquency :: "nat \<Rightarrow> nat \<Rightarrow> nat \<Rightarrow> nat \<Rightarrow> f64 \<Rightarrow> bool result" where
  "calculate_instant_unstake_delinquency blocks_latest cluster_history_slot_index
     epoch_credits validator_history_slot_index threshold =
     (if cluster_history_slot_index = 0 \<or> validator_history_slot_index = 0
      then Err (Steward ArithmeticError)
      else let blocks_produced_rate = f64_div (f64_of_nat blocks_latest) (f64_of_nat cluster_history_slot_index);
               vote_credits_rate = f64_div (f64_of_nat epoch_credits) (f64_of_nat validator_history_slot_index)
           in if f64_lt (Fin 0) blocks_produced_rate
              then Ok (f64_lt (f64_div vote_credits_rate
                         (f64_mul blocks_produced_rate (f64_of_nat TVC_MULTIPLIER))) threshold)
              else Ok False)"

definition calculate_instant_unstake_mev_commission :: "ValidatorHistory \<Rightarrow> nat \<Rightarrow> nat \<Rightarrow> (bool \<times> nat) result" where
  "calculate_instant_unstake_mev_commission validator current_epoch threshold =
     and_then (mev_commission_range (saturating_sub current_epoch 1) current_epoch (vh_history validator)) (\<lambda>w.
     let bps = (case List.map_filter id w of [] \<Rightarrow> 0 | c # cs \<Rightarrow> fold max cs c)
     in Ok (threshold < bps, bps))"

definition calculate_instant_unstake_commission :: "ValidatorHistory \<Rightarrow> nat \<Rightarrow> (bool \<times> nat) result" where
  "calculate_instant_unstake_commission validator threshold =
     and_then (commission_latest (vh_history validator)) (\<lambda>c.
     let commission = (case c of Some c \<Rightarrow> c | None \<Rightarrow> COMMISSION_MAX)
     in Ok (threshold < commission, commission))"

definition calculate_instant_unstake_blacklist :: "Config \<Rightarrow> nat \<Rightarrow> bool result" where
  "calculate_instant_unstake_blacklist config validator_index =
     LargeBitMask_get validator_index (c_validator_history_blacklist config)"

definition instant_unstake_validator ::
  "ValidatorHistory \<Rightarrow> ClusterHistory \<Rightarrow> Config \<Rightarrow> nat \<Rightarrow> nat \<Rightarrow> nat \<Rightarrow> InstantUnstakeComponentsV3 result" where
  "instant_unstake_validator validator cluster config epoch_start_slot current_epoch tvc_activation_epoch =
     (let params = c_parameters config; h = vh_history validator in
      and_then (arith (checked_sub (cluster_history_last_update_slot cluster) epoch_start_slot)) (\<lambda>cluster_index.
      and_then (total_blocks_latest (ch_history cluster)) (\<lambda>blocks.
      and_then (ok_or blocks (Steward ClusterHistoryNotRecentEnough)) (\<lambda>blocks.
      and_then (vote_account_last_update_slot_latest h) (\<lambda>last_slot.
      and_then (ok_or last_slot (Steward VoteHistoryNotRecentEnough)) (\<lambda>last_slot.
      and_then (arith (checked_sub last_slot epoch_start_slot)) (\<lambda>validator_index.
      and_then (epoch_credits_latest_normalized current_epoch tvc_activation_epoch h) (\<lambda>credits.
      let credits = (case credits of Some c \<Rightarrow> c | None \<Rightarrow> 0) in
      and_then (calculate_instant_unstake_delinquency blocks cluster_index credits validator_index
                  (p_instant_unstake_delinquency_threshold_ratio params)) (\<lambda>delinquency_check.
      and_then (calculate_instant_unstake_mev_commission validator current_epoch
                  (p_mev_commission_bps_threshold params)) (\<lambda>(mev_commission_check, mev_commission_bps).
      and_then (calculate_instant_unstake_commission validator (p_commission_threshold params))
        (\<lambda>(commission_check, commission).
      and_then (calculate_instant_unstake_blacklist config (vh_index validator)) (\<lambda>is_blacklisted.
      and_then (merkle_root_upload_authority_latest h) (\<lambda>authority.
      and_then (priority_fee_merkle_root_upload_authority_latest h) (\<lambda>fee_authority.
      let bad_authority = calculate_instant_unstake_merkle_root_upload_auth authority;
          bad_fee_authority = calculate_instant_unstake_merkle_root_upload_auth fee_authority in
      Ok \<lparr>iu_instant_unstake = (delinquency_check \<or> commission_check \<or> mev_commission_check \<or>
            is_blacklisted \<or> bad_authority \<or> bad_fee_authority),
          iu_delinquency_check = delinquency_check, iu_commission_check = commission_check,
          iu_mev_commission_check = mev_commission_check, iu_is_blacklisted = is_blacklisted,
          iu_is_bad_merkle_root_upload_authority = bad_authority,
          iu_is_bad_priority_fee_merkle_root_upload_authority = bad_fee_authority,
          iu_vote_account = vh_vote_account validator, iu_epoch = current_epoch,
          iu_details = \<lparr>id_epoch_credits_latest = credits, id_vote_account_last_update_slot = last_slot,
            id_total_blocks_latest = blocks, id_cluster_history_slot_index = cluster_index,
            id_commission = commission, id_mev_commission = mev_commission_bps\<rparr>\<rparr>))))))))))))))"

section \<open>Facts about the packed score\<close>

lemma nat_or_add:
  assumes "(b :: nat) < 2 ^ k"
  shows "push_bit k a OR b = a * 2 ^ k + b"
proof -
  have "push_bit k a AND b = 0"
  proof (rule bit_eqI)
    fix n
    have "\<not> bit b n" if "k \<le> n"
    proof -
      have "take_bit k b = b" using assms by (simp add: take_bit_nat_eq_self_iff)
      then show ?thesis using that by (metis bit_take_bit_iff leD)
    qed
    then show "bit (push_bit k a AND b) n \<longleftrightarrow> bit (0 :: nat) n"
      by (auto simp: bit_and_iff bit_push_bit_iff)
  qed
  then have "push_bit k a + b = push_bit k a OR b" by (rule disjunctive_add_eq_or)
  then show ?thesis by (simp add: push_bit_eq_mult)
qed

text \<open>The four tiers as numbers, and the number their packing is.\<close>

definition tiers :: "nat \<Rightarrow> nat \<Rightarrow> nat \<Rightarrow> nat \<Rightarrow> nat \<times> nat \<times> nat \<times> nat" where
  "tiers commission mev age credits =
     (100 - min commission 100, 10000 - min mev 10000, min age (2 ^ 17 - 1), min credits (2 ^ 25 - 1))"

definition pack :: "nat \<times> nat \<times> nat \<times> nat \<Rightarrow> nat" where
  "pack t = (case t of (i, m, a, v) \<Rightarrow> i * 2 ^ 56 + m * 2 ^ 42 + a * 2 ^ 25 + v)"

definition valid_tiers :: "nat \<times> nat \<times> nat \<times> nat \<Rightarrow> bool" where
  "valid_tiers t = (case t of (i, m, a, v) \<Rightarrow> i < 2 ^ 8 \<and> m < 2 ^ 14 \<and> a < 2 ^ 17 \<and> v < 2 ^ 25)"

lemma valid_tiers [simp]: "valid_tiers (tiers c m a v)"
  by (auto simp: valid_tiers_def tiers_def)

lemma pack_less: "valid_tiers t \<Longrightarrow> pack t < 2 ^ 64"
  by (cases t) (auto simp: valid_tiers_def pack_def)

lemma unat_encode: "unat (encode_validator_score c m a v) = pack (tiers c m a v)"
proof -
  define i j k l where "i = 100 - min c 100" and "j = 10000 - min m 10000"
    and "k = min a (2 ^ 17 - 1)" and "l = min v (2 ^ 25 - 1)"
  have lim: "i \<le> 100" "j \<le> 10000" "k < 2 ^ 17" "l < 2 ^ 25"
    by (auto simp: i_def j_def k_def l_def)
  have "push_bit 56 i OR push_bit 42 j = push_bit 42 (push_bit 14 i OR j)"
    by (simp add: push_bit_or push_bit_push_bit)
  also have "push_bit 14 i OR j = i * 2 ^ 14 + j" using lim by (intro nat_or_add) simp
  finally have 1: "push_bit 56 i OR push_bit 42 j = push_bit 42 (i * 2 ^ 14 + j)" .
  have "push_bit 42 (i * 2 ^ 14 + j) OR push_bit 25 k = push_bit 25 (push_bit 17 (i * 2 ^ 14 + j) OR k)"
    by (simp add: push_bit_or push_bit_push_bit)
  also have "push_bit 17 (i * 2 ^ 14 + j) OR k = (i * 2 ^ 14 + j) * 2 ^ 17 + k"
    using lim by (intro nat_or_add) simp
  finally have 2: "push_bit 42 (i * 2 ^ 14 + j) OR push_bit 25 k
      = push_bit 25 ((i * 2 ^ 14 + j) * 2 ^ 17 + k)" .
  have 3: "push_bit 25 ((i * 2 ^ 14 + j) * 2 ^ 17 + k) OR l = ((i * 2 ^ 14 + j) * 2 ^ 17 + k) * 2 ^ 25 + l"
    using lim by (intro nat_or_add) simp
  have u: "unat (push_bit n (word_of_nat x :: 64 word)) = push_bit n x" if "push_bit n x < 2 ^ 64" for n x
    using that by (simp only: push_bit_of_nat) (simp add: unsigned_of_nat take_bit_nat_eq_self)
  have "push_bit 56 i < 2 ^ 64" "push_bit 42 j < 2 ^ 64" "push_bit 25 k < 2 ^ 64"
    using lim by (simp_all add: push_bit_eq_mult)
  note parts = u [OF this(1)] u [OF this(2)] u [OF this(3)]
  have low: "unat (word_of_nat l :: 64 word) = l"
    using lim by (simp add: unsigned_of_nat take_bit_nat_eq_self)
  have "encode_validator_score c m a v = push_bit 56 (word_of_nat i) OR push_bit 42 (word_of_nat j)
      OR push_bit 25 (word_of_nat k) OR word_of_nat l"
    by (simp only: encode_validator_score_def saturating_sub_def COMMISSION_MAX_def
        BASIS_POINTS_MAX_def i_def j_def k_def l_def Let_def)
  then have "unat (encode_validator_score c m a v) = push_bit 56 i OR push_bit 42 j OR push_bit 25 k OR l"
    by (simp only: unsigned_or_eq parts low)
  also have "\<dots> = ((i * 2 ^ 14 + j) * 2 ^ 17 + k) * 2 ^ 25 + l" by (simp only: or.assoc [symmetric] 1 2 3)
  finally show ?thesis
    by (simp add: pack_def tiers_def i_def j_def k_def l_def algebra_simps)
qed

lemma lex_step:
  "y1 < b \<Longrightarrow> y2 < b \<Longrightarrow> x1 * b + y1 < x2 * b + y2 \<longleftrightarrow> x1 < x2 \<or> x1 = x2 \<and> y1 < (y2 :: nat)"
proof -
  assume y: "y1 < b" "y2 < b"
  have "x1 * b + y1 < x2 * b + y2" if "x1 < x2"
  proof -
    have "x1 * b + y1 < Suc x1 * b" using y by simp
    also have "\<dots> \<le> x2 * b" using that by (intro mult_le_mono1) simp
    finally show ?thesis by simp
  qed
  moreover have "x2 * b + y2 < x1 * b + y1" if "x2 < x1"
  proof -
    have "x2 * b + y2 < Suc x2 * b" using y by simp
    also have "\<dots> \<le> x1 * b" using that by (intro mult_le_mono1) simp
    finally show ?thesis by simp
  qed
  ultimately show ?thesis by (metis add_less_cancel_left linorder_neqE_nat less_asym)
qed

lemma pack_nested: "pack (i, m, a, v) = ((i * 2 ^ 14 + m) * 2 ^ 17 + a) * 2 ^ 25 + v"
  by (simp add: pack_def algebra_simps)

lemma pack_less_iff:
  assumes "valid_tiers (i1, m1, a1, v1)" "valid_tiers (i2, m2, a2, v2)"
  shows "pack (i1, m1, a1, v1) < pack (i2, m2, a2, v2) \<longleftrightarrow>
    i1 < i2 \<or> i1 = i2 \<and> (m1 < m2 \<or> m1 = m2 \<and> (a1 < a2 \<or> a1 = a2 \<and> v1 < v2))"
proof -
  have b: "m1 < 2 ^ 14" "m2 < 2 ^ 14" "a1 < 2 ^ 17" "a2 < 2 ^ 17" "v1 < 2 ^ 25" "v2 < 2 ^ 25"
    using assms by (simp_all only: valid_tiers_def prod.case)
  have eq: "x1 * c + y1 = x2 * c + y2 \<longleftrightarrow> x1 = x2 \<and> y1 = y2" if "y1 < c" "y2 < (c :: nat)" for x1 x2 y1 y2 c
    using lex_step [OF that, of x1 x2] lex_step [OF that(2,1), of x2 x1]
    by (metis linorder_neq_iff)
  show ?thesis
    unfolding pack_nested lex_step [OF b(5,6)] lex_step [OF b(3,4)] lex_step [OF b(1,2)]
      eq [OF b(3,4)] eq [OF b(1,2)] by blast
qed

lemma unat_field:
  "unat (drop_bit n (w :: 64 word) AND mask k) = unat w div 2 ^ n mod 2 ^ k"
proof -
  have "unat w < 2 ^ LENGTH(64)" by (rule unsigned_less)
  then have "take_bit 64 (unat w) = unat w" by (simp add: take_bit_nat_eq_self)
  then show ?thesis
    by (simp only: take_bit_eq_mask [symmetric] unsigned_take_bit_eq unsigned_drop_bit_eq)
       (simp add: take_bit_eq_mod drop_bit_eq_div)
qed

lemma divmod_step: "y < b \<Longrightarrow> (x * b + y) div b = x" "y < b \<Longrightarrow> (x * b + y) mod b = (y :: nat)"
  by simp_all

lemma pack_fields:
  assumes "valid_tiers (i, m, a, v)"
  shows "pack (i, m, a, v) div 2 ^ 56 mod 2 ^ 8 = i" "pack (i, m, a, v) div 2 ^ 42 mod 2 ^ 14 = m"
    "pack (i, m, a, v) div 2 ^ 25 mod 2 ^ 17 = a" "pack (i, m, a, v) mod 2 ^ 25 = v"
proof -
  have b: "i < 2 ^ 8" "m < 2 ^ 14" "a < 2 ^ 17" "v < 2 ^ 25"
    using assms by (simp_all only: valid_tiers_def prod.case)
  have p: "(2 :: nat) ^ 42 = 2 ^ 25 * 2 ^ 17" "(2 :: nat) ^ 56 = 2 ^ 25 * 2 ^ 17 * 2 ^ 14"
    by simp_all
  show "pack (i, m, a, v) div 2 ^ 56 mod 2 ^ 8 = i" "pack (i, m, a, v) div 2 ^ 42 mod 2 ^ 14 = m"
    "pack (i, m, a, v) div 2 ^ 25 mod 2 ^ 17 = a" "pack (i, m, a, v) mod 2 ^ 25 = v"
    unfolding pack_nested p div_mult2_eq divmod_step [OF b(4)] divmod_step [OF b(3)] divmod_step [OF b(2)]
    using b(1) by (simp_all only: mod_less)
qed

lemma decode_encode:
  "decode (encode_validator_score c m a v) =
     \<lparr>sc_inflation_commission = min c 100, sc_mev_commission_bps = min m 10000,
      sc_validator_age = min a (2 ^ 17 - 1), sc_vote_credits = min v (2 ^ 25 - 1)\<rparr>"
proof -
  let ?w = "encode_validator_score c m a v"
  obtain i j k l where t: "tiers c m a v = (i, j, k, l)" by (cases "tiers c m a v")
  have F: "unat (drop_bit 56 ?w AND 255) = i" "unat (drop_bit 42 ?w AND 16383) = j"
    "unat (drop_bit 25 ?w AND 131071) = k" "unat (?w AND 33554431) = l"
    using pack_fields [of i j k l] valid_tiers [of c m a v] unat_field [of 56 ?w 8] unat_field [of 42 ?w 14]
      unat_field [of 25 ?w 17] unat_field [of 0 ?w 25]
    by (simp_all add: t unat_encode mask_eq_exp_minus_1)
  have "i = 100 - min c 100" "j = 10000 - min m 10000" "k = min a (2 ^ 17 - 1)" "l = min v (2 ^ 25 - 1)"
    using t by (simp_all add: tiers_def)
  then show ?thesis
    by (simp add: decode_def F saturating_sub_def cast_def int_limits min_def)
qed

section \<open>Binary filters\<close>

abbreviation binary :: "nat \<times> 'a \<Rightarrow> bool" where "binary p \<equiv> fst p \<le> 1"

lemma max_commission_binary: "ok_all binary (calculate_max_commission w e t)"
  unfolding calculate_max_commission_def Let_def by (intro ok_all_split ok_all_any) simp

lemma max_mev_binary: "ok_all binary (calculate_max_mev_commission w e t)"
  unfolding calculate_max_mev_commission_def Let_def by (intro ok_all_split ok_all_any) simp

lemma historical_binary: "ok_all binary (calculate_historical_commission v e t)"
  unfolding calculate_historical_commission_def Let_def by (intro ok_all_if ok_all_split ok_all_any) simp_all

lemma delinquency_binary: "ok_all binary (delinquency_loop st t items)"
  by (induction st t items rule: delinquency_loop.induct)
     (auto simp: Let_def intro!: ok_all_any split: option.split)

lemma epoch_credits_binary: "ok_all (\<lambda>(r, p). binary p) (calculate_epoch_credits c b st t)"
  unfolding calculate_epoch_credits_def Let_def
  by (intro ok_all_if ok_all_split ok_all_with [OF delinquency_binary] ok_all_any) simp_all

lemma superminority_binary: "ok_all binary (calculate_superminority v e w)"
  unfolding calculate_superminority_def Let_def
  by (intro ok_all_if ok_all_split ok_all_any) (simp_all split: option.split)

lemma authority_binary:
  "ok_all (\<lambda>s. s \<le> 1) (calculate_blacklist_score config i)"
  "ok_all (\<lambda>s. s \<le> 1) (calculate_merkle_root_authority_score v)"
  "ok_all (\<lambda>s. s \<le> 1) (calculate_priority_fee_merkle_root_authority_score v)"
  unfolding calculate_blacklist_score_def calculate_merkle_root_authority_score_def
    calculate_priority_fee_merkle_root_authority_score_def
  by (rule ok_all_any; simp)+

lemma fee_commission_binary: "ok_all binary (calculate_priority_fee_commission config v e)"
  unfolding calculate_priority_fee_commission_def Let_def
  by (intro ok_all_if ok_all_split ok_all_any) simp_all

lemma bam_binary: "calculate_running_bam_score w n \<le> 1"
  by (simp add: calculate_running_bam_score_def Let_def)

text \<open>Multiplying by filters that are 0 or 1 cannot overflow.\<close>

lemma apply_filters:
  "(\<And>n. n \<in> set ns \<Longrightarrow> n \<le> 1) \<Longrightarrow>
   for_each (\<lambda>n s. word_times s n) ns w = Ok (if \<forall>n\<in>set ns. n = 1 then w else 0)"
proof (induction ns arbitrary: w)
  case (Cons n ns)
  then have n: "n = 0 \<or> n = 1" by (simp add: le_Suc_eq)
  have "unat w < 2 ^ LENGTH(64)" by (rule unsigned_less)
  then have "unat w \<le> U64_MAX" by (simp add: int_limits)
  then have "word_times w n = Ok (if n = 1 then w else 0)" using n by (auto simp: word_times_def)
  then show ?case using Cons by auto
qed simp

lemma filters_ok:
  "ok_all (\<lambda>x. (\<forall>n\<in>set ns. n \<le> 1) \<longrightarrow> x = (if \<forall>n\<in>set ns. n = 1 then w else 0))
     (for_each (\<lambda>n s. word_times s n) ns w)"
  using apply_filters [of ns w] by (auto simp: ok_all_def)

definition all_filters_pass :: "ScoreComponentsV5 \<Rightarrow> bool" where
  "all_filters_pass s \<longleftrightarrow>
     s_mev_commission_score s = 1 \<and> s_commission_score s = 1 \<and> s_historical_commission_score s = 1 \<and>
     s_blacklisted_score s = 1 \<and> s_superminority_score s = 1 \<and> s_delinquency_score s = 1 \<and>
     s_running_bam_score s = 1 \<and> s_merkle_root_upload_authority_score s = 1 \<and>
     s_priority_fee_commission_score s = 1 \<and> s_priority_fee_merkle_root_upload_authority_score s = 1"

lemma validator_score_filters:
  "ok_all (\<lambda>s. s_score s = (if all_filters_pass s then s_raw_score s else 0) \<and>
     s_raw_score s = encode_validator_score (s_commission_max s) (s_mev_commission_avg s)
       (s_validator_age s) (s_vote_credits_avg s) \<and> s_validator_age s = validator_age v)
   (validator_score v cluster config e tvc)"
  unfolding validator_score_def Let_def
  by (intro ok_all_with [OF max_commission_binary] ok_all_with [OF max_mev_binary]
       ok_all_with [OF historical_binary] ok_all_with [OF epoch_credits_binary]
       ok_all_with [OF superminority_binary] ok_all_with [OF authority_binary(1)]
       ok_all_with [OF authority_binary(2)] ok_all_with [OF authority_binary(3)]
       ok_all_with [OF fee_commission_binary] ok_all_split ok_all_with [OF filters_ok] ok_all_any)
     (simp only: ok_all_simps ScoreComponentsV5.select_convs all_filters_pass_def prod.sel prod.case
       bam_binary list.set ball_simps simp_thms conj_assoc)

section \<open>Properties\<close>

text \<open>
  Decoding a packed score gives back the four quantities it was made of, each clamped to
  the range of its field.
\<close>

theorem decode_inverts_encode:
  "decode (encode_validator_score commission mev age credits) =
     \<lparr>sc_inflation_commission = min commission 100, sc_mev_commission_bps = min mev 10000,
      sc_validator_age = min age (2 ^ 17 - 1), sc_vote_credits = min credits (2 ^ 25 - 1)\<rparr>"
  by (rule decode_encode)

text \<open>
  C18. Comparing two packed scores as integers is comparing the validators tier by tier: the
  lower inflation commission is better, then the lower MEV commission, then the greater
  age, then the more vote credits, each clamped to its field.
\<close>

theorem score_order_is_lexicographic:
  "encode_validator_score c1 m1 a1 v1 < encode_validator_score c2 m2 a2 v2 \<longleftrightarrow>
     (let worse = (\<lambda>(c, m, a, v) (c', m', a', v').
        c' < c \<or> c' = c \<and> (m' < m \<or> m' = m \<and> (a < a' \<or> a = a' \<and> v < (v' :: nat)))) in
      worse (min c1 100, min m1 10000, min a1 (2 ^ 17 - 1), min v1 (2 ^ 25 - 1))
            (min c2 100, min m2 10000, min a2 (2 ^ 17 - 1), min v2 (2 ^ 25 - (1 :: nat))))"
proof -
  have flip: "k - min x k < k - min y k \<longleftrightarrow> min y k < min x k" "k - min x k = k - min y k \<longleftrightarrow> min x k = min y k"
    for x y k :: nat by auto
  have "encode_validator_score c1 m1 a1 v1 < encode_validator_score c2 m2 a2 v2 \<longleftrightarrow>
      pack (tiers c1 m1 a1 v1) < pack (tiers c2 m2 a2 v2)"
    by (simp only: word_less_nat_alt unat_encode)
  also have "\<dots> \<longleftrightarrow> 100 - min c1 100 < 100 - min c2 100 \<or> 100 - min c1 100 = 100 - min c2 100 \<and>
      (10000 - min m1 10000 < 10000 - min m2 10000 \<or> 10000 - min m1 10000 = 10000 - min m2 10000 \<and>
       (min a1 (2 ^ 17 - 1) < min a2 (2 ^ 17 - 1) \<or> min a1 (2 ^ 17 - 1) = min a2 (2 ^ 17 - 1) \<and>
        min v1 (2 ^ 25 - 1) < min v2 (2 ^ 25 - 1)))"
    unfolding tiers_def
    by (rule pack_less_iff) (use valid_tiers [of c1 m1 a1 v1] valid_tiers [of c2 m2 a2 v2] in \<open>simp_all only: tiers_def\<close>)
  finally show ?thesis by (simp only: flip Let_def prod.case) (simp only: eq_commute)
qed

text \<open>
  A score that is computed is the packed score of its components when every one of the ten
  filters passes, and zero when one of them fails; and the age in it is the age in the
  validator's history.
\<close>

theorem score_is_zero_unless_every_filter_passes:
  "ok_all (\<lambda>s.
     s_score s = (if s_mev_commission_score s = 1 \<and> s_commission_score s = 1 \<and>
         s_historical_commission_score s = 1 \<and> s_blacklisted_score s = 1 \<and> s_superminority_score s = 1 \<and>
         s_delinquency_score s = 1 \<and> s_running_bam_score s = 1 \<and> s_merkle_root_upload_authority_score s = 1 \<and>
         s_priority_fee_commission_score s = 1 \<and> s_priority_fee_merkle_root_upload_authority_score s = 1
       then s_raw_score s else 0) \<and>
     s_raw_score s = encode_validator_score (s_commission_max s) (s_mev_commission_avg s) (validator_age v)
       (s_vote_credits_avg s))
   (validator_score v cluster config epoch tvc)"
  using validator_score_filters [of v cluster config epoch tvc] by (auto simp: ok_all_def all_filters_pass_def)

end
