(* ===== verification/Directed_Stake.thy ===== *)
theory Directed_Stake
  imports Config_Params
begin

text \<open>
  Directed stake (programs/steward/src/state/directed_stake.rs): the meta account with the
  targets, the tickets in which stakers state their preferences, and the whitelist. The
  whitelist keeps three arrays with a counter each and the same code for each; that code is
  written once, over an array and its counter, and its contract is the locale \<open>key_list\<close>.
\<close>

section \<open>Directed stake meta\<close>

definition Pubkey_default :: Pubkey where "Pubkey_default = replicate 32 0"

record DirectedStakeTarget =
  t_vote_pubkey :: Pubkey
  total_target_lamports :: nat
  t_total_staked_lamports :: nat
  target_last_updated_epoch :: nat
  staked_last_updated_epoch :: nat

definition DirectedStakeTarget_default :: DirectedStakeTarget where
  "DirectedStakeTarget_default = \<lparr>t_vote_pubkey = Pubkey_default, total_target_lamports = 0,
     t_total_staked_lamports = 0, target_last_updated_epoch = 0, staked_last_updated_epoch = 0\<rparr>"

record DirectedStakeMeta =
  total_stake_targets :: nat
  directed_unstake_total :: nat
  dm_is_initialized :: U8Bool
  targets :: "DirectedStakeTarget list"
  directed_stake_lamports :: "nat list"
  directed_stake_meta_indices :: "nat list"

definition DirectedStakeMeta_default :: DirectedStakeMeta where
  "DirectedStakeMeta_default = \<lparr>total_stake_targets = 0, directed_unstake_total = 0,
     dm_is_initialized = U8Bool_from True,
     targets = replicate MAX_VALIDATORS DirectedStakeTarget_default,
     directed_stake_lamports = replicate MAX_VALIDATORS 0,
     directed_stake_meta_indices = replicate MAX_VALIDATORS U64_MAX\<rparr>"

definition meta_wf :: "DirectedStakeMeta \<Rightarrow> bool" where
  "meta_wf m \<longleftrightarrow> length (targets m) = MAX_VALIDATORS \<and>
     length (directed_stake_lamports m) = MAX_VALIDATORS \<and>
     length (directed_stake_meta_indices m) = MAX_VALIDATORS"

fun find_index :: "('a \<Rightarrow> bool) \<Rightarrow> 'a list \<Rightarrow> nat option" where
  "find_index p [] = None"
| "find_index p (x # xs) = (if p x then Some 0 else map_option Suc (find_index p xs))"

definition get_target_index :: "Pubkey \<Rightarrow> DirectedStakeMeta \<Rightarrow> nat option" where
  "get_target_index vote_pubkey m = find_index (\<lambda>t. t_vote_pubkey t = vote_pubkey) (targets m)"

definition meta_get_target_lamports :: "Pubkey \<Rightarrow> DirectedStakeMeta \<Rightarrow> nat option" where
  "meta_get_target_lamports vote_pubkey m =
     map_option (\<lambda>i. total_target_lamports (targets m ! i)) (get_target_index vote_pubkey m)"

definition get_total_staked_lamports :: "Pubkey \<Rightarrow> DirectedStakeMeta \<Rightarrow> nat option" where
  "get_total_staked_lamports vote_pubkey m =
     map_option (\<lambda>i. t_total_staked_lamports (targets m ! i)) (get_target_index vote_pubkey m)"

definition update_target ::
  "nat \<Rightarrow> (DirectedStakeTarget \<Rightarrow> DirectedStakeTarget) \<Rightarrow> DirectedStakeMeta \<Rightarrow> DirectedStakeMeta result" where
  "update_target i f m =
     and_then (arr_get (targets m) i) (\<lambda>t.
     and_then (arr_set (targets m) i (f t)) (\<lambda>ts. Ok (m\<lparr>targets := ts\<rparr>)))"

definition add_to_total_staked_lamports :: "nat \<Rightarrow> nat \<Rightarrow> DirectedStakeMeta \<Rightarrow> DirectedStakeMeta result" where
  "add_to_total_staked_lamports i lamports =
     update_target i (\<lambda>t. t\<lparr>t_total_staked_lamports :=
       saturating_add U64_MAX (t_total_staked_lamports t) lamports\<rparr>)"

definition subtract_from_total_staked_lamports :: "nat \<Rightarrow> nat \<Rightarrow> DirectedStakeMeta \<Rightarrow> DirectedStakeMeta result" where
  "subtract_from_total_staked_lamports i lamports =
     update_target i (\<lambda>t. t\<lparr>t_total_staked_lamports :=
       saturating_sub (t_total_staked_lamports t) lamports\<rparr>)"

definition update_staked_last_updated_epoch :: "nat \<Rightarrow> nat \<Rightarrow> DirectedStakeMeta \<Rightarrow> DirectedStakeMeta result" where
  "update_staked_last_updated_epoch i epoch =
     update_target i (\<lambda>t. t\<lparr>staked_last_updated_epoch := epoch\<rparr>)"

definition all_targets_rebalanced_for_epoch :: "nat \<Rightarrow> DirectedStakeMeta \<Rightarrow> bool" where
  "all_targets_rebalanced_for_epoch epoch m =
     list_all (\<lambda>t. t_vote_pubkey t = Pubkey_default \<or> staked_last_updated_epoch t = epoch) (targets m)"

definition total_staked_lamports :: "DirectedStakeMeta \<Rightarrow> nat" where
  "total_staked_lamports m =
     fold (\<lambda>t total. saturating_add U64_MAX total (t_total_staked_lamports t)) (targets m) 0"

section \<open>Tickets\<close>

definition MAX_PREFERENCES_PER_TICKET :: nat where "MAX_PREFERENCES_PER_TICKET = 8"

record DirectedStakePreference =
  pr_vote_pubkey :: Pubkey
  stake_share_bps :: nat

definition DirectedStakePreference_empty :: DirectedStakePreference where
  "DirectedStakePreference_empty = \<lparr>pr_vote_pubkey = Pubkey_default, stake_share_bps = 0\<rparr>"

definition get_allocation :: "nat \<Rightarrow> DirectedStakePreference \<Rightarrow> nat" where
  "get_allocation total_lamports p = saturating_mul U128_MAX total_lamports (stake_share_bps p) div 10000"

record DirectedStakeTicket =
  num_preferences :: nat
  staker_preferences :: "DirectedStakePreference list"
  ticket_update_authority :: Pubkey
  ticket_holder_is_protocol :: U8Bool

definition DirectedStakeTicket_new ::
  "Pubkey \<Rightarrow> U8Bool \<Rightarrow> DirectedStakePreference list \<Rightarrow> DirectedStakeTicket" where
  "DirectedStakeTicket_new authority is_protocol prefs =
     \<lparr>num_preferences = cast U16_MAX (length prefs),
      staker_preferences = fold (\<lambda>(i, p) a. if i < MAX_PREFERENCES_PER_TICKET then a[i := p] else a)
        (enumerate 0 prefs) (replicate MAX_PREFERENCES_PER_TICKET DirectedStakePreference_empty),
      ticket_update_authority = authority, ticket_holder_is_protocol = is_protocol\<rparr>"

definition preferences_valid :: "DirectedStakeTicket \<Rightarrow> bool result" where
  "preferences_valid t =
     and_then (for_each (\<lambda>p s. plus_or_panic U32_MAX s (stake_share_bps p))
                 (take (num_preferences t) (staker_preferences t)) 0) (\<lambda>total_bps.
     Ok (total_bps \<le> 10000))"

definition get_allocations :: "nat \<Rightarrow> DirectedStakeTicket \<Rightarrow> (Pubkey \<times> nat) list" where
  "get_allocations total_lamports t =
     filter (\<lambda>(k, lamports). 0 < lamports)
       (map (\<lambda>p. (pr_vote_pubkey p, saturating_mul U128_MAX total_lamports (stake_share_bps p) div 10000))
          (take (num_preferences t) (staker_preferences t)))"

section \<open>Whitelist\<close>

definition MAX_PERMISSIONED_DIRECTED_STAKERS :: nat where "MAX_PERMISSIONED_DIRECTED_STAKERS = 2048"

record DirectedStakeWhitelist =
  permissioned_user_stakers :: "Pubkey list"
  permissioned_protocol_stakers :: "Pubkey list"
  permissioned_validators :: "Pubkey list"
  total_permissioned_user_stakers :: nat
  total_permissioned_protocol_stakers :: nat
  total_permissioned_validators :: nat
  wl_is_initialized :: U8Bool

text \<open>The operations on one array and its counter.\<close>

type_synonym keys = "Pubkey list \<times> nat"

definition keys_permissioned :: "Pubkey \<Rightarrow> keys \<Rightarrow> bool" where
  "keys_permissioned k p = (case p of (a, n) \<Rightarrow> list_ex (\<lambda>pk. pk = k) (take n a))"

definition keys_append :: "Pubkey \<Rightarrow> keys \<Rightarrow> keys result" where
  "keys_append k p = (case p of (a, n) \<Rightarrow>
     and_then (arr_set a n k) (\<lambda>a. and_then (plus_or_panic U16_MAX n 1) (\<lambda>n. Ok (a, n))))"

definition keys_remove :: "StewardError \<Rightarrow> Pubkey \<Rightarrow> keys \<Rightarrow> keys result" where
  "keys_remove err k p = (case p of (a, n) \<Rightarrow>
     if n = 0 then Err (Steward err)
     else and_then (position (\<lambda>i. and_then (arr_get a i) (\<lambda>pk. Ok (pk = k))) [0..<n]) (\<lambda>found.
       case found of
         None \<Rightarrow> Err (Steward err)
       | Some index \<Rightarrow>
           and_then (for_each (\<lambda>i ys. and_then (arr_get ys (Suc i)) (\<lambda>v. arr_set ys i v)) [index..<n - 1] a) (\<lambda>a.
           and_then (arr_set a (n - 1) Pubkey_default) (\<lambda>a. Ok (a, n - 1)))))"

definition user_keys :: "DirectedStakeWhitelist \<Rightarrow> keys" where
  "user_keys w = (permissioned_user_stakers w, total_permissioned_user_stakers w)"
definition protocol_keys :: "DirectedStakeWhitelist \<Rightarrow> keys" where
  "protocol_keys w = (permissioned_protocol_stakers w, total_permissioned_protocol_stakers w)"
definition validator_keys :: "DirectedStakeWhitelist \<Rightarrow> keys" where
  "validator_keys w = (permissioned_validators w, total_permissioned_validators w)"

definition set_user_keys :: "DirectedStakeWhitelist \<Rightarrow> keys \<Rightarrow> DirectedStakeWhitelist" where
  "set_user_keys w p = w\<lparr>permissioned_user_stakers := fst p, total_permissioned_user_stakers := snd p\<rparr>"
definition set_protocol_keys :: "DirectedStakeWhitelist \<Rightarrow> keys \<Rightarrow> DirectedStakeWhitelist" where
  "set_protocol_keys w p =
     w\<lparr>permissioned_protocol_stakers := fst p, total_permissioned_protocol_stakers := snd p\<rparr>"
definition set_validator_keys :: "DirectedStakeWhitelist \<Rightarrow> keys \<Rightarrow> DirectedStakeWhitelist" where
  "set_validator_keys w p = w\<lparr>permissioned_validators := fst p, total_permissioned_validators := snd p\<rparr>"

definition is_user_staker_permissioned :: "Pubkey \<Rightarrow> DirectedStakeWhitelist \<Rightarrow> bool" where
  "is_user_staker_permissioned k w = keys_permissioned k (user_keys w)"
definition is_protocol_staker_permissioned :: "Pubkey \<Rightarrow> DirectedStakeWhitelist \<Rightarrow> bool" where
  "is_protocol_staker_permissioned k w = keys_permissioned k (protocol_keys w)"
definition is_staker_permissioned :: "Pubkey \<Rightarrow> DirectedStakeWhitelist \<Rightarrow> bool" where
  "is_staker_permissioned k w \<longleftrightarrow> is_user_staker_permissioned k w \<or> is_protocol_staker_permissioned k w"
definition is_validator_permissioned :: "Pubkey \<Rightarrow> DirectedStakeWhitelist \<Rightarrow> bool" where
  "is_validator_permissioned k w = keys_permissioned k (validator_keys w)"

definition can_add_user_staker :: "DirectedStakeWhitelist \<Rightarrow> bool" where
  "can_add_user_staker w \<longleftrightarrow> total_permissioned_user_stakers w < MAX_PERMISSIONED_DIRECTED_STAKERS"
definition can_add_protocol_staker :: "DirectedStakeWhitelist \<Rightarrow> bool" where
  "can_add_protocol_staker w \<longleftrightarrow> total_permissioned_protocol_stakers w < MAX_PERMISSIONED_DIRECTED_STAKERS"
definition can_add_staker :: "DirectedStakeWhitelist \<Rightarrow> bool" where
  "can_add_staker w \<longleftrightarrow> can_add_user_staker w \<or> can_add_protocol_staker w"
definition can_add_validator :: "DirectedStakeWhitelist \<Rightarrow> bool" where
  "can_add_validator w \<longleftrightarrow> total_permissioned_validators w < MAX_VALIDATORS"

definition add_user_staker :: "Pubkey \<Rightarrow> DirectedStakeWhitelist \<Rightarrow> DirectedStakeWhitelist result" where
  "add_user_staker k w =
     (if \<not> can_add_user_staker w then Err (Steward AlreadyPermissioned)
      else if is_staker_permissioned k w then Err (Steward AlreadyPermissioned)
      else and_then (keys_append k (user_keys w)) (\<lambda>p. Ok (set_user_keys w p)))"

definition add_protocol_staker :: "Pubkey \<Rightarrow> DirectedStakeWhitelist \<Rightarrow> DirectedStakeWhitelist result" where
  "add_protocol_staker k w =
     (if \<not> can_add_protocol_staker w then Err (Steward AlreadyPermissioned)
      else if is_staker_permissioned k w then Err (Steward AlreadyPermissioned)
      else and_then (keys_append k (protocol_keys w)) (\<lambda>p. Ok (set_protocol_keys w p)))"

definition add_validator :: "Pubkey \<Rightarrow> DirectedStakeWhitelist \<Rightarrow> DirectedStakeWhitelist result" where
  "add_validator k w =
     (if \<not> can_add_validator w then Err (Steward DirectedStakeValidatorListFull)
      else if is_validator_permissioned k w then Err (Steward DirectedStakeValidatorListFull)
      else and_then (keys_append k (validator_keys w)) (\<lambda>p. Ok (set_validator_keys w p)))"

definition remove_user_staker :: "Pubkey \<Rightarrow> DirectedStakeWhitelist \<Rightarrow> DirectedStakeWhitelist result" where
  "remove_user_staker k w =
     and_then (keys_remove StakerNotInWhitelist k (user_keys w)) (\<lambda>p. Ok (set_user_keys w p))"

definition remove_protocol_staker :: "Pubkey \<Rightarrow> DirectedStakeWhitelist \<Rightarrow> DirectedStakeWhitelist result" where
  "remove_protocol_staker k w =
     and_then (keys_remove StakerNotInWhitelist k (protocol_keys w)) (\<lambda>p. Ok (set_protocol_keys w p))"

definition whitelist_remove_validator :: "Pubkey \<Rightarrow> DirectedStakeWhitelist \<Rightarrow> DirectedStakeWhitelist result" where
  "whitelist_remove_validator k w =
     and_then (keys_remove ValidatorNotInWhitelist k (validator_keys w)) (\<lambda>p. Ok (set_validator_keys w p))"

definition remove_staker :: "Pubkey \<Rightarrow> DirectedStakeWhitelist \<Rightarrow> DirectedStakeWhitelist result" where
  "remove_staker k w =
     (if is_user_staker_permissioned k w then remove_user_staker k w
      else if is_protocol_staker_permissioned k w then remove_protocol_staker k w
      else Err (Steward StakerNotInWhitelist))"

section \<open>The contract of a key list\<close>

definition keys_of :: "keys \<Rightarrow> Pubkey list" where
  "keys_of p = take (snd p) (fst p)"

definition keys_wf :: "nat \<Rightarrow> keys \<Rightarrow> bool" where
  "keys_wf cap p \<longleftrightarrow> length (fst p) = cap \<and> snd p \<le> cap \<and> cap \<le> U16_MAX \<and> distinct (keys_of p)"

lemma keys_permissioned_iff: "keys_permissioned k p \<longleftrightarrow> k \<in> set (keys_of p)"
  by (cases p) (auto simp: keys_permissioned_def keys_of_def list_ex_iff)

lemma keys_append_ok:
  assumes "keys_wf cap p" "snd p < cap" "k \<notin> set (keys_of p)"
  shows "\<exists>q. keys_append k p = Ok q \<and> keys_wf cap q \<and> keys_of q = keys_of p @ [k]"
proof -
  obtain a n where p: "p = (a, n)" by (cases p)
  have "take (Suc n) (a[n := k]) = take n a @ [k]"
    using assms p by (simp add: keys_wf_def take_Suc_conv_app_nth)
  then show ?thesis using assms p
    by (simp add: keys_append_def keys_wf_def keys_of_def plus_or_panic_def checked_add_def)
qed

lemma take_shl_range:
  "a \<le> b \<Longrightarrow> b < length xs \<Longrightarrow> take b (shl_range a b xs) = take a xs @ take (b - a) (drop (Suc a) xs)"
  by (rule nth_equalityI) (auto simp: nth_append min_def)

lemma remove1_split:
  "k \<in> set xs \<Longrightarrow> n = length (takeWhile (\<lambda>x. x \<noteq> k) xs) \<Longrightarrow> remove1 k xs = take n xs @ drop (Suc n) xs"
  by (induction xs arbitrary: n) auto

lemma keys_remove_ok:
  assumes wf: "keys_wf cap p" and k: "k \<in> set (keys_of p)"
  shows "\<exists>q. keys_remove err k p = Ok q \<and> keys_wf cap q \<and> keys_of q = remove1 k (keys_of p)"
proof -
  obtain a n where p: "p = (a, n)" by (cases p)
  have n: "length a = cap" "n \<le> cap" "cap \<le> U16_MAX" "distinct (take n a)"
    using wf by (simp_all add: p keys_wf_def keys_of_def)
  have kn: "k \<in> set (take n a)" using k by (simp add: p keys_of_def)
  then have n0: "0 < n" by (cases n) auto
  define i where "i = length (takeWhile (\<lambda>x. x \<noteq> k) (take n a))"
  have i: "i < n"
    using first_index_less [OF kn] n(1,2) by (simp add: i_def)
  have tw: "length (takeWhile (\<lambda>j. a ! j \<noteq> k) [0..<n]) = i"
  proof -
    have "take n a = map ((!) a) [0..<n]" using n(1,2) by (auto intro!: nth_equalityI)
    then show ?thesis by (simp add: i_def takeWhile_map comp_def)
  qed
  have "position (\<lambda>j. and_then (arr_get a j) (\<lambda>pk. Ok (pk = k))) [0..<n] =
      Ok (if \<exists>j\<in>set [0..<n]. a ! j = k then Some (length (takeWhile (\<lambda>j. a ! j \<noteq> k) [0..<n])) else None)"
    using n(1,2) by (intro position_pure) simp
  moreover have "\<exists>j\<in>set [0..<n]. a ! j = k"
    using kn n(1,2) by (auto simp: in_set_conv_nth)
  ultimately have pos: "position (\<lambda>j. and_then (arr_get a j) (\<lambda>pk. Ok (pk = k))) [0..<n] = Ok (Some i)"
    by (simp add: tw)
  let ?a = "(shl_range i (n - 1) a)[n - 1 := Pubkey_default]"
  have res: "keys_remove err k p = Ok (?a, n - 1)"
    using n0 i n(1,2) pos for_each_shl [of i "n - 1" a] by (simp add: keys_remove_def p)
  have "take (n - 1) ?a = take i a @ take (n - 1 - i) (drop (Suc i) a)"
    using i n(1,2) n0 take_shl_range [of i "n - 1" a] by simp
  also have "\<dots> = remove1 k (take n a)"
    using remove1_split [OF kn i_def] i n(1,2) by (simp add: drop_take min_def)
  finally have eq: "keys_of (?a, n - 1) = remove1 k (keys_of p)" by (simp add: keys_of_def p)
  moreover have "keys_wf cap (?a, n - 1)"
    using n eq by (simp add: keys_wf_def keys_of_def p)
  ultimately show ?thesis using res by blast
qed

lemma keys_remove_missing:
  assumes wf: "keys_wf cap p" and k: "k \<notin> set (keys_of p)"
  shows "keys_remove err k p = Err (Steward err)"
proof -
  obtain a n where p: "p = (a, n)" by (cases p)
  have n: "length a = cap" "n \<le> cap" using wf by (simp_all add: p keys_wf_def)
  have "position (\<lambda>j. and_then (arr_get a j) (\<lambda>pk. Ok (pk = k))) [0..<n] =
      Ok (if \<exists>j\<in>set [0..<n]. a ! j = k then Some (length (takeWhile (\<lambda>j. a ! j \<noteq> k) [0..<n])) else None)"
    using n by (intro position_pure) simp
  moreover have "\<not> (\<exists>j\<in>set [0..<n]. a ! j = k)"
    using k n by (auto simp: p keys_of_def in_set_conv_nth)
  ultimately show ?thesis by (simp add: keys_remove_def p)
qed

text \<open>
  A list of permissioned keys inside a larger state: additions are refused when the list is
  full or the key is blocked, and a key that was added can be removed again.
\<close>

locale key_list =
  fixes wf :: "'w \<Rightarrow> bool"
    and key_seq :: "'w \<Rightarrow> Pubkey list"
    and full :: "'w \<Rightarrow> bool"
    and blocked :: "Pubkey \<Rightarrow> 'w \<Rightarrow> bool"
    and add :: "Pubkey \<Rightarrow> 'w \<Rightarrow> 'w result"
    and rem :: "Pubkey \<Rightarrow> 'w \<Rightarrow> 'w result"
    and add_error rem_error :: StewardError
  assumes distinct_keys: "wf w \<Longrightarrow> distinct (key_seq w)"
    and member_blocked: "k \<in> set (key_seq w) \<Longrightarrow> blocked k w"
    and add_law: "wf w \<Longrightarrow> \<not> full w \<Longrightarrow> \<not> blocked k w \<Longrightarrow>
      \<exists>w'. add k w = Ok w' \<and> wf w' \<and> key_seq w' = key_seq w @ [k]"
    and add_refused: "full w \<or> blocked k w \<Longrightarrow> add k w = Err (Steward add_error)"
    and rem_law: "wf w \<Longrightarrow> k \<in> set (key_seq w) \<Longrightarrow>
      \<exists>w'. rem k w = Ok w' \<and> wf w' \<and> key_seq w' = remove1 k (key_seq w)"
    and rem_refused: "wf w \<Longrightarrow> k \<notin> set (key_seq w) \<Longrightarrow> rem k w = Err (Steward rem_error)"
begin

lemma add_remove:
  assumes "wf w" "add k w = Ok w'"
  shows "\<exists>w''. rem k w' = Ok w'' \<and> wf w'' \<and> key_seq w'' = key_seq w \<and> rem k w'' = Err (Steward rem_error)"
proof -
  have ok: "\<not> full w" "\<not> blocked k w" using assms(2) add_refused [of w k] by auto
  then have w': "wf w'" "key_seq w' = key_seq w @ [k]" using add_law [OF assms(1) ok] assms(2) by auto
  have new: "k \<notin> set (key_seq w)" using ok member_blocked by blast
  obtain w'' where w'': "rem k w' = Ok w''" "wf w''" "key_seq w'' = remove1 k (key_seq w')"
    using rem_law [OF w'(1), of k] w'(2) by auto
  then have "key_seq w'' = key_seq w" using w'(2) new by (simp add: remove1_append)
  then show ?thesis using w'' new rem_refused [OF w''(2), of k] by simp
qed

lemma add_twice: "wf w \<Longrightarrow> add k w = Ok w' \<Longrightarrow> add k w' = Err (Steward add_error)"
proof -
  assume w: "wf w" "add k w = Ok w'"
  then have ok: "\<not> full w" "\<not> blocked k w" using add_refused [of w k] by auto
  then have "k \<in> set (key_seq w')" using add_law [OF w(1) ok] w(2) by auto
  then show ?thesis using add_refused member_blocked by blast
qed

end

definition whitelist_wf :: "DirectedStakeWhitelist \<Rightarrow> bool" where
  "whitelist_wf w \<longleftrightarrow>
     keys_wf MAX_PERMISSIONED_DIRECTED_STAKERS (user_keys w) \<and>
     keys_wf MAX_PERMISSIONED_DIRECTED_STAKERS (protocol_keys w) \<and>
     keys_wf MAX_VALIDATORS (validator_keys w) \<and>
     set (keys_of (user_keys w)) \<inter> set (keys_of (protocol_keys w)) = {}"

lemma whitelist_lenses [simp]:
  "user_keys (set_user_keys w p) = p" "protocol_keys (set_user_keys w p) = protocol_keys w"
  "validator_keys (set_user_keys w p) = validator_keys w"
  "user_keys (set_protocol_keys w p) = user_keys w" "protocol_keys (set_protocol_keys w p) = p"
  "validator_keys (set_protocol_keys w p) = validator_keys w"
  "user_keys (set_validator_keys w p) = user_keys w"
  "protocol_keys (set_validator_keys w p) = protocol_keys w" "validator_keys (set_validator_keys w p) = p"
  by (simp_all add: user_keys_def protocol_keys_def validator_keys_def set_user_keys_def
      set_protocol_keys_def set_validator_keys_def)

lemmas whitelist_defs = whitelist_wf_def is_staker_permissioned_def is_user_staker_permissioned_def
  is_protocol_staker_permissioned_def is_validator_permissioned_def keys_permissioned_iff

interpretation users: key_list whitelist_wf "\<lambda>w. keys_of (user_keys w)" "\<lambda>w. \<not> can_add_user_staker w"
  is_staker_permissioned add_user_staker remove_user_staker AlreadyPermissioned StakerNotInWhitelist
proof
  fix w k
  assume wf: "whitelist_wf w"
  then have kw: "keys_wf MAX_PERMISSIONED_DIRECTED_STAKERS (user_keys w)" by (simp add: whitelist_wf_def)
  show "distinct (keys_of (user_keys w))" using kw by (simp add: keys_wf_def)
  show "\<exists>w'. add_user_staker k w = Ok w' \<and> whitelist_wf w' \<and>
      keys_of (user_keys w') = keys_of (user_keys w) @ [k]"
    if "\<not> \<not> can_add_user_staker w" "\<not> is_staker_permissioned k w"
  proof -
    have "snd (user_keys w) < MAX_PERMISSIONED_DIRECTED_STAKERS"
      using that(1) by (simp add: can_add_user_staker_def user_keys_def)
    moreover have "k \<notin> set (keys_of (user_keys w))" using that(2) by (simp add: whitelist_defs)
    ultimately obtain q where q: "keys_append k (user_keys w) = Ok q" "keys_wf MAX_PERMISSIONED_DIRECTED_STAKERS q"
      "keys_of q = keys_of (user_keys w) @ [k]"
      using keys_append_ok [OF kw, of k] by blast
    then have "add_user_staker k w = Ok (set_user_keys w q)" using that by (simp add: add_user_staker_def)
    then show ?thesis using q wf that(2) by (auto simp: whitelist_defs)
  qed
  show "\<exists>w'. remove_user_staker k w = Ok w' \<and> whitelist_wf w' \<and>
      keys_of (user_keys w') = remove1 k (keys_of (user_keys w))"
    if "k \<in> set (keys_of (user_keys w))"
    using keys_remove_ok [OF kw that, of StakerNotInWhitelist] wf set_remove1_subset
    by (fastforce simp: remove_user_staker_def whitelist_defs)
  show "remove_user_staker k w = Err (Steward StakerNotInWhitelist)"
    if "k \<notin> set (keys_of (user_keys w))"
    using keys_remove_missing [OF kw that] by (simp add: remove_user_staker_def)
qed (auto simp: add_user_staker_def whitelist_defs)

interpretation protocols: key_list whitelist_wf "\<lambda>w. keys_of (protocol_keys w)"
  "\<lambda>w. \<not> can_add_protocol_staker w" is_staker_permissioned add_protocol_staker remove_protocol_staker
  AlreadyPermissioned StakerNotInWhitelist
proof
  fix w k
  assume wf: "whitelist_wf w"
  then have kw: "keys_wf MAX_PERMISSIONED_DIRECTED_STAKERS (protocol_keys w)" by (simp add: whitelist_wf_def)
  show "distinct (keys_of (protocol_keys w))" using kw by (simp add: keys_wf_def)
  show "\<exists>w'. add_protocol_staker k w = Ok w' \<and> whitelist_wf w' \<and>
      keys_of (protocol_keys w') = keys_of (protocol_keys w) @ [k]"
    if "\<not> \<not> can_add_protocol_staker w" "\<not> is_staker_permissioned k w"
  proof -
    have "snd (protocol_keys w) < MAX_PERMISSIONED_DIRECTED_STAKERS"
      using that(1) by (simp add: can_add_protocol_staker_def protocol_keys_def)
    moreover have "k \<notin> set (keys_of (protocol_keys w))" using that(2) by (simp add: whitelist_defs)
    ultimately obtain q where q: "keys_append k (protocol_keys w) = Ok q" "keys_wf MAX_PERMISSIONED_DIRECTED_STAKERS q"
      "keys_of q = keys_of (protocol_keys w) @ [k]"
      using keys_append_ok [OF kw, of k] by blast
    then have "add_protocol_staker k w = Ok (set_protocol_keys w q)" using that by (simp add: add_protocol_staker_def)
    then show ?thesis using q wf that(2) by (auto simp: whitelist_defs)
  qed
  show "\<exists>w'. remove_protocol_staker k w = Ok w' \<and> whitelist_wf w' \<and>
      keys_of (protocol_keys w') = remove1 k (keys_of (protocol_keys w))"
    if "k \<in> set (keys_of (protocol_keys w))"
    using keys_remove_ok [OF kw that, of StakerNotInWhitelist] wf set_remove1_subset
    by (fastforce simp: remove_protocol_staker_def whitelist_defs)
  show "remove_protocol_staker k w = Err (Steward StakerNotInWhitelist)"
    if "k \<notin> set (keys_of (protocol_keys w))"
    using keys_remove_missing [OF kw that] by (simp add: remove_protocol_staker_def)
qed (auto simp: add_protocol_staker_def whitelist_defs)

interpretation validators: key_list whitelist_wf "\<lambda>w. keys_of (validator_keys w)"
  "\<lambda>w. \<not> can_add_validator w" is_validator_permissioned add_validator whitelist_remove_validator
  DirectedStakeValidatorListFull ValidatorNotInWhitelist
proof
  fix w k
  assume wf: "whitelist_wf w"
  then have kw: "keys_wf MAX_VALIDATORS (validator_keys w)" by (simp add: whitelist_wf_def)
  show "distinct (keys_of (validator_keys w))" using kw by (simp add: keys_wf_def)
  show "\<exists>w'. add_validator k w = Ok w' \<and> whitelist_wf w' \<and>
      keys_of (validator_keys w') = keys_of (validator_keys w) @ [k]"
    if "\<not> \<not> can_add_validator w" "\<not> is_validator_permissioned k w"
  proof -
    have "snd (validator_keys w) < MAX_VALIDATORS"
      using that(1) by (simp add: can_add_validator_def validator_keys_def)
    moreover have "k \<notin> set (keys_of (validator_keys w))" using that(2) by (simp add: whitelist_defs)
    ultimately obtain q where q: "keys_append k (validator_keys w) = Ok q" "keys_wf MAX_VALIDATORS q"
      "keys_of q = keys_of (validator_keys w) @ [k]"
      using keys_append_ok [OF kw, of k] by blast
    then have "add_validator k w = Ok (set_validator_keys w q)" using that by (simp add: add_validator_def)
    then show ?thesis using q wf that(2) by (auto simp: whitelist_defs)
  qed
  show "\<exists>w'. whitelist_remove_validator k w = Ok w' \<and> whitelist_wf w' \<and>
      keys_of (validator_keys w') = remove1 k (keys_of (validator_keys w))"
    if "k \<in> set (keys_of (validator_keys w))"
    using keys_remove_ok [OF kw that, of ValidatorNotInWhitelist] wf
    by (auto simp: whitelist_remove_validator_def whitelist_defs)
  show "whitelist_remove_validator k w = Err (Steward ValidatorNotInWhitelist)"
    if "k \<notin> set (keys_of (validator_keys w))"
    using keys_remove_missing [OF kw that] by (simp add: whitelist_remove_validator_def)
qed (auto simp: add_validator_def whitelist_defs)

end
