(* ===== verification/Validator_List.thy ===== *)
theory Validator_List
  imports Config_Params
begin

text \<open>
  The stake pool's validator list as the steward reads it (programs/steward/src/utils.rs):
  offset arithmetic into the raw bytes of the list, the tally of the stake statuses and the
  search for a vote account. The list itself belongs to the stake pool program. What the
  steward sees of it is a parameter: the outcome of deserialising the account, which is an
  error or the account type's test and a \<^verbatim>\<open>BigVec\<close>, that is a length, the raw bytes, and the
  size of one item (\<^verbatim>\<open>ValidatorStakeInfo::LEN\<close>).
\<close>

section \<open>Reading items\<close>

record BigVec =
  bv_len :: nat
  bv_data :: "8 word list"
  bv_item_len :: nat

type_synonym ValidatorListAccount = "(bool \<times> BigVec) result"

definition VEC_SIZE_BYTES :: nat where "VEC_SIZE_BYTES = 4"
definition U64_SIZE :: nat where "U64_SIZE = 8"
definition PUBKEY_SIZE :: nat where "PUBKEY_SIZE = 32"
definition TRANSIENT_STAKE_SEED_OFFSET :: nat where "TRANSIENT_STAKE_SEED_OFFSET = 24"
definition TRANSIENT_STAKE_SEED_LENGTH :: nat where "TRANSIENT_STAKE_SEED_LENGTH = 8"
definition STAKE_STATUS_OFFSET :: nat where "STAKE_STATUS_OFFSET = 40"
definition VOTE_ADDRESS_OFFSET :: nat where "VOTE_ADDRESS_OFFSET = 41"

lemmas offset_defs = VEC_SIZE_BYTES_def U64_SIZE_def PUBKEY_SIZE_def TRANSIENT_STAKE_SEED_OFFSET_def
  TRANSIENT_STAKE_SEED_LENGTH_def STAKE_STATUS_OFFSET_def VOTE_ADDRESS_OFFSET_def

definition item_start :: "BigVec \<Rightarrow> nat \<Rightarrow> nat" where
  "item_start vl index =
     saturating_add U64_MAX VEC_SIZE_BYTES (saturating_mul U64_MAX index (bv_item_len vl))"

definition stake_lamports_at_validator_list_index :: "BigVec \<Rightarrow> nat \<Rightarrow> (nat \<times> bool) result" where
  "stake_lamports_at_validator_list_index vl index = (let active_start = item_start vl index in
     and_then (ok_or (checked_add U64_MAX active_start U64_SIZE) (Steward ArithmeticError)) (\<lambda>active_end.
     and_then (ok_or (checked_add U64_MAX active_end U64_SIZE) (Steward ArithmeticError)) (\<lambda>transient_end.
     and_then (arr_slice (bv_data vl) active_start active_end) (\<lambda>active.
     and_then (arr_slice (bv_data vl) active_end transient_end) (\<lambda>transient.
     Ok (from_le_bytes active, from_le_bytes transient \<noteq> 0))))))"

definition vote_pubkey_at_validator_list_index :: "BigVec \<Rightarrow> nat \<Rightarrow> Pubkey result" where
  "vote_pubkey_at_validator_list_index vl index =
     (let pubkey_start = saturating_add U64_MAX (item_start vl index) VOTE_ADDRESS_OFFSET;
          pubkey_end = saturating_add U64_MAX pubkey_start PUBKEY_SIZE in
      and_then (arr_slice (bv_data vl) pubkey_start pubkey_end) (\<lambda>slice.
      if length slice = PUBKEY_SIZE then Ok slice else Err (Steward ArithmeticError)))"

definition get_transient_stake_seed_at_index_from_big_vec :: "BigVec \<Rightarrow> nat \<Rightarrow> nat result" where
  "get_transient_stake_seed_at_index_from_big_vec vl index =
     (let seed_start = saturating_add U64_MAX (item_start vl index) TRANSIENT_STAKE_SEED_OFFSET in
      and_then (ok_or (checked_add U64_MAX seed_start TRANSIENT_STAKE_SEED_LENGTH) (Steward ArithmeticError))
        (\<lambda>seed_end.
      and_then (arr_slice (bv_data vl) seed_start seed_end) (\<lambda>slice.
      if length slice = TRANSIENT_STAKE_SEED_LENGTH then Ok (from_le_bytes slice)
      else Err (Steward ArithmeticError))))"

definition stake_status_at :: "BigVec \<Rightarrow> nat \<Rightarrow> 8 word result" where
  "stake_status_at vl index =
     and_then (ok_or (checked_add U64_MAX (item_start vl index) STAKE_STATUS_OFFSET) (Steward ArithmeticError))
       (\<lambda>i. arr_get (bv_data vl) i)"

section \<open>Functions of the account\<close>

definition load_validator_list :: "ValidatorListAccount \<Rightarrow> BigVec result" where
  "load_validator_list acc =
     and_then acc (\<lambda>(is_validator_list, vl).
     and_then (require is_validator_list ValidatorListTypeMismatch) (\<lambda>_. Ok vl))"

definition get_validator_list_length :: "ValidatorListAccount \<Rightarrow> nat result" where
  "get_validator_list_length acc = and_then (load_validator_list acc) (\<lambda>vl. Ok (bv_len vl))"

definition validator_exists_in_list :: "ValidatorListAccount \<Rightarrow> Pubkey \<Rightarrow> bool result" where
  "validator_exists_in_list acc vote_account =
     and_then (load_validator_list acc) (\<lambda>vl.
     and_then (position (\<lambda>i. and_then (vote_pubkey_at_validator_list_index vl i) (\<lambda>k. Ok (k = vote_account)))
                [0..<bv_len vl]) (\<lambda>found.
     Ok (found \<noteq> None)))"

text \<open>The stake pool's statuses; their byte values are a parameter.\<close>

datatype StakeStatus = Active | DeactivatingTransient | ReadyForRemoval | DeactivatingValidator | DeactivatingAll

record StakeStatusTally =
  tally_active :: nat
  tally_deactivating_transient :: nat
  tally_ready_for_removal :: nat
  tally_deactivating_validator :: nat
  tally_deactivating_all :: nat

definition count_one :: "nat \<Rightarrow> nat result" where
  "count_one n = ok_or (checked_add U64_MAX n 1) (Steward ArithmeticError)"

definition tally_step :: "(StakeStatus \<Rightarrow> 8 word) \<Rightarrow> 8 word \<Rightarrow> StakeStatusTally \<Rightarrow> StakeStatusTally result" where
  "tally_step as_u8 x t =
     (if x = as_u8 Active then
        and_then (count_one (tally_active t)) (\<lambda>n. Ok (t\<lparr>tally_active := n\<rparr>))
      else if x = as_u8 DeactivatingTransient then
        and_then (count_one (tally_deactivating_transient t)) (\<lambda>n. Ok (t\<lparr>tally_deactivating_transient := n\<rparr>))
      else if x = as_u8 ReadyForRemoval then
        and_then (count_one (tally_ready_for_removal t)) (\<lambda>n. Ok (t\<lparr>tally_ready_for_removal := n\<rparr>))
      else if x = as_u8 DeactivatingValidator then
        and_then (count_one (tally_deactivating_validator t)) (\<lambda>n. Ok (t\<lparr>tally_deactivating_validator := n\<rparr>))
      else if x = as_u8 DeactivatingAll then
        and_then (count_one (tally_deactivating_all t)) (\<lambda>n. Ok (t\<lparr>tally_deactivating_all := n\<rparr>))
      else Err (Steward InvalidStakeState))"

definition tally_stake_status :: "(StakeStatus \<Rightarrow> 8 word) \<Rightarrow> ValidatorListAccount \<Rightarrow> StakeStatusTally result" where
  "tally_stake_status as_u8 acc =
     and_then (load_validator_list acc) (\<lambda>vl.
     for_each (\<lambda>i t. and_then (stake_status_at vl i) (\<lambda>x. tally_step as_u8 x t)) [0..<bv_len vl]
       \<lparr>tally_active = 0, tally_deactivating_transient = 0, tally_ready_for_removal = 0,
        tally_deactivating_validator = 0, tally_deactivating_all = 0\<rparr>)"

definition check_validator_list_has_stake_status_other_than ::
  "(StakeStatus \<Rightarrow> 8 word) \<Rightarrow> ValidatorListAccount \<Rightarrow> StakeStatus list \<Rightarrow> bool result" where
  "check_validator_list_has_stake_status_other_than as_u8 acc flags =
     and_then (load_validator_list acc) (\<lambda>vl.
     and_then (position (\<lambda>i. and_then (stake_status_at vl i)
                           (\<lambda>x. Ok (\<not> list_ex (\<lambda>flag. x = as_u8 flag) flags)))
                [0..<bv_len vl]) (\<lambda>found.
     Ok (found \<noteq> None)))"

section \<open>The list as a sequence of records\<close>

text \<open>
  The documented layout of an item of the list, and the bytes of a list of items behind the
  four bytes of its length. The reads above return the fields of the items.
\<close>

record ValidatorStakeInfo =
  active_stake_lamports :: nat
  transient_stake_lamports :: nat
  last_update_epoch :: nat
  transient_seed_suffix :: nat
  unused_bytes :: "8 word list"
  status_byte :: "8 word"
  vote_account_address :: Pubkey

definition info_bytes :: "ValidatorStakeInfo \<Rightarrow> 8 word list" where
  "info_bytes v = to_le_bytes 8 (active_stake_lamports v) @ to_le_bytes 8 (transient_stake_lamports v) @
     to_le_bytes 8 (last_update_epoch v) @ to_le_bytes 8 (transient_seed_suffix v) @ unused_bytes v @
     status_byte v # vote_account_address v"

definition info_wf :: "ValidatorStakeInfo \<Rightarrow> bool" where
  "info_wf v \<longleftrightarrow> active_stake_lamports v \<le> U64_MAX \<and> transient_stake_lamports v \<le> U64_MAX \<and>
     last_update_epoch v \<le> U64_MAX \<and> transient_seed_suffix v \<le> U64_MAX \<and>
     length (unused_bytes v) = 8 \<and> length (vote_account_address v) = 32"

definition big_vec_of :: "ValidatorStakeInfo list \<Rightarrow> BigVec" where
  "big_vec_of vs = \<lparr>bv_len = length vs, bv_data = to_le_bytes 4 (length vs) @ concat (map info_bytes vs),
     bv_item_len = 73\<rparr>"

definition infos_wf :: "ValidatorStakeInfo list \<Rightarrow> bool" where
  "infos_wf vs \<longleftrightarrow> (\<forall>v\<in>set vs. info_wf v) \<and> length vs \<le> MAX_VALIDATORS"

lemma length_info_bytes: "info_wf v \<Longrightarrow> length (info_bytes v) = 73"
  by (simp add: info_bytes_def info_wf_def)

lemma drop_concat_blocks:
  "(\<And>x. x \<in> set xs \<Longrightarrow> length (f x) = n) \<Longrightarrow> drop (i * n) (concat (map f xs)) = concat (map f (drop i xs))"
proof (induction i arbitrary: xs)
  case (Suc i)
  then show ?case
  proof (cases xs)
    case (Cons x ys)
    have "drop (i * n) (concat (map f ys)) = concat (map f (drop i ys))"
      by (rule Suc.IH) (use Suc.prems Cons in simp)
    then show ?thesis using Suc.prems Cons by (simp add: drop_drop [symmetric] add.commute del: drop_drop)
  qed simp
qed simp

lemma slice_of_item:
  assumes vs: "infos_wf vs" and i: "i < length vs" and n: "m + n \<le> 73"
  shows "arr_slice (bv_data (big_vec_of vs)) (4 + i * 73 + m) (4 + i * 73 + m + n) =
    Ok (take n (drop m (info_bytes (vs ! i))))"
proof -
  have len: "length (info_bytes v) = 73" if "v \<in> set vs" for v
    using vs that by (simp add: infos_wf_def length_info_bytes)
  have total: "length (concat (map info_bytes ws)) = 73 * length ws" if "set ws \<subseteq> set vs" for ws
    using that len by (induction ws) auto
  have "drop (4 + i * 73) (bv_data (big_vec_of vs)) = concat (map info_bytes (drop i vs))"
    using drop_concat_blocks [of vs info_bytes 73 i, OF len] by (simp add: big_vec_of_def)
  also have "\<dots> = info_bytes (vs ! i) @ concat (map info_bytes (drop (Suc i) vs))"
    using i by (simp add: Cons_nth_drop_Suc [symmetric])
  finally have d: "drop (4 + i * 73) (bv_data (big_vec_of vs)) =
      info_bytes (vs ! i) @ concat (map info_bytes (drop (Suc i) vs))" .
  have "drop (4 + i * 73 + m) (bv_data (big_vec_of vs)) = drop m (drop (4 + i * 73) (bv_data (big_vec_of vs)))"
    by (simp add: add.commute)
  then have "take n (drop (4 + i * 73 + m) (bv_data (big_vec_of vs))) = take n (drop m (info_bytes (vs ! i)))"
    using d len [of "vs ! i"] i n by simp
  moreover have "4 + i * 73 + m + n \<le> length (bv_data (big_vec_of vs))"
  proof -
    have "i * 73 + 73 \<le> 73 * length vs" using i by linarith
    then show ?thesis using total [of vs] n by (simp add: big_vec_of_def)
  qed
  ultimately show ?thesis by (simp add: arr_slice_def)
qed

lemma item_start_wf:
  "infos_wf vs \<Longrightarrow> i < length vs \<Longrightarrow> item_start (big_vec_of vs) i = 4 + i * 73"
  by (simp add: item_start_def big_vec_of_def infos_wf_def saturating_defs offset_defs MAX_VALIDATORS_def
      int_limits)

lemma item_bounds: "infos_wf vs \<Longrightarrow> i < length vs \<Longrightarrow> 4 + i * 73 + 73 < U64_MAX"
  by (simp add: infos_wf_def MAX_VALIDATORS_def int_limits)

lemma stake_lamports_at_info:
  assumes "infos_wf vs" "i < length vs"
  shows "stake_lamports_at_validator_list_index (big_vec_of vs) i =
    Ok (active_stake_lamports (vs ! i), transient_stake_lamports (vs ! i) \<noteq> 0)"
proof -
  have wf: "info_wf (vs ! i)" using assms by (simp add: infos_wf_def)
  have s0: "arr_slice (bv_data (big_vec_of vs)) (4 + i * 73) (4 + i * 73 + 8) =
      Ok (to_le_bytes 8 (active_stake_lamports (vs ! i)))"
    using slice_of_item [OF assms, of 0 8] by (simp add: info_bytes_def)
  have s1: "arr_slice (bv_data (big_vec_of vs)) (4 + i * 73 + 8) (4 + i * 73 + 8 + 8) =
      Ok (to_le_bytes 8 (transient_stake_lamports (vs ! i)))"
    using slice_of_item [OF assms, of 8 8] by (simp add: info_bytes_def)
  have "from_le_bytes (to_le_bytes 8 (active_stake_lamports (vs ! i))) = active_stake_lamports (vs ! i)"
    "from_le_bytes (to_le_bytes 8 (transient_stake_lamports (vs ! i))) = transient_stake_lamports (vs ! i)"
    using wf by (auto intro!: from_to_le_bytes simp: info_wf_def int_limits)
  then show ?thesis
    using s0 s1 item_start_wf [OF assms] item_bounds [OF assms]
    by (simp add: stake_lamports_at_validator_list_index_def Let_def checked_defs offset_defs)
qed

lemma vote_pubkey_at_info:
  assumes "infos_wf vs" "i < length vs"
  shows "vote_pubkey_at_validator_list_index (big_vec_of vs) i = Ok (vote_account_address (vs ! i))"
proof -
  have wf: "info_wf (vs ! i)" using assms by (simp add: infos_wf_def)
  have "arr_slice (bv_data (big_vec_of vs)) (4 + i * 73 + 41) (4 + i * 73 + 41 + 32) =
      Ok (vote_account_address (vs ! i))"
    using slice_of_item [OF assms, of 41 32] wf by (simp add: info_bytes_def info_wf_def)
  moreover have "length (vote_account_address (vs ! i)) = 32" using wf by (simp add: info_wf_def)
  ultimately show ?thesis
    using item_start_wf [OF assms] item_bounds [OF assms]
    by (simp add: vote_pubkey_at_validator_list_index_def Let_def saturating_add_def min_def offset_defs)
qed

lemma transient_seed_at_info:
  assumes "infos_wf vs" "i < length vs"
  shows "get_transient_stake_seed_at_index_from_big_vec (big_vec_of vs) i = Ok (transient_seed_suffix (vs ! i))"
proof -
  have wf: "info_wf (vs ! i)" using assms by (simp add: infos_wf_def)
  have "arr_slice (bv_data (big_vec_of vs)) (4 + i * 73 + 24) (4 + i * 73 + 24 + 8) =
      Ok (to_le_bytes 8 (transient_seed_suffix (vs ! i)))"
    using slice_of_item [OF assms, of 24 8] by (simp add: info_bytes_def)
  moreover have "from_le_bytes (to_le_bytes 8 (transient_seed_suffix (vs ! i))) = transient_seed_suffix (vs ! i)"
    using wf by (auto intro!: from_to_le_bytes simp: info_wf_def int_limits)
  ultimately show ?thesis
    using item_start_wf [OF assms] item_bounds [OF assms]
    by (simp add: get_transient_stake_seed_at_index_from_big_vec_def Let_def saturating_add_def min_def
        checked_defs offset_defs)
qed

end
