(* ===== verification/Steward_State.thy ===== *)
theory Steward_State
  imports Score Directed_Stake Validator_List "HOL-Library.Multiset"
begin

text \<open>
  The steward's state machine: \<^verbatim>\<open>StewardStateV2\<close> and its operations except \<^verbatim>\<open>rebalance\<close>
  (programs/steward/src/state/steward_state.rs), with \<^verbatim>\<open>epoch_progress\<close> and
  \<^verbatim>\<open>get_target_lamports\<close> of utils.rs. The clock and the epoch schedule belong to the Solana
  runtime: the schedule is a record with its two functions as fields.
\<close>

section \<open>Data\<close>

record Clock =
  clock_slot :: nat
  clock_epoch :: nat

record EpochSchedule =
  slots_per_epoch :: nat
  get_first_slot_in_epoch :: "nat \<Rightarrow> nat"
  get_slots_in_epoch :: "nat \<Rightarrow> nat"

datatype StewardStateEnum =
  ComputeScores | ComputeDelegations | Idle | ComputeInstantUnstake | Rebalance | RebalanceDirected

fun StewardStateEnum_fmt :: "StewardStateEnum \<Rightarrow> string" where
  "StewardStateEnum_fmt ComputeScores = ''ComputeScores''"
| "StewardStateEnum_fmt ComputeDelegations = ''ComputeDelegations''"
| "StewardStateEnum_fmt Idle = ''Idle''"
| "StewardStateEnum_fmt ComputeInstantUnstake = ''ComputeInstantUnstake''"
| "StewardStateEnum_fmt Rebalance = ''Rebalance''"
| "StewardStateEnum_fmt RebalanceDirected = ''RebalanceDirected''"

record Delegation =
  numerator :: nat
  denominator :: nat

definition Delegation_default :: Delegation where
  "Delegation_default = \<lparr>numerator = 0, denominator = 1\<rparr>"

record StewardStateV2 =
  state_tag :: StewardStateEnum
  validator_lamport_balances :: "nat list"
  scores :: "64 word list"
  sorted_score_indices :: "nat list"
  sorted_raw_score_indices :: "nat list"
  delegations :: "Delegation list"
  instant_unstake :: BitMask
  progress :: BitMask
  validators_for_immediate_removal :: BitMask
  validators_to_remove :: BitMask
  start_computing_scores_slot :: nat
  current_epoch :: nat
  next_cycle_epoch :: nat
  num_pool_validators :: nat
  scoring_unstake_total :: nat
  instant_unstake_total :: nat
  stake_deposit_unstake_total :: nat
  status_flags :: "32 word"
  validators_added :: nat
  raw_scores :: "64 word list"

definition COMPUTE_SCORE :: "32 word" where "COMPUTE_SCORE = push_bit 0 1"
definition COMPUTE_DELEGATIONS :: "32 word" where "COMPUTE_DELEGATIONS = push_bit 1 1"
definition EPOCH_MAINTENANCE :: "32 word" where "EPOCH_MAINTENANCE = push_bit 2 1"
definition PRE_LOOP_IDLE :: "32 word" where "PRE_LOOP_IDLE = push_bit 3 1"
definition COMPUTE_INSTANT_UNSTAKES :: "32 word" where "COMPUTE_INSTANT_UNSTAKES = push_bit 4 1"
definition REBALANCE :: "32 word" where "REBALANCE = push_bit 5 1"
definition POST_LOOP_IDLE :: "32 word" where "POST_LOOP_IDLE = push_bit 6 1"
definition REBALANCE_DIRECTED_COMPLETE :: "32 word" where "REBALANCE_DIRECTED_COMPLETE = push_bit 7 1"
definition RESET_TO_IDLE :: "32 word" where "RESET_TO_IDLE = push_bit 16 1"

lemmas flag_defs = COMPUTE_SCORE_def COMPUTE_DELEGATIONS_def EPOCH_MAINTENANCE_def PRE_LOOP_IDLE_def
  COMPUTE_INSTANT_UNSTAKES_def REBALANCE_def POST_LOOP_IDLE_def REBALANCE_DIRECTED_COMPLETE_def
  RESET_TO_IDLE_def

definition set_flag :: "32 word \<Rightarrow> StewardStateV2 \<Rightarrow> StewardStateV2" where
  "set_flag flag s = s\<lparr>status_flags := or (status_flags s) flag\<rparr>"

definition clear_flags :: "StewardStateV2 \<Rightarrow> StewardStateV2" where
  "clear_flags s = s\<lparr>status_flags := 0\<rparr>"

definition unset_flag :: "32 word \<Rightarrow> StewardStateV2 \<Rightarrow> StewardStateV2" where
  "unset_flag flag s = s\<lparr>status_flags := and (status_flags s) (not flag)\<rparr>"

definition has_flag :: "32 word \<Rightarrow> StewardStateV2 \<Rightarrow> bool" where
  "has_flag flag s \<longleftrightarrow> and (status_flags s) flag \<noteq> 0"

text \<open>Every flag is one bit of the status word; setting and clearing act on that bit only.\<close>

lemma and_push_bit_1: "k < 32 \<Longrightarrow> (and w (push_bit k 1) \<noteq> 0) = bit (w :: 32 word) k"
  by (auto simp: bit_eq_iff [where ?'a = "32 word"] bit_and_iff bit_exp_iff possible_bit_word)

lemma bit_or_flag: "k < 32 \<Longrightarrow> bit (or w (push_bit k 1) :: 32 word) j = (bit w j \<or> j = k)"
  by (auto simp: bit_or_iff bit_exp_iff possible_bit_word)

lemma bit_and_not_flag: "k < 32 \<Longrightarrow> bit (and w (not (push_bit k 1)) :: 32 word) j = (bit w j \<and> j \<noteq> k)"
  by (auto simp: bit_and_iff bit_not_iff bit_exp_iff possible_bit_word dest: bit_imp_le_length)

lemma status_flags_ops:
  "status_flags (set_flag flag s) = or (status_flags s) flag"
  "status_flags (unset_flag flag s) = and (status_flags s) (not flag)"
  by (simp_all add: set_flag_def unset_flag_def)

lemma has_flag_bit:
  "has_flag COMPUTE_SCORE s = bit (status_flags s) 0"
  "has_flag COMPUTE_DELEGATIONS s = bit (status_flags s) 1"
  "has_flag EPOCH_MAINTENANCE s = bit (status_flags s) 2"
  "has_flag PRE_LOOP_IDLE s = bit (status_flags s) 3"
  "has_flag COMPUTE_INSTANT_UNSTAKES s = bit (status_flags s) 4"
  "has_flag REBALANCE s = bit (status_flags s) 5"
  "has_flag POST_LOOP_IDLE s = bit (status_flags s) 6"
  "has_flag REBALANCE_DIRECTED_COMPLETE s = bit (status_flags s) 7"
  "has_flag RESET_TO_IDLE s = bit (status_flags s) 16"
  unfolding has_flag_def flag_defs by (rule and_push_bit_1, simp)+

lemma set_flag_bit:
  "bit (status_flags (set_flag COMPUTE_SCORE s)) j = (bit (status_flags s) j \<or> j = 0)"
  "bit (status_flags (set_flag COMPUTE_DELEGATIONS s)) j = (bit (status_flags s) j \<or> j = 1)"
  "bit (status_flags (set_flag EPOCH_MAINTENANCE s)) j = (bit (status_flags s) j \<or> j = 2)"
  "bit (status_flags (set_flag PRE_LOOP_IDLE s)) j = (bit (status_flags s) j \<or> j = 3)"
  "bit (status_flags (set_flag COMPUTE_INSTANT_UNSTAKES s)) j = (bit (status_flags s) j \<or> j = 4)"
  "bit (status_flags (set_flag REBALANCE s)) j = (bit (status_flags s) j \<or> j = 5)"
  "bit (status_flags (set_flag POST_LOOP_IDLE s)) j = (bit (status_flags s) j \<or> j = 6)"
  "bit (status_flags (set_flag REBALANCE_DIRECTED_COMPLETE s)) j = (bit (status_flags s) j \<or> j = 7)"
  "bit (status_flags (set_flag RESET_TO_IDLE s)) j = (bit (status_flags s) j \<or> j = 16)"
  unfolding status_flags_ops flag_defs by (rule bit_or_flag, simp)+

lemma unset_flag_bit:
  "bit (status_flags (unset_flag COMPUTE_SCORE s)) j = (bit (status_flags s) j \<and> j \<noteq> 0)"
  "bit (status_flags (unset_flag COMPUTE_DELEGATIONS s)) j = (bit (status_flags s) j \<and> j \<noteq> 1)"
  "bit (status_flags (unset_flag EPOCH_MAINTENANCE s)) j = (bit (status_flags s) j \<and> j \<noteq> 2)"
  "bit (status_flags (unset_flag PRE_LOOP_IDLE s)) j = (bit (status_flags s) j \<and> j \<noteq> 3)"
  "bit (status_flags (unset_flag COMPUTE_INSTANT_UNSTAKES s)) j = (bit (status_flags s) j \<and> j \<noteq> 4)"
  "bit (status_flags (unset_flag REBALANCE s)) j = (bit (status_flags s) j \<and> j \<noteq> 5)"
  "bit (status_flags (unset_flag POST_LOOP_IDLE s)) j = (bit (status_flags s) j \<and> j \<noteq> 6)"
  "bit (status_flags (unset_flag REBALANCE_DIRECTED_COMPLETE s)) j = (bit (status_flags s) j \<and> j \<noteq> 7)"
  "bit (status_flags (unset_flag RESET_TO_IDLE s)) j = (bit (status_flags s) j \<and> j \<noteq> 16)"
  unfolding status_flags_ops flag_defs by (rule bit_and_not_flag, simp)+

lemma clear_flags_bit: "bit (status_flags (clear_flags s)) j = False"
  by (simp add: clear_flags_def)

lemmas flag_bits = has_flag_bit set_flag_bit unset_flag_bit clear_flags_bit

lemma flag_frame [simp]:
  "state_tag (set_flag flag s) = state_tag s"
  "validator_lamport_balances (set_flag flag s) = validator_lamport_balances s"
  "scores (set_flag flag s) = scores s"
  "sorted_score_indices (set_flag flag s) = sorted_score_indices s"
  "sorted_raw_score_indices (set_flag flag s) = sorted_raw_score_indices s"
  "delegations (set_flag flag s) = delegations s"
  "instant_unstake (set_flag flag s) = instant_unstake s"
  "progress (set_flag flag s) = progress s"
  "validators_for_immediate_removal (set_flag flag s) = validators_for_immediate_removal s"
  "validators_to_remove (set_flag flag s) = validators_to_remove s"
  "start_computing_scores_slot (set_flag flag s) = start_computing_scores_slot s"
  "current_epoch (set_flag flag s) = current_epoch s"
  "next_cycle_epoch (set_flag flag s) = next_cycle_epoch s"
  "num_pool_validators (set_flag flag s) = num_pool_validators s"
  "scoring_unstake_total (set_flag flag s) = scoring_unstake_total s"
  "instant_unstake_total (set_flag flag s) = instant_unstake_total s"
  "stake_deposit_unstake_total (set_flag flag s) = stake_deposit_unstake_total s"
  "validators_added (set_flag flag s) = validators_added s"
  "raw_scores (set_flag flag s) = raw_scores s"
  "state_tag (unset_flag flag s) = state_tag s"
  "validator_lamport_balances (unset_flag flag s) = validator_lamport_balances s"
  "scores (unset_flag flag s) = scores s"
  "sorted_score_indices (unset_flag flag s) = sorted_score_indices s"
  "sorted_raw_score_indices (unset_flag flag s) = sorted_raw_score_indices s"
  "delegations (unset_flag flag s) = delegations s"
  "instant_unstake (unset_flag flag s) = instant_unstake s"
  "progress (unset_flag flag s) = progress s"
  "validators_for_immediate_removal (unset_flag flag s) = validators_for_immediate_removal s"
  "validators_to_remove (unset_flag flag s) = validators_to_remove s"
  "start_computing_scores_slot (unset_flag flag s) = start_computing_scores_slot s"
  "current_epoch (unset_flag flag s) = current_epoch s"
  "next_cycle_epoch (unset_flag flag s) = next_cycle_epoch s"
  "num_pool_validators (unset_flag flag s) = num_pool_validators s"
  "scoring_unstake_total (unset_flag flag s) = scoring_unstake_total s"
  "instant_unstake_total (unset_flag flag s) = instant_unstake_total s"
  "stake_deposit_unstake_total (unset_flag flag s) = stake_deposit_unstake_total s"
  "validators_added (unset_flag flag s) = validators_added s"
  "raw_scores (unset_flag flag s) = raw_scores s"
  "state_tag (clear_flags s) = state_tag s"
  "validator_lamport_balances (clear_flags s) = validator_lamport_balances s"
  "scores (clear_flags s) = scores s"
  "sorted_score_indices (clear_flags s) = sorted_score_indices s"
  "sorted_raw_score_indices (clear_flags s) = sorted_raw_score_indices s"
  "delegations (clear_flags s) = delegations s"
  "instant_unstake (clear_flags s) = instant_unstake s"
  "progress (clear_flags s) = progress s"
  "validators_for_immediate_removal (clear_flags s) = validators_for_immediate_removal s"
  "validators_to_remove (clear_flags s) = validators_to_remove s"
  "start_computing_scores_slot (clear_flags s) = start_computing_scores_slot s"
  "current_epoch (clear_flags s) = current_epoch s"
  "next_cycle_epoch (clear_flags s) = next_cycle_epoch s"
  "num_pool_validators (clear_flags s) = num_pool_validators s"
  "scoring_unstake_total (clear_flags s) = scoring_unstake_total s"
  "instant_unstake_total (clear_flags s) = instant_unstake_total s"
  "stake_deposit_unstake_total (clear_flags s) = stake_deposit_unstake_total s"
  "validators_added (clear_flags s) = validators_added s"
  "raw_scores (clear_flags s) = raw_scores s"
  by (simp_all add: set_flag_def unset_flag_def clear_flags_def)

section \<open>Transitions\<close>

abbreviation arith_error :: "'a option \<Rightarrow> 'a result" where
  "arith_error x \<equiv> ok_or x (Steward ArithmeticError)"

definition epoch_progress :: "Clock \<Rightarrow> EpochSchedule \<Rightarrow> f64 result" where
  "epoch_progress clock es =
     and_then (arith_error (checked_sub (clock_slot clock) (get_first_slot_in_epoch es (clock_epoch clock))))
       (\<lambda>slot_index. Ok (f64_div (f64_of_nat slot_index) (f64_of_nat (slots_per_epoch es))))"

definition transition_compute_scores :: "StewardStateV2 \<Rightarrow> StewardStateV2 result" where
  "transition_compute_scores s =
     and_then (BitMask_is_complete (num_pool_validators s) (progress s)) (\<lambda>complete.
     Ok (if complete
         then set_flag COMPUTE_SCORE (s\<lparr>state_tag := ComputeDelegations, progress := BitMask_default,
                delegations := replicate MAX_VALIDATORS Delegation_default\<rparr>)
         else s))"

definition transition_compute_delegations :: "StewardStateV2 \<Rightarrow> StewardStateV2 result" where
  "transition_compute_delegations s =
     Ok (if has_flag COMPUTE_DELEGATIONS s then s\<lparr>state_tag := Idle\<rparr> else s)"

definition transition_idle :: "nat \<Rightarrow> f64 \<Rightarrow> f64 \<Rightarrow> f64 \<Rightarrow> StewardStateV2 \<Rightarrow> StewardStateV2 result" where
  "transition_idle epoch prog min_instant_unstake min_compute_scores s =
     (let s = (if next_cycle_epoch s \<le> epoch
               then (unset_flag COMPUTE_DELEGATIONS (unset_flag COMPUTE_SCORE s))
                      \<lparr>instant_unstake := BitMask_default, progress := BitMask_default\<rparr>
               else s);
          completed_loop = has_flag REBALANCE s;
          completed_directed_rebalance = has_flag REBALANCE_DIRECTED_COMPLETE s;
          completed_compute_delegations = has_flag COMPUTE_DELEGATIONS s
      in Ok (if completed_directed_rebalance \<and> \<not> completed_compute_delegations
                \<and> f64_le min_compute_scores prog
             then s\<lparr>progress := BitMask_default, state_tag := ComputeScores, instant_unstake := BitMask_default\<rparr>
             else if \<not> completed_loop
             then (let s = set_flag PRE_LOOP_IDLE (unset_flag RESET_TO_IDLE s)
                   in if f64_le min_instant_unstake prog
                      then s\<lparr>state_tag := ComputeInstantUnstake, instant_unstake := BitMask_default,
                             progress := BitMask_default\<rparr>
                      else s)
             else set_flag POST_LOOP_IDLE s))"

definition transition_compute_instant_unstake :: "StewardStateV2 \<Rightarrow> StewardStateV2 result" where
  "transition_compute_instant_unstake s =
     and_then (BitMask_is_complete (num_pool_validators s) (progress s)) (\<lambda>complete.
     Ok (if complete
         then set_flag COMPUTE_INSTANT_UNSTAKES (s\<lparr>state_tag := Rebalance, progress := BitMask_default\<rparr>)
         else s))"

definition transition_rebalance :: "StewardStateV2 \<Rightarrow> StewardStateV2 result" where
  "transition_rebalance s =
     (if has_flag RESET_TO_IDLE s then Ok (s\<lparr>state_tag := Idle, progress := BitMask_default\<rparr>)
      else and_then (BitMask_is_complete (num_pool_validators s) (progress s)) (\<lambda>complete.
        Ok (if complete then set_flag REBALANCE (s\<lparr>state_tag := Idle\<rparr>) else s)))"

definition transition_rebalance_directed :: "f64 \<Rightarrow> f64 \<Rightarrow> StewardStateV2 \<Rightarrow> StewardStateV2 result" where
  "transition_rebalance_directed prog min_compute_scores s =
     Ok (if has_flag REBALANCE_DIRECTED_COMPLETE s then s\<lparr>state_tag := Idle\<rparr>
         else if f64_le min_compute_scores prog
         then (set_flag REBALANCE_DIRECTED_COMPLETE s)\<lparr>state_tag := Idle\<rparr>
         else s)"

definition transition :: "Clock \<Rightarrow> Parameters \<Rightarrow> EpochSchedule \<Rightarrow> StewardStateV2 \<Rightarrow> StewardStateV2 result" where
  "transition clock params es s =
     and_then (epoch_progress clock es) (\<lambda>prog.
     case state_tag s of
       ComputeScores \<Rightarrow> transition_compute_scores s
     | ComputeDelegations \<Rightarrow> transition_compute_delegations s
     | Idle \<Rightarrow> transition_idle (clock_epoch clock) prog (p_instant_unstake_epoch_progress params)
                (p_compute_score_epoch_progress params) s
     | ComputeInstantUnstake \<Rightarrow> transition_compute_instant_unstake s
     | Rebalance \<Rightarrow> transition_rebalance s
     | RebalanceDirected \<Rightarrow> transition_rebalance_directed prog (p_compute_score_epoch_progress params) s)"

record StateTransition =
  tr_epoch :: nat
  tr_slot :: nat
  previous_state :: string
  new_state :: string

definition maybe_transition ::
  "Clock \<Rightarrow> Parameters \<Rightarrow> EpochSchedule \<Rightarrow> StewardStateV2 \<Rightarrow> (StewardStateV2 \<times> StateTransition option) result" where
  "maybe_transition clock params es s =
     (let initial_state = StewardStateEnum_fmt (state_tag s) in
      and_then (transition clock params es s) (\<lambda>s.
      Ok (s, if initial_state \<noteq> StewardStateEnum_fmt (state_tag s)
             then Some \<lparr>tr_epoch = clock_epoch clock, tr_slot = clock_slot clock,
                        previous_state = initial_state, new_state = StewardStateEnum_fmt (state_tag s)\<rparr>
             else None)))"

definition reset_state_for_new_cycle :: "nat \<Rightarrow> nat \<Rightarrow> nat \<Rightarrow> StewardStateV2 \<Rightarrow> StewardStateV2 result" where
  "reset_state_for_new_cycle epoch slot num_epochs_between_scoring s =
     and_then (arith_error (checked_add U64_MAX epoch num_epochs_between_scoring)) (\<lambda>next_cycle.
     (let s1 = s\<lparr>scores := replicate MAX_VALIDATORS 0, raw_scores := replicate MAX_VALIDATORS 0,
                 progress := BitMask_default, next_cycle_epoch := next_cycle,
                 start_computing_scores_slot := slot, scoring_unstake_total := 0,
                 instant_unstake_total := 0, stake_deposit_unstake_total := 0,
                 delegations := replicate MAX_VALIDATORS Delegation_default,
                 instant_unstake := BitMask_default\<rparr>;
          has_epoch_maintenance = has_flag EPOCH_MAINTENANCE s1;
          has_rebalance_directed_complete = has_flag REBALANCE_DIRECTED_COMPLETE s1;
          s2 = clear_flags s1;
          s3 = (if has_epoch_maintenance then set_flag EPOCH_MAINTENANCE s2 else s2)
      in Ok (if has_rebalance_directed_complete then set_flag REBALANCE_DIRECTED_COMPLETE s3 else s3)))"

section \<open>Sorted indices\<close>

definition insert_sorted_index ::
  "nat list \<Rightarrow> 64 word list \<Rightarrow> nat \<Rightarrow> 64 word \<Rightarrow> nat \<Rightarrow> nat list result" where
  "insert_sorted_index sorted_indices scs index score current_len =
     (if \<not> current_len \<le> length sorted_indices then Err Panic
      else and_then (arr_slice sorted_indices 0 current_len) (\<lambda>prefix.
        and_then (position (\<lambda>i. and_then (arr_get scs i) (\<lambda>x. Ok (x < score))) prefix) (\<lambda>pos.
        let insert_at = (case pos of Some p \<Rightarrow> p | None \<Rightarrow> current_len) in
        and_then (for_each (\<lambda>i ys.
            and_then (arith_error (checked_add U64_MAX i 1)) (\<lambda>next_i.
            and_then (arr_get ys i) (\<lambda>v. arr_set ys next_i v)))
          (rev [insert_at..<current_len]) sorted_indices) (\<lambda>ys.
        arr_set ys insert_at index))))"

definition select_validators_to_delegate :: "64 word list \<Rightarrow> nat list \<Rightarrow> nat \<Rightarrow> nat list result" where
  "select_validators_to_delegate scs sorted_indices num_delegation_validators =
     and_then (position (\<lambda>i. and_then (arr_get scs i) (\<lambda>x. Ok (x = 0))) sorted_indices) (\<lambda>pos.
     let last_valid_index = (case pos of Some p \<Rightarrow> p | None \<Rightarrow> num_delegation_validators) in
     arr_slice sorted_indices 0 (min last_valid_index num_delegation_validators))"

section \<open>Removing and adding validators\<close>

definition next_index :: "nat \<Rightarrow> nat result" where
  "next_index i = arith_error (checked_add U64_MAX i 1)"

definition copy_from :: "nat \<Rightarrow> nat \<Rightarrow> 'a list \<Rightarrow> 'a list result" where
  "copy_from next_i i xs = and_then (arr_get xs next_i) (\<lambda>v. arr_set xs i v)"

definition copy_bit :: "nat \<Rightarrow> nat \<Rightarrow> BitMask \<Rightarrow> BitMask result" where
  "copy_bit next_i i m = and_then (BitMask_get next_i m) (\<lambda>b. BitMask_set i b m)"

text \<open>One iteration of the loop that shifts the validator state to the left.\<close>

definition shift_validator_state ::
  "nat \<Rightarrow> StewardStateV2 \<times> DirectedStakeMeta \<Rightarrow> (StewardStateV2 \<times> DirectedStakeMeta) result" where
  "shift_validator_state i p = (case p of (s, m) \<Rightarrow>
     and_then (next_index i) (\<lambda>n.
     and_then (copy_from n i (validator_lamport_balances s)) (\<lambda>balances.
     and_then (copy_from n i (scores s)) (\<lambda>scs.
     and_then (copy_from n i (raw_scores s)) (\<lambda>raws.
     and_then (copy_from n i (delegations s)) (\<lambda>ds.
     and_then (copy_bit n i (instant_unstake s)) (\<lambda>iu.
     and_then (copy_bit n i (progress s)) (\<lambda>pr.
     and_then (copy_from n i (directed_stake_lamports m)) (\<lambda>dl.
     and_then (copy_from n i (directed_stake_meta_indices m)) (\<lambda>di.
     Ok (s\<lparr>validator_lamport_balances := balances, scores := scs, raw_scores := raws, delegations := ds,
           instant_unstake := iu, progress := pr\<rparr>,
         m\<lparr>directed_stake_lamports := dl, directed_stake_meta_indices := di\<rparr>)))))))))))"

definition shift_removal_marks :: "nat \<Rightarrow> StewardStateV2 \<Rightarrow> StewardStateV2 result" where
  "shift_removal_marks i s =
     and_then (next_index i) (\<lambda>n.
     and_then (copy_bit n i (validators_to_remove s)) (\<lambda>vr.
     and_then (copy_bit n i (validators_for_immediate_removal s)) (\<lambda>vi.
     Ok (s\<lparr>validators_to_remove := vr, validators_for_immediate_removal := vi\<rparr>))))"

text \<open>Taking an index out of a sorted index array, and renumbering the indices above it.\<close>

definition drop_sorted_index :: "nat \<Rightarrow> nat \<Rightarrow> nat list \<Rightarrow> nat list result" where
  "drop_sorted_index index n xs =
     (case find_index (\<lambda>i. i = cast U16_MAX index) xs of
        None \<Rightarrow> Ok xs
      | Some p \<Rightarrow> for_each (\<lambda>i ys. and_then (next_index i) (\<lambda>next_i. copy_from next_i i ys)) [p..<n] xs)"

definition renumber_at :: "nat \<Rightarrow> nat \<Rightarrow> nat list \<Rightarrow> nat list result" where
  "renumber_at index i xs =
     and_then (arr_get xs i) (\<lambda>v.
     if index < v then and_then (arith_error (checked_sub v 1)) (\<lambda>v. arr_set xs i v) else Ok xs)"

definition clear_last ::
  "nat \<Rightarrow> nat \<Rightarrow> StewardStateV2 \<times> DirectedStakeMeta \<Rightarrow> (StewardStateV2 \<times> DirectedStakeMeta) result" where
  "clear_last n n_plus_added p = (case p of (s, m) \<Rightarrow>
     and_then (arr_set (validator_lamport_balances s) n LAMPORT_BALANCE_DEFAULT) (\<lambda>balances.
     and_then (arr_set (directed_stake_lamports m) n 0) (\<lambda>dl.
     and_then (arr_set (directed_stake_meta_indices m) n U64_MAX) (\<lambda>di.
     and_then (arr_set (scores s) n 0) (\<lambda>scs.
     and_then (arr_set (raw_scores s) n 0) (\<lambda>raws.
     and_then (arr_set (sorted_score_indices s) n SORTED_INDEX_DEFAULT) (\<lambda>ss.
     and_then (arr_set (sorted_raw_score_indices s) n SORTED_INDEX_DEFAULT) (\<lambda>sr.
     and_then (arr_set (delegations s) n Delegation_default) (\<lambda>ds.
     and_then (BitMask_set n False (instant_unstake s)) (\<lambda>iu.
     and_then (BitMask_set n False (progress s)) (\<lambda>pr.
     and_then (BitMask_set n_plus_added False (validators_to_remove s)) (\<lambda>vr.
     and_then (BitMask_set n_plus_added False (validators_for_immediate_removal s)) (\<lambda>vi.
     Ok (s\<lparr>validator_lamport_balances := balances, scores := scs, raw_scores := raws,
           sorted_score_indices := ss, sorted_raw_score_indices := sr, delegations := ds,
           instant_unstake := iu, progress := pr, validators_to_remove := vr,
           validators_for_immediate_removal := vi\<rparr>,
         m\<lparr>directed_stake_lamports := dl, directed_stake_meta_indices := di\<rparr>))))))))))))))"

definition remove_validator ::
  "nat \<Rightarrow> StewardStateV2 \<Rightarrow> DirectedStakeMeta \<Rightarrow> (StewardStateV2 \<times> DirectedStakeMeta) result" where
  "remove_validator index s m =
     and_then (BitMask_get index (validators_to_remove s)) (\<lambda>marked_for_regular_removal.
     and_then (BitMask_get index (validators_for_immediate_removal s)) (\<lambda>marked_for_immediate_removal.
     and_then (require (marked_for_regular_removal \<or> marked_for_immediate_removal) ValidatorNotMarkedForRemoval) (\<lambda>_.
     and_then (plus_or_panic U64_MAX (num_pool_validators s) (validators_added s)) (\<lambda>n_plus_added.
     and_then (require (index < n_plus_added) ValidatorIndexOutOfBounds) (\<lambda>_.
     and_then (if num_pool_validators s \<le> index
               then and_then (arith_error (checked_sub (validators_added s) 1)) (\<lambda>v. Ok (s\<lparr>validators_added := v\<rparr>))
               else and_then (arith_error (checked_sub (num_pool_validators s) 1))
                      (\<lambda>v. Ok (s\<lparr>num_pool_validators := v\<rparr>))) (\<lambda>s.
     and_then (plus_or_panic U64_MAX (num_pool_validators s) (validators_added s)) (\<lambda>n_plus_added.
     let n = num_pool_validators s in
     and_then (for_each shift_validator_state [index..<n] (s, m)) (\<lambda>(s, m).
     and_then (for_each shift_removal_marks [index..<n_plus_added] s) (\<lambda>s.
     and_then (drop_sorted_index index n (sorted_raw_score_indices s)) (\<lambda>sr.
     and_then (drop_sorted_index index n (sorted_score_indices s)) (\<lambda>ss.
     and_then (for_each (\<lambda>i (sr, ss).
                 and_then (renumber_at index i sr) (\<lambda>sr.
                 and_then (renumber_at index i ss) (\<lambda>ss. Ok (sr, ss)))) [0..<n] (sr, ss)) (\<lambda>(sr, ss).
     clear_last n n_plus_added (s\<lparr>sorted_raw_score_indices := sr, sorted_score_indices := ss\<rparr>, m)))))))))))))"

definition mark_validator_for_removal :: "nat \<Rightarrow> StewardStateV2 \<Rightarrow> StewardStateV2 result" where
  "mark_validator_for_removal index s =
     and_then (BitMask_set index True (validators_to_remove s)) (\<lambda>v. Ok (s\<lparr>validators_to_remove := v\<rparr>))"

definition mark_validator_for_immediate_removal :: "nat \<Rightarrow> StewardStateV2 \<Rightarrow> StewardStateV2 result" where
  "mark_validator_for_immediate_removal index s =
     and_then (BitMask_set index True (validators_for_immediate_removal s))
       (\<lambda>v. Ok (s\<lparr>validators_for_immediate_removal := v\<rparr>))"

definition increment_validator_to_add :: "StewardStateV2 \<Rightarrow> StewardStateV2 result" where
  "increment_validator_to_add s =
     and_then (arith_error (checked_add U16_MAX (validators_added s) 1)) (\<lambda>v. Ok (s\<lparr>validators_added := v\<rparr>))"

section \<open>Scoring, delegation and instant unstake\<close>

text \<open>Storing both scores of a validator, sorting its index in and marking it as scored.\<close>

definition store_scores :: "nat \<Rightarrow> 64 word \<Rightarrow> 64 word \<Rightarrow> StewardStateV2 \<Rightarrow> StewardStateV2 result" where
  "store_scores index score raw_score s =
     and_then (arr_set (scores s) index score) (\<lambda>scs.
     and_then (arr_set (raw_scores s) index raw_score) (\<lambda>raws.
     let num_scores_calculated = mask_count (progress s) in
     and_then (insert_sorted_index (sorted_score_indices s) scs (cast U16_MAX index) (scs ! index)
                 num_scores_calculated) (\<lambda>ss.
     and_then (insert_sorted_index (sorted_raw_score_indices s) raws (cast U16_MAX index) (raws ! index)
                 num_scores_calculated) (\<lambda>sr.
     and_then (BitMask_set index True (progress s)) (\<lambda>pr.
     Ok (s\<lparr>scores := scs, raw_scores := raws, sorted_score_indices := ss, sorted_raw_score_indices := sr,
           progress := pr\<rparr>))))))"

definition maybe_start_cycle :: "Clock \<Rightarrow> Config \<Rightarrow> nat \<Rightarrow> StewardStateV2 \<Rightarrow> StewardStateV2 result" where
  "maybe_start_cycle clock config num_validators s =
     and_then (arith_error (checked_sub (clock_slot clock) (start_computing_scores_slot s)))
       (\<lambda>slots_since_scoring_started.
     if mask_is_empty (progress s) \<or> current_epoch s < clock_epoch clock
        \<or> p_compute_score_slot_range (c_parameters config) < slots_since_scoring_started
     then and_then (reset_state_for_new_cycle (clock_epoch clock) (clock_slot clock)
                      (p_num_epochs_between_scoring (c_parameters config)) s) (\<lambda>s.
          and_then (plus_or_panic U64_MAX (num_pool_validators s) (validators_added s)) (\<lambda>total.
          and_then (require (num_validators = total) ListStateMismatch) (\<lambda>_.
          Ok (s\<lparr>num_pool_validators := num_validators, validators_added := 0\<rparr>))))
     else Ok s)"

definition last_update_slot_of :: "ValidatorHistory \<Rightarrow> nat result" where
  "last_update_slot_of validator =
     and_then (vote_account_last_update_slot_latest (vh_history validator)) (\<lambda>slot.
     ok_or slot (Steward VoteHistoryNotRecentEnough))"

definition compute_score ::
  "Clock \<Rightarrow> EpochSchedule \<Rightarrow> ValidatorHistory \<Rightarrow> nat \<Rightarrow> ClusterHistory \<Rightarrow> Config \<Rightarrow> nat \<Rightarrow>
   StewardStateV2 \<Rightarrow> (StewardStateV2 \<times> ScoreComponentsV5 option) result" where
  "compute_score clock es validator index cluster config num_validators s =
     (if state_tag s \<noteq> ComputeScores then Err (Steward InvalidState)
      else and_then (maybe_start_cycle clock config num_validators s) (\<lambda>s.
        and_then (BitMask_get index (progress s)) (\<lambda>done_already.
        if done_already then Ok (s, None)
        else and_then (BitMask_get index (validators_to_remove s)) (\<lambda>to_remove.
          and_then (if to_remove then Ok True else BitMask_get index (validators_for_immediate_removal s)) (\<lambda>marked.
          if marked then and_then (store_scores index 0 0 s) (\<lambda>s. Ok (s, None))
          else
            and_then (last_update_slot_of validator) (\<lambda>last_update_slot.
            if last_update_slot < get_first_slot_in_epoch es (clock_epoch clock)
            then Err (Steward VoteHistoryNotRecentEnough)
            else if cluster_history_last_update_slot cluster < get_first_slot_in_epoch es (clock_epoch clock)
            then Err (Steward ClusterHistoryNotRecentEnough)
            else and_then (validator_score validator cluster config (cast U16_MAX (clock_epoch clock))
                             TVC_ACTIVATION_EPOCH) (\<lambda>sc.
              and_then (store_scores index (s_score sc) (s_raw_score sc) s) (\<lambda>s. Ok (s, Some sc)))))))))"

definition compute_delegations :: "nat \<Rightarrow> Config \<Rightarrow> StewardStateV2 \<Rightarrow> StewardStateV2 result" where
  "compute_delegations epoch config s =
     (if state_tag s \<noteq> ComputeDelegations then Err (Steward InvalidState)
      else if next_cycle_epoch s \<le> epoch then Err (Steward InvalidState)
      else and_then (arr_slice (scores s) 0 (num_pool_validators s)) (\<lambda>scs.
        and_then (arr_slice (sorted_score_indices s) 0 (num_pool_validators s)) (\<lambda>ss.
        and_then (select_validators_to_delegate scs ss (p_num_delegation_validators (c_parameters config)))
          (\<lambda>validators_to_delegate.
        and_then (for_each (\<lambda>index ds. arr_set ds index
                    \<lparr>numerator = 1, denominator = cast U32_MAX (length validators_to_delegate)\<rparr>)
                    validators_to_delegate (delegations s)) (\<lambda>ds.
        Ok (set_flag COMPUTE_DELEGATIONS (s\<lparr>delegations := ds\<rparr>)))))))"

definition compute_instant_unstake ::
  "Clock \<Rightarrow> EpochSchedule \<Rightarrow> ValidatorHistory \<Rightarrow> nat \<Rightarrow> ClusterHistory \<Rightarrow> Config \<Rightarrow>
   StewardStateV2 \<Rightarrow> (StewardStateV2 \<times> InstantUnstakeComponentsV3 option) result" where
  "compute_instant_unstake clock es validator index cluster config s =
     (if state_tag s \<noteq> ComputeInstantUnstake then Err (Steward InvalidState)
      else if next_cycle_epoch s \<le> clock_epoch clock then Err (Steward InvalidState)
      else and_then (epoch_progress clock es) (\<lambda>prog.
        if f64_lt prog (p_instant_unstake_epoch_progress (c_parameters config))
        then Err (Steward InstantUnstakeNotReady)
        else and_then (BitMask_get index (progress s)) (\<lambda>done_already.
        if done_already then Ok (s, None)
        else and_then (BitMask_get index (validators_to_remove s)) (\<lambda>to_remove.
          and_then (if to_remove then Ok True else BitMask_get index (validators_for_immediate_removal s)) (\<lambda>marked.
          if marked then and_then (BitMask_set index True (progress s)) (\<lambda>pr. Ok (s\<lparr>progress := pr\<rparr>, None))
          else let first_slot = get_first_slot_in_epoch es (clock_epoch clock) in
            and_then (arith_error (checked_add U64_MAX first_slot
                (f64_to_uint U64_MAX (f64_round (f64_mul (f64_of_nat (get_slots_in_epoch es (clock_epoch clock)))
                   (p_instant_unstake_inputs_epoch_progress (c_parameters config))))))) (\<lambda>min_acceptable_slot.
            and_then (last_update_slot_of validator) (\<lambda>last_update_slot.
            if last_update_slot < min_acceptable_slot then Err (Steward VoteHistoryNotRecentEnough)
            else if cluster_history_last_update_slot cluster < min_acceptable_slot
            then Err (Steward ClusterHistoryNotRecentEnough)
            else and_then (instant_unstake_validator validator cluster config first_slot
                             (cast U16_MAX (clock_epoch clock)) TVC_ACTIVATION_EPOCH) (\<lambda>r.
              and_then (BitMask_set index (iu_instant_unstake r) (instant_unstake s)) (\<lambda>iu.
              and_then (BitMask_set index True (progress s)) (\<lambda>pr.
              Ok (s\<lparr>instant_unstake := iu, progress := pr\<rparr>, Some r)))))))))))"

section \<open>Target and current lamports\<close>

definition get_target_lamports :: "Delegation \<Rightarrow> nat \<Rightarrow> nat result" where
  "get_target_lamports d stake_pool_lamports =
     (if numerator d = 0 then Ok 0
      else if numerator d = 1 then arith_error (checked_div stake_pool_lamports (denominator d))
      else and_then (arith_error (Option.bind (checked_mul U128_MAX stake_pool_lamports (numerator d))
                       (\<lambda>x. checked_div x (denominator d)))) (\<lambda>x.
           ok_or (try_into U64_MAX x) (Steward ArithmeticCastError)))"

definition simulate_adjust_directed_stake_for_deposits_and_withdrawals ::
  "nat \<Rightarrow> nat \<Rightarrow> nat \<Rightarrow> DirectedStakeMeta \<Rightarrow> StewardStateV2 \<Rightarrow> (nat \<times> nat) result" where
  "simulate_adjust_directed_stake_for_deposits_and_withdrawals target_total i mi m s =
     and_then (arr_get (directed_stake_meta_indices m) i) (\<lambda>meta_index.
     if meta_index = U64_MAX then Ok (0, target_total)
     else
       and_then (arr_get (validator_lamport_balances s) i) (\<lambda>balance.
       and_then (arr_get (targets m) mi) (\<lambda>t.
       and_then (arr_get (directed_stake_lamports m) i) (\<lambda>directed.
       let target = total_target_lamports t;
           applied = t_total_staked_lamports t;
           (new_directed, new_total) =
             (if target_total < balance then
                (let withdrawal = saturating_sub balance target_total in
                 if applied < withdrawal then (0, saturating_sub balance withdrawal)
                 else (saturating_sub directed withdrawal, saturating_sub balance withdrawal))
              else if balance < target_total \<and> applied < target then
                (let deficit = saturating_sub target applied;
                     deposit = saturating_sub target_total balance;
                     increase = min deficit deposit
                 in (saturating_add U64_MAX directed increase, saturating_add U64_MAX balance increase))
              else (directed, balance))
       in Ok (if target_total < new_directed then target_total else new_directed, new_total)))))"

end
