(* ===== verification/Credits_And_Age.thy ===== *)
theory Credits_And_Age
  imports Validator_History
begin

text \<open>
  What the routines that read a vote account do to a well-formed history: the backwards
  loop of \<^verbatim>\<open>set_epoch_credits\<close> equals an update of every record, \<^verbatim>\<open>insert_missing_entries\<close>
  keeps the history well formed, and \<^verbatim>\<open>update_validator_age\<close> counts each epoch once, however
  the calls are spread over time.
\<close>

section \<open>Setting epoch credits\<close>

definition with_credits :: "(nat \<Rightarrow> nat option) \<Rightarrow> ValidatorHistoryEntry \<Rightarrow> ValidatorHistoryEntry" where
  "with_credits m entry =
     (case m (vhe_epoch entry) of None \<Rightarrow> entry | Some c \<Rightarrow> entry\<lparr>vhe_epoch_credits := c\<rparr>)"

lemma with_credits_epoch [simp]: "vhe_epoch (with_credits m e) = vhe_epoch e"
  by (simp add: with_credits_def split: option.splits)

lemma layout_update:
  assumes "p < length (arr cb)"
  shows "layout (cb\<lparr>arr := (arr cb)[(Suc (idx cb) + p) mod length (arr cb) := v]\<rparr>) = (layout cb)[p := v]"
proof (rule nth_equalityI)
  fix q
  let ?n = "length (arr cb)"
  assume "q < length (layout (cb\<lparr>arr := (arr cb)[(Suc (idx cb) + p) mod ?n := v]\<rparr>))"
  then have q: "q < ?n" by simp
  have ix: "(Suc (idx cb) + p) mod ?n < ?n" by (rule mod_less_divisor) (use q in linarith)
  have "(Suc (idx cb) + q) mod ?n = (Suc (idx cb) + p) mod ?n \<longleftrightarrow> q = p"
    using mod_add_inj [of "Suc (idx cb)" q ?n p] q assms by blast
  then show "layout (cb\<lparr>arr := (arr cb)[(Suc (idx cb) + p) mod ?n := v]\<rparr>) ! q = (layout cb)[p := v] ! q"
    using assms q ix by (auto simp: nth_layout nth_list_update)
qed simp

text \<open>
  The loop from step \<open>i\<close> on leaves the layout updated at every position that \<open>m\<close> can affect,
  provided the records below the smallest epoch of \<open>m\<close> are not affected.
\<close>

lemma credits_loop_layout:
  assumes "length (arr cb) = n" "i \<le> n" "idx cb < n"
    and "\<And>p q. p < q \<Longrightarrow> q < n - i \<Longrightarrow> vhe_epoch (layout cb ! q) = lo \<Longrightarrow> m (vhe_epoch (layout cb ! p)) = None"
  shows "\<exists>a. credits_loop m lo [i..<n] cb = Ok (cb\<lparr>arr := a\<rparr>) \<and> length a = n \<and>
    layout (cb\<lparr>arr := a\<rparr>) = map (with_credits m) (take (n - i) (layout cb)) @ drop (n - i) (layout cb)"
  using assms
proof (induction "n - i" arbitrary: i cb)
  case 0
  then show ?case by (intro exI [of _ "arr cb"]) simp
next
  case (Suc d)
  then have i: "i < n" "n - i = Suc d" by simp_all
  let ?pos = "(idx cb + n - i) mod n"
  have "idx cb + n - i = Suc (idx cb) + d" using i by linarith
  then have pos: "?pos = (Suc (idx cb) + d) mod n" by simp
  have dn: "d < n" using i by simp
  let ?e = "arr cb ! ?pos"
  have e: "?e = layout cb ! d" using nth_layout [of d cb] Suc.prems(1) dn pos by simp
  let ?cb = "cb\<lparr>arr := (arr cb)[?pos := with_credits m ?e]\<rparr>"
  have lay: "layout ?cb = (layout cb)[d := with_credits m (layout cb ! d)]"
    using layout_update [of d cb] Suc.prems(1) dn pos e by simp
  have step: "credits_loop m lo [i..<n] cb =
      (if vhe_epoch ?e = lo then Ok ?cb else credits_loop m lo [Suc i..<n] ?cb)"
    using i Suc.prems(1,3) by (simp add: upt_rec [of i] Let_def with_credits_def)
  have take_d: "take (Suc d) (layout cb) = take d (layout cb) @ [layout cb ! d]"
    using dn Suc.prems(1) by (simp add: take_Suc_conv_app_nth)
  have drop_d: "drop d (layout ?cb) = with_credits m (layout cb ! d) # drop (Suc d) (layout cb)"
    using dn Suc.prems(1) by (subst Cons_nth_drop_Suc [symmetric]) (simp_all add: lay)
  have goal: "map (with_credits m) (take d (layout ?cb)) @ drop d (layout ?cb) =
      map (with_credits m) (take (n - i) (layout cb)) @ drop (n - i) (layout cb)"
    using drop_d by (simp add: lay i take_d)
  show ?case
  proof (cases "vhe_epoch ?e = lo")
    case True
    then have "with_credits m (layout cb ! p) = layout cb ! p" if "p < d" for p
      using Suc.prems(4) [OF that, unfolded i(2)] e by (simp add: with_credits_def)
    then have "map (with_credits m) (take d (layout cb)) = take d (layout cb)"
      using dn Suc.prems(1) by (auto simp: list_eq_iff_nth_eq)
    then have "map (with_credits m) (take d (layout ?cb)) = take d (layout ?cb)" by (simp add: lay)
    then have "layout ?cb = map (with_credits m) (take d (layout ?cb)) @ drop d (layout ?cb)"
      by (simp only: append_take_drop_id)
    then show ?thesis using step True goal Suc.prems(1) by auto
  next
    case False
    have "\<exists>a. credits_loop m lo [Suc i..<n] ?cb = Ok (?cb\<lparr>arr := a\<rparr>) \<and> length a = n \<and>
        layout (?cb\<lparr>arr := a\<rparr>) = map (with_credits m) (take (n - Suc i) (layout ?cb)) @ drop (n - Suc i) (layout ?cb)"
    proof (rule Suc.hyps(1))
      fix p q
      assume "p < q" "q < n - Suc i" "vhe_epoch (layout ?cb ! q) = lo"
      then show "m (vhe_epoch (layout ?cb ! p)) = None"
        using Suc.prems(4) [of p q] i by (simp add: lay)
    qed (use Suc.hyps(2) Suc.prems(1,3) i in auto)
    moreover have "n - Suc i = d" using i by simp
    ultimately obtain a where "credits_loop m lo [Suc i..<n] ?cb = Ok (?cb\<lparr>arr := a\<rparr>)" "length a = n"
      "layout (?cb\<lparr>arr := a\<rparr>) = map (with_credits m) (take d (layout ?cb)) @ drop d (layout ?cb)"
      by auto
    then show ?thesis using step False goal by (intro exI [of _ a]) simp
  qed
qed

lemma credit_of_ok:
  assumes "credit_of (e, cur, prev) = Ok kv"
  shows "e < EPOCH_UNSET \<and> prev \<le> cur \<and> kv = (e, cast U32_MAX (cur - prev))"
  using assms by (auto simp: credit_of_def cast_epoch_def result_simps split: if_splits)

lemma map_result_credits:
  "map_result credit_of ecs = Ok kvs \<Longrightarrow>
   map fst kvs = map fst ecs \<and> (\<forall>x\<in>fst ` set ecs. x < EPOCH_UNSET)"
proof (induction ecs arbitrary: kvs)
  case (Cons t ecs)
  obtain e cur prev where t: "t = (e, cur, prev)" by (cases t)
  from Cons.prems t obtain kv rest where "credit_of (e, cur, prev) = Ok kv"
    "map_result credit_of ecs = Ok rest" "kvs = kv # rest" by (auto simp: and_then_eq_Inr)
  then show ?case using Cons.IH [of rest] credit_of_ok [of e cur prev kv] t by auto
qed simp

text \<open>The keys of the map are the epochs of the triples, all of them valid.\<close>

lemma epoch_credits_map_dom:
  assumes "epoch_credits_map ecs = Ok m"
  shows "dom m = fst ` set ecs" "\<And>x. m x \<noteq> None \<Longrightarrow> x < EPOCH_UNSET"
proof -
  obtain kvs where kvs: "map_result credit_of ecs = Ok kvs" "m = map_of (rev kvs)"
    using assms by (auto simp: epoch_credits_map_def and_then_eq_Inr)
  have eq: "map fst kvs = map fst ecs" and lt: "\<forall>x\<in>fst ` set ecs. x < EPOCH_UNSET"
    using map_result_credits [OF kvs(1)] by simp_all
  show "dom m = fst ` set ecs" using arg_cong [OF eq, of set] by (simp add: kvs(2) dom_map_of_conv_image_fst)
  then show "x < EPOCH_UNSET" if "m x \<noteq> None" for x using that lt by blast
qed

lemma set_epoch_credits_eq:
  assumes inv: "vh_inv vh" and m: "epoch_credits_map ecs = Ok m" and ne: "ecs \<noteq> []"
  shows "\<exists>h. set_epoch_credits ecs vh = Ok (vh\<lparr>vh_history := h\<rparr>) \<and>
    circ_inv MAX_ITEMS vhe_epoch h \<and> entries vhe_epoch h = map (with_credits m) (vh_entries vh)"
proof -
  let ?cb = "vh_history vh" and ?lo = "Min (set (map fst ecs))"
  note D = circ_invD [OF inv]
  obtain free where lay: "layout ?cb = free @ vh_entries vh" and free: "\<forall>e\<in>set free. vhe_epoch e = EPOCH_UNSET"
    and pos: "free \<noteq> [] \<longrightarrow> Suc (idx ?cb) mod MAX_ITEMS = length (vh_entries vh)"
    using circ_inv_layout [OF inv] by blast
  note dom = epoch_credits_map_dom [OF m]
  have lo_in: "?lo \<in> fst ` set ecs" using ne Min_in [of "set (map fst ecs)"] by simp
  have lo_le: "?lo \<le> x" if "m x \<noteq> None" for x using that dom(1) by (auto intro!: Min_le)
  have "?lo < EPOCH_UNSET" using dom(2) [of ?lo] lo_in dom(1) by blast
  then have lo: "get_min_epoch ecs = Ok ?lo"
    using ne by (simp add: get_min_epoch_def cast_epoch_def)
  have unaffected: "m (vhe_epoch (layout ?cb ! p)) = None"
    if pq: "p < q" "q < MAX_ITEMS - 0" "vhe_epoch (layout ?cb ! q) = ?lo" for p q
  proof (cases "p < length free")
    case True
    then have "vhe_epoch (layout ?cb ! p) = EPOCH_UNSET" using lay free by (simp add: nth_append)
    then show ?thesis using dom(2) by force
  next
    case False
    have len: "length free + length (vh_entries vh) = MAX_ITEMS"
      using lay D(1) by (metis length_append length_layout)
    have "vhe_epoch (layout ?cb ! p) < vhe_epoch (layout ?cb ! q)"
      using sorted_wrt_nth_less [OF D(4), of "p - length free" "q - length free"] pq(1,2) False len
      by (simp add: lay nth_append diff_less_mono less_diff_conv2)
    then show ?thesis using lo_le pq(3) by force
  qed
  obtain a where a: "credits_loop m ?lo [0..<MAX_ITEMS] ?cb = Ok (?cb\<lparr>arr := a\<rparr>)" "length a = MAX_ITEMS"
    "layout (?cb\<lparr>arr := a\<rparr>) = map (with_credits m) (layout ?cb)"
    using credits_loop_layout [OF D(1) _ D(2), of 0 ?lo m] unaffected D(1) by auto
  have "circ_inv MAX_ITEMS vhe_epoch (?cb\<lparr>arr := a\<rparr>) \<and>
      entries vhe_epoch (?cb\<lparr>arr := a\<rparr>) = map (with_credits m) (vh_entries vh)"
    using a(2,3) D lay free pos
    by (intro circ_inv_intro [of _ _ "map (with_credits m) free"])
       (auto simp: circ_is_empty_def comp_def)
  then show ?thesis using a(1) lo m ne D(1)
    by (auto simp: set_epoch_credits_def on_history_def)
qed

section \<open>Inserting missing entries\<close>

text \<open>
  One step of the loop either leaves the history alone or inserts a blank entry for an epoch
  strictly between two recorded ones. The newest record stays the newest.
\<close>

lemma insert_missing_step_ok:
  assumes inv: "circ_inv MAX_ITEMS vhe_epoch cb"
  shows "\<exists>cb'. insert_missing_step m (b, x) cb = Ok cb' \<and> circ_inv MAX_ITEMS vhe_epoch cb' \<and>
    (entries vhe_epoch cb' = entries vhe_epoch cb \<or>
     m x \<noteq> None \<and> \<not> b \<and> entries vhe_epoch cb \<noteq> [] \<and> x \<notin> vhe_epoch ` set (entries vhe_epoch cb) \<and>
     vhe_epoch (hd (entries vhe_epoch cb)) < x \<and> x < vhe_epoch (last (entries vhe_epoch cb)) \<and>
     entries vhe_epoch cb' =
       take_last MAX_ITEMS (insert_entry vhe_epoch (vhe_default\<lparr>vhe_epoch := x\<rparr>) (entries vhe_epoch cb)))"
proof (cases "\<not> b \<and> m x \<noteq> None")
  case False
  then show ?thesis using inv by (auto simp: insert_missing_step_def)
next
  case True
  let ?es = "entries vhe_epoch cb" and ?e = "vhe_default\<lparr>vhe_epoch := x\<rparr>"
  have step: "insert_missing_step m (b, x) cb = ignore_error (circ_insert vhe_epoch ?e x cb) cb"
    using True by (simp add: insert_missing_step_def)
  consider "?es = []"
    | "?es \<noteq> []" "x < vhe_epoch (hd ?es) \<or> vhe_epoch (last ?es) < x"
    | "?es \<noteq> []" "x \<in> vhe_epoch ` set ?es" "vhe_epoch (hd ?es) \<le> x" "x \<le> vhe_epoch (last ?es)"
    | "?es \<noteq> []" "x \<notin> vhe_epoch ` set ?es" "vhe_epoch (hd ?es) \<le> x" "x \<le> vhe_epoch (last ?es)"
    by fastforce
  then show ?thesis
  proof cases
    case 1
    then show ?thesis using step inv circ_invD(6) [OF inv]
      by (simp add: circ_insert_def ignore_error_def)
  next
    case 2
    then show ?thesis using step inv by (simp add: circ_insert_bounds [OF inv] ignore_error_def)
  next
    case 3
    then show ?thesis using step inv find_insert_position_eq [OF inv 3(1) 3(4)]
      by (simp add: circ_insert_bounds [OF inv 3(1)] ignore_error_def)
  next
    case 4
    then obtain cb' where "circ_insert vhe_epoch ?e x cb = Ok cb'" "circ_inv MAX_ITEMS vhe_epoch cb'"
      "entries vhe_epoch cb' = (if length ?es = MAX_ITEMS then tl (insert_entry vhe_epoch ?e ?es)
                                else insert_entry vhe_epoch ?e ?es)"
      using circ_insert_ok [OF inv, of ?e] by auto
    moreover have "length ?es \<le> MAX_ITEMS" by (rule vh_log.recs_cap [OF inv])
    moreover have "vhe_epoch (hd ?es) \<noteq> x" "vhe_epoch (last ?es) \<noteq> x"
      using 4(1,2) by (metis hd_in_set image_eqI, metis image_eqI last_in_set)
    ultimately show ?thesis using step True 4
      by (auto simp: ignore_error_def take_last_def drop_Suc)
  qed
qed

lemma insert_missing_keeps_inv:
  assumes inv: "vh_inv vh" and ok: "insert_missing_entries ecs vh = Ok vh'"
  shows "vh_inv vh'"
proof -
  obtain m ps h where loop: "for_each (insert_missing_step m) ps (vh_history vh) = Ok h"
    and vh': "vh' = vh\<lparr>vh_history := h\<rparr>"
    using ok by (auto simp: insert_missing_entries_def on_history_def and_then_eq_Inr)
  have "circ_inv MAX_ITEMS vhe_epoch h"
  proof (rule for_each_invariant [where I = "circ_inv MAX_ITEMS vhe_epoch", OF loop inv])
    fix p and cb cb' :: CircBuf
    assume "circ_inv MAX_ITEMS vhe_epoch cb" "insert_missing_step m p cb = Ok cb'"
    then show "circ_inv MAX_ITEMS vhe_epoch cb'"
      using insert_missing_step_ok [of cb m "fst p" "snd p"] by auto
  qed
  then show ?thesis using vh' by simp
qed

section \<open>Validator age\<close>

lemma fold_count:
  "n \<le> M \<Longrightarrow> fold (\<lambda>x n. if P x then saturating_add M n 1 else n) xs n = min M (n + length (filter P xs))"
  by (induction xs arbitrary: n) (auto simp: saturating_add_def min_def)

lemma count_range:
  "count_epochs_with_credits_from_range r =
   min U32_MAX (length (filter (\<lambda>c. case c of Some v \<Rightarrow> 0 < v | None \<Rightarrow> False) r))"
proof -
  let ?P = "\<lambda>c. case c of Some v \<Rightarrow> (0::nat) < v | None \<Rightarrow> False"
  have "(\<lambda>c n. case c of Some v \<Rightarrow> if 0 < v then saturating_add U32_MAX n 1 else n | None \<Rightarrow> n) =
      (\<lambda>c n. if ?P c then saturating_add U32_MAX n 1 else n)"
    by (intro ext) (simp split: option.splits)
  then show ?thesis by (simp add: count_epochs_with_credits_from_range_def fold_count)
qed

text \<open>The epochs of a range whose record satisfies \<open>P\<close> are as many as such records.\<close>

lemma count_lookup:
  assumes "distinct (map ep es)"
  shows "length (filter (\<lambda>x. \<exists>e. lookup_epoch ep es x = Some e \<and> P e) [s..<t]) =
    length (filter (\<lambda>e. s \<le> ep e \<and> ep e < t \<and> P e) es)"
proof -
  let ?R = "filter (\<lambda>e. s \<le> ep e \<and> ep e < t \<and> P e) es"
  have "lookup_epoch ep es x = Some e \<longleftrightarrow> e \<in> set es \<and> ep e = x" for x e
  proof
    assume "lookup_epoch ep es x = Some e"
    then show "e \<in> set es \<and> ep e = x" by (auto simp: lookup_epoch_def find_Some_iff)
  qed (use lookup_epoch_mem [OF assms] in auto)
  then have "set (filter (\<lambda>x. \<exists>e. lookup_epoch ep es x = Some e \<and> P e) [s..<t]) = ep ` set ?R"
    by auto
  then have "length (filter (\<lambda>x. \<exists>e. lookup_epoch ep es x = Some e \<and> P e) [s..<t]) = card (ep ` set ?R)"
    using distinct_card [OF distinct_filter [OF distinct_upt],
        of "\<lambda>x. \<exists>e. lookup_epoch ep es x = Some e \<and> P e" s t] by simp
  also have "\<dots> = card (set ?R)"
    using assms by (intro card_image) (auto simp: distinct_map inj_on_def)
  also have "\<dots> = length ?R"
    by (rule distinct_card, rule distinct_filter) (use assms in \<open>simp add: distinct_map\<close>)
  finally show ?thesis .
qed

definition credited :: "ValidatorHistoryEntry \<Rightarrow> bool" where
  "credited e \<longleftrightarrow> vhe_epoch_credits e \<noteq> U32_MAX \<and> 0 < vhe_epoch_credits e"

text \<open>The number of recorded epochs in \<open>[s, t]\<close> in which the validator earned credits.\<close>

definition epochs_with_credits :: "ValidatorHistory \<Rightarrow> nat \<Rightarrow> nat \<Rightarrow> nat" where
  "epochs_with_credits vh s t =
     length (filter (\<lambda>e. s \<le> vhe_epoch e \<and> vhe_epoch e \<le> t \<and> credited e) (vh_entries vh))"

lemma epochs_with_credits_split:
  "a \<le> b \<Longrightarrow> epochs_with_credits vh 0 b = epochs_with_credits vh 0 a + epochs_with_credits vh (Suc a) b"
proof -
  assume ab: "a \<le> b"
  have "length (filter (\<lambda>e. vhe_epoch e \<le> b \<and> credited e) es) =
      length (filter (\<lambda>e. vhe_epoch e \<le> a \<and> credited e) es) +
      length (filter (\<lambda>e. Suc a \<le> vhe_epoch e \<and> vhe_epoch e \<le> b \<and> credited e) es)" for es
    using ab by (induction es) auto
  then show ?thesis by (simp add: epochs_with_credits_def)
qed

lemma epochs_with_credits_le: "vh_inv vh \<Longrightarrow> epochs_with_credits vh s t \<le> MAX_ITEMS"
  unfolding epochs_with_credits_def using vh_log.recs_cap length_filter_le order_trans by blast

lemma epochs_with_credits_u32:
  assumes "vh_inv vh"
  shows "min U32_MAX (epochs_with_credits vh s t) = epochs_with_credits vh s t"
proof -
  have "epochs_with_credits vh s t \<le> U32_MAX"
    using epochs_with_credits_le [OF assms] MAX_ITEMS_bounds(3) by (rule order_trans)
  then show ?thesis by simp
qed

lemma epoch_credits_range_count:
  assumes inv: "vh_inv vh" and t: "t < EPOCH_UNSET"
  shows "\<exists>r. epoch_credits_range s t (vh_history vh) = Ok r \<and>
    count_epochs_with_credits_from_range r = epochs_with_credits vh s t"
proof -
  let ?es = "vh_entries vh"
  let ?g = "\<lambda>m. case m of None \<Rightarrow> None
              | Some e \<Rightarrow> if vhe_epoch_credits e \<noteq> U32_MAX then Some (vhe_epoch_credits e) else None"
  let ?P = "\<lambda>c. case c of Some v \<Rightarrow> (0::nat) < v | None \<Rightarrow> False"
  have range: "epoch_credits_range s t (vh_history vh) =
      Ok (map (\<lambda>x. ?g (lookup_epoch vhe_epoch ?es x)) [s..<Suc t])"
    using vh_log.range_law [OF inv t, of s]
    by (simp add: epoch_credits_range_def field_range_def ValidatorHistoryEntry_default_def comp_def del: upt_Suc)
  have "?P (?g (lookup_epoch vhe_epoch ?es x)) \<longleftrightarrow>
      (\<exists>e. lookup_epoch vhe_epoch ?es x = Some e \<and> credited e)" for x
    by (cases "lookup_epoch vhe_epoch ?es x") (auto simp: credited_def)
  then have "length (filter ?P (map (\<lambda>x. ?g (lookup_epoch vhe_epoch ?es x)) [s..<Suc t])) =
      length (filter (\<lambda>x. \<exists>e. lookup_epoch vhe_epoch ?es x = Some e \<and> credited e) [s..<Suc t])"
    by (simp add: filter_map comp_def del: upt_Suc)
  also have "\<dots> = epochs_with_credits vh s t"
    using count_lookup [of vhe_epoch ?es credited s "Suc t"] vh_log.recs_sorted [OF inv]
    by (simp add: epochs_with_credits_def strict_sorted_iff less_Suc_eq_le del: upt_Suc)
  finally have "count_epochs_with_credits_from_range (map (\<lambda>x. ?g (lookup_epoch vhe_epoch ?es x)) [s..<Suc t])
      = epochs_with_credits vh s t"
    by (simp add: count_range epochs_with_credits_u32 [OF inv] del: upt_Suc)
  then show ?thesis using range by blast
qed

lemma initialize_age_eq:
  assumes inv: "vh_inv vh" and e: "0 < current_epoch" "current_epoch < EPOCH_UNSET"
  shows "initialize_validator_age current_epoch vh =
    vh\<lparr>validator_age := epochs_with_credits vh 0 (current_epoch - 1),
       validator_age_last_updated_epoch := current_epoch - 1\<rparr>"
proof -
  note D = circ_invD [OF inv]
  let ?P = "has_credits_until (current_epoch - 1)"
  have P: "?P = (\<lambda>e. vhe_epoch e \<noteq> EPOCH_UNSET \<and> (vhe_epoch e \<le> current_epoch - 1 \<and> credited e))"
    by (auto simp: has_credits_until_def credited_def ValidatorHistoryEntry_default_def)
  have "length (filter ?P (arr (vh_history vh))) = length (filter ?P (layout (vh_history vh)))"
    using D(1,2) by (simp add: layout_split flip: filter_append length_append)
      (metis append_take_drop_id filter_append length_append add.commute)
  also have "\<dots> = epochs_with_credits vh 0 (current_epoch - 1)"
    unfolding P epochs_with_credits_def entries_def filter_filter by simp
  finally show ?thesis
    using e by (simp add: initialize_validator_age_def fold_count saturating_sub_def Let_def
        epochs_with_credits_u32 [OF inv])
qed

lemma update_age_later:
  assumes inv: "vh_inv vh" and last: "0 < validator_age_last_updated_epoch vh"
    and e: "current_epoch < EPOCH_UNSET" "validator_age_last_updated_epoch vh < current_epoch - 1"
  shows "update_validator_age current_epoch vh =
    Ok (vh\<lparr>validator_age := saturating_add U32_MAX (validator_age vh)
          (epochs_with_credits vh (Suc (validator_age_last_updated_epoch vh)) (current_epoch - 1)),
        validator_age_last_updated_epoch := current_epoch - 1\<rparr>)"
proof -
  have "saturating_add U16_MAX (validator_age_last_updated_epoch vh) 1 =
      Suc (validator_age_last_updated_epoch vh)"
    using e by (simp add: saturating_add_def)
  moreover obtain r where
    "epoch_credits_range (Suc (validator_age_last_updated_epoch vh)) (current_epoch - 1) (vh_history vh) = Ok r"
    "count_epochs_with_credits_from_range r =
       epochs_with_credits vh (Suc (validator_age_last_updated_epoch vh)) (current_epoch - 1)"
    using epoch_credits_range_count [OF inv] e(1) by (metis less_imp_diff_less)
  ultimately show ?thesis using last e
    by (simp add: update_validator_age_def VALIDATOR_AGE_EPOCH_DEFAULT_def saturating_sub_def Let_def)
qed

section \<open>Properties\<close>

text \<open>
  A sample history for the witnesses: one record, of epoch 100 with 16 credits, in a buffer
  as the initialisation leaves it.
\<close>

definition sample_entry :: ValidatorHistoryEntry where
  "sample_entry = vhe_default\<lparr>vhe_epoch := 100, vhe_epoch_credits := 16\<rparr>"

definition sample_history :: ValidatorHistory where
  "sample_history = \<lparr>vh_struct_version = 0, vh_vote_account = replicate 32 1, vh_index = 0, vh_bump = 255,
     last_ip_timestamp = 0, last_version_timestamp = 0, validator_age = 0,
     validator_age_last_updated_epoch = 0,
     vh_history = \<lparr>idx = 0, is_empty_flag = 0, arr = sample_entry # replicate 511 vhe_default\<rparr>\<rparr>"

lemma sample_entry_simps [simp]:
  "vhe_epoch sample_entry = 100" "vhe_epoch_credits sample_entry = 16"
  by (simp_all add: sample_entry_def)

lemma sample_history_inv: "vh_inv sample_history \<and> vh_entries sample_history = [sample_entry]"
  by (rule circ_inv_intro [of _ _ "replicate 511 vhe_default"])
     (simp_all add: sample_history_def MAX_ITEMS_def int_limits layout_split circ_is_empty_def)

lemma sample_history_simps [simp]:
  "vh_entries sample_history = [sample_entry]" "validator_age_last_updated_epoch sample_history = 0"
  "validator_age sample_history = 0"
  using sample_history_inv by (simp_all add: sample_history_def)

lemma update_validator_age_idem:
  "and_then (update_validator_age e vh) (update_validator_age e) = update_validator_age e vh"
proof (cases "validator_age_last_updated_epoch vh = 0")
  case True
  let ?vh = "initialize_validator_age e vh"
  have "initialize_validator_age e ?vh = ?vh"
    by (simp add: initialize_validator_age_def Let_def)
  moreover have "validator_age_last_updated_epoch ?vh = saturating_sub e 1"
    by (simp add: initialize_validator_age_def saturating_sub_def Let_def)
  ultimately show ?thesis using True
    by (simp add: update_validator_age_def VALIDATOR_AGE_EPOCH_DEFAULT_def)
next
  case False
  have "update_validator_age e vh' = Ok vh'"
    if "update_validator_age e vh = Ok vh'" for vh'
    using that False
    by (auto simp: update_validator_age_def VALIDATOR_AGE_EPOCH_DEFAULT_def and_then_eq_Inr Let_def
        split: if_splits)
  then show ?thesis by (cases "update_validator_age e vh") simp_all
qed

text \<open>
  Updating the validator age is idempotent within an epoch: a second call with the same
  epoch changes nothing, whatever the first call did, its failure included.
\<close>

theorem update_validator_age_idempotent:
  "and_then (update_validator_age e vh) (update_validator_age e) = update_validator_age e vh"
  by (rule update_validator_age_idem)

text \<open>
  C9. The incremental age equals a recount: initialising the age at epoch \<open>a\<close> and updating it
  at a later epoch \<open>b\<close> gives the age that initialising at \<open>b\<close> gives, so no recorded epoch is
  counted twice or missed.
\<close>

theorem validator_age_incremental_eq_recount:
  assumes inv: "vh_inv vh" and fresh: "validator_age_last_updated_epoch vh = 0"
    and ab: "1 < a" "a \<le> b" "b < EPOCH_UNSET"
  shows "and_then (update_validator_age a vh) (update_validator_age b) =
      Ok (vh\<lparr>validator_age := epochs_with_credits vh 0 (b - 1),
             validator_age_last_updated_epoch := b - 1\<rparr>)"
proof -
  let ?vh = "vh\<lparr>validator_age := epochs_with_credits vh 0 (a - 1), validator_age_last_updated_epoch := a - 1\<rparr>"
  have first: "update_validator_age a vh = Ok ?vh"
    using initialize_age_eq [OF inv, of a] fresh ab
    by (simp add: update_validator_age_def VALIDATOR_AGE_EPOCH_DEFAULT_def)
  show ?thesis
  proof (cases "a = b")
    case True
    then show ?thesis using first update_validator_age_idem [of a vh] by simp
  next
    case False
    have "update_validator_age b ?vh = Ok (?vh\<lparr>validator_age := saturating_add U32_MAX (validator_age ?vh)
          (epochs_with_credits ?vh (Suc (validator_age_last_updated_epoch ?vh)) (b - 1)),
        validator_age_last_updated_epoch := b - 1\<rparr>)"
      by (rule update_age_later) (use inv ab False in auto)
    moreover have "epochs_with_credits ?vh (Suc (a - 1)) (b - 1) = epochs_with_credits vh (Suc (a - 1)) (b - 1)"
      by (simp add: epochs_with_credits_def)
    ultimately show ?thesis
      using first epochs_with_credits_split [OF diff_le_mono [OF ab(2)], of vh 1] ab epochs_with_credits_u32 [OF inv, of 0 "b - 1"]
      by (simp add: saturating_add_def)
  qed
qed

theorem validator_age_incremental_eq_recount_witness:
  "and_then (update_validator_age 101 sample_history) (update_validator_age 105) =
     Ok (sample_history\<lparr>validator_age := 1, validator_age_last_updated_epoch := 104\<rparr>)"
proof -
  have "epochs_with_credits sample_history 0 (105 - 1) = 1"
    by (simp add: epochs_with_credits_def credited_def int_limits)
  then show ?thesis
    using validator_age_incremental_eq_recount [of sample_history 101 105] sample_history_inv
    by (simp add: int_limits)
qed

text \<open>
  \<^verbatim>\<open>set_epoch_credits\<close> stops at the smallest epoch of the vote account's list, and still has
  the effect of setting the credits of every record whose epoch is in the list and of no
  other, in a history that stays well formed.
\<close>

theorem set_epoch_credits_updates_every_record:
  assumes "vh_inv vh" "epoch_credits_map ecs = Ok m" "ecs \<noteq> []"
  shows "\<exists>h. set_epoch_credits ecs vh = Ok (vh\<lparr>vh_history := h\<rparr>) \<and>
    circ_inv MAX_ITEMS vhe_epoch h \<and> entries vhe_epoch h = map (with_credits m) (vh_entries vh)"
  using assms by (rule set_epoch_credits_eq)

theorem set_epoch_credits_updates_every_record_witness:
  "\<exists>h. set_epoch_credits [(99, 500, 400), (100, 950, 500)] sample_history =
      Ok (sample_history\<lparr>vh_history := h\<rparr>) \<and>
    entries vhe_epoch h = [sample_entry\<lparr>vhe_epoch_credits := 450\<rparr>]"
proof -
  have "epoch_credits_map [(99, 500, 400), (100, 950, 500)] = Ok (map_of [(100, 450), (99, 100)])"
    by (simp add: epoch_credits_map_def credit_of_def cast_epoch_def checked_sub_def cast_def int_limits)
  from set_epoch_credits_updates_every_record [OF conjunct1 [OF sample_history_inv] this]
  show ?thesis by (auto simp: with_credits_def)
qed

end
