(* ===== verification/Ranking.thy ===== *)
theory Ranking
  imports Steward_State Credits_And_Age
begin

text \<open>
  The two rankings that scoring builds up, one validator per instruction and in any order:
  the sorted index arrays hold the validators scored so far, each once, by descending score.
  On a complete ranking \<^verbatim>\<open>compute_delegations\<close> picks the best validators with a score.
\<close>

section \<open>Rankings\<close>

definition by_score :: "64 word list \<Rightarrow> nat list \<Rightarrow> bool" where
  "by_score scs xs = sorted_wrt (\<lambda>i j. scs ! j \<le> scs ! i) xs"

text \<open>The first entries of \<open>xs\<close> list exactly the set \<open>A\<close>, ordered by score.\<close>

definition ranked :: "64 word list \<Rightarrow> nat list \<Rightarrow> nat set \<Rightarrow> bool" where
  "ranked scs xs A \<longleftrightarrow> finite A \<and> card A \<le> length xs \<and>
     mset (take (card A) xs) = mset_set A \<and> by_score scs (take (card A) xs)"

lemma ranked_set: "ranked scs xs A \<Longrightarrow> set (take (card A) xs) = A"
  by (metis finite_set_mset_mset_set ranked_def set_mset_mset)

lemma ranked_distinct: "ranked scs xs A \<Longrightarrow> distinct (take (card A) xs)"
  by (metis card_distinct distinct_card length_take min.absorb2 ranked_def ranked_set)

lemma ranked_empty [simp]: "ranked scs xs {}"
  by (simp add: ranked_def by_score_def)

lemma by_score_cong:
  "(\<And>i. i \<in> set xs \<Longrightarrow> scs ! i = scs' ! i) \<Longrightarrow> by_score scs xs = by_score scs' xs"
  by (simp add: by_score_def sorted_wrt_iff_nth_less)

lemma ranked_update_outside:
  assumes "i \<notin> A" "ranked scs xs A"
  shows "ranked (scs[i := v]) xs A"
proof -
  have "by_score (scs[i := v]) (take (card A) xs) = by_score scs (take (card A) xs)"
    by (rule by_score_cong, rule nth_list_update_neq) (use ranked_set [OF assms(2)] assms(1) in auto)
  then show ?thesis using assms(2) by (simp add: ranked_def)
qed

section \<open>Inserting an index\<close>

text \<open>What \<^verbatim>\<open>insert_sorted_index\<close> does to the entries it looks at.\<close>

definition insert_ranked :: "64 word list \<Rightarrow> nat \<Rightarrow> 64 word \<Rightarrow> nat list \<Rightarrow> nat list" where
  "insert_ranked scs index score xs =
     takeWhile (\<lambda>i. score \<le> scs ! i) xs @ index # dropWhile (\<lambda>i. score \<le> scs ! i) xs"

lemma insert_sorted_index_eq:
  assumes k: "k < length xs" "length xs \<le> U64_MAX" and idx: "\<forall>i\<in>set (take k xs). i < length scs"
  shows "\<exists>ys. insert_sorted_index xs scs index score k = Ok ys \<and> length ys = length xs \<and>
    take (Suc k) ys = insert_ranked scs index score (take k xs)"
proof -
  let ?q = "\<lambda>i. scs ! i < score"
  define a where "a = length (takeWhile (\<lambda>i. \<not> ?q i) (take k xs))"
  have pos: "position (\<lambda>i. and_then (arr_get scs i) (\<lambda>x. Ok (x < score))) (take k xs) =
      Ok (if \<exists>i\<in>set (take k xs). ?q i then Some a else None)"
    unfolding a_def by (rule position_pure) (use idx in simp)
  have a: "a \<le> k" unfolding a_def by (rule order_trans [OF length_takeWhile_le]) simp
  have at: "(case (if \<exists>i\<in>set (take k xs). ?q i then Some a else None) of Some p \<Rightarrow> p | None \<Rightarrow> k) = a"
  proof (cases "\<exists>i\<in>set (take k xs). ?q i")
    case False
    then have "takeWhile (\<lambda>i. \<not> ?q i) (take k xs) = take k xs" by (simp add: takeWhile_eq_all_conv)
    then have "a = length (take k xs)" unfolding a_def by (rule arg_cong)
    then show ?thesis using False k by simp
  qed simp
  have loop: "for_each (\<lambda>i ys. and_then (arith_error (checked_add U64_MAX i 1)) (\<lambda>next_i.
        and_then (arr_get ys i) (\<lambda>v. arr_set ys next_i v))) (rev [a..<k]) xs = Ok (shr_range a k xs)"
  proof -
    have "for_each (\<lambda>i ys. and_then (arith_error (checked_add U64_MAX i 1)) (\<lambda>next_i.
          and_then (arr_get ys i) (\<lambda>v. arr_set ys next_i v))) (rev [a..<k]) xs =
        for_each (\<lambda>i ys. and_then (arr_get ys i) (\<lambda>v. arr_set ys (Suc i) v)) (rev [a..<k]) xs"
      by (rule for_each_cong) (use k in \<open>simp add: checked_add_def\<close>)
    then show ?thesis using for_each_shr [OF k(1), of a] by simp
  qed
  let ?ys = "(shr_range a k xs)[a := index]"
  have "insert_sorted_index xs scs index score k = Ok ?ys"
    using k a pos at loop by (simp add: insert_sorted_index_def Let_def split del: if_split)
  moreover have "take (Suc k) ?ys = take a xs @ index # take (k - a) (drop a xs)"
    by (rule take_shr_range [OF a k(1)])
  moreover have "take a xs = takeWhile (\<lambda>i. score \<le> scs ! i) (take k xs)"
    "take (k - a) (drop a xs) = dropWhile (\<lambda>i. score \<le> scs ! i) (take k xs)"
  proof -
    have "take a (take k xs) = takeWhile (\<lambda>i. \<not> ?q i) (take k xs)"
      unfolding a_def by (metis takeWhile_eq_take)
    then show "take a xs = takeWhile (\<lambda>i. score \<le> scs ! i) (take k xs)"
      using a by (simp add: linorder_not_less)
    have "drop a (take k xs) = dropWhile (\<lambda>i. \<not> ?q i) (take k xs)"
      unfolding a_def by (metis dropWhile_eq_drop)
    then show "take (k - a) (drop a xs) = dropWhile (\<lambda>i. score \<le> scs ! i) (take k xs)"
      by (simp add: drop_take linorder_not_less)
  qed
  ultimately show ?thesis by (intro exI [of _ ?ys]) (simp add: insert_ranked_def)
qed

lemma mset_insert_ranked [simp]: "mset (insert_ranked scs index score xs) = add_mset index (mset xs)"
  by (simp add: insert_ranked_def) (metis mset_append takeWhile_dropWhile_id)

lemma by_score_dropWhile:
  "by_score scs xs \<Longrightarrow> j \<in> set (dropWhile (\<lambda>i. score \<le> scs ! i) xs) \<Longrightarrow> scs ! j \<le> score"
  by (induction xs) (fastforce simp: by_score_def split: if_splits)+

lemma by_score_insert:
  assumes "by_score scs xs" "scs ! index = score"
  shows "by_score scs (insert_ranked scs index score xs)"
proof -
  let ?P = "\<lambda>i. score \<le> scs ! i"
  have "by_score scs (takeWhile ?P xs @ dropWhile ?P xs)" using assms(1) by simp
  then have parts: "by_score scs (takeWhile ?P xs)" "by_score scs (dropWhile ?P xs)"
    "\<forall>i\<in>set (takeWhile ?P xs). \<forall>j\<in>set (dropWhile ?P xs). scs ! j \<le> scs ! i"
    unfolding by_score_def sorted_wrt_append by blast+
  have "\<forall>i\<in>set (takeWhile ?P xs). scs ! index \<le> scs ! i"
    using assms(2) by (auto dest: set_takeWhileD)
  moreover have "\<forall>j\<in>set (dropWhile ?P xs). scs ! j \<le> scs ! index"
    using by_score_dropWhile [OF assms(1)] assms(2) by blast
  ultimately show ?thesis
    using parts unfolding insert_ranked_def by_score_def sorted_wrt_append sorted_wrt.simps(2)
    by (metis set_ConsD)
qed

lemma insert_sorted_index_ranked:
  assumes r: "ranked scs xs A" and A: "A \<subseteq> {..<length scs}" and new: "index \<notin> A"
    and room: "card A < length xs" "length xs \<le> U64_MAX" and sc: "scs ! index = score"
  shows "\<exists>ys. insert_sorted_index xs scs index score (card A) = Ok ys \<and> length ys = length xs \<and>
    ranked scs ys (insert index A)"
proof -
  have fin: "finite A" using r by (simp add: ranked_def)
  have "\<forall>i\<in>set (take (card A) xs). i < length scs" using ranked_set [OF r] A by auto
  from insert_sorted_index_eq [OF room this, of index score]
  obtain ys where ys: "insert_sorted_index xs scs index score (card A) = Ok ys" "length ys = length xs"
    "take (Suc (card A)) ys = insert_ranked scs index score (take (card A) xs)" by blast
  have "ranked scs ys (insert index A)"
    using r fin new room ys(2,3) by_score_insert [OF _ sc, of "take (card A) xs"]
    by (simp add: ranked_def)
  then show ?thesis using ys by blast
qed

section \<open>Well-formed states\<close>

text \<open>Every array and mask has its fixed length.\<close>

definition arrays_wf :: "StewardStateV2 \<Rightarrow> bool" where
  "arrays_wf s \<longleftrightarrow>
     length (validator_lamport_balances s) = MAX_VALIDATORS \<and>
     length (scores s) = MAX_VALIDATORS \<and> length (raw_scores s) = MAX_VALIDATORS \<and>
     length (sorted_score_indices s) = MAX_VALIDATORS \<and>
     length (sorted_raw_score_indices s) = MAX_VALIDATORS \<and>
     length (delegations s) = MAX_VALIDATORS \<and>
     mask_invar MAX_VALIDATORS (instant_unstake s) \<and> mask_invar MAX_VALIDATORS (progress s) \<and>
     mask_invar MAX_VALIDATORS (validators_for_immediate_removal s) \<and>
     mask_invar MAX_VALIDATORS (validators_to_remove s)"

definition state_wf :: "StewardStateV2 \<Rightarrow> bool" where
  "state_wf s \<longleftrightarrow>
     length (validator_lamport_balances s) = MAX_VALIDATORS \<and>
     length (scores s) = MAX_VALIDATORS \<and> length (raw_scores s) = MAX_VALIDATORS \<and>
     length (sorted_score_indices s) = MAX_VALIDATORS \<and>
     length (sorted_raw_score_indices s) = MAX_VALIDATORS \<and>
     length (delegations s) = MAX_VALIDATORS \<and>
     mask_invar MAX_VALIDATORS (instant_unstake s) \<and> mask_invar MAX_VALIDATORS (progress s) \<and>
     mask_invar MAX_VALIDATORS (validators_for_immediate_removal s) \<and>
     mask_invar MAX_VALIDATORS (validators_to_remove s) \<and>
     num_pool_validators s + validators_added s \<le> MAX_VALIDATORS"

lemma state_wf_iff: "state_wf s \<longleftrightarrow> arrays_wf s \<and> num_pool_validators s + validators_added s \<le> MAX_VALIDATORS"
  by (simp add: state_wf_def arrays_wf_def)

text \<open>
  While scores are computed, the two sorted arrays rank the validators whose progress bit is
  set, by final and by raw score. These need not be validators that the pool counts: a
  validator added in the middle of the stage has a place in the list and can be scored.
\<close>

definition scoring_inv :: "StewardStateV2 \<Rightarrow> bool" where
  "scoring_inv s \<longleftrightarrow>
     mask_bits (progress s) \<subseteq> {..<MAX_VALIDATORS} \<and>
     ranked (scores s) (sorted_score_indices s) (mask_bits (progress s)) \<and>
     ranked (raw_scores s) (sorted_raw_score_indices s) (mask_bits (progress s))"

lemma max_validators_limits: "MAX_VALIDATORS \<le> U16_MAX" "MAX_VALIDATORS \<le> U64_MAX"
  by (simp_all add: MAX_VALIDATORS_def int_limits)

lemma store_scores_ok:
  assumes wf: "arrays_wf s" and inv: "scoring_inv s"
    and im: "i < MAX_VALIDATORS" and i: "i \<notin> mask_bits (progress s)"
  shows "\<exists>s'. store_scores i sc raw s = Ok s' \<and> arrays_wf s' \<and> scoring_inv s' \<and>
    mask_bits (progress s') = insert i (mask_bits (progress s)) \<and>
    scores s' = (scores s)[i := sc] \<and> raw_scores s' = (raw_scores s)[i := raw] \<and>
    num_pool_validators s' = num_pool_validators s \<and> validators_added s' = validators_added s"
proof -
  let ?A = "mask_bits (progress s)"
  have len: "length (scores s) = MAX_VALIDATORS" "length (raw_scores s) = MAX_VALIDATORS"
    "length (sorted_score_indices s) = MAX_VALIDATORS"
    "length (sorted_raw_score_indices s) = MAX_VALIDATORS"
    and pm: "mask_invar MAX_VALIDATORS (progress s)"
    using wf by (simp_all add: arrays_wf_def)
  have A: "?A \<subseteq> {..<MAX_VALIDATORS}" using inv by (simp add: scoring_inv_def)
  have "insert i ?A \<subseteq> {..<MAX_VALIDATORS}" using A im by simp
  then have "card (insert i ?A) \<le> MAX_VALIDATORS" by (metis card_lessThan card_mono finite_lessThan)
  then have room: "card ?A < MAX_VALIDATORS" using i by simp
  have cnt: "mask_count (progress s) = card ?A" by (rule bm.count_eq [OF pm])
  have ci: "cast U16_MAX i = i" using im max_validators_limits by (intro cast_id) simp
  obtain ss where ss: "insert_sorted_index (sorted_score_indices s) ((scores s)[i := sc]) i sc (card ?A) = Ok ss"
    "length ss = MAX_VALIDATORS" "ranked ((scores s)[i := sc]) ss (insert i ?A)"
    using insert_sorted_index_ranked [of "(scores s)[i := sc]" "sorted_score_indices s" ?A i sc]
      ranked_update_outside [OF i] inv A im room len max_validators_limits i by (auto simp: scoring_inv_def)
  obtain sr where sr: "insert_sorted_index (sorted_raw_score_indices s) ((raw_scores s)[i := raw]) i raw (card ?A) = Ok sr"
    "length sr = MAX_VALIDATORS" "ranked ((raw_scores s)[i := raw]) sr (insert i ?A)"
    using insert_sorted_index_ranked [of "(raw_scores s)[i := raw]" "sorted_raw_score_indices s" ?A i raw]
      ranked_update_outside [OF i] inv A im room len max_validators_limits i by (auto simp: scoring_inv_def)
  obtain pr where pr: "BitMask_set i True (progress s) = Ok pr" "mask_invar MAX_VALIDATORS pr"
    "mask_bits pr = insert i ?A"
    using bm.set_in [OF pm im, of True] by auto
  let ?s = "s\<lparr>scores := (scores s)[i := sc], raw_scores := (raw_scores s)[i := raw],
    sorted_score_indices := ss, sorted_raw_score_indices := sr, progress := pr\<rparr>"
  have "store_scores i sc raw s = Ok ?s"
    using im len ss(1) sr(1) pr(1) by (simp add: store_scores_def Let_def cnt ci)
  moreover have "arrays_wf ?s" using wf ss(2) sr(2) pr(2) by (simp add: arrays_wf_def)
  moreover have "scoring_inv ?s" using inv ss(3) sr(3) pr(3) im by (simp add: scoring_inv_def)
  ultimately show ?thesis using pr(3) by (intro exI [of _ ?s]) simp
qed

section \<open>Scoring one validator\<close>

lemma reset_state_fields:
  assumes "reset_state_for_new_cycle e sl k s = Ok s'"
  shows "state_tag s' = state_tag s \<and> progress s' = BitMask_default \<and>
    num_pool_validators s' = num_pool_validators s \<and> validators_added s' = validators_added s \<and>
    scores s' = replicate MAX_VALIDATORS 0 \<and> raw_scores s' = replicate MAX_VALIDATORS 0 \<and>
    delegations s' = replicate MAX_VALIDATORS Delegation_default \<and> instant_unstake s' = BitMask_default \<and>
    next_cycle_epoch s' = e + k \<and>
    sorted_score_indices s' = sorted_score_indices s \<and>
    sorted_raw_score_indices s' = sorted_raw_score_indices s \<and>
    validator_lamport_balances s' = validator_lamport_balances s \<and>
    validators_to_remove s' = validators_to_remove s \<and>
    validators_for_immediate_removal s' = validators_for_immediate_removal s"
  using assms
  by (auto simp: reset_state_for_new_cycle_def Let_def and_then_eq_Inr checked_add_eq_Some
      set_flag_def clear_flags_def ok_or_eq_Inr)

lemma maybe_start_cycle_inv:
  assumes wf: "arrays_wf s" and inv: "scoring_inv s"
    and ok: "maybe_start_cycle clock config n s = Ok s'"
  shows "arrays_wf s' \<and> scoring_inv s' \<and> state_tag s' = state_tag s \<and>
    num_pool_validators s' + validators_added s' = num_pool_validators s + validators_added s"
proof -
  consider "s' = s" | r where
    "reset_state_for_new_cycle (clock_epoch clock) (clock_slot clock)
       (p_num_epochs_between_scoring (c_parameters config)) s = Ok r"
    "n = num_pool_validators r + validators_added r" "s' = r\<lparr>num_pool_validators := n, validators_added := 0\<rparr>"
    using ok by (auto simp: maybe_start_cycle_def and_then_eq_Inr ok_or_eq_Inr require_eq_Inr
        plus_or_panic_def checked_add_eq_Some split: if_splits)
  then show ?thesis
  proof cases
    case 2
    then show ?thesis using wf reset_state_fields [OF 2(1)] by (simp add: arrays_wf_def scoring_inv_def)
  qed (use wf inv in simp)
qed

lemma compute_score_inv:
  assumes wf: "arrays_wf s" and inv: "scoring_inv s"
    and ok: "compute_score clock es validator i cluster config n s = Ok (s', r)"
  shows "arrays_wf s' \<and> scoring_inv s' \<and> i \<in> mask_bits (progress s') \<and>
    num_pool_validators s' + validators_added s' = num_pool_validators s + validators_added s \<and>
    (\<forall>sc. r = Some sc \<longrightarrow> scores s' ! i = s_score sc \<and> raw_scores s' ! i = s_raw_score sc)"
proof -
  obtain t where t: "maybe_start_cycle clock config n s = Ok t"
    using ok by (auto simp: compute_score_def and_then_eq_Inr split: if_splits)
  have tw: "arrays_wf t" "scoring_inv t" and tn: "num_pool_validators t + validators_added t =
      num_pool_validators s + validators_added s"
    using maybe_start_cycle_inv [OF wf inv t] by simp_all
  have pm: "mask_invar MAX_VALIDATORS (progress t)" using tw by (simp add: arrays_wf_def)
  consider (scored) "s' = t" "r = None" "BitMask_get i (progress t) = Ok True"
    | (store) sc raw where "BitMask_get i (progress t) = Ok False" "store_scores i sc raw t = Ok s'"
        "\<forall>c. r = Some c \<longrightarrow> sc = s_score c \<and> raw = s_raw_score c"
    using ok t
    by (auto simp: compute_score_def and_then_eq_Inr split: if_splits)
  then show ?thesis
  proof cases
    case scored
    then show ?thesis using tw tn bm.get_eq [OF pm, of i] by (auto split: if_splits)
  next
    case store
    have new: "i < MAX_VALIDATORS" "i \<notin> mask_bits (progress t)"
      using store(1) bm.get_eq [OF pm, of i] by (auto split: if_splits)
    from store_scores_ok [OF tw new, of sc raw] store(2)
    show ?thesis using store(3) new(1) tn tw(1) by (auto simp: arrays_wf_def)
  qed
qed

section \<open>Choosing the delegates\<close>

lemma takeWhile_eq_filter:
  assumes "by_score scs xs"
  shows "takeWhile (\<lambda>i. scs ! i \<noteq> 0) xs = filter (\<lambda>i. scs ! i \<noteq> 0) xs"
  using assms
proof (induction xs)
  case (Cons x xs)
  have "filter (\<lambda>i. scs ! i \<noteq> 0) xs = []" if "scs ! x = 0"
    using Cons.prems that by (auto simp: by_score_def filter_empty_conv)
  then show ?case using Cons by (simp add: by_score_def)
qed simp

lemma select_validators_ok:
  assumes "by_score scs xs" "\<forall>i\<in>set xs. i < length scs"
    and "(\<exists>i\<in>set xs. scs ! i = 0) \<or> k \<le> length xs"
  shows "select_validators_to_delegate scs xs k = Ok (take k (filter (\<lambda>i. scs ! i \<noteq> 0) xs))"
proof -
  have "position (\<lambda>i. and_then (arr_get scs i) (\<lambda>x. Ok (x = 0))) xs =
      Ok (if \<exists>i\<in>set xs. scs ! i = 0 then Some (length (takeWhile (\<lambda>i. \<not> scs ! i = 0) xs)) else None)"
    by (rule position_pure) (use assms(2) in simp)
  moreover have "take (length (takeWhile (\<lambda>i. \<not> scs ! i = 0) xs)) xs = filter (\<lambda>i. scs ! i \<noteq> 0) xs"
    using takeWhile_eq_filter [OF assms(1)] takeWhile_eq_take [of "\<lambda>i. scs ! i \<noteq> 0" xs] by simp
  moreover have "length (takeWhile (\<lambda>i. \<not> scs ! i = 0) xs) \<le> length xs" by (rule length_takeWhile_le)
  moreover have "filter (\<lambda>i. scs ! i \<noteq> 0) xs = xs" if "\<not> (\<exists>i\<in>set xs. scs ! i = 0)"
    using that by (auto simp: filter_id_conv)
  ultimately show ?thesis
    using assms(3) by (auto simp: select_validators_to_delegate_def Let_def min.commute take_take [symmetric]
        simp del: take_take)
qed

lemma select_validators_panic:
  assumes "\<forall>i\<in>set xs. i < length scs \<and> scs ! i \<noteq> 0" "length xs < k"
  shows "select_validators_to_delegate scs xs k = Err Panic"
proof -
  have "position (\<lambda>i. and_then (arr_get scs i) (\<lambda>x. Ok (x = 0))) xs =
      Ok (if \<exists>i\<in>set xs. scs ! i = 0 then Some (length (takeWhile (\<lambda>i. \<not> scs ! i = 0) xs)) else None)"
    by (rule position_pure) (use assms(1) in simp)
  then show ?thesis using assms by (simp add: select_validators_to_delegate_def arr_slice_def)
qed

lemma for_each_assign:
  "set is \<subseteq> {..<length xs} \<Longrightarrow> for_each (\<lambda>i ys. arr_set ys i v) is xs =
     Ok (map (\<lambda>i. if i \<in> set is then v else xs ! i) [0..<length xs])"
proof (induction "is" arbitrary: xs)
  case Nil
  then show ?case by (simp add: map_nth)
next
  case (Cons i "is")
  then show ?case by (auto simp: Cons.IH nth_list_update intro!: map_cong)
qed

text \<open>The delegates: the best validators with a score, at most \<open>k\<close> of them.\<close>

definition delegates :: "nat \<Rightarrow> StewardStateV2 \<Rightarrow> nat list" where
  "delegates k s = take k (filter (\<lambda>i. scores s ! i \<noteq> 0) (take (num_pool_validators s) (sorted_score_indices s)))"

lemma ranked_pool:
  assumes "state_wf s" "ranked (scores s) (sorted_score_indices s) {..<num_pool_validators s}"
  shows "set (take (num_pool_validators s) (sorted_score_indices s)) = {..<num_pool_validators s}"
    "distinct (take (num_pool_validators s) (sorted_score_indices s))"
    "by_score (scores s) (take (num_pool_validators s) (sorted_score_indices s))"
  using ranked_set [OF assms(2)] ranked_distinct [OF assms(2)] assms(2) by (simp_all add: ranked_def)

lemma delegates_subset:
  "state_wf s \<Longrightarrow> ranked (scores s) (sorted_score_indices s) {..<num_pool_validators s} \<Longrightarrow>
   i \<in> set (delegates k s) \<Longrightarrow> i < num_pool_validators s \<and> scores s ! i \<noteq> 0"
proof -
  assume "state_wf s" "ranked (scores s) (sorted_score_indices s) {..<num_pool_validators s}"
    "i \<in> set (delegates k s)"
  moreover from this(3) have "i \<in> set (take (num_pool_validators s) (sorted_score_indices s)) \<and> scores s ! i \<noteq> 0"
    unfolding delegates_def by (auto dest: in_set_takeD [of i k])
  ultimately show ?thesis using ranked_pool(1) [of s] by simp
qed

lemma card_delegates:
  assumes "state_wf s" "ranked (scores s) (sorted_score_indices s) {..<num_pool_validators s}"
  shows "distinct (delegates k s)"
    "length (delegates k s) = min k (card {i. i < num_pool_validators s \<and> scores s ! i \<noteq> 0})"
proof -
  let ?xs = "take (num_pool_validators s) (sorted_score_indices s)"
  show "distinct (delegates k s)" using ranked_pool(2) [OF assms] by (simp add: delegates_def)
  have "{i. i < num_pool_validators s \<and> scores s ! i \<noteq> 0} = set (filter (\<lambda>i. scores s ! i \<noteq> 0) ?xs)"
    using ranked_pool(1) [OF assms] by auto
  moreover have "card (set (filter (\<lambda>i. scores s ! i \<noteq> 0) ?xs)) = length (filter (\<lambda>i. scores s ! i \<noteq> 0) ?xs)"
    by (rule distinct_card) (use ranked_pool(2) [OF assms] in simp)
  ultimately show "length (delegates k s) = min k (card {i. i < num_pool_validators s \<and> scores s ! i \<noteq> 0})"
    by (simp add: delegates_def min.commute)
qed

text \<open>No validator outside the delegates has a better score than one of them.\<close>

lemma delegates_best:
  assumes "state_wf s" "ranked (scores s) (sorted_score_indices s) {..<num_pool_validators s}"
    and i: "i \<in> set (delegates k s)" and j: "j < num_pool_validators s" "j \<notin> set (delegates k s)"
  shows "scores s ! j \<le> scores s ! i"
proof (cases "scores s ! j = 0")
  case False
  let ?ys = "filter (\<lambda>i. scores s ! i \<noteq> 0) (take (num_pool_validators s) (sorted_score_indices s))"
  have "by_score (scores s) (take k ?ys @ drop k ?ys)"
    using ranked_pool(3) [OF assms(1,2)] by (simp add: by_score_def sorted_wrt_filter)
  then have "\<forall>a\<in>set (take k ?ys). \<forall>b\<in>set (drop k ?ys). scores s ! b \<le> scores s ! a"
    unfolding by_score_def sorted_wrt_append by blast
  moreover have "j \<in> set ?ys" using ranked_pool(1) [OF assms(1,2)] j(1) False by auto
  then have "j \<in> set (drop k ?ys)" using j(2)
    by (metis Un_iff append_take_drop_id delegates_def set_append)
  ultimately show ?thesis using i by (simp add: delegates_def)
qed simp

lemma compute_delegations_eq:
  assumes wf: "state_wf s" and r: "ranked (scores s) (sorted_score_indices s) {..<num_pool_validators s}"
    and tag: "state_tag s = ComputeDelegations" "epoch < next_cycle_epoch s"
    and k: "(\<exists>i<num_pool_validators s. scores s ! i = 0) \<or>
      p_num_delegation_validators (c_parameters config) \<le> num_pool_validators s"
  defines "D \<equiv> delegates (p_num_delegation_validators (c_parameters config)) s"
  shows "compute_delegations epoch config s = Ok (set_flag COMPUTE_DELEGATIONS (s\<lparr>delegations :=
    map (\<lambda>i. if i \<in> set D then \<lparr>numerator = 1, denominator = length D\<rparr> else delegations s ! i)
      [0..<MAX_VALIDATORS]\<rparr>))"
proof -
  let ?n = "num_pool_validators s" and ?k = "p_num_delegation_validators (c_parameters config)"
  let ?xs = "take ?n (sorted_score_indices s)"
  have len: "length (scores s) = MAX_VALIDATORS" "length (sorted_score_indices s) = MAX_VALIDATORS"
    "length (delegations s) = MAX_VALIDATORS" and n: "?n \<le> MAX_VALIDATORS"
    using wf by (simp_all add: state_wf_def)
  have nth: "take ?n (scores s) ! i = scores s ! i" if "i \<in> set ?xs" for i
    using ranked_pool(1) [OF wf r] that by simp
  have "select_validators_to_delegate (take ?n (scores s)) ?xs ?k =
      Ok (take ?k (filter (\<lambda>i. take ?n (scores s) ! i \<noteq> 0) ?xs))"
  proof (rule select_validators_ok)
    show "by_score (take ?n (scores s)) ?xs"
      using ranked_pool(3) [OF wf r] by (simp only: by_score_cong [OF nth])
    show "\<forall>i\<in>set ?xs. i < length (take ?n (scores s))" using ranked_pool(1) [OF wf r] len n by simp
    show "(\<exists>i\<in>set ?xs. take ?n (scores s) ! i = 0) \<or> ?k \<le> length ?xs"
      using k ranked_pool(1) [OF wf r] nth len n by auto
  qed
  also have "filter (\<lambda>i. take ?n (scores s) ! i \<noteq> 0) ?xs = filter (\<lambda>i. scores s ! i \<noteq> 0) ?xs"
    by (rule filter_cong) (simp_all add: nth)
  finally have sel: "select_validators_to_delegate (take ?n (scores s)) ?xs ?k = Ok D"
    by (simp add: D_def delegates_def)
  have D: "set D \<subseteq> {..<length (delegations s)}"
    using delegates_subset [OF wf r] n len by (fastforce simp: D_def)
  have "length D \<le> card {..<?n}"
    unfolding D_def card_delegates(2) [OF wf r] by (rule min.coboundedI2, rule card_mono) auto
  then have "cast U32_MAX (length D) = length D"
    by (intro cast_id) (use n in \<open>simp add: MAX_VALIDATORS_def int_limits\<close>)
  then show ?thesis
    using tag sel len n for_each_assign [OF D, of "\<lparr>numerator = 1, denominator = length D\<rparr>"]
    by (simp add: compute_delegations_def)
qed

section \<open>A scoring stage\<close>

text \<open>
  A run of the scoring stage: any number of successful calls of \<^verbatim>\<open>compute_score\<close>, for any
  index, in any order and repetition, and between them the changes that the other
  instructions make at that stage without removing a validator: a validator is added to the
  list, or marked for removal.
\<close>

inductive scoring_run :: "StewardStateV2 \<Rightarrow> StewardStateV2 \<Rightarrow> bool" where
  run_start: "scoring_run s s"
| run_step: "scoring_run s t \<Longrightarrow> compute_score clock es validator i cluster config n t = Ok (u, r) \<Longrightarrow>
    scoring_run s u"
| run_add: "scoring_run s t \<Longrightarrow> increment_validator_to_add t = Ok u \<Longrightarrow> scoring_run s u"
| run_mark: "scoring_run s t \<Longrightarrow> mark_validator_for_removal i t = Ok u \<Longrightarrow> scoring_run s u"
| run_mark_now: "scoring_run s t \<Longrightarrow> mark_validator_for_immediate_removal i t = Ok u \<Longrightarrow> scoring_run s u"

lemma mask_set_invar:
  "mask_invar cap m \<Longrightarrow> mask_set cap i v m = Ok m' \<Longrightarrow> mask_invar cap m'"
  using mask_set_in [of cap m i v] by (cases "i < cap") (auto simp: mask_set_def split: if_splits)

lemma scoring_run_inv:
  "scoring_run s t \<Longrightarrow> arrays_wf s \<Longrightarrow> scoring_inv s \<Longrightarrow> arrays_wf t \<and> scoring_inv t"
proof (induction rule: scoring_run.induct)
  case (run_step s t clock es validator i cluster config n u r)
  then show ?case using compute_score_inv [of t clock es validator i cluster config n u r] by blast
next
  case (run_add s t u)
  then show ?case by (auto simp: increment_validator_to_add_def and_then_eq_Inr arrays_wf_def scoring_inv_def)
next
  case (run_mark s t i u)
  then show ?case
    by (auto simp: mark_validator_for_removal_def and_then_eq_Inr arrays_wf_def scoring_inv_def
        dest: mask_set_invar)
next
  case (run_mark_now s t i u)
  then show ?case
    by (auto simp: mark_validator_for_immediate_removal_def and_then_eq_Inr arrays_wf_def scoring_inv_def
        dest: mask_set_invar)
qed simp

lemma transition_compute_scores_complete:
  assumes "arrays_wf s" "state_tag s = ComputeScores" "transition_compute_scores s = Ok t" "state_tag t = ComputeDelegations"
  shows "{..<num_pool_validators s} \<subseteq> mask_bits (progress s) \<and>
    t = set_flag COMPUTE_SCORE (s\<lparr>state_tag := ComputeDelegations, progress := BitMask_default,
                delegations := replicate MAX_VALIDATORS Delegation_default\<rparr>)"
proof -
  have "mask_invar MAX_VALIDATORS (progress s)" using assms(1) by (simp add: arrays_wf_def)
  then show ?thesis using assms(2-4) bm.complete_eq [of "progress s" "num_pool_validators s"]
    by (auto simp: transition_compute_scores_def split: if_splits)
qed

text \<open>A ranking of a larger set, read on a part of it, ranks that part.\<close>

lemma ranked_filter:
  assumes "ranked scs xs A" "B \<subseteq> A"
  shows "mset (filter (\<lambda>i. i \<in> B) (take (card A) xs)) = mset_set B \<and>
    by_score scs (filter (\<lambda>i. i \<in> B) (take (card A) xs))"
proof -
  have "finite A" using assms(1) by (simp add: ranked_def)
  then have "mset_set {i \<in> A. i \<in> B} = filter_mset (\<lambda>i. i \<in> B) (mset_set A)" by simp
  moreover have "{i \<in> A. i \<in> B} = B" using assms(2) by blast
  ultimately show ?thesis using assms(1) by (simp add: ranked_def by_score_def sorted_wrt_filter)
qed

text \<open>
  C1. The scoring stage ends with a ranking of every validator of the pool. Starting from an
  empty progress mask, whatever the calls of \<^verbatim>\<open>compute_score\<close>, their indices and their
  order, and whatever validators are added or marked in between, once the state machine
  leaves \<^verbatim>\<open>ComputeScores\<close> the validators that were scored include the whole pool; both
  sorted arrays list exactly the scored ones, each once, by descending final score and by
  descending raw score; read on the pool alone they list every validator of the pool once, in
  that order; and they are complete rankings of the pool itself when no validator was scored
  that the pool does not count. (A validator added in the middle of the stage can be scored:
  \<open>scored_addition_stops_delegation\<close> below.)
\<close>

theorem scoring_stage_ranks_the_pool:
  assumes "arrays_wf s" "mask_bits (progress s) = {}" "scoring_run s t" "state_tag t = ComputeScores"
    "transition_compute_scores t = Ok u" "state_tag u = ComputeDelegations"
  defines "A \<equiv> mask_bits (progress t)" and "pool \<equiv> {..<num_pool_validators u}"
  shows "pool \<subseteq> A \<and> ranked (scores u) (sorted_score_indices u) A \<and>
    ranked (raw_scores u) (sorted_raw_score_indices u) A \<and>
    mset (filter (\<lambda>i. i \<in> pool) (take (card A) (sorted_score_indices u))) = mset_set pool \<and>
    by_score (scores u) (filter (\<lambda>i. i \<in> pool) (take (card A) (sorted_score_indices u))) \<and>
    mset (filter (\<lambda>i. i \<in> pool) (take (card A) (sorted_raw_score_indices u))) = mset_set pool \<and>
    by_score (raw_scores u) (filter (\<lambda>i. i \<in> pool) (take (card A) (sorted_raw_score_indices u))) \<and>
    (A \<subseteq> pool \<longrightarrow> ranked (scores u) (sorted_score_indices u) pool \<and>
      ranked (raw_scores u) (sorted_raw_score_indices u) pool)"
proof -
  have t: "arrays_wf t" "scoring_inv t"
    using scoring_run_inv [OF assms(3,1)] assms(2) by (simp_all add: scoring_inv_def)
  from transition_compute_scores_complete [OF t(1) assms(4-6)]
  have pool: "pool \<subseteq> A" and u: "scores u = scores t" "sorted_score_indices u = sorted_score_indices t"
    "raw_scores u = raw_scores t" "sorted_raw_score_indices u = sorted_raw_score_indices t"
    by (simp_all add: A_def pool_def)
  have r: "ranked (scores u) (sorted_score_indices u) A" "ranked (raw_scores u) (sorted_raw_score_indices u) A"
    using t(2) by (simp_all add: scoring_inv_def A_def u)
  have "A = pool" if "A \<subseteq> pool" using that pool by simp
  then show ?thesis using r pool ranked_filter [OF r(1) pool] ranked_filter [OF r(2) pool] by metis
qed

text \<open>
  What a scored addition does: when an index beyond the pool stands in the first
  \<^verbatim>\<open>num_pool_validators\<close> places of the ranking, behind pool validators that all have a
  score, \<^verbatim>\<open>compute_delegations\<close> indexes the scores of the pool with it and panics.
\<close>

lemma position_panics:
  "\<forall>i\<in>set xs. i < length scs \<and> scs ! i \<noteq> 0 \<Longrightarrow> length scs \<le> j \<Longrightarrow>
   position (\<lambda>i. and_then (arr_get scs i) (\<lambda>x. Ok (x = 0))) (xs @ j # ys) = Err Panic"
  by (induction xs) (simp_all add: arr_get_def)

theorem scored_addition_stops_delegation:
  assumes "state_wf s" "state_tag s = ComputeDelegations" "epoch < next_cycle_epoch s"
    and "take (num_pool_validators s) (sorted_score_indices s) = xs @ j # ys"
    and "\<forall>i\<in>set xs. i < num_pool_validators s \<and> scores s ! i \<noteq> 0" "num_pool_validators s \<le> j"
  shows "compute_delegations epoch config s = Err Panic"
proof -
  let ?scs = "take (num_pool_validators s) (scores s)"
  have len: "length (scores s) = MAX_VALIDATORS" "length (sorted_score_indices s) = MAX_VALIDATORS"
    "num_pool_validators s \<le> MAX_VALIDATORS" using assms(1) by (simp_all add: state_wf_def)
  then have "position (\<lambda>i. and_then (arr_get ?scs i) (\<lambda>x. Ok (x = 0))) (xs @ j # ys) = Err Panic"
    using assms(5,6) by (intro position_panics) auto
  then show ?thesis
    using assms(2-4) len by (simp add: compute_delegations_def select_validators_to_delegate_def arr_slice_def)
qed

text \<open>A sample state: a pool of three validators that have been scored.\<close>

definition sample_state :: StewardStateV2 where
  "sample_state = \<lparr>state_tag = ComputeDelegations,
     validator_lamport_balances = replicate MAX_VALIDATORS 0,
     scores = [5, 0, 7] @ replicate (MAX_VALIDATORS - 3) 0,
     sorted_score_indices = [2, 0, 1] @ replicate (MAX_VALIDATORS - 3) SORTED_INDEX_DEFAULT,
     sorted_raw_score_indices = [2, 0, 1] @ replicate (MAX_VALIDATORS - 3) SORTED_INDEX_DEFAULT,
     delegations = replicate MAX_VALIDATORS Delegation_default,
     instant_unstake = BitMask_default, progress = BitMask_default,
     validators_for_immediate_removal = BitMask_default, validators_to_remove = BitMask_default,
     start_computing_scores_slot = 100, current_epoch = 900, next_cycle_epoch = 910,
     num_pool_validators = 3, scoring_unstake_total = 0, instant_unstake_total = 0,
     stake_deposit_unstake_total = 0, status_flags = 0, validators_added = 0,
     raw_scores = [5, 4, 7] @ replicate (MAX_VALIDATORS - 3) 0\<rparr>"

lemma sample_state_wf: "state_wf sample_state"
  by (simp add: state_wf_def sample_state_def MAX_VALIDATORS_def)

lemma sample_state_simps [simp]:
  "state_tag sample_state = ComputeDelegations" "num_pool_validators sample_state = 3"
  "next_cycle_epoch sample_state = 910" "validators_added sample_state = 0"
  "delegations sample_state = replicate MAX_VALIDATORS Delegation_default"
  "mask_bits (progress sample_state) = {}" "progress sample_state = BitMask_default"
  "start_computing_scores_slot sample_state = 100" "current_epoch sample_state = 900"
  "validators_for_immediate_removal sample_state = BitMask_default"
  by (simp_all add: sample_state_def)

text \<open>In the sample, the best of the three scored validators is one that was added during the stage.\<close>

theorem scored_addition_stops_delegation_witness:
  "compute_delegations 900 config (sample_state\<lparr>num_pool_validators := 2, validators_added := 1\<rparr>) = Err Panic"
proof (rule scored_addition_stops_delegation)
  show "state_wf (sample_state\<lparr>num_pool_validators := 2, validators_added := 1\<rparr>)"
    using sample_state_wf by (simp add: state_wf_def)
  show "take (num_pool_validators (sample_state\<lparr>num_pool_validators := 2, validators_added := 1\<rparr>))
      (sorted_score_indices (sample_state\<lparr>num_pool_validators := 2, validators_added := 1\<rparr>)) = [] @ 2 # [0]"
    by (simp add: sample_state_def numeral_2_eq_2)
qed simp_all

lemma sample_config_simps [simp]:
  "p_num_delegation_validators (c_parameters sample_config) = 2"
  "p_num_epochs_between_scoring (c_parameters sample_config) = 10"
  by (simp_all add: sample_config_def sample_parameters_def)

lemma mset_set_three: "mset_set {..<3 :: nat} = {#2, 0, 1#}"
proof -
  have "{..<3 :: nat} = {0, 1, 2}" by auto
  then show ?thesis by simp
qed

lemma sample_state_ranked: "ranked (scores sample_state) (sorted_score_indices sample_state) {..<num_pool_validators sample_state}"
  by (simp add: ranked_def by_score_def sample_state_def mset_set_three MAX_VALIDATORS_def)

text \<open>
  The stage with one validator, marked for removal, so that its score is zero by definition.
\<close>

definition marked_state :: StewardStateV2 where
  "marked_state = sample_state\<lparr>state_tag := ComputeScores, num_pool_validators := 1,
     validators_to_remove := \<lparr>words = 1 # replicate 78 0\<rparr>\<rparr>"

lemma marked_state_wf: "state_wf marked_state"
  using sample_state_wf
  by (simp add: state_wf_def marked_state_def mask_invar_def MAX_VALIDATORS_def mask_words_def)

lemma marked_state_run:
  "\<exists>t. scoring_run marked_state t \<and> state_tag t = ComputeScores \<and> num_pool_validators t = 1 \<and>
     arrays_wf t \<and> mask_bits (progress t) = {0}"
proof -
  let ?clock = "\<lparr>clock_slot = 100, clock_epoch = 900\<rparr>"
  let ?es = "\<lparr>slots_per_epoch = 100, get_first_slot_in_epoch = \<lambda>_. 100, get_slots_in_epoch = \<lambda>_. 100\<rparr>"
  let ?cluster = "\<lparr>ch_struct_version = 0, ch_bump = 0, cluster_history_last_update_slot = 100,
    ch_history = \<lparr>idx = 0, is_empty_flag = 1, arr = []\<rparr>\<rparr>"
  obtain r where r: "reset_state_for_new_cycle 900 100 10 marked_state = Ok r"
    by (simp add: reset_state_for_new_cycle_def Let_def checked_add_def int_limits)
  note f = reset_state_fields [OF r]
  let ?r = "r\<lparr>num_pool_validators := 1, validators_added := 0\<rparr>"
  have start: "maybe_start_cycle ?clock sample_config 1 marked_state = Ok ?r"
    using r f by (simp add: maybe_start_cycle_def checked_sub_def marked_state_def mask_is_empty_eq
        plus_or_panic_def checked_add_def int_limits)
  have wf: "arrays_wf marked_state" using marked_state_wf by (simp add: state_wf_iff)
  have inv: "arrays_wf ?r" "scoring_inv ?r"
    using maybe_start_cycle_inv [OF wf _ start] by (simp_all add: scoring_inv_def marked_state_def)
  obtain t where t: "store_scores 0 0 0 ?r = Ok t" "arrays_wf t" "mask_bits (progress t) = {0}"
    "num_pool_validators t = 1"
    using store_scores_ok [OF inv, of 0 0 0] f by (auto simp: MAX_VALIDATORS_def)
  have tag: "state_tag t = ComputeScores"
    using t(1) f by (auto simp: store_scores_def Let_def and_then_eq_Inr marked_state_def)
  have "validators_to_remove ?r = \<lparr>words = 1 # replicate 78 0\<rparr>" using f by (simp add: marked_state_def)
  then have "BitMask_get 0 (validators_to_remove ?r) = Ok True"
    by (simp add: mask_get_def MAX_VALIDATORS_def)
  moreover have "BitMask_get 0 (progress ?r) = Ok False"
    using f bm.get_eq [of "BitMask_default" 0] by (simp add: MAX_VALIDATORS_def)
  ultimately have "compute_score ?clock ?es sample_history 0 ?cluster sample_config 1 marked_state = Ok (t, None)"
    using start t(1) by (simp add: compute_score_def marked_state_def)
  then have "scoring_run marked_state t" by (rule run_step [OF run_start])
  then show ?thesis using t tag by blast
qed

theorem scoring_stage_ranks_the_pool_witness:
  "\<exists>u :: StewardStateV2. num_pool_validators u = 1 \<and> ranked (scores u) (sorted_score_indices u) {..<num_pool_validators u} \<and>
     ranked (raw_scores u) (sorted_raw_score_indices u) {..<num_pool_validators u}"
proof -
  obtain t where t: "scoring_run marked_state t" "state_tag t = ComputeScores" "num_pool_validators t = 1"
    "arrays_wf t" "mask_bits (progress t) = {0}" using marked_state_run by blast
  have "BitMask_is_complete 1 (progress t) = Ok True"
    using t(4,5) bm.complete_eq [of "progress t" 1] by (auto simp: arrays_wf_def MAX_VALIDATORS_def)
  then obtain u where u: "transition_compute_scores t = Ok u" "state_tag u = ComputeDelegations"
    "num_pool_validators u = 1"
    using t(3) by (simp add: transition_compute_scores_def)
  have s: "arrays_wf marked_state" "mask_bits (progress marked_state) = {}"
    using marked_state_wf by (simp_all add: marked_state_def state_wf_iff)
  from scoring_stage_ranks_the_pool [OF s t(1,2) u(1,2)] t(5) u(3) show ?thesis by auto
qed

text \<open>
  C2. \<^verbatim>\<open>compute_delegations\<close> on a complete ranking: with \<open>k\<close> the configured number of delegation
  validators, it chooses the \<open>min k z\<close> best of the \<open>z\<close> validators with a non-zero score, gives
  each an equal share of the pool, leaves every other delegation as it is and marks the
  stage as done. The condition on \<open>k\<close> is needed: without it the code panics.
\<close>

theorem compute_delegations_equal_shares_of_the_best:
  assumes "state_wf s" "ranked (scores s) (sorted_score_indices s) {..<num_pool_validators s}"
    and "state_tag s = ComputeDelegations" "epoch < next_cycle_epoch s"
    and "(\<exists>i<num_pool_validators s. scores s ! i = 0) \<or>
      p_num_delegation_validators (c_parameters config) \<le> num_pool_validators s"
  shows "\<exists>s' D. compute_delegations epoch config s = Ok s' \<and> has_flag COMPUTE_DELEGATIONS s' \<and>
    card D = min (p_num_delegation_validators (c_parameters config))
      (card {i. i < num_pool_validators s \<and> scores s ! i \<noteq> 0}) \<and>
    (\<forall>i\<in>D. i < num_pool_validators s \<and> scores s ! i \<noteq> 0) \<and>
    (\<forall>i\<in>D. \<forall>j<num_pool_validators s. j \<notin> D \<longrightarrow> scores s ! j \<le> scores s ! i) \<and>
    (\<forall>i<MAX_VALIDATORS. delegations s' ! i =
      (if i \<in> D then \<lparr>numerator = 1, denominator = card D\<rparr> else delegations s ! i))"
proof -
  let ?k = "p_num_delegation_validators (c_parameters config)"
  let ?D = "delegates ?k s"
  have "card (set ?D) = length ?D" by (rule distinct_card [OF card_delegates(1) [OF assms(1,2)]])
  then show ?thesis
    using compute_delegations_eq [OF assms] card_delegates(2) [OF assms(1,2), of ?k]
      delegates_subset [OF assms(1,2), of _ ?k] delegates_best [OF assms(1,2), of _ ?k]
    by (intro exI [of _ "set ?D"] exI conjI) (auto simp: flag_bits)
qed

theorem compute_delegations_equal_shares_witness:
  "\<exists>s' D. compute_delegations 900 sample_config sample_state = Ok s' \<and> card D = 2 \<and>
     (\<forall>i<MAX_VALIDATORS. delegations s' ! i =
       (if i \<in> D then \<lparr>numerator = 1, denominator = 2\<rparr> else Delegation_default))"
proof -
  have "{i. i < 3 \<and> scores sample_state ! i \<noteq> 0} = {0, 2 :: nat}"
    by (auto simp: sample_state_def less_Suc_eq numeral_3_eq_3 MAX_VALIDATORS_def)
  moreover have "\<exists>i<num_pool_validators sample_state. scores sample_state ! i = 0"
    by (rule exI [of _ 1]) (simp add: sample_state_def)
  ultimately obtain s' D where D: "compute_delegations 900 sample_config sample_state = Ok s'" "card D = 2"
    "\<forall>i<MAX_VALIDATORS. delegations s' ! i =
       (if i \<in> D then \<lparr>numerator = 1, denominator = card D\<rparr> else delegations sample_state ! i)"
    using compute_delegations_equal_shares_of_the_best [OF sample_state_wf sample_state_ranked, of 900 sample_config]
    by (auto simp: numeral_2_eq_2)
  then have "\<forall>i<MAX_VALIDATORS. delegations s' ! i =
       (if i \<in> D then \<lparr>numerator = 1, denominator = 2\<rparr> else Delegation_default)" by simp
  with D(1,2) show ?thesis by blast
qed

text \<open>
  The documentation of \<^verbatim>\<open>select_validators_to_delegate\<close> says that all non-zero scores are
  selected when there are fewer of them than \<^verbatim>\<open>num_delegation_validators\<close>. That holds only
  if some score is zero: when every validator of a pool smaller than that number has a
  non-zero score, the slice is out of range and \<^verbatim>\<open>compute_delegations\<close> panics.
\<close>

theorem compute_delegations_panics_on_small_pool:
  assumes "state_wf s" "ranked (scores s) (sorted_score_indices s) {..<num_pool_validators s}"
    and "state_tag s = ComputeDelegations" "epoch < next_cycle_epoch s"
    and "\<forall>i<num_pool_validators s. scores s ! i \<noteq> 0"
    and "num_pool_validators s < p_num_delegation_validators (c_parameters config)"
  shows "compute_delegations epoch config s = Err Panic"
proof -
  let ?n = "num_pool_validators s"
  have len: "length (scores s) = MAX_VALIDATORS" "length (sorted_score_indices s) = MAX_VALIDATORS"
    "?n \<le> MAX_VALIDATORS" using assms(1) by (simp_all add: state_wf_def)
  have "select_validators_to_delegate (take ?n (scores s)) (take ?n (sorted_score_indices s))
      (p_num_delegation_validators (c_parameters config)) = Err Panic"
    by (rule select_validators_panic) (use ranked_pool(1) [OF assms(1,2)] assms(5,6) len in auto)
  then show ?thesis using assms(3,4) len by (simp add: compute_delegations_def)
qed

theorem compute_delegations_panics_on_small_pool_witness:
  "compute_delegations 900 sample_config (sample_state\<lparr>num_pool_validators := 1,
     scores := 5 # replicate (MAX_VALIDATORS - 1) 0,
     sorted_score_indices := 0 # replicate (MAX_VALIDATORS - 1) SORTED_INDEX_DEFAULT\<rparr>) = Err Panic"
  by (rule compute_delegations_panics_on_small_pool)
     (simp_all add: state_wf_def ranked_def by_score_def sample_state_def MAX_VALIDATORS_def lessThan_Suc)

end
