(* ===== verification/Undirected_Delegation.thy ===== *)
theory Undirected_Delegation
  imports Ranking
begin

text \<open>
  How much stake to move for one validator (programs/steward/src/delegation.rs), and
  \<^verbatim>\<open>StewardStateV2::rebalance\<close>, which applies it (state/steward_state.rs). Both calculations
  simulate the moves of the other validators in the order of the ranking, so that the
  result does not depend on the order in which the instructions run.
\<close>

section \<open>Unstaking within the caps\<close>

record DecreaseComponents =
  scoring_unstake_lamports :: nat
  instant_unstake_lamports :: nat
  stake_deposit_unstake_lamports :: nat
  total_unstake_lamports :: nat
  directed_unstake_lamports :: nat

datatype RebalanceType = Increase nat | Decrease DecreaseComponents | RebalanceNone

record UnstakeAmounts =
  ua_stake_deposit :: nat
  ua_instant :: nat
  ua_scoring :: nat

definition UnstakeAmounts_default :: UnstakeAmounts where
  "UnstakeAmounts_default = \<lparr>ua_stake_deposit = 0, ua_instant = 0, ua_scoring = 0\<rparr>"

definition UnstakeAmounts_total :: "UnstakeAmounts \<Rightarrow> nat result" where
  "UnstakeAmounts_total a =
     arith_error (Option.bind (checked_add U64_MAX (ua_stake_deposit a) (ua_instant a))
       (\<lambda>x. checked_add U64_MAX x (ua_scoring a)))"

record UnstakeState =
  us_stake_deposit_unstake_total :: nat
  us_instant_unstake_total :: nat
  us_scoring_unstake_total :: nat
  us_stake_deposit_unstake_cap :: nat
  us_instant_unstake_cap :: nat
  us_scoring_unstake_cap :: nat

definition stake_deposit_unstake :: "StewardStateV2 \<Rightarrow> nat \<Rightarrow> nat \<Rightarrow> nat \<Rightarrow> UnstakeState \<Rightarrow> nat result" where
  "stake_deposit_unstake s index current target us =
     and_then (arr_get (validator_lamport_balances s) index) (\<lambda>balance.
     if balance < current \<and> us_stake_deposit_unstake_total us < us_stake_deposit_unstake_cap us
        \<and> balance \<noteq> LAMPORT_BALANCE_DEFAULT
     then and_then (arith_error (checked_sub current target)) (\<lambda>above_target.
          and_then (arith_error (checked_sub current balance)) (\<lambda>above_balance.
          and_then (arith_error (checked_sub (us_stake_deposit_unstake_cap us) (us_stake_deposit_unstake_total us)))
            (\<lambda>cap_limit. Ok (min (min above_target above_balance) cap_limit))))
     else Ok 0)"

definition us_instant_unstake :: "StewardStateV2 \<Rightarrow> nat \<Rightarrow> nat \<Rightarrow> nat \<Rightarrow> UnstakeState \<Rightarrow> nat result" where
  "us_instant_unstake s index current target us =
     and_then (mask_get_unsafe index (instant_unstake s)) (\<lambda>marked.
     if marked \<and> us_instant_unstake_total us < us_instant_unstake_cap us
     then and_then (arith_error (checked_sub current target)) (\<lambda>above_target.
          and_then (arith_error (checked_sub (us_instant_unstake_cap us) (us_instant_unstake_total us)))
            (\<lambda>cap_limit. Ok (min above_target cap_limit)))
     else Ok 0)"

definition scoring_unstake :: "nat \<Rightarrow> nat \<Rightarrow> UnstakeState \<Rightarrow> nat result" where
  "scoring_unstake current target us =
     (if us_scoring_unstake_total us < us_scoring_unstake_cap us
      then and_then (arith_error (checked_sub current target)) (\<lambda>above_target.
           and_then (arith_error (checked_sub (us_scoring_unstake_cap us) (us_scoring_unstake_total us)))
             (\<lambda>cap_limit. Ok (min above_target cap_limit)))
      else Ok 0)"

definition simulate_unstake ::
  "StewardStateV2 \<Rightarrow> nat \<Rightarrow> nat \<Rightarrow> nat \<Rightarrow> UnstakeState \<Rightarrow> (UnstakeState \<times> UnstakeAmounts) result" where
  "simulate_unstake s index current target us =
     and_then (stake_deposit_unstake s index current target us) (\<lambda>deposit.
     let current = saturating_sub current deposit in
     and_then (arith_error (checked_add U64_MAX (us_stake_deposit_unstake_total us) deposit)) (\<lambda>total.
     let us = us\<lparr>us_stake_deposit_unstake_total := total\<rparr> in
     and_then (us_instant_unstake s index current target us) (\<lambda>inst.
     let current = saturating_sub current inst in
     and_then (arith_error (checked_add U64_MAX (us_instant_unstake_total us) inst)) (\<lambda>total.
     let us = us\<lparr>us_instant_unstake_total := total\<rparr> in
     and_then (scoring_unstake current target us) (\<lambda>scoring.
     and_then (arith_error (checked_add U64_MAX (us_scoring_unstake_total us) scoring)) (\<lambda>total.
     Ok (us\<lparr>us_scoring_unstake_total := total\<rparr>,
         \<lparr>ua_stake_deposit = deposit, ua_instant = inst, ua_scoring = scoring\<rparr>)))))))"

section \<open>Decreasing and increasing\<close>

text \<open>
  The undirected lamports of another validator: its list entry, the reconciliation that
  directed rebalancing would do, minus the base balance; and whether stake is in transit.
\<close>

definition undirected_lamports ::
  "StewardStateV2 \<Rightarrow> DirectedStakeMeta \<Rightarrow> BigVec \<Rightarrow> nat \<Rightarrow> nat \<Rightarrow> (nat \<times> bool) result" where
  "undirected_lamports s m vl base_lamport_balance i =
     and_then (stake_lamports_at_validator_list_index vl i) (\<lambda>(listed, some_transient_stake).
     and_then (arr_get (directed_stake_meta_indices m) i) (\<lambda>mi.
     and_then (simulate_adjust_directed_stake_for_deposits_and_withdrawals listed i mi m s)
       (\<lambda>(new_directed, new_total).
     Ok (saturating_sub (saturating_sub new_total new_directed) base_lamport_balance, some_transient_stake))))"

text \<open>The body of the loop of \<^verbatim>\<open>decrease_stake_calculation\<close> up to the simulated amounts.\<close>

definition decrease_step ::
  "StewardStateV2 \<Rightarrow> DirectedStakeMeta \<Rightarrow> nat \<Rightarrow> nat \<Rightarrow> nat \<Rightarrow> BigVec \<Rightarrow> nat \<Rightarrow> nat \<Rightarrow> UnstakeState \<Rightarrow>
   (UnstakeState \<times> UnstakeAmounts) result" where
  "decrease_step s m target_index current_lamports stake_pool_lamports vl base_lamport_balance i us =
     and_then (mask_get_unsafe i (instant_unstake s)) (\<lambda>marked.
     and_then (if marked then Ok 0
               else and_then (arr_get (delegations s) i) (\<lambda>d. get_target_lamports d stake_pool_lamports)) (\<lambda>target.
     and_then (undirected_lamports s m vl base_lamport_balance i) (\<lambda>(current, some_transient_stake).
     let current = (if i = target_index then current_lamports else current) in
     if \<not> some_transient_stake \<and> target < current then simulate_unstake s i current target us
     else Ok (us, UnstakeAmounts_default))))"

fun decrease_loop ::
  "StewardStateV2 \<Rightarrow> DirectedStakeMeta \<Rightarrow> nat \<Rightarrow> nat \<Rightarrow> nat \<Rightarrow> BigVec \<Rightarrow> nat \<Rightarrow> nat \<Rightarrow>
   nat list \<Rightarrow> UnstakeState \<Rightarrow> RebalanceType result" where
  "decrease_loop s m target_index current_lamports pool vl base minimum_delegation [] us =
     Err (Steward ValidatorIndexOutOfBounds)"
| "decrease_loop s m target_index current_lamports pool vl base minimum_delegation (i # is) us =
     and_then (decrease_step s m target_index current_lamports pool vl base i us) (\<lambda>(us, amounts).
     if i = target_index
     then and_then (UnstakeAmounts_total amounts) (\<lambda>total.
          Ok (if total \<le> minimum_delegation then RebalanceNone
              else Decrease \<lparr>scoring_unstake_lamports = ua_scoring amounts,
                instant_unstake_lamports = ua_instant amounts,
                stake_deposit_unstake_lamports = ua_stake_deposit amounts,
                total_unstake_lamports = total, directed_unstake_lamports = 0\<rparr>))
     else decrease_loop s m target_index current_lamports pool vl base minimum_delegation is us)"

definition decrease_stake_calculation ::
  "StewardStateV2 \<Rightarrow> DirectedStakeMeta \<Rightarrow> nat \<Rightarrow> UnstakeState \<Rightarrow> nat \<Rightarrow> nat \<Rightarrow> BigVec \<Rightarrow> nat \<Rightarrow> nat \<Rightarrow>
   RebalanceType result" where
  "decrease_stake_calculation s m target_index us current_lamports stake_pool_lamports vl minimum_delegation stake_rent =
     (if num_pool_validators s \<le> target_index then Err (Steward ValidatorIndexOutOfBounds)
      else and_then (arith_error (checked_add U64_MAX minimum_delegation stake_rent)) (\<lambda>base.
        and_then (arr_slice (sorted_raw_score_indices s) 0 (num_pool_validators s)) (\<lambda>indices.
        decrease_loop s m target_index current_lamports stake_pool_lamports vl base minimum_delegation
          (rev indices) us)))"

definition increase_step ::
  "StewardStateV2 \<Rightarrow> DirectedStakeMeta \<Rightarrow> nat \<Rightarrow> BigVec \<Rightarrow> nat \<Rightarrow> nat \<Rightarrow> nat \<Rightarrow> (nat \<times> nat) result" where
  "increase_step s m stake_pool_lamports vl base_lamport_balance i reserve_lamports =
     and_then (arr_get (delegations s) i) (\<lambda>d.
     and_then (if 0 < numerator d then and_then (BitMask_get i (instant_unstake s)) (\<lambda>marked. Ok (\<not> marked))
               else Ok False) (\<lambda>eligible.
     if eligible then
       and_then (get_target_lamports d stake_pool_lamports) (\<lambda>target.
       and_then (undirected_lamports s m vl base_lamport_balance i) (\<lambda>(current, some_transient_stake).
       if \<not> some_transient_stake \<and> current < target
       then and_then (arith_error (checked_sub target current)) (\<lambda>below_target.
            let to_stake = min below_target reserve_lamports in
            and_then (arith_error (checked_sub reserve_lamports to_stake)) (\<lambda>reserve.
            Ok (reserve, to_stake)))
       else Ok (reserve_lamports, 0)))
     else Ok (reserve_lamports, 0)))"

fun increase_loop ::
  "StewardStateV2 \<Rightarrow> DirectedStakeMeta \<Rightarrow> nat \<Rightarrow> nat \<Rightarrow> BigVec \<Rightarrow> nat \<Rightarrow> nat \<Rightarrow> nat list \<Rightarrow> nat \<Rightarrow> RebalanceType result" where
  "increase_loop s m target_index pool vl base minimum_delegation [] reserve =
     Err (Steward ValidatorIndexOutOfBounds)"
| "increase_loop s m target_index pool vl base minimum_delegation (i # is) reserve =
     and_then (increase_step s m pool vl base i reserve) (\<lambda>(reserve, lamports).
     if i = target_index
     then Ok (if lamports \<le> minimum_delegation then RebalanceNone else Increase lamports)
     else increase_loop s m target_index pool vl base minimum_delegation is reserve)"

definition increase_stake_calculation ::
  "StewardStateV2 \<Rightarrow> DirectedStakeMeta \<Rightarrow> nat \<Rightarrow> nat \<Rightarrow> nat \<Rightarrow> BigVec \<Rightarrow> nat \<Rightarrow> nat \<Rightarrow> nat \<Rightarrow> RebalanceType result" where
  "increase_stake_calculation s m target_index current_lamports stake_pool_lamports vl reserve_lamports
     minimum_delegation stake_rent =
     (if num_pool_validators s \<le> target_index then Err (Steward ValidatorIndexOutOfBounds)
      else and_then (arr_get (delegations s) target_index) (\<lambda>d.
        and_then (get_target_lamports d stake_pool_lamports) (\<lambda>target.
        and_then (arith_error (checked_add U64_MAX minimum_delegation stake_rent)) (\<lambda>base.
        if current_lamports < target
        then and_then (arr_slice (sorted_score_indices s) 0 (num_pool_validators s)) (\<lambda>indices.
             increase_loop s m target_index stake_pool_lamports vl base minimum_delegation indices reserve_lamports)
        else Err (Steward ValidatorIndexOutOfBounds)))))"

section \<open>Rebalancing one validator\<close>

definition unstake_cap :: "nat \<Rightarrow> nat \<Rightarrow> nat result" where
  "unstake_cap stake_pool_lamports bps =
     and_then (arith_error (Option.bind (checked_mul U128_MAX stake_pool_lamports bps) (\<lambda>x. checked_div x 10000)))
       (\<lambda>x. ok_or (try_into U64_MAX x) (Steward ArithmeticCastError))"

text \<open>The choice between a decrease, an increase and no move.\<close>

definition calculate_rebalance ::
  "StewardStateV2 \<Rightarrow> DirectedStakeMeta \<Rightarrow> nat \<Rightarrow> nat \<Rightarrow> nat \<Rightarrow> nat \<Rightarrow> BigVec \<Rightarrow> nat \<Rightarrow> nat \<Rightarrow> nat \<Rightarrow> Parameters \<Rightarrow>
   RebalanceType result" where
  "calculate_rebalance s m index target_lamports current_undirected stake_pool_lamports vl reserve_lamports
     minimum_delegation stake_rent params =
     and_then (if target_lamports < current_undirected then Ok True
               else BitMask_get index (instant_unstake s)) (\<lambda>must_decrease.
     if must_decrease then
       and_then (unstake_cap stake_pool_lamports (p_scoring_unstake_cap_bps params)) (\<lambda>scoring_cap.
       and_then (unstake_cap stake_pool_lamports (p_instant_unstake_cap_bps params)) (\<lambda>instant_cap.
       and_then (unstake_cap stake_pool_lamports (p_stake_deposit_unstake_cap_bps params)) (\<lambda>deposit_cap.
       decrease_stake_calculation s m index
         \<lparr>us_stake_deposit_unstake_total = stake_deposit_unstake_total s,
          us_instant_unstake_total = instant_unstake_total s,
          us_scoring_unstake_total = scoring_unstake_total s,
          us_stake_deposit_unstake_cap = deposit_cap, us_instant_unstake_cap = instant_cap,
          us_scoring_unstake_cap = scoring_cap\<rparr>
         current_undirected stake_pool_lamports vl minimum_delegation stake_rent)))
     else if current_undirected < target_lamports then
       increase_stake_calculation s m index current_undirected stake_pool_lamports vl reserve_lamports
         minimum_delegation stake_rent
     else Ok RebalanceNone)"

definition lower_denominator :: "nat \<Rightarrow> Delegation list \<Rightarrow> Delegation list result" where
  "lower_denominator i ds =
     and_then (arr_get ds i) (\<lambda>d.
     if 0 < numerator d then arr_set ds i (d\<lparr>denominator := max (saturating_sub (denominator d) 1) 1\<rparr>) else Ok ds)"

definition apply_decrease :: "nat \<Rightarrow> DecreaseComponents \<Rightarrow> StewardStateV2 \<Rightarrow> StewardStateV2 result" where
  "apply_decrease index c s =
     and_then (arr_get (validator_lamport_balances s) index) (\<lambda>balance.
     and_then (if balance \<noteq> LAMPORT_BALANCE_DEFAULT
               then arr_set (validator_lamport_balances s) index (saturating_sub balance (total_unstake_lamports c))
               else Ok (validator_lamport_balances s)) (\<lambda>balances.
     and_then (arith_error (checked_add U64_MAX (scoring_unstake_total s) (scoring_unstake_lamports c))) (\<lambda>scoring.
     and_then (arith_error (checked_add U64_MAX (stake_deposit_unstake_total s) (stake_deposit_unstake_lamports c)))
       (\<lambda>deposit.
     and_then (arith_error (checked_add U64_MAX (instant_unstake_total s) (instant_unstake_lamports c))) (\<lambda>inst.
     and_then (arr_get (delegations s) index) (\<lambda>d.
     and_then (if 0 < instant_unstake_lamports c \<and> 0 < numerator d
               then and_then (for_each lower_denominator [0..<index] (delegations s)) (\<lambda>ds.
                    and_then (arith_error (checked_add U64_MAX index 1)) (\<lambda>next_i.
                    and_then (for_each lower_denominator [next_i..<num_pool_validators s] ds) (\<lambda>ds.
                    arr_set ds index \<lparr>numerator = 0, denominator = 1\<rparr>)))
               else Ok (delegations s)) (\<lambda>ds.
     Ok (s\<lparr>validator_lamport_balances := balances, scoring_unstake_total := scoring,
           stake_deposit_unstake_total := deposit, instant_unstake_total := inst, delegations := ds\<rparr>))))))))"

definition apply_increase :: "nat \<Rightarrow> nat \<Rightarrow> StewardStateV2 \<Rightarrow> StewardStateV2 result" where
  "apply_increase index amount s =
     and_then (arr_get (validator_lamport_balances s) index) (\<lambda>balance.
     if balance \<noteq> LAMPORT_BALANCE_DEFAULT
     then and_then (arith_error (checked_add U64_MAX balance amount)) (\<lambda>b.
          and_then (arr_set (validator_lamport_balances s) index b) (\<lambda>bs.
          Ok (s\<lparr>validator_lamport_balances := bs\<rparr>)))
     else Ok s)"

definition apply_rebalance :: "nat \<Rightarrow> RebalanceType \<Rightarrow> StewardStateV2 \<Rightarrow> StewardStateV2 result" where
  "apply_rebalance index r s =
     (case r of Decrease c \<Rightarrow> apply_decrease index c s | Increase amount \<Rightarrow> apply_increase index amount s
      | RebalanceNone \<Rightarrow> Ok s)"

definition rebalance ::
  "DirectedStakeMeta \<Rightarrow> nat \<Rightarrow> nat \<Rightarrow> BigVec \<Rightarrow> nat \<Rightarrow> nat \<Rightarrow> nat \<Rightarrow> nat \<Rightarrow> nat \<Rightarrow> Parameters \<Rightarrow>
   StewardStateV2 \<Rightarrow> (StewardStateV2 \<times> RebalanceType) result" where
  "rebalance m epoch index vl stake_pool_lamports reserve_lamports stake_account_current_lamports
     minimum_delegation stake_rent params s =
     (if state_tag s \<noteq> Rebalance then Err (Steward InvalidState)
      else if next_cycle_epoch s \<le> epoch then Err (Steward InvalidState)
      else and_then (BitMask_get index (progress s)) (\<lambda>done_already.
      if done_already then Ok (s, RebalanceNone)
      else and_then (BitMask_get index (validators_to_remove s)) (\<lambda>to_remove.
      and_then (if to_remove then Ok True else BitMask_get index (validators_for_immediate_removal s)) (\<lambda>marked.
      if marked then and_then (BitMask_set index True (progress s)) (\<lambda>pr. Ok (s\<lparr>progress := pr\<rparr>, RebalanceNone))
      else
        and_then (arith_error (checked_add U64_MAX minimum_delegation stake_rent)) (\<lambda>base.
        and_then (arith_error (checked_add U32_MAX (bv_len vl) 1)) (\<lambda>all_accounts.
        and_then (arith_error (checked_sub all_accounts (cast U32_MAX (mask_count (progress s))))) (\<lambda>accounts_left.
        and_then (arith_error (checked_mul U64_MAX stake_rent accounts_left)) (\<lambda>reserve_minimum.
        let reserve_lamports = saturating_sub reserve_lamports reserve_minimum in
        and_then (arith_error (checked_mul U64_MAX base (bv_len vl))) (\<lambda>fixed.
        and_then (arith_error (checked_sub stake_pool_lamports fixed)) (\<lambda>stake_pool_lamports.
        and_then (arr_get (delegations s) index) (\<lambda>d.
        and_then (get_target_lamports d stake_pool_lamports) (\<lambda>target_lamports.
        and_then (arr_get (directed_stake_lamports m) index) (\<lambda>directed.
        and_then (arr_get (validator_lamport_balances s) index) (\<lambda>balance.
        let current_total = saturating_add U64_MAX stake_account_current_lamports base;
            current_undirected = saturating_sub stake_account_current_lamports directed;
            new_balance = (if current_total < balance \<or> current_undirected < target_lamports
                           then current_total else balance) in
        and_then (arr_set (validator_lamport_balances s) index new_balance) (\<lambda>balances.
        let s = s\<lparr>validator_lamport_balances := balances\<rparr> in
        and_then (calculate_rebalance s m index target_lamports current_undirected stake_pool_lamports
                    vl reserve_lamports minimum_delegation stake_rent params) (\<lambda>r.
        and_then (apply_rebalance index r s) (\<lambda>s.
        and_then (BitMask_set index True (progress s)) (\<lambda>pr.
        Ok (s\<lparr>progress := pr\<rparr>, r)))))))))))))))))))"

section \<open>Unstaking respects its caps\<close>

definition unstake_state_wf :: "UnstakeState \<Rightarrow> bool" where
  "unstake_state_wf us \<longleftrightarrow>
     us_stake_deposit_unstake_total us \<le> U64_MAX \<and> us_instant_unstake_total us \<le> U64_MAX \<and>
     us_scoring_unstake_total us \<le> U64_MAX \<and> us_stake_deposit_unstake_cap us \<le> U64_MAX \<and>
     us_instant_unstake_cap us \<le> U64_MAX \<and> us_scoring_unstake_cap us \<le> U64_MAX"

text \<open>
  The simulation of some moves turned \<open>us\<close> into \<open>us'\<close>, unstaking \<open>a\<close> in all: the totals
  grow by the amounts, no category exceeds what was left of its cap, and the caps stay.
\<close>

definition within_caps :: "UnstakeState \<Rightarrow> UnstakeAmounts \<Rightarrow> UnstakeState \<Rightarrow> bool" where
  "within_caps us a us' \<longleftrightarrow>
     us_stake_deposit_unstake_total us' = us_stake_deposit_unstake_total us + ua_stake_deposit a \<and>
     us_instant_unstake_total us' = us_instant_unstake_total us + ua_instant a \<and>
     us_scoring_unstake_total us' = us_scoring_unstake_total us + ua_scoring a \<and>
     ua_stake_deposit a \<le> us_stake_deposit_unstake_cap us - us_stake_deposit_unstake_total us \<and>
     ua_instant a \<le> us_instant_unstake_cap us - us_instant_unstake_total us \<and>
     ua_scoring a \<le> us_scoring_unstake_cap us - us_scoring_unstake_total us \<and>
     us_stake_deposit_unstake_cap us' = us_stake_deposit_unstake_cap us \<and>
     us_instant_unstake_cap us' = us_instant_unstake_cap us \<and>
     us_scoring_unstake_cap us' = us_scoring_unstake_cap us"

lemma within_caps_refl: "within_caps us UnstakeAmounts_default us"
  by (simp add: within_caps_def UnstakeAmounts_default_def)

lemma within_caps_wf:
  assumes "within_caps us a us'" "unstake_state_wf us"
  shows "unstake_state_wf us'"
proof -
  have "t + a \<le> u" if "a \<le> c - t" "c \<le> u" "t \<le> u" for t a c u :: nat using that by linarith
  then show ?thesis using assms by (auto simp: within_caps_def unstake_state_wf_def)
qed

lemma stake_deposit_unstake_ok:
  assumes "index < length (validator_lamport_balances s)" "target \<le> current"
  shows "\<exists>x. stake_deposit_unstake s index current target us = Ok x \<and> x \<le> current - target \<and>
    x \<le> us_stake_deposit_unstake_cap us - us_stake_deposit_unstake_total us"
  using assms by (auto simp: stake_deposit_unstake_def checked_defs)

lemma us_instant_unstake_ok:
  assumes "mask_get_unsafe index (instant_unstake s) = Ok b" "target \<le> current"
  shows "\<exists>x. us_instant_unstake s index current target us = Ok x \<and> x \<le> current - target \<and>
    x \<le> us_instant_unstake_cap us - us_instant_unstake_total us \<and> (\<not> b \<longrightarrow> x = 0)"
  using assms by (auto simp: us_instant_unstake_def checked_defs)

lemma scoring_unstake_ok:
  assumes "target \<le> current"
  shows "scoring_unstake current target us =
    Ok (min (current - target) (us_scoring_unstake_cap us - us_scoring_unstake_total us))"
  using assms by (auto simp: scoring_unstake_def checked_defs)

lemma simulate_unstake_ok:
  assumes wf: "unstake_state_wf us" and i: "index < length (validator_lamport_balances s)"
    and iu: "mask_get_unsafe index (instant_unstake s) = Ok b" and ct: "target \<le> current"
  shows "\<exists>us' a. simulate_unstake s index current target us = Ok (us', a) \<and> within_caps us a us' \<and>
    ua_stake_deposit a + ua_instant a + ua_scoring a \<le> current - target \<and> (\<not> b \<longrightarrow> ua_instant a = 0) \<and>
    (current - target \<le> us_scoring_unstake_cap us - us_scoring_unstake_total us \<longrightarrow>
      ua_stake_deposit a + ua_instant a + ua_scoring a = current - target)"
proof -
  have add: "arith_error (checked_add U64_MAX t x) = Ok (t + x)" if "x \<le> c - t" "c \<le> U64_MAX" "t \<le> U64_MAX" for t x c
    using that by (auto simp: checked_add_def)
  obtain x where x: "stake_deposit_unstake s index current target us = Ok x" "x \<le> current - target"
    "x \<le> us_stake_deposit_unstake_cap us - us_stake_deposit_unstake_total us"
    using stake_deposit_unstake_ok [OF i ct] by blast
  have tx: "target \<le> current - x" using x(2) ct by linarith
  let ?us1 = "us\<lparr>us_stake_deposit_unstake_total := us_stake_deposit_unstake_total us + x\<rparr>"
  obtain y where y: "us_instant_unstake s index (current - x) target ?us1 = Ok y" "y \<le> current - x - target"
    "y \<le> us_instant_unstake_cap us - us_instant_unstake_total us" "\<not> b \<longrightarrow> y = 0"
    using us_instant_unstake_ok [OF iu tx, of ?us1] by auto
  let ?us2 = "?us1\<lparr>us_instant_unstake_total := us_instant_unstake_total us + y\<rparr>"
  let ?z = "min (current - x - y - target) (us_scoring_unstake_cap us - us_scoring_unstake_total us)"
  have z: "scoring_unstake (current - x - y) target ?us2 = Ok ?z"
    using scoring_unstake_ok [of target "current - x - y" ?us2] ct x(2) y(2) by simp
  note adds = add [OF x(3)] add [OF y(3)] add [of ?z "us_scoring_unstake_cap us" "us_scoring_unstake_total us"]
  have "simulate_unstake s index current target us =
      Ok (?us2\<lparr>us_scoring_unstake_total := us_scoring_unstake_total us + ?z\<rparr>,
        \<lparr>ua_stake_deposit = x, ua_instant = y, ua_scoring = ?z\<rparr>)"
    using wf x(1) y(1) z adds by (simp add: simulate_unstake_def Let_def saturating_sub_def unstake_state_wf_def)
  then show ?thesis using x(2,3) y(2-4) ct by (auto simp: within_caps_def)
qed

lemma decrease_step_caps:
  assumes wf: "unstake_state_wf us" "state_wf s" and i: "i < MAX_VALIDATORS"
    and ok: "decrease_step s m target_index current pool vl base i us = Ok (us', a)"
  shows "within_caps us a us' \<and> (i = target_index \<longrightarrow> ua_stake_deposit a + ua_instant a + ua_scoring a \<le> current)"
proof -
  have len: "i < length (validator_lamport_balances s)" using wf(2) i by (simp add: state_wf_def)
  obtain b where b: "mask_get_unsafe i (instant_unstake s) = Ok b"
    using ok by (auto simp: decrease_step_def and_then_eq_Inr)
  have sim: "within_caps us a us' \<and> ua_stake_deposit a + ua_instant a + ua_scoring a \<le> c - t"
    if "simulate_unstake s i c t us = Ok (us', a)" "t < c" for c t
    using simulate_unstake_ok [OF wf(1) len b, of t c] that by auto
  show ?thesis using ok sim within_caps_refl [of us]
    by (fastforce simp: decrease_step_def and_then_eq_Inr Let_def UnstakeAmounts_default_def split: if_splits)
qed

text \<open>What a decrease promises, for the unstake state before the simulation.\<close>

definition decrease_ok :: "UnstakeState \<Rightarrow> nat \<Rightarrow> nat \<Rightarrow> DecreaseComponents \<Rightarrow> bool" where
  "decrease_ok us current minimum_delegation c \<longleftrightarrow>
     stake_deposit_unstake_lamports c \<le> us_stake_deposit_unstake_cap us - us_stake_deposit_unstake_total us \<and>
     instant_unstake_lamports c \<le> us_instant_unstake_cap us - us_instant_unstake_total us \<and>
     scoring_unstake_lamports c \<le> us_scoring_unstake_cap us - us_scoring_unstake_total us \<and>
     total_unstake_lamports c =
       stake_deposit_unstake_lamports c + instant_unstake_lamports c + scoring_unstake_lamports c \<and>
     minimum_delegation < total_unstake_lamports c \<and> total_unstake_lamports c \<le> current \<and>
     directed_unstake_lamports c = 0"

lemma decrease_ok_earlier:
  "within_caps us a us' \<Longrightarrow> decrease_ok us' current md c \<Longrightarrow> decrease_ok us current md c"
  unfolding within_caps_def decrease_ok_def by auto

lemma decrease_loop_ok:
  assumes "unstake_state_wf us" "state_wf s" "set is \<subseteq> {..<MAX_VALIDATORS}"
    and "decrease_loop s m ti current pool vl base md is us = Ok r"
  shows "case r of Increase _ \<Rightarrow> False | RebalanceNone \<Rightarrow> True | Decrease c \<Rightarrow> decrease_ok us current md c"
  using assms(1,3,4)
proof (induction "is" arbitrary: us)
  case (Cons i "is")
  obtain us' a where step: "decrease_step s m ti current pool vl base i us = Ok (us', a)"
    using Cons.prems(3) by (auto simp: and_then_eq_Inr)
  have caps: "within_caps us a us'" "i = ti \<longrightarrow> ua_stake_deposit a + ua_instant a + ua_scoring a \<le> current"
    using decrease_step_caps [OF Cons.prems(1) assms(2) _ step] Cons.prems(2) by auto
  show ?case
  proof (cases "i = ti")
    case True
    then obtain t where t: "UnstakeAmounts_total a = Ok t"
      and r: "r = (if t \<le> md then RebalanceNone else Decrease \<lparr>scoring_unstake_lamports = ua_scoring a,
                instant_unstake_lamports = ua_instant a, stake_deposit_unstake_lamports = ua_stake_deposit a,
                total_unstake_lamports = t, directed_unstake_lamports = 0\<rparr>)"
      using Cons.prems(3) step by (auto simp: and_then_eq_Inr)
    have "t = ua_stake_deposit a + ua_instant a + ua_scoring a"
      using t by (auto simp: UnstakeAmounts_total_def ok_or_eq_Inr checked_add_eq_Some bind_eq_Some_conv)
    then show ?thesis using r caps True by (simp add: decrease_ok_def within_caps_def)
  next
    case False
    then have "decrease_loop s m ti current pool vl base md is us' = Ok r" using Cons.prems(3) step by simp
    from Cons.IH [OF within_caps_wf [OF caps(1) Cons.prems(1)] _ this] Cons.prems(2)
    show ?thesis using decrease_ok_earlier [OF caps(1)] by (auto split: RebalanceType.splits)
  qed
qed simp

section \<open>Staking serves the ranking in order\<close>

text \<open>What a validator could take if the reserve were unlimited.\<close>

definition wanted :: "StewardStateV2 \<Rightarrow> DirectedStakeMeta \<Rightarrow> nat \<Rightarrow> BigVec \<Rightarrow> nat \<Rightarrow> nat \<Rightarrow> nat result" where
  "wanted s m pool vl base i =
     and_then (arr_get (delegations s) i) (\<lambda>d.
     and_then (if 0 < numerator d then and_then (BitMask_get i (instant_unstake s)) (\<lambda>marked. Ok (\<not> marked))
               else Ok False) (\<lambda>eligible.
     if eligible then
       and_then (get_target_lamports d pool) (\<lambda>target.
       and_then (undirected_lamports s m vl base i) (\<lambda>(current, some_transient_stake).
       Ok (if some_transient_stake then 0 else target - current)))
     else Ok 0))"

fun allocate :: "nat \<Rightarrow> nat list \<Rightarrow> nat list" where
  "allocate r [] = []"
| "allocate r (w # ws) = min w r # allocate (r - min w r) ws"

lemma length_allocate [simp]: "length (allocate r ws) = length ws"
  by (induction ws arbitrary: r) simp_all

lemma sum_allocate: "sum_list (allocate r ws) = min r (sum_list ws)"
  by (induction ws arbitrary: r) (auto simp: min_def)

lemma allocate_le: "p < length ws \<Longrightarrow> allocate r ws ! p \<le> ws ! p"
  by (induction ws arbitrary: r p) (auto simp: nth_Cons split: nat.split)

text \<open>Nobody behind an unserved validator gets anything.\<close>

lemma allocate_zero [simp]: "allocate 0 ws = replicate (length ws) 0"
  by (induction ws) simp_all

lemma allocate_priority:
  "q < p \<Longrightarrow> p < length ws \<Longrightarrow> allocate r ws ! q < ws ! q \<Longrightarrow> allocate r ws ! p = 0"
proof (induction ws arbitrary: r p q)
  case (Cons w ws)
  obtain p' where p': "p = Suc p'" using Cons.prems(1) by (cases p) auto
  show ?case
  proof (cases q)
    case 0
    then have "r < w" using Cons.prems(3) by auto
    then show ?thesis using p' Cons.prems(2) by simp
  next
    case (Suc q')
    then show ?thesis using Cons.IH [of q' p' "r - min w r"] Cons.prems p' by simp
  qed
qed simp

lemma increase_step_eq:
  "increase_step s m pool vl base i r =
     and_then (wanted s m pool vl base i) (\<lambda>w. Ok (r - min w r, min w r))"
proof (cases "arr_get (delegations s) i")
  case (Inr d)
  show ?thesis
  proof (cases "if 0 < numerator d then and_then (BitMask_get i (instant_unstake s)) (\<lambda>marked. Ok (\<not> marked)) else Ok False")
    case el: (Inr eligible)
    show ?thesis
    proof (cases "get_target_lamports d pool")
      case tl: (Inr target)
      show ?thesis
        using Inr el tl
        by (cases "undirected_lamports s m vl base i")
           (auto simp: increase_step_def wanted_def checked_sub_def Let_def split: if_splits)
    qed (use Inr el in \<open>simp add: increase_step_def wanted_def\<close>)
  qed (use Inr in \<open>simp add: increase_step_def wanted_def\<close>)
qed (simp add: increase_step_def wanted_def)

lemma increase_loop_eq:
  assumes "map_result (wanted s m pool vl base) is = Ok ws" "p < length is" "is ! p = ti"
    and "\<forall>q<p. is ! q \<noteq> ti"
  shows "increase_loop s m ti pool vl base md is r =
    Ok (if allocate r ws ! p \<le> md then RebalanceNone else Increase (allocate r ws ! p))"
  using assms
proof (induction "is" arbitrary: r ws p)
  case (Cons i "is")
  obtain w vs where w: "wanted s m pool vl base i = Ok w" "map_result (wanted s m pool vl base) is = Ok vs" "ws = w # vs"
    using Cons.prems(1) by (auto simp: and_then_eq_Inr)
  show ?case
  proof (cases p)
    case 0
    then show ?thesis using Cons.prems w by (simp add: increase_step_eq)
  next
    case (Suc p')
    then have "i \<noteq> ti" "\<forall>q<p'. is ! q \<noteq> ti" using Cons.prems(4) by (auto simp: All_less_Suc2)
    then show ?thesis using Cons.IH [OF w(2), of p' "r - min w r"] Cons.prems Suc w
      by (simp add: increase_step_eq)
  qed
qed simp

section \<open>What rebalancing changes\<close>

text \<open>The part of the state that the moves for one validator leave alone.\<close>

definition moves_only :: "nat \<Rightarrow> StewardStateV2 \<Rightarrow> StewardStateV2 \<Rightarrow> bool" where
  "moves_only index s t \<longleftrightarrow>
     state_tag t = state_tag s \<and> num_pool_validators t = num_pool_validators s \<and>
     validators_added t = validators_added s \<and> scores t = scores s \<and> raw_scores t = raw_scores s \<and>
     sorted_score_indices t = sorted_score_indices s \<and> sorted_raw_score_indices t = sorted_raw_score_indices s \<and>
     instant_unstake t = instant_unstake s \<and> validators_to_remove t = validators_to_remove s \<and>
     validators_for_immediate_removal t = validators_for_immediate_removal s \<and>
     status_flags t = status_flags s \<and> current_epoch t = current_epoch s \<and>
     next_cycle_epoch t = next_cycle_epoch s \<and>
     length (validator_lamport_balances t) = length (validator_lamport_balances s) \<and>
     (\<forall>j. j \<noteq> index \<longrightarrow> validator_lamport_balances t ! j = validator_lamport_balances s ! j)"

lemma length_lower_denominator:
  "for_each lower_denominator is ds = Ok es \<Longrightarrow> length es = length ds"
  by (rule for_each_invariant [where I = "\<lambda>es. length es = length ds"])
     (auto simp: lower_denominator_def and_then_eq_Inr arr_get_eq_Inr arr_set_eq_Inr split: if_splits)

definition decreased :: "RebalanceType \<Rightarrow> DecreaseComponents" where
  "decreased r = (case r of Decrease c \<Rightarrow> c
     | _ \<Rightarrow> \<lparr>scoring_unstake_lamports = 0, instant_unstake_lamports = 0, stake_deposit_unstake_lamports = 0,
            total_unstake_lamports = 0, directed_unstake_lamports = 0\<rparr>)"

lemma apply_decrease_frame:
  assumes "apply_decrease index c s = Ok t"
  shows "moves_only index s t \<and> progress t = progress s \<and> length (delegations t) = length (delegations s) \<and>
    scoring_unstake_total t = scoring_unstake_total s + scoring_unstake_lamports c \<and>
    instant_unstake_total t = instant_unstake_total s + instant_unstake_lamports c \<and>
    stake_deposit_unstake_total t = stake_deposit_unstake_total s + stake_deposit_unstake_lamports c"
  using assms
  by (auto simp: apply_decrease_def moves_only_def and_then_eq_Inr arr_get_eq_Inr arr_set_eq_Inr ok_or_eq_Inr
      checked_add_eq_Some dest!: length_lower_denominator split: if_splits)

lemma apply_rebalance_frame:
  assumes "apply_rebalance index r s = Ok t"
  shows "moves_only index s t \<and> progress t = progress s \<and> length (delegations t) = length (delegations s) \<and>
    scoring_unstake_total t = scoring_unstake_total s + scoring_unstake_lamports (decreased r) \<and>
    instant_unstake_total t = instant_unstake_total s + instant_unstake_lamports (decreased r) \<and>
    stake_deposit_unstake_total t = stake_deposit_unstake_total s + stake_deposit_unstake_lamports (decreased r)"
proof (cases r)
  case (Decrease c)
  then show ?thesis using assms apply_decrease_frame [of index c s t] by (simp add: apply_rebalance_def decreased_def)
next
  case (Increase amount)
  then show ?thesis using assms
    by (auto simp: apply_rebalance_def apply_increase_def decreased_def moves_only_def and_then_eq_Inr
        arr_get_eq_Inr arr_set_eq_Inr split: if_splits)
next
  case RebalanceNone
  then show ?thesis using assms by (simp add: apply_rebalance_def decreased_def moves_only_def)
qed

lemma unstake_cap_le: "unstake_cap pool bps = Ok c \<Longrightarrow> c = pool * bps div 10000 \<and> c \<le> U64_MAX"
  by (auto simp: unstake_cap_def and_then_eq_Inr ok_or_eq_Inr bind_eq_Some_conv checked_mul_eq_Some
      checked_div_eq_Some try_into_eq_Some)

text \<open>The amounts a rebalance takes are within the caps of a pool of at most \<open>pool\<close> lamports.\<close>

definition capped :: "Parameters \<Rightarrow> nat \<Rightarrow> StewardStateV2 \<Rightarrow> RebalanceType \<Rightarrow> bool" where
  "capped params pool s r \<longleftrightarrow>
     scoring_unstake_lamports (decreased r) \<le> pool * p_scoring_unstake_cap_bps params div 10000 - scoring_unstake_total s \<and>
     instant_unstake_lamports (decreased r) \<le> pool * p_instant_unstake_cap_bps params div 10000 - instant_unstake_total s \<and>
     stake_deposit_unstake_lamports (decreased r) \<le>
       pool * p_stake_deposit_unstake_cap_bps params div 10000 - stake_deposit_unstake_total s"

definition totals_u64 :: "StewardStateV2 \<Rightarrow> bool" where
  "totals_u64 s \<longleftrightarrow> scoring_unstake_total s \<le> U64_MAX \<and> instant_unstake_total s \<le> U64_MAX \<and>
     stake_deposit_unstake_total s \<le> U64_MAX"

lemma decrease_capped:
  assumes wf: "state_wf s" "totals_u64 s" "set (take (num_pool_validators s) (sorted_raw_score_indices s)) \<subseteq> {..<MAX_VALIDATORS}"
    and caps: "unstake_cap pool (p_scoring_unstake_cap_bps params) = Ok sc"
      "unstake_cap pool (p_instant_unstake_cap_bps params) = Ok ic"
      "unstake_cap pool (p_stake_deposit_unstake_cap_bps params) = Ok dc"
    and ok: "decrease_stake_calculation s m index
       \<lparr>us_stake_deposit_unstake_total = stake_deposit_unstake_total s,
        us_instant_unstake_total = instant_unstake_total s, us_scoring_unstake_total = scoring_unstake_total s,
        us_stake_deposit_unstake_cap = dc, us_instant_unstake_cap = ic, us_scoring_unstake_cap = sc\<rparr>
       current pool vl md rent = Ok r"
  shows "capped params pool s r"
proof -
  let ?us = "\<lparr>us_stake_deposit_unstake_total = stake_deposit_unstake_total s,
        us_instant_unstake_total = instant_unstake_total s, us_scoring_unstake_total = scoring_unstake_total s,
        us_stake_deposit_unstake_cap = dc, us_instant_unstake_cap = ic, us_scoring_unstake_cap = sc\<rparr>"
  have us: "unstake_state_wf ?us"
    using wf(2) caps [THEN unstake_cap_le] by (simp add: unstake_state_wf_def totals_u64_def)
  obtain base where "decrease_loop s m index current pool vl base md
      (rev (take (num_pool_validators s) (sorted_raw_score_indices s))) ?us = Ok r"
    using ok wf(1) by (auto simp: decrease_stake_calculation_def and_then_eq_Inr state_wf_def split: if_splits)
  from decrease_loop_ok [OF us wf(1) _ this] wf(3)
  have "case r of Increase _ \<Rightarrow> False | RebalanceNone \<Rightarrow> True | Decrease c \<Rightarrow> decrease_ok ?us current md c" by simp
  then show ?thesis using caps [THEN unstake_cap_le]
    by (auto simp: capped_def decreased_def decrease_ok_def split: RebalanceType.splits)
qed

lemma capped_mono: "capped params pool s r \<Longrightarrow> pool \<le> pool' \<Longrightarrow> capped params pool' s r"
  unfolding capped_def by (meson diff_le_mono div_le_mono mult_le_mono1 order_trans)

lemma increase_loop_result:
  "increase_loop s m ti pool vl base md is reserve = Ok r \<Longrightarrow> decreased r = decreased RebalanceNone"
  by (induction "is" arbitrary: reserve) (auto simp: and_then_eq_Inr decreased_def split: if_splits)

lemma increase_stake_calculation_result:
  "increase_stake_calculation s m i current pool vl reserve md rent = Ok r \<Longrightarrow> decreased r = decreased RebalanceNone"
  by (auto simp: increase_stake_calculation_def and_then_eq_Inr dest: increase_loop_result split: if_splits)

lemma capped_none: "decreased r = decreased RebalanceNone \<Longrightarrow> capped params pool s r"
  by (simp add: capped_def decreased_def)

lemma calculate_rebalance_capped:
  assumes "state_wf s" "totals_u64 s" "set (take (num_pool_validators s) (sorted_raw_score_indices s)) \<subseteq> {..<MAX_VALIDATORS}"
    and "calculate_rebalance s m i target cu pool vl reserve md rent params = Ok r"
  shows "capped params pool s r"
  using assms(4)
  by (auto simp: calculate_rebalance_def and_then_eq_Inr split: if_splits
      intro: decrease_capped [OF assms(1-3)] capped_none increase_stake_calculation_result)

lemma rebalance_effect:
  assumes wf: "state_wf s" "totals_u64 s"
    and idx: "set (take (num_pool_validators s) (sorted_raw_score_indices s)) \<subseteq> {..<MAX_VALIDATORS}"
  shows "ok_all (\<lambda>(s', r). state_wf s' \<and> moves_only i s s' \<and>
      mask_bits (progress s') = insert i (mask_bits (progress s)) \<and> capped params pool s r \<and>
      scoring_unstake_total s' = scoring_unstake_total s + scoring_unstake_lamports (decreased r) \<and>
      instant_unstake_total s' = instant_unstake_total s + instant_unstake_lamports (decreased r) \<and>
      stake_deposit_unstake_total s' = stake_deposit_unstake_total s + stake_deposit_unstake_lamports (decreased r))
    (rebalance m epoch i vl pool reserve current md rent params s)"
  unfolding rebalance_def Let_def
proof (intro ok_all_if ok_all_bind, goal_cases)
  case (3 dn)
  then have "i \<in> mask_bits (progress s)"
    using wf(1) bm.get_eq [of "progress s" i] by (auto simp: state_wf_def split: if_splits)
  then show ?case using wf by (simp add: moves_only_def capped_none insert_absorb decreased_def)
next
  case (4 dn tr mk pr)
  then show ?case using wf bm.set_ok_D [of i True "progress s" pr]
    by (simp add: moves_only_def capped_none state_wf_def decreased_def)
next
  case (5 dn tr mk base all left minimum fixed pool' d target directed balance balances r t pr)
  have b: "i < length (validator_lamport_balances s)" "balances = (validator_lamport_balances s)[i := if
      saturating_add U64_MAX current base < balance \<or> saturating_sub current directed < target
      then saturating_add U64_MAX current base else balance]"
    using 5 by (auto simp: arr_set_eq_Inr)
  let ?s = "s\<lparr>validator_lamport_balances := balances\<rparr>"
  have s: "state_wf ?s" "totals_u64 ?s" using wf b by (simp_all add: state_wf_def totals_u64_def)
  have "capped params pool' ?s r"
    using calculate_rebalance_capped [OF s] idx 5 by (simp add: Let_def)
  then have cap: "capped params pool s r"
    using capped_mono [of params pool' ?s r pool] 5 by (simp add: ok_or_eq_Inr checked_sub_eq_Some capped_def)
  have fr: "moves_only i ?s t" "progress t = progress s" "length (delegations t) = length (delegations s)"
    "scoring_unstake_total t = scoring_unstake_total s + scoring_unstake_lamports (decreased r)"
    "instant_unstake_total t = instant_unstake_total s + instant_unstake_lamports (decreased r)"
    "stake_deposit_unstake_total t = stake_deposit_unstake_total s + stake_deposit_unstake_lamports (decreased r)"
    using apply_rebalance_frame [of i r ?s t] 5 by simp_all
  have pr: "mask_invar MAX_VALIDATORS pr" "mask_bits pr = insert i (mask_bits (progress s))"
    using bm.set_ok_D [of i True "progress s" pr] 5 fr(2) wf(1) by (simp_all add: state_wf_def)
  show ?case using wf(1) fr pr cap b by (simp add: state_wf_def moves_only_def)
qed simp_all

section \<open>Properties\<close>

text \<open>
  C3. \<^verbatim>\<open>rebalance\<close> stays within the unstake caps. A successful call marks the validator as
  processed, changes no other validator's balance and nothing of the ranking, and after it
  each of the three unstake totals of the cycle is at most the larger of what it was and of
  its configured share of the pool.
\<close>

theorem rebalance_stays_within_caps:
  assumes "state_wf s" "totals_u64 s" "ranked (raw_scores s) (sorted_raw_score_indices s) {..<num_pool_validators s}"
    and "rebalance m epoch i vl pool reserve current md rent params s = Ok (s', r)"
  shows "state_wf s' \<and> moves_only i s s' \<and> mask_bits (progress s') = insert i (mask_bits (progress s)) \<and>
    scoring_unstake_total s' \<le> max (scoring_unstake_total s) (pool * p_scoring_unstake_cap_bps params div 10000) \<and>
    instant_unstake_total s' \<le> max (instant_unstake_total s) (pool * p_instant_unstake_cap_bps params div 10000) \<and>
    stake_deposit_unstake_total s' \<le>
      max (stake_deposit_unstake_total s) (pool * p_stake_deposit_unstake_cap_bps params div 10000)"
proof -
  have idx: "set (take (num_pool_validators s) (sorted_raw_score_indices s)) \<subseteq> {..<MAX_VALIDATORS}"
    using ranked_set [OF assms(3)] assms(1) by (auto simp: state_wf_def)
  show ?thesis
    using ok_allD [OF rebalance_effect [OF assms(1,2) idx] assms(4)] by (auto simp: capped_def)
qed

definition sample_info :: "nat \<Rightarrow> ValidatorStakeInfo" where
  "sample_info a = \<lparr>active_stake_lamports = a, transient_stake_lamports = 0, last_update_epoch = 900,
     transient_seed_suffix = 1, unused_bytes = replicate 8 0, status_byte = 0, vote_account_address = replicate 32 1\<rparr>"

definition sample_infos :: "ValidatorStakeInfo list" where
  "sample_infos = [sample_info 1000, sample_info 2000, sample_info 3000]"

lemma sample_infos_wf: "infos_wf sample_infos"
  by (simp add: infos_wf_def sample_infos_def info_wf_def sample_info_def MAX_VALIDATORS_def int_limits)

lemma sample_undirected:
  assumes "i < 3"
  shows "undirected_lamports s DirectedStakeMeta_default (big_vec_of sample_infos) 110 i = Ok (1000 * Suc i - 110, False)"
proof -
  have "i = 0 \<or> i = 1 \<or> i = 2" using assms by auto
  moreover have "length sample_infos = 3" by (simp add: sample_infos_def)
  ultimately show ?thesis
    using stake_lamports_at_info [OF sample_infos_wf, of i] assms
    by (auto simp: undirected_lamports_def simulate_adjust_directed_stake_for_deposits_and_withdrawals_def
        DirectedStakeMeta_default_def MAX_VALIDATORS_def saturating_sub_def sample_infos_def sample_info_def)
qed

text \<open>A pool in the rebalance stage: the third validator is to hold half of it.\<close>

definition sample_rebalance :: StewardStateV2 where
  "sample_rebalance = sample_state\<lparr>state_tag := Rebalance,
     delegations := (replicate MAX_VALIDATORS Delegation_default)[2 := \<lparr>numerator = 1, denominator = 2\<rparr>]\<rparr>"

lemma sample_rebalance_facts:
  "state_wf sample_rebalance" "totals_u64 sample_rebalance" "num_pool_validators sample_rebalance = 3"
  "ranked (scores sample_rebalance) (sorted_score_indices sample_rebalance) {..<num_pool_validators sample_rebalance}"
  "ranked (raw_scores sample_rebalance) (sorted_raw_score_indices sample_rebalance) {..<num_pool_validators sample_rebalance}"
  "take 3 (sorted_raw_score_indices sample_rebalance) = [2, 0, 1]"
  "take 3 (sorted_score_indices sample_rebalance) = [2, 0, 1]"
  by (simp_all add: sample_rebalance_def sample_state_def state_wf_def totals_u64_def ranked_def by_score_def
      mset_set_three MAX_VALIDATORS_def)

lemma sample_instant_unstake: "i < 64 \<Longrightarrow> mask_get_unsafe i (instant_unstake sample_rebalance) = Ok False"
  by (simp add: sample_rebalance_def sample_state_def mask_get_unsafe_def mask_default_def mask_words_def MAX_VALIDATORS_def)

lemma sample_balances: "validator_lamport_balances sample_rebalance = replicate MAX_VALIDATORS 0"
  "delegations sample_rebalance = (replicate MAX_VALIDATORS Delegation_default)[2 := \<lparr>numerator = 1, denominator = 2\<rparr>]"
  by (simp_all add: sample_rebalance_def sample_state_def)

text \<open>
  A decrease respects the caps, however many validators the simulation unstakes before the
  target: each part is at most what was left of its category's cap, the parts add up to the
  total, and the total is more than the minimum delegation and no more than the validator
  has.
\<close>

theorem decrease_stake_calculation_respects_caps:
  assumes "state_wf s" "unstake_state_wf us"
    and "ranked (raw_scores s) (sorted_raw_score_indices s) {..<num_pool_validators s}"
    and "decrease_stake_calculation s m i us current pool vl md rent = Ok r"
  shows "case r of Increase _ \<Rightarrow> False | RebalanceNone \<Rightarrow> True | Decrease c \<Rightarrow> decrease_ok us current md c"
proof -
  have idx: "set (rev (take (num_pool_validators s) (sorted_raw_score_indices s))) \<subseteq> {..<MAX_VALIDATORS}"
    using ranked_set [OF assms(3)] assms(1) by (auto simp: state_wf_def)
  obtain base where "decrease_loop s m i current pool vl base md
      (rev (take (num_pool_validators s) (sorted_raw_score_indices s))) us = Ok r"
    using assms(1,4) by (auto simp: decrease_stake_calculation_def and_then_eq_Inr state_wf_def split: if_splits)
  from decrease_loop_ok [OF assms(2,1) idx this] show ?thesis .
qed

definition sample_unstake :: UnstakeState where
  "sample_unstake = \<lparr>us_stake_deposit_unstake_total = 0, us_instant_unstake_total = 0, us_scoring_unstake_total = 0,
     us_stake_deposit_unstake_cap = 400, us_instant_unstake_cap = 500, us_scoring_unstake_cap = 300\<rparr>"

lemma sample_decrease:
  "decrease_stake_calculation sample_rebalance DirectedStakeMeta_default 1 sample_unstake 1000 9670
     (big_vec_of sample_infos) 100 10 =
   Ok (Decrease \<lparr>scoring_unstake_lamports = 300, instant_unstake_lamports = 0,
     stake_deposit_unstake_lamports = 400, total_unstake_lamports = 700, directed_unstake_lamports = 0\<rparr>)"
proof -
  have "decrease_step sample_rebalance DirectedStakeMeta_default 1 1000 9670 (big_vec_of sample_infos) 110 1 sample_unstake =
      Ok (sample_unstake\<lparr>us_stake_deposit_unstake_total := 400, us_scoring_unstake_total := 300\<rparr>,
          \<lparr>ua_stake_deposit = 400, ua_instant = 0, ua_scoring = 300\<rparr>)"
    using sample_instant_unstake [of 1] sample_undirected [of 1 sample_rebalance]
    by (simp add: decrease_step_def sample_balances Delegation_default_def get_target_lamports_def
        simulate_unstake_def stake_deposit_unstake_def us_instant_unstake_def scoring_unstake_def
        sample_unstake_def Let_def checked_defs saturating_sub_def MAX_VALIDATORS_def int_limits
        LAMPORT_BALANCE_DEFAULT_def)
  moreover have "length (sorted_raw_score_indices sample_rebalance) = MAX_VALIDATORS"
    using sample_rebalance_facts(1) by (simp add: state_wf_def)
  ultimately show ?thesis
    using sample_rebalance_facts(3,6)
    by (simp add: decrease_stake_calculation_def checked_defs int_limits UnstakeAmounts_total_def MAX_VALIDATORS_def)
qed

theorem decrease_stake_calculation_respects_caps_witness:
  "\<exists>c. decrease_stake_calculation sample_rebalance DirectedStakeMeta_default 1 sample_unstake 1000 9670
      (big_vec_of sample_infos) 100 10 = Ok (Decrease c) \<and> decrease_ok sample_unstake 1000 100 c"
proof -
  have "unstake_state_wf sample_unstake" by (simp add: unstake_state_wf_def sample_unstake_def int_limits)
  from decrease_stake_calculation_respects_caps [OF sample_rebalance_facts(1) this sample_rebalance_facts(5) sample_decrease]
  show ?thesis using sample_decrease by simp
qed

lemma sample_rebalance_decrease:
  "decrease_stake_calculation sample_rebalance DirectedStakeMeta_default 1
     \<lparr>us_stake_deposit_unstake_total = 0, us_instant_unstake_total = 0, us_scoring_unstake_total = 0,
      us_stake_deposit_unstake_cap = 967, us_instant_unstake_cap = 967, us_scoring_unstake_cap = 725\<rparr>
     1000 9670 (big_vec_of sample_infos) 100 10 =
   Ok (Decrease \<lparr>scoring_unstake_lamports = 33, instant_unstake_lamports = 0,
     stake_deposit_unstake_lamports = 967, total_unstake_lamports = 1000, directed_unstake_lamports = 0\<rparr>)"
proof -
  let ?us = "\<lparr>us_stake_deposit_unstake_total = 0, us_instant_unstake_total = 0, us_scoring_unstake_total = 0,
      us_stake_deposit_unstake_cap = 967, us_instant_unstake_cap = 967, us_scoring_unstake_cap = 725\<rparr>"
  have "decrease_step sample_rebalance DirectedStakeMeta_default 1 1000 9670 (big_vec_of sample_infos) 110 1 ?us =
      Ok (?us\<lparr>us_stake_deposit_unstake_total := 967, us_scoring_unstake_total := 33\<rparr>,
          \<lparr>ua_stake_deposit = 967, ua_instant = 0, ua_scoring = 33\<rparr>)"
    using sample_instant_unstake [of 1] sample_undirected [of 1 sample_rebalance]
    by (simp add: decrease_step_def sample_balances Delegation_default_def get_target_lamports_def
        simulate_unstake_def stake_deposit_unstake_def us_instant_unstake_def scoring_unstake_def
        Let_def checked_defs saturating_sub_def MAX_VALIDATORS_def int_limits LAMPORT_BALANCE_DEFAULT_def)
  moreover have "length (sorted_raw_score_indices sample_rebalance) = MAX_VALIDATORS"
    using sample_rebalance_facts(1) by (simp add: state_wf_def)
  ultimately show ?thesis
    using sample_rebalance_facts(3,6)
    by (simp add: decrease_stake_calculation_def checked_defs int_limits UnstakeAmounts_total_def MAX_VALIDATORS_def)
qed

lemma sample_rebalance_ok:
  "\<exists>s' r. rebalance DirectedStakeMeta_default 900 1 (big_vec_of sample_infos) 10000 5000 1000 100 10
     sample_parameters sample_rebalance = Ok (s', r)"
proof -
  have get: "BitMask_get 1 BitMask_default = Ok False"
    using bm.get_eq [of BitMask_default 1] by (simp add: MAX_VALIDATORS_def)
  obtain pr where pr: "BitMask_set 1 True BitMask_default = Ok pr"
    using bm.set_in [of BitMask_default 1 True] by (auto simp: MAX_VALIDATORS_def)
  have f: "state_tag sample_rebalance = Rebalance" "next_cycle_epoch sample_rebalance = 910"
    "progress sample_rebalance = BitMask_default" "validators_to_remove sample_rebalance = BitMask_default"
    "validators_for_immediate_removal sample_rebalance = BitMask_default" "instant_unstake sample_rebalance = BitMask_default"
    "stake_deposit_unstake_total sample_rebalance = 0" "instant_unstake_total sample_rebalance = 0"
    "scoring_unstake_total sample_rebalance = 0"
    by (simp_all add: sample_rebalance_def sample_state_def)
  have len: "bv_len (big_vec_of sample_infos) = 3" by (simp add: big_vec_of_def sample_infos_def)
  have same: "sample_rebalance\<lparr>validator_lamport_balances := (validator_lamport_balances sample_rebalance)[1 := 0]\<rparr> =
      sample_rebalance"
  proof -
    have "(validator_lamport_balances sample_rebalance)[1 := 0] = validator_lamport_balances sample_rebalance"
      by (simp add: sample_balances list_update_same_conv MAX_VALIDATORS_def)
    then show ?thesis by simp
  qed
  have calc: "calculate_rebalance sample_rebalance DirectedStakeMeta_default 1 0 1000 9670 (big_vec_of sample_infos)
      4960 100 10 sample_parameters = Ok (Decrease \<lparr>scoring_unstake_lamports = 33, instant_unstake_lamports = 0,
     stake_deposit_unstake_lamports = 967, total_unstake_lamports = 1000, directed_unstake_lamports = 0\<rparr>)"
    using sample_rebalance_decrease
    by (simp add: calculate_rebalance_def f unstake_cap_def sample_parameters_def checked_defs int_limits)
  have cnt: "mask_count BitMask_default = 0" using bm.count_eq [of BitMask_default] by simp
  have dsl: "directed_stake_lamports DirectedStakeMeta_default = replicate MAX_VALIDATORS 0"
    by (simp add: DirectedStakeMeta_default_def)
  show ?thesis
    using get pr f len calc same cnt dsl
    by (simp add: rebalance_def sample_balances Delegation_default_def get_target_lamports_def Let_def checked_defs
        saturating_defs cast_def MAX_VALIDATORS_def int_limits apply_rebalance_def apply_decrease_def
        LAMPORT_BALANCE_DEFAULT_def)
qed

theorem rebalance_stays_within_caps_witness:
  "\<exists>s' r. rebalance DirectedStakeMeta_default 900 1 (big_vec_of sample_infos) 10000 5000 1000 100 10
     sample_parameters sample_rebalance = Ok (s', r) \<and> state_wf s' \<and> scoring_unstake_total s' \<le> 750"
proof -
  obtain s' r where ok: "rebalance DirectedStakeMeta_default 900 1 (big_vec_of sample_infos) 10000 5000 1000 100 10
     sample_parameters sample_rebalance = Ok (s', r)" using sample_rebalance_ok by blast
  from rebalance_stays_within_caps [OF sample_rebalance_facts(1,2,5) ok]
  have "state_wf s' \<and> scoring_unstake_total s' \<le> 750"
    by (simp add: sample_parameters_def) (simp add: sample_rebalance_def sample_state_def)
  then show ?thesis using ok by blast
qed

text \<open>
  C6. Increases are served in the order of the ranking. The amount for a validator is its entry
  of a greedy allocation of the reserve to what every validator is short of its target:
  no validator gets more than it lacks, all the amounts together are at most the reserve,
  and a validator ranked behind one that is not fully served gets nothing. It follows that the
  amounts computed from one snapshot do not depend on which validator is asked first.
\<close>

theorem increase_serves_the_ranking_in_order:
  assumes "state_wf s" "ranked (scores s) (sorted_score_indices s) {..<num_pool_validators s}"
    and "i < num_pool_validators s" "md + rent \<le> U64_MAX"
    and "get_target_lamports (delegations s ! i) pool = Ok t" "current < t"
    and "map_result (wanted s m pool vl (md + rent)) (take (num_pool_validators s) (sorted_score_indices s)) = Ok ws"
  shows "\<exists>p<num_pool_validators s. sorted_score_indices s ! p = i \<and>
    increase_stake_calculation s m i current pool vl reserve md rent =
      Ok (if allocate reserve ws ! p \<le> md then RebalanceNone else Increase (allocate reserve ws ! p)) \<and>
    sum_list (allocate reserve ws) \<le> reserve \<and> allocate reserve ws ! p \<le> ws ! p \<and>
    (\<forall>q<p. allocate reserve ws ! q < ws ! q \<longrightarrow> allocate reserve ws ! p = 0)"
proof -
  let ?xs = "take (num_pool_validators s) (sorted_score_indices s)"
  have len: "length (sorted_score_indices s) = MAX_VALIDATORS" "num_pool_validators s \<le> MAX_VALIDATORS"
    "length (delegations s) = MAX_VALIDATORS" using assms(1) by (simp_all add: state_wf_def)
  have lx: "length ?xs = num_pool_validators s" using len by simp
  have lw: "length ws = num_pool_validators s" using assms(7) lx by (simp add: map_result_eq_Inr)
  obtain p where p: "p < length ?xs" "?xs ! p = i"
    using ranked_pool(1) [OF assms(1,2)] assms(3) by (metis in_set_conv_nth lessThan_iff)
  have first: "\<forall>q<p. ?xs ! q \<noteq> i"
    using ranked_pool(2) [OF assms(1,2)] p by (metis nth_eq_iff_index_eq less_irrefl order.strict_trans)
  have "increase_loop s m i pool vl (md + rent) md ?xs reserve =
      Ok (if allocate reserve ws ! p \<le> md then RebalanceNone else Increase (allocate reserve ws ! p))"
    by (rule increase_loop_eq [OF assms(7) p first])
  then have "increase_stake_calculation s m i current pool vl reserve md rent =
      Ok (if allocate reserve ws ! p \<le> md then RebalanceNone else Increase (allocate reserve ws ! p))"
    using assms(3-6) len by (simp add: increase_stake_calculation_def checked_add_def)
  then show ?thesis
    using p lx lw sum_allocate [of reserve ws] allocate_le [of p ws reserve] allocate_priority [of _ p ws reserve]
    by (intro exI [of _ p]) simp
qed

theorem increase_serves_the_ranking_in_order_witness:
  "\<exists>p. increase_stake_calculation sample_rebalance DirectedStakeMeta_default 2 2890 9670 (big_vec_of sample_infos)
     1500 100 10 = Ok (if allocate 1500 [1945, 0, 0] ! p \<le> 100 then RebalanceNone
       else Increase (allocate 1500 [1945, 0, 0] ! p)) \<and> sum_list (allocate 1500 [1945, 0, 0]) \<le> 1500"
proof -
  have bit: "BitMask_get 2 (instant_unstake sample_rebalance) = Ok False"
    using sample_instant_unstake [of 2] mask_get_unsafe_eq [of MAX_VALIDATORS "instant_unstake sample_rebalance" 2]
      sample_rebalance_facts(1) by (simp add: state_wf_def MAX_VALIDATORS_def)
  have w: "map_result (wanted sample_rebalance DirectedStakeMeta_default 9670 (big_vec_of sample_infos) (100 + 10))
      (take (num_pool_validators sample_rebalance) (sorted_score_indices sample_rebalance)) = Ok [1945, 0, 0]"
    using sample_rebalance_facts(3,7) sample_undirected [of 2 sample_rebalance] bit
    by (simp add: wanted_def sample_balances Delegation_default_def get_target_lamports_def checked_defs MAX_VALIDATORS_def)
  have t: "get_target_lamports (delegations sample_rebalance ! 2) 9670 = Ok 4835"
    by (simp add: sample_balances MAX_VALIDATORS_def get_target_lamports_def checked_defs)
  show ?thesis
    using increase_serves_the_ranking_in_order [OF sample_rebalance_facts(1,4) _ _ t _ w, of 2890 1500]
      sample_rebalance_facts(3) by (auto simp: int_limits)
qed

end
