(* ===== verification/Transitions.thy ===== *)
theory Transitions
  imports Ranking
begin

text \<open>
  The steward's state machine as a transition system: which changes of state
  \<^verbatim>\<open>StewardStateV2::transition\<close> can make, under which guards, what it keeps, and that directed
  rebalancing cannot keep the scoring of a new cycle from starting.
\<close>

section \<open>The transition relation\<close>

text \<open>
  The specification: an edge of the state diagram with the condition on the state before
  (\<open>prog\<close> is the progress of the epoch) and what holds right after.
\<close>

definition all_processed :: "StewardStateV2 \<Rightarrow> bool" where
  "all_processed s \<longleftrightarrow> {..<num_pool_validators s} \<subseteq> mask_bits (progress s)"

inductive edge :: "f64 \<Rightarrow> nat \<Rightarrow> Parameters \<Rightarrow> StewardStateV2 \<Rightarrow> StewardStateV2 \<Rightarrow> bool"
  for prog :: f64 and epoch :: nat and params :: Parameters where
  scores_done: "state_tag s = ComputeScores \<Longrightarrow> all_processed s \<Longrightarrow> state_tag t = ComputeDelegations \<Longrightarrow>
    has_flag COMPUTE_SCORE t \<Longrightarrow> mask_bits (progress t) = {} \<Longrightarrow>
    delegations t = replicate MAX_VALIDATORS Delegation_default \<Longrightarrow> edge prog epoch params s t"
| delegations_done: "state_tag s = ComputeDelegations \<Longrightarrow> has_flag COMPUTE_DELEGATIONS s \<Longrightarrow>
    state_tag t = Idle \<Longrightarrow> edge prog epoch params s t"
| start_scores: "state_tag s = Idle \<Longrightarrow> has_flag REBALANCE_DIRECTED_COMPLETE s \<Longrightarrow>
    \<not> has_flag COMPUTE_DELEGATIONS s \<or> next_cycle_epoch s \<le> epoch \<Longrightarrow>
    f64_le (p_compute_score_epoch_progress params) prog \<Longrightarrow> state_tag t = ComputeScores \<Longrightarrow>
    mask_bits (progress t) = {} \<Longrightarrow> mask_bits (instant_unstake t) = {} \<Longrightarrow> edge prog epoch params s t"
| start_instant_unstake: "state_tag s = Idle \<Longrightarrow> \<not> has_flag REBALANCE s \<Longrightarrow>
    f64_le (p_instant_unstake_epoch_progress params) prog \<Longrightarrow> state_tag t = ComputeInstantUnstake \<Longrightarrow>
    mask_bits (progress t) = {} \<Longrightarrow> mask_bits (instant_unstake t) = {} \<Longrightarrow> edge prog epoch params s t"
| instant_unstake_done: "state_tag s = ComputeInstantUnstake \<Longrightarrow> all_processed s \<Longrightarrow>
    state_tag t = Rebalance \<Longrightarrow> has_flag COMPUTE_INSTANT_UNSTAKES t \<Longrightarrow> mask_bits (progress t) = {} \<Longrightarrow>
    instant_unstake t = instant_unstake s \<Longrightarrow> edge prog epoch params s t"
| rebalance_done: "state_tag s = Rebalance \<Longrightarrow> all_processed s \<Longrightarrow> state_tag t = Idle \<Longrightarrow>
    has_flag REBALANCE t \<Longrightarrow> edge prog epoch params s t"
| rebalance_reset: "state_tag s = Rebalance \<Longrightarrow> has_flag RESET_TO_IDLE s \<Longrightarrow> state_tag t = Idle \<Longrightarrow>
    mask_bits (progress t) = {} \<Longrightarrow> edge prog epoch params s t"
| directed_done: "state_tag s = RebalanceDirected \<Longrightarrow> has_flag REBALANCE_DIRECTED_COMPLETE s \<or>
    f64_le (p_compute_score_epoch_progress params) prog \<Longrightarrow> state_tag t = Idle \<Longrightarrow>
    has_flag REBALANCE_DIRECTED_COMPLETE t \<Longrightarrow> edge prog epoch params s t"

lemma edge_irrefl: "edge prog epoch params s t \<Longrightarrow> state_tag t \<noteq> state_tag s"
  by (induction rule: edge.induct) simp_all

lemma StewardStateEnum_fmt_inj: "StewardStateEnum_fmt a = StewardStateEnum_fmt b \<longleftrightarrow> a = b"
  by (cases a; cases b) simp_all

lemma is_complete_wf:
  "state_wf s \<Longrightarrow> BitMask_is_complete (num_pool_validators s) (progress s) = Ok (all_processed s)"
  by (simp add: state_wf_def all_processed_def bm.complete_eq)

text \<open>What every transition keeps.\<close>

definition same_pool :: "StewardStateV2 \<Rightarrow> StewardStateV2 \<Rightarrow> bool" where
  "same_pool s t \<longleftrightarrow>
     validator_lamport_balances t = validator_lamport_balances s \<and> scores t = scores s \<and>
     raw_scores t = raw_scores s \<and> sorted_score_indices t = sorted_score_indices s \<and>
     sorted_raw_score_indices t = sorted_raw_score_indices s \<and>
     validators_to_remove t = validators_to_remove s \<and>
     validators_for_immediate_removal t = validators_for_immediate_removal s \<and>
     num_pool_validators t = num_pool_validators s \<and> validators_added t = validators_added s \<and>
     current_epoch t = current_epoch s \<and> next_cycle_epoch t = next_cycle_epoch s"

lemmas transition_defs = transition_compute_scores_def transition_compute_delegations_def
  transition_idle_def transition_compute_instant_unstake_def transition_rebalance_def
  transition_rebalance_directed_def Let_def

lemma transition_step:
  assumes wf: "state_wf s" and prog: "epoch_progress clock es = Ok prog"
  shows "\<exists>t. transition clock params es s = Ok t \<and> state_wf t \<and> same_pool s t \<and>
    (state_tag t = state_tag s \<or> edge prog (clock_epoch clock) params s t)"
proof (cases "state_tag s")
  case ComputeScores
  then show ?thesis using wf prog is_complete_wf [OF wf]
    by (auto simp: transition_def transition_defs state_wf_def same_pool_def edge.simps flag_bits)
next
  case ComputeDelegations
  then show ?thesis using wf prog
    by (auto simp: transition_def transition_defs state_wf_def same_pool_def edge.simps)
next
  case Idle
  then show ?thesis using wf prog
    by (auto simp: transition_def transition_defs state_wf_def same_pool_def edge.simps flag_bits)
next
  case ComputeInstantUnstake
  then show ?thesis using wf prog is_complete_wf [OF wf]
    by (auto simp: transition_def transition_defs state_wf_def same_pool_def edge.simps flag_bits)
next
  case Rebalance
  then show ?thesis using wf prog is_complete_wf [OF wf]
    by (auto simp: transition_def transition_defs state_wf_def same_pool_def edge.simps flag_bits)
next
  case RebalanceDirected
  then show ?thesis using wf prog
    by (auto simp: transition_def transition_defs state_wf_def same_pool_def edge.simps flag_bits)
qed

text \<open>The machine stays where it is only when no edge of the diagram is enabled.\<close>

lemma transition_stays:
  assumes wf: "state_wf s" and prog: "epoch_progress clock es = Ok prog"
    and stays: "transition clock params es s = Ok t" "state_tag t = state_tag s"
  shows "\<not> edge prog (clock_epoch clock) params s u"
proof (cases "state_tag s")
  case Idle
  then show ?thesis using stays prog
    by (auto simp: transition_def transition_defs edge.simps flag_bits split: if_splits)
qed (use stays prog is_complete_wf [OF wf] in
    \<open>auto simp: transition_def transition_defs edge.simps split: if_splits\<close>)

lemma maybe_transition_frame:
  assumes "state_wf s"
  shows "ok_all (\<lambda>(t, ev). state_wf t \<and> same_pool s t \<and> (ev = None \<longleftrightarrow> state_tag t = state_tag s))
    (maybe_transition clock params es s)"
proof (cases "epoch_progress clock es")
  case (Inr prog)
  from transition_step [OF assms this, of params] show ?thesis
    by (auto simp: maybe_transition_def Let_def StewardStateEnum_fmt_inj)
qed (simp add: maybe_transition_def transition_def)

lemma same_pool_refl: "same_pool s s"
  by (simp add: same_pool_def)

lemma same_pool_trans: "same_pool s t \<Longrightarrow> same_pool t u \<Longrightarrow> same_pool s u"
  by (simp add: same_pool_def)

lemma same_pool_set_flag: "same_pool s (set_flag f s)" "state_wf (set_flag f s) = state_wf s"
  by (simp_all add: same_pool_def state_wf_def)

section \<open>Properties\<close>

text \<open>
  C4. \<^verbatim>\<open>maybe_transition\<close> follows the state diagram. On a well-formed state it succeeds, keeps the
  state well formed and the pool's data untouched. It reports an event exactly when the state
  tag changed, and then along an edge whose guard held; it stays exactly when no edge is
  enabled. The guards: \<^verbatim>\<open>ComputeScores\<close> and \<^verbatim>\<open>ComputeInstantUnstake\<close> are left only when every
  validator of the pool was processed, \<^verbatim>\<open>ComputeDelegations\<close> when its flag is set, \<^verbatim>\<open>Rebalance\<close>
  when every validator was processed or a reset to Idle is requested, \<^verbatim>\<open>RebalanceDirected\<close> when
  its flag is set or, with targets unprocessed or not, once the epoch is far enough for
  scoring, and \<^verbatim>\<open>Idle\<close> towards scoring or instant unstake when those are due at this point of
  the epoch. Scoring, instant unstake and rebalancing each start with an empty progress mask.
\<close>

theorem maybe_transition_follows_the_diagram:
  assumes "state_wf s" "epoch_progress clock es = Ok prog"
  shows "\<exists>t ev. maybe_transition clock params es s = Ok (t, ev) \<and> state_wf t \<and> same_pool s t \<and>
    (case ev of
       None \<Rightarrow> state_tag t = state_tag s \<and> (\<forall>u. \<not> edge prog (clock_epoch clock) params s u)
     | Some e \<Rightarrow> edge prog (clock_epoch clock) params s t \<and> tr_epoch e = clock_epoch clock \<and>
         previous_state e = StewardStateEnum_fmt (state_tag s) \<and> new_state e = StewardStateEnum_fmt (state_tag t))"
proof -
  obtain t where t: "transition clock params es s = Ok t" "state_wf t" "same_pool s t"
    "state_tag t = state_tag s \<or> edge prog (clock_epoch clock) params s t"
    using transition_step [OF assms] by blast
  show ?thesis
  proof (cases "state_tag t = state_tag s")
    case True
    then show ?thesis using t(1-3) transition_stays [OF assms t(1) True]
      by (auto simp: maybe_transition_def Let_def)
  next
    case False
    then show ?thesis using t by (auto simp: maybe_transition_def Let_def StewardStateEnum_fmt_inj)
  qed
qed

text \<open>The clock of the witnesses is three quarters into an epoch of four slots.\<close>

definition sample_clock :: Clock where "sample_clock = \<lparr>clock_slot = 103, clock_epoch = 900\<rparr>"
definition sample_schedule :: EpochSchedule where
  "sample_schedule = \<lparr>slots_per_epoch = 4, get_first_slot_in_epoch = (\<lambda>_. 100), get_slots_in_epoch = (\<lambda>_. 4)\<rparr>"

lemma sample_progress: "epoch_progress sample_clock sample_schedule = Ok (Fin (3 / 4))"
proof -
  have "(2 :: rat) ^ 3 \<le> 2 ^ 1024" by (rule power_increasing) simp_all
  then have big: "8 \<le> pow2 1024" by (simp add: pow2_def)
  have rounds: "round_pos 3 = 3" "round_pos 4 = 4" "round_pos (3 / 4) = 3 / 4" by code_simp+
  have "\<not> pow2 1024 \<le> 3" "\<not> pow2 1024 \<le> 4" "\<not> pow2 1024 * 4 \<le> 3" using big by linarith+
  then have "f64_of_nat 3 = Fin 3" "f64_of_nat 4 = Fin 4" "round_f64 (3 / 4) = Fin (3 / 4)"
    using rounds by (simp_all add: f64_of_nat_def round_f64_def)
  then show ?thesis
    by (simp add: epoch_progress_def sample_clock_def sample_schedule_def checked_sub_def)
qed

theorem maybe_transition_follows_the_diagram_witness:
  "\<exists>t ev. maybe_transition sample_clock sample_parameters sample_schedule sample_state = Ok (t, ev) \<and>
     state_wf t \<and> same_pool sample_state t"
  using maybe_transition_follows_the_diagram [OF sample_state_wf sample_progress, of sample_parameters]
  by blast

text \<open>
  Directed rebalancing cannot stall the machine: past the point of the epoch at which
  scoring may start, two transitions lead from \<^verbatim>\<open>RebalanceDirected\<close> to \<^verbatim>\<open>ComputeScores\<close>, whether
  or not every target was rebalanced, whenever a scoring cycle is due.
\<close>

theorem directed_rebalance_cannot_stall:
  assumes "state_wf s" "epoch_progress clock es = Ok prog" "state_tag s = RebalanceDirected"
    and "f64_le (p_compute_score_epoch_progress params) prog"
    and "\<not> has_flag COMPUTE_DELEGATIONS s \<or> next_cycle_epoch s \<le> clock_epoch clock"
  shows "\<exists>t u. transition clock params es s = Ok t \<and> state_tag t = Idle \<and>
    transition clock params es t = Ok u \<and> state_tag u = ComputeScores"
  using assms by (auto simp: transition_def transition_defs flag_bits)

theorem directed_rebalance_cannot_stall_witness:
  "\<exists>t u. transition sample_clock sample_parameters sample_schedule
       (sample_state\<lparr>state_tag := RebalanceDirected\<rparr>) = Ok t \<and> state_tag t = Idle \<and>
    transition sample_clock sample_parameters sample_schedule t = Ok u \<and> state_tag u = ComputeScores"
  by (rule directed_rebalance_cannot_stall [OF _ sample_progress])
     (use sample_state_wf in \<open>simp_all add: state_wf_def sample_parameters_def sample_state_def flag_bits\<close>)

text \<open>
  Starting a new cycle: \<^verbatim>\<open>reset_state_for_new_cycle\<close> fails only if the next cycle's epoch
  overflows; otherwise it zeroes the scores, the unstake totals, the delegations and the
  masks, and of the status flags it keeps the epoch maintenance and the directed rebalance
  flag and clears all the others.
\<close>

theorem reset_state_for_new_cycle_effect:
  "case reset_state_for_new_cycle epoch slot k s of
     Inl e \<Rightarrow> e = Steward ArithmeticError \<and> U64_MAX < epoch + k
   | Inr t \<Rightarrow> epoch + k \<le> U64_MAX \<and> next_cycle_epoch t = epoch + k \<and> start_computing_scores_slot t = slot \<and>
       (\<forall>j. bit (status_flags t) j = (bit (status_flags s) j \<and> (j = 2 \<or> j = 7))) \<and>
       scores t = replicate MAX_VALIDATORS 0 \<and> raw_scores t = replicate MAX_VALIDATORS 0 \<and>
       scoring_unstake_total t = 0 \<and> instant_unstake_total t = 0 \<and> stake_deposit_unstake_total t = 0 \<and>
       delegations t = replicate MAX_VALIDATORS Delegation_default \<and>
       mask_bits (progress t) = {} \<and> mask_bits (instant_unstake t) = {} \<and>
       validator_lamport_balances t = validator_lamport_balances s \<and>
       num_pool_validators t = num_pool_validators s \<and> state_tag t = state_tag s"
  by (auto simp: reset_state_for_new_cycle_def Let_def checked_add_def flag_bits)

end
