(* ===== verification/Directed_Delegation.thy ===== *)
theory Directed_Delegation
  imports Undirected_Delegation Transitions
begin

text \<open>
  Directed rebalancing: the calculations of programs/steward/src/directed_delegation.rs, the
  reconciliation of deposits and withdrawals and the handler of
  instructions/rebalance_directed.rs, and the checks of utils.rs that every cranking
  instruction makes. What the handler reads from other accounts and programs are its
  arguments: the deserialised validator list, the stake pool's total, the reserve, the rent,
  the minimum delegation and the outcome of the stake pool's instruction.
\<close>

section \<open>Checks\<close>

definition list_matches_state :: "StewardStateV2 \<Rightarrow> ValidatorListAccount \<Rightarrow> unit result" where
  "list_matches_state s acc =
     and_then (get_validator_list_length acc) (\<lambda>validators_in_list.
     and_then (plus_or_panic U64_MAX (num_pool_validators s) (validators_added s)) (\<lambda>total.
     require (total = validators_in_list) ListStateMismatch))"

definition state_checks ::
  "Clock \<Rightarrow> Config \<Rightarrow> StewardStateV2 \<Rightarrow> ValidatorListAccount \<Rightarrow> StewardStateEnum option \<Rightarrow> unit result" where
  "state_checks clock config s acc expected_state =
     (if is_paused config then Err (Steward StateMachinePaused)
      else and_then (case expected_state of None \<Rightarrow> Ok () | Some e \<Rightarrow> require (state_tag s = e) InvalidState) (\<lambda>_.
        and_then (require (clock_epoch clock = current_epoch s) EpochMaintenanceNotComplete) (\<lambda>_.
        and_then (require (mask_count (validators_for_immediate_removal s) = 0) ValidatorsNeedToBeRemoved) (\<lambda>_.
        list_matches_state s acc))))"

definition remove_validator_check ::
  "Clock \<Rightarrow> Config \<Rightarrow> StewardStateV2 \<Rightarrow> ValidatorListAccount \<Rightarrow> unit result" where
  "remove_validator_check clock config s acc =
     (if is_paused config then Err (Steward StateMachinePaused)
      else and_then (require (clock_epoch clock = current_epoch s) EpochMaintenanceNotComplete) (\<lambda>_.
        list_matches_state s acc))"

definition add_validator_check ::
  "Clock \<Rightarrow> Config \<Rightarrow> StewardStateV2 \<Rightarrow> ValidatorListAccount \<Rightarrow> unit result" where
  "add_validator_check clock config s acc =
     (if is_paused config then Err (Steward StateMachinePaused)
      else and_then (require (clock_epoch clock = current_epoch s) EpochMaintenanceNotComplete) (\<lambda>_.
        and_then (require (mask_count (validators_for_immediate_removal s) = 0) ValidatorsNeedToBeRemoved) (\<lambda>_.
        list_matches_state s acc)))"

section \<open>Calculations\<close>

text \<open>The sum of a per-target amount over the targets not yet updated in this epoch.\<close>

definition sum_pending ::
  "(DirectedStakeTarget \<Rightarrow> nat) \<Rightarrow> nat \<Rightarrow> DirectedStakeTarget list \<Rightarrow> nat" where
  "sum_pending amount epoch ts =
     fold (\<lambda>t total. if staked_last_updated_epoch t = epoch then total
                     else saturating_add U64_MAX total (amount t)) ts 0"

definition target_excess :: "DirectedStakeTarget \<Rightarrow> nat" where
  "target_excess t = saturating_sub (t_total_staked_lamports t) (total_target_lamports t)"

definition target_deficit :: "DirectedStakeTarget \<Rightarrow> nat" where
  "target_deficit t = saturating_sub (total_target_lamports t) (t_total_staked_lamports t)"

definition directed_decrease_stake_calculation ::
  "StewardStateV2 \<Rightarrow> DirectedStakeMeta \<Rightarrow> nat \<Rightarrow> nat \<Rightarrow> nat \<Rightarrow> nat \<Rightarrow> nat \<Rightarrow> RebalanceType result" where
  "directed_decrease_stake_calculation s m target_index current_lamports cap_lamports unstake_total_lamports
     minimum_delegation =
     (if total_stake_targets m \<le> target_index then Err (Steward ValidatorIndexOutOfBounds)
      else and_then (arr_get (targets m) target_index) (\<lambda>t.
        let target_lamports = total_target_lamports t in
        if current_lamports \<le> target_lamports then Ok RebalanceNone
        else let delta = saturating_sub current_lamports target_lamports in
          and_then (arr_slice (targets m) 0 (total_stake_targets m)) (\<lambda>ts.
          let total_excess = sum_pending target_excess (current_epoch s) ts in
          if total_excess = 0 then Ok RebalanceNone
          else and_then (div_or_panic (saturating_mul U128_MAX delta 10000) total_excess) (\<lambda>proportion_bps.
            let unstake_total = min (saturating_sub cap_lamports unstake_total_lamports) total_excess in
            and_then (arith_error (try_into U64_MAX (saturating_mul U128_MAX unstake_total proportion_bps div 10000)))
              (\<lambda>proportional.
            let capped = min proportional delta in
            Ok (if capped < minimum_delegation then RebalanceNone
                else Decrease \<lparr>scoring_unstake_lamports = 0, instant_unstake_lamports = 0,
                  stake_deposit_unstake_lamports = 0, total_unstake_lamports = capped,
                  directed_unstake_lamports = capped\<rparr>))))))"

definition directed_increase_stake_calculation ::
  "StewardStateV2 \<Rightarrow> DirectedStakeMeta \<Rightarrow> nat \<Rightarrow> nat \<Rightarrow> nat \<Rightarrow> nat \<Rightarrow> nat \<Rightarrow> RebalanceType result" where
  "directed_increase_stake_calculation s m target_index current_lamports reserve_lamports minimum_delegation stake_rent =
     (if total_stake_targets m \<le> target_index then Err (Steward ValidatorIndexOutOfBounds)
      else and_then (arr_get (targets m) target_index) (\<lambda>t.
        let delta = saturating_sub (total_target_lamports t) current_lamports in
        if delta = 0 then Ok RebalanceNone
        else and_then (arr_slice (targets m) 0 (total_stake_targets m)) (\<lambda>ts.
          let total_delta = sum_pending target_deficit (current_epoch s) ts in
          if total_delta = 0 then Ok RebalanceNone
          else and_then (div_or_panic (saturating_mul U128_MAX delta 10000) total_delta) (\<lambda>proportion_bps.
            let available = saturating_sub reserve_lamports (saturating_mul U64_MAX stake_rent 2) in
            and_then (arith_error (try_into U64_MAX (saturating_mul U128_MAX available proportion_bps div 10000)))
              (\<lambda>proportional.
            let capped = min proportional delta in
            Ok (if capped < minimum_delegation then RebalanceNone else Increase capped))))))"

section \<open>Deposits and withdrawals\<close>

definition set_directed :: "nat \<Rightarrow> nat \<Rightarrow> DirectedStakeMeta \<Rightarrow> DirectedStakeMeta result" where
  "set_directed i v m =
     and_then (arr_set (directed_stake_lamports m) i v) (\<lambda>dl. Ok (m\<lparr>directed_stake_lamports := dl\<rparr>))"

definition set_balance :: "nat \<Rightarrow> nat \<Rightarrow> StewardStateV2 \<Rightarrow> StewardStateV2 result" where
  "set_balance i v s =
     and_then (arr_set (validator_lamport_balances s) i v) (\<lambda>bs. Ok (s\<lparr>validator_lamport_balances := bs\<rparr>))"

definition adjust_directed_stake_for_deposits_and_withdrawals ::
  "nat \<Rightarrow> nat \<Rightarrow> nat \<Rightarrow> DirectedStakeMeta \<Rightarrow> StewardStateV2 \<Rightarrow> (DirectedStakeMeta \<times> StewardStateV2) result" where
  "adjust_directed_stake_for_deposits_and_withdrawals listed i mi m s =
     and_then (arr_get (validator_lamport_balances s) i) (\<lambda>balance.
     and_then (arr_get (targets m) mi) (\<lambda>t.
     let target = total_target_lamports t; applied = t_total_staked_lamports t in
     and_then
       (if listed < balance then
          let withdrawal = saturating_sub balance listed in
          if applied < withdrawal then
            and_then (update_target mi (\<lambda>t. t\<lparr>t_total_staked_lamports := 0\<rparr>) m) (\<lambda>m.
            and_then (set_directed i 0 m) (\<lambda>m.
            and_then (set_balance i (saturating_sub balance withdrawal) s) (\<lambda>s. Ok (m, s))))
          else
            and_then (subtract_from_total_staked_lamports mi withdrawal m) (\<lambda>m.
            and_then (arr_get (directed_stake_lamports m) i) (\<lambda>directed.
            and_then (set_directed i (saturating_sub directed withdrawal) m) (\<lambda>m.
            and_then (set_balance i (saturating_sub balance withdrawal) s) (\<lambda>s. Ok (m, s)))))
        else if balance < listed \<and> applied < target then
          let deficit = saturating_sub target applied; deposit = saturating_sub listed balance;
              increase = min deficit deposit in
          and_then (add_to_total_staked_lamports mi increase m) (\<lambda>m.
          and_then (arr_get (directed_stake_lamports m) i) (\<lambda>directed.
          and_then (set_directed i (saturating_add U64_MAX directed increase) m) (\<lambda>m.
          and_then (set_balance i (saturating_add U64_MAX balance increase) s) (\<lambda>s. Ok (m, s)))))
        else Ok (m, s)) (\<lambda>(m, s).
     and_then (arr_get (targets m) mi) (\<lambda>t.
     let applied = t_total_staked_lamports t in
     if listed < applied then
       let excess = saturating_sub applied listed in
       and_then (subtract_from_total_staked_lamports mi excess m) (\<lambda>m.
       and_then (arr_get (directed_stake_lamports m) i) (\<lambda>directed.
       and_then (set_directed i (saturating_sub directed excess) m) (\<lambda>m. Ok (m, s))))
     else Ok (m, s)))))"

section \<open>The handler\<close>

datatype RebalanceTypeTag = TagNone | TagIncrease | TagDecrease

record DirectedRebalanceEvent =
  dre_vote_account :: Pubkey
  dre_epoch :: nat
  dre_rebalance_type_tag :: RebalanceTypeTag
  dre_increase_lamports :: nat
  dre_decrease_lamports :: nat

fun directed_rebalance_to_event :: "Pubkey \<Rightarrow> nat \<Rightarrow> RebalanceType \<Rightarrow> DirectedRebalanceEvent" where
  "directed_rebalance_to_event vote_account epoch RebalanceNone =
     \<lparr>dre_vote_account = vote_account, dre_epoch = epoch, dre_rebalance_type_tag = TagNone,
      dre_increase_lamports = 0, dre_decrease_lamports = 0\<rparr>"
| "directed_rebalance_to_event vote_account epoch (Increase lamports) =
     \<lparr>dre_vote_account = vote_account, dre_epoch = epoch, dre_rebalance_type_tag = TagIncrease,
      dre_increase_lamports = lamports, dre_decrease_lamports = 0\<rparr>"
| "directed_rebalance_to_event vote_account epoch (Decrease c) =
     \<lparr>dre_vote_account = vote_account, dre_epoch = epoch, dre_rebalance_type_tag = TagDecrease,
      dre_increase_lamports = 0, dre_decrease_lamports = directed_unstake_lamports c\<rparr>"

datatype emitted = TransitionEvent StateTransition | DirectedEvent DirectedRebalanceEvent

text \<open>
  What the handler takes from outside: the keys and balances of the accounts passed in, the
  deserialised accounts of the stake pool, and whether the stake pool's instruction for a
  move with a given transient seed succeeds.
\<close>

record directed_accounts =
  da_vote_account :: Pubkey
  da_validator_list :: ValidatorListAccount
  da_stake_pool_total :: "nat result"
  da_reserve_lamports :: nat
  da_minimum_delegation :: nat
  da_stake_rent :: nat
  da_invoke :: "RebalanceType \<Rightarrow> nat \<Rightarrow> unit result"

definition find_in_list :: "BigVec \<Rightarrow> Pubkey \<Rightarrow> nat option result" where
  "find_in_list vl k =
     position (\<lambda>i. and_then (vote_pubkey_at_validator_list_index vl i) (\<lambda>pk. Ok (pk = k))) [0..<bv_len vl]"

definition mark_if_all_rebalanced :: "nat \<Rightarrow> DirectedStakeMeta \<Rightarrow> StewardStateV2 \<Rightarrow> StewardStateV2" where
  "mark_if_all_rebalanced epoch m s =
     (if all_targets_rebalanced_for_epoch epoch m then set_flag REBALANCE_DIRECTED_COMPLETE s else s)"

definition directed_missing_validator ::
  "Clock \<Rightarrow> EpochSchedule \<Rightarrow> Config \<Rightarrow> nat \<Rightarrow> DirectedStakeMeta \<Rightarrow> StewardStateV2 \<Rightarrow>
   (DirectedStakeMeta \<times> StewardStateV2 \<times> emitted list) result" where
  "directed_missing_validator clock es config mi m s =
     and_then (update_staked_last_updated_epoch mi (clock_epoch clock) m) (\<lambda>m.
     and_then (maybe_transition clock (c_parameters config) es (mark_if_all_rebalanced (clock_epoch clock) m s))
       (\<lambda>(s, ev). Ok (m, s, case ev of None \<Rightarrow> [] | Some e \<Rightarrow> [TransitionEvent e])))"

definition choose_directed_rebalance ::
  "directed_accounts \<Rightarrow> Config \<Rightarrow> nat \<Rightarrow> DirectedStakeMeta \<Rightarrow> StewardStateV2 \<Rightarrow> RebalanceType result" where
  "choose_directed_rebalance accs config mi m s =
     and_then (da_stake_pool_total accs) (\<lambda>pool.
     let cap = saturating_mul U64_MAX pool (p_directed_stake_unstake_cap_bps (c_parameters config)) div 10000 in
     and_then (arr_get (targets m) mi) (\<lambda>t.
     let staked = t_total_staked_lamports t;
         decrease_result = directed_decrease_stake_calculation s m mi staked cap (directed_unstake_total m)
           (da_minimum_delegation accs) in
     case decrease_result of
       Inr (Decrease c) \<Rightarrow> decrease_result
     | Inl Panic \<Rightarrow> Err Panic
     | _ \<Rightarrow> directed_increase_stake_calculation s m mi staked (da_reserve_lamports accs)
              (da_minimum_delegation accs) (da_stake_rent accs)))"

definition apply_directed_rebalance ::
  "nat \<Rightarrow> nat \<Rightarrow> RebalanceType \<Rightarrow> DirectedStakeMeta \<Rightarrow> StewardStateV2 \<Rightarrow>
   (DirectedStakeMeta \<times> StewardStateV2) result" where
  "apply_directed_rebalance i mi r m s = (case r of
     Decrease c \<Rightarrow>
       and_then (subtract_from_total_staked_lamports mi (directed_unstake_lamports c) m) (\<lambda>m.
       and_then (arr_get (validator_lamport_balances s) i) (\<lambda>balance.
       if balance \<noteq> LAMPORT_BALANCE_DEFAULT then
         and_then (set_balance i (saturating_sub balance (directed_unstake_lamports c)) s) (\<lambda>s.
         and_then (arr_get (directed_stake_lamports m) i) (\<lambda>directed.
         and_then (set_directed i (saturating_sub directed (directed_unstake_lamports c)) m) (\<lambda>m. Ok (m, s))))
       else Ok (m, s)))
   | Increase lamports \<Rightarrow>
       and_then (arr_get (validator_lamport_balances s) i) (\<lambda>balance.
       let balance = (if balance = LAMPORT_BALANCE_DEFAULT then 0 else balance) in
       and_then (add_to_total_staked_lamports mi lamports m) (\<lambda>m.
       and_then (arith_error (checked_add U64_MAX balance lamports)) (\<lambda>b.
       and_then (set_balance i b s) (\<lambda>s.
       and_then (arr_get (directed_stake_lamports m) i) (\<lambda>directed.
       and_then (set_directed i (saturating_add U64_MAX directed lamports) m) (\<lambda>m. Ok (m, s)))))))
   | RebalanceNone \<Rightarrow> Ok (m, s))"

definition invoke_stake_pool :: "directed_accounts \<Rightarrow> RebalanceType \<Rightarrow> nat \<Rightarrow> unit result" where
  "invoke_stake_pool accs r seed = (case r of RebalanceNone \<Rightarrow> Ok () | _ \<Rightarrow> da_invoke accs r seed)"

definition finish_directed ::
  "Clock \<Rightarrow> EpochSchedule \<Rightarrow> Config \<Rightarrow> Pubkey \<Rightarrow> nat \<Rightarrow> RebalanceType \<Rightarrow> DirectedStakeMeta \<Rightarrow> StewardStateV2 \<Rightarrow>
   (DirectedStakeMeta \<times> StewardStateV2 \<times> emitted list) result" where
  "finish_directed clock es config vote_account mi r m s =
     and_then (update_staked_last_updated_epoch mi (clock_epoch clock) m) (\<lambda>m.
     let m = (case r of Decrease c \<Rightarrow> m\<lparr>directed_unstake_total :=
                 saturating_add U64_MAX (directed_unstake_total m) (directed_unstake_lamports c)\<rparr> | _ \<Rightarrow> m);
         event = DirectedEvent (directed_rebalance_to_event vote_account (cast U16_MAX (clock_epoch clock)) r) in
     and_then (maybe_transition clock (c_parameters config) es (mark_if_all_rebalanced (clock_epoch clock) m s))
       (\<lambda>(s, ev). Ok (m, s, event # (case ev of None \<Rightarrow> [] | Some e \<Rightarrow> [TransitionEvent e]))))"

definition rebalance_directed_handler ::
  "directed_accounts \<Rightarrow> Clock \<Rightarrow> EpochSchedule \<Rightarrow> Config \<Rightarrow> nat \<Rightarrow> DirectedStakeMeta \<Rightarrow> StewardStateV2 \<Rightarrow>
   (DirectedStakeMeta \<times> StewardStateV2 \<times> emitted list) result" where
  "rebalance_directed_handler accs clock es config mi m s =
     and_then (arr_get (targets m) mi) (\<lambda>t.
     if t_vote_pubkey t \<noteq> da_vote_account accs then Err (Steward DirectedStakeVoteAccountMismatch)
     else and_then (load_validator_list (da_validator_list accs)) (\<lambda>vl.
     and_then (find_in_list vl (t_vote_pubkey t)) (\<lambda>found.
     case found of
       None \<Rightarrow> directed_missing_validator clock es config mi m s
     | Some i \<Rightarrow>
         and_then (get_transient_stake_seed_at_index_from_big_vec vl i) (\<lambda>transient_seed.
         and_then (stake_lamports_at_validator_list_index vl i) (\<lambda>(listed, _).
         and_then (adjust_directed_stake_for_deposits_and_withdrawals listed i mi m s) (\<lambda>(m, s).
         and_then (require (state_tag s = RebalanceDirected) InvalidState) (\<lambda>_.
         and_then (maybe_transition clock (c_parameters config) es (mark_if_all_rebalanced (clock_epoch clock) m s))
           (\<lambda>(s, ev). case ev of
             Some e \<Rightarrow> Ok (m, s, [TransitionEvent e])
           | None \<Rightarrow>
               and_then (state_checks clock config s (da_validator_list accs) (Some RebalanceDirected)) (\<lambda>_.
               and_then (arr_get (targets m) mi) (\<lambda>t.
               if staked_last_updated_epoch t = clock_epoch clock \<and> 0 < clock_epoch clock
                  \<and> 0 < t_total_staked_lamports t
               then Err (Steward ValidatorAlreadyRebalanced)
               else and_then (choose_directed_rebalance accs config mi m s) (\<lambda>r.
               and_then (invoke_stake_pool accs r transient_seed) (\<lambda>_.
               and_then (apply_directed_rebalance i mi r m s) (\<lambda>(m, s).
               finish_directed clock es config (da_vote_account accs) mi r m s)))))))))))))"

section \<open>The calculations stay within the excess, the deficit, the cap and the reserve\<close>

definition pending :: "nat \<Rightarrow> DirectedStakeTarget \<Rightarrow> bool" where
  "pending epoch t \<longleftrightarrow> staked_last_updated_epoch t \<noteq> epoch"

lemma sum_pending_eq:
  "sum_pending f epoch ts = min U64_MAX (\<Sum>t\<leftarrow>filter (pending epoch) ts. f t)"
proof -
  have "fold (\<lambda>t total. if staked_last_updated_epoch t = epoch then total
                     else saturating_add U64_MAX total (f t)) ts a
      = min U64_MAX (a + (\<Sum>t\<leftarrow>filter (pending epoch) ts. f t))" if "a \<le> U64_MAX" for a
    using that by (induction ts arbitrary: a) (auto simp: pending_def saturating_defs min_def)
  from this [of 0] show ?thesis by (simp add: sum_pending_def)
qed

lemma sum_pending_ge:
  assumes "t \<in> set ts" "pending epoch t" "f t \<le> U64_MAX"
  shows "f t \<le> sum_pending f epoch ts"
  using assms member_le_sum_list [of "f t" "map f (filter (pending epoch) ts)"]
  by (simp add: sum_pending_eq)

text \<open>A share in basis points of what is at least the whole takes no more than the amount.\<close>

lemma bps_share_le:
  assumes "delta \<le> whole"
  shows "saturating_mul U128_MAX amount (saturating_mul U128_MAX delta 10000 div whole) div 10000 \<le> amount"
proof -
  have "delta * 10000 \<le> 10000 * whole" using assms by linarith
  then have "delta * 10000 div whole \<le> 10000"
    by (metis div_by_0 div_le_mono le0 nonzero_mult_div_cancel_right)
  then have "saturating_mul U128_MAX delta 10000 div whole \<le> 10000"
    using div_le_mono [of "saturating_mul U128_MAX delta 10000" "delta * 10000" whole]
    by (simp add: saturating_mul_def)
  then have "amount * (saturating_mul U128_MAX delta 10000 div whole) \<le> amount * 10000" by simp
  then have "saturating_mul U128_MAX amount (saturating_mul U128_MAX delta 10000 div whole) \<le> amount * 10000"
    by (simp add: saturating_mul_def min.coboundedI2)
  then show ?thesis using div_le_mono by fastforce
qed

lemma directed_decrease_ok:
  "ok_all (\<lambda>r. \<forall>c. r = Decrease c \<longrightarrow>
      i < total_stake_targets m \<and> total_stake_targets m \<le> length (targets m) \<and>
      total_target_lamports (targets m ! i) < current \<and>
      total_unstake_lamports c = directed_unstake_lamports c \<and> minimum \<le> directed_unstake_lamports c \<and>
      directed_unstake_lamports c \<le> current - total_target_lamports (targets m ! i) \<and>
      (current - total_target_lamports (targets m ! i)
         \<le> sum_pending target_excess (current_epoch s) (take (total_stake_targets m) (targets m)) \<longrightarrow>
       directed_unstake_lamports c \<le> cap - unstaked))
    (directed_decrease_stake_calculation s m i current cap unstaked minimum)"
  unfolding directed_decrease_stake_calculation_def Let_def saturating_sub_def
proof (intro ok_all_if ok_all_bind, goal_cases)
  case (4 t ts proportion_bps proportional)
  then have ts: "ts = take (total_stake_targets m) (targets m)" "total_stake_targets m \<le> length (targets m)"
    by (auto simp: arr_slice_def split: if_splits)
  have "proportional \<le> cap - unstaked"
    if "current - total_target_lamports (targets m ! i) \<le> sum_pending target_excess (current_epoch s) ts"
  proof -
    have "proportional = saturating_mul U128_MAX (min (cap - unstaked) (sum_pending target_excess (current_epoch s) ts))
       (saturating_mul U128_MAX (current - total_target_lamports (targets m ! i)) 10000 div
          sum_pending target_excess (current_epoch s) ts) div 10000"
      using 4 by (simp add: result_simps div_or_panic_def)
    also have "\<dots> \<le> min (cap - unstaked) (sum_pending target_excess (current_epoch s) ts)"
      by (rule bps_share_le [OF that])
    finally show ?thesis by simp
  qed
  then show ?case using 4(1-3) ts by (auto simp: arr_get_eq_Inr min_le_iff_disj)
qed simp_all

lemma directed_increase_ok:
  "ok_all (\<lambda>r. r = RebalanceNone \<or> (\<exists>x. r = Increase x \<and>
      i < total_stake_targets m \<and> total_stake_targets m \<le> length (targets m) \<and>
      x \<le> total_target_lamports (targets m ! i) - current \<and> minimum \<le> x \<and>
      (total_target_lamports (targets m ! i) - current
         \<le> sum_pending target_deficit (current_epoch s) (take (total_stake_targets m) (targets m)) \<longrightarrow>
       x \<le> reserve - saturating_mul U64_MAX rent 2)))
    (directed_increase_stake_calculation s m i current reserve minimum rent)"
  unfolding directed_increase_stake_calculation_def Let_def saturating_sub_def
proof (intro ok_all_if ok_all_bind, goal_cases)
  case (4 t ts proportion_bps proportional)
  then have ts: "ts = take (total_stake_targets m) (targets m)" "total_stake_targets m \<le> length (targets m)"
    by (auto simp: arr_slice_def split: if_splits)
  have "proportional \<le> reserve - saturating_mul U64_MAX rent 2"
    if "total_target_lamports (targets m ! i) - current \<le> sum_pending target_deficit (current_epoch s) ts"
  proof -
    have "proportional = saturating_mul U128_MAX (reserve - saturating_mul U64_MAX rent 2)
       (saturating_mul U128_MAX (total_target_lamports (targets m ! i) - current) 10000 div
          sum_pending target_deficit (current_epoch s) ts) div 10000"
      using 4 by (simp add: result_simps div_or_panic_def)
    also have "\<dots> \<le> reserve - saturating_mul U64_MAX rent 2" by (rule bps_share_le [OF that])
    finally show ?thesis .
  qed
  then show ?case using 4(1-3) ts by (auto simp: arr_get_eq_Inr min_le_iff_disj)
qed simp_all

text \<open>The target itself is part of the sums as long as it is pending.\<close>

lemma pending_target_counts:
  assumes "i < n" "n \<le> length ts" "pending epoch (ts ! i)" "f (ts ! i) \<le> U64_MAX"
  shows "f (ts ! i) \<le> sum_pending f epoch (take n ts)"
  using assms by (intro sum_pending_ge) (auto simp: in_set_conv_nth intro!: exI [of _ i])

section \<open>What the reconciliation computes\<close>

text \<open>
  The reconciliation on plain numbers: the directed lamports applied to the target, the
  directed lamports of the validator and its balance, after its listed stake was seen.
\<close>

definition reconcile :: "nat \<Rightarrow> nat \<Rightarrow> nat \<Rightarrow> nat \<Rightarrow> nat \<Rightarrow> nat \<times> nat \<times> nat" where
  "reconcile listed target applied directed balance =
     (let (applied, directed, balance) =
        (if listed < balance then
           if applied < balance - listed then (0, 0, listed)
           else (applied - (balance - listed), directed - (balance - listed), listed)
         else if balance < listed \<and> applied < target then
           let increase = min (target - applied) (listed - balance) in
           (saturating_add U64_MAX applied increase, saturating_add U64_MAX directed increase,
            saturating_add U64_MAX balance increase)
         else (applied, directed, balance))
      in if listed < applied then (listed, directed - (applied - listed), balance) else (applied, directed, balance))"

definition put_directed :: "nat \<Rightarrow> nat \<Rightarrow> nat \<times> nat \<times> nat \<Rightarrow> DirectedStakeMeta \<Rightarrow> StewardStateV2 \<Rightarrow>
    DirectedStakeMeta \<times> StewardStateV2" where
  "put_directed i mi v m s = (case v of (applied, directed, balance) \<Rightarrow>
     (m\<lparr>targets := (targets m)[mi := (targets m ! mi)\<lparr>t_total_staked_lamports := applied\<rparr>],
        directed_stake_lamports := (directed_stake_lamports m)[i := directed]\<rparr>,
      s\<lparr>validator_lamport_balances := (validator_lamport_balances s)[i := balance]\<rparr>))"

lemmas directed_update_defs = update_target_def add_to_total_staked_lamports_def
  subtract_from_total_staked_lamports_def set_directed_def set_balance_def update_staked_last_updated_epoch_def

lemma adjust_directed_stake_eq:
  assumes "i < length (validator_lamport_balances s)" "i < length (directed_stake_lamports m)"
    "mi < length (targets m)"
  shows "adjust_directed_stake_for_deposits_and_withdrawals listed i mi m s = Ok (put_directed i mi
     (reconcile listed (total_target_lamports (targets m ! mi)) (t_total_staked_lamports (targets m ! mi))
        (directed_stake_lamports m ! i) (validator_lamport_balances s ! i)) m s)"
proof -
  let ?b = "validator_lamport_balances s ! i" and ?t = "targets m ! mi"
  note defs = adjust_directed_stake_for_deposits_and_withdrawals_def reconcile_def put_directed_def
    directed_update_defs Let_def saturating_sub_def
  consider "listed < ?b" "t_total_staked_lamports ?t < ?b - listed"
    | "listed < ?b" "\<not> t_total_staked_lamports ?t < ?b - listed"
    | "\<not> listed < ?b" "?b < listed" "t_total_staked_lamports ?t < total_target_lamports ?t"
    | "\<not> listed < ?b" "\<not> ?b < listed"
    | "\<not> listed < ?b" "\<not> t_total_staked_lamports ?t < total_target_lamports ?t" by blast
  then show ?thesis
  proof cases
    case 1
    then show ?thesis using assms by (simp add: defs)
  next
    case 2
    then show ?thesis using assms by (simp add: defs)
  next
    case 3
    then show ?thesis using assms by (simp add: defs)
  next
    case 4
    then show ?thesis using assms by (simp add: defs)
  next
    case 5
    then show ?thesis using assms by (simp add: defs)
  qed
qed

text \<open>Reconciling keeps the amounts within \<^verbatim>\<open>u64\<close> and the applied lamports within the listed stake.\<close>

lemma reconcile_le_listed: "reconcile listed target applied directed balance = (a, d, b) \<Longrightarrow> a \<le> listed"
  by (auto simp: reconcile_def Let_def split: prod.splits if_splits)

lemma reconcile_eq: "reconcile listed target x x balance = (a, d, b) \<Longrightarrow> d = a"
  by (auto simp: reconcile_def Let_def split: if_splits)

lemma saturating_add_le: "saturating_add m a b \<le> m" "a + b \<le> c \<Longrightarrow> saturating_add m a b \<le> c"
  by (simp_all add: saturating_add_def min.coboundedI2)

lemma reconcile_u64:
  "reconcile listed target applied directed balance = (a, d, b) \<Longrightarrow> applied \<le> U64_MAX \<Longrightarrow> a \<le> U64_MAX"
  by (auto simp: reconcile_def Let_def saturating_add_le split: if_splits dest!: less_le_trans [OF _ saturating_add_le(1)])

lemma reconcile_balance:
  assumes "reconcile listed target applied directed balance = (a, d, b)"
  shows "b \<le> listed"
proof -
  have "saturating_add U64_MAX balance (min x (listed - balance)) \<le> listed" if "balance < listed" for x
    using that by (intro saturating_add_le) simp
  then show ?thesis using assms by (auto simp: reconcile_def Let_def split: if_splits)
qed

lemma position_less: "position p xs = Inr (Some i) \<Longrightarrow> i < length xs"
  by (induction xs arbitrary: i) (auto simp: result_simps split: if_splits)

lemma find_in_list_less: "find_in_list vl k = Ok (Some i) \<Longrightarrow> i < bv_len vl"
  using position_less by (fastforce simp: find_in_list_def)

lemma mark_if_all_rebalanced_frame [simp]:
  "state_wf (mark_if_all_rebalanced epoch m s) = state_wf s" "same_pool s (mark_if_all_rebalanced epoch m s)"
  "state_tag (mark_if_all_rebalanced epoch m s) = state_tag s"
  by (simp_all add: mark_if_all_rebalanced_def same_pool_set_flag same_pool_refl)

section \<open>The handler step by step\<close>

text \<open>
  A successful call for a validator of the list reconciles first. It then either only
  transitions, or passes the checks and makes, applies and records one move.
\<close>

lemma rebalance_directed_found:
  assumes ok: "rebalance_directed_handler accs clock es config mi m s = Ok (m', s', evs)"
    and wf: "state_wf s" "meta_wf m"
    and vl: "load_validator_list (da_validator_list accs) = Ok vl" "bv_len vl \<le> MAX_VALIDATORS"
    and found: "find_in_list vl (t_vote_pubkey (targets m ! mi)) = Ok (Some i)"
    and listed: "stake_lamports_at_validator_list_index vl i = Ok (listed, transient)"
    and put: "put_directed i mi (reconcile listed (total_target_lamports (targets m ! mi))
      (t_total_staked_lamports (targets m ! mi)) (directed_stake_lamports m ! i)
      (validator_lamport_balances s ! i)) m s = (m1, s1)"
  obtains (transition) "m' = m1" "same_pool s1 s'" "mi < MAX_VALIDATORS" "i < MAX_VALIDATORS"
  | (move) s2 r m3 s3 seed where "same_pool s1 s2" "state_wf s2" "mi < MAX_VALIDATORS" "i < MAX_VALIDATORS"
      "state_checks clock config s2 (da_validator_list accs) (Some RebalanceDirected) = Ok ()"
      "\<not> (staked_last_updated_epoch (targets m1 ! mi) = clock_epoch clock \<and> 0 < clock_epoch clock
           \<and> 0 < t_total_staked_lamports (targets m1 ! mi))"
      "choose_directed_rebalance accs config mi m1 s2 = Ok r" "invoke_stake_pool accs r seed = Ok ()"
      "apply_directed_rebalance i mi r m1 s2 = Ok (m3, s3)"
      "finish_directed clock es config (da_vote_account accs) mi r m3 s3 = Ok (m', s', evs)"
proof -
  have i: "i < MAX_VALIDATORS" using find_in_list_less [OF found] vl(2) by simp
  have mi: "mi < MAX_VALIDATORS"
    using ok wf(2) by (auto simp: rebalance_directed_handler_def and_then_eq_Inr arr_get_eq_Inr meta_wf_def)
  have adj: "adjust_directed_stake_for_deposits_and_withdrawals listed i mi m s = Ok (m1, s1)"
    using adjust_directed_stake_eq [of i s m mi listed] wf i mi put by (simp add: state_wf_def meta_wf_def)
  have s1: "state_wf s1" using wf put by (auto simp: put_directed_def state_wf_def split: prod.splits)
  let ?s = "mark_if_all_rebalanced (clock_epoch clock) m1 s1"
  obtain seed s2 ev where t: "maybe_transition clock (c_parameters config) es ?s = Ok (s2, ev)" and
    rest: "(case ev of
             Some e \<Rightarrow> Ok (m1, s2, [TransitionEvent e])
           | None \<Rightarrow>
               and_then (state_checks clock config s2 (da_validator_list accs) (Some RebalanceDirected)) (\<lambda>_.
               and_then (arr_get (targets m1) mi) (\<lambda>t.
               if staked_last_updated_epoch t = clock_epoch clock \<and> 0 < clock_epoch clock
                  \<and> 0 < t_total_staked_lamports t
               then Err (Steward ValidatorAlreadyRebalanced)
               else and_then (choose_directed_rebalance accs config mi m1 s2) (\<lambda>r.
               and_then (invoke_stake_pool accs r seed) (\<lambda>_.
               and_then (apply_directed_rebalance i mi r m1 s2) (\<lambda>(m, s).
               finish_directed clock es config (da_vote_account accs) mi r m s)))))) = Ok (m', s', evs)"
    using ok vl(1) found listed adj wf(2) mi
    by (auto simp: rebalance_directed_handler_def and_then_eq_Inr meta_wf_def split: if_splits)
  have fr: "state_wf s2" "same_pool s1 s2"
    using ok_allD [OF maybe_transition_frame t] s1 same_pool_trans [of s1 ?s s2] by auto
  show ?thesis
  proof (cases ev)
    case None
    show ?thesis using rest None fr mi i
      by (auto simp: and_then_eq_Inr arr_get_eq_Inr split: if_splits intro: move)
  next
    case (Some e)
    then show ?thesis using rest fr mi i by (auto intro: transition)
  qed
qed

definition directed_cap :: "Config \<Rightarrow> nat \<Rightarrow> nat" where
  "directed_cap config pool =
     saturating_mul U64_MAX pool (p_directed_stake_unstake_cap_bps (c_parameters config)) div 10000"

lemma choose_directed_rebalance_ok:
  assumes "choose_directed_rebalance accs config mi m s = Ok r" "da_stake_pool_total accs = Ok pool"
    and "t = targets m ! mi" "t_total_staked_lamports t \<le> U64_MAX"
    and "pending (current_epoch s) t \<or> t_total_staked_lamports t = 0"
  shows "case r of
      Decrease c \<Rightarrow> directed_unstake_lamports c \<le> t_total_staked_lamports t - total_target_lamports t \<and>
        directed_unstake_lamports c \<le> directed_cap config pool - directed_unstake_total m
    | Increase x \<Rightarrow> x \<le> total_target_lamports t - t_total_staked_lamports t
    | RebalanceNone \<Rightarrow> True"
proof -
  let ?dec = "directed_decrease_stake_calculation s m mi (t_total_staked_lamports t) (directed_cap config pool)
      (directed_unstake_total m) (da_minimum_delegation accs)"
  let ?inc = "directed_increase_stake_calculation s m mi (t_total_staked_lamports t) (da_reserve_lamports accs)
      (da_minimum_delegation accs) (da_stake_rent accs)"
  have "(\<exists>c. ?dec = Ok (Decrease c) \<and> r = Decrease c) \<or> ?inc = Ok r"
    using assms(1-3)
    by (auto simp: choose_directed_rebalance_def and_then_eq_Inr arr_get_eq_Inr Let_def directed_cap_def
        split: sum.splits RebalanceType.splits error.splits)
  then show ?thesis
  proof (elim disjE exE conjE)
    fix c assume c: "?dec = Ok (Decrease c)" "r = Decrease c"
    note d = ok_allD [OF directed_decrease_ok c(1), rule_format, OF refl]
    have p: "pending (current_epoch s) t" using d assms(5) by auto
    have "target_excess (targets m ! mi) \<le> sum_pending target_excess (current_epoch s) (take (total_stake_targets m) (targets m))"
      using d p assms(3,4) by (intro pending_target_counts) (auto simp: target_excess_def saturating_sub_def)
    then show ?thesis using d c assms(3) by (simp add: target_excess_def saturating_sub_def)
  next
    assume "?inc = Ok r"
    then show ?thesis using ok_allD [OF directed_increase_ok] assms(3) by fastforce
  qed
qed

fun staked_after :: "RebalanceType \<Rightarrow> nat \<Rightarrow> nat" where
  "staked_after (Decrease c) staked = staked - directed_unstake_lamports c"
| "staked_after (Increase x) staked = saturating_add U64_MAX staked x"
| "staked_after RebalanceNone staked = staked"

lemma apply_directed_rebalance_ok:
  assumes "apply_directed_rebalance i mi r m s = Ok (m', s')" "mi < length (targets m)" "i < length (directed_stake_lamports m)"
  shows "directed_unstake_total m' = directed_unstake_total m"
    and "targets m' = (targets m)[mi := (targets m ! mi)\<lparr>t_total_staked_lamports :=
      staked_after r (t_total_staked_lamports (targets m ! mi))\<rparr>]"
    and "validator_lamport_balances s ! i \<noteq> LAMPORT_BALANCE_DEFAULT \<Longrightarrow>
      directed_stake_lamports m' = (directed_stake_lamports m)[i := staked_after r (directed_stake_lamports m ! i)]"
    and "\<And>j. j \<noteq> i \<Longrightarrow> validator_lamport_balances s' ! j = validator_lamport_balances s ! j"
    and "state_wf s \<Longrightarrow> state_wf s'"
proof -
  note defs = apply_directed_rebalance_def and_then_eq_Inr arr_get_eq_Inr arr_set_eq_Inr directed_update_defs
    Let_def saturating_sub_def ok_or_eq_Inr checked_add_eq_Some
  show "directed_unstake_total m' = directed_unstake_total m"
    using assms by (cases r) (auto simp: defs split: if_splits)
  show "targets m' = (targets m)[mi := (targets m ! mi)\<lparr>t_total_staked_lamports :=
      staked_after r (t_total_staked_lamports (targets m ! mi))\<rparr>]"
    using assms by (cases r) (auto simp: defs split: if_splits)
  show "directed_stake_lamports m' = (directed_stake_lamports m)[i := staked_after r (directed_stake_lamports m ! i)]"
    if "validator_lamport_balances s ! i \<noteq> LAMPORT_BALANCE_DEFAULT"
    using assms that by (cases r) (auto simp: defs split: if_splits)
  show "validator_lamport_balances s' ! j = validator_lamport_balances s ! j" if "j \<noteq> i" for j
    using assms that by (cases r) (auto simp: defs split: if_splits)
  show "state_wf s'" if "state_wf s"
    using assms that by (cases r) (auto simp: defs state_wf_def split: if_splits)
qed

lemma finish_directed_ok:
  assumes "finish_directed clock es config k mi r m s = Ok (m', s', evs)" "state_wf s" "mi < length (targets m)"
  shows "targets m' = (targets m)[mi := (targets m ! mi)\<lparr>staked_last_updated_epoch := clock_epoch clock\<rparr>]"
    and "directed_stake_lamports m' = directed_stake_lamports m" and "same_pool s s'"
    and "directed_unstake_total m' = (case r of Decrease c \<Rightarrow> saturating_add U64_MAX (directed_unstake_total m)
      (directed_unstake_lamports c) | _ \<Rightarrow> directed_unstake_total m)"
proof -
  let ?m = "m\<lparr>targets := (targets m)[mi := (targets m ! mi)\<lparr>staked_last_updated_epoch := clock_epoch clock\<rparr>]\<rparr>"
  let ?m' = "case r of Decrease c \<Rightarrow> ?m\<lparr>directed_unstake_total :=
                 saturating_add U64_MAX (directed_unstake_total m) (directed_unstake_lamports c)\<rparr> | _ \<Rightarrow> ?m"
  obtain ev where t: "maybe_transition clock (c_parameters config) es
      (mark_if_all_rebalanced (clock_epoch clock) ?m' s) = Ok (s', ev)" and m': "m' = ?m'"
    using assms by (auto simp: finish_directed_def and_then_eq_Inr directed_update_defs Let_def cong: RebalanceType.case_cong)
  show "targets m' = (targets m)[mi := (targets m ! mi)\<lparr>staked_last_updated_epoch := clock_epoch clock\<rparr>]"
    "directed_stake_lamports m' = directed_stake_lamports m"
    "directed_unstake_total m' = (case r of Decrease c \<Rightarrow> saturating_add U64_MAX (directed_unstake_total m)
      (directed_unstake_lamports c) | _ \<Rightarrow> directed_unstake_total m)"
    unfolding m' by (cases r; simp)+
  have "same_pool (mark_if_all_rebalanced (clock_epoch clock) ?m' s) s'"
    using ok_allD [OF maybe_transition_frame t] assms(2) by simp
  then show "same_pool s s'" by (rule same_pool_trans [OF mark_if_all_rebalanced_frame(2)])
qed

section \<open>Properties\<close>

text \<open>
  C5. Directed rebalancing of a listed validator moves its stake towards the target and never
  past it, and stays within the cap: after a successful call the lamports applied to the
  target lie between what the reconciliation found and the target, and the unstaked total
  of the epoch is at most the larger of what it was and of its share of the pool.
\<close>

theorem rebalance_directed_moves_towards_the_target:
  assumes "rebalance_directed_handler accs clock es config mi m s = Ok (m', s', evs)"
    and "state_wf s" "meta_wf m" "load_validator_list (da_validator_list accs) = Ok vl" "bv_len vl \<le> MAX_VALIDATORS"
    and "find_in_list vl (t_vote_pubkey (targets m ! mi)) = Ok (Some i)"
    and "stake_lamports_at_validator_list_index vl i = Ok (listed, transient)"
    and "reconcile listed (total_target_lamports (targets m ! mi)) (t_total_staked_lamports (targets m ! mi))
      (directed_stake_lamports m ! i) (validator_lamport_balances s ! i) = (applied, directed, balance)"
    and "da_stake_pool_total accs = Ok pool" "0 < clock_epoch clock"
    and "t_total_staked_lamports (targets m ! mi) \<le> U64_MAX" "total_target_lamports (targets m ! mi) \<le> U64_MAX"
  shows "min applied (total_target_lamports (targets m ! mi)) \<le> t_total_staked_lamports (targets m' ! mi)
    \<and> t_total_staked_lamports (targets m' ! mi) \<le> max applied (total_target_lamports (targets m ! mi))
    \<and> total_target_lamports (targets m' ! mi) = total_target_lamports (targets m ! mi)
    \<and> directed_unstake_total m' \<le> max (directed_unstake_total m) (directed_cap config pool)"
proof -
  let ?t = "targets m ! mi"
  define m1 where "m1 = m\<lparr>targets := (targets m)[mi := ?t\<lparr>t_total_staked_lamports := applied\<rparr>],
    directed_stake_lamports := (directed_stake_lamports m)[i := directed]\<rparr>"
  define s1 where "s1 = s\<lparr>validator_lamport_balances := (validator_lamport_balances s)[i := balance]\<rparr>"
  have put: "put_directed i mi (reconcile listed (total_target_lamports ?t) (t_total_staked_lamports ?t)
      (directed_stake_lamports m ! i) (validator_lamport_balances s ! i)) m s = (m1, s1)"
    using assms(8) by (simp add: put_directed_def m1_def s1_def)
  have u64: "applied \<le> U64_MAX" by (rule reconcile_u64 [OF assms(8,11)])
  show ?thesis
  proof (cases rule: rebalance_directed_found [OF assms(1-7) put, case_names transition move])
    case transition
    then show ?thesis using assms(3) by (simp add: m1_def meta_wf_def)
  next
    case (move s2 r m3 s3 seed)
    have len: "mi < length (targets m1)" "i < length (directed_stake_lamports m1)"
      using move assms(3) by (simp_all add: m1_def meta_wf_def)
    have t1: "t_total_staked_lamports (targets m1 ! mi) = applied"
      "total_target_lamports (targets m1 ! mi) = total_target_lamports ?t"
      using len by (simp_all add: m1_def)
    have "current_epoch s2 = clock_epoch clock"
      using move(5) by (auto simp: state_checks_def and_then_eq_Inr require_eq_Inr split: if_splits)
    then have "pending (current_epoch s2) (targets m1 ! mi) \<or> t_total_staked_lamports (targets m1 ! mi) = 0"
      using move(6) assms(10) by (auto simp: pending_def)
    note r = choose_directed_rebalance_ok [OF move(7) assms(9) refl _ this, unfolded t1]
    note a = apply_directed_rebalance_ok [OF move(9) len]
    have len3: "mi < length (targets m3)" using a(2) len by simp
    note f = finish_directed_ok [OF move(10) a(5) [OF move(2)] len3]
    have t': "t_total_staked_lamports (targets m' ! mi) = staked_after r applied"
      "total_target_lamports (targets m' ! mi) = total_target_lamports ?t"
      using f(1) a(2) len t1 by simp_all
    have "directed_unstake_total m' \<le> max (directed_unstake_total m) (directed_cap config pool)"
      using f(4) a(1) r u64 by (auto simp: m1_def saturating_add_def split: RebalanceType.splits)
    moreover have "min applied (total_target_lamports ?t) \<le> staked_after r applied \<and>
        staked_after r applied \<le> max applied (total_target_lamports ?t)"
      using r u64 assms(12) by (cases r) (auto simp: saturating_add_def)
    ultimately show ?thesis using t' by simp
  qed
qed

text \<open>
  C8. Directed accounting stays consistent. If the directed lamports recorded for a listed
  validator equal the lamports applied to its target, they still do after any successful
  call, and the entries of every other validator and target are unchanged.
\<close>

theorem rebalance_directed_keeps_accounting:
  assumes "rebalance_directed_handler accs clock es config mi m s = Ok (m', s', evs)"
    and "state_wf s" "meta_wf m" "load_validator_list (da_validator_list accs) = Ok vl" "bv_len vl \<le> MAX_VALIDATORS"
    and "find_in_list vl (t_vote_pubkey (targets m ! mi)) = Ok (Some i)"
    and "stake_lamports_at_validator_list_index vl i = Ok (listed, transient)" "listed < U64_MAX"
    and "directed_stake_lamports m ! i = t_total_staked_lamports (targets m ! mi)"
  shows "directed_stake_lamports m' ! i = t_total_staked_lamports (targets m' ! mi) \<and>
    (\<forall>j. j \<noteq> mi \<longrightarrow> targets m' ! j = targets m ! j) \<and>
    (\<forall>j. j \<noteq> i \<longrightarrow> directed_stake_lamports m' ! j = directed_stake_lamports m ! j \<and>
       validator_lamport_balances s' ! j = validator_lamport_balances s ! j)"
proof -
  let ?t = "targets m ! mi"
  obtain applied directed balance where rec: "reconcile listed (total_target_lamports ?t)
      (t_total_staked_lamports ?t) (directed_stake_lamports m ! i) (validator_lamport_balances s ! i)
      = (applied, directed, balance)" by (metis prod_cases3)
  define m1 where "m1 = m\<lparr>targets := (targets m)[mi := ?t\<lparr>t_total_staked_lamports := applied\<rparr>],
    directed_stake_lamports := (directed_stake_lamports m)[i := directed]\<rparr>"
  define s1 where "s1 = s\<lparr>validator_lamport_balances := (validator_lamport_balances s)[i := balance]\<rparr>"
  have put: "put_directed i mi (reconcile listed (total_target_lamports ?t) (t_total_staked_lamports ?t)
      (directed_stake_lamports m ! i) (validator_lamport_balances s ! i)) m s = (m1, s1)"
    using rec by (simp add: put_directed_def m1_def s1_def)
  have eq: "directed = applied" using rec assms(9) by (auto dest: reconcile_eq)
  have bal: "balance < U64_MAX" using reconcile_balance [OF rec] assms(8) by simp
  show ?thesis
  proof (cases rule: rebalance_directed_found [OF assms(1-7) put, case_names transition move])
    case transition
    then show ?thesis using assms(3) eq by (auto simp: m1_def s1_def meta_wf_def same_pool_def)
  next
    case (move s2 r m3 s3 seed)
    have len: "mi < length (targets m1)" "i < length (directed_stake_lamports m1)"
      using move assms(3) by (simp_all add: m1_def meta_wf_def)
    have s2: "validator_lamport_balances s2 = (validator_lamport_balances s)[i := balance]"
      using move(1) by (simp add: same_pool_def s1_def)
    note a = apply_directed_rebalance_ok [OF move(9) len]
    have len3: "mi < length (targets m3)" using a(2) len by simp
    note f = finish_directed_ok [OF move(10) a(5) [OF move(2)] len3]
    have "validator_lamport_balances s2 ! i \<noteq> LAMPORT_BALANCE_DEFAULT"
      using s2 bal move(4) assms(2) by (simp add: state_wf_def LAMPORT_BALANCE_DEFAULT_def int_limits)
    then have dl: "directed_stake_lamports m' = (directed_stake_lamports m1)[i := staked_after r directed]"
      using f(2) a(3) len by (simp add: m1_def)
    have bals: "validator_lamport_balances s' ! j = validator_lamport_balances s ! j" if "j \<noteq> i" for j
      using f(3) a(4) [OF that] s2 that by (simp add: same_pool_def)
    have "targets m' ! mi = ?t\<lparr>t_total_staked_lamports := staked_after r applied, staked_last_updated_epoch := clock_epoch clock\<rparr>"
      "targets m' ! j = targets m ! j" if "j \<noteq> mi" for j
      using f(1) a(2) len that by (simp_all add: m1_def)
    then show ?thesis using dl len eq bals f(1) a(2) by (simp add: m1_def)
  qed
qed

text \<open>
  The simulated reconciliation is the real one: when the directed lamports recorded for a
  validator equal those applied to its target, the pair that
  \<^verbatim>\<open>simulate_adjust_directed_stake_for_deposits_and_withdrawals\<close> returns to the stake
  calculations is what \<^verbatim>\<open>adjust_directed_stake_for_deposits_and_withdrawals\<close> writes.
\<close>

theorem simulated_adjustment_is_the_real_one:
  assumes "i < length (validator_lamport_balances s)" "i < length (directed_stake_lamports m)"
    "mi < length (targets m)" "i < length (directed_stake_meta_indices m)"
    and "directed_stake_meta_indices m ! i = mi" "mi \<noteq> U64_MAX"
    and "directed_stake_lamports m ! i = t_total_staked_lamports (targets m ! mi)"
  shows "\<exists>m' s'. adjust_directed_stake_for_deposits_and_withdrawals listed i mi m s = Ok (m', s') \<and>
    simulate_adjust_directed_stake_for_deposits_and_withdrawals listed i mi m s =
      Ok (directed_stake_lamports m' ! i, validator_lamport_balances s' ! i)"
proof -
  let ?r = "reconcile listed (total_target_lamports (targets m ! mi)) (t_total_staked_lamports (targets m ! mi))
     (directed_stake_lamports m ! i) (validator_lamport_balances s ! i)"
  have "simulate_adjust_directed_stake_for_deposits_and_withdrawals listed i mi m s = Ok (snd ?r)"
    using assms
    by (simp add: simulate_adjust_directed_stake_for_deposits_and_withdrawals_def reconcile_def Let_def saturating_sub_def)
       linarith
  then show ?thesis
    using adjust_directed_stake_eq [OF assms(1-3), of listed] assms(1,2) by (simp add: put_directed_def split: prod.splits)
qed

section \<open>A run of the handler\<close>

text \<open>
  The first validator of the list is to hold 1500 directed lamports and holds 1000 that the
  steward has not accounted for yet: they count as a deposit, and 500 more are delegated.
\<close>

definition directed_config :: Config where
  "directed_config = sample_config\<lparr>c_parameters := sample_parameters\<lparr>p_compute_score_epoch_progress := Fin 1\<rparr>\<rparr>"

definition directed_target :: DirectedStakeTarget where
  "directed_target = \<lparr>t_vote_pubkey = replicate 32 1, total_target_lamports = 1500,
     t_total_staked_lamports = 0, target_last_updated_epoch = 899, staked_last_updated_epoch = 899\<rparr>"

definition directed_meta :: DirectedStakeMeta where
  "directed_meta = DirectedStakeMeta_default\<lparr>total_stake_targets := 1,
     targets := (replicate MAX_VALIDATORS DirectedStakeTarget_default)[0 := directed_target],
     directed_stake_meta_indices := (replicate MAX_VALIDATORS U64_MAX)[0 := 0]\<rparr>"

definition directed_state :: StewardStateV2 where
  "directed_state = sample_state\<lparr>state_tag := RebalanceDirected\<rparr>"

definition directed_accs :: directed_accounts where
  "directed_accs = \<lparr>da_vote_account = replicate 32 1, da_validator_list = Ok (True, big_vec_of sample_infos),
     da_stake_pool_total = Ok 10000, da_reserve_lamports = 1000, da_minimum_delegation = 100,
     da_stake_rent = 10, da_invoke = (\<lambda>_ _. Ok ())\<rparr>"

lemma directed_sample_facts:
  "state_wf directed_state" "meta_wf directed_meta" "targets directed_meta ! 0 = directed_target"
  "load_validator_list (da_validator_list directed_accs) = Ok (big_vec_of sample_infos)"
  "bv_len (big_vec_of sample_infos) \<le> MAX_VALIDATORS"
  "find_in_list (big_vec_of sample_infos) (t_vote_pubkey (targets directed_meta ! 0)) = Ok (Some 0)"
  "stake_lamports_at_validator_list_index (big_vec_of sample_infos) 0 = Ok (1000, False)"
  "get_transient_stake_seed_at_index_from_big_vec (big_vec_of sample_infos) 0 = Ok 1"
  "directed_stake_lamports directed_meta = replicate MAX_VALIDATORS 0"
  "validator_lamport_balances directed_state = replicate MAX_VALIDATORS 0"
proof -
  show "state_wf directed_state" using sample_state_wf by (simp add: directed_state_def state_wf_def)
  show t: "targets directed_meta ! 0 = directed_target" by (simp add: directed_meta_def MAX_VALIDATORS_def)
  have len: "length sample_infos = 3" "bv_len (big_vec_of sample_infos) = 3" by (simp_all add: sample_infos_def big_vec_of_def)
  show "find_in_list (big_vec_of sample_infos) (t_vote_pubkey (targets directed_meta ! 0)) = Ok (Some 0)"
    using vote_pubkey_at_info [OF sample_infos_wf, of 0] len t
    by (simp add: find_in_list_def upt_rec directed_target_def sample_infos_def sample_info_def)
  show "stake_lamports_at_validator_list_index (big_vec_of sample_infos) 0 = Ok (1000, False)"
    using stake_lamports_at_info [OF sample_infos_wf, of 0] len by (simp add: sample_infos_def sample_info_def)
  show "get_transient_stake_seed_at_index_from_big_vec (big_vec_of sample_infos) 0 = Ok 1"
    using transient_seed_at_info [OF sample_infos_wf, of 0] len by (simp add: sample_infos_def sample_info_def)
qed (simp_all add: meta_wf_def directed_meta_def DirectedStakeMeta_default_def load_validator_list_def
     directed_accs_def directed_state_def sample_state_def big_vec_of_def sample_infos_def MAX_VALIDATORS_def)

lemma directed_sample_reconcile:
  "reconcile 1000 (total_target_lamports (targets directed_meta ! 0)) (t_total_staked_lamports (targets directed_meta ! 0))
     (directed_stake_lamports directed_meta ! 0) (validator_lamport_balances directed_state ! 0) = (1000, 1000, 1000)"
  by (simp add: directed_sample_facts directed_target_def reconcile_def saturating_defs int_limits MAX_VALIDATORS_def)

lemma directed_sample_run:
  "\<exists>m' s' evs. rebalance_directed_handler directed_accs sample_clock sample_schedule directed_config 0
     directed_meta directed_state = Ok (m', s', evs) \<and> evs \<noteq> []"
proof -
  let ?t = "directed_target\<lparr>t_total_staked_lamports := 1000\<rparr>"
  let ?m = "directed_meta\<lparr>targets := (targets directed_meta)[0 := ?t],
      directed_stake_lamports := (replicate MAX_VALIDATORS 0)[0 := 1000]\<rparr>"
  let ?s = "directed_state\<lparr>validator_lamport_balances := (replicate MAX_VALIDATORS 0)[0 := 1000]\<rparr>"
  note f = directed_sample_facts
  have pos: "0 < MAX_VALIDATORS" "1 \<le> MAX_VALIDATORS" by (simp_all add: MAX_VALIDATORS_def)
  have len: "length (targets directed_meta) = MAX_VALIDATORS" using f(2) by (simp add: meta_wf_def)
  have adj: "adjust_directed_stake_for_deposits_and_withdrawals 1000 0 0 directed_meta directed_state = Ok (?m, ?s)"
    using adjust_directed_stake_eq [of 0 directed_state directed_meta 0 1000] directed_sample_reconcile f(3,9,10) pos len
    by (simp add: put_directed_def)
  have "?t \<in> set (targets ?m)" using pos len by (simp add: set_update_memI)
  then have "\<not> all_targets_rebalanced_for_epoch 900 ?m"
    by (force simp: all_targets_rebalanced_for_epoch_def list_all_iff directed_target_def Pubkey_default_def)
  then have mark: "mark_if_all_rebalanced 900 ?m ?s = ?s" by (simp add: mark_if_all_rebalanced_def)
  have tr: "maybe_transition sample_clock (c_parameters directed_config) sample_schedule ?s = Ok (?s, None)"
    using sample_progress
    by (simp add: maybe_transition_def transition_def transition_defs directed_state_def directed_config_def
        flag_bits sample_state_def)
  have chk: "state_checks sample_clock directed_config ?s (da_validator_list directed_accs) (Some RebalanceDirected) = Ok ()"
    by (simp add: state_checks_def list_matches_state_def get_validator_list_length_def f(4) directed_config_def
        sample_config_def is_paused_def directed_state_def sample_clock_def big_vec_of_def sample_infos_def
        panic_defs checked_defs int_limits bm.count_eq)
  have ts: "take (total_stake_targets ?m) (targets ?m) = [?t]"
    using len pos by (cases "targets directed_meta") (auto simp: directed_meta_def)
  have ch: "choose_directed_rebalance directed_accs directed_config 0 ?m ?s = Ok (Increase 500)"
    using ts pos len
    by (simp add: choose_directed_rebalance_def directed_accs_def directed_decrease_stake_calculation_def
        directed_increase_stake_calculation_def directed_meta_def directed_target_def saturating_defs int_limits
        sum_pending_def target_deficit_def directed_state_def div_or_panic_def checked_defs Let_def)
  have "\<exists>m3 s3. apply_directed_rebalance 0 0 (Increase 500) ?m ?s = Ok (m3, s3)"
    using pos len by (simp add: apply_directed_rebalance_def directed_update_defs checked_defs int_limits)
  then obtain m3 s3 where ap: "apply_directed_rebalance 0 0 (Increase 500) ?m ?s = Ok (m3, s3)" by blast
  have wf: "state_wf ?s" using f(1) by (simp add: state_wf_def)
  have "length (targets m3) = MAX_VALIDATORS"
    using apply_directed_rebalance_ok(2) [OF ap] len pos by simp
  then have m3: "0 < length (targets m3)" using pos(1) by metis
  have s3: "state_wf s3" using apply_directed_rebalance_ok(5) [OF ap _ _ wf] len pos by simp
  have tag: "state_tag ?s = RebalanceDirected" "clock_epoch sample_clock = 900"
    "targets ?m ! 0 = ?t" "0 < length (targets ?m)" "da_vote_account directed_accs = replicate 32 1"
    "invoke_stake_pool directed_accs (Increase 500) 1 = Ok ()" "t_vote_pubkey directed_target = replicate 32 1"
    using pos len by (simp_all add: directed_state_def sample_clock_def directed_accs_def invoke_stake_pool_def directed_target_def)
  have "\<exists>u ev. maybe_transition sample_clock params sample_schedule (mark_if_all_rebalanced 900 m' s3) = Ok (u, ev)"
    for params m' using transition_step [OF _ sample_progress, of "mark_if_all_rebalanced 900 m' s3" params] s3
    by (auto simp: maybe_transition_def Let_def)
  from this [of "c_parameters directed_config" "m3\<lparr>targets := (targets m3)[0 := (targets m3 ! 0)\<lparr>staked_last_updated_epoch := 900\<rparr>]\<rparr>"]
  have fin: "\<exists>m' s' evs. finish_directed sample_clock sample_schedule directed_config (replicate 32 1) 0
      (Increase 500) m3 s3 = Ok (m', s', evs) \<and> evs \<noteq> []"
    using m3 by (auto simp: finish_directed_def directed_update_defs tag(2))
  have "rebalance_directed_handler directed_accs sample_clock sample_schedule directed_config 0
     directed_meta directed_state = finish_directed sample_clock sample_schedule directed_config (replicate 32 1) 0
      (Increase 500) m3 s3"
    using f(3,4,6-8) adj mark tr chk ch ap tag pos len
    by (simp add: rebalance_directed_handler_def directed_target_def)
  then show ?thesis using fin by simp
qed

theorem rebalance_directed_moves_towards_the_target_witness:
  "\<exists>m' s' evs. rebalance_directed_handler directed_accs sample_clock sample_schedule directed_config 0
     directed_meta directed_state = Ok (m', s', evs) \<and>
     1000 \<le> t_total_staked_lamports (targets m' ! 0) \<and> t_total_staked_lamports (targets m' ! 0) \<le> 1500 \<and>
     directed_unstake_total m' \<le> 1000"
proof -
  obtain m' s' evs where run: "rebalance_directed_handler directed_accs sample_clock sample_schedule directed_config 0
     directed_meta directed_state = Ok (m', s', evs)" using directed_sample_run by blast
  have "da_stake_pool_total directed_accs = Ok 10000" "0 < clock_epoch sample_clock"
    "t_total_staked_lamports (targets directed_meta ! 0) \<le> U64_MAX"
    "total_target_lamports (targets directed_meta ! 0) \<le> U64_MAX"
    by (simp_all add: directed_accs_def sample_clock_def directed_sample_facts(3) directed_target_def int_limits)
  note r = rebalance_directed_moves_towards_the_target [OF run directed_sample_facts(1,2,4,5,6,7) directed_sample_reconcile this]
  have "directed_cap directed_config 10000 = 1000" "directed_unstake_total directed_meta = 0"
    by (simp_all add: directed_cap_def directed_config_def sample_parameters_def saturating_defs int_limits
        directed_meta_def DirectedStakeMeta_default_def)
  moreover have "total_target_lamports (targets directed_meta ! 0) = 1500"
    by (simp add: directed_sample_facts(3) directed_target_def)
  ultimately show ?thesis using run r by (intro exI conjI) auto
qed

theorem rebalance_directed_keeps_accounting_witness:
  "\<exists>m' s' evs. rebalance_directed_handler directed_accs sample_clock sample_schedule directed_config 0
     directed_meta directed_state = Ok (m', s', evs) \<and>
     directed_stake_lamports m' ! 0 = t_total_staked_lamports (targets m' ! 0)"
proof -
  obtain m' s' evs where run: "rebalance_directed_handler directed_accs sample_clock sample_schedule directed_config 0
     directed_meta directed_state = Ok (m', s', evs)" using directed_sample_run by blast
  have "(1000 :: nat) < U64_MAX" "directed_stake_lamports directed_meta ! 0 = t_total_staked_lamports (targets directed_meta ! 0)"
    by (simp_all add: int_limits directed_sample_facts(3,9) directed_target_def MAX_VALIDATORS_def)
  from rebalance_directed_keeps_accounting [OF run directed_sample_facts(1,2,4,5,6,7) this] show ?thesis using run by blast
qed

theorem simulated_adjustment_is_the_real_one_witness:
  "\<exists>m' s'. adjust_directed_stake_for_deposits_and_withdrawals 1000 0 0 directed_meta directed_state = Ok (m', s') \<and>
    simulate_adjust_directed_stake_for_deposits_and_withdrawals 1000 0 0 directed_meta directed_state =
      Ok (directed_stake_lamports m' ! 0, validator_lamport_balances s' ! 0)"
  by (rule simulated_adjustment_is_the_real_one)
     (use directed_sample_facts(1,2,3,9) in \<open>simp_all add: state_wf_def meta_wf_def MAX_VALIDATORS_def int_limits
        directed_meta_def directed_target_def\<close>)

text \<open>
  A paused steward moves no directed stake: when a call succeeds although the configuration
  is paused, it emits no rebalance event, it leaves the unstaked total alone and it asks the
  stake pool for nothing, so the call would succeed with any behaviour of the stake pool.
\<close>

theorem paused_moves_no_directed_stake:
  assumes "rebalance_directed_handler accs clock es config mi m s = Ok (m', s', evs)" "is_paused config"
  shows "(\<forall>e. DirectedEvent e \<notin> set evs) \<and>
    rebalance_directed_handler (accs\<lparr>da_invoke := \<lambda>_ _. Err Panic\<rparr>) clock es config mi m s = Ok (m', s', evs)"
proof -
  have paused: "state_checks clock config u l x = Err (Steward StateMachinePaused)" for u l x
    using assms(2) by (simp add: state_checks_def)
  have same: "rebalance_directed_handler (accs\<lparr>da_invoke := \<lambda>_ _. Err Panic\<rparr>) clock es config mi m s =
      rebalance_directed_handler accs clock es config mi m s"
    by (simp add: rebalance_directed_handler_def paused cong: option.case_cong if_cong)
  have "DirectedEvent e \<notin> set evs" for e
    using assms(1)
    by (auto simp: rebalance_directed_handler_def directed_missing_validator_def paused and_then_eq_Inr
        split: if_splits option.splits)
  then show ?thesis using same assms(1) by simp
qed

text \<open>
  The path for a target whose validator is not in the list makes no checks: the call
  succeeds whether or not the steward is paused and whatever stage it is in, marks the
  target as rebalanced and, after the last target, sets the completion flag and may make a
  transition.
\<close>

theorem missing_validator_skips_the_checks:
  assumes "state_wf s" "mi < length (targets m)" "t_vote_pubkey (targets m ! mi) = da_vote_account accs"
    and "load_validator_list (da_validator_list accs) = Ok vl" "find_in_list vl (da_vote_account accs) = Ok None"
    and "epoch_progress clock es = Ok prog"
  shows "\<exists>m' s' evs. rebalance_directed_handler accs clock es config mi m s = Ok (m', s', evs) \<and>
    m' = m\<lparr>targets := (targets m)[mi := (targets m ! mi)\<lparr>staked_last_updated_epoch := clock_epoch clock\<rparr>]\<rparr> \<and>
    (\<exists>ev. maybe_transition clock (c_parameters config) es
       (mark_if_all_rebalanced (clock_epoch clock) m' s) = Ok (s', ev)) \<and> same_pool s s'"
proof -
  let ?m = "m\<lparr>targets := (targets m)[mi := (targets m ! mi)\<lparr>staked_last_updated_epoch := clock_epoch clock\<rparr>]\<rparr>"
  let ?s = "mark_if_all_rebalanced (clock_epoch clock) ?m s"
  obtain s' where "transition clock (c_parameters config) es ?s = Ok s'" "same_pool ?s s'"
    using transition_step [OF _ assms(6), of ?s] assms(1) by auto
  then obtain ev where "maybe_transition clock (c_parameters config) es ?s = Ok (s', ev)" "same_pool s s'"
    using same_pool_trans [OF mark_if_all_rebalanced_frame(2)] by (auto simp: maybe_transition_def Let_def)
  then show ?thesis using assms(2-5)
    by (simp add: rebalance_directed_handler_def directed_missing_validator_def directed_update_defs)
qed

definition missing_meta :: DirectedStakeMeta where
  "missing_meta = directed_meta\<lparr>targets := (targets directed_meta)[0 := directed_target\<lparr>t_vote_pubkey := replicate 32 9\<rparr>]\<rparr>"

definition missing_accs :: directed_accounts where
  "missing_accs = directed_accs\<lparr>da_vote_account := replicate 32 9\<rparr>"

definition paused_config :: Config where
  "paused_config = sample_config\<lparr>c_paused := U8Bool_from True\<rparr>"

lemma missing_facts:
  "0 < length (targets missing_meta)" "t_vote_pubkey (targets missing_meta ! 0) = da_vote_account missing_accs"
  "load_validator_list (da_validator_list missing_accs) = Ok (big_vec_of sample_infos)"
  "find_in_list (big_vec_of sample_infos) (da_vote_account missing_accs) = Ok None"
proof -
  have len: "bv_len (big_vec_of sample_infos) = length sample_infos" by (simp add: big_vec_of_def)
  have "\<forall>v\<in>set sample_infos. vote_account_address v \<noteq> replicate 32 9"
    by (simp add: sample_infos_def sample_info_def)
  then show "find_in_list (big_vec_of sample_infos) (da_vote_account missing_accs) = Ok None"
    unfolding find_in_list_def len
    by (subst position_pure [where q = "\<lambda>_. False"])
       (auto simp: vote_pubkey_at_info [OF sample_infos_wf] missing_accs_def)
qed (simp_all add: missing_meta_def missing_accs_def directed_meta_def directed_accs_def load_validator_list_def
     MAX_VALIDATORS_def)

theorem missing_validator_skips_the_checks_witness:
  "is_paused paused_config \<and> state_tag sample_state = ComputeDelegations \<and>
   (\<exists>m' s' evs. rebalance_directed_handler missing_accs sample_clock sample_schedule paused_config 0
     missing_meta sample_state = Ok (m', s', evs))"
  using missing_validator_skips_the_checks [OF sample_state_wf missing_facts sample_progress, of paused_config]
  by (auto simp: paused_config_def is_paused_def)

theorem paused_moves_no_directed_stake_witness:
  "\<exists>m' s' evs. rebalance_directed_handler missing_accs sample_clock sample_schedule paused_config 0
     missing_meta sample_state = Ok (m', s', evs) \<and> (\<forall>e. DirectedEvent e \<notin> set evs)"
proof -
  let ?m = "missing_meta\<lparr>targets := (targets missing_meta)[0 := (targets missing_meta ! 0)\<lparr>staked_last_updated_epoch := 900\<rparr>]\<rparr>"
  obtain s' ev where "maybe_transition sample_clock (c_parameters paused_config) sample_schedule
      (mark_if_all_rebalanced 900 ?m sample_state) = Ok (s', ev)"
    using transition_step [OF _ sample_progress, of "mark_if_all_rebalanced 900 ?m sample_state" "c_parameters paused_config"]
      sample_state_wf by (auto simp: maybe_transition_def Let_def)
  then obtain m' s' evs where run: "rebalance_directed_handler missing_accs sample_clock sample_schedule paused_config 0
     missing_meta sample_state = Ok (m', s', evs)"
    using missing_facts
    by (simp add: rebalance_directed_handler_def directed_missing_validator_def directed_update_defs sample_clock_def)
  moreover have "is_paused paused_config" by (simp add: paused_config_def is_paused_def)
  ultimately show ?thesis using paused_moves_no_directed_stake [OF run] by blast
qed

end
