(* ===== verification/Removal.thy ===== *)
theory Removal
  imports Ranking
begin

text \<open>
  \<^verbatim>\<open>StewardStateV2::remove_validator\<close>: the loops that shift the per-validator state to the left
  on their effect, and what is left of the ranking.
\<close>

section \<open>The loops\<close>

definition shift_bits :: "nat \<Rightarrow> nat \<Rightarrow> nat set \<Rightarrow> nat set" where
  "shift_bits a b A = {j. if a \<le> j \<and> j < b then Suc j \<in> A else j \<in> A}"

lemma shift_bits_empty: "b \<le> a \<Longrightarrow> shift_bits a b A = A"
  by (auto simp: shift_bits_def)

lemma shift_bits_Suc:
  "a \<le> b \<Longrightarrow> (if Suc b \<in> shift_bits a b A then insert b (shift_bits a b A) else shift_bits a b A - {b}) =
     shift_bits a (Suc b) A"
  by (auto simp: shift_bits_def less_Suc_eq split: if_splits)

lemma copy_bit_ok:
  assumes "mask_invar MAX_VALIDATORS m" "n < MAX_VALIDATORS" "i < MAX_VALIDATORS"
  shows "\<exists>m'. copy_bit n i m = Ok m' \<and> mask_invar MAX_VALIDATORS m' \<and>
    mask_bits m' = (if n \<in> mask_bits m then insert i (mask_bits m) else mask_bits m - {i})"
  using bm.set_in [OF assms(1,3), of "n \<in> mask_bits m"] assms(2) bm.get_eq [OF assms(1), of n]
  by (auto simp: copy_bit_def)

lemma copy_bit_shift:
  assumes "mask_invar MAX_VALIDATORS m" "mask_bits m = shift_bits a c A" "a \<le> c" "Suc c < MAX_VALIDATORS"
  shows "\<exists>m'. copy_bit (Suc c) c m = Ok m' \<and> mask_invar MAX_VALIDATORS m' \<and> mask_bits m' = shift_bits a (Suc c) A"
  using copy_bit_ok [OF assms(1,4) Suc_lessD [OF assms(4)]] unfolding assms(2) shift_bits_Suc [OF assms(3)] .

lemma next_index_ok: "i < MAX_VALIDATORS \<Longrightarrow> next_index i = Ok (Suc i)"
  using max_validators_limits by (simp add: next_index_def checked_add_def)

lemma copy_from_shl:
  "a \<le> b \<Longrightarrow> Suc b < length xs \<Longrightarrow> copy_from (Suc b) b (shl_range a b xs) = Ok (shl_range a (Suc b) xs)"
  by (simp add: copy_from_def shl_range_Suc)

lemma shift_validator_loop:
  assumes wf: "state_wf s" "meta_wf m" and ab: "a \<le> b" "b < MAX_VALIDATORS"
  shows "\<exists>iu pr. for_each shift_validator_state [a..<b] (s, m) =
      Ok (s\<lparr>validator_lamport_balances := shl_range a b (validator_lamport_balances s),
            scores := shl_range a b (scores s), raw_scores := shl_range a b (raw_scores s),
            delegations := shl_range a b (delegations s), instant_unstake := iu, progress := pr\<rparr>,
          m\<lparr>directed_stake_lamports := shl_range a b (directed_stake_lamports m),
            directed_stake_meta_indices := shl_range a b (directed_stake_meta_indices m)\<rparr>) \<and>
      mask_invar MAX_VALIDATORS iu \<and> mask_bits iu = shift_bits a b (mask_bits (instant_unstake s)) \<and>
      mask_invar MAX_VALIDATORS pr \<and> mask_bits pr = shift_bits a b (mask_bits (progress s))"
  using ab(1)
proof (induction rule: dec_induct)
  case base
  show ?case using wf
    by (rule_tac x = "instant_unstake s" in exI, rule_tac x = "progress s" in exI)
       (simp add: state_wf_def shift_bits_empty)
next
  case (step c)
  have c: "Suc c < MAX_VALIDATORS" using step(2) ab(2) by simp
  from step.IH obtain iu pr where IH:
      "for_each shift_validator_state [a..<c] (s, m) =
        Ok (s\<lparr>validator_lamport_balances := shl_range a c (validator_lamport_balances s),
            scores := shl_range a c (scores s), raw_scores := shl_range a c (raw_scores s),
            delegations := shl_range a c (delegations s), instant_unstake := iu, progress := pr\<rparr>,
          m\<lparr>directed_stake_lamports := shl_range a c (directed_stake_lamports m),
            directed_stake_meta_indices := shl_range a c (directed_stake_meta_indices m)\<rparr>)"
      "mask_invar MAX_VALIDATORS iu" "mask_bits iu = shift_bits a c (mask_bits (instant_unstake s))"
      "mask_invar MAX_VALIDATORS pr" "mask_bits pr = shift_bits a c (mask_bits (progress s))" by blast
  obtain iu' where iu': "copy_bit (Suc c) c iu = Ok iu'" "mask_invar MAX_VALIDATORS iu'"
      "mask_bits iu' = shift_bits a (Suc c) (mask_bits (instant_unstake s))"
    using copy_bit_shift [OF IH(2,3) step(1) c] by blast
  obtain pr' where pr': "copy_bit (Suc c) c pr = Ok pr'" "mask_invar MAX_VALIDATORS pr'"
      "mask_bits pr' = shift_bits a (Suc c) (mask_bits (progress s))"
    using copy_bit_shift [OF IH(4,5) step(1) c] by blast
  have copy: "copy_from (Suc c) c (shl_range a c xs) = Ok (shl_range a (Suc c) xs)"
    if "length xs = MAX_VALIDATORS" for xs :: "'b list"
    using that c by (intro copy_from_shl [OF step(1)]) simp
  have "shift_validator_state c (s\<lparr>validator_lamport_balances := shl_range a c (validator_lamport_balances s),
            scores := shl_range a c (scores s), raw_scores := shl_range a c (raw_scores s),
            delegations := shl_range a c (delegations s), instant_unstake := iu, progress := pr\<rparr>,
          m\<lparr>directed_stake_lamports := shl_range a c (directed_stake_lamports m),
            directed_stake_meta_indices := shl_range a c (directed_stake_meta_indices m)\<rparr>) =
      Ok (s\<lparr>validator_lamport_balances := shl_range a (Suc c) (validator_lamport_balances s),
            scores := shl_range a (Suc c) (scores s), raw_scores := shl_range a (Suc c) (raw_scores s),
            delegations := shl_range a (Suc c) (delegations s), instant_unstake := iu', progress := pr'\<rparr>,
          m\<lparr>directed_stake_lamports := shl_range a (Suc c) (directed_stake_lamports m),
            directed_stake_meta_indices := shl_range a (Suc c) (directed_stake_meta_indices m)\<rparr>)"
    using iu'(1) pr'(1) wf next_index_ok [of c] c
    by (simp add: shift_validator_state_def copy state_wf_def meta_wf_def)
  moreover have "[a..<Suc c] = [a..<c] @ [c]" using step(1) by simp
  ultimately show ?case
    using IH(1) iu'(2,3) pr'(2,3) by (rule_tac x = iu' in exI, rule_tac x = pr' in exI) (simp del: upt_Suc)
qed

lemma shift_marks_loop:
  assumes wf: "state_wf s" and ab: "a \<le> b" "b < MAX_VALIDATORS"
  shows "\<exists>vr vi. for_each shift_removal_marks [a..<b] s =
      Ok (s\<lparr>validators_to_remove := vr, validators_for_immediate_removal := vi\<rparr>) \<and>
      mask_invar MAX_VALIDATORS vr \<and> mask_bits vr = shift_bits a b (mask_bits (validators_to_remove s)) \<and>
      mask_invar MAX_VALIDATORS vi \<and>
      mask_bits vi = shift_bits a b (mask_bits (validators_for_immediate_removal s))"
  using ab(1)
proof (induction rule: dec_induct)
  case base
  show ?case using wf
    by (rule_tac x = "validators_to_remove s" in exI, rule_tac x = "validators_for_immediate_removal s" in exI)
       (simp add: state_wf_def shift_bits_empty)
next
  case (step c)
  have c: "Suc c < MAX_VALIDATORS" using step(2) ab(2) by simp
  from step.IH obtain vr vi where IH:
      "for_each shift_removal_marks [a..<c] s =
        Ok (s\<lparr>validators_to_remove := vr, validators_for_immediate_removal := vi\<rparr>)"
      "mask_invar MAX_VALIDATORS vr" "mask_bits vr = shift_bits a c (mask_bits (validators_to_remove s))"
      "mask_invar MAX_VALIDATORS vi"
      "mask_bits vi = shift_bits a c (mask_bits (validators_for_immediate_removal s))" by blast
  obtain vr' where vr': "copy_bit (Suc c) c vr = Ok vr'" "mask_invar MAX_VALIDATORS vr'"
      "mask_bits vr' = shift_bits a (Suc c) (mask_bits (validators_to_remove s))"
    using copy_bit_shift [OF IH(2,3) step(1) c] by blast
  obtain vi' where vi': "copy_bit (Suc c) c vi = Ok vi'" "mask_invar MAX_VALIDATORS vi'"
      "mask_bits vi' = shift_bits a (Suc c) (mask_bits (validators_for_immediate_removal s))"
    using copy_bit_shift [OF IH(4,5) step(1) c] by blast
  have "shift_removal_marks c (s\<lparr>validators_to_remove := vr, validators_for_immediate_removal := vi\<rparr>) =
      Ok (s\<lparr>validators_to_remove := vr', validators_for_immediate_removal := vi'\<rparr>)"
    using vr'(1) vi'(1) next_index_ok [of c] c by (simp add: shift_removal_marks_def)
  moreover have "[a..<Suc c] = [a..<c] @ [c]" using step(1) by simp
  ultimately show ?case
    using IH(1) vr'(2,3) vi'(2,3) by (rule_tac x = vr' in exI, rule_tac x = vi' in exI) (simp del: upt_Suc)
qed

text \<open>Renumbering the first \<open>n\<close> entries.\<close>

definition lowered :: "nat \<Rightarrow> nat \<Rightarrow> nat" where
  "lowered index v = (if index < v then v - 1 else v)"

definition renumber :: "nat \<Rightarrow> nat \<Rightarrow> nat list \<Rightarrow> nat list" where
  "renumber index n xs = map (lowered index) (take n xs) @ drop n xs"

lemma length_renumber [simp]: "length (renumber index n xs) = length xs"
  by (simp add: renumber_def)

lemma renumber_at_ok:
  assumes "n < length xs"
  shows "renumber_at index n (renumber index n xs) = Ok (renumber index (Suc n) xs)"
proof -
  have "renumber index n xs ! n = xs ! n" using assms by (simp add: renumber_def nth_append)
  moreover have "(renumber index n xs)[n := lowered index (xs ! n)] = renumber index (Suc n) xs"
    using assms by (intro nth_equalityI) (auto simp: renumber_def nth_append nth_list_update less_Suc_eq)
  moreover have "renumber index (Suc n) xs = renumber index n xs" if "\<not> index < xs ! n"
    using assms that by (intro nth_equalityI) (auto simp: renumber_def nth_append lowered_def less_Suc_eq)
  ultimately show ?thesis using assms
    by (auto simp: renumber_at_def checked_sub_def lowered_def)
qed

lemma renumber_loop:
  "n \<le> length xs \<Longrightarrow> n \<le> length ys \<Longrightarrow>
   for_each (\<lambda>i (sr, ss). and_then (renumber_at index i sr) (\<lambda>sr.
       and_then (renumber_at index i ss) (\<lambda>ss. Ok (sr, ss)))) [0..<n] (xs, ys) =
     Ok (renumber index n xs, renumber index n ys)"
proof (induction n)
  case (Suc n)
  then show ?case by (simp add: renumber_at_ok)
qed (simp add: renumber_def)

lemma find_index_eq:
  "find_index (\<lambda>i. i = k) xs = (if k \<in> set xs then Some (length (takeWhile (\<lambda>x. x \<noteq> k) xs)) else None)"
  by (induction xs) auto

lemma drop_sorted_index_ok:
  assumes "n < length xs" "n < MAX_VALIDATORS" "index < MAX_VALIDATORS"
  shows "\<exists>ys. drop_sorted_index index n xs = Ok ys \<and> length ys = length xs \<and>
    (index \<in> set (take (Suc n) xs) \<longrightarrow> take n ys = remove1 index (take (Suc n) xs))"
proof -
  let ?p = "length (takeWhile (\<lambda>x. x \<noteq> index) xs)"
  have ci: "cast U16_MAX index = index"
    using assms(3) max_validators_limits by (intro cast_id) simp
  have loop: "for_each (\<lambda>i ys. and_then (next_index i) (\<lambda>next_i. copy_from next_i i ys)) [p..<n] xs =
      Ok (shl_range p n xs)" for p
  proof (cases "p \<le> n")
    case True
    have "for_each (\<lambda>i ys. and_then (next_index i) (\<lambda>next_i. copy_from next_i i ys)) [p..<n] xs =
        for_each (\<lambda>i ys. and_then (arr_get ys (Suc i)) (\<lambda>v. arr_set ys i v)) [p..<n] xs"
      by (rule for_each_cong) (use assms(2) in \<open>simp add: next_index_ok copy_from_def\<close>)
    then show ?thesis using for_each_shl [OF True assms(1)] by simp
  qed simp
  show ?thesis
  proof (cases "index \<in> set xs")
    case False
    then have "index \<notin> set (take (Suc n) xs)" by (meson in_set_takeD)
    then show ?thesis using False by (simp add: drop_sorted_index_def find_index_eq ci)
  next
    case True
    have "take n (shl_range ?p n xs) = remove1 index (take (Suc n) xs)" if k: "index \<in> set (take (Suc n) xs)"
    proof -
      have tw: "length (takeWhile (\<lambda>x. x \<noteq> index) (take (Suc n) xs)) = ?p"
      proof -
        have "takeWhile (\<lambda>x. x \<noteq> index) (take (Suc n) xs @ drop (Suc n) xs) =
            takeWhile (\<lambda>x. x \<noteq> index) (take (Suc n) xs)"
          by (rule takeWhile_append1 [OF k]) simp
        then show ?thesis by simp
      qed
      then have p: "?p \<le> n" using first_index_less [OF k] assms(1) by simp
      have "remove1 index (take (Suc n) xs) = take ?p (take (Suc n) xs) @ drop (Suc ?p) (take (Suc n) xs)"
        by (rule remove1_split [OF k tw [symmetric]])
      also have "\<dots> = take ?p xs @ take (n - ?p) (drop (Suc ?p) xs)"
        using p by (simp add: drop_take min_def)
      finally show ?thesis using take_shl_range [OF p assms(1)] by simp
    qed
    then show ?thesis using True loop by (simp add: drop_sorted_index_def find_index_eq ci)
  qed
qed

section \<open>Removing a validator of the pool\<close>

text \<open>The former index of the validator that is at position \<open>j\<close> after \<open>index\<close> was removed.\<close>

definition skip :: "nat \<Rightarrow> nat \<Rightarrow> nat" where
  "skip index j = (if j < index then j else Suc j)"

text \<open>
  The effect on the state and on the directed stake meta. The arrays of the pool's
  validators close the gap and get a cleared last place; the two removal masks do so over
  the validators added in this cycle too; the rankings lose the index and renumber the rest.
\<close>

definition closes_gap :: "nat \<Rightarrow> nat \<Rightarrow> 'a \<Rightarrow> 'a list \<Rightarrow> 'a list \<Rightarrow> bool" where
  "closes_gap index n d xs ys \<longleftrightarrow> length ys = length xs \<and> (\<forall>j<n. ys ! j = xs ! skip index j) \<and> ys ! n = d"

definition closes_gap_bits :: "nat \<Rightarrow> nat \<Rightarrow> nat set \<Rightarrow> nat set \<Rightarrow> bool" where
  "closes_gap_bits index n A B \<longleftrightarrow> (\<forall>j<n. j \<in> B \<longleftrightarrow> skip index j \<in> A) \<and> n \<notin> B \<and> (\<forall>j>n. j \<in> B \<longleftrightarrow> j \<in> A)"

definition drops_index :: "nat \<Rightarrow> nat \<Rightarrow> nat list \<Rightarrow> nat list \<Rightarrow> bool" where
  "drops_index index n xs ys \<longleftrightarrow> length ys = length xs \<and>
     (index \<in> set (take (Suc n) xs) \<longrightarrow> take n ys = map (lowered index) (remove1 index (take (Suc n) xs)))"

definition removed ::
  "nat \<Rightarrow> StewardStateV2 \<Rightarrow> DirectedStakeMeta \<Rightarrow> StewardStateV2 \<Rightarrow> DirectedStakeMeta \<Rightarrow> bool" where
  "removed index s m s' m' \<longleftrightarrow> (let n = num_pool_validators s' in
     Suc n = num_pool_validators s \<and> validators_added s' = validators_added s \<and> state_tag s' = state_tag s \<and>
     status_flags s' = status_flags s \<and>
     closes_gap index n LAMPORT_BALANCE_DEFAULT (validator_lamport_balances s) (validator_lamport_balances s') \<and>
     closes_gap index n 0 (scores s) (scores s') \<and> closes_gap index n 0 (raw_scores s) (raw_scores s') \<and>
     closes_gap index n Delegation_default (delegations s) (delegations s') \<and>
     closes_gap index n 0 (directed_stake_lamports m) (directed_stake_lamports m') \<and>
     closes_gap index n U64_MAX (directed_stake_meta_indices m) (directed_stake_meta_indices m') \<and>
     closes_gap_bits index n (mask_bits (instant_unstake s)) (mask_bits (instant_unstake s')) \<and>
     closes_gap_bits index n (mask_bits (progress s)) (mask_bits (progress s')) \<and>
     closes_gap_bits index (n + validators_added s) (mask_bits (validators_to_remove s))
       (mask_bits (validators_to_remove s')) \<and>
     closes_gap_bits index (n + validators_added s) (mask_bits (validators_for_immediate_removal s))
       (mask_bits (validators_for_immediate_removal s')) \<and>
     drops_index index n (sorted_score_indices s) (sorted_score_indices s') \<and>
     drops_index index n (sorted_raw_score_indices s) (sorted_raw_score_indices s') \<and>
     targets m' = targets m)"

lemma closes_gap_shl:
  "n < length xs \<Longrightarrow> closes_gap index n d xs ((shl_range index n xs)[n := d])"
  by (auto simp: closes_gap_def skip_def)

lemma closes_gap_shift_bits: "closes_gap_bits index n A (shift_bits index n A - {n})"
  by (auto simp: closes_gap_bits_def shift_bits_def skip_def)

lemma drops_index_renumber:
  assumes "n < length xs" "length ys = length xs"
    and "index \<in> set (take (Suc n) xs) \<longrightarrow> take n ys = remove1 index (take (Suc n) xs)"
  shows "drops_index index n xs ((renumber index n ys)[n := d])"
proof -
  have "take n ((renumber index n ys)[n := d]) = map (lowered index) (take n ys)"
    using assms(1,2) by (simp add: renumber_def min_def)
  then show ?thesis using assms by (simp add: drops_index_def)
qed

lemma remove_validator_ok:
  assumes wf: "state_wf s" "meta_wf m" and i: "i < num_pool_validators s"
    and marked: "i \<in> mask_bits (validators_to_remove s) \<union> mask_bits (validators_for_immediate_removal s)"
  shows "\<exists>s' m'. remove_validator i s m = Ok (s', m') \<and> state_wf s' \<and> meta_wf m' \<and> removed i s m s' m'"
proof -
  define n where "n = num_pool_validators s - 1"
  define k where "k = n + validators_added s"
  have max: "num_pool_validators s + validators_added s \<le> MAX_VALIDATORS" using wf by (simp add: state_wf_def)
  have n: "Suc n = num_pool_validators s" "i \<le> n" "n < MAX_VALIDATORS" "i \<le> k" "k < MAX_VALIDATORS"
    "i < MAX_VALIDATORS" using i max by (simp_all add: n_def k_def)
  have n_Suc: "num_pool_validators s - Suc 0 = n" "num_pool_validators s = Suc n" using n(1) by simp_all
  let ?s = "s\<lparr>num_pool_validators := n\<rparr>"
  have wf1: "state_wf ?s" using wf(1) n(1) by (simp add: state_wf_def)
  obtain iu pr where loop1: "for_each shift_validator_state [i..<n] (?s, m) =
      Ok (?s\<lparr>validator_lamport_balances := shl_range i n (validator_lamport_balances s),
            scores := shl_range i n (scores s), raw_scores := shl_range i n (raw_scores s),
            delegations := shl_range i n (delegations s), instant_unstake := iu, progress := pr\<rparr>,
          m\<lparr>directed_stake_lamports := shl_range i n (directed_stake_lamports m),
            directed_stake_meta_indices := shl_range i n (directed_stake_meta_indices m)\<rparr>)"
      (is "_ = Ok (?t, ?m)")
    and iu: "mask_invar MAX_VALIDATORS iu" "mask_bits iu = shift_bits i n (mask_bits (instant_unstake s))"
    and pr: "mask_invar MAX_VALIDATORS pr" "mask_bits pr = shift_bits i n (mask_bits (progress s))"
    using shift_validator_loop [OF wf1 wf(2) n(2,3)] by auto
  have wft: "state_wf ?t" using wf1 iu pr by (simp add: state_wf_def)
  obtain vr vi where loop2: "for_each shift_removal_marks [i..<k] ?t =
      Ok (?t\<lparr>validators_to_remove := vr, validators_for_immediate_removal := vi\<rparr>)" (is "_ = Ok ?u")
    and vr: "mask_invar MAX_VALIDATORS vr" "mask_bits vr = shift_bits i k (mask_bits (validators_to_remove s))"
    and vi: "mask_invar MAX_VALIDATORS vi"
      "mask_bits vi = shift_bits i k (mask_bits (validators_for_immediate_removal s))"
    using shift_marks_loop [OF wft n(4,5)] by auto
  have len: "length (sorted_raw_score_indices s) = MAX_VALIDATORS" "length (sorted_score_indices s) = MAX_VALIDATORS"
    using wf by (simp_all add: state_wf_def)
  obtain sr where sr: "drop_sorted_index i n (sorted_raw_score_indices s) = Ok sr" "length sr = MAX_VALIDATORS"
      "i \<in> set (take (Suc n) (sorted_raw_score_indices s)) \<longrightarrow> take n sr = remove1 i (take (Suc n) (sorted_raw_score_indices s))"
    using drop_sorted_index_ok [of n "sorted_raw_score_indices s" i] len n by auto
  obtain ss where ss: "drop_sorted_index i n (sorted_score_indices s) = Ok ss" "length ss = MAX_VALIDATORS"
      "i \<in> set (take (Suc n) (sorted_score_indices s)) \<longrightarrow> take n ss = remove1 i (take (Suc n) (sorted_score_indices s))"
    using drop_sorted_index_ok [of n "sorted_score_indices s" i] len n by auto
  have loop3: "for_each (\<lambda>j (sr, ss). and_then (renumber_at i j sr) (\<lambda>sr.
       and_then (renumber_at i j ss) (\<lambda>ss. Ok (sr, ss)))) [0..<n] (sr, ss) =
     Ok (renumber i n sr, renumber i n ss)"
    by (rule renumber_loop) (use n sr ss in simp_all)
  obtain iu' where iu': "BitMask_set n False iu = Ok iu'" "mask_invar MAX_VALIDATORS iu'"
    "mask_bits iu' = shift_bits i n (mask_bits (instant_unstake s)) - {n}"
    using bm.set_in [OF iu(1) n(3), of False] iu(2) by auto
  obtain pr' where pr': "BitMask_set n False pr = Ok pr'" "mask_invar MAX_VALIDATORS pr'"
    "mask_bits pr' = shift_bits i n (mask_bits (progress s)) - {n}"
    using bm.set_in [OF pr(1) n(3), of False] pr(2) by auto
  obtain vr' where vr': "BitMask_set k False vr = Ok vr'" "mask_invar MAX_VALIDATORS vr'"
    "mask_bits vr' = shift_bits i k (mask_bits (validators_to_remove s)) - {k}"
    using bm.set_in [OF vr(1) n(5), of False] vr(2) by auto
  obtain vi' where vi': "BitMask_set k False vi = Ok vi'" "mask_invar MAX_VALIDATORS vi'"
    "mask_bits vi' = shift_bits i k (mask_bits (validators_for_immediate_removal s)) - {k}"
    using bm.set_in [OF vi(1) n(5), of False] vi(2) by auto
  let ?s' = "?u\<lparr>validator_lamport_balances := (shl_range i n (validator_lamport_balances s))[n := LAMPORT_BALANCE_DEFAULT],
       scores := (shl_range i n (scores s))[n := 0], raw_scores := (shl_range i n (raw_scores s))[n := 0],
       sorted_score_indices := (renumber i n ss)[n := SORTED_INDEX_DEFAULT],
       sorted_raw_score_indices := (renumber i n sr)[n := SORTED_INDEX_DEFAULT],
       delegations := (shl_range i n (delegations s))[n := Delegation_default],
       instant_unstake := iu', progress := pr', validators_to_remove := vr',
       validators_for_immediate_removal := vi'\<rparr>"
  let ?m' = "m\<lparr>directed_stake_lamports := (shl_range i n (directed_stake_lamports m))[n := 0],
       directed_stake_meta_indices := (shl_range i n (directed_stake_meta_indices m))[n := U64_MAX]\<rparr>"
  have clear: "clear_last n k (?u\<lparr>sorted_raw_score_indices := renumber i n sr,
      sorted_score_indices := renumber i n ss\<rparr>, ?m) = Ok (?s', ?m')"
    using wf n(3) iu'(1) pr'(1) vr'(1) vi'(1) sr(2) ss(2)
    by (simp add: clear_last_def state_wf_def meta_wf_def)
  have getm: "BitMask_get i (validators_to_remove s) = Ok (i \<in> mask_bits (validators_to_remove s))"
    "BitMask_get i (validators_for_immediate_removal s) = Ok (i \<in> mask_bits (validators_for_immediate_removal s))"
    using wf(1) n(6) bm.get_eq by (simp_all add: state_wf_def)
  have "num_pool_validators s + validators_added s \<le> U64_MAX" "k \<le> U64_MAX"
    using max n(5) max_validators_limits by linarith+
  then have "remove_validator i s m = Ok (?s', ?m')"
    using getm marked i n_Suc loop1 loop2 sr(1) ss(1) loop3 clear
    by (simp add: remove_validator_def Let_def plus_or_panic_def checked_defs k_def)
  moreover have "state_wf ?s'" "meta_wf ?m'"
    using wf iu'(2) pr'(2) vr'(2) vi'(2) sr(2) ss(2) n max by (simp_all add: state_wf_def meta_wf_def)
  moreover have "removed i s m ?s' ?m'"
    using wf n iu'(3) pr'(3) vr'(3) vi'(3) sr ss len
    by (simp add: removed_def Let_def closes_gap_shl closes_gap_shift_bits drops_index_renumber
        state_wf_def meta_wf_def k_def)
  ultimately show ?thesis by blast
qed

section \<open>The ranking after a removal\<close>

lemma lowered_skip: "a \<noteq> i \<Longrightarrow> skip i (lowered i a) = a"
  by (auto simp: skip_def lowered_def)

lemma lowered_inj: "inj_on (lowered i) (A - {i})"
  by (rule inj_on_inverseI [of _ "skip i"]) (simp add: lowered_skip)

lemma lowered_image:
  assumes "i \<le> n"
  shows "lowered i ` ({..<Suc n} - {i}) = {..<n}"
proof
  show "lowered i ` ({..<Suc n} - {i}) \<subseteq> {..<n}" using assms by (auto simp: lowered_def)
  show "{..<n} \<subseteq> lowered i ` ({..<Suc n} - {i})"
  proof
    fix j assume "j \<in> {..<n}"
    then have "j = lowered i (skip i j)" "skip i j \<in> {..<Suc n} - {i}" by (auto simp: lowered_def skip_def)
    then show "j \<in> lowered i ` ({..<Suc n} - {i})" by blast
  qed
qed

lemma ranked_removed:
  assumes r: "ranked scs xs {..<Suc n}" and i: "i \<le> n" and d: "drops_index i n xs ys"
    and gap: "closes_gap i n v scs scs'"
  shows "ranked scs' ys {..<n}"
proof -
  let ?zs = "take (Suc n) xs"
  have zs: "mset ?zs = mset_set {..<Suc n}" "set ?zs = {..<Suc n}" "distinct ?zs" "Suc n \<le> length xs"
    using r ranked_set [OF r] ranked_distinct [OF r] by (simp_all add: ranked_def)
  have iz: "i \<in> set ?zs" using zs(2) i by simp
  have ys: "take n ys = map (lowered i) (remove1 i ?zs)" "length ys = length xs"
    using d iz by (simp_all add: drops_index_def)
  have rem: "set (remove1 i ?zs) = {..<Suc n} - {i}" using zs(2,3) by simp
  have "mset (take n ys) = image_mset (lowered i) (mset_set ({..<Suc n} - {i}))"
  proof -
    have "mset_set {..<Suc n} = add_mset i (mset_set ({..<Suc n} - {i}))"
      using i by (intro mset_set.remove) simp_all
    then show ?thesis using ys zs(1) by simp
  qed
  also have "\<dots> = mset_set (lowered i ` ({..<Suc n} - {i}))"
    by (rule image_mset_mset_set [OF lowered_inj])
  also have "\<dots> = mset_set {..<n}" by (simp only: lowered_image [OF i])
  finally have ms: "mset (take n ys) = mset_set {..<n}" .
  have same: "scs' ! lowered i a = scs ! a" if "a \<in> set (remove1 i ?zs)" for a
  proof -
    have "a \<noteq> i" "a < Suc n" using that rem by simp_all
    then have "lowered i a < n" using i by (auto simp: lowered_def)
    then show ?thesis using gap lowered_skip [OF \<open>a \<noteq> i\<close>] by (simp add: closes_gap_def)
  qed
  have "sorted_wrt (\<lambda>a b. scs ! b \<le> scs ! a) (remove1 i ?zs)"
    using r zs(3) by (simp add: ranked_def by_score_def distinct_remove1_removeAll removeAll_filter_not_eq sorted_wrt_filter)
  then have "sorted_wrt (\<lambda>a b. scs' ! lowered i b \<le> scs' ! lowered i a) (remove1 i ?zs)"
    by (rule sorted_wrt_mono_rel [rotated]) (simp add: same)
  then have "by_score scs' (take n ys)" by (simp add: ys(1) by_score_def sorted_wrt_map)
  then show ?thesis using ms ys(2) zs(4) by (simp add: ranked_def)
qed

section \<open>Properties\<close>

text \<open>
  C16. Removing a validator of the pool that is marked for removal succeeds, and every piece of
  per-validator state follows the validator list, which closes the gap: balances, scores,
  delegations, instant-unstake and progress bits and directed stake move one place down,
  the removal marks do too, the last place is cleared, and a complete ranking by score or
  by raw score stays a complete ranking of the smaller pool.
\<close>

theorem remove_validator_follows_the_list:
  assumes "state_wf s" "meta_wf m" "i < num_pool_validators s"
    and "i \<in> mask_bits (validators_to_remove s) \<union> mask_bits (validators_for_immediate_removal s)"
    and "ranked (scores s) (sorted_score_indices s) {..<num_pool_validators s}"
    and "ranked (raw_scores s) (sorted_raw_score_indices s) {..<num_pool_validators s}"
  shows "\<exists>s' m'. remove_validator i s m = Ok (s', m') \<and> state_wf s' \<and> meta_wf m' \<and> removed i s m s' m' \<and>
    ranked (scores s') (sorted_score_indices s') {..<num_pool_validators s'} \<and>
    ranked (raw_scores s') (sorted_raw_score_indices s') {..<num_pool_validators s'}"
proof -
  obtain s' m' where ok: "remove_validator i s m = Ok (s', m')" "state_wf s'" "meta_wf m'"
    and re: "removed i s m s' m'" using remove_validator_ok [OF assms(1-4)] by blast
  let ?n = "num_pool_validators s'"
  have parts: "Suc ?n = num_pool_validators s" "closes_gap i ?n 0 (scores s) (scores s')"
    "closes_gap i ?n 0 (raw_scores s) (raw_scores s')"
    "drops_index i ?n (sorted_score_indices s) (sorted_score_indices s')"
    "drops_index i ?n (sorted_raw_score_indices s) (sorted_raw_score_indices s')"
    using re by (simp_all add: removed_def Let_def)
  have i: "i \<le> ?n" using assms(3) parts(1) by simp
  show ?thesis
    using ok re ranked_removed [OF assms(5) [folded parts(1)] i parts(4,2)]
      ranked_removed [OF assms(6) [folded parts(1)] i parts(5,3)] by blast
qed

definition sample_removal :: StewardStateV2 where
  "sample_removal = sample_state\<lparr>validators_to_remove := \<lparr>words = 1 # replicate 78 0\<rparr>\<rparr>"

lemma sample_removal_wf: "state_wf sample_removal"
  using sample_state_wf
  by (simp add: state_wf_def sample_removal_def mask_invar_def MAX_VALIDATORS_def mask_words_def)

lemma sample_removal_marked: "0 \<in> mask_bits (validators_to_remove sample_removal)"
  by (simp add: sample_removal_def)

lemma DirectedStakeMeta_default_wf: "meta_wf DirectedStakeMeta_default"
  by (simp add: meta_wf_def DirectedStakeMeta_default_def)

lemma sample_removal_ranked:
  "ranked (scores sample_removal) (sorted_score_indices sample_removal) {..<num_pool_validators sample_removal}"
  "ranked (raw_scores sample_removal) (sorted_raw_score_indices sample_removal) {..<num_pool_validators sample_removal}"
  by (simp_all add: sample_removal_def sample_state_def ranked_def by_score_def mset_set_three MAX_VALIDATORS_def)

theorem remove_validator_follows_the_list_witness:
  "\<exists>s' m'. remove_validator 0 sample_removal DirectedStakeMeta_default = Ok (s', m') \<and>
     removed 0 sample_removal DirectedStakeMeta_default s' m' \<and>
     ranked (scores s') (sorted_score_indices s') {..<num_pool_validators s'}"
  using remove_validator_follows_the_list [OF sample_removal_wf DirectedStakeMeta_default_wf, of 0]
    sample_removal_marked sample_removal_ranked by (fastforce simp: sample_removal_def)

text \<open>
  The directed stake of a validator that was added in this cycle does not follow the list.
  When a validator of the pool is removed, the one that was at the first place behind the
  pool moves down to the place the code clears, so its directed stake and its index into
  the targets are lost, whatever they were.
\<close>

theorem remove_validator_clears_added_directed_stake:
  assumes "state_wf s" "meta_wf m" "i < num_pool_validators s" "0 < validators_added s"
    and "i \<in> mask_bits (validators_to_remove s) \<union> mask_bits (validators_for_immediate_removal s)"
  shows "\<exists>s' m'. remove_validator i s m = Ok (s', m') \<and>
    skip i (num_pool_validators s') = num_pool_validators s \<and>
    directed_stake_lamports m' ! num_pool_validators s' = 0 \<and>
    directed_stake_meta_indices m' ! num_pool_validators s' = U64_MAX"
proof -
  obtain s' m' where ok: "remove_validator i s m = Ok (s', m')" "removed i s m s' m'"
    using remove_validator_ok [OF assms(1-3,5)] by blast
  then show ?thesis using assms(3) by (auto simp: removed_def Let_def closes_gap_def skip_def)
qed

theorem remove_validator_clears_added_directed_stake_witness:
  "\<exists>s' m'. remove_validator 0 (sample_removal\<lparr>validators_added := 1\<rparr>)
       (DirectedStakeMeta_default\<lparr>directed_stake_lamports := replicate MAX_VALIDATORS 7\<rparr>) = Ok (s', m') \<and>
     directed_stake_lamports m' ! num_pool_validators s' = 0"
proof -
  have "state_wf (sample_removal\<lparr>validators_added := 1\<rparr>)"
    using sample_removal_wf by (simp add: state_wf_def sample_removal_def MAX_VALIDATORS_def)
  moreover have "meta_wf (DirectedStakeMeta_default\<lparr>directed_stake_lamports := replicate MAX_VALIDATORS 7\<rparr>)"
    by (simp add: meta_wf_def DirectedStakeMeta_default_def)
  ultimately show ?thesis
    using remove_validator_clears_added_directed_stake [of "sample_removal\<lparr>validators_added := 1\<rparr>"
        "DirectedStakeMeta_default\<lparr>directed_stake_lamports := replicate MAX_VALIDATORS 7\<rparr>" 0]
      sample_removal_marked by (fastforce simp: sample_removal_def)
qed

end
