(* ===== verification/Crank.thy ===== *)
theory Crank
  imports Directed_Delegation Removal Credits_And_Age
begin

text \<open>
  The instructions that anyone may send to move the state machine on
  (programs/steward/src/instructions): scoring, delegation, instant unstake, rebalancing,
  idling, epoch maintenance, and the addition and removal of validators. Each is a function
  from the accounts it reads and the state it changes to the new state and the emitted
  events. What belongs to other programs is an argument: the sysvars, the deserialised stake
  pool, validator list and stake accounts, and the outcome of the stake pool's instructions.
\<close>

section \<open>What the instructions share\<close>

record crank_env =
  e_clock :: Clock
  e_schedule :: EpochSchedule
  e_config :: Config
  e_list :: ValidatorListAccount
  e_slice :: "BigVec \<Rightarrow> nat \<Rightarrow> nat \<Rightarrow> ValidatorStakeInfo list result"
  e_status_byte :: "StakeStatus \<Rightarrow> 8 word"

record RebalanceEvent =
  re_vote_account :: Pubkey
  re_epoch :: nat
  re_rebalance_type_tag :: RebalanceTypeTag
  re_increase_lamports :: nat
  re_decrease_components :: DecreaseComponents

record AutoRemoveValidatorEvent =
  ar_validator_list_index :: nat
  ar_vote_account :: Pubkey
  ar_vote_account_closed :: bool
  ar_stake_account_deactivated :: bool
  ar_marked_for_immediate_removal :: bool

record AutoAddValidatorEvent =
  aa_validator_list_index :: nat
  aa_vote_account :: Pubkey

record EpochMaintenanceEvent =
  em_validator_index_to_remove :: "nat option"
  em_validator_list_length :: nat
  em_num_pool_validators :: nat
  em_validators_to_remove :: nat
  em_validators_to_add :: nat
  em_maintenance_complete :: bool

datatype crank_event =
    Transitioned StateTransition
  | Scored ScoreComponentsV5
  | InstantUnstaked InstantUnstakeComponentsV3
  | Rebalanced RebalanceEvent
  | AutoRemoved AutoRemoveValidatorEvent
  | AutoAdded AutoAddValidatorEvent
  | Maintained EpochMaintenanceEvent

definition get_validator_stake_info_at_index :: "crank_env \<Rightarrow> nat \<Rightarrow> ValidatorStakeInfo result" where
  "get_validator_stake_info_at_index e i =
     and_then (load_validator_list (e_list e)) (\<lambda>vl.
     and_then (e_slice e vl i 1) (\<lambda>infos.
     case infos of [] \<Rightarrow> Err (Steward ValidatorNotInList) | info # _ \<Rightarrow> Ok info))"

abbreviation crank_transition :: "crank_env \<Rightarrow> StewardStateV2 \<Rightarrow> (StewardStateV2 \<times> StateTransition option) result" where
  "crank_transition e s \<equiv> maybe_transition (e_clock e) (c_parameters (e_config e)) (e_schedule e) s"

abbreviation transition_events :: "StateTransition option \<Rightarrow> crank_event list" where
  "transition_events ev \<equiv> (case ev of None \<Rightarrow> [] | Some t \<Rightarrow> [Transitioned t])"

section \<open>Scoring, delegation, instant unstake and idling\<close>

definition compute_score_handler ::
  "crank_env \<Rightarrow> ValidatorHistory \<Rightarrow> ClusterHistory \<Rightarrow> nat \<Rightarrow> StewardStateV2 \<Rightarrow> (StewardStateV2 \<times> crank_event list) result" where
  "compute_score_handler e validator cluster index s =
     and_then (state_checks (e_clock e) (e_config e) s (e_list e) None) (\<lambda>_.
     and_then (get_validator_stake_info_at_index e index) (\<lambda>info.
     and_then (require (vote_account_address info = vh_vote_account validator) ValidatorNotInList) (\<lambda>_.
     and_then (if state_tag s \<noteq> ComputeScores then crank_transition e s else Ok (s, None)) (\<lambda>(s, ev).
     case ev of
       Some t \<Rightarrow> Ok (s, [Transitioned t])
     | None \<Rightarrow>
         and_then (require (state_tag s = ComputeScores) InvalidState) (\<lambda>_.
         and_then (get_validator_list_length (e_list e)) (\<lambda>n.
         and_then (compute_score (e_clock e) (e_schedule e) validator index cluster (e_config e) n s) (\<lambda>(s, score).
         and_then (crank_transition e s) (\<lambda>(s, ev).
         Ok (s, (case score of None \<Rightarrow> [] | Some sc \<Rightarrow> [Scored sc]) @ transition_events ev)))))))))"

definition compute_delegations_handler :: "crank_env \<Rightarrow> StewardStateV2 \<Rightarrow> (StewardStateV2 \<times> crank_event list) result" where
  "compute_delegations_handler e s =
     and_then (state_checks (e_clock e) (e_config e) s (e_list e) (Some ComputeDelegations)) (\<lambda>_.
     and_then (compute_delegations (clock_epoch (e_clock e)) (e_config e) s) (\<lambda>s.
     and_then (crank_transition e s) (\<lambda>(s, ev). Ok (s, transition_events ev))))"

definition compute_instant_unstake_handler ::
  "crank_env \<Rightarrow> ValidatorHistory \<Rightarrow> ClusterHistory \<Rightarrow> nat \<Rightarrow> StewardStateV2 \<Rightarrow> (StewardStateV2 \<times> crank_event list) result" where
  "compute_instant_unstake_handler e validator cluster index s =
     and_then (crank_transition e s) (\<lambda>(s, ev).
     case ev of
       Some t \<Rightarrow> Ok (s, [Transitioned t])
     | None \<Rightarrow>
         and_then (state_checks (e_clock e) (e_config e) s (e_list e) (Some ComputeInstantUnstake)) (\<lambda>_.
         and_then (get_validator_stake_info_at_index e index) (\<lambda>info.
         and_then (require (vote_account_address info = vh_vote_account validator) ValidatorNotInList) (\<lambda>_.
         and_then (compute_instant_unstake (e_clock e) (e_schedule e) validator index cluster (e_config e) s) (\<lambda>(s, r).
         and_then (crank_transition e s) (\<lambda>(s, ev).
         Ok (s, (case r of None \<Rightarrow> [] | Some iu \<Rightarrow> [InstantUnstaked iu]) @ transition_events ev)))))))"

definition idle_handler :: "crank_env \<Rightarrow> StewardStateV2 \<Rightarrow> (StewardStateV2 \<times> crank_event list) result" where
  "idle_handler e s =
     and_then (state_checks (e_clock e) (e_config e) s (e_list e) (Some Idle)) (\<lambda>_.
     and_then (crank_transition e s) (\<lambda>(s, ev). Ok (s, transition_events ev)))"

section \<open>Rebalancing\<close>

definition DecreaseComponents_default :: DecreaseComponents where
  "DecreaseComponents_default = \<lparr>scoring_unstake_lamports = 0, instant_unstake_lamports = 0,
     stake_deposit_unstake_lamports = 0, total_unstake_lamports = 0, directed_unstake_lamports = 0\<rparr>"

fun rebalance_to_event :: "Pubkey \<Rightarrow> nat \<Rightarrow> RebalanceType \<Rightarrow> RebalanceEvent" where
  "rebalance_to_event vote_account epoch RebalanceNone =
     \<lparr>re_vote_account = vote_account, re_epoch = epoch, re_rebalance_type_tag = TagNone, re_increase_lamports = 0,
      re_decrease_components = DecreaseComponents_default\<rparr>"
| "rebalance_to_event vote_account epoch (Increase lamports) =
     \<lparr>re_vote_account = vote_account, re_epoch = epoch, re_rebalance_type_tag = TagIncrease,
      re_increase_lamports = lamports, re_decrease_components = DecreaseComponents_default\<rparr>"
| "rebalance_to_event vote_account epoch (Decrease c) =
     \<lparr>re_vote_account = vote_account, re_epoch = epoch, re_rebalance_type_tag = TagDecrease, re_increase_lamports = 0,
      re_decrease_components = c\<rparr>"

text \<open>
  The stake accounts deserialise to the delegated stake, to another variant (\<open>None\<close>), or not
  at all.
\<close>

record rebalance_accounts =
  ra_history_vote_account :: Pubkey
  ra_vote_account :: Pubkey
  ra_owned_by_vote_program :: bool
  ra_stake_state :: "nat option result"
  ra_transient_stake_state :: "nat option result"
  ra_stake_pool_total :: "nat result"
  ra_reserve_lamports :: nat
  ra_minimum_delegation :: nat
  ra_stake_rent :: nat
  ra_invoke :: "RebalanceType \<Rightarrow> nat \<Rightarrow> unit result"

definition transient_lamports :: "rebalance_accounts \<Rightarrow> nat" where
  "transient_lamports a = (case ra_transient_stake_state a of Inr (Some stake) \<Rightarrow> stake | _ \<Rightarrow> 0)"

definition capped_reserve :: "Config \<Rightarrow> nat \<Rightarrow> nat \<Rightarrow> nat" where
  "capped_reserve config undirected_pool_lamports reserve_lamports =
     (let stake_ceiling = undirected_stake_ceiling_lamports (c_parameters config) in
      if stake_ceiling \<le> undirected_pool_lamports then 0
      else min reserve_lamports (saturating_sub stake_ceiling undirected_pool_lamports))"

definition rebalance_handler ::
  "crank_env \<Rightarrow> rebalance_accounts \<Rightarrow> DirectedStakeMeta \<Rightarrow> nat \<Rightarrow> StewardStateV2 \<Rightarrow>
   (StewardStateV2 \<times> crank_event list) result" where
  "rebalance_handler e a m index s =
     and_then (crank_transition e s) (\<lambda>(s, ev).
     case ev of
       Some t \<Rightarrow> Ok (s, [Transitioned t])
     | None \<Rightarrow>
         and_then (state_checks (e_clock e) (e_config e) s (e_list e) (Some Rebalance)) (\<lambda>_.
         and_then (get_validator_stake_info_at_index e index) (\<lambda>info.
         and_then (require (vote_account_address info = ra_history_vote_account a) ValidatorNotInList) (\<lambda>_.
         and_then (if ra_owned_by_vote_program a then Ok True else BitMask_get index (validators_to_remove s))
           (\<lambda>votes_or_marked.
         and_then (require votes_or_marked ValidatorNeedsToBeMarkedForRemoval) (\<lambda>_.
         and_then (ra_stake_state a) (\<lambda>stake_state.
         and_then (ok_or stake_state (Steward InvalidStakeState)) (\<lambda>active_lamports.
         if 0 < transient_lamports a
         then and_then (BitMask_set index True (progress s)) (\<lambda>pr. Ok (s\<lparr>progress := pr\<rparr>, []))
         else
           and_then (e_list e) (\<lambda>(_, vl).
           and_then (ra_stake_pool_total a) (\<lambda>total_pool_lamports.
           let undirected = saturating_sub total_pool_lamports (total_staked_lamports m) in
           and_then (rebalance m (clock_epoch (e_clock e)) index vl undirected
                       (capped_reserve (e_config e) undirected (ra_reserve_lamports a))
                       (saturating_sub active_lamports (ra_minimum_delegation a))
                       (ra_minimum_delegation a) (ra_stake_rent a) (c_parameters (e_config e)) s) (\<lambda>(s, r).
           and_then (case r of RebalanceNone \<Rightarrow> Ok () | _ \<Rightarrow> ra_invoke a r (transient_seed_suffix info)) (\<lambda>_.
           and_then (crank_transition e s) (\<lambda>(s, ev).
           Ok (s, Rebalanced (rebalance_to_event (ra_vote_account a) (cast U16_MAX (clock_epoch (e_clock e))) r)
                  # transition_events ev))))))))))))))"

section \<open>Epoch maintenance and instant removal\<close>

definition maintenance_flags :: "32 word" where
  "maintenance_flags = or (or (or (or PRE_LOOP_IDLE COMPUTE_INSTANT_UNSTAKES) REBALANCE) POST_LOOP_IDLE)
     REBALANCE_DIRECTED_COMPLETE"

text \<open>The part of epoch maintenance that runs once no removal is pending.\<close>

definition start_epoch :: "nat \<Rightarrow> StewardStateV2 \<Rightarrow> DirectedStakeMeta \<Rightarrow> StewardStateV2 \<times> DirectedStakeMeta" where
  "start_epoch epoch s m =
     (let s = s\<lparr>current_epoch := epoch\<rparr>;
          m = (if current_epoch s = next_cycle_epoch s then m\<lparr>directed_unstake_total := 0\<rparr> else m);
          s = set_flag EPOCH_MAINTENANCE (unset_flag maintenance_flags s)
      in (s\<lparr>progress := BitMask_default, instant_unstake := BitMask_default, state_tag := RebalanceDirected\<rparr>, m))"

definition epoch_maintenance_handler ::
  "crank_env \<Rightarrow> nat result \<Rightarrow> nat option \<Rightarrow> StewardStateV2 \<Rightarrow> DirectedStakeMeta \<Rightarrow>
   (StewardStateV2 \<times> DirectedStakeMeta \<times> crank_event list) result" where
  "epoch_maintenance_handler e pool_last_update_epoch index_to_remove s m =
     and_then pool_last_update_epoch (\<lambda>last_update_epoch.
     and_then (require (clock_epoch (e_clock e) = last_update_epoch) StakePoolNotUpdated) (\<lambda>_.
     and_then (require (current_epoch s < clock_epoch (e_clock e)) EpochMaintenanceAlreadyComplete) (\<lambda>_.
     and_then (check_validator_list_has_stake_status_other_than (e_status_byte e) (e_list e) [Active]) (\<lambda>other.
     and_then (require (\<not> other) ValidatorsHaveNotBeenRemoved) (\<lambda>_.
     let s = unset_flag EPOCH_MAINTENANCE s in
     and_then (get_validator_list_length (e_list e)) (\<lambda>validators_in_list.
     and_then (plus_or_panic U64_MAX (mask_count (validators_to_remove s))
                 (mask_count (validators_for_immediate_removal s))) (\<lambda>to_remove.
     and_then (plus_or_panic U64_MAX (num_pool_validators s) (validators_added s)) (\<lambda>total.
     and_then (minus_or_panic total to_remove) (\<lambda>remaining.
     and_then (require (remaining = validators_in_list) ListStateMismatch) (\<lambda>_.
     and_then (case index_to_remove of None \<Rightarrow> Ok (s, m) | Some i \<Rightarrow> remove_validator i s m) (\<lambda>(s, m).
     let okay_to_update = mask_is_empty (validators_to_remove s) \<and> mask_is_empty (validators_for_immediate_removal s);
         (s, m) = (if okay_to_update then start_epoch (clock_epoch (e_clock e)) s m else (s, m)) in
     Ok (s, m, [Maintained \<lparr>em_validator_index_to_remove = index_to_remove,
       em_validator_list_length = validators_in_list, em_num_pool_validators = num_pool_validators s,
       em_validators_to_remove = mask_count (validators_to_remove s), em_validators_to_add = validators_added s,
       em_maintenance_complete = okay_to_update\<rparr>]))))))))))))"

definition total_deactivating :: "StakeStatusTally \<Rightarrow> nat result" where
  "total_deactivating t =
     and_then (plus_or_panic U64_MAX (tally_deactivating_all t) (tally_deactivating_transient t)) (\<lambda>x.
     and_then (plus_or_panic U64_MAX x (tally_deactivating_validator t)) (\<lambda>x.
     plus_or_panic U64_MAX x (tally_ready_for_removal t)))"

definition instant_remove_validator_handler ::
  "crank_env \<Rightarrow> nat result \<Rightarrow> nat \<Rightarrow> StewardStateV2 \<Rightarrow> DirectedStakeMeta \<Rightarrow> (StewardStateV2 \<times> DirectedStakeMeta) result" where
  "instant_remove_validator_handler e pool_last_update_epoch index s m =
     and_then pool_last_update_epoch (\<lambda>last_update_epoch.
     let immediate = mask_count (validators_for_immediate_removal s) in
     and_then (get_validator_list_length (e_list e)) (\<lambda>validators_in_list.
     and_then (require (current_epoch s = clock_epoch (e_clock e)) EpochMaintenanceNotComplete) (\<lambda>_.
     and_then (require (clock_epoch (e_clock e) = last_update_epoch) StakePoolNotUpdated) (\<lambda>_.
     and_then (BitMask_get index (validators_for_immediate_removal s)) (\<lambda>marked.
     and_then (require marked ValidatorNotInList) (\<lambda>_.
     and_then (tally_stake_status (e_status_byte e) (e_list e)) (\<lambda>tally.
     and_then (total_deactivating tally) (\<lambda>deactivating.
     and_then (require (deactivating = mask_count (validators_to_remove s)) ValidatorsHaveNotBeenRemoved) (\<lambda>_.
     and_then (require (tally_ready_for_removal tally = 0) ValidatorsNeedToBeRemoved) (\<lambda>_.
     and_then (plus_or_panic U64_MAX (num_pool_validators s) (validators_added s)) (\<lambda>total.
     and_then (minus_or_panic total immediate) (\<lambda>remaining.
     and_then (require (remaining = validators_in_list) ListStateMismatch) (\<lambda>_.
     remove_validator index s m)))))))))))))"

section \<open>Adding and removing validators of the pool\<close>

definition auto_add_validator_handler ::
  "crank_env \<Rightarrow> ValidatorHistory \<Rightarrow> Pubkey \<Rightarrow> unit result \<Rightarrow> StewardStateV2 \<Rightarrow> (StewardStateV2 \<times> crank_event list) result" where
  "auto_add_validator_handler e validator vote_account add_validator_to_pool s =
     (let epoch = clock_epoch (e_clock e); params = c_parameters (e_config e) in
     and_then (add_validator_check (e_clock e) (e_config e) s (e_list e)) (\<lambda>_.
     and_then (get_validator_list_length (e_list e)) (\<lambda>n.
     and_then (unwrap (arith_error (checked_add U64_MAX n 1))) (\<lambda>next_len.
     if MAX_VALIDATORS < next_len then Err (Steward MaxValidatorsReached)
     else
       let start_epoch = saturating_sub epoch (saturating_sub (p_minimum_voting_epochs params) 1) in
       and_then (circ_last (vh_history validator)) (\<lambda>last_entry.
       and_then (case last_entry of
           None \<Rightarrow> Err (Steward ValidatorBelowLivenessMinimum)
         | Some entry \<Rightarrow>
             and_then (epoch_credits_range (cast U16_MAX start_epoch) (cast U16_MAX epoch) (vh_history validator)) (\<lambda>credits.
             if list_ex (\<lambda>c. c = None) credits then Err (Steward ValidatorBelowLivenessMinimum)
             else if activated_stake_lamports entry = activated_stake_lamports ValidatorHistoryEntry_default
             then Err (Steward StakeHistoryNotRecentEnough)
             else if activated_stake_lamports entry < p_minimum_stake_lamports params
             then Err (Steward ValidatorBelowStakeMinimum)
             else Ok ())) (\<lambda>_.
       and_then (increment_validator_to_add s) (\<lambda>s.
       and_then add_validator_to_pool (\<lambda>_.
       Ok (s, [AutoAdded \<lparr>aa_validator_list_index = n, aa_vote_account = vote_account\<rparr>])))))))))"

text \<open>
  What the removal reads of the stake account: its variant and, of a delegation, the epochs,
  the two authorities and the lockup. The validator list and the stake account are read again
  after the stake pool's instruction, which changes them.
\<close>

record Lockup =
  lockup_unix_timestamp :: int
  lockup_epoch :: nat
  lockup_custodian :: Pubkey

record stake_account =
  sa_staker :: Pubkey
  sa_withdrawer :: Pubkey
  sa_lockup :: Lockup
  sa_activation_epoch :: nat
  sa_deactivation_epoch :: nat

definition stake_is_usable_by_pool :: "stake_account \<Rightarrow> Pubkey \<Rightarrow> Lockup \<Rightarrow> bool" where
  "stake_is_usable_by_pool a expected_authority expected_lockup \<longleftrightarrow>
     sa_staker a = expected_authority \<and> sa_withdrawer a = expected_authority \<and> sa_lockup a = expected_lockup"

definition stake_is_inactive_without_history :: "stake_account \<Rightarrow> nat \<Rightarrow> bool" where
  "stake_is_inactive_without_history a epoch \<longleftrightarrow>
     sa_deactivation_epoch a < epoch \<or> sa_activation_epoch a = epoch \<and> sa_deactivation_epoch a = epoch"

record remove_accounts =
  rm_vote_account :: Pubkey
  rm_owned_by_vote_program :: bool
  rm_withdraw_authority :: Pubkey
  rm_stake_before :: "stake_account option result"
  rm_remove_from_pool :: "unit result"
  rm_list_after :: ValidatorListAccount
  rm_stake_after :: "stake_account option result"
  rm_pool_lockup :: "Lockup result"
  rm_status :: "8 word \<Rightarrow> StakeStatus result"

definition mark_removed_validator ::
  "remove_accounts \<Rightarrow> nat \<Rightarrow> nat \<Rightarrow> StakeStatus \<Rightarrow> Lockup \<Rightarrow> StewardStateV2 \<Rightarrow> (StewardStateV2 \<times> bool) result" where
  "mark_removed_validator a epoch index status lockup s =
     (let immediately = and_then (mark_validator_for_immediate_removal index s) (\<lambda>s. Ok (s, True));
          regularly = and_then (mark_validator_for_removal index s) (\<lambda>s. Ok (s, False)) in
      case status of
        Active \<Rightarrow> Err (Steward ValidatorMarkedActive)
      | DeactivatingValidator \<Rightarrow>
          and_then (rm_stake_after a) (\<lambda>stake_state.
          and_then (ok_or stake_state (Steward StakeStateIsNotStake)) (\<lambda>stake.
          if stake_is_usable_by_pool stake (rm_withdraw_authority a) lockup
             \<and> stake_is_inactive_without_history stake epoch
          then immediately else regularly))
      | ReadyForRemoval \<Rightarrow> immediately
      | DeactivatingAll \<Rightarrow> regularly
      | DeactivatingTransient \<Rightarrow> regularly)"

definition auto_remove_validator_handler ::
  "crank_env \<Rightarrow> remove_accounts \<Rightarrow> nat \<Rightarrow> StewardStateV2 \<Rightarrow> (StewardStateV2 \<times> crank_event list) result" where
  "auto_remove_validator_handler e a index s =
     (let epoch = clock_epoch (e_clock e) in
     and_then (remove_validator_check (e_clock e) (e_config e) s (e_list e)) (\<lambda>_.
     and_then (get_validator_stake_info_at_index e index) (\<lambda>info.
     and_then (require (vote_account_address info = rm_vote_account a) ValidatorNotInList) (\<lambda>_.
     and_then (rm_stake_before a) (\<lambda>stake_state.
     and_then (ok_or stake_state (Steward StakeStateIsNotStake)) (\<lambda>stake.
     let stake_account_deactivated = sa_deactivation_epoch stake < epoch;
         vote_account_closed = (\<not> rm_owned_by_vote_program a) in
     and_then (require (stake_account_deactivated \<or> vote_account_closed) ValidatorNotRemovable) (\<lambda>_.
     and_then (rm_remove_from_pool a) (\<lambda>_.
     and_then (get_validator_stake_info_at_index (e\<lparr>e_list := rm_list_after a\<rparr>) index) (\<lambda>info.
     and_then (rm_status a (status_byte info)) (\<lambda>status.
     and_then (rm_pool_lockup a) (\<lambda>lockup.
     and_then (mark_removed_validator a epoch index status lockup s) (\<lambda>(s, immediate).
     Ok (s, [AutoRemoved \<lparr>ar_validator_list_index = index, ar_vote_account = rm_vote_account a,
       ar_vote_account_closed = vote_account_closed, ar_stake_account_deactivated = stake_account_deactivated,
       ar_marked_for_immediate_removal = immediate\<rparr>])))))))))))))"

end
