(* ===== verification/Admin.thy ===== *)
theory Admin
  imports Crank
begin

text \<open>
  The instructions of the authorities and of the directed stakers
  (programs/steward/src/instructions): configuration, blacklist, pause, marks for removal,
  resets, upload of directed stake targets, whitelist and tickets. The signer is an argument;
  that it must be a certain authority is part of the account declarations, whose
  \<^verbatim>\<open>address = \<dots>\<close> constraints fail with Anchor's own error.
\<close>

section \<open>Accounts\<close>

definition ConstraintAddress :: error where "ConstraintAddress = External 2012"

definition check_address :: "Pubkey \<Rightarrow> Pubkey \<Rightarrow> unit result" where
  "check_address expected actual = (if actual = expected then Ok () else Err ConstraintAddress)"

definition check_authority :: "Pubkey \<Rightarrow> Pubkey \<Rightarrow> unit result" where
  "check_authority expected actual = (if actual = expected then Ok () else Err (Steward Unauthorized))"

definition get_stake_pool_address :: "Config \<Rightarrow> Pubkey" where "get_stake_pool_address c = c_stake_pool c"
definition get_validator_list :: "Config \<Rightarrow> Pubkey" where "get_validator_list c = c_validator_list c"
definition get_config_admin :: "Config \<Rightarrow> Pubkey" where "get_config_admin c = c_admin c"
definition get_config_blacklist_authority :: "Config \<Rightarrow> Pubkey" where
  "get_config_blacklist_authority c = c_blacklist_authority c"
definition get_config_parameter_authority :: "Config \<Rightarrow> Pubkey" where
  "get_config_parameter_authority c = c_parameters_authority c"
definition get_config_priority_fee_parameter_authority :: "Config \<Rightarrow> Pubkey" where
  "get_config_priority_fee_parameter_authority c = c_priority_fee_parameters_authority c"

lemmas config_getters = get_stake_pool_address_def get_validator_list_def get_config_admin_def
  get_config_blacklist_authority_def get_config_parameter_authority_def
  get_config_priority_fee_parameter_authority_def

section \<open>Configuration\<close>

definition pause_steward_handler :: "Pubkey \<Rightarrow> Config \<Rightarrow> Config result" where
  "pause_steward_handler signer c =
     and_then (check_address (get_config_admin c) signer) (\<lambda>_. Ok (set_paused True c))"

definition resume_steward_handler :: "Pubkey \<Rightarrow> Config \<Rightarrow> Config result" where
  "resume_steward_handler signer c =
     and_then (check_address (get_config_admin c) signer) (\<lambda>_. Ok (set_paused False c))"

definition set_blacklist :: "bool \<Rightarrow> nat list \<Rightarrow> Config \<Rightarrow> Config result" where
  "set_blacklist b indices c =
     and_then (for_each (\<lambda>index msk. LargeBitMask_set index b msk) indices (c_validator_history_blacklist c))
       (\<lambda>msk. Ok (c\<lparr>c_validator_history_blacklist := msk\<rparr>))"

definition add_validators_to_blacklist_handler :: "Pubkey \<Rightarrow> nat list \<Rightarrow> Config \<Rightarrow> Config result" where
  "add_validators_to_blacklist_handler signer indices c =
     and_then (check_address (get_config_blacklist_authority c) signer) (\<lambda>_. set_blacklist True indices c)"

definition remove_validators_from_blacklist_handler :: "Pubkey \<Rightarrow> nat list \<Rightarrow> Config \<Rightarrow> Config result" where
  "remove_validators_from_blacklist_handler signer indices c =
     and_then (check_address (get_config_blacklist_authority c) signer) (\<lambda>_. set_blacklist False indices c)"

datatype AuthorityType =
    SetAdmin
  | SetBlacklistAuthority
  | SetParametersAuthority
  | SetPriorityFeeParameterAuthority
  | SetDirectedStakeWhitelistAuthority
  | SetDirectedStakeMetaUploadAuthority
  | SetDirectedStakeTicketOverrideAuthority

definition set_new_authority_handler :: "Pubkey \<Rightarrow> Pubkey \<Rightarrow> AuthorityType \<Rightarrow> Config \<Rightarrow> Config result" where
  "set_new_authority_handler signer new_authority authority_type c =
     (if c_admin c \<noteq> signer then Err (Steward Unauthorized)
      else Ok (case authority_type of
          SetAdmin \<Rightarrow> c\<lparr>c_admin := new_authority\<rparr>
        | SetBlacklistAuthority \<Rightarrow> c\<lparr>c_blacklist_authority := new_authority\<rparr>
        | SetParametersAuthority \<Rightarrow> c\<lparr>c_parameters_authority := new_authority\<rparr>
        | SetPriorityFeeParameterAuthority \<Rightarrow> c\<lparr>c_priority_fee_parameters_authority := new_authority\<rparr>
        | SetDirectedStakeWhitelistAuthority \<Rightarrow> c\<lparr>c_directed_stake_whitelist_authority := new_authority\<rparr>
        | SetDirectedStakeMetaUploadAuthority \<Rightarrow> c\<lparr>c_directed_stake_meta_upload_authority := new_authority\<rparr>
        | SetDirectedStakeTicketOverrideAuthority \<Rightarrow> c\<lparr>c_directed_stake_ticket_override_authority := new_authority\<rparr>))"

definition update_parameters_handler ::
  "Pubkey \<Rightarrow> UpdateParametersArgs \<Rightarrow> Clock \<Rightarrow> EpochSchedule \<Rightarrow> Config \<Rightarrow> Config result" where
  "update_parameters_handler signer args clock es c =
     and_then (check_address (get_config_parameter_authority c) signer) (\<lambda>_.
     and_then (get_valid_updated_parameters args (clock_epoch clock) (slots_per_epoch es) (c_parameters c)) (\<lambda>p.
     Ok (c\<lparr>c_parameters := p\<rparr>)))"

definition update_priority_fee_parameters_handler ::
  "Pubkey \<Rightarrow> UpdatePriorityFeeParametersArgs \<Rightarrow> Clock \<Rightarrow> EpochSchedule \<Rightarrow> Config \<Rightarrow> Config result" where
  "update_priority_fee_parameters_handler signer args clock es c =
     and_then (check_address (get_config_priority_fee_parameter_authority c) signer) (\<lambda>_.
     and_then (priority_fee_parameters args (clock_epoch clock) (slots_per_epoch es) (c_parameters c)) (\<lambda>p.
     Ok (c\<lparr>c_parameters := p\<rparr>)))"

text \<open>
  The deserialised stake pool is its staker and its validator list; \<open>c\<close> is the freshly
  allocated configuration, and \<open>set_staker\<close> the outcome of the stake pool's instruction.
\<close>

definition initialize_steward_handler ::
  "Pubkey \<Rightarrow> Pubkey \<Rightarrow> (Pubkey \<times> Pubkey) result \<Rightarrow> UpdateParametersArgs \<Rightarrow> UpdatePriorityFeeParametersArgs \<Rightarrow> Clock \<Rightarrow>
   EpochSchedule \<Rightarrow> unit result \<Rightarrow> Config \<Rightarrow> Config result" where
  "initialize_steward_handler signer stake_pool pool args fee_args clock es set_staker c =
     and_then pool (\<lambda>(staker, validator_list).
     and_then (check_address staker signer) (\<lambda>_.
     let c = c\<lparr>c_stake_pool := stake_pool, c_validator_list := validator_list, c_admin := signer,
               c_blacklist_authority := signer, c_parameters_authority := signer\<rparr> in
     and_then (get_valid_updated_parameters args (clock_epoch clock) (slots_per_epoch es) (c_parameters c)) (\<lambda>p.
     and_then (priority_fee_parameters fee_args (clock_epoch clock) (slots_per_epoch es) p) (\<lambda>p.
     and_then set_staker (\<lambda>_. Ok (c\<lparr>c_parameters := p\<rparr>))))))"

section \<open>Marks and resets\<close>

definition admin_mark_for_removal_handler ::
  "Pubkey \<Rightarrow> Config \<Rightarrow> nat \<Rightarrow> bool \<Rightarrow> bool \<Rightarrow> StewardStateV2 \<Rightarrow> StewardStateV2 result" where
  "admin_mark_for_removal_handler signer c index mark immediate s =
     and_then (check_address (get_config_admin c) signer) (\<lambda>_.
     if immediate
     then and_then (BitMask_set index mark (validators_for_immediate_removal s))
            (\<lambda>v. Ok (s\<lparr>validators_for_immediate_removal := v\<rparr>))
     else and_then (BitMask_set index mark (validators_to_remove s)) (\<lambda>v. Ok (s\<lparr>validators_to_remove := v\<rparr>)))"

definition reset_steward_state_handler ::
  "Pubkey \<Rightarrow> Config \<Rightarrow> Clock \<Rightarrow> BigVec result \<Rightarrow> StewardStateV2 \<Rightarrow> StewardStateV2 result" where
  "reset_steward_state_handler signer c clock validator_list s =
     and_then (check_address (get_config_admin c) signer) (\<lambda>_.
     and_then validator_list (\<lambda>vl.
     and_then (arith_error (checked_add U64_MAX (clock_epoch clock) (p_num_epochs_between_scoring (c_parameters c))))
       (\<lambda>next_cycle.
     Ok (clear_flags (s\<lparr>state_tag := RebalanceDirected, num_pool_validators := bv_len vl,
       validator_lamport_balances := replicate MAX_VALIDATORS LAMPORT_BALANCE_DEFAULT,
       scores := replicate MAX_VALIDATORS 0, sorted_score_indices := replicate MAX_VALIDATORS SORTED_INDEX_DEFAULT,
       raw_scores := replicate MAX_VALIDATORS 0,
       sorted_raw_score_indices := replicate MAX_VALIDATORS SORTED_INDEX_DEFAULT,
       progress := BitMask_default, current_epoch := clock_epoch clock, next_cycle_epoch := next_cycle,
       delegations := replicate MAX_VALIDATORS Delegation_default, instant_unstake := BitMask_default,
       start_computing_scores_slot := clock_slot clock, validators_to_remove := BitMask_default,
       validators_for_immediate_removal := BitMask_default, validators_added := 0\<rparr>)))))"

definition reset_validator_lamport_balances_handler ::
  "Pubkey \<Rightarrow> Config \<Rightarrow> StewardStateV2 \<Rightarrow> StewardStateV2 result" where
  "reset_validator_lamport_balances_handler signer c s =
     and_then (check_address (get_config_admin c) signer) (\<lambda>_.
     Ok (s\<lparr>validator_lamport_balances := replicate MAX_VALIDATORS LAMPORT_BALANCE_DEFAULT\<rparr>))"

section \<open>Directed stake targets\<close>

definition copy_directed_stake_targets_handler ::
  "Pubkey \<Rightarrow> Config \<Rightarrow> Clock \<Rightarrow> ValidatorListAccount \<Rightarrow> Pubkey \<Rightarrow> nat \<Rightarrow> nat \<Rightarrow> DirectedStakeMeta \<Rightarrow> DirectedStakeMeta result" where
  "copy_directed_stake_targets_handler signer c clock acc vote_pubkey target_lamports index m =
     and_then (check_authority (c_directed_stake_meta_upload_authority c) signer) (\<lambda>_.
     and_then (load_validator_list acc) (\<lambda>vl.
     and_then (vote_pubkey_at_validator_list_index vl index) (\<lambda>listed_pubkey.
     if listed_pubkey \<noteq> vote_pubkey then Err (Steward Unauthorized)
     else case get_target_index vote_pubkey m of
       Some i \<Rightarrow> update_target i (\<lambda>t. t\<lparr>total_target_lamports := target_lamports,
                    target_last_updated_epoch := clock_epoch clock\<rparr>) m
     | None \<Rightarrow>
         let i = total_stake_targets m in
         and_then (arr_set (targets m) i \<lparr>t_vote_pubkey = vote_pubkey, total_target_lamports = target_lamports,
            t_total_staked_lamports = 0, target_last_updated_epoch = clock_epoch clock,
            staked_last_updated_epoch = 0\<rparr>) (\<lambda>ts.
         and_then (plus_or_panic U64_MAX i 1) (\<lambda>n.
         and_then (arr_set (directed_stake_lamports m) index 0) (\<lambda>dl.
         and_then (arr_set (directed_stake_meta_indices m) index i) (\<lambda>di.
         Ok (m\<lparr>targets := ts, total_stake_targets := n, directed_stake_lamports := dl,
               directed_stake_meta_indices := di\<rparr>))))))))"

definition sync_step :: "BigVec \<Rightarrow> nat \<Rightarrow> DirectedStakeMeta \<Rightarrow> DirectedStakeMeta result" where
  "sync_step vl index m =
     and_then (vote_pubkey_at_validator_list_index vl index) (\<lambda>listed_pubkey.
     and_then (arr_get (directed_stake_meta_indices m) index) (\<lambda>mi.
     if mi = U64_MAX then Ok m
     else and_then (arr_get (targets m) mi) (\<lambda>t.
       if t_vote_pubkey t \<noteq> listed_pubkey then Ok m
       else set_directed index (t_total_staked_lamports t) m)))"

definition sync_directed_stake_lamports :: "BigVec \<Rightarrow> DirectedStakeMeta \<Rightarrow> DirectedStakeMeta result" where
  "sync_directed_stake_lamports vl m = for_each (sync_step vl) [0..<bv_len vl] m"

definition sync_directed_stake_lamports_handler ::
  "Pubkey \<Rightarrow> Config \<Rightarrow> ValidatorListAccount \<Rightarrow> DirectedStakeMeta \<Rightarrow> DirectedStakeMeta result" where
  "sync_directed_stake_lamports_handler signer c acc m =
     and_then (check_authority (c_directed_stake_meta_upload_authority c) signer) (\<lambda>_.
     and_then (load_validator_list acc) (\<lambda>vl. sync_directed_stake_lamports vl m))"

definition migrate_directed_to_algorithmic_handler ::
  "Pubkey \<Rightarrow> Config \<Rightarrow> Clock \<Rightarrow> DirectedStakeMeta \<Rightarrow> DirectedStakeMeta result" where
  "migrate_directed_to_algorithmic_handler signer c clock m =
     and_then (check_address (get_config_admin c) signer) (\<lambda>_.
     Ok (m\<lparr>targets := map (\<lambda>t. if t_vote_pubkey t \<noteq> Pubkey_default
              then t\<lparr>total_target_lamports := 0, t_total_staked_lamports := 0,
                     target_last_updated_epoch := clock_epoch clock, staked_last_updated_epoch := clock_epoch clock\<rparr>
              else t) (targets m),
           directed_stake_lamports := replicate MAX_VALIDATORS 0, directed_unstake_total := 0\<rparr>))"

section \<open>Whitelist and tickets\<close>

datatype DirectedStakeRecordType = ValidatorRecord | UserRecord | ProtocolRecord

definition add_to_directed_stake_whitelist_handler ::
  "Pubkey \<Rightarrow> Config \<Rightarrow> ValidatorListAccount \<Rightarrow> DirectedStakeRecordType \<Rightarrow> Pubkey \<Rightarrow> DirectedStakeWhitelist \<Rightarrow>
   DirectedStakeWhitelist result" where
  "add_to_directed_stake_whitelist_handler signer c acc record_type k w =
     and_then (check_authority (c_directed_stake_whitelist_authority c) signer) (\<lambda>_.
     case record_type of
       ValidatorRecord \<Rightarrow>
         and_then (validator_exists_in_list acc k) (\<lambda>exists.
         and_then (require exists ValidatorNotInList) (\<lambda>_. add_validator k w))
     | UserRecord \<Rightarrow> add_user_staker k w
     | ProtocolRecord \<Rightarrow> add_protocol_staker k w)"

definition remove_from_directed_stake_whitelist_handler ::
  "Pubkey \<Rightarrow> Config \<Rightarrow> DirectedStakeRecordType \<Rightarrow> Pubkey \<Rightarrow> DirectedStakeWhitelist \<Rightarrow> DirectedStakeWhitelist result" where
  "remove_from_directed_stake_whitelist_handler signer c record_type k w =
     and_then (check_authority (c_directed_stake_whitelist_authority c) signer) (\<lambda>_.
     case record_type of
       ValidatorRecord \<Rightarrow> whitelist_remove_validator k w
     | UserRecord \<Rightarrow> remove_user_staker k w
     | ProtocolRecord \<Rightarrow> remove_protocol_staker k w)"

text \<open>The three ticket instructions check the signer in the same way.\<close>

definition ticket_auth ::
  "Pubkey \<Rightarrow> DirectedStakeWhitelist \<Rightarrow> Pubkey \<Rightarrow> DirectedStakePreference list \<Rightarrow> Pubkey \<Rightarrow> unit result" where
  "ticket_auth update_authority w signer preferences override_authority =
     (if \<not> is_staker_permissioned signer w \<and> signer \<noteq> override_authority then Err (Steward Unauthorized)
      else if signer \<noteq> update_authority \<and> signer \<noteq> override_authority then Err (Steward Unauthorized)
      else if \<not> list_all (\<lambda>p. is_validator_permissioned (pr_vote_pubkey p) w) preferences then Err (Steward Unauthorized)
      else Ok ())"

definition initialize_ticket_auth :: "DirectedStakeWhitelist \<Rightarrow> Pubkey \<Rightarrow> Pubkey \<Rightarrow> Pubkey \<Rightarrow> unit result" where
  "initialize_ticket_auth w signer update_authority override_authority =
     ticket_auth update_authority w signer [] override_authority"

definition update_ticket_auth ::
  "DirectedStakeTicket \<Rightarrow> DirectedStakeWhitelist \<Rightarrow> Pubkey \<Rightarrow> DirectedStakePreference list \<Rightarrow> Pubkey \<Rightarrow> unit result" where
  "update_ticket_auth t w signer preferences override_authority =
     ticket_auth (ticket_update_authority t) w signer preferences override_authority"

definition close_ticket_auth ::
  "DirectedStakeTicket \<Rightarrow> DirectedStakeWhitelist \<Rightarrow> Pubkey \<Rightarrow> DirectedStakePreference list \<Rightarrow> Pubkey \<Rightarrow> unit result" where
  "close_ticket_auth t w signer preferences override_authority =
     ticket_auth (ticket_update_authority t) w signer preferences override_authority"

definition initialize_directed_stake_ticket_handler ::
  "Pubkey \<Rightarrow> Config \<Rightarrow> DirectedStakeWhitelist \<Rightarrow> Pubkey \<Rightarrow> bool \<Rightarrow> DirectedStakeTicket result" where
  "initialize_directed_stake_ticket_handler signer c w update_authority is_protocol =
     and_then (initialize_ticket_auth w signer update_authority (c_directed_stake_ticket_override_authority c)) (\<lambda>_.
     Ok \<lparr>num_preferences = 0,
         staker_preferences = replicate MAX_PREFERENCES_PER_TICKET DirectedStakePreference_empty,
         ticket_update_authority = update_authority, ticket_holder_is_protocol = U8Bool_from is_protocol\<rparr>)"

text \<open>
  The address of a ticket is derived from the configuration's key and the ticket's authority
  by the Solana library; that derivation is the argument \<open>ticket_address\<close>.
\<close>

definition put_preferences :: "DirectedStakePreference list \<Rightarrow> DirectedStakePreference list" where
  "put_preferences preferences =
     fold (\<lambda>(i, p) a. if i < MAX_PREFERENCES_PER_TICKET then a[i := p] else a)
       (enumerate 0 preferences) (replicate MAX_PREFERENCES_PER_TICKET DirectedStakePreference_empty)"

definition total_bps :: "DirectedStakePreference list \<Rightarrow> nat result" where
  "total_bps preferences = for_each (\<lambda>p s. plus_or_panic U32_MAX s (stake_share_bps p)) preferences 0"

definition update_directed_stake_ticket_handler ::
  "(Pubkey \<Rightarrow> Pubkey) \<Rightarrow> Pubkey \<Rightarrow> Pubkey \<Rightarrow> Config \<Rightarrow> DirectedStakeWhitelist \<Rightarrow> DirectedStakePreference list \<Rightarrow>
   DirectedStakeTicket \<Rightarrow> DirectedStakeTicket result" where
  "update_directed_stake_ticket_handler ticket_address signer ticket_key c w preferences t =
     and_then (require (ticket_key = ticket_address (ticket_update_authority t)) Unauthorized) (\<lambda>_.
     and_then (update_ticket_auth t w signer preferences (c_directed_stake_ticket_override_authority c)) (\<lambda>_.
     if MAX_PREFERENCES_PER_TICKET < length preferences then Err (Steward InvalidParameterValue)
     else and_then (total_bps preferences) (\<lambda>bps.
       if 10000 < bps then Err (Steward InvalidParameterValue)
       else Ok (t\<lparr>num_preferences := cast U16_MAX (length preferences),
                  staker_preferences := put_preferences preferences\<rparr>))))"

text \<open>Closing a ticket succeeds with no value: the account is closed by the framework.\<close>

definition close_directed_stake_ticket_handler ::
  "(Pubkey \<Rightarrow> Pubkey) \<Rightarrow> Pubkey \<Rightarrow> Pubkey \<Rightarrow> Config \<Rightarrow> DirectedStakeWhitelist \<Rightarrow> DirectedStakeTicket \<Rightarrow> unit result" where
  "close_directed_stake_ticket_handler ticket_address signer ticket_key c w t =
     and_then (require (ticket_key = ticket_address (ticket_update_authority t)) Unauthorized) (\<lambda>_.
     close_ticket_auth t w signer [] (c_directed_stake_ticket_override_authority c))"

section \<open>Accounts that grow to their full size\<close>

text \<open>
  Accounts larger than one allocation are grown step by step and initialised once they have
  their full size; \<open>initialized\<close> is the byte that the code tests for that.
\<close>

definition MAX_ALLOC_BYTES :: nat where "MAX_ALLOC_BYTES = 10240"

definition get_realloc_size :: "nat \<Rightarrow> nat \<Rightarrow> nat result" where
  "get_realloc_size full_size account_size =
     (if account_size < full_size
      then and_then (arith_error (checked_add U64_MAX account_size MAX_ALLOC_BYTES)) (\<lambda>n. Ok (min full_size n))
      else Ok account_size)"

definition realloc_directed_stake_meta_handler ::
  "nat \<Rightarrow> nat \<Rightarrow> bool \<Rightarrow> DirectedStakeMeta \<Rightarrow> DirectedStakeMeta" where
  "realloc_directed_stake_meta_handler full_size account_size initialized m =
     (if full_size \<le> account_size \<and> \<not> (full_size \<le> account_size \<and> initialized)
      then m\<lparr>targets := replicate MAX_VALIDATORS DirectedStakeTarget_default,
             directed_stake_lamports := replicate MAX_VALIDATORS 0,
             directed_stake_meta_indices := replicate MAX_VALIDATORS U64_MAX,
             dm_is_initialized := U8Bool_from True\<rparr>
      else m)"

definition realloc_directed_stake_whitelist_handler ::
  "nat \<Rightarrow> nat \<Rightarrow> bool \<Rightarrow> DirectedStakeWhitelist \<Rightarrow> DirectedStakeWhitelist" where
  "realloc_directed_stake_whitelist_handler full_size account_size initialized w =
     (if full_size \<le> account_size \<and> \<not> (full_size \<le> account_size \<and> initialized)
      then w\<lparr>permissioned_user_stakers := replicate MAX_PERMISSIONED_DIRECTED_STAKERS Pubkey_default,
             permissioned_protocol_stakers := replicate MAX_PERMISSIONED_DIRECTED_STAKERS Pubkey_default,
             permissioned_validators := replicate MAX_VALIDATORS Pubkey_default,
             total_permissioned_user_stakers := 0, total_permissioned_protocol_stakers := 0,
             total_permissioned_validators := 0, wl_is_initialized := U8Bool_from True\<rparr>
      else w)"

end
