(* ===== verification/Crank_Invariants.thy ===== *)
theory Crank_Invariants
  imports Crank
begin

text \<open>
  Well-formedness of the steward's state and of the directed stake meta under every crank
  instruction, as an inductive step relation and its reachable states.
\<close>

section \<open>Operations keep the state well formed\<close>

lemma ok_all_loop:
  "P s \<Longrightarrow> (\<And>x s. x \<in> set xs \<Longrightarrow> P s \<Longrightarrow> ok_all P (f x s)) \<Longrightarrow> ok_all P (for_each f xs s)"
  by (auto simp: ok_all_def intro: for_each_invariant [where I = P])

lemma arr_set_length: "ok_all (\<lambda>ys. length ys = length xs) (arr_set xs i v)"
  by (auto simp: ok_all_def arr_set_eq_Inr)

lemma insert_sorted_index_length:
  "ok_all (\<lambda>ys. length ys = length xs) (insert_sorted_index xs scs i sc n)"
  unfolding insert_sorted_index_def Let_def
proof (intro ok_all_if ok_all_bind, goal_cases)
  case (2 prefix pos ys)
  have "length ys = length xs"
    by (rule for_each_invariant [OF 2(4)]) (auto simp: and_then_eq_Inr arr_set_eq_Inr)
  then show ?case using arr_set_length by metis
qed simp

lemma store_scores_wf:
  assumes "state_wf s"
  shows "ok_all state_wf (store_scores i a b s)"
  unfolding store_scores_def Let_def
proof (intro ok_all_bind, goal_cases)
  case (1 scs raws ss sr pr)
  have "length ss = length (sorted_score_indices s)" "length sr = length (sorted_raw_score_indices s)"
    using ok_allD [OF insert_sorted_index_length] 1(3,4) by blast+
  moreover have "mask_invar MAX_VALIDATORS pr" using bm.set_ok_D [OF 1(5)] assms by (simp add: state_wf_def)
  ultimately show ?case using 1(1,2) assms by (simp add: state_wf_def arr_set_eq_Inr)
qed

lemma maybe_start_cycle_wf:
  assumes "state_wf s"
  shows "ok_all state_wf (maybe_start_cycle clock config n s)"
  unfolding maybe_start_cycle_def
proof (intro ok_all_bind ok_all_if, goal_cases)
  case (1 slots t sum u)
  then show ?case using assms reset_state_fields [OF 1(3)]
    by (simp add: state_wf_def require_eq_Inr plus_or_panic_def ok_or_eq_Inr checked_add_eq_Some)
qed (simp add: assms)

lemma compute_score_wf:
  assumes wf: "state_wf s"
  shows "ok_all (\<lambda>(t, _). state_wf t) (compute_score clock es v i cluster config n s)"
proof (unfold ok_all_def, intro allI impI)
  fix x assume ok: "compute_score clock es v i cluster config n s = Ok x"
  obtain t where t: "maybe_start_cycle clock config n s = Ok t"
    using ok by (auto simp: compute_score_def and_then_eq_Inr split: if_splits)
  have "fst x = t \<or> (\<exists>a b. store_scores i a b t = Ok (fst x))"
    using ok t by (auto simp: compute_score_def and_then_eq_Inr split: if_splits)
  then show "case x of (t, _) \<Rightarrow> state_wf t"
    using ok_allD [OF maybe_start_cycle_wf [OF wf] t] ok_allD [OF store_scores_wf]
    by (auto split: prod.splits)
qed

lemma compute_delegations_wf:
  assumes "state_wf s"
  shows "ok_all state_wf (compute_delegations epoch config s)"
  unfolding compute_delegations_def
proof (intro ok_all_if ok_all_bind, goal_cases)
  case (3 scs ss chosen ds)
  have "length ds = length (delegations s)"
    by (rule for_each_invariant [OF 3(6)]) (auto simp: arr_set_eq_Inr)
  then show ?case using assms by (simp add: state_wf_def)
qed simp_all

lemma compute_instant_unstake_wf:
  assumes "state_wf s"
  shows "ok_all (\<lambda>(t, _). state_wf t) (compute_instant_unstake clock es v i cluster config s)"
  unfolding compute_instant_unstake_def Let_def
proof (intro ok_all_if ok_all_bind, goal_cases)
  case (5 prog dn tr mk pr)
  then show ?case using assms bm.set_ok_D [of i True "progress s" pr] by (simp add: state_wf_def)
next
  case (8 prog dn tr mk slot last r iu pr)
  then show ?case
    using assms bm.set_ok_D [of i True "progress s" pr] bm.set_ok_D [of i "iu_instant_unstake r" "instant_unstake s" iu]
    by (simp add: state_wf_def)
qed (simp_all add: assms)

lemma apply_rebalance_wf:
  assumes "apply_rebalance i r s = Ok t" "state_wf s"
  shows "state_wf t"
  using apply_rebalance_frame [OF assms(1)] assms(2) by (simp add: state_wf_def moves_only_def)

lemma rebalance_wf:
  assumes wf: "state_wf s"
  shows "ok_all (\<lambda>(t, _). state_wf t) (rebalance m epoch i vl pool reserve current md rent params s)"
  unfolding rebalance_def Let_def
proof (intro ok_all_if ok_all_bind, goal_cases)
  case (4 dn tr mk pr)
  then show ?case using wf bm.set_ok_D [of i True "progress s" pr] by (simp add: state_wf_def)
next
  case (5 dn tr mk base all left minimum fixed pool' d target directed balance balances r t pr)
  have "length balances = length (validator_lamport_balances s)" using 5 by (auto simp: arr_set_eq_Inr)
  then have "state_wf (s\<lparr>validator_lamport_balances := balances\<rparr>)" using wf by (simp add: state_wf_def)
  then have "state_wf t" using apply_rebalance_wf 5 by blast
  then show ?case using bm.set_ok_D [of i True "progress t" pr] 5 by (simp add: state_wf_def)
qed (simp_all add: wf)

lemma shift_validator_state_wf:
  assumes "state_wf (fst p)" "meta_wf (snd p)"
  shows "ok_all (\<lambda>p. state_wf (fst p) \<and> meta_wf (snd p)) (shift_validator_state i p)"
proof -
  obtain s m where p: "p = (s, m)" by (cases p)
  show ?thesis unfolding p shift_validator_state_def case_prod_conv
  proof (intro ok_all_bind, goal_cases)
    case (1 n balances scs raws ds iu pr dl di)
    have "mask_invar MAX_VALIDATORS iu" "mask_invar MAX_VALIDATORS pr"
      using 1(6,7) assms p bm.set_ok_D by (auto simp: copy_bit_def and_then_eq_Inr state_wf_def)
    then show ?case using 1(2-5,8,9) assms p
      by (auto simp: copy_from_def and_then_eq_Inr arr_set_eq_Inr state_wf_def meta_wf_def)
  qed
qed

lemma shift_removal_marks_wf:
  assumes "state_wf s"
  shows "ok_all state_wf (shift_removal_marks i s)"
  unfolding shift_removal_marks_def
proof (intro ok_all_bind, goal_cases)
  case (1 n vr vi)
  then have "mask_invar MAX_VALIDATORS vr" "mask_invar MAX_VALIDATORS vi"
    using assms bm.set_ok_D by (auto simp: copy_bit_def and_then_eq_Inr state_wf_def)
  then show ?case using assms by (simp add: state_wf_def)
qed

lemma drop_sorted_index_length: "ok_all (\<lambda>ys. length ys = length xs) (drop_sorted_index i n xs)"
proof (cases "find_index (\<lambda>j. j = cast U16_MAX i) xs")
  case (Some p)
  have "ok_all (\<lambda>ys. length ys = length xs) (for_each (\<lambda>i ys. and_then (next_index i) (\<lambda>next_i. copy_from next_i i ys)) [p..<n] xs)"
    by (rule ok_all_loop) (auto simp: ok_all_def copy_from_def and_then_eq_Inr arr_set_eq_Inr)
  then show ?thesis using Some by (simp add: drop_sorted_index_def)
qed (simp add: drop_sorted_index_def)

lemma renumber_at_length: "ok_all (\<lambda>ys. length ys = length xs) (renumber_at i j xs)"
  by (auto simp: ok_all_def renumber_at_def and_then_eq_Inr arr_set_eq_Inr split: if_splits)

abbreviation pair_wf :: "StewardStateV2 \<times> DirectedStakeMeta \<Rightarrow> bool" where
  "pair_wf p \<equiv> state_wf (fst p) \<and> meta_wf (snd p)"

lemma clear_last_wf:
  assumes "state_wf s" "meta_wf m"
  shows "ok_all pair_wf (clear_last n k (s, m))"
  unfolding clear_last_def case_prod_conv
proof (intro ok_all_bind, goal_cases)
  case (1 balances dl di scs raws ss sr ds iu pr vr vi)
  have "mask_invar MAX_VALIDATORS iu" "mask_invar MAX_VALIDATORS pr" "mask_invar MAX_VALIDATORS vr"
    "mask_invar MAX_VALIDATORS vi"
    using 1(9-12) [THEN bm.set_ok_D] assms by (simp_all add: state_wf_def)
  then show ?case using 1(1-8) assms by (simp add: state_wf_def meta_wf_def arr_set_eq_Inr)
qed

lemma remove_validator_wf:
  assumes wf: "state_wf s" "meta_wf m"
  shows "ok_all pair_wf (remove_validator i s m)"
  unfolding remove_validator_def Let_def
proof (intro ok_all_bind ok_all_split, goal_cases)
  case (1 mr mi _ total _ s0 total' p s1 m1 s2 sr ss q sr' ss')
  have s0: "state_wf s0"
    using 1(6) wf(1) by (auto simp: state_wf_def and_then_eq_Inr ok_or_eq_Inr checked_sub_eq_Some split: if_splits)
  have p: "pair_wf p"
    by (rule ok_allD [OF ok_all_loop 1(8)]) (use s0 wf(2) shift_validator_state_wf in auto)
  have s2: "state_wf s2"
    by (rule ok_allD [OF ok_all_loop 1(10)]) (use p 1(9) shift_removal_marks_wf in auto)
  have len: "length sr = MAX_VALIDATORS" "length ss = MAX_VALIDATORS"
    using ok_allD [OF drop_sorted_index_length 1(11)] ok_allD [OF drop_sorted_index_length 1(12)] s2
    by (simp_all add: state_wf_def)
  have "length (fst q) = MAX_VALIDATORS \<and> length (snd q) = MAX_VALIDATORS"
    by (rule for_each_invariant [OF 1(13)])
       (use len in \<open>auto simp: and_then_eq_Inr dest!: ok_allD [OF renumber_at_length]\<close>)
  then have "state_wf (s2\<lparr>sorted_raw_score_indices := sr', sorted_score_indices := ss'\<rparr>)"
    using s2 1(14) by (simp add: state_wf_def)
  then show ?case using clear_last_wf p 1(9) by simp
qed

section \<open>Directed rebalancing keeps the accounts well formed\<close>

lemma update_target_wf: "meta_wf m \<Longrightarrow> ok_all meta_wf (update_target i f m)"
  by (auto simp: ok_all_def update_target_def and_then_eq_Inr arr_set_eq_Inr meta_wf_def)

lemma set_directed_wf: "meta_wf m \<Longrightarrow> ok_all meta_wf (set_directed i v m)"
  by (auto simp: ok_all_def set_directed_def and_then_eq_Inr arr_set_eq_Inr meta_wf_def)

lemma set_balance_wf: "state_wf s \<Longrightarrow> ok_all state_wf (set_balance i v s)"
  by (auto simp: ok_all_def set_balance_def and_then_eq_Inr arr_set_eq_Inr state_wf_def)

text \<open>Rules that step through a sequence of such updates; reads and checks keep everything.\<close>

lemma reads_any: "ok_all (\<lambda>_. True) (arr_get xs i)" "ok_all (\<lambda>_. True) (ok_or x e)"
  by (simp_all add: ok_all_def)

lemmas wf_steps =
  ok_all_with [OF update_target_wf] ok_all_with [OF set_directed_wf] ok_all_with [OF set_balance_wf]
  ok_all_with [OF reads_any(1)] ok_all_with [OF reads_any(2)] ok_all_if

lemma adjust_directed_wf:
  assumes "state_wf s" "meta_wf m"
  shows "ok_all (\<lambda>(m', s'). pair_wf (s', m')) (adjust_directed_stake_for_deposits_and_withdrawals listed i mi m s)"
  unfolding adjust_directed_stake_for_deposits_and_withdrawals_def Let_def
    add_to_total_staked_lamports_def subtract_from_total_staked_lamports_def
proof (intro ok_all_with [OF reads_any(1)], rule ok_all_with [where Q = "\<lambda>(m', s'). pair_wf (s', m')"], goal_cases)
  case (1 balance t)
  show ?case by (intro wf_steps) (use assms in auto)
next
  case (2 balance t p)
  obtain m1 s1 where p: "p = (m1, s1)" "meta_wf m1" "state_wf s1" using 2 by (cases p) auto
  show ?case unfolding p(1) case_prod_conv by (intro wf_steps) (use p in auto)
qed

lemma apply_directed_rebalance_wf:
  assumes "state_wf s" "meta_wf m"
  shows "ok_all (\<lambda>(m', s'). pair_wf (s', m')) (apply_directed_rebalance i mi r m s)"
proof (cases r)
  case (Increase x)
  show ?thesis
    unfolding Increase apply_directed_rebalance_def Let_def add_to_total_staked_lamports_def RebalanceType.case
    by (intro wf_steps) (use assms in auto)
next
  case (Decrease c)
  show ?thesis
    unfolding Decrease apply_directed_rebalance_def Let_def subtract_from_total_staked_lamports_def RebalanceType.case
    by (intro wf_steps) (use assms in auto)
qed (use assms in \<open>simp add: apply_directed_rebalance_def\<close>)

lemma maybe_transition_wf: "state_wf s \<Longrightarrow> ok_all (\<lambda>(t, _). state_wf t) (maybe_transition clock params es s)"
  using maybe_transition_frame by (auto simp: ok_all_def)

lemma finish_directed_wf:
  assumes "state_wf s" "meta_wf m"
  shows "ok_all (\<lambda>(m', s', _). pair_wf (s', m')) (finish_directed clock es config k mi r m s)"
  unfolding finish_directed_def Let_def update_staked_last_updated_epoch_def
proof (intro ok_all_bind ok_all_split, goal_cases)
  case (1 m1 p t ev)
  have "meta_wf m1" using ok_allD [OF update_target_wf [OF assms(2)] 1(1)] .
  then show ?case using ok_allD [OF maybe_transition_wf 1(2)] 1(3) assms(1)
    by (auto simp: meta_wf_def split: RebalanceType.splits)
qed

lemma rebalance_directed_wf:
  assumes "state_wf s" "meta_wf m"
  shows "ok_all (\<lambda>(m', s', _). pair_wf (s', m')) (rebalance_directed_handler accs clock es config mi m s)"
proof (unfold ok_all_def, intro allI impI)
  fix x assume ok: "rebalance_directed_handler accs clock es config mi m s = Ok x"
  obtain m' s' evs where x: "x = (m', s', evs)" by (cases x)
  consider (missing) "directed_missing_validator clock es config mi m s = Ok x"
    | (found) listed i m1 s1 s2 ev where
        "adjust_directed_stake_for_deposits_and_withdrawals listed i mi m s = Ok (m1, s1)"
        "maybe_transition clock (c_parameters config) es (mark_if_all_rebalanced (clock_epoch clock) m1 s1) = Ok (s2, ev)"
        "x = (m1, s2, evs) \<or> (\<exists>r m3 s3. apply_directed_rebalance i mi r m1 s2 = Ok (m3, s3) \<and>
           finish_directed clock es config (da_vote_account accs) mi r m3 s3 = Ok x)"
    using ok x by (fastforce simp: rebalance_directed_handler_def and_then_eq_Inr split: if_splits option.splits)
  then have "pair_wf (s', m')"
  proof cases
    case missing
    then obtain m1 ev where a: "update_target mi (\<lambda>t. t\<lparr>staked_last_updated_epoch := clock_epoch clock\<rparr>) m = Ok m1"
      "maybe_transition clock (c_parameters config) es (mark_if_all_rebalanced (clock_epoch clock) m1 s) = Ok (s', ev)"
      "m' = m1"
      using x by (auto simp: directed_missing_validator_def update_staked_last_updated_epoch_def and_then_eq_Inr)
    then show ?thesis
      using ok_allD [OF update_target_wf [OF assms(2)] a(1)] ok_allD [OF maybe_transition_wf a(2)] assms(1) by simp
  next
    case found
    have w1: "state_wf s1" "meta_wf m1" using ok_allD [OF adjust_directed_wf [OF assms] found(1)] by simp_all
    have w2: "state_wf s2" using ok_allD [OF maybe_transition_wf found(2)] w1 by simp
    from found(3) show ?thesis
    proof (elim disjE exE conjE)
      fix r m3 s3 assume a: "apply_directed_rebalance i mi r m1 s2 = Ok (m3, s3)"
        and f: "finish_directed clock es config (da_vote_account accs) mi r m3 s3 = Ok x"
      show ?thesis using ok_allD [OF apply_directed_rebalance_wf [OF w2 w1(2)] a] ok_allD [OF finish_directed_wf f] x by simp
    qed (use x w1 w2 in simp)
  qed
  then show "case x of (m', s', _) \<Rightarrow> pair_wf (s', m')" using x by simp
qed

section \<open>Every instruction keeps the state well formed\<close>

lemma ok_all_option:
  "(p = None \<Longrightarrow> ok_all P r) \<Longrightarrow> (\<And>x. p = Some x \<Longrightarrow> ok_all P (f x)) \<Longrightarrow>
   ok_all P (case p of None \<Rightarrow> r | Some x \<Rightarrow> f x)"
  by (cases p) simp_all

lemma checks_any:
  "ok_all (\<lambda>_. True) (state_checks clock config s acc x)" "ok_all (\<lambda>_. True) (require c err)"
  "ok_all (\<lambda>_. True) (get_validator_stake_info_at_index e i)" "ok_all (\<lambda>_. True) (get_validator_list_length acc)"
  by (simp_all add: ok_all_def)

lemma forced_transition_wf:
  "state_wf s \<Longrightarrow> ok_all (\<lambda>(t, _). state_wf t) (if c then maybe_transition clock params es s else Ok (s, None))"
  using maybe_transition_wf by simp

lemmas handler_steps = ok_all_with [OF maybe_transition_wf] ok_all_with [OF forced_transition_wf]
  ok_all_with [OF compute_score_wf] ok_all_with [OF compute_delegations_wf] ok_all_with [OF compute_instant_unstake_wf]
  ok_all_with [OF checks_any(1)] ok_all_with [OF checks_any(2)] ok_all_with [OF checks_any(3)]
  ok_all_with [OF checks_any(4)] ok_all_split ok_all_option

lemma compute_score_handler_wf: "state_wf s \<Longrightarrow> ok_all (\<lambda>(t, _). state_wf t) (compute_score_handler e v c i s)"
  unfolding compute_score_handler_def by (intro handler_steps) simp_all

lemma compute_delegations_handler_wf: "state_wf s \<Longrightarrow> ok_all (\<lambda>(t, _). state_wf t) (compute_delegations_handler e s)"
  unfolding compute_delegations_handler_def by (intro handler_steps) simp_all

lemma compute_instant_unstake_handler_wf:
  "state_wf s \<Longrightarrow> ok_all (\<lambda>(t, _). state_wf t) (compute_instant_unstake_handler e v c i s)"
  unfolding compute_instant_unstake_handler_def by (intro handler_steps) simp_all

lemma idle_handler_wf: "state_wf s \<Longrightarrow> ok_all (\<lambda>(t, _). state_wf t) (idle_handler e s)"
  unfolding idle_handler_def by (intro handler_steps) simp_all

lemma mask_set_wf: "mask_invar MAX_VALIDATORS m \<Longrightarrow> ok_all (mask_invar MAX_VALIDATORS) (BitMask_set i v m)"
  using bm.set_ok_D by (auto simp: ok_all_def)

lemma state_wf_masks:
  "state_wf s \<Longrightarrow> mask_invar MAX_VALIDATORS (progress s)"
  "state_wf s \<Longrightarrow> mask_invar MAX_VALIDATORS (validators_to_remove s)"
  "state_wf s \<Longrightarrow> mask_invar MAX_VALIDATORS (validators_for_immediate_removal s)"
  "state_wf s \<Longrightarrow> mask_invar MAX_VALIDATORS pr \<Longrightarrow> state_wf (s\<lparr>progress := pr\<rparr>)"
  "state_wf s \<Longrightarrow> mask_invar MAX_VALIDATORS pr \<Longrightarrow> state_wf (s\<lparr>validators_to_remove := pr\<rparr>)"
  "state_wf s \<Longrightarrow> mask_invar MAX_VALIDATORS pr \<Longrightarrow> state_wf (s\<lparr>validators_for_immediate_removal := pr\<rparr>)"
  by (simp_all add: state_wf_def)

lemma rebalance_any:
  "ok_all (\<lambda>_. True) (e_list e)" "ok_all (\<lambda>_. True) (ra_stake_state a)" "ok_all (\<lambda>_. True) (ra_stake_pool_total a)"
  "ok_all (\<lambda>_. True) (if c then Ok True else BitMask_get i msk)"
  "ok_all (\<lambda>_. True) (case r of RebalanceNone \<Rightarrow> Ok () | Increase _ \<Rightarrow> ra_invoke a r x | Decrease _ \<Rightarrow> ra_invoke a r x)"
  by (simp_all add: ok_all_def)

lemmas rebalance_steps = handler_steps ok_all_with [OF rebalance_wf] ok_all_with [OF mask_set_wf] ok_all_if
  ok_all_with [OF rebalance_any(1)] ok_all_with [OF rebalance_any(2)] ok_all_with [OF rebalance_any(3)]
  ok_all_with [OF rebalance_any(4)] ok_all_with [OF rebalance_any(5)] ok_all_with [OF reads_any(2)]

lemma rebalance_handler_wf: "state_wf s \<Longrightarrow> ok_all (\<lambda>(t, _). state_wf t) (rebalance_handler e a m i s)"
  unfolding rebalance_handler_def Let_def
  by (intro rebalance_steps) (simp_all add: state_wf_masks)

lemma mark_removal_wf:
  "state_wf s \<Longrightarrow> ok_all state_wf (mark_validator_for_removal i s)"
  "state_wf s \<Longrightarrow> ok_all state_wf (mark_validator_for_immediate_removal i s)"
  unfolding mark_validator_for_removal_def mark_validator_for_immediate_removal_def
  by (intro ok_all_with [OF mask_set_wf]; simp add: state_wf_masks)+

lemma auto_remove_handler_wf: "state_wf s \<Longrightarrow> ok_all (\<lambda>(t, _). state_wf t) (auto_remove_validator_handler e a i s)"
proof -
  assume wf: "state_wf s"
  have "ok_all (\<lambda>(t, _). state_wf t) (mark_removed_validator a epoch i status lockup s)" for epoch status lockup
    unfolding mark_removed_validator_def Let_def
    by (cases status) (simp_all, (intro ok_all_with [OF mark_removal_wf(1)] ok_all_with [OF mark_removal_wf(2)] ok_all_if
          | rule ok_all_any | simp add: wf)+)
  note mark = this
  show ?thesis unfolding auto_remove_validator_handler_def Let_def
    by (intro ok_all_with [OF mark] ok_all_split | rule ok_all_any)+ simp
qed

lemma start_epoch_wf: "state_wf s \<Longrightarrow> meta_wf m \<Longrightarrow> pair_wf (start_epoch epoch s m)"
  by (simp add: start_epoch_def Let_def state_wf_def meta_wf_def)

lemma maybe_remove_wf:
  assumes "state_wf s" "meta_wf m"
  shows "ok_all pair_wf (case i of None \<Rightarrow> Ok (unset_flag f s, m) | Some j \<Rightarrow> remove_validator j (unset_flag f s) m)"
proof -
  have "state_wf (unset_flag f s)" using assms(1) by (simp add: state_wf_def)
  then show ?thesis using remove_validator_wf [OF _ assms(2)] assms(2) by (cases i) simp_all
qed

lemma epoch_maintenance_success:
  assumes "epoch_maintenance_handler e u i s m = Ok (s', m', evs)"
  shows "u = Ok (clock_epoch (e_clock e)) \<and> current_epoch s < clock_epoch (e_clock e) \<and>
    (\<exists>p. (case i of None \<Rightarrow> Ok (unset_flag EPOCH_MAINTENANCE s, m)
        | Some j \<Rightarrow> remove_validator j (unset_flag EPOCH_MAINTENANCE s) m) = Ok p \<and>
      (s', m') = (if mask_is_empty (validators_to_remove (fst p)) \<and> mask_is_empty (validators_for_immediate_removal (fst p))
         then start_epoch (clock_epoch (e_clock e)) (fst p) (snd p) else p))"
proof -
  obtain p where p: "(case i of None \<Rightarrow> Ok (unset_flag EPOCH_MAINTENANCE s, m)
        | Some j \<Rightarrow> remove_validator j (unset_flag EPOCH_MAINTENANCE s) m) = Ok p"
    using assms by (auto simp: epoch_maintenance_handler_def Let_def and_then_eq_Inr)
  show ?thesis
    using assms p
    by (auto simp: epoch_maintenance_handler_def Let_def and_then_eq_Inr require_eq_Inr case_prod_unfold prod_eq_iff)
qed

lemma epoch_maintenance_handler_wf:
  assumes "state_wf s" "meta_wf m"
  shows "ok_all (\<lambda>(s', m', _). pair_wf (s', m')) (epoch_maintenance_handler e u i s m)"
proof (unfold ok_all_def, intro allI impI)
  fix x assume ok: "epoch_maintenance_handler e u i s m = Ok x"
  obtain s' m' evs where x: "x = (s', m', evs)" by (cases x)
  obtain p where p: "(case i of None \<Rightarrow> Ok (unset_flag EPOCH_MAINTENANCE s, m)
        | Some j \<Rightarrow> remove_validator j (unset_flag EPOCH_MAINTENANCE s) m) = Ok p" and
    eq: "(s', m') = (if mask_is_empty (validators_to_remove (fst p)) \<and> mask_is_empty (validators_for_immediate_removal (fst p))
         then start_epoch (clock_epoch (e_clock e)) (fst p) (snd p) else p)"
    using epoch_maintenance_success ok x by blast
  have "pair_wf p" by (rule ok_allD [OF maybe_remove_wf [OF assms] p])
  then have "pair_wf (s', m')" using start_epoch_wf eq by metis
  then show "case x of (s', m', _) \<Rightarrow> pair_wf (s', m')" using x by simp
qed

lemma instant_remove_handler_wf:
  assumes "state_wf s" "meta_wf m"
  shows "ok_all pair_wf (instant_remove_validator_handler e u i s m)"
  unfolding instant_remove_validator_handler_def Let_def
  by (rule ok_all_any)+ (rule remove_validator_wf [OF assms])

lemma auto_add_handler_wf:
  assumes "state_wf s"
  shows "ok_all (\<lambda>(t, _). state_wf t) (auto_add_validator_handler e v k add s)"
  unfolding auto_add_validator_handler_def Let_def
proof (intro ok_all_bind ok_all_if, goal_cases)
  case (2 _ n next_len last _ t _)
  have "num_pool_validators s + validators_added s = n"
    using 2(1,2) by (auto simp: add_validator_check_def list_matches_state_def and_then_eq_Inr require_eq_Inr
        plus_or_panic_def ok_or_eq_Inr checked_add_eq_Some split: if_splits)
  moreover have "Suc n \<le> MAX_VALIDATORS"
    using 2(3,4) by (auto simp: unwrap_def checked_add_def split: if_splits)
  ultimately show ?case using 2(7) assms
    by (auto simp: increment_validator_to_add_def and_then_eq_Inr ok_or_eq_Inr checked_add_eq_Some state_wf_def)
qed simp

end
