(* ===== verification/Passthrough.thy ===== *)
theory Passthrough
  imports Admin Crank_Invariants
begin

text \<open>
  The stake pool instructions that the steward's admin may send through the steward
  (programs/steward/src/instructions/spl_passthrough.rs): adding and removing validators,
  moving stake by hand, the preferred validator and the staker. The instruction of the stake
  pool itself is an argument, its outcome; what the steward checks before it and records
  around it is the model. A lemma says what such an instruction cannot touch.
\<close>

section \<open>Operations\<close>

definition add_validator_to_pool_handler ::
  "Pubkey \<Rightarrow> crank_env \<Rightarrow> unit result \<Rightarrow> StewardStateV2 \<Rightarrow> StewardStateV2 result" where
  "add_validator_to_pool_handler signer e add_validator_to_pool s =
     and_then (check_address (get_config_admin (e_config e)) signer) (\<lambda>_.
     and_then (require (clock_epoch (e_clock e) = current_epoch s) EpochMaintenanceNotComplete) (\<lambda>_.
     and_then (e_list e) (\<lambda>(_, validator_list).
     and_then (ok_or (checked_add U32_MAX (bv_len validator_list) 1) Panic) (\<lambda>n.
     if MAX_VALIDATORS < n then Err (Steward MaxValidatorsReached)
     else and_then (increment_validator_to_add s) (\<lambda>s.
       and_then add_validator_to_pool (\<lambda>_. Ok s))))))"

text \<open>
  \<open>stake_address\<close> is the stake pool library's derivation of a validator's stake account from
  its entry in the list; \<open>stake_key\<close> is the account that was given.
\<close>

definition remove_validator_from_pool_handler ::
  "Pubkey \<Rightarrow> crank_env \<Rightarrow> (ValidatorStakeInfo \<Rightarrow> Pubkey) \<Rightarrow> Pubkey \<Rightarrow> remove_accounts \<Rightarrow> nat \<Rightarrow> StewardStateV2 \<Rightarrow>
   StewardStateV2 result" where
  "remove_validator_from_pool_handler signer e stake_address stake_key a index s =
     (let epoch = clock_epoch (e_clock e) in
     and_then (check_address (get_config_admin (e_config e)) signer) (\<lambda>_.
     and_then (require (epoch = current_epoch s) EpochMaintenanceNotComplete) (\<lambda>_.
     and_then (if index < num_pool_validators s
         then and_then (get_validator_stake_info_at_index e index) (\<lambda>info.
              require (stake_address info = stake_key) ValidatorNotInList)
         else Ok ()) (\<lambda>_.
     and_then (rm_remove_from_pool a) (\<lambda>_.
     and_then (get_validator_stake_info_at_index (e\<lparr>e_list := rm_list_after a\<rparr>) index) (\<lambda>info.
     and_then (rm_status a (status_byte info)) (\<lambda>status.
     and_then (rm_pool_lockup a) (\<lambda>lockup.
     and_then (mark_removed_validator a epoch index status lockup s) (\<lambda>(s, _). Ok s)))))))))"

text \<open>
  The four instructions that move stake record the amount in the balance at the index of the
  validator's history; a balance that is not known yet stays so.
\<close>

definition record_stake_move :: "(nat \<Rightarrow> nat \<Rightarrow> nat option) \<Rightarrow> nat \<Rightarrow> nat \<Rightarrow> StewardStateV2 \<Rightarrow> StewardStateV2 result" where
  "record_stake_move calc index lamports s =
     (if index < length (validator_lamport_balances s) then
        let balance = validator_lamport_balances s ! index in
        if balance \<noteq> LAMPORT_BALANCE_DEFAULT
        then and_then (arith_error (calc balance lamports)) (\<lambda>v.
          Ok (s\<lparr>validator_lamport_balances := (validator_lamport_balances s)[index := v]\<rparr>))
        else Ok s
      else Err (Steward ValidatorIndexOutOfBounds))"

definition move_stake_handler ::
  "(nat \<Rightarrow> nat \<Rightarrow> nat option) \<Rightarrow> Pubkey \<Rightarrow> Config \<Rightarrow> ValidatorHistory \<Rightarrow> nat \<Rightarrow> unit result \<Rightarrow> StewardStateV2 \<Rightarrow>
   StewardStateV2 result" where
  "move_stake_handler calc signer config validator_history lamports outcome s =
     and_then (check_address (get_config_admin config) signer) (\<lambda>_.
     and_then (record_stake_move calc (vh_index validator_history) lamports s) (\<lambda>s.
     and_then outcome (\<lambda>_. Ok s)))"

definition increase_validator_stake_handler ::
  "Pubkey \<Rightarrow> Config \<Rightarrow> ValidatorHistory \<Rightarrow> nat \<Rightarrow> unit result \<Rightarrow> StewardStateV2 \<Rightarrow> StewardStateV2 result" where
  "increase_validator_stake_handler = move_stake_handler (checked_add U64_MAX)"

definition decrease_validator_stake_handler ::
  "Pubkey \<Rightarrow> Config \<Rightarrow> ValidatorHistory \<Rightarrow> nat \<Rightarrow> unit result \<Rightarrow> StewardStateV2 \<Rightarrow> StewardStateV2 result" where
  "decrease_validator_stake_handler = move_stake_handler checked_sub"

definition increase_additional_validator_stake_handler ::
  "Pubkey \<Rightarrow> Config \<Rightarrow> ValidatorHistory \<Rightarrow> nat \<Rightarrow> unit result \<Rightarrow> StewardStateV2 \<Rightarrow> StewardStateV2 result" where
  "increase_additional_validator_stake_handler = move_stake_handler (checked_add U64_MAX)"

definition decrease_additional_validator_stake_handler ::
  "Pubkey \<Rightarrow> Config \<Rightarrow> ValidatorHistory \<Rightarrow> nat \<Rightarrow> unit result \<Rightarrow> StewardStateV2 \<Rightarrow> StewardStateV2 result" where
  "decrease_additional_validator_stake_handler = move_stake_handler checked_sub"

definition set_preferred_validator_handler :: "Pubkey \<Rightarrow> Config \<Rightarrow> unit result \<Rightarrow> unit result" where
  "set_preferred_validator_handler signer config set_preferred_validator =
     and_then (check_address (get_config_admin config) signer) (\<lambda>_. set_preferred_validator)"

definition set_staker_handler :: "Pubkey \<Rightarrow> Config \<Rightarrow> unit result \<Rightarrow> unit result" where
  "set_staker_handler signer config set_staker =
     and_then (check_address (get_config_admin config) signer) (\<lambda>_. set_staker)"

section \<open>What passes through\<close>

inductive passthrough_step :: "Pubkey \<Rightarrow> Config \<Rightarrow> StewardStateV2 \<Rightarrow> StewardStateV2 \<Rightarrow> bool" for signer config where
  add: "add_validator_to_pool_handler signer e r s = Ok s' \<Longrightarrow> e_config e = config \<Longrightarrow> passthrough_step signer config s s'"
| remove: "remove_validator_from_pool_handler signer e addr k a i s = Ok s' \<Longrightarrow> e_config e = config \<Longrightarrow>
    passthrough_step signer config s s'"
| increase: "increase_validator_stake_handler signer config v x r s = Ok s' \<Longrightarrow> passthrough_step signer config s s'"
| decrease: "decrease_validator_stake_handler signer config v x r s = Ok s' \<Longrightarrow> passthrough_step signer config s s'"
| increase_additional: "increase_additional_validator_stake_handler signer config v x r s = Ok s' \<Longrightarrow>
    passthrough_step signer config s s'"
| decrease_additional: "decrease_additional_validator_stake_handler signer config v x r s = Ok s' \<Longrightarrow>
    passthrough_step signer config s s'"

text \<open>
  What such an instruction may change: balances, the number of validators added, and marks.
  No mark is taken back and no unknown balance becomes known.
\<close>

definition passes_through :: "StewardStateV2 \<Rightarrow> StewardStateV2 \<Rightarrow> bool" where
  "passes_through s t \<longleftrightarrow>
     (\<exists>b n r i. t = s\<lparr>validator_lamport_balances := b, validators_added := n, validators_to_remove := r,
        validators_for_immediate_removal := i\<rparr>) \<and>
     length (validator_lamport_balances t) = length (validator_lamport_balances s) \<and>
     (\<forall>i < length (validator_lamport_balances s). validator_lamport_balances s ! i = LAMPORT_BALANCE_DEFAULT \<longrightarrow>
        validator_lamport_balances t ! i = LAMPORT_BALANCE_DEFAULT) \<and>
     validators_added s \<le> validators_added t \<and>
     (mask_invar MAX_VALIDATORS (validators_to_remove s) \<longrightarrow> mask_invar MAX_VALIDATORS (validators_to_remove t) \<and>
        mask_bits (validators_to_remove s) \<subseteq> mask_bits (validators_to_remove t)) \<and>
     (mask_invar MAX_VALIDATORS (validators_for_immediate_removal s) \<longrightarrow>
        mask_invar MAX_VALIDATORS (validators_for_immediate_removal t) \<and>
        mask_bits (validators_for_immediate_removal s) \<subseteq> mask_bits (validators_for_immediate_removal t))"

lemma same_but_passing:
  "(\<exists>b n r i. t = s\<lparr>validator_lamport_balances := b, validators_added := n, validators_to_remove := r,
      validators_for_immediate_removal := i\<rparr>) \<longleftrightarrow>
   t = s\<lparr>validator_lamport_balances := validator_lamport_balances t, validators_added := validators_added t,
      validators_to_remove := validators_to_remove t,
      validators_for_immediate_removal := validators_for_immediate_removal t\<rparr>"
  by (auto intro: exI)

lemma passes_through_refl: "passes_through s s"
  unfolding passes_through_def same_but_passing by simp

lemma passes_through_trans:
  assumes "passes_through s t" "passes_through t u"
  shows "passes_through s u"
  unfolding passes_through_def
proof (intro conjI)
  show "\<exists>b n r i. u = s\<lparr>validator_lamport_balances := b, validators_added := n, validators_to_remove := r,
      validators_for_immediate_removal := i\<rparr>"
    using assms unfolding passes_through_def by force
qed (use assms [unfolded passes_through_def] in \<open>auto dest: subsetD\<close>)

lemma record_stake_move_passes:
  assumes "record_stake_move calc i x s = Ok t"
  shows "passes_through s t"
  using assms unfolding passes_through_def same_but_passing
  by (auto simp: record_stake_move_def Let_def and_then_eq_Inr ok_or_eq_Inr nth_list_update split: if_splits)

lemma move_stake_passes:
  "move_stake_handler calc signer config v x r s = Ok t \<Longrightarrow> signer = c_admin config \<and> passes_through s t"
  using record_stake_move_passes by (auto simp: move_stake_handler_def and_then_eq_Inr config_getters check_address_def split: if_splits)

lemma mark_removed_passes:
  assumes "mark_removed_validator a epoch i status lockup s = Ok (t, b)"
  shows "passes_through s t"
proof -
  have "mark_validator_for_removal i s = Ok t \<or> mark_validator_for_immediate_removal i s = Ok t"
    using assms by (cases status) (auto simp: mark_removed_validator_def Let_def and_then_eq_Inr split: if_splits)
  then show ?thesis
    unfolding passes_through_def same_but_passing
    by (auto simp: mark_validator_for_removal_def mark_validator_for_immediate_removal_def and_then_eq_Inr dest: bm.set_ok_D)
qed

lemma passthrough_step_passes:
  assumes "passthrough_step signer config s t"
  shows "signer = c_admin config \<and> passes_through s t"
  using assms
proof cases
  case (add e r)
  then show ?thesis
    unfolding passes_through_def same_but_passing
    by (auto simp: add_validator_to_pool_handler_def and_then_eq_Inr increment_validator_to_add_def ok_or_eq_Inr
        checked_add_eq_Some config_getters check_address_def split: if_splits)
next
  case (remove e addr k a i)
  then show ?thesis
    by (auto simp: remove_validator_from_pool_handler_def Let_def and_then_eq_Inr config_getters check_address_def
        split: if_splits dest!: mark_removed_passes)
qed (auto simp: increase_validator_stake_handler_def decrease_validator_stake_handler_def
    increase_additional_validator_stake_handler_def decrease_additional_validator_stake_handler_def dest: move_stake_passes)

interpretation passthrough: step_system "passthrough_step signer config" "passes_through s" for signer config s
  by unfold_locales (blast intro: passes_through_trans dest: passthrough_step_passes)

section \<open>Well-formedness\<close>

lemma move_stake_wf: "move_stake_handler calc signer config v x r s = Ok t \<Longrightarrow> state_wf s \<Longrightarrow> state_wf t"
  by (auto simp: move_stake_handler_def record_stake_move_def Let_def and_then_eq_Inr state_wf_def split: if_splits)

lemma stake_moves_wf:
  "increase_validator_stake_handler signer config v x r s = Ok t \<Longrightarrow> state_wf s \<Longrightarrow> state_wf t"
  "decrease_validator_stake_handler signer config v x r s = Ok t \<Longrightarrow> state_wf s \<Longrightarrow> state_wf t"
  "increase_additional_validator_stake_handler signer config v x r s = Ok t \<Longrightarrow> state_wf s \<Longrightarrow> state_wf t"
  "decrease_additional_validator_stake_handler signer config v x r s = Ok t \<Longrightarrow> state_wf s \<Longrightarrow> state_wf t"
  unfolding increase_validator_stake_handler_def decrease_validator_stake_handler_def
    increase_additional_validator_stake_handler_def decrease_additional_validator_stake_handler_def
  by (rule move_stake_wf; assumption)+

lemma remove_from_pool_wf:
  assumes "remove_validator_from_pool_handler signer e addr k a i s = Ok t" "state_wf s"
  shows "state_wf t"
proof -
  obtain epoch status lockup b where "mark_removed_validator a epoch i status lockup s = Ok (t, b)"
    using assms(1) by (auto simp: remove_validator_from_pool_handler_def Let_def and_then_eq_Inr)
  then have "mark_validator_for_removal i s = Ok t \<or> mark_validator_for_immediate_removal i s = Ok t"
    by (cases status) (auto simp: mark_removed_validator_def Let_def and_then_eq_Inr split: if_splits)
  then show ?thesis using ok_allD [OF mark_removal_wf(1)] ok_allD [OF mark_removal_wf(2)] assms(2) by blast
qed

text \<open>
  Unlike the permissionless addition, the admin's does not compare the state with the list:
  it leaves the arrays large enough unless the state counts as many validators as they hold,
  and then the list has fewer.
\<close>

lemma add_to_pool_wf:
  assumes "add_validator_to_pool_handler signer e r s = Ok t" "state_wf s"
  shows "state_wf t \<or> (\<exists>b vl. e_list e = Ok (b, vl) \<and> bv_len vl < num_pool_validators s + validators_added s \<and>
    num_pool_validators s + validators_added s = MAX_VALIDATORS)"
  using assms by (auto simp: add_validator_to_pool_handler_def and_then_eq_Inr ok_or_eq_Inr checked_add_eq_Some
      increment_validator_to_add_def state_wf_def split: if_splits)

text \<open>
  The balance that a stake move by hand changes is the one at the index of the validator's
  history. The balances are indexed by the validator list, so another index, even the
  validator's own place in the list, keeps its balance.
\<close>

lemma stake_move_uses_the_history_index:
  assumes "increase_validator_stake_handler signer config v x r s = Ok t" "j \<noteq> vh_index v"
    and "validator_lamport_balances s ! vh_index v \<noteq> LAMPORT_BALANCE_DEFAULT"
  shows "validator_lamport_balances t ! j = validator_lamport_balances s ! j \<and>
    validator_lamport_balances t ! vh_index v = validator_lamport_balances s ! vh_index v + x"
  using assms by (auto simp: increase_validator_stake_handler_def move_stake_handler_def record_stake_move_def Let_def
      and_then_eq_Inr ok_or_eq_Inr checked_add_eq_Some split: if_splits)

section \<open>Properties\<close>

text \<open>
  C38. What the admin sends to the stake pool through the steward cannot change the plan. After
  any number of such instructions the sender was the admin, and of the steward's state only
  balances, the number of added validators and the marks for removal may differ: the stage,
  the scores, both rankings, the delegations and the totals are what they were. Marks are
  never taken back, the number of added validators never falls, and a balance that was not
  known stays unknown.
\<close>

theorem admin_passthrough_keeps_the_plan:
  assumes "(passthrough_step signer config)\<^sup>*\<^sup>* s t" "s \<noteq> t" "state_wf s"
  shows "signer = c_admin config \<and>
    t = s\<lparr>validator_lamport_balances := validator_lamport_balances t, validators_added := validators_added t,
      validators_to_remove := validators_to_remove t,
      validators_for_immediate_removal := validators_for_immediate_removal t\<rparr> \<and>
    mask_bits (validators_to_remove s) \<subseteq> mask_bits (validators_to_remove t) \<and>
    mask_bits (validators_for_immediate_removal s) \<subseteq> mask_bits (validators_for_immediate_removal t) \<and>
    validators_added s \<le> validators_added t \<and>
    (\<forall>i < MAX_VALIDATORS. validator_lamport_balances s ! i = LAMPORT_BALANCE_DEFAULT \<longrightarrow>
       validator_lamport_balances t ! i = LAMPORT_BALANCE_DEFAULT)"
proof -
  have "passes_through s t" by (rule passthrough.reachable_inv [OF assms(1) passes_through_refl])
  note p = this [unfolded passes_through_def same_but_passing]
  have admin: "signer = c_admin config"
    using assms(1,2) passthrough_step_passes by (induction rule: converse_rtranclp_induct) blast+
  have wf: "length (validator_lamport_balances s) = MAX_VALIDATORS" "mask_invar MAX_VALIDATORS (validators_to_remove s)"
    "mask_invar MAX_VALIDATORS (validators_for_immediate_removal s)"
    using assms(3) by (simp_all add: state_wf_def)
  show ?thesis using p [unfolded wf(1)] wf(2,3) admin by satx
qed

theorem admin_passthrough_keeps_the_plan_witness:
  "\<exists>t. increase_validator_stake_handler (c_admin sample_config) sample_config sample_history 7 (Ok ()) sample_state = Ok t \<and>
     validator_lamport_balances t ! 0 = 7 \<and> sorted_score_indices t = sorted_score_indices sample_state \<and> scores t = scores sample_state"
proof -
  let ?t = "sample_state\<lparr>validator_lamport_balances := (validator_lamport_balances sample_state)[0 := 7]\<rparr>"
  have bal: "validator_lamport_balances sample_state = replicate MAX_VALIDATORS 0" "0 < MAX_VALIDATORS"
    by (simp_all add: sample_state_def MAX_VALIDATORS_def)
  have run: "increase_validator_stake_handler (c_admin sample_config) sample_config sample_history 7 (Ok ()) sample_state = Ok ?t"
    using bal by (simp add: increase_validator_stake_handler_def move_stake_handler_def record_stake_move_def check_address_def
        config_getters sample_history_def Let_def checked_add_def int_limits LAMPORT_BALANCE_DEFAULT_def)
  have ne: "sample_state \<noteq> ?t"
  proof
    assume "sample_state = ?t"
    then have "validator_lamport_balances sample_state ! 0 = validator_lamport_balances ?t ! 0" by (rule arg_cong)
    then show False using bal by simp
  qed
  have "(passthrough_step (c_admin sample_config) sample_config)\<^sup>*\<^sup>* sample_state ?t"
    using passthrough_step.increase [OF run] by blast
  from admin_passthrough_keeps_the_plan [OF this ne sample_state_wf] run bal show ?thesis by simp
qed

end
