(* ===== verification/State_Migration.thy ===== *)
theory State_Migration
  imports Admin
begin

text \<open>
  The steward's state account before and after its change of layout
  (programs/steward/src/state/steward_state.rs, state/accounts.rs). The first layout is
  initialised by instructions/realloc_state.rs; instructions/migrate_state_to_v2.rs turns it
  into the second in place, moving three arrays over each other inside the bytes of the
  account. Both layouts are given by the offsets that their declarations fix, the migration
  works on the bytes, and the theorem says what it does to the two structures.
\<close>

section \<open>The first layout\<close>

record StewardStateV1 =
  s1_state_tag :: StewardStateEnum
  s1_validator_lamport_balances :: "nat list"
  s1_scores :: "32 word list"
  s1_sorted_score_indices :: "nat list"
  s1_yield_scores :: "32 word list"
  s1_sorted_yield_score_indices :: "nat list"
  s1_delegations :: "Delegation list"
  s1_instant_unstake :: BitMask
  s1_progress :: BitMask
  s1_validators_for_immediate_removal :: BitMask
  s1_validators_to_remove :: BitMask
  s1_start_computing_scores_slot :: nat
  s1_current_epoch :: nat
  s1_next_cycle_epoch :: nat
  s1_num_pool_validators :: nat
  s1_scoring_unstake_total :: nat
  s1_instant_unstake_total :: nat
  s1_stake_deposit_unstake_total :: nat
  s1_status_flags :: "32 word"
  s1_validators_added :: nat

record StewardStateAccount =
  sa1_state :: StewardStateV1
  sa1_is_initialized :: U8Bool
  sa1_bump :: nat

text \<open>Growing the account and, at its full size, initialising it.\<close>

definition realloc_state_handler ::
  "nat \<Rightarrow> nat \<Rightarrow> bool \<Rightarrow> nat \<Rightarrow> Clock \<Rightarrow> Config \<Rightarrow> BigVec result \<Rightarrow> StewardStateAccount \<Rightarrow> StewardStateAccount result" where
  "realloc_state_handler full_size account_size initialized bump clock config validator_list a =
     (if full_size \<le> account_size \<and> \<not> (full_size \<le> account_size \<and> initialized) then
        and_then validator_list (\<lambda>vl.
        and_then (arith_error (checked_add U64_MAX (clock_epoch clock) (p_num_epochs_between_scoring (c_parameters config))))
          (\<lambda>next_cycle.
        Ok (a\<lparr>sa1_is_initialized := U8Bool_from True, sa1_bump := bump,
          sa1_state := (sa1_state a)\<lparr>s1_state_tag := RebalanceDirected, s1_num_pool_validators := bv_len vl,
            s1_validator_lamport_balances := replicate MAX_VALIDATORS LAMPORT_BALANCE_DEFAULT,
            s1_scores := replicate MAX_VALIDATORS 0,
            s1_sorted_score_indices := replicate MAX_VALIDATORS SORTED_INDEX_DEFAULT,
            s1_yield_scores := replicate MAX_VALIDATORS 0,
            s1_sorted_yield_score_indices := replicate MAX_VALIDATORS SORTED_INDEX_DEFAULT,
            s1_progress := BitMask_default, s1_current_epoch := 0, s1_next_cycle_epoch := next_cycle,
            s1_delegations := replicate MAX_VALIDATORS Delegation_default, s1_instant_unstake := BitMask_default,
            s1_start_computing_scores_slot := clock_slot clock, s1_validators_to_remove := BitMask_default,
            s1_validators_for_immediate_removal := BitMask_default, s1_validators_added := 0,
            s1_status_flags := 0\<rparr>\<rparr>)))
      else Ok a)"

section \<open>Offsets\<close>

text \<open>
  The offsets of the fields in the account, after the eight bytes of the discriminator. Up to
  the balances and from the delegations to the number of added validators both layouts agree.
\<close>

definition off_state_tag :: nat where "off_state_tag = 8"
definition off_balances :: nat where "off_balances = off_state_tag + 8"
definition off_scores :: nat where "off_scores = off_balances + 8 * MAX_VALIDATORS"
definition off_v1_sorted :: nat where "off_v1_sorted = off_scores + 4 * MAX_VALIDATORS"
definition off_v1_yield :: nat where "off_v1_yield = off_v1_sorted + 2 * MAX_VALIDATORS"
definition off_v1_sorted_yield :: nat where "off_v1_sorted_yield = off_v1_yield + 4 * MAX_VALIDATORS"
definition off_v2_sorted :: nat where "off_v2_sorted = off_scores + 8 * MAX_VALIDATORS"
definition off_v2_sorted_raw :: nat where "off_v2_sorted_raw = off_v2_sorted + 2 * MAX_VALIDATORS"
definition off_delegations :: nat where "off_delegations = off_v2_sorted_raw + 2 * MAX_VALIDATORS"
definition off_masks :: nat where "off_masks = off_delegations + 8 * MAX_VALIDATORS"
definition off_counters :: nat where "off_counters = off_masks + 4 * (8 * BITMASK_SIZE)"
definition off_status_flags :: nat where "off_status_flags = off_counters + 7 * 8"
definition off_validators_added :: nat where "off_validators_added = off_status_flags + 4"
definition off_v2_raw :: nat where "off_v2_raw = off_validators_added + 2 + 2"
definition off_account :: nat where "off_account = off_v2_raw + 8 * MAX_VALIDATORS"
definition ACCOUNT_END :: nat where "ACCOUNT_END = off_account + 8"

lemma layout_values [simp]:
  "off_state_tag = 8" "off_balances = 16" "off_scores = 40016" "off_v1_sorted = 60016" "off_v1_yield = 70016"
  "off_v1_sorted_yield = 90016" "off_v2_sorted = 80016" "off_v2_sorted_raw = 90016" "off_delegations = 100016"
  "off_masks = 140016" "off_counters = 142544" "off_status_flags = 142600" "off_validators_added = 142604"
  "off_v2_raw = 142608" "off_account = 182608" "ACCOUNT_END = 182616"
  by (simp_all add: off_state_tag_def off_balances_def off_scores_def off_v1_sorted_def off_v1_yield_def
      off_v1_sorted_yield_def off_v2_sorted_def off_v2_sorted_raw_def off_delegations_def off_masks_def
      off_counters_def off_status_flags_def off_validators_added_def off_v2_raw_def off_account_def ACCOUNT_END_def
      MAX_VALIDATORS_def BITMASK_SIZE_def)

section \<open>The migration\<close>

definition read_at :: "nat \<Rightarrow> nat \<Rightarrow> 8 word list \<Rightarrow> nat result" where
  "read_at width off data = and_then (arr_slice data off (off + width)) (\<lambda>bs. Ok (from_le_bytes bs))"

definition write_at :: "nat \<Rightarrow> nat \<Rightarrow> nat \<Rightarrow> 8 word list \<Rightarrow> 8 word list result" where
  "write_at width off v data =
     (if off + width \<le> length data
      then Ok (take off data @ to_le_bytes width v @ drop (off + width) data) else Err Panic)"

text \<open>One iteration of the three loops: an element of one array is read and written to another.\<close>

definition move_element :: "nat \<Rightarrow> nat \<Rightarrow> nat \<Rightarrow> nat \<Rightarrow> nat \<Rightarrow> 8 word list \<Rightarrow> 8 word list result" where
  "move_element rw roff ww woff i data =
     and_then (read_at rw (roff + rw * i) data) (\<lambda>v. write_at ww (woff + ww * i) v data)"

definition InvalidAccountData :: error where "InvalidAccountData = External (4 * 2 ^ 32)"

definition verify_v1_discriminator :: "8 word list \<Rightarrow> 8 word list \<Rightarrow> unit result" where
  "verify_v1_discriminator v1_discriminator data =
     and_then (arr_slice data 0 8) (\<lambda>d. if d \<noteq> v1_discriminator then Err InvalidAccountData else Ok ())"

definition migrate_state_to_v2_handler :: "8 word list \<Rightarrow> 8 word list \<Rightarrow> 8 word list \<Rightarrow> 8 word list result" where
  "migrate_state_to_v2_handler v1_discriminator v2_discriminator data =
     and_then (arr_slice data 8 ACCOUNT_END) (\<lambda>_.
     and_then (read_at 8 off_state_tag data) (\<lambda>tag.
     if tag = 0 then Err (Steward InvalidState)
     else
     and_then (verify_v1_discriminator v1_discriminator data) (\<lambda>_.
     let data = v2_discriminator @ drop 8 data in
     and_then (for_each (move_element 4 off_v1_yield 8 off_v2_raw) [0..<MAX_VALIDATORS] data) (\<lambda>data.
     and_then (for_each (move_element 2 off_v1_sorted 2 off_v2_sorted) [0..<MAX_VALIDATORS] data) (\<lambda>data.
     and_then (for_each (move_element 4 off_scores 8 off_scores) (rev [0..<MAX_VALIDATORS]) data) (\<lambda>data.
     and_then (read_at 1 (off_account + 1) data) (\<lambda>bump.
     and_then (write_at 1 off_account bump data) (\<lambda>data.
     write_at 7 (off_account + 1) 0 data))))))))"

section \<open>Ranges of bytes\<close>

definition bytes_at :: "nat \<Rightarrow> nat \<Rightarrow> 8 word list \<Rightarrow> 8 word list" where
  "bytes_at width off data = take width (drop off data)"

definition uint_at :: "nat \<Rightarrow> nat \<Rightarrow> 8 word list \<Rightarrow> nat" where
  "uint_at width off data = from_le_bytes (bytes_at width off data)"

definition put_at :: "nat \<Rightarrow> nat \<Rightarrow> nat \<Rightarrow> 8 word list \<Rightarrow> 8 word list" where
  "put_at width off v data = take off data @ to_le_bytes width v @ drop (off + width) data"

definition apart :: "nat \<Rightarrow> nat \<Rightarrow> nat \<Rightarrow> nat \<Rightarrow> bool" where
  "apart a v b w \<longleftrightarrow> a + v \<le> b \<or> b + w \<le> a"

lemma read_write_ok:
  "off + w \<le> length data \<Longrightarrow> read_at w off data = Ok (uint_at w off data)"
  "off + w \<le> length data \<Longrightarrow> write_at w off v data = Ok (put_at w off v data)"
  by (simp_all add: read_at_def write_at_def uint_at_def bytes_at_def put_at_def arr_slice_def)

lemma put_at_length [simp]: "off + w \<le> length data \<Longrightarrow> length (put_at w off v data) = length data"
  by (simp add: put_at_def)

lemma put_at_apart:
  assumes "off + w \<le> length data" "apart off w b v"
  shows "bytes_at v b (put_at w off x data) = bytes_at v b data"
proof (cases "b + v \<le> off")
  case True
  have "take (b + v) (put_at w off x data) = take (b + v) data"
    using True assms(1) by (simp add: put_at_def min_def)
  then show ?thesis by (metis bytes_at_def take_drop add.commute)
next
  case False
  then have b: "off + w \<le> b" using assms(2) by (simp add: apart_def)
  then have "drop b (put_at w off x data) = drop b data"
    using assms(1) by (simp add: put_at_def)
  then show ?thesis by (simp add: bytes_at_def)
qed

lemma put_at_same:
  assumes "off + w \<le> length data" "x < 256 ^ w"
  shows "uint_at w off (put_at w off x data) = x"
  using assms by (simp add: uint_at_def bytes_at_def put_at_def from_to_le_bytes)

lemma uint_at_less: "uint_at w off data < 256 ^ w"
proof -
  have "uint_at w off data < 256 ^ length (bytes_at w off data)" unfolding uint_at_def by (rule from_le_bytes_less)
  also have "\<dots> \<le> (256::nat) ^ w" by (rule power_increasing) (simp_all add: bytes_at_def)
  finally show ?thesis .
qed

text \<open>
  A loop of moves. If no element is written over before it is read, every element arrives as
  it was, and what is apart from all that is written stays.
\<close>

lemma move_loop:
  assumes "sorted_wrt (\<lambda>j i. apart (woff + ww * j) ww (roff + rw * i) rw) xs" "distinct xs" "rw \<le> ww"
    and "\<And>i. i \<in> set xs \<Longrightarrow> roff + rw * i + rw \<le> length data \<and> woff + ww * i + ww \<le> length data"
  shows "\<exists>data'. for_each (move_element rw roff ww woff) xs data = Ok data' \<and> length data' = length data \<and>
    (\<forall>i\<in>set xs. uint_at ww (woff + ww * i) data' = uint_at rw (roff + rw * i) data) \<and>
    (\<forall>b v. (\<forall>i\<in>set xs. apart (woff + ww * i) ww b v) \<longrightarrow> bytes_at v b data' = bytes_at v b data)"
  using assms
proof (induction xs arbitrary: data)
  case (Cons x xs)
  let ?d = "put_at ww (woff + ww * x) (uint_at rw (roff + rw * x) data) data"
  have step: "move_element rw roff ww woff x data = Ok ?d"
    using Cons.prems(4) [of x] by (simp add: move_element_def read_write_ok)
  have len: "length ?d = length data" using Cons.prems(4) [of x] by simp
  have keep: "bytes_at v b ?d = bytes_at v b data" if "apart (woff + ww * x) ww b v" for b v
    using Cons.prems(4) [of x] that by (intro put_at_apart) simp_all
  obtain data' where d': "for_each (move_element rw roff ww woff) xs ?d = Ok data'" "length data' = length ?d"
    "\<forall>i\<in>set xs. uint_at ww (woff + ww * i) data' = uint_at rw (roff + rw * i) ?d"
    "\<forall>b v. (\<forall>i\<in>set xs. apart (woff + ww * i) ww b v) \<longrightarrow> bytes_at v b data' = bytes_at v b ?d"
    using Cons.IH [of ?d] Cons.prems len by auto
  have "uint_at rw (roff + rw * x) data < 256 ^ ww"
    by (rule less_le_trans [OF uint_at_less power_increasing [OF Cons.prems(3)]]) simp
  then have "uint_at ww (woff + ww * x) ?d = uint_at rw (roff + rw * x) data"
    using Cons.prems(4) [of x] by (intro put_at_same) simp_all
  moreover have "apart (woff + ww * i) ww (woff + ww * x) ww" if "i \<in> set xs" for i
  proof -
    have "i \<noteq> x" using that Cons.prems(2) by auto
    then have "i < x \<or> x < i" by (rule neq_iff [THEN iffD1])
    then have "ww * i + ww \<le> ww * x \<or> ww * x + ww \<le> ww * i"
      by (metis Suc_leI add.commute mult_Suc_right mult_le_mono2)
    then show ?thesis by (auto simp: apart_def)
  qed
  then have "bytes_at ww (woff + ww * x) data' = bytes_at ww (woff + ww * x) ?d" using d'(4) by blast
  ultimately have x: "uint_at ww (woff + ww * x) data' = uint_at rw (roff + rw * x) data" by (simp add: uint_at_def)
  have "uint_at rw (roff + rw * i) ?d = uint_at rw (roff + rw * i) data" if "i \<in> set xs" for i
    using keep Cons.prems(1) that by (simp add: uint_at_def)
  then show ?case using step d' len x keep by auto
qed simp

section \<open>What the migration does to the bytes\<close>

text \<open>The ranges that both layouts share.\<close>

definition shared_range :: "nat \<Rightarrow> nat \<Rightarrow> bool" where
  "shared_range b v \<longleftrightarrow> 8 \<le> b \<and> b + v \<le> off_scores \<or> off_v2_sorted_raw \<le> b \<and> b + v \<le> off_v2_raw"

lemma upward_moves:
  "(\<And>j i. j < i \<Longrightarrow> i < n \<Longrightarrow> apart (woff + ww * j) ww (roff + rw * i) rw) \<Longrightarrow>
   sorted_wrt (\<lambda>j i. apart (woff + ww * j) ww (roff + rw * i) rw) [0..<n]"
  by (rule sorted_wrt_mono_rel [OF _ sorted_wrt_upt]) simp

lemma downward_moves:
  "(\<And>j i. i < j \<Longrightarrow> j < n \<Longrightarrow> apart (woff + ww * j) ww (roff + rw * i) rw) \<Longrightarrow>
   sorted_wrt (\<lambda>j i. apart (woff + ww * j) ww (roff + rw * i) rw) (rev [0..<n])"
  unfolding sorted_wrt_rev by (rule sorted_wrt_mono_rel [OF _ sorted_wrt_upt]) simp

lemma loops_effect:
  assumes len: "ACCOUNT_END \<le> length data"
  shows "\<exists>data'. and_then (for_each (move_element 4 off_v1_yield 8 off_v2_raw) [0..<MAX_VALIDATORS] data) (\<lambda>data.
      and_then (for_each (move_element 2 off_v1_sorted 2 off_v2_sorted) [0..<MAX_VALIDATORS] data) (\<lambda>data.
      for_each (move_element 4 off_scores 8 off_scores) (rev [0..<MAX_VALIDATORS]) data)) = Ok data' \<and>
    length data' = length data \<and>
    (\<forall>i<MAX_VALIDATORS. uint_at 8 (off_v2_raw + 8 * i) data' = uint_at 4 (off_v1_yield + 4 * i) data) \<and>
    (\<forall>i<MAX_VALIDATORS. uint_at 2 (off_v2_sorted + 2 * i) data' = uint_at 2 (off_v1_sorted + 2 * i) data) \<and>
    (\<forall>i<MAX_VALIDATORS. uint_at 8 (off_scores + 8 * i) data' = uint_at 4 (off_scores + 4 * i) data) \<and>
    (\<forall>b v. b + v \<le> off_scores \<or> off_v2_sorted_raw \<le> b \<and> b + v \<le> off_v2_raw \<or> off_account \<le> b \<longrightarrow>
       bytes_at v b data' = bytes_at v b data)"
proof -
  have N: "MAX_VALIDATORS = 5000" by (rule MAX_VALIDATORS_def)
  obtain d1 where d1: "for_each (move_element 4 off_v1_yield 8 off_v2_raw) [0..<MAX_VALIDATORS] data = Ok d1" "length d1 = length data"
    "\<forall>i<MAX_VALIDATORS. uint_at 8 (off_v2_raw + 8 * i) d1 = uint_at 4 (off_v1_yield + 4 * i) data"
    "\<And>b v. (\<forall>i<MAX_VALIDATORS. apart (off_v2_raw + 8 * i) 8 b v) \<Longrightarrow> bytes_at v b d1 = bytes_at v b data"
    using move_loop [OF upward_moves, of MAX_VALIDATORS off_v2_raw 8 off_v1_yield 4 data] len N by (auto simp: apart_def)
  obtain d2 where d2: "for_each (move_element 2 off_v1_sorted 2 off_v2_sorted) [0..<MAX_VALIDATORS] d1 = Ok d2" "length d2 = length d1"
    "\<forall>i<MAX_VALIDATORS. uint_at 2 (off_v2_sorted + 2 * i) d2 = uint_at 2 (off_v1_sorted + 2 * i) d1"
    "\<And>b v. (\<forall>i<MAX_VALIDATORS. apart (off_v2_sorted + 2 * i) 2 b v) \<Longrightarrow> bytes_at v b d2 = bytes_at v b d1"
    using move_loop [OF upward_moves, of MAX_VALIDATORS off_v2_sorted 2 off_v1_sorted 2 d1] d1(2) len N by (auto simp: apart_def)
  obtain d3 where d3: "for_each (move_element 4 off_scores 8 off_scores) (rev [0..<MAX_VALIDATORS]) d2 = Ok d3" "length d3 = length d2"
    "\<forall>i<MAX_VALIDATORS. uint_at 8 (off_scores + 8 * i) d3 = uint_at 4 (off_scores + 4 * i) d2"
    "\<And>b v. (\<forall>i<MAX_VALIDATORS. apart (off_scores + 8 * i) 8 b v) \<Longrightarrow> bytes_at v b d3 = bytes_at v b d2"
    using move_loop [OF downward_moves, of MAX_VALIDATORS off_scores 8 off_scores 4 d2] d1(2) d2(2) len N by (auto simp: apart_def)
  have "uint_at 8 (off_v2_raw + 8 * i) d3 = uint_at 8 (off_v2_raw + 8 * i) d1" if "i < MAX_VALIDATORS" for i
    using that N d2(4) [of "off_v2_raw + 8 * i" 8] d3(4) [of "off_v2_raw + 8 * i" 8] by (simp add: apart_def uint_at_def)
  moreover have "uint_at 2 (off_v2_sorted + 2 * i) d3 = uint_at 2 (off_v2_sorted + 2 * i) d2"
    "uint_at 2 (off_v1_sorted + 2 * i) d1 = uint_at 2 (off_v1_sorted + 2 * i) data" if "i < MAX_VALIDATORS" for i
    using that N d3(4) [of "off_v2_sorted + 2 * i" 2] d1(4) [of "off_v1_sorted + 2 * i" 2] by (simp_all add: apart_def uint_at_def)
  moreover have "uint_at 4 (off_scores + 4 * i) d2 = uint_at 4 (off_scores + 4 * i) data" if "i < MAX_VALIDATORS" for i
    using that N d2(4) [of "off_scores + 4 * i" 4] d1(4) [of "off_scores + 4 * i" 4] by (simp add: apart_def uint_at_def)
  moreover have "bytes_at v b d3 = bytes_at v b data"
    if "b + v \<le> off_scores \<or> off_v2_sorted_raw \<le> b \<and> b + v \<le> off_v2_raw \<or> off_account \<le> b" for b v
    using that N d1(4) [of b v] d2(4) [of b v] d3(4) [of b v] by (auto simp: apart_def)
  ultimately show ?thesis using d1 d2 d3 by simp
qed

lemma migration_effect:
  assumes len: "ACCOUNT_END \<le> length data" and v1: "take 8 data = v1d" and v2: "length v2d = 8"
    and tag: "uint_at 8 off_state_tag data \<noteq> 0"
  shows "\<exists>data'. migrate_state_to_v2_handler v1d v2d data = Ok data' \<and> length data' = length data \<and> take 8 data' = v2d \<and>
    (\<forall>i<MAX_VALIDATORS. uint_at 8 (off_v2_raw + 8 * i) data' = uint_at 4 (off_v1_yield + 4 * i) data) \<and>
    (\<forall>i<MAX_VALIDATORS. uint_at 2 (off_v2_sorted + 2 * i) data' = uint_at 2 (off_v1_sorted + 2 * i) data) \<and>
    (\<forall>i<MAX_VALIDATORS. uint_at 8 (off_scores + 8 * i) data' = uint_at 4 (off_scores + 4 * i) data) \<and>
    uint_at 1 off_account data' = uint_at 1 (off_account + 1) data \<and> uint_at 7 (off_account + 1) data' = 0 \<and>
    (\<forall>b v. shared_range b v \<longrightarrow> bytes_at v b data' = bytes_at v b data)"
proof -
  have N: "MAX_VALIDATORS = 5000" by (rule MAX_VALIDATORS_def)
  let ?d0 = "v2d @ drop 8 data"
  have d0: "bytes_at v b ?d0 = bytes_at v b data" if "8 \<le> b" for b v
    using that v2 by (simp add: bytes_at_def)
  have len0: "ACCOUNT_END \<le> length ?d0" "length ?d0 = length data" using len v2 by simp_all
  obtain d3 where loops: "and_then (for_each (move_element 4 off_v1_yield 8 off_v2_raw) [0..<MAX_VALIDATORS] ?d0) (\<lambda>data.
      and_then (for_each (move_element 2 off_v1_sorted 2 off_v2_sorted) [0..<MAX_VALIDATORS] data) (\<lambda>data.
      for_each (move_element 4 off_scores 8 off_scores) (rev [0..<MAX_VALIDATORS]) data)) = Ok d3" "length d3 = length ?d0"
    and arrays: "\<forall>i<MAX_VALIDATORS. uint_at 8 (off_v2_raw + 8 * i) d3 = uint_at 4 (off_v1_yield + 4 * i) ?d0"
    "\<forall>i<MAX_VALIDATORS. uint_at 2 (off_v2_sorted + 2 * i) d3 = uint_at 2 (off_v1_sorted + 2 * i) ?d0"
    "\<forall>i<MAX_VALIDATORS. uint_at 8 (off_scores + 8 * i) d3 = uint_at 4 (off_scores + 4 * i) ?d0"
    and kept: "\<And>b v. b + v \<le> off_scores \<or> off_v2_sorted_raw \<le> b \<and> b + v \<le> off_v2_raw \<or> off_account \<le> b \<Longrightarrow>
       bytes_at v b d3 = bytes_at v b ?d0"
    using loops_effect [OF len0(1)] by blast
  let ?d4 = "put_at 1 off_account (uint_at 1 (off_account + 1) d3) d3"
  let ?d5 = "put_at 7 (off_account + 1) 0 ?d4"
  have l: "off_account + 1 + 7 \<le> length d3" "off_account + 1 \<le> length d3" using loops(2) len0 by simp_all
  have tail: "bytes_at v b ?d5 = bytes_at v b d3" if "b + v \<le> off_account" for b v
    using that put_at_apart [of "off_account + 1" 7 ?d4 b v 0] l
      put_at_apart [of off_account 1 d3 b v "uint_at 1 (off_account + 1) d3"] by (simp add: apart_def)
  have run: "migrate_state_to_v2_handler v1d v2d data = Ok ?d5"
    using loops l tag v1 len
    by (auto simp: migrate_state_to_v2_handler_def verify_v1_discriminator_def arr_slice_def read_write_ok Let_def
        and_then_eq_Inr simp del: upt_Suc)
  have bump: "uint_at 1 off_account ?d5 = uint_at 1 (off_account + 1) data"
    using put_at_apart [of "off_account + 1" 7 ?d4 off_account 1 0] l kept [of "off_account + 1" 1] d0 [of "off_account + 1" 1]
      put_at_same [of off_account 1 d3 "uint_at 1 (off_account + 1) d3"] uint_at_less [of 1 "off_account + 1" d3]
    by (simp add: apart_def uint_at_def)
  have "take 8 ?d5 = v2d"
    using tail [of 0 8] kept [of 0 8] v2 by (simp add: bytes_at_def)
  moreover have "uint_at 7 (off_account + 1) ?d5 = 0" using l by (intro put_at_same) simp_all
  moreover have "bytes_at v b ?d5 = bytes_at v b data" if "shared_range b v" for b v
    using that tail [of b v] kept [of b v] d0 [of b v] by (auto simp: shared_range_def)
  ultimately show ?thesis
    using run bump arrays N tail l loops(2) len0 by (simp add: uint_at_def d0)
qed

section \<open>The two structures in the bytes\<close>

definition uints_at :: "nat \<Rightarrow> nat \<Rightarrow> nat \<Rightarrow> 8 word list \<Rightarrow> nat list" where
  "uints_at width off n data = map (\<lambda>i. uint_at width (off + width * i) data) [0..<n]"

definition mask_at :: "nat \<Rightarrow> 8 word list \<Rightarrow> BitMask" where
  "mask_at off data = \<lparr>words = map word_of_nat (uints_at 8 off BITMASK_SIZE data)\<rparr>"

text \<open>A tag above five is not a value of the type; both layouts read it alike.\<close>

definition tag_at :: "8 word list \<Rightarrow> StewardStateEnum" where
  "tag_at data = (let n = uint_at 8 off_state_tag data in
     if n = 0 then ComputeScores else if n = 1 then ComputeDelegations else if n = 2 then Idle
     else if n = 3 then ComputeInstantUnstake else if n = 4 then Rebalance else RebalanceDirected)"

definition delegations_at :: "8 word list \<Rightarrow> Delegation list" where
  "delegations_at data = map (\<lambda>i. \<lparr>numerator = uint_at 4 (off_delegations + 8 * i) data,
     denominator = uint_at 4 (off_delegations + 8 * i + 4) data\<rparr>) [0..<MAX_VALIDATORS]"

definition decode_v1 :: "8 word list \<Rightarrow> StewardStateV1" where
  "decode_v1 data =
     (let mask = (\<lambda>k. mask_at (off_masks + k * (8 * BITMASK_SIZE)) data);
          counter = (\<lambda>k. uint_at 8 (off_counters + 8 * k) data) in
      \<lparr>s1_state_tag = tag_at data, s1_validator_lamport_balances = uints_at 8 off_balances MAX_VALIDATORS data,
       s1_scores = map word_of_nat (uints_at 4 off_scores MAX_VALIDATORS data),
       s1_sorted_score_indices = uints_at 2 off_v1_sorted MAX_VALIDATORS data,
       s1_yield_scores = map word_of_nat (uints_at 4 off_v1_yield MAX_VALIDATORS data),
       s1_sorted_yield_score_indices = uints_at 2 off_v1_sorted_yield MAX_VALIDATORS data,
       s1_delegations = delegations_at data, s1_instant_unstake = mask 0, s1_progress = mask 1,
       s1_validators_for_immediate_removal = mask 2, s1_validators_to_remove = mask 3,
       s1_start_computing_scores_slot = counter 0, s1_current_epoch = counter 1, s1_next_cycle_epoch = counter 2,
       s1_num_pool_validators = counter 3, s1_scoring_unstake_total = counter 4, s1_instant_unstake_total = counter 5,
       s1_stake_deposit_unstake_total = counter 6, s1_status_flags = word_of_nat (uint_at 4 off_status_flags data),
       s1_validators_added = uint_at 2 off_validators_added data\<rparr>)"

definition decode_v2 :: "8 word list \<Rightarrow> StewardStateV2" where
  "decode_v2 data =
     (let mask = (\<lambda>k. mask_at (off_masks + k * (8 * BITMASK_SIZE)) data);
          counter = (\<lambda>k. uint_at 8 (off_counters + 8 * k) data) in
      \<lparr>state_tag = tag_at data, validator_lamport_balances = uints_at 8 off_balances MAX_VALIDATORS data,
       scores = map word_of_nat (uints_at 8 off_scores MAX_VALIDATORS data),
       sorted_score_indices = uints_at 2 off_v2_sorted MAX_VALIDATORS data,
       sorted_raw_score_indices = uints_at 2 off_v2_sorted_raw MAX_VALIDATORS data,
       delegations = delegations_at data, instant_unstake = mask 0, progress = mask 1,
       validators_for_immediate_removal = mask 2, validators_to_remove = mask 3,
       start_computing_scores_slot = counter 0, current_epoch = counter 1, next_cycle_epoch = counter 2,
       num_pool_validators = counter 3, scoring_unstake_total = counter 4, instant_unstake_total = counter 5,
       stake_deposit_unstake_total = counter 6, status_flags = word_of_nat (uint_at 4 off_status_flags data),
       validators_added = uint_at 2 off_validators_added data,
       raw_scores = map word_of_nat (uints_at 8 off_v2_raw MAX_VALIDATORS data)\<rparr>)"

text \<open>What the migration means: the yield scores become the raw scores, and both scores get wider.\<close>

definition upgrade :: "StewardStateV1 \<Rightarrow> StewardStateV2" where
  "upgrade s =
     \<lparr>state_tag = s1_state_tag s, validator_lamport_balances = s1_validator_lamport_balances s,
      scores = map ucast (s1_scores s), sorted_score_indices = s1_sorted_score_indices s,
      sorted_raw_score_indices = s1_sorted_yield_score_indices s, delegations = s1_delegations s,
      instant_unstake = s1_instant_unstake s, progress = s1_progress s,
      validators_for_immediate_removal = s1_validators_for_immediate_removal s,
      validators_to_remove = s1_validators_to_remove s,
      start_computing_scores_slot = s1_start_computing_scores_slot s, current_epoch = s1_current_epoch s,
      next_cycle_epoch = s1_next_cycle_epoch s, num_pool_validators = s1_num_pool_validators s,
      scoring_unstake_total = s1_scoring_unstake_total s, instant_unstake_total = s1_instant_unstake_total s,
      stake_deposit_unstake_total = s1_stake_deposit_unstake_total s, status_flags = s1_status_flags s,
      validators_added = s1_validators_added s, raw_scores = map ucast (s1_yield_scores s)\<rparr>"

lemma uints_at_shared:
  assumes "\<And>b v. shared_range b v \<Longrightarrow> bytes_at v b data' = bytes_at v b data" "\<And>i. i < n \<Longrightarrow> shared_range (off + w * i) w"
  shows "uints_at w off n data' = uints_at w off n data"
  using assms by (auto simp: uints_at_def uint_at_def)

lemma widened: "ucast (word_of_nat (uint_at 4 off data) :: 32 word) = (word_of_nat (uint_at 4 off data) :: 64 word)"
  using uint_at_less [of 4 off data] by (simp add: unsigned_of_nat take_bit_nat_eq_self)

lemma decode_shared:
  assumes same: "\<And>b v. shared_range b v \<Longrightarrow> bytes_at v b data' = bytes_at v b data"
    and raw: "\<And>i. i < MAX_VALIDATORS \<Longrightarrow> uint_at 8 (off_v2_raw + 8 * i) data' = uint_at 4 (off_v1_yield + 4 * i) data"
    and sorted: "\<And>i. i < MAX_VALIDATORS \<Longrightarrow> uint_at 2 (off_v2_sorted + 2 * i) data' = uint_at 2 (off_v1_sorted + 2 * i) data"
    and sc: "\<And>i. i < MAX_VALIDATORS \<Longrightarrow> uint_at 8 (off_scores + 8 * i) data' = uint_at 4 (off_scores + 4 * i) data"
  shows "decode_v2 data' = upgrade (decode_v1 data)"
proof -
  have N: "MAX_VALIDATORS = 5000" "BITMASK_SIZE = 79" by (simp_all add: MAX_VALIDATORS_def BITMASK_SIZE_def)
  have one: "uint_at v b data' = uint_at v b data" if "shared_range b v" for b v using same [OF that] by (simp add: uint_at_def)
  have tag: "tag_at data' = tag_at data" unfolding tag_at_def by (simp add: one shared_range_def)
  have dels: "delegations_at data' = delegations_at data"
    unfolding delegations_at_def by (intro map_cong refl) (auto simp: one shared_range_def N)
  have mask: "mask_at (off_masks + k * (8 * BITMASK_SIZE)) data' = mask_at (off_masks + k * (8 * BITMASK_SIZE)) data" if "k < 4" for k
    unfolding mask_at_def using that by (subst uints_at_shared [OF same]) (auto simp: shared_range_def N)
  have counter: "uint_at 8 (off_counters + 8 * k) data' = uint_at 8 (off_counters + 8 * k) data" if "k < 7" for k
    using that by (intro one) (auto simp: shared_range_def)
  have lists: "uints_at 8 off_balances MAX_VALIDATORS data' = uints_at 8 off_balances MAX_VALIDATORS data"
    "uints_at 2 off_v2_sorted_raw MAX_VALIDATORS data' = uints_at 2 off_v1_sorted_yield MAX_VALIDATORS data"
    by (subst uints_at_shared [OF same]; auto simp: shared_range_def N)+
  have moved: "map word_of_nat (uints_at 8 off_scores MAX_VALIDATORS data') = map (ucast :: 32 word \<Rightarrow> 64 word)
        (map word_of_nat (uints_at 4 off_scores MAX_VALIDATORS data))"
    "map word_of_nat (uints_at 8 off_v2_raw MAX_VALIDATORS data') = map (ucast :: 32 word \<Rightarrow> 64 word)
        (map word_of_nat (uints_at 4 off_v1_yield MAX_VALIDATORS data))"
    "uints_at 2 off_v2_sorted MAX_VALIDATORS data' = uints_at 2 off_v1_sorted MAX_VALIDATORS data"
    using sc raw sorted by (simp_all add: uints_at_def widened del: layout_values)
  have flags: "uint_at 4 off_status_flags data' = uint_at 4 off_status_flags data"
    "uint_at 2 off_validators_added data' = uint_at 2 off_validators_added data"
    by (rule one, simp add: shared_range_def)+
  show ?thesis
    unfolding decode_v2_def decode_v1_def upgrade_def Let_def
    using mask [of 0] mask [of 1] mask [of 2] mask [of 3] counter [of 0] counter [of 1] counter [of 2] counter [of 3]
      counter [of 4] counter [of 5] counter [of 6]
    by (simp add: tag dels lists moved flags del: layout_values map_map)
qed

section \<open>Properties\<close>

text \<open>
  C7. The migration of the state account loses nothing. It succeeds exactly on an account that
  is large enough, has the first layout's discriminator and is not scoring. Although it moves
  three arrays over each other inside one buffer, the second structure in the bytes it leaves
  is the first one with wider scores and the yield scores as raw scores: every ranking,
  delegation, mask, total and flag is kept, and so is the bump. The account has the new
  discriminator, so when the two differ, it cannot be migrated again.
\<close>

theorem migration_keeps_the_state:
  assumes "length v2d = 8"
  shows "((\<exists>data'. migrate_state_to_v2_handler v1d v2d data = Ok data') \<longleftrightarrow>
      ACCOUNT_END \<le> length data \<and> take 8 data = v1d \<and> tag_at data \<noteq> ComputeScores) \<and>
    (\<forall>data'. migrate_state_to_v2_handler v1d v2d data = Ok data' \<longrightarrow>
      decode_v2 data' = upgrade (decode_v1 data) \<and> take 8 data' = v2d \<and> length data' = length data \<and>
      uint_at 1 off_account data' = uint_at 1 (off_account + 1) data \<and>
      (v1d \<noteq> v2d \<longrightarrow> migrate_state_to_v2_handler v1d v2d data' = Err InvalidAccountData))"
proof -
  have tag: "tag_at d = ComputeScores \<longleftrightarrow> uint_at 8 off_state_tag d = 0" for d
    by (simp add: tag_at_def Let_def)
  have conds: "ACCOUNT_END \<le> length data \<and> take 8 data = v1d \<and> tag_at data \<noteq> ComputeScores"
    if "migrate_state_to_v2_handler v1d v2d data = Ok data'" for data'
    using that by (auto simp: migrate_state_to_v2_handler_def verify_v1_discriminator_def and_then_eq_Inr arr_slice_def
        read_write_ok tag split: if_splits)
  show ?thesis
  proof (cases "ACCOUNT_END \<le> length data \<and> take 8 data = v1d \<and> tag_at data \<noteq> ComputeScores")
    case True
    then obtain data' where run: "migrate_state_to_v2_handler v1d v2d data = Ok data'" "length data' = length data" "take 8 data' = v2d"
      "\<forall>i<MAX_VALIDATORS. uint_at 8 (off_v2_raw + 8 * i) data' = uint_at 4 (off_v1_yield + 4 * i) data"
      "\<forall>i<MAX_VALIDATORS. uint_at 2 (off_v2_sorted + 2 * i) data' = uint_at 2 (off_v1_sorted + 2 * i) data"
      "\<forall>i<MAX_VALIDATORS. uint_at 8 (off_scores + 8 * i) data' = uint_at 4 (off_scores + 4 * i) data"
      "uint_at 1 off_account data' = uint_at 1 (off_account + 1) data"
      "\<forall>b v. shared_range b v \<longrightarrow> bytes_at v b data' = bytes_at v b data"
      using migration_effect [of data v1d v2d] assms unfolding tag by blast
    have dec: "decode_v2 data' = upgrade (decode_v1 data)" by (rule decode_shared) (use run in blast)+
    have "uint_at 8 off_state_tag data' = uint_at 8 off_state_tag data"
      using run(8) by (simp add: uint_at_def shared_range_def)
    then have "migrate_state_to_v2_handler v1d v2d data' = Err InvalidAccountData" if "v1d \<noteq> v2d"
      using True run(2,3) that unfolding tag
      by (simp add: migrate_state_to_v2_handler_def verify_v1_discriminator_def arr_slice_def read_write_ok)
    then show ?thesis using True dec run(2,3,7) by (simp add: run(1) del: layout_values)
  next
    case False
    then show ?thesis using conds by blast
  qed
qed

text \<open>A fresh account of the first layout in the directed stage, for the witness.\<close>

definition sample_account :: "8 word list" where
  "sample_account = replicate 8 11 @ to_le_bytes 8 5 @ replicate (ACCOUNT_END - 16) 0"

theorem migration_keeps_the_state_witness:
  "\<exists>data'. migrate_state_to_v2_handler (replicate 8 11) (replicate 8 12) sample_account = Ok data' \<and>
     state_tag (decode_v2 data') = RebalanceDirected \<and> take 8 data' = replicate 8 12"
proof -
  have "uint_at 8 off_state_tag sample_account = 5"
    by (simp add: sample_account_def uint_at_def bytes_at_def from_to_le_bytes)
  then have "tag_at sample_account = RebalanceDirected" by (simp add: tag_at_def del: layout_values)
  moreover have "ACCOUNT_END \<le> length sample_account" "take 8 sample_account = replicate 8 11"
    by (simp_all add: sample_account_def)
  ultimately show ?thesis
    using migration_keeps_the_state [of "replicate 8 12" "replicate 8 11" sample_account]
    by (auto simp: upgrade_def decode_v1_def Let_def)
qed

end
