(* ===== verification/Steward_Machine.thy ===== *)
theory Steward_Machine
  imports Passthrough State_Migration
begin

text \<open>
  The steward as a state machine: one step is one successful instruction of any kind, on the
  pair of the steward's state and the directed stake meta. Whatever the instructions are and
  in whatever order they run, the accounts stay well formed, or the run contains one of three
  steps that set the number of validators without comparing it with the size of the arrays:
  these are the steps of \<open>overflow_step\<close>.
\<close>

section \<open>The steps of the steward\<close>

text \<open>
  Every instruction that writes one of the two accounts, with any arguments and any accounts.
  The steward's state account is created by growing an account of the first layout to its full
  size, which initialises it, and migrating it; that is the step \<open>initialise\<close>, which may also
  follow the closing of an earlier account. The directed stake account is created and
  initialised in the same way by \<open>create_meta\<close>, from the contents \<open>raw\<close> that the new account
  has; \<open>grow_meta\<close> is the same instruction, which anyone may send again at any time.
\<close>

inductive steward_step :: "StewardStateV2 \<times> DirectedStakeMeta \<Rightarrow> StewardStateV2 \<times> DirectedStakeMeta \<Rightarrow> bool" where
  score: "compute_score_handler e v c i s = Ok (s', evs) \<Longrightarrow> steward_step (s, m) (s', m)"
| delegate: "compute_delegations_handler e s = Ok (s', evs) \<Longrightarrow> steward_step (s, m) (s', m)"
| instant_unstake: "compute_instant_unstake_handler e v c i s = Ok (s', evs) \<Longrightarrow> steward_step (s, m) (s', m)"
| idle: "idle_handler e s = Ok (s', evs) \<Longrightarrow> steward_step (s, m) (s', m)"
| rebalance: "rebalance_handler e a m i s = Ok (s', evs) \<Longrightarrow> steward_step (s, m) (s', m)"
| rebalance_directed: "rebalance_directed_handler accs clock es config i m s = Ok (m', s', devs) \<Longrightarrow>
    steward_step (s, m) (s', m')"
| maintain: "epoch_maintenance_handler e u j s m = Ok (s', m', evs) \<Longrightarrow> steward_step (s, m) (s', m')"
| instant_remove: "instant_remove_validator_handler e u i s m = Ok (s', m') \<Longrightarrow> steward_step (s, m) (s', m')"
| auto_add: "auto_add_validator_handler e v k add s = Ok (s', evs) \<Longrightarrow> steward_step (s, m) (s', m)"
| auto_remove: "auto_remove_validator_handler e r i s = Ok (s', evs) \<Longrightarrow> steward_step (s, m) (s', m)"
| mark: "admin_mark_for_removal_handler signer config i b imm s = Ok s' \<Longrightarrow> steward_step (s, m) (s', m)"
| reset: "reset_steward_state_handler signer config clock vl s = Ok s' \<Longrightarrow> steward_step (s, m) (s', m)"
| reset_balances: "reset_validator_lamport_balances_handler signer config s = Ok s' \<Longrightarrow> steward_step (s, m) (s', m)"
| copy_targets: "copy_directed_stake_targets_handler signer config clock acc k x i m = Ok m' \<Longrightarrow>
    steward_step (s, m) (s, m')"
| sync: "sync_directed_stake_lamports_handler signer config acc m = Ok m' \<Longrightarrow> steward_step (s, m) (s, m')"
| migrate: "migrate_directed_to_algorithmic_handler signer config clock m = Ok m' \<Longrightarrow> steward_step (s, m) (s, m')"
| initialise: "realloc_state_handler full_size account_size False bump clock config vl a = Ok a' \<Longrightarrow>
    full_size \<le> account_size \<Longrightarrow> steward_step (s, m) (upgrade (sa1_state a'), m)"
| create_meta: "full_size \<le> account_size \<Longrightarrow>
    steward_step (s, m) (s, realloc_directed_stake_meta_handler full_size account_size False raw)"
| grow_meta: "steward_step (s, m) (s, realloc_directed_stake_meta_handler full_size account_size initialized m)"
| admin_add: "add_validator_to_pool_handler signer e r s = Ok s' \<Longrightarrow> steward_step (s, m) (s', m)"
| admin_remove: "remove_validator_from_pool_handler signer e addr k a i s = Ok s' \<Longrightarrow> steward_step (s, m) (s', m)"
| admin_increase: "increase_validator_stake_handler signer config v x r s = Ok s' \<Longrightarrow> steward_step (s, m) (s', m)"
| admin_decrease: "decrease_validator_stake_handler signer config v x r s = Ok s' \<Longrightarrow> steward_step (s, m) (s', m)"
| admin_increase_additional: "increase_additional_validator_stake_handler signer config v x r s = Ok s' \<Longrightarrow>
    steward_step (s, m) (s', m)"
| admin_decrease_additional: "decrease_additional_validator_stake_handler signer config v x r s = Ok s' \<Longrightarrow>
    steward_step (s, m) (s', m)"

text \<open>
  The steps that do not compare the number of validators with the size of the arrays: a reset
  or an initialisation that reads a longer list, and an addition by the admin when the state
  counts as many validators as the arrays hold although the list has fewer.
\<close>

inductive overflow_step :: "StewardStateV2 \<times> DirectedStakeMeta \<Rightarrow> StewardStateV2 \<times> DirectedStakeMeta \<Rightarrow> bool" where
  reset_overflow: "reset_steward_state_handler signer config clock (Ok vl) s = Ok s' \<Longrightarrow> MAX_VALIDATORS < bv_len vl \<Longrightarrow>
    overflow_step (s, m) (s', m)"
| initialise_overflow: "realloc_state_handler full_size account_size False bump clock config (Ok vl) a = Ok a' \<Longrightarrow>
    full_size \<le> account_size \<Longrightarrow> MAX_VALIDATORS < bv_len vl \<Longrightarrow> overflow_step (s, m) (upgrade (sa1_state a'), m)"
| add_overflow: "add_validator_to_pool_handler signer e r s = Ok s' \<Longrightarrow> e_list e = Ok (b, vl) \<Longrightarrow>
    bv_len vl < num_pool_validators s + validators_added s \<Longrightarrow>
    num_pool_validators s + validators_added s = MAX_VALIDATORS \<Longrightarrow> overflow_step (s, m) (s', m)"

lemma admin_mark_wf: "state_wf s \<Longrightarrow> ok_all state_wf (admin_mark_for_removal_handler signer c i b imm s)"
  unfolding admin_mark_for_removal_handler_def
  by (rule ok_all_any, intro ok_all_if ok_all_with [OF mask_set_wf]) (simp_all add: state_wf_masks)

lemma reset_steward_state_wf:
  "reset_steward_state_handler signer c clock acc s = Ok s' \<Longrightarrow>
   \<exists>vl. acc = Ok vl \<and> (bv_len vl \<le> MAX_VALIDATORS \<longrightarrow> state_wf s')"
  by (auto simp: reset_steward_state_handler_def and_then_eq_Inr state_wf_def)

lemma initialise_wf:
  "realloc_state_handler full_size account_size False bump clock c acc a = Ok a' \<Longrightarrow> full_size \<le> account_size \<Longrightarrow>
   \<exists>vl. acc = Ok vl \<and> (bv_len vl \<le> MAX_VALIDATORS \<longrightarrow> state_wf (upgrade (sa1_state a')))"
  by (auto simp: realloc_state_handler_def and_then_eq_Inr state_wf_def upgrade_def)

lemma grow_meta_wf: "meta_wf m \<Longrightarrow> meta_wf (realloc_directed_stake_meta_handler full_size account_size initialized m)"
  by (simp add: realloc_directed_stake_meta_handler_def meta_wf_def)

lemma create_meta_wf:
  "full_size \<le> account_size \<Longrightarrow> meta_wf (realloc_directed_stake_meta_handler full_size account_size False raw)"
  by (simp add: realloc_directed_stake_meta_handler_def meta_wf_def)

lemma reset_balances_wf:
  "reset_validator_lamport_balances_handler signer c s = Ok s' \<Longrightarrow> state_wf s \<Longrightarrow> state_wf s'"
  by (auto simp: reset_validator_lamport_balances_handler_def and_then_eq_Inr state_wf_def)

lemma copy_targets_wf:
  "copy_directed_stake_targets_handler signer c clock acc k x i m = Ok m' \<Longrightarrow> meta_wf m \<Longrightarrow> meta_wf m'"
  by (auto simp: copy_directed_stake_targets_handler_def and_then_eq_Inr Let_def arr_set_eq_Inr update_target_def
      meta_wf_def split: if_splits option.splits)

lemma sync_wf: "sync_directed_stake_lamports vl m = Ok m' \<Longrightarrow> meta_wf m \<Longrightarrow> meta_wf m'"
  unfolding sync_directed_stake_lamports_def
  by (erule for_each_invariant) (auto simp: sync_step_def set_directed_def and_then_eq_Inr arr_set_eq_Inr
      meta_wf_def split: if_splits)

lemma sync_handler_wf:
  "sync_directed_stake_lamports_handler signer c acc m = Ok m' \<Longrightarrow> meta_wf m \<Longrightarrow> meta_wf m'"
  using sync_wf by (auto simp: sync_directed_stake_lamports_handler_def and_then_eq_Inr)

lemma migrate_wf:
  "migrate_directed_to_algorithmic_handler signer c clock m = Ok m' \<Longrightarrow> meta_wf m \<Longrightarrow> meta_wf m'"
  by (auto simp: migrate_directed_to_algorithmic_handler_def and_then_eq_Inr meta_wf_def)

lemma steward_step_wf:
  assumes "steward_step p q" "pair_wf p"
  shows "pair_wf q \<or> overflow_step p q"
  using assms
proof cases
  case (score e v c i s s' evs m)
  then show ?thesis using ok_allD [OF compute_score_handler_wf score(3)] assms(2) by simp
next
  case (delegate e s s' evs m)
  then show ?thesis using ok_allD [OF compute_delegations_handler_wf delegate(3)] assms(2) by simp
next
  case (instant_unstake e v c i s s' evs m)
  then show ?thesis using ok_allD [OF compute_instant_unstake_handler_wf instant_unstake(3)] assms(2) by simp
next
  case (idle e s s' evs m)
  then show ?thesis using ok_allD [OF idle_handler_wf idle(3)] assms(2) by simp
next
  case (rebalance e a m i s s' evs)
  then show ?thesis using ok_allD [OF rebalance_handler_wf rebalance(3)] assms(2) by simp
next
  case (rebalance_directed accs clock es config i m s m' s' devs)
  then show ?thesis using ok_allD [OF rebalance_directed_wf rebalance_directed(3)] assms(2) by simp
next
  case (maintain e u j s m s' m' evs)
  then show ?thesis using ok_allD [OF epoch_maintenance_handler_wf maintain(3)] assms(2) by simp
next
  case (instant_remove e u i s m s' m')
  then show ?thesis using ok_allD [OF instant_remove_handler_wf instant_remove(3)] assms(2) by simp
next
  case (auto_add e v k add s s' evs m)
  then show ?thesis using ok_allD [OF auto_add_handler_wf auto_add(3)] assms(2) by simp
next
  case (auto_remove e r i s s' evs m)
  then show ?thesis using ok_allD [OF auto_remove_handler_wf auto_remove(3)] assms(2) by simp
next
  case (mark signer config i b imm s s' m)
  then show ?thesis using ok_allD [OF admin_mark_wf mark(3)] assms(2) by simp
next
  case (reset signer config clock vl s s' m)
  then show ?thesis using reset_steward_state_wf [OF reset(3)] assms(2)
    by (auto simp: linorder_not_le [symmetric] intro: reset_overflow)
next
  case (initialise full_size account_size bump clock config vl a a' s m)
  then show ?thesis using initialise_wf [OF initialise(3,4)] assms(2)
    by (auto simp: linorder_not_le [symmetric] intro: initialise_overflow)
next
  case (create_meta full_size account_size s m raw)
  then show ?thesis using create_meta_wf assms(2) by auto
next
  case (grow_meta s m full_size account_size initialized)
  then show ?thesis using grow_meta_wf assms(2) by auto
next
  case (reset_balances signer config s s' m)
  then show ?thesis using reset_balances_wf assms(2) by auto
next
  case (copy_targets signer config clock acc k x i m m' s)
  then show ?thesis using copy_targets_wf assms(2) by auto
next
  case (sync signer config acc m m' s)
  then show ?thesis using sync_handler_wf assms(2) by auto
next
  case (migrate signer config clock m m' s)
  then show ?thesis using migrate_wf assms(2) by auto
next
  case (admin_add signer e r s s' m)
  then show ?thesis using add_to_pool_wf [OF admin_add(3)] assms(2) by (auto intro: add_overflow)
next
  case (admin_remove signer e addr k a i s s' m)
  then show ?thesis using remove_from_pool_wf [OF admin_remove(3)] assms(2) by auto
qed (use assms(2) in \<open>auto dest: stake_moves_wf\<close>)

lemma overflow_step_not_wf: "overflow_step p q \<Longrightarrow> \<not> state_wf (fst q)"
proof (induction rule: overflow_step.induct)
  case (reset_overflow signer config clock vl s s' m)
  then show ?case by (auto simp: reset_steward_state_handler_def and_then_eq_Inr state_wf_def)
next
  case (initialise_overflow full_size account_size bump clock config vl a a' s m)
  then show ?case by (auto simp: realloc_state_handler_def and_then_eq_Inr state_wf_def upgrade_def)
next
  case (add_overflow signer e r s s' b vl m)
  then show ?case
    by (auto simp: add_validator_to_pool_handler_def and_then_eq_Inr increment_validator_to_add_def ok_or_eq_Inr
        checked_add_eq_Some state_wf_def split: if_splits)
qed

interpretation steward: step_system_upto steward_step pair_wf overflow_step
  using steward_step_wf overflow_step_not_wf by unfold_locales auto

section \<open>Properties\<close>

text \<open>
  C12. Take any run of the steward: the states between successful instructions of any kind, in
  any order and with any inputs, from a well-formed start. Then every state of the run is well
  formed (every array has its length, every mask its shape, and the pool with the validators
  added in the cycle does not outgrow the arrays) exactly when the run has none of the three
  steps that do not compare the number of validators with the size of the arrays: a reset or
  an initialisation that reads a list of more than \<^verbatim>\<open>MAX_VALIDATORS\<close>, or an addition by the
  admin while the state counts exactly \<^verbatim>\<open>MAX_VALIDATORS\<close> and the list fewer. And in a well
  formed state the machine can go on: no transition fails.
\<close>

theorem reachable_states_are_well_formed:
  assumes "successively steward_step ((s, m) # ps)" "state_wf s" "meta_wf m"
  shows "((\<forall>(s', m') \<in> set ps. state_wf s' \<and> meta_wf m') \<longleftrightarrow> successively (\<lambda>p q. \<not> overflow_step p q) ((s, m) # ps)) \<and>
    (\<forall>(s', m') \<in> set ps. state_wf s' \<longrightarrow> (\<forall>clock params es prog. epoch_progress clock es = Ok prog \<longrightarrow>
       (\<exists>r. maybe_transition clock params es s' = Ok r)))"
proof -
  have "\<exists>r. maybe_transition clock params es s' = Ok r"
    if "state_wf s'" "epoch_progress clock es = Ok prog" for s' clock params es prog
    using transition_step [OF that, of params] by (auto simp: maybe_transition_def Let_def)
  moreover have "(\<forall>p\<in>set ((s, m) # ps). pair_wf p) \<longleftrightarrow> successively (\<lambda>p q. \<not> overflow_step p q) ((s, m) # ps)"
    by (rule steward.run_inv_iff) (use assms in simp_all)
  ultimately show ?thesis using assms(2,3) by (auto simp: split_beta)
qed

theorem reachable_states_are_well_formed_witness:
  "\<exists>p. steward_step (directed_state, directed_meta) p \<and> state_wf (fst p) \<and> meta_wf (snd p) \<and>
     \<not> overflow_step (directed_state, directed_meta) p \<and>
     (\<exists>r. maybe_transition sample_clock sample_parameters sample_schedule (fst p) = Ok r)"
proof -
  obtain m' s' evs where run: "rebalance_directed_handler directed_accs sample_clock sample_schedule directed_config 0
     directed_meta directed_state = Ok (m', s', evs)" using directed_sample_run by blast
  have step: "steward_step (directed_state, directed_meta) (s', m')"
    using steward_step.rebalance_directed [OF run] by blast
  have wf: "state_wf s'" "meta_wf m'"
    using ok_allD [OF rebalance_directed_wf run] directed_sample_facts(1,2) by simp_all
  from step have "successively steward_step [(directed_state, directed_meta), (s', m')]" by simp
  from reachable_states_are_well_formed [OF this directed_sample_facts(1,2)] show ?thesis
    using step wf sample_progress by (intro exI [of _ "(s', m')"]) auto
qed

text \<open>
  What an overflow does: with more validators than a mask has places, no stage that waits for
  every validator can end.
\<close>

theorem overflow_stops_the_machine:
  assumes "MAX_VALIDATORS < num_pool_validators s" "epoch_progress clock es = Ok prog"
    and "state_tag s = ComputeScores \<or> state_tag s = ComputeInstantUnstake \<or>
      state_tag s = Rebalance \<and> \<not> has_flag RESET_TO_IDLE s"
  shows "maybe_transition clock params es s = Err (Steward BitmaskOutOfBounds)"
  using assms by (auto simp: maybe_transition_def transition_def transition_defs mask_is_complete_def)

section \<open>Epoch maintenance\<close>

text \<open>Removing a validator does not touch the stage, the epoch or the flags.\<close>

definition same_stage :: "StewardStateV2 \<Rightarrow> StewardStateV2 \<Rightarrow> bool" where
  "same_stage s t \<longleftrightarrow> state_tag t = state_tag s \<and> current_epoch t = current_epoch s \<and>
     next_cycle_epoch t = next_cycle_epoch s \<and> status_flags t = status_flags s"

lemma remove_validator_stage: "ok_all (\<lambda>(s', m'). same_stage s s' \<and>
    directed_unstake_total m' = directed_unstake_total m \<and> targets m' = targets m) (remove_validator i s m)"
  unfolding remove_validator_def Let_def
proof (intro ok_all_bind ok_all_split, goal_cases)
  case (1 mr mi _ sum _ s0 sum' p s1 m1 s2 sr ss q sr' ss')
  let ?I = "\<lambda>p. same_stage s (fst p) \<and> directed_unstake_total (snd p) = directed_unstake_total m \<and> targets (snd p) = targets m"
  have s0: "same_stage s s0" using 1(6) by (auto simp: same_stage_def and_then_eq_Inr split: if_splits)
  have p: "?I p"
    by (rule for_each_invariant [OF 1(8)])
       (use s0 in \<open>auto simp: same_stage_def shift_validator_state_def and_then_eq_Inr split: prod.splits\<close>)
  have "same_stage s s2"
    by (rule for_each_invariant [OF 1(10)])
       (use p 1(9) in \<open>auto simp: same_stage_def shift_removal_marks_def and_then_eq_Inr\<close>)
  then show ?case using p 1(9) by (auto simp: ok_all_def clear_last_def and_then_eq_Inr same_stage_def)
qed

lemma bit_flag: "k < 32 \<Longrightarrow> bit (push_bit k 1 :: 32 word) j \<longleftrightarrow> j = k"
  by (auto simp: bit_exp_iff possible_bit_word)

lemma flag_bit:
  "bit PRE_LOOP_IDLE j \<longleftrightarrow> j = 3" "bit COMPUTE_INSTANT_UNSTAKES j \<longleftrightarrow> j = 4" "bit REBALANCE j \<longleftrightarrow> j = 5"
  "bit POST_LOOP_IDLE j \<longleftrightarrow> j = 6" "bit REBALANCE_DIRECTED_COMPLETE j \<longleftrightarrow> j = 7"
  unfolding flag_defs by (rule bit_flag, simp)+

lemma maintenance_flags_bit: "bit maintenance_flags j \<longleftrightarrow> j \<in> {3, 4, 5, 6, 7}"
  unfolding maintenance_flags_def bit_or_iff flag_bit by blast

text \<open>
  C10. Epoch maintenance advances the steward to the new epoch exactly when no removal is left.
  A successful call ran after the stake pool's update and before the epoch was started. If
  no mark is left afterwards, the stage is directed rebalancing with empty masks in the
  clock's epoch, the flags of the previous epoch's loop are cleared, and a second call in the
  same epoch is refused; otherwise the stage and the epoch are what they were.
\<close>

theorem epoch_maintenance_starts_the_epoch:
  assumes "epoch_maintenance_handler e u j s m = Ok (s', m', evs)" "state_wf s" "meta_wf m"
  shows "current_epoch s < clock_epoch (e_clock e) \<and> u = Ok (clock_epoch (e_clock e)) \<and>
    (if mask_bits (validators_to_remove s') = {} \<and> mask_bits (validators_for_immediate_removal s') = {}
     then current_epoch s' = clock_epoch (e_clock e) \<and> state_tag s' = RebalanceDirected \<and>
       mask_bits (progress s') = {} \<and> mask_bits (instant_unstake s') = {} \<and>
       (\<forall>b. bit (status_flags s') b = (b = 2 \<or> bit (status_flags s) b \<and> b \<notin> {3, 4, 5, 6, 7})) \<and>
       (\<forall>j. epoch_maintenance_handler e u j s' m' = Err (Steward EpochMaintenanceAlreadyComplete))
     else current_epoch s' = current_epoch s \<and> state_tag s' = state_tag s)"
proof -
  let ?s = "unset_flag EPOCH_MAINTENANCE s"
  obtain s1 m1 where u: "u = Ok (clock_epoch (e_clock e))" "current_epoch s < clock_epoch (e_clock e)"
    and p: "(case j of None \<Rightarrow> Ok (?s, m) | Some j \<Rightarrow> remove_validator j ?s m) = Ok (s1, m1)"
    and eq: "(s', m') = (if mask_is_empty (validators_to_remove s1) \<and> mask_is_empty (validators_for_immediate_removal s1)
         then start_epoch (clock_epoch (e_clock e)) s1 m1 else (s1, m1))"
    using epoch_maintenance_success [OF assms(1)] by auto
  have st: "same_stage ?s s1"
    using p ok_allD [OF remove_validator_stage] by (cases j) (auto simp: same_stage_def)
  have again: "epoch_maintenance_handler e u j s' m' = Err (Steward EpochMaintenanceAlreadyComplete)"
    if "current_epoch s' = clock_epoch (e_clock e)" for j
    using that u by (simp add: epoch_maintenance_handler_def)
  show ?thesis
  proof (cases "mask_bits (validators_to_remove s1) = {} \<and> mask_bits (validators_for_immediate_removal s1) = {}")
    case True
    then have s': "s' = fst (start_epoch (clock_epoch (e_clock e)) s1 m1)"
      using eq by (simp add: mask_is_empty_eq prod_eq_iff)
    have "bit (status_flags s') b = (b = 2 \<or> bit (status_flags s) b \<and> b \<notin> {3, 4, 5, 6, 7})" for b
      using st unfolding s' start_epoch_def Let_def
      by (auto simp: set_flag_bit same_stage_def unset_flag_bit unset_flag_def [of maintenance_flags] bit_and_iff
          bit_not_iff maintenance_flags_bit dest: bit_imp_le_length)
    then show ?thesis using s' True u again by (simp add: start_epoch_def Let_def)
  next
    case False
    then have "(s', m') = (s1, m1)" using eq by (auto simp: mask_is_empty_eq)
    then show ?thesis using False st u by (auto simp: same_stage_def)
  qed
qed

text \<open>An environment for witnesses: three active validators, one epoch after the sample state's.\<close>

definition sample_status :: "StakeStatus \<Rightarrow> 8 word" where
  "sample_status st = (case st of Active \<Rightarrow> 0 | DeactivatingTransient \<Rightarrow> 1 | ReadyForRemoval \<Rightarrow> 2
     | DeactivatingValidator \<Rightarrow> 3 | DeactivatingAll \<Rightarrow> 4)"

definition sample_env :: "nat \<Rightarrow> Config \<Rightarrow> crank_env" where
  "sample_env epoch config = \<lparr>e_clock = \<lparr>clock_slot = 103, clock_epoch = epoch\<rparr>, e_schedule = sample_schedule,
     e_config = config, e_list = Ok (True, big_vec_of sample_infos),
     e_slice = (\<lambda>vl i n. Ok (take n (drop i sample_infos))), e_status_byte = sample_status\<rparr>"

lemma arr_get_of_slice: "arr_slice xs i (Suc i) = Ok [v] \<Longrightarrow> arr_get xs i = Ok v"
  by (auto simp: arr_slice_def arr_get_def take_Suc hd_drop_conv_nth split: if_splits)

lemma stake_status_at_info:
  assumes "infos_wf vs" "i < length vs"
  shows "stake_status_at (big_vec_of vs) i = Ok (status_byte (vs ! i))"
proof -
  have wf: "info_wf (vs ! i)" using assms by (simp add: infos_wf_def)
  have "arr_slice (bv_data (big_vec_of vs)) (4 + i * 73 + 40) (Suc (4 + i * 73 + 40)) = Ok [status_byte (vs ! i)]"
    using slice_of_item [OF assms, of 40 1] wf by (simp add: info_bytes_def info_wf_def)
  then have "arr_get (bv_data (big_vec_of vs)) (4 + i * 73 + 40) = Ok (status_byte (vs ! i))" by (rule arr_get_of_slice)
  then show ?thesis
    using item_start_wf [OF assms] item_bounds [OF assms] by (simp add: stake_status_at_def checked_defs offset_defs)
qed

lemma sample_length: "length sample_infos = 3" "bv_len (big_vec_of sample_infos) = 3"
  by (simp_all add: sample_infos_def big_vec_of_def)

lemma sample_all_active:
  "check_validator_list_has_stake_status_other_than sample_status (Ok (True, big_vec_of sample_infos)) [Active] = Ok False"
proof -
  have "status_byte (sample_infos ! i) = 0" if "i < 3" for i
    using that by (auto simp: sample_infos_def sample_info_def less_Suc_eq numeral_3_eq_3)
  then have "position (\<lambda>i. and_then (stake_status_at (big_vec_of sample_infos) i)
      (\<lambda>x. Ok (\<not> list_ex (\<lambda>flag. x = sample_status flag) [Active]))) [0..<3] = Ok None"
    by (subst position_pure [where q = "\<lambda>_. False"])
       (auto simp: stake_status_at_info [OF sample_infos_wf] sample_length sample_status_def)
  then show ?thesis
    by (simp add: check_validator_list_has_stake_status_other_than_def load_validator_list_def sample_length)
qed

theorem epoch_maintenance_starts_the_epoch_witness:
  "\<exists>s' m' evs. epoch_maintenance_handler (sample_env 901 sample_config) (Ok 901) None sample_state DirectedStakeMeta_default
      = Ok (s', m', evs) \<and> current_epoch s' = 901 \<and> state_tag s' = RebalanceDirected"
proof -
  let ?e = "sample_env 901 sample_config"
  have run: "epoch_maintenance_handler ?e (Ok 901) None sample_state DirectedStakeMeta_default =
      (let (s, m) = start_epoch 901 (unset_flag EPOCH_MAINTENANCE sample_state) DirectedStakeMeta_default in
       Ok (s, m, [Maintained \<lparr>em_validator_index_to_remove = None, em_validator_list_length = 3,
         em_num_pool_validators = num_pool_validators s, em_validators_to_remove = mask_count (validators_to_remove s),
         em_validators_to_add = validators_added s, em_maintenance_complete = True\<rparr>]))"
    using sample_all_active
    by (simp add: epoch_maintenance_handler_def sample_env_def get_validator_list_length_def load_validator_list_def
        sample_length panic_defs checked_defs bm.count_eq sample_state_def mask_is_empty_eq int_limits)
  then obtain s' m' evs where ok: "epoch_maintenance_handler ?e (Ok 901) None sample_state DirectedStakeMeta_default
      = Ok (s', m', evs)" "s' = fst (start_epoch 901 (unset_flag EPOCH_MAINTENANCE sample_state) DirectedStakeMeta_default)"
    by (auto simp: Let_def split: prod.splits)
  have "validators_to_remove s' = BitMask_default" "validators_for_immediate_removal s' = BitMask_default"
    by (simp_all add: ok(2) start_epoch_def Let_def sample_state_def)
  with epoch_maintenance_starts_the_epoch [OF ok(1) sample_state_wf DirectedStakeMeta_default_wf] ok(1)
  show ?thesis by (simp add: sample_env_def)
qed

end
