(* ===== verification/Crank_Properties.thy ===== *)
theory Crank_Properties
  imports Steward_Machine
begin

text \<open>
  What the crank instructions guarantee beyond well-formedness: rebalancing never delegates
  past the ceiling or beyond the reserve, only live and staked validators are added, and a
  paused steward neither scores nor moves stake.
\<close>

section \<open>Increases come out of the reserve\<close>

lemma increase_step_le:
  "increase_step s m pool vl base i reserve = Ok (reserve', x) \<Longrightarrow> x \<le> reserve \<and> reserve' \<le> reserve"
  by (auto simp: increase_step_def and_then_eq_Inr Let_def ok_or_eq_Inr checked_sub_eq_Some split: if_splits)

lemma increase_loop_le:
  "increase_loop s m ti pool vl base md xs reserve = Ok (Increase x) \<Longrightarrow> x \<le> reserve"
proof (induction xs arbitrary: reserve)
  case (Cons i xs)
  then obtain reserve' y where st: "increase_step s m pool vl base i reserve = Ok (reserve', y)"
    by (auto simp: and_then_eq_Inr)
  then have "y = x \<or> increase_loop s m ti pool vl base md xs reserve' = Ok (Increase x)"
    using Cons.prems by (auto split: if_splits)
  then show ?case using Cons.IH increase_step_le [OF st] by fastforce
qed simp

lemma decrease_loop_result:
  "decrease_loop s m ti cur pool vl base md xs us \<noteq> Ok (Increase x)"
  by (induction xs arbitrary: us) (auto simp: and_then_eq_Inr split: if_splits)

lemma calculate_rebalance_increase:
  assumes "calculate_rebalance s m i target cu pool vl reserve md rent params = Ok (Increase x)"
  shows "x \<le> reserve"
proof -
  have "increase_stake_calculation s m i cu pool vl reserve md rent = Ok (Increase x)"
    using assms
    by (auto simp: calculate_rebalance_def decrease_stake_calculation_def and_then_eq_Inr decrease_loop_result split: if_splits)
  then show ?thesis
    using increase_loop_le by (auto simp: increase_stake_calculation_def and_then_eq_Inr split: if_splits)
qed

lemma rebalance_increase:
  "ok_all (\<lambda>(t, r). \<forall>x. r = Increase x \<longrightarrow> x \<le> reserve) (rebalance m epoch i vl pool reserve current md rent params s)"
  unfolding rebalance_def Let_def
proof (intro ok_all_if ok_all_bind, goal_cases)
  case (5 dn tr mk base all left minimum fixed pool' d target directed balance balances r t pr)
  have "x \<le> reserve" if "r = Increase x" for x
    using calculate_rebalance_increase 5 that by (fastforce simp: saturating_sub_def)
  then show ?case by simp
qed simp_all

section \<open>Properties\<close>

text \<open>
  C11. Undirected delegation never exceeds its ceiling. When the rebalance instruction
  increases a validator's stake, the amount is part of the reserve, and the undirected stake
  of the pool together with the amount is at most the configured ceiling.
\<close>

theorem rebalance_respects_the_stake_ceiling:
  assumes "rebalance_handler e a m i s = Ok (s', evs)" "Rebalanced ev \<in> set evs"
    and "re_rebalance_type_tag ev = TagIncrease" "ra_stake_pool_total a = Ok pool"
  shows "re_increase_lamports ev \<le> ra_reserve_lamports a \<and>
    (re_increase_lamports ev \<noteq> 0 \<longrightarrow> pool - total_staked_lamports m + re_increase_lamports ev
       \<le> undirected_stake_ceiling_lamports (c_parameters (e_config e)))"
proof -
  let ?u = "pool - total_staked_lamports m"
  obtain epoch vl cur md rent params t u r where
    reb: "rebalance m epoch i vl ?u (capped_reserve (e_config e) ?u (ra_reserve_lamports a)) cur md rent params t = Ok (u, r)"
    and ev: "ev = rebalance_to_event (ra_vote_account a) (cast U16_MAX (clock_epoch (e_clock e))) r"
    using assms(1,2,4)
    by (auto simp: rebalance_handler_def and_then_eq_Inr Let_def saturating_sub_def split: option.splits if_splits)
  obtain x where r: "r = Increase x" using ev assms(3) by (cases r) auto
  have "x \<le> capped_reserve (e_config e) ?u (ra_reserve_lamports a)"
    using ok_allD [OF rebalance_increase reb] r by simp
  then show ?thesis using ev r by (auto simp: capped_reserve_def Let_def saturating_sub_def split: if_splits)
qed

text \<open>
  Only live and sufficiently staked validators are added. When the instruction succeeds,
  the steward is not paused and its epoch is current, there is room for one more validator,
  the history has vote credits for every epoch of the minimum voting window and a recorded
  stake of at least the minimum, and afterwards the state counts one validator more than the
  list it was checked against.
\<close>

theorem auto_add_accepts_only_eligible_validators:
  assumes "auto_add_validator_handler e v k add s = Ok (s', evs)"
  shows "\<exists>n entry credits. get_validator_list_length (e_list e) = Ok n \<and> n < MAX_VALIDATORS \<and>
    \<not> is_paused (e_config e) \<and> clock_epoch (e_clock e) = current_epoch s \<and>
    num_pool_validators s' + validators_added s' = Suc n \<and> num_pool_validators s + validators_added s = n \<and>
    circ_last (vh_history v) = Ok (Some entry) \<and>
    epoch_credits_range (cast U16_MAX (clock_epoch (e_clock e) -
        (p_minimum_voting_epochs (c_parameters (e_config e)) - 1)))
      (cast U16_MAX (clock_epoch (e_clock e))) (vh_history v) = Ok credits \<and>
    None \<notin> set credits \<and> p_minimum_stake_lamports (c_parameters (e_config e)) \<le> activated_stake_lamports entry \<and>
    activated_stake_lamports entry \<noteq> activated_stake_lamports ValidatorHistoryEntry_default \<and> add = Ok ()"
proof -
  obtain n where chk: "add_validator_check (e_clock e) (e_config e) s (e_list e) = Ok ()"
    and n: "get_validator_list_length (e_list e) = Ok n" "n < MAX_VALIDATORS"
    using assms by (auto simp: auto_add_validator_handler_def Let_def and_then_eq_Inr unwrap_def checked_add_def
        split: if_splits)
  have st: "\<not> is_paused (e_config e)" "clock_epoch (e_clock e) = current_epoch s"
    "num_pool_validators s + validators_added s = n"
    using chk n by (auto simp: add_validator_check_def list_matches_state_def and_then_eq_Inr require_eq_Inr
        plus_or_panic_def ok_or_eq_Inr checked_add_eq_Some split: if_splits)
  obtain entry credits where h: "circ_last (vh_history v) = Ok (Some entry)"
    "epoch_credits_range (cast U16_MAX (clock_epoch (e_clock e) -
        (p_minimum_voting_epochs (c_parameters (e_config e)) - 1)))
      (cast U16_MAX (clock_epoch (e_clock e))) (vh_history v) = Ok credits"
    "\<not> list_ex (\<lambda>c. c = None) credits" "p_minimum_stake_lamports (c_parameters (e_config e)) \<le> activated_stake_lamports entry"
    "activated_stake_lamports entry \<noteq> activated_stake_lamports ValidatorHistoryEntry_default"
    "increment_validator_to_add s = Ok s'" "add = Ok ()"
    using assms by (auto simp: auto_add_validator_handler_def Let_def and_then_eq_Inr saturating_sub_def
        split: if_splits option.splits)
  have "num_pool_validators s' + validators_added s' = Suc n"
    using h(6) st(3) by (auto simp: increment_validator_to_add_def and_then_eq_Inr ok_or_eq_Inr checked_add_eq_Some)
  then show ?thesis using n st h by (auto simp: list_ex_iff)
qed

text \<open>
  A paused steward does nothing but finish a stage: scoring, delegating, idling, adding and
  removing validators fail, and the rebalance and the instant-unstake instructions either
  fail or make one transition, with no score, no stake move and no progress recorded.
\<close>

theorem paused_steward_only_transitions:
  assumes "is_paused (e_config e)"
  shows "compute_score_handler e v c i s = Err (Steward StateMachinePaused) \<and>
    compute_delegations_handler e s = Err (Steward StateMachinePaused) \<and>
    idle_handler e s = Err (Steward StateMachinePaused) \<and>
    auto_add_validator_handler e v k add s = Err (Steward StateMachinePaused) \<and>
    auto_remove_validator_handler e r i s = Err (Steward StateMachinePaused) \<and>
    ok_all (\<lambda>(t, evs). \<exists>tr. evs = [Transitioned tr] \<and> crank_transition e s = Ok (t, Some tr))
      (compute_instant_unstake_handler e v c i s) \<and>
    ok_all (\<lambda>(t, evs). \<exists>tr. evs = [Transitioned tr] \<and> crank_transition e s = Ok (t, Some tr))
      (rebalance_handler e a m i s)"
  using assms
  by (auto simp: compute_score_handler_def compute_delegations_handler_def idle_handler_def auto_add_validator_handler_def
      auto_remove_validator_handler_def compute_instant_unstake_handler_def rebalance_handler_def state_checks_def
      add_validator_check_def remove_validator_check_def ok_all_def and_then_eq_Inr Let_def split: option.splits)

section \<open>Witnesses\<close>

text \<open>The third validator is short of its half of the pool; the ceiling leaves 1000 lamports.\<close>

definition sample_rebalance_accounts :: rebalance_accounts where
  "sample_rebalance_accounts = \<lparr>ra_history_vote_account = replicate 32 1, ra_vote_account = replicate 32 1,
     ra_owned_by_vote_program = True, ra_stake_state = Ok (Some 3000), ra_transient_stake_state = Ok None,
     ra_stake_pool_total = Ok 9000, ra_reserve_lamports = 5000, ra_minimum_delegation = 100, ra_stake_rent = 10,
     ra_invoke = (\<lambda>_ _. Ok ())\<rparr>"

lemma sample_masks:
  "BitMask_get i BitMask_default = (if i < MAX_VALIDATORS then Ok False else Err (Steward BitmaskOutOfBounds))"
  "mask_count BitMask_default = 0"
  using bm.get_eq [of BitMask_default i] bm.count_eq [of BitMask_default] by simp_all

lemma sample_rebalance_increase:
  "\<exists>s'. rebalance DirectedStakeMeta_default 900 2 (big_vec_of sample_infos) 9000 1000 2900 100 10
     sample_parameters sample_rebalance = Ok (s', Increase 960)"
proof -
  obtain pr where pr: "BitMask_set 2 True BitMask_default = Ok pr"
    using bm.set_in [of BitMask_default 2 True] by (auto simp: MAX_VALIDATORS_def)
  have f: "state_tag sample_rebalance = Rebalance" "next_cycle_epoch sample_rebalance = 910"
    "progress sample_rebalance = BitMask_default" "validators_to_remove sample_rebalance = BitMask_default"
    "validators_for_immediate_removal sample_rebalance = BitMask_default" "instant_unstake sample_rebalance = BitMask_default"
    by (simp_all add: sample_rebalance_def sample_state_def)
  let ?s = "sample_rebalance\<lparr>validator_lamport_balances := (replicate MAX_VALIDATORS 0)[2 := 3010]\<rparr>"
  have two: "2 < MAX_VALIDATORS" by (simp add: MAX_VALIDATORS_def)
  have step: "increase_step ?s DirectedStakeMeta_default 8670 (big_vec_of sample_infos) 110 2 960 = Ok (0, 960)"
    using sample_undirected [of 2 ?s] two f
    by (simp add: increase_step_def sample_balances sample_masks get_target_lamports_def checked_defs)
  have sorted: "take 3 (sorted_score_indices sample_rebalance) = [2, 0, 1]" "3 \<le> length (sorted_score_indices sample_rebalance)"
    using sample_rebalance_facts(1,7) by (simp_all add: state_wf_def MAX_VALIDATORS_def)
  have "increase_stake_calculation ?s DirectedStakeMeta_default 2 2900 8670 (big_vec_of sample_infos) 960 100 10
      = Ok (Increase 960)"
    using step sorted two sample_rebalance_facts(3)
    by (simp add: increase_stake_calculation_def sample_balances get_target_lamports_def checked_defs int_limits)
  then have calc: "calculate_rebalance ?s DirectedStakeMeta_default 2 4335 2900 8670 (big_vec_of sample_infos)
      960 100 10 sample_parameters = Ok (Increase 960)"
    using two by (simp add: calculate_rebalance_def f sample_masks)
  have dsl: "directed_stake_lamports DirectedStakeMeta_default = replicate MAX_VALIDATORS 0"
    by (simp add: DirectedStakeMeta_default_def)
  show ?thesis
    using pr f calc two dsl sample_length
    by (simp add: rebalance_def sample_balances sample_masks get_target_lamports_def Let_def checked_defs saturating_defs
        cast_def int_limits apply_rebalance_def apply_increase_def LAMPORT_BALANCE_DEFAULT_def)
qed

lemma sample_info_at: "get_validator_stake_info_at_index (sample_env epoch config) 2 = Ok (sample_info 3000)"
  by (simp add: get_validator_stake_info_at_index_def sample_env_def load_validator_list_def sample_infos_def)

theorem rebalance_respects_the_stake_ceiling_witness:
  "\<exists>s' ev. rebalance_handler (sample_env 900 sample_config) sample_rebalance_accounts DirectedStakeMeta_default 2
      sample_rebalance = Ok (s', ev) \<and>
    (\<exists>r. Rebalanced r \<in> set ev \<and> re_increase_lamports r = 960 \<and> 9000 + re_increase_lamports r \<le> 10000)"
proof -
  let ?e = "sample_env 900 sample_config"
  obtain t where t: "rebalance DirectedStakeMeta_default 900 2 (big_vec_of sample_infos) 9000 1000 2900 100 10
     sample_parameters sample_rebalance = Ok (t, Increase 960)" using sample_rebalance_increase by blast
  have wf: "state_wf t" using ok_allD [OF rebalance_wf [OF sample_rebalance_facts(1)] t] by simp
  have clk: "e_clock ?e = sample_clock" "e_schedule ?e = sample_schedule" "c_parameters (e_config ?e) = sample_parameters"
    by (simp_all add: sample_env_def sample_clock_def sample_config_def)
  obtain u ev where u: "crank_transition ?e t = Ok (u, ev)"
    using transition_step [OF wf sample_progress, of sample_parameters] unfolding clk by (auto simp: maybe_transition_def Let_def)
  have "all_processed sample_rebalance = False"
    using sample_rebalance_facts(3) by (auto simp: all_processed_def sample_rebalance_def sample_state_def lessThan_empty_iff)
  then have stay: "crank_transition ?e sample_rebalance = Ok (sample_rebalance, None)"
    unfolding clk using sample_progress is_complete_wf [OF sample_rebalance_facts(1)]
    by (simp add: maybe_transition_def transition_def transition_rebalance_def flag_bits sample_rebalance_def sample_state_def)
  have chk: "state_checks (e_clock ?e) (e_config ?e) sample_rebalance (e_list ?e) (Some Rebalance) = Ok ()"
    by (simp add: state_checks_def list_matches_state_def get_validator_list_length_def load_validator_list_def sample_env_def
        sample_config_def is_paused_def sample_rebalance_def sample_length sample_masks panic_defs checked_defs int_limits)
  have total: "total_staked_lamports DirectedStakeMeta_default = 0"
  proof -
    have "fold (\<lambda>t total. saturating_add U64_MAX total (t_total_staked_lamports t)) (replicate n DirectedStakeTarget_default) 0 = 0" for n
      by (induction n) (simp_all add: DirectedStakeTarget_default_def saturating_add_def)
    then show ?thesis by (simp add: total_staked_lamports_def DirectedStakeMeta_default_def)
  qed
  have "undirected_stake_ceiling_lamports sample_parameters = 10000"
    by (simp add: undirected_stake_ceiling_lamports_def sample_parameters_def from_to_le_bytes)
  then have ceil: "undirected_stake_ceiling_lamports (c_parameters (e_config ?e)) = 10000"
    "capped_reserve (e_config ?e) 9000 5000 = 1000"
    using clk(3) by (simp_all add: capped_reserve_def saturating_sub_def)
  have run: "rebalance_handler ?e sample_rebalance_accounts DirectedStakeMeta_default 2 sample_rebalance =
      Ok (u, Rebalanced (rebalance_to_event (replicate 32 1) (cast U16_MAX 900) (Increase 960)) # transition_events ev)"
    using stay chk t u ceil total clk sample_info_at [of 900 sample_config]
    by (simp add: rebalance_handler_def sample_rebalance_accounts_def transient_lamports_def sample_info_def
        saturating_sub_def sample_clock_def) (simp add: sample_env_def)
  have "ra_stake_pool_total sample_rebalance_accounts = Ok 9000" by (simp add: sample_rebalance_accounts_def)
  from rebalance_respects_the_stake_ceiling [OF run _ _ this,
      of "rebalance_to_event (replicate 32 1) (cast U16_MAX 900) (Increase 960)"]
  have "9000 + 960 \<le> undirected_stake_ceiling_lamports (c_parameters (e_config ?e))" using total by simp
  then show ?thesis using run ceil by (intro exI conjI) (rule run, auto)
qed

definition live_entry :: ValidatorHistoryEntry where
  "live_entry = vhe_default\<lparr>vhe_epoch := 900, vhe_epoch_credits := 16, activated_stake_lamports := 5000000\<rparr>"

definition live_history :: ValidatorHistory where
  "live_history = sample_history\<lparr>vh_history := \<lparr>idx = 0, is_empty_flag = 0, arr = live_entry # replicate 511 vhe_default\<rparr>\<rparr>"

definition young_config :: Config where
  "young_config = sample_config\<lparr>c_parameters := sample_parameters\<lparr>p_minimum_voting_epochs := 1\<rparr>\<rparr>"

lemma live_history_inv: "vh_inv live_history \<and> vh_entries live_history = [live_entry]"
  by (rule circ_inv_intro [of _ _ "replicate 511 vhe_default"])
     (simp_all add: live_history_def live_entry_def MAX_ITEMS_def int_limits layout_split circ_is_empty_def)

lemma live_history_reads:
  "circ_last (vh_history live_history) = Ok (Some live_entry)"
  "epoch_credits_range 900 900 (vh_history live_history) = Ok [Some 16]"
proof -
  have inv: "vh_inv live_history" "vh_entries live_history = [live_entry]" using live_history_inv by simp_all
  show "circ_last (vh_history live_history) = Ok (Some live_entry)" using circ_last_eq [OF inv(1)] inv(2) by simp
  show "epoch_credits_range 900 900 (vh_history live_history) = Ok [Some 16]"
    using epoch_range_eq [OF inv(1), of 900 900] inv(2)
    by (simp add: epoch_credits_range_def field_range_def lookup_epoch_def live_entry_def ValidatorHistoryEntry_default_def int_limits)
qed

theorem auto_add_accepts_only_eligible_validators_witness:
  "\<exists>s' evs. auto_add_validator_handler (sample_env 900 young_config) live_history (replicate 32 9) (Ok ()) sample_state
      = Ok (s', evs) \<and> num_pool_validators s' + validators_added s' = 4"
proof -
  let ?e = "sample_env 900 young_config"
  have chk: "add_validator_check (e_clock ?e) (e_config ?e) sample_state (e_list ?e) = Ok ()"
    and n: "get_validator_list_length (e_list ?e) = Ok 3"
    by (simp_all add: add_validator_check_def list_matches_state_def get_validator_list_length_def load_validator_list_def
        sample_env_def young_config_def sample_config_def is_paused_def sample_state_def sample_length sample_masks
        panic_defs checked_defs int_limits)
  have "\<exists>s' evs. auto_add_validator_handler ?e live_history (replicate 32 9) (Ok ()) sample_state = Ok (s', evs)"
    using chk n live_history_reads
    by (simp add: auto_add_validator_handler_def unwrap_def checked_defs int_limits MAX_VALIDATORS_def cast_def
        saturating_sub_def sample_env_def young_config_def sample_config_def sample_parameters_def
        increment_validator_to_add_def sample_state_def live_entry_def ValidatorHistoryEntry_default_def)
  then obtain s' evs where run: "auto_add_validator_handler ?e live_history (replicate 32 9) (Ok ()) sample_state = Ok (s', evs)"
    by blast
  from auto_add_accepts_only_eligible_validators [OF run] run n show ?thesis by auto
qed

theorem paused_steward_only_transitions_witness:
  "compute_delegations_handler (sample_env 900 paused_config) sample_state = Err (Steward StateMachinePaused)"
proof -
  have "is_paused (e_config (sample_env 900 paused_config))"
    by (simp add: sample_env_def paused_config_def is_paused_def)
  from paused_steward_only_transitions [OF this] show ?thesis by blast
qed

end
