(* ===== verification/Admin_Properties.thy ===== *)
theory Admin_Properties
  imports Steward_Machine
begin

text \<open>
  What the instructions of the authorities and of the directed stakers guarantee: who can
  change what of the configuration, that a ticket never directs more than its holder's
  stake, that the whitelist and the blacklist behave as sets, and that the upload and the
  synchronisation of targets keep the books of the directed stake.
\<close>

section \<open>Who may change the configuration\<close>

text \<open>One signed instruction on the configuration.\<close>

inductive config_step :: "Pubkey \<Rightarrow> Config \<Rightarrow> Config \<Rightarrow> bool" where
  pause: "pause_steward_handler signer c = Ok c' \<Longrightarrow> config_step signer c c'"
| resume: "resume_steward_handler signer c = Ok c' \<Longrightarrow> config_step signer c c'"
| blacklist: "add_validators_to_blacklist_handler signer indices c = Ok c' \<Longrightarrow> config_step signer c c'"
| unblacklist: "remove_validators_from_blacklist_handler signer indices c = Ok c' \<Longrightarrow> config_step signer c c'"
| authority: "set_new_authority_handler signer k ty c = Ok c' \<Longrightarrow> config_step signer c c'"
| parameters: "update_parameters_handler signer args clock es c = Ok c' \<Longrightarrow> config_step signer c c'"
| fee_parameters: "update_priority_fee_parameters_handler signer fargs clock es c = Ok c' \<Longrightarrow> config_step signer c c'"

lemma check_address_eq_Ok [simp]: "check_address expected actual = Ok u \<longleftrightarrow> actual = expected"
  and check_authority_eq_Ok [simp]: "check_authority expected actual = Ok u \<longleftrightarrow> actual = expected"
  by (simp_all add: check_address_def check_authority_def)

lemmas config_handlers = pause_steward_handler_def resume_steward_handler_def set_paused_def
  add_validators_to_blacklist_handler_def remove_validators_from_blacklist_handler_def set_blacklist_def
  set_new_authority_handler_def update_parameters_handler_def update_priority_fee_parameters_handler_def
  config_getters and_then_eq_Inr

text \<open>The parts of the configuration, each with the key that guards it.\<close>

definition admin_part :: "Config \<Rightarrow> Config" where
  "admin_part c = c\<lparr>c_validator_history_blacklist := LargeBitMask_default, c_parameters := sample_parameters\<rparr>"

text \<open>The priority fee parameters, and the parameters with those blanked out.\<close>

definition fee_part :: "Parameters \<Rightarrow> nat list" where
  "fee_part p = [p_priority_fee_lookback_epochs p, p_priority_fee_lookback_offset p,
     p_priority_fee_max_commission_bps p, p_priority_fee_error_margin_bps p, p_priority_fee_scoring_start_epoch p]"

definition general_part :: "Parameters \<Rightarrow> Parameters" where
  "general_part p = p\<lparr>p_priority_fee_lookback_epochs := 0, p_priority_fee_lookback_offset := 0,
     p_priority_fee_max_commission_bps := 0, p_priority_fee_error_margin_bps := 0,
     p_priority_fee_scoring_start_epoch := 0\<rparr>"

lemma priority_fee_parameters_general:
  "priority_fee_parameters fargs epoch slots p = Ok q \<Longrightarrow> general_part q = general_part p"
  by (auto simp: priority_fee_parameters_def and_then_eq_Inr set_if_def Let_def general_part_def split: option.splits)

lemma fee_part_set_if:
  "(\<And>x q. fee_part (f x q) = fee_part q) \<Longrightarrow> fee_part (set_if v f p) = fee_part p"
  by (simp add: set_if_def split: option.split)

lemma merge_parameters_fees: "fee_part (merge_parameters args p) = fee_part p"
  unfolding merge_parameters_def comp_def by (subst fee_part_set_if, simp add: fee_part_def)+ (rule refl)

lemma get_valid_updated_parameters_fees:
  "get_valid_updated_parameters args epoch slots p = Ok q \<Longrightarrow> fee_part q = fee_part p"
  by (auto simp: get_valid_updated_parameters_def and_then_eq_Inr Let_def merge_parameters_fees)

lemma config_step_guards:
  assumes "config_step signer c c'"
  shows "(signer \<noteq> c_admin c \<longrightarrow> admin_part c' = admin_part c) \<and>
    (signer \<noteq> c_blacklist_authority c \<longrightarrow> c_validator_history_blacklist c' = c_validator_history_blacklist c) \<and>
    (signer \<noteq> c_parameters_authority c \<longrightarrow> general_part (c_parameters c') = general_part (c_parameters c)) \<and>
    (signer \<noteq> c_priority_fee_parameters_authority c \<longrightarrow> fee_part (c_parameters c') = fee_part (c_parameters c)) \<and>
    c_stake_pool c' = c_stake_pool c \<and> c_validator_list c' = c_validator_list c"
  using assms
proof cases
  case (authority k ty)
  then show ?thesis by (cases ty) (auto simp: config_handlers admin_part_def split: if_splits)
qed (auto simp: config_handlers admin_part_def dest: priority_fee_parameters_general get_valid_updated_parameters_fees)

text \<open>A run of instructions signed by the keys of a set.\<close>

definition signed_step :: "Pubkey set \<Rightarrow> Config \<Rightarrow> Config \<Rightarrow> bool" where
  "signed_step S c c' \<longleftrightarrow> (\<exists>signer \<in> S. config_step signer c c')"

text \<open>What the signers of \<open>S\<close> cannot change of the configuration \<open>c\<close>.\<close>

definition agrees :: "Pubkey set \<Rightarrow> Config \<Rightarrow> Config \<Rightarrow> bool" where
  "agrees S c d \<longleftrightarrow> admin_part d = admin_part c \<and>
     (c_blacklist_authority c \<notin> S \<longrightarrow> c_validator_history_blacklist d = c_validator_history_blacklist c) \<and>
     (c_parameters_authority c \<notin> S \<longrightarrow> general_part (c_parameters d) = general_part (c_parameters c)) \<and>
     (c_priority_fee_parameters_authority c \<notin> S \<longrightarrow> fee_part (c_parameters d) = fee_part (c_parameters c))"

lemma admin_part_keys:
  assumes "admin_part d = admin_part c"
  shows "c_admin d = c_admin c \<and> c_blacklist_authority d = c_blacklist_authority c \<and>
    c_parameters_authority d = c_parameters_authority c \<and>
    c_priority_fee_parameters_authority d = c_priority_fee_parameters_authority c \<and>
    c_directed_stake_meta_upload_authority d = c_directed_stake_meta_upload_authority c \<and>
    c_directed_stake_whitelist_authority d = c_directed_stake_whitelist_authority c \<and>
    c_directed_stake_ticket_override_authority d = c_directed_stake_ticket_override_authority c \<and>
    c_paused d = c_paused c \<and> c_stake_pool d = c_stake_pool c \<and> c_validator_list d = c_validator_list c"
  using arg_cong [OF assms, of c_directed_stake_meta_upload_authority]
    arg_cong [OF assms, of c_directed_stake_whitelist_authority]
    arg_cong [OF assms, of c_directed_stake_ticket_override_authority] arg_cong [OF assms, of c_admin] arg_cong [OF assms, of c_blacklist_authority]
    arg_cong [OF assms, of c_parameters_authority] arg_cong [OF assms, of c_priority_fee_parameters_authority]
    arg_cong [OF assms, of c_paused] arg_cong [OF assms, of c_stake_pool] arg_cong [OF assms, of c_validator_list]
  by (simp add: admin_part_def)

interpretation guarded: step_system "signed_step S" "\<lambda>d. agrees S c d \<and> c_admin c \<notin> S" for S c
proof unfold_locales
  fix d e
  assume step: "signed_step S d e" and inv: "agrees S c d \<and> c_admin c \<notin> S"
  then obtain signer where s: "signer \<in> S" "config_step signer d e" by (auto simp: signed_step_def)
  have keys: "c_admin d = c_admin c" "c_blacklist_authority d = c_blacklist_authority c"
    "c_parameters_authority d = c_parameters_authority c"
    "c_priority_fee_parameters_authority d = c_priority_fee_parameters_authority c"
    using admin_part_keys [of d c] inv by (simp_all add: agrees_def)
  show "agrees S c e \<and> c_admin c \<notin> S"
    using config_step_guards [OF s(2)] s(1) inv keys by (auto simp: agrees_def)
qed

section \<open>Properties\<close>

text \<open>
  C37. Every part of the configuration has one key that can change it. Take any run of
  configuration instructions signed by keys of a set that does not contain the admin. Then
  the pause flag, the stake pool, the validator list and all seven authorities, the three of
  directed stake included, are what they were. The blacklist changes only if the set contains
  the blacklist authority, the five priority fee parameters only if it contains the priority
  fee authority, and the other parameters only if it contains the parameters authority,
  whatever other authorities it contains.
\<close>

theorem config_changes_need_their_authority:
  assumes "(signed_step S)\<^sup>*\<^sup>* c d" "c_admin c \<notin> S"
  shows "c_admin d = c_admin c \<and> is_paused d = is_paused c \<and> c_stake_pool d = c_stake_pool c \<and>
    c_validator_list d = c_validator_list c \<and> c_blacklist_authority d = c_blacklist_authority c \<and>
    c_parameters_authority d = c_parameters_authority c \<and>
    c_priority_fee_parameters_authority d = c_priority_fee_parameters_authority c \<and>
    c_directed_stake_meta_upload_authority d = c_directed_stake_meta_upload_authority c \<and>
    c_directed_stake_whitelist_authority d = c_directed_stake_whitelist_authority c \<and>
    c_directed_stake_ticket_override_authority d = c_directed_stake_ticket_override_authority c \<and>
    (c_blacklist_authority c \<notin> S \<longrightarrow> c_validator_history_blacklist d = c_validator_history_blacklist c) \<and>
    (c_parameters_authority c \<notin> S \<longrightarrow> general_part (c_parameters d) = general_part (c_parameters c)) \<and>
    (c_priority_fee_parameters_authority c \<notin> S \<longrightarrow> fee_part (c_parameters d) = fee_part (c_parameters c))"
proof -
  have "agrees S c d" using guarded.reachable_inv [OF assms(1)] assms(2) by (auto simp: agrees_def)
  then show ?thesis using admin_part_keys [of d c] by (auto simp: agrees_def is_paused_def)
qed

section \<open>Tickets\<close>

lemma put_preferences_from:
  "n + length ps \<le> length a \<Longrightarrow> length a = MAX_PREFERENCES_PER_TICKET \<Longrightarrow>
   fold (\<lambda>(i, p) a. if i < MAX_PREFERENCES_PER_TICKET then a[i := p] else a) (enumerate n ps) a =
   take n a @ ps @ drop (n + length ps) a"
proof (induction ps arbitrary: n a)
  case (Cons p ps)
  have "take (Suc n) (a[n := p]) = take n a @ [p]" using Cons.prems by (simp add: take_Suc_conv_app_nth)
  then show ?case using Cons.IH [of "Suc n" "a[n := p]"] Cons.prems by simp
qed simp

lemma put_preferences_eq:
  "length ps \<le> MAX_PREFERENCES_PER_TICKET \<Longrightarrow>
   put_preferences ps = ps @ replicate (MAX_PREFERENCES_PER_TICKET - length ps) DirectedStakePreference_empty"
  using put_preferences_from [of 0 ps "replicate MAX_PREFERENCES_PER_TICKET DirectedStakePreference_empty"]
  by (simp add: put_preferences_def)

lemma sum_bps_from:
  "for_each (\<lambda>p s. plus_or_panic U32_MAX s (stake_share_bps p)) ps a = Ok b \<Longrightarrow>
   b = a + sum_list (map stake_share_bps ps)"
proof (induction ps arbitrary: a)
  case (Cons p ps)
  then have "for_each (\<lambda>p s. plus_or_panic U32_MAX s (stake_share_bps p)) ps (a + stake_share_bps p) = Ok b"
    by (auto simp: and_then_eq_Inr plus_or_panic_def ok_or_eq_Inr checked_add_eq_Some)
  from Cons.IH [OF this] show ?case by simp
qed simp

lemma shares_le: "sum_list (map (\<lambda>p. stake * stake_share_bps p div 10000) ps) \<le>
    stake * sum_list (map stake_share_bps ps) div 10000"
proof (induction ps)
  case (Cons p ps)
  have "x div 10000 + y div 10000 \<le> (x + y) div (10000 :: nat)" for x y
    using div_add1_eq [of x y 10000] by linarith
  from order_trans [OF add_left_mono [OF Cons.IH] this] show ?case by (simp add: distrib_left)
qed simp

lemma sum_filter_le: "sum_list (map snd (filter P xs)) \<le> (sum_list (map snd xs) :: nat)"
  by (induction xs) auto

lemma allocations_le:
  assumes "sum_list (map stake_share_bps (take (num_preferences t) (staker_preferences t))) \<le> 10000"
  shows "sum_list (map snd (get_allocations stake t)) \<le> stake"
proof -
  let ?ps = "take (num_preferences t) (staker_preferences t)"
  have "sum_list (map snd (get_allocations stake t)) \<le>
      sum_list (map (\<lambda>p. saturating_mul U128_MAX stake (stake_share_bps p) div 10000) ?ps)"
    unfolding get_allocations_def by (rule order_trans [OF sum_filter_le]) (simp add: comp_def)
  also have "\<dots> \<le> sum_list (map (\<lambda>p. stake * stake_share_bps p div 10000) ?ps)"
    by (intro sum_list_mono div_le_mono) (simp add: saturating_mul_def)
  also have "\<dots> \<le> stake * sum_list (map stake_share_bps ?ps) div 10000" by (rule shares_le)
  also have "\<dots> \<le> stake * 10000 div 10000" using assms by (intro div_le_mono mult_left_mono) auto
  finally show ?thesis by simp
qed

text \<open>
  C39. A ticket directs at most the stake of its holder, and only to permissioned validators.
  A successful update was signed by the ticket's authority while on the whitelist, or by the
  override authority, on the ticket's own address; the stored preferences are those given;
  they are valid; and whatever the holder's stake is, the allocations computed from the
  ticket sum up to at most that stake and go to permissioned validators.
\<close>

theorem ticket_directs_at_most_the_stake:
  assumes "update_directed_stake_ticket_handler ticket_address signer key c w prefs t = Ok t'"
  shows "key = ticket_address (ticket_update_authority t) \<and>
    (signer = c_directed_stake_ticket_override_authority c \<or>
     signer = ticket_update_authority t \<and> is_staker_permissioned signer w) \<and>
    ticket_update_authority t' = ticket_update_authority t \<and>
    take (num_preferences t') (staker_preferences t') = prefs \<and> preferences_valid t' = Ok True \<and>
    (\<forall>stake. sum_list (map snd (get_allocations stake t')) \<le> stake \<and>
       (\<forall>(k, x) \<in> set (get_allocations stake t'). is_validator_permissioned k w))"
proof -
  obtain bps where key: "key = ticket_address (ticket_update_authority t)"
    and auth: "ticket_auth (ticket_update_authority t) w signer prefs (c_directed_stake_ticket_override_authority c) = Ok ()"
    and len: "length prefs \<le> MAX_PREFERENCES_PER_TICKET" and bps: "total_bps prefs = Ok bps" "bps \<le> 10000"
    and t': "t' = t\<lparr>num_preferences := cast U16_MAX (length prefs), staker_preferences := put_preferences prefs\<rparr>"
    using assms by (auto simp: update_directed_stake_ticket_handler_def update_ticket_auth_def and_then_eq_Inr
        require_eq_Inr split: if_splits)
  have cast: "cast U16_MAX (length prefs) = length prefs"
    using len by (intro cast_id) (simp add: MAX_PREFERENCES_PER_TICKET_def int_limits)
  have prefs: "take (num_preferences t') (staker_preferences t') = prefs"
    using len by (simp add: t' cast put_preferences_eq)
  have sum: "bps = sum_list (map stake_share_bps prefs)"
    using sum_bps_from [of prefs 0 bps] bps(1) by (simp add: total_bps_def)
  have "preferences_valid t' = Ok True" using bps prefs by (simp add: preferences_valid_def total_bps_def)
  moreover have "sum_list (map snd (get_allocations stake t')) \<le> stake" for stake
    using sum bps(2) prefs by (intro allocations_le) simp
  moreover have "\<forall>(k, x) \<in> set (get_allocations stake t'). is_validator_permissioned k w" for stake
    using auth prefs by (auto simp: get_allocations_def ticket_auth_def list_all_iff split: if_splits)
  ultimately show ?thesis
    using key prefs auth by (auto simp: t' ticket_auth_def split: if_splits)
qed

section \<open>Targets\<close>

text \<open>What the synchronisation reads for one index of the list: the lamports applied to the target wired to it.\<close>

definition wired_stake :: "BigVec \<Rightarrow> DirectedStakeMeta \<Rightarrow> nat \<Rightarrow> nat option" where
  "wired_stake vl m i =
     (let mi = directed_stake_meta_indices m ! i in
      if mi \<noteq> U64_MAX \<and> vote_pubkey_at_validator_list_index vl i = Ok (t_vote_pubkey (targets m ! mi))
      then Some (t_total_staked_lamports (targets m ! mi)) else None)"

lemma sync_step_eq:
  assumes "sync_step vl i m = Ok m'"
  shows "i < length (directed_stake_meta_indices m) \<and>
    m' = (case wired_stake vl m i of None \<Rightarrow> m
          | Some x \<Rightarrow> m\<lparr>directed_stake_lamports := (directed_stake_lamports m)[i := x]\<rparr>)"
  using assms by (auto simp: sync_step_def wired_stake_def set_directed_def and_then_eq_Inr arr_set_eq_Inr
      arr_get_eq_Inr Let_def split: if_splits)

lemma sync_upto:
  "for_each (sync_step vl) [0..<n] m = Ok m' \<Longrightarrow> length (directed_stake_lamports m) = MAX_VALIDATORS \<Longrightarrow>
   length (directed_stake_meta_indices m) = MAX_VALIDATORS \<Longrightarrow>
   n \<le> MAX_VALIDATORS \<and> m' = m\<lparr>directed_stake_lamports := map (\<lambda>i. case (if i < n then wired_stake vl m i else None) of
      None \<Rightarrow> directed_stake_lamports m ! i | Some x \<Rightarrow> x) [0..<MAX_VALIDATORS]\<rparr>"
proof (induction n arbitrary: m')
  case 0
  then have "map ((!) (directed_stake_lamports m)) [0..<MAX_VALIDATORS] = directed_stake_lamports m"
    using map_nth [of "directed_stake_lamports m"] by simp
  then show ?case using 0 by simp
next
  case (Suc n)
  then obtain u where u: "for_each (sync_step vl) [0..<n] m = Ok u" "sync_step vl n u = Ok m'"
    by (auto simp: and_then_eq_Inr)
  let ?D = "\<lambda>n. map (\<lambda>i. case (if i < n then wired_stake vl m i else None) of
      None \<Rightarrow> directed_stake_lamports m ! i | Some x \<Rightarrow> x) [0..<MAX_VALIDATORS]"
  have n: "n \<le> MAX_VALIDATORS" "u = m\<lparr>directed_stake_lamports := ?D n\<rparr>" using Suc.IH [OF u(1)] Suc.prems by auto
  have w: "wired_stake vl u n = wired_stake vl m n" by (simp add: n(2) wired_stake_def Let_def)
  have lt: "n < MAX_VALIDATORS" using sync_step_eq [OF u(2)] Suc.prems n(2) by simp
  have "?D (Suc n) = (case wired_stake vl m n of None \<Rightarrow> ?D n | Some x \<Rightarrow> (?D n)[n := x])"
    by (rule nth_equalityI) (auto simp: less_Suc_eq nth_list_update split: option.splits)
  then show ?case using sync_step_eq [OF u(2)] w n(2) lt by (auto split: option.splits)
qed

text \<open>
  Synchronisation restores the books of the directed stake. It is refused to anyone but the
  upload authority; when it succeeds, every validator of the list that is wired to its own
  target has exactly the lamports applied to that target, every other index and every target
  is unchanged, and synchronising once more changes nothing.
\<close>

theorem sync_restores_the_books:
  assumes "sync_directed_stake_lamports_handler signer c acc m = Ok m'" "meta_wf m"
  shows "\<exists>vl. load_validator_list acc = Ok vl \<and> bv_len vl \<le> MAX_VALIDATORS \<and>
    signer = c_directed_stake_meta_upload_authority c \<and>
    targets m' = targets m \<and> directed_stake_meta_indices m' = directed_stake_meta_indices m \<and>
    (\<forall>i < MAX_VALIDATORS. directed_stake_lamports m' ! i =
       (let mi = directed_stake_meta_indices m ! i in
        if i < bv_len vl \<and> mi \<noteq> U64_MAX \<and> vote_pubkey_at_validator_list_index vl i = Ok (t_vote_pubkey (targets m ! mi))
        then t_total_staked_lamports (targets m ! mi) else directed_stake_lamports m ! i)) \<and>
    (\<forall>m''. sync_directed_stake_lamports_handler signer c acc m' = Ok m'' \<longrightarrow> m'' = m')"
proof -
  obtain vl where vl: "load_validator_list acc = Ok vl" "signer = c_directed_stake_meta_upload_authority c"
    "for_each (sync_step vl) [0..<bv_len vl] m = Ok m'"
    using assms(1) by (auto simp: sync_directed_stake_lamports_handler_def sync_directed_stake_lamports_def and_then_eq_Inr)
  have wf: "length (directed_stake_lamports m) = MAX_VALIDATORS" "length (directed_stake_meta_indices m) = MAX_VALIDATORS"
    using assms(2) by (simp_all add: meta_wf_def)
  note S = sync_upto [OF vl(3) wf]
  have m': "directed_stake_lamports m' ! i = (case (if i < bv_len vl then wired_stake vl m i else None) of
      None \<Rightarrow> directed_stake_lamports m ! i | Some x \<Rightarrow> x)" if "i < MAX_VALIDATORS" for i
    using S that by (simp cong: option.case_cong)
  have again: "m'' = m'" if "sync_directed_stake_lamports_handler signer c acc m' = Ok m''" for m''
  proof -
    have "for_each (sync_step vl) [0..<bv_len vl] m' = Ok m''"
      using that vl by (auto simp: sync_directed_stake_lamports_handler_def sync_directed_stake_lamports_def and_then_eq_Inr)
    from sync_upto [OF this] wf S have m'': "m'' = m'\<lparr>directed_stake_lamports := map (\<lambda>i. case
        (if i < bv_len vl then wired_stake vl m' i else None) of
        None \<Rightarrow> directed_stake_lamports m' ! i | Some x \<Rightarrow> x) [0..<MAX_VALIDATORS]\<rparr>" by simp
    have "wired_stake vl m' i = wired_stake vl m i" for i using S by (simp add: wired_stake_def Let_def)
    then have "map (\<lambda>i. case (if i < bv_len vl then wired_stake vl m' i else None) of
        None \<Rightarrow> directed_stake_lamports m' ! i | Some x \<Rightarrow> x) [0..<MAX_VALIDATORS] = directed_stake_lamports m'"
      using S by (intro nth_equalityI) (auto split: option.splits)
    then show ?thesis using m'' by simp
  qed
  show ?thesis
    using vl(1,2) S m' again by (intro exI [of _ vl]) (auto simp: wired_stake_def Let_def)
qed

section \<open>Blacklist\<close>

context bit_array
begin

lemma set_all:
  "for_each (\<lambda>i. setb i v) xs m = Ok m' \<Longrightarrow> invar m \<Longrightarrow>
   invar m' \<and> set xs \<subseteq> {..<cap} \<and> bits m' = (if v then bits m \<union> set xs else bits m - set xs)"
proof (induction xs arbitrary: m)
  case (Cons i xs)
  then obtain u where u: "setb i v m = Ok u" "for_each (\<lambda>i. setb i v) xs u = Ok m'" by (auto simp: and_then_eq_Inr)
  then show ?case using Cons.IH [OF u(2)] set_ok_D [OF u(1) Cons.prems(2)] by (auto split: if_splits)
qed simp

lemma set_all_ok:
  "invar m \<Longrightarrow> set xs \<subseteq> {..<cap} \<Longrightarrow> \<exists>m'. for_each (\<lambda>i. setb i v) xs m = Ok m'"
proof (induction xs arbitrary: m)
  case (Cons i xs)
  then obtain u where "setb i v m = Ok u" "invar u" using set_in [of m i v] by auto
  then show ?case using Cons.IH [of u] Cons.prems by auto
qed simp

end

lemma set_blacklist_success:
  assumes "set_blacklist b indices c = Ok c'" "mask_invar LARGE_BITMASK_INDEXES (c_validator_history_blacklist c)"
  shows "mask_invar LARGE_BITMASK_INDEXES (c_validator_history_blacklist c') \<and> set indices \<subseteq> {..<LARGE_BITMASK_INDEXES} \<and>
    mask_bits (c_validator_history_blacklist c') = (if b
      then mask_bits (c_validator_history_blacklist c) \<union> set indices
      else mask_bits (c_validator_history_blacklist c) - set indices)"
  using assms lbm.set_all [of b indices "c_validator_history_blacklist c"]
  by (auto simp: set_blacklist_def and_then_eq_Inr)

lemma blacklist_score_zero:
  assumes "mask_invar LARGE_BITMASK_INDEXES (c_validator_history_blacklist c)"
    and "i < LARGE_BITMASK_INDEXES" "i \<in> mask_bits (c_validator_history_blacklist c)"
  shows "calculate_blacklist_score c i = Ok 0" "calculate_instant_unstake_blacklist c i = Ok True"
  using assms by (simp_all add: calculate_blacklist_score_def calculate_instant_unstake_blacklist_def lbm.get_eq)

lemma score_of_blacklisted:
  assumes "calculate_blacklist_score c (vh_index v) = Ok 0"
  shows "ok_all (\<lambda>s. s_blacklisted_score s = 0) (validator_score v cluster c epoch tvc)"
  unfolding validator_score_def Let_def assms and_then_simps by (intro ok_all_split ok_all_any) simp

lemma unstake_of_blacklisted:
  assumes "calculate_instant_unstake_blacklist c (vh_index v) = Ok True"
  shows "ok_all iu_instant_unstake (instant_unstake_validator v cluster c slot epoch tvc)"
  unfolding instant_unstake_validator_def Let_def assms and_then_simps by (intro ok_all_split ok_all_any) simp

text \<open>
  Blacklisting works through to scoring and unstaking. A successful addition to the
  blacklist makes the mask the union with the given history indices; from then on a score
  computed for one of these validators is zero and an instant-unstake check of it comes out
  positive; and taking the same indices off the blacklist again leaves those that were
  blacklisted before and are not among them.
\<close>

theorem blacklisted_validators_are_dropped:
  assumes "add_validators_to_blacklist_handler signer indices c = Ok c'"
    and "mask_invar LARGE_BITMASK_INDEXES (c_validator_history_blacklist c)"
  shows "mask_bits (c_validator_history_blacklist c') = mask_bits (c_validator_history_blacklist c) \<union> set indices \<and>
    (\<forall>v. vh_index v \<in> set indices \<longrightarrow>
       ok_all (\<lambda>s. s_score s = 0) (validator_score v cluster c' epoch tvc) \<and>
       ok_all iu_instant_unstake (instant_unstake_validator v cluster c' slot epoch tvc)) \<and>
    (\<exists>c''. remove_validators_from_blacklist_handler signer indices c' = Ok c'' \<and>
       mask_bits (c_validator_history_blacklist c'') = mask_bits (c_validator_history_blacklist c) - set indices)"
proof -
  have signer: "signer = c_blacklist_authority c" and set: "set_blacklist True indices c = Ok c'"
    using assms(1) by (auto simp: add_validators_to_blacklist_handler_def config_getters and_then_eq_Inr)
  have keep: "c_blacklist_authority c' = c_blacklist_authority c"
    using set by (auto simp: set_blacklist_def and_then_eq_Inr)
  note S = set_blacklist_success [OF set assms(2)]
  have "ok_all (\<lambda>s. s_score s = 0) (validator_score v cluster c' epoch tvc) \<and>
      ok_all iu_instant_unstake (instant_unstake_validator v cluster c' slot epoch tvc)"
    if "vh_index v \<in> set indices" for v
  proof -
    have "calculate_blacklist_score c' (vh_index v) = Ok 0" "calculate_instant_unstake_blacklist c' (vh_index v) = Ok True"
      using blacklist_score_zero [of c' "vh_index v"] S that by auto
    then show ?thesis
      using score_of_blacklisted [of c' v cluster epoch tvc] unstake_of_blacklisted [of c' v cluster slot epoch tvc]
        validator_score_filters [of v cluster c' epoch tvc]
      by (auto simp: ok_all_def all_filters_pass_def)
  qed
  moreover obtain mk where mk: "for_each (\<lambda>i. LargeBitMask_set i False) indices (c_validator_history_blacklist c') = Ok mk"
    using lbm.set_all_ok [of "c_validator_history_blacklist c'" indices False] S by auto
  have off: "set_blacklist False indices c' = Ok (c'\<lparr>c_validator_history_blacklist := mk\<rparr>)"
    using mk by (simp add: set_blacklist_def)
  have "\<exists>c''. remove_validators_from_blacklist_handler signer indices c' = Ok c'' \<and>
      mask_bits (c_validator_history_blacklist c'') = mask_bits (c_validator_history_blacklist c) - set indices"
    using set_blacklist_success [OF off] S off signer keep
    by (auto simp: remove_validators_from_blacklist_handler_def config_getters check_address_def)
  ultimately show ?thesis using S by auto
qed

section \<open>Whitelist\<close>

text \<open>The keys of one kind that the whitelist holds, in order.\<close>

definition record_keys :: "DirectedStakeRecordType \<Rightarrow> DirectedStakeWhitelist \<Rightarrow> Pubkey list" where
  "record_keys ty w = (case ty of ValidatorRecord \<Rightarrow> keys_of (validator_keys w)
     | UserRecord \<Rightarrow> keys_of (user_keys w) | ProtocolRecord \<Rightarrow> keys_of (protocol_keys w))"

lemma whitelist_frames:
  "add_user_staker k w = Ok w' \<Longrightarrow> protocol_keys w' = protocol_keys w \<and> validator_keys w' = validator_keys w"
  "add_protocol_staker k w = Ok w' \<Longrightarrow> user_keys w' = user_keys w \<and> validator_keys w' = validator_keys w"
  "add_validator k w = Ok w' \<Longrightarrow> user_keys w' = user_keys w \<and> protocol_keys w' = protocol_keys w"
  "remove_user_staker k w = Ok w' \<Longrightarrow> protocol_keys w' = protocol_keys w \<and> validator_keys w' = validator_keys w"
  "remove_protocol_staker k w = Ok w' \<Longrightarrow> user_keys w' = user_keys w \<and> validator_keys w' = validator_keys w"
  "whitelist_remove_validator k w = Ok w' \<Longrightarrow> user_keys w' = user_keys w \<and> protocol_keys w' = protocol_keys w"
  by (auto simp: add_user_staker_def add_protocol_staker_def add_validator_def remove_user_staker_def
      remove_protocol_staker_def whitelist_remove_validator_def and_then_eq_Inr split: if_splits)

lemma record_keys_eq:
  "(\<forall>ty. record_keys ty w'' = record_keys ty w) \<longleftrightarrow> keys_of (validator_keys w'') = keys_of (validator_keys w) \<and>
     keys_of (user_keys w'') = keys_of (user_keys w) \<and> keys_of (protocol_keys w'') = keys_of (protocol_keys w)"
proof -
  have "(\<forall>ty. P ty) \<longleftrightarrow> P ValidatorRecord \<and> P UserRecord \<and> P ProtocolRecord" for P
    by (metis DirectedStakeRecordType.exhaust)
  then show ?thesis by (simp add: record_keys_def)
qed

lemma users_add_remove:
  assumes "whitelist_wf w" "add_user_staker k w = Ok w'"
  shows "\<exists>w''. remove_user_staker k w' = Ok w'' \<and> whitelist_wf w'' \<and> (\<forall>ty. record_keys ty w'' = record_keys ty w)"
proof -
  obtain w'' where w'': "remove_user_staker k w' = Ok w''" "whitelist_wf w''"
    "keys_of (user_keys w'') = keys_of (user_keys w)" using users.add_remove [OF assms] by blast
  then show ?thesis using whitelist_frames(1) [OF assms(2)] whitelist_frames(4) [OF w''(1)] unfolding record_keys_eq by auto
qed

lemma protocols_add_remove:
  assumes "whitelist_wf w" "add_protocol_staker k w = Ok w'"
  shows "\<exists>w''. remove_protocol_staker k w' = Ok w'' \<and> whitelist_wf w'' \<and> (\<forall>ty. record_keys ty w'' = record_keys ty w)"
proof -
  obtain w'' where w'': "remove_protocol_staker k w' = Ok w''" "whitelist_wf w''"
    "keys_of (protocol_keys w'') = keys_of (protocol_keys w)" using protocols.add_remove [OF assms] by blast
  then show ?thesis using whitelist_frames(2) [OF assms(2)] whitelist_frames(5) [OF w''(1)] unfolding record_keys_eq by auto
qed

lemma validators_add_remove:
  assumes "whitelist_wf w" "add_validator k w = Ok w'"
  shows "\<exists>w''. whitelist_remove_validator k w' = Ok w'' \<and> whitelist_wf w'' \<and> (\<forall>ty. record_keys ty w'' = record_keys ty w)"
proof -
  obtain w'' where w'': "whitelist_remove_validator k w' = Ok w''" "whitelist_wf w''"
    "keys_of (validator_keys w'') = keys_of (validator_keys w)" using validators.add_remove [OF assms] by blast
  then show ?thesis using whitelist_frames(3) [OF assms(2)] whitelist_frames(6) [OF w''(1)] unfolding record_keys_eq by auto
qed

text \<open>
  The whitelist behaves as three disjointly kept sets. An addition is refused to anyone but
  the whitelist authority and, for a validator, when it is not in the pool's list. When it
  succeeds, adding the key again is refused, and removing it restores the keys of every kind,
  in their order.
\<close>

theorem whitelist_add_then_remove:
  assumes "add_to_directed_stake_whitelist_handler signer c acc ty k w = Ok w'" "whitelist_wf w"
  shows "signer = c_directed_stake_whitelist_authority c \<and>
    (ty = ValidatorRecord \<longrightarrow> validator_exists_in_list acc k = Ok True) \<and>
    (\<exists>e. add_to_directed_stake_whitelist_handler signer c acc ty k w' = Err e) \<and>
    (\<exists>w''. remove_from_directed_stake_whitelist_handler signer c ty k w' = Ok w'' \<and> whitelist_wf w'' \<and>
       (\<forall>ty'. record_keys ty' w'' = record_keys ty' w))"
proof -
  have signer: "signer = c_directed_stake_whitelist_authority c"
    using assms(1) by (auto simp: add_to_directed_stake_whitelist_handler_def and_then_eq_Inr)
  show ?thesis
  proof (cases ty)
    case ValidatorRecord
    then have ok: "add_validator k w = Ok w'" "validator_exists_in_list acc k = Ok True"
      using assms(1) by (auto simp: add_to_directed_stake_whitelist_handler_def and_then_eq_Inr require_eq_Inr)
    then show ?thesis
      using ValidatorRecord signer validators_add_remove [OF assms(2) ok(1)] validators.add_twice [OF assms(2) ok(1)]
      by (simp add: add_to_directed_stake_whitelist_handler_def remove_from_directed_stake_whitelist_handler_def
          check_authority_def)
  next
    case UserRecord
    then have ok: "add_user_staker k w = Ok w'"
      using assms(1) by (auto simp: add_to_directed_stake_whitelist_handler_def and_then_eq_Inr)
    then show ?thesis
      using UserRecord signer users_add_remove [OF assms(2) ok] users.add_twice [OF assms(2) ok]
      by (simp add: add_to_directed_stake_whitelist_handler_def remove_from_directed_stake_whitelist_handler_def
          check_authority_def)
  next
    case ProtocolRecord
    then have ok: "add_protocol_staker k w = Ok w'"
      using assms(1) by (auto simp: add_to_directed_stake_whitelist_handler_def and_then_eq_Inr)
    then show ?thesis
      using ProtocolRecord signer protocols_add_remove [OF assms(2) ok] protocols.add_twice [OF assms(2) ok]
      by (simp add: add_to_directed_stake_whitelist_handler_def remove_from_directed_stake_whitelist_handler_def
          check_authority_def)
  qed
qed

section \<open>Witnesses\<close>

definition sample_authority :: Pubkey where "sample_authority = replicate 32 9"

definition guarded_config :: Config where "guarded_config = sample_config\<lparr>c_blacklist_authority := sample_authority\<rparr>"

lemma guarded_blacklist:
  "\<exists>c'. add_validators_to_blacklist_handler sample_authority [5, 7] guarded_config = Ok c'"
proof -
  obtain mk where "for_each (\<lambda>i. LargeBitMask_set i True) [5, 7] LargeBitMask_default = Ok mk"
    using lbm.set_all_ok [of LargeBitMask_default "[5, 7]" True] lbm.invar_empty by (auto simp: LARGE_BITMASK_INDEXES_def)
  then show ?thesis
    by (auto simp: add_validators_to_blacklist_handler_def set_blacklist_def guarded_config_def sample_config_def
        config_getters check_address_def)
qed

lemma guarded_facts:
  "c_validator_history_blacklist guarded_config = LargeBitMask_default" "c_admin guarded_config \<noteq> sample_authority"
  "\<not> is_paused guarded_config"
  by (simp_all add: guarded_config_def sample_config_def sample_authority_def is_paused_def replicate_eq_replicate)

theorem config_changes_need_their_authority_witness:
  "\<exists>d. signed_step {sample_authority} guarded_config d \<and> \<not> is_paused d \<and> c_admin d = c_admin guarded_config"
proof -
  obtain d where "add_validators_to_blacklist_handler sample_authority [5, 7] guarded_config = Ok d"
    using guarded_blacklist by blast
  then have step: "signed_step {sample_authority} guarded_config d"
    using config_step.blacklist by (auto simp: signed_step_def)
  then have "(signed_step {sample_authority})\<^sup>*\<^sup>* guarded_config d" by blast
  from config_changes_need_their_authority [OF this] guarded_facts step show ?thesis by auto
qed

theorem blacklisted_validators_are_dropped_witness:
  "\<exists>c'. add_validators_to_blacklist_handler sample_authority [5, 7] guarded_config = Ok c' \<and>
     mask_bits (c_validator_history_blacklist c') = {5, 7}"
proof -
  obtain c' where run: "add_validators_to_blacklist_handler sample_authority [5, 7] guarded_config = Ok c'"
    using guarded_blacklist by blast
  have "mask_invar LARGE_BITMASK_INDEXES (c_validator_history_blacklist guarded_config)"
    using lbm.invar_empty by (simp add: guarded_facts)
  from blacklisted_validators_are_dropped [OF run this] run show ?thesis
    using lbm.bits_empty by (auto simp: guarded_facts)
qed

definition sample_whitelist :: DirectedStakeWhitelist where
  "sample_whitelist = \<lparr>permissioned_user_stakers = replicate MAX_PERMISSIONED_DIRECTED_STAKERS Pubkey_default,
     permissioned_protocol_stakers = replicate MAX_PERMISSIONED_DIRECTED_STAKERS Pubkey_default,
     permissioned_validators = (replicate MAX_VALIDATORS Pubkey_default)[0 := replicate 32 1],
     total_permissioned_user_stakers = 0, total_permissioned_protocol_stakers = 0,
     total_permissioned_validators = 1, wl_is_initialized = U8Bool_from True\<rparr>"

lemma sample_whitelist_keys:
  "keys_of (user_keys sample_whitelist) = []" "keys_of (protocol_keys sample_whitelist) = []"
  "keys_of (validator_keys sample_whitelist) = [replicate 32 1]"
proof -
  have "take 1 ((replicate MAX_VALIDATORS Pubkey_default)[0 := replicate 32 1]) = [replicate 32 1]"
    by (simp add: take_Suc hd_conv_nth MAX_VALIDATORS_def)
  then show "keys_of (user_keys sample_whitelist) = []" "keys_of (protocol_keys sample_whitelist) = []"
    "keys_of (validator_keys sample_whitelist) = [replicate 32 1]"
    by (simp_all add: sample_whitelist_def keys_of_def user_keys_def protocol_keys_def validator_keys_def)
qed

lemma sample_whitelist_wf: "whitelist_wf sample_whitelist"
  unfolding whitelist_wf_def keys_wf_def sample_whitelist_keys
  by (simp add: sample_whitelist_def user_keys_def protocol_keys_def validator_keys_def
      MAX_PERMISSIONED_DIRECTED_STAKERS_def MAX_VALIDATORS_def int_limits)

theorem whitelist_add_then_remove_witness:
  "\<exists>w'. add_to_directed_stake_whitelist_handler (replicate 32 3) sample_config (Ok (True, big_vec_of sample_infos))
      UserRecord sample_authority sample_whitelist = Ok w' \<and>
    (\<exists>w''. remove_from_directed_stake_whitelist_handler (replicate 32 3) sample_config UserRecord sample_authority w' = Ok w'' \<and>
       record_keys UserRecord w'' = [])"
proof -
  have "can_add_user_staker sample_whitelist"
    by (simp add: can_add_user_staker_def sample_whitelist_def MAX_PERMISSIONED_DIRECTED_STAKERS_def)
  moreover have "\<not> is_staker_permissioned sample_authority sample_whitelist"
    by (simp add: whitelist_defs sample_whitelist_keys)
  ultimately obtain w' where "add_user_staker sample_authority sample_whitelist = Ok w'"
    using users.add_law [OF sample_whitelist_wf, of sample_authority] by auto
  then have run: "add_to_directed_stake_whitelist_handler (replicate 32 3) sample_config (Ok (True, big_vec_of sample_infos))
      UserRecord sample_authority sample_whitelist = Ok w'"
    by (simp add: add_to_directed_stake_whitelist_handler_def check_authority_def sample_config_def)
  have "record_keys UserRecord sample_whitelist = []" by (simp add: record_keys_def sample_whitelist_keys)
  with whitelist_add_then_remove [OF run sample_whitelist_wf] run show ?thesis by metis
qed

definition sample_ticket :: DirectedStakeTicket where
  "sample_ticket = DirectedStakeTicket_new sample_authority (U8Bool_from False) []"

definition sample_preferences :: "DirectedStakePreference list" where
  "sample_preferences = [\<lparr>pr_vote_pubkey = replicate 32 1, stake_share_bps = 4000\<rparr>,
     \<lparr>pr_vote_pubkey = replicate 32 1, stake_share_bps = 5000\<rparr>]"

theorem ticket_directs_at_most_the_stake_witness:
  "\<exists>t'. update_directed_stake_ticket_handler (\<lambda>k. k) (replicate 32 3) sample_authority sample_config sample_whitelist
      sample_preferences sample_ticket = Ok t' \<and> sum_list (map snd (get_allocations 1000 t')) \<le> 1000 \<and>
    take (num_preferences t') (staker_preferences t') = sample_preferences"
proof -
  have auth: "ticket_auth sample_authority sample_whitelist (replicate 32 3) sample_preferences (replicate 32 3) = Ok ()"
    by (simp add: ticket_auth_def sample_preferences_def whitelist_defs sample_whitelist_keys)
  have bps: "total_bps sample_preferences = Ok 9000"
    by (simp add: total_bps_def sample_preferences_def panic_defs checked_defs int_limits)
  have "\<exists>t'. update_directed_stake_ticket_handler (\<lambda>k. k) (replicate 32 3) sample_authority sample_config sample_whitelist
      sample_preferences sample_ticket = Ok t'"
    using auth bps by (simp add: update_directed_stake_ticket_handler_def update_ticket_auth_def sample_ticket_def
        DirectedStakeTicket_new_def sample_config_def MAX_PREFERENCES_PER_TICKET_def sample_preferences_def)
  then obtain t' where run: "update_directed_stake_ticket_handler (\<lambda>k. k) (replicate 32 3) sample_authority sample_config
      sample_whitelist sample_preferences sample_ticket = Ok t'" by blast
  from ticket_directs_at_most_the_stake [OF run] run show ?thesis by blast
qed

definition unsynced_meta :: DirectedStakeMeta where
  "unsynced_meta = DirectedStakeMeta_default\<lparr>total_stake_targets := 1,
     targets := (replicate MAX_VALIDATORS DirectedStakeTarget_default)[0 := DirectedStakeTarget_default
       \<lparr>t_vote_pubkey := replicate 32 1, total_target_lamports := 900, t_total_staked_lamports := 700\<rparr>],
     directed_stake_meta_indices := (replicate MAX_VALIDATORS U64_MAX)[2 := 0]\<rparr>"

theorem sync_restores_the_books_witness:
  "\<exists>m'. sync_directed_stake_lamports_handler (replicate 32 3) sample_config (Ok (True, big_vec_of sample_infos))
      unsynced_meta = Ok m' \<and> directed_stake_lamports m' ! 2 = 700 \<and> directed_stake_lamports m' ! 0 = 0"
proof -
  let ?acc = "Ok (True, big_vec_of sample_infos) :: ValidatorListAccount"
  have pk: "vote_pubkey_at_validator_list_index (big_vec_of sample_infos) i = Ok (replicate 32 1)" if "i < 3" for i
    using that vote_pubkey_at_info [OF sample_infos_wf, of i] sample_length
    by (auto simp: sample_infos_def sample_info_def less_Suc_eq numeral_3_eq_3)
  have wf: "meta_wf unsynced_meta" by (simp add: meta_wf_def unsynced_meta_def DirectedStakeMeta_default_def)
  have lim: "0 < MAX_VALIDATORS" "1 < MAX_VALIDATORS" "2 < MAX_VALIDATORS" by (simp_all add: MAX_VALIDATORS_def)
  have "[0..<3] = [0, 1, 2 :: nat]" by (simp add: upt_rec)
  then have "\<exists>m'. for_each (sync_step (big_vec_of sample_infos)) [0..<3] unsynced_meta = Ok m'"
    using pk lim by (simp add: sync_step_def unsynced_meta_def set_directed_def DirectedStakeMeta_default_def int_limits)
  then obtain m' where run: "sync_directed_stake_lamports_handler (replicate 32 3) sample_config ?acc unsynced_meta = Ok m'"
    by (auto simp: sync_directed_stake_lamports_handler_def sync_directed_stake_lamports_def load_validator_list_def
        sample_length sample_config_def check_authority_def simp del: upt_rec_numeral)
  have vl: "load_validator_list ?acc = Ok (big_vec_of sample_infos)" by (simp add: load_validator_list_def)
  from sync_restores_the_books [OF run wf] obtain vl where "load_validator_list ?acc = Ok vl" and
    D: "\<And>i. i < MAX_VALIDATORS \<Longrightarrow> directed_stake_lamports m' ! i =
       (let mi = directed_stake_meta_indices unsynced_meta ! i in
        if i < bv_len vl \<and> mi \<noteq> U64_MAX \<and> vote_pubkey_at_validator_list_index vl i = Ok (t_vote_pubkey (targets unsynced_meta ! mi))
        then t_total_staked_lamports (targets unsynced_meta ! mi) else directed_stake_lamports unsynced_meta ! i)" by blast
  then have "vl = big_vec_of sample_infos" using vl by simp
  then show ?thesis using run D [of 2] D [of 0] pk [of 2] lim sample_length
    by (simp add: unsynced_meta_def DirectedStakeMeta_default_def int_limits)
qed

end
