(* ===== verification/Slot_Blocks.thy ===== *)
theory Slot_Blocks
  imports Validator_History BitMask
begin

text \<open>
  Counting the blocks of an epoch (programs/validator-history/src/instructions/copy_cluster_info.rs).
  The slot history of the runtime is a ring of bits; the count takes 64 bits at a time in the
  middle of the range and asks slot by slot only at its ends. The ring's own lookup belongs to
  the Solana library and is the argument \<open>check\<close>; \<open>ring_check\<close> is its documented meaning.
\<close>

section \<open>The count\<close>

datatype Check = Future | TooOld | Found | NotFound

record SlotHistory =
  sh_bits :: "64 word list"
  sh_next_slot :: nat

definition BITVEC_BLOCK_SIZE :: nat where "BITVEC_BLOCK_SIZE = 64"

definition count_slot :: "Check \<Rightarrow> nat \<Rightarrow> nat result" where
  "count_slot c blocks_in_epoch = (case c of
     Found \<Rightarrow> plus_or_panic U32_MAX blocks_in_epoch 1
   | NotFound \<Rightarrow> Ok blocks_in_epoch
   | TooOld \<Rightarrow> Err (History SlotHistoryOutOfDate)
   | Future \<Rightarrow> Ok blocks_in_epoch)"

definition first_full_block_slot :: "nat \<Rightarrow> nat \<Rightarrow> nat result" where
  "first_full_block_slot start_slot end_slot =
     (if start_slot mod BITVEC_BLOCK_SIZE = 0 then Ok start_slot
      else and_then (ok_or (checked_sub BITVEC_BLOCK_SIZE (start_slot mod BITVEC_BLOCK_SIZE)) (History VH_ArithmeticError))
        (\<lambda>d. and_then (ok_or (checked_add U64_MAX start_slot d) (History VH_ArithmeticError)) (\<lambda>s. Ok (min s end_slot))))"

definition last_full_block_slot :: "nat \<Rightarrow> nat \<Rightarrow> nat result" where
  "last_full_block_slot first_full end_slot =
     and_then (ok_or (checked_sub end_slot (end_slot mod BITVEC_BLOCK_SIZE)) (History VH_ArithmeticError))
       (\<lambda>s. Ok (max s first_full))"

text \<open>\<^verbatim>\<open>(a..b).step_by(64)\<close>.\<close>

definition block_starts :: "nat \<Rightarrow> nat \<Rightarrow> nat list" where
  "block_starts a b = map (\<lambda>k. a + BITVEC_BLOCK_SIZE * k) [0..<(b - a + (BITVEC_BLOCK_SIZE - 1)) div BITVEC_BLOCK_SIZE]"

definition confirmed_blocks_in_epoch ::
  "(SlotHistory \<Rightarrow> nat \<Rightarrow> Check) \<Rightarrow> nat \<Rightarrow> nat \<Rightarrow> nat \<Rightarrow> SlotHistory \<Rightarrow> (nat \<times> 64 word list) result" where
  "confirmed_blocks_in_epoch check MAX_ENTRIES start_slot end_slot sh =
     and_then (first_full_block_slot start_slot end_slot) (\<lambda>first_full.
     and_then (last_full_block_slot first_full end_slot) (\<lambda>last_full.
     and_then (for_each (\<lambda>i. count_slot (check sh i)) ([start_slot..<first_full] @ [last_full..<Suc end_slot]) 0)
       (\<lambda>blocks_in_epoch.
     let inner_bitvec = sh_bits sh in
     and_then (for_each (\<lambda>i n.
         and_then (arr_get inner_bitvec ((i mod MAX_ENTRIES) div BITVEC_BLOCK_SIZE)) (\<lambda>block.
         ok_or (checked_add U32_MAX n (count_ones block)) (History VH_ArithmeticError)))
       (block_starts first_full last_full) blocks_in_epoch) (\<lambda>blocks_in_epoch.
     Ok (blocks_in_epoch, inner_bitvec)))))"

section \<open>What the count means\<close>

text \<open>The bit of a slot in the ring, and the documented lookup.\<close>

definition slot_bit :: "SlotHistory \<Rightarrow> nat \<Rightarrow> bool" where
  "slot_bit sh slot = (let i = slot mod (64 * length (sh_bits sh)) in bit (sh_bits sh ! (i div 64)) (i mod 64))"

definition ring_check :: "SlotHistory \<Rightarrow> nat \<Rightarrow> Check" where
  "ring_check sh slot =
     (if sh_next_slot sh \<le> slot then Future
      else if slot < sh_next_slot sh - 64 * length (sh_bits sh) then TooOld
      else if slot_bit sh slot then Found else NotFound)"

text \<open>The blocks of a range of slots, counted one by one.\<close>

definition blocks_between :: "SlotHistory \<Rightarrow> nat \<Rightarrow> nat \<Rightarrow> nat" where
  "blocks_between sh a b = length (filter (\<lambda>slot. slot < sh_next_slot sh \<and> slot_bit sh slot) [a..<b])"

lemma blocks_between_split: "a \<le> b \<Longrightarrow> b \<le> c \<Longrightarrow> blocks_between sh a c = blocks_between sh a b + blocks_between sh b c"
  unfolding blocks_between_def by (metis filter_append le_Suc_ex length_append upt_add_eq_append)

lemma blocks_between_le: "blocks_between sh a b \<le> b - a"
  unfolding blocks_between_def by (metis length_filter_le length_upt)

lemma count_slots:
  assumes "\<And>i. i \<in> set slots \<Longrightarrow> check sh i = ring_check sh i"
    and "\<And>i. i \<in> set slots \<Longrightarrow> sh_next_slot sh - 64 * length (sh_bits sh) \<le> i"
    and "n + length slots \<le> U32_MAX"
  shows "for_each (\<lambda>i. count_slot (check sh i)) slots n =
    Ok (n + length (filter (\<lambda>slot. slot < sh_next_slot sh \<and> slot_bit sh slot) slots))"
  using assms
proof (induction slots arbitrary: n)
  case (Cons i slots)
  have "count_slot (check sh i) n = Ok (if i < sh_next_slot sh \<and> slot_bit sh i then n + 1 else n)"
    using Cons.prems(1) [of i] Cons.prems(2) [of i] Cons.prems(3)
    by (simp add: count_slot_def ring_check_def plus_or_panic_def checked_add_def)
  then show ?case using Cons.IH Cons.prems by simp
qed simp

lemma aligned_block:
  assumes "64 dvd i" "0 < length (sh_bits sh)" "j < 64"
  shows "slot_bit sh (i + j) \<longleftrightarrow> bit (sh_bits sh ! ((i mod (64 * length (sh_bits sh))) div 64)) j"
proof -
  let ?N = "64 * length (sh_bits sh)"
  obtain q where q: "i mod ?N = 64 * q" using assms(1) by (metis dvd_mod dvd_triv_left dvdE)
  have "64 * q < ?N" using q assms(2) by (metis mod_less_divisor nat_0_less_mult_iff zero_less_numeral)
  then have "64 * q + j < ?N" using assms(3) by simp
  then have "(i + j) mod ?N = 64 * q + j" using q by (metis mod_add_left_eq mod_less)
  then show ?thesis using q assms(3) by (simp add: slot_bit_def)
qed

lemma upt_shift: "[i..<i + n] = map ((+) i) [0..<n]"
  by (induction n) simp_all

lemma count_ones_block:
  assumes "64 dvd i" "0 < length (sh_bits sh)" "i + 64 \<le> sh_next_slot sh"
  shows "count_ones (sh_bits sh ! ((i mod (64 * length (sh_bits sh))) div 64)) = blocks_between sh i (i + 64)"
proof -
  have "filter (\<lambda>slot. slot < sh_next_slot sh \<and> slot_bit sh slot) [i..<i + 64] =
      map ((+) i) (filter (\<lambda>j. slot_bit sh (i + j)) [0..<64])"
  proof -
    have "[i..<i + 64] = map ((+) i) [0..<64]" by (rule upt_shift)
    then show ?thesis
      using assms(3) by (simp only: filter_map comp_def) (rule arg_cong [of _ _ "map ((+) i)"], rule filter_cong, auto)
  qed
  then have "blocks_between sh i (i + 64) = length (filter (\<lambda>j. slot_bit sh (i + j)) [0..<64])"
    by (simp add: blocks_between_def)
  also have "\<dots> = count_ones (sh_bits sh ! ((i mod (64 * length (sh_bits sh))) div 64))"
    unfolding count_ones_def
    by (intro arg_cong [of _ _ length] filter_cong) (simp_all only: aligned_block [OF assms(1,2)] set_upt atLeastLessThan_iff)
  finally show ?thesis by simp
qed

lemma block_starts_step:
  "block_starts a (a + 64 * m) = map (\<lambda>k. a + 64 * k) [0..<m]"
proof -
  have "(64 * m + 63) div 64 = (m :: nat)" by (simp add: div_mult_self4 [of 64])
  then show ?thesis by (simp add: block_starts_def BITVEC_BLOCK_SIZE_def)
qed

lemma count_full_blocks:
  assumes "64 dvd a" "0 < length (sh_bits sh)" "a + 64 * m \<le> sh_next_slot sh" "n + 64 * m \<le> U32_MAX"
  shows "for_each (\<lambda>i n.
      and_then (arr_get (sh_bits sh) ((i mod (64 * length (sh_bits sh))) div BITVEC_BLOCK_SIZE)) (\<lambda>block.
      ok_or (checked_add U32_MAX n (count_ones block)) (History VH_ArithmeticError)))
    (map (\<lambda>k. a + 64 * k) [0..<m]) n = Ok (n + blocks_between sh a (a + 64 * m))"
  using assms(3,4)
proof (induction m)
  case 0
  then show ?case by (simp add: blocks_between_def)
next
  case (Suc m)
  let ?i = "a + 64 * m" and ?N = "64 * length (sh_bits sh)"
  have i: "64 dvd ?i" using assms(1) by simp
  have c: "count_ones (sh_bits sh ! ((?i mod ?N) div 64)) = blocks_between sh ?i (?i + 64)"
    by (rule count_ones_block [OF i assms(2)]) (use Suc.prems in simp)
  have "?i mod ?N < ?N" using assms(2) by simp
  then have lt: "(?i mod ?N) div 64 < length (sh_bits sh)" by (simp add: div_less_iff_less_mult)
  have split: "blocks_between sh a (a + 64 * Suc m) = blocks_between sh a ?i + blocks_between sh ?i (?i + 64)"
    using blocks_between_split [of a ?i "?i + 64" sh] by (simp add: ac_simps)
  have "n + blocks_between sh a ?i + blocks_between sh ?i (?i + 64) \<le> U32_MAX"
    using blocks_between_le [of sh a "a + 64 * Suc m"] split Suc.prems by simp
  then show ?case
    using Suc.IH Suc.prems lt c split by (simp add: checked_add_def BITVEC_BLOCK_SIZE_def)
qed

section \<open>Properties\<close>

lemma last_full_aligned:
  assumes "64 dvd first_full" "first_full \<le> end_slot"
  shows "\<exists>m. last_full_block_slot first_full end_slot = Ok (first_full + 64 * m) \<and>
    first_full + 64 * m = end_slot - end_slot mod 64"
proof -
  obtain q where q: "first_full = 64 * q" using assms(1) by blast
  have e: "end_slot - end_slot mod 64 = 64 * (end_slot div 64)" by (simp add: minus_mod_eq_mult_div)
  have "q \<le> end_slot div 64" using assms(2) q by (simp add: less_eq_div_iff_mult_less_eq mult.commute)
  then have "64 * (end_slot div 64) = first_full + 64 * (end_slot div 64 - q)" using q by (simp add: diff_mult_distrib2)
  then show ?thesis
    using e q by (auto simp: last_full_block_slot_def BITVEC_BLOCK_SIZE_def checked_sub_def max_def intro!: exI [of _ "end_slot div 64 - q"])
qed

lemma block_bounds:
  assumes "start_slot \<le> end_slot" "end_slot + 64 \<le> U64_MAX"
  shows "\<exists>first_full m. first_full_block_slot start_slot end_slot = Ok first_full \<and>
    last_full_block_slot first_full end_slot = Ok (first_full + 64 * m) \<and> start_slot \<le> first_full \<and>
    first_full + 64 * m \<le> end_slot \<and> (0 < m \<longrightarrow> 64 dvd first_full \<and> first_full + 64 * m = end_slot - end_slot mod 64)"
proof (cases "64 dvd start_slot")
  case True
  then have "first_full_block_slot start_slot end_slot = Ok start_slot"
    by (simp add: first_full_block_slot_def BITVEC_BLOCK_SIZE_def)
  then show ?thesis using last_full_aligned [OF True assms(1)] True by (metis diff_le_self order_refl)
next
  case False
  let ?s = "start_slot + (64 - start_slot mod 64)"
  have "start_slot mod 64 < 64" by simp
  then have "?s = 64 * Suc (start_slot div 64)" using mult_div_mod_eq [of 64 start_slot] unfolding mult_Suc_right by linarith
  then have s: "64 dvd ?s" by simp
  have first: "first_full_block_slot start_slot end_slot = Ok (min ?s end_slot)"
    using False assms by (auto simp: first_full_block_slot_def BITVEC_BLOCK_SIZE_def checked_sub_def checked_add_def
        dvd_eq_mod_eq_0)
  show ?thesis
  proof (cases "?s \<le> end_slot")
    case True
    then have "first_full_block_slot start_slot end_slot = Ok ?s" using first by (simp add: min_def)
    then show ?thesis using last_full_aligned [OF s True] s by (metis diff_le_self le_add1)
  next
    case False
    then have "first_full_block_slot start_slot end_slot = Ok end_slot" using first by (simp add: min_def)
    moreover have "last_full_block_slot end_slot end_slot = Ok (end_slot + 64 * 0)"
      by (simp add: last_full_block_slot_def BITVEC_BLOCK_SIZE_def checked_sub_def max_def)
    ultimately show ?thesis using assms(1) by (metis le_add_same_cancel1 less_irrefl mult_0_right add.right_neutral order_refl)
  qed
qed

text \<open>
  C17. The fast count of blocks is the slow one. For a ring whose lookup is as documented, a
  range whose first slot is still in the ring, and whose last group of 64 slots begins no
  later than the next slot to be written, the number returned is the number of slots of the
  range, both ends included, that are in the past and have their bit set; and the bits are
  handed back as they were.
\<close>

theorem confirmed_blocks_counts_the_recorded_slots:
  assumes check: "\<And>slot. check sh slot = ring_check sh slot"
    and ring: "MAX_ENTRIES = 64 * length (sh_bits sh)" "0 < length (sh_bits sh)"
    and range: "start_slot \<le> end_slot" "end_slot - start_slot < U32_MAX" "end_slot + 64 \<le> U64_MAX"
    and window: "sh_next_slot sh - MAX_ENTRIES \<le> start_slot" "end_slot - end_slot mod 64 \<le> sh_next_slot sh"
  shows "confirmed_blocks_in_epoch check MAX_ENTRIES start_slot end_slot sh =
    Ok (card {slot. start_slot \<le> slot \<and> slot \<le> end_slot \<and> slot < sh_next_slot sh \<and> slot_bit sh slot}, sh_bits sh)"
proof -
  obtain a m where b: "first_full_block_slot start_slot end_slot = Ok a"
    "last_full_block_slot a end_slot = Ok (a + 64 * m)" "start_slot \<le> a" "a + 64 * m \<le> end_slot"
    "0 < m \<Longrightarrow> 64 dvd a \<and> a + 64 * m = end_slot - end_slot mod 64"
    using block_bounds [OF range(1,3)] by blast
  let ?ends = "[start_slot..<a] @ [a + 64 * m..<Suc end_slot]" and ?P = "\<lambda>slot. slot < sh_next_slot sh \<and> slot_bit sh slot"
  have len: "length ?ends + 64 * m = Suc end_slot - start_slot" using b(3,4) range(1) by simp
  have "for_each (\<lambda>i. count_slot (check sh i)) ?ends 0 = Ok (0 + length (filter ?P ?ends))"
    by (rule count_slots) (use check window(1) ring(1) b(3) len range(2) in auto)
  then have ends: "for_each (\<lambda>i. count_slot (check sh i)) ?ends 0 =
      Ok (blocks_between sh start_slot a + blocks_between sh (a + 64 * m) (Suc end_slot))"
    by (simp add: blocks_between_def)
  let ?n = "blocks_between sh start_slot a + blocks_between sh (a + 64 * m) (Suc end_slot)"
  have small: "?n + 64 * m \<le> U32_MAX"
    using blocks_between_le [of sh start_slot a] blocks_between_le [of sh "a + 64 * m" "Suc end_slot"] b(3,4) range(1,2) by simp
  have mid: "for_each (\<lambda>i n.
      and_then (arr_get (sh_bits sh) ((i mod MAX_ENTRIES) div BITVEC_BLOCK_SIZE)) (\<lambda>block.
      ok_or (checked_add U32_MAX n (count_ones block)) (History VH_ArithmeticError)))
    (block_starts a (a + 64 * m)) ?n = Ok (?n + blocks_between sh a (a + 64 * m))"
  proof (cases "0 < m")
    case True
    then have "64 dvd a" "a + 64 * m \<le> sh_next_slot sh" using b(5) window(2) by auto
    then show ?thesis
      unfolding block_starts_step ring(1) by (rule count_full_blocks [OF _ ring(2) _ small])
  next
    case False
    then show ?thesis using block_starts_step [of a m] by (simp add: blocks_between_def)
  qed
  have "?n + blocks_between sh a (a + 64 * m) = blocks_between sh start_slot (Suc end_slot)"
    using blocks_between_split [of start_slot a "Suc end_slot" sh] blocks_between_split [of a "a + 64 * m" "Suc end_slot" sh] b(3,4)
    by simp
  also have "\<dots> = card {slot. start_slot \<le> slot \<and> slot \<le> end_slot \<and> ?P slot}"
  proof -
    have "blocks_between sh start_slot (Suc end_slot) = card (set (filter ?P [start_slot..<Suc end_slot]))"
      unfolding blocks_between_def by (rule distinct_card [symmetric]) (simp del: upt_Suc)
    moreover have "set (filter ?P [start_slot..<Suc end_slot]) = {slot. start_slot \<le> slot \<and> slot \<le> end_slot \<and> ?P slot}"
      by (auto simp del: upt_Suc)
    ultimately show ?thesis by simp
  qed
  finally show ?thesis using b ends mid by (simp add: confirmed_blocks_in_epoch_def del: upt_Suc)
qed

text \<open>
  The hypothesis on the last group of 64 slots is needed: the middle of the range is counted
  without asking whether its slots are in the past, so the bits of a group of slots not yet
  written are those of the slots one turn of the ring earlier. Here 64 blocks are counted in a
  range that lies in the future altogether.
\<close>

definition stale_ring :: SlotHistory where "stale_ring = \<lparr>sh_bits = [-1, 0], sh_next_slot = 128\<rparr>"

lemma stale_bits_are_counted:
  "confirmed_blocks_in_epoch ring_check 128 128 255 stale_ring = Ok (64, [-1, 0]) \<and>
   {slot. 128 \<le> slot \<and> slot \<le> 255 \<and> slot < sh_next_slot stale_ring \<and> slot_bit stale_ring slot} = {}"
proof -
  have "count_ones (-1) = 64" by (simp add: count_ones_def)
  moreover have ends: "for_each (\<lambda>i. count_slot (ring_check stale_ring i)) [192..<256] 0 = Ok 0"
  proof -
    have "for_each (\<lambda>i. count_slot (ring_check stale_ring i)) slots 0 = Ok 0" if "\<forall>i\<in>set slots. 128 \<le> i" for slots
      using that by (induction slots) (simp_all add: ring_check_def stale_ring_def count_slot_def)
    from this [of "[192..<256]"] show ?thesis by (simp del: upt_rec_numeral)
  qed
  ultimately have "confirmed_blocks_in_epoch ring_check 128 128 255 stale_ring = Ok (64, [-1, 0])"
    by (simp add: confirmed_blocks_in_epoch_def first_full_block_slot_def last_full_block_slot_def block_starts_def
        BITVEC_BLOCK_SIZE_def checked_defs int_limits max_def Let_def stale_ring_def del: upt_rec_numeral)
  then show ?thesis by (simp add: stale_ring_def)
qed

theorem confirmed_blocks_counts_the_recorded_slots_witness:
  "confirmed_blocks_in_epoch ring_check 128 10 70 stale_ring = Ok (54, [-1, 0])"
proof -
  have "slot_bit stale_ring slot \<longleftrightarrow> slot < 64" if "slot < 128" for slot
    using that by (auto simp: slot_bit_def stale_ring_def Let_def nth_Cons' div_eq_0_iff)
  then have "{slot. 10 \<le> slot \<and> slot \<le> 70 \<and> slot < sh_next_slot stale_ring \<and> slot_bit stale_ring slot} = {10..63}"
    by (auto simp: stale_ring_def)
  moreover have "confirmed_blocks_in_epoch ring_check 128 10 70 stale_ring =
    Ok (card {slot. 10 \<le> slot \<and> slot \<le> 70 \<and> slot < sh_next_slot stale_ring \<and> slot_bit stale_ring slot}, sh_bits stale_ring)"
    by (rule confirmed_blocks_counts_the_recorded_slots) (simp_all add: stale_ring_def int_limits)
  ultimately show ?thesis by (simp add: stale_ring_def)
qed

end
