(* ===== verification/Vote_State.thy ===== *)
theory Vote_State
  imports Validator_History
begin

text \<open>
  Reading a vote account (utils/vote-state/src/lib.rs). A serialised vote state is too large
  to be deserialised on chain, so three functions find the commission, the epoch credits and
  the node's key in the bytes by hand, for the four versions of the structure. The structures
  are records here. The bincode library, which reads the fields found in this way, is an
  argument; \<open>bincode_fixint\<close> is what its documentation promises of the fixed-width encoding.
\<close>

section \<open>Vote states\<close>

record Lockout =
  lo_slot :: nat
  lo_confirmation_count :: nat

record LandedVote =
  lv_latency :: "8 word"
  lv_lockout :: Lockout

record BlockTimestamp =
  bt_slot :: nat
  bt_timestamp :: nat

text \<open>The timestamp is kept as the 64 bits it is stored in.\<close>

record 'i VoteCircBuf =
  vcb_buf :: "'i list"
  vcb_idx :: nat
  vcb_is_empty :: bool

type_synonym credits = "nat \<times> nat \<times> nat"

record VoteState0_23_5 =
  v0_node_pubkey :: Pubkey
  v0_authorized_voter :: Pubkey
  v0_authorized_voter_epoch :: nat
  v0_prior_voters :: "(Pubkey \<times> nat \<times> nat \<times> nat) VoteCircBuf"
  v0_authorized_withdrawer :: Pubkey
  v0_commission :: "8 word"
  v0_votes :: "Lockout list"
  v0_root_slot :: "nat option"
  v0_epoch_credits :: "credits list"
  v0_last_timestamp :: BlockTimestamp

record VoteState1_14_11 =
  v1_node_pubkey :: Pubkey
  v1_authorized_withdrawer :: Pubkey
  v1_commission :: "8 word"
  v1_votes :: "Lockout list"
  v1_root_slot :: "nat option"
  v1_authorized_voters :: "(nat \<times> Pubkey) list"
  v1_prior_voters :: "(Pubkey \<times> nat \<times> nat) VoteCircBuf"
  v1_epoch_credits :: "credits list"
  v1_last_timestamp :: BlockTimestamp

record VoteState1_16_0 =
  v2_node_pubkey :: Pubkey
  v2_authorized_withdrawer :: Pubkey
  v2_commission :: "8 word"
  v2_votes :: "LandedVote list"
  v2_root_slot :: "nat option"
  v2_authorized_voters :: "(nat \<times> Pubkey) list"
  v2_prior_voters :: "(Pubkey \<times> nat \<times> nat) VoteCircBuf"
  v2_epoch_credits :: "credits list"
  v2_last_timestamp :: BlockTimestamp

record VoteState =
  v3_node_pubkey :: Pubkey
  v3_authorized_withdrawer :: Pubkey
  v3_inflation_rewards_collector :: Pubkey
  v3_block_revenue_collector :: Pubkey
  v3_inflation_rewards_commission_bps :: nat
  v3_block_revenue_commission_bps :: nat
  v3_pending_delegator_rewards :: nat
  v3_bls_pubkey_compressed :: "8 word list option"
  v3_votes :: "LandedVote list"
  v3_root_slot :: "nat option"
  v3_authorized_voters :: "(nat \<times> Pubkey) list"
  v3_epoch_credits :: "credits list"
  v3_last_timestamp :: BlockTimestamp

datatype VoteStateVersions =
    V0_23_5 VoteState0_23_5
  | V1_14_11 VoteState1_14_11
  | V1_16_0 VoteState1_16_0
  | Current VoteState

section \<open>Reading the bytes\<close>

record bincode =
  bc_u8 :: "8 word list \<Rightarrow> nat option"
  bc_u16 :: "8 word list \<Rightarrow> nat option"
  bc_u32 :: "8 word list \<Rightarrow> nat option"
  bc_u64 :: "8 word list \<Rightarrow> nat option"
  bc_pubkey :: "8 word list \<Rightarrow> Pubkey option"
  bc_credits :: "8 word list \<Rightarrow> credits list option"

record vote_account =
  va_owner :: Pubkey
  va_data :: "8 word list"

definition ConstraintOwner :: error where "ConstraintOwner = External 2004"
definition VoteAccountDataNotValid :: error where "VoteAccountDataNotValid = External 6000"

definition VOTE_MAX_ITEMS :: nat where "VOTE_MAX_ITEMS = 32"
definition VOTE_STATE_COMMISSION_INDEX :: nat where "VOTE_STATE_COMMISSION_INDEX = 132"
definition VOTE_STATE_1_16_0_COMMISSION_INDEX :: nat where "VOTE_STATE_1_16_0_COMMISSION_INDEX = 68"
definition VOTE_STATE_1_14_1_COMMISSION_INDEX :: nat where "VOTE_STATE_1_14_1_COMMISSION_INDEX = 68"
definition VOTE_STATE_0_23_5_COMMISSION_INDEX :: nat where "VOTE_STATE_0_23_5_COMMISSION_INDEX = 1909"
definition MAX_COMMISSION_BPS :: nat where "MAX_COMMISSION_BPS = 10000"
definition BPS_PER_PERCENT :: nat where "BPS_PER_PERCENT = 100"
definition INFLATION_REWARDS_COMMISSION_BPS_BYTES :: nat where "INFLATION_REWARDS_COMMISSION_BPS_BYTES = 2"
definition BLOCK_REVENUE_COMMISSION_BPS_BYTES :: nat where "BLOCK_REVENUE_COMMISSION_BPS_BYTES = 2"
definition PENDING_DELEGATOR_REWARDS_BYTES :: nat where "PENDING_DELEGATOR_REWARDS_BYTES = 8"
definition COLLECTION_LEN_BYTES :: nat where "COLLECTION_LEN_BYTES = 8"
definition ENUM_LEN_BYTES :: nat where "ENUM_LEN_BYTES = 4"
definition SLOT_BYTES :: nat where "SLOT_BYTES = 8"
definition EPOCH_BYTES :: nat where "EPOCH_BYTES = 8"
definition PUBKEY_BYTES :: nat where "PUBKEY_BYTES = 32"

lemmas vote_layout = VOTE_MAX_ITEMS_def VOTE_STATE_COMMISSION_INDEX_def VOTE_STATE_1_16_0_COMMISSION_INDEX_def
  VOTE_STATE_1_14_1_COMMISSION_INDEX_def VOTE_STATE_0_23_5_COMMISSION_INDEX_def
  INFLATION_REWARDS_COMMISSION_BPS_BYTES_def BLOCK_REVENUE_COMMISSION_BPS_BYTES_def
  PENDING_DELEGATOR_REWARDS_BYTES_def COLLECTION_LEN_BYTES_def ENUM_LEN_BYTES_def SLOT_BYTES_def
  EPOCH_BYTES_def PUBKEY_BYTES_def

definition check_owner :: "Pubkey \<Rightarrow> vote_account \<Rightarrow> unit result" where
  "check_owner vote_program a = (if va_owner a \<noteq> vote_program then Err ConstraintOwner else Ok ())"

definition collection_length_at_index :: "bincode \<Rightarrow> 8 word list \<Rightarrow> nat \<Rightarrow> nat result" where
  "collection_length_at_index bc data index =
     and_then (plus_or_panic U64_MAX index COLLECTION_LEN_BYTES) (\<lambda>end_index.
     and_then (arr_slice data index end_index) (\<lambda>bytes.
     ok_or (bc_u64 bc bytes) VoteAccountDataNotValid))"

definition enum_value_at_index :: "bincode \<Rightarrow> 8 word list \<Rightarrow> nat \<Rightarrow> nat result" where
  "enum_value_at_index bc data index =
     and_then (plus_or_panic U64_MAX index ENUM_LEN_BYTES) (\<lambda>end_index.
     and_then (arr_slice data index end_index) (\<lambda>bytes.
     ok_or (bc_u32 bc bytes) VoteAccountDataNotValid))"

definition deserialize_epoch_credits_at_index :: "bincode \<Rightarrow> 8 word list \<Rightarrow> nat \<Rightarrow> credits list result" where
  "deserialize_epoch_credits_at_index bc data epoch_credits_idx =
     and_then (collection_length_at_index bc data epoch_credits_idx) (\<lambda>epoch_credits_len.
     and_then (times_or_panic U64_MAX epoch_credits_len 24) (\<lambda>epoch_credits_size.
     and_then (plus_or_panic U64_MAX epoch_credits_idx COLLECTION_LEN_BYTES) (\<lambda>start.
     and_then (plus_or_panic U64_MAX start epoch_credits_size) (\<lambda>end_index.
     and_then (arr_slice data epoch_credits_idx end_index) (\<lambda>bytes.
     ok_or (bc_credits bc bytes) VoteAccountDataNotValid)))))"

text \<open>The index after a collection of items of one size, and after an optional value.\<close>

definition after_collection :: "bincode \<Rightarrow> 8 word list \<Rightarrow> nat \<Rightarrow> nat \<Rightarrow> nat result" where
  "after_collection bc data index item_bytes =
     and_then (collection_length_at_index bc data index) (\<lambda>len.
     and_then (plus_or_panic U64_MAX index COLLECTION_LEN_BYTES) (\<lambda>start.
     and_then (times_or_panic U64_MAX len item_bytes) (\<lambda>bytes.
     plus_or_panic U64_MAX start bytes)))"

definition after_option :: "8 word list \<Rightarrow> nat \<Rightarrow> nat \<Rightarrow> nat result" where
  "after_option data index value_bytes =
     and_then (arr_get data index) (\<lambda>variant.
     if variant = 0 then plus_or_panic U64_MAX index 1
     else if variant = 1 then plus_or_panic U64_MAX index (1 + value_bytes)
     else Err VoteAccountDataNotValid)"

definition deserialize_commission :: "Pubkey \<Rightarrow> bincode \<Rightarrow> vote_account \<Rightarrow> nat result" where
  "deserialize_commission vote_program bc a =
     and_then (check_owner vote_program a) (\<lambda>_.
     let data = va_data a;
         byte_at = (\<lambda>index. if length data < index then Err VoteAccountDataNotValid
           else and_then (arr_slice data index (length data)) (\<lambda>bytes. ok_or (bc_u8 bc bytes) VoteAccountDataNotValid)) in
     and_then (enum_value_at_index bc data 0) (\<lambda>enum_index.
     if enum_index = 0 then byte_at VOTE_STATE_0_23_5_COMMISSION_INDEX
     else if enum_index = 1 then byte_at VOTE_STATE_1_14_1_COMMISSION_INDEX
     else if enum_index = 2 then byte_at VOTE_STATE_1_16_0_COMMISSION_INDEX
     else if enum_index = 3 then
       if length data < VOTE_STATE_COMMISSION_INDEX + INFLATION_REWARDS_COMMISSION_BPS_BYTES
       then Err VoteAccountDataNotValid
       else and_then (arr_slice data VOTE_STATE_COMMISSION_INDEX (length data)) (\<lambda>bytes.
         and_then (ok_or (bc_u16 bc bytes) VoteAccountDataNotValid) (\<lambda>commission_bps.
         if MAX_COMMISSION_BPS < commission_bps then Err VoteAccountDataNotValid
         else ok_or (try_into U8_MAX (commission_bps div BPS_PER_PERCENT)) VoteAccountDataNotValid))
     else Err VoteAccountDataNotValid))"

definition deserialize_epoch_credits :: "Pubkey \<Rightarrow> bincode \<Rightarrow> vote_account \<Rightarrow> credits list result" where
  "deserialize_epoch_credits vote_program bc a =
     and_then (check_owner vote_program a) (\<lambda>_.
     let data = va_data a;
         prior_voters_len = VOTE_MAX_ITEMS * (PUBKEY_BYTES + 2 * EPOCH_BYTES) + 8 + 1 in
     and_then (enum_value_at_index bc data 0) (\<lambda>enum_index.
     if enum_index = 0 then
       let prior_voters_idx = ENUM_LEN_BYTES + 2 * PUBKEY_BYTES + EPOCH_BYTES;
           prior_voters_size = VOTE_MAX_ITEMS * (PUBKEY_BYTES + 2 * EPOCH_BYTES + SLOT_BYTES) + 8 + 1;
           votes_idx = prior_voters_idx + prior_voters_size + PUBKEY_BYTES + 1 in
       and_then (after_collection bc data votes_idx (SLOT_BYTES + 4)) (\<lambda>root_slot_idx.
       and_then (after_option data root_slot_idx 8) (\<lambda>epoch_credits_idx.
       deserialize_epoch_credits_at_index bc data epoch_credits_idx))
     else if enum_index = 1 \<or> enum_index = 2 then
       let votes_idx = ENUM_LEN_BYTES + 2 * PUBKEY_BYTES + 1;
           vote_bytes = (if enum_index = 1 then SLOT_BYTES + 4 else 1 + SLOT_BYTES + 4) in
       and_then (after_collection bc data votes_idx vote_bytes) (\<lambda>root_slot_idx.
       and_then (after_option data root_slot_idx SLOT_BYTES) (\<lambda>authorized_voters_idx.
       and_then (after_collection bc data authorized_voters_idx (EPOCH_BYTES + PUBKEY_BYTES)) (\<lambda>prior_voters_idx.
       and_then (plus_or_panic U64_MAX prior_voters_idx prior_voters_len) (\<lambda>epoch_credits_idx.
       deserialize_epoch_credits_at_index bc data epoch_credits_idx))))
     else if enum_index = 3 then
       let bls_key_option_variant_idx = ENUM_LEN_BYTES + 4 * PUBKEY_BYTES + INFLATION_REWARDS_COMMISSION_BPS_BYTES
             + BLOCK_REVENUE_COMMISSION_BPS_BYTES + PENDING_DELEGATOR_REWARDS_BYTES in
       and_then (after_option data bls_key_option_variant_idx 48) (\<lambda>votes_idx.
       and_then (after_collection bc data votes_idx (1 + SLOT_BYTES + 4)) (\<lambda>root_slot_idx.
       and_then (after_option data root_slot_idx SLOT_BYTES) (\<lambda>authorized_voters_idx.
       and_then (after_collection bc data authorized_voters_idx (EPOCH_BYTES + PUBKEY_BYTES)) (\<lambda>epoch_credits_idx.
       deserialize_epoch_credits_at_index bc data epoch_credits_idx))))
     else Ok []))"

definition deserialize_node_pubkey :: "Pubkey \<Rightarrow> bincode \<Rightarrow> vote_account \<Rightarrow> Pubkey result" where
  "deserialize_node_pubkey vote_program bc a =
     and_then (check_owner vote_program a) (\<lambda>_.
     and_then (arr_slice (va_data a) ENUM_LEN_BYTES (ENUM_LEN_BYTES + PUBKEY_BYTES)) (\<lambda>bytes.
     ok_or (bc_pubkey bc bytes) VoteAccountDataNotValid))"

section \<open>The encoding\<close>

text \<open>
  The layout that the source's comments describe: fields in order, integers in little-endian
  order at their width, a collection after its length in eight bytes, an optional value after
  one byte, an enumeration after its index in four bytes.
\<close>

abbreviation le64 :: "nat \<Rightarrow> 8 word list" where "le64 \<equiv> to_le_bytes 8"

definition enc_option :: "('a \<Rightarrow> 8 word list) \<Rightarrow> 'a option \<Rightarrow> 8 word list" where
  "enc_option f m = (case m of None \<Rightarrow> [0] | Some x \<Rightarrow> 1 # f x)"

definition enc_vec :: "('a \<Rightarrow> 8 word list) \<Rightarrow> 'a list \<Rightarrow> 8 word list" where
  "enc_vec f xs = le64 (length xs) @ concat (map f xs)"

definition enc_circ :: "('a \<Rightarrow> 8 word list) \<Rightarrow> 'a VoteCircBuf \<Rightarrow> 8 word list" where
  "enc_circ f cb = concat (map f (vcb_buf cb)) @ le64 (vcb_idx cb) @ [if vcb_is_empty cb then 1 else 0]"

definition enc_lockout :: "Lockout \<Rightarrow> 8 word list" where
  "enc_lockout l = le64 (lo_slot l) @ to_le_bytes 4 (lo_confirmation_count l)"

definition enc_landed :: "LandedVote \<Rightarrow> 8 word list" where
  "enc_landed v = lv_latency v # enc_lockout (lv_lockout v)"

definition enc_voter :: "nat \<times> Pubkey \<Rightarrow> 8 word list" where "enc_voter p = le64 (fst p) @ snd p"

definition enc_credits :: "credits \<Rightarrow> 8 word list" where
  "enc_credits c = (case c of (e, n, p) \<Rightarrow> le64 e @ le64 n @ le64 p)"

definition enc_timestamp :: "BlockTimestamp \<Rightarrow> 8 word list" where
  "enc_timestamp t = le64 (bt_slot t) @ le64 (bt_timestamp t)"

definition enc_prior0 :: "Pubkey \<times> nat \<times> nat \<times> nat \<Rightarrow> 8 word list" where
  "enc_prior0 p = (case p of (k, a, b, s) \<Rightarrow> k @ le64 a @ le64 b @ le64 s)"

definition enc_prior :: "Pubkey \<times> nat \<times> nat \<Rightarrow> 8 word list" where
  "enc_prior p = (case p of (k, a, b) \<Rightarrow> k @ le64 a @ le64 b)"

fun vote_state_bytes :: "VoteStateVersions \<Rightarrow> 8 word list" where
  "vote_state_bytes (V0_23_5 v) = to_le_bytes 4 0 @ v0_node_pubkey v @ v0_authorized_voter v @
     le64 (v0_authorized_voter_epoch v) @ enc_circ enc_prior0 (v0_prior_voters v) @ v0_authorized_withdrawer v @
     [v0_commission v] @ enc_vec enc_lockout (v0_votes v) @ enc_option le64 (v0_root_slot v) @
     enc_vec enc_credits (v0_epoch_credits v) @ enc_timestamp (v0_last_timestamp v)"
| "vote_state_bytes (V1_14_11 v) = to_le_bytes 4 1 @ v1_node_pubkey v @ v1_authorized_withdrawer v @
     [v1_commission v] @ enc_vec enc_lockout (v1_votes v) @ enc_option le64 (v1_root_slot v) @
     enc_vec enc_voter (v1_authorized_voters v) @ enc_circ enc_prior (v1_prior_voters v) @
     enc_vec enc_credits (v1_epoch_credits v) @ enc_timestamp (v1_last_timestamp v)"
| "vote_state_bytes (V1_16_0 v) = to_le_bytes 4 2 @ v2_node_pubkey v @ v2_authorized_withdrawer v @
     [v2_commission v] @ enc_vec enc_landed (v2_votes v) @ enc_option le64 (v2_root_slot v) @
     enc_vec enc_voter (v2_authorized_voters v) @ enc_circ enc_prior (v2_prior_voters v) @
     enc_vec enc_credits (v2_epoch_credits v) @ enc_timestamp (v2_last_timestamp v)"
| "vote_state_bytes (Current v) = to_le_bytes 4 3 @ v3_node_pubkey v @ v3_authorized_withdrawer v @
     v3_inflation_rewards_collector v @ v3_block_revenue_collector v @
     to_le_bytes 2 (v3_inflation_rewards_commission_bps v) @ to_le_bytes 2 (v3_block_revenue_commission_bps v) @
     le64 (v3_pending_delegator_rewards v) @ enc_option id (v3_bls_pubkey_compressed v) @
     enc_vec enc_landed (v3_votes v) @ enc_option le64 (v3_root_slot v) @ enc_vec enc_voter (v3_authorized_voters v) @
     enc_vec enc_credits (v3_epoch_credits v) @ enc_timestamp (v3_last_timestamp v)"

text \<open>The sizes that the Rust types fix: keys of 32 bytes, buffers of 32 items, 64-bit numbers.\<close>

definition credits_wf :: "credits \<Rightarrow> bool" where
  "credits_wf c = (case c of (e, n, p) \<Rightarrow> e \<le> U64_MAX \<and> n \<le> U64_MAX \<and> p \<le> U64_MAX)"

fun vote_state_wf :: "VoteStateVersions \<Rightarrow> bool" where
  "vote_state_wf (V0_23_5 v) \<longleftrightarrow> length (v0_node_pubkey v) = 32 \<and> length (v0_authorized_voter v) = 32 \<and>
     length (v0_authorized_withdrawer v) = 32 \<and> length (vcb_buf (v0_prior_voters v)) = 32 \<and>
     list_all (\<lambda>(k, _). length k = 32) (vcb_buf (v0_prior_voters v)) \<and> list_all credits_wf (v0_epoch_credits v)"
| "vote_state_wf (V1_14_11 v) \<longleftrightarrow> length (v1_node_pubkey v) = 32 \<and> length (v1_authorized_withdrawer v) = 32 \<and>
     list_all (\<lambda>(_, k). length k = 32) (v1_authorized_voters v) \<and> length (vcb_buf (v1_prior_voters v)) = 32 \<and>
     list_all (\<lambda>(k, _). length k = 32) (vcb_buf (v1_prior_voters v)) \<and> list_all credits_wf (v1_epoch_credits v)"
| "vote_state_wf (V1_16_0 v) \<longleftrightarrow> length (v2_node_pubkey v) = 32 \<and> length (v2_authorized_withdrawer v) = 32 \<and>
     list_all (\<lambda>(_, k). length k = 32) (v2_authorized_voters v) \<and> length (vcb_buf (v2_prior_voters v)) = 32 \<and>
     list_all (\<lambda>(k, _). length k = 32) (vcb_buf (v2_prior_voters v)) \<and> list_all credits_wf (v2_epoch_credits v)"
| "vote_state_wf (Current v) \<longleftrightarrow> length (v3_node_pubkey v) = 32 \<and> length (v3_authorized_withdrawer v) = 32 \<and>
     length (v3_inflation_rewards_collector v) = 32 \<and> length (v3_block_revenue_collector v) = 32 \<and>
     v3_inflation_rewards_commission_bps v \<le> U16_MAX \<and>
     (case v3_bls_pubkey_compressed v of None \<Rightarrow> True | Some k \<Rightarrow> length k = 48) \<and>
     list_all (\<lambda>(_, k). length k = 32) (v3_authorized_voters v) \<and> list_all credits_wf (v3_epoch_credits v)"

text \<open>What the documentation of bincode promises of the fixed-width encoding.\<close>

definition bincode_fixint :: "bincode \<Rightarrow> bool" where
  "bincode_fixint bc \<longleftrightarrow>
     (\<forall>b rest. bc_u8 bc (b # rest) = Some (unat b)) \<and>
     (\<forall>n rest. n \<le> U16_MAX \<longrightarrow> bc_u16 bc (to_le_bytes 2 n @ rest) = Some n) \<and>
     (\<forall>n rest. n \<le> U32_MAX \<longrightarrow> bc_u32 bc (to_le_bytes 4 n @ rest) = Some n) \<and>
     (\<forall>n rest. n \<le> U64_MAX \<longrightarrow> bc_u64 bc (le64 n @ rest) = Some n) \<and>
     (\<forall>k rest. length k = 32 \<longrightarrow> bc_pubkey bc (k @ rest) = Some k) \<and>
     (\<forall>xs rest. list_all credits_wf xs \<and> length xs \<le> U64_MAX \<longrightarrow>
        bc_credits bc (enc_vec enc_credits xs @ rest) = Some xs)"

section \<open>Navigation\<close>

lemma concat_fixed_length: "(\<And>x. x \<in> set xs \<Longrightarrow> length (f x) = k) \<Longrightarrow> length (concat (map f xs)) = length xs * k"
  by (induction xs) auto

lemma enc_lengths:
  "length (enc_lockout l) = 12" "length (enc_landed v) = 13" "length (enc_credits c) = 24" "length (enc_timestamp t) = 16"
  by (simp_all add: enc_lockout_def enc_landed_def enc_credits_def enc_timestamp_def split: prod.split)

lemma slice_middle: "length pre = i \<Longrightarrow> i + length mid = j \<Longrightarrow> arr_slice (pre @ mid @ post) i j = Ok mid"
  by (auto simp: arr_slice_def)

lemma slice_rest: "length pre = i \<Longrightarrow> arr_slice (pre @ post) i (length (pre @ post)) = Ok post"
  by (auto simp: arr_slice_def)

text \<open>One step of the navigation: what stands before an index decides where the next field starts.\<close>

lemma collection_length_ok:
  assumes "bincode_fixint bc" "data = pre @ le64 n @ post" "length data \<le> U64_MAX" "n \<le> U64_MAX"
  shows "collection_length_at_index bc data (length pre) = Ok n"
proof -
  have "arr_slice data (length pre) (length pre + 8) = Ok (le64 n)"
    unfolding assms(2) by (rule slice_middle) simp_all
  moreover have "bc_u64 bc (le64 n @ []) = Some n" using assms(1,4) unfolding bincode_fixint_def by blast
  ultimately show ?thesis
    using assms(2,3) by (simp add: collection_length_at_index_def vote_layout plus_or_panic_def checked_add_def)
qed

lemma enc_vec_length:
  "(\<And>x. x \<in> set xs \<Longrightarrow> length (f x) = k) \<Longrightarrow> length (enc_vec f xs) = 8 + length xs * k"
  by (simp add: enc_vec_def concat_fixed_length)

lemma enc_vec_count:
  "(\<And>x. x \<in> set xs \<Longrightarrow> length (f x) = k) \<Longrightarrow> 0 < k \<Longrightarrow> length xs \<le> length (enc_vec f xs)"
  by (cases k) (simp_all add: enc_vec_length)

lemma after_collection_ok:
  assumes "bincode_fixint bc" "data = pre @ enc_vec f xs @ post" "length data \<le> U64_MAX"
    and item: "\<And>x. x \<in> set xs \<Longrightarrow> length (f x) = k" "0 < k"
  shows "after_collection bc data (length pre) k = Ok (length (pre @ enc_vec f xs))"
proof -
  have len: "length (enc_vec f xs) = 8 + length xs * k" by (rule enc_vec_length [OF item(1)])
  have n: "length xs \<le> U64_MAX" using enc_vec_count [of xs f k, OF item] assms(2,3) by simp
  have "collection_length_at_index bc data (length pre) = Ok (length xs)"
    by (rule collection_length_ok [OF assms(1) _ assms(3) n, of _ "concat (map f xs) @ post"])
       (simp add: assms(2) enc_vec_def)
  then show ?thesis
    using len assms(2,3) by (simp add: after_collection_def vote_layout panic_defs checked_defs)
qed

lemma after_option_ok:
  assumes "data = pre @ enc_option f m @ post" "length data \<le> U64_MAX" and "\<And>x. m = Some x \<Longrightarrow> length (f x) = k"
  shows "after_option data (length pre) k = Ok (length (pre @ enc_option f m))"
  using assms by (cases m) (simp_all add: after_option_def enc_option_def panic_defs checked_defs)

lemma credits_at_ok:
  assumes "bincode_fixint bc" "data = pre @ enc_vec enc_credits xs @ post" "length data \<le> U64_MAX" "list_all credits_wf xs"
  shows "deserialize_epoch_credits_at_index bc data (length pre) = Ok xs"
proof -
  have len: "length (enc_vec enc_credits xs) = 8 + length xs * 24" by (rule enc_vec_length) (rule enc_lengths)
  have n: "length xs \<le> U64_MAX" using len assms(2,3) by simp
  have "collection_length_at_index bc data (length pre) = Ok (length xs)"
    by (rule collection_length_ok [OF assms(1) _ assms(3) n, of _ "concat (map enc_credits xs) @ post"])
       (simp add: assms(2) enc_vec_def)
  moreover have "arr_slice data (length pre) (length pre + (8 + length xs * 24)) = Ok (enc_vec enc_credits xs)"
    unfolding assms(2) by (rule slice_middle) (simp_all add: len)
  moreover have "bc_credits bc (enc_vec enc_credits xs @ []) = Some xs"
    using assms(1,4) n unfolding bincode_fixint_def by blast
  ultimately show ?thesis
    using len assms(2,3) by (simp add: deserialize_epoch_credits_at_index_def vote_layout panic_defs checked_defs add.assoc)
qed

lemma enum_ok:
  assumes "bincode_fixint bc" "data = to_le_bytes 4 n @ post" "n \<le> U32_MAX"
  shows "enum_value_at_index bc data 0 = Ok n"
proof -
  have "bc_u32 bc (to_le_bytes 4 n @ []) = Some n" using assms(1,3) unfolding bincode_fixint_def by blast
  moreover have "arr_slice data 0 4 = Ok (to_le_bytes 4 n)" unfolding assms(2) arr_slice_def by simp
  ultimately show ?thesis by (simp add: enum_value_at_index_def vote_layout panic_defs checked_defs int_limits)
qed

lemma enc_circ_length:
  "(\<And>x. x \<in> set (vcb_buf cb) \<Longrightarrow> length (f x) = k) \<Longrightarrow> length (enc_circ f cb) = length (vcb_buf cb) * k + 9"
  by (simp add: enc_circ_def concat_fixed_length)

section \<open>Epoch credits\<close>

fun epoch_credits_of :: "VoteStateVersions \<Rightarrow> credits list" where
  "epoch_credits_of (V0_23_5 v) = v0_epoch_credits v"
| "epoch_credits_of (V1_14_11 v) = v1_epoch_credits v"
| "epoch_credits_of (V1_16_0 v) = v2_epoch_credits v"
| "epoch_credits_of (Current v) = v3_epoch_credits v"

lemma voters_length: "list_all (\<lambda>(_, k). length k = 32) vs \<Longrightarrow> x \<in> set vs \<Longrightarrow> length (enc_voter x) = 40"
  by (auto simp: enc_voter_def list_all_iff)

text \<open>The part that three versions share: votes, root slot, authorized voters.\<close>

lemma navigate_voters:
  assumes bc: "bincode_fixint bc" and len: "length data \<le> U64_MAX"
    and data: "data = pre @ enc_vec f votes @ enc_option le64 rs @ enc_vec enc_voter voters @ post"
    and item: "\<And>x. x \<in> set votes \<Longrightarrow> length (f x) = k" "0 < k"
    and voters: "list_all (\<lambda>(_, k). length k = 32) voters"
  shows "and_then (after_collection bc data (length pre) k) (\<lambda>root_slot_idx.
     and_then (after_option data root_slot_idx 8) (\<lambda>authorized_voters_idx.
     and_then (after_collection bc data authorized_voters_idx 40) g)) =
     g (length (pre @ enc_vec f votes @ enc_option le64 rs @ enc_vec enc_voter voters))"
proof -
  have "after_collection bc data (length pre) k = Ok (length (pre @ enc_vec f votes))"
    by (rule after_collection_ok [OF bc data len item])
  moreover have "after_option data (length (pre @ enc_vec f votes)) 8 =
      Ok (length ((pre @ enc_vec f votes) @ enc_option le64 rs))"
    by (rule after_option_ok [OF _ len, of _ _ _ "enc_vec enc_voter voters @ post"]) (simp_all add: data)
  moreover have "after_collection bc data (length ((pre @ enc_vec f votes) @ enc_option le64 rs)) 40 =
      Ok (length (((pre @ enc_vec f votes) @ enc_option le64 rs) @ enc_vec enc_voter voters))"
    by (rule after_collection_ok [OF bc _ len voters_length [OF voters]]) (simp_all add: data)
  ultimately show ?thesis by simp
qed

lemma credits_V0:
  assumes bc: "bincode_fixint bc" and len: "length (vote_state_bytes (V0_23_5 v)) \<le> U64_MAX"
    and wf: "vote_state_wf (V0_23_5 v)"
  shows "deserialize_epoch_credits vp bc \<lparr>va_owner = vp, va_data = vote_state_bytes (V0_23_5 v)\<rparr> = Ok (v0_epoch_credits v)"
proof -
  let ?data = "vote_state_bytes (V0_23_5 v)"
  define pre where "pre = to_le_bytes 4 0 @ v0_node_pubkey v @ v0_authorized_voter v @ le64 (v0_authorized_voter_epoch v) @
     enc_circ enc_prior0 (v0_prior_voters v) @ v0_authorized_withdrawer v @ [v0_commission v]"
  let ?votes = "enc_vec enc_lockout (v0_votes v)" and ?rs = "enc_option le64 (v0_root_slot v)"
  have data: "?data = pre @ ?votes @ ?rs @ enc_vec enc_credits (v0_epoch_credits v) @ enc_timestamp (v0_last_timestamp v)"
    by (simp add: pre_def)
  have "length (enc_circ enc_prior0 (v0_prior_voters v)) = 1801"
    using wf enc_circ_length [of "v0_prior_voters v" enc_prior0 56]
    by (fastforce simp: enc_prior0_def list_all_iff)
  then have pre: "length pre = 1910" using wf by (simp add: pre_def)
  have 1: "after_collection bc ?data (length pre) 12 = Ok (length (pre @ ?votes))"
    by (rule after_collection_ok [OF bc data len]) (simp_all add: enc_lengths)
  have 2: "after_option ?data (length (pre @ ?votes)) 8 = Ok (length ((pre @ ?votes) @ ?rs))"
    by (rule after_option_ok [OF _ len, of _ _ _ "enc_vec enc_credits (v0_epoch_credits v) @ enc_timestamp (v0_last_timestamp v)"])
       (simp_all only: data append_assoc length_to_le_bytes)
  have 3: "deserialize_epoch_credits_at_index bc ?data (length ((pre @ ?votes) @ ?rs)) = Ok (v0_epoch_credits v)"
    by (rule credits_at_ok [OF bc _ len]) (use wf in \<open>simp_all only: data append_assoc vote_state_wf.simps\<close>)
  have 4: "enum_value_at_index bc ?data 0 = Ok 0" by (rule enum_ok [OF bc]) simp_all
  show ?thesis
    using 1 2 3 4 pre by (simp add: deserialize_epoch_credits_def check_owner_def Let_def vote_layout del: vote_state_bytes.simps)
qed

lemma prior_length:
  "length (vcb_buf cb) = 32 \<Longrightarrow> list_all (\<lambda>(k, _). length k = 32) (vcb_buf cb) \<Longrightarrow> length (enc_circ enc_prior cb) = 1545"
  using enc_circ_length [of cb enc_prior 48] by (fastforce simp: enc_prior_def list_all_iff)

text \<open>Versions 1 and 2: the prior voters stand between the authorized voters and the credits.\<close>

lemma credits_with_prior_voters:
  assumes bc: "bincode_fixint bc" and len: "length data \<le> U64_MAX"
    and data: "data = pre @ enc_vec f votes @ enc_option le64 rs @ enc_vec enc_voter voters @ enc_circ enc_prior cb @
      enc_vec enc_credits xs @ post"
    and item: "\<And>x. x \<in> set votes \<Longrightarrow> length (f x) = k" "0 < k"
    and wf: "list_all (\<lambda>(_, k). length k = 32) voters" "length (vcb_buf cb) = 32"
      "list_all (\<lambda>(k, _). length k = 32) (vcb_buf cb)" "list_all credits_wf xs"
  shows "and_then (after_collection bc data (length pre) k) (\<lambda>root_slot_idx.
     and_then (after_option data root_slot_idx 8) (\<lambda>authorized_voters_idx.
     and_then (after_collection bc data authorized_voters_idx 40) (\<lambda>prior_voters_idx.
     and_then (plus_or_panic U64_MAX prior_voters_idx 1545) (deserialize_epoch_credits_at_index bc data)))) = Ok xs"
proof -
  let ?p = "pre @ enc_vec f votes @ enc_option le64 rs @ enc_vec enc_voter voters"
  have nav: "and_then (after_collection bc data (length pre) k) (\<lambda>root_slot_idx.
     and_then (after_option data root_slot_idx 8) (\<lambda>authorized_voters_idx.
     and_then (after_collection bc data authorized_voters_idx 40) g)) = g (length ?p)" for g
    by (rule navigate_voters [OF bc len data item wf(1)])
  have cb: "length ?p + 1545 = length (?p @ enc_circ enc_prior cb)" using prior_length [OF wf(2,3)] by simp
  have "length (?p @ enc_circ enc_prior cb) \<le> U64_MAX" using len data by simp
  then have plus: "plus_or_panic U64_MAX (length ?p) 1545 = Ok (length (?p @ enc_circ enc_prior cb))"
    using cb by (simp only: plus_or_panic_def checked_add_def if_True ok_or_simps)
  have "deserialize_epoch_credits_at_index bc data (length (?p @ enc_circ enc_prior cb)) = Ok xs"
    by (rule credits_at_ok [OF bc _ len wf(4)]) (simp only: data append_assoc)
  then show ?thesis unfolding nav plus by simp
qed

lemma credits_V1:
  assumes bc: "bincode_fixint bc" and len: "length (vote_state_bytes (V1_14_11 v)) \<le> U64_MAX"
    and wf: "vote_state_wf (V1_14_11 v)"
  shows "deserialize_epoch_credits vp bc \<lparr>va_owner = vp, va_data = vote_state_bytes (V1_14_11 v)\<rparr> = Ok (v1_epoch_credits v)"
proof -
  let ?data = "vote_state_bytes (V1_14_11 v)"
  define pre where "pre = to_le_bytes 4 1 @ v1_node_pubkey v @ v1_authorized_withdrawer v @ [v1_commission v]"
  have data: "?data = pre @ enc_vec enc_lockout (v1_votes v) @ enc_option le64 (v1_root_slot v) @
      enc_vec enc_voter (v1_authorized_voters v) @ enc_circ enc_prior (v1_prior_voters v) @
      enc_vec enc_credits (v1_epoch_credits v) @ enc_timestamp (v1_last_timestamp v)" by (simp add: pre_def)
  have pre: "length pre = 69" using wf by (simp add: pre_def)
  have enum: "enum_value_at_index bc ?data 0 = Ok 1" by (rule enum_ok [OF bc]) (simp_all add: int_limits)
  from wf credits_with_prior_voters [OF bc len data enc_lengths(1)] enum pre show ?thesis
    by (simp add: deserialize_epoch_credits_def check_owner_def Let_def vote_layout del: vote_state_bytes.simps)
qed

lemma credits_V2:
  assumes bc: "bincode_fixint bc" and len: "length (vote_state_bytes (V1_16_0 v)) \<le> U64_MAX"
    and wf: "vote_state_wf (V1_16_0 v)"
  shows "deserialize_epoch_credits vp bc \<lparr>va_owner = vp, va_data = vote_state_bytes (V1_16_0 v)\<rparr> = Ok (v2_epoch_credits v)"
proof -
  let ?data = "vote_state_bytes (V1_16_0 v)"
  define pre where "pre = to_le_bytes 4 2 @ v2_node_pubkey v @ v2_authorized_withdrawer v @ [v2_commission v]"
  have data: "?data = pre @ enc_vec enc_landed (v2_votes v) @ enc_option le64 (v2_root_slot v) @
      enc_vec enc_voter (v2_authorized_voters v) @ enc_circ enc_prior (v2_prior_voters v) @
      enc_vec enc_credits (v2_epoch_credits v) @ enc_timestamp (v2_last_timestamp v)" by (simp add: pre_def)
  have pre: "length pre = 69" using wf by (simp add: pre_def)
  have enum: "enum_value_at_index bc ?data 0 = Ok 2" by (rule enum_ok [OF bc]) (simp_all add: int_limits)
  from wf credits_with_prior_voters [OF bc len data enc_lengths(2)] enum pre show ?thesis
    by (simp add: deserialize_epoch_credits_def check_owner_def Let_def vote_layout del: vote_state_bytes.simps)
qed

lemma credits_V3:
  assumes bc: "bincode_fixint bc" and len: "length (vote_state_bytes (Current v)) \<le> U64_MAX"
    and wf: "vote_state_wf (Current v)"
  shows "deserialize_epoch_credits vp bc \<lparr>va_owner = vp, va_data = vote_state_bytes (Current v)\<rparr> = Ok (v3_epoch_credits v)"
proof -
  let ?data = "vote_state_bytes (Current v)"
  define pre where "pre = to_le_bytes 4 3 @ v3_node_pubkey v @ v3_authorized_withdrawer v @
     v3_inflation_rewards_collector v @ v3_block_revenue_collector v @
     to_le_bytes 2 (v3_inflation_rewards_commission_bps v) @ to_le_bytes 2 (v3_block_revenue_commission_bps v) @
     le64 (v3_pending_delegator_rewards v)"
  let ?p = "pre @ enc_option id (v3_bls_pubkey_compressed v)"
  have data: "?data = ?p @ enc_vec enc_landed (v3_votes v) @ enc_option le64 (v3_root_slot v) @
      enc_vec enc_voter (v3_authorized_voters v) @ enc_vec enc_credits (v3_epoch_credits v) @
      enc_timestamp (v3_last_timestamp v)" by (simp add: pre_def)
  have pre: "length pre = 144" using wf by (simp add: pre_def)
  have bls: "after_option ?data (length pre) 48 = Ok (length ?p)"
    by (rule after_option_ok [OF _ len]) (use wf in \<open>simp_all only: data append_assoc id_apply, auto\<close>)
  have nav: "and_then (after_collection bc ?data (length ?p) 13) (\<lambda>root_slot_idx.
     and_then (after_option ?data root_slot_idx 8) (\<lambda>authorized_voters_idx.
     and_then (after_collection bc ?data authorized_voters_idx 40) g)) =
     g (length (?p @ enc_vec enc_landed (v3_votes v) @ enc_option le64 (v3_root_slot v) @
       enc_vec enc_voter (v3_authorized_voters v)))" for g
    by (rule navigate_voters [OF bc len data enc_lengths(2)]) (use wf in simp_all)
  have cr: "deserialize_epoch_credits_at_index bc ?data (length (?p @ enc_vec enc_landed (v3_votes v) @
      enc_option le64 (v3_root_slot v) @ enc_vec enc_voter (v3_authorized_voters v))) = Ok (v3_epoch_credits v)"
    by (rule credits_at_ok [OF bc _ len]) (use wf in \<open>simp_all only: data append_assoc vote_state_wf.simps\<close>)
  have enum: "enum_value_at_index bc ?data 0 = Ok 3" by (rule enum_ok [OF bc]) (simp_all add: int_limits)
  show ?thesis
    using enum bls pre trans [OF nav [of "deserialize_epoch_credits_at_index bc ?data"] cr]
    by (simp add: deserialize_epoch_credits_def check_owner_def Let_def vote_layout del: vote_state_bytes.simps length_append)
qed

section \<open>Commission and node key\<close>

text \<open>The commission in percent; the newest version stores basis points and rounds down.\<close>

fun commission_of :: "VoteStateVersions \<Rightarrow> nat" where
  "commission_of (V0_23_5 v) = unat (v0_commission v)"
| "commission_of (V1_14_11 v) = unat (v1_commission v)"
| "commission_of (V1_16_0 v) = unat (v2_commission v)"
| "commission_of (Current v) = v3_inflation_rewards_commission_bps v div 100"

fun commission_in_range :: "VoteStateVersions \<Rightarrow> bool" where
  "commission_in_range (Current v) \<longleftrightarrow> v3_inflation_rewards_commission_bps v \<le> 10000"
| "commission_in_range _ \<longleftrightarrow> True"

fun node_pubkey_of :: "VoteStateVersions \<Rightarrow> Pubkey" where
  "node_pubkey_of (V0_23_5 v) = v0_node_pubkey v"
| "node_pubkey_of (V1_14_11 v) = v1_node_pubkey v"
| "node_pubkey_of (V1_16_0 v) = v2_node_pubkey v"
| "node_pubkey_of (Current v) = v3_node_pubkey v"

lemma u8_ok: "bincode_fixint bc \<Longrightarrow> bc_u8 bc (b # rest) = Some (unat b)"
  and u16_ok: "bincode_fixint bc \<Longrightarrow> n \<le> U16_MAX \<Longrightarrow> bc_u16 bc (to_le_bytes 2 n @ rest) = Some n"
  and pubkey_ok: "bincode_fixint bc \<Longrightarrow> length k = 32 \<Longrightarrow> bc_pubkey bc k = Some k"
  unfolding bincode_fixint_def by (blast, blast, metis append_Nil2)

lemma byte_after:
  assumes "bincode_fixint bc" "data = pre @ b # post"
  shows "arr_slice data (length pre) (length data) = Ok (b # post)" "bc_u8 bc (b # post) = Some (unat b)"
    "length pre < length data"
  using assms slice_rest [of pre _ "b # post"] u8_ok by auto

lemma commission_ok:
  assumes bc: "bincode_fixint bc" and wf: "vote_state_wf v"
  shows "deserialize_commission vp bc \<lparr>va_owner = vp, va_data = vote_state_bytes v\<rparr> =
    (if commission_in_range v then Ok (commission_of v) else Err VoteAccountDataNotValid)"
proof (cases v)
  case (V0_23_5 s)
  define pre where "pre = to_le_bytes 4 0 @ v0_node_pubkey s @ v0_authorized_voter s @ le64 (v0_authorized_voter_epoch s) @
     enc_circ enc_prior0 (v0_prior_voters s) @ v0_authorized_withdrawer s"
  obtain post where data: "vote_state_bytes v = pre @ v0_commission s # post" using V0_23_5 by (simp add: pre_def)
  have "length (enc_circ enc_prior0 (v0_prior_voters s)) = 1801"
    using wf V0_23_5 enc_circ_length [of "v0_prior_voters s" enc_prior0 56] by (fastforce simp: enc_prior0_def list_all_iff)
  then have pre: "length pre = 1909" using wf V0_23_5 by (simp add: pre_def)
  have "enum_value_at_index bc (vote_state_bytes v) 0 = Ok 0" by (rule enum_ok [OF bc]) (simp_all add: V0_23_5)
  then show ?thesis
    using byte_after [OF bc data] pre V0_23_5
    by (simp add: deserialize_commission_def check_owner_def vote_layout del: vote_state_bytes.simps)
next
  case (V1_14_11 s)
  define pre where "pre = to_le_bytes 4 1 @ v1_node_pubkey s @ v1_authorized_withdrawer s"
  obtain post where data: "vote_state_bytes v = pre @ v1_commission s # post" using V1_14_11 by (simp add: pre_def)
  have pre: "length pre = 68" using wf V1_14_11 by (simp add: pre_def)
  have "enum_value_at_index bc (vote_state_bytes v) 0 = Ok 1" by (rule enum_ok [OF bc]) (simp_all add: V1_14_11 int_limits)
  then show ?thesis
    using byte_after [OF bc data] pre V1_14_11
    by (simp add: deserialize_commission_def check_owner_def vote_layout del: vote_state_bytes.simps)
next
  case (V1_16_0 s)
  define pre where "pre = to_le_bytes 4 2 @ v2_node_pubkey s @ v2_authorized_withdrawer s"
  obtain post where data: "vote_state_bytes v = pre @ v2_commission s # post" using V1_16_0 by (simp add: pre_def)
  have pre: "length pre = 68" using wf V1_16_0 by (simp add: pre_def)
  have "enum_value_at_index bc (vote_state_bytes v) 0 = Ok 2" by (rule enum_ok [OF bc]) (simp_all add: V1_16_0 int_limits)
  then show ?thesis
    using byte_after [OF bc data] pre V1_16_0
    by (simp add: deserialize_commission_def check_owner_def vote_layout del: vote_state_bytes.simps)
next
  case (Current s)
  define pre where "pre = to_le_bytes 4 3 @ v3_node_pubkey s @ v3_authorized_withdrawer s @
     v3_inflation_rewards_collector s @ v3_block_revenue_collector s"
  let ?bps = "v3_inflation_rewards_commission_bps s"
  obtain post where data: "vote_state_bytes v = pre @ (to_le_bytes 2 ?bps @ post)" using Current by (simp add: pre_def)
  have pre: "length pre = 132" using wf Current by (simp add: pre_def)
  have slice: "arr_slice (vote_state_bytes v) 132 (length (vote_state_bytes v)) = Ok (to_le_bytes 2 ?bps @ post)"
    unfolding data by (rule slice_rest [OF pre])
  have u16: "bc_u16 bc (to_le_bytes 2 ?bps @ post) = Some ?bps" using u16_ok [OF bc] wf Current by simp
  have "134 \<le> length (vote_state_bytes v)" using pre by (simp add: data)
  moreover have "enum_value_at_index bc (vote_state_bytes v) 0 = Ok 3" by (rule enum_ok [OF bc]) (simp_all add: Current int_limits)
  ultimately show ?thesis
    using slice u16 Current
    by (auto simp: deserialize_commission_def check_owner_def vote_layout MAX_COMMISSION_BPS_def BPS_PER_PERCENT_def
        try_into_def int_limits simp del: vote_state_bytes.simps)
qed

lemma node_pubkey_ok:
  assumes bc: "bincode_fixint bc" and wf: "vote_state_wf v"
  shows "deserialize_node_pubkey vp bc \<lparr>va_owner = vp, va_data = vote_state_bytes v\<rparr> = Ok (node_pubkey_of v)"
proof -
  obtain n post where data: "vote_state_bytes v = to_le_bytes 4 n @ node_pubkey_of v @ post" by (cases v) auto
  have len: "length (node_pubkey_of v) = 32" using wf by (cases v) auto
  have "arr_slice (vote_state_bytes v) 4 36 = Ok (node_pubkey_of v)"
    unfolding data by (rule slice_middle) (simp_all add: len)
  then show ?thesis using pubkey_ok [OF bc len] by (simp add: deserialize_node_pubkey_def check_owner_def vote_layout)
qed

section \<open>Property\<close>

text \<open>
  C15. Reading a vote account by hand is the same as deserialising it. For every version of the
  vote state and all contents of its variable-size fields, the three functions return the
  commission (in percent, an error when the newest version holds more than 100%), the epoch
  credits and the node's key of the vote state whose bytes the account holds; and they refuse
  an account that the vote program does not own.
\<close>

theorem vote_account_is_read_back:
  assumes "bincode_fixint bc" "vote_state_wf v" "va_data a = vote_state_bytes v" "length (va_data a) \<le> U64_MAX"
  shows "if va_owner a = vote_program
    then deserialize_commission vote_program bc a =
        (if commission_in_range v then Ok (commission_of v) else Err VoteAccountDataNotValid) \<and>
      deserialize_epoch_credits vote_program bc a = Ok (epoch_credits_of v) \<and>
      deserialize_node_pubkey vote_program bc a = Ok (node_pubkey_of v)
    else deserialize_commission vote_program bc a = Err ConstraintOwner \<and>
      deserialize_epoch_credits vote_program bc a = Err ConstraintOwner \<and>
      deserialize_node_pubkey vote_program bc a = Err ConstraintOwner"
proof (cases "va_owner a = vote_program")
  case True
  then have a: "a = \<lparr>va_owner = vote_program, va_data = vote_state_bytes v\<rparr>" using assms(3) by simp
  have "deserialize_epoch_credits vote_program bc a = Ok (epoch_credits_of v)"
    using assms credits_V0 [OF assms(1)] credits_V1 [OF assms(1)] credits_V2 [OF assms(1)] credits_V3 [OF assms(1)]
    unfolding a by (cases v) (simp_all del: vote_state_bytes.simps vote_state_wf.simps)
  then show ?thesis
    using commission_ok [OF assms(1,2)] node_pubkey_ok [OF assms(1,2)] True unfolding a by simp
next
  case False
  then show ?thesis
    by (simp add: deserialize_commission_def deserialize_epoch_credits_def deserialize_node_pubkey_def check_owner_def)
qed

section \<open>Witness\<close>

definition read_uint :: "nat \<Rightarrow> 8 word list \<Rightarrow> nat option" where
  "read_uint n bs = (if n \<le> length bs then Some (from_le_bytes (take n bs)) else None)"

fun read_credits :: "nat \<Rightarrow> 8 word list \<Rightarrow> credits list option" where
  "read_credits 0 bs = Some []"
| "read_credits (Suc n) bs = (if length bs < 24 then None
     else map_option (Cons (from_le_bytes (take 8 bs), from_le_bytes (take 8 (drop 8 bs)), from_le_bytes (take 8 (drop 16 bs))))
            (read_credits n (drop 24 bs)))"

definition fixint :: bincode where
  "fixint = \<lparr>bc_u8 = read_uint 1, bc_u16 = read_uint 2, bc_u32 = read_uint 4, bc_u64 = read_uint 8,
     bc_pubkey = (\<lambda>bs. if 32 \<le> length bs then Some (take 32 bs) else None),
     bc_credits = (\<lambda>bs. Option.bind (read_uint 8 bs) (\<lambda>n. read_credits n (drop 8 bs)))\<rparr>"

lemma read_uint_ok: "n < 256 ^ k \<Longrightarrow> read_uint k (to_le_bytes k n @ rest) = Some n"
  by (simp add: read_uint_def from_to_le_bytes)

lemma read_credits_ok:
  "list_all credits_wf xs \<Longrightarrow> read_credits (length xs) (concat (map enc_credits xs) @ rest) = Some xs"
proof (induction xs)
  case (Cons x xs)
  obtain e n p where x: "x = (e, n, p)" by (cases x)
  have lt: "e < 256 ^ 8" "n < 256 ^ 8" "p < 256 ^ 8" using Cons.prems x by (simp_all add: credits_wf_def int_limits)
  have len: "length (enc_credits x) = 24" by (rule enc_lengths)
  have "drop 24 (enc_credits x @ concat (map enc_credits xs) @ rest) = concat (map enc_credits xs) @ rest" by (simp add: len)
  then show ?case
    using Cons lt len by (simp add: x enc_credits_def from_to_le_bytes)
qed simp

lemma fixint_is_fixint: "bincode_fixint fixint"
proof -
  have 64: "read_uint 8 (le64 n @ rest) = Some n" if "n \<le> U64_MAX" for n rest
    using that by (intro read_uint_ok) (simp add: int_limits)
  have "Option.bind (read_uint 8 (enc_vec enc_credits xs @ rest)) (\<lambda>n. read_credits n (drop 8 (enc_vec enc_credits xs @ rest))) = Some xs"
    if "list_all credits_wf xs" "length xs \<le> U64_MAX" for xs rest
    using 64 [OF that(2)] read_credits_ok [OF that(1)] by (simp add: enc_vec_def)
  then show ?thesis
    using 64 read_uint_ok [of _ 2] read_uint_ok [of _ 4]
    by (auto simp: bincode_fixint_def fixint_def int_limits read_uint_def)
qed

definition sample_vote_state :: VoteState where
  "sample_vote_state = \<lparr>v3_node_pubkey = replicate 32 1, v3_authorized_withdrawer = replicate 32 2,
     v3_inflation_rewards_collector = replicate 32 3, v3_block_revenue_collector = replicate 32 4,
     v3_inflation_rewards_commission_bps = 599, v3_block_revenue_commission_bps = 10000, v3_pending_delegator_rewards = 0,
     v3_bls_pubkey_compressed = Some (replicate 48 7),
     v3_votes = [\<lparr>lv_latency = 1, lv_lockout = \<lparr>lo_slot = 100, lo_confirmation_count = 2\<rparr>\<rparr>],
     v3_root_slot = Some 99, v3_authorized_voters = [(900, replicate 32 8)],
     v3_epoch_credits = [(899, 500, 400), (900, 950, 500)], v3_last_timestamp = \<lparr>bt_slot = 100, bt_timestamp = 7\<rparr>\<rparr>"

definition sample_vote_account :: vote_account where
  "sample_vote_account = \<lparr>va_owner = replicate 32 5, va_data = vote_state_bytes (Current sample_vote_state)\<rparr>"

theorem vote_account_is_read_back_witness:
  "deserialize_commission (replicate 32 5) fixint sample_vote_account = Ok 5 \<and>
   deserialize_epoch_credits (replicate 32 5) fixint sample_vote_account = Ok [(899, 500, 400), (900, 950, 500)]"
proof -
  have wf: "vote_state_wf (Current sample_vote_state)"
    by (simp add: sample_vote_state_def credits_wf_def int_limits)
  have len: "length (va_data sample_vote_account) \<le> U64_MAX"
    by (simp add: sample_vote_account_def sample_vote_state_def enc_vec_def enc_option_def enc_voter_def enc_lengths int_limits)
  show ?thesis
    using vote_account_is_read_back [OF fixint_is_fixint wf _ len, of "replicate 32 5"]
    by (simp add: sample_vote_account_def sample_vote_state_def)
qed

end
