(* ===== verification/History_Instructions.thy ===== *)
theory History_Instructions
  imports Slot_Blocks Vote_State Credits_And_Age
begin

text \<open>
  The instructions of the validator-history program
  (programs/validator-history/src/instructions). The sysvars, the accounts of other programs
  after deserialisation, the keys of the signers and the addresses built into the program are
  arguments. The account declarations' conditions on owners and authorities are the first
  steps of each function, with the errors of the Anchor framework.
\<close>

section \<open>Accounts\<close>

record HistoryClock =
  hc_slot :: nat
  hc_epoch :: nat
  hc_epoch_start_timestamp :: int
  hc_unix_timestamp :: int

record HistoryConfig =
  hg_tip_distribution_program :: Pubkey
  hg_admin :: Pubkey
  hg_oracle_authority :: Pubkey
  hg_counter :: nat
  hg_bump :: nat
  hg_priority_fee_distribution_program :: Pubkey
  hg_priority_fee_oracle_authority :: Pubkey

definition ConstraintHasOne :: error where "ConstraintHasOne = External 2001"
definition ConstraintExecutable :: error where "ConstraintExecutable = External 2007"

definition has_one :: "Pubkey \<Rightarrow> Pubkey \<Rightarrow> unit result" where
  "has_one stored given = (if stored = given then Ok () else Err ConstraintHasOne)"

definition owned_by :: "Pubkey \<Rightarrow> vote_account \<Rightarrow> unit result" where
  "owned_by program a = (if va_owner a = program then Ok () else Err ConstraintOwner)"

definition vh_require :: "bool \<Rightarrow> ValidatorHistoryError \<Rightarrow> unit result" where
  "vh_require c e = (if c then Ok () else Err (History e))"

lemma account_checks_eq_Ok [simp]:
  "has_one a b = Ok u \<longleftrightarrow> a = b" "owned_by p acc = Ok u \<longleftrightarrow> va_owner acc = p" "vh_require c e = Ok u \<longleftrightarrow> c"
  by (simp_all add: has_one_def owned_by_def vh_require_def)

section \<open>Copying the vote account\<close>

definition handle_copy_vote_account ::
  "Pubkey \<Rightarrow> bincode \<Rightarrow> HistoryClock \<Rightarrow> Pubkey \<Rightarrow> vote_account \<Rightarrow> ValidatorHistory \<Rightarrow> ValidatorHistory result" where
  "handle_copy_vote_account vote_program bc clock vote_key vote_acc vh =
     and_then (has_one (vh_vote_account vh) vote_key) (\<lambda>_.
     and_then (owned_by vote_program vote_acc) (\<lambda>_.
     and_then (cast_epoch (hc_epoch clock)) (\<lambda>epoch.
     and_then (deserialize_commission vote_program bc vote_acc) (\<lambda>commission.
     and_then (set_commission_and_slot epoch commission (hc_slot clock) vh) (\<lambda>vh.
     and_then (deserialize_epoch_credits vote_program bc vote_acc) (\<lambda>epoch_credits.
     and_then (insert_missing_entries epoch_credits vh) (\<lambda>vh.
     and_then (set_epoch_credits epoch_credits vh) (\<lambda>vh.
     update_validator_age epoch vh))))))))"

section \<open>Data of the oracles\<close>

definition handle_update_stake_history ::
  "Pubkey \<Rightarrow> HistoryConfig \<Rightarrow> HistoryClock \<Rightarrow> vote_account \<Rightarrow> Pubkey \<Rightarrow> nat \<Rightarrow> nat \<Rightarrow> nat \<Rightarrow> bool \<Rightarrow>
   ValidatorHistory \<Rightarrow> ValidatorHistory result" where
  "handle_update_stake_history vote_program config clock vote_acc signer epoch lamports rank is_superminority vh =
     and_then (owned_by vote_program vote_acc) (\<lambda>_.
     and_then (has_one (hg_oracle_authority config) signer) (\<lambda>_.
     if hc_epoch clock < epoch then Err (History EpochOutOfRange)
     else and_then (cast_epoch epoch) (\<lambda>epoch. set_stake epoch lamports rank is_superminority vh)))"

definition handle_update_priority_fee_history ::
  "Pubkey \<Rightarrow> HistoryConfig \<Rightarrow> HistoryClock \<Rightarrow> vote_account \<Rightarrow> Pubkey \<Rightarrow> nat \<Rightarrow> nat \<Rightarrow> nat \<Rightarrow> nat \<Rightarrow> nat \<Rightarrow>
   ValidatorHistory \<Rightarrow> ValidatorHistory result" where
  "handle_update_priority_fee_history vote_program config clock vote_acc signer epoch total_priority_fees
     total_leader_slots blocks_produced highest_oracle_recorded_slot vh =
     and_then (owned_by vote_program vote_acc) (\<lambda>_.
     and_then (has_one (hg_priority_fee_oracle_authority config) signer) (\<lambda>_.
     if hc_epoch clock < epoch then Err (History EpochOutOfRange)
     else and_then (cast_epoch epoch) (\<lambda>epoch.
       set_total_priority_fees_and_block_metadata epoch total_priority_fees total_leader_slots blocks_produced
         highest_oracle_recorded_slot vh)))"

text \<open>The current epoch is cast to 16 bits here, without the check of the other instructions.\<close>

definition handle_upload_validator_age ::
  "Pubkey \<Rightarrow> Pubkey \<Rightarrow> HistoryConfig \<Rightarrow> HistoryClock \<Rightarrow> vote_account \<Rightarrow> Pubkey \<Rightarrow> nat \<Rightarrow> nat \<Rightarrow>
   ValidatorHistory \<Rightarrow> ValidatorHistory result" where
  "handle_upload_validator_age vote_program system_program config clock vote_acc signer age last_updated_epoch vh =
     and_then (if va_owner vote_acc = vote_program \<or> va_owner vote_acc = system_program then Ok ()
               else Err (External 2003)) (\<lambda>_.
     and_then (has_one (hg_oracle_authority config) signer) (\<lambda>_.
     if cast U16_MAX (hc_epoch clock) < last_updated_epoch then Err (History EpochOutOfRange)
     else Ok (vh\<lparr>validator_age := age, validator_age_last_updated_epoch := last_updated_epoch\<rparr>)))"

definition handle_copy_is_bam_connected ::
  "Pubkey \<Rightarrow> HistoryConfig \<Rightarrow> HistoryClock \<Rightarrow> Pubkey \<Rightarrow> vote_account \<Rightarrow> Pubkey \<Rightarrow> nat \<Rightarrow> nat \<Rightarrow>
   ValidatorHistory \<Rightarrow> ValidatorHistory result" where
  "handle_copy_is_bam_connected vote_program config clock vote_key vote_acc signer epoch is_bam_connected vh =
     and_then (has_one (hg_oracle_authority config) signer) (\<lambda>_.
     and_then (has_one (vh_vote_account vh) vote_key) (\<lambda>_.
     and_then (owned_by vote_program vote_acc) (\<lambda>_.
     and_then (vh_require (epoch \<le> hc_epoch clock) EpochOutOfRange) (\<lambda>_.
     and_then (vh_require (is_bam_connected = 0 \<or> is_bam_connected = 1) InvalidBamClientValue) (\<lambda>_.
     and_then (cast_epoch epoch) (\<lambda>epoch. set_is_bam_connected epoch is_bam_connected vh))))))"

section \<open>Distribution accounts\<close>

text \<open>The authorities that the program knows by address.\<close>

record known_authorities =
  JITO_LABS_AUTHORITY :: Pubkey
  TIP_ROUTER_AUTHORITY :: Pubkey
  DNE_AUTHORITY :: Pubkey

definition upload_authority :: "known_authorities \<Rightarrow> Pubkey \<Rightarrow> MerkleRootUploadAuthority" where
  "upload_authority ks = from_pubkey (JITO_LABS_AUTHORITY ks) (TIP_ROUTER_AUTHORITY ks) (DNE_AUTHORITY ks)"

record PriorityFeeDistribution =
  pfd_merkle_root_upload_authority :: Pubkey
  pfd_validator_commission_bps :: nat
  pfd_total_lamports_transferred :: nat

text \<open>An account that does not deserialise stands for one that was never made.\<close>

definition handle_copy_priority_fee_distribution_account ::
  "known_authorities \<Rightarrow> Pubkey \<Rightarrow> HistoryClock \<Rightarrow> Pubkey \<Rightarrow> vote_account \<Rightarrow> PriorityFeeDistribution option \<Rightarrow> nat \<Rightarrow>
   ValidatorHistory \<Rightarrow> ValidatorHistory result" where
  "handle_copy_priority_fee_distribution_account ks vote_program clock vote_key vote_acc distribution epoch vh =
     and_then (has_one (vh_vote_account vh) vote_key) (\<lambda>_.
     and_then (owned_by vote_program vote_acc) (\<lambda>_.
     if hc_epoch clock < epoch then Err (History EpochOutOfRange)
     else if epoch = hc_epoch clock then Err (History PriorityFeeDistributionAccountNotFinalized)
     else and_then (cast_epoch epoch) (\<lambda>epoch.
       let entry = find (\<lambda>e. vhe_epoch e = epoch) (arr (vh_history vh)) in
       if (case entry of Some e \<Rightarrow> priority_fee_merkle_root_upload_authority e \<noteq> Unset | None \<Rightarrow> False)
       then Err (History PriorityFeeDistributionAccountAlreadyCopied)
       else let d = (case distribution of Some d \<Rightarrow> d
              | None \<Rightarrow> \<lparr>pfd_merkle_root_upload_authority = DNE_AUTHORITY ks, pfd_validator_commission_bps = 0,
                  pfd_total_lamports_transferred = 0\<rparr>) in
         set_priority_fees_transferred_and_commission epoch (pfd_validator_commission_bps d)
           (pfd_total_lamports_transferred d) (upload_authority ks (pfd_merkle_root_upload_authority d)) vh)))"

text \<open>SOL with two decimals; the conversion of lamports to SOL is the Solana library's.\<close>

definition fixed_point_sol :: "(nat \<Rightarrow> f64) \<Rightarrow> nat \<Rightarrow> nat" where
  "fixed_point_sol lamports_to_sol lamports =
     (let sol = f64_div (f64_round (f64_mul (lamports_to_sol lamports) (Fin 100))) (Fin 100)
      in f64_to_uint U32_MAX (f64_mul sol (Fin 100)))"

record TipDistribution =
  td_merkle_root_upload_authority :: Pubkey
  td_max_total_claim :: "nat option"
  td_validator_commission_bps :: nat

definition handle_copy_tip_distribution_account ::
  "known_authorities \<Rightarrow> (nat \<Rightarrow> f64) \<Rightarrow> Pubkey \<Rightarrow> HistoryConfig \<Rightarrow> HistoryClock \<Rightarrow> Pubkey \<Rightarrow> vote_account \<Rightarrow>
   Pubkey \<Rightarrow> TipDistribution result \<Rightarrow> nat \<Rightarrow> ValidatorHistory \<Rightarrow> ValidatorHistory result" where
  "handle_copy_tip_distribution_account ks lamports_to_sol vote_program config clock vote_key vote_acc
     distribution_owner distribution epoch vh =
     and_then (has_one (vh_vote_account vh) vote_key) (\<lambda>_.
     and_then (owned_by vote_program vote_acc) (\<lambda>_.
     and_then (if distribution_owner = hg_tip_distribution_program config then Ok () else Err ConstraintOwner) (\<lambda>_.
     if hc_epoch clock < epoch then Err (History EpochOutOfRange)
     else and_then (cast_epoch epoch) (\<lambda>epoch.
       and_then distribution (\<lambda>d.
       let mev_earned = (case td_max_total_claim d of Some claim \<Rightarrow> fixed_point_sol lamports_to_sol claim
             | None \<Rightarrow> vhe_mev_earned ValidatorHistoryEntry_default) in
       set_mev_commission epoch (td_validator_commission_bps d) mev_earned
         (upload_authority ks (td_merkle_root_upload_authority d)) vh)))))"

section \<open>Cluster history\<close>

definition cast_epoch_start_timestamp :: "int \<Rightarrow> nat result" where
  "cast_epoch_start_timestamp start_timestamp = (if start_timestamp < 0 then Err Panic else Ok (nat start_timestamp))"

definition handle_copy_cluster_info ::
  "(SlotHistory \<Rightarrow> nat \<Rightarrow> Check) \<Rightarrow> nat \<Rightarrow> (nat \<Rightarrow> nat) \<Rightarrow> (nat \<Rightarrow> nat) \<Rightarrow> HistoryClock \<Rightarrow> SlotHistory option \<Rightarrow>
   ClusterHistory \<Rightarrow> ClusterHistory result" where
  "handle_copy_cluster_info check MAX_ENTRIES get_first_slot_in_epoch get_last_slot_in_epoch clock slot_history ch =
     and_then (ok_or slot_history Panic) (\<lambda>sh.
     and_then (cast_epoch (hc_epoch clock)) (\<lambda>epoch.
     and_then (cast_epoch_start_timestamp (hc_epoch_start_timestamp clock)) (\<lambda>epoch_start_timestamp.
     and_then (if 0 < epoch
         then and_then (confirmed_blocks_in_epoch check MAX_ENTRIES (get_first_slot_in_epoch (epoch - 1))
                          (get_last_slot_in_epoch (epoch - 1)) sh) (\<lambda>(num_blocks, bits).
              and_then (set_blocks (epoch - 1) num_blocks ch) (\<lambda>ch.
              Ok (ch, \<lparr>sh_bits = bits, sh_next_slot = sh_next_slot sh\<rparr>)))
         else Ok (ch, sh)) (\<lambda>(ch, sh).
     and_then (confirmed_blocks_in_epoch check MAX_ENTRIES (get_first_slot_in_epoch epoch) (hc_slot clock) sh)
       (\<lambda>(num_blocks, _).
     and_then (set_blocks epoch num_blocks ch) (\<lambda>ch.
     and_then (set_epoch_start_timestamp epoch epoch_start_timestamp ch) (\<lambda>ch.
     Ok (ch\<lparr>cluster_history_last_update_slot := hc_slot clock\<rparr>))))))))"

definition handle_backfill_total_blocks ::
  "HistoryConfig \<Rightarrow> Pubkey \<Rightarrow> nat \<Rightarrow> nat \<Rightarrow> ClusterHistory \<Rightarrow> ClusterHistory result" where
  "handle_backfill_total_blocks config signer epoch blocks_in_epoch ch =
     and_then (has_one (hg_oracle_authority config) signer) (\<lambda>_.
     and_then (cast_epoch epoch) (\<lambda>epoch.
     and_then (if circ_is_empty (ch_history ch) then Ok False
               else and_then (circ_last (ch_history ch)) (\<lambda>l.
                    and_then (ok_or l Panic) (\<lambda>e.
                    and_then (plus_or_panic U16_MAX (che_epoch e) 1) (\<lambda>next_epoch. Ok (epoch \<noteq> next_epoch)))))
       (\<lambda>out_of_order.
     if out_of_order then Err (History EpochOutOfRange) else set_blocks epoch blocks_in_epoch ch)))"

section \<open>Gossip data\<close>

text \<open>
  The variants of gossip data with the fields that the program reads; \<open>OtherCrdsData\<close> stands
  for the variants without fields, which are all refused.
\<close>

record LegacyContactInfo =
  lci_id :: Pubkey
  lci_gossip_ip :: IpAddr
  lci_wallclock :: nat

record CrdsVersion =
  crv_from :: Pubkey
  crv_wallclock :: nat
  crv_major :: nat
  crv_minor :: nat
  crv_patch :: nat

datatype CrdsData =
    CrdsLegacyContactInfo LegacyContactInfo
  | CrdsLegacyVersion CrdsVersion
  | CrdsVersion2 CrdsVersion
  | CrdsContactInfo Pubkey nat ContactInfo
  | OtherCrdsData

record Ed25519SignatureOffsets =
  signature_offset :: nat
  signature_instruction_index :: nat
  public_key_offset :: nat
  public_key_instruction_index :: nat
  message_data_offset :: nat
  message_data_size :: nat
  message_instruction_index :: nat

definition PUBKEY_SERIALIZED_SIZE :: nat where "PUBKEY_SERIALIZED_SIZE = 32"
definition SIGNATURE_SERIALIZED_SIZE :: nat where "SIGNATURE_SERIALIZED_SIZE = 64"
definition SIGNATURE_OFFSETS_SERIALIZED_SIZE :: nat where "SIGNATURE_OFFSETS_SERIALIZED_SIZE = 14"
definition SIGNATURE_OFFSETS_START :: nat where "SIGNATURE_OFFSETS_START = 2"

lemmas gossip_layout = PUBKEY_SERIALIZED_SIZE_def SIGNATURE_SERIALIZED_SIZE_def
  SIGNATURE_OFFSETS_SERIALIZED_SIZE_def SIGNATURE_OFFSETS_START_def

text \<open>\<^verbatim>\<open>from_bytes\<close> reads the seven 16-bit fields in the order of the structure.\<close>

definition offsets_from_bytes :: "8 word list \<Rightarrow> Ed25519SignatureOffsets" where
  "offsets_from_bytes bs = (let field = (\<lambda>k. from_le_bytes (take 2 (drop (2 * k) bs))) in
     \<lparr>signature_offset = field 0, signature_instruction_index = field 1, public_key_offset = field 2,
      public_key_instruction_index = field 3, message_data_offset = field 4, message_data_size = field 5,
      message_instruction_index = field 6\<rparr>)"

text \<open>The conditions are tested in this order, so the sums stay within 16 bits.\<close>

definition offsets_valid :: "Ed25519SignatureOffsets \<Rightarrow> bool" where
  "offsets_valid offs \<longleftrightarrow>
     signature_instruction_index offs = public_key_instruction_index offs \<and>
     signature_instruction_index offs = message_instruction_index offs \<and>
     public_key_offset offs = SIGNATURE_OFFSETS_START + SIGNATURE_OFFSETS_SERIALIZED_SIZE \<and>
     signature_offset offs = public_key_offset offs + PUBKEY_SERIALIZED_SIZE \<and>
     message_data_offset offs = signature_offset offs + SIGNATURE_SERIALIZED_SIZE"

fun crds_origin :: "CrdsData \<Rightarrow> (Pubkey \<times> nat) result" where
  "crds_origin (CrdsLegacyContactInfo c) = Ok (lci_id c, lci_wallclock c)"
| "crds_origin (CrdsContactInfo k wallclock c) = Ok (k, wallclock)"
| "crds_origin (CrdsVersion2 v) = Ok (crv_from v, crv_wallclock v)"
| "crds_origin (CrdsLegacyVersion v) = Ok (crv_from v, crv_wallclock v)"
| "crds_origin OtherCrdsData = Err (History GossipDataInvalid)"

fun set_gossip :: "nat \<Rightarrow> nat \<Rightarrow> CrdsData \<Rightarrow> ValidatorHistory \<Rightarrow> ValidatorHistory result" where
  "set_gossip epoch ts (CrdsLegacyContactInfo c) vh = set_legacy_contact_info epoch (lci_gossip_ip c) ts vh"
| "set_gossip epoch ts (CrdsContactInfo k wallclock c) vh = set_contact_info epoch c ts vh"
| "set_gossip epoch ts (CrdsVersion2 v) vh = set_version epoch (crv_major v) (crv_minor v) (crv_patch v) ts vh"
| "set_gossip epoch ts (CrdsLegacyVersion v) vh = set_legacy_version epoch (crv_major v) (crv_minor v) (crv_patch v) ts vh"
| "set_gossip epoch ts OtherCrdsData vh = Err (History GossipDataInvalid)"

text \<open>The timestamp in seconds plus ten minutes, as an unsigned number.\<close>

definition latest_timestamp :: "HistoryClock \<Rightarrow> nat result" where
  "latest_timestamp clock =
     (let t = hc_unix_timestamp clock + 600 in
      if t < 2 ^ 63 then Ok (nat (t mod 2 ^ 64)) else Err (History VH_ArithmeticError))"

text \<open>
  \<open>verify_instruction\<close> is the instruction before this one, its program and its data;
  \<open>crds_data\<close> is the library's deserialisation of the signed message.
\<close>

definition handle_copy_gossip_contact_info ::
  "Pubkey \<Rightarrow> Pubkey \<Rightarrow> bincode \<Rightarrow> (8 word list \<Rightarrow> CrdsData option) \<Rightarrow> HistoryConfig \<Rightarrow> HistoryClock \<Rightarrow> vote_account \<Rightarrow>
   Pubkey \<Rightarrow> (Pubkey \<times> 8 word list) result \<Rightarrow> ValidatorHistory \<Rightarrow> ValidatorHistory result" where
  "handle_copy_gossip_contact_info vote_program ed25519_program bc crds_data config clock vote_acc signer
     verify_instruction vh =
     and_then (owned_by vote_program vote_acc) (\<lambda>_.
     and_then (has_one (hg_oracle_authority config) signer) (\<lambda>_.
     and_then (cast_epoch (hc_epoch clock)) (\<lambda>epoch.
     and_then verify_instruction (\<lambda>(program_id, data).
     and_then (vh_require (program_id = ed25519_program) NotSigVerified) (\<lambda>_.
     and_then (arr_slice data SIGNATURE_OFFSETS_START (SIGNATURE_OFFSETS_START + SIGNATURE_OFFSETS_SERIALIZED_SIZE)) (\<lambda>bytes.
     let offs = offsets_from_bytes bytes in
     and_then (vh_require (offsets_valid offs) GossipDataInvalid) (\<lambda>_.
     and_then (arr_slice data (public_key_offset offs) (public_key_offset offs + PUBKEY_SERIALIZED_SIZE)) (\<lambda>message_signer.
     and_then (arr_slice data (message_data_offset offs) (length data)) (\<lambda>message_data.
     and_then (ok_or (crds_data message_data) (History GossipDataInvalid)) (\<lambda>crds.
     and_then (crds_origin crds) (\<lambda>(crds_data_pubkey, last_signed_ts).
     and_then (deserialize_node_pubkey vote_program bc vote_acc) (\<lambda>node_pubkey.
     and_then (vh_require (crds_data_pubkey = node_pubkey \<and> message_signer = node_pubkey) GossipDataInvalid) (\<lambda>_.
     and_then (latest_timestamp clock) (\<lambda>latest.
     and_then (vh_require (last_signed_ts div 1000 \<le> latest) GossipDataInFuture) (\<lambda>_.
     set_gossip epoch last_signed_ts crds vh)))))))))))))))"

section \<open>Configuration\<close>

definition handle_initialize_config :: "Pubkey \<Rightarrow> nat \<Rightarrow> HistoryConfig \<Rightarrow> HistoryConfig" where
  "handle_initialize_config authority bump config =
     config\<lparr>hg_oracle_authority := authority, hg_admin := authority, hg_bump := bump, hg_counter := 0\<rparr>"

definition handle_set_new_admin :: "Pubkey \<Rightarrow> Pubkey \<Rightarrow> HistoryConfig \<Rightarrow> HistoryConfig result" where
  "handle_set_new_admin signer new_admin config =
     and_then (has_one (hg_admin config) signer) (\<lambda>_. Ok (config\<lparr>hg_admin := new_admin\<rparr>))"

definition handle_set_new_oracle_authority :: "Pubkey \<Rightarrow> Pubkey \<Rightarrow> HistoryConfig \<Rightarrow> HistoryConfig result" where
  "handle_set_new_oracle_authority signer k config =
     and_then (has_one (hg_admin config) signer) (\<lambda>_. Ok (config\<lparr>hg_oracle_authority := k\<rparr>))"

definition handle_set_new_priority_fee_oracle_authority :: "Pubkey \<Rightarrow> Pubkey \<Rightarrow> HistoryConfig \<Rightarrow> HistoryConfig result" where
  "handle_set_new_priority_fee_oracle_authority signer k config =
     and_then (has_one (hg_admin config) signer) (\<lambda>_. Ok (config\<lparr>hg_priority_fee_oracle_authority := k\<rparr>))"

definition handle_set_new_priority_fee_distribution_program :: "Pubkey \<Rightarrow> Pubkey \<Rightarrow> HistoryConfig \<Rightarrow> HistoryConfig result" where
  "handle_set_new_priority_fee_distribution_program signer k config =
     and_then (has_one (hg_admin config) signer) (\<lambda>_. Ok (config\<lparr>hg_priority_fee_distribution_program := k\<rparr>))"

definition handle_set_new_tip_distribution_program :: "Pubkey \<Rightarrow> Pubkey \<Rightarrow> bool \<Rightarrow> HistoryConfig \<Rightarrow> HistoryConfig result" where
  "handle_set_new_tip_distribution_program signer k executable config =
     and_then (has_one (hg_admin config) signer) (\<lambda>_.
     if \<not> executable then Err ConstraintExecutable else Ok (config\<lparr>hg_tip_distribution_program := k\<rparr>))"

text \<open>
  The realloc of the configuration. \<open>transfer\<close> and \<open>resize\<close> are the outcomes of the system
  program's transfer and of the runtime; \<open>config\<close> is what the resized account deserialises to.
\<close>

definition handle_realloc_config_account ::
  "Pubkey \<Rightarrow> Pubkey \<Rightarrow> nat \<Rightarrow> nat \<Rightarrow> nat \<Rightarrow> nat \<Rightarrow> (nat \<Rightarrow> unit result) \<Rightarrow> unit result \<Rightarrow> HistoryConfig result \<Rightarrow> HistoryConfig result" where
  "handle_realloc_config_account Pubkey_unset PRIORITY_FEE_DISTRIBUTION_PROGRAM_ID new_size data_len current_lamports
     new_lamports transfer resize config =
     and_then (vh_require (new_size \<noteq> data_len) NoReallocNeeded) (\<lambda>_.
     and_then (if current_lamports < new_lamports then transfer (new_lamports - current_lamports) else Ok ()) (\<lambda>_.
     and_then resize (\<lambda>_.
     and_then config (\<lambda>config.
     let config = (if hg_priority_fee_distribution_program config = Pubkey_unset
           then config\<lparr>hg_priority_fee_distribution_program := PRIORITY_FEE_DISTRIBUTION_PROGRAM_ID\<rparr> else config) in
     Ok (if hg_priority_fee_oracle_authority config = Pubkey_unset
         then config\<lparr>hg_priority_fee_oracle_authority := hg_oracle_authority config\<rparr> else config)))))"

section \<open>New accounts\<close>

definition MIN_VOTE_EPOCHS :: nat where "MIN_VOTE_EPOCHS = 5"

definition handle_initialize_validator_history_account :: "Pubkey \<Rightarrow> bincode \<Rightarrow> vote_account \<Rightarrow> unit result" where
  "handle_initialize_validator_history_account vote_program bc vote_acc =
     and_then (owned_by vote_program vote_acc) (\<lambda>_.
     and_then (deserialize_epoch_credits vote_program bc vote_acc) (\<lambda>epoch_credits.
     vh_require (MIN_VOTE_EPOCHS \<le> length epoch_credits) NotEnoughVotingHistory))"

definition HISTORY_MAX_ALLOC_BYTES :: nat where "HISTORY_MAX_ALLOC_BYTES = 10240"

definition history_realloc_size :: "nat \<Rightarrow> nat \<Rightarrow> nat result" where
  "history_realloc_size full_size account_size =
     (if account_size < full_size
      then and_then (plus_or_panic U64_MAX account_size HISTORY_MAX_ALLOC_BYTES) (\<lambda>n. Ok (min full_size n))
      else Ok account_size)"

text \<open>\<open>initialized\<close> is whether one of the bytes that the code tests is not zero.\<close>

definition handle_realloc_validator_history_account ::
  "nat \<Rightarrow> nat \<Rightarrow> bool \<Rightarrow> Pubkey \<Rightarrow> nat \<Rightarrow> HistoryConfig \<Rightarrow> ValidatorHistory \<Rightarrow> (HistoryConfig \<times> ValidatorHistory) result" where
  "handle_realloc_validator_history_account full_size account_size initialized vote_key bump config vh =
     (if full_size \<le> account_size \<and> \<not> initialized then
        and_then (plus_or_panic U32_MAX (hg_counter config) 1) (\<lambda>counter.
        and_then (circ_init ValidatorHistoryEntry_default (vh_history vh)) (\<lambda>h.
        Ok (config\<lparr>hg_counter := counter\<rparr>,
            vh\<lparr>vh_index := hg_counter config, vh_bump := bump, vh_vote_account := vote_key, vh_struct_version := 0,
               vh_history := h\<rparr>)))
      else Ok (config, vh))"

definition handle_realloc_cluster_history_account ::
  "nat \<Rightarrow> nat \<Rightarrow> bool \<Rightarrow> nat \<Rightarrow> ClusterHistory \<Rightarrow> ClusterHistory result" where
  "handle_realloc_cluster_history_account full_size account_size initialized bump ch =
     (if full_size \<le> account_size \<and> \<not> initialized then
        and_then (circ_init ClusterHistoryEntry_default (ch_history ch)) (\<lambda>h.
        Ok (ch\<lparr>ch_bump := bump, ch_struct_version := 0, ch_history := h\<rparr>))
      else Ok ch)"

end
