(* ===== verification/History_Properties.thy ===== *)
theory History_Properties
  imports History_Instructions
begin

text \<open>
  What the validator-history program guarantees whatever instructions run in whatever order:
  a validator's history stays a bounded log in ascending epochs, its key and its index stay
  what they were, gossip data names the validator as its origin and its signer, and the
  priority fee data of an epoch is recorded only once.
\<close>

section \<open>The steps of a validator's history\<close>

inductive history_step :: "ValidatorHistory \<Rightarrow> ValidatorHistory \<Rightarrow> bool" where
  vote_account: "handle_copy_vote_account vp bc clock k acc vh = Ok vh' \<Longrightarrow> history_step vh vh'"
| stake: "handle_update_stake_history vp config clock acc signer epoch lamports rank sm vh = Ok vh' \<Longrightarrow> history_step vh vh'"
| priority_fee: "handle_update_priority_fee_history vp config clock acc signer epoch fees slots blocks slot vh = Ok vh' \<Longrightarrow>
    history_step vh vh'"
| age: "handle_upload_validator_age vp sp config clock acc signer years epoch vh = Ok vh' \<Longrightarrow> history_step vh vh'"
| bam: "handle_copy_is_bam_connected vp config clock k acc signer epoch b vh = Ok vh' \<Longrightarrow> history_step vh vh'"
| fee_distribution: "handle_copy_priority_fee_distribution_account ks vp clock k acc d epoch vh = Ok vh' \<Longrightarrow> history_step vh vh'"
| tip_distribution: "handle_copy_tip_distribution_account ks sol vp config clock k acc owner td epoch vh = Ok vh' \<Longrightarrow>
    history_step vh vh'"
| gossip: "handle_copy_gossip_contact_info vp ed bc crds config clock acc signer ix vh = Ok vh' \<Longrightarrow> history_step vh vh'"

text \<open>What a setter keeps: the invariant of the log and everything outside it.\<close>

definition same_account :: "ValidatorHistory \<Rightarrow> ValidatorHistory \<Rightarrow> bool" where
  "same_account vh vh' \<longleftrightarrow> vh_vote_account vh' = vh_vote_account vh \<and> vh_index vh' = vh_index vh \<and>
     vh_bump vh' = vh_bump vh \<and> vh_struct_version vh' = vh_struct_version vh"

definition keeps_log :: "ValidatorHistory \<Rightarrow> ValidatorHistory \<Rightarrow> bool" where
  "keeps_log vh vh' \<longleftrightarrow> same_account vh vh' \<and> (vh_inv vh \<longrightarrow> vh_inv vh')"

lemma vh_set_same: "vh_set strict x f vh = Ok vh' \<Longrightarrow> same_account vh vh'"
  by (auto simp: vh_set_def on_history_def and_then_eq_Inr same_account_def)

lemma cast_epoch_eq_Ok [simp]: "cast_epoch e = Ok x \<longleftrightarrow> x = e \<and> e < U16_MAX"
  by (auto simp: cast_epoch_def)

context history_setter
begin

lemma setter_keeps_log: "vh_set strict x f vh = Ok vh' \<Longrightarrow> x < U16_MAX \<Longrightarrow> keeps_log vh vh'"
  using vh_set_same [of strict x f vh vh'] setter_keeps_inv [of vh x vh'] by (auto simp: keeps_log_def)

end

lemma keeps_log_trans: "keeps_log a b \<Longrightarrow> keeps_log b c \<Longrightarrow> keeps_log a c"
  by (auto simp: keeps_log_def same_account_def)

lemma keeps_log_fields [simp]:
  "keeps_log (vh\<lparr>last_ip_timestamp := t\<rparr>) vh' = keeps_log vh vh'"
  "keeps_log (vh\<lparr>last_version_timestamp := t\<rparr>) vh' = keeps_log vh vh'"
  "keeps_log vh (vh'\<lparr>validator_age := y\<rparr>) = keeps_log vh vh'"
  "keeps_log vh (vh'\<lparr>validator_age_last_updated_epoch := e\<rparr>) = keeps_log vh vh'"
  "keeps_log vh vh"
  by (simp_all add: keeps_log_def same_account_def)

lemmas setter_logs = mev_setter.setter_keeps_log fee_setter.setter_keeps_log stake_setter.setter_keeps_log
  block_setter.setter_keeps_log commission_setter.setter_keeps_log bam_setter.setter_keeps_log
  contact_setter.setter_keeps_log ip_setter.setter_keeps_log version_setter.setter_keeps_log

lemma set_contact_info_log:
  assumes "set_contact_info epoch c ts vh = Ok vh'" "epoch < U16_MAX"
  shows "keeps_log vh vh'"
proof -
  obtain addr where addr: "arr_get (ci_addrs c) 0 = Ok addr" using assms(1) by (auto simp: set_contact_info_def and_then_eq_Inr)
  show ?thesis
    using assms addr contact_setter.setter_keeps_log [OF _ assms(2)]
    by (cases addr) (fastforce simp: set_contact_info_def Let_def split: if_splits)+
qed

lemma set_gossip_log: "set_gossip epoch ts crds vh = Ok vh' \<Longrightarrow> epoch < U16_MAX \<Longrightarrow> keeps_log vh vh'"
  by (cases crds)
     (auto simp: set_legacy_contact_info_def set_version_def set_legacy_version_def
        split: if_splits IpAddr.splits dest: set_contact_info_log setter_logs)

lemma insert_missing_log: "insert_missing_entries ecs vh = Ok vh' \<Longrightarrow> keeps_log vh vh'"
  using insert_missing_keeps_inv [of vh ecs vh']
  by (auto simp: keeps_log_def same_account_def insert_missing_entries_def on_history_def and_then_eq_Inr)

lemma set_epoch_credits_log:
  assumes "set_epoch_credits ecs vh = Ok vh'"
  shows "keeps_log vh vh'"
proof -
  have same: "same_account vh vh'"
    using assms by (auto simp: set_epoch_credits_def on_history_def and_then_eq_Inr same_account_def split: if_splits)
  have "vh_inv vh'" if "vh_inv vh"
  proof (cases "ecs = []")
    case False
    then obtain m where "epoch_credits_map ecs = Ok m" using assms by (auto simp: set_epoch_credits_def and_then_eq_Inr)
    then show ?thesis using set_epoch_credits_eq [OF that _ False] assms by auto
  qed (use assms that in \<open>simp add: set_epoch_credits_def\<close>)
  then show ?thesis using same by (simp add: keeps_log_def)
qed

lemma update_age_log: "update_validator_age epoch vh = Ok vh' \<Longrightarrow> keeps_log vh vh'"
  by (auto simp: update_validator_age_def initialize_validator_age_def and_then_eq_Inr Let_def split: if_splits)

lemma history_step_log:
  assumes "history_step vh vh'"
  shows "keeps_log vh vh'"
  using assms
proof cases
  case (vote_account vp bc clock k acc)
  then obtain c a b d ecs where 1: "set_commission_and_slot (hc_epoch clock) c (hc_slot clock) vh = Ok a" "hc_epoch clock < U16_MAX"
    and 2: "insert_missing_entries ecs a = Ok b" "set_epoch_credits ecs b = Ok d"
    and 3: "update_validator_age (hc_epoch clock) d = Ok vh'"
    by (auto simp: handle_copy_vote_account_def and_then_eq_Inr)
  have "keeps_log vh a" using 1 commission_setter.setter_keeps_log by (simp add: set_commission_and_slot_def)
  from keeps_log_trans [OF keeps_log_trans [OF this insert_missing_log [OF 2(1)]] keeps_log_trans [OF set_epoch_credits_log [OF 2(2)]
      update_age_log [OF 3]]] show ?thesis .
next
  case (gossip vp ed bc crds config clock acc signer ix)
  then show ?thesis
    by (auto simp: handle_copy_gossip_contact_info_def and_then_eq_Inr Let_def intro: set_gossip_log)
qed (auto simp: handle_update_stake_history_def handle_update_priority_fee_history_def handle_upload_validator_age_def
    handle_copy_is_bam_connected_def handle_copy_priority_fee_distribution_account_def
    handle_copy_tip_distribution_account_def set_stake_def set_total_priority_fees_and_block_metadata_def
    set_is_bam_connected_def set_priority_fees_transferred_and_commission_def set_mev_commission_def
    and_then_eq_Inr Let_def split: if_splits option.splits dest!: setter_logs)

interpretation history: step_system history_step "keeps_log vh" for vh
  by unfold_locales (blast intro: keeps_log_trans history_step_log)

section \<open>Properties\<close>

text \<open>
  C13. A validator's history is always a log in ascending epochs. Take an account as it is after
  its initialisation and any instructions after it: the records have strictly ascending
  epochs, there are at most 512 of them, the validator's key and its index are the ones given
  at initialisation, and asking for a range of epochs returns, epoch by epoch, exactly the
  record of that epoch.
\<close>

theorem reachable_histories_are_ordered_logs:
  assumes "handle_realloc_validator_history_account full_size account_size False vote_key bump config raw = Ok (config', vh)"
    and "full_size \<le> account_size" "length (arr (vh_history raw)) = MAX_ITEMS" "history_step\<^sup>*\<^sup>* vh vh'"
  shows "sorted_wrt (<) (map vhe_epoch (vh_entries vh')) \<and> length (vh_entries vh') \<le> 512 \<and>
    vh_vote_account vh' = vote_key \<and> vh_index vh' = hg_counter config \<and> hg_counter config' = Suc (hg_counter config) \<and>
    (\<forall>s t. t < U16_MAX \<longrightarrow> circ_epoch_range vhe_epoch s t (vh_history vh') =
       Ok (map (\<lambda>x. find (\<lambda>e. vhe_epoch e = x) (vh_entries vh')) [s..<Suc t]))"
proof -
  obtain h where vh: "vh = raw\<lparr>vh_index := hg_counter config, vh_bump := bump, vh_vote_account := vote_key,
      vh_struct_version := 0, vh_history := h\<rparr>" "circ_init ValidatorHistoryEntry_default (vh_history raw) = Ok h"
    "hg_counter config' = Suc (hg_counter config)"
    using assms(1,2)
    by (auto simp: handle_realloc_validator_history_account_def and_then_eq_Inr plus_or_panic_def ok_or_eq_Inr checked_add_eq_Some)
  have "vh_inv vh" using circ_init_ok [of "vh_history raw" MAX_ITEMS vhe_epoch ValidatorHistoryEntry_default] vh(1,2) assms(3) by auto
  moreover have "keeps_log vh vh'" by (rule history.reachable_inv [OF assms(4)]) simp
  ultimately have inv: "vh_inv vh'" and same: "same_account vh vh'" by (auto simp: keeps_log_def)
  show ?thesis
    using vh_log.recs_sorted [OF inv] vh_log.recs_cap [OF inv] vh_log.range_law [OF inv] same vh
    by (simp add: same_account_def lookup_epoch_def MAX_ITEMS_def)
qed

section \<open>Gossip data\<close>

lemma set_gossip_timestamps:
  assumes "set_gossip epoch ts crds vh = Ok vh'"
  shows "last_ip_timestamp vh \<le> last_ip_timestamp vh' \<and> last_version_timestamp vh \<le> last_version_timestamp vh' \<and>
    (last_ip_timestamp vh' = ts \<or> last_version_timestamp vh' = ts)"
proof -
  have set: "last_ip_timestamp w' = last_ip_timestamp w \<and> last_version_timestamp w' = last_version_timestamp w"
    if "vh_set b x f w = Ok w'" for b x f w w'
    using that by (auto simp: vh_set_def on_history_def and_then_eq_Inr)
  show ?thesis
  proof (cases crds)
    case (CrdsContactInfo k wallclock c)
    then obtain addr where addr: "arr_get (ci_addrs c) 0 = Ok addr"
      using assms by (auto simp: set_contact_info_def and_then_eq_Inr)
    show ?thesis
      using assms addr CrdsContactInfo
      by (cases addr) (auto simp: set_contact_info_def Let_def split: if_splits dest!: set)
  qed (use assms in \<open>auto simp: set_legacy_contact_info_def set_version_def set_legacy_version_def
      split: if_splits IpAddr.splits dest!: set\<close>)
qed

text \<open>
  C40. Gossip data comes from the oracle, names the validator's node as its origin and as its
  signer, and never goes back in time. When the instruction succeeds, the oracle signed the
  transaction; the instruction before it calls the signature program; the key at the signer's
  place in its data and the origin of the gossip data after it are the node key in the vote
  account; the data is at most ten minutes ahead of the clock; and neither of the two
  timestamps of the history decreases.
\<close>

theorem gossip_data_is_authentic:
  assumes "handle_copy_gossip_contact_info vote_program ed25519_program bc crds_data config clock acc signer ix vh = Ok vh'"
    and "bincode_fixint bc" "vote_state_wf v" "va_data acc = vote_state_bytes v" "length (va_data acc) \<le> U64_MAX"
    and "0 \<le> hc_unix_timestamp clock" "hc_unix_timestamp clock < 2 ^ 63"
  shows "signer = hg_oracle_authority config \<and>
    (\<exists>data crds ts. ix = Ok (ed25519_program, data) \<and> crds_data (drop 112 data) = Some crds \<and>
       take 32 (drop 16 data) = node_pubkey_of v \<and> crds_origin crds = Ok (node_pubkey_of v, ts) \<and>
       int (ts div 1000) \<le> hc_unix_timestamp clock + 600 \<and>
       (last_ip_timestamp vh' = ts \<or> last_version_timestamp vh' = ts)) \<and>
    last_ip_timestamp vh \<le> last_ip_timestamp vh' \<and> last_version_timestamp vh \<le> last_version_timestamp vh'"
proof -
  obtain data bytes where ix: "ix = Ok (ed25519_program, data)" and signer: "signer = hg_oracle_authority config"
    and owner: "va_owner acc = vote_program" and off: "offsets_valid (offsets_from_bytes bytes)"
    and rest: "\<exists>message_signer message_data crds ts node latest.
      arr_slice data (public_key_offset (offsets_from_bytes bytes))
        (public_key_offset (offsets_from_bytes bytes) + PUBKEY_SERIALIZED_SIZE) = Ok message_signer \<and>
      arr_slice data (message_data_offset (offsets_from_bytes bytes)) (length data) = Ok message_data \<and>
      crds_data message_data = Some crds \<and> crds_origin crds = Ok (node, ts) \<and>
      deserialize_node_pubkey vote_program bc acc = Ok node \<and> message_signer = node \<and>
      latest_timestamp clock = Ok latest \<and> ts div 1000 \<le> latest \<and> set_gossip (hc_epoch clock) ts crds vh = Ok vh'"
    using assms(1) by (auto simp: handle_copy_gossip_contact_info_def and_then_eq_Inr ok_or_eq_Inr Let_def)
  have offs: "public_key_offset (offsets_from_bytes bytes) = 16" "message_data_offset (offsets_from_bytes bytes) = 112"
    using off by (simp_all add: offsets_valid_def gossip_layout)
  have acc: "acc = \<lparr>va_owner = vote_program, va_data = vote_state_bytes v\<rparr>" using owner assms(4) by simp
  obtain message_signer message_data crds ts latest where
    r: "arr_slice data 16 48 = Ok message_signer" "arr_slice data 112 (length data) = Ok message_data"
    "crds_data message_data = Some crds" "crds_origin crds = Ok (node_pubkey_of v, ts)" "message_signer = node_pubkey_of v"
    "latest_timestamp clock = Ok latest" "ts div 1000 \<le> latest" "set_gossip (hc_epoch clock) ts crds vh = Ok vh'"
    using rest node_pubkey_ok [OF assms(2,3), of vote_program] unfolding acc offs gossip_layout by auto
  have data: "message_data = drop 112 data" "message_signer = take 32 (drop 16 data)"
    using r(1,2) by (auto simp: arr_slice_def split: if_splits)
  have "int latest = hc_unix_timestamp clock + 600"
    using r(6) assms(6) by (auto simp: latest_timestamp_def Let_def split: if_splits)
  then have "int (ts div 1000) \<le> hc_unix_timestamp clock + 600" using r(7) by linarith
  then show ?thesis using signer ix r data set_gossip_timestamps [OF r(8)] by auto
qed

text \<open>
  The data of a signature instruction with one set of offsets: the three indices say in which
  instruction of the transaction the signature program finds the signature, the key and the
  message.
\<close>

definition ed25519_data :: "8 word \<Rightarrow> nat \<Rightarrow> nat \<Rightarrow> 8 word list \<Rightarrow> 8 word list" where
  "ed25519_data count index len rest =
     [count, 0] @ concat (map (to_le_bytes 2) [48, index, 16, index, 112, len, index]) @ rest"

lemma ed25519_data_offsets:
  assumes "index \<le> U16_MAX"
  shows "\<exists>bytes. arr_slice (ed25519_data count index len rest) 2 16 = Ok bytes \<and> offsets_valid (offsets_from_bytes bytes) \<and>
    public_key_offset (offsets_from_bytes bytes) = 16 \<and> message_data_offset (offsets_from_bytes bytes) = 112"
proof -
  let ?bytes = "concat (map (to_le_bytes 2) [48, index, 16, index, 112, len, index])"
  have slice: "arr_slice (ed25519_data count index len rest) 2 16 = Ok ?bytes"
    unfolding ed25519_data_def by (rule slice_middle) simp_all
  have "from_le_bytes (to_le_bytes 2 n) = n" if "n \<le> U16_MAX" for n
    using that by (intro from_to_le_bytes) (simp add: int_limits)
  then show ?thesis
    using slice assms by (simp add: offsets_from_bytes_def offsets_valid_def gossip_layout int_limits)
qed

lemma ed25519_data_rest:
  shows ed25519_data_length: "length (ed25519_data count index len rest) = 16 + length rest"
    and ed25519_data_slice: "16 \<le> i \<Longrightarrow>
      arr_slice (ed25519_data count index len rest) i j = arr_slice (ed25519_data count index' len rest) i j"
proof -
  show len: "length (ed25519_data count index len rest) = 16 + length rest" for index by (simp add: ed25519_data_def)
  assume i: "16 \<le> i"
  have "drop i (ed25519_data count index len rest) = drop (i - 16) rest" for index
    using i unfolding ed25519_data_def append_assoc [symmetric] drop_append by simp
  then show "arr_slice (ed25519_data count index len rest) i j = arr_slice (ed25519_data count index' len rest) i j"
    by (simp add: arr_slice_def len)
qed

text \<open>
  The instruction index is not checked. The code asks only that the three indices in the
  signature instruction are equal, so it treats data that sends the signature program to
  another instruction of the transaction exactly like data that does not, although the key
  and the message it uses are those of the signature instruction itself.
\<close>

theorem gossip_instruction_index_is_not_checked:
  assumes "index \<le> U16_MAX" "index' \<le> U16_MAX"
  shows "handle_copy_gossip_contact_info vp ed bc crds config clock acc signer (Ok (program, ed25519_data count index len rest)) vh =
    handle_copy_gossip_contact_info vp ed bc crds config clock acc signer (Ok (program, ed25519_data count index' len rest)) vh"
proof -
  obtain bytes bytes' where
    "arr_slice (ed25519_data count index len rest) 2 16 = Ok bytes" "offsets_valid (offsets_from_bytes bytes)"
    "public_key_offset (offsets_from_bytes bytes) = 16" "message_data_offset (offsets_from_bytes bytes) = 112"
    "arr_slice (ed25519_data count index' len rest) 2 16 = Ok bytes'" "offsets_valid (offsets_from_bytes bytes')"
    "public_key_offset (offsets_from_bytes bytes') = 16" "message_data_offset (offsets_from_bytes bytes') = 112"
    using ed25519_data_offsets [OF assms(1)] ed25519_data_offsets [OF assms(2)] by metis
  moreover note ed25519_data_slice [of 16 count index len rest 48 index']
    ed25519_data_slice [of 112 count index len rest "16 + length rest" index']
  ultimately show ?thesis
    by (simp add: handle_copy_gossip_contact_info_def gossip_layout Let_def ed25519_data_length)
qed

section \<open>Priority fee data\<close>

lemma find_in_log:
  assumes inv: "vh_inv vh" and x: "x < U16_MAX"
  shows "find (\<lambda>e. vhe_epoch e = x) (arr (vh_history vh)) = lookup_epoch vhe_epoch (vh_entries vh) x"
proof -
  have set: "e \<in> set (arr (vh_history vh)) \<longleftrightarrow> e \<in> set (vh_entries vh)" if "vhe_epoch e = x" for e
    using that x by (auto simp: entries_def)
  have d: "distinct (map vhe_epoch (vh_entries vh))" using vh_log.recs_sorted [OF inv] by (simp add: strict_sorted_iff)
  show ?thesis
  proof (cases "find (\<lambda>e. vhe_epoch e = x) (arr (vh_history vh))")
    case None
    then have "x \<notin> vhe_epoch ` set (vh_entries vh)" using set by (auto simp: find_None_iff)
    then show ?thesis using None by (metis lookup_epoch_eq_None)
  next
    case (Some e)
    then have e: "vhe_epoch e = x" "e \<in> set (arr (vh_history vh))" by (auto simp: find_Some_iff)
    then have "e \<in> set (vh_entries vh)" using set by blast
    then show ?thesis using Some lookup_epoch_mem [OF d] e by fastforce
  qed
qed

text \<open>
  The priority fee data of an epoch is recorded once. After a successful copy for an epoch
  that the history then has a record of, every further copy for that epoch fails, whatever
  the distribution account holds by then and whoever sends it.
\<close>

theorem priority_fee_data_is_copied_once:
  assumes "handle_copy_priority_fee_distribution_account ks vp clock k acc d epoch vh = Ok vh'" "vh_inv vh"
    and "epoch \<in> vhe_epoch ` set (vh_entries vh')"
  shows "\<exists>err. handle_copy_priority_fee_distribution_account ks vp clock' k' acc' d' epoch vh' = Err err"
proof -
  obtain c t a where ep: "epoch < U16_MAX" and set: "set_priority_fees_transferred_and_commission epoch c t a vh = Ok vh'" and a: "a \<noteq> Unset"
    using assms(1) by (auto simp: handle_copy_priority_fee_distribution_account_def and_then_eq_Inr Let_def upload_authority_def
        from_pubkey_def split: if_splits option.splits)
  let ?f = "\<lambda>e. e\<lparr>priority_fee_commission := c, vhe_priority_fee_tips := t, priority_fee_merkle_root_upload_authority := a\<rparr>"
  have set': "vh_set False epoch ?f vh = Ok vh'" using set by (simp add: set_priority_fees_transferred_and_commission_def)
  have inv: "vh_inv vh'" by (rule fee_setter.setter_keeps_inv [OF assms(2) ep set'])
  have new: "epoch \<in> vhe_epoch ` set (vh_entries vh) \<or> (\<forall>e\<in>set (vh_entries vh). vhe_epoch e < epoch)"
  proof (rule ccontr)
    assume no: "\<not> ?thesis"
    then have "vh' = vh"
      using fee_setter.setter_cases [OF assms(2) ep, where c = c and t = t and a = a] set' by (auto simp: upsert_def split: if_splits)
    then show False using no assms(3) by simp
  qed
  obtain e where e: "lookup_epoch vhe_epoch (vh_entries vh') epoch = Some (?f e)"
    using fee_setter.setter_writes [OF assms(2) ep new, where c = c and t = t and a = a] set' by auto
  have "find (\<lambda>e. vhe_epoch e = epoch) (arr (vh_history vh')) = Some (?f e)" using find_in_log [OF inv ep] e by simp
  then show ?thesis using a
    by (auto simp: handle_copy_priority_fee_distribution_account_def and_then_def has_one_def owned_by_def cast_epoch_def ep)
qed

section \<open>Witnesses\<close>

lemma sample_vote_state_wf: "vote_state_wf (Current sample_vote_state)" "length (va_data sample_vote_account) \<le> U64_MAX"
  by (simp_all add: sample_vote_state_def credits_wf_def sample_vote_account_def enc_vec_def enc_option_def enc_voter_def
      enc_lengths int_limits)

definition sample_clock :: HistoryClock where
  "sample_clock = \<lparr>hc_slot = 4320500, hc_epoch = 101, hc_epoch_start_timestamp = 1700000000, hc_unix_timestamp = 1700000500\<rparr>"

definition sample_history_config :: HistoryConfig where
  "sample_history_config = \<lparr>hg_tip_distribution_program = replicate 32 20, hg_admin = replicate 32 21,
     hg_oracle_authority = replicate 32 22, hg_counter = 41, hg_bump = 255,
     hg_priority_fee_distribution_program = replicate 32 23, hg_priority_fee_oracle_authority = replicate 32 24\<rparr>"

theorem reachable_histories_are_ordered_logs_witness:
  "\<exists>config' vh. handle_realloc_validator_history_account 65848 65848 False (replicate 32 1) 254 sample_history_config sample_history
      = Ok (config', vh) \<and> vh_index vh = 41 \<and> hg_counter config' = 42 \<and> length (vh_entries vh) \<le> 512"
proof -
  have len: "length (arr (vh_history sample_history)) = MAX_ITEMS"
    using sample_history_inv by (auto dest: circ_invD)
  obtain h where "circ_init ValidatorHistoryEntry_default (vh_history sample_history) = Ok h"
    using circ_init_ok [OF len, of vhe_epoch ValidatorHistoryEntry_default] by auto
  then obtain config' vh where run: "handle_realloc_validator_history_account 65848 65848 False (replicate 32 1) 254
      sample_history_config sample_history = Ok (config', vh)"
    by (simp add: handle_realloc_validator_history_account_def plus_or_panic_def checked_add_def sample_history_config_def int_limits)
  show ?thesis
    using run reachable_histories_are_ordered_logs [OF run _ len rtranclp.rtrancl_refl] by (simp add: sample_history_config_def)
qed

lemma sample_accounts:
  "vh_vote_account sample_history = replicate 32 1" "va_owner sample_vote_account = replicate 32 5"
  "last_version_timestamp sample_history = 0" "priority_fee_merkle_root_upload_authority sample_entry = Unset"
  by (simp_all add: sample_history_def sample_vote_account_def sample_entry_def ValidatorHistoryEntry_default_def)

definition sample_fee_distribution :: PriorityFeeDistribution where
  "sample_fee_distribution = \<lparr>pfd_merkle_root_upload_authority = replicate 32 31, pfd_validator_commission_bps = 5000,
     pfd_total_lamports_transferred = 7000000\<rparr>"

definition sample_keys :: known_authorities where
  "sample_keys = \<lparr>JITO_LABS_AUTHORITY = replicate 32 30, TIP_ROUTER_AUTHORITY = replicate 32 31, DNE_AUTHORITY = replicate 32 32\<rparr>"

theorem priority_fee_data_is_copied_once_witness:
  "\<exists>vh'. handle_copy_priority_fee_distribution_account sample_keys (replicate 32 5) sample_clock (replicate 32 1) sample_vote_account
      (Some sample_fee_distribution) 100 sample_history = Ok vh' \<and>
    (\<exists>err. handle_copy_priority_fee_distribution_account sample_keys (replicate 32 5) sample_clock (replicate 32 1) sample_vote_account
      None 100 vh' = Err err)"
proof -
  let ?run = "handle_copy_priority_fee_distribution_account sample_keys (replicate 32 5) sample_clock (replicate 32 1) sample_vote_account
      (Some sample_fee_distribution) 100 sample_history"
  have inv: "vh_inv sample_history" using sample_history_inv by simp
  have ep: "(100::nat) < U16_MAX" by (simp add: int_limits)
  have "100 \<in> vhe_epoch ` set (vh_entries sample_history) \<or> (\<forall>e\<in>set (vh_entries sample_history). vhe_epoch e < 100)"
    by (simp add: sample_entry_def)
  from fee_setter.setter_writes [OF inv ep this, where c = 5000 and t = 7000000 and a = TipRouter]
  obtain vh' where set: "set_priority_fees_transferred_and_commission 100 5000 7000000 TipRouter sample_history = Ok vh'"
    and l: "lookup_epoch vhe_epoch (vh_entries vh') 100 \<noteq> None"
    by (auto simp: set_priority_fees_transferred_and_commission_def)
  have "find (\<lambda>e. vhe_epoch e = 100) (arr (vh_history sample_history)) = Some sample_entry"
    unfolding find_in_log [OF inv ep] by (simp add: lookup_epoch_def sample_entry_def)
  then have run: "?run = Ok vh'" using set
    by (simp add: handle_copy_priority_fee_distribution_account_def sample_clock_def sample_accounts has_one_def owned_by_def
        cast_epoch_def ep sample_fee_distribution_def sample_keys_def upload_authority_def from_pubkey_def
        replicate_eq_replicate)
  have "100 \<in> vhe_epoch ` set (vh_entries vh')" using l by (metis lookup_epoch_eq_None)
  from run priority_fee_data_is_copied_once [OF run inv this] show ?thesis by blast
qed

text \<open>A message of five bytes, signed by the node, with the offsets that the code asks for.\<close>

definition sample_message :: "8 word list" where "sample_message = [1, 2, 3, 4, 5]"

definition sample_verify_data :: "8 word list" where
  "sample_verify_data = [1, 0, 48, 0, 0, 0, 16, 0, 0, 0, 112, 0, 5, 0, 0, 0] @ replicate 32 1 @ replicate 64 99 @ sample_message"

definition sample_crds :: "8 word list \<Rightarrow> CrdsData option" where
  "sample_crds bs = (if bs = sample_message
     then Some (CrdsVersion2 \<lparr>crv_from = replicate 32 1, crv_wallclock = 1700000400000, crv_major = 2, crv_minor = 0, crv_patch = 5\<rparr>)
     else None)"

lemma sample_verify_slices:
  "arr_slice sample_verify_data 2 16 = Ok [48, 0, 0, 0, 16, 0, 0, 0, 112, 0, 5, 0, 0, 0]"
  "arr_slice sample_verify_data 16 48 = Ok (replicate 32 1)"
  "arr_slice sample_verify_data 112 (length sample_verify_data) = Ok sample_message"
  by (simp_all add: arr_slice_def sample_verify_data_def sample_message_def)

lemma sample_offsets:
  "offsets_from_bytes [48, 0, 0, 0, 16, 0, 0, 0, 112, 0, 5, 0, 0, 0] =
     \<lparr>signature_offset = 48, signature_instruction_index = 0, public_key_offset = 16, public_key_instruction_index = 0,
      message_data_offset = 112, message_data_size = 5, message_instruction_index = 0\<rparr>"
  by (simp add: offsets_from_bytes_def)

theorem gossip_data_is_authentic_witness:
  "\<exists>vh'. handle_copy_gossip_contact_info (replicate 32 5) (replicate 32 6) fixint sample_crds sample_history_config sample_clock
      sample_vote_account (replicate 32 22) (Ok (replicate 32 6, sample_verify_data)) sample_history = Ok vh' \<and>
    last_version_timestamp sample_history \<le> last_version_timestamp vh' \<and>
    take 32 (drop 16 sample_verify_data) = node_pubkey_of (Current sample_vote_state)"
proof -
  let ?w = "sample_history\<lparr>last_version_timestamp := 1700000400000\<rparr>"
  have "101 \<in> vhe_epoch ` set (vh_entries ?w) \<or> (\<forall>e\<in>set (vh_entries ?w). vhe_epoch e < 101)" by simp
  from version_setter.setter_writes [OF _ _ this, where v = "client_version 2 0 5"] sample_history_inv
  obtain vh' where "set_version 101 2 0 5 1700000400000 sample_history = Ok vh'"
    by (auto simp: set_version_def sample_accounts int_limits)
  moreover have "deserialize_node_pubkey (replicate 32 5) fixint sample_vote_account = Ok (replicate 32 1)"
    using node_pubkey_ok [OF fixint_is_fixint sample_vote_state_wf(1), of "replicate 32 5"]
    by (simp add: sample_vote_account_def sample_vote_state_def)
  ultimately have run: "handle_copy_gossip_contact_info (replicate 32 5) (replicate 32 6) fixint sample_crds sample_history_config sample_clock
      sample_vote_account (replicate 32 22) (Ok (replicate 32 6, sample_verify_data)) sample_history = Ok vh'"
    by (simp add: handle_copy_gossip_contact_info_def has_one_def owned_by_def vh_require_def sample_accounts sample_history_config_def
        sample_clock_def cast_epoch_def int_limits gossip_layout sample_verify_slices sample_offsets offsets_valid_def sample_crds_def
        latest_timestamp_def)
  from gossip_data_is_authentic [OF run fixint_is_fixint sample_vote_state_wf(1) _ sample_vote_state_wf(2)] run show ?thesis
    by (auto simp: sample_vote_account_def sample_clock_def)
qed

theorem gossip_instruction_index_is_not_checked_witness:
  "handle_copy_gossip_contact_info (replicate 32 5) (replicate 32 6) fixint sample_crds sample_history_config sample_clock
      sample_vote_account (replicate 32 22)
      (Ok (replicate 32 6, ed25519_data 1 7 5 (replicate 32 1 @ replicate 64 99 @ sample_message))) sample_history =
   handle_copy_gossip_contact_info (replicate 32 5) (replicate 32 6) fixint sample_crds sample_history_config sample_clock
      sample_vote_account (replicate 32 22)
      (Ok (replicate 32 6, ed25519_data 1 65535 5 (replicate 32 1 @ replicate 64 99 @ sample_message))) sample_history"
  by (rule gossip_instruction_index_is_not_checked) (simp_all add: int_limits)

end
