(* ===== verification/Account_Growth.thy ===== *)
theory Account_Growth
  imports State_Migration History_Instructions
begin

text \<open>
  Accounts that grow to their full size, one allocation per instruction
  (\<^verbatim>\<open>get_realloc_size\<close> in the instructions that grow an account of the steward or of the
  validator history), and the byte that decides whether a grown directed stake account is
  initialised (\<^verbatim>\<open>is_initialized\<close> of instructions/realloc_directed_stake_meta.rs).
\<close>

section \<open>Growth\<close>

text \<open>What the functions that compute the next size promise.\<close>

locale account_growth =
  fixes grow :: "nat \<Rightarrow> nat \<Rightarrow> nat result"
    and step :: nat
  assumes grows: "a < full \<Longrightarrow> full + step \<le> U64_MAX \<Longrightarrow> grow full a = Ok (min full (a + step))"
    and keeps: "full \<le> a \<Longrightarrow> grow full a = Ok a"
begin

lemma grow_times:
  assumes "full + step \<le> U64_MAX" "a \<le> full"
  shows "for_each (\<lambda>_. grow full) [0..<n] a = Ok (min full (a + n * step))"
proof (induction n)
  case (Suc n)
  have "grow full (min full (a + n * step)) = Ok (min full (a + Suc n * step))"
  proof (cases "a + n * step < full")
    case True
    then show ?thesis using grows [OF True assms(1)] by (simp add: min_def algebra_simps)
  next
    case False
    then show ?thesis using keeps [of full full] by (simp add: min_def)
  qed
  then show ?case using Suc by simp
qed (use assms(2) in simp)

lemma reaches_full:
  assumes "full + step \<le> U64_MAX" "a \<le> full"
  shows "for_each (\<lambda>_. grow full) [0..<n] a = Ok full \<longleftrightarrow> full \<le> a + n * step"
  by (simp add: grow_times [OF assms] min_def)

end

interpretation steward_growth: account_growth get_realloc_size MAX_ALLOC_BYTES
  by unfold_locales (auto simp: get_realloc_size_def checked_add_def)

interpretation history_growth: account_growth history_realloc_size HISTORY_MAX_ALLOC_BYTES
  by unfold_locales (auto simp: history_realloc_size_def plus_or_panic_def checked_add_def)

section \<open>The bytes of the directed stake account\<close>

text \<open>
  The account as it is laid out: the discriminator, the two counters, the padding, the
  initialisation byte, the targets with their padding, and the two arrays by list index.
\<close>

definition target_bytes :: "DirectedStakeTarget \<Rightarrow> 8 word list" where
  "target_bytes t = t_vote_pubkey t @ to_le_bytes 8 (total_target_lamports t) @ to_le_bytes 8 (t_total_staked_lamports t) @
     to_le_bytes 8 (target_last_updated_epoch t) @ to_le_bytes 8 (staked_last_updated_epoch t) @ replicate 32 0"

definition meta_bytes :: "8 word list \<Rightarrow> DirectedStakeMeta \<Rightarrow> 8 word list" where
  "meta_bytes discriminator m = discriminator @ to_le_bytes 8 (total_stake_targets m) @
     to_le_bytes 8 (directed_unstake_total m) @ replicate 63 0 @ [u8_value (dm_is_initialized m)] @
     concat (map target_bytes (targets m)) @ concat (map (to_le_bytes 8) (directed_stake_lamports m)) @
     concat (map (to_le_bytes 8) (directed_stake_meta_indices m))"

definition META_SIZE :: nat where
  "META_SIZE = 8 + (8 + 8 + 63 + 1 + 96 * MAX_VALIDATORS + 8 * MAX_VALIDATORS + 8 * MAX_VALIDATORS)"

definition IS_INITIALIZED_BYTE_POSITION :: nat where "IS_INITIALIZED_BYTE_POSITION = 8 + 8 * 5 + 63"

definition meta_is_initialized :: "8 word list \<Rightarrow> bool" where
  "meta_is_initialized data \<longleftrightarrow> META_SIZE \<le> length data \<and> data ! IS_INITIALIZED_BYTE_POSITION \<noteq> 0"

text \<open>The whole instruction on an account that has its full size already.\<close>

definition realloc_full_meta :: "8 word list \<Rightarrow> DirectedStakeMeta \<Rightarrow> DirectedStakeMeta" where
  "realloc_full_meta discriminator m =
     (let data = meta_bytes discriminator m in
      realloc_directed_stake_meta_handler META_SIZE (length data) (meta_is_initialized data) m)"

definition keys_wf_meta :: "DirectedStakeMeta \<Rightarrow> bool" where
  "keys_wf_meta m \<longleftrightarrow> meta_wf m \<and> (\<forall>t\<in>set (targets m). length (t_vote_pubkey t) = 32)"

lemma concat_length: "(\<And>x. x \<in> set xs \<Longrightarrow> length (f x) = k) \<Longrightarrow> length (concat (map f xs)) = k * length xs"
  by (induction xs) auto

lemma meta_bytes_length:
  assumes "length d = 8" "keys_wf_meta m"
  shows "length (meta_bytes d m) = META_SIZE"
proof -
  have "length (concat (map target_bytes (targets m))) = 96 * length (targets m)"
    using assms(2) by (intro concat_length) (auto simp: target_bytes_def keys_wf_meta_def)
  moreover have "length (concat (map (to_le_bytes 8) xs)) = 8 * length xs" for xs
    by (rule concat_length) simp
  ultimately show ?thesis using assms by (simp add: meta_bytes_def META_SIZE_def keys_wf_meta_def meta_wf_def)
qed

text \<open>
  The byte that is tested is not the initialisation byte, which is at 87, but the
  twenty-fourth byte of the first target's key.
\<close>

lemma tested_byte:
  assumes "length d = 8" "keys_wf_meta m"
  shows "meta_bytes d m ! IS_INITIALIZED_BYTE_POSITION = t_vote_pubkey (targets m ! 0) ! 23"
    and "meta_bytes d m ! 87 = u8_value (dm_is_initialized m)"
proof -
  obtain t ts where ts: "targets m = t # ts"
    using assms(2) by (cases "targets m") (auto simp: keys_wf_meta_def meta_wf_def MAX_VALIDATORS_def)
  have t: "length (t_vote_pubkey t) = 32" using assms(2) ts by (simp add: keys_wf_meta_def)
  let ?pre = "d @ to_le_bytes 8 (total_stake_targets m) @ to_le_bytes 8 (directed_unstake_total m) @ replicate 63 (0 :: 8 word)"
  obtain post where bytes: "meta_bytes d m = ?pre @ u8_value (dm_is_initialized m) # t_vote_pubkey t @ post"
    by (simp add: meta_bytes_def ts target_bytes_def)
  have len: "length ?pre = 87" using assms(1) by simp
  show "meta_bytes d m ! IS_INITIALIZED_BYTE_POSITION = t_vote_pubkey (targets m ! 0) ! 23"
    unfolding bytes IS_INITIALIZED_BYTE_POSITION_def using t ts by (simp add: nth_append assms(1))
  show "meta_bytes d m ! 87 = u8_value (dm_is_initialized m)"
    unfolding bytes using nth_append_length [of ?pre] len by metis
qed

section \<open>Properties\<close>

text \<open>
  Growing an account ends. From any size up to the full one, a number of instructions never
  overshoots, and it reaches the full size exactly when the allocations add up to what is
  missing, for the accounts of both programs; so the number of instructions that is needed is
  known in advance, and none fails on the way.
\<close>

theorem account_growth_completes:
  assumes "full + MAX_ALLOC_BYTES \<le> U64_MAX" "a \<le> full"
  shows "(for_each (\<lambda>_. get_realloc_size full) [0..<n] a = Ok full \<longleftrightarrow> full \<le> a + n * MAX_ALLOC_BYTES) \<and>
    (for_each (\<lambda>_. history_realloc_size full) [0..<n] a = Ok full \<longleftrightarrow> full \<le> a + n * MAX_ALLOC_BYTES) \<and>
    (\<exists>b \<le> full. for_each (\<lambda>_. get_realloc_size full) [0..<n] a = Ok b \<and>
       for_each (\<lambda>_. history_realloc_size full) [0..<n] a = Ok b)"
proof -
  have same: "HISTORY_MAX_ALLOC_BYTES = MAX_ALLOC_BYTES" by (simp add: HISTORY_MAX_ALLOC_BYTES_def MAX_ALLOC_BYTES_def)
  show ?thesis
    using steward_growth.reaches_full [OF assms, of n] steward_growth.grow_times [OF assms, of n]
      history_growth.reaches_full [unfolded same, OF assms, of n] history_growth.grow_times [unfolded same, OF assms, of n]
    by (simp add: min_def)
qed

theorem account_growth_completes_witness:
  "for_each (\<lambda>_. get_realloc_size META_SIZE) [0..<54] MAX_ALLOC_BYTES = Ok META_SIZE \<and>
   for_each (\<lambda>_. get_realloc_size META_SIZE) [0..<53] MAX_ALLOC_BYTES \<noteq> Ok META_SIZE"
proof -
  have "META_SIZE = 560088" "MAX_ALLOC_BYTES = 10240"
    by (simp_all add: META_SIZE_def MAX_VALIDATORS_def MAX_ALLOC_BYTES_def)
  then show ?thesis
    using account_growth_completes [of META_SIZE MAX_ALLOC_BYTES 54] account_growth_completes [of META_SIZE MAX_ALLOC_BYTES 53]
    by (simp add: int_limits del: upt_rec_numeral)
qed

text \<open>
  C36. Growing a directed stake account again can erase it. The test for initialisation reads
  byte 111 of the account, which is a byte of the first target's key and not the
  initialisation byte. So on an account that has its full size and whose initialisation byte
  is set, the instruction, which anyone may send, keeps everything if that byte of the key is
  not zero; if it is zero, it overwrites every target, every directed balance and every
  index, while the number of targets stays what it was.
\<close>

theorem realloc_can_erase_directed_stake:
  assumes "length d = 8" "keys_wf_meta m" "U8Bool_is_true (dm_is_initialized m)"
  shows "realloc_full_meta d m =
    (if t_vote_pubkey (targets m ! 0) ! 23 \<noteq> 0 then m
     else m\<lparr>targets := replicate MAX_VALIDATORS DirectedStakeTarget_default,
            directed_stake_lamports := replicate MAX_VALIDATORS 0,
            directed_stake_meta_indices := replicate MAX_VALIDATORS U64_MAX, dm_is_initialized := U8Bool_from True\<rparr>) \<and>
    meta_bytes d m ! 87 \<noteq> 0"
  using meta_bytes_length [OF assms(1,2)] tested_byte [OF assms(1,2)] assms(3)
  by (simp add: realloc_full_meta_def Let_def meta_is_initialized_def realloc_directed_stake_meta_handler_def U8Bool_is_true_def)

definition erasable_meta :: DirectedStakeMeta where
  "erasable_meta = DirectedStakeMeta_default\<lparr>total_stake_targets := 1,
     targets := (targets DirectedStakeMeta_default)[0 := DirectedStakeTarget_default
       \<lparr>t_vote_pubkey := replicate 23 7 @ [0] @ replicate 8 7, total_target_lamports := 500, t_total_staked_lamports := 500\<rparr>]\<rparr>"

theorem realloc_can_erase_directed_stake_witness:
  "get_total_staked_lamports (replicate 23 7 @ [0] @ replicate 8 7) erasable_meta = Some 500 \<and>
   total_stake_targets (realloc_full_meta (replicate 8 1) erasable_meta) = 1 \<and>
   targets (realloc_full_meta (replicate 8 1) erasable_meta) = replicate MAX_VALIDATORS DirectedStakeTarget_default"
proof -
  have len: "0 < MAX_VALIDATORS" by (simp add: MAX_VALIDATORS_def)
  have split: "replicate MAX_VALIDATORS x = x # replicate (MAX_VALIDATORS - 1) x" for x :: DirectedStakeTarget
    using len by (metis Suc_diff_1 replicate_Suc)
  have first: "targets erasable_meta = DirectedStakeTarget_default\<lparr>t_vote_pubkey := replicate 23 7 @ [0] @ replicate 8 7,
      total_target_lamports := 500, t_total_staked_lamports := 500\<rparr> # replicate (MAX_VALIDATORS - 1) DirectedStakeTarget_default"
    by (simp add: erasable_meta_def DirectedStakeMeta_default_def split)
  have wf: "keys_wf_meta erasable_meta"
    unfolding keys_wf_meta_def first using len
    by (auto simp: meta_wf_def erasable_meta_def DirectedStakeMeta_default_def DirectedStakeTarget_default_def Pubkey_default_def)
  have init: "U8Bool_is_true (dm_is_initialized erasable_meta)" by (simp add: erasable_meta_def DirectedStakeMeta_default_def)
  have "get_total_staked_lamports (replicate 23 7 @ [0] @ replicate 8 7) erasable_meta = Some 500"
    by (simp add: get_total_staked_lamports_def get_target_index_def first)
  then show ?thesis
    using realloc_can_erase_directed_stake [OF _ wf init, of "replicate 8 1"] first
    by (simp add: nth_append) (simp add: erasable_meta_def)
qed

end
