(* ===== verification/Var_Int.thy ===== *)
theory Var_Int
  imports Prelude
begin

text \<open>
  Integers that serialise to a variable number of bytes
  (programs/validator-history/src/serde_varint.rs). The macro defines the same two functions
  for 16, 32 and 64 bits; they are polymorphic in the width here. A sequence of bytes is a
  list; reading returns the value and the bytes that were not read.
\<close>

unbundle bit_operations_syntax

datatype varint_error = InvalidSequence | LastByteTruncated | InvalidTrailingZeros | LeftShiftOverflows

section \<open>Operations\<close>

primrec visit_seq_loop :: "8 word list \<Rightarrow> nat \<Rightarrow> 'a::len word \<Rightarrow> varint_error + 'a word \<times> 8 word list" where
  "visit_seq_loop [] shift out =
     (if shift < LENGTH('a) then Inl InvalidSequence else Inl LeftShiftOverflows)"
| "visit_seq_loop (byte # bytes) shift out =
     (if shift < LENGTH('a) then
        let out = out OR push_bit shift (ucast (byte AND 0x7F)) in
        if byte AND 0x80 = 0 then
          if ucast (drop_bit shift out) \<noteq> byte then Inl LastByteTruncated
          else if byte = 0 \<and> (shift \<noteq> 0 \<or> out \<noteq> 0) then Inl InvalidTrailingZeros
          else Inr (out, bytes)
        else visit_seq_loop bytes (shift + 7) out
      else Inl LeftShiftOverflows)"

definition visit_seq :: "8 word list \<Rightarrow> varint_error + 'a::len word \<times> 8 word list" where
  "visit_seq bytes = visit_seq_loop bytes 0 0"

function serialize_bytes :: "'a::len word \<Rightarrow> 8 word list" where
  "serialize_bytes x =
     (if 0x80 \<le> unat x then ucast ((x AND 0x7F) OR 0x80) # serialize_bytes (drop_bit 7 x) else [ucast x])"
  by pat_completeness auto

lemma unat_drop_7: "unat (drop_bit 7 x) = unat x div 128"
  unfolding unat_drop_bit_eq by (simp add: drop_bit_eq_div)

termination serialize_bytes
  by (relation "measure unat") (simp_all add: unat_drop_7)

declare serialize_bytes.simps [simp del]

text \<open>
  \<^verbatim>\<open>serialize\<close> announces the number of bytes before it writes them: the significant bits in
  groups of seven, and one byte for zero.
\<close>

definition leading_zeros :: "'a::len word \<Rightarrow> nat" where
  "leading_zeros x = length (takeWhile Not (map (bit x) (rev [0..<LENGTH('a)])))"

definition num_bytes :: "'a::len word \<Rightarrow> nat" where
  "num_bytes x = (let bits = LENGTH('a) - leading_zeros x in max ((bits + 6) div 7) 1)"

definition serialize :: "'a::len word \<Rightarrow> nat \<times> 8 word list" where
  "serialize x = (num_bytes x, serialize_bytes x)"

section \<open>The announced length\<close>

lemma takeWhile_length_iff: "k \<le> length xs \<Longrightarrow> k \<le> length (takeWhile P xs) \<longleftrightarrow> (\<forall>i<k. P (xs ! i))"
proof (induction xs arbitrary: k)
  case (Cons x xs)
  then show ?case by (cases k) (auto simp: nth_Cons' less_Suc_eq_0_disj)
qed simp

lemma leading_zeros_le: "leading_zeros (x :: 'a::len word) \<le> LENGTH('a)"
  unfolding leading_zeros_def using length_takeWhile_le [of Not "map (bit x) (rev [0..<LENGTH('a)])"] by simp

lemma significant_bits_le:
  fixes x :: "'a::len word"
  shows "LENGTH('a) - leading_zeros x \<le> b \<longleftrightarrow> unat x < 2 ^ b"
proof (cases "b \<le> LENGTH('a)")
  case True
  let ?n = "LENGTH('a)"
  have "?n - leading_zeros x \<le> b \<longleftrightarrow> ?n - b \<le> leading_zeros x" using leading_zeros_le [of x] True by linarith
  also have "\<dots> \<longleftrightarrow> (\<forall>i<?n - b. \<not> bit x (?n - Suc i))"
    unfolding leading_zeros_def by (subst takeWhile_length_iff) (simp_all add: rev_nth)
  also have "\<dots> \<longleftrightarrow> (\<forall>j. b \<le> j \<longrightarrow> \<not> bit x j)"
  proof (intro iffI allI impI)
    fix j assume all: "\<forall>i<?n - b. \<not> bit x (?n - Suc i)" and "b \<le> j"
    show "\<not> bit x j"
    proof (cases "j < ?n")
      case True
      then have "?n - Suc j < ?n - b" "?n - Suc (?n - Suc j) = j" using \<open>b \<le> j\<close> by simp_all
      then show ?thesis using all by metis
    qed (use bit_imp_le_length in blast)
  qed auto
  also have "\<dots> \<longleftrightarrow> take_bit b (unat x) = unat x"
    unfolding bit_eq_iff [of "take_bit b (unat x)"] by (simp add: bit_take_bit_iff bit_unsigned_iff) (meson not_less)
  also have "\<dots> \<longleftrightarrow> unat x < 2 ^ b" by (simp add: take_bit_nat_eq_self_iff)
  finally show ?thesis .
next
  case False
  have "unat x < 2 ^ LENGTH('a)" by (rule unsigned_less)
  also have "(2::nat) ^ LENGTH('a) \<le> 2 ^ b" using False by (intro power_increasing) simp_all
  finally show ?thesis using False by simp
qed

lemma serialize_length:
  fixes x :: "'a::len word"
  shows "length (serialize_bytes x) = num_bytes x"
proof (induction x rule: serialize_bytes.induct)
  case (1 x)
  let ?bits = "\<lambda>y :: 'a word. LENGTH('a) - leading_zeros y"
  show ?case
  proof (cases "0x80 \<le> unat x")
    case True
    have "?bits (drop_bit 7 x) \<le> b \<longleftrightarrow> ?bits x \<le> b + 7" for b
      unfolding significant_bits_le unat_drop_7 by (simp add: div_less_iff_less_mult power_add)
    then have "?bits (drop_bit 7 x) = ?bits x - 7" by (metis le_diff_conv nle_le order_antisym)
    moreover have "\<not> ?bits x \<le> 7" unfolding significant_bits_le using True by simp
    ultimately have "Suc (num_bytes (drop_bit 7 x)) = num_bytes x" unfolding num_bytes_def Let_def by simp
    then show ?thesis using 1 [OF True] True by (subst serialize_bytes.simps) simp
  next
    case False
    then have "?bits x \<le> 7" unfolding significant_bits_le by simp
    then show ?thesis using False by (subst serialize_bytes.simps) (simp add: num_bytes_def Let_def)
  qed
qed

section \<open>Round trip\<close>

lemma bit_lt: "unat (x :: 'a::len word) < 2 ^ b \<longleftrightarrow> (\<forall>j. b \<le> j \<longrightarrow> \<not> bit x j)"
proof -
  have "unat x < 2 ^ b \<longleftrightarrow> take_bit b (unat x) = unat x" by (simp add: take_bit_nat_eq_self_iff)
  also have "\<dots> \<longleftrightarrow> (\<forall>j. b \<le> j \<longrightarrow> \<not> bit x j)"
    unfolding bit_eq_iff [of "take_bit b (unat x)"] by (simp add: bit_take_bit_iff bit_unsigned_iff) (meson not_less)
  finally show ?thesis .
qed

lemma small_iff: "unat (x :: 'a::len word) < 0x80 \<longleftrightarrow> (\<forall>j. 7 \<le> j \<longrightarrow> \<not> bit x j)"
  using bit_lt [of x 7] by simp

lemma bit_127 [simp]: "bit (127 :: int) j \<longleftrightarrow> j < 7"
proof -
  have "(127 :: int) = mask 7" by (simp add: mask_eq_exp_minus_1)
  then show ?thesis by (simp only: bit_mask_iff) simp
qed

lemma bit_128 [simp]: "bit (128 :: int) j \<longleftrightarrow> j = 7"
proof -
  have "(128 :: int) = 2 ^ 7" by simp
  then show ?thesis by (simp only: bit_exp_iff) auto
qed

lemma high_bit: "(byte :: 8 word) AND 0x80 = 0 \<longleftrightarrow> \<not> bit byte 7"
proof
  assume "byte AND 0x80 = 0"
  then have "\<not> bit (byte AND 0x80) 7" by simp
  then show "\<not> bit byte 7" by (simp add: bit_and_iff)
qed (auto intro!: bit_word_eqI simp: bit_and_iff)

lemmas bits = bit_or_iff bit_and_iff bit_push_bit_iff bit_drop_bit_eq bit_unsigned_iff possible_bit_word

lemma low_bits: "(ucast ((byte :: 8 word) AND 0x7F) :: 'a::len word) = w \<longleftrightarrow> (\<forall>j < LENGTH('a). bit w j \<longleftrightarrow> j < 7 \<and> bit byte j)"
  by (auto simp: bit_eq_iff [where 'a = "'a word"] bits)

text \<open>Reading what was written, from any position: the bits read so far are those below the shift.\<close>

lemma read_back:
  fixes x out :: "'a::len word"
  assumes "\<forall>j. shift \<le> j \<longrightarrow> \<not> bit out j" "\<forall>j. bit x j \<longrightarrow> shift + j < LENGTH('a)" "shift < LENGTH('a)"
    and "x \<noteq> 0 \<or> shift = 0"
  shows "visit_seq_loop (serialize_bytes x @ rest) shift out = Inr (out OR push_bit shift x, rest)"
  using assms
proof (induction x arbitrary: shift out rule: serialize_bytes.induct)
  case (1 x)
  note below = 1(2) and fits = 1(3) and shift = 1(4)
  show ?case
  proof (cases "0x80 \<le> unat x")
    case True
    then obtain j where j: "7 \<le> j" "bit x j" using small_iff [of x] by (auto simp: not_less)
    then have len: "shift + 7 < LENGTH('a)" using fits by (meson le_less_trans nat_add_left_cancel_le)
    let ?byte = "ucast ((x AND 0x7F) OR 0x80) :: 8 word"
    let ?out = "out OR push_bit shift (ucast (?byte AND 0x7F))"
    have low: "ucast (?byte AND 0x7F) = take_bit 7 x"
      unfolding low_bits using len by (auto simp: bits bit_take_bit_iff)
    have high: "\<not> ?byte AND 0x80 = 0" unfolding high_bit using len by (simp add: bits)
    have "bit (drop_bit 7 x) (j - 7)" using j by (simp add: bit_drop_bit_eq)
    then have "drop_bit 7 x \<noteq> 0" by auto
    moreover have "\<forall>j. shift + 7 \<le> j \<longrightarrow> \<not> bit ?out j"
      unfolding low using below by (auto simp: bits bit_take_bit_iff)
    moreover have "\<forall>j. bit (drop_bit 7 x) j \<longrightarrow> shift + 7 + j < LENGTH('a)"
      using fits by (auto simp: bits add.assoc)
    ultimately have "visit_seq_loop (serialize_bytes (drop_bit 7 x) @ rest) (shift + 7) ?out =
        Inr (?out OR push_bit (shift + 7) (drop_bit 7 x), rest)"
      using 1(1) [OF True, of "shift + 7" ?out] len by blast
    moreover have "?out OR push_bit (shift + 7) (drop_bit 7 x) = out OR push_bit shift x"
    proof (rule bit_word_eqI)
      fix n
      have "7 + (n - (shift + 7)) = n - shift" if "\<not> n - shift < 7" using that by simp
      then show "bit (?out OR push_bit (shift + 7) (drop_bit 7 x)) n = bit (out OR push_bit shift x) n"
        unfolding low by (cases "n - shift < 7") (auto simp: bits bit_take_bit_iff)
    qed
    ultimately show ?thesis using True high shift by (subst serialize_bytes.simps) (simp add: Let_def)
  next
    case False
    then have small: "j < 7" if "bit x j" for j using that small_iff [of x] by (meson not_less)
    let ?out = "out OR push_bit shift x"
    have low: "(ucast (ucast x AND 0x7F :: 8 word) :: 'a word) = x"
      unfolding low_bits using small by (fastforce simp: bits)
    have high: "(ucast x :: 8 word) AND 0x80 = 0" unfolding high_bit using small [of 7] by (auto simp: bits)
    have same: "drop_bit shift ?out = x"
      using below fits by (intro bit_word_eqI) (auto simp: bits)
    have "x = 0 \<and> shift = 0 \<and> out = 0" if "(ucast x :: 8 word) = 0"
    proof -
      have "x = 0" using low unfolding that by simp
      then show ?thesis using 1(5) below by (auto intro: bit_word_eqI)
    qed
    then show ?thesis using False shift low high same by (subst serialize_bytes.simps) (auto simp: Let_def)
  qed
qed

text \<open>Seven bits before a number: the number that is written with one byte more.\<close>

lemma prepend_bits:
  fixes x :: "'a::len word"
  assumes "x \<noteq> 0" "\<And>j. bit x j \<Longrightarrow> 7 + j < LENGTH('a)"
  shows "bit (push_bit 7 x OR ucast ((byte :: 8 word) AND 0x7F)) i \<longleftrightarrow> (if i < 7 then bit byte i else bit x (i - 7))"
proof -
  obtain k where "bit x k" using assms(1) bit_word_eqI [of x 0] by auto
  then have "7 < LENGTH('a)" using assms(2) [of k] by simp
  then show ?thesis using assms(2) [of "i - 7"] by (auto simp: bits)
qed

lemma serialize_prepend:
  fixes x :: "'a::len word"
  assumes "x \<noteq> 0" "\<And>j. bit x j \<Longrightarrow> 7 + j < LENGTH('a)" "bit byte 7"
  shows "serialize_bytes (push_bit 7 x OR ucast (byte AND 0x7F)) = byte # serialize_bytes x"
proof -
  let ?y = "push_bit 7 x OR ucast (byte AND 0x7F)"
  have y: "bit ?y i \<longleftrightarrow> (if i < 7 then bit byte i else bit x (i - 7))" for i by (rule prepend_bits [OF assms(1,2)])
  obtain k where k: "bit x k" using assms(1) bit_word_eqI [of x 0] by auto
  then have len: "7 < LENGTH('a)" using assms(2) [of k] by simp
  have "bit ?y (7 + k)" unfolding y using k by simp
  then have big: "0x80 \<le> unat ?y" using small_iff [of ?y] by (meson le_add1 not_less)
  have rest: "drop_bit 7 ?y = x" by (rule bit_word_eqI) (simp only: bit_drop_bit_eq comp_apply y, simp)
  have "ucast ((?y AND 0x7F) OR 0x80) = byte"
  proof (rule bit_word_eqI)
    fix n assume "n < LENGTH(8)"
    then have "n < 7 \<or> n = 7" by auto
    then show "bit (ucast ((?y AND 0x7F) OR 0x80) :: 8 word) n = bit byte n"
      using assms(3) len by (auto simp: bit_unsigned_iff bit_or_iff [of _ "0x80"] bit_and_iff [of ?y] y)
  qed
  then show ?thesis using big rest by (subst serialize_bytes.simps) simp
qed

text \<open>Only what was written can be read: a sequence that is accepted is the one that is written for its value.\<close>

lemma read_only:
  fixes out v :: "'a::len word"
  assumes "visit_seq_loop bytes shift out = Inr (v, rest)" "\<forall>j. shift \<le> j \<longrightarrow> \<not> bit out j"
  shows "\<exists>x. bytes = serialize_bytes x @ rest \<and> v = out OR push_bit shift x \<and>
    (\<forall>j. bit x j \<longrightarrow> shift + j < LENGTH('a)) \<and> (x \<noteq> 0 \<or> shift = 0)"
  using assms
proof (induction bytes arbitrary: shift out)
  case (Cons byte bytes)
  let ?low = "ucast (byte AND 0x7F) :: 'a word"
  let ?out = "out OR push_bit shift ?low"
  have shift: "shift < LENGTH('a)" using Cons.prems(1) by (auto split: if_splits)
  have out: "bit ?out i \<longleftrightarrow> bit out i \<or> shift \<le> i \<and> i < LENGTH('a) \<and> i - shift < 7 \<and> bit byte (i - shift)" for i
    by (auto simp: bits)
  show ?case
  proof (cases "byte AND 0x80 = 0")
    case True
    let ?x = "drop_bit shift ?out"
    have r: "ucast ?x = byte" "v = ?out" "bytes = rest" "byte = 0 \<longrightarrow> shift = 0"
      using Cons.prems(1) shift True by (auto simp: Let_def split: if_splits)
    have x: "bit ?x j \<longleftrightarrow> shift + j < LENGTH('a) \<and> j < 7 \<and> bit byte j" for j
      using Cons.prems(2) unfolding bit_drop_bit_eq comp_apply out by simp
    have "serialize_bytes ?x = [byte]"
      using small_iff [of ?x] x r(1) by (subst serialize_bytes.simps) (simp add: not_less [symmetric])
    then have "byte # bytes = serialize_bytes ?x @ rest" using r(3) by simp
    moreover have "v = out OR push_bit shift ?x"
      unfolding r(2) by (rule bit_word_eqI) (auto simp: bits Cons.prems(2))
    moreover have "?x \<noteq> 0 \<or> shift = 0" using r(1,4) by (metis unsigned_0)
    moreover have "\<forall>j. bit ?x j \<longrightarrow> shift + j < LENGTH('a)" using x by blast
    ultimately show ?thesis by blast
  next
    case False
    have "visit_seq_loop bytes (shift + 7) ?out = Inr (v, rest)"
      using Cons.prems(1) shift False by (simp add: Let_def)
    moreover have "\<forall>j. shift + 7 \<le> j \<longrightarrow> \<not> bit ?out j" unfolding out using Cons.prems(2) by auto
    ultimately obtain x' where x': "bytes = serialize_bytes x' @ rest" "v = ?out OR push_bit (shift + 7) x'"
      "\<forall>j. bit x' j \<longrightarrow> shift + 7 + j < LENGTH('a)" "x' \<noteq> 0"
      using Cons.IH by (metis add_is_0 zero_neq_numeral)
    have fits: "7 + j < LENGTH('a)" if "bit x' j" for j using x'(3) [rule_format, OF that] by simp
    let ?x = "push_bit 7 x' OR ?low"
    have x: "bit ?x i \<longleftrightarrow> (if i < 7 then bit byte i else bit x' (i - 7))" for i by (rule prepend_bits [OF x'(4) fits])
    obtain k where k: "bit x' k" using x'(4) bit_word_eqI [of x' 0] by auto
    have "byte # bytes = serialize_bytes ?x @ rest"
      using serialize_prepend [OF x'(4) fits, of byte] False x'(1) unfolding high_bit by simp
    moreover have "v = out OR push_bit shift ?x"
    proof (rule bit_word_eqI)
      fix n assume n: "n < LENGTH('a)"
      have "7 + (n - (shift + 7)) = n - shift" if "\<not> n - shift < 7" using that by simp
      then show "bit v n = bit (out OR push_bit shift ?x) n"
        unfolding x'(2) bit_or_iff [of _ "push_bit (shift + 7) x'"] out bit_or_iff [of out] bit_push_bit_iff x
        using n by (cases "n - shift < 7") (auto simp: bits)
    qed
    moreover have "\<forall>j. bit ?x j \<longrightarrow> shift + j < LENGTH('a)"
    proof (intro allI impI)
      fix j assume "bit ?x j"
      then show "shift + j < LENGTH('a)" using x'(3) [rule_format, OF k] x'(3) [rule_format, of "j - 7"]
        unfolding x by (cases "j < 7") auto
    qed
    moreover have "bit ?x (7 + k)" unfolding x using k by simp
    then have "?x \<noteq> 0" by auto
    ultimately show ?thesis by blast
  qed
qed (simp split: if_splits)

section \<open>Properties\<close>

text \<open>
  C14. The variable-length encoding is a bijection onto the sequences that are accepted. Writing a
  number announces exactly the number of bytes that follow and never more than the
  width in groups of seven bits; reading them gives the number back and leaves what follows;
  and a sequence is accepted only if it is the one that is written for the number it gives,
  so there is no second encoding of any number.
\<close>

theorem varint_is_canonical:
  fixes x :: "'a::len word"
  shows "serialize x = (length (snd (serialize x)), snd (serialize x)) \<and>
    length (snd (serialize x)) \<le> (LENGTH('a) + 6) div 7 \<and>
    visit_seq (snd (serialize x) @ rest) = Inr (x, rest) \<and>
    (visit_seq bytes = Inr (x, rest) \<longleftrightarrow> bytes = snd (serialize x) @ rest)"
proof -
  have again: "visit_seq (serialize_bytes y @ rest) = Inr (y, rest)" for y :: "'a word" and rest
    using read_back [of 0 0 y rest] bit_imp_le_length [of y] unfolding visit_seq_def by simp
  have "bytes = serialize_bytes x @ rest" if "visit_seq bytes = Inr (x, rest)"
    using read_only [OF that [unfolded visit_seq_def]] by simp
  moreover have "LENGTH('a) - leading_zeros x \<le> LENGTH('a)" by simp
  then have "num_bytes x \<le> (LENGTH('a) + 6) div 7" by (simp add: num_bytes_def Let_def div_le_mono Suc_le_eq div_greater_zero_iff)
  ultimately show ?thesis using again serialize_length [of x] by (auto simp: serialize_def)
qed

end
