(* ===== verification/Iteration.thy ===== *)
theory Iteration
  imports Prelude
begin

text \<open>
  Loops of the off-chain programs. The bots talk to a remote node, so how often a loop runs
  depends on answers that the program does not control and some loops may run forever. Such a
  loop is \<open>iterate\<close> over one turn of its body, whose value \<open>Inl\<close> is the state of the next
  turn and \<open>Inr\<close> what the loop returns; \<open>None\<close> is a loop that never returns. The locale of
  the last section gives the three rules by which all of them are proved.
\<close>

partial_function (option) iterate :: "('s \<Rightarrow> 's + 'r) \<Rightarrow> 's \<Rightarrow> 'r option" where
  "iterate f s = (case f s of Inl t \<Rightarrow> iterate f t | Inr r \<Rightarrow> Some r)"

lemma iterate_Inl: "f s = Inl t \<Longrightarrow> iterate f s = iterate f t"
  by (subst iterate.simps) simp

lemma iterate_Inr: "f s = Inr r \<Longrightarrow> iterate f s = Some r"
  by (subst iterate.simps) simp

lemma iterate_returned:
  assumes ret: "iterate f s = Some r" and "I s"
    and step: "\<And>s t. I s \<Longrightarrow> f s = Inl t \<Longrightarrow> I t"
    and final: "\<And>s r. I s \<Longrightarrow> f s = Inr r \<Longrightarrow> Q r"
  shows "Q r"
proof -
  have "f = f \<longrightarrow> I s \<longrightarrow> Q r"
  proof (rule iterate.raw_induct [where P = "\<lambda>g s r. g = f \<longrightarrow> I s \<longrightarrow> Q r", OF _ ret])
    fix it g s r
    assume IH: "\<And>g s r. it g s = Some r \<Longrightarrow> g = f \<longrightarrow> I s \<longrightarrow> Q r"
      and eq: "(case g s of Inl t \<Rightarrow> it g t | Inr r \<Rightarrow> Some r) = Some r"
    then show "g = f \<longrightarrow> I s \<longrightarrow> Q r" using step final by (cases "g s") auto
  qed
  then show ?thesis using \<open>I s\<close> by simp
qed

text \<open>
  A loop with an invariant. \<open>loop_returns\<close> asks for a measure that every further turn makes
  smaller; \<open>loop_diverges\<close> for an invariant under which the loop always goes on.
\<close>

locale loop =
  fixes body :: "'s \<Rightarrow> 's + 'r"
    and inv :: "'s \<Rightarrow> bool"
  assumes body_inv: "inv s \<Longrightarrow> body s = Inl t \<Longrightarrow> inv t"
begin

lemma loop_result:
  "iterate body s = Some r \<Longrightarrow> inv s \<Longrightarrow> (\<And>s r. inv s \<Longrightarrow> body s = Inr r \<Longrightarrow> Q r) \<Longrightarrow> Q r"
  by (rule iterate_returned [where I = inv]) (auto intro: body_inv)

lemma loop_returns:
  fixes m :: "'s \<Rightarrow> nat"
  assumes "inv s" and smaller: "\<And>s t. inv s \<Longrightarrow> body s = Inl t \<Longrightarrow> m t < m s"
  shows "\<exists>r. iterate body s = Some r"
  using \<open>inv s\<close>
proof (induction "m s" arbitrary: s rule: less_induct)
  case less
  show ?case
  proof (cases "body s")
    case (Inl t)
    then show ?thesis using less body_inv smaller iterate_Inl by metis
  next
    case (Inr r)
    then show ?thesis using iterate_Inr by metis
  qed
qed

lemma loop_diverges:
  assumes "inv s" and "\<And>s. inv s \<Longrightarrow> \<exists>t. body s = Inl t"
  shows "iterate body s = None"
proof (rule ccontr)
  assume "iterate body s \<noteq> None"
  then obtain r where "iterate body s = Some r" by auto
  then have False
    by (rule loop_result [where Q = "\<lambda>_. False"]) (use assms in \<open>force+\<close>)
  then show False .
qed

end

section \<open>Chunks of a list\<close>

text \<open>\<^verbatim>\<open>slice::chunks\<close>, which panics when the size is zero.\<close>

fun chunks_of :: "nat \<Rightarrow> 'a list \<Rightarrow> 'a list list" where
  "chunks_of n xs = (if n = 0 \<or> xs = [] then [] else take n xs # chunks_of n (drop n xs))"

declare chunks_of.simps [simp del]

definition chunks :: "nat \<Rightarrow> 'a list \<Rightarrow> 'a list list result" where
  "chunks n xs = (if n = 0 then Err Panic else Ok (chunks_of n xs))"

lemma chunks_of_Nil [simp]: "chunks_of n [] = []"
  by (simp add: chunks_of.simps)

lemma chunks_of_Cons: "0 < n \<Longrightarrow> xs \<noteq> [] \<Longrightarrow> chunks_of n xs = take n xs # chunks_of n (drop n xs)"
  by (subst chunks_of.simps) simp

lemma concat_chunks_of [simp]: "0 < n \<Longrightarrow> concat (chunks_of n xs) = xs"
proof (induction n xs rule: chunks_of.induct)
  case (1 n xs)
  then show ?case by (cases "xs = []") (simp_all add: chunks_of_Cons [of n xs])
qed

lemma chunks_of_sizes: "0 < n \<Longrightarrow> c \<in> set (chunks_of n xs) \<Longrightarrow> c \<noteq> [] \<and> length c \<le> n"
proof (induction n xs rule: chunks_of.induct)
  case (1 n xs)
  then show ?case by (cases "xs = []") (auto simp: chunks_of_Cons [of n xs])
qed

lemma chunks_1 [simp]: "chunks_of (Suc 0) xs = map (\<lambda>x. [x]) xs"
proof (induction xs)
  case (Cons x xs)
  then show ?case by (simp add: chunks_of_Cons [of "Suc 0" "x # xs"])
qed simp

end
