(* ===== verification/Client_Submission.thy ===== *)
theory Client_Submission
  imports Iteration "HOL-Library.AList"
begin

text \<open>
  The transaction engine of the client library, sdk/src/utils/transactions.rs: retries around
  the calls of a remote node, the packing of instructions into transactions, and
  \<^verbatim>\<open>parallel_execute_transactions\<close>, which signs, sends, confirms and signs again until
  every transaction is confirmed or the retries are used up.

  The node is a record of functions from the state of the world to an answer and the next
  state. The world is a type variable; nothing is assumed of it unless a theorem says so. A
  Rust \<^verbatim>\<open>Result\<close> is a sum of its own here; the outer \<open>result\<close> is a panic of the bot.
\<close>

section \<open>Instructions, transactions and errors\<close>

type_synonym Hash = "8 word list"
type_synonym Signature = "8 word list"

text \<open>The compute budget instructions that the library adds, and every other instruction.\<close>

datatype 'ix Instruction =
    SetComputeUnitLimit nat
  | SetComputeUnitPrice nat
  | RequestHeapFrame nat
  | Ix 'ix

record 'ix Transaction =
  tx_instructions :: "'ix Instruction list"
  tx_blockhash :: Hash
  tx_signature :: Signature

datatype TransactionError = BlockhashNotFound | AlreadyProcessed | OtherTransactionError string

record RpcSimulateTransactionResult =
  sim_err :: "TransactionError option"
  sim_logs :: "string list option"
  sim_units_consumed :: "nat option"

text \<open>
  \<^verbatim>\<open>ClientErrorKind\<close> with the two enumerations nested in it; the payloads are the texts that
  the library prints. The transaction error that \<^verbatim>\<open>get_transaction_error\<close> finds in an error
  and the text of the error are fields.
\<close>

datatype ClientErrorKind =
    Io string
  | Reqwest string
  | RpcRequestError string
  | RpcResponseEmpty
  | SendTransactionPreflightFailure RpcSimulateTransactionResult
  | NodeUnhealthy string
  | RpcParseError string
  | ForUser string
  | SerdeJson string
  | SigningError string
  | TransactionErrorKind string
  | CustomKind string
  | Middleware string

record ClientError =
  ce_kind :: ClientErrorKind
  ce_transaction_error :: "TransactionError option"
  ce_text :: string

text \<open>sdk/src/models/errors.rs.\<close>

datatype JitoSendTransactionError =
    ExceededRetries
  | SendTransactionError string
  | RpcSimulateResult RpcSimulateTransactionResult

type_synonym tx_results = "(JitoSendTransactionError + unit) list"

datatype JitoTransactionExecutionError =
    ExecutionClientError string
  | TransactionClientError string tx_results

text \<open>sdk/src/models/submit_stats.rs.\<close>

record SubmitStats =
  successes :: nat
  errors :: nat
  results :: tx_results

definition SubmitStats_default :: SubmitStats where
  "SubmitStats_default = \<lparr>successes = 0, errors = 0, results = []\<rparr>"

definition combine :: "SubmitStats \<Rightarrow> SubmitStats \<Rightarrow> SubmitStats" where
  "combine s other =
     \<lparr>successes = successes s + successes other, errors = errors s + errors other,
      results = results s @ results other\<rparr>"

section \<open>The remote node\<close>

record TransactionStatus =
  satisfies_confirmed :: bool
  status_err :: "TransactionError option"

text \<open>
  The node, the signer and the order in which a hash set is traversed. \<open>packet_size\<close> is the
  serialised size of a transaction, \<open>None\<close> when it does not fit a packet.
\<close>

record ('w, 'ix) RpcClient =
  rpc_latest_blockhash :: "'w \<Rightarrow> (ClientError + Hash) \<times> 'w"
  rpc_send_transaction :: "'ix Transaction \<Rightarrow> 'w \<Rightarrow> (ClientError + Signature) \<times> 'w"
  rpc_signature_statuses :: "Signature list \<Rightarrow> 'w \<Rightarrow> (ClientError + TransactionStatus option list) \<times> 'w"
  rpc_blockhash_valid :: "Hash \<Rightarrow> 'w \<Rightarrow> (ClientError + bool) \<times> 'w"
  rpc_simulate :: "'ix Transaction \<Rightarrow> 'w \<Rightarrow> (ClientError + RpcSimulateTransactionResult) \<times> 'w"
  rpc_sleep :: "nat \<Rightarrow> 'w \<Rightarrow> 'w"
  sign :: "'ix Instruction list \<Rightarrow> Hash \<Rightarrow> Signature"
  hash_order :: "Signature list \<Rightarrow> Signature list"
  packet_size :: "'ix Transaction \<Rightarrow> nat option"
  accounts_len :: "'ix Instruction \<Rightarrow> nat"
  data_len :: "'ix Instruction \<Rightarrow> nat"

definition new_signed_with_payer ::
  "('w, 'ix, 'z) RpcClient_scheme \<Rightarrow> 'ix Instruction list \<Rightarrow> Hash \<Rightarrow> 'ix Transaction" where
  "new_signed_with_payer c ixs blockhash =
     \<lparr>tx_instructions = ixs, tx_blockhash = blockhash, tx_signature = sign c ixs blockhash\<rparr>"

definition sign_txs ::
  "('w, 'ix, 'z) RpcClient_scheme \<Rightarrow> 'ix Instruction list list \<Rightarrow> Hash \<Rightarrow> 'ix Transaction list" where
  "sign_txs c transactions blockhash = map (\<lambda>ixs. new_signed_with_payer c ixs blockhash) transactions"

section \<open>Retries\<close>

text \<open>A call that is made again at most \<open>n\<close> times after it has failed.\<close>

primrec retry :: "('w \<Rightarrow> ('e + 'a) \<times> 'w) \<Rightarrow> nat \<Rightarrow> 'w \<Rightarrow> ('e + 'a) \<times> 'w" where
  "retry f 0 w = f w"
| "retry f (Suc n) w = (case f w of (Inr x, w) \<Rightarrow> (Inr x, w) | (Inl e, w) \<Rightarrow> retry f n w)"

definition get_latest_blockhash_with_retry ::
  "('w, 'ix, 'z) RpcClient_scheme \<Rightarrow> 'w \<Rightarrow> (ClientError + Hash) \<times> 'w" where
  "get_latest_blockhash_with_retry c = retry (rpc_latest_blockhash c) 3"

text \<open>The same with a pause of a second after each failure but the last.\<close>

primrec retry_with_pause ::
  "('w, 'ix, 'z) RpcClient_scheme \<Rightarrow> ('w \<Rightarrow> ('e + 'a) \<times> 'w) \<Rightarrow> nat \<Rightarrow> 'w \<Rightarrow> ('e + 'a) \<times> 'w" where
  "retry_with_pause c f 0 w = f w"
| "retry_with_pause c f (Suc n) w =
     (case f w of (Inr x, w) \<Rightarrow> (Inr x, w) | (Inl e, w) \<Rightarrow> retry_with_pause c f n (rpc_sleep c 1 w))"

definition get_signature_statuses_with_retry ::
  "('w, 'ix, 'z) RpcClient_scheme \<Rightarrow> Signature list \<Rightarrow> 'w \<Rightarrow> (ClientError + TransactionStatus option list) \<times> 'w" where
  "get_signature_statuses_with_retry c sigs = retry_with_pause c (rpc_signature_statuses c sigs) 3"

section \<open>Confirming\<close>

definition SIG_STATUS_BATCH_SIZE :: nat where "SIG_STATUS_BATCH_SIZE = 256"

text \<open>
  One batch: the statuses of its signatures, paired by position; a status beyond the batch
  makes the index \<^verbatim>\<open>sig_batch[i]\<close> panic. A failed request gives no statuses.
\<close>

definition confirm_batch ::
  "('w, 'ix, 'z) RpcClient_scheme \<Rightarrow> Signature list \<Rightarrow> 'w \<Rightarrow> ((Signature \<times> TransactionStatus option) list \<times> 'w) result" where
  "confirm_batch c sig_batch w =
     (case get_signature_statuses_with_retry c sig_batch w of
        (Inr statuses, w) \<Rightarrow>
          if length statuses \<le> length sig_batch then Ok (zip sig_batch statuses, w) else Err Panic
      | (Inl e, w) \<Rightarrow> Ok ([], w))"

definition is_confirmed :: "TransactionStatus option \<Rightarrow> bool" where
  "is_confirmed st =
     (case st of None \<Rightarrow> False | Some status \<Rightarrow> satisfies_confirmed status \<and> status_err status = None)"

definition parallel_confirm_transactions ::
  "('w, 'ix, 'z) RpcClient_scheme \<Rightarrow> Signature list \<Rightarrow> 'w \<Rightarrow> (Signature list \<times> 'w) result" where
  "parallel_confirm_transactions c submitted_signatures w =
     for_each (\<lambda>batch (confirmed, w).
         and_then (confirm_batch c batch w) (\<lambda>(sts, w).
           Ok (confirmed @ map fst (filter (is_confirmed \<circ> snd) sts), w)))
       (chunks_of SIG_STATUS_BATCH_SIZE (hash_order c submitted_signatures)) ([], w)"

section \<open>Sending\<close>

text \<open>What is recorded for a transaction whose sending failed, by the kind of the error.\<close>

fun send_error :: "ClientErrorKind \<Rightarrow> JitoSendTransactionError" where
  "send_error (Io e) = SendTransactionError (''TX - Io Error: '' @ e)"
| "send_error (Reqwest e) = SendTransactionError (''TX - Reqwest Error: '' @ e)"
| "send_error (RpcRequestError e) = SendTransactionError (''TX - RPC Error (Request): '' @ e)"
| "send_error RpcResponseEmpty = SendTransactionError ''TX - RPC Error (Request - Empty)''"
| "send_error (SendTransactionPreflightFailure e) = RpcSimulateResult e"
| "send_error (NodeUnhealthy n) =
     SendTransactionError (''TX - RPC Error (Request - Unhealthy):  slots behind: '' @ n)"
| "send_error (RpcParseError e) = SendTransactionError (''TX - RPC Error (Parse): '' @ e)"
| "send_error (ForUser e) = SendTransactionError (''TX - RPC Error (For User): '' @ e)"
| "send_error (SerdeJson e) = SendTransactionError (''TX - Serde Json Error: '' @ e)"
| "send_error (SigningError e) = SendTransactionError (''TX - Signing Error: '' @ e)"
| "send_error (TransactionErrorKind e) = SendTransactionError (''TX - Transaction Error: '' @ e)"
| "send_error (CustomKind e) = SendTransactionError (''TX - Custom Error: '' @ e)"
| "send_error (Middleware e) = SendTransactionError (''TX - Middleware Error: '' @ e)"

fun is_preflight_failure :: "JitoSendTransactionError + unit \<Rightarrow> bool" where
  "is_preflight_failure (Inl (RpcSimulateResult e)) = True"
| "is_preflight_failure r = False"

definition is_ok :: "'e + 'a \<Rightarrow> bool" where
  "is_ok r = (case r of Inl e \<Rightarrow> False | Inr x \<Rightarrow> True)"

text \<open>What a pass over the transactions has gathered.\<close>

record 'w sending =
  sd_results :: tx_results
  submitted_signatures :: "(Signature \<times> nat) list"
  is_blockhash_not_found :: bool
  sd_world :: 'w

definition send_one ::
  "('w, 'ix, 'z) RpcClient_scheme \<Rightarrow> nat \<times> 'ix Transaction \<Rightarrow> 'w sending \<Rightarrow> 'w sending" where
  "send_one c = (\<lambda>(idx, tx) s.
     if is_ok (sd_results s ! idx) \<or> is_preflight_failure (sd_results s ! idx) then s
     else
       (let w = if idx mod 20 = 0 then rpc_sleep c 1 (sd_world s) else sd_world s in
        case rpc_send_transaction c tx w of
          (Inr signature, w) \<Rightarrow>
            s\<lparr>submitted_signatures := AList.update signature idx (submitted_signatures s), sd_world := w\<rparr>
        | (Inl e, w) \<Rightarrow>
            (case ce_transaction_error e of
               Some BlockhashNotFound \<Rightarrow> s\<lparr>is_blockhash_not_found := True, sd_world := w\<rparr>
             | Some AlreadyProcessed \<Rightarrow>
                 s\<lparr>submitted_signatures := AList.update (tx_signature tx) idx (submitted_signatures s),
                   sd_world := w\<rparr>
             | Some (OtherTransactionError t) \<Rightarrow>
                 s\<lparr>sd_results := (sd_results s)[idx := Inl (send_error (ce_kind e))], sd_world := w\<rparr>
             | None \<Rightarrow>
                 s\<lparr>sd_results := (sd_results s)[idx :=
                      Inl (SendTransactionError (''None transaction error '' @ ce_text e))], sd_world := w\<rparr>)))"

definition send_all ::
  "('w, 'ix, 'z) RpcClient_scheme \<Rightarrow> 'ix Transaction list \<Rightarrow> tx_results \<Rightarrow> 'w \<Rightarrow> 'w sending" where
  "send_all c signed_txs rs w =
     fold (send_one c) (enumerate 0 signed_txs)
       \<lparr>sd_results = rs, submitted_signatures = [], is_blockhash_not_found = False, sd_world = w\<rparr>"

text \<open>\<^verbatim>\<open>results[submitted_signatures[&signature]] = Ok(())\<close> for every confirmed signature.\<close>

definition mark_confirmed :: "(Signature \<times> nat) list \<Rightarrow> Signature list \<Rightarrow> tx_results \<Rightarrow> tx_results result" where
  "mark_confirmed submitted =
     for_each (\<lambda>signature rs. and_then (ok_or (map_of submitted signature) Panic)
       (\<lambda>idx. arr_set rs idx (Inr ())))"

definition confirm_and_mark ::
  "('w, 'ix, 'z) RpcClient_scheme \<Rightarrow> 'w sending \<Rightarrow> 'w \<Rightarrow> (tx_results \<times> 'w) result" where
  "confirm_and_mark c sd w =
     and_then (parallel_confirm_transactions c (map fst (submitted_signatures sd)) w) (\<lambda>(confirmed, w).
     and_then (mark_confirmed (submitted_signatures sd) confirmed (sd_results sd)) (\<lambda>rs. Ok (rs, w)))"

section \<open>Executing\<close>

text \<open>The variables of the loop of \<^verbatim>\<open>parallel_execute_transactions\<close>.\<close>

record ('w, 'ix) execution =
  signed_txs :: "'ix Transaction list"
  retries :: nat
  ex_results :: tx_results
  ex_world :: 'w

type_synonym 'w executed = "((JitoTransactionExecutionError + tx_results) \<times> 'w) result"

text \<open>
  The end of a turn: unless the blockhash of the first signing is still valid, sign again with
  a fresh one, which costs a retry. The binding of the fresh blockhash in the source shadows
  the outer one and ends with the block, so the outer one is what every turn asks about.
\<close>

definition refresh_signatures ::
  "('w, 'ix, 'z) RpcClient_scheme \<Rightarrow> 'ix Instruction list list \<Rightarrow> Hash \<Rightarrow> bool \<Rightarrow> ('w, 'ix) execution
   \<Rightarrow> ('w, 'ix) execution + 'w executed" where
  "refresh_signatures c transactions blockhash not_found s =
     (case if not_found then (Inr False, ex_world s) else rpc_blockhash_valid c blockhash (ex_world s) of
        (Inl e, w) \<Rightarrow> Inr (Ok (Inl (TransactionClientError (ce_text e) (ex_results s)), w))
      | (Inr valid, w) \<Rightarrow>
          if valid then Inl (s\<lparr>ex_world := w\<rparr>)
          else (case get_latest_blockhash_with_retry c w of
              (Inl e, w) \<Rightarrow> Inr (Ok (Inl (TransactionClientError (ce_text e) (ex_results s)), w))
            | (Inr fresh, w) \<Rightarrow>
                Inl (s\<lparr>signed_txs := sign_txs c transactions fresh, retries := retries s + 1, ex_world := w\<rparr>)))"

definition execute_turn ::
  "('w, 'ix, 'z) RpcClient_scheme \<Rightarrow> 'ix Instruction list list \<Rightarrow> nat \<Rightarrow> nat \<Rightarrow> Hash
   \<Rightarrow> ('w, 'ix) execution \<Rightarrow> ('w, 'ix) execution + 'w executed" where
  "execute_turn c transactions retry_count confirmation_time blockhash s =
     (if \<not> retries s < retry_count then Inr (Ok (Inr (ex_results s), ex_world s))
      else
        (let sd = send_all c (signed_txs s) (ex_results s) (ex_world s) in
         if list_all is_preflight_failure (sd_results sd) then Inr (Ok (Inr (sd_results sd), sd_world sd))
         else
           (let w = rpc_sleep c confirmation_time (sd_world sd) in
            if submitted_signatures sd = [] then Inr (Ok (Inr (sd_results sd), w))
            else
              (case confirm_and_mark c sd w of
                 Inl e \<Rightarrow> Inr (Err e)
               | Inr (rs, w) \<Rightarrow>
                   if list_all is_ok rs then Inr (Ok (Inr rs, w))
                   else refresh_signatures c transactions blockhash (is_blockhash_not_found sd)
                          (s\<lparr>ex_results := rs, ex_world := w\<rparr>)))))"

definition parallel_execute_transactions ::
  "('w, 'ix, 'z) RpcClient_scheme \<Rightarrow> 'ix Instruction list list \<Rightarrow> nat \<Rightarrow> nat \<Rightarrow> 'w \<Rightarrow> 'w executed option" where
  "parallel_execute_transactions c transactions retry_count confirmation_time w =
     (let rs = replicate (length transactions) (Inl ExceededRetries) in
      if transactions = [] then Some (Ok (Inr rs, w))
      else (case get_latest_blockhash_with_retry c w of
          (Inl e, w) \<Rightarrow> Some (Ok (Inl (ExecutionClientError (ce_text e)), w))
        | (Inr blockhash, w) \<Rightarrow>
            iterate (execute_turn c transactions retry_count confirmation_time blockhash)
              \<lparr>signed_txs = sign_txs c transactions blockhash, retries = 0, ex_results = rs, ex_world = w\<rparr>))"

section \<open>Packing\<close>

definition DEFAULT_COMPUTE_LIMIT :: nat where "DEFAULT_COMPUTE_LIMIT = 200000"
definition PACKET_DATA_SIZE :: nat where "PACKET_DATA_SIZE = 1232"
definition ACCOUNT_META_SIZE :: nat where "ACCOUNT_META_SIZE = 34"

definition simulate_instruction ::
  "('w, 'ix, 'z) RpcClient_scheme \<Rightarrow> 'ix Instruction \<Rightarrow> nat \<Rightarrow> nat \<Rightarrow> 'w \<Rightarrow> (ClientError + RpcSimulateTransactionResult) \<times> 'w" where
  "simulate_instruction c instruction priority_fee max_cu_per_tx =
     rpc_simulate c (new_signed_with_payer c
       [SetComputeUnitLimit max_cu_per_tx, SetComputeUnitPrice priority_fee, instruction] (replicate 32 0))"

text \<open>A transaction error made into a client error, as \<^verbatim>\<open>From<TransactionError>\<close> does.\<close>

definition ClientError_from :: "TransactionError \<Rightarrow> ClientError" where
  "ClientError_from e =
     \<lparr>ce_kind = TransactionErrorKind [], ce_transaction_error = Some e, ce_text = []\<rparr>"

primrec simulate_attempts ::
  "('w, 'ix, 'z) RpcClient_scheme \<Rightarrow> ('w \<Rightarrow> (ClientError + RpcSimulateTransactionResult) \<times> 'w) \<Rightarrow> nat \<Rightarrow> 'w
   \<Rightarrow> (ClientError + RpcSimulateTransactionResult) \<times> 'w" where
  "simulate_attempts c simulate 0 w = simulate w"
| "simulate_attempts c simulate (Suc n) w =
     (case simulate w of
        (Inl e, w) \<Rightarrow> (Inl e, w)
      | (Inr response, w) \<Rightarrow>
          (case sim_err response of
             None \<Rightarrow> (Inr response, w)
           | Some e \<Rightarrow>
               if e = BlockhashNotFound then simulate_attempts c simulate n (rpc_sleep c 3 w)
               else (Inl (ClientError_from e), w)))"

definition simulate_instruction_with_retry ::
  "('w, 'ix, 'z) RpcClient_scheme \<Rightarrow> 'ix Instruction \<Rightarrow> nat \<Rightarrow> nat \<Rightarrow> 'w \<Rightarrow> (ClientError + RpcSimulateTransactionResult) \<times> 'w" where
  "simulate_instruction_with_retry c instruction priority_fee max_cu_per_tx =
     simulate_attempts c (simulate_instruction c instruction priority_fee max_cu_per_tx) 5"

text \<open>
  How many copies of an instruction fit a transaction. It panics when the transaction with
  one copy does not fit a packet, on a division by zero, and when a subtraction would be
  negative.
\<close>

definition ix_per_tx :: "('w, 'ix, 'z) RpcClient_scheme \<Rightarrow> 'ix Instruction \<Rightarrow> Hash \<Rightarrow> nat \<Rightarrow> nat \<Rightarrow> nat result" where
  "ix_per_tx c instruction blockhash max_cu_per_tx compute =
     and_then (ok_or (packet_size c (new_signed_with_payer c [instruction] blockhash)) Panic) (\<lambda>serialized_size.
     let size_per_ix = accounts_len c instruction * ACCOUNT_META_SIZE + data_len c instruction in
     and_then (minus_or_panic PACKET_DATA_SIZE serialized_size) (\<lambda>room.
     and_then (div_or_panic (room + size_per_ix) size_per_ix) (\<lambda>size_max.
     and_then (div_or_panic max_cu_per_tx compute) (\<lambda>compute_max.
     Ok (min size_max compute_max)))))"

definition find_ix_per_tx ::
  "('w, 'ix, 'z) RpcClient_scheme \<Rightarrow> 'ix Instruction \<Rightarrow> nat \<Rightarrow> nat \<Rightarrow> 'w \<Rightarrow> ((ClientError + nat) \<times> 'w) result" where
  "find_ix_per_tx c instruction priority_fee max_cu_per_tx w =
     (case get_latest_blockhash_with_retry c w of
        (Inl e, w) \<Rightarrow> Ok (Inl e, w)
      | (Inr blockhash, w) \<Rightarrow>
          (case simulate_instruction_with_retry c instruction priority_fee max_cu_per_tx w of
             (Inl e, w) \<Rightarrow> Ok (Inl e, w)
           | (Inr response, w) \<Rightarrow>
               (case sim_err response of
                  Some e \<Rightarrow> Ok (Inl (ClientError_from e), w)
                | None \<Rightarrow>
                    and_then (ix_per_tx c instruction blockhash max_cu_per_tx
                        (case sim_units_consumed response of None \<Rightarrow> DEFAULT_COMPUTE_LIMIT | Some n \<Rightarrow> n))
                      (\<lambda>n. Ok (Inr n, w)))))"

text \<open>The groups by size, a hash map from sizes to the instructions of that size in order.\<close>

definition push_group :: "'a \<times> nat \<Rightarrow> (nat \<times> 'a list) list \<Rightarrow> (nat \<times> 'a list) list" where
  "push_group = (\<lambda>(instruction, group_size) groups.
     AList.update group_size
       ((case map_of groups group_size of None \<Rightarrow> [] | Some g \<Rightarrow> g) @ [instruction]) groups)"

definition pack_groups :: "(nat \<times> 'a list) list \<Rightarrow> 'a list list result" where
  "pack_groups groups = for_each (\<lambda>(group_number, group) acc.
     and_then (chunks group_number group) (\<lambda>cs. Ok (acc @ cs))) groups []"

text \<open>
  \<^verbatim>\<open>pack_instructions\<close>. The order in which the map of the groups is traversed is an
  argument; an instruction whose simulation fails is left out.
\<close>

definition pack_instructions ::
  "('w, 'ix, 'z) RpcClient_scheme \<Rightarrow> ((nat \<times> 'ix Instruction list) list \<Rightarrow> (nat \<times> 'ix Instruction list) list)
   \<Rightarrow> 'ix Instruction list \<Rightarrow> nat \<Rightarrow> nat \<Rightarrow> 'w \<Rightarrow> ('ix Instruction list list \<times> 'w) result" where
  "pack_instructions c map_order instructions priority_fee max_cu_per_tx w =
     and_then (for_each (\<lambda>instruction (grouping, w).
         and_then (find_ix_per_tx c instruction priority_fee max_cu_per_tx w) (\<lambda>(r, w).
           Ok (case r of Inr n \<Rightarrow> grouping @ [(instruction, n)] | Inl e \<Rightarrow> grouping, w)))
       instructions ([], w)) (\<lambda>(grouping, w).
     and_then (pack_groups (map_order (fold push_group grouping []))) (\<lambda>txs. Ok (txs, w)))"

text \<open>The compute budget instructions put before a transaction that is executed.\<close>

definition add_budget :: "nat \<Rightarrow> nat \<Rightarrow> 'ix Instruction list \<Rightarrow> 'ix Instruction list" where
  "add_budget priority_fee max_cu_per_tx tx =
     (if max_cu_per_tx \<noteq> DEFAULT_COMPUTE_LIMIT then [SetComputeUnitLimit max_cu_per_tx] else []) @
     SetComputeUnitPrice priority_fee # tx"

definition compute_limit_or_default :: "nat option \<Rightarrow> nat" where
  "compute_limit_or_default m = (case m of None \<Rightarrow> DEFAULT_COMPUTE_LIMIT | Some n \<Rightarrow> n)"

definition parallel_execute_chunk_instructions ::
  "('w, 'ix, 'z) RpcClient_scheme \<Rightarrow> 'ix Instruction list \<Rightarrow> nat \<Rightarrow> nat \<Rightarrow> nat \<Rightarrow> nat option \<Rightarrow> nat \<Rightarrow> 'w \<Rightarrow> 'w executed option" where
  "parallel_execute_chunk_instructions c instructions retry_count confirmation_time priority_fee max_cu_per_tx chunk_size w =
     (if instructions = [] then Some (Ok (Inr [], w))
      else (case chunks chunk_size instructions of
          Inl e \<Rightarrow> Some (Err e)
        | Inr txs \<Rightarrow>
            parallel_execute_transactions c
              (map (\<lambda>ix. add_budget priority_fee (compute_limit_or_default max_cu_per_tx)
                 (SetComputeUnitLimit DEFAULT_COMPUTE_LIMIT # ix)) txs) retry_count confirmation_time w))"

definition parallel_execute_instructions ::
  "('w, 'ix, 'z) RpcClient_scheme \<Rightarrow> ((nat \<times> 'ix Instruction list) list \<Rightarrow> (nat \<times> 'ix Instruction list) list)
   \<Rightarrow> 'ix Instruction list \<Rightarrow> nat \<Rightarrow> nat \<Rightarrow> nat \<Rightarrow> nat option \<Rightarrow> bool \<Rightarrow> 'w \<Rightarrow> 'w executed option" where
  "parallel_execute_instructions c map_order instructions retry_count confirmation_time priority_fee max_cu_per_tx no_pack w =
     (let max_cu = compute_limit_or_default max_cu_per_tx in
      if instructions = [] then Some (Ok (Inr [], w))
      else (case if no_pack then Ok (map (\<lambda>ix. [SetComputeUnitLimit DEFAULT_COMPUTE_LIMIT, ix]) instructions, w)
                 else pack_instructions c map_order instructions priority_fee max_cu w of
          Inl e \<Rightarrow> Some (Err e)
        | Inr (txs, w) \<Rightarrow>
            parallel_execute_transactions c (map (add_budget priority_fee max_cu) txs)
              retry_count confirmation_time w))"

section \<open>Packaging and submitting\<close>

definition configure_instruction ::
  "'ix Instruction list \<Rightarrow> nat option \<Rightarrow> nat option \<Rightarrow> nat option \<Rightarrow> 'ix Instruction list" where
  "configure_instruction ixs priority_fee compute_limit heap_size =
     (case heap_size of None \<Rightarrow> [] | Some h \<Rightarrow> [RequestHeapFrame h]) @
     (case priority_fee of None \<Rightarrow> [] | Some p \<Rightarrow> [SetComputeUnitPrice p]) @
     (case compute_limit of None \<Rightarrow> [] | Some l \<Rightarrow> [SetComputeUnitLimit l]) @ ixs"

definition package_instructions ::
  "'ix Instruction list \<Rightarrow> nat \<Rightarrow> nat option \<Rightarrow> nat option \<Rightarrow> nat option \<Rightarrow> 'ix Instruction list list result" where
  "package_instructions ixs chunk_size priority_fee compute_limit heap_size =
     and_then (chunks chunk_size ixs) (\<lambda>cs.
       Ok (map (\<lambda>chunk. configure_instruction chunk priority_fee compute_limit heap_size) cs))"

text \<open>The statistics that every submitting function makes of the results.\<close>

definition stats_of :: "tx_results \<Rightarrow> SubmitStats" where
  "stats_of rs =
     \<lparr>successes = length (filter is_ok rs), errors = length rs - length (filter is_ok rs), results = rs\<rparr>"

definition submitted_stats ::
  "'w executed \<Rightarrow> ((JitoTransactionExecutionError + SubmitStats) \<times> 'w) result" where
  "submitted_stats r = and_then r (\<lambda>(out, w). Ok (map_sum id stats_of out, w))"

definition submit_transactions ::
  "('w, 'ix, 'z) RpcClient_scheme \<Rightarrow> 'ix Instruction list list \<Rightarrow> nat \<Rightarrow> nat \<Rightarrow> 'w
   \<Rightarrow> ((JitoTransactionExecutionError + SubmitStats) \<times> 'w) result option" where
  "submit_transactions c transactions retry_count confirmation_time w =
     map_option submitted_stats (parallel_execute_transactions c transactions retry_count confirmation_time w)"

definition submit_instructions ::
  "('w, 'ix, 'z) RpcClient_scheme \<Rightarrow> ((nat \<times> 'ix Instruction list) list \<Rightarrow> (nat \<times> 'ix Instruction list) list)
   \<Rightarrow> 'ix Instruction list \<Rightarrow> nat \<Rightarrow> nat \<Rightarrow> nat \<Rightarrow> nat option \<Rightarrow> bool \<Rightarrow> 'w
   \<Rightarrow> ((JitoTransactionExecutionError + SubmitStats) \<times> 'w) result option" where
  "submit_instructions c map_order instructions priority_fee retry_count confirmation_time max_cu_per_tx no_pack w =
     map_option submitted_stats
       (parallel_execute_instructions c map_order instructions retry_count confirmation_time priority_fee
          max_cu_per_tx no_pack w)"

definition submit_chunk_instructions ::
  "('w, 'ix, 'z) RpcClient_scheme \<Rightarrow> 'ix Instruction list \<Rightarrow> nat \<Rightarrow> nat \<Rightarrow> nat \<Rightarrow> nat option \<Rightarrow> nat \<Rightarrow> 'w
   \<Rightarrow> ((JitoTransactionExecutionError + SubmitStats) \<times> 'w) result option" where
  "submit_chunk_instructions c instructions priority_fee retry_count confirmation_time max_cu_per_tx chunk_size w =
     map_option submitted_stats
       (parallel_execute_chunk_instructions c instructions retry_count confirmation_time priority_fee
          max_cu_per_tx chunk_size w)"

definition submit_packaged_transactions ::
  "('w, 'ix, 'z) RpcClient_scheme \<Rightarrow> 'ix Instruction list list \<Rightarrow> nat option \<Rightarrow> nat option \<Rightarrow> 'w
   \<Rightarrow> ((JitoTransactionExecutionError + SubmitStats) \<times> 'w) result option" where
  "submit_packaged_transactions c transactions retry_count retry_interval w =
     map_option submitted_stats
       (parallel_execute_transactions c transactions
          (case retry_count of None \<Rightarrow> 3 | Some n \<Rightarrow> n) (case retry_interval of None \<Rightarrow> 20 | Some n \<Rightarrow> n) w)"

end
