(* ===== verification/Keeper_Crank.thy ===== *)
theory Keeper_Crank
  imports Client_Submission Crank
begin

text \<open>
  The steward crank of the keeper bot: keepers/stakenet-keeper/src/entries/crank_steward.rs
  with the helpers it calls in sdk/src/utils/helpers.rs. The bot reads the accounts of the
  steward, decides which instructions the on-chain program needs next, packages them and
  submits them. The accounts an instruction names are derived from a vote account and from
  addresses that do not change, so an instruction is its kind with the vote account, the
  indices and the amounts that its data carries.
\<close>

section \<open>Instructions and accounts\<close>

datatype keeper_ix =
    UpdateValidatorListBalanceIx "Pubkey list" nat bool
  | UpdateStakePoolBalanceIx
  | CleanupRemovedValidatorEntriesIx
  | DeactivateDelinquentStakeIx Pubkey Pubkey
  | EpochMaintenanceIx "nat option"
  | InstantRemoveValidatorIx nat
  | AutoRemoveValidatorIx Pubkey nat
  | AutoAddValidatorIx Pubkey
  | ComputeScoreIx Pubkey nat
  | ComputeDelegationsIx
  | IdleIx
  | ComputeInstantUnstakeIx Pubkey nat
  | RebalanceIx Pubkey nat nat
  | RebalanceDirectedIx Pubkey nat
  | DepositSolIx nat
  | CopyDirectedStakeTargetsIx Pubkey nat nat
  | InitializeValidatorHistoryAccountIx Pubkey
  | ReallocValidatorHistoryAccountIx Pubkey
  | CopyVoteAccountIx Pubkey
  | CopyTipDistributionAccountIx Pubkey nat
  | CopyClusterInfoIx
  | UpdateStakeHistoryIx Pubkey nat nat nat bool
  | CopyPriorityFeeDistributionIx Pubkey nat
  | UpdatePriorityFeeHistoryIx Pubkey nat nat nat nat nat
  | CopyIsBamConnectedIx Pubkey nat nat
  | VerifySignatureIx "8 word list"
  | CopyGossipContactInfoIx Pubkey Pubkey

text \<open>sdk/src/models/aggregate_accounts.rs. A hash map is a list of pairs in its order of traversal.\<close>

record Account =
  ac_owner :: Pubkey
  ac_data :: "8 word list"

record AllStewardAccounts =
  config_account :: Config
  state_account :: StewardStateV2
  pool_validators :: "ValidatorStakeInfo list"

record AllValidatorAccounts =
  all_history_vote_account_map :: "(Pubkey \<times> Account option) list"
  all_stake_account_map :: "(Pubkey \<times> Account option) list"
  all_vote_account_map :: "(Pubkey \<times> Account option) list"

datatype StakeStateV2 = DelegatedStake nat | OtherStakeState

text \<open>
  What the crank takes from libraries: the parsers of the accounts of other programs (of a
  vote account, the epochs of its credits), the statuses of the stake pool, the identity of
  the vote program and how many validators one update of the list may name.
\<close>

record keeper_lib =
  lib_vote_program :: Pubkey
  lib_stake_state :: "8 word list \<Rightarrow> StakeStateV2 option"
  lib_vote_epochs :: "8 word list \<Rightarrow> nat list option"
  lib_history :: "8 word list \<Rightarrow> ValidatorHistory option"
  lib_stake_status :: "8 word \<Rightarrow> StakeStatus option"
  lib_max_validators_to_update :: nat

datatype JitoMultipleAccountsError = AccountsClientError ClientError | JoinError string

datatype JitoTransactionError =
    JitoClientError ClientError
  | TransactionExecutionError JitoTransactionExecutionError
  | MultipleAccountsError JitoMultipleAccountsError
  | JitoCustom string

record ('w, 'ix) KeeperClient = "('w, 'ix) RpcClient" +
  rpc_steward_state :: "'w \<Rightarrow> (JitoTransactionError + StewardStateV2) \<times> 'w"
  rpc_epoch :: "'w \<Rightarrow> (ClientError + nat) \<times> 'w"
  rpc_reserve_lamports :: "'w \<Rightarrow> (ClientError + nat) \<times> 'w"
  rpc_stake_rent :: "'w \<Rightarrow> (ClientError + nat) \<times> 'w"
  rpc_directed_stake_meta :: "'w \<Rightarrow> (JitoTransactionError + DirectedStakeMeta) \<times> 'w"

type_synonym 'w keeper_client = "('w, keeper_ix) KeeperClient"

section \<open>Computations of the bot\<close>

text \<open>
  A computation of the bot runs in a world; it may not return, may panic, and may end with an
  error. \<open>crank_bind\<close> is the \<^verbatim>\<open>?\<close> operator.
\<close>

type_synonym ('w, 'e, 'a) action = "'w \<Rightarrow> (('e + 'a) \<times> 'w) result option"
type_synonym ('w, 'a) crank = "('w, JitoTransactionError, 'a) action"

definition crank_return :: "'a \<Rightarrow> ('w, 'e, 'a) action" where
  "crank_return x w = Some (Ok (Inr x, w))"

definition crank_bind :: "('w, 'e, 'a) action \<Rightarrow> ('a \<Rightarrow> ('w, 'e, 'b) action) \<Rightarrow> ('w, 'e, 'b) action" where
  "crank_bind m k w =
     (case m w of
        None \<Rightarrow> None
      | Some (Inl e) \<Rightarrow> Some (Err e)
      | Some (Inr (Inl e, w)) \<Rightarrow> Some (Ok (Inl e, w))
      | Some (Inr (Inr x, w)) \<Rightarrow> k x w)"

text \<open>A pure computation that may panic, and a call of the node.\<close>

definition crank_pure :: "'a result \<Rightarrow> ('w, 'e, 'a) action" where
  "crank_pure r w = Some (and_then r (\<lambda>x. Ok (Inr x, w)))"

definition crank_call :: "('d \<Rightarrow> 'e) \<Rightarrow> ('w \<Rightarrow> ('d + 'a) \<times> 'w) \<Rightarrow> ('w, 'e, 'a) action" where
  "crank_call f call w = (case call w of (r, w) \<Rightarrow> Some (Ok (map_sum f id r, w)))"

definition lift_result :: "('e + 'a) result \<Rightarrow> ('w, 'e, 'a) action" where
  "lift_result r w = Some (and_then r (\<lambda>x. Ok (x, w)))"

text \<open>A \<^verbatim>\<open>match\<close> on the outcome of a computation instead of \<^verbatim>\<open>?\<close>, and \<^verbatim>\<open>map_err\<close>.\<close>

definition crank_try :: "('w, 'e, 'a) action \<Rightarrow> ('w, 'd, 'e + 'a) action" where
  "crank_try m w = map_option (\<lambda>r. and_then r (\<lambda>(x, w). Ok (Inr x, w))) (m w)"

definition crank_map_err :: "('d \<Rightarrow> 'e) \<Rightarrow> ('w, 'd, 'a) action \<Rightarrow> ('w, 'e, 'a) action" where
  "crank_map_err f m w = map_option (\<lambda>r. and_then r (\<lambda>(x, w). Ok (map_sum f id x, w))) (m w)"

text \<open>A \<^verbatim>\<open>for\<close> loop over the elements of a list.\<close>

primrec crank_for :: "('i \<Rightarrow> 's \<Rightarrow> ('w, 'e, 's) action) \<Rightarrow> 'i list \<Rightarrow> 's \<Rightarrow> ('w, 'e, 's) action" where
  "crank_for f [] s = crank_return s"
| "crank_for f (x # xs) s = crank_bind (f x s) (crank_for f xs)"

text \<open>
  The bot has a state and a database of its own beside the world of the node; a computation on
  one part leaves the others alone.
\<close>

definition on_left :: "('d, 'e, 'a) action \<Rightarrow> ('d \<times> 'w, 'e, 'a) action" where
  "on_left m = (\<lambda>(d, w). map_option (\<lambda>r. and_then r (\<lambda>(x, d). Ok (x, (d, w)))) (m d))"

definition on_right :: "('w, 'e, 'a) action \<Rightarrow> ('d \<times> 'w, 'e, 'a) action" where
  "on_right m = (\<lambda>(d, w). map_option (\<lambda>r. and_then r (\<lambda>(x, w). Ok (x, (d, w)))) (m w))"

definition submit ::
  "('w, keeper_ix, 'z) RpcClient_scheme \<Rightarrow> keeper_ix Instruction list list \<Rightarrow> nat \<Rightarrow> ('w, SubmitStats) crank" where
  "submit c txs retry_count w =
     map_option (\<lambda>r. and_then r (\<lambda>(out, w). Ok (map_sum TransactionExecutionError id out, w)))
       (submit_packaged_transactions c txs (Some retry_count) None w)"

lemma crank_bind_simps [simp]:
  "m w = None \<Longrightarrow> crank_bind m k w = None"
  "m w = Some (Inl e) \<Longrightarrow> crank_bind m k w = Some (Inl e)"
  "m w = Some (Inr (Inl e', v)) \<Longrightarrow> crank_bind m k w = Some (Inr (Inl e', v))"
  "m w = Some (Inr (Inr x, v)) \<Longrightarrow> crank_bind m k w = k x v"
  by (simp_all add: crank_bind_def)

lemma crank_bind_return [simp]: "crank_bind (crank_return x) k = k x"
  by (simp add: crank_bind_def crank_return_def fun_eq_iff)

section \<open>Helpers\<close>

record ProgressionInfo =
  pi_index :: nat
  pi_vote_account :: Pubkey

definition get_unprogressed_validators :: "AllStewardAccounts \<Rightarrow> ProgressionInfo list result" where
  "get_unprogressed_validators accs =
     for_each (\<lambda>i acc.
         and_then (unwrap (BitMask_get i (progress (state_account accs)))) (\<lambda>has_progressed.
         if has_progressed then Ok acc
         else and_then (arr_get (pool_validators accs) i) (\<lambda>info.
           Ok (acc @ [\<lparr>pi_index = i, pi_vote_account = vote_account_address info\<rparr>]))))
       [0..<num_pool_validators (state_account accs)] []"

record DirectedRebalanceProgressionInfo =
  dp_validator_list_index :: nat
  dp_directed_stake_meta_index :: nat
  dp_vote_account :: Pubkey

text \<open>In the hash map collected from the list the last of equal keys wins.\<close>

definition get_directed_staking_validators ::
  "AllStewardAccounts \<Rightarrow> DirectedStakeMeta \<Rightarrow> DirectedRebalanceProgressionInfo list result" where
  "get_directed_staking_validators accs m =
     and_then (plus_or_panic U64_MAX (num_pool_validators (state_account accs)) (validators_added (state_account accs))) (\<lambda>n.
     let validator_map = map_of (rev (map (\<lambda>(i, v). (vote_account_address v, i))
           (enumerate 0 (take n (pool_validators accs))))) in
     Ok (map (\<lambda>(mi, t). \<lparr>dp_validator_list_index =
             (case validator_map (t_vote_pubkey t) of None \<Rightarrow> U64_MAX | Some i \<Rightarrow> i),
           dp_directed_stake_meta_index = mi, dp_vote_account = t_vote_pubkey t\<rparr>)
       (filter (\<lambda>(mi, t). t_vote_pubkey t \<noteq> Pubkey_default) (enumerate 0 (targets m)))))"

record StakeAccountChecks =
  ck_is_deactivated :: bool
  ck_has_history :: bool
  ck_deactivation_epoch :: "nat option"
  ck_has_stake_account :: bool
  ck_has_vote_account :: bool

definition check_stake_account ::
  "keeper_lib \<Rightarrow> AllValidatorAccounts \<Rightarrow> nat \<Rightarrow> Pubkey \<Rightarrow> StakeAccountChecks result" where
  "check_stake_account lib accs epoch vote_address =
     and_then (ok_or (map_of (all_vote_account_map accs) vote_address) Panic) (\<lambda>vote_account.
     and_then (ok_or (map_of (all_stake_account_map accs) vote_address) Panic) (\<lambda>stake_account.
     and_then (ok_or (map_of (all_history_vote_account_map accs) vote_address) Panic) (\<lambda>history_account.
     and_then (case stake_account of
         None \<Rightarrow> Ok None
       | Some a \<Rightarrow> and_then (ok_or (lib_stake_state lib (ac_data a)) Panic) (\<lambda>st.
           Ok (Some (case st of DelegatedStake e \<Rightarrow> e | OtherStakeState \<Rightarrow> 0)))) (\<lambda>deactivation_epoch.
     Ok \<lparr>ck_is_deactivated = (case deactivation_epoch of None \<Rightarrow> 0 | Some e \<Rightarrow> e) < epoch,
         ck_has_history = (history_account \<noteq> None),
         ck_deactivation_epoch = deactivation_epoch,
         ck_has_stake_account = (stake_account \<noteq> None),
         ck_has_vote_account = (case vote_account of None \<Rightarrow> False | Some a \<Rightarrow> ac_owner a = lib_vote_program lib)\<rparr>))))"

definition check_stake_accounts ::
  "keeper_lib \<Rightarrow> AllValidatorAccounts \<Rightarrow> nat \<Rightarrow> (Pubkey \<times> StakeAccountChecks) list result" where
  "check_stake_accounts lib accs epoch =
     map_result (\<lambda>k. and_then (check_stake_account lib accs epoch k) (\<lambda>ck. Ok (k, ck)))
       (map fst (all_history_vote_account_map accs))"

section \<open>Updating the stake pool\<close>

definition needs_update :: "keeper_lib \<Rightarrow> nat \<Rightarrow> ValidatorStakeInfo \<Rightarrow> bool result" where
  "needs_update lib epoch info =
     (if last_update_epoch info < epoch then Ok True
      else and_then (ok_or (lib_stake_status lib (status_byte info)) Panic) (\<lambda>st. Ok (st = DeactivatingValidator)))"

definition update_list_instructions ::
  "keeper_lib \<Rightarrow> ValidatorStakeInfo list \<Rightarrow> bool \<Rightarrow> nat \<Rightarrow> keeper_ix list result" where
  "update_list_instructions lib vals no_merge epoch =
     and_then (chunks (lib_max_validators_to_update lib) vals) (\<lambda>cs.
     and_then (for_each (\<lambda>chunk (start_index, ixs).
         and_then (position (needs_update lib epoch) chunk) (\<lambda>found.
         Ok (saturating_add U32_MAX start_index (lib_max_validators_to_update lib),
             if found \<noteq> None
             then ixs @ [UpdateValidatorListBalanceIx (map vote_account_address chunk) start_index no_merge]
             else ixs))) cs (0, [])) (\<lambda>(_, ixs). Ok ixs))"

text \<open>Whether a vote account has voted in this epoch or the last one.\<close>

definition is_reference :: "keeper_lib \<Rightarrow> AllValidatorAccounts \<Rightarrow> nat \<Rightarrow> ValidatorStakeInfo \<Rightarrow> bool result" where
  "is_reference lib accs epoch info =
     and_then (ok_or (map_of (all_vote_account_map accs) (vote_account_address info)) Panic) (\<lambda>raw.
     case raw of
       None \<Rightarrow> Ok False
     | Some a \<Rightarrow>
         and_then (ok_or (lib_vote_epochs lib (ac_data a)) Panic) (\<lambda>epochs.
         if epochs = [] then Err Panic
         else if last epochs = epoch then Ok True
         else and_then (minus_or_panic epoch 1) (\<lambda>p. Ok (last epochs = p))))"

definition should_deactivate :: "keeper_lib \<Rightarrow> AllValidatorAccounts \<Rightarrow> nat \<Rightarrow> ValidatorStakeInfo \<Rightarrow> bool result" where
  "should_deactivate lib accs epoch info =
     and_then (ok_or (map_of (all_vote_account_map accs) (vote_account_address info)) Panic) (\<lambda>raw_vote.
     and_then (ok_or (map_of (all_stake_account_map accs) (vote_account_address info)) Panic) (\<lambda>raw_stake.
     case (raw_vote, raw_stake) of
       (None, Some _) \<Rightarrow> Ok True
     | (Some va, Some sa) \<Rightarrow>
         and_then (ok_or (lib_stake_state lib (ac_data sa)) Panic) (\<lambda>stake.
         case lib_vote_epochs lib (ac_data va) of
           None \<Rightarrow> Ok False
         | Some [] \<Rightarrow> Ok False
         | Some epochs \<Rightarrow>
             (case stake of
                DelegatedStake deactivation_epoch \<Rightarrow>
                  if deactivation_epoch \<noteq> U64_MAX then Ok False
                  else and_then (minus_or_panic epoch 5) (\<lambda>limit. Ok (last epochs \<le> limit))
              | OtherStakeState \<Rightarrow> Ok False))
     | (_, None) \<Rightarrow> Ok False))"

definition get_update_stake_pool_ixs ::
  "keeper_lib \<Rightarrow> ValidatorStakeInfo list \<Rightarrow> AllValidatorAccounts \<Rightarrow> bool \<Rightarrow> nat
   \<Rightarrow> (keeper_ix list \<times> keeper_ix list \<times> keeper_ix list) result" where
  "get_update_stake_pool_ixs lib vals accs no_merge epoch =
     and_then (update_list_instructions lib vals no_merge epoch) (\<lambda>update_ixs.
     and_then (position (is_reference lib accs epoch) vals) (\<lambda>reference.
     and_then (for_each (\<lambda>info ixs.
         and_then (should_deactivate lib accs epoch info) (\<lambda>should.
         Ok (case reference of
               Some r \<Rightarrow> if should
                 then ixs @ [DeactivateDelinquentStakeIx (vote_account_address info) (vote_account_address (vals ! r))]
                 else ixs
             | None \<Rightarrow> ixs))) vals []) (\<lambda>deactivate_ixs.
     Ok (update_ixs, deactivate_ixs, [UpdateStakePoolBalanceIx, CleanupRemovedValidatorEntriesIx]))))"

text \<open>Packaging instructions \<open>n\<close> to a transaction and submitting them.\<close>

definition run_packaged ::
  "('w, keeper_ix, 'z) RpcClient_scheme \<Rightarrow> keeper_ix list \<Rightarrow> nat \<Rightarrow> nat option \<Rightarrow> nat \<Rightarrow> ('w, SubmitStats) crank" where
  "run_packaged c ixs n priority_fee retry_count =
     crank_bind (crank_pure (package_instructions (map Ix ixs) n priority_fee (Some 1400000) None))
       (\<lambda>txs. submit c txs retry_count)"

definition update_pool ::
  "('w, keeper_ix, 'z) RpcClient_scheme \<Rightarrow> keeper_lib \<Rightarrow> nat \<Rightarrow> AllStewardAccounts \<Rightarrow> AllValidatorAccounts \<Rightarrow> nat option
   \<Rightarrow> ('w, SubmitStats) crank" where
  "update_pool c lib epoch steward accs priority_fee =
     crank_bind (crank_pure (get_update_stake_pool_ixs lib (pool_validators steward) accs False epoch))
       (\<lambda>(update_ixs, deactivate_ixs, cleanup_ixs).
     crank_bind (run_packaged c update_ixs 1 priority_fee 50) (\<lambda>s1.
     crank_bind (run_packaged c deactivate_ixs 1 priority_fee 50) (\<lambda>s2.
     crank_bind (run_packaged c cleanup_ixs 1 priority_fee 50) (\<lambda>s3.
     crank_return (combine (combine (combine SubmitStats_default s1) s2) s3)))))"

section \<open>Removing marked validators\<close>

text \<open>The first index below \<open>n\<close> whose bit is set; a read outside of the mask is an error.\<close>

definition first_marked :: "nat \<Rightarrow> BitMask \<Rightarrow> nat option result" where
  "first_marked n marks = position (\<lambda>i. BitMask_get i marks) [0..<n]"

definition find_marked :: "string \<Rightarrow> nat \<Rightarrow> BitMask \<Rightarrow> ('w, nat option) crank" where
  "find_marked message n marks w =
     (case first_marked n marks of
        Inl Panic \<Rightarrow> Some (Err Panic)
      | Inl e \<Rightarrow> Some (Ok (Inl (JitoCustom message), w))
      | Inr r \<Rightarrow> Some (Ok (Inr r, w)))"

text \<open>\<^verbatim>\<open>get_steward_state_account(...).await.unwrap()\<close>.\<close>

definition fetch_state :: "('w, keeper_ix, 'z) KeeperClient_scheme \<Rightarrow> ('w, StewardStateV2) crank" where
  "fetch_state c w = (case rpc_steward_state c w of (Inr s, w) \<Rightarrow> Some (Ok (Inr s, w)) | (Inl e, w) \<Rightarrow> Some (Err Panic))"

text \<open>
  A loop whose turn is a computation of the bot: it ends the loop with a value (\<open>Inr\<close>) or
  gives the variables of the next turn (\<open>Inl\<close>).
\<close>

definition crank_loop :: "('s \<Rightarrow> ('w, 'e, 's + 'a) action) \<Rightarrow> 's \<Rightarrow> ('w, 'e, 'a) action" where
  "crank_loop body s w =
     Option.bind (iterate (\<lambda>(s, w). case body s w of
         Some (Inr (Inr (Inl s), w)) \<Rightarrow> Inl (s, w)
       | Some (Inr (Inr (Inr x), w)) \<Rightarrow> Inr (Some (Ok (Inr x, w)))
       | Some (Inr (Inl e, w)) \<Rightarrow> Inr (Some (Ok (Inl e, w)))
       | Some (Inl e) \<Rightarrow> Inr (Some (Err e))
       | None \<Rightarrow> Inr None) (s, w)) id"

definition instant_removal_turn ::
  "('w, keeper_ix, 'z) KeeperClient_scheme \<Rightarrow> AllStewardAccounts \<Rightarrow> nat option \<Rightarrow> BitMask \<times> SubmitStats
   \<Rightarrow> ('w, BitMask \<times> SubmitStats + SubmitStats) crank" where
  "instant_removal_turn c steward priority_fee = (\<lambda>(marks, stats).
     if mask_count marks = 0 then crank_return (Inr stats)
     else
       crank_bind (find_marked ''Error fetching bitmask index for immediate removed validator''
         (length (pool_validators steward)) marks) (\<lambda>found.
       crank_bind (crank_pure (ok_or found Panic)) (\<lambda>i.
       crank_bind (submit c [configure_instruction [Ix (InstantRemoveValidatorIx i)] priority_fee (Some 1400000) None] 50)
         (\<lambda>new_stats.
       let stats = combine stats new_stats in
       if 0 < errors stats then crank_return (Inr stats)
       else crank_bind (fetch_state c) (\<lambda>s. crank_return (Inl (validators_for_immediate_removal s, stats)))))))"

definition handle_instant_removal_validators ::
  "('w, keeper_ix, 'z) KeeperClient_scheme \<Rightarrow> AllStewardAccounts \<Rightarrow> nat option \<Rightarrow> ('w, SubmitStats) crank" where
  "handle_instant_removal_validators c steward priority_fee =
     crank_loop (instant_removal_turn c steward priority_fee)
       (validators_for_immediate_removal (state_account steward), SubmitStats_default)"

text \<open>The variables of the loop of the epoch maintenance.\<close>

record maintenance =
  mt_current_epoch :: nat
  mt_state_epoch :: nat
  mt_num_validators :: nat
  mt_validators_to_remove :: BitMask
  mt_stats :: SubmitStats

definition maintenance_turn ::
  "('w, keeper_ix, 'z) KeeperClient_scheme \<Rightarrow> nat option \<Rightarrow> maintenance \<Rightarrow> ('w, maintenance + SubmitStats) crank" where
  "maintenance_turn c priority_fee v =
     (if mt_state_epoch v = mt_current_epoch v then crank_return (Inr (mt_stats v))
      else
        crank_bind (find_marked ''Error fetching bitmask index for removed validator''
          (mt_num_validators v) (mt_validators_to_remove v)) (\<lambda>found.
        crank_bind (submit c [configure_instruction [Ix (EpochMaintenanceIx found)] priority_fee
            (map_option (\<lambda>_. 1400000) found) None] 50) (\<lambda>new_stats.
        let stats = combine (mt_stats v) new_stats in
        if 0 < errors stats then crank_return (Inr stats)
        else
          crank_bind (fetch_state c) (\<lambda>s.
          crank_bind (crank_call JitoClientError (rpc_epoch c)) (\<lambda>epoch.
          crank_return (Inl \<lparr>mt_current_epoch = epoch, mt_state_epoch = current_epoch s,
            mt_num_validators = num_pool_validators s, mt_validators_to_remove = validators_to_remove s,
            mt_stats = stats\<rparr>))))))"

definition handle_epoch_maintenance ::
  "('w, keeper_ix, 'z) KeeperClient_scheme \<Rightarrow> nat \<Rightarrow> AllStewardAccounts \<Rightarrow> nat option \<Rightarrow> ('w, SubmitStats) crank" where
  "handle_epoch_maintenance c epoch steward priority_fee =
     crank_loop (maintenance_turn c priority_fee)
       \<lparr>mt_current_epoch = epoch, mt_state_epoch = current_epoch (state_account steward),
        mt_num_validators = num_pool_validators (state_account steward),
        mt_validators_to_remove = validators_to_remove (state_account steward), mt_stats = SubmitStats_default\<rparr>"

section \<open>Removing delinquent and adding new validators\<close>

definition delinquent_ixs ::
  "keeper_lib \<Rightarrow> nat \<Rightarrow> AllStewardAccounts \<Rightarrow> AllValidatorAccounts \<Rightarrow> keeper_ix list result" where
  "delinquent_ixs lib epoch steward accs =
     and_then (check_stake_accounts lib accs epoch) (\<lambda>checks.
     for_each (\<lambda>(vote_account, ck) ixs.
       if \<not> ck_has_history ck \<or> ck_is_deactivated ck \<or> \<not> ck_has_vote_account ck
       then
         and_then (position (\<lambda>v. Ok (vote_account_address v = vote_account)) (pool_validators steward)) (\<lambda>pos.
         and_then (ok_or pos Panic) (\<lambda>index.
         and_then (unwrap (BitMask_get index (validators_to_remove (state_account steward)))) (\<lambda>marked.
         Ok (if marked then ixs else ixs @ [AutoRemoveValidatorIx vote_account index]))))
       else Ok ixs) checks [])"

definition handle_delinquent_validators ::
  "('w, keeper_ix, 'z) RpcClient_scheme \<Rightarrow> keeper_lib \<Rightarrow> nat \<Rightarrow> AllStewardAccounts \<Rightarrow> AllValidatorAccounts \<Rightarrow> nat option
   \<Rightarrow> ('w, SubmitStats) crank" where
  "handle_delinquent_validators c lib epoch steward accs priority_fee =
     crank_bind (crank_pure (delinquent_ixs lib epoch steward accs))
       (\<lambda>ixs. run_packaged c ixs 1 priority_fee 50)"

text \<open>The accounts of the validators that are not in the pool.\<close>

definition accounts_to_check ::
  "AllValidatorAccounts \<Rightarrow> AllValidatorAccounts \<Rightarrow> AllValidatorAccounts result" where
  "accounts_to_check pool accs =
     for_each (\<lambda>(key, history) acc.
       if key \<in> fst ` set (all_history_vote_account_map pool) then Ok acc
       else
         and_then (ok_or (map_of (all_stake_account_map accs) key) Panic) (\<lambda>stake.
         and_then (ok_or (map_of (all_vote_account_map accs) key) Panic) (\<lambda>vote.
         Ok \<lparr>all_history_vote_account_map = all_history_vote_account_map acc @ [(key, history)],
             all_stake_account_map = all_stake_account_map acc @ [(key, stake)],
             all_vote_account_map = all_vote_account_map acc @ [(key, vote)]\<rparr>)))
       (all_history_vote_account_map accs)
       \<lparr>all_history_vote_account_map = [], all_stake_account_map = [], all_vote_account_map = []\<rparr>"

definition is_addable :: "keeper_lib \<Rightarrow> Config \<Rightarrow> nat \<Rightarrow> Account option \<Rightarrow> bool result" where
  "is_addable lib config epoch raw_history =
     (case raw_history of
        None \<Rightarrow> Ok False
      | Some raw \<Rightarrow>
          and_then (ok_or (lib_history lib (ac_data raw)) Panic) (\<lambda>history.
          let start = saturating_sub epoch (saturating_sub (p_minimum_voting_epochs (c_parameters config)) 1) in
          and_then (circ_last (vh_history history)) (\<lambda>last_entry.
          case last_entry of
            None \<Rightarrow> Ok False
          | Some entry \<Rightarrow>
              and_then (epoch_credits_range (cast U16_MAX start) (cast U16_MAX epoch) (vh_history history)) (\<lambda>credits.
              Ok (\<not> list_ex (\<lambda>x. x = None) credits \<and>
                  \<not> activated_stake_lamports entry < p_minimum_stake_lamports (c_parameters config))))))"

definition adding_ixs ::
  "keeper_lib \<Rightarrow> nat \<Rightarrow> AllStewardAccounts \<Rightarrow> AllValidatorAccounts \<Rightarrow> AllValidatorAccounts \<Rightarrow> keeper_ix list result" where
  "adding_ixs lib epoch steward pool accs =
     and_then (accounts_to_check pool accs) (\<lambda>new_accs.
     and_then (check_stake_accounts lib new_accs epoch) (\<lambda>checks.
     for_each (\<lambda>(vote_address, ck) ixs.
       if ck_has_history ck \<and> \<not> ck_has_stake_account ck
       then
         and_then (ok_or (map_of (all_history_vote_account_map accs) vote_address) Panic) (\<lambda>raw_history.
         and_then (is_addable lib (config_account steward) epoch raw_history) (\<lambda>good.
         Ok (if good then ixs @ [AutoAddValidatorIx vote_address] else ixs)))
       else Ok ixs) checks []))"

definition handle_adding_validators ::
  "('w, keeper_ix, 'z) RpcClient_scheme \<Rightarrow> keeper_lib \<Rightarrow> nat \<Rightarrow> AllStewardAccounts \<Rightarrow> AllValidatorAccounts
   \<Rightarrow> AllValidatorAccounts \<Rightarrow> nat option \<Rightarrow> ('w, SubmitStats) crank" where
  "handle_adding_validators c lib epoch steward pool accs priority_fee =
     crank_bind (crank_pure (adding_ixs lib epoch steward pool accs))
       (\<lambda>ixs. run_packaged c ixs 1 priority_fee 50)"

section \<open>Cranking the stages\<close>

definition handle_compute_score ::
  "('w, keeper_ix, 'z) RpcClient_scheme \<Rightarrow> AllStewardAccounts \<Rightarrow> nat option \<Rightarrow> ('w, SubmitStats) crank" where
  "handle_compute_score c steward priority_fee =
     crank_bind (crank_pure (get_unprogressed_validators steward)) (\<lambda>infos.
     run_packaged c (map (\<lambda>v. ComputeScoreIx (pi_vote_account v) (pi_index v)) infos) 5 priority_fee 50)"

definition handle_compute_delegations ::
  "('w, keeper_ix, 'z) RpcClient_scheme \<Rightarrow> nat option \<Rightarrow> ('w, SubmitStats) crank" where
  "handle_compute_delegations c priority_fee =
     submit c [configure_instruction [Ix ComputeDelegationsIx] priority_fee None None] 50"

definition handle_idle ::
  "('w, keeper_ix, 'z) RpcClient_scheme \<Rightarrow> nat option \<Rightarrow> ('w, SubmitStats) crank" where
  "handle_idle c priority_fee = submit c [configure_instruction [Ix IdleIx] priority_fee None None] 50"

definition handle_compute_instant_unstake ::
  "('w, keeper_ix, 'z) RpcClient_scheme \<Rightarrow> AllStewardAccounts \<Rightarrow> nat option \<Rightarrow> ('w, SubmitStats) crank" where
  "handle_compute_instant_unstake c steward priority_fee =
     crank_bind (crank_pure (get_unprogressed_validators steward)) (\<lambda>infos.
     run_packaged c (map (\<lambda>v. ComputeInstantUnstakeIx (pi_vote_account v) (pi_index v)) infos) 1 priority_fee 50)"

definition handle_rebalance ::
  "('w, keeper_ix, 'z) KeeperClient_scheme \<Rightarrow> AllStewardAccounts \<Rightarrow> nat option \<Rightarrow> ('w, SubmitStats) crank" where
  "handle_rebalance c steward priority_fee =
     crank_bind (crank_pure (get_unprogressed_validators steward)) (\<lambda>infos.
     crank_bind (crank_call JitoClientError (rpc_reserve_lamports c)) (\<lambda>reserve.
     crank_bind (crank_call JitoClientError (rpc_stake_rent c)) (\<lambda>rent.
     crank_bind (crank_pure (times_or_panic U64_MAX rent (length infos))) (\<lambda>needed.
     let deposit = (if reserve < needed then [DepositSolIx rent] else []) in
     crank_bind (crank_pure (map_result (\<lambda>v. and_then (arr_get (pool_validators steward) (pi_index v)) (\<lambda>info.
         Ok (deposit @ [RebalanceIx (pi_vote_account v) (pi_index v) (transient_seed_suffix info)]))) infos)) (\<lambda>ixs.
     run_packaged c (concat ixs) 2 priority_fee 30)))))"

definition handle_directed_rebalance ::
  "('w, keeper_ix, 'z) KeeperClient_scheme \<Rightarrow> AllStewardAccounts \<Rightarrow> nat option \<Rightarrow> ('w, SubmitStats) crank" where
  "handle_directed_rebalance c steward priority_fee =
     crank_bind (crank_call id (rpc_directed_stake_meta c)) (\<lambda>m.
     crank_bind (crank_pure (get_directed_staking_validators steward m)) (\<lambda>infos.
     crank_bind (crank_call JitoClientError (rpc_reserve_lamports c)) (\<lambda>reserve.
     crank_bind (crank_call JitoClientError (rpc_stake_rent c)) (\<lambda>rent.
     crank_bind (crank_pure (times_or_panic U64_MAX rent (length infos))) (\<lambda>needed.
     crank_bind (if reserve < needed then run_packaged c [DepositSolIx (needed - reserve)] 1 priority_fee 30
                 else crank_return SubmitStats_default) (\<lambda>s1.
     crank_bind (run_packaged c (map (\<lambda>v. RebalanceDirectedIx (dp_vote_account v) (dp_directed_stake_meta_index v)) infos)
         1 priority_fee 30) (\<lambda>s2.
     crank_return (combine (combine SubmitStats_default s1) s2))))))))"

text \<open>The stage that the state machine is in decides what is cranked.\<close>

definition crank_stage ::
  "('w, keeper_ix, 'z) KeeperClient_scheme \<Rightarrow> AllStewardAccounts \<Rightarrow> nat option \<Rightarrow> ('w, SubmitStats) crank" where
  "crank_stage c steward priority_fee =
     (case state_tag (state_account steward) of
        ComputeScores \<Rightarrow> handle_compute_score c steward priority_fee
      | ComputeDelegations \<Rightarrow> handle_compute_delegations c priority_fee
      | Idle \<Rightarrow> handle_idle c priority_fee
      | ComputeInstantUnstake \<Rightarrow> handle_compute_instant_unstake c steward priority_fee
      | Rebalance \<Rightarrow> handle_rebalance c steward priority_fee
      | RebalanceDirected \<Rightarrow> handle_directed_rebalance c steward priority_fee)"

text \<open>
  \<^verbatim>\<open>crank_steward\<close>. The accounts are those that the bot read before: after the epoch
  maintenance has run, the other steps still see the old state, and the stage is not cranked.
\<close>

definition crank_steward ::
  "('w, keeper_ix, 'z) KeeperClient_scheme \<Rightarrow> keeper_lib \<Rightarrow> nat \<Rightarrow> AllStewardAccounts \<Rightarrow> AllValidatorAccounts
   \<Rightarrow> AllValidatorAccounts \<Rightarrow> nat option \<Rightarrow> ('w, SubmitStats) crank" where
  "crank_steward c lib epoch steward pool active priority_fee =
     (let should_run_epoch_maintenance = current_epoch (state_account steward) \<noteq> epoch in
     crank_bind (update_pool c lib epoch steward pool priority_fee) (\<lambda>s1.
     crank_bind (if should_run_epoch_maintenance then handle_epoch_maintenance c epoch steward priority_fee
                 else crank_return SubmitStats_default) (\<lambda>s2.
     crank_bind (handle_instant_removal_validators c steward priority_fee) (\<lambda>s3.
     crank_bind (handle_delinquent_validators c lib epoch steward pool priority_fee) (\<lambda>s4.
     let stats = combine (combine (combine (combine SubmitStats_default s1) s2) s3) s4 in
     if 0 < successes s4 then crank_return stats
     else
       crank_bind (handle_adding_validators c lib epoch steward pool active priority_fee) (\<lambda>s5.
       let stats = combine stats s5 in
       if should_run_epoch_maintenance then crank_return stats
       else crank_bind (crank_stage c steward priority_fee) (\<lambda>s6. crank_return (combine stats s6))))))))"

end
