(* ===== verification/Submission_Properties.thy ===== *)
theory Submission_Properties
  imports Client_Submission "HOL-Library.Multiset" "HOL-Library.Sublist"
begin

text \<open>
  What the transaction engine guarantees. The first section relates the world before and
  after every function of the engine; the next ones show that what is reported as executed
  has landed, that the engine returns once blockhashes expire, and what the packing and the
  packaging of instructions do with them.
\<close>

section \<open>Calls of the node\<close>

text \<open>Every call of the node takes the world forward in the preorder \<open>R\<close>.\<close>

definition calls_respect :: "('w, 'ix, 'z) RpcClient_scheme \<Rightarrow> ('w \<Rightarrow> 'w \<Rightarrow> bool) \<Rightarrow> bool" where
  "calls_respect c R \<longleftrightarrow>
     reflp R \<and> transp R \<and>
     (\<forall>w. R w (snd (rpc_latest_blockhash c w))) \<and>
     (\<forall>tx w. R w (snd (rpc_send_transaction c tx w))) \<and>
     (\<forall>sigs w. R w (snd (rpc_signature_statuses c sigs w))) \<and>
     (\<forall>h w. R w (snd (rpc_blockhash_valid c h w))) \<and>
     (\<forall>n w. R w (rpc_sleep c n w))"

lemma calls_respectD:
  assumes "calls_respect c R"
  shows "R w w" "R u v \<Longrightarrow> R v w \<Longrightarrow> R u w"
    "rpc_latest_blockhash c w = (b, w1) \<Longrightarrow> R w w1"
    "rpc_send_transaction c tx w = (r, w2) \<Longrightarrow> R w w2"
    "rpc_signature_statuses c sigs w = (st, w3) \<Longrightarrow> R w w3"
    "rpc_blockhash_valid c h w = (v', w4) \<Longrightarrow> R w w4"
    "R w (rpc_sleep c n w)"
proof -
  note all = assms [unfolded calls_respect_def]
  show "R w w" "R u v \<Longrightarrow> R v w \<Longrightarrow> R u w" using all by (metis reflpD, metis all transpD)
  show "rpc_latest_blockhash c w = (b, w1) \<Longrightarrow> R w w1" "rpc_send_transaction c tx w = (r, w2) \<Longrightarrow> R w w2"
    "rpc_signature_statuses c sigs w = (st, w3) \<Longrightarrow> R w w3" "rpc_blockhash_valid c h w = (v', w4) \<Longrightarrow> R w w4"
    by (metis all snd_conv)+
  show "R w (rpc_sleep c n w)" using all by simp
qed

lemma retry_respects:
  assumes "transp R" "\<And>w. R w (snd (f w))"
  shows "retry f n w = (r, w') \<Longrightarrow> R w w'"
proof (induction n arbitrary: w)
  case 0
  then show ?case using assms(2) [of w] by simp
next
  case (Suc n)
  show ?case
  proof (cases "f w")
    case (Pair a v)
    moreover have "R w v" using assms(2) [of w] Pair by simp
    ultimately show ?thesis using Suc \<open>transp R\<close> by (cases a) (auto dest: transpD)
  qed
qed

lemma get_latest_blockhash_respects:
  "calls_respect c R \<Longrightarrow> get_latest_blockhash_with_retry c w = (r, w') \<Longrightarrow> R w w'"
  unfolding get_latest_blockhash_with_retry_def
  by (rule retry_respects) (auto simp: calls_respect_def)

lemma retry_with_pause_cases:
  "retry_with_pause c f n w = (r, w') \<Longrightarrow> calls_respect c R \<Longrightarrow> (\<And>w. R w (snd (f w))) \<Longrightarrow>
   \<exists>v. R w v \<and> f v = (r, w')"
proof (induction n arbitrary: w)
  case 0
  then show ?case using calls_respectD(1) [OF 0(2)] by auto
next
  case (Suc n)
  obtain a v where f: "f w = (a, v)" by (cases "f w")
  then have "R w v" using Suc.prems(3) [of w] by simp
  show ?case
  proof (cases a)
    case (Inl e)
    then have "retry_with_pause c f n (rpc_sleep c 1 v) = (r, w')" using Suc.prems(1) f by simp
    then obtain u where "R (rpc_sleep c 1 v) u" "f u = (r, w')" using Suc.IH Suc.prems by blast
    then show ?thesis using \<open>R w v\<close> calls_respectD(2,7) [OF Suc.prems(2)] by metis
  next
    case (Inr x)
    then show ?thesis using Suc.prems f calls_respectD(1) [OF Suc.prems(2)] by auto
  qed
qed

lemma retry_with_pause_respects:
  assumes "retry_with_pause c f n w = (r, w')" "calls_respect c R" "\<And>w. R w (snd (f w))"
  shows "R w w'"
  using retry_with_pause_cases [OF assms] assms(3) calls_respectD(2) [OF assms(2)] by (metis snd_conv)

section \<open>What is reported as executed has landed\<close>

text \<open>
  An honest node: it accepts a transaction under the transaction's own signature, it says
  that a signature is confirmed only when its transaction has landed, and what has landed
  stays so. A hash set is traversed in some order without losing or inventing elements.
\<close>

definition honest_node :: "('w, 'ix, 'z) RpcClient_scheme \<Rightarrow> (Signature \<Rightarrow> 'w \<Rightarrow> bool) \<Rightarrow> bool" where
  "honest_node c landed \<longleftrightarrow>
     calls_respect c (\<lambda>w w'. \<forall>s. landed s w \<longrightarrow> landed s w') \<and>
     (\<forall>tx w s w'. rpc_send_transaction c tx w = (Inr s, w') \<longrightarrow> s = tx_signature tx) \<and>
     (\<forall>sigs w sts w' s st. rpc_signature_statuses c sigs w = (Inr sts, w') \<longrightarrow>
        (s, st) \<in> set (zip sigs sts) \<longrightarrow> is_confirmed st \<longrightarrow> landed s w') \<and>
     (\<forall>xs. set (hash_order c xs) = set xs)"

text \<open>The signatures that the instructions of the transaction \<open>i\<close> can have.\<close>

definition signature_of :: "('w, 'ix, 'z) RpcClient_scheme \<Rightarrow> 'ix Instruction list list \<Rightarrow> nat \<Rightarrow> Signature \<Rightarrow> bool" where
  "signature_of c txs i s \<longleftrightarrow> i < length txs \<and> (\<exists>h. s = sign c (txs ! i) h)"

definition results_landed ::
  "('w, 'ix, 'z) RpcClient_scheme \<Rightarrow> (Signature \<Rightarrow> 'w \<Rightarrow> bool) \<Rightarrow> 'ix Instruction list list \<Rightarrow> tx_results \<Rightarrow> 'w \<Rightarrow> bool" where
  "results_landed c landed txs rs w \<longleftrightarrow>
     length rs = length txs \<and>
     (\<forall>i<length txs. rs ! i = Inr () \<longrightarrow> (\<exists>s. signature_of c txs i s \<and> landed s w))"

lemma results_landed_mono:
  "results_landed c landed txs rs w \<Longrightarrow> (\<And>s. landed s w \<Longrightarrow> landed s w') \<Longrightarrow> results_landed c landed txs rs w'"
  unfolding results_landed_def by blast

lemma results_landed_error:
  "results_landed c landed txs rs w \<Longrightarrow> results_landed c landed txs (rs[i := Inl e]) w"
  unfolding results_landed_def
  by (metis Inl_Inr_False length_list_update nth_list_update_eq nth_list_update_neq)

lemma results_landed_ok:
  "results_landed c landed txs rs w \<Longrightarrow> signature_of c txs i s \<Longrightarrow> landed s w \<Longrightarrow>
   results_landed c landed txs (rs[i := Inr ()]) w"
  unfolding results_landed_def by (auto simp: nth_list_update signature_of_def)

lemma set_update: "set (AList.update k v al) \<subseteq> insert (k, v) (set al)"
  by (induction al) auto

lemma update_ne_Nil [simp]: "AList.update k v al \<noteq> []"
  by (cases al) auto

definition submitted_ok :: "('w, 'ix, 'z) RpcClient_scheme \<Rightarrow> 'ix Instruction list list \<Rightarrow> (Signature \<times> nat) list \<Rightarrow> bool" where
  "submitted_ok c txs sub \<longleftrightarrow> (\<forall>(s, i)\<in>set sub. signature_of c txs i s)"

lemma submitted_ok_update:
  "submitted_ok c txs sub \<Longrightarrow> signature_of c txs i s \<Longrightarrow> submitted_ok c txs (AList.update s i sub)"
  unfolding submitted_ok_def using set_update [of s i sub] by blast

lemma honest_nodeD:
  assumes "honest_node c landed"
  shows "calls_respect c (\<lambda>w w'. \<forall>s. landed s w \<longrightarrow> landed s w')"
    "rpc_send_transaction c tx w = (Inr s, w') \<Longrightarrow> s = tx_signature tx"
    "rpc_signature_statuses c sigs w = (Inr sts, w') \<Longrightarrow> (s, st) \<in> set (zip sigs sts) \<Longrightarrow> is_confirmed st \<Longrightarrow> landed s w'"
    "set (hash_order c xs) = set xs"
  using assms unfolding honest_node_def by blast+

lemma send_one_landed:
  assumes honest: "honest_node c landed" and i: "i < length txs" "tx = new_signed_with_payer c (txs ! i) h"
    and pre: "results_landed c landed txs (sd_results s) (sd_world s)" "submitted_ok c txs (submitted_signatures s)"
  shows "results_landed c landed txs (sd_results (send_one c (i, tx) s)) (sd_world (send_one c (i, tx) s)) \<and>
    submitted_ok c txs (submitted_signatures (send_one c (i, tx) s))"
proof (cases "is_ok (sd_results s ! i) \<or> is_preflight_failure (sd_results s ! i)")
  case True
  then show ?thesis using pre by (simp add: send_one_def)
next
  case False
  define w where "w = (if i mod 20 = 0 then rpc_sleep c 1 (sd_world s) else sd_world s)"
  obtain r v where send: "rpc_send_transaction c tx w = (r, v)" by (cases "rpc_send_transaction c tx w")
  note calls = calls_respectD [OF honest_nodeD(1) [OF honest]]
  have "\<forall>s'. landed s' (sd_world s) \<longrightarrow> landed s' v"
    using calls(4) [OF send] calls(7) [of "sd_world s" 1] unfolding w_def by (auto split: if_splits)
  then have pre': "results_landed c landed txs (sd_results s) v" using pre(1) results_landed_mono by metis
  have sig: "signature_of c txs i (tx_signature tx)"
    using i by (auto simp: signature_of_def new_signed_with_payer_def)
  have eq: "send_one c (i, tx) s = (case rpc_send_transaction c tx w of
          (Inr signature, w) \<Rightarrow>
            s\<lparr>submitted_signatures := AList.update signature i (submitted_signatures s), sd_world := w\<rparr>
        | (Inl e, w) \<Rightarrow>
            (case ce_transaction_error e of
               Some BlockhashNotFound \<Rightarrow> s\<lparr>is_blockhash_not_found := True, sd_world := w\<rparr>
             | Some AlreadyProcessed \<Rightarrow>
                 s\<lparr>submitted_signatures := AList.update (tx_signature tx) i (submitted_signatures s),
                   sd_world := w\<rparr>
             | Some (OtherTransactionError t) \<Rightarrow>
                 s\<lparr>sd_results := (sd_results s)[i := Inl (send_error (ce_kind e))], sd_world := w\<rparr>
             | None \<Rightarrow>
                 s\<lparr>sd_results := (sd_results s)[i :=
                      Inl (SendTransactionError (''None transaction error '' @ ce_text e))], sd_world := w\<rparr>))"
    using False by (simp add: send_one_def Let_def w_def)
  show ?thesis
  proof (cases r)
    case (Inr sg)
    then have "sg = tx_signature tx" using honest_nodeD(2) [OF honest] send by metis
    then show ?thesis using eq send Inr pre' pre(2) sig submitted_ok_update by simp
  next
    case (Inl e)
    then show ?thesis using eq send pre' pre(2) sig
      by (auto split: option.split TransactionError.split intro: submitted_ok_update results_landed_error)
  qed
qed

lemma send_all_landed:
  assumes honest: "honest_node c landed" and pre: "results_landed c landed txs rs w"
  shows "results_landed c landed txs (sd_results (send_all c (sign_txs c txs h) rs w)) (sd_world (send_all c (sign_txs c txs h) rs w)) \<and>
    submitted_ok c txs (submitted_signatures (send_all c (sign_txs c txs h) rs w))"
  unfolding send_all_def
proof (rule fold_invariant [where Q = "\<lambda>(i, tx). i < length txs \<and> tx = new_signed_with_payer c (txs ! i) h"])
  show "case x of (i, tx) \<Rightarrow> i < length txs \<and> tx = new_signed_with_payer c (txs ! i) h"
    if "x \<in> set (enumerate 0 (sign_txs c txs h))" for x
    using that by (auto simp: in_set_enumerate_eq sign_txs_def)
  show "results_landed c landed txs (sd_results (send_one c x s)) (sd_world (send_one c x s)) \<and>
      submitted_ok c txs (submitted_signatures (send_one c x s))"
    if "case x of (i, tx) \<Rightarrow> i < length txs \<and> tx = new_signed_with_payer c (txs ! i) h"
      "results_landed c landed txs (sd_results s) (sd_world s) \<and> submitted_ok c txs (submitted_signatures s)" for x s
    using that send_one_landed [OF honest] by (cases x) auto
qed (use pre in \<open>simp add: submitted_ok_def\<close>)

lemma confirm_batch_landed:
  assumes honest: "honest_node c landed" and ok: "confirm_batch c batch w = Ok (sts, w')"
  shows "(\<forall>s. landed s w \<longrightarrow> landed s w') \<and>
    (\<forall>(s, st)\<in>set sts. s \<in> set batch \<and> (is_confirmed st \<longrightarrow> landed s w'))"
proof -
  let ?R = "\<lambda>w w'. \<forall>s. landed s w \<longrightarrow> landed s w'"
  note calls = honest_nodeD(1) [OF honest]
  have f: "?R v (snd (rpc_signature_statuses c batch v))" for v
    using calls_respectD(5) [OF calls] by (metis prod.collapse)
  obtain r v where r: "get_signature_statuses_with_retry c batch w = (r, v)" by fastforce
  then have "retry_with_pause c (rpc_signature_statuses c batch) 3 w = (r, v)"
    by (simp add: get_signature_statuses_with_retry_def)
  then obtain u where u: "?R w u" "rpc_signature_statuses c batch u = (r, v)"
    using retry_with_pause_cases [OF _ calls f] by blast
  have "?R w v" using u f [of u] by simp
  moreover have "\<forall>(s, st)\<in>set (zip batch x). is_confirmed st \<longrightarrow> landed s v" if "r = Inr x" for x
    using honest_nodeD(3) [OF honest] u(2) that by blast
  ultimately show ?thesis
    using ok r unfolding confirm_batch_def
    by (cases r) (auto split: if_splits dest: set_zip_leftD)
qed

lemma parallel_confirm_landed:
  assumes honest: "honest_node c landed" and ok: "parallel_confirm_transactions c sigs w = Ok (confirmed, w')"
  shows "(\<forall>s. landed s w \<longrightarrow> landed s w') \<and> (\<forall>s\<in>set confirmed. landed s w' \<and> s \<in> set sigs)"
proof -
  define I where "I = (\<lambda>(cf, v). (\<forall>s. landed s w \<longrightarrow> landed s v) \<and> (\<forall>s\<in>set cf. landed s v \<and> s \<in> set sigs))"
  have "I (confirmed, w')"
  proof (rule for_each_invariant [OF ok [unfolded parallel_confirm_transactions_def]])
    show "I ([], w)" by (simp add: I_def)
    fix batch s t
    assume batch: "batch \<in> set (chunks_of SIG_STATUS_BATCH_SIZE (hash_order c sigs))" and "I s"
      and step: "(case s of (confirmed, w) \<Rightarrow> and_then (confirm_batch c batch w) (\<lambda>(sts, w).
           Ok (confirmed @ map fst (filter (is_confirmed \<circ> snd) sts), w))) = Ok t"
    obtain cf v where s: "s = (cf, v)" by (cases s)
    obtain sts u where u: "confirm_batch c batch v = Ok (sts, u)"
      and t: "t = (cf @ map fst (filter (is_confirmed \<circ> snd) sts), u)"
      using step s by (auto simp: and_then_eq_Inr)
    have "set batch \<subseteq> set sigs"
    proof -
      have "set batch \<subseteq> set (concat (chunks_of SIG_STATUS_BATCH_SIZE (hash_order c sigs)))" using batch by auto
      then show ?thesis by (simp add: SIG_STATUS_BATCH_SIZE_def honest_nodeD(4) [OF honest])
    qed
    then show "I t" using \<open>I s\<close> confirm_batch_landed [OF honest u] s t unfolding I_def by auto
  qed
  then show ?thesis by (simp add: I_def)
qed

lemma mark_confirmed_landed:
  assumes "mark_confirmed sub confirmed rs = Ok rs'" "submitted_ok c txs sub"
    and "\<forall>s\<in>set confirmed. landed s w" "results_landed c landed txs rs w"
  shows "results_landed c landed txs rs' w"
proof (rule for_each_invariant [where I = "\<lambda>rs. results_landed c landed txs rs w",
      OF assms(1) [unfolded mark_confirmed_def] assms(4)])
  fix s rs rs'
  assume s: "s \<in> set confirmed" and rs: "results_landed c landed txs rs w"
    and step: "and_then (ok_or (map_of sub s) Panic) (\<lambda>idx. arr_set rs idx (Inr ())) = Ok rs'"
  then obtain i where i: "map_of sub s = Some i" "rs' = rs[i := Inr ()]"
    by (auto simp: result_simps)
  then have "signature_of c txs i s" using assms(2) map_of_SomeD unfolding submitted_ok_def by fastforce
  then show "results_landed c landed txs rs' w"
    using results_landed_ok [OF rs] i(2) assms(3) s by blast
qed

definition execution_landed ::
  "('w, 'ix, 'z) RpcClient_scheme \<Rightarrow> (Signature \<Rightarrow> 'w \<Rightarrow> bool) \<Rightarrow> 'ix Instruction list list \<Rightarrow> ('w, 'ix) execution \<Rightarrow> bool" where
  "execution_landed c landed txs s \<longleftrightarrow>
     (\<exists>h. signed_txs s = sign_txs c txs h) \<and> results_landed c landed txs (ex_results s) (ex_world s)"

text \<open>What a turn leaves behind, whether it is the last one or not.\<close>

fun turn_landed ::
  "('w, 'ix, 'z) RpcClient_scheme \<Rightarrow> (Signature \<Rightarrow> 'w \<Rightarrow> bool) \<Rightarrow> 'ix Instruction list list \<Rightarrow> ('w, 'ix) execution + 'w executed \<Rightarrow> bool" where
  "turn_landed c landed txs (Inl s) = execution_landed c landed txs s"
| "turn_landed c landed txs (Inr (Inr (Inr rs, w))) = results_landed c landed txs rs w"
| "turn_landed c landed txs (Inr (Inr (Inl (TransactionClientError e rs), w))) = results_landed c landed txs rs w"
| "turn_landed c landed txs (Inr r) = True"

lemma refresh_signatures_landed:
  assumes honest: "honest_node c landed" and s: "execution_landed c landed txs s"
  shows "turn_landed c landed txs (refresh_signatures c txs h nf s)"
proof -
  note calls = honest_nodeD(1) [OF honest]
  obtain v w where v: "(if nf then (Inr False, ex_world s) else rpc_blockhash_valid c h (ex_world s)) = (v, w)"
    by fastforce
  then have w: "results_landed c landed txs (ex_results s) w"
    using s calls_respectD(6) [OF calls] unfolding execution_landed_def
    by (auto split: if_splits intro: results_landed_mono)
  obtain b u where b: "get_latest_blockhash_with_retry c w = (b, u)" by fastforce
  then have u: "results_landed c landed txs (ex_results s) u"
    using w get_latest_blockhash_respects [OF calls b] results_landed_mono by metis
  show ?thesis
    using v w u b s unfolding refresh_signatures_def v
    by (cases v; cases b) (auto simp: execution_landed_def)
qed

lemma execute_turn_landed:
  assumes honest: "honest_node c landed" and s: "execution_landed c landed txs s"
  shows "turn_landed c landed txs (execute_turn c txs rc ct h s)"
proof (cases "retries s < rc")
  case False
  then show ?thesis using s by (simp add: execute_turn_def execution_landed_def)
next
  case True
  define sd where "sd = send_all c (signed_txs s) (ex_results s) (ex_world s)"
  define w where "w = rpc_sleep c ct (sd_world sd)"
  have sd: "results_landed c landed txs (sd_results sd) (sd_world sd)" "submitted_ok c txs (submitted_signatures sd)"
    using send_all_landed [OF honest] s unfolding sd_def execution_landed_def by auto
  have w: "results_landed c landed txs (sd_results sd) w"
    using sd(1) calls_respectD(7) [OF honest_nodeD(1) [OF honest]] results_landed_mono unfolding w_def by metis
  have conf: "results_landed c landed txs rs v" if cm: "confirm_and_mark c sd w = Ok (rs, v)" for rs v
  proof -
    obtain cf where cf: "parallel_confirm_transactions c (map fst (submitted_signatures sd)) w = Ok (cf, v)"
      and mark: "mark_confirmed (submitted_signatures sd) cf (sd_results sd) = Ok rs"
      using cm unfolding confirm_and_mark_def by (auto simp: and_then_eq_Inr)
    note cl = parallel_confirm_landed [OF honest cf]
    then have "results_landed c landed txs (sd_results sd) v" using w results_landed_mono by metis
    then show ?thesis using mark_confirmed_landed [OF mark sd(2)] cl by blast
  qed
  show ?thesis
    using True sd(1) w conf s unfolding execute_turn_def Let_def sd_def [symmetric] w_def [symmetric]
    by (auto split: sum.split intro!: refresh_signatures_landed [OF honest] simp: execution_landed_def)
qed

text \<open>
  C25. A transaction that is reported as executed has landed. Whatever the node answers, when
  the engine returns it has one result for each transaction it was given, in their order, and
  the result of a transaction is \<^verbatim>\<open>Ok\<close> only if some signing of that transaction has landed
  on the chain; this also holds of the results inside the error it returns when the node
  fails half way. Of the node only this is assumed: it accepts a transaction under its own
  signature and confirms a signature only when its transaction has landed.
\<close>

theorem executed_transactions_have_landed:
  assumes "honest_node c landed"
    and "parallel_execute_transactions c txs retry_count confirmation_time w = Some (Ok (out, w'))"
    and "out = Inr rs \<or> (\<exists>e. out = Inl (TransactionClientError e rs))"
  shows "length rs = length txs \<and>
    (\<forall>i<length txs. rs ! i = Inr () \<longrightarrow> (\<exists>h. landed (sign c (txs ! i) h) w'))"
proof -
  have "results_landed c landed txs rs w'"
  proof (cases "txs = []")
    case True
    then show ?thesis using assms by (auto simp: parallel_execute_transactions_def results_landed_def)
  next
    case False
    obtain b v where b: "get_latest_blockhash_with_retry c w = (b, v)" by fastforce
    then obtain h where h: "b = Inr h"
      using assms(2,3) False by (cases b) (auto simp: parallel_execute_transactions_def)
    define s where "s = \<lparr>signed_txs = sign_txs c txs h, retries = 0,
        ex_results = replicate (length txs) (Inl ExceededRetries), ex_world = v\<rparr>"
    have ret: "iterate (execute_turn c txs retry_count confirmation_time h) s = Some (Ok (out, w'))"
      using assms(2) False b h by (simp add: parallel_execute_transactions_def s_def)
    have "turn_landed c landed txs (Inr (Ok (out, w')))"
    proof (rule iterate_returned [OF ret, where I = "execution_landed c landed txs"])
      show "execution_landed c landed txs s"
        by (auto simp: s_def execution_landed_def results_landed_def)
    qed (metis execute_turn_landed [OF assms(1)] turn_landed.simps(1), metis execute_turn_landed [OF assms(1)])
    then show ?thesis using assms(3) by auto
  qed
  then show ?thesis unfolding results_landed_def signature_of_def by blast
qed

section \<open>The engine returns\<close>

text \<open>
  How long the node goes on calling a blockhash valid: \<open>lifetime h w\<close> bounds the positive
  answers about \<open>h\<close> from the world \<open>w\<close> on. A node that answers about more signatures than
  it was asked makes the bot panic.
\<close>

definition blockhashes_expire :: "('w, 'ix, 'z) RpcClient_scheme \<Rightarrow> (Hash \<Rightarrow> 'w \<Rightarrow> nat) \<Rightarrow> bool" where
  "blockhashes_expire c lifetime \<longleftrightarrow>
     calls_respect c (\<lambda>w w'. \<forall>h. lifetime h w' \<le> lifetime h w) \<and>
     (\<forall>h w w'. rpc_blockhash_valid c h w = (Inr True, w') \<longrightarrow> lifetime h w' < lifetime h w)"

definition answers_what_is_asked :: "('w, 'ix, 'z) RpcClient_scheme \<Rightarrow> bool" where
  "answers_what_is_asked c \<longleftrightarrow>
     (\<forall>sigs w sts w'. rpc_signature_statuses c sigs w = (Inr sts, w') \<longrightarrow> length sts \<le> length sigs)"

lemma for_each_total:
  assumes "I s" "\<And>x s. x \<in> set xs \<Longrightarrow> I s \<Longrightarrow> \<exists>t. f x s = Inr t \<and> I t"
  shows "\<exists>t. for_each f xs s = Inr t \<and> I t"
  using assms
proof (induction xs arbitrary: s)
  case (Cons x xs)
  obtain u where u: "f x s = Inr u" "I u" using Cons.prems by (meson list.set_intros(1))
  have "\<exists>t. f y v = Inr t \<and> I t" if "y \<in> set xs" "I v" for y v
    using Cons.prems(2) that by (meson list.set_intros(2))
  then show ?case using Cons.IH [OF u(2)] u by auto
qed simp

lemma confirm_batch_ok:
  assumes "calls_respect c R" "answers_what_is_asked c"
  shows "\<exists>sts w'. confirm_batch c batch w = Ok (sts, w') \<and> R w w'"
proof -
  obtain r v where r: "get_signature_statuses_with_retry c batch w = (r, v)" by fastforce
  have f: "R u (snd (rpc_signature_statuses c batch u))" for u
    using calls_respectD(5) [OF assms(1)] by (metis prod.collapse)
  note r' = r [unfolded get_signature_statuses_with_retry_def]
  have "R w v" by (rule retry_with_pause_respects [OF r' assms(1) f])
  moreover have "length x \<le> length batch" if "r = Inr x" for x
    using retry_with_pause_cases [OF r' assms(1) f] assms(2) that unfolding answers_what_is_asked_def by blast
  ultimately show ?thesis using r by (cases r) (auto simp: confirm_batch_def)
qed

lemma parallel_confirm_ok:
  assumes "calls_respect c R" "answers_what_is_asked c"
  shows "\<exists>cf w'. parallel_confirm_transactions c sigs w = Ok (cf, w') \<and> R w w'"
proof -
  have "\<exists>t. parallel_confirm_transactions c sigs w = Ok t \<and> R w (snd t)"
    unfolding parallel_confirm_transactions_def
  proof (rule for_each_total)
    show "R w (snd ([], w))" using calls_respectD(1) [OF assms(1)] by simp
    fix batch and s :: "Signature list \<times> 'a"
    assume "R w (snd s)"
    obtain cf v where s: "s = (cf, v)" by (cases s)
    obtain sts u where "confirm_batch c batch v = Ok (sts, u)" "R v u" using confirm_batch_ok [OF assms] by blast
    then show "\<exists>t. (case s of (confirmed, w) \<Rightarrow> and_then (confirm_batch c batch w) (\<lambda>(sts, w).
           Ok (confirmed @ map fst (filter (is_confirmed \<circ> snd) sts), w))) = Ok t \<and> R w (snd t)"
      using s \<open>R w (snd s)\<close> calls_respectD(2) [OF assms(1)] by auto
  qed
  then show ?thesis by auto
qed

lemma mark_confirmed_ok:
  assumes "submitted_ok c txs sub" "set confirmed \<subseteq> fst ` set sub" "length rs = length txs"
  shows "\<exists>rs'. mark_confirmed sub confirmed rs = Ok rs'"
proof -
  have "\<exists>rs'. mark_confirmed sub confirmed rs = Ok rs' \<and> length rs' = length txs"
    unfolding mark_confirmed_def
  proof (rule for_each_total)
    fix s and rs :: tx_results
    assume "s \<in> set confirmed" and rs: "length rs = length txs"
    then obtain i where i: "map_of sub s = Some i"
      using assms(2) by (metis map_of_eq_None_iff not_None_eq subsetD)
    then have "i < length txs"
      using assms(1) map_of_SomeD unfolding submitted_ok_def signature_of_def by fastforce
    then show "\<exists>t. and_then (ok_or (map_of sub s) Panic) (\<lambda>idx. arr_set rs idx (Inr ())) = Ok t \<and> length t = length txs"
      using i rs by simp
  qed (use assms(3) in simp)
  then show ?thesis by blast
qed

lemma send_one_respects:
  assumes "calls_respect c R"
  shows "R (sd_world s) (sd_world (send_one c x s))"
proof -
  note calls = calls_respectD [OF assms]
  obtain i tx where x: "x = (i, tx)" by (cases x)
  define w where "w = (if i mod 20 = 0 then rpc_sleep c 1 (sd_world s) else sd_world s)"
  obtain r v where send: "rpc_send_transaction c tx w = (r, v)" by (cases "rpc_send_transaction c tx w")
  have "R (sd_world s) v" using calls(1,2,7) calls(4) [OF send] unfolding w_def by (metis (full_types))
  moreover have "sd_world (send_one c x s) \<in> {sd_world s, v}"
    using send unfolding x send_one_def w_def Let_def
    by (auto split: sum.split option.split TransactionError.split)
  ultimately show ?thesis using calls(1) by auto
qed

lemma send_all_respects:
  assumes "calls_respect c R"
  shows "R w (sd_world (send_all c stxs rs w))"
  unfolding send_all_def
proof (rule fold_invariant [where Q = "\<lambda>_. True"])
  show "R w (sd_world (send_one c x s))" if "R w (sd_world s)" for x s
    using that send_one_respects [OF assms] calls_respectD(2) [OF assms] by metis
qed (use calls_respectD(1) [OF assms] in auto)

lemma refresh_signatures_shorter:
  assumes "blockhashes_expire c lifetime" "refresh_signatures c txs h nf s = Inl t" "retries s < rc"
  shows "lifetime h (ex_world t) + (rc - retries t) < lifetime h (ex_world s) + (rc - retries s)"
proof -
  have calls: "calls_respect c (\<lambda>w w'. \<forall>h. lifetime h w' \<le> lifetime h w)"
    and dec: "\<And>w w'. rpc_blockhash_valid c h w = (Inr True, w') \<Longrightarrow> lifetime h w' < lifetime h w"
    using assms(1) unfolding blockhashes_expire_def by blast+
  obtain v w where v: "(if nf then (Inr False, ex_world s) else rpc_blockhash_valid c h (ex_world s)) = (v, w)"
    by fastforce
  then have w: "lifetime h w \<le> lifetime h (ex_world s)" using calls_respectD(6) [OF calls] by (auto split: if_splits)
  obtain b u where b: "get_latest_blockhash_with_retry c w = (b, u)" by fastforce
  then have u: "lifetime h u \<le> lifetime h w" using get_latest_blockhash_respects [OF calls b] by blast
  show ?thesis
  proof (cases "v = Inr True")
    case True
    then have "t = s\<lparr>ex_world := w\<rparr>" using assms(2) unfolding refresh_signatures_def v by simp
    moreover have "lifetime h w < lifetime h (ex_world s)" using v True dec by (auto split: if_splits)
    ultimately show ?thesis by simp
  next
    case False
    then have "ex_world t = u \<and> retries t = retries s + 1"
      using assms(2) b unfolding refresh_signatures_def v by (cases v; cases b) auto
    then show ?thesis using w u assms(3) by simp
  qed
qed

lemma execute_turn_shorter:
  assumes honest: "honest_node c landed" and answers: "answers_what_is_asked c"
    and exp: "blockhashes_expire c lifetime" and s: "execution_landed c landed txs s"
  shows "(\<forall>t. execute_turn c txs rc ct h s = Inl t \<longrightarrow>
      lifetime h (ex_world t) + (rc - retries t) < lifetime h (ex_world s) + (rc - retries s)) \<and>
    (\<forall>r. execute_turn c txs rc ct h s = Inr r \<longrightarrow> (\<exists>x. r = Ok x))"
proof (cases "retries s < rc")
  case False
  then show ?thesis by (auto simp: execute_turn_def)
next
  case True
  let ?R = "\<lambda>w w'. \<forall>h. lifetime h w' \<le> lifetime h w"
  have calls: "calls_respect c ?R" using exp unfolding blockhashes_expire_def by blast
  define sd where "sd = send_all c (signed_txs s) (ex_results s) (ex_world s)"
  define w where "w = rpc_sleep c ct (sd_world sd)"
  have sd: "length (sd_results sd) = length txs" "submitted_ok c txs (submitted_signatures sd)"
    using send_all_landed [OF honest] s unfolding sd_def execution_landed_def results_landed_def by fastforce+
  have w: "lifetime h w \<le> lifetime h (ex_world s)"
    using send_all_respects [OF calls] calls_respectD(7) [OF calls] le_trans unfolding w_def sd_def by metis
  obtain cf v where cf: "parallel_confirm_transactions c (map fst (submitted_signatures sd)) w = Ok (cf, v)" "?R w v"
    using parallel_confirm_ok [OF calls answers] by blast
  then have "set cf \<subseteq> fst ` set (submitted_signatures sd)" using parallel_confirm_landed [OF honest] by fastforce
  then obtain rs where "mark_confirmed (submitted_signatures sd) cf (sd_results sd) = Ok rs"
    using mark_confirmed_ok [OF sd(2) _ sd(1)] by blast
  then have conf: "confirm_and_mark c sd w = Ok (rs, v)" using cf by (simp add: confirm_and_mark_def)
  define s' where "s' = s\<lparr>ex_results := rs, ex_world := v\<rparr>"
  have v: "lifetime h v \<le> lifetime h (ex_world s)" using w cf(2) le_trans by blast
  have turn: "execute_turn c txs rc ct h s \<in> {Inr (Ok (Inr (sd_results sd), sd_world sd)), Inr (Ok (Inr (sd_results sd), w)),
      Inr (Ok (Inr rs, v)), refresh_signatures c txs h (is_blockhash_not_found sd) s'}"
    using True conf unfolding execute_turn_def Let_def sd_def [symmetric] w_def [symmetric] s'_def by auto
  have ret: "\<exists>x. r = Ok x" if "refresh_signatures c txs h nf s' = Inr r" for nf r
    using that unfolding refresh_signatures_def by (auto split: prod.splits sum.splits if_splits)
  show ?thesis
  proof (intro conjI allI impI)
    fix t assume t: "execute_turn c txs rc ct h s = Inl t"
    then have "refresh_signatures c txs h (is_blockhash_not_found sd) s' = Inl t" using turn by auto
    from refresh_signatures_shorter [OF exp this, of rc] True v
    show "lifetime h (ex_world t) + (rc - retries t) < lifetime h (ex_world s) + (rc - retries s)"
      by (simp add: s'_def)
  next
    fix r assume "execute_turn c txs rc ct h s = Inr r"
    then show "\<exists>x. r = Ok x" using turn ret by auto
  qed
qed

interpretation execution: loop "execute_turn c txs rc ct h" "\<lambda>s. honest_node c landed \<and> execution_landed c landed txs s"
  for c :: "('w, 'ix, 'z) RpcClient_scheme" and txs rc ct h landed
  by unfold_locales (metis execute_turn_landed turn_landed.simps(1))

text \<open>
  C26. The engine returns. On a node that is honest, answers about what it is asked and stops at
  some time calling a blockhash valid, \<^verbatim>\<open>parallel_execute_transactions\<close> returns without a
  panic for every list of transactions and every number of retries, although its loop counts
  a retry only when it has to sign again.
\<close>

theorem submission_returns:
  assumes honest: "honest_node c landed" and answers: "answers_what_is_asked c"
    and exp: "blockhashes_expire c lifetime"
  shows "\<exists>out w'. parallel_execute_transactions c txs retry_count confirmation_time w = Some (Ok (out, w'))"
proof -
  obtain b v where b: "get_latest_blockhash_with_retry c w = (b, v)" by fastforce
  show ?thesis
  proof (cases b)
    case (Inl e)
    then show ?thesis using b by (simp add: parallel_execute_transactions_def Let_def)
  next
    case (Inr h)
    let ?turn = "execute_turn c txs retry_count confirmation_time h"
    define s where "s = \<lparr>signed_txs = sign_txs c txs h, retries = 0,
        ex_results = replicate (length txs) (Inl ExceededRetries), ex_world = v\<rparr>"
    note shorter = execute_turn_shorter [OF honest answers exp, of txs _ retry_count confirmation_time h]
    have inv: "honest_node c landed \<and> execution_landed c landed txs s"
      using honest by (auto simp: s_def execution_landed_def results_landed_def)
    obtain r where r: "iterate ?turn s = Some r"
      using execution.loop_returns [of c landed txs s retry_count confirmation_time h
          "\<lambda>s. lifetime h (ex_world s) + (retry_count - retries s)"] inv shorter by blast
    have "\<exists>x. r = Ok x"
      by (rule execution.loop_result [OF r inv]) (use shorter in blast)
    then show ?thesis using r b Inr by (auto simp: parallel_execute_transactions_def Let_def s_def)
  qed
qed

text \<open>
  A node that lands every transaction at once. Its world is the list of the landed signatures
  and the number of times it will still call a blockhash valid.
\<close>

definition sample_node :: "(Signature list \<times> nat, unit) RpcClient" where
  "sample_node =
     \<lparr>rpc_latest_blockhash = (\<lambda>w. (Inr [7], w)),
      rpc_send_transaction = (\<lambda>tx (l, n). (Inr (tx_signature tx), (tx_signature tx # l, n))),
      rpc_signature_statuses = (\<lambda>sigs (l, n).
        (Inr (map (\<lambda>s. if s \<in> set l then Some \<lparr>satisfies_confirmed = True, status_err = None\<rparr> else None) sigs), (l, n))),
      rpc_blockhash_valid = (\<lambda>h (l, n). (Inr (0 < n), (l, n - 1))),
      rpc_simulate = (\<lambda>tx w. (Inr \<lparr>sim_err = None, sim_logs = None, sim_units_consumed = Some 1000\<rparr>, w)),
      rpc_sleep = (\<lambda>n w. w),
      sign = (\<lambda>ixs h. of_nat (length ixs) # h),
      hash_order = rev,
      packet_size = (\<lambda>tx. Some 200),
      accounts_len = (\<lambda>ix. 4),
      data_len = (\<lambda>ix. 8)\<rparr>"

lemma sample_node_honest: "honest_node sample_node (\<lambda>s (l, n). s \<in> set l)"
  unfolding honest_node_def calls_respect_def
  by (auto simp: sample_node_def is_confirmed_def reflp_def transp_def set_zip split: if_splits)

lemma sample_node_answers: "answers_what_is_asked sample_node"
  by (auto simp: answers_what_is_asked_def sample_node_def)

lemma sample_node_expires: "blockhashes_expire sample_node (\<lambda>h (l, n). n)"
  unfolding blockhashes_expire_def calls_respect_def
  by (auto simp: sample_node_def reflp_def transp_def)

lemma sample_execution:
  "parallel_execute_transactions sample_node [[Ix ()], [Ix (), Ix ()]] 3 20 ([], 5) =
     Some (Ok (Inr [Inr (), Inr ()], ([[2, 7], [1, 7]], 5)))"
proof -
  let ?s = "\<lparr>signed_txs = sign_txs sample_node [[Ix ()], [Ix (), Ix ()]] [7], retries = 0,
     ex_results = replicate 2 (Inl ExceededRetries), ex_world = ([], 5::nat)\<rparr>"
  have "execute_turn sample_node [[Ix ()], [Ix (), Ix ()]] 3 20 [7] ?s =
      Inr (Ok (Inr [Inr (), Inr ()], ([[2, 7], [1, 7]], 5)))"
    by (simp add: execute_turn_def send_all_def send_one_def sign_txs_def new_signed_with_payer_def
        sample_node_def Let_def is_ok_def numeral_2_eq_2 confirm_and_mark_def parallel_confirm_transactions_def
        chunks_of_Cons SIG_STATUS_BATCH_SIZE_def confirm_batch_def get_signature_statuses_with_retry_def
        numeral_3_eq_3 is_confirmed_def mark_confirmed_def)
  from iterate_Inr [of "execute_turn sample_node [[Ix ()], [Ix (), Ix ()]] 3 20 [7]" ?s, OF this] show ?thesis
    by (simp add: parallel_execute_transactions_def get_latest_blockhash_with_retry_def sample_node_def
        numeral_3_eq_3 numeral_2_eq_2)
qed

theorem executed_transactions_have_landed_witness:
  "parallel_execute_transactions sample_node [[Ix ()], [Ix (), Ix ()]] 3 20 ([], 5) =
     Some (Ok (Inr [Inr (), Inr ()], ([[2, 7], [1, 7]], 5))) \<and>
   (\<exists>h. sign sample_node [Ix ()] h \<in> set [[2, 7], [1, 7]])"
  using sample_execution executed_transactions_have_landed [OF sample_node_honest sample_execution, of "[Inr (), Inr ()]"]
  by (auto simp: sample_node_def)

theorem submission_returns_witness:
  "\<exists>out w'. parallel_execute_transactions sample_node [[Ix ()], [Ix (), Ix ()]] 3 20 ([], 5) = Some (Ok (out, w'))"
  by (rule submission_returns [OF sample_node_honest sample_node_answers sample_node_expires])

section \<open>Packing\<close>

lemma pack_groups_eq_Ok:
  "pack_groups gs = Ok txs \<longleftrightarrow>
     (\<forall>(n, g)\<in>set gs. 0 < n) \<and> txs = concat (map (\<lambda>(n, g). chunks_of n g) gs)"
proof -
  have "for_each (\<lambda>(n, g) acc. and_then (chunks n g) (\<lambda>cs. Ok (acc @ cs))) gs acc = Ok txs \<longleftrightarrow>
      (\<forall>(n, g)\<in>set gs. 0 < n) \<and> txs = acc @ concat (map (\<lambda>(n, g). chunks_of n g) gs)" for acc
    by (induction gs arbitrary: acc) (auto simp: chunks_def and_then_eq_Inr split: if_splits)
  then show ?thesis by (simp add: pack_groups_def)
qed

text \<open>The groups hold the instructions seen so far, each under its own size.\<close>

definition groups_of :: "('a \<times> nat) list \<Rightarrow> (nat \<times> 'a list) list \<Rightarrow> bool" where
  "groups_of seen gs \<longleftrightarrow>
     distinct (map fst gs) \<and> mset (concat (map snd gs)) = mset (map fst seen) \<and>
     (\<forall>(n, g)\<in>set gs. \<forall>x\<in>set g. (x, n) \<in> set seen)"

lemma concat_update:
  "distinct (map fst gs) \<Longrightarrow>
   mset (concat (map snd (AList.update k ((case map_of gs k of None \<Rightarrow> [] | Some g \<Rightarrow> g) @ [x]) gs))) =
   add_mset x (mset (concat (map snd gs)))"
proof (induction gs)
  case (Cons p gs)
  then show ?case by (cases p) (auto simp: map_of_eq_None_iff)
qed simp

lemma groups_of_push:
  assumes "groups_of seen gs"
  shows "groups_of (seen @ [(x, n)]) (push_group (x, n) gs)"
proof -
  define v where "v = (case map_of gs n of None \<Rightarrow> [] | Some g \<Rightarrow> g) @ [x]"
  have "\<forall>y\<in>set v. (y, n) \<in> set (seen @ [(x, n)])"
    using assms by (auto simp: v_def groups_of_def dest!: map_of_SomeD split: option.splits)
  then have "\<forall>(k, g)\<in>set (AList.update n v gs). \<forall>y\<in>set g. (y, k) \<in> set (seen @ [(x, n)])"
    using assms set_update [of n v gs] unfolding groups_of_def by fastforce
  then show ?thesis
    using assms concat_update [of gs n x] by (simp add: groups_of_def push_group_def v_def distinct_update)
qed

lemma groups_of_fold: "groups_of seen gs \<Longrightarrow> groups_of (seen @ xs) (fold push_group xs gs)"
proof (induction xs arbitrary: seen gs)
  case (Cons x xs)
  have "groups_of (seen @ [x]) (push_group x gs)" using groups_of_push [OF Cons.prems] by (cases x) simp
  then show ?case using Cons.IH [of "seen @ [x]"] by simp
qed simp

text \<open>
  The worlds in which the instructions are tried one after the other, and whether an
  instruction simulates without an error in a world: a block hash is found, and the simulation,
  repeated when the block hash was not, reports no error.
\<close>

fun trial_worlds :: "('w, 'ix, 'z) RpcClient_scheme \<Rightarrow> nat \<Rightarrow> nat \<Rightarrow> 'ix Instruction list \<Rightarrow> 'w \<Rightarrow> 'w list" where
  "trial_worlds c pf cu [] w = []"
| "trial_worlds c pf cu (ix # ixs) w = w # (case find_ix_per_tx c ix pf cu w of
     Inl e \<Rightarrow> [] | Inr (r, v) \<Rightarrow> trial_worlds c pf cu ixs v)"

definition simulates :: "('w, 'ix, 'z) RpcClient_scheme \<Rightarrow> nat \<Rightarrow> nat \<Rightarrow> 'ix Instruction \<Rightarrow> 'w \<Rightarrow> bool" where
  "simulates c pf cu ix w = (case get_latest_blockhash_with_retry c w of
      (Inl e, v) \<Rightarrow> False
    | (Inr blockhash, v) \<Rightarrow> (case simulate_instruction_with_retry c ix pf cu v of
         (Inl e, v) \<Rightarrow> False | (Inr response, v) \<Rightarrow> sim_err response = None))"

text \<open>How many copies of an instruction fit a transaction, as found in a world.\<close>

definition fits :: "('w, 'ix, 'z) RpcClient_scheme \<Rightarrow> nat \<Rightarrow> nat \<Rightarrow> 'ix Instruction \<Rightarrow> 'w \<Rightarrow> nat \<Rightarrow> bool" where
  "fits c pf cu ix w n \<longleftrightarrow> (\<exists>v. find_ix_per_tx c ix pf cu w = Ok (Inr n, v))"

lemma find_ix_simulates:
  "find_ix_per_tx c ix pf cu w = Ok (r, v) \<Longrightarrow> (case r of Inl e \<Rightarrow> \<not> simulates c pf cu ix w | Inr n \<Rightarrow> simulates c pf cu ix w)"
  by (auto simp: find_ix_per_tx_def simulates_def and_then_eq_Inr split: prod.splits sum.splits option.splits)

lemma pack_grouping:
  assumes "for_each (\<lambda>instruction (grouping, w).
       and_then (find_ix_per_tx c instruction pf cu w) (\<lambda>(r, w).
         Ok (case r of Inr n \<Rightarrow> grouping @ [(instruction, n)] | Inl e \<Rightarrow> grouping, w))) ixs (acc, w) = Ok (grouping, w')"
  shows "length (trial_worlds c pf cu ixs w) = length ixs \<and> (\<exists>new. grouping = acc @ new \<and>
    list_all2 (\<lambda>(ix, n) (iy, v). ix = iy \<and> fits c pf cu iy v n) new
      (filter (\<lambda>(ix, v). simulates c pf cu ix v) (zip ixs (trial_worlds c pf cu ixs w))))"
  using assms
proof (induction ixs arbitrary: acc w)
  case (Cons ix ixs)
  obtain r v where r: "find_ix_per_tx c ix pf cu w = Ok (r, v)" using Cons.prems by (auto simp: and_then_eq_Inr)
  define acc' where "acc' = (case r of Inr n \<Rightarrow> acc @ [(ix, n)] | Inl e \<Rightarrow> acc)"
  obtain new where new: "length (trial_worlds c pf cu ixs v) = length ixs" "grouping = acc' @ new"
    "list_all2 (\<lambda>(ix, n) (iy, v). ix = iy \<and> fits c pf cu iy v n) new
      (filter (\<lambda>(ix, v). simulates c pf cu ix v) (zip ixs (trial_worlds c pf cu ixs v)))"
    using Cons.IH [of acc' v] Cons.prems r by (auto simp: acc'_def)
  show ?case
  proof (cases r)
    case (Inl e)
    then show ?thesis using new r find_ix_simulates [OF r] by (auto simp: acc'_def)
  next
    case (Inr n)
    then have "fits c pf cu ix w n" using r by (auto simp: fits_def)
    then show ?thesis using new r Inr find_ix_simulates [OF r]
      by (auto simp: acc'_def intro!: exI [of _ "(ix, n) # new"])
  qed
qed simp

lemma same_firsts: "list_all2 (\<lambda>(x, n) (y, v). x = y \<and> P y v n) xs ys \<Longrightarrow> map fst xs = map fst ys"
  by (induction rule: list_all2_induct) auto

lemma paired: "list_all2 (\<lambda>(x, n) (y, v). x = y \<and> P y v n) xs ys \<Longrightarrow> (x, n) \<in> set xs \<Longrightarrow>
    \<exists>v. (x, v) \<in> set ys \<and> P x v n"
  by (induction rule: list_all2_induct) auto

text \<open>
  C28. Packing loses no instruction that simulates and keeps every transaction within its
  bounds. The instructions are tried one after the other, each in the world that the ones before
  it leave. The instructions of the transactions that \<^verbatim>\<open>pack_instructions\<close> returns are, up to
  their order, exactly the given ones that simulate without an error when it is their turn, each
  as often as it was given and did; no other and none of them missing. No transaction is empty,
  and none holds more instructions than each of them allows by its own size and compute units.
  The order in which the hash map of the groups is traversed does not matter.
\<close>

theorem packing_keeps_the_instructions:
  assumes pack: "pack_instructions c map_order ixs priority_fee max_cu w = Ok (txs, w')"
    and order: "\<And>gs. mset (map_order gs) = mset gs"
  defines "worlds \<equiv> trial_worlds c priority_fee max_cu ixs w"
  defines "kept \<equiv> filter (\<lambda>(ix, v). simulates c priority_fee max_cu ix v) (zip ixs worlds)"
  shows "length worlds = length ixs \<and> mset (concat txs) = mset (map fst kept) \<and>
    (\<forall>tx\<in>set txs. tx \<noteq> [] \<and>
       (\<exists>n. length tx \<le> n \<and> (\<forall>ix\<in>set tx. \<exists>v. (ix, v) \<in> set kept \<and> fits c priority_fee max_cu ix v n)))"
proof -
  obtain grouping where g: "for_each (\<lambda>instruction (grouping, w).
       and_then (find_ix_per_tx c instruction priority_fee max_cu w) (\<lambda>(r, w).
         Ok (case r of Inr n \<Rightarrow> grouping @ [(instruction, n)] | Inl e \<Rightarrow> grouping, w))) ixs ([], w) = Ok (grouping, w')"
    and txs: "pack_groups (map_order (fold push_group grouping [])) = Ok txs"
    using pack unfolding pack_instructions_def by (auto simp: and_then_eq_Inr)
  define gs where "gs = map_order (fold push_group grouping [])"
  have gr: "groups_of grouping (fold push_group grouping [])"
    using groups_of_fold [of "[]" "[]" grouping] by (simp add: groups_of_def)
  have same: "mset gs = mset (fold push_group grouping [])" by (simp add: gs_def order)
  have pos: "\<forall>(n, g)\<in>set gs. 0 < n" and eq: "txs = concat (map (\<lambda>(n, g). chunks_of n g) gs)"
    using txs by (auto simp: pack_groups_eq_Ok gs_def)
  have "concat txs = concat (map snd gs)"
    using pos unfolding eq by (induction gs) auto
  moreover have "mset (concat (map snd gs)) = mset (concat (map snd (fold push_group grouping [])))"
    using arg_cong [OF same, of "\<lambda>m. \<Sum>\<^sub># (image_mset (mset \<circ> snd) m)"]
    by (simp add: mset_concat image_mset.compositionality comp_def sum_mset_sum_list flip: mset_map)
  moreover have "\<forall>tx\<in>set txs. tx \<noteq> [] \<and> (\<exists>n. length tx \<le> n \<and> (\<forall>ix\<in>set tx. (ix, n) \<in> set grouping))"
  proof
    fix tx assume "tx \<in> set txs"
    then obtain n g where ng: "(n, g) \<in> set gs" "tx \<in> set (chunks_of n g)" by (auto simp: eq)
    then have n: "0 < n" using pos by auto
    have "set tx \<subseteq> set (concat (chunks_of n g))" using ng(2) by auto
    then have "set tx \<subseteq> set g" using n by simp
    moreover have "\<forall>x\<in>set g. (x, n) \<in> set grouping"
      using gr ng(1) mset_eq_setD [OF same] unfolding groups_of_def by fastforce
    ultimately show "tx \<noteq> [] \<and> (\<exists>n. length tx \<le> n \<and> (\<forall>ix\<in>set tx. (ix, n) \<in> set grouping))"
      using chunks_of_sizes [OF n ng(2)] by blast
  qed
  moreover have g': "length worlds = length ixs"
    "list_all2 (\<lambda>(ix, n) (iy, v). ix = iy \<and> fits c priority_fee max_cu iy v n) grouping kept"
    using pack_grouping [OF g] by (auto simp: kept_def worlds_def)
  ultimately show ?thesis
    using same_firsts [OF g'(2)] paired [OF g'(2)] gr by (simp add: groups_of_def) meson
qed

lemma retry_ok: "f w = (Inr x, w') \<Longrightarrow> retry f n w = (Inr x, w')"
  by (cases n) simp_all

lemma simulate_attempts_ok:
  "simulate w = (Inr r, w') \<Longrightarrow> sim_err r = None \<Longrightarrow> simulate_attempts c simulate n w = (Inr r, w')"
  by (cases n) simp_all

lemma sample_node_sizes: "find_ix_per_tx sample_node (Ix ()) 5 2000 w = Ok (Inr 2, w)"
proof -
  have "get_latest_blockhash_with_retry sample_node w = (Inr [7], w)"
    unfolding get_latest_blockhash_with_retry_def by (rule retry_ok) (simp add: sample_node_def)
  moreover have "simulate_instruction_with_retry sample_node (Ix ()) 5 2000 w =
      (Inr \<lparr>sim_err = None, sim_logs = None, sim_units_consumed = Some 1000\<rparr>, w)"
    unfolding simulate_instruction_with_retry_def
    by (rule simulate_attempts_ok) (simp_all add: simulate_instruction_def sample_node_def)
  moreover have "ix_per_tx sample_node (Ix ()) [7] 2000 1000 = Ok 2"
    by (simp add: ix_per_tx_def sample_node_def ACCOUNT_META_SIZE_def PACKET_DATA_SIZE_def panic_defs checked_defs)
  ultimately show ?thesis by (simp add: find_ix_per_tx_def)
qed

theorem packing_keeps_the_instructions_witness:
  "pack_instructions sample_node rev [Ix (), Ix ()] 5 2000 ([], 0) = Ok ([[Ix (), Ix ()]], ([], 0)) \<and>
   mset (concat [[Ix (), Ix ()]]) = mset (map fst (filter (\<lambda>(ix, v). simulates sample_node 5 2000 ix v)
     (zip [Ix (), Ix ()] (trial_worlds sample_node 5 2000 [Ix (), Ix ()] ([], 0)))))"
proof -
  have "chunks_of 2 [Ix (), Ix ()] = [[Ix (), Ix ()]]" by (simp add: chunks_of_Cons numeral_2_eq_2)
  then have "pack_instructions sample_node rev [Ix (), Ix ()] 5 2000 ([], 0) = Ok ([[Ix (), Ix ()]], ([], 0))"
    by (simp add: pack_instructions_def sample_node_sizes push_group_def pack_groups_def chunks_def)
  from this packing_keeps_the_instructions [OF this] show ?thesis by auto
qed

section \<open>Compute budgets\<close>

text \<open>
  The runtime accepts at most one instruction of each kind of compute budget in a transaction.
  Packaged transactions never have more than one, but a transaction that is executed in
  chunks with a compute limit other than the default carries two.
\<close>

fun is_compute_limit :: "'ix Instruction \<Rightarrow> bool" where
  "is_compute_limit (SetComputeUnitLimit n) = True"
| "is_compute_limit ix = False"

lemma packaged_budget:
  assumes "package_instructions (map Ix ixs) n priority_fee compute_limit heap_size = Ok txs"
  shows "\<forall>tx\<in>set txs. length (filter is_compute_limit tx) \<le> 1"
proof
  fix tx assume "tx \<in> set txs"
  then obtain ch where ch: "ch \<in> set (chunks_of n (map Ix ixs))" and "0 < n"
    and tx: "tx = configure_instruction ch priority_fee compute_limit heap_size"
    using assms by (auto simp: package_instructions_def chunks_def split: if_splits)
  have "set ch \<subseteq> set (concat (chunks_of n (map Ix ixs)))" using ch by auto
  then have "filter is_compute_limit ch = []" using \<open>0 < n\<close> by (auto simp: filter_empty_conv)
  then show "length (filter is_compute_limit tx) \<le> 1"
    unfolding tx configure_instruction_def by (auto split: option.split)
qed

lemma chunked_budget_is_doubled:
  "max_cu \<noteq> DEFAULT_COMPUTE_LIMIT \<Longrightarrow>
   2 \<le> length (filter is_compute_limit (add_budget priority_fee max_cu (SetComputeUnitLimit DEFAULT_COMPUTE_LIMIT # ixs)))"
  by (simp add: add_budget_def)

end
