(* ===== verification/Keeper_Maintenance.thy ===== *)
theory Keeper_Maintenance
  imports Keeper_Crank Submission_Properties Steward_Machine
begin

text \<open>
  The keeper bot together with the on-chain program. The world is a chain that executes every
  transaction at once: a transaction whose instructions succeed lands, one that fails is
  refused before it is sent. On such a chain the epoch maintenance of the keeper brings the
  steward into the new epoch when every validator that waits for its removal belongs to the
  pool, and never returns in two situations that the program can reach.
\<close>

section \<open>A chain that executes at once\<close>

record 'c chain =
  ch_state :: 'c
  ch_landed :: "Signature list"

definition run_instruction :: "('ix \<Rightarrow> 'c \<Rightarrow> 'c result) \<Rightarrow> 'ix Instruction \<Rightarrow> 'c \<Rightarrow> 'c result" where
  "run_instruction exec ix s = (case ix of Ix i \<Rightarrow> exec i s | _ \<Rightarrow> Ok s)"

definition run_transaction :: "('ix \<Rightarrow> 'c \<Rightarrow> 'c result) \<Rightarrow> 'ix Instruction list \<Rightarrow> 'c \<Rightarrow> 'c result" where
  "run_transaction exec = for_each (run_instruction exec)"

definition preflight_failure :: ClientError where
  "preflight_failure =
     \<lparr>ce_kind = SendTransactionPreflightFailure \<lparr>sim_err = Some (OtherTransactionError ''InstructionError''),
        sim_logs = None, sim_units_consumed = None\<rparr>,
      ce_transaction_error = Some (OtherTransactionError ''InstructionError''), ce_text = ''InstructionError''\<rparr>"

definition send_to_chain ::
  "('ix \<Rightarrow> 'c \<Rightarrow> 'c result) \<Rightarrow> 'ix Transaction \<Rightarrow> 'c chain \<Rightarrow> (ClientError + Signature) \<times> 'c chain" where
  "send_to_chain exec tx w =
     (case run_transaction exec (tx_instructions tx) (ch_state w) of
        Inl e \<Rightarrow> (Inl preflight_failure, w)
      | Inr s \<Rightarrow> (Inr (tx_signature tx), w\<lparr>ch_state := s, ch_landed := tx_signature tx # ch_landed w\<rparr>))"

definition chain_node ::
  "(keeper_ix \<Rightarrow> StewardStateV2 \<times> DirectedStakeMeta \<Rightarrow> (StewardStateV2 \<times> DirectedStakeMeta) result) \<Rightarrow> nat
   \<Rightarrow> ((StewardStateV2 \<times> DirectedStakeMeta) chain) keeper_client" where
  "chain_node exec epoch =
     \<lparr>rpc_latest_blockhash = (\<lambda>w. (Inr (to_le_bytes 8 (length (ch_landed w))), w)),
      rpc_send_transaction = send_to_chain exec,
      rpc_signature_statuses = (\<lambda>sigs w.
        (Inr (map (\<lambda>s. if s \<in> set (ch_landed w) then Some \<lparr>satisfies_confirmed = True, status_err = None\<rparr> else None) sigs), w)),
      rpc_blockhash_valid = (\<lambda>h w. (Inr False, w)),
      rpc_simulate = (\<lambda>tx w. (Inl preflight_failure, w)),
      rpc_sleep = (\<lambda>n w. w),
      sign = (\<lambda>ixs h. h),
      hash_order = id,
      packet_size = (\<lambda>tx. None),
      accounts_len = (\<lambda>ix. 0),
      data_len = (\<lambda>ix. 0),
      rpc_steward_state = (\<lambda>w. (Inr (fst (ch_state w)), w)),
      rpc_epoch = (\<lambda>w. (Inr epoch, w)),
      rpc_reserve_lamports = (\<lambda>w. (Inr 0, w)),
      rpc_stake_rent = (\<lambda>w. (Inr 0, w)),
      rpc_directed_stake_meta = (\<lambda>w. (Inr (snd (ch_state w)), w))\<rparr>"

lemma chain_node_simps [simp]:
  "rpc_steward_state (chain_node exec epoch) w = (Inr (fst (ch_state w)), w)"
  "rpc_epoch (chain_node exec epoch) w = (Inr epoch, w)"
  by (simp_all add: chain_node_def)

text \<open>Submitting one transaction executes it.\<close>

lemma submit_one:
  assumes run: "run_transaction exec tx (ch_state w) = Ok s" and n: "0 < n"
  shows "\<exists>landed. submit (chain_node exec epoch) [tx] n w =
    Some (Ok (Inr (stats_of [Inr ()]), w\<lparr>ch_state := s, ch_landed := landed\<rparr>))"
proof -
  let ?c = "chain_node exec epoch"
  let ?h = "to_le_bytes 8 (length (ch_landed w))"
  let ?w = "w\<lparr>ch_state := s, ch_landed := ?h # ch_landed w\<rparr>"
  let ?s = "\<lparr>signed_txs = sign_txs ?c [tx] ?h, retries = 0, ex_results = [Inl ExceededRetries], ex_world = w\<rparr>"
  have blockhash: "get_latest_blockhash_with_retry ?c w = (Inr ?h, w)"
    unfolding get_latest_blockhash_with_retry_def by (rule retry_ok) (simp add: chain_node_def)
  have sent: "send_all ?c (signed_txs ?s) (ex_results ?s) (ex_world ?s) =
      \<lparr>sd_results = [Inl ExceededRetries], submitted_signatures = [(?h, 0)], is_blockhash_not_found = False, sd_world = ?w\<rparr>"
    using run by (simp add: send_all_def send_one_def sign_txs_def new_signed_with_payer_def Let_def is_ok_def
        chain_node_def send_to_chain_def)
  have "confirm_and_mark ?c \<lparr>sd_results = [Inl ExceededRetries], submitted_signatures = [(?h, 0)],
      is_blockhash_not_found = False, sd_world = ?w\<rparr> ?w = Ok ([Inr ()], ?w)"
    by (simp add: confirm_and_mark_def parallel_confirm_transactions_def SIG_STATUS_BATCH_SIZE_def chain_node_def
        chunks_of_Cons confirm_batch_def get_signature_statuses_with_retry_def numeral_3_eq_3 is_confirmed_def
        mark_confirmed_def)
  moreover have "rpc_sleep ?c 20 ?w = ?w" by (simp add: chain_node_def)
  ultimately have turn: "execute_turn ?c [tx] n 20 ?h ?s = Inr (Ok (Inr [Inr ()], ?w))"
    using n sent by (simp add: execute_turn_def is_ok_def)
  have "parallel_execute_transactions ?c [tx] n 20 w = Some (Ok (Inr [Inr ()], ?w))"
    using blockhash iterate_Inr [of "execute_turn ?c [tx] n 20 ?h" ?s, OF turn]
    by (simp add: parallel_execute_transactions_def)
  then show ?thesis by (auto simp: submit_def submit_packaged_transactions_def submitted_stats_def)
qed

text \<open>
  A chain that runs epoch maintenance: the environment does not change, the stake pool has
  been updated, and every validator left in the list is active.
\<close>

definition runs_maintenance ::
  "crank_env \<Rightarrow> (keeper_ix \<Rightarrow> StewardStateV2 \<times> DirectedStakeMeta \<Rightarrow> (StewardStateV2 \<times> DirectedStakeMeta) result) \<Rightarrow> bool" where
  "runs_maintenance e exec \<longleftrightarrow>
     (\<forall>j s m. exec (EpochMaintenanceIx j) (s, m) =
        and_then (epoch_maintenance_handler e (Ok (clock_epoch (e_clock e))) j s m) (\<lambda>(s, m, evs). Ok (s, m)))"

definition list_settled :: "crank_env \<Rightarrow> nat \<Rightarrow> bool" where
  "list_settled e n \<longleftrightarrow> get_validator_list_length (e_list e) = Ok n \<and>
     check_validator_list_has_stake_status_other_than (e_status_byte e) (e_list e) [Active] = Ok False"

text \<open>The state counts the validators of the list and those that wait for their removal.\<close>

definition counts_match :: "nat \<Rightarrow> StewardStateV2 \<Rightarrow> bool" where
  "counts_match n s \<longleftrightarrow> num_pool_validators s + validators_added s =
     n + card (mask_bits (validators_to_remove s)) + card (mask_bits (validators_for_immediate_removal s))"

lemma maintenance_runs:
  assumes wf: "state_wf s" and list: "list_settled e n" and counts: "counts_match n s"
    and late: "current_epoch s < clock_epoch (e_clock e)"
    and p: "(case j of None \<Rightarrow> Ok (unset_flag EPOCH_MAINTENANCE s, m)
        | Some j \<Rightarrow> remove_validator j (unset_flag EPOCH_MAINTENANCE s) m) = Ok (s1, m1)"
  shows "\<exists>evs. epoch_maintenance_handler e (Ok (clock_epoch (e_clock e))) j s m =
    (if mask_bits (validators_to_remove s1) \<union> mask_bits (validators_for_immediate_removal s1) = {}
     then Ok (fst (start_epoch (clock_epoch (e_clock e)) s1 m1), snd (start_epoch (clock_epoch (e_clock e)) s1 m1), evs)
     else Ok (s1, m1, evs))"
proof -
  have inv: "mask_invar MAX_VALIDATORS (validators_to_remove s)" "mask_invar MAX_VALIDATORS (validators_for_immediate_removal s)"
    using wf by (simp_all add: state_wf_def)
  have "num_pool_validators s + validators_added s \<le> U64_MAX"
    using wf max_validators_limits by (simp add: state_wf_def)
  then show ?thesis
    using counts late list p bm.count_eq [OF inv(1)] bm.count_eq [OF inv(2)]
    by (auto simp: epoch_maintenance_handler_def list_settled_def counts_match_def Let_def plus_or_panic_def
        minus_or_panic_def checked_defs mask_is_empty_eq split: prod.split)
qed

section \<open>One turn of the keeper's loop\<close>

lemma takeWhile_shorter: "\<exists>x\<in>set xs. \<not> P x \<Longrightarrow> length (takeWhile P xs) < length xs"
  by (induction xs) auto

lemma first_marked_cases:
  assumes "mask_invar MAX_VALIDATORS marks" "n \<le> MAX_VALIDATORS"
  shows "\<exists>r. first_marked n marks = Ok r \<and>
    (case r of None \<Rightarrow> \<forall>i<n. i \<notin> mask_bits marks | Some i \<Rightarrow> i < n \<and> i \<in> mask_bits marks)"
proof -
  let ?q = "\<lambda>i. i \<in> mask_bits marks"
  have pure: "first_marked n marks =
      Ok (if \<exists>i\<in>set [0..<n]. ?q i then Some (length (takeWhile (\<lambda>i. \<not> ?q i) [0..<n])) else None)"
    unfolding first_marked_def by (rule position_pure) (use assms in \<open>auto simp: bm.get_eq\<close>)
  show ?thesis
  proof (cases "\<exists>i\<in>set [0..<n]. ?q i")
    case True
    let ?k = "length (takeWhile (\<lambda>i. \<not> ?q i) [0..<n])"
    have k: "?k < n" using True takeWhile_shorter [of "[0..<n]" "\<lambda>i. \<not> ?q i"] by simp
    then have "?q ([0..<n] ! ?k)" using nth_length_takeWhile [of "\<lambda>i. \<not> ?q i" "[0..<n]"] by simp
    then show ?thesis using pure True k by simp
  next
    case False
    then show ?thesis using pure by auto
  qed
qed

text \<open>The variables of the loop that agree with a state of the chain.\<close>

definition maintenance_of :: "nat \<Rightarrow> StewardStateV2 \<Rightarrow> SubmitStats \<Rightarrow> maintenance" where
  "maintenance_of epoch s stats =
     \<lparr>mt_current_epoch = epoch, mt_state_epoch = current_epoch s, mt_num_validators = num_pool_validators s,
      mt_validators_to_remove = validators_to_remove s, mt_stats = stats\<rparr>"

lemma run_maintenance_transaction:
  assumes "runs_maintenance e exec"
    and "epoch_maintenance_handler e (Ok (clock_epoch (e_clock e))) j s m = Ok (s', m', evs)"
  shows "run_transaction exec (configure_instruction [Ix (EpochMaintenanceIx j)] pf cu None) (s, m) = Ok (s', m')"
  using assms
  by (cases pf; cases cu) (simp_all add: run_transaction_def configure_instruction_def run_instruction_def runs_maintenance_def)

lemma maintenance_turn_runs:
  assumes exec: "runs_maintenance e exec" and epoch: "epoch = clock_epoch (e_clock e)"
    and w: "ch_state w = (s, m)" and late: "current_epoch s \<noteq> epoch" and stats: "errors stats = 0"
    and found: "first_marked (num_pool_validators s) (validators_to_remove s) = Ok j"
    and run: "epoch_maintenance_handler e (Ok epoch) j s m = Ok (s', m', evs)"
  shows "\<exists>w' stats'. maintenance_turn (chain_node exec epoch) pf (maintenance_of epoch s stats) w =
      Some (Ok (Inr (Inl (maintenance_of epoch s' stats')), w')) \<and> ch_state w' = (s', m') \<and> errors stats' = 0"
proof -
  let ?c = "chain_node exec epoch"
  let ?tx = "configure_instruction [Ix (EpochMaintenanceIx j)] pf (map_option (\<lambda>_. 1400000) j) None"
  have "run_transaction exec ?tx (ch_state w) = Ok (s', m')"
    using run_maintenance_transaction [OF exec] run epoch w by simp
  then obtain landed where "submit ?c [?tx] 50 w =
      Some (Ok (Inr (stats_of [Inr ()]), w\<lparr>ch_state := (s', m'), ch_landed := landed\<rparr>))" (is "_ = Some (Ok (_, ?w))")
    using submit_one by (metis zero_less_numeral)
  moreover have "find_marked ''Error fetching bitmask index for removed validator'' (num_pool_validators s)
      (validators_to_remove s) w = Some (Ok (Inr j, w))"
    using found by (simp add: find_marked_def)
  moreover have "fetch_state ?c ?w = Some (Ok (Inr s', ?w))" by (simp add: fetch_state_def)
  moreover have "errors (combine stats (stats_of [Inr ()])) = 0"
    using stats by (simp add: combine_def stats_of_def is_ok_def)
  moreover have "crank_call JitoClientError (rpc_epoch ?c) ?w = Some (Ok (Inr epoch, ?w))"
    by (simp add: crank_call_def)
  ultimately show ?thesis
    using late
    by (simp add: maintenance_turn_def maintenance_of_def Let_def crank_return_def)
qed

lemma maintenance_turn_ends:
  "current_epoch s = epoch \<Longrightarrow>
   maintenance_turn c pf (maintenance_of epoch s stats) w = Some (Ok (Inr (Inr stats), w))"
  by (simp add: maintenance_turn_def maintenance_of_def crank_return_def)

section \<open>The keeper that never returns\<close>

text \<open>
  The turn in the form in which \<open>crank_loop\<close> iterates it.
\<close>

definition loop_body :: "('s \<Rightarrow> ('w, 's + 'a) crank) \<Rightarrow> 's \<times> 'w \<Rightarrow> 's \<times> 'w + ((JitoTransactionError + 'a) \<times> 'w) result option" where
  "loop_body body = (\<lambda>(s, w). case body s w of
         Some (Inr (Inr (Inl s), w)) \<Rightarrow> Inl (s, w)
       | Some (Inr (Inr (Inr x), w)) \<Rightarrow> Inr (Some (Ok (Inr x, w)))
       | Some (Inr (Inl e, w)) \<Rightarrow> Inr (Some (Ok (Inl e, w)))
       | Some (Inl e) \<Rightarrow> Inr (Some (Err e))
       | None \<Rightarrow> Inr None)"

lemma crank_loop_eq: "crank_loop body s w = Option.bind (iterate (loop_body body) (s, w)) id"
  by (simp add: crank_loop_def loop_body_def)

lemma loop_body_simps:
  "body s w = Some (Ok (Inr (Inl t), v)) \<Longrightarrow> loop_body body (s, w) = Inl (t, v)"
  "body s w = Some (Ok (Inr (Inr x), v)) \<Longrightarrow> loop_body body (s, w) = Inr (Some (Ok (Inr x, v)))"
  by (simp_all add: loop_body_def)

text \<open>The states of the chain between which the maintenance without a removal goes back and forth.\<close>

definition stuck :: "nat \<Rightarrow> nat \<Rightarrow> StewardStateV2 \<Rightarrow> bool" where
  "stuck epoch n s \<longleftrightarrow> state_wf s \<and> counts_match n s \<and> current_epoch s < epoch \<and>
     (\<forall>i<num_pool_validators s. i \<notin> mask_bits (validators_to_remove s)) \<and>
     (mask_bits (validators_to_remove s) \<noteq> {} \<or> mask_bits (validators_for_immediate_removal s) \<noteq> {})"

lemma stuck_turn:
  assumes exec: "runs_maintenance e exec" and epoch: "epoch = clock_epoch (e_clock e)"
    and list: "list_settled e n" and stuck: "stuck epoch n s" and w: "ch_state w = (s, m)" and stats: "errors stats = 0"
  shows "\<exists>s' w' stats'. maintenance_turn (chain_node exec epoch) pf (maintenance_of epoch s stats) w =
      Some (Ok (Inr (Inl (maintenance_of epoch s' stats')), w')) \<and> ch_state w' = (s', m) \<and> stuck epoch n s' \<and> errors stats' = 0"
proof -
  let ?s = "unset_flag EPOCH_MAINTENANCE s"
  have wf: "state_wf s" and late: "current_epoch s < clock_epoch (e_clock e)" and counts: "counts_match n s"
    using stuck epoch by (simp_all add: stuck_def)
  have inv: "mask_invar MAX_VALIDATORS (validators_to_remove s)" "num_pool_validators s \<le> MAX_VALIDATORS"
    using wf by (simp_all add: state_wf_def)
  obtain r where r: "first_marked (num_pool_validators s) (validators_to_remove s) = Ok r"
      "case r of None \<Rightarrow> True | Some i \<Rightarrow> i < num_pool_validators s \<and> i \<in> mask_bits (validators_to_remove s)"
    using first_marked_cases [OF inv] by (auto split: option.splits)
  have "r = None" using r(2) stuck by (auto simp: stuck_def split: option.splits)
  then have found: "first_marked (num_pool_validators s) (validators_to_remove s) = Ok None" using r(1) by simp
  have same: "validators_to_remove ?s = validators_to_remove s"
    "validators_for_immediate_removal ?s = validators_for_immediate_removal s" by (simp_all add: unset_flag_def)
  have p: "(case None of None \<Rightarrow> Ok (?s, m) | Some j \<Rightarrow> remove_validator j ?s m) = Ok (?s, m)" by simp
  obtain evs where run: "epoch_maintenance_handler e (Ok epoch) None s m = Ok (?s, m, evs)"
  proof -
    have "mask_bits (validators_to_remove ?s) \<union> mask_bits (validators_for_immediate_removal ?s) \<noteq> {}"
      using stuck same by (auto simp: stuck_def)
    then show thesis using that maintenance_runs [OF wf list counts late p] epoch by metis
  qed
  have ne: "current_epoch s \<noteq> epoch" using late epoch by simp
  have "stuck epoch n ?s"
    using stuck by (auto simp: stuck_def counts_match_def unset_flag_def state_wf_def)
  then show ?thesis
    using maintenance_turn_runs [OF exec epoch w ne stats found run, of pf] by blast
qed

text \<open>
  C35. The keeper can wait forever for the new epoch. When a validator is marked for removal
  that was added to the pool in this cycle, and so lies behind the validators that the keeper
  looks at, or one is left that was marked for immediate removal, and no other mark is left,
  every transaction of the keeper's epoch maintenance succeeds without removing anything or
  starting the epoch, and \<^verbatim>\<open>_handle_epoch_maintenance\<close> never returns. The chain executes
  every transaction at once, so nothing else is at fault.
\<close>

theorem keeper_maintenance_can_run_forever:
  assumes exec: "runs_maintenance e exec" and list: "list_settled e n"
    and wf: "state_wf s" and counts: "counts_match n s" and late: "current_epoch s < clock_epoch (e_clock e)"
    and none: "\<forall>i<num_pool_validators s. i \<notin> mask_bits (validators_to_remove s)"
    and some: "mask_bits (validators_to_remove s) \<union> mask_bits (validators_for_immediate_removal s) \<noteq> {}"
    and accs: "state_account accs = s" "ch_state w = (s, m)"
  shows "handle_epoch_maintenance (chain_node exec (clock_epoch (e_clock e))) (clock_epoch (e_clock e)) accs pf w = None"
proof -
  define epoch where "epoch = clock_epoch (e_clock e)"
  let ?c = "chain_node exec epoch"
  let ?turn = "maintenance_turn ?c pf"
  define I where "I = (\<lambda>(v, w :: (StewardStateV2 \<times> DirectedStakeMeta) chain). \<exists>s stats. v = maintenance_of epoch s stats \<and> ch_state w = (s, m) \<and>
      stuck epoch n s \<and> errors stats = 0)"
  have step: "\<exists>q. loop_body ?turn p = Inl q \<and> I q" if "I p" for p
  proof -
    obtain v w s stats where p: "p = (v, w)" "v = maintenance_of epoch s stats" "ch_state w = (s, m)"
      "stuck epoch n s" "errors stats = 0" using \<open>I p\<close> by (cases p) (auto simp: I_def)
    obtain s' w' stats' where turn: "?turn v w = Some (Ok (Inr (Inl (maintenance_of epoch s' stats')), w'))"
      "ch_state w' = (s', m)" "stuck epoch n s'" "errors stats' = 0"
      using stuck_turn [OF exec epoch_def list p(4,3,5)] p(2) by blast
    then show ?thesis using p(1) loop_body_simps(1) [of ?turn v w, OF turn(1)] by (auto simp: I_def)
  qed
  have "loop (loop_body ?turn) I" by unfold_locales (use step in force)
  moreover have "I (maintenance_of epoch s SubmitStats_default, w)"
    using wf counts late none some accs by (auto simp: I_def stuck_def epoch_def SubmitStats_default_def)
  ultimately have "iterate (loop_body ?turn) (maintenance_of epoch s SubmitStats_default, w) = None"
    using loop.loop_diverges [of "loop_body ?turn" I] step by blast
  then show ?thesis
    using accs by (simp add: handle_epoch_maintenance_def crank_loop_eq maintenance_of_def epoch_def)
qed

section \<open>The keeper that reaches the new epoch\<close>

definition pending :: "nat \<Rightarrow> nat \<Rightarrow> StewardStateV2 \<Rightarrow> DirectedStakeMeta \<Rightarrow> bool" where
  "pending epoch n s m \<longleftrightarrow> state_wf s \<and> meta_wf m \<and> counts_match n s \<and> current_epoch s < epoch \<and>
     mask_bits (validators_to_remove s) \<subseteq> {..<num_pool_validators s} \<and> mask_bits (validators_for_immediate_removal s) = {}"

definition settled :: "nat \<Rightarrow> nat \<Rightarrow> StewardStateV2 \<Rightarrow> bool" where
  "settled epoch n s \<longleftrightarrow> current_epoch s = epoch \<and> state_tag s = RebalanceDirected \<and>
     mask_bits (validators_to_remove s) = {} \<and> mask_bits (validators_for_immediate_removal s) = {} \<and>
     num_pool_validators s + validators_added s = n"

text \<open>The marks after a marked validator of the pool has been removed.\<close>

lemma marks_after_removal:
  assumes "closes_gap_bits i (k + a) A B" "i \<in> A" "A \<subseteq> {..<Suc k}"
  shows "B \<subseteq> {..<k} \<and> card B = card A - 1"
proof -
  have B: "j \<in> B \<longleftrightarrow> j < k + a \<and> skip i j \<in> A" for j
    using assms unfolding closes_gap_bits_def
    by (cases j "k + a" rule: linorder_cases) (auto simp: less_Suc_eq subset_iff)
  have i: "i \<le> k" using assms(2,3) by auto
  have "B \<subseteq> {..<k}"
  proof
    fix j assume "j \<in> B"
    then have "skip i j < Suc k" using B [of j] assms(3) by auto
    then show "j \<in> {..<k}" using i by (auto simp: skip_def split: if_splits)
  qed
  moreover have "skip i ` B = A - {i}"
  proof (intro subset_antisym subsetI)
    fix x assume "x \<in> skip i ` B"
    then obtain j where j: "x = skip i j" "j \<in> B" by blast
    moreover have "skip i j \<noteq> i" by (simp add: skip_def)
    ultimately show "x \<in> A - {i}" using B [of j] by simp
  next
    fix x assume x: "x \<in> A - {i}"
    then have "lowered i x < k + a" using assms(3) i by (auto simp: lowered_def)
    then have "lowered i x \<in> B" using B [of "lowered i x"] lowered_skip [of x i] x by simp
    then show "x \<in> skip i ` B" using lowered_skip x by (metis DiffE image_eqI singletonI)
  qed
  moreover have "inj_on (skip i) B" by (auto simp: inj_on_def skip_def split: if_splits)
  ultimately show ?thesis using assms(2) by (metis card_Diff_singleton card_image)
qed

lemma maintenance_step:
  assumes list: "list_settled e n" and pend: "pending (clock_epoch (e_clock e)) n s m"
  shows "\<exists>j s' m' evs. first_marked (num_pool_validators s) (validators_to_remove s) = Ok j \<and>
    epoch_maintenance_handler e (Ok (clock_epoch (e_clock e))) j s m = Ok (s', m', evs) \<and>
    (settled (clock_epoch (e_clock e)) n s' \<or> pending (clock_epoch (e_clock e)) n s' m' \<and>
      card (mask_bits (validators_to_remove s')) < card (mask_bits (validators_to_remove s)))"
proof -
  let ?s = "unset_flag EPOCH_MAINTENANCE s" and ?A = "mask_bits (validators_to_remove s)"
  have wf: "state_wf s" "meta_wf m" "state_wf ?s" and late: "current_epoch s < clock_epoch (e_clock e)"
    and counts: "counts_match n s" and A: "?A \<subseteq> {..<num_pool_validators s}"
    and imm: "mask_bits (validators_for_immediate_removal s) = {}"
    using pend by (simp_all add: pending_def state_wf_def unset_flag_def)
  have inv: "mask_invar MAX_VALIDATORS (validators_to_remove s)" "num_pool_validators s \<le> MAX_VALIDATORS"
    using wf by (simp_all add: state_wf_def)
  obtain j where j: "first_marked (num_pool_validators s) (validators_to_remove s) = Ok j"
    "case j of None \<Rightarrow> \<forall>i<num_pool_validators s. i \<notin> ?A | Some i \<Rightarrow> i < num_pool_validators s \<and> i \<in> ?A"
    using first_marked_cases [OF inv] by blast
  have sett: "settled (clock_epoch (e_clock e)) n (fst (start_epoch (clock_epoch (e_clock e)) s1 m1))"
    if "mask_bits (validators_to_remove s1) = {}" "mask_bits (validators_for_immediate_removal s1) = {}"
      "num_pool_validators s1 + validators_added s1 = n" for s1 m1
    using that by (simp add: settled_def start_epoch_def Let_def set_flag_def unset_flag_def)
  show ?thesis
  proof (cases j)
    case None
    then have "?A = {}" using j(2) A by auto
    then have none: "mask_bits (validators_to_remove ?s) = {}" "mask_bits (validators_for_immediate_removal ?s) = {}"
      "num_pool_validators ?s + validators_added ?s = n"
      using imm counts by (simp_all add: unset_flag_def counts_match_def)
    have p: "(case None of None \<Rightarrow> Ok (?s, m) | Some j \<Rightarrow> remove_validator j ?s m) = Ok (?s, m)" by simp
    from maintenance_runs [OF wf(1) list counts late p] none sett [OF none] j(1) None show ?thesis by fastforce
  next
    case (Some i)
    then have i: "i < num_pool_validators ?s" "i \<in> mask_bits (validators_to_remove ?s) \<union> mask_bits (validators_for_immediate_removal ?s)"
      using j(2) by (simp_all add: unset_flag_def)
    obtain s1 m1 where rm: "remove_validator i ?s m = Ok (s1, m1)" "state_wf s1" "meta_wf m1" "removed i ?s m s1 m1"
      using remove_validator_ok [OF wf(3,2) i] by blast
    let ?k = "num_pool_validators s1" and ?B = "mask_bits (validators_to_remove s1)"
    have k: "Suc ?k = num_pool_validators s" "validators_added s1 = validators_added s"
      and gap: "closes_gap_bits i (?k + validators_added s) ?A ?B"
      and gap': "closes_gap_bits i (?k + validators_added s) {} (mask_bits (validators_for_immediate_removal s1))"
      using rm(4) imm by (simp_all add: removed_def Let_def unset_flag_def)
    have B: "?B \<subseteq> {..<?k}" "card ?B = card ?A - 1" "0 < card ?A"
      using marks_after_removal [OF gap] A k(1) i(2) imm bm.bits_finite
      by (auto simp: unset_flag_def card_gt_0_iff)
    have B': "mask_bits (validators_for_immediate_removal s1) = {}"
      using gap' unfolding closes_gap_bits_def by (auto, metis linorder_cases)
    have stage: "current_epoch s1 = current_epoch s"
      using ok_allD [OF remove_validator_stage rm(1)] by (simp add: same_stage_def unset_flag_def)
    have p: "(case Some i of None \<Rightarrow> Ok (?s, m) | Some j \<Rightarrow> remove_validator j ?s m) = Ok (s1, m1)" using rm(1) by simp
    have counts1: "counts_match n s1" using counts k B B' imm by (simp add: counts_match_def)
    show ?thesis
    proof (cases "?B = {}")
      case True
      then have "num_pool_validators s1 + validators_added s1 = n" using counts1 B' by (simp add: counts_match_def)
      with maintenance_runs [OF wf(1) list counts late p] sett [OF True B'] j(1) Some True B' show ?thesis by fastforce
    next
      case False
      have "pending (clock_epoch (e_clock e)) n s1 m1"
        using rm counts1 stage late B B' by (simp add: pending_def)
      then show ?thesis
        using maintenance_runs [OF wf(1) list counts late p] j(1) Some False B(2,3) by fastforce
    qed
  qed
qed

definition maintaining :: "nat \<Rightarrow> nat \<Rightarrow> maintenance \<times> (StewardStateV2 \<times> DirectedStakeMeta) chain \<Rightarrow> bool" where
  "maintaining epoch n p \<longleftrightarrow> (\<exists>s m stats. fst p = maintenance_of epoch s stats \<and> ch_state (snd p) = (s, m) \<and>
     errors stats = 0 \<and> (pending epoch n s m \<or> settled epoch n s))"

definition turns_left :: "maintenance \<Rightarrow> nat" where
  "turns_left v = card (mask_bits (mt_validators_to_remove v)) + (if mt_state_epoch v = mt_current_epoch v then 0 else 1)"

lemma maintaining_turn:
  assumes exec: "runs_maintenance e exec" and list: "list_settled e n" and epoch: "epoch = clock_epoch (e_clock e)"
    and p: "maintaining epoch n p"
  shows "(\<exists>q. loop_body (maintenance_turn (chain_node exec epoch) pf) p = Inl q \<and> maintaining epoch n q \<and>
      turns_left (fst q) < turns_left (fst p)) \<or>
    (\<exists>stats w. loop_body (maintenance_turn (chain_node exec epoch) pf) p = Inr (Some (Ok (Inr stats, w))) \<and> errors stats = 0 \<and> settled epoch n (fst (ch_state w)))"
proof -
  let ?turn = "maintenance_turn (chain_node exec epoch) pf"
  obtain s m stats w where p: "p = (maintenance_of epoch s stats, w)" "ch_state w = (s, m)" "errors stats = 0"
    "pending epoch n s m \<or> settled epoch n s"
    using assms(4) by (cases p) (auto simp: maintaining_def)
  show ?thesis
  proof (cases "settled epoch n s")
    case True
    then have "?turn (maintenance_of epoch s stats) w = Some (Ok (Inr (Inr stats), w))"
      by (intro maintenance_turn_ends) (simp add: settled_def)
    then show ?thesis using p True by (simp add: loop_body_simps)
  next
    case False
    then have pend: "pending epoch n s m" using p(4) by simp
    then have ne: "current_epoch s \<noteq> epoch" by (simp add: pending_def)
    obtain j s' m' evs where step: "first_marked (num_pool_validators s) (validators_to_remove s) = Ok j"
      "epoch_maintenance_handler e (Ok epoch) j s m = Ok (s', m', evs)"
      "settled epoch n s' \<or> pending epoch n s' m' \<and>
       card (mask_bits (validators_to_remove s')) < card (mask_bits (validators_to_remove s))"
      using maintenance_step [OF list] pend unfolding epoch by blast
    obtain w' stats' where turn: "?turn (maintenance_of epoch s stats) w =
        Some (Ok (Inr (Inl (maintenance_of epoch s' stats')), w'))" "ch_state w' = (s', m')" "errors stats' = 0"
      using maintenance_turn_runs [OF exec epoch p(2) ne p(3) step(1,2), of pf] by blast
    have "maintaining epoch n (maintenance_of epoch s' stats', w')"
      using turn step(3) unfolding maintaining_def by (metis fst_conv snd_conv)
    moreover have "turns_left (maintenance_of epoch s' stats') < turns_left (maintenance_of epoch s stats)"
      using step(3) ne by (auto simp: turns_left_def maintenance_of_def settled_def)
    ultimately show ?thesis using p(1) turn(1) by (simp add: loop_body_simps)
  qed
qed

text \<open>
  C19. The keeper brings the steward into the new epoch when only regular marks are left. Suppose
  that no validator is marked for immediate removal, that every regular mark is one of a
  validator that the pool counts, that the stake pool has been updated and has dropped exactly
  the marked validators from its list, and that the chain executes every transaction. Then
  \<^verbatim>\<open>_handle_epoch_maintenance\<close> returns: transaction after transaction removes the first marked
  validator, the last one starts the epoch, none fails, and then no mark is left, the state
  machine stands at its first stage and the state counts exactly the validators of the list.
\<close>

theorem keeper_maintenance_reaches_the_epoch:
  assumes exec: "runs_maintenance e exec" and list: "list_settled e n"
    and wf: "state_wf s" "meta_wf m" and counts: "counts_match n s" and late: "current_epoch s < clock_epoch (e_clock e)"
    and marks: "mask_bits (validators_to_remove s) \<subseteq> {..<num_pool_validators s}"
      "mask_bits (validators_for_immediate_removal s) = {}"
    and accs: "state_account accs = s" "ch_state w = (s, m)"
  shows "\<exists>stats w'. handle_epoch_maintenance (chain_node exec (clock_epoch (e_clock e))) (clock_epoch (e_clock e)) accs pf w =
      Some (Ok (Inr stats, w')) \<and> errors stats = 0 \<and> settled (clock_epoch (e_clock e)) n (fst (ch_state w'))"
proof -
  define epoch where "epoch = clock_epoch (e_clock e)"
  let ?body = "loop_body (maintenance_turn (chain_node exec epoch) pf)"
  note turn = maintaining_turn [OF exec list epoch_def, of _ pf]
  let ?p = "(maintenance_of epoch s SubmitStats_default, w)"
  have start: "maintaining epoch n ?p"
    using wf counts late marks accs
    by (auto simp: maintaining_def pending_def epoch_def SubmitStats_default_def)
  have loop: "loop ?body (maintaining epoch n)"
    by unfold_locales (use turn in fastforce)
  obtain r where r: "iterate ?body ?p = Some r"
    using loop.loop_returns [OF loop start, of "\<lambda>q. turns_left (fst q)"] turn by fastforce
  have "\<exists>stats w'. r = Some (Ok (Inr stats, w')) \<and> errors stats = 0 \<and> settled epoch n (fst (ch_state w'))"
    by (rule loop.loop_result [OF loop r start]) (use turn in fastforce)
  then show ?thesis
    using r accs by (auto simp: handle_epoch_maintenance_def crank_loop_eq maintenance_of_def epoch_def)
qed

section \<open>Witnesses\<close>

definition maintenance_exec ::
  "crank_env \<Rightarrow> keeper_ix \<Rightarrow> StewardStateV2 \<times> DirectedStakeMeta \<Rightarrow> (StewardStateV2 \<times> DirectedStakeMeta) result" where
  "maintenance_exec e ix p = (case (ix, p) of
     (EpochMaintenanceIx j, (s, m)) \<Rightarrow>
       and_then (epoch_maintenance_handler e (Ok (clock_epoch (e_clock e))) j s m) (\<lambda>(s, m, evs). Ok (s, m))
   | _ \<Rightarrow> Err (External 0))"

lemma maintenance_exec_runs: "runs_maintenance e (maintenance_exec e)"
  by (simp add: runs_maintenance_def maintenance_exec_def)

lemma sample_list_settled: "list_settled (sample_env epoch config) 3"
  using sample_all_active
  by (simp add: list_settled_def sample_env_def get_validator_list_length_def load_validator_list_def sample_length)

text \<open>Four validators in the state, one of them marked and already gone from the list.\<close>

definition marked_mask :: "64 word \<Rightarrow> BitMask" where
  "marked_mask x = \<lparr>words = x # replicate 78 0\<rparr>"

lemma marked_mask_bits:
  "mask_invar MAX_VALIDATORS (marked_mask x)" "mask_bits (marked_mask x) = {i. i < 64 \<and> bit x i}"
proof -
  show "mask_invar MAX_VALIDATORS (marked_mask x)"
    by (simp add: mask_invar_def marked_mask_def mask_words_def MAX_VALIDATORS_def)
  show "mask_bits (marked_mask x) = {i. i < 64 \<and> bit x i}" by (simp add: marked_mask_def)
qed

lemma single_bits: "{i. i < 64 \<and> bit (1 :: 64 word) i} = {0}" "{i. i < 64 \<and> bit (8 :: 64 word) i} = {3}"
proof -
  show "{i. i < 64 \<and> bit (1 :: 64 word) i} = {0}" by (auto simp: bit_1_iff)
  have "(8 :: 64 word) = 2 ^ 3" by simp
  then have "bit (8 :: 64 word) i \<longleftrightarrow> i = 3" for i by (simp only: bit_exp_iff) (auto simp: possible_bit_word)
  then show "{i. i < 64 \<and> bit (8 :: 64 word) i} = {3}" by auto
qed

definition keeper_state :: "nat \<Rightarrow> nat \<Rightarrow> 64 word \<Rightarrow> StewardStateV2" where
  "keeper_state pool added x =
     sample_state\<lparr>num_pool_validators := pool, validators_added := added, validators_to_remove := marked_mask x\<rparr>"

definition keeper_accounts :: "StewardStateV2 \<Rightarrow> AllStewardAccounts" where
  "keeper_accounts s = \<lparr>config_account = sample_config, state_account = s, pool_validators = sample_infos\<rparr>"

definition keeper_world :: "StewardStateV2 \<Rightarrow> (StewardStateV2 \<times> DirectedStakeMeta) chain" where
  "keeper_world s = \<lparr>ch_state = (s, DirectedStakeMeta_default), ch_landed = []\<rparr>"

lemma keeper_state_facts:
  "pool + added \<le> 4 \<Longrightarrow> state_wf (keeper_state pool added x)"
  "current_epoch (keeper_state pool added x) = 900" "num_pool_validators (keeper_state pool added x) = pool"
  "mask_bits (validators_to_remove (keeper_state pool added x)) = {i. i < 64 \<and> bit x i}"
  "mask_bits (validators_for_immediate_removal (keeper_state pool added x)) = {}"
  "validators_added (keeper_state pool added x) = added"
  using sample_state_wf marked_mask_bits
  by (simp_all add: keeper_state_def state_wf_def MAX_VALIDATORS_def)

lemma keeper_marks:
  "mask_bits (validators_to_remove (keeper_state 2 2 8)) = {3}"
  "mask_bits (validators_to_remove (keeper_state 4 0 1)) = {0}"
  by (simp_all only: keeper_state_facts single_bits)

theorem keeper_maintenance_can_run_forever_witness:
  "handle_epoch_maintenance (chain_node (maintenance_exec (sample_env 901 sample_config)) 901) 901
     (keeper_accounts (keeper_state 2 2 8)) (Some 10) (keeper_world (keeper_state 2 2 8)) = None"
proof -
  have "clock_epoch (e_clock (sample_env 901 sample_config)) = 901" by (simp add: sample_env_def)
  then show ?thesis
    using keeper_maintenance_can_run_forever [OF maintenance_exec_runs sample_list_settled,
        of "keeper_state 2 2 8" 901 sample_config "keeper_accounts (keeper_state 2 2 8)"
          "keeper_world (keeper_state 2 2 8)" DirectedStakeMeta_default "Some 10"]
    by (simp add: keeper_marks keeper_state_facts(1,2,3,5,6) counts_match_def keeper_accounts_def keeper_world_def)
qed

theorem keeper_maintenance_reaches_the_epoch_witness:
  "\<exists>stats w'. handle_epoch_maintenance (chain_node (maintenance_exec (sample_env 901 sample_config)) 901) 901
     (keeper_accounts (keeper_state 4 0 1)) (Some 10) (keeper_world (keeper_state 4 0 1)) = Some (Ok (Inr stats, w')) \<and>
     errors stats = 0 \<and> settled 901 3 (fst (ch_state w'))"
proof -
  have "clock_epoch (e_clock (sample_env 901 sample_config)) = 901" by (simp add: sample_env_def)
  then show ?thesis
    using keeper_maintenance_reaches_the_epoch [OF maintenance_exec_runs sample_list_settled,
        of "keeper_state 4 0 1" DirectedStakeMeta_default 901 sample_config "keeper_accounts (keeper_state 4 0 1)"
          "keeper_world (keeper_state 4 0 1)" "Some 10"]
    by (simp add: keeper_marks keeper_state_facts(1,2,3,5,6) counts_match_def keeper_accounts_def keeper_world_def
        DirectedStakeMeta_default_wf)
qed

end
