(* ===== verification/Directed_Oracle.thy ===== *)
theory Directed_Oracle
  imports Keeper_Crank Admin
begin

text \<open>
  The oracle of directed stake: sdk/src/utils/instructions.rs with the functions it calls in
  helpers.rs, keepers/stakenet-keeper/src/entries/crank_copy_directed_stake_targets.rs and
  the test in keeper_state.rs whether it is time to run it. The bot reads every ticket and
  the token balance of its holder, converts balances to lamports, adds up what the tickets
  ask for each validator and sends one instruction for each validator of the list.
\<close>

section \<open>Converting and aggregating\<close>

datatype JitoInstructionError =
    InstructionTransactionError JitoTransactionError
  | InstructionClientError ClientError
  | KobeApiError string
  | InstructionArithmeticError
  | InstructionParseError string
  | InstructionCustom string

definition calculate_conversion_rate_bps :: "nat \<Rightarrow> nat \<Rightarrow> JitoInstructionError + nat" where
  "calculate_conversion_rate_bps total_lamports pool_token_supply =
     (if pool_token_supply = 0 then Inl (InstructionCustom ''Pool token supply cannot be zero'')
      else (case Option.bind (checked_mul U128_MAX total_lamports BASIS_POINTS_MAX)
                  (\<lambda>n. checked_div n pool_token_supply) of
          None \<Rightarrow> Inl InstructionArithmeticError
        | Some n \<Rightarrow> Inr (cast U64_MAX n)))"

text \<open>The lamports that a preference asks for, and the sums by validator.\<close>

definition allocation_lamports :: "nat \<Rightarrow> nat \<Rightarrow> DirectedStakePreference \<Rightarrow> nat option" where
  "allocation_lamports rate balance p =
     map_option (cast U64_MAX)
       (Option.bind (checked_mul U128_MAX (get_allocation balance p) rate) (\<lambda>n. checked_div n BASIS_POINTS_MAX))"

definition add_preference ::
  "nat \<Rightarrow> nat \<Rightarrow> DirectedStakePreference \<Rightarrow> (Pubkey \<times> nat) list \<Rightarrow> JitoInstructionError + (Pubkey \<times> nat) list" where
  "add_preference rate balance p delegs =
     (if pr_vote_pubkey p = Pubkey_default then Inr delegs
      else (case allocation_lamports rate balance p of
          None \<Rightarrow> Inl InstructionArithmeticError
        | Some lamports \<Rightarrow>
            Inr (AList.update (pr_vote_pubkey p)
              (case map_of delegs (pr_vote_pubkey p) of
                 None \<Rightarrow> lamports
               | Some tot \<Rightarrow> saturating_add U64_MAX tot lamports) delegs)))"

primrec try_fold :: "('x \<Rightarrow> 's \<Rightarrow> 'e + 's) \<Rightarrow> 'x list \<Rightarrow> 's \<Rightarrow> 'e + 's" where
  "try_fold f [] s = Inr s"
| "try_fold f (x # xs) s = (case f x s of Inl e \<Rightarrow> Inl e | Inr s \<Rightarrow> try_fold f xs s)"

definition add_ticket ::
  "(Pubkey \<rightharpoonup> nat) \<Rightarrow> nat \<Rightarrow> DirectedStakeTicket \<Rightarrow> (Pubkey \<times> nat) list \<Rightarrow> JitoInstructionError + (Pubkey \<times> nat) list" where
  "add_ticket balances rate t delegs =
     (let balance = (case balances (ticket_update_authority t) of None \<Rightarrow> 0 | Some b \<Rightarrow> b) in
      if balance = 0 then Inr delegs
      else try_fold (add_preference rate balance) (staker_preferences t) delegs)"

definition aggregate_validator_targets ::
  "DirectedStakeTicket list \<Rightarrow> (Pubkey \<rightharpoonup> nat) \<Rightarrow> nat \<Rightarrow> JitoInstructionError + (Pubkey \<times> nat) list" where
  "aggregate_validator_targets tickets balances rate = try_fold (add_ticket balances rate) tickets []"

section \<open>The instructions of the oracle\<close>

text \<open>\<^verbatim>\<open>str::parse::<u64>\<close>: digits after an optional plus sign, within the range of the type.\<close>

definition digit_of :: "char \<Rightarrow> nat option" where
  "digit_of ch = (let n = of_char ch in if 48 \<le> n \<and> n \<le> 57 then Some (n - 48) else None)"

primrec parse_digits :: "nat \<Rightarrow> string \<Rightarrow> nat option" where
  "parse_digits acc [] = Some acc"
| "parse_digits acc (ch # s) =
     (case digit_of ch of
        None \<Rightarrow> None
      | Some d \<Rightarrow> if 10 * acc + d \<le> U64_MAX then parse_digits (10 * acc + d) s else None)"

definition parse_u64 :: "string \<Rightarrow> nat option" where
  "parse_u64 s =
     (let ds = (case s of [] \<Rightarrow> [] | ch # rest \<Rightarrow> if ch = CHR ''+'' then rest else s) in
      if ds = [] then None else parse_digits 0 ds)"

text \<open>
  What the oracle reads besides: the tickets in the order of their map, the totals of the
  stake pool, the token balance of an account as text, the validators of the list, and the
  balance that the Kobe service reports for Coinbase.
\<close>

record ('w, 'ix) OracleClient = "('w, 'ix) KeeperClient" +
  rpc_tickets :: "'w \<Rightarrow> (JitoTransactionError + DirectedStakeTicket list) \<times> 'w"
  rpc_stake_pool_totals :: "'w \<Rightarrow> (JitoTransactionError + nat \<times> nat) \<times> 'w"
  rpc_token_balance :: "Pubkey \<Rightarrow> 'w \<Rightarrow> (ClientError + string) \<times> 'w"
  rpc_validator_list :: "'w \<Rightarrow> (JitoTransactionError + ValidatorStakeInfo list) \<times> 'w"
  kobe_coinbase_balance :: "nat \<Rightarrow> 'w \<Rightarrow> (string + nat option) \<times> 'w"
  rpc_slot :: "'w \<Rightarrow> (ClientError + nat) \<times> 'w"

definition get_token_balance ::
  "('w, keeper_ix, 'z) OracleClient_scheme \<Rightarrow> Pubkey \<Rightarrow> ('w, JitoInstructionError, nat) action" where
  "get_token_balance c wallet_address w =
     (case rpc_token_balance c wallet_address w of (r, w) \<Rightarrow>
        let amount = (case r of Inr a \<Rightarrow> a | Inl e \<Rightarrow> ''0'') in
        Some (Ok (case parse_u64 amount of None \<Rightarrow> Inl (InstructionParseError amount) | Some n \<Rightarrow> Inr n, w)))"

primrec collect_balances ::
  "('w, keeper_ix, 'z) OracleClient_scheme \<Rightarrow> DirectedStakeTicket list \<Rightarrow> (Pubkey \<rightharpoonup> nat)
   \<Rightarrow> ('w, JitoInstructionError, Pubkey \<rightharpoonup> nat) action" where
  "collect_balances c [] balances = crank_return balances"
| "collect_balances c (t # ts) balances =
     crank_bind (get_token_balance c (ticket_update_authority t)) (\<lambda>b.
       collect_balances c ts (balances(ticket_update_authority t \<mapsto> b)))"

definition lift_sum :: "'e + 'a \<Rightarrow> ('w, 'e, 'a) action" where
  "lift_sum r w = Some (Ok (r, w))"

text \<open>\<^verbatim>\<open>Iterator::position\<close> with a predicate that cannot fail.\<close>

definition list_position :: "Pubkey \<Rightarrow> ValidatorStakeInfo list \<Rightarrow> nat option" where
  "list_position k vals = find_index (\<lambda>v. vote_account_address v = k) vals"

definition target_instructions :: "ValidatorStakeInfo list \<Rightarrow> (Pubkey \<times> nat) list \<Rightarrow> keeper_ix list" where
  "target_instructions vals delegs =
     List.map_filter (\<lambda>(vote_pubkey, lamports).
       map_option (\<lambda>i. CopyDirectedStakeTargetsIx vote_pubkey lamports (cast U32_MAX i)) (list_position vote_pubkey vals))
       delegs"

definition compute_directed_stake_meta ::
  "('w, keeper_ix, 'z) OracleClient_scheme \<Rightarrow> ('w, JitoInstructionError, keeper_ix list) action" where
  "compute_directed_stake_meta c =
     crank_bind (crank_call InstructionTransactionError (rpc_tickets c)) (\<lambda>tickets.
     crank_bind (crank_call InstructionTransactionError (rpc_stake_pool_totals c)) (\<lambda>(total_lamports, pool_token_supply).
     crank_bind (lift_sum (calculate_conversion_rate_bps total_lamports pool_token_supply)) (\<lambda>rate.
     crank_bind (collect_balances c tickets (\<lambda>_. None)) (\<lambda>balances.
     crank_bind (lift_sum (aggregate_validator_targets tickets balances rate)) (\<lambda>delegs.
     crank_bind (crank_call InstructionTransactionError (rpc_validator_list c)) (\<lambda>vals.
     crank_return (target_instructions vals delegs)))))))"

definition compute_coinbase_targets ::
  "('w, keeper_ix, 'z) OracleClient_scheme \<Rightarrow> Pubkey \<Rightarrow> ('w, JitoInstructionError, keeper_ix list) action" where
  "compute_coinbase_targets c coinbase_vote_pubkey =
     crank_bind (crank_call InstructionClientError (rpc_epoch c)) (\<lambda>epoch.
     crank_bind (crank_pure (minus_or_panic epoch 1)) (\<lambda>last_epoch.
     crank_bind (crank_call KobeApiError (kobe_coinbase_balance c last_epoch)) (\<lambda>balance.
     crank_bind (crank_call InstructionTransactionError (rpc_validator_list c)) (\<lambda>vals.
     crank_return (case balance of
         None \<Rightarrow> []
       | Some lamports \<Rightarrow> target_instructions vals [(coinbase_vote_pubkey, lamports)])))))"

text \<open>\<^verbatim>\<open>map_err(|e| JitoTransactionError::Custom(e.to_string()))\<close>; the text is only shown.\<close>

definition as_custom_error :: "('w, JitoInstructionError, 'a) action \<Rightarrow> ('w, 'a) crank" where
  "as_custom_error m w = map_option (\<lambda>r. and_then r (\<lambda>(x, w). Ok (map_sum (\<lambda>_. JitoCustom ''instruction error'') id x, w))) (m w)"

text \<open>Packaging eight instructions to a transaction.\<close>

definition crank_copy_directed_stake_targets ::
  "('w, keeper_ix, 'z) OracleClient_scheme \<Rightarrow> nat \<Rightarrow> Pubkey \<Rightarrow> ('w, SubmitStats) crank" where
  "crank_copy_directed_stake_targets c priority_fee coinbase_vote_pubkey =
     crank_bind (as_custom_error (compute_directed_stake_meta c)) (\<lambda>normal_ixs.
     crank_bind (run_packaged c normal_ixs 8 (Some priority_fee) 50) (\<lambda>s1.
     crank_bind (as_custom_error (compute_coinbase_targets c coinbase_vote_pubkey)) (\<lambda>coinbase_ixs.
     crank_bind (run_packaged c coinbase_ixs 8 (Some priority_fee) 50) (\<lambda>s2.
     crank_return (combine (combine SubmitStats_default s1) s2)))))"

section \<open>When the oracle runs\<close>

definition should_copy_directed_stake_targets ::
  "('w, keeper_ix, 'z) OracleClient_scheme \<Rightarrow> EpochSchedule \<Rightarrow> nat \<Rightarrow> bool \<Rightarrow> ('w, bool) crank" where
  "should_copy_directed_stake_targets c es epoch has_steward_accounts =
     (if \<not> has_steward_accounts then crank_return False
      else
        crank_bind (crank_call JitoClientError (rpc_slot c)) (\<lambda>slot.
        crank_bind (lift_sum (case checked_sub slot (get_first_slot_in_epoch es epoch) of
            None \<Rightarrow> Inl (JitoCustom ''Slot calculation overflow'') | Some i \<Rightarrow> Inr i)) (\<lambda>slot_index.
        if f64_le (f64_div (f64_of_nat slot_index) (f64_of_nat (slots_per_epoch es))) (Fin (1 / 2))
        then crank_return False
        else
          crank_bind (crank_call id (rpc_directed_stake_meta c)) (\<lambda>m.
          let valid = filter (\<lambda>t. t_vote_pubkey t \<noteq> Pubkey_default) (targets m) in
          crank_return (valid = [] \<or> \<not> list_ex (\<lambda>t. target_last_updated_epoch t = epoch) valid)))))"

definition run_crank_steward ::
  "('w, keeper_ix, 'z) OracleClient_scheme \<Rightarrow> keeper_lib \<Rightarrow> EpochSchedule \<Rightarrow> nat \<Rightarrow> nat \<Rightarrow> bool \<Rightarrow> Pubkey
   \<Rightarrow> AllStewardAccounts option \<Rightarrow> AllValidatorAccounts option \<Rightarrow> AllValidatorAccounts option \<Rightarrow> ('w, SubmitStats) crank" where
  "run_crank_steward c lib es epoch priority_fee has_oracle_keypair coinbase_vote_pubkey steward_accounts pool active =
     crank_bind (should_copy_directed_stake_targets c es epoch (steward_accounts \<noteq> None)) (\<lambda>should_copy.
     crank_bind (if should_copy \<and> steward_accounts \<noteq> None \<and> has_oracle_keypair
                 then crank_copy_directed_stake_targets c priority_fee coinbase_vote_pubkey
                 else crank_return SubmitStats_default) (\<lambda>s1.
     crank_bind (crank_pure (ok_or steward_accounts Panic)) (\<lambda>steward.
     crank_bind (crank_pure (ok_or pool Panic)) (\<lambda>pool.
     crank_bind (crank_pure (ok_or active Panic)) (\<lambda>active.
     crank_bind (crank_steward c lib epoch steward pool active (Some priority_fee)) (\<lambda>s2.
     crank_return (combine (combine SubmitStats_default s1) s2)))))))"

end
