(* ===== verification/Oracle_Properties.thy ===== *)
theory Oracle_Properties
  imports Directed_Oracle Admin_Properties
begin

text \<open>
  What the oracle of directed stake guarantees: its targets are covered by the balances of
  the ticket holders, and what its second batch of instructions does to the first.
\<close>

section \<open>Properties\<close>

abbreviation ticket_shares :: "DirectedStakeTicket \<Rightarrow> nat" where
  "ticket_shares t \<equiv> sum_list (map stake_share_bps (staker_preferences t))"

definition ticket_balance :: "(Pubkey \<rightharpoonup> nat) \<Rightarrow> DirectedStakeTicket \<Rightarrow> nat" where
  "ticket_balance balances t = (case balances (ticket_update_authority t) of None \<Rightarrow> 0 | Some b \<Rightarrow> b)"

lemma sum_update:
  "sum_list (map snd (AList.update k v al)) + (case map_of al k of None \<Rightarrow> 0 | Some u \<Rightarrow> u) =
   sum_list (map snd al) + (v :: nat)"
  by (induction al) auto

lemma allocation_lamports_le:
  assumes "allocation_lamports rate balance p = Some n"
  shows "10000 * n \<le> get_allocation balance p * rate"
proof -
  have "n = cast U64_MAX (get_allocation balance p * rate div 10000)"
    using assms by (auto simp: allocation_lamports_def checked_mul_def checked_div_def BASIS_POINTS_MAX_def split: if_splits)
  moreover have "cast U64_MAX x \<le> x" for x by (simp add: cast_def)
  ultimately have "n \<le> get_allocation balance p * rate div 10000" by simp
  then have "10000 * n \<le> 10000 * (get_allocation balance p * rate div 10000)" by (rule mult_le_mono2)
  also have "\<dots> \<le> get_allocation balance p * rate" by (rule times_div_less_eq_dividend)
  finally show ?thesis .
qed

definition deleg_ok :: "(Pubkey \<times> nat) list \<Rightarrow> bool" where
  "deleg_ok ds \<longleftrightarrow> distinct (map fst ds) \<and> Pubkey_default \<notin> fst ` set ds"

lemma add_preference_le:
  assumes "add_preference rate balance p ds = Inr ds'" "deleg_ok ds"
  shows "deleg_ok ds' \<and>
    10000 * sum_list (map snd ds') \<le> 10000 * sum_list (map snd ds) + get_allocation balance p * rate"
proof (cases "pr_vote_pubkey p = Pubkey_default")
  case True
  then show ?thesis using assms by (simp add: add_preference_def)
next
  case False
  let ?k = "pr_vote_pubkey p"
  obtain n where n: "allocation_lamports rate balance p = Some n"
    using assms(1) False by (auto simp: add_preference_def split: option.splits)
  define v where "v = (case map_of ds ?k of None \<Rightarrow> n | Some u \<Rightarrow> saturating_add U64_MAX u n)"
  have ds': "ds' = AList.update ?k v ds" using assms(1) False n by (simp add: add_preference_def v_def)
  have "v \<le> (case map_of ds ?k of None \<Rightarrow> 0 | Some u \<Rightarrow> u) + n"
    by (auto simp: v_def saturating_add_def split: option.split)
  then have "sum_list (map snd ds') \<le> sum_list (map snd ds) + n"
    using sum_update [of ?k v ds] unfolding ds' by (cases "map_of ds ?k") auto
  then have "10000 * sum_list (map snd ds') \<le> 10000 * sum_list (map snd ds) + get_allocation balance p * rate"
    using allocation_lamports_le [OF n] by linarith
  moreover have "deleg_ok ds'"
    using assms(2) False by (auto simp: ds' deleg_ok_def distinct_update update_conv' dom_update simp flip: dom_map_of_conv_image_fst)
  ultimately show ?thesis by simp
qed

lemma add_preferences_le:
  "try_fold (add_preference rate balance) ps ds = Inr ds' \<Longrightarrow> deleg_ok ds \<Longrightarrow>
   deleg_ok ds' \<and>
   10000 * sum_list (map snd ds') \<le> 10000 * sum_list (map snd ds) + sum_list (map (get_allocation balance) ps) * rate"
proof (induction ps arbitrary: ds)
  case (Cons p ps)
  obtain d1 where d1: "add_preference rate balance p ds = Inr d1" "try_fold (add_preference rate balance) ps d1 = Inr ds'"
    using Cons.prems by (auto split: sum.splits)
  note h = add_preference_le [OF d1(1) Cons.prems(2)]
  then show ?case using Cons.IH [OF d1(2)] by (auto simp: distrib_right)
qed simp

lemma ticket_allocations_le:
  assumes "sum_list (map stake_share_bps ps) \<le> 10000"
  shows "sum_list (map (get_allocation balance) ps) \<le> balance"
proof -
  have "10000 * sum_list (map (get_allocation balance) ps) \<le> balance * sum_list (map stake_share_bps ps)"
  proof (induction ps)
    case (Cons p ps)
    have "10000 * get_allocation balance p \<le> saturating_mul U128_MAX balance (stake_share_bps p)"
      by (simp add: get_allocation_def)
    also have "\<dots> \<le> balance * stake_share_bps p" by (simp add: saturating_mul_def)
    finally show ?case using Cons by (simp add: distrib_left)
  qed simp
  also have "\<dots> \<le> balance * 10000" using assms by simp
  finally show ?thesis by simp
qed

lemma add_ticket_le:
  assumes "add_ticket balances rate t ds = Inr ds'" "deleg_ok ds" "ticket_shares t \<le> 10000"
  shows "deleg_ok ds' \<and>
    10000 * sum_list (map snd ds') \<le> 10000 * sum_list (map snd ds) + rate * ticket_balance balances t"
proof (cases "ticket_balance balances t = 0")
  case True
  then show ?thesis using assms(1,2) by (simp add: add_ticket_def ticket_balance_def)
next
  case False
  let ?b = "ticket_balance balances t"
  have "try_fold (add_preference rate ?b) (staker_preferences t) ds = Inr ds'"
    using assms(1) False by (simp add: add_ticket_def ticket_balance_def Let_def)
  from add_preferences_le [OF this assms(2)]
  have "deleg_ok ds'" "10000 * sum_list (map snd ds') \<le> 10000 * sum_list (map snd ds) +
      sum_list (map (get_allocation ?b) (staker_preferences t)) * rate" by simp_all
  moreover have "sum_list (map (get_allocation ?b) (staker_preferences t)) * rate \<le> rate * ?b"
    using mult_le_mono1 [OF ticket_allocations_le [OF assms(3)], of ?b rate] by (simp add: mult.commute)
  ultimately show ?thesis by linarith
qed

text \<open>A ticket that the on-chain program has accepted gives away at most all of its stake.\<close>

lemma accepted_ticket_shares:
  assumes "update_directed_stake_ticket_handler addr signer key c wl prefs t = Ok t'"
  shows "ticket_shares t' \<le> 10000"
proof -
  obtain bps where len: "length prefs \<le> MAX_PREFERENCES_PER_TICKET" and bps: "total_bps prefs = Ok bps" "bps \<le> 10000"
    and t': "staker_preferences t' = put_preferences prefs"
    using assms by (auto simp: update_directed_stake_ticket_handler_def and_then_eq_Inr split: if_splits)
  have "sum_list (map stake_share_bps prefs) = bps"
    using sum_bps_from [of prefs 0 bps] bps(1) by (simp add: total_bps_def)
  then show ?thesis
    using bps(2) by (simp add: t' put_preferences_eq [OF len] DirectedStakePreference_empty_def sum_list_replicate)
qed

text \<open>
  C27. The oracle never asks for more stake than the tickets are worth. When every ticket is one
  that the on-chain program has accepted in an update, the targets that
  \<^verbatim>\<open>aggregate_validator_targets\<close> computes add up to no more than the lamports that the token
  balances of the ticket holders are worth at the conversion rate, whatever the rounding and
  the saturation on the way; every validator has one target, and the empty key has none.
\<close>

theorem oracle_targets_are_backed:
  assumes agg: "aggregate_validator_targets tickets balances rate = Inr delegs"
    and accepted: "\<forall>t'\<in>set tickets. \<exists>addr signer key c wl prefs t.
      update_directed_stake_ticket_handler addr signer key c wl prefs t = Ok t'"
  shows "10000 * sum_list (map snd delegs) \<le> rate * sum_list (map (ticket_balance balances) tickets) \<and>
    distinct (map fst delegs) \<and> Pubkey_default \<notin> fst ` set delegs"
proof -
  have fold_le: "deleg_ok ds' \<and> 10000 * sum_list (map snd ds') \<le>
      10000 * sum_list (map snd ds) + rate * sum_list (map (ticket_balance balances) ts)"
    if "try_fold (add_ticket balances rate) ts ds = Inr ds'" "deleg_ok ds" "\<forall>t\<in>set ts. ticket_shares t \<le> 10000"
    for ts ds ds'
    using that
  proof (induction ts arbitrary: ds)
    case (Cons t ts)
    obtain d1 where d1: "add_ticket balances rate t ds = Inr d1" "try_fold (add_ticket balances rate) ts d1 = Inr ds'"
      using Cons.prems(1) by (auto split: sum.splits)
    have "deleg_ok d1" "10000 * sum_list (map snd d1) \<le> 10000 * sum_list (map snd ds) + rate * ticket_balance balances t"
      using add_ticket_le [OF d1(1) Cons.prems(2)] Cons.prems(3) by simp_all
    then show ?case using Cons.IH [OF d1(2)] Cons.prems(3) by (auto simp: distrib_left)
  qed simp
  have "ticket_shares t \<le> 10000" if "t \<in> set tickets" for t
  proof -
    from accepted that obtain addr signer key c wl prefs s where
      "update_directed_stake_ticket_handler addr signer key c wl prefs s = Ok t" by meson
    then show ?thesis by (rule accepted_ticket_shares)
  qed
  moreover have "deleg_ok []" by (simp add: deleg_ok_def)
  ultimately show ?thesis
    using fold_le [OF agg [unfolded aggregate_validator_targets_def]] by (simp add: deleg_ok_def)
qed

lemma try_fold_append [simp]:
  "try_fold f (xs @ ys) s = (case try_fold f xs s of Inl e \<Rightarrow> Inl e | Inr s \<Rightarrow> try_fold f ys s)"
  by (induction xs arbitrary: s) (auto split: sum.splits)

lemma empty_preferences_add_nothing [simp]:
  "try_fold (add_preference rate balance) (replicate n DirectedStakePreference_empty) ds = Inr ds"
  by (induction n) (simp_all add: add_preference_def DirectedStakePreference_empty_def)

theorem oracle_targets_are_backed_witness:
  "\<exists>t delegs. aggregate_validator_targets [t] [sample_authority \<mapsto> 1000] 12000 = Inr delegs \<and>
    delegs = [(replicate 32 1, 1080)] \<and>
    10000 * sum_list (map snd delegs) \<le> 12000 * sum_list (map (ticket_balance [sample_authority \<mapsto> 1000]) [t])"
proof -
  have auth: "ticket_auth sample_authority sample_whitelist (replicate 32 3) sample_preferences (replicate 32 3) = Ok ()"
    by (simp add: ticket_auth_def sample_preferences_def whitelist_defs sample_whitelist_keys)
  have bps: "total_bps sample_preferences = Ok 9000"
    by (simp add: total_bps_def sample_preferences_def panic_defs checked_defs int_limits)
  let ?run = "update_directed_stake_ticket_handler (\<lambda>k. k) (replicate 32 3) sample_authority sample_config sample_whitelist
      sample_preferences sample_ticket"
  have "\<exists>t'. ?run = Ok t' \<and> staker_preferences t' = put_preferences sample_preferences \<and>
      ticket_update_authority t' = sample_authority"
    using auth bps by (simp add: update_directed_stake_ticket_handler_def update_ticket_auth_def sample_ticket_def
        DirectedStakeTicket_new_def sample_config_def MAX_PREFERENCES_PER_TICKET_def sample_preferences_def)
  then obtain t where run: "?run = Ok t" and t: "staker_preferences t = put_preferences sample_preferences"
    "ticket_update_authority t = sample_authority" by blast
  have agg: "aggregate_validator_targets [t] [sample_authority \<mapsto> 1000] 12000 = Inr [(replicate 32 1, 1080)]"
  proof -
    have key: "replicate 32 1 \<noteq> Pubkey_default" by (simp add: Pubkey_default_def)
    have allocation: "allocation_lamports 12000 1000 \<lparr>pr_vote_pubkey = replicate 32 1, stake_share_bps = 4000\<rparr> = Some 480"
      "allocation_lamports 12000 1000 \<lparr>pr_vote_pubkey = replicate 32 1, stake_share_bps = 5000\<rparr> = Some 600"
      by (simp_all add: allocation_lamports_def get_allocation_def saturating_mul_def cast_def BASIS_POINTS_MAX_def
          checked_defs int_limits)
    have "try_fold (add_preference 12000 1000) (staker_preferences t) [] = Inr [(replicate 32 1, 1080)]"
      unfolding t(1) by (simp add: put_preferences_eq sample_preferences_def MAX_PREFERENCES_PER_TICKET_def
          add_preference_def key allocation saturating_add_def int_limits)
    then show ?thesis by (simp add: aggregate_validator_targets_def add_ticket_def t(2))
  qed
  have "\<forall>t'\<in>set [t]. \<exists>addr signer key c wl prefs s. update_directed_stake_ticket_handler addr signer key c wl prefs s = Ok t'"
  proof
    fix t' assume "t' \<in> set [t]"
    then have "t' = t" by simp
    then show "\<exists>addr signer key c wl prefs s. update_directed_stake_ticket_handler addr signer key c wl prefs s = Ok t'"
      using run by blast
  qed
  from oracle_targets_are_backed [OF agg this] agg show ?thesis by blast
qed

section \<open>What an instruction of the oracle writes\<close>

lemma find_index_SomeD: "find_index p xs = Some i \<Longrightarrow> i < length xs \<and> p (xs ! i) \<and> (\<forall>j<i. \<not> p (xs ! j))"
proof (induction xs arbitrary: i)
  case (Cons x xs)
  then show ?case by (cases i) (auto split: if_splits simp: less_Suc_eq_0_disj)
qed simp

lemma find_index_SomeI: "i < length xs \<Longrightarrow> p (xs ! i) \<Longrightarrow> \<forall>j<i. \<not> p (xs ! j) \<Longrightarrow> find_index p xs = Some i"
proof (induction xs arbitrary: i)
  case (Cons x xs)
  then show ?case
  proof (cases i)
    case (Suc j)
    have "\<not> p x" using Cons.prems(3) Suc by auto
    moreover have "find_index p xs = Some j"
    proof (rule Cons.IH)
      show "\<forall>n<j. \<not> p (xs ! n)" using Cons.prems(3) Suc by fastforce
    qed (use Cons.prems Suc in simp_all)
    ultimately show ?thesis by (simp add: Suc)
  qed auto
qed simp

lemma find_index_None: "find_index p xs = None \<longleftrightarrow> (\<forall>x\<in>set xs. \<not> p x)"
  by (induction xs) auto

text \<open>
  The instruction sets the target of its validator to the amount it carries, whether the
  validator has one already or not. A second instruction for the same validator therefore
  replaces the target of the first instead of adding to it: the Coinbase batch of the oracle,
  sent after the batch of the tickets, discards what the tickets direct to that validator.
\<close>

lemma copied_target_is_the_amount:
  assumes "copy_directed_stake_targets_handler signer c clock acc k x i m = Ok m'"
  shows "meta_get_target_lamports k m' = Some x"
proof (cases "get_target_index k m")
  case (Some j)
  then have j: "j < length (targets m)" "t_vote_pubkey (targets m ! j) = k" "\<forall>n<j. t_vote_pubkey (targets m ! n) \<noteq> k"
    using find_index_SomeD by (fastforce simp: get_target_index_def)+
  have "targets m' = (targets m)[j := (targets m ! j)\<lparr>total_target_lamports := x, target_last_updated_epoch := clock_epoch clock\<rparr>]"
    using assms Some j(1) by (auto simp: copy_directed_stake_targets_handler_def and_then_eq_Inr update_target_def
        arr_get_def arr_set_eq_Inr split: if_splits)
  then show ?thesis
    using j find_index_SomeI [of j "targets m'" "\<lambda>t. t_vote_pubkey t = k"]
    by (simp add: meta_get_target_lamports_def get_target_index_def)
next
  case None
  let ?n = "total_stake_targets m"
  have absent: "\<forall>t\<in>set (targets m). t_vote_pubkey t \<noteq> k"
    using None by (simp add: get_target_index_def find_index_None)
  have n: "?n < length (targets m)" and m': "targets m' = (targets m)[?n := \<lparr>t_vote_pubkey = k, total_target_lamports = x,
      t_total_staked_lamports = 0, target_last_updated_epoch = clock_epoch clock, staked_last_updated_epoch = 0\<rparr>]"
    using assms None by (auto simp: copy_directed_stake_targets_handler_def and_then_eq_Inr Let_def
        arr_set_eq_Inr split: if_splits)
  have "get_target_index k m' = Some ?n"
    unfolding get_target_index_def by (rule find_index_SomeI) (use n m' absent in auto)
  then show ?thesis using n m' by (simp add: meta_get_target_lamports_def)
qed

lemma second_target_replaces_the_first:
  assumes "copy_directed_stake_targets_handler s1 c1 clock1 acc1 k x i1 m = Ok m1"
    and "copy_directed_stake_targets_handler s2 c2 clock2 acc2 k y i2 m1 = Ok m2"
  shows "meta_get_target_lamports k m1 = Some x \<and> meta_get_target_lamports k m2 = Some y"
  using assms copied_target_is_the_amount by blast

end
