(* ===== verification/Slot_Database.thy ===== *)
theory Slot_Database
  imports Keeper_Crank "HOL-Library.List_Lexorder" "HOL-Library.Char_ord"
begin

text \<open>
  The slot database of the keeper, keepers/stakenet-keeper/src/operations/block_metadata/db.rs:
  one table with a row for every leader slot, which is filled from the leader schedule, gets
  the vote key of its validator and the fees of its block, and is added up by validator.

  The table is the list of its rows in the order of its primary key. A statement is what its
  SQL text says of that list. Any statement may fail: the connection carries a function that
  tells which ones do. Statements inside a transaction take effect together, when it is
  committed, and an error before that rolls them back.
\<close>

section \<open>Rows and errors\<close>

text \<open>block_metadata/errors.rs; the payloads that are only shown are texts.\<close>

datatype BlockMetadataKeeperError =
    SolanaClientError ClientError
  | RpcError string
  | IoError string
  | SqliteError
  | ErrorGettingLeaderSchedule
  | SkippedBlock
  | MissingVoteKey string
  | SlotInFuture nat
  | OtherError string

datatype DBSlotInfoState = Created | Done | BlockDNE | Error

fun state_u8 :: "DBSlotInfoState \<Rightarrow> nat" where
  "state_u8 Created = 16"
| "state_u8 Done = 17"
| "state_u8 BlockDNE = 18"
| "state_u8 Error = 19"

definition from_u8 :: "nat \<Rightarrow> BlockMetadataKeeperError + DBSlotInfoState" where
  "from_u8 state =
     (if state = state_u8 Created then Inr Created
      else if state = state_u8 Done then Inr Done
      else if state = state_u8 BlockDNE then Inr BlockDNE
      else if state = state_u8 Error then Inr Error
      else Inl (OtherError ''Could not map state''))"

text \<open>A row of \<^verbatim>\<open>slot_info\<close>: the columns, with the state as the number that is stored.\<close>

record slot_row =
  absolute_slot :: nat
  relative_slot :: nat
  row_epoch :: nat
  vote_key :: string
  identity_key :: string
  priority_fees :: nat
  row_state :: nat
  error_string :: string

type_synonym slot_table = "slot_row list"

record DBSlotInfo =
  si_identity_key :: string
  si_vote_key :: "string option"
  si_epoch :: nat
  si_absolute_slot :: nat
  si_relative_slot :: nat
  si_priority_fees :: nat
  si_state :: DBSlotInfoState
  si_error_string :: "string option"

definition from_db_row :: "slot_row \<Rightarrow> BlockMetadataKeeperError + DBSlotInfo" where
  "from_db_row row =
     (case from_u8 (row_state row) of
        Inl e \<Rightarrow> Inl e
      | Inr state \<Rightarrow>
          Inr \<lparr>si_identity_key = identity_key row, si_vote_key = Some (vote_key row), si_epoch = row_epoch row,
               si_absolute_slot = absolute_slot row, si_relative_slot = relative_slot row,
               si_priority_fees = priority_fees row, si_state = state, si_error_string = Some (error_string row)\<rparr>)"

section \<open>Statements and transactions\<close>

text \<open>\<^verbatim>\<open>INSERT OR IGNORE\<close>, \<^verbatim>\<open>UPDATE ... WHERE\<close> and \<^verbatim>\<open>SELECT ... WHERE\<close>.\<close>

definition sql_insert_or_ignore :: "slot_row \<Rightarrow> slot_table \<Rightarrow> slot_table" where
  "sql_insert_or_ignore row t =
     (if absolute_slot row \<in> set (map absolute_slot t) then t else insort_key absolute_slot row t)"

definition sql_update :: "(slot_row \<Rightarrow> bool) \<Rightarrow> (slot_row \<Rightarrow> slot_row) \<Rightarrow> slot_table \<Rightarrow> slot_table" where
  "sql_update P f = map (\<lambda>row. if P row then f row else row)"

text \<open>
  The connection: the committed table, how many statements it has run, which statements fail,
  and the random numbers that are drawn from a range.
\<close>

record connection =
  cn_table :: slot_table
  cn_statements :: nat
  cn_fails :: "nat \<Rightarrow> bool"
  cn_gen_range :: "nat \<Rightarrow> nat \<Rightarrow> nat \<Rightarrow> nat"

type_synonym 'a db = "(connection, BlockMetadataKeeperError, 'a) action"

definition statement :: "unit db" where
  "statement c =
     Some (Ok (if cn_fails c (cn_statements c) then Inl SqliteError else Inr (), c\<lparr>cn_statements := Suc (cn_statements c)\<rparr>))"

definition read_table :: "slot_table db" where
  "read_table c = Some (Ok (Inr (cn_table c), c))"

definition write_table :: "slot_table \<Rightarrow> unit db" where
  "write_table t c = Some (Ok (Inr (), c\<lparr>cn_table := t\<rparr>))"

definition sql_select :: "(slot_table \<Rightarrow> 'a) \<Rightarrow> 'a db" where
  "sql_select query = crank_bind statement (\<lambda>_. crank_bind read_table (\<lambda>t. crank_return (query t)))"

text \<open>A statement outside of a transaction is committed by itself.\<close>

definition sql_execute :: "(slot_table \<Rightarrow> slot_table) \<Rightarrow> unit db" where
  "sql_execute f = crank_bind statement (\<lambda>_. crank_bind read_table (\<lambda>t. write_table (f t)))"

text \<open>
  The steps of a chunk on the view of its transaction: a step may panic, skip its statement
  (\<^verbatim>\<open>continue\<close>) or run it, which counts as a write.
\<close>

type_synonym write_step = "(slot_table \<Rightarrow> slot_table) option result"

primrec run_steps :: "write_step list \<Rightarrow> slot_table \<times> nat \<Rightarrow> (slot_table \<times> nat) db" where
  "run_steps [] s = crank_return s"
| "run_steps (x # xs) s =
     crank_bind (crank_pure x) (\<lambda>step.
     case step of
       None \<Rightarrow> run_steps xs s
     | Some f \<Rightarrow> crank_bind statement (\<lambda>_. run_steps xs (f (fst s), Suc (snd s))))"

text \<open>
  The writing functions share their frame: a transaction is open, each chunk is run, committed
  and the next transaction opened.
\<close>

primrec write_chunks :: "write_step list list \<Rightarrow> nat \<Rightarrow> nat db" where
  "write_chunks [] n = crank_return n"
| "write_chunks (x # xs) n =
     crank_bind read_table (\<lambda>t.
     crank_bind (run_steps x (t, n)) (\<lambda>(t, n).
     crank_bind statement (\<lambda>_.
     crank_bind (write_table t) (\<lambda>_.
     crank_bind statement (\<lambda>_. write_chunks xs n)))))"

definition in_transactions :: "write_step list list result \<Rightarrow> nat db" where
  "in_transactions chunked =
     crank_bind statement (\<lambda>_. crank_bind (crank_pure chunked) (\<lambda>cs. write_chunks cs 0))"

definition create_sqlite_tables :: "unit db" where
  "create_sqlite_tables = sql_execute id"

section \<open>Queries\<close>

definition get_slots_per_epoch :: "nat \<Rightarrow> nat list db" where
  "get_slots_per_epoch ep = sql_select (\<lambda>t. sort (map absolute_slot (filter (\<lambda>r. row_epoch r = ep) t)))"

definition get_unmapped_identity_accounts :: "string list db" where
  "get_unmapped_identity_accounts =
     sql_select (\<lambda>t. sort (remdups (map identity_key (filter (\<lambda>r. vote_key r = []) t))))"

definition get_slots_needing_blocks :: "nat \<Rightarrow> nat list db" where
  "get_slots_needing_blocks current_slot =
     sql_select (\<lambda>t. take 100000 (sort (map absolute_slot
       (filter (\<lambda>r. row_state r = state_u8 Created \<and> absolute_slot r < current_slot) t))))"

definition get_vote_keys_for_epoch :: "nat \<Rightarrow> string list db" where
  "get_vote_keys_for_epoch ep =
     sql_select (\<lambda>t. sort (remdups (map vote_key (filter (\<lambda>r. row_epoch r = ep \<and> vote_key r \<noteq> []) t))))"

definition get_highest_done_slot :: "nat option db" where
  "get_highest_done_slot =
     sql_select (\<lambda>t. let slots = map absolute_slot (filter (\<lambda>r. row_state r = state_u8 Done) t) in
       if slots = [] then None else Some (Max (set slots)))"

text \<open>A random slot of the epoch; an empty range panics.\<close>

definition check_random_slot_exists_in_epoch :: "nat \<Rightarrow> EpochSchedule \<Rightarrow> bool db" where
  "check_random_slot_exists_in_epoch ep es =
     crank_bind (crank_pure (and_then (plus_or_panic U64_MAX (get_first_slot_in_epoch es ep) (get_slots_in_epoch es ep))
         (\<lambda>n. and_then (minus_or_panic n 1) (\<lambda>last_slot.
           if get_first_slot_in_epoch es ep \<le> last_slot then Ok last_slot else Err Panic)))) (\<lambda>last_slot.
     crank_bind (\<lambda>c. Some (Ok (Inr (cn_gen_range c (cn_statements c) (get_first_slot_in_epoch es ep) last_slot), c))) (\<lambda>slot.
     sql_select (\<lambda>t. 0 < length (filter (\<lambda>r. absolute_slot r = slot) t))))"

section \<open>Writing\<close>

type_synonym RpcLeaderSchedule = "(string \<times> nat list) list"

definition insert_leader_slot :: "nat \<Rightarrow> nat \<Rightarrow> string \<Rightarrow> nat list \<Rightarrow> nat \<Rightarrow> write_step" where
  "insert_leader_slot first_slot_in_epoch ep identity slots_written rel =
     and_then (plus_or_panic U64_MAX first_slot_in_epoch rel) (\<lambda>slot.
     if slot \<in> set slots_written then Ok None
     else Ok (Some (sql_insert_or_ignore
       \<lparr>absolute_slot = slot, relative_slot = rel, row_epoch = ep, vote_key = [], identity_key = identity,
        priority_fees = 0, row_state = state_u8 Created, error_string = []\<rparr>)))"

definition insert_leader_schedule :: "nat \<Rightarrow> EpochSchedule \<Rightarrow> RpcLeaderSchedule \<Rightarrow> nat option \<Rightarrow> nat db" where
  "insert_leader_schedule ep es leader_schedule chunk_size =
     (let chunk_size = (case chunk_size of None \<Rightarrow> 100 | Some n \<Rightarrow> n);
          schedule_length = sum_list (map (\<lambda>(_, slots). length slots) leader_schedule) in
     crank_bind (get_slots_per_epoch ep) (\<lambda>slots_written.
     if schedule_length = length slots_written then crank_return 0
     else
       in_transactions (and_then (map_result (\<lambda>(identity, slots).
           and_then (chunks chunk_size slots) (\<lambda>cs.
             Ok (map (map (insert_leader_slot (get_first_slot_in_epoch es ep) ep identity slots_written)) cs)))
         leader_schedule) (\<lambda>css. Ok (concat css)))))"

text \<open>The mapping from identities to vote keys is a hash map, a list in its order of traversal.\<close>

definition map_identity :: "string \<Rightarrow> string \<Rightarrow> slot_table \<Rightarrow> slot_table" where
  "map_identity identity vote =
     sql_update (\<lambda>r. identity_key r = identity \<and> vote_key r = []) (\<lambda>r. r\<lparr>vote_key := vote\<rparr>)"

definition upsert_vote_identity_mapping :: "(string \<times> string) list \<Rightarrow> nat option \<Rightarrow> nat db" where
  "upsert_vote_identity_mapping mapping chunk_size =
     (let chunk_size = (case chunk_size of None \<Rightarrow> 3000 | Some n \<Rightarrow> n) in
     crank_bind (crank_try get_unmapped_identity_accounts) (\<lambda>r.
     let unmapped = (case r of Inr xs \<Rightarrow> xs | Inl e \<Rightarrow> map fst mapping);
         entries_to_write = filter (\<lambda>(identity, _). identity \<in> set unmapped) mapping in
     in_transactions (and_then (chunks chunk_size entries_to_write)
       (\<lambda>cs. Ok (map (map (\<lambda>(identity, vote). Ok (Some (map_identity identity vote)))) cs)))))"

definition finish_slot :: "nat \<Rightarrow> nat \<Rightarrow> slot_table \<Rightarrow> slot_table" where
  "finish_slot slot fees =
     sql_update (\<lambda>r. absolute_slot r = slot) (\<lambda>r. r\<lparr>priority_fees := fees, row_state := state_u8 Done\<rparr>)"

definition upsert_block_data :: "(nat \<times> nat) list \<Rightarrow> nat option \<Rightarrow> nat db" where
  "upsert_block_data blocks chunk_size =
     (let chunk_size = (case chunk_size of None \<Rightarrow> 50 | Some n \<Rightarrow> n) in
     in_transactions (and_then (chunks chunk_size blocks)
       (\<lambda>cs. Ok (map (map (\<lambda>(slot, fees). Ok (Some (finish_slot slot fees)))) cs))))"

definition set_block_dne :: "nat \<Rightarrow> unit db" where
  "set_block_dne slot = sql_execute
     (sql_update (\<lambda>r. absolute_slot r = slot \<and> row_state r = state_u8 Created)
       (\<lambda>r. r\<lparr>priority_fees := 0, row_state := state_u8 BlockDNE\<rparr>))"

definition set_block_error :: "nat \<Rightarrow> string \<Rightarrow> unit db" where
  "set_block_error slot message = sql_execute
     (sql_update (\<lambda>r. absolute_slot r = slot \<and> row_state r = state_u8 Created)
       (\<lambda>r. r\<lparr>priority_fees := 0, row_state := state_u8 Error, error_string := message\<rparr>))"

section \<open>Adding up by validator\<close>

text \<open>
  entries/priority_fee_and_block_metadata_entry.rs. The addresses of the accounts that are
  derived from the vote account are left out.
\<close>

record PriorityFeeAndBlockMetadataEntry =
  en_vote_account :: Pubkey
  en_epoch :: nat
  en_total_priority_fees :: nat
  en_total_leader_slots :: nat
  en_blocks_produced :: nat
  en_highest_global_done_slot :: nat
  en_highest_done_slot :: nat
  en_blocks_left :: nat
  en_blocks_error :: nat
  en_blocks_missed :: nat

definition PriorityFeeAndBlockMetadataEntry_new :: "Pubkey \<Rightarrow> nat \<Rightarrow> PriorityFeeAndBlockMetadataEntry" where
  "PriorityFeeAndBlockMetadataEntry_new vote_account ep =
     \<lparr>en_vote_account = vote_account, en_epoch = ep, en_total_priority_fees = 0, en_total_leader_slots = 0,
      en_blocks_produced = 0, en_highest_global_done_slot = 0, en_highest_done_slot = 0, en_blocks_left = 0,
      en_blocks_error = 0, en_blocks_missed = 0\<rparr>"

definition count_state :: "DBSlotInfo \<Rightarrow> PriorityFeeAndBlockMetadataEntry \<Rightarrow> PriorityFeeAndBlockMetadataEntry result" where
  "count_state info en =
     (case si_state info of
        Created \<Rightarrow> and_then (plus_or_panic U32_MAX (en_blocks_left en) 1) (\<lambda>n. Ok (en\<lparr>en_blocks_left := n\<rparr>))
      | Done \<Rightarrow>
          and_then (plus_or_panic U32_MAX (en_blocks_produced en) 1) (\<lambda>n.
          and_then (plus_or_panic U64_MAX (en_total_priority_fees en) (si_priority_fees info)) (\<lambda>fees.
          Ok (en\<lparr>en_blocks_produced := n, en_total_priority_fees := fees\<rparr>)))
      | BlockDNE \<Rightarrow> and_then (plus_or_panic U32_MAX (en_blocks_missed en) 1) (\<lambda>n. Ok (en\<lparr>en_blocks_missed := n\<rparr>))
      | Error \<Rightarrow> and_then (plus_or_panic U32_MAX (en_blocks_error en) 1) (\<lambda>n. Ok (en\<lparr>en_blocks_error := n\<rparr>)))"

definition count_slot_info ::
  "nat \<Rightarrow> DBSlotInfo \<Rightarrow> PriorityFeeAndBlockMetadataEntry \<Rightarrow> PriorityFeeAndBlockMetadataEntry result" where
  "count_slot_info global_done info en =
     and_then (plus_or_panic U32_MAX (en_total_leader_slots en) 1) (\<lambda>n.
     and_then (count_state info (en\<lparr>en_total_leader_slots := n\<rparr>)) (\<lambda>en.
     Ok (en\<lparr>en_highest_done_slot :=
            (if si_state info = Done then max (si_absolute_slot info) (en_highest_done_slot en) else en_highest_done_slot en),
          en_highest_global_done_slot := global_done\<rparr>)))"

text \<open>
  One row. Parsing and printing of public keys is the Solana library's. A row whose vote key
  does not parse is skipped.
\<close>

type_synonym update_map = "(string \<times> PriorityFeeAndBlockMetadataEntry) list"

definition aggregate_row ::
  "(string \<Rightarrow> Pubkey option) \<Rightarrow> (Pubkey \<Rightarrow> string) \<Rightarrow> nat \<Rightarrow> nat \<Rightarrow> slot_row \<Rightarrow> update_map
   \<Rightarrow> (BlockMetadataKeeperError + update_map) result" where
  "aggregate_row parse_pubkey show_pubkey ep global_done row m =
     (case from_db_row row of
        Inl e \<Rightarrow> Ok (Inl e)
      | Inr info \<Rightarrow>
          (case si_vote_key info of
             None \<Rightarrow> Ok (Inr m)
           | Some key \<Rightarrow>
               (case parse_pubkey key of
                  None \<Rightarrow> Ok (Inr m)
                | Some vote \<Rightarrow>
                    let en = (case map_of m (show_pubkey vote) of
                        None \<Rightarrow> PriorityFeeAndBlockMetadataEntry_new vote ep | Some en \<Rightarrow> en) in
                    and_then (count_slot_info global_done info en) (\<lambda>en.
                    Ok (Inr (AList.update (show_pubkey vote) en m))))))"

primrec aggregate_rows ::
  "(string \<Rightarrow> Pubkey option) \<Rightarrow> (Pubkey \<Rightarrow> string) \<Rightarrow> nat \<Rightarrow> nat \<Rightarrow> slot_row list \<Rightarrow> update_map
   \<Rightarrow> (BlockMetadataKeeperError + update_map) result" where
  "aggregate_rows parse_pubkey show_pubkey ep global_done [] m = Ok (Inr m)"
| "aggregate_rows parse_pubkey show_pubkey ep global_done (row # rows) m =
     and_then (aggregate_row parse_pubkey show_pubkey ep global_done row m) (\<lambda>r.
     case r of Inl e \<Rightarrow> Ok (Inl e) | Inr m \<Rightarrow> aggregate_rows parse_pubkey show_pubkey ep global_done rows m)"

definition get_priority_fee_and_block_metadata_entries ::
  "(string \<Rightarrow> Pubkey option) \<Rightarrow> (Pubkey \<Rightarrow> string) \<Rightarrow> nat \<Rightarrow> update_map db" where
  "get_priority_fee_and_block_metadata_entries parse_pubkey show_pubkey ep =
     crank_bind (sql_select (\<lambda>t. sort_key absolute_slot (filter (\<lambda>r. row_epoch r = ep \<and> vote_key r \<noteq> []) t))) (\<lambda>rows.
     crank_bind get_highest_done_slot (\<lambda>highest.
     lift_result (aggregate_rows parse_pubkey show_pubkey ep (case highest of None \<Rightarrow> 0 | Some s \<Rightarrow> s) rows [])))"

section \<open>Filling from the Dune service\<close>

record DuneRow =
  du_leader :: string
  du_slot :: nat
  du_epoch :: nat
  du_priority_fees_lamports :: nat

definition insert_dune_entries :: "DBSlotInfo list \<Rightarrow> nat \<Rightarrow> nat db" where
  "insert_dune_entries infos chunk_size =
     in_transactions (and_then (chunks chunk_size infos) (\<lambda>cs. Ok (map (map (\<lambda>info. Ok (Some (sql_insert_or_ignore
       \<lparr>absolute_slot = si_absolute_slot info, relative_slot = si_relative_slot info, row_epoch = si_epoch info,
        vote_key = (case si_vote_key info of None \<Rightarrow> [] | Some k \<Rightarrow> k), identity_key = si_identity_key info,
        priority_fees = si_priority_fees info, row_state = state_u8 (si_state info),
        error_string = (case si_error_string info of None \<Rightarrow> [] | Some s \<Rightarrow> s)\<rparr>)))) cs)))"

definition dune_slot_info :: "EpochSchedule \<Rightarrow> DuneRow \<Rightarrow> DBSlotInfo result" where
  "dune_slot_info es row =
     and_then (minus_or_panic (du_slot row) (get_first_slot_in_epoch es (du_epoch row))) (\<lambda>rel.
     Ok \<lparr>si_identity_key = du_leader row, si_vote_key = None, si_epoch = du_epoch row, si_absolute_slot = du_slot row,
         si_relative_slot = rel, si_priority_fees = du_priority_fees_lamports row, si_state = Done, si_error_string = None\<rparr>)"

text \<open>
  The pages of the service: \<open>fetch limit offset\<close> gives the rows of a page and whether there is
  a next one. A page without rows ends the loop.
\<close>

record dune_loop =
  dl_total_written :: nat
  dl_offset :: nat
  dl_has_more :: bool

definition dune_turn ::
  "(nat \<Rightarrow> nat \<Rightarrow> 'w \<Rightarrow> (BlockMetadataKeeperError + DuneRow list \<times> bool) \<times> 'w) \<Rightarrow> EpochSchedule \<Rightarrow> nat \<Rightarrow> nat \<Rightarrow> dune_loop
   \<Rightarrow> (connection \<times> 'w, BlockMetadataKeeperError, dune_loop + nat) action" where
  "dune_turn fetch es batch_size chunk_size v =
     (if \<not> dl_has_more v then crank_return (Inr (dl_total_written v))
      else
        crank_bind (on_right (crank_call id (fetch batch_size (dl_offset v)))) (\<lambda>(rows, next_uri).
        if rows = [] then crank_return (Inl (v\<lparr>dl_has_more := False\<rparr>))
        else
          crank_bind (crank_pure (map_result (dune_slot_info es) rows)) (\<lambda>infos.
          crank_bind (on_left (insert_dune_entries infos chunk_size)) (\<lambda>written.
          crank_bind (crank_pure (plus_or_panic U64_MAX (dl_total_written v) written)) (\<lambda>tot.
          crank_bind (crank_pure (plus_or_panic U64_MAX (dl_offset v) (length rows))) (\<lambda>off.
          crank_return (Inl \<lparr>dl_total_written = tot, dl_offset = off, dl_has_more = next_uri\<rparr>)))))))"

definition fetch_and_insert_from_dune ::
  "(nat \<Rightarrow> nat \<Rightarrow> 'w \<Rightarrow> (BlockMetadataKeeperError + DuneRow list \<times> bool) \<times> 'w) \<Rightarrow> EpochSchedule \<Rightarrow> nat \<Rightarrow> nat \<Rightarrow> nat
   \<Rightarrow> (connection \<times> 'w, BlockMetadataKeeperError, nat) action" where
  "fetch_and_insert_from_dune fetch es batch_size chunk_size starting_offset =
     crank_loop (dune_turn fetch es batch_size chunk_size)
       \<lparr>dl_total_written = 0, dl_offset = starting_offset, dl_has_more = True\<rparr>"

end
