(* ===== verification/Keeper_State.thy ===== *)
theory Keeper_State
  imports Slot_Database Directed_Oracle History_Instructions
begin

text \<open>
  The state of the keeper bot: keepers/stakenet-keeper/src/state/keeper_state.rs, the run
  flags of operations/keeper_operations.rs, the refreshing of the state in
  state/update_state.rs, and the account readers of the client library that it calls. The
  state is the first part of the world, so that what a function has written stays when it
  ends with an error.
\<close>

section \<open>Operations and flags\<close>

text \<open>One constructor carries a suffix, since an error constructor has its name.\<close>

datatype KeeperOperations =
    PreCreateUpdate
  | CreateMissingAccounts
  | PostCreateUpdate
  | ClusterHistoryCopy
  | GossipUpload
  | StakeUpload
  | VoteAccount
  | MevEarned
  | MevCommission
  | StewardCrank
  | EmitMetrics
  | BlockMetadataKeeper
  | PriorityFeeCommission
  | DirectedStaking
  | CopyIsBamConnected

fun operation_index :: "KeeperOperations \<Rightarrow> nat" where
  "operation_index PreCreateUpdate = 0"
| "operation_index CreateMissingAccounts = 1"
| "operation_index PostCreateUpdate = 2"
| "operation_index ClusterHistoryCopy = 3"
| "operation_index GossipUpload = 4"
| "operation_index StakeUpload = 5"
| "operation_index VoteAccount = 6"
| "operation_index MevEarned = 7"
| "operation_index MevCommission = 8"
| "operation_index StewardCrank = 9"
| "operation_index EmitMetrics = 10"
| "operation_index BlockMetadataKeeper = 11"
| "operation_index PriorityFeeCommission = 12"
| "operation_index DirectedStaking = 13"
| "operation_index CopyIsBamConnected = 14"

definition OPERATIONS_LEN :: nat where "OPERATIONS_LEN = 15"
definition CREATES_LEN :: nat where "CREATES_LEN = 1"

unbundle bit_operations_syntax

definition set_run_flag :: "32 word \<Rightarrow> KeeperOperations \<Rightarrow> 32 word" where
  "set_run_flag run_flags op = run_flags OR push_bit (operation_index op) 1"

definition unset_run_flag :: "32 word \<Rightarrow> KeeperOperations \<Rightarrow> 32 word" where
  "unset_run_flag run_flags op = run_flags AND NOT (push_bit (operation_index op) 1)"

definition check_run_flag :: "32 word \<Rightarrow> KeeperOperations \<Rightarrow> bool" where
  "check_run_flag run_flags op \<longleftrightarrow>
     run_flags AND push_bit (operation_index op) 1 = push_bit (operation_index op) 1"

datatype KeeperFlag = Startup | RerunVote

fun keeper_flag_u8 :: "KeeperFlag \<Rightarrow> 8 word" where
  "keeper_flag_u8 Startup = 1"
| "keeper_flag_u8 RerunVote = 2"

definition set_keeper_flag :: "KeeperFlag \<Rightarrow> 8 word \<Rightarrow> 8 word" where
  "set_keeper_flag flag flags = flags OR keeper_flag_u8 flag"

definition unset_keeper_flag :: "KeeperFlag \<Rightarrow> 8 word \<Rightarrow> 8 word" where
  "unset_keeper_flag flag flags = flags AND NOT (keeper_flag_u8 flag)"

definition check_keeper_flag :: "KeeperFlag \<Rightarrow> 8 word \<Rightarrow> bool" where
  "check_keeper_flag flag flags \<longleftrightarrow> flags AND keeper_flag_u8 flag \<noteq> 0"

section \<open>The state\<close>

record EpochInfo =
  ei_epoch :: nat
  ei_slot_index :: nat
  ei_slots_in_epoch :: nat
  ei_absolute_slot :: nat
  ei_block_height :: nat

record RpcVoteAccountInfo =
  vi_vote_pubkey :: string
  vi_node_pubkey :: string
  vi_activated_stake :: nat
  vi_epoch_credits :: "(nat \<times> nat \<times> nat) list"

text \<open>A hash map is a list of pairs with different keys in its order of traversal.\<close>

record KeeperState =
  ks_keeper_flags :: "8 word"
  ks_epoch_info :: EpochInfo
  ks_epoch_schedule :: EpochSchedule
  ks_slot_history :: SlotHistory
  runs_for_epoch :: "nat list"
  errors_for_epoch :: "nat list"
  txs_for_epoch :: "nat list"
  created_accounts_for_epoch :: "nat list"
  vote_account_map :: "(Pubkey \<times> RpcVoteAccountInfo) list"
  validator_history_map :: "(Pubkey \<times> ValidatorHistory) list"
  identity_to_vote_map :: "(string \<times> string) list"
  ks_history_vote_account_map :: "(Pubkey \<times> Account option) list"
  ks_get_vote_account_map :: "(Pubkey \<times> Account option) list"
  previous_epoch_tip_distribution_map :: "(Pubkey \<times> Account option) list"
  current_epoch_tip_distribution_map :: "(Pubkey \<times> Account option) list"
  ks_cluster_history :: "ClusterHistory option"
  keeper_balance :: nat
  ks_steward_accounts :: "AllStewardAccounts option"
  ks_steward_validator_accounts :: "AllValidatorAccounts option"
  ks_active_validator_accounts :: "AllValidatorAccounts option"

text \<open>Collecting pairs into a hash map: the last of equal keys wins.\<close>

definition collect_map :: "('k \<times> 'v) list \<Rightarrow> ('k \<times> 'v) list" where
  "collect_map xs = fold (\<lambda>(k, v). AList.update k v) xs []"

definition update_identity_to_vote_map :: "KeeperState \<Rightarrow> KeeperState" where
  "update_identity_to_vote_map ks = ks\<lparr>identity_to_vote_map :=
     collect_map (map (\<lambda>(_, info). (vi_node_pubkey info, vi_vote_pubkey info)) (vote_account_map ks))\<rparr>"

definition increment :: "nat list \<Rightarrow> nat \<Rightarrow> nat \<Rightarrow> nat list result" where
  "increment xs i n =
     and_then (arr_get xs i) (\<lambda>x. and_then (plus_or_panic U64_MAX x n) (\<lambda>y. arr_set xs i y))"

definition increment_update_run_for_epoch :: "KeeperOperations \<Rightarrow> KeeperState \<Rightarrow> KeeperState result" where
  "increment_update_run_for_epoch op ks =
     and_then (increment (runs_for_epoch ks) (operation_index op) 1) (\<lambda>xs. Ok (ks\<lparr>runs_for_epoch := xs\<rparr>))"

definition increment_update_error_for_epoch :: "KeeperOperations \<Rightarrow> KeeperState \<Rightarrow> KeeperState result" where
  "increment_update_error_for_epoch op ks =
     and_then (increment (errors_for_epoch ks) (operation_index op) 1) (\<lambda>xs. Ok (ks\<lparr>errors_for_epoch := xs\<rparr>))"

text \<open>The transactions are added to the errors, as the source has it.\<close>

definition increment_update_txs_for_epoch :: "KeeperOperations \<Rightarrow> nat \<Rightarrow> KeeperState \<Rightarrow> KeeperState result" where
  "increment_update_txs_for_epoch op txs ks =
     and_then (increment (errors_for_epoch ks) (operation_index op) txs) (\<lambda>xs. Ok (ks\<lparr>errors_for_epoch := xs\<rparr>))"

definition copy_runs_errors_and_txs_for_epoch :: "KeeperOperations \<Rightarrow> KeeperState \<Rightarrow> (nat \<times> nat \<times> nat) result" where
  "copy_runs_errors_and_txs_for_epoch op ks =
     and_then (arr_get (runs_for_epoch ks) (operation_index op)) (\<lambda>runs.
     and_then (arr_get (errors_for_epoch ks) (operation_index op)) (\<lambda>errs.
     and_then (arr_get (txs_for_epoch ks) (operation_index op)) (\<lambda>txs. Ok (runs, errs, txs))))"

definition set_runs_errors_and_txs_for_epoch ::
  "KeeperOperations \<Rightarrow> nat \<times> nat \<times> nat \<Rightarrow> KeeperState \<Rightarrow> KeeperState result" where
  "set_runs_errors_and_txs_for_epoch op = (\<lambda>(runs, errs, txs) ks.
     and_then (arr_set (runs_for_epoch ks) (operation_index op) runs) (\<lambda>rs.
     and_then (arr_set (errors_for_epoch ks) (operation_index op) errs) (\<lambda>es.
     and_then (arr_set (txs_for_epoch ks) (operation_index op) txs) (\<lambda>ts.
     Ok (ks\<lparr>runs_for_epoch := rs, errors_for_epoch := es, txs_for_epoch := ts\<rparr>)))))"

definition set_runs_errors_txs_and_flags_for_epoch ::
  "KeeperOperations \<Rightarrow> nat \<times> nat \<times> nat \<Rightarrow> 8 word \<Rightarrow> KeeperState \<Rightarrow> KeeperState result" where
  "set_runs_errors_txs_and_flags_for_epoch op tally flags ks =
     and_then (set_runs_errors_and_txs_for_epoch op tally ks) (\<lambda>ks. Ok (ks\<lparr>ks_keeper_flags := flags\<rparr>))"

text \<open>The only kind of creation is that of validator histories, with index 0.\<close>

definition increment_creations_for_epoch :: "nat \<Rightarrow> KeeperState \<Rightarrow> KeeperState result" where
  "increment_creations_for_epoch n ks =
     and_then (increment (created_accounts_for_epoch ks) 0 n) (\<lambda>xs. Ok (ks\<lparr>created_accounts_for_epoch := xs\<rparr>))"

definition get_closed_vote_accounts :: "Pubkey \<Rightarrow> KeeperState \<Rightarrow> Pubkey list" where
  "get_closed_vote_accounts vote_program ks =
     map fst (filter (\<lambda>(_, a). case a of Some a \<Rightarrow> ac_owner a \<noteq> vote_program | None \<Rightarrow> True) (ks_history_vote_account_map ks))"

definition get_all_open_vote_accounts :: "Pubkey \<Rightarrow> KeeperState \<Rightarrow> Pubkey list" where
  "get_all_open_vote_accounts vote_program ks =
     map fst (filter (\<lambda>(_, a). case a of Some a \<Rightarrow> ac_owner a = vote_program | None \<Rightarrow> False) (ks_history_vote_account_map ks))"

definition get_live_vote_accounts :: "Pubkey \<Rightarrow> KeeperState \<Rightarrow> Pubkey list" where
  "get_live_vote_accounts vote_program ks =
     map fst (filter (\<lambda>(_, a). case a of Some a \<Rightarrow> ac_owner a = vote_program | None \<Rightarrow> False) (ks_get_vote_account_map ks))"

section \<open>Reading accounts\<close>

text \<open>
  What the bot takes from libraries besides: keys as text, addresses that are derived from
  keys, parsers of accounts, and the size of a validator history.
\<close>

record state_lib = keeper_lib +
  lib_parse_pubkey :: "string \<Rightarrow> Pubkey option"
  lib_show_pubkey :: "Pubkey \<Rightarrow> string"
  lib_history_address :: "Pubkey \<Rightarrow> Pubkey"
  lib_stake_address :: "Pubkey \<Rightarrow> Pubkey \<Rightarrow> Pubkey"
  lib_tip_distribution_address :: "Pubkey \<Rightarrow> nat \<Rightarrow> Pubkey"
  lib_priority_fee_distribution_address :: "Pubkey \<Rightarrow> nat \<Rightarrow> Pubkey"
  lib_cluster_history_address :: Pubkey
  lib_slot_history_sysvar :: Pubkey
  lib_tip_distribution_program :: Pubkey
  lib_tip_has_merkle_root :: "8 word list \<Rightarrow> bool option"
  lib_slot_history :: "8 word list \<Rightarrow> SlotHistory option"
  lib_slot_check :: "SlotHistory \<Rightarrow> nat \<Rightarrow> Check"
  lib_cluster_history :: "8 word list \<Rightarrow> ClusterHistory option"
  lib_history_size :: nat
  lib_debug_string :: "string \<Rightarrow> string"

record ('w, 'ix) StateClient = "('w, 'ix) OracleClient" +
  rpc_epoch_info :: "'w \<Rightarrow> (ClientError + EpochInfo) \<times> 'w"
  rpc_epoch_schedule :: "'w \<Rightarrow> (ClientError + EpochSchedule) \<times> 'w"
  rpc_finalized_account :: "Pubkey \<Rightarrow> 'w \<Rightarrow> (ClientError + Account option) \<times> 'w"
  rpc_vote_accounts :: "'w \<Rightarrow> (ClientError + RpcVoteAccountInfo list \<times> RpcVoteAccountInfo list) \<times> 'w"
  rpc_multiple_accounts :: "Pubkey list \<Rightarrow> 'w \<Rightarrow> (ClientError + Account option list) \<times> 'w"
  rpc_account :: "Pubkey \<Rightarrow> 'w \<Rightarrow> (ClientError + Account) \<times> 'w"
  rpc_history_accounts :: "'w \<Rightarrow> (ClientError + (Pubkey \<times> Account) list) \<times> 'w"
  rpc_balance :: "'w \<Rightarrow> (ClientError + nat) \<times> 'w"
  rpc_steward_accounts :: "'w \<Rightarrow> (JitoTransactionError + AllStewardAccounts) \<times> 'w"
  group_order :: "(nat \<times> 'ix Instruction list) list \<Rightarrow> (nat \<times> 'ix Instruction list) list"

definition get_multiple_accounts_with_retry ::
  "('w, 'ix, 'z) StateClient_scheme \<Rightarrow> Pubkey list \<Rightarrow> 'w \<Rightarrow> (ClientError + Account option list) \<times> 'w" where
  "get_multiple_accounts_with_retry c pubkeys = retry (rpc_multiple_accounts c pubkeys) 3"

text \<open>
  The batches are fetched by tasks of their own, which all run to their end; the first error
  in the order of the batches is returned.
\<close>

primrec run_tasks :: "('w \<Rightarrow> 'r \<times> 'w) list \<Rightarrow> 'w \<Rightarrow> 'r list \<times> 'w" where
  "run_tasks [] w = ([], w)"
| "run_tasks (task # tasks) w =
     (case task w of (r, w) \<Rightarrow> (case run_tasks tasks w of (rs, w) \<Rightarrow> (r # rs, w)))"

primrec collect_batches :: "(ClientError + 'a list) list \<Rightarrow> JitoMultipleAccountsError + 'a list" where
  "collect_batches [] = Inr []"
| "collect_batches (r # rs) =
     (case r of
        Inl e \<Rightarrow> Inl (AccountsClientError e)
      | Inr xs \<Rightarrow> (case collect_batches rs of Inl e \<Rightarrow> Inl e | Inr ys \<Rightarrow> Inr (xs @ ys)))"

definition get_multiple_accounts_batched ::
  "('w, 'ix, 'z) StateClient_scheme \<Rightarrow> Pubkey list \<Rightarrow> 'w \<Rightarrow> (JitoMultipleAccountsError + Account option list) \<times> 'w" where
  "get_multiple_accounts_batched c accounts w =
     (case run_tasks (map (get_multiple_accounts_with_retry c) (chunks_of 100 accounts)) w of
        (rs, w) \<Rightarrow> (collect_batches rs, w))"

abbreviation fetch_accounts ::
  "('w, 'ix, 'z) StateClient_scheme \<Rightarrow> Pubkey list \<Rightarrow> ('w, Account option list) crank" where
  "fetch_accounts c keys \<equiv> crank_call MultipleAccountsError (get_multiple_accounts_batched c keys)"

definition get_vote_accounts_with_retry ::
  "('w, 'ix, 'z) StateClient_scheme \<Rightarrow> nat \<Rightarrow> 'w \<Rightarrow> (ClientError + RpcVoteAccountInfo list) \<times> 'w" where
  "get_vote_accounts_with_retry c min_vote_epochs w =
     (case retry (rpc_vote_accounts c) 3 w of
        (r, w) \<Rightarrow> (map_sum id (\<lambda>(current, delinquent).
           filter (\<lambda>v. min_vote_epochs \<le> length (vi_epoch_credits v)) (current @ delinquent)) r, w))"

definition get_balance_with_retry ::
  "('w, 'ix, 'z) StateClient_scheme \<Rightarrow> 'w \<Rightarrow> (ClientError + nat) \<times> 'w" where
  "get_balance_with_retry c = retry (rpc_balance c) 5"

definition get_all_validator_history_accounts ::
  "('w, 'ix, 'z) StateClient_scheme \<Rightarrow> ('y) state_lib_scheme \<Rightarrow> ('w, ValidatorHistory list) crank" where
  "get_all_validator_history_accounts c lib =
     crank_bind (crank_call JitoClientError (rpc_history_accounts c)) (\<lambda>accounts.
     crank_return (List.map_filter (\<lambda>(_, a). lib_history lib (ac_data a)) accounts))"

text \<open>
  The accounts of the validators with the given vote accounts; \<open>pool\<close> is the stake pool that
  the stake addresses are derived with. The functions for the pool and for all validators
  fetch the three kinds of accounts in a different order.
\<close>

definition zip_accounts :: "Pubkey list \<Rightarrow> Account option list \<Rightarrow> (Pubkey \<times> Account option) list" where
  "zip_accounts keys accs = collect_map (zip keys accs)"

definition get_all_validator_accounts ::
  "('w, 'ix, 'z) StateClient_scheme \<Rightarrow> ('y) state_lib_scheme \<Rightarrow> RpcVoteAccountInfo list \<Rightarrow> ('w, AllValidatorAccounts) crank" where
  "get_all_validator_accounts c lib infos =
     crank_bind (crank_pure (map_result (\<lambda>v. ok_or (lib_parse_pubkey lib (vi_vote_pubkey v)) Panic) infos)) (\<lambda>votes.
     crank_bind (fetch_accounts c votes) (\<lambda>vote_accs.
     crank_bind (fetch_accounts c (map (\<lambda>v. lib_stake_address lib v v) votes)) (\<lambda>stake_accs.
     crank_bind (fetch_accounts c (map (lib_history_address lib) votes)) (\<lambda>history_accs.
     crank_return \<lparr>all_history_vote_account_map = zip_accounts votes history_accs,
       all_stake_account_map = zip_accounts votes stake_accs, all_vote_account_map = zip_accounts votes vote_accs\<rparr>))))"

definition get_all_steward_validator_accounts ::
  "('w, 'ix, 'z) StateClient_scheme \<Rightarrow> ('y) state_lib_scheme \<Rightarrow> AllStewardAccounts \<Rightarrow> ('w, AllValidatorAccounts) crank" where
  "get_all_steward_validator_accounts c lib steward =
     (let votes = map vote_account_address (pool_validators steward) in
     crank_bind (fetch_accounts c (map (\<lambda>v. lib_stake_address lib v (c_stake_pool (config_account steward))) votes)) (\<lambda>stake_accs.
     crank_bind (fetch_accounts c (map (lib_history_address lib) votes)) (\<lambda>history_accs.
     crank_bind (fetch_accounts c votes) (\<lambda>vote_accs.
     crank_return \<lparr>all_history_vote_account_map = zip_accounts votes history_accs,
       all_stake_account_map = zip_accounts votes stake_accs, all_vote_account_map = zip_accounts votes vote_accs\<rparr>))))"

section \<open>Refreshing the state\<close>

type_synonym ('w, 'a) keeper = "(KeeperState \<times> 'w, 'a) crank"

definition get_state :: "('w, KeeperState) keeper" where
  "get_state = (\<lambda>(ks, w). Some (Ok (Inr ks, (ks, w))))"

definition modify_state :: "(KeeperState \<Rightarrow> KeeperState) \<Rightarrow> ('w, unit) keeper" where
  "modify_state f = (\<lambda>(ks, w). Some (Ok (Inr (), (f ks, w))))"

definition set_latest_epoch :: "EpochInfo \<Rightarrow> KeeperState \<Rightarrow> KeeperState" where
  "set_latest_epoch latest ks =
     (let ks = (if ei_epoch latest \<noteq> ei_epoch (ks_epoch_info ks)
        then ks\<lparr>runs_for_epoch := replicate OPERATIONS_LEN 0, errors_for_epoch := replicate OPERATIONS_LEN 0,
               txs_for_epoch := replicate OPERATIONS_LEN 0, created_accounts_for_epoch := replicate CREATES_LEN 0\<rparr>
        else ks) in
      ks\<lparr>ks_epoch_info := latest\<rparr>)"

definition get_vote_account_map ::
  "('w, 'ix, 'z) StateClient_scheme \<Rightarrow> ('y) state_lib_scheme \<Rightarrow> ('w, (Pubkey \<times> RpcVoteAccountInfo) list) crank" where
  "get_vote_account_map c lib =
     crank_bind (crank_call JitoClientError (get_vote_accounts_with_retry c MIN_VOTE_EPOCHS)) (\<lambda>infos.
     crank_bind (crank_pure (map_result (\<lambda>v. and_then (ok_or (lib_parse_pubkey lib (vi_vote_pubkey v)) Panic)
         (\<lambda>k. Ok (k, v))) infos)) (\<lambda>pairs.
     crank_return (collect_map pairs)))"

definition get_cluster_history ::
  "('w, 'ix, 'z) StateClient_scheme \<Rightarrow> ('y) state_lib_scheme \<Rightarrow> ('w, ClusterHistory) crank" where
  "get_cluster_history c lib =
     crank_bind (crank_call JitoClientError (rpc_account c (lib_cluster_history_address lib))) (\<lambda>a.
     lift_sum (case lib_cluster_history lib (ac_data a) of None \<Rightarrow> Inl (JitoCustom ''ClusterHistory'') | Some h \<Rightarrow> Inr h))"

definition pre_create_update ::
  "('w, 'ix, 'z) StateClient_scheme \<Rightarrow> ('y) state_lib_scheme \<Rightarrow> ('w, unit) keeper" where
  "pre_create_update c lib =
     crank_bind (on_right (crank_call JitoClientError (rpc_epoch_info c))) (\<lambda>latest.
     crank_bind (modify_state (set_latest_epoch latest)) (\<lambda>_.
     crank_bind (on_right (crank_call JitoClientError (rpc_epoch_schedule c))) (\<lambda>es.
     crank_bind (modify_state (\<lambda>ks. ks\<lparr>ks_epoch_schedule := es\<rparr>)) (\<lambda>_.
     crank_bind (on_right (crank_call JitoClientError (rpc_finalized_account c (lib_slot_history_sysvar lib)))) (\<lambda>acc.
     crank_bind (lift_sum (case Option.bind acc (\<lambda>a. lib_slot_history lib (ac_data a)) of
         None \<Rightarrow> Inl (JitoCustom ''SlotHistory sysvar'') | Some sh \<Rightarrow> Inr sh)) (\<lambda>sh.
     crank_bind (modify_state (\<lambda>ks. ks\<lparr>ks_slot_history := sh\<rparr>)) (\<lambda>_.
     crank_bind (on_right (get_vote_account_map c lib)) (\<lambda>votes.
     crank_bind (modify_state (\<lambda>ks. update_identity_to_vote_map (ks\<lparr>vote_account_map := votes\<rparr>))) (\<lambda>_.
     crank_bind (on_right (fetch_accounts c (map fst votes))) (\<lambda>accs.
     crank_bind (modify_state (\<lambda>ks. ks\<lparr>ks_get_vote_account_map := zip_accounts (map fst votes) accs\<rparr>)) (\<lambda>_.
     crank_bind (on_right (get_cluster_history c lib)) (\<lambda>ch.
     crank_bind (modify_state (\<lambda>ks. ks\<lparr>ks_cluster_history := Some ch\<rparr>)) (\<lambda>_.
     crank_bind (on_right (crank_call JitoClientError (get_balance_with_retry c))) (\<lambda>balance.
     modify_state (\<lambda>ks. ks\<lparr>keeper_balance := balance\<rparr>)))))))))))))))"

text \<open>
  sdk/src/utils/instructions.rs: one instruction creates the account, the others grow it by
  one allocation each.
\<close>

definition get_create_validator_history_instructions ::
  "('y) state_lib_scheme \<Rightarrow> Pubkey \<Rightarrow> keeper_ix Instruction list result" where
  "get_create_validator_history_instructions lib vote_account =
     and_then (minus_or_panic (lib_history_size lib) HISTORY_MAX_ALLOC_BYTES) (\<lambda>rest.
     let num_reallocs = rest div HISTORY_MAX_ALLOC_BYTES + 1 in
     Ok (Ix (InitializeValidatorHistoryAccountIx vote_account) #
         replicate num_reallocs (Ix (ReallocValidatorHistoryAccountIx vote_account))))"

record KeeperConfig =
  kc_keypair :: Pubkey
  kc_priority_fee :: nat
  kc_tx_retry_count :: nat
  kc_tx_confirmation_seconds :: nat
  kc_has_oracle_authority_keypair :: bool
  kc_has_priority_fee_oracle_authority_keypair :: bool
  kc_has_directed_stake_oracle_authority_keypair :: bool
  kc_has_gossip_entrypoints :: bool
  kc_validator_history_interval :: nat
  kc_steward_interval :: nat
  kc_metrics_interval :: nat
  kc_block_metadata_interval :: nat
  kc_run_flags :: "32 word"
  kc_cool_down_range :: nat
  kc_full_startup :: bool
  kc_no_pack :: bool
  kc_pay_for_new_accounts :: bool
  kc_lookback_epochs :: nat
  kc_lookback_start_offset_epochs :: nat
  kc_validator_history_min_stake :: nat
  kc_coinbase_vote_pubkey :: Pubkey
  kc_min_bam_connection_rate :: f64

definition create_missing_validator_history_accounts ::
  "('w, keeper_ix, 'z) StateClient_scheme \<Rightarrow> ('y) state_lib_scheme \<Rightarrow> KeeperConfig \<Rightarrow> KeeperState \<Rightarrow> ('w, nat) crank" where
  "create_missing_validator_history_accounts c lib config ks =
     (let votes = map fst (filter (\<lambda>(_, v). kc_validator_history_min_stake config < vi_activated_stake v) (vote_account_map ks)) in
     crank_bind (fetch_accounts c (map (lib_history_address lib) votes)) (\<lambda>accs.
     crank_bind (crank_pure (map_result (\<lambda>(vote, _). get_create_validator_history_instructions lib vote)
         (filter (\<lambda>(_, a). a = None) (zip votes accs)))) (\<lambda>txs.
     crank_bind (crank_map_err TransactionExecutionError
         (submit_transactions c txs (kc_tx_retry_count config) (kc_tx_confirmation_seconds config))) (\<lambda>_.
     crank_return (length txs)))))"

text \<open>The only kind of account that is created; the result is the number of accounts.\<close>

definition create_missing_accounts ::
  "('w, keeper_ix, 'z) StateClient_scheme \<Rightarrow> ('y) state_lib_scheme \<Rightarrow> KeeperConfig \<Rightarrow> ('w, nat) keeper" where
  "create_missing_accounts c lib config =
     crank_bind get_state (\<lambda>ks. on_right (create_missing_validator_history_accounts c lib config ks))"

definition get_tip_distribution_accounts ::
  "('w, 'ix, 'z) StateClient_scheme \<Rightarrow> ('y) state_lib_scheme \<Rightarrow> KeeperState \<Rightarrow> nat \<Rightarrow> ('w, (Pubkey \<times> Account option) list) crank" where
  "get_tip_distribution_accounts c lib ks ep =
     (let votes = map fst (ks_history_vote_account_map ks) in
     crank_bind (fetch_accounts c (map (\<lambda>v. lib_tip_distribution_address lib v ep) votes)) (\<lambda>accs.
     crank_return (collect_map (map (\<lambda>(v, a). (v, case a of
         None \<Rightarrow> None | Some a \<Rightarrow> if ac_owner a = lib_tip_distribution_program lib then Some a else None)) (zip votes accs)))))"

definition post_create_update ::
  "('w, 'ix, 'z) StateClient_scheme \<Rightarrow> ('y) state_lib_scheme \<Rightarrow> ('w, unit) keeper" where
  "post_create_update c lib =
     crank_bind get_state (\<lambda>ks0.
     let current = ei_epoch (ks_epoch_info ks0) in
     crank_bind (on_right (get_all_validator_history_accounts c lib)) (\<lambda>histories.
     crank_bind (modify_state (\<lambda>ks. ks\<lparr>validator_history_map := collect_map (map (\<lambda>h. (vh_vote_account h, h)) histories)\<rparr>)) (\<lambda>_.
     crank_bind get_state (\<lambda>ks1.
     crank_bind (on_right (fetch_accounts c (map fst (validator_history_map ks1)))) (\<lambda>accs.
     crank_bind (modify_state (\<lambda>ks. ks\<lparr>ks_history_vote_account_map := zip_accounts (map fst (validator_history_map ks1)) accs\<rparr>)) (\<lambda>_.
     crank_bind get_state (\<lambda>ks2.
     crank_bind (on_right (get_tip_distribution_accounts c lib ks2 (saturating_sub current 1))) (\<lambda>previous.
     crank_bind (modify_state (\<lambda>ks. ks\<lparr>previous_epoch_tip_distribution_map := previous\<rparr>)) (\<lambda>_.
     crank_bind (on_right (get_tip_distribution_accounts c lib ks2 current)) (\<lambda>tips.
     crank_bind (modify_state (\<lambda>ks. ks\<lparr>current_epoch_tip_distribution_map := tips\<rparr>)) (\<lambda>_.
     crank_bind (on_right (crank_call id (rpc_steward_accounts c))) (\<lambda>steward.
     crank_bind (modify_state (\<lambda>ks. ks\<lparr>ks_steward_accounts := Some steward\<rparr>)) (\<lambda>_.
     crank_bind (on_right (get_all_steward_validator_accounts c lib steward)) (\<lambda>pool.
     crank_bind (modify_state (\<lambda>ks. ks\<lparr>ks_steward_validator_accounts := Some pool\<rparr>)) (\<lambda>_.
     crank_bind (on_right (get_all_validator_accounts c lib (map snd (vote_account_map ks2)))) (\<lambda>active.
     modify_state (\<lambda>ks. ks\<lparr>ks_active_validator_accounts := Some active\<rparr>)))))))))))))))))"

end
