(* ===== verification/Upload_Operations.thy ===== *)
theory Upload_Operations
  imports Keeper_State
begin

text \<open>
  The operations of the keeper that feed the validator history, one file of
  keepers/stakenet-keeper/src/operations each, with the entries of
  keepers/stakenet-keeper/src/entries that they make instructions of. They share the frame of
  \<^verbatim>\<open>fire\<close>: an operation that is due and switched on is processed, and its tallies are counted.
\<close>

section \<open>The frame of an operation\<close>

text \<open>When an operation is due. The products are checked, as everywhere in the workspace.\<close>

definition due_three_times :: "EpochInfo \<Rightarrow> nat \<Rightarrow> bool result" where
  "due_three_times ei runs =
     (if ei_slots_in_epoch ei div 1000 < ei_slot_index ei \<and> runs < 1 then Ok True
      else
        and_then (times_or_panic U64_MAX (ei_slots_in_epoch ei) 5) (\<lambda>half.
        if half div 10 < ei_slot_index ei \<and> runs < 2 then Ok True
        else
          and_then (times_or_panic U64_MAX (ei_slots_in_epoch ei) 9) (\<lambda>most.
          Ok (most div 10 < ei_slot_index ei \<and> runs < 3))))"

definition gossip_due :: "EpochInfo \<Rightarrow> nat \<Rightarrow> bool result" where
  "gossip_due ei runs =
     (if runs < 1 \<or> (ei_slots_in_epoch ei div 2 < ei_slot_index ei \<and> runs < 2) then Ok True
      else
        and_then (times_or_panic U64_MAX (ei_slots_in_epoch ei) 9) (\<lambda>most.
        Ok (most div 10 < ei_slot_index ei \<and> runs < 3)))"

definition bam_due :: "EpochInfo \<Rightarrow> nat \<Rightarrow> bool result" where
  "bam_due ei runs =
     and_then (times_or_panic U64_MAX (ei_slots_in_epoch ei) 10) (\<lambda>n. Ok (n div 100 < ei_slot_index ei \<and> runs < 1))"

definition always_due :: "EpochInfo \<Rightarrow> nat \<Rightarrow> bool result" where
  "always_due ei runs = Ok True"

text \<open>
  Counting the outcome: a run counts when no transaction failed. Whether a failed transaction
  counts as an error differs between the operations.
\<close>

definition count_result ::
  "bool \<Rightarrow> JitoSendTransactionError + unit \<Rightarrow> nat \<times> nat \<Rightarrow> (nat \<times> nat) result" where
  "count_result count_errors r = (\<lambda>(errs, txs).
     case r of
       Inl e \<Rightarrow> if count_errors then and_then (plus_or_panic U64_MAX errs 1) (\<lambda>n. Ok (n, txs)) else Ok (errs, txs)
     | Inr _ \<Rightarrow> and_then (plus_or_panic U64_MAX txs 1) (\<lambda>n. Ok (errs, n)))"

fun tally :: "bool \<Rightarrow> 'e + SubmitStats \<Rightarrow> nat \<times> nat \<times> nat \<Rightarrow> (nat \<times> nat \<times> nat) result" where
  "tally count_errors (Inl e) (runs, errs, txs) = and_then (plus_or_panic U64_MAX errs 1) (\<lambda>n. Ok (runs, n, txs))"
| "tally count_errors (Inr stats) (runs, errs, txs) =
     and_then (for_each (count_result count_errors) (results stats) (errs, txs)) (\<lambda>(errs, txs).
     if errors stats = 0 then and_then (plus_or_panic U64_MAX runs 1) (\<lambda>n. Ok (n, errs, txs)) else Ok (runs, errs, txs))"

definition fire ::
  "KeeperOperations \<Rightarrow> (EpochInfo \<Rightarrow> nat \<Rightarrow> bool result) \<Rightarrow> bool \<Rightarrow> KeeperConfig \<Rightarrow> ('w, 'e, SubmitStats) action \<Rightarrow> KeeperState
   \<Rightarrow> ('w, 'd, nat \<times> nat \<times> nat) action" where
  "fire op due count_errors config process ks =
     crank_bind (crank_pure (copy_runs_errors_and_txs_for_epoch op ks)) (\<lambda>(runs, errs, txs).
     crank_bind (crank_pure (due (ks_epoch_info ks) runs)) (\<lambda>is_due.
     if is_due \<and> check_run_flag (kc_run_flags config) op
     then crank_bind (crank_try process) (\<lambda>r. crank_pure (tally count_errors r (runs, errs, txs)))
     else crank_return (runs, errs, txs)))"

text \<open>Submitting as the operations do.\<close>

definition submit_updates ::
  "('w, keeper_ix, 'z) StateClient_scheme \<Rightarrow> KeeperConfig \<Rightarrow> nat option \<Rightarrow> keeper_ix list \<Rightarrow> ('w, SubmitStats) crank" where
  "submit_updates c config max_cu ixs =
     crank_map_err TransactionExecutionError
       (submit_instructions c (group_order c) (map Ix ixs) (kc_priority_fee config) (kc_tx_retry_count config)
          (kc_tx_confirmation_seconds config) max_cu (kc_no_pack config))"

section \<open>Vote accounts\<close>

definition vote_account_uploaded_recently ::
  "(Pubkey \<times> ValidatorHistory) list \<Rightarrow> Pubkey \<Rightarrow> nat \<Rightarrow> nat \<Rightarrow> bool result" where
  "vote_account_uploaded_recently histories vote ep slot =
     (case map_of histories vote of
        None \<Rightarrow> Ok False
      | Some vh \<Rightarrow>
          and_then (circ_last (vh_history vh)) (\<lambda>latest.
          case latest of
            None \<Rightarrow> Ok False
          | Some e \<Rightarrow>
              if vhe_epoch e = cast U16_MAX ep \<and> vote_account_last_update_slot e \<noteq> vote_account_last_update_slot vhe_default
              then and_then (minus_or_panic slot 50000) (\<lambda>limit. Ok (limit < vote_account_last_update_slot e))
              else Ok False))"

primrec filter_result :: "('a \<Rightarrow> bool result) \<Rightarrow> 'a list \<Rightarrow> 'a list result" where
  "filter_result p [] = Ok []"
| "filter_result p (x # xs) =
     and_then (p x) (\<lambda>keep. and_then (filter_result p xs) (\<lambda>ys. Ok (if keep then x # ys else ys)))"

definition not_result :: "bool result \<Rightarrow> bool result" where
  "not_result r = and_then r (\<lambda>x. Ok (\<not> x))"

definition update_vote_accounts ::
  "('w, keeper_ix, 'z) StateClient_scheme \<Rightarrow> ('y) state_lib_scheme \<Rightarrow> KeeperConfig \<Rightarrow> KeeperState \<Rightarrow> ('w, SubmitStats) crank" where
  "update_vote_accounts c lib config ks =
     (let open_accounts = get_all_open_vote_accounts (lib_vote_program lib) ks in
     crank_bind (crank_pure
       (if \<not> check_keeper_flag Startup (ks_keeper_flags ks) \<and> \<not> check_keeper_flag RerunVote (ks_keeper_flags ks)
        then filter_result (\<lambda>v. not_result (vote_account_uploaded_recently (validator_history_map ks) v
               (ei_epoch (ks_epoch_info ks)) (ei_absolute_slot (ks_epoch_info ks)))) open_accounts
        else Ok open_accounts)) (\<lambda>votes.
     submit_updates c config (Some 300000) (map CopyVoteAccountIx votes)))"

text \<open>The flag that asks for another run is taken down whether or not the operation runs.\<close>

definition fire_vote_account ::
  "('w, keeper_ix, 'z) StateClient_scheme \<Rightarrow> ('y) state_lib_scheme \<Rightarrow> KeeperConfig \<Rightarrow> KeeperState
   \<Rightarrow> ('w, 'd, (nat \<times> nat \<times> nat) \<times> 8 word) action" where
  "fire_vote_account c lib config ks =
     crank_bind (fire VoteAccount
       (\<lambda>ei runs. and_then (due_three_times ei runs) (\<lambda>d. Ok (d \<or> check_keeper_flag RerunVote (ks_keeper_flags ks))))
       False config (update_vote_accounts c lib config ks) ks) (\<lambda>counts.
     crank_return (counts, unset_keeper_flag RerunVote (ks_keeper_flags ks)))"

section \<open>The cluster history\<close>

definition get_update_cluster_info_instructions :: "nat \<Rightarrow> keeper_ix Instruction list" where
  "get_update_cluster_info_instructions priority_fee =
     [SetComputeUnitPrice priority_fee, RequestHeapFrame (256 * 1024), SetComputeUnitLimit 1400000, Ix CopyClusterInfoIx]"

definition update_cluster_info ::
  "('w, keeper_ix, 'z) StateClient_scheme \<Rightarrow> KeeperConfig \<Rightarrow> ('w, JitoTransactionExecutionError, SubmitStats) action" where
  "update_cluster_info c config =
     submit_transactions c [get_update_cluster_info_instructions (kc_priority_fee config)]
       (kc_tx_retry_count config) (kc_tx_confirmation_seconds config)"

definition fire_cluster_history ::
  "('w, keeper_ix, 'z) StateClient_scheme \<Rightarrow> KeeperConfig \<Rightarrow> KeeperState \<Rightarrow> ('w, 'd, nat \<times> nat \<times> nat) action" where
  "fire_cluster_history c config ks = fire ClusterHistoryCopy due_three_times False config (update_cluster_info c config) ks"

section \<open>MEV\<close>

definition mev_commission_uploaded :: "(Pubkey \<times> ValidatorHistory) list \<Rightarrow> Pubkey \<Rightarrow> nat \<Rightarrow> bool result" where
  "mev_commission_uploaded histories vote ep =
     (case map_of histories vote of
        None \<Rightarrow> Ok False
      | Some vh \<Rightarrow>
          and_then (circ_last (vh_history vh)) (\<lambda>latest.
          case latest of
            None \<Rightarrow> Ok False
          | Some e \<Rightarrow> Ok (vhe_epoch e = cast U16_MAX ep \<and> vhe_mev_commission e \<noteq> vhe_mev_commission vhe_default)))"

definition update_mev_commission ::
  "('w, keeper_ix, 'z) StateClient_scheme \<Rightarrow> KeeperConfig \<Rightarrow> KeeperState \<Rightarrow> ('w, SubmitStats) crank" where
  "update_mev_commission c config ks =
     (let existing = map fst (filter (\<lambda>(_, a). a \<noteq> None) (current_epoch_tip_distribution_map ks));
          ep = ei_epoch (ks_epoch_info ks) in
     crank_bind (crank_pure (filter_result (\<lambda>v. not_result (mev_commission_uploaded (validator_history_map ks) v ep)) existing)) (\<lambda>votes.
     submit_updates c config None (map (\<lambda>v. CopyTipDistributionAccountIx v ep) votes)))"

definition fire_mev_commission ::
  "('w, keeper_ix, 'z) StateClient_scheme \<Rightarrow> KeeperConfig \<Rightarrow> KeeperState \<Rightarrow> ('w, 'd, nat \<times> nat \<times> nat) action" where
  "fire_mev_commission c config ks = fire MevCommission always_due True config (update_mev_commission c config ks) ks"

text \<open>The range of one epoch has one element, whose absence would panic.\<close>

definition mev_earned_uploaded :: "(Pubkey \<times> ValidatorHistory) list \<Rightarrow> Pubkey \<Rightarrow> nat \<Rightarrow> bool result" where
  "mev_earned_uploaded histories vote ep =
     (case map_of histories vote of
        None \<Rightarrow> Ok False
      | Some vh \<Rightarrow>
          and_then (circ_epoch_range vhe_epoch (cast U16_MAX ep) (cast U16_MAX ep) (vh_history vh)) (\<lambda>range.
          and_then (arr_get range 0) (\<lambda>entry.
          case entry of
            None \<Rightarrow> Ok False
          | Some e \<Rightarrow> Ok (vhe_epoch e = cast U16_MAX ep \<and> vhe_mev_earned e \<noteq> vhe_mev_earned vhe_default))))"

definition has_merkle_root :: "('y) state_lib_scheme \<Rightarrow> Account option \<Rightarrow> bool" where
  "has_merkle_root lib a =
     (case a of None \<Rightarrow> False | Some a \<Rightarrow> (case lib_tip_has_merkle_root lib (ac_data a) of None \<Rightarrow> False | Some b \<Rightarrow> b))"

definition update_mev_earned ::
  "('w, keeper_ix, 'z) StateClient_scheme \<Rightarrow> ('y) state_lib_scheme \<Rightarrow> KeeperConfig \<Rightarrow> KeeperState \<Rightarrow> ('w, SubmitStats) crank" where
  "update_mev_earned c lib config ks =
     (let uploaded = map fst (filter (\<lambda>(_, a). has_merkle_root lib a) (previous_epoch_tip_distribution_map ks));
          ep = saturating_sub (ei_epoch (ks_epoch_info ks)) 1 in
     crank_bind (crank_pure (filter_result (\<lambda>v. not_result (mev_earned_uploaded (validator_history_map ks) v ep)) uploaded)) (\<lambda>votes.
     submit_updates c config None (map (\<lambda>v. CopyTipDistributionAccountIx v ep) votes)))"

definition fire_mev_earned ::
  "('w, keeper_ix, 'z) StateClient_scheme \<Rightarrow> ('y) state_lib_scheme \<Rightarrow> KeeperConfig \<Rightarrow> KeeperState
   \<Rightarrow> ('w, 'd, nat \<times> nat \<times> nat) action" where
  "fire_mev_earned c lib config ks = fire MevEarned always_due True config (update_mev_earned c lib config ks) ks"

section \<open>Stake\<close>

text \<open>
  The ranking by stake and the superminority: the validators of the largest stakes that
  together hold more than a third. \<open>superminority_from\<close> is the loop that stops at the
  validator with which the sum passes the third.
\<close>

fun superminority_from :: "nat \<Rightarrow> nat \<Rightarrow> nat \<Rightarrow> (string \<times> nat) list \<Rightarrow> nat result" where
  "superminority_from third i cumulative [] = Ok 0"
| "superminority_from third i cumulative ((_, stake) # rest) =
     and_then (plus_or_panic U64_MAX cumulative stake) (\<lambda>cumulative.
     if third < cumulative then Ok (cast U32_MAX i) else superminority_from third (i + 1) cumulative rest)"

definition get_stake_rank_map_and_superminority_count ::
  "RpcVoteAccountInfo list \<Rightarrow> ((string \<times> nat) list \<times> nat) result" where
  "get_stake_rank_map_and_superminority_count vote_accounts =
     (let stake_vec = map (\<lambda>v. (vi_vote_pubkey v, vi_activated_stake v)) vote_accounts in
     and_then (for_each (\<lambda>(_, stake) s. plus_or_panic U64_MAX s stake) stake_vec 0) (\<lambda>total_stake.
     let stake_vec = sort_key (\<lambda>(_, stake). - int stake) stake_vec in
     and_then (superminority_from (total_stake div 3) 0 0 stake_vec) (\<lambda>threshold.
     Ok (collect_map (map (\<lambda>(i, vote, _). (vote, cast U32_MAX i)) (enumerate 0 stake_vec)), threshold))))"

definition stake_entry_uploaded ::
  "('y) state_lib_scheme \<Rightarrow> (Pubkey \<times> ValidatorHistory) list \<Rightarrow> RpcVoteAccountInfo \<Rightarrow> nat \<Rightarrow> bool result" where
  "stake_entry_uploaded lib histories info ep =
     and_then (ok_or (lib_parse_pubkey lib (vi_vote_pubkey info)) Panic) (\<lambda>vote.
     case map_of histories vote of
       None \<Rightarrow> Ok False
     | Some vh \<Rightarrow>
         and_then (circ_last (vh_history vh)) (\<lambda>latest.
         case latest of
           None \<Rightarrow> Ok False
         | Some e \<Rightarrow> Ok (vhe_epoch e = cast U16_MAX ep \<and> vhe_is_superminority e \<noteq> vhe_is_superminority vhe_default \<and>
             vhe_rank e \<noteq> vhe_rank vhe_default \<and> activated_stake_lamports e \<noteq> activated_stake_lamports vhe_default)))"

definition stake_entry ::
  "('y) state_lib_scheme \<Rightarrow> KeeperState \<Rightarrow> (string \<times> nat) list \<Rightarrow> nat \<Rightarrow> RpcVoteAccountInfo \<Rightarrow> keeper_ix option result" where
  "stake_entry lib ks rank_map threshold info =
     (let ep = ei_epoch (ks_epoch_info ks) in
     and_then (ok_or (map_of rank_map (vi_vote_pubkey info)) Panic) (\<lambda>rank.
     and_then (stake_entry_uploaded lib (validator_history_map ks) info ep) (\<lambda>uploaded.
     if uploaded then Ok None
     else
       and_then (ok_or (lib_parse_pubkey lib (vi_vote_pubkey info)) Panic) (\<lambda>vote.
       Ok (Some (UpdateStakeHistoryIx vote ep (vi_activated_stake info) rank (rank \<le> threshold)))))))"

definition update_stake_history ::
  "('w, keeper_ix, 'z) StateClient_scheme \<Rightarrow> ('y) state_lib_scheme \<Rightarrow> KeeperConfig \<Rightarrow> KeeperState \<Rightarrow> ('w, SubmitStats) crank" where
  "update_stake_history c lib config ks =
     (let vote_accounts = map snd (vote_account_map ks);
          epochs = concat (map (map fst \<circ> vi_epoch_credits) vote_accounts);
          max_vote_account_epoch = (if epochs = [] then 0 else Max (set epochs)) in
     crank_bind (crank_pure (get_stake_rank_map_and_superminority_count vote_accounts)) (\<lambda>(rank_map, threshold).
     if max_vote_account_epoch \<noteq> ei_epoch (ks_epoch_info ks) then lift_sum (Inl (JitoCustom ''EpochMismatch''))
     else
       crank_bind (crank_pure (map_result (stake_entry lib ks rank_map threshold) vote_accounts)) (\<lambda>ixs.
       submit_updates c config None (List.map_filter id ixs))))"

definition fire_stake_upload ::
  "('w, keeper_ix, 'z) StateClient_scheme \<Rightarrow> ('y) state_lib_scheme \<Rightarrow> KeeperConfig \<Rightarrow> KeeperState
   \<Rightarrow> ('w, 'd, nat \<times> nat \<times> nat) action" where
  "fire_stake_upload c lib config ks = fire StakeUpload due_three_times False config (update_stake_history c lib config ks) ks"

section \<open>Priority fee commissions\<close>

text \<open>The epochs \<^verbatim>\<open>(current - lookback - offset)..(current - offset)\<close>; \<open>extra\<close> is added to the end.\<close>

definition lookback_range :: "nat \<Rightarrow> KeeperConfig \<Rightarrow> nat \<Rightarrow> nat list result" where
  "lookback_range extra config current =
     and_then (minus_or_panic current (kc_lookback_epochs config)) (\<lambda>a.
     and_then (minus_or_panic a (kc_lookback_start_offset_epochs config)) (\<lambda>first.
     and_then (plus_or_panic U64_MAX current extra) (\<lambda>b.
     and_then (minus_or_panic b (kc_lookback_start_offset_epochs config)) (\<lambda>end_epoch. Ok [first..<end_epoch]))))"

definition commission_missing :: "nat \<Rightarrow> ValidatorHistory \<Rightarrow> bool" where
  "commission_missing ep vh = list_ex (\<lambda>e. vhe_epoch e = ep \<and>
     (priority_fee_merkle_root_upload_authority e = Unset \<or> vhe_total_priority_fees e = 0)) (arr (vh_history vh))"

definition update_priority_fee_commission ::
  "('w, keeper_ix, 'z) StateClient_scheme \<Rightarrow> KeeperConfig \<Rightarrow> KeeperState \<Rightarrow> ('w, SubmitStats) crank" where
  "update_priority_fee_commission c config ks =
     crank_bind (crank_pure (lookback_range 0 config (ei_epoch (ks_epoch_info ks)))) (\<lambda>epochs.
     let ixs = concat (map (\<lambda>ep. map (\<lambda>(vote, _). CopyPriorityFeeDistributionIx vote ep)
           (filter (\<lambda>(_, vh). commission_missing ep vh) (validator_history_map ks))) epochs) in
     crank_map_err TransactionExecutionError
       (submit_chunk_instructions c (map Ix ixs) (kc_priority_fee config) (kc_tx_retry_count config)
          (kc_tx_confirmation_seconds config) None (if length ixs \<le> 160 then 1 else 8)))"

definition fire_priority_fee_commission ::
  "('w, keeper_ix, 'z) StateClient_scheme \<Rightarrow> KeeperConfig \<Rightarrow> KeeperState \<Rightarrow> ('w, 'd, nat \<times> nat \<times> nat) action" where
  "fire_priority_fee_commission c config ks =
     fire PriorityFeeCommission always_due True config (update_priority_fee_commission c config ks) ks"

section \<open>BAM connections\<close>

definition is_live_vote_account :: "Pubkey \<Rightarrow> Account option \<Rightarrow> bool" where
  "is_live_vote_account vote_program a = (case a of None \<Rightarrow> False | Some a \<Rightarrow> ac_owner a = vote_program)"

text \<open>The validators of an epoch that the Kobe service reports: a vote key and a connection rate.\<close>

type_synonym 'w kobe_validators = "nat \<Rightarrow> 'w \<Rightarrow> (string + (string \<times> f64 option) list) \<times> 'w"

definition bam_vote_accounts :: "('y) state_lib_scheme \<Rightarrow> f64 \<Rightarrow> (string \<times> f64 option) list \<Rightarrow> Pubkey list" where
  "bam_vote_accounts lib min_rate validators =
     List.map_filter (\<lambda>(key, rate). Option.bind (lib_parse_pubkey lib key) (\<lambda>vote.
       Option.bind rate (\<lambda>r. if f64_le min_rate r then Some vote else None))) validators"

definition copy_is_bam_connected ::
  "('w, keeper_ix, 'z) StateClient_scheme \<Rightarrow> 'w kobe_validators \<Rightarrow> ('y) state_lib_scheme \<Rightarrow> KeeperConfig \<Rightarrow> KeeperState
   \<Rightarrow> ('w, SubmitStats) crank" where
  "copy_is_bam_connected c kobe lib config ks =
     (let last_epoch = saturating_sub (ei_epoch (ks_epoch_info ks)) 1;
          candidates = map fst (validator_history_map ks) in
     crank_bind (crank_for (\<lambda>chunk live.
         crank_bind (crank_call (JitoCustom \<circ> ce_text) (rpc_multiple_accounts c chunk)) (\<lambda>accs.
         crank_return (live @ map fst (filter (\<lambda>(_, a). is_live_vote_account (lib_vote_program lib) a) (zip chunk accs)))))
       (chunks_of 100 candidates) []) (\<lambda>live.
     crank_bind (crank_call JitoCustom (kobe last_epoch)) (\<lambda>validators.
     let bam = bam_vote_accounts lib (kc_min_bam_connection_rate config) validators in
     submit_updates c config None (map (\<lambda>vote. CopyIsBamConnectedIx vote last_epoch (if vote \<in> set bam then 1 else 0))
       (filter (\<lambda>k. k \<in> set live) candidates)))))"

definition fire_copy_is_bam_connected ::
  "('w, keeper_ix, 'z) StateClient_scheme \<Rightarrow> 'w kobe_validators \<Rightarrow> ('y) state_lib_scheme \<Rightarrow> KeeperConfig \<Rightarrow> KeeperState
   \<Rightarrow> ('w, 'd, nat \<times> nat \<times> nat) action" where
  "fire_copy_is_bam_connected c kobe lib config ks =
     fire CopyIsBamConnected bam_due True config (copy_is_bam_connected c kobe lib config ks) ks"

end
