(* ===== verification/Gossip_Upload.thy ===== *)
theory Gossip_Upload
  imports Upload_Operations
begin

text \<open>
  The upload of gossip data: keepers/stakenet-keeper/src/operations/gossip_upload.rs and
  entries/gossip_entry.rs. The bot joins the gossip network at an entry point, reads the
  contact information of every validator and sends it to the history program, in a
  transaction whose first instruction lets the runtime verify the signature.
\<close>

section \<open>The echo of an entry point\<close>

definition IP_ECHO_HEADER_LEN :: nat where "IP_ECHO_HEADER_LEN = 4"
definition IP_ECHO_RESPONSE_LEN :: nat where "IP_ECHO_RESPONSE_LEN = 27"
definition IP_ADDR_OFFSET_V4 :: nat where "IP_ADDR_OFFSET_V4 = 8"
definition SHRED_VERSION_OFFSET :: nat where "SHRED_VERSION_OFFSET = IP_ECHO_HEADER_LEN + IP_ADDR_OFFSET_V4"

record Ipv4EchoResponse =
  echo_ip :: "8 word list"
  echo_shred_version :: "nat option"

definition Ipv4EchoResponse_try_from :: "8 word list \<Rightarrow> (string + Ipv4EchoResponse) result" where
  "Ipv4EchoResponse_try_from data =
     (if length data < IP_ECHO_RESPONSE_LEN then Ok (Inl ''Expected at least 27 bytes'')
      else
        and_then (arr_slice data IP_ADDR_OFFSET_V4 (IP_ADDR_OFFSET_V4 + 4)) (\<lambda>octets.
        and_then (arr_slice data SHRED_VERSION_OFFSET (SHRED_VERSION_OFFSET + 3)) (\<lambda>shred.
        Ok (Inr \<lparr>echo_ip = octets,
          echo_shred_version = (if shred ! 0 = 0 then None else Some (from_le_bytes [shred ! 1, shred ! 2]))\<rparr>))))"

text \<open>\<open>read\<close> is what the connection delivers into a buffer of the expected length, or its error.\<close>

definition fetch_ip_and_shred_version :: "string + 8 word list \<Rightarrow> (string + Ipv4EchoResponse) result" where
  "fetch_ip_and_shred_version read =
     (case read of
        Inl e \<Rightarrow> Ok (Inl e)
      | Inr bytes \<Rightarrow>
          if length bytes \<noteq> IP_ECHO_RESPONSE_LEN then Ok (Inl ''Unexpected length'') else Ipv4EchoResponse_try_from bytes)"

section \<open>The instruction that verifies a signature\<close>

definition DATA_START :: nat where "DATA_START = SIGNATURE_OFFSETS_SERIALIZED_SIZE + SIGNATURE_OFFSETS_START"

definition offsets_bytes :: "Ed25519SignatureOffsets \<Rightarrow> 8 word list" where
  "offsets_bytes offs = concat (map (to_le_bytes 2)
     [signature_offset offs, signature_instruction_index offs, public_key_offset offs, public_key_instruction_index offs,
      message_data_offset offs, message_data_size offs, message_instruction_index offs])"

definition build_verify_signature_ix :: "8 word list \<Rightarrow> Pubkey \<Rightarrow> 8 word list \<Rightarrow> 8 word list result" where
  "build_verify_signature_ix signature pubkey message =
     (if length pubkey \<noteq> PUBKEY_SERIALIZED_SIZE \<or> length signature \<noteq> SIGNATURE_SERIALIZED_SIZE then Err Panic
      else
        (let pk_offset = DATA_START;
             sig_offset = saturating_add U64_MAX pk_offset PUBKEY_SERIALIZED_SIZE;
             msg_offset = saturating_add U64_MAX sig_offset SIGNATURE_SERIALIZED_SIZE in
         Ok ([1, 0] @ offsets_bytes
           \<lparr>signature_offset = cast U16_MAX sig_offset, signature_instruction_index = U16_MAX,
            public_key_offset = cast U16_MAX pk_offset, public_key_instruction_index = U16_MAX,
            message_data_offset = cast U16_MAX msg_offset, message_data_size = cast U16_MAX (length message),
            message_instruction_index = U16_MAX\<rparr> @ pubkey @ signature @ message)))"

section \<open>Entries\<close>

text \<open>A value of the gossip table: its data, its origin, its signature and the bytes that are signed.\<close>

record CrdsValue =
  gv_data :: CrdsData
  gv_pubkey :: Pubkey
  gv_signature :: "8 word list"
  gv_signable_data :: "8 word list"

record GossipEntry =
  ge_vote_account :: Pubkey
  ge_signature :: "8 word list"
  ge_message :: "8 word list"
  ge_identity :: Pubkey
  ge_signer :: Pubkey

text \<open>The signer of the entry is passed as the oracle authority.\<close>

definition build_update_tx :: "GossipEntry \<Rightarrow> nat \<Rightarrow> keeper_ix Instruction list result" where
  "build_update_tx entry priority_fee =
     and_then (build_verify_signature_ix (ge_signature entry) (ge_identity entry) (ge_message entry)) (\<lambda>data.
     Ok [SetComputeUnitLimit 100000, SetComputeUnitPrice priority_fee, Ix (VerifySignatureIx data),
         Ix (CopyGossipContactInfoIx (ge_vote_account entry) (ge_signer entry))])"

text \<open>Only contact information counts that is at least as new as what the history has.\<close>

definition check_entry_valid :: "CrdsValue \<Rightarrow> ValidatorHistory \<Rightarrow> Pubkey \<Rightarrow> bool" where
  "check_entry_valid entry vh identity =
     (case gv_data entry of
        CrdsContactInfo k wallclock ci \<Rightarrow>
          \<not> (wallclock < last_ip_timestamp vh \<or> wallclock < last_version_timestamp vh) \<and> gv_pubkey entry = identity
      | _ \<Rightarrow> False)"

definition build_gossip_entry ::
  "('y) state_lib_scheme \<Rightarrow> (Pubkey \<rightharpoonup> CrdsValue) \<Rightarrow> Pubkey \<Rightarrow> RpcVoteAccountInfo \<Rightarrow> ValidatorHistory \<Rightarrow>
   GossipEntry option" where
  "build_gossip_entry lib crds keypair info vh =
     Option.bind (lib_parse_pubkey lib (vi_node_pubkey info)) (\<lambda>identity.
     Option.bind (lib_parse_pubkey lib (vi_vote_pubkey info)) (\<lambda>vote.
     Option.bind (crds identity) (\<lambda>entry.
     if check_entry_valid entry vh identity
     then Some \<lparr>ge_vote_account = vote, ge_signature = gv_signature entry, ge_message = gv_signable_data entry,
                ge_identity = gv_pubkey entry, ge_signer = keypair\<rparr>
     else None)))"

definition gossip_entries ::
  "('y) state_lib_scheme \<Rightarrow> KeeperState \<Rightarrow> (Pubkey \<rightharpoonup> CrdsValue) \<Rightarrow> Pubkey \<Rightarrow> GossipEntry list" where
  "gossip_entries lib ks crds keypair =
     List.map_filter (\<lambda>(_, info).
       Option.bind (lib_parse_pubkey lib (vi_vote_pubkey info)) (\<lambda>vote.
       Option.bind (map_of (validator_history_map ks) vote) (\<lambda>vh. build_gossip_entry lib crds keypair info vh)))
       (vote_account_map ks)"

section \<open>Uploading\<close>

text \<open>
  The network: the bytes that an entry point answers with, and the gossip table that the bot
  has gathered after waiting; \<open>None\<close> when the lock of the table is poisoned.
\<close>

record ('w, 'ep) gossip_network =
  gn_echo :: "'ep \<Rightarrow> 'w \<Rightarrow> (string + 8 word list) \<times> 'w"
  gn_discover :: "'ep \<Rightarrow> 8 word list \<Rightarrow> nat \<Rightarrow> 'w \<Rightarrow> (Pubkey \<rightharpoonup> CrdsValue) option \<times> 'w"

primrec upload_gossip_values ::
  "('w, keeper_ix, 'z) StateClient_scheme \<Rightarrow> ('w, 'ep) gossip_network \<Rightarrow> ('y) state_lib_scheme \<Rightarrow> KeeperConfig \<Rightarrow> KeeperState
   \<Rightarrow> 'ep list \<Rightarrow> ('w, SubmitStats) crank" where
  "upload_gossip_values c net lib config ks [] =
     lift_sum (Inl (JitoCustom ''Failed to discover gossip entries from any of the provided entrypoints''))"
| "upload_gossip_values c net lib config ks (ep # eps) =
     crank_bind (\<lambda>w. case gn_echo net ep w of (r, w) \<Rightarrow> Some (Ok (Inr r, w))) (\<lambda>read.
     crank_bind (crank_pure (fetch_ip_and_shred_version read)) (\<lambda>echo.
     case echo of
       Inl e \<Rightarrow> upload_gossip_values c net lib config ks eps
     | Inr res \<Rightarrow>
         crank_bind (\<lambda>w. case gn_discover net ep (echo_ip res) (case echo_shred_version res of None \<Rightarrow> 0 | Some v \<Rightarrow> v) w of
             (r, w) \<Rightarrow> Some (Ok (Inr r, w))) (\<lambda>table.
         case table of
           None \<Rightarrow> lift_sum (Inl (JitoCustom ''poisoned lock''))
         | Some crds \<Rightarrow>
             let found = gossip_entries lib ks crds (kc_keypair config) in
             if found = [] then upload_gossip_values c net lib config ks eps
             else
               crank_bind (crank_pure (map_result (\<lambda>en. build_update_tx en (kc_priority_fee config)) found)) (\<lambda>txs.
               crank_map_err TransactionExecutionError
                 (submit_transactions c txs (kc_tx_retry_count config) (kc_tx_confirmation_seconds config))))))"

definition fire_gossip_upload ::
  "('w, keeper_ix, 'z) StateClient_scheme \<Rightarrow> ('w, 'ep) gossip_network \<Rightarrow> ('y) state_lib_scheme \<Rightarrow> KeeperConfig \<Rightarrow> KeeperState
   \<Rightarrow> 'ep list \<Rightarrow> ('w, 'd, nat \<times> nat \<times> nat) action" where
  "fire_gossip_upload c net lib config ks eps =
     fire GossipUpload gossip_due False config (upload_gossip_values c net lib config ks eps) ks"

end
