(* ===== verification/Block_Metadata.thy ===== *)
theory Block_Metadata
  imports Upload_Operations
begin

text \<open>
  The block metadata operation of the keeper,
  keepers/stakenet-keeper/src/operations/block_metadata/operations.rs: it brings the slot
  database up to date with the leader schedules, the vote keys and the blocks of finalised
  slots, and sends what it has added up to the history program. The database is the first
  part of the world.
\<close>

section \<open>Fetching blocks\<close>

text \<open>Rewards of a block: whether they are fees, and their lamports, a signed number.\<close>

record UiConfirmedBlock =
  ub_rewards :: "(bool \<times> int) list option"

datatype BlockError = RpcResponseError string | OtherRpcError string | OtherClientError ClientError

type_synonym 'w block_source = "nat \<Rightarrow> 'w \<Rightarrow> (BlockError + UiConfirmedBlock) \<times> 'w"

text \<open>The pattern \<^verbatim>\<open>^Slot [\d]+ was skipped\<close>.\<close>

definition strip_prefix :: "string \<Rightarrow> string \<Rightarrow> string option" where
  "strip_prefix p s = (if take (length p) s = p then Some (drop (length p) s) else None)"

definition slot_skipped :: "string \<Rightarrow> bool" where
  "slot_skipped message =
     (case strip_prefix ''Slot '' message of
        None \<Rightarrow> False
      | Some s \<Rightarrow>
          takeWhile (\<lambda>ch. digit_of ch \<noteq> None) s \<noteq> [] \<and>
          strip_prefix '' was skipped'' (dropWhile (\<lambda>ch. digit_of ch \<noteq> None) s) \<noteq> None)"

text \<open>
  \<^verbatim>\<open>get_block_safe\<close>: a node that says a slot was skipped is believed when the slot history
  does not have the slot either; otherwise the redundant nodes are asked one after the other.
\<close>

fun block_error :: "(SlotHistory \<Rightarrow> nat \<Rightarrow> Check) \<Rightarrow> SlotHistory \<Rightarrow> nat \<Rightarrow> BlockError \<Rightarrow> BlockMetadataKeeperError option" where
  "block_error check sh slot (RpcResponseError message) =
     (if slot_skipped message
      then (case check sh slot of
          Future \<Rightarrow> Some (SlotInFuture slot)
        | NotFound \<Rightarrow> Some SkippedBlock
        | TooOld \<Rightarrow> None
        | Found \<Rightarrow> None)
      else Some (RpcError message))"
| "block_error check sh slot (OtherRpcError message) = Some (RpcError message)"
| "block_error check sh slot (OtherClientError e) = Some (SolanaClientError e)"

fun get_block_safe ::
  "(SlotHistory \<Rightarrow> nat \<Rightarrow> Check) \<Rightarrow> 'w block_source \<Rightarrow> 'w block_source list \<Rightarrow> SlotHistory \<Rightarrow> nat \<Rightarrow> 'w
   \<Rightarrow> (BlockMetadataKeeperError + UiConfirmedBlock) \<times> 'w" where
  "get_block_safe check client redundant sh slot w =
     (case client slot w of
        (Inr block, w) \<Rightarrow> (Inr block, w)
      | (Inl err, w) \<Rightarrow>
          (case block_error check sh slot err of
             Some e \<Rightarrow> (Inl e, w)
           | None \<Rightarrow>
               (case redundant of
                  [] \<Rightarrow> (Inl SkippedBlock, w)
                | next # rest \<Rightarrow> get_block_safe check next rest sh slot w)))"

declare get_block_safe.simps [simp del]

text \<open>The requests of a chunk run concurrently; here they run in the order of their results.\<close>

definition get_bulk_block_safe ::
  "(SlotHistory \<Rightarrow> nat \<Rightarrow> Check) \<Rightarrow> 'w block_source \<Rightarrow> 'w block_source list \<Rightarrow> SlotHistory \<Rightarrow> nat list \<Rightarrow> 'w
   \<Rightarrow> (nat \<times> (BlockMetadataKeeperError + UiConfirmedBlock)) list \<times> 'w" where
  "get_bulk_block_safe check client redundant sh slots w =
     (case run_tasks (map (get_block_safe check client redundant sh) (concat (chunks_of 50 slots))) w of
        (rs, w) \<Rightarrow> (zip slots rs, w))"

text \<open>The fees of a block: \<^verbatim>\<open>r.lamports as u64\<close> of the rewards that are fees, added up.\<close>

definition block_fees :: "UiConfirmedBlock \<Rightarrow> nat result" where
  "block_fees block =
     and_then (ok_or (ub_rewards block) Panic) (\<lambda>rewards.
     for_each (\<lambda>(_, lamports) s. plus_or_panic U64_MAX s (nat (lamports mod 2 ^ 64))) (filter fst rewards) 0)"

section \<open>Updating the database\<close>

datatype MetadataError =
    MetadataClientError ClientError
  | MetadataBlockError BlockMetadataKeeperError
  | MetadataExecutionError JitoTransactionExecutionError

type_synonym ('w, 'a) metadata = "(connection \<times> 'w, MetadataError, 'a) action"

record 'w BlockClient =
  rpc_finalized_slot :: "'w \<Rightarrow> (ClientError + nat) \<times> 'w"
  rpc_leader_schedule :: "nat \<Rightarrow> 'w \<Rightarrow> (ClientError + RpcLeaderSchedule option) \<times> 'w"
  rpc_block :: "'w block_source"
  redundant_blocks :: "'w block_source list"

abbreviation db_call :: "'a db \<Rightarrow> ('w, 'a) metadata" where
  "db_call m \<equiv> on_left (crank_map_err MetadataBlockError m)"

text \<open>An error of the database that is only logged.\<close>

definition logged :: "nat db \<Rightarrow> ('w, unit) metadata" where
  "logged m = crank_bind (crank_try (on_left m)) (\<lambda>r :: BlockMetadataKeeperError + nat. crank_return ())"

definition get_leader_schedule_safe ::
  "'w BlockClient \<Rightarrow> nat \<Rightarrow> ('w, BlockMetadataKeeperError, RpcLeaderSchedule) action" where
  "get_leader_schedule_safe b starting_slot =
     crank_bind (crank_call SolanaClientError (rpc_leader_schedule b starting_slot)) (\<lambda>schedule.
     lift_sum (case schedule of None \<Rightarrow> Inl (OtherError ''Could not get leader schedule'') | Some s \<Rightarrow> Inr s))"

definition update_schedule :: "'w BlockClient \<Rightarrow> EpochSchedule \<Rightarrow> nat \<Rightarrow> unit \<Rightarrow> ('w, unit) metadata" where
  "update_schedule b es ep u =
     crank_bind (db_call (check_random_slot_exists_in_epoch ep es)) (\<lambda>known.
     if known then crank_return ()
     else
       crank_bind (crank_try (on_right (get_leader_schedule_safe b (get_first_slot_in_epoch es ep)))) (\<lambda>r.
       case r of
         Inl e \<Rightarrow> crank_return ()
       | Inr schedule \<Rightarrow> logged (insert_leader_schedule ep es schedule None)))"

text \<open>One block that was asked for: its fees are noted, or the slot is marked as skipped.\<close>

definition note_block ::
  "nat \<times> (BlockMetadataKeeperError + UiConfirmedBlock) \<Rightarrow> (nat \<times> nat) list \<Rightarrow> ('w, (nat \<times> nat) list) metadata" where
  "note_block = (\<lambda>(slot, r) ok_entries.
     case r of
       Inr block \<Rightarrow> crank_bind (crank_pure (block_fees block)) (\<lambda>fees. crank_return (ok_entries @ [(slot, fees)]))
     | Inl e \<Rightarrow>
         if e = SkippedBlock then crank_bind (db_call (set_block_dne slot)) (\<lambda>_. crank_return ok_entries)
         else crank_return ok_entries)"

definition update_blocks ::
  "('y) state_lib_scheme \<Rightarrow> 'w BlockClient \<Rightarrow> SlotHistory \<Rightarrow> nat list \<Rightarrow> unit \<Rightarrow> ('w, unit) metadata" where
  "update_blocks lib b sh slots u =
     crank_bind (on_right (\<lambda>w. case get_bulk_block_safe (lib_slot_check lib) (rpc_block b) (redundant_blocks b) sh slots w of
         (rs, w) \<Rightarrow> Some (Ok (Inr rs, w)))) (\<lambda>block_data.
     crank_bind (crank_for note_block block_data []) (\<lambda>ok_entries.
     logged (upsert_block_data ok_entries None)))"

section \<open>Sending what was added up\<close>

definition find_entry :: "nat \<Rightarrow> ValidatorHistory \<Rightarrow> ValidatorHistoryEntry option" where
  "find_entry ep vh = List.find (\<lambda>e. vhe_epoch e = ep) (arr (vh_history vh))"

text \<open>An entry is sent until it has been recorded with a slot beyond its epoch.\<close>

definition needs_block_update ::
  "(Pubkey \<times> ValidatorHistory) list \<Rightarrow> nat \<Rightarrow> nat \<Rightarrow> Pubkey \<Rightarrow> bool" where
  "needs_block_update histories first_slot_in_next_epoch ep vote =
     (case Option.bind (map_of histories vote) (find_entry ep) of
        None \<Rightarrow> False
      | Some e \<Rightarrow> block_data_updated_at_slot e < first_slot_in_next_epoch \<or> block_data_updated_at_slot e = U64_MAX)"

definition update_instruction :: "PriorityFeeAndBlockMetadataEntry \<Rightarrow> keeper_ix" where
  "update_instruction en =
     UpdatePriorityFeeHistoryIx (en_vote_account en) (en_epoch en) (en_total_priority_fees en) (en_total_leader_slots en)
       (en_blocks_produced en) (en_highest_global_done_slot en)"

text \<open>
  The instructions of an epoch. For every validator the account of its priority fee
  distribution is read too, for the metrics only.
\<close>

definition epoch_instructions ::
  "('w, keeper_ix, 'z) StateClient_scheme \<Rightarrow> ('y) state_lib_scheme \<Rightarrow> KeeperState \<Rightarrow> nat \<Rightarrow> keeper_ix list
   \<Rightarrow> ('w, keeper_ix list) metadata" where
  "epoch_instructions c lib ks ep ixs =
     crank_bind (crank_pure (plus_or_panic U64_MAX ep 1)) (\<lambda>next_epoch.
     let first_slot_in_next_epoch = get_first_slot_in_epoch (ks_epoch_schedule ks) next_epoch in
     crank_bind (crank_try (on_left
       (get_priority_fee_and_block_metadata_entries (lib_parse_pubkey lib) (lib_show_pubkey lib) ep))) (\<lambda>r :: BlockMetadataKeeperError + update_map.
     case r of
       Inl e \<Rightarrow> crank_return ixs
     | Inr updates \<Rightarrow>
         crank_for (\<lambda>(_, en) ixs.
           crank_bind (crank_try (on_right (crank_call id
             (rpc_account c (lib_priority_fee_distribution_address lib (en_vote_account en) ep))))) (\<lambda>_ :: ClientError + Account.
           crank_return (if needs_block_update (validator_history_map ks) first_slot_in_next_epoch ep (en_vote_account en)
             then ixs @ [update_instruction en] else ixs))) updates ixs))"

definition update_block_metadata ::
  "('w, keeper_ix, 'z) StateClient_scheme \<Rightarrow> 'w BlockClient \<Rightarrow> ('y) state_lib_scheme \<Rightarrow> KeeperConfig \<Rightarrow> KeeperState
   \<Rightarrow> ('w, SubmitStats) metadata" where
  "update_block_metadata c b lib config ks =
     crank_bind (on_right (crank_call MetadataClientError (rpc_finalized_slot b))) (\<lambda>current_finalized_slot.
     crank_bind (crank_pure (lookback_range 1 config (ei_epoch (ks_epoch_info ks)))) (\<lambda>epochs.
     crank_bind (crank_for (update_schedule b (ks_epoch_schedule ks)) epochs ()) (\<lambda>_.
     crank_bind (logged (upsert_vote_identity_mapping (identity_to_vote_map ks) None)) (\<lambda>_.
     crank_bind (db_call (get_slots_needing_blocks current_finalized_slot)) (\<lambda>slots.
     crank_bind (crank_for (update_blocks lib b (ks_slot_history ks)) (chunks_of 1000 slots) ()) (\<lambda>_.
     crank_bind (crank_for (epoch_instructions c lib ks) epochs []) (\<lambda>ixs.
     on_right (crank_map_err MetadataExecutionError (submit_chunk_instructions c (map Ix ixs) (kc_priority_fee config)
       (kc_tx_retry_count config) (kc_tx_confirmation_seconds config) None 5)))))))))"

definition fire_block_metadata ::
  "('w, keeper_ix, 'z) StateClient_scheme \<Rightarrow> 'w BlockClient \<Rightarrow> ('y) state_lib_scheme \<Rightarrow> KeeperConfig \<Rightarrow> KeeperState
   \<Rightarrow> (connection \<times> 'w, 'd, nat \<times> nat \<times> nat) action" where
  "fire_block_metadata c b lib config ks =
     fire BlockMetadataKeeper always_due False config (update_block_metadata c b lib config ks) ks"

end
