(* ===== verification/Keeper_Loop.thy ===== *)
theory Keeper_Loop
  imports Gossip_Upload Block_Metadata
begin

text \<open>
  The main loop of the keeper bot, keepers/stakenet-keeper/src/main.rs, and the frame of its
  steward operation, operations/steward.rs. A turn of the loop refreshes the state when one
  of the intervals asks for it, fires the operations whose interval has come, and waits for
  the next tick.
\<close>

section \<open>The steward operation\<close>

fun show_nat :: "nat \<Rightarrow> string" where
  "show_nat n = (if n < 10 then [char_of (48 + n)] else show_nat (n div 10) @ [char_of (48 + n mod 10)])"

declare show_nat.simps [simp del]

definition format_steward_error_log :: "('y) state_lib_scheme \<Rightarrow> JitoSendTransactionError \<Rightarrow> string" where
  "format_steward_error_log lib e =
     (case e of
        ExceededRetries \<Rightarrow> ''Exceeded Retries''
      | SendTransactionError t \<Rightarrow> ''Transaction: '' @ lib_debug_string lib t
      | RpcSimulateResult r \<Rightarrow> ''Preflight Error:'' @
          (case sim_logs r of
             None \<Rightarrow> []
           | Some logs \<Rightarrow> concat (map (\<lambda>(i, log). show_nat i @ '': '' @ lib_debug_string lib log) (enumerate 0 logs))))"

fun contains :: "string \<Rightarrow> string \<Rightarrow> bool" where
  "contains pat [] \<longleftrightarrow> pat = []"
| "contains pat (ch # s) \<longleftrightarrow> take (length pat) (ch # s) = pat \<or> contains pat s"

text \<open>The code that is reported for an error, and whether it asks for another vote account run.\<close>

datatype StewardErrorCodes =
    StewardExceededRetries
  | StewardTransactionError
  | UnknownRpcSimulateTransactionResult
  | ValidatorAlreadyMarkedForRemoval
  | StewardInvalidState
  | IndexesDontMatch
  | StewardVoteHistoryNotRecentEnough
  | AutoRemoveStakeAccountClosed
  | StewardStakePoolNotUpdated
  | ValidatorsNotRemovedYet

definition classify_preflight :: "string \<Rightarrow> StewardErrorCodes" where
  "classify_preflight s =
     (if contains ''Validator is already marked for removal'' s then ValidatorAlreadyMarkedForRemoval
      else if contains ''Invalid state'' s then StewardInvalidState
      else if contains ''ListStateMismatch'' s then IndexesDontMatch
      else if contains ''VoteHistoryNotRecentEnough'' s then StewardVoteHistoryNotRecentEnough
      else if contains ''AutoRemoveValidatorFromPool'' s \<and> contains ''ConstraintOwner'' s then AutoRemoveStakeAccountClosed
      else if contains ''UpdateStakePoolBalance'' s \<and> contains ''0x10'' s then StewardStakePoolNotUpdated
      else if contains ''AutoAddValidator'' s \<and> contains ''ValidatorsNeedToBeRemoved'' s then ValidatorsNotRemovedYet
      else UnknownRpcSimulateTransactionResult)"

definition classify_steward_error :: "('y) state_lib_scheme \<Rightarrow> JitoSendTransactionError \<Rightarrow> StewardErrorCodes" where
  "classify_steward_error lib e =
     (case e of
        ExceededRetries \<Rightarrow> StewardExceededRetries
      | SendTransactionError t \<Rightarrow> StewardTransactionError
      | RpcSimulateResult r \<Rightarrow> classify_preflight (format_steward_error_log lib e))"

definition steward_flags :: "('y) state_lib_scheme \<Rightarrow> 'e + SubmitStats \<Rightarrow> 8 word \<Rightarrow> 8 word" where
  "steward_flags lib r flags =
     (case r of
        Inl e \<Rightarrow> flags
      | Inr stats \<Rightarrow>
          fold (\<lambda>m flags. case m of
              Inl e \<Rightarrow> if classify_steward_error lib e = StewardVoteHistoryNotRecentEnough
                then set_keeper_flag RerunVote flags else flags
            | Inr _ \<Rightarrow> flags) (results stats) flags)"

definition fire_steward ::
  "('w, keeper_ix, 'z) StateClient_scheme \<Rightarrow> ('y) state_lib_scheme \<Rightarrow> KeeperConfig \<Rightarrow> KeeperState
   \<Rightarrow> ('w, 'd, (nat \<times> nat \<times> nat) \<times> 8 word) action" where
  "fire_steward c lib config ks =
     crank_bind (crank_pure (copy_runs_errors_and_txs_for_epoch StewardCrank ks)) (\<lambda>(runs, errs, txs).
     if check_run_flag (kc_run_flags config) StewardCrank
     then
       crank_bind (crank_try (run_crank_steward c (keeper_lib.truncate lib) (ks_epoch_schedule ks)
           (ei_epoch (ks_epoch_info ks)) (kc_priority_fee config) (kc_has_directed_stake_oracle_authority_keypair config)
           (kc_coinbase_vote_pubkey config) (ks_steward_accounts ks) (ks_steward_validator_accounts ks)
           (ks_active_validator_accounts ks))) (\<lambda>r.
       crank_bind (crank_pure (tally False r (runs, errs, txs))) (\<lambda>counts.
       crank_return (counts, steward_flags lib r (ks_keeper_flags ks))))
     else crank_return ((runs, errs, txs), ks_keeper_flags ks))"

section \<open>The arguments\<close>

record run_args =
  run_cluster_history :: bool
  run_copy_vote_accounts :: bool
  run_mev_commission :: bool
  run_mev_earned :: bool
  run_stake_upload :: bool
  run_gossip_upload :: bool
  run_steward :: bool
  run_emit_metrics :: bool
  run_block_metadata :: bool
  run_priority_fee_commission :: bool
  run_directed_staking :: bool
  run_copy_is_bam_connected :: bool

definition set_run_flags :: "run_args \<Rightarrow> 32 word" where
  "set_run_flags args =
     fold (\<lambda>(on, op) flags. if on then set_run_flag flags op else flags)
       [(run_cluster_history args, ClusterHistoryCopy), (run_copy_vote_accounts args, VoteAccount),
        (run_mev_commission args, MevCommission), (run_mev_earned args, MevEarned), (run_stake_upload args, StakeUpload),
        (run_gossip_upload args, GossipUpload), (run_steward args, StewardCrank), (run_emit_metrics args, EmitMetrics),
        (run_block_metadata args, BlockMetadataKeeper), (run_priority_fee_commission args, PriorityFeeCommission),
        (run_directed_staking args, DirectedStaking), (run_copy_is_bam_connected args, CopyIsBamConnected)] 0"

section \<open>Ticks\<close>

definition rem_or_panic :: "nat \<Rightarrow> nat \<Rightarrow> nat result" where
  "rem_or_panic a b = (if b = 0 then Err Panic else Ok (a mod b))"

primrec any_result :: "('a \<Rightarrow> bool result) \<Rightarrow> 'a list \<Rightarrow> bool result" where
  "any_result p [] = Ok False"
| "any_result p (x # xs) = and_then (p x) (\<lambda>b. if b then Ok True else any_result p xs)"

definition should_fire :: "nat \<Rightarrow> nat \<Rightarrow> bool result" where
  "should_fire tick interval = and_then (rem_or_panic tick interval) (\<lambda>r. Ok (r = 0))"

definition should_update :: "nat \<Rightarrow> nat list \<Rightarrow> bool result" where
  "should_update tick intervals = any_result (should_fire tick) intervals"

definition should_emit :: "nat \<Rightarrow> nat list \<Rightarrow> bool result" where
  "should_emit tick intervals =
     any_result (\<lambda>interval. and_then (plus_or_panic U64_MAX interval 1) (\<lambda>n. Ok (tick mod n = 0))) intervals"

definition should_clear_startup_flag :: "nat \<Rightarrow> nat list \<Rightarrow> bool result" where
  "should_clear_startup_flag tick intervals =
     (if intervals = [] then Err Panic
      else and_then (plus_or_panic U64_MAX (Max (set intervals)) 1) (\<lambda>n. Ok (tick mod n = 0)))"

definition keeper_intervals :: "KeeperConfig \<Rightarrow> nat list" where
  "keeper_intervals config = [kc_validator_history_interval config, kc_metrics_interval config,
     kc_steward_interval config, kc_block_metadata_interval config]"

section \<open>A turn of the loop\<close>

text \<open>
  Everything around the bot: the nodes, the gossip network, the Kobe service, the libraries,
  and the emission of metrics, whose only effect on the bot is whether it fails.
\<close>

record ('w, 'ep) keeper_world =
  kw_client :: "('w, keeper_ix) StateClient"
  kw_blocks :: "'w BlockClient"
  kw_network :: "('w, 'ep) gossip_network"
  kw_entrypoints :: "'ep list"
  kw_kobe :: "'w kobe_validators"
  kw_lib :: state_lib
  kw_emit_metrics :: "KeeperState \<Rightarrow> ('w, string, unit) action"
  kw_random_cooldown :: "nat \<Rightarrow> 'w \<Rightarrow> 'w"

type_synonym ('w, 'a) bot = "(KeeperState \<times> connection \<times> 'w, JitoTransactionError, 'a) action"

definition update_state :: "(KeeperState \<Rightarrow> KeeperState result) \<Rightarrow> ('w, unit) keeper" where
  "update_state f = (\<lambda>(ks, w). Some (and_then (f ks) (\<lambda>ks. Ok (Inr (), (ks, w)))))"

text \<open>The part of the state update that talks to the node leaves the database alone.\<close>

definition skip_db :: "('w, 'a) keeper \<Rightarrow> ('w, 'a) bot" where
  "skip_db m = (\<lambda>(ks, db, w). map_option (\<lambda>r. and_then r (\<lambda>(x, ks, w). Ok (x, (ks, db, w)))) (m (ks, w)))"

definition create_accounts :: "('w, 'ep) keeper_world \<Rightarrow> KeeperConfig \<Rightarrow> ('w, bool) bot" where
  "create_accounts kw config =
     (if \<not> kc_pay_for_new_accounts config then crank_return True
      else
        crank_bind (crank_try (skip_db (create_missing_accounts (kw_client kw) (kw_lib kw) config))) (\<lambda>r :: JitoTransactionError + nat.
        case r of
          Inl e \<Rightarrow> crank_bind (update_state (increment_update_error_for_epoch CreateMissingAccounts)) (\<lambda>_. crank_return False)
        | Inr n \<Rightarrow>
            crank_bind (update_state (increment_update_run_for_epoch CreateMissingAccounts)) (\<lambda>_.
            crank_bind (update_state (increment_update_txs_for_epoch CreateMissingAccounts n)) (\<lambda>_.
            crank_bind (update_state (increment_creations_for_epoch n)) (\<lambda>_. crank_return True)))))"

text \<open>The refresh tells whether the turn goes on to fire.\<close>

definition refresh :: "('w, 'ep) keeper_world \<Rightarrow> KeeperConfig \<Rightarrow> ('w, bool) bot" where
  "refresh kw config =
     crank_bind (crank_try (skip_db (pre_create_update (kw_client kw) (kw_lib kw)))) (\<lambda>r :: JitoTransactionError + unit.
     case r of
       Inl e \<Rightarrow> crank_bind (update_state (increment_update_error_for_epoch PreCreateUpdate)) (\<lambda>_. crank_return False)
     | Inr _ \<Rightarrow>
         crank_bind (update_state (increment_update_run_for_epoch PreCreateUpdate)) (\<lambda>_.
         crank_bind (create_accounts kw config) (\<lambda>created.
         if \<not> created then crank_return False
         else
           crank_bind (crank_try (skip_db (post_create_update (kw_client kw) (kw_lib kw)))) (\<lambda>r :: JitoTransactionError + unit.
           case r of
             Inl e \<Rightarrow> crank_bind (update_state (increment_update_error_for_epoch PostCreateUpdate)) (\<lambda>_. crank_return False)
           | Inr _ \<Rightarrow> crank_bind (update_state (increment_update_run_for_epoch PostCreateUpdate)) (\<lambda>_. crank_return True)))))"

definition run_operation ::
  "KeeperOperations \<Rightarrow> (KeeperState \<Rightarrow> (connection \<times> 'w, JitoTransactionError, nat \<times> nat \<times> nat) action) \<Rightarrow> ('w, unit) bot" where
  "run_operation op m =
     crank_bind get_state (\<lambda>ks.
     crank_bind (on_right (m ks)) (\<lambda>counts. update_state (set_runs_errors_and_txs_for_epoch op counts)))"

definition run_flagged_operation ::
  "KeeperOperations \<Rightarrow> (KeeperState \<Rightarrow> (connection \<times> 'w, JitoTransactionError, (nat \<times> nat \<times> nat) \<times> 8 word) action) \<Rightarrow> ('w, unit) bot" where
  "run_flagged_operation op m =
     crank_bind get_state (\<lambda>ks.
     crank_bind (on_right (m ks)) (\<lambda>(counts, flags). update_state (set_runs_errors_txs_and_flags_for_epoch op counts flags)))"

definition cool_down :: "('w, 'ep) keeper_world \<Rightarrow> KeeperConfig \<Rightarrow> ('w, unit) bot" where
  "cool_down kw config =
     crank_bind get_state (\<lambda>ks.
     if check_keeper_flag Startup (ks_keeper_flags ks) then crank_return ()
     else (\<lambda>(ks, db, w). Some (Ok (Inr (), (ks, db, kw_random_cooldown kw (kc_cool_down_range config) w)))))"

definition crank_when :: "bool \<Rightarrow> ('w, 'e, unit) action \<Rightarrow> ('w, 'e, unit) action" where
  "crank_when b m = (if b then m else crank_return ())"

definition fire_validator_history :: "('w, 'ep) keeper_world \<Rightarrow> KeeperConfig \<Rightarrow> ('w, unit) bot" where
  "fire_validator_history kw config =
     (let c = kw_client kw; lib = kw_lib kw; has_oracle = kc_has_oracle_authority_keypair config in
     crank_bind (run_operation ClusterHistoryCopy (\<lambda>ks. on_right (fire_cluster_history c config ks))) (\<lambda>_.
     crank_bind (run_flagged_operation VoteAccount (\<lambda>ks. on_right (fire_vote_account c lib config ks))) (\<lambda>_.
     crank_bind (run_operation MevCommission (\<lambda>ks. on_right (fire_mev_commission c config ks))) (\<lambda>_.
     crank_bind (run_operation MevEarned (\<lambda>ks. on_right (fire_mev_earned c lib config ks))) (\<lambda>_.
     crank_bind (crank_when has_oracle
       (run_operation StakeUpload (\<lambda>ks. on_right (fire_stake_upload c lib config ks)))) (\<lambda>_.
     crank_bind (crank_when (has_oracle \<and> kc_has_gossip_entrypoints config)
       (run_operation GossipUpload (\<lambda>ks. on_right (fire_gossip_upload c (kw_network kw) lib config ks (kw_entrypoints kw))))) (\<lambda>_.
     crank_bind (run_operation PriorityFeeCommission (\<lambda>ks. on_right (fire_priority_fee_commission c config ks))) (\<lambda>_.
     crank_bind (crank_when has_oracle
       (run_operation CopyIsBamConnected (\<lambda>ks. on_right (fire_copy_is_bam_connected c (kw_kobe kw) lib config ks)))) (\<lambda>_.
     cool_down kw config)))))))))"

definition fire_metrics ::
  "('w, 'ep) keeper_world \<Rightarrow> KeeperConfig \<Rightarrow> KeeperState \<Rightarrow> ('w, 'd, nat \<times> nat \<times> nat) action" where
  "fire_metrics kw config ks =
     crank_bind (crank_pure (copy_runs_errors_and_txs_for_epoch EmitMetrics ks)) (\<lambda>(runs, errs, txs).
     if check_run_flag (kc_run_flags config) EmitMetrics
     then crank_bind (crank_try (kw_emit_metrics kw ks)) (\<lambda>r.
       crank_pure (case r of
           Inr _ \<Rightarrow> and_then (plus_or_panic U64_MAX runs 1) (\<lambda>n. Ok (n, errs, txs))
         | Inl e \<Rightarrow> and_then (plus_or_panic U64_MAX errs 1) (\<lambda>n. Ok (runs, n, txs))))
     else crank_return (runs, errs, txs))"

text \<open>A part of the turn that runs when its interval has come.\<close>

definition on_tick :: "nat \<Rightarrow> nat \<Rightarrow> ('w, unit) bot \<Rightarrow> ('w, unit) bot" where
  "on_tick tick interval m = crank_bind (crank_pure (should_fire tick interval)) (\<lambda>b. crank_when b m)"

definition fire_all :: "('w, 'ep) keeper_world \<Rightarrow> KeeperConfig \<Rightarrow> nat \<Rightarrow> ('w, unit) bot" where
  "fire_all kw config tick =
     crank_bind (on_tick tick (kc_validator_history_interval config) (fire_validator_history kw config)) (\<lambda>_.
     crank_bind (on_tick tick (kc_steward_interval config)
       (crank_bind (run_flagged_operation StewardCrank (\<lambda>ks. on_right (fire_steward (kw_client kw) (kw_lib kw) config ks))) (\<lambda>_.
        cool_down kw config))) (\<lambda>_.
     crank_bind (on_tick tick (kc_block_metadata_interval config)
       (crank_when (kc_has_priority_fee_oracle_authority_keypair config)
         (run_operation BlockMetadataKeeper (fire_block_metadata (kw_client kw) (kw_blocks kw) (kw_lib kw) config)))) (\<lambda>_.
     on_tick tick (kc_metrics_interval config) (run_operation EmitMetrics (\<lambda>ks. on_right (fire_metrics kw config ks))))))"

text \<open>
  The whole turn, from one tick to the next. When the refresh fails the next turn begins at
  once, otherwise after a pause of a second.
\<close>

definition keeper_turn :: "('w, 'ep) keeper_world \<Rightarrow> KeeperConfig \<Rightarrow> nat \<Rightarrow> ('w, nat) bot" where
  "keeper_turn kw config tick =
     crank_bind (crank_pure (should_update tick (keeper_intervals config))) (\<lambda>due.
     crank_bind (if due then refresh kw config else crank_return True) (\<lambda>go_on.
     if \<not> go_on then crank_pure (plus_or_panic U64_MAX tick 1)
     else
       crank_bind (fire_all kw config tick) (\<lambda>_.
       crank_bind (crank_pure (should_emit tick (keeper_intervals config))) (\<lambda>_.
       crank_bind (crank_pure (should_clear_startup_flag tick (keeper_intervals config))) (\<lambda>clear.
       crank_bind (modify_state (\<lambda>ks. if clear then ks\<lparr>ks_keeper_flags := unset_keeper_flag Startup (ks_keeper_flags ks)\<rparr> else ks)) (\<lambda>_.
       crank_bind (\<lambda>(ks, db, w). Some (Ok (Inr (), (ks, db, rpc_sleep (kw_client kw) 1 w)))) (\<lambda>_.
       crank_pure (plus_or_panic U64_MAX tick 1))))))))"

text \<open>The state and the tick that the loop starts with.\<close>

definition KeeperState_default :: "EpochSchedule \<Rightarrow> SlotHistory \<Rightarrow> KeeperState" where
  "KeeperState_default es sh =
     \<lparr>ks_keeper_flags = 0,
      ks_epoch_info = \<lparr>ei_epoch = 0, ei_slot_index = 0, ei_slots_in_epoch = 0, ei_absolute_slot = 0, ei_block_height = 0\<rparr>,
      ks_epoch_schedule = es, ks_slot_history = sh, runs_for_epoch = replicate OPERATIONS_LEN 0,
      errors_for_epoch = replicate OPERATIONS_LEN 0, txs_for_epoch = replicate OPERATIONS_LEN 0,
      created_accounts_for_epoch = replicate CREATES_LEN 0, vote_account_map = [], validator_history_map = [],
      identity_to_vote_map = [], ks_history_vote_account_map = [], ks_get_vote_account_map = [],
      previous_epoch_tip_distribution_map = [], current_epoch_tip_distribution_map = [], ks_cluster_history = None,
      keeper_balance = 0, ks_steward_accounts = None, ks_steward_validator_accounts = None,
      ks_active_validator_accounts = None\<rparr>"

definition initial_keeper_state :: "KeeperConfig \<Rightarrow> EpochSchedule \<Rightarrow> SlotHistory \<Rightarrow> KeeperState" where
  "initial_keeper_state config es sh =
     (let ks = KeeperState_default es sh in
      if kc_full_startup config then ks\<lparr>ks_keeper_flags := set_keeper_flag Startup (ks_keeper_flags ks)\<rparr> else ks)"

definition initial_tick :: "KeeperConfig \<Rightarrow> nat" where
  "initial_tick config = Min (set (keeper_intervals config))"

text \<open>The loop as a relation: the turns of a run, from the tick and the state they begin with.\<close>

inductive keeper_run ::
  "('w, 'ep) keeper_world \<Rightarrow> KeeperConfig \<Rightarrow> nat \<times> (KeeperState \<times> connection \<times> 'w) \<Rightarrow> nat \<times> (KeeperState \<times> connection \<times> 'w) \<Rightarrow> bool"
  for kw config s where
  start: "keeper_run kw config s s"
| turn: "keeper_run kw config s (tick, x) \<Longrightarrow> keeper_turn kw config tick x = Some (Ok (Inr tick', x')) \<Longrightarrow>
    keeper_run kw config s (tick', x')"

end
