(* ===== verification/Action_Rules.thy ===== *)
theory Action_Rules
  imports Directed_Oracle
begin

text \<open>
  Hoare rules for the computations of the bot. \<open>spec P m Q E\<close> says of a computation that is
  started in a world with \<open>P\<close>: when it ends with a value \<open>x\<close> then \<open>Q x\<close> holds, when it ends with
  an error then \<open>E\<close> holds. Nothing is said of a computation that panics or does not end, after
  which there is no world to speak of.
\<close>

named_theorems spec_rules

definition spec ::
  "('w \<Rightarrow> bool) \<Rightarrow> ('w, 'e, 'a) action \<Rightarrow> ('a \<Rightarrow> 'w \<Rightarrow> bool) \<Rightarrow> ('w \<Rightarrow> bool) \<Rightarrow> bool" where
  "spec P m Q E \<longleftrightarrow>
     (\<forall>w r v. P w \<longrightarrow> m w = Some (Ok (r, v)) \<longrightarrow> (case r of Inl e \<Rightarrow> E v | Inr x \<Rightarrow> Q x v))"

abbreviation preserves :: "('w \<Rightarrow> bool) \<Rightarrow> ('w, 'e, 'a) action \<Rightarrow> bool" where
  "preserves I m \<equiv> spec I m (\<lambda>_. I) I"

lemma specI:
  assumes "\<And>w x v. P w \<Longrightarrow> m w = Some (Ok (Inr x, v)) \<Longrightarrow> Q x v"
    and "\<And>w e v. P w \<Longrightarrow> m w = Some (Ok (Inl e, v)) \<Longrightarrow> E v"
  shows "spec P m Q E"
  using assms unfolding spec_def by (auto split: sum.splits)

lemma spec_value: "spec P m Q E \<Longrightarrow> m w = Some (Ok (Inr x, v)) \<Longrightarrow> P w \<Longrightarrow> Q x v"
  unfolding spec_def by fastforce

lemma spec_error: "spec P m Q E \<Longrightarrow> m w = Some (Ok (Inl e, v)) \<Longrightarrow> P w \<Longrightarrow> E v"
  unfolding spec_def by fastforce

lemma preserves_end: "preserves I m \<Longrightarrow> m w = Some (Ok (r, v)) \<Longrightarrow> I w \<Longrightarrow> I v"
  by (cases r) (auto dest: spec_value spec_error)

lemma spec_conseq:
  assumes "spec P m Q E" and "\<And>w. P' w \<Longrightarrow> P w" and "\<And>x w. Q x w \<Longrightarrow> Q' x w" and "\<And>w. E w \<Longrightarrow> E' w"
  shows "spec P' m Q' E'"
  using assms by (intro specI) (metis spec_value, metis spec_error)

lemma spec_conj:
  "spec P m Q E \<Longrightarrow> spec P' m Q' E' \<Longrightarrow> spec (\<lambda>w. P w \<and> P' w) m (\<lambda>x w. Q x w \<and> Q' x w) (\<lambda>w. E w \<and> E' w)"
  unfolding spec_def by (fastforce split: sum.splits)

lemma spec_True [spec_rules]: "spec P m (\<lambda>_ _. True) (\<lambda>_. True)"
  by (simp add: spec_def split: sum.splits)

text \<open>The rules for the ways in which computations are composed.\<close>

lemma spec_return [spec_rules]: "(\<And>w. P w \<Longrightarrow> Q x w) \<Longrightarrow> spec P (crank_return x) Q E"
  by (auto simp: spec_def crank_return_def)

lemma spec_pure: "(\<And>x w. r = Ok x \<Longrightarrow> P w \<Longrightarrow> Q x w) \<Longrightarrow> spec P (crank_pure r) Q E"
  by (cases r) (auto simp: spec_def crank_pure_def)

lemma spec_lift_sum: "(\<And>x w. s = Inr x \<Longrightarrow> P w \<Longrightarrow> Q x w) \<Longrightarrow> (\<And>w. P w \<Longrightarrow> E w) \<Longrightarrow> spec P (lift_sum s) Q E"
  by (auto simp: spec_def lift_sum_def split: sum.splits)

lemma spec_lift_result: "(\<And>x w. P w \<Longrightarrow> Q x w) \<Longrightarrow> (\<And>w. P w \<Longrightarrow> E w) \<Longrightarrow> spec P (lift_result r) Q E"
  by (cases r) (auto simp: spec_def lift_result_def split: sum.splits)

lemma spec_bind:
  assumes m: "spec P m R E" and k: "\<And>x. spec (R x) (k x) Q E"
  shows "spec P (crank_bind m k) Q E"
proof (rule specI)
  fix w y v
  assume "P w" and ret: "crank_bind m k w = Some (Ok (Inr y, v))"
  then obtain x u where x: "m w = Some (Ok (Inr x, u))" and rest: "k x u = Some (Ok (Inr y, v))"
    by (auto simp: crank_bind_def split: option.splits sum.splits)
  show "Q y v"
    using spec_value [OF k rest] spec_value [OF m x \<open>P w\<close>] by simp
next
  fix w e v
  assume P: "P w" and ret: "crank_bind m k w = Some (Ok (Inl e, v))"
  then consider "m w = Some (Ok (Inl e, v))" | x u where "m w = Some (Ok (Inr x, u))" "k x u = Some (Ok (Inl e, v))"
    by (auto simp: crank_bind_def split: option.splits sum.splits)
  then show "E v"
    by cases (use P in \<open>auto dest: spec_error [OF m] spec_value [OF m] spec_error [OF k]\<close>)
qed

lemma spec_try:
  assumes m: "spec P m (\<lambda>x. Q (Inr x)) E'" and err: "\<And>e w. E' w \<Longrightarrow> Q (Inl e) w"
  shows "spec P (crank_try m) Q E"
proof (rule specI)
  fix w r v
  assume "P w" and "crank_try m w = Some (Ok (Inr r, v))"
  then have ret: "m w = Some (Ok (r, v))"
    by (auto simp: crank_try_def and_then_eq_Inr)
  show "Q r v"
    by (cases r) (use ret \<open>P w\<close> in \<open>auto intro: err dest: spec_error [OF m] spec_value [OF m]\<close>)
qed (auto simp: crank_try_def and_then_eq_Inr)

lemma map_sum_eq_Inr: "map_sum f g s = Inr y \<longleftrightarrow> (\<exists>x. s = Inr x \<and> g x = y)"
  by (cases s) auto

lemma map_sum_eq_Inl: "map_sum f g s = Inl y \<longleftrightarrow> (\<exists>x. s = Inl x \<and> f x = y)"
  by (cases s) auto

lemma spec_map_err:
  assumes m: "spec P m Q E"
  shows "spec P (crank_map_err f m) Q E"
proof (rule specI)
  fix w x v
  assume "P w" and "crank_map_err f m w = Some (Ok (Inr x, v))"
  then show "Q x v"
    by (auto simp: crank_map_err_def and_then_eq_Inr map_sum_eq_Inr intro: spec_value [OF m])
next
  fix w e v
  assume "P w" and "crank_map_err f m w = Some (Ok (Inl e, v))"
  then show "E v"
    by (auto simp: crank_map_err_def and_then_eq_Inr map_sum_eq_Inl intro: spec_error [OF m])
qed

lemma spec_for:
  assumes "\<And>x s. x \<in> set xs \<Longrightarrow> spec (I s) (f x s) I E"
  shows "spec (I s) (crank_for f xs s) I E"
  using assms
proof (induction xs arbitrary: s)
  case (Cons x xs)
  then show ?case
    by (auto intro!: spec_bind [where R = I])
qed (auto intro: spec_return)

text \<open>A computation on one part of the world leaves the other part alone.\<close>

lemma spec_on_left:
  assumes m: "\<And>w. spec (\<lambda>d. P (d, w)) m (\<lambda>x d. Q x (d, w)) (\<lambda>d. E (d, w))"
  shows "spec P (on_left m) Q E"
  unfolding spec_def
proof (intro allI impI)
  fix s r t
  assume P: "P s" and ret: "on_left m s = Some (Ok (r, t))"
  obtain d w where s: "s = (d, w)"
    by fastforce
  with ret obtain d' where "m d = Some (Ok (r, d'))" and "t = (d', w)"
    by (auto simp: on_left_def and_then_eq_Inr)
  then show "case r of Inl e \<Rightarrow> E t | Inr x \<Rightarrow> Q x t"
    using m [of w] P s unfolding spec_def by blast
qed

lemma spec_on_right:
  assumes m: "\<And>d. spec (\<lambda>w. P (d, w)) m (\<lambda>x w. Q x (d, w)) (\<lambda>w. E (d, w))"
  shows "spec P (on_right m) Q E"
  unfolding spec_def
proof (intro allI impI)
  fix s r t
  assume P: "P s" and ret: "on_right m s = Some (Ok (r, t))"
  obtain d w where s: "s = (d, w)"
    by fastforce
  with ret obtain w' where "m w = Some (Ok (r, w'))" and "t = (d, w')"
    by (auto simp: on_right_def and_then_eq_Inr)
  then show "case r of Inl e \<Rightarrow> E t | Inr x \<Rightarrow> Q x t"
    using m [of d] P s unfolding spec_def by blast
qed

lemma spec_const: "(\<And>x w. P \<Longrightarrow> Q x) \<Longrightarrow> (P \<Longrightarrow> E) \<Longrightarrow> spec (\<lambda>_. P) m (\<lambda>x _. Q x) (\<lambda>_. E)"
  unfolding spec_def by (auto split: sum.splits)

lemma spec_elsewhere: "spec (\<lambda>s. P (fst s)) (on_right m) (\<lambda>_ s. P (fst s)) (\<lambda>s. P (fst s))"
  by (rule spec_on_right) (simp add: spec_const)

lemma spec_if:
  assumes "b \<Longrightarrow> spec P m Q E" and "\<not> b \<Longrightarrow> spec P n Q E"
  shows "spec P (if b then m else n) Q E"
  using assms by simp

end
