(* ===== verification/Slot_Lifecycle.thy ===== *)
theory Slot_Lifecycle
  imports Action_Rules Keeper_Loop
begin

text \<open>
  The life of a row of the slot database. A row appears in the state \<^verbatim>\<open>Created\<close>, gets the
  vote key of its validator once, and is decided once: it becomes done, or its block does not
  exist. The database may fail at any statement, the nodes may answer anything; still no row
  is lost and nothing that was decided is changed, over a call of the block metadata operation
  and over a whole run of the bot.
\<close>

section \<open>Tables and how they grow\<close>

definition row_ok :: "slot_row \<Rightarrow> bool" where
  "row_ok r \<longleftrightarrow> row_state r \<in> {16, 17, 18, 19} \<and> (row_state r \<noteq> state_u8 Done \<longrightarrow> priority_fees r = 0)"

definition table_ok :: "slot_table \<Rightarrow> bool" where
  "table_ok t \<longleftrightarrow> sorted_wrt (<) (map absolute_slot t) \<and> list_all row_ok t"

definition row_keeps :: "slot_row \<Rightarrow> slot_row \<Rightarrow> bool" where
  "row_keeps r r' \<longleftrightarrow>
     absolute_slot r' = absolute_slot r \<and> relative_slot r' = relative_slot r \<and> row_epoch r' = row_epoch r \<and>
     identity_key r' = identity_key r \<and> (vote_key r \<noteq> [] \<longrightarrow> vote_key r' = vote_key r) \<and>
     (row_state r \<noteq> state_u8 Created \<longrightarrow>
        row_state r' = row_state r \<and> priority_fees r' = priority_fees r \<and> error_string r' = error_string r)"

definition table_keeps :: "slot_table \<Rightarrow> slot_table \<Rightarrow> bool" where
  "table_keeps t t' \<longleftrightarrow> table_ok t' \<and> list_all (\<lambda>r. list_ex (row_keeps r) t') t"

lemma row_keeps_refl [simp]: "row_keeps r r"
  by (simp add: row_keeps_def)

lemma row_keeps_trans: "row_keeps a b \<Longrightarrow> row_keeps b c \<Longrightarrow> row_keeps a c"
  by (auto simp: row_keeps_def)

lemma table_keeps_refl: "table_ok t \<Longrightarrow> table_keeps t t"
  by (auto simp: table_keeps_def list_all_iff list_ex_iff intro: row_keeps_refl)

lemma table_keeps_trans: "table_keeps a b \<Longrightarrow> table_keeps b c \<Longrightarrow> table_keeps a c"
  unfolding table_keeps_def list_all_iff list_ex_iff by (meson row_keeps_trans)

lemma insort_key_strict:
  assumes "sorted_wrt (<) (map k t)" and "k x \<notin> set (map k t)"
  shows "sorted_wrt (<) (map k (insort_key (k :: 'a \<Rightarrow> nat) x t))"
  using assms by (induction t) (fastforce simp: set_insort_key not_le)+

lemma insert_keeps:
  assumes "row_ok row" and "table_ok t"
  shows "table_keeps t (sql_insert_or_ignore row t)"
proof -
  have "table_ok (sql_insert_or_ignore row t)"
    using assms by (auto simp: table_ok_def sql_insert_or_ignore_def list_all_iff set_insort_key intro: insort_key_strict)
  then show ?thesis
    by (auto simp: table_keeps_def sql_insert_or_ignore_def list_all_iff list_ex_iff set_insort_key intro: row_keeps_refl)
qed

lemma update_keeps:
  assumes "table_ok t" and f: "\<And>r. r \<in> set t \<Longrightarrow> P r \<Longrightarrow> row_keeps r (f r) \<and> (row_ok r \<longrightarrow> row_ok (f r))"
  shows "table_keeps t (sql_update P f t)"
proof -
  have "map absolute_slot (sql_update P f t) = map absolute_slot t"
    using f by (auto simp: sql_update_def row_keeps_def)
  moreover have "list_all row_ok (sql_update P f t)"
    using assms by (auto simp: sql_update_def table_ok_def list_all_iff)
  ultimately have "table_ok (sql_update P f t)"
    using assms(1) by (simp add: table_ok_def)
  moreover have "list_all (\<lambda>r. list_ex (row_keeps r) (sql_update P f t)) t"
    unfolding list_all_iff list_ex_iff
  proof
    fix r assume "r \<in> set t"
    then have "(if P r then f r else r) \<in> set (sql_update P f t)" and "row_keeps r (if P r then f r else r)"
      using f by (auto simp: sql_update_def)
    then show "\<exists>r'\<in>set (sql_update P f t). row_keeps r r'" ..
  qed
  ultimately show ?thesis
    by (simp add: table_keeps_def)
qed

section \<open>Transactions\<close>

text \<open>A property of the committed table that every step of a transaction keeps.\<close>

definition step_keeps :: "(slot_table \<Rightarrow> bool) \<Rightarrow> write_step \<Rightarrow> bool" where
  "step_keeps I x \<longleftrightarrow> (\<forall>f t. x = Ok (Some f) \<longrightarrow> I t \<longrightarrow> I (f t))"

abbreviation tab :: "(slot_table \<Rightarrow> bool) \<Rightarrow> connection \<Rightarrow> bool" where
  "tab I \<equiv> \<lambda>c. I (cn_table c)"

lemma spec_statement [spec_rules]: "preserves (tab I) statement"
  by (auto simp: spec_def statement_def)

lemma spec_read: "spec (tab I) read_table (\<lambda>t c. I t \<and> cn_table c = t) (tab I)"
  by (auto simp: spec_def read_table_def)

lemma spec_write: "spec (\<lambda>c. I t) (write_table t) (\<lambda>_. tab I) E"
  by (auto simp: spec_def write_table_def)

lemma spec_select: "spec (tab I) (sql_select q) (\<lambda>x c. I (cn_table c) \<and> x = q (cn_table c)) (tab I)"
  unfolding sql_select_def
  by (rule spec_bind [OF spec_statement], rule spec_bind [OF spec_read]) (auto intro: spec_return)

lemma preserves_select [spec_rules]: "preserves (tab I) (sql_select q)"
  by (rule spec_conseq [OF spec_select]) auto

lemma spec_execute:
  assumes "\<And>t. I t \<Longrightarrow> I (f t)"
  shows "preserves (tab I) (sql_execute f)"
  unfolding sql_execute_def
  by (rule spec_bind [OF spec_statement], rule spec_bind [OF spec_read], rule spec_conseq [OF spec_write])
    (use assms in auto)

lemma spec_run_steps:
  assumes "\<And>x. x \<in> set xs \<Longrightarrow> step_keeps I x"
  shows "spec (\<lambda>c. I (fst s) \<and> J (cn_table c)) (run_steps xs s) (\<lambda>s c. I (fst s) \<and> J (cn_table c)) (tab J)"
  using assms
proof (induction xs arbitrary: s)
  case (Cons x xs)
  have step: "spec (\<lambda>c. I (fst s) \<and> J (cn_table c)) (crank_pure x)
    (\<lambda>y c. (\<forall>f. y = Some f \<longrightarrow> I (f (fst s))) \<and> I (fst s) \<and> J (cn_table c)) (tab J)"
    using Cons.prems [of x] by (intro spec_pure) (auto simp: step_keeps_def)
  show ?case
    unfolding run_steps.simps
  proof (rule spec_bind [OF step])
    fix y
    show "spec (\<lambda>c. (\<forall>f. y = Some f \<longrightarrow> I (f (fst s))) \<and> I (fst s) \<and> J (cn_table c))
      (case y of None \<Rightarrow> run_steps xs s | Some f \<Rightarrow> crank_bind statement (\<lambda>_. run_steps xs (f (fst s), Suc (snd s))))
      (\<lambda>s c. I (fst s) \<and> J (cn_table c)) (tab J)"
    proof (cases y)
      case None
      then show ?thesis
        using Cons by (auto intro: spec_conseq [OF Cons.IH])
    next
      case (Some f)
      have "spec (\<lambda>c. I (f (fst s)) \<and> J (cn_table c)) statement (\<lambda>_ c. I (f (fst s)) \<and> J (cn_table c)) (tab J)"
        by (auto simp: spec_def statement_def)
      then have "spec (\<lambda>c. I (f (fst s)) \<and> J (cn_table c)) (crank_bind statement (\<lambda>_. run_steps xs (f (fst s), Suc (snd s))))
        (\<lambda>s c. I (fst s) \<and> J (cn_table c)) (tab J)"
        using Cons by (intro spec_bind) (auto intro!: spec_conseq [OF Cons.IH])
      then show ?thesis
        using Some by (auto intro: spec_conseq)
    qed
  qed
qed (auto intro: spec_return)

lemma spec_write_chunks:
  assumes "\<And>ys x. ys \<in> set xs \<Longrightarrow> x \<in> set ys \<Longrightarrow> step_keeps I x"
  shows "preserves (tab I) (write_chunks xs n)"
  using assms
proof (induction xs arbitrary: n)
  case (Cons ys xs)
  have commit: "spec (\<lambda>c. I t \<and> I (cn_table c)) statement (\<lambda>_ c. I t \<and> I (cn_table c)) (tab I)" for t
    by (auto simp: spec_def statement_def)
  show ?case
    unfolding write_chunks.simps
  proof (rule spec_bind [OF spec_read])
    fix t
    have steps: "spec (\<lambda>c. I t \<and> cn_table c = t) (run_steps ys (t, n)) (\<lambda>s c. I (fst s) \<and> I (cn_table c)) (tab I)"
      using Cons.prems by (intro spec_conseq [OF spec_run_steps [where I = I and J = I]]) auto
    show "spec (\<lambda>c. I t \<and> cn_table c = t)
      (crank_bind (run_steps ys (t, n)) (\<lambda>(t, n). crank_bind statement (\<lambda>_. crank_bind (write_table t)
        (\<lambda>_. crank_bind statement (\<lambda>_. write_chunks xs n))))) (\<lambda>_. tab I) (tab I)"
    proof (rule spec_bind [OF steps])
      fix s :: "slot_table \<times> nat"
      have "spec (\<lambda>c. I (fst s) \<and> I (cn_table c)) (crank_bind statement (\<lambda>_. crank_bind (write_table (fst s))
          (\<lambda>_. crank_bind statement (\<lambda>_. write_chunks xs (snd s))))) (\<lambda>_. tab I) (tab I)"
      proof (rule spec_bind [OF commit [of "fst s"]])
        have "preserves (tab I) (crank_bind statement (\<lambda>_. write_chunks xs (snd s)))"
          using Cons by (intro spec_bind [OF spec_statement]) auto
        then show "spec (\<lambda>c. I (fst s) \<and> I (cn_table c))
          (crank_bind (write_table (fst s)) (\<lambda>_. crank_bind statement (\<lambda>_. write_chunks xs (snd s)))) (\<lambda>_. tab I) (tab I)"
          by (intro spec_bind [where R = "\<lambda>_. tab I", OF spec_conseq [OF spec_write [of I "fst s" "tab I"]]]) auto
      qed
      then show "spec (\<lambda>c. I (fst s) \<and> I (cn_table c)) (case s of (t, n) \<Rightarrow> crank_bind statement (\<lambda>_. crank_bind (write_table t)
          (\<lambda>_. crank_bind statement (\<lambda>_. write_chunks xs n)))) (\<lambda>_. tab I) (tab I)"
        by (simp add: case_prod_beta)
    qed
  qed
qed (auto intro: spec_return)

lemma spec_in_transactions:
  assumes "\<And>cs ys x. chunked = Ok cs \<Longrightarrow> ys \<in> set cs \<Longrightarrow> x \<in> set ys \<Longrightarrow> step_keeps I x"
  shows "preserves (tab I) (in_transactions chunked)"
  unfolding in_transactions_def
proof (rule spec_bind [OF spec_statement])
  fix u :: unit
  have "spec (tab I) (crank_pure chunked) (\<lambda>cs c. chunked = Ok cs \<and> I (cn_table c)) (tab I)"
    by (rule spec_pure) simp
  then show "preserves (tab I) (crank_bind (crank_pure chunked) (\<lambda>cs. write_chunks cs 0))"
  proof (rule spec_bind)
    fix cs
    show "spec (\<lambda>c. chunked = Ok cs \<and> I (cn_table c)) (write_chunks cs 0) (\<lambda>_. tab I) (tab I)"
      using assms spec_write_chunks [of cs I 0] by (cases "chunked = Ok cs") (auto intro: spec_conseq specI)
  qed
qed

section \<open>The writing functions\<close>

text \<open>\<open>t0\<close> is the table that the run began with.\<close>

lemma map_result_memD: "map_result f xs = Inr ys \<Longrightarrow> y \<in> set ys \<Longrightarrow> \<exists>x\<in>set xs. f x = Inr y"
  by (fastforce simp: map_result_eq_Inr in_set_conv_nth)

lemma chunks_of_subset: "cs \<in> set (chunks_of n xs) \<Longrightarrow> set cs \<subseteq> set xs"
proof (cases "n = 0")
  case False
  assume "cs \<in> set (chunks_of n xs)"
  then have "set cs \<subseteq> set (concat (chunks_of n xs))"
    by auto
  then show ?thesis
    using False by simp
qed (simp add: chunks_of.simps)

lemma insert_keeps_further: "row_ok row \<Longrightarrow> table_keeps t0 t \<Longrightarrow> table_keeps t0 (sql_insert_or_ignore row t)"
  by (rule table_keeps_trans [OF _ insert_keeps]) (auto simp: table_keeps_def)

lemma map_identity_keeps: "table_keeps t0 t \<Longrightarrow> table_keeps t0 (map_identity identity vote t)"
  unfolding map_identity_def
  by (rule table_keeps_trans [OF _ update_keeps]) (auto simp: table_keeps_def row_keeps_def row_ok_def)

lemma insert_leader_schedule_keeps: "preserves (tab (table_keeps t0)) (insert_leader_schedule ep es schedule n)"
proof -
  have "step_keeps (table_keeps t0) (insert_leader_slot first ep identity written rel)" for first identity written rel
    by (auto simp: step_keeps_def insert_leader_slot_def and_then_eq_Inr row_ok_def split: if_splits
        intro!: insert_keeps_further)
  then have "step_keeps (table_keeps t0) x"
    if "and_then (map_result (\<lambda>(identity, slots). and_then (chunks k slots) (\<lambda>cs.
          Ok (map (map (insert_leader_slot first ep identity written)) cs))) schedule) (\<lambda>css. Ok (concat css)) = Ok cs"
      and "ys \<in> set cs" and "x \<in> set ys" for k first written cs ys x
    using that by (fastforce simp: and_then_eq_Inr dest: map_result_memD)
  then show ?thesis
    unfolding insert_leader_schedule_def Let_def get_slots_per_epoch_def
    by (intro spec_bind [OF preserves_select] spec_if spec_return spec_in_transactions) auto
qed

lemma upsert_vote_identity_mapping_keeps: "preserves (tab (table_keeps t0)) (upsert_vote_identity_mapping mapping n)"
proof -
  have "step_keeps (table_keeps t0) (Ok (Some (map_identity identity vote)))" for identity vote
    by (simp add: step_keeps_def map_identity_keeps)
  moreover have "preserves (tab (table_keeps t0)) (crank_try get_unmapped_identity_accounts)"
    unfolding get_unmapped_identity_accounts_def by (rule spec_try [OF preserves_select])
  ultimately show ?thesis
    unfolding upsert_vote_identity_mapping_def Let_def
    by (intro spec_bind [where R = "\<lambda>_. tab (table_keeps t0)"] spec_in_transactions) (auto simp: and_then_eq_Inr)
qed

text \<open>
  Deciding rows: \<open>t1\<close> is the table when the slots without blocks are looked up. All slots that
  are finished after that were undecided then.
\<close>

definition row_decides :: "slot_row \<Rightarrow> slot_row \<Rightarrow> bool" where
  "row_decides r r' \<longleftrightarrow>
     r' = r \<or>
     row_state r = state_u8 Created \<and>
       ((\<exists>fees. r' = r\<lparr>row_state := state_u8 Done, priority_fees := fees\<rparr>) \<or>
        r' = r\<lparr>row_state := state_u8 BlockDNE, priority_fees := 0\<rparr>)"

definition table_decides :: "slot_table \<Rightarrow> slot_table \<Rightarrow> bool" where
  "table_decides t t' \<longleftrightarrow> list_all2 row_decides t t'"

lemma row_decides_keeps: "row_decides r r' \<Longrightarrow> row_keeps r r' \<and> (row_ok r \<longrightarrow> row_ok r')"
  unfolding row_decides_def row_keeps_def row_ok_def by (elim disjE conjE; cases r; cases r') auto

lemma table_decides_keeps:
  assumes ok: "table_ok t" and decides: "table_decides t t'"
  shows "table_keeps t t'"
proof -
  have all: "list_all2 (\<lambda>r r'. row_keeps r r' \<and> (row_ok r \<longrightarrow> row_ok r')) t t'"
    using decides row_decides_keeps unfolding table_decides_def by (auto elim: list_all2_mono)
  have "map absolute_slot t' = map absolute_slot t"
    using all by (induction rule: list_all2_induct) (auto simp: row_keeps_def)
  moreover have "list_all row_ok t'"
    using all ok unfolding table_ok_def by (induction rule: list_all2_induct) auto
  moreover have "list_all (\<lambda>r. list_ex (row_keeps r) t') t"
    using all by (induction rule: list_all2_induct) (auto simp: list_all_iff)
  ultimately show ?thesis
    using ok by (simp add: table_keeps_def table_ok_def)
qed

lemma row_finish_decides:
  "row_decides r r' \<Longrightarrow> row_state r = state_u8 Created \<Longrightarrow> row_decides r (r'\<lparr>priority_fees := fees, row_state := state_u8 Done\<rparr>)"
  unfolding row_decides_def by (cases r; cases r') auto

lemma row_dne_decides:
  "row_decides r r' \<Longrightarrow> row_state r' = state_u8 Created \<Longrightarrow> row_decides r (r'\<lparr>priority_fees := 0, row_state := state_u8 BlockDNE\<rparr>)"
  unfolding row_decides_def by (cases r; cases r') auto

lemma row_decides_slot: "row_decides r r' \<Longrightarrow> absolute_slot r' = absolute_slot r"
  using row_decides_keeps by (auto simp: row_keeps_def)

lemma finish_decides:
  assumes "table_decides t1 t" and "\<And>r. r \<in> set t1 \<Longrightarrow> absolute_slot r = slot \<Longrightarrow> row_state r = state_u8 Created"
  shows "table_decides t1 (finish_slot slot fees t)"
  using assms unfolding table_decides_def finish_slot_def sql_update_def
  by (induction rule: list_all2_induct) (auto simp: row_finish_decides row_decides_slot simp del: state_u8.simps)

lemma dne_decides:
  assumes "table_decides t1 t"
  shows "table_decides t1 (sql_update (\<lambda>r. absolute_slot r = slot \<and> row_state r = state_u8 Created)
    (\<lambda>r. r\<lparr>priority_fees := 0, row_state := state_u8 BlockDNE\<rparr>) t)"
  using assms unfolding table_decides_def sql_update_def
  by (induction rule: list_all2_induct) (auto simp: row_dne_decides simp del: state_u8.simps)

section \<open>The block metadata operation\<close>

text \<open>The database is the first part of the world of the operation.\<close>

abbreviation dbtab :: "(slot_table \<Rightarrow> bool) \<Rightarrow> connection \<times> 'w \<Rightarrow> bool" where
  "dbtab I \<equiv> \<lambda>s. I (cn_table (fst s))"

lemma preserves_on_left: "preserves (tab I) m \<Longrightarrow> preserves (dbtab I) (on_left m)"
  by (rule spec_on_left) simp

lemma preserves_elsewhere [spec_rules]: "preserves (dbtab I) (on_right m)"
  by (rule spec_on_right) (simp add: spec_const)

lemma preserves_logged: "preserves (tab I) m \<Longrightarrow> preserves (dbtab I) (logged m)"
  unfolding logged_def
  by (rule spec_bind [where R = "\<lambda>_. dbtab I"], rule spec_try [OF preserves_on_left]) (auto intro: spec_return)

lemma preserves_db_call: "preserves (tab I) m \<Longrightarrow> preserves (dbtab I) (db_call m)"
  by (intro preserves_on_left spec_map_err)

lemma update_schedule_keeps: "preserves (dbtab (table_keeps t0)) (update_schedule b es ep u)"
proof -
  have check: "preserves (tab (table_keeps t0)) (check_random_slot_exists_in_epoch ep es)"
    unfolding check_random_slot_exists_in_epoch_def
    by (intro spec_bind [where R = "\<lambda>_. tab (table_keeps t0)"] spec_pure preserves_select) (auto simp: spec_def)
  have fetch: "preserves (dbtab (table_keeps t0)) (crank_try (on_right (get_leader_schedule_safe b slot)))" for slot
    by (rule spec_try [OF preserves_elsewhere])
  show ?thesis
    unfolding update_schedule_def
    by (intro spec_bind [OF preserves_db_call [OF check]] spec_if spec_return spec_bind [OF fetch])
      (auto intro: spec_return preserves_logged insert_leader_schedule_keeps split: sum.splits)
qed

lemma take_sort_filterD: "s \<in> set (take n (sort (map f (filter P t)))) \<Longrightarrow> \<exists>r\<in>set t. f r = s \<and> P r"
  by (auto dest!: in_set_takeD)

lemma get_slots_needing_blocks_undecided:
  "spec (tab I) (get_slots_needing_blocks current)
     (\<lambda>slots c. I (cn_table c) \<and> (\<forall>s\<in>set slots. \<exists>r\<in>set (cn_table c). absolute_slot r = s \<and> row_state r = state_u8 Created)) (tab I)"
  unfolding get_slots_needing_blocks_def
  by (rule spec_conseq [OF spec_select [of I]]) (blast dest: take_sort_filterD)+

lemma set_block_dne_decides: "preserves (tab (table_decides t1)) (set_block_dne slot)"
  unfolding set_block_dne_def by (intro spec_execute dne_decides)

lemma upsert_block_data_decides:
  assumes "\<And>s fees r. (s, fees) \<in> set blocks \<Longrightarrow> r \<in> set t1 \<Longrightarrow> absolute_slot r = s \<Longrightarrow> row_state r = state_u8 Created"
  shows "preserves (tab (table_decides t1)) (upsert_block_data blocks n)"
proof -
  have "step_keeps (table_decides t1) (Ok (Some (finish_slot s fees)))" if "(s, fees) \<in> set blocks" for s fees
    using assms [OF that] by (auto simp: step_keeps_def intro!: finish_decides)
  moreover have "set cs \<subseteq> set blocks" if "chunks k blocks = Ok css" and "cs \<in> set css" for k cs css
    using that chunks_of_subset [of cs k blocks] by (auto simp: chunks_def split: if_splits)
  ultimately show ?thesis
    unfolding upsert_block_data_def Let_def by (intro spec_in_transactions) (fastforce simp: and_then_eq_Inr)
qed

text \<open>The slots that are noted come from the chunk that was asked for.\<close>

lemma get_bulk_block_safe_slots:
  "get_bulk_block_safe check client redundant sh slots w = (rs, w') \<Longrightarrow> set (map fst rs) \<subseteq> set slots"
  by (auto simp: get_bulk_block_safe_def split: prod.splits dest: set_zip_leftD)

lemma note_block_decides:
  "spec (\<lambda>s. table_decides t1 (cn_table (fst s)) \<and> fst ` set ok \<subseteq> S) (note_block x ok)
     (\<lambda>ok s. table_decides t1 (cn_table (fst s)) \<and> fst ` set ok \<subseteq> S) (dbtab (table_decides t1))"
  if "fst x \<in> S"
proof -
  have dne: "spec (\<lambda>s. table_decides t1 (cn_table (fst s)) \<and> Q) (db_call (set_block_dne slot))
      (\<lambda>_ s. table_decides t1 (cn_table (fst s)) \<and> Q) (dbtab (table_decides t1))" for Q slot
    using preserves_db_call [OF set_block_dne_decides [of t1 slot]] by (cases Q) (auto simp: spec_def split: sum.splits)
  show ?thesis
    unfolding note_block_def
    using that
    by (fastforce simp: image_subset_iff split: prod.splits sum.splits intro!: spec_bind [OF dne] spec_return
        spec_bind [OF spec_pure [where Q = "\<lambda>_ s. table_decides t1 (cn_table (fst s)) \<and> fst ` set ok \<subseteq> S"]])
qed

lemma update_blocks_decides:
  assumes undecided: "\<And>r. r \<in> set t1 \<Longrightarrow> absolute_slot r \<in> set slots \<Longrightarrow> row_state r = state_u8 Created"
  shows "preserves (dbtab (table_decides t1)) (update_blocks lib b sh slots u)"
proof -
  have fetch: "spec (dbtab (table_decides t1))
      (on_right (\<lambda>w. case get_bulk_block_safe chk bl red sh slots w of (rs, w) \<Rightarrow> Some (Ok (Inr rs, w))))
      (\<lambda>rs s. table_decides t1 (cn_table (fst s)) \<and> fst ` set rs \<subseteq> set slots) (dbtab (table_decides t1))" for chk bl red
    by (rule spec_on_right) (use get_bulk_block_safe_slots in \<open>fastforce simp: spec_def split: prod.splits\<close>)
  have noted: "spec (\<lambda>s. table_decides t1 (cn_table (fst s)) \<and> fst ` set rs \<subseteq> set slots) (crank_for note_block rs [])
      (\<lambda>ok s. table_decides t1 (cn_table (fst s)) \<and> fst ` set ok \<subseteq> set slots) (dbtab (table_decides t1))" for rs
  proof (cases "fst ` set rs \<subseteq> set slots")
    case True
    then have "spec (\<lambda>s. table_decides t1 (cn_table (fst s)) \<and> fst ` set ([] :: (nat \<times> nat) list) \<subseteq> set slots) (crank_for note_block rs [])
        (\<lambda>ok s. table_decides t1 (cn_table (fst s)) \<and> fst ` set ok \<subseteq> set slots) (dbtab (table_decides t1))"
      by (intro spec_for note_block_decides) auto
    then show ?thesis
      by (rule spec_conseq) auto
  qed (simp add: spec_def)
  have written: "spec (\<lambda>s. table_decides t1 (cn_table (fst s)) \<and> fst ` set ok \<subseteq> set slots) (logged (upsert_block_data ok None))
      (\<lambda>_. dbtab (table_decides t1)) (dbtab (table_decides t1))" for ok
  proof (cases "fst ` set ok \<subseteq> set slots")
    case True
    have "preserves (dbtab (table_decides t1)) (logged (upsert_block_data ok None))"
      using True undecided by (intro preserves_logged upsert_block_data_decides) force
    then show ?thesis
      by (rule spec_conseq) auto
  qed (simp add: spec_def)
  show ?thesis
    unfolding update_blocks_def by (intro spec_bind [OF fetch] spec_bind [OF noted] written)
qed

lemma spec_ghost: "(\<And>t. spec (\<lambda>s. P s \<and> f s = t) m Q E) \<Longrightarrow> spec P m Q E"
  unfolding spec_def by blast

lemma table_ok_unique: "table_ok t \<Longrightarrow> r \<in> set t \<Longrightarrow> r' \<in> set t \<Longrightarrow> absolute_slot r = absolute_slot r' \<Longrightarrow> r = r'"
  by (auto simp: table_ok_def strict_sorted_iff distinct_map inj_on_def)

lemma update_all_blocks_keeps:
  "spec (\<lambda>s. table_keeps t0 (cn_table (fst s)) \<and>
       (\<forall>n\<in>set slots. \<exists>r\<in>set (cn_table (fst s)). absolute_slot r = n \<and> row_state r = state_u8 Created))
     (crank_for (update_blocks lib b sh) (chunks_of k slots) ()) (\<lambda>_. dbtab (table_keeps t0)) (dbtab (table_keeps t0))"
proof (rule spec_ghost [where f = "\<lambda>s. cn_table (fst s)"])
  fix t1
  have loop: "preserves (dbtab (table_decides t1)) (crank_for (update_blocks lib b sh) (chunks_of k slots) ())"
    if ok: "table_ok t1" and undecided: "\<forall>n\<in>set slots. \<exists>r\<in>set t1. absolute_slot r = n \<and> row_state r = state_u8 Created"
  proof (rule spec_for, rule update_blocks_decides)
    fix x r assume "x \<in> set (chunks_of k slots)" and "r \<in> set t1" and "absolute_slot r \<in> set x"
    then show "row_state r = state_u8 Created"
      using undecided table_ok_unique [OF ok] chunks_of_subset [of x k slots] by blast
  qed
  have final: "table_keeps t0 t" if "table_keeps t0 t1" and "table_decides t1 t" for t
    using that table_decides_keeps [of t1 t] table_keeps_trans [of t0 t1 t] by (auto simp: table_keeps_def)
  show "spec (\<lambda>s. (table_keeps t0 (cn_table (fst s)) \<and>
       (\<forall>n\<in>set slots. \<exists>r\<in>set (cn_table (fst s)). absolute_slot r = n \<and> row_state r = state_u8 Created)) \<and> cn_table (fst s) = t1)
     (crank_for (update_blocks lib b sh) (chunks_of k slots) ()) (\<lambda>_. dbtab (table_keeps t0)) (dbtab (table_keeps t0))"
  proof (cases "table_keeps t0 t1 \<and> (\<forall>n\<in>set slots. \<exists>r\<in>set t1. absolute_slot r = n \<and> row_state r = state_u8 Created)")
    case True
    then have "table_ok t1"
      by (simp add: table_keeps_def)
    moreover have "table_decides t1 t1"
      by (simp add: table_decides_def row_decides_def list_all2_same)
    ultimately show ?thesis
      using True final by (auto intro!: spec_conseq [OF loop])
  qed (auto simp: spec_def)
qed

lemma epoch_instructions_reads: "preserves (dbtab I) (epoch_instructions c lib ks ep ixs)"
proof -
  have entries: "preserves (tab I) (get_priority_fee_and_block_metadata_entries parse shw ep)" for parse shw
    unfolding get_priority_fee_and_block_metadata_entries_def get_highest_done_slot_def
    by (intro spec_bind [OF preserves_select] spec_lift_result)
  have "preserves (dbtab I) (crank_try (on_left (get_priority_fee_and_block_metadata_entries parse shw ep)))" for parse shw
    by (rule spec_try [OF preserves_on_left [OF entries]])
  moreover have "preserves (dbtab I) (crank_try (on_right m))" for m :: "('w, ClientError, Account) action"
    by (rule spec_try [OF preserves_elsewhere])
  ultimately show ?thesis
    unfolding epoch_instructions_def Let_def
    by (intro spec_bind [where R = "\<lambda>_. dbtab I"] spec_pure)
      (auto split: sum.splits prod.splits intro!: spec_return spec_for spec_bind [where R = "\<lambda>_. dbtab I"])
qed

lemma update_block_metadata_keeps: "preserves (dbtab (table_keeps t0)) (update_block_metadata c b lib config ks)"
proof -
  let ?I = "dbtab (table_keeps t0)"
  have schedule: "preserves ?I (crank_for (update_schedule b es) eps ())" for es eps
    by (intro spec_for update_schedule_keeps)
  have mapping: "preserves ?I (logged (upsert_vote_identity_mapping mp n))" for mp n
    by (intro preserves_logged upsert_vote_identity_mapping_keeps)
  have slots: "spec ?I (db_call (get_slots_needing_blocks current)) (\<lambda>slots s. table_keeps t0 (cn_table (fst s)) \<and>
      (\<forall>n\<in>set slots. \<exists>r\<in>set (cn_table (fst s)). absolute_slot r = n \<and> row_state r = state_u8 Created)) ?I" for current
    by (rule spec_on_left, rule spec_map_err)
      (use get_slots_needing_blocks_undecided [of "table_keeps t0" current] in simp)
  have instructions: "preserves ?I (crank_for (epoch_instructions c lib ks) eps [])" for eps
    by (intro spec_for epoch_instructions_reads)
  show ?thesis
    unfolding update_block_metadata_def
    by (rule spec_bind [OF preserves_elsewhere], rule spec_bind [where R = "\<lambda>_. ?I", OF spec_pure], assumption,
        rule spec_bind [OF schedule], rule spec_bind [OF mapping], rule spec_bind [OF slots],
        rule spec_bind [OF update_all_blocks_keeps], rule spec_bind [OF instructions], rule preserves_elsewhere)
qed

end
