(* ===== verification/Keeper_Properties.thy ===== *)
theory Keeper_Properties
  imports Slot_Lifecycle Ranking
begin

text \<open>
  Invariants of the whole bot, over any number of turns of its main loop: the tallies of the
  epoch stay within what the schedule of the operations allows, and the slot database keeps
  what it has decided.
\<close>

section \<open>The tallies\<close>

text \<open>How often an operation may succeed in an epoch.\<close>

fun run_limit :: "KeeperOperations \<Rightarrow> nat option" where
  "run_limit ClusterHistoryCopy = Some 3"
| "run_limit GossipUpload = Some 3"
| "run_limit StakeUpload = Some 3"
| "run_limit CopyIsBamConnected = Some 1"
| "run_limit _ = None"

definition within_limit :: "KeeperOperations \<Rightarrow> nat \<Rightarrow> bool" where
  "within_limit op n \<longleftrightarrow> (case run_limit op of None \<Rightarrow> True | Some b \<Rightarrow> n \<le> b)"

definition tallies_ok :: "KeeperState \<Rightarrow> bool" where
  "tallies_ok ks \<longleftrightarrow>
     length (runs_for_epoch ks) = OPERATIONS_LEN \<and> length (errors_for_epoch ks) = OPERATIONS_LEN \<and>
     length (txs_for_epoch ks) = OPERATIONS_LEN \<and> length (created_accounts_for_epoch ks) = CREATES_LEN \<and>
     (\<forall>op. within_limit op (runs_for_epoch ks ! operation_index op))"

lemma operation_index_less: "operation_index op < OPERATIONS_LEN"
  by (cases op) (simp_all add: OPERATIONS_LEN_def)

lemma operation_index_inject [simp]: "operation_index op = operation_index op' \<longleftrightarrow> op = op'"
  by (cases op; cases op') simp_all

lemma within_limit_0 [simp]: "within_limit op 0"
  by (simp add: within_limit_def split: option.splits)

lemma tallies_ok_cong:
  assumes "runs_for_epoch ks' = runs_for_epoch ks" "errors_for_epoch ks' = errors_for_epoch ks"
    and "txs_for_epoch ks' = txs_for_epoch ks" "created_accounts_for_epoch ks' = created_accounts_for_epoch ks"
  shows "tallies_ok ks' \<longleftrightarrow> tallies_ok ks"
  using assms by (simp add: tallies_ok_def)

lemma tallies_ok_latest: "tallies_ok ks \<Longrightarrow> tallies_ok (set_latest_epoch latest ks)"
  by (auto simp: tallies_ok_def set_latest_epoch_def Let_def operation_index_less)

lemma tallies_ok_default: "tallies_ok (initial_keeper_state config es sh)"
  by (simp add: tallies_ok_def initial_keeper_state_def KeeperState_default_def Let_def operation_index_less)

lemma increment_length: "increment xs i n = Ok ys \<Longrightarrow> length ys = length xs"
  by (auto simp: increment_def and_then_eq_Inr arr_set_def split: if_splits)

lemma tallies_ok_run:
  assumes ok: "tallies_ok ks" and free: "run_limit op = None" and ret: "increment_update_run_for_epoch op ks = Ok ks'"
  shows "tallies_ok ks'"
proof -
  obtain v where ks': "ks' = ks\<lparr>runs_for_epoch := (runs_for_epoch ks)[operation_index op := v]\<rparr>"
    using ret by (auto simp: increment_update_run_for_epoch_def increment_def and_then_eq_Inr arr_set_def split: if_splits)
  show ?thesis
    using ok free operation_index_less [of op]
    by (auto simp: ks' tallies_ok_def nth_list_update within_limit_def)
qed

lemma tallies_ok_bookkeeping:
  "tallies_ok ks \<Longrightarrow> increment_update_error_for_epoch op ks = Ok ks' \<Longrightarrow> tallies_ok ks'"
  "tallies_ok ks \<Longrightarrow> increment_update_txs_for_epoch op n ks = Ok ks' \<Longrightarrow> tallies_ok ks'"
  "tallies_ok ks \<Longrightarrow> increment_creations_for_epoch n ks = Ok ks' \<Longrightarrow> tallies_ok ks'"
  by (auto simp: tallies_ok_def increment_update_error_for_epoch_def increment_update_txs_for_epoch_def
      increment_creations_for_epoch_def and_then_eq_Inr dest: increment_length)

lemma tallies_ok_set:
  assumes ok: "tallies_ok ks" and runs: "within_limit op (fst counts)"
    and ret: "set_runs_errors_and_txs_for_epoch op counts ks = Ok ks'"
  shows "tallies_ok ks'"
  using ok runs ret operation_index_less [of op]
  by (auto simp: tallies_ok_def set_runs_errors_and_txs_for_epoch_def and_then_eq_Inr arr_set_def nth_list_update
      split: prod.splits if_splits)

section \<open>One operation\<close>

text \<open>An operation that is due has not used up its runs, and one call adds at most one.\<close>

lemma tally_runs: "tally b r (runs, errs, txs) = Ok counts \<Longrightarrow> fst counts \<le> Suc runs"
  by (cases r) (auto simp: and_then_eq_Inr plus_or_panic_def checked_add_def ok_or_def split: if_splits prod.splits)

lemma fire_within_limit:
  assumes ok: "tallies_ok ks" and due: "\<And>n. due (ks_epoch_info ks) n = Ok True \<Longrightarrow> within_limit op (Suc n)"
  shows "spec (\<lambda>_. True) (fire op due b config process ks) (\<lambda>counts _. within_limit op (fst counts)) (\<lambda>_. True)"
proof -
  have start: "within_limit op runs" if "copy_runs_errors_and_txs_for_epoch op ks = Ok (runs, errs, txs)" for runs errs txs
    using ok that by (auto simp: tallies_ok_def copy_runs_errors_and_txs_for_epoch_def and_then_eq_Inr arr_get_def split: if_splits)
  have mono: "within_limit op n" if "within_limit op (Suc k)" and "n \<le> Suc k" for n k
    using that by (auto simp: within_limit_def split: option.splits)
  have rest: "spec (\<lambda>_. within_limit op runs)
      (crank_bind (crank_pure (due (ks_epoch_info ks) runs)) (\<lambda>is_due.
        if is_due \<and> check_run_flag (kc_run_flags config) op
        then crank_bind (crank_try process) (\<lambda>r. crank_pure (tally b r (runs, errs, txs)))
        else crank_return (runs, errs, txs))) (\<lambda>counts _. within_limit op (fst counts)) (\<lambda>_. True)" for runs errs txs
  proof (rule spec_bind)
    show "spec (\<lambda>_. within_limit op runs) (crank_pure (due (ks_epoch_info ks) runs))
        (\<lambda>d _. within_limit op runs \<and> (d \<longrightarrow> within_limit op (Suc runs))) (\<lambda>_. True)"
      using due by (intro spec_pure) auto
    have go: "spec (\<lambda>_. within_limit op (Suc runs)) (crank_bind (crank_try process) (\<lambda>r. crank_pure (tally b r (runs, errs, txs))))
        (\<lambda>counts _. within_limit op (fst counts)) (\<lambda>_. True)"
      by (rule spec_bind [where R = "\<lambda>_ _. within_limit op (Suc runs)"])
        (auto intro!: spec_const spec_pure elim!: mono tally_runs)
    show "spec (\<lambda>_. within_limit op runs \<and> (d \<longrightarrow> within_limit op (Suc runs)))
        (if d \<and> check_run_flag (kc_run_flags config) op
         then crank_bind (crank_try process) (\<lambda>r. crank_pure (tally b r (runs, errs, txs)))
         else crank_return (runs, errs, txs)) (\<lambda>counts _. within_limit op (fst counts)) (\<lambda>_. True)" for d
      by (auto intro!: spec_return spec_conseq [OF go])
  qed
  show ?thesis
    unfolding fire_def
  proof (rule spec_bind)
    show "spec (\<lambda>_. True) (crank_pure (copy_runs_errors_and_txs_for_epoch op ks))
        (\<lambda>counts _. within_limit op (fst counts)) (\<lambda>_. True)"
      using start by (intro spec_pure) (auto split: prod.splits)
  qed (use rest in \<open>auto split: prod.splits\<close>)
qed

lemma due_three_times_limit: "due_three_times ei n = Ok True \<Longrightarrow> n < 3"
  by (auto simp: due_three_times_def and_then_eq_Inr split: if_splits)

lemma gossip_due_limit: "gossip_due ei n = Ok True \<Longrightarrow> n < 3"
  by (auto simp: gossip_due_def and_then_eq_Inr split: if_splits)

lemma bam_due_limit: "bam_due ei n = Ok True \<Longrightarrow> n < 1"
  by (auto simp: bam_due_def and_then_eq_Inr)

section \<open>The refresh\<close>

abbreviation state_inv :: "(KeeperState \<Rightarrow> bool) \<Rightarrow> KeeperState \<times> 'w \<Rightarrow> bool" where
  "state_inv A \<equiv> \<lambda>s. A (fst s)"

lemma spec_get_state: "spec P get_state (\<lambda>ks s. P s \<and> fst s = ks) E"
  by (auto simp: spec_def get_state_def)

lemma preserves_get_state: "preserves P get_state"
  by (auto simp: spec_def get_state_def)

lemma preserves_modify: "(\<And>ks. A ks \<Longrightarrow> A (f ks)) \<Longrightarrow> preserves (state_inv A) (modify_state f)"
  by (auto simp: spec_def modify_state_def)

lemma preserves_update: "(\<And>ks ks'. A ks \<Longrightarrow> f ks = Ok ks' \<Longrightarrow> A ks') \<Longrightarrow> preserves (state_inv A) (update_state f)"
  by (auto simp: spec_def update_state_def and_then_eq_Inr)

lemma pre_create_update_tallies: "preserves (state_inv tallies_ok) (pre_create_update c lib)"
  unfolding pre_create_update_def
  by (intro spec_bind [OF spec_elsewhere] spec_bind [OF preserves_modify] preserves_modify
      spec_bind [where R = "\<lambda>_. state_inv tallies_ok", OF spec_lift_sum])
    (auto simp: tallies_ok_latest update_identity_to_vote_map_def elim!: tallies_ok_cong [THEN iffD1, rotated -1])

lemma create_missing_accounts_tallies: "preserves (state_inv tallies_ok) (create_missing_accounts c lib config)"
  unfolding create_missing_accounts_def by (intro spec_bind [OF preserves_get_state] spec_elsewhere)

lemma post_create_update_tallies: "preserves (state_inv tallies_ok) (post_create_update c lib)"
  unfolding post_create_update_def Let_def
  by (intro spec_bind [OF spec_elsewhere] spec_bind [OF preserves_modify] preserves_modify spec_bind [OF preserves_get_state])
    (auto elim!: tallies_ok_cong [THEN iffD1, rotated -1])

section \<open>A turn of the loop\<close>

text \<open>
  Of the database the bot needs only that the block metadata operation keeps a property of the
  table; all other parts of a turn leave the database alone.
\<close>

definition keeper_inv :: "(slot_table \<Rightarrow> bool) \<Rightarrow> KeeperState \<times> connection \<times> 'w \<Rightarrow> bool" where
  "keeper_inv D = (\<lambda>(ks, db, w). tallies_ok ks \<and> D (cn_table db))"

locale bot_database =
  fixes D :: "slot_table \<Rightarrow> bool" and kw :: "('w, 'ep) keeper_world"
  assumes metadata_keeps: "preserves (dbtab D) (update_block_metadata (kw_client kw) (kw_blocks kw) (kw_lib kw) config ks)"
begin

lemma preserves_skip_db:
  assumes m: "preserves (state_inv tallies_ok) m"
  shows "preserves (keeper_inv D) (skip_db m)"
proof -
  have end_ok: "tallies_ok ks'" if "m (ks, w) = Some (Ok (r, ks', w'))" and "tallies_ok ks" for ks w r ks' w'
    using preserves_end [OF m that(1)] that(2) by simp
  show ?thesis
    by (rule specI; clarsimp simp: skip_db_def keeper_inv_def and_then_eq_Inr; rule end_ok)
qed

lemma inv_update:
  assumes "\<And>ks ks'. tallies_ok ks \<Longrightarrow> f ks = Ok ks' \<Longrightarrow> tallies_ok ks'"
  shows "preserves (keeper_inv D) (update_state f)"
  using assms by (auto simp: spec_def update_state_def keeper_inv_def and_then_eq_Inr)

lemma inv_bookkeeping:
  "run_limit op = None \<Longrightarrow> preserves (keeper_inv D) (update_state (increment_update_run_for_epoch op))"
  "preserves (keeper_inv D) (update_state (increment_update_error_for_epoch op))"
  "preserves (keeper_inv D) (update_state (increment_update_txs_for_epoch op n))"
  "preserves (keeper_inv D) (update_state (increment_creations_for_epoch n))"
  by (intro inv_update; fastforce dest: tallies_ok_run tallies_ok_bookkeeping)+

lemma create_accounts_inv: "preserves (keeper_inv D) (create_accounts kw config)"
proof -
  have create: "preserves (keeper_inv D) (crank_try (skip_db (create_missing_accounts (kw_client kw) (kw_lib kw) config)))"
    by (rule spec_try [OF preserves_skip_db [OF create_missing_accounts_tallies]])
  show ?thesis
    unfolding create_accounts_def
    by (intro spec_if spec_return spec_bind [OF create])
      (auto split: sum.splits intro!: spec_return spec_bind [where R = "\<lambda>_. keeper_inv D"] inv_bookkeeping)
qed

lemma refresh_inv: "preserves (keeper_inv D) (refresh kw config)"
proof -
  have pre: "preserves (keeper_inv D) (crank_try (skip_db (pre_create_update (kw_client kw) (kw_lib kw))))"
    by (rule spec_try [OF preserves_skip_db [OF pre_create_update_tallies]])
  have post: "preserves (keeper_inv D) (crank_try (skip_db (post_create_update (kw_client kw) (kw_lib kw))))"
    by (rule spec_try [OF preserves_skip_db [OF post_create_update_tallies]])
  have ends: "preserves (keeper_inv D) (crank_bind (update_state (increment_update_error_for_epoch op)) (\<lambda>_. crank_return b))"
    "run_limit op = None \<Longrightarrow> preserves (keeper_inv D) (crank_bind (update_state (increment_update_run_for_epoch op)) (\<lambda>_. crank_return b))"
    for op b
    by (intro spec_bind [OF inv_bookkeeping(1)] spec_bind [OF inv_bookkeeping(2)] spec_return; simp)+
  show ?thesis
    unfolding refresh_def
    by (rule spec_bind [OF pre])
      (auto split: sum.splits intro!: ends spec_return spec_bind [OF inv_bookkeeping(1)] spec_bind [OF create_accounts_inv] spec_bind [OF post])
qed

text \<open>An operation reads the state, works on the database and the world, and its tallies are stored.\<close>

lemma inv_on_right:
  assumes "spec (\<lambda>_. True) m (\<lambda>x _. Q x) (\<lambda>_. True)" and "preserves (dbtab D) m"
  shows "spec (keeper_inv D) (on_right m) (\<lambda>x s. keeper_inv D s \<and> Q x) (keeper_inv D)"
proof (rule spec_on_right)
  fix ks
  show "spec (\<lambda>w. keeper_inv D (ks, w)) m (\<lambda>x w. keeper_inv D (ks, w) \<and> Q x) (\<lambda>w. keeper_inv D (ks, w))"
    by (cases "tallies_ok ks", rule spec_conseq [OF spec_conj [OF assms]])
      (auto simp: keeper_inv_def spec_def)
qed

lemma inv_reads_state:
  assumes "\<And>ks. tallies_ok ks \<Longrightarrow> spec (keeper_inv D) (k ks) Q (keeper_inv D)"
  shows "spec (keeper_inv D) (crank_bind get_state k) Q (keeper_inv D)"
proof (rule spec_bind [OF spec_get_state])
  fix ks
  show "spec (\<lambda>s. keeper_inv D s \<and> fst s = ks) (k ks) Q (keeper_inv D)"
  proof (cases "tallies_ok ks")
    case True
    then show ?thesis
      by (auto intro: spec_conseq [OF assms])
  qed (auto simp: spec_def keeper_inv_def)
qed

lemma run_operation_inv:
  assumes "\<And>ks. tallies_ok ks \<Longrightarrow> spec (\<lambda>_. True) (m ks) (\<lambda>counts _. within_limit op (fst counts)) (\<lambda>_. True)"
    and "\<And>ks. preserves (dbtab D) (m ks)"
  shows "preserves (keeper_inv D) (run_operation op m)"
  unfolding run_operation_def
proof (rule inv_reads_state, rule spec_bind [OF inv_on_right])
  fix ks counts
  show "spec (\<lambda>s. keeper_inv D s \<and> within_limit op (fst counts)) (update_state (set_runs_errors_and_txs_for_epoch op counts))
    (\<lambda>_. keeper_inv D) (keeper_inv D)"
    by (cases "within_limit op (fst counts)", rule spec_conseq [OF inv_update])
      (auto simp: spec_def elim: tallies_ok_set)
qed (use assms in auto)

lemma run_flagged_operation_inv:
  assumes "run_limit op = None" and "\<And>ks. preserves (dbtab D) (m ks)"
  shows "preserves (keeper_inv D) (run_flagged_operation op m)"
  unfolding run_flagged_operation_def
proof (rule inv_reads_state, rule spec_bind [OF inv_on_right])
  fix ks and r :: "(nat \<times> nat \<times> nat) \<times> 8 word"
  have "tallies_ok ks''" if before: "tallies_ok ks'" and ret: "set_runs_errors_txs_and_flags_for_epoch op counts flags ks' = Ok ks''"
    for ks' ks'' counts flags
  proof -
    obtain u where "set_runs_errors_and_txs_for_epoch op counts ks' = Ok u" and "ks'' = u\<lparr>ks_keeper_flags := flags\<rparr>"
      using ret by (auto simp: set_runs_errors_txs_and_flags_for_epoch_def and_then_eq_Inr)
    moreover have "within_limit op (fst counts)"
      using assms(1) by (simp add: within_limit_def)
    ultimately show ?thesis
      using tallies_ok_set [OF before] tallies_ok_cong [of ks'' u] by simp
  qed
  then show "spec (\<lambda>s. keeper_inv D s \<and> True) (case r of (counts, flags) \<Rightarrow>
      update_state (set_runs_errors_txs_and_flags_for_epoch op counts flags)) (\<lambda>_. keeper_inv D) (keeper_inv D)"
    by (cases r) (simp add: inv_update)
qed (use assms(2) spec_True in auto)

lemma free_operation: "run_limit op = None \<Longrightarrow> spec P m (\<lambda>counts _. within_limit op (fst counts)) (\<lambda>_. True)"
  by (simp add: within_limit_def spec_True)

lemma fire_preserves: "preserves (dbtab I) m \<Longrightarrow> preserves (dbtab I) (fire op due b config m ks)"
  unfolding fire_def
  by (auto intro!: spec_bind [where R = "\<lambda>_. dbtab I"] spec_pure spec_return spec_try split: prod.splits)

lemma cool_down_inv: "preserves (keeper_inv D) (cool_down kw config)"
  unfolding cool_down_def
  by (rule inv_reads_state) (auto simp: spec_def keeper_inv_def crank_return_def split: if_splits)

lemma crank_when_inv: "(b \<Longrightarrow> preserves I m) \<Longrightarrow> preserves I (crank_when b m)"
  by (simp add: crank_when_def spec_return)

lemma on_tick_inv: "preserves I m \<Longrightarrow> preserves I (on_tick tick interval m)"
  unfolding on_tick_def by (intro spec_bind [where R = "\<lambda>_. I"] spec_pure crank_when_inv)

lemma limited_operation:
  assumes "\<And>ei n. due ei n = Ok True \<Longrightarrow> within_limit op (Suc n)"
  shows "preserves (keeper_inv D) (run_operation op (\<lambda>ks. on_right (fire op due b config (process ks) ks)))"
proof (rule run_operation_inv)
  fix ks :: KeeperState
  assume "tallies_ok ks"
  then show "spec (\<lambda>_. True) (on_right (fire op due b config (process ks) ks)) (\<lambda>counts _. within_limit op (fst counts)) (\<lambda>_. True)"
    by (intro spec_on_right fire_within_limit assms)
qed (rule preserves_elsewhere)

lemma fire_validator_history_inv: "preserves (keeper_inv D) (fire_validator_history kw config)"
proof -
  have limited:
    "preserves (keeper_inv D) (run_operation ClusterHistoryCopy (\<lambda>ks. on_right (fire_cluster_history (kw_client kw) config ks)))"
    "preserves (keeper_inv D) (run_operation StakeUpload (\<lambda>ks. on_right (fire_stake_upload (kw_client kw) (kw_lib kw) config ks)))"
    "preserves (keeper_inv D) (run_operation GossipUpload (\<lambda>ks. on_right
       (fire_gossip_upload (kw_client kw) (kw_network kw) (kw_lib kw) config ks (kw_entrypoints kw))))"
    "preserves (keeper_inv D) (run_operation CopyIsBamConnected (\<lambda>ks. on_right
       (fire_copy_is_bam_connected (kw_client kw) (kw_kobe kw) (kw_lib kw) config ks)))"
    unfolding fire_cluster_history_def fire_stake_upload_def fire_gossip_upload_def fire_copy_is_bam_connected_def
    by (rule limited_operation; fastforce simp: within_limit_def dest: due_three_times_limit gossip_due_limit bam_due_limit)+
  have free: "preserves (keeper_inv D) (run_operation op (\<lambda>ks. on_right (m ks)))" if "run_limit op = None"
    for op and m :: "KeeperState \<Rightarrow> ('a, JitoTransactionError, nat \<times> nat \<times> nat) action"
    using that by (intro run_operation_inv free_operation preserves_elsewhere)
  have flagged: "preserves (keeper_inv D) (run_flagged_operation VoteAccount (\<lambda>ks. on_right (m ks)))"
    for m :: "KeeperState \<Rightarrow> ('a, JitoTransactionError, (nat \<times> nat \<times> nat) \<times> 8 word) action"
    by (intro run_flagged_operation_inv preserves_elsewhere) simp
  show ?thesis
    unfolding fire_validator_history_def Let_def
    by (intro spec_bind [where R = "\<lambda>_. keeper_inv D"] crank_when_inv limited flagged free cool_down_inv) simp_all
qed

lemma fire_all_inv: "preserves (keeper_inv D) (fire_all kw config tick)"
proof -
  have steward: "preserves (keeper_inv D) (run_flagged_operation StewardCrank (\<lambda>ks. on_right (m ks)))"
    for m :: "KeeperState \<Rightarrow> ('a, JitoTransactionError, (nat \<times> nat \<times> nat) \<times> 8 word) action"
    by (intro run_flagged_operation_inv preserves_elsewhere) simp
  have metadata: "preserves (keeper_inv D) (run_operation BlockMetadataKeeper (fire_block_metadata (kw_client kw) (kw_blocks kw) (kw_lib kw) config))"
    by (intro run_operation_inv free_operation; simp add: fire_block_metadata_def fire_preserves metadata_keeps)
  have metrics: "preserves (keeper_inv D) (run_operation EmitMetrics (\<lambda>ks. on_right (fire_metrics kw config ks)))"
    by (intro run_operation_inv free_operation preserves_elsewhere) simp
  show ?thesis
    unfolding fire_all_def
    by (intro spec_bind [where R = "\<lambda>_. keeper_inv D"] on_tick_inv crank_when_inv fire_validator_history_inv cool_down_inv
        steward metadata metrics)
qed

lemma keeper_turn_inv: "preserves (keeper_inv D) (keeper_turn kw config tick)"
proof -
  have clear: "preserves (keeper_inv D) (modify_state (\<lambda>ks. if b then ks\<lparr>ks_keeper_flags := unset_keeper_flag Startup (ks_keeper_flags ks)\<rparr> else ks))" for b
    by (auto simp: spec_def modify_state_def keeper_inv_def elim!: tallies_ok_cong [THEN iffD1, rotated -1])
  have pause: "preserves (keeper_inv D) (\<lambda>(ks, db, w). Some (Ok (Inr (), (ks, db, f w))))" for f
    by (auto simp: spec_def keeper_inv_def)
  show ?thesis
    unfolding keeper_turn_def
    by (intro spec_bind [where R = "\<lambda>_. keeper_inv D"] spec_if spec_return spec_pure refresh_inv fire_all_inv clear pause)
qed

lemma keeper_run_inv: "keeper_run kw config s s' \<Longrightarrow> keeper_inv D (snd s) \<Longrightarrow> keeper_inv D (snd s')"
  by (induction rule: keeper_run.induct) (auto dest: spec_value [OF keeper_turn_inv])

end

interpretation unrestricted: bot_database "\<lambda>_. True" kw for kw
  by unfold_locales (simp add: spec_True)

interpretation ledger: bot_database "table_keeps t0" kw for t0 kw
  by unfold_locales (rule update_block_metadata_keeps)

section \<open>A run of the bot\<close>

text \<open>
  A node that knows no validators, in epoch 0 with four slots, whose finalised slot is 3 and
  whose blocks pay five lamports of fees. The database holds slot 0, which is done, and slot 1.
\<close>

definition no_node :: ClientError where
  "no_node = \<lparr>ce_kind = Io ''no node'', ce_transaction_error = None, ce_text = ''no node''\<rparr>"

definition bot_account :: Account where
  "bot_account = \<lparr>ac_owner = [], ac_data = []\<rparr>"

definition bot_client :: "(unit, keeper_ix) StateClient" where
  "bot_client =
     \<lparr>rpc_latest_blockhash = (\<lambda>w. (Inl no_node, w)), rpc_send_transaction = (\<lambda>tx w. (Inl no_node, w)),
      rpc_signature_statuses = (\<lambda>sigs w. (Inl no_node, w)), rpc_blockhash_valid = (\<lambda>h w. (Inl no_node, w)),
      rpc_simulate = (\<lambda>tx w. (Inl no_node, w)), rpc_sleep = (\<lambda>n w. w), sign = (\<lambda>ixs h. []), hash_order = id,
      packet_size = (\<lambda>tx. None), accounts_len = (\<lambda>ix. 0), data_len = (\<lambda>ix. 0),
      rpc_steward_state = (\<lambda>w. (Inl (JitoClientError no_node), w)), rpc_epoch = (\<lambda>w. (Inl no_node, w)),
      rpc_reserve_lamports = (\<lambda>w. (Inl no_node, w)), rpc_stake_rent = (\<lambda>w. (Inl no_node, w)),
      rpc_directed_stake_meta = (\<lambda>w. (Inl (JitoClientError no_node), w)), rpc_tickets = (\<lambda>w. (Inl (JitoClientError no_node), w)),
      rpc_stake_pool_totals = (\<lambda>w. (Inl (JitoClientError no_node), w)), rpc_token_balance = (\<lambda>k w. (Inl no_node, w)),
      rpc_validator_list = (\<lambda>w. (Inl (JitoClientError no_node), w)), kobe_coinbase_balance = (\<lambda>n w. (Inl [], w)),
      rpc_slot = (\<lambda>w. (Inl no_node, w)),
      rpc_epoch_info = (\<lambda>w. (Inr \<lparr>ei_epoch = 0, ei_slot_index = 3, ei_slots_in_epoch = 4, ei_absolute_slot = 3, ei_block_height = 3\<rparr>, w)),
      rpc_epoch_schedule = (\<lambda>w. (Inr \<lparr>slots_per_epoch = 4, get_first_slot_in_epoch = (\<lambda>e. 4 * e), get_slots_in_epoch = (\<lambda>_. 4)\<rparr>, w)),
      rpc_finalized_account = (\<lambda>k w. (Inr (Some bot_account), w)), rpc_vote_accounts = (\<lambda>w. (Inr ([], []), w)),
      rpc_multiple_accounts = (\<lambda>ks w. (Inr (map (\<lambda>_. None) ks), w)), rpc_account = (\<lambda>k w. (Inr bot_account, w)),
      rpc_history_accounts = (\<lambda>w. (Inr [], w)), rpc_balance = (\<lambda>w. (Inr 1, w)),
      rpc_steward_accounts = (\<lambda>w. (Inr \<lparr>config_account = sample_config, state_account = sample_state, pool_validators = []\<rparr>, w)),
      group_order = id\<rparr>"

definition bot_slots :: SlotHistory where
  "bot_slots = \<lparr>sh_bits = [], sh_next_slot = 4\<rparr>"

definition bot_cluster :: ClusterHistory where
  "bot_cluster = \<lparr>ch_struct_version = 0, ch_bump = 0, cluster_history_last_update_slot = 0,
     ch_history = circ_default ClusterHistoryEntry_default\<rparr>"

definition bot_lib :: state_lib where
  "bot_lib =
     \<lparr>lib_vote_program = [1], lib_stake_state = (\<lambda>_. None), lib_vote_epochs = (\<lambda>_. None), lib_history = (\<lambda>_. None),
      lib_stake_status = (\<lambda>_. None), lib_max_validators_to_update = 1, lib_parse_pubkey = (\<lambda>_. None),
      lib_show_pubkey = (\<lambda>_. []), lib_history_address = id, lib_stake_address = (\<lambda>v p. v),
      lib_tip_distribution_address = (\<lambda>v e. v), lib_priority_fee_distribution_address = (\<lambda>v e. v),
      lib_cluster_history_address = [], lib_slot_history_sysvar = [], lib_tip_distribution_program = [],
      lib_tip_has_merkle_root = (\<lambda>_. None), lib_slot_history = (\<lambda>_. Some bot_slots), lib_slot_check = (\<lambda>_ _. Found),
      lib_cluster_history = (\<lambda>_. Some bot_cluster),
      lib_history_size = 65848, lib_debug_string = id\<rparr>"

definition bot_world :: "(unit, unit) keeper_world" where
  "bot_world =
     \<lparr>kw_client = bot_client,
      kw_blocks = \<lparr>rpc_finalized_slot = (\<lambda>w. (Inr 3, w)), rpc_leader_schedule = (\<lambda>n w. (Inr None, w)),
        rpc_block = (\<lambda>n w. (Inr \<lparr>ub_rewards = Some [(True, 5), (False, 9)]\<rparr>, w)), redundant_blocks = []\<rparr>,
      kw_network = \<lparr>gn_echo = (\<lambda>e w. (Inl [], w)), gn_discover = (\<lambda>e ip v w. (None, w))\<rparr>, kw_entrypoints = [],
      kw_kobe = (\<lambda>n w. (Inl [], w)), kw_lib = bot_lib, kw_emit_metrics = (\<lambda>ks. crank_return ()),
      kw_random_cooldown = (\<lambda>n w. w)\<rparr>"

definition bot_config :: KeeperConfig where
  "bot_config =
     \<lparr>kc_keypair = replicate 32 5, kc_priority_fee = 1, kc_tx_retry_count = 1, kc_tx_confirmation_seconds = 1, kc_has_oracle_authority_keypair = False,
      kc_has_priority_fee_oracle_authority_keypair = True, kc_has_directed_stake_oracle_authority_keypair = False,
      kc_has_gossip_entrypoints = False, kc_validator_history_interval = 5, kc_steward_interval = 5, kc_metrics_interval = 5,
      kc_block_metadata_interval = 1, kc_run_flags = 2048, kc_cool_down_range = 0, kc_full_startup = False, kc_no_pack = False,
      kc_pay_for_new_accounts = False, kc_lookback_epochs = 0, kc_lookback_start_offset_epochs = 0,
      kc_validator_history_min_stake = 0, kc_coinbase_vote_pubkey = [], kc_min_bam_connection_rate = Fin 0\<rparr>"

definition bot_row :: "nat \<Rightarrow> nat \<Rightarrow> nat \<Rightarrow> slot_row" where
  "bot_row n fees st = \<lparr>absolute_slot = n, relative_slot = n, row_epoch = 0, vote_key = [], identity_key = ''id'',
     priority_fees = fees, row_state = st, error_string = []\<rparr>"

definition bot_db :: connection where
  "bot_db = \<lparr>cn_table = [bot_row 0 7 17, bot_row 1 0 16], cn_statements = 0, cn_fails = (\<lambda>_. False), cn_gen_range = (\<lambda>n a b. a)\<rparr>"

abbreviation bot_start :: KeeperState where
  "bot_start \<equiv> initial_keeper_state bot_config
     \<lparr>slots_per_epoch = 4, get_first_slot_in_epoch = (\<lambda>e. 4 * e), get_slots_in_epoch = (\<lambda>_. 4)\<rparr> bot_slots"

lemma retry_success: "f w = (Inr x, w') \<Longrightarrow> retry f n w = (Inr x, w')"
  by (cases n) simp_all

lemmas bot_calls = crank_call_def on_right_def lift_sum_def crank_pure_def get_state_def modify_state_def retry_success
  get_multiple_accounts_batched_def collect_map_def zip_accounts_def

lemma bot_pre_create: "pre_create_update bot_client bot_lib (bot_start, ()) =
    Some (Ok (Inr (), (bot_start\<lparr>ks_epoch_info := \<lparr>ei_epoch = 0, ei_slot_index = 3, ei_slots_in_epoch = 4, ei_absolute_slot = 3, ei_block_height = 3\<rparr>,
      ks_cluster_history := Some bot_cluster, keeper_balance := 1\<rparr>, ())))"
  by (simp add: pre_create_update_def bot_calls bot_client_def bot_lib_def get_vote_account_map_def get_vote_accounts_with_retry_def
      crank_return_def get_cluster_history_def get_balance_with_retry_def initial_keeper_state_def
      KeeperState_default_def set_latest_epoch_def update_identity_to_vote_map_def Let_def bot_config_def)

abbreviation no_accounts :: AllValidatorAccounts where
  "no_accounts \<equiv> \<lparr>all_history_vote_account_map = [], all_stake_account_map = [], all_vote_account_map = []\<rparr>"

lemma bot_post_create: "vote_account_map ks = [] \<Longrightarrow> post_create_update bot_client bot_lib (ks, ()) =
    Some (Ok (Inr (), (ks\<lparr>validator_history_map := [], ks_history_vote_account_map := [], previous_epoch_tip_distribution_map := [],
      current_epoch_tip_distribution_map := [],
      ks_steward_accounts := Some \<lparr>config_account = sample_config, state_account = sample_state, pool_validators = []\<rparr>,
      ks_steward_validator_accounts := Some no_accounts, ks_active_validator_accounts := Some no_accounts\<rparr>, ())))"
  by (simp add: post_create_update_def bot_calls bot_client_def bot_lib_def get_all_validator_history_accounts_def map_filter_simps
      crank_return_def get_tip_distribution_accounts_def get_all_steward_validator_accounts_def get_all_validator_accounts_def Let_def)

lemma bot_counters: "replicate 15 (0::nat) = [0, 0, 0, 0, 0, 0, 0, 0, 0, 0, 0, 0, 0, 0, 0]"
  by code_simp

lemma bot_refresh:
  "\<exists>ks. refresh bot_world bot_config (bot_start, db, ()) = Some (Ok (Inr True, (ks, db, ()))) \<and>
     ei_epoch (ks_epoch_info ks) = 0 \<and> ks_epoch_schedule ks = ks_epoch_schedule bot_start \<and> identity_to_vote_map ks = [] \<and>
     ks_keeper_flags ks = 0 \<and> runs_for_epoch ks = [1, 0, 1, 0, 0, 0, 0, 0, 0, 0, 0, 0, 0, 0, 0] \<and>
     errors_for_epoch ks = replicate 15 0 \<and> txs_for_epoch ks = replicate 15 0"
proof -
  have counters: "runs_for_epoch bot_start = [0, 0, 0, 0, 0, 0, 0, 0, 0, 0, 0, 0, 0, 0, 0]" "vote_account_map bot_start = []"
    "identity_to_vote_map bot_start = []" "ks_keeper_flags bot_start = 0"
    "errors_for_epoch bot_start = replicate 15 0" "txs_for_epoch bot_start = replicate 15 0"
    by (simp_all add: initial_keeper_state_def KeeperState_default_def bot_config_def OPERATIONS_LEN_def bot_counters)
  show ?thesis
    by (simp add: refresh_def crank_try_def skip_db_def bot_world_def bot_pre_create update_state_def
        increment_update_run_for_epoch_def increment_def arr_get_def arr_set_def plus_or_panic_def checked_add_def ok_or_def
        U64_MAX_def counters create_accounts_def crank_return_def bot_config_def [THEN arg_cong [where f = kc_pay_for_new_accounts]]
        bot_post_create)
qed

lemma bot_metadata:
  assumes "ei_epoch (ks_epoch_info ks) = 0" "ks_epoch_schedule ks = ks_epoch_schedule bot_start" "identity_to_vote_map ks = []"
  shows "\<exists>stats db. update_block_metadata bot_client (kw_blocks bot_world) bot_lib bot_config ks (bot_db, ()) =
      Some (Ok (Inr stats, (db, ()))) \<and> cn_table db = [bot_row 0 7 17, bot_row 1 5 17] \<and> errors stats = 0 \<and> results stats = []"
proof -
  have schedule: "get_first_slot_in_epoch (ks_epoch_schedule ks) = (\<lambda>e. 4 * e)" "get_slots_in_epoch (ks_epoch_schedule ks) = (\<lambda>_. 4)"
    using assms(2) by (simp_all add: initial_keeper_state_def KeeperState_default_def bot_config_def)
  show ?thesis
    using assms(1,3)
    by (simp add: update_block_metadata_def bot_calls on_left_def crank_map_err_def crank_try_def logged_def bot_world_def bot_config_def
        lookback_range_def minus_or_panic_def plus_or_panic_def checked_add_def checked_sub_def ok_or_def U64_MAX_def schedule
        update_schedule_def check_random_slot_exists_in_epoch_def sql_select_def statement_def read_table_def bot_db_def bot_row_def
        crank_return_def upsert_vote_identity_mapping_def get_unmapped_identity_accounts_def in_transactions_def chunks_def
        get_slots_needing_blocks_def chunks_of_Cons update_blocks_def get_bulk_block_safe_def get_block_safe.simps note_block_def
        block_fees_def upsert_block_data_def finish_slot_def sql_update_def write_table_def epoch_instructions_def
        get_priority_fee_and_block_metadata_entries_def get_highest_done_slot_def lift_result_def submit_chunk_instructions_def
        parallel_execute_chunk_instructions_def submitted_stats_def stats_of_def Let_def
        crank_bind_def del: crank_bind_simps)
qed

lemma bot_turn:
  "\<exists>ks db. keeper_turn bot_world bot_config 1 (bot_start, bot_db, ()) = Some (Ok (Inr 2, (ks, db, ()))) \<and>
     cn_table db = [bot_row 0 7 17, bot_row 1 5 17] \<and> runs_for_epoch ks ! operation_index BlockMetadataKeeper = 1"
proof -
  obtain ks where refreshed: "refresh bot_world bot_config (bot_start, bot_db, ()) = Some (Ok (Inr True, (ks, bot_db, ())))"
    and ks: "ei_epoch (ks_epoch_info ks) = 0" "ks_epoch_schedule ks = ks_epoch_schedule bot_start" "identity_to_vote_map ks = []"
    and tallies: "ks_keeper_flags ks = 0" "runs_for_epoch ks = [1, 0, 1, 0, 0, 0, 0, 0, 0, 0, 0, 0, 0, 0, 0]"
      "errors_for_epoch ks = replicate 15 0" "txs_for_epoch ks = replicate 15 0"
    using bot_refresh [of bot_db] by blast
  obtain stats db where metadata: "update_block_metadata bot_client (kw_blocks bot_world) bot_lib bot_config ks (bot_db, ()) =
      Some (Ok (Inr stats, (db, ())))" and table: "cn_table db = [bot_row 0 7 17, bot_row 1 5 17]"
    and stats: "errors stats = 0" "results stats = []"
    using bot_metadata [OF ks] by blast
  have flag: "check_run_flag (kc_run_flags bot_config) BlockMetadataKeeper"
    by (simp add: check_run_flag_def bot_config_def)
  have fired: "fire_block_metadata bot_client (kw_blocks bot_world) bot_lib bot_config ks (bot_db, ()) = Some (Ok (Inr (1, 0, 0), (db, ())))"
    by (simp add: fire_block_metadata_def fire_def crank_bind_def crank_pure_def copy_runs_errors_and_txs_for_epoch_def arr_get_def
        tallies always_due_def flag crank_try_def metadata stats plus_or_panic_def checked_add_def ok_or_def U64_MAX_def del: crank_bind_simps)
  have intervals: "kc_validator_history_interval bot_config = 5" "kc_steward_interval bot_config = 5" "kc_metrics_interval bot_config = 5"
    "kc_block_metadata_interval bot_config = 1" "kc_has_priority_fee_oracle_authority_keypair bot_config" "kw_client bot_world = bot_client"
    "kw_lib bot_world = bot_lib" "rpc_sleep bot_client = (\<lambda>n w. w)"
    by (simp_all add: bot_config_def bot_world_def bot_client_def)
  show ?thesis
    by (simp add: keeper_turn_def crank_bind_def crank_pure_def crank_return_def should_update_def keeper_intervals_def intervals
        should_fire_def rem_or_panic_def refreshed fire_all_def on_tick_def crank_when_def run_operation_def get_state_def on_right_def
        fired update_state_def set_runs_errors_and_txs_for_epoch_def tallies arr_set_def table should_emit_def
        should_clear_startup_flag_def plus_or_panic_def checked_add_def ok_or_def U64_MAX_def modify_state_def del: crank_bind_simps)
qed

lemma bot_run:
  obtains ks db where "keeper_run bot_world bot_config (initial_tick bot_config, (bot_start, bot_db, ())) (2, (ks, db, ()))"
    and "cn_table db = [bot_row 0 7 17, bot_row 1 5 17]" and "runs_for_epoch ks ! operation_index BlockMetadataKeeper = 1"
proof -
  have tick: "initial_tick bot_config = 1"
    by (simp add: initial_tick_def keeper_intervals_def bot_config_def)
  show thesis
    using bot_turn keeper_run.turn [OF keeper_run.start, of bot_world bot_config 1 "(bot_start, bot_db, ())" 2] tick that
    by auto
qed

section \<open>Runs from the start\<close>

lemma initial_inv: "D (cn_table db) \<Longrightarrow> keeper_inv D (initial_keeper_state config es sh, db, w)"
  by (simp add: keeper_inv_def tallies_ok_default)

text \<open>
  C20. The slot database of the bot decides every slot once. Take a run of the bot, any number
  of turns from its start, with nodes that answer anything and a database that may fail at any
  statement. The rows stay in the order of their slots, without duplicates, in known states,
  and only a finished slot has fees. Every row of the database at the start is still there at
  the end with its slot, epoch and identity; a vote key that it had is unchanged, and if the
  slot was decided, so are its state, its fees and its error.
\<close>

theorem decided_slots_are_final:
  assumes "table_ok (cn_table db)"
    and "keeper_run kw config (initial_tick config, (initial_keeper_state config es sh, db, w)) (tick, (ks, db', w'))"
  shows "table_ok (cn_table db') \<and> (\<forall>r\<in>set (cn_table db). \<exists>r'\<in>set (cn_table db'). row_keeps r r')"
  using ledger.keeper_run_inv [OF assms(2), of "cn_table db"] initial_inv [of "table_keeps (cn_table db)" db]
    table_keeps_refl [OF assms(1)]
  by (simp add: keeper_inv_def table_keeps_def list_all_iff list_ex_iff)

theorem decided_slots_are_final_witness:
  "\<exists>ks db. keeper_run bot_world bot_config (initial_tick bot_config, (bot_start, bot_db, ())) (2, (ks, db, ())) \<and>
     cn_table db = [bot_row 0 7 17, bot_row 1 5 17] \<and> table_ok (cn_table db) \<and>
     (\<exists>r\<in>set (cn_table db). row_keeps (bot_row 0 7 17) r)"
proof -
  obtain ks db where run: "keeper_run bot_world bot_config (initial_tick bot_config, (bot_start, bot_db, ())) (2, (ks, db, ()))"
    and table: "cn_table db = [bot_row 0 7 17, bot_row 1 5 17]"
    by (rule bot_run)
  have "table_ok (cn_table bot_db)"
    by (simp add: table_ok_def bot_db_def bot_row_def row_ok_def)
  moreover have "bot_row 0 7 17 \<in> set (cn_table bot_db)"
    by (simp add: bot_db_def)
  ultimately show ?thesis
    using decided_slots_are_final [OF _ run] run table by blast
qed

text \<open>
  C24. Over any run of the bot from its start the tallies of the epoch stay within the schedule
  of the operations: in an epoch the cluster history, the gossip data and the stakes are
  uploaded successfully at most three times, the BAM connections at most once, and the arrays
  of the tallies keep their lengths, so that no operation panics on its index.
\<close>

theorem keeper_runs_within_schedule:
  assumes "keeper_run kw config (initial_tick config, (initial_keeper_state config es sh, db, w)) (tick, (ks, db', w'))"
  shows "runs_for_epoch ks ! operation_index ClusterHistoryCopy \<le> 3 \<and>
    runs_for_epoch ks ! operation_index GossipUpload \<le> 3 \<and>
    runs_for_epoch ks ! operation_index StakeUpload \<le> 3 \<and>
    runs_for_epoch ks ! operation_index CopyIsBamConnected \<le> 1 \<and>
    length (runs_for_epoch ks) = OPERATIONS_LEN \<and> length (errors_for_epoch ks) = OPERATIONS_LEN \<and>
    length (txs_for_epoch ks) = OPERATIONS_LEN"
proof -
  have ok: "tallies_ok ks"
    using unrestricted.keeper_run_inv [OF assms] initial_inv [of "\<lambda>_. True" db] by (simp add: keeper_inv_def)
  then have "within_limit op (runs_for_epoch ks ! operation_index op)" for op
    by (simp add: tallies_ok_def)
  from this [of ClusterHistoryCopy] this [of GossipUpload] this [of StakeUpload] this [of CopyIsBamConnected] ok
  show ?thesis
    by (simp add: tallies_ok_def within_limit_def)
qed

theorem keeper_runs_within_schedule_witness:
  "\<exists>ks db. keeper_run bot_world bot_config (initial_tick bot_config, (bot_start, bot_db, ())) (2, (ks, db, ())) \<and>
     runs_for_epoch ks ! operation_index BlockMetadataKeeper = 1 \<and>
     runs_for_epoch ks ! operation_index StakeUpload \<le> 3 \<and> length (runs_for_epoch ks) = OPERATIONS_LEN"
proof -
  obtain ks db where run: "keeper_run bot_world bot_config (initial_tick bot_config, (bot_start, bot_db, ())) (2, (ks, db, ()))"
    and runs: "runs_for_epoch ks ! operation_index BlockMetadataKeeper = 1"
    by (rule bot_run)
  from keeper_runs_within_schedule [OF run] run runs show ?thesis
    by blast
qed

end
