(* ===== verification/Block_Properties.thy ===== *)
theory Block_Properties
  imports Slot_Lifecycle
begin

text \<open>
  What the slot database adds up for a validator, compared with a definition that counts the
  rows directly, and when the bot stops sending it to the history program.
\<close>

section \<open>A reference for the entries\<close>

definition in_state :: "DBSlotInfoState \<Rightarrow> slot_row list \<Rightarrow> slot_row list" where
  "in_state st = filter (\<lambda>r. row_state r = state_u8 st)"

definition highest_done :: "slot_row list \<Rightarrow> nat" where
  "highest_done rows = fold max (map absolute_slot (in_state Done rows)) 0"

definition ledger_entry :: "Pubkey \<Rightarrow> nat \<Rightarrow> nat \<Rightarrow> slot_row list \<Rightarrow> PriorityFeeAndBlockMetadataEntry" where
  "ledger_entry vote ep global_done rows =
     \<lparr>en_vote_account = vote, en_epoch = ep,
      en_total_priority_fees = sum_list (map priority_fees (in_state Done rows)),
      en_total_leader_slots = length rows,
      en_blocks_produced = length (in_state Done rows),
      en_highest_global_done_slot = global_done,
      en_highest_done_slot = highest_done rows,
      en_blocks_left = length (in_state Created rows),
      en_blocks_error = length (in_state Error rows),
      en_blocks_missed = length (in_state BlockDNE rows)\<rparr>"

text \<open>The rows of a validator: those whose vote key parses to a key that prints as \<open>key\<close>.\<close>

definition has_key :: "(string \<Rightarrow> Pubkey option) \<Rightarrow> (Pubkey \<Rightarrow> string) \<Rightarrow> string \<Rightarrow> slot_row \<Rightarrow> bool" where
  "has_key parse shw key r \<longleftrightarrow> map_option shw (parse (vote_key r)) = Some key"

definition entry_of ::
  "(string \<Rightarrow> Pubkey option) \<Rightarrow> (Pubkey \<Rightarrow> string) \<Rightarrow> nat \<Rightarrow> nat \<Rightarrow> slot_row list \<Rightarrow> string \<Rightarrow> PriorityFeeAndBlockMetadataEntry option" where
  "entry_of parse shw ep global_done rows key =
     (case filter (has_key parse shw key) rows of
        [] \<Rightarrow> None
      | r # rs \<Rightarrow> Some (ledger_entry (the (parse (vote_key r))) ep global_done (r # rs)))"

lemma from_u8_state: "from_u8 (state_u8 st) = Inr st"
  by (cases st) (simp_all add: from_u8_def)

lemma state_u8_inject [simp]: "state_u8 a = state_u8 b \<longleftrightarrow> a = b"
  by (cases a; cases b) simp_all

lemma row_state_cases: "row_ok r \<Longrightarrow> \<exists>st. row_state r = state_u8 st"
  unfolding row_ok_def by (metis insertE emptyE state_u8.simps)

text \<open>The four kinds of slots make up all of them.\<close>

lemma states_partition:
  assumes "list_all row_ok rows"
  shows "length rows = length (in_state Done rows) + length (in_state BlockDNE rows) +
    length (in_state Created rows) + length (in_state Error rows)"
  using assms by (induction rows) (auto simp: in_state_def row_ok_def)

lemma count_row:
  assumes st: "row_state r = state_u8 st" and fits: "length rows < U32_MAX"
    "sum_list (map priority_fees (in_state Done (rows @ [r]))) \<le> U64_MAX"
  shows "count_slot_info global_done
      \<lparr>si_identity_key = identity_key r, si_vote_key = k, si_epoch = row_epoch r, si_absolute_slot = absolute_slot r,
       si_relative_slot = relative_slot r, si_priority_fees = priority_fees r, si_state = st, si_error_string = e\<rparr>
      ((ledger_entry vote ep g rows)\<lparr>en_highest_global_done_slot := g'\<rparr>) = Ok (ledger_entry vote ep global_done (rows @ [r]))"
proof -
  have small: "length (in_state s rows) < U32_MAX" for s
    using fits(1) length_filter_le [of _ rows] unfolding in_state_def by (meson le_less_trans)
  show ?thesis
    using fits(2) small [of Created] small [of Done] small [of BlockDNE] small [of Error] fits(1) st
    by (cases st) (simp_all add: count_slot_info_def count_state_def ledger_entry_def in_state_def highest_done_def
        plus_or_panic_def checked_add_def ok_or_def)
qed

lemma entry_of_snoc:
  "entry_of parse shw ep g (rows @ [r]) key =
     (if has_key parse shw key r
      then Some (ledger_entry (case filter (has_key parse shw key) rows of [] \<Rightarrow> the (parse (vote_key r)) | r' # _ \<Rightarrow> the (parse (vote_key r')))
        ep g (filter (has_key parse shw key) rows @ [r]))
      else entry_of parse shw ep g rows key)"
  by (simp add: entry_of_def split: list.splits)

lemma aggregate_row_ok:
  assumes m: "\<And>key. map_of m key = entry_of parse shw ep g rows key"
    and row: "row_ok r" and fits: "length rows < U32_MAX" "sum_list (map priority_fees (rows @ [r])) \<le> U64_MAX"
  shows "\<exists>m'. aggregate_row parse shw ep g r m = Ok (Inr m') \<and> (\<forall>key. map_of m' key = entry_of parse shw ep g (rows @ [r]) key)"
proof -
  obtain st where st: "row_state r = state_u8 st"
    using row_state_cases [OF row] ..
  show ?thesis
  proof (cases "parse (vote_key r)")
    case None
    then have "\<not> has_key parse shw key r" for key
      by (simp add: has_key_def)
    then show ?thesis
      using m None by (simp add: aggregate_row_def from_db_row_def st from_u8_state entry_of_snoc)
  next
    case (Some vote)
    let ?mine = "filter (has_key parse shw (shw vote)) rows"
    let ?first = "case ?mine of [] \<Rightarrow> vote | r' # _ \<Rightarrow> the (parse (vote_key r'))"
    let ?en = "case map_of m (shw vote) of None \<Rightarrow> PriorityFeeAndBlockMetadataEntry_new vote ep | Some en \<Rightarrow> en"
    have key: "has_key parse shw key r \<longleftrightarrow> key = shw vote" for key
      using Some by (auto simp: has_key_def)
    have "\<exists>g'. ?en = (ledger_entry ?first ep g ?mine)\<lparr>en_highest_global_done_slot := g'\<rparr>"
    proof (cases ?mine)
      case Nil
      then show ?thesis
        by (auto simp: m entry_of_def ledger_entry_def in_state_def highest_done_def PriorityFeeAndBlockMetadataEntry_new_def)
    next
      case (Cons a as)
      then have "?en = (ledger_entry ?first ep g ?mine)\<lparr>en_highest_global_done_slot := g\<rparr>"
        by (simp add: m entry_of_def ledger_entry_def)
      then show ?thesis ..
    qed
    then obtain g' where en: "?en = (ledger_entry ?first ep g ?mine)\<lparr>en_highest_global_done_slot := g'\<rparr>" ..
    have "length ?mine < U32_MAX"
      using fits(1) length_filter_le [of _ rows] by (meson le_less_trans)
    moreover have "sum_list (map priority_fees (in_state Done (?mine @ [r]))) \<le> U64_MAX"
    proof -
      have "sum_list (map priority_fees (filter P (filter Q rows))) \<le> sum_list (map priority_fees rows)" for P Q
        by (induction rows) auto
      from this [of "\<lambda>r. row_state r = state_u8 Done" "has_key parse shw (shw vote)"] show ?thesis
        using fits(2) by (simp add: in_state_def)
    qed
    ultimately have "aggregate_row parse shw ep g r m = Ok (Inr (AList.update (shw vote) (ledger_entry ?first ep g (?mine @ [r])) m))"
      using Some by (simp add: aggregate_row_def from_db_row_def st from_u8_state en count_row [OF st] Let_def)
    moreover have "map_of (AList.update (shw vote) (ledger_entry ?first ep g (?mine @ [r])) m) key = entry_of parse shw ep g (rows @ [r]) key" for key
      using Some by (simp add: update_conv' key entry_of_snoc m split: list.splits)
    ultimately show ?thesis
      by simp
  qed
qed

lemma aggregate_rows_ok:
  assumes "\<And>key. map_of m key = entry_of parse shw ep g seen key" and "list_all row_ok rows"
    and "length (seen @ rows) \<le> U32_MAX" "sum_list (map priority_fees (seen @ rows)) \<le> U64_MAX"
  shows "\<exists>m'. aggregate_rows parse shw ep g rows m = Ok (Inr m') \<and> (\<forall>key. map_of m' key = entry_of parse shw ep g (seen @ rows) key)"
  using assms
proof (induction rows arbitrary: seen m)
  case (Cons r rows)
  from Cons.prems obtain m1 where m1: "aggregate_row parse shw ep g r m = Ok (Inr m1)"
    and "\<forall>key. map_of m1 key = entry_of parse shw ep g (seen @ [r]) key"
    using aggregate_row_ok [of m parse shw ep g seen r] by auto
  with Cons.prems Cons.IH [of m1 "seen @ [r]"] show ?case
    by (simp add: m1)
qed simp

section \<open>The entries add up\<close>

lemma table_ok_sorted: "table_ok t \<Longrightarrow> sort_key absolute_slot (filter P t) = filter P t"
  by (rule sort_key_id_if_sorted) (auto simp: table_ok_def strict_sorted_iff intro: sorted_filter)

lemma fold_max_eq_Max: "fold max xs (n :: nat) = Max (insert n (set xs))"
  using Max.set_eq_fold [of n xs] by simp

lemma highest_done_Max:
  "in_state Done t = [] \<Longrightarrow> highest_done t = 0"
  "in_state Done t \<noteq> [] \<Longrightarrow> highest_done t = Max (set (map absolute_slot (in_state Done t)))"
  unfolding highest_done_def fold_max_eq_Max by (simp_all add: Max_insert)

text \<open>
  C21. The entries that the slot database adds up for an epoch are exact. When no statement
  fails and the sums fit their types, the query returns, without a panic and without changing
  the table, and for every key the entry is the one that counts the rows of the epoch directly:
  all leader slots, the produced, missed, failed and outstanding blocks, which make up all of
  them, the fees of the produced blocks, the highest finished slot of the validator and the
  highest of all. A key without rows has no entry.
\<close>

theorem entries_add_up:
  assumes ok: "table_ok (cn_table c)" and fits: "length (cn_table c) \<le> U32_MAX"
    "sum_list (map priority_fees (cn_table c)) \<le> U64_MAX"
    and works: "\<not> cn_fails c (cn_statements c)" "\<not> cn_fails c (Suc (cn_statements c))"
  shows "\<exists>m c'. get_priority_fee_and_block_metadata_entries parse shw ep c = Some (Ok (Inr m, c')) \<and>
    cn_table c' = cn_table c \<and>
    (\<forall>key. map_of m key = entry_of parse shw ep (highest_done (cn_table c))
       (filter (\<lambda>r. row_epoch r = ep \<and> vote_key r \<noteq> []) (cn_table c)) key) \<and>
    (\<forall>key en. map_of m key = Some en \<longrightarrow>
       en_total_leader_slots en = en_blocks_produced en + en_blocks_missed en + en_blocks_left en + en_blocks_error en \<and>
       en_highest_done_slot en \<le> en_highest_global_done_slot en)"
proof -
  let ?t = "cn_table c" and ?rows = "filter (\<lambda>r. row_epoch r = ep \<and> vote_key r \<noteq> []) (cn_table c)"
  let ?g = "highest_done ?t"
  have rows: "list_all row_ok ?rows" "length ?rows \<le> U32_MAX"
    using ok le_trans [OF length_filter_le fits(1)] by (auto simp: table_ok_def list_all_iff)
  have "sum_list (map priority_fees ?rows) \<le> sum_list (map priority_fees ?t)"
    by (induction ?t) (auto simp: sum_list_filter_le_nat)
  then obtain m where m: "aggregate_rows parse shw ep ?g ?rows [] = Ok (Inr m)" and entry: "\<And>key. map_of m key = entry_of parse shw ep ?g ?rows key"
    using aggregate_rows_ok [of "[]" parse shw ep ?g "[]" ?rows] rows fits(2) by (auto simp: entry_of_def)
  have run: "get_priority_fee_and_block_metadata_entries parse shw ep c = Some (Ok (Inr m, c\<lparr>cn_statements := Suc (Suc (cn_statements c))\<rparr>))"
  proof (cases "in_state Done ?t = []")
    case True
    then show ?thesis
      using works m highest_done_Max(1) [OF True]
      by (simp add: get_priority_fee_and_block_metadata_entries_def sql_select_def statement_def read_table_def crank_return_def
          get_highest_done_slot_def lift_result_def table_ok_sorted [OF ok] crank_bind_def Let_def in_state_def del: crank_bind_simps)
  next
    case False
    then show ?thesis
      using works m highest_done_Max(2) [OF False]
      by (simp add: get_priority_fee_and_block_metadata_entries_def sql_select_def statement_def read_table_def crank_return_def
          get_highest_done_slot_def lift_result_def table_ok_sorted [OF ok] crank_bind_def Let_def in_state_def del: crank_bind_simps)
  qed
  have "en_total_leader_slots en = en_blocks_produced en + en_blocks_missed en + en_blocks_left en + en_blocks_error en \<and>
       en_highest_done_slot en \<le> en_highest_global_done_slot en" if found: "map_of m key = Some en" for key en
  proof -
    let ?mine = "filter (has_key parse shw key) ?rows"
    obtain vote where en: "en = ledger_entry vote ep ?g ?mine"
      using found unfolding entry entry_of_def by (auto split: list.splits)
    have "list_all row_ok ?mine"
      using rows(1) by (simp add: list_all_iff)
    moreover have "highest_done ?mine \<le> ?g"
      unfolding highest_done_def fold_max_eq_Max by (rule Max_mono) (auto simp: in_state_def)
    ultimately show ?thesis
      using states_partition [of ?mine] by (simp add: en ledger_entry_def)
  qed
  with run entry show ?thesis
    by auto
qed

text \<open>One validator with four slots of epoch 0, a slot without a vote key and a slot of the next epoch.\<close>

definition ledger_sample :: connection where
  "ledger_sample =
     \<lparr>cn_table = map (\<lambda>(n, ep, k, fees, st). \<lparr>absolute_slot = n, relative_slot = n, row_epoch = ep, vote_key = k,
          identity_key = ''id'', priority_fees = fees, row_state = st, error_string = []\<rparr>)
        [(0, 0, ''v'', 7, 17), (1, 0, ''v'', 5, 17), (2, 0, ''v'', 0, 18), (3, 0, ''v'', 0, 16), (4, 0, [], 0, 16), (5, 1, ''v'', 9, 17)],
      cn_statements = 0, cn_fails = (\<lambda>_. False), cn_gen_range = (\<lambda>n a b. a)\<rparr>"

theorem entries_add_up_witness:
  "\<exists>m c'. get_priority_fee_and_block_metadata_entries (\<lambda>_. Some [1]) (\<lambda>_. ''v'') 0 ledger_sample = Some (Ok (Inr m, c')) \<and>
     map_of m ''v'' = Some \<lparr>en_vote_account = [1], en_epoch = 0, en_total_priority_fees = 12, en_total_leader_slots = 4,
       en_blocks_produced = 2, en_highest_global_done_slot = 5, en_highest_done_slot = 1, en_blocks_left = 1,
       en_blocks_error = 0, en_blocks_missed = 1\<rparr>"
proof -
  have facts: "table_ok (cn_table ledger_sample)" "length (cn_table ledger_sample) \<le> U32_MAX"
    "sum_list (map priority_fees (cn_table ledger_sample)) \<le> U64_MAX" "\<not> cn_fails ledger_sample n" for n
    by (simp_all add: ledger_sample_def table_ok_def row_ok_def U32_MAX_def U64_MAX_def)
  have "entry_of (\<lambda>_. Some [1]) (\<lambda>_. ''v'') 0 (highest_done (cn_table ledger_sample))
      (filter (\<lambda>r. row_epoch r = 0 \<and> vote_key r \<noteq> []) (cn_table ledger_sample)) ''v'' =
    Some \<lparr>en_vote_account = [1], en_epoch = 0, en_total_priority_fees = 12, en_total_leader_slots = 4,
       en_blocks_produced = 2, en_highest_global_done_slot = 5, en_highest_done_slot = 1, en_blocks_left = 1,
       en_blocks_error = 0, en_blocks_missed = 1\<rparr>"
    by (simp add: ledger_sample_def entry_of_def has_key_def ledger_entry_def highest_done_def in_state_def)
  with entries_add_up [OF facts(1,2,3) facts(4) facts(4), of "\<lambda>_. Some [1]" "\<lambda>_. ''v''" 0] show ?thesis
    by auto
qed

end
