(* ===== verification/Upload_Properties.thy ===== *)
theory Upload_Properties
  imports Gossip_Upload Block_Metadata History_Properties "HOL-Library.Multiset"
begin

text \<open>
  The data that the bot uploads, and what the history program makes of it: the ranking by
  stake and the superminority, the bytes of a gossip transaction, and the block metadata of
  an epoch.
\<close>

section \<open>The superminority\<close>

text \<open>The first \<open>k\<close> of a descending list weigh at least as much as any \<open>k\<close> of its elements.\<close>

lemma sorted_list_of_set_ge:
  assumes "finite A" and "j < card A"
  shows "j \<le> sorted_list_of_set A ! j"
proof -
  have "sorted_wrt (<) (sorted_list_of_set A)"
    by simp
  then have "j < length (sorted_list_of_set A) \<Longrightarrow> j \<le> sorted_list_of_set A ! j"
    by (rule sorted_wrt_less_idx)
  then show ?thesis
    using assms by simp
qed

lemma prefix_weighs_most:
  fixes xs :: "nat list"
  assumes desc: "\<And>i j. i \<le> j \<Longrightarrow> j < length xs \<Longrightarrow> xs ! j \<le> xs ! i" and A: "A \<subseteq> {..<length xs}"
  shows "(\<Sum>i\<in>A. xs ! i) \<le> sum_list (take (card A) xs)"
proof -
  let ?l = "sorted_list_of_set A"
  have fin: "finite A"
    using A finite_subset by blast
  have card: "card A \<le> length xs"
    using card_mono [OF _ A] by simp
  have "(\<Sum>i\<in>A. xs ! i) = sum_list (map ((!) xs) ?l)"
    using fin by (simp add: sum_list_distinct_conv_sum_set)
  also have "\<dots> = (\<Sum>j<card A. xs ! (?l ! j))"
    using fin by (simp add: sum_list_sum_nth atLeast0LessThan)
  also have "\<dots> \<le> (\<Sum>j<card A. xs ! j)"
  proof (rule sum_mono)
    fix j assume "j \<in> {..<card A}"
    then have j: "j < card A"
      by simp
    then have "?l ! j \<in> set ?l"
      by (intro nth_mem) simp
    then have "?l ! j \<in> A"
      using fin by simp
    with sorted_list_of_set_ge [OF fin j]
    show "xs ! (?l ! j) \<le> xs ! j"
      using desc [of j "?l ! j"] A by auto
  qed
  also have "\<dots> = sum_list (take (card A) xs)"
    using card by (simp add: sum_list_sum_nth atLeast0LessThan)
  finally show ?thesis .
qed

text \<open>The loop stops at the validator with which the sum passes the third.\<close>

lemma superminority_from_stops:
  assumes "cumulative + sum_list (map snd xs) \<le> U64_MAX" and "third < cumulative + sum_list (map snd xs)" and "cumulative \<le> third"
    and "i + length xs \<le> Suc U32_MAX"
  shows "\<exists>n<length xs. superminority_from third i cumulative xs = Ok (i + n) \<and>
    cumulative + sum_list (map snd (take n xs)) \<le> third \<and> third < cumulative + sum_list (map snd (take (Suc n) xs))"
  using assms
proof (induction xs arbitrary: i cumulative)
  case (Cons x xs)
  obtain k stake where x: "x = (k, stake)"
    by fastforce
  have plus: "plus_or_panic U64_MAX cumulative stake = Ok (cumulative + stake)"
    using Cons.prems(1) by (simp add: x plus_or_panic_def checked_add_def ok_or_def)
  show ?case
  proof (cases "third < cumulative + stake")
    case True
    then show ?thesis
      using Cons.prems by (intro exI [of _ 0]) (simp add: x plus cast_def)
  next
    case False
    have "cumulative + stake + sum_list (map snd xs) \<le> U64_MAX" "third < cumulative + stake + sum_list (map snd xs)"
      "cumulative + stake \<le> third" "Suc i + length xs \<le> Suc U32_MAX"
      using Cons.prems False by (simp_all add: x)
    from Cons.IH [OF this] obtain n where "n < length xs" "superminority_from third (Suc i) (cumulative + stake) xs = Ok (Suc i + n)"
      "cumulative + stake + sum_list (map snd (take n xs)) \<le> third" "third < cumulative + stake + sum_list (map snd (take (Suc n) xs))"
      by blast
    then show ?thesis
      using False by (intro exI [of _ "Suc n"]) (simp add: x plus add.assoc)
  qed
qed simp

lemma sort_key_map: "sort_key f (map g xs) = map g (sort_key (\<lambda>x. f (g x)) xs)"
proof -
  have "insort_key f (g x) (map g ys) = map g (insort_key (\<lambda>x. f (g x)) x ys)" for x ys
    by (induction ys) simp_all
  then show ?thesis
    by (induction xs) simp_all
qed

lemma map_of_collect_map: "distinct (map fst xs) \<Longrightarrow> map_of (collect_map xs) = map_of xs"
proof -
  have "map_of (fold (\<lambda>(k, v). AList.update k v) xs m) = map_of m ++ map_of xs" if "distinct (map fst xs)" for m
    using that by (induction xs arbitrary: m) (force simp: update_conv' fun_eq_iff map_add_def split: option.splits)+
  then show "distinct (map fst xs) \<Longrightarrow> map_of (collect_map xs) = map_of xs"
    by (simp add: collect_map_def)
qed

lemma for_each_sum: "s + sum_list (map snd xs) \<le> U64_MAX \<Longrightarrow>
    for_each (\<lambda>(_, stake) s. plus_or_panic U64_MAX s stake) xs s = Ok (s + sum_list (map snd xs))"
  by (induction xs arbitrary: s) (auto simp: plus_or_panic_def checked_add_def ok_or_def add.assoc)

definition stake_ranking :: "RpcVoteAccountInfo list \<Rightarrow> RpcVoteAccountInfo list" where
  "stake_ranking infos = sort_key (\<lambda>v. - int (vi_activated_stake v)) infos"

lemma stake_ranking_facts:
  "mset (stake_ranking infos) = mset infos" "length (stake_ranking infos) = length infos"
  "i \<le> j \<Longrightarrow> j < length infos \<Longrightarrow> vi_activated_stake (stake_ranking infos ! j) \<le> vi_activated_stake (stake_ranking infos ! i)"
proof -
  show "i \<le> j \<Longrightarrow> j < length infos \<Longrightarrow> vi_activated_stake (stake_ranking infos ! j) \<le> vi_activated_stake (stake_ranking infos ! i)"
    using sorted_nth_mono [OF sorted_sort_key [of "\<lambda>v. - int (vi_activated_stake v)" infos], of i j]
    by (simp add: stake_ranking_def)
qed (simp_all add: stake_ranking_def)

text \<open>
  C22. The ranking by stake and the superminority that the bot uploads are right. For validators
  with different keys whose stakes add up to something that fits 64 bits, the computation
  returns; the validators in the order of their ranks descend in stake; those with a rank up to
  the threshold hold more than a third of all stake, without the last of them they do not, and
  no smaller set of validators holds more than a third.
\<close>

theorem superminority_is_the_smallest:
  assumes keys: "distinct (map vi_vote_pubkey infos)" and fits: "sum_list (map vi_activated_stake infos) \<le> U64_MAX"
    and some: "0 < sum_list (map vi_activated_stake infos)" and count: "length infos \<le> U32_MAX"
  shows "\<exists>rank_map threshold. get_stake_rank_map_and_superminority_count infos = Ok (rank_map, threshold) \<and>
    threshold < length infos \<and> mset (stake_ranking infos) = mset infos \<and>
    (\<forall>i<length infos. map_of rank_map (vi_vote_pubkey (stake_ranking infos ! i)) = Some i) \<and>
    (\<forall>i j. i \<le> j \<longrightarrow> j < length infos \<longrightarrow> vi_activated_stake (stake_ranking infos ! j) \<le> vi_activated_stake (stake_ranking infos ! i)) \<and>
    3 * sum_list (map vi_activated_stake (take threshold (stake_ranking infos))) \<le> sum_list (map vi_activated_stake infos) \<and>
    sum_list (map vi_activated_stake infos) < 3 * sum_list (map vi_activated_stake (take (Suc threshold) (stake_ranking infos))) \<and>
    (\<forall>A\<subseteq>{..<length infos}. sum_list (map vi_activated_stake infos) < 3 * (\<Sum>i\<in>A. vi_activated_stake (stake_ranking infos ! i)) \<longrightarrow>
       threshold < card A)"
proof -
  let ?r = "stake_ranking infos" and ?total = "sum_list (map vi_activated_stake infos)"
  let ?p = "\<lambda>v. (vi_vote_pubkey v, vi_activated_stake v)"
  have total: "sum_list (map vi_activated_stake ?r) = ?total"
    using stake_ranking_facts(1) [of infos] by (metis mset_map sum_mset_sum_list)
  have sorted: "sort_key (\<lambda>(_, stake). - int stake) (map ?p infos) = map ?p ?r"
    by (simp add: sort_key_map stake_ranking_def)
  have snds: "map snd (map ?p xs) = map vi_activated_stake xs" for xs
    by simp
  obtain n where n: "n < length infos" "superminority_from (?total div 3) 0 0 (map ?p ?r) = Ok n"
    and below: "sum_list (map vi_activated_stake (take n ?r)) \<le> ?total div 3"
    and above: "?total div 3 < sum_list (map vi_activated_stake (take (Suc n) ?r))"
    using superminority_from_stops [of 0 "map ?p ?r" "?total div 3" 0] fits some count total
    by (auto simp: stake_ranking_facts(2) take_map comp_def)
  have run: "get_stake_rank_map_and_superminority_count infos =
      Ok (collect_map (map (\<lambda>(i, vote, _). (vote, cast U32_MAX i)) (enumerate 0 (map ?p ?r))), n)"
    using n(2) fits for_each_sum [of 0 "map ?p infos"]
    by (simp add: get_stake_rank_map_and_superminority_count_def Let_def sorted comp_def)
  have "distinct (map vi_vote_pubkey ?r)"
    using keys stake_ranking_facts(1) [of infos] by (metis mset_eq_imp_distinct_iff mset_map)
  then have pairs: "distinct (map fst (map (\<lambda>(i, vote, _). (vote, cast U32_MAX i)) (enumerate 0 (map ?p ?r))))"
  proof -
    have "map fst (map (\<lambda>(i, vote, _). (vote, cast U32_MAX i)) (enumerate 0 (map ?p ?r))) = map vi_vote_pubkey ?r"
      by (rule nth_equalityI) (simp_all add: nth_enumerate_eq)
    then show "distinct (map vi_vote_pubkey ?r) \<Longrightarrow> ?thesis"
      by simp
  qed
  have ranks: "map_of (collect_map (map (\<lambda>(i, vote, _). (vote, cast U32_MAX i)) (enumerate 0 (map ?p ?r)))) (vi_vote_pubkey (?r ! i)) = Some i"
    if i: "i < length infos" for i
  proof -
    have "(i, ?p (?r ! i)) \<in> set (enumerate 0 (map ?p ?r))"
      using i by (simp add: in_set_enumerate_eq stake_ranking_facts(2))
    then have "(vi_vote_pubkey (?r ! i), cast U32_MAX i) \<in> set (map (\<lambda>(i, vote, _). (vote, cast U32_MAX i)) (enumerate 0 (map ?p ?r)))"
      by force
    moreover have "cast U32_MAX i = i"
      using i count by (simp add: cast_def)
    ultimately show ?thesis
      using pairs by (simp only: map_of_collect_map [OF pairs] map_of_is_SomeI)
  qed
  have smallest: "n < card A" if A: "A \<subseteq> {..<length infos}" and more: "?total < 3 * (\<Sum>i\<in>A. vi_activated_stake (?r ! i))" for A
  proof (rule ccontr)
    assume "\<not> n < card A"
    have "(\<Sum>i\<in>A. map vi_activated_stake ?r ! i) \<le> sum_list (take (card A) (map vi_activated_stake ?r))"
      using A stake_ranking_facts(2,3) by (intro prefix_weighs_most) auto
    moreover have "(\<Sum>i\<in>A. map vi_activated_stake ?r ! i) = (\<Sum>i\<in>A. vi_activated_stake (?r ! i))"
      using A by (intro sum.cong) (auto simp: stake_ranking_facts(2))
    moreover have "sum_list (take (card A) (map vi_activated_stake ?r)) \<le> sum_list (take n (map vi_activated_stake ?r))"
      using \<open>\<not> n < card A\<close> by (metis append_take_drop_id le_add1 min.absorb1 not_less sum_list_append take_take)
    ultimately show False
      using below more by (simp add: take_map)
  qed
  have "3 * sum_list (map vi_activated_stake (take n ?r)) \<le> ?total" "?total < 3 * sum_list (map vi_activated_stake (take (Suc n) ?r))"
    using below above by linarith+
  with run n(1) ranks smallest stake_ranking_facts(1,3) [where infos = infos] show ?thesis
    by blast
qed

definition stake_sample :: "RpcVoteAccountInfo list" where
  "stake_sample = map (\<lambda>(k, stake). \<lparr>vi_vote_pubkey = k, vi_node_pubkey = k, vi_activated_stake = stake, vi_epoch_credits = []\<rparr>)
     [(''a'', 2), (''b'', 3), (''c'', 4)]"

theorem superminority_is_the_smallest_witness:
  "\<exists>rank_map threshold. get_stake_rank_map_and_superminority_count stake_sample = Ok (rank_map, threshold) \<and>
     9 < 3 * sum_list (map vi_activated_stake (take (Suc threshold) (stake_ranking stake_sample)))"
proof -
  have "distinct (map vi_vote_pubkey stake_sample)" "sum_list (map vi_activated_stake stake_sample) = 9" "length stake_sample = 3"
    by (simp_all add: stake_sample_def)
  then show ?thesis
    using superminority_is_the_smallest [of stake_sample] by (auto simp: int_limits)
qed

section \<open>Gossip\<close>

text \<open>The program reads back the seven offsets that the bot writes.\<close>

lemma take_two_bytes: "take 2 (to_le_bytes 2 x @ bs) = to_le_bytes 2 x" "drop 2 (to_le_bytes 2 x @ bs) = bs"
  by simp_all










section \<open>Block metadata\<close>

text \<open>
  The bot and the history program agree on when the block metadata of an epoch is final.
  When the program has accepted the entry that the bot sends for an epoch, the history has a
  record of the epoch with the fees, the leader slots and the blocks of the entry; and from then
  on the bot sends an entry for that epoch again exactly if the highest finished slot that came
  with it lies before the next epoch. How many blocks of the validator are still outstanding
  plays no part in this.
\<close>

theorem recorded_metadata_is_sent_no_more:
  assumes "handle_update_priority_fee_history vote_program config clock vote_acc signer (en_epoch en) (en_total_priority_fees en)
      (en_total_leader_slots en) (en_blocks_produced en) (en_highest_global_done_slot en) vh = Ok vh'"
    and inv: "vh_inv vh" and held: "map_of histories (en_vote_account en) = Some vh'"
  shows "(\<exists>e. find_entry (en_epoch en) vh' = Some e \<and> vhe_total_priority_fees e = en_total_priority_fees en \<and>
      vhe_total_leader_slots e = en_total_leader_slots en \<and> vhe_blocks_produced e = en_blocks_produced en) \<and>
    (needs_block_update histories first_slot_in_next_epoch (en_epoch en) (en_vote_account en) \<longleftrightarrow>
      en_highest_global_done_slot en < first_slot_in_next_epoch \<or> en_highest_global_done_slot en = U64_MAX)"
proof -
  let ?f = "\<lambda>e. e\<lparr>vhe_total_priority_fees := en_total_priority_fees en, vhe_total_leader_slots := en_total_leader_slots en,
      vhe_blocks_produced := en_blocks_produced en, block_data_updated_at_slot := en_highest_global_done_slot en\<rparr>"
  have ep: "en_epoch en < U16_MAX" and set: "vh_set True (en_epoch en) ?f vh = Ok vh'"
    using assms(1) by (auto simp: handle_update_priority_fee_history_def and_then_eq_Inr cast_epoch_def
        set_total_priority_fees_and_block_metadata_def split: if_splits)
  have inv': "vh_inv vh'"
    using block_setter.setter_keeps_inv [OF inv ep set] .
  have new: "en_epoch en \<in> vhe_epoch ` set (vh_entries vh) \<or> (\<forall>e\<in>set (vh_entries vh). vhe_epoch e < en_epoch en)"
    using block_setter.setter_cases [OF inv ep, where p = "en_total_priority_fees en" and l = "en_total_leader_slots en"
        and b = "en_blocks_produced en" and s = "en_highest_global_done_slot en"] set
    by (auto simp: upsert_def split: if_splits)
  obtain e where "find_entry (en_epoch en) vh' = Some (?f e)"
    using block_setter.setter_writes [OF inv ep new, where p = "en_total_priority_fees en" and l = "en_total_leader_slots en"
        and b = "en_blocks_produced en" and s = "en_highest_global_done_slot en"] set find_in_log [OF inv' ep]
    by (auto simp: find_entry_def)
  then show ?thesis
    using held by (auto simp: needs_block_update_def)
qed

definition metadata_entry :: PriorityFeeAndBlockMetadataEntry where
  "metadata_entry = \<lparr>en_vote_account = replicate 32 1, en_epoch = 100, en_total_priority_fees = 5000, en_total_leader_slots = 8,
     en_blocks_produced = 6, en_highest_global_done_slot = 900, en_highest_done_slot = 880, en_blocks_left = 2, en_blocks_error = 0,
     en_blocks_missed = 0\<rparr>"

text \<open>Two blocks are outstanding, and still the entry is not sent again.\<close>

theorem recorded_metadata_is_sent_no_more_witness:
  "\<exists>vh'. handle_update_priority_fee_history (replicate 32 5) sample_history_config sample_clock sample_vote_account (replicate 32 24)
      100 5000 8 6 900 sample_history = Ok vh' \<and>
    0 < en_blocks_left metadata_entry \<and> \<not> needs_block_update [(replicate 32 1, vh')] 900 100 (replicate 32 1)"
proof -
  have inv: "vh_inv sample_history" and ep: "(100::nat) < U16_MAX"
    using sample_history_inv by (simp_all add: int_limits)
  have "100 \<in> vhe_epoch ` set (vh_entries sample_history) \<or> (\<forall>e\<in>set (vh_entries sample_history). vhe_epoch e < 100)"
    using sample_history_inv by simp
  from block_setter.setter_writes [OF inv ep this, where p = 5000 and l = 8 and b = 6 and s = 900]
  obtain vh' where "set_total_priority_fees_and_block_metadata 100 5000 8 6 900 sample_history = Ok vh'"
    by (auto simp: set_total_priority_fees_and_block_metadata_def)
  then have run: "handle_update_priority_fee_history (replicate 32 5) sample_history_config sample_clock sample_vote_account (replicate 32 24)
      100 5000 8 6 900 sample_history = Ok vh'"
    by (simp add: handle_update_priority_fee_history_def owned_by_def has_one_def sample_accounts sample_history_config_def sample_clock_def
        cast_epoch_def ep)
  from run recorded_metadata_is_sent_no_more [of "replicate 32 5" sample_history_config sample_clock sample_vote_account "replicate 32 24"
      metadata_entry sample_history vh' "[(replicate 32 1, vh')]" 900] inv show ?thesis
    by (auto simp: metadata_entry_def int_limits)
qed

end
