(* ===== verification/Command_Args.thy ===== *)
theory Command_Args
  imports Keeper_State Admin
begin

text \<open>
  The instructions that the command lines build and the arguments of the commands of the
  steward (utils/steward-cli/src/commands/command_args.rs). An instruction has its program,
  its accounts by name, with those that have to sign marked as in the account structures of
  the program, and its data.
\<close>

section \<open>Instructions\<close>

datatype account_meta = Meta string Pubkey | SignerMeta string Pubkey

datatype (plugins only:) command_data =
    ComputeScoreData nat
  | ComputeDelegationsData
  | IdleData
  | ComputeInstantUnstakeData nat
  | RebalanceData nat
  | RebalanceDirectedData nat
  | EpochMaintenanceData "nat option"
  | InstantRemoveValidatorData nat
  | AutoAddValidatorData
  | AutoRemoveValidatorData nat
  | RemoveValidatorFromPoolData nat
  | AdminMarkForRemovalData nat nat nat
  | SetNewAuthorityData AuthorityType
  | UpdateParametersData UpdateParametersArgs
  | UpdatePriorityFeeParametersData UpdatePriorityFeeParametersArgs
  | AddValidatorsToBlacklistData "nat list"
  | RemoveValidatorsFromBlacklistData "nat list"
  | PauseStewardData
  | ResumeStewardData
  | ResetStewardStateData
  | ResetValidatorLamportBalancesData
  | SetStakerData
  | CloseStewardAccountsData
  | MigrateStateToV2Data
  | MigrateDirectedToAlgorithmicData
  | AddToDirectedStakeWhitelistData DirectedStakeRecordType Pubkey
  | RemoveFromDirectedStakeWhitelistData DirectedStakeRecordType Pubkey
  | UpdateDirectedStakeTicketData "DirectedStakePreference list"
  | CopyDirectedStakeTargetsData Pubkey nat nat
  | SyncDirectedStakeLamportsData
  | CloseDirectedStakeMetaData
  | CloseDirectedStakeTicketData
  | CloseDirectedStakeWhitelistData
  | InitializeStewardData UpdateParametersArgs UpdatePriorityFeeParametersArgs
  | InitializeDirectedStakeMetaData
  | InitializeDirectedStakeWhitelistData
  | InitializeDirectedStakeTicketData Pubkey bool
  | ReallocStateData
  | ReallocDirectedStakeMetaData
  | ReallocDirectedStakeWhitelistData
  | CopyVoteAccountData
  | PoolSetStakerData
  | PoolDepositSolData nat
  | PoolUpdateValidatorListBalanceData "Pubkey list" nat bool
  | PoolUpdateBalanceData
  | PoolCleanupRemovedValidatorsData
  | VaultTransactionCreateData nat "8 word list" string
  | ProposalCreateData nat bool
  | InitializeConfigData Pubkey
  | SetNewTipDistributionProgramData
  | SetNewAdminData
  | SetNewOracleAuthorityData
  | ReallocConfigAccountData
  | InitializeClusterHistoryAccountData
  | ReallocClusterHistoryAccountData
  | BackfillTotalBlocksData nat nat
  | UploadValidatorAgeData nat nat
  | CopyClusterInfoData
  | CopyTipDistributionAccountData nat
  | CopyIsBamConnectedData nat nat
  | UpdateStakeHistoryData nat nat nat bool
  | VerifySignatureData "8 word list"
  | CopyGossipContactInfoData

record command_ix =
  ix_program :: Pubkey
  ix_accounts :: "account_meta list"
  ix_data :: command_data

fun meta_signers :: "account_meta \<Rightarrow> Pubkey list" where
  "meta_signers (Meta name k) = []"
| "meta_signers (SignerMeta name k) = [k]"

fun ix_signers :: "command_ix Instruction \<Rightarrow> Pubkey list" where
  "ix_signers (Ix i) = concat (map meta_signers (ix_accounts i))"
| "ix_signers _ = []"

section \<open>Arguments\<close>

record TransactionParameters =
  tp_priority_fee :: "nat option"
  tp_compute_limit :: "nat option"
  tp_heap_size :: "nat option"
  tp_chunk_size :: "nat option"
  tp_print_tx :: bool
  tp_print_gov_tx :: bool

record PermissionlessParameters =
  pl_payer_keypair_path :: string
  pl_steward_config :: Pubkey
  pl_transaction_parameters :: TransactionParameters

record PermissionedParameters =
  pd_authority_keypair_path :: string
  pd_authority_pubkey :: "Pubkey option"
  pd_steward_config :: Pubkey
  pd_transaction_parameters :: TransactionParameters

record SquadsParameters =
  sq_proposal :: bool
  sq_multisig :: Pubkey
  sq_vault_index :: nat
  sq_program_id :: "Pubkey option"

record ConfigParameters =
  cp_mev_commission_range :: "nat option"
  cp_epoch_credits_range :: "nat option"
  cp_commission_range :: "nat option"
  cp_scoring_delinquency_threshold_ratio :: "f64 option"
  cp_instant_unstake_delinquency_threshold_ratio :: "f64 option"
  cp_mev_commission_bps_threshold :: "nat option"
  cp_commission_threshold :: "nat option"
  cp_historical_commission_threshold :: "nat option"
  cp_num_delegation_validators :: "nat option"
  cp_scoring_unstake_cap_bps :: "nat option"
  cp_instant_unstake_cap_bps :: "nat option"
  cp_stake_deposit_unstake_cap_bps :: "nat option"
  cp_compute_score_slot_range :: "nat option"
  cp_instant_unstake_epoch_progress :: "f64 option"
  cp_instant_unstake_inputs_epoch_progress :: "f64 option"
  cp_num_epochs_between_scoring :: "nat option"
  cp_minimum_stake_lamports :: "nat option"
  cp_minimum_voting_epochs :: "nat option"
  cp_min_epoch_progress_for_compute_directed_stake_meta :: "f64 option"
  cp_max_epoch_progress_for_directed_rebalance :: "f64 option"
  cp_compute_score_epoch_progress :: "f64 option"
  cp_undirected_stake_ceiling_lamports :: "nat option"
  cp_directed_stake_unstake_cap_bps :: "nat option"
  cp_jito_bam_minimum_epochs :: "nat option"
  cp_jito_bam_window_epochs :: "nat option"

definition UpdateParametersArgs_from :: "ConfigParameters \<Rightarrow> UpdateParametersArgs" where
  "UpdateParametersArgs_from config =
     \<lparr>a_mev_commission_range = cp_mev_commission_range config,
      a_epoch_credits_range = cp_epoch_credits_range config,
      a_commission_range = cp_commission_range config,
      a_scoring_delinquency_threshold_ratio = cp_scoring_delinquency_threshold_ratio config,
      a_instant_unstake_delinquency_threshold_ratio = cp_instant_unstake_delinquency_threshold_ratio config,
      a_mev_commission_bps_threshold = cp_mev_commission_bps_threshold config,
      a_commission_threshold = cp_commission_threshold config,
      a_historical_commission_threshold = cp_historical_commission_threshold config,
      a_num_delegation_validators = cp_num_delegation_validators config,
      a_scoring_unstake_cap_bps = cp_scoring_unstake_cap_bps config,
      a_instant_unstake_cap_bps = cp_instant_unstake_cap_bps config,
      a_stake_deposit_unstake_cap_bps = cp_stake_deposit_unstake_cap_bps config,
      a_directed_stake_unstake_cap_bps = cp_directed_stake_unstake_cap_bps config,
      a_undirected_stake_ceiling_lamports = cp_undirected_stake_ceiling_lamports config,
      a_instant_unstake_epoch_progress = cp_instant_unstake_epoch_progress config,
      a_compute_score_slot_range = cp_compute_score_slot_range config,
      a_instant_unstake_inputs_epoch_progress = cp_instant_unstake_inputs_epoch_progress config,
      a_num_epochs_between_scoring = cp_num_epochs_between_scoring config,
      a_minimum_stake_lamports = cp_minimum_stake_lamports config,
      a_minimum_voting_epochs = cp_minimum_voting_epochs config,
      a_compute_score_epoch_progress = cp_compute_score_epoch_progress config,
      a_jito_bam_minimum_epochs = cp_jito_bam_minimum_epochs config,
      a_jito_bam_window_epochs = cp_jito_bam_window_epochs config\<rparr>"

record ConfigPriorityFeeParameters =
  cf_priority_fee_lookback_epochs :: "nat option"
  cf_priority_fee_lookback_offset :: "nat option"
  cf_priority_fee_max_commission_bps :: "nat option"
  cf_priority_fee_error_margin_bps :: "nat option"
  cf_priority_fee_scoring_start_epoch :: "nat option"

definition UpdatePriorityFeeParametersArgs_from :: "ConfigPriorityFeeParameters \<Rightarrow> UpdatePriorityFeeParametersArgs" where
  "UpdatePriorityFeeParametersArgs_from config =
     \<lparr>f_priority_fee_lookback_epochs = cf_priority_fee_lookback_epochs config,
      f_priority_fee_lookback_offset = cf_priority_fee_lookback_offset config,
      f_priority_fee_max_commission_bps = cf_priority_fee_max_commission_bps config,
      f_priority_fee_error_margin_bps = cf_priority_fee_error_margin_bps config,
      f_priority_fee_scoring_start_epoch = cf_priority_fee_scoring_start_epoch config\<rparr>"

end
