(* ===== verification/Command_Line.thy ===== *)
theory Command_Line
  imports Command_Args
begin

text \<open>
  The frame of the command line of the steward, utils/steward-cli/src: the accounts and
  addresses that its commands start from (sdk/src/utils/accounts.rs) and the ways in which a
  command turns its instructions into transactions that are printed or sent
  (utils/transactions.rs, cli_signer.rs and the ends of the commands).

  A key pair is its public key. What is printed as a transaction is the outcome \<open>Printed\<close>;
  other output is left out.
\<close>

section \<open>The environment of a command\<close>

text \<open>
  The stake pool account of the stake pool program, as far as the commands read it.
\<close>

record StakePool =
  sp_validator_list :: Pubkey
  sp_reserve_stake :: Pubkey
  sp_pool_mint :: Pubkey
  sp_manager_fee_account :: Pubkey
  sp_token_program_id :: Pubkey

text \<open>
  What a command takes from libraries and from the file system: the key files and the
  hardware signer, the identities of programs and of system accounts, the derivation of
  addresses, and the parsers of accounts, which are \<open>None\<close> for data that they refuse. The
  parser of the state account also tells whether the account is initialised.
\<close>

record cli_lib = state_lib +
  cl_keypair_file :: "string \<Rightarrow> Pubkey option"
  cl_new_keypair :: Pubkey
  cl_ledger :: "Pubkey option"
  cl_steward_id :: Pubkey
  cl_validator_history_id :: Pubkey
  cl_stake_pool_id :: Pubkey
  cl_squads_id :: Pubkey
  cl_system_program :: Pubkey
  cl_stake_program :: Pubkey
  cl_token_program :: Pubkey
  cl_rent :: Pubkey
  cl_clock :: Pubkey
  cl_stake_history :: Pubkey
  cl_stake_config :: Pubkey
  cl_find_program_address :: "8 word list list \<Rightarrow> Pubkey \<Rightarrow> Pubkey"
  cl_find_withdraw_authority :: "Pubkey \<Rightarrow> Pubkey"
  cl_find_stake_address :: "Pubkey \<Rightarrow> Pubkey \<Rightarrow> Pubkey"
  cl_find_transient_address :: "Pubkey \<Rightarrow> Pubkey \<Rightarrow> nat \<Rightarrow> Pubkey"
  cl_associated_token_address :: "Pubkey \<Rightarrow> Pubkey \<Rightarrow> Pubkey"
  cl_vault_pda :: "Pubkey \<Rightarrow> nat \<Rightarrow> Pubkey \<Rightarrow> Pubkey"
  cl_transaction_pda :: "Pubkey \<Rightarrow> nat \<Rightarrow> Pubkey \<Rightarrow> Pubkey"
  cl_proposal_pda :: "Pubkey \<Rightarrow> nat \<Rightarrow> Pubkey \<Rightarrow> Pubkey"
  cl_compile_message :: "Pubkey \<Rightarrow> command_ix list \<Rightarrow> 8 word list option"
  cl_config :: "8 word list \<Rightarrow> Config option"
  cl_state :: "8 word list \<Rightarrow> (StewardStateV2 \<times> bool) option"
  cl_state_v1_initialized :: "8 word list \<Rightarrow> bool option"
  cl_stake_pool :: "8 word list \<Rightarrow> StakePool option"
  cl_validator_list :: "8 word list \<Rightarrow> ValidatorStakeInfo list option"
  cl_meta :: "8 word list \<Rightarrow> DirectedStakeMeta option"
  cl_whitelist :: "8 word list \<Rightarrow> DirectedStakeWhitelist option"

record 'w CliClient = "('w, command_ix) StateClient" +
  rpc_send_and_confirm :: "command_ix Transaction \<Rightarrow> 'w \<Rightarrow> (ClientError + Signature) \<times> 'w"
  rpc_multisig_index :: "Pubkey \<Rightarrow> 'w \<Rightarrow> (ClientError + nat) \<times> 'w"
  sign_with :: "Pubkey list \<Rightarrow> command_ix Instruction list \<Rightarrow> Hash \<Rightarrow> Signature"
  keeper_node :: "('w, keeper_ix) StateClient"

text \<open>The errors of \<^verbatim>\<open>anyhow\<close> that the commands return.\<close>

datatype cli_error =
    CliTransactionError JitoTransactionError
  | CliExecutionError JitoTransactionExecutionError
  | CliClientError ClientError
  | CliDeserializeError
  | CliKeypairError string
  | CliCompileError
  | SignerRequired
  | VaultMismatch Pubkey Pubkey
  | NotInValidatorList Pubkey
  | LengthsDiffer
  | NoVotePubkey
  | UnknownRecordType string
  | CliCustom string

datatype outcome =
    Printed "command_ix Instruction list list"
  | Signed Signature
  | Submitted SubmitStats
  | NothingDone

type_synonym ('w, 'a) command = "('w, cli_error, 'a) action"

section \<open>Addresses\<close>

definition seed :: "string \<Rightarrow> 8 word list" where
  "seed s = map of_char s"

definition get_steward_state_address :: "cli_lib \<Rightarrow> Pubkey \<Rightarrow> Pubkey \<Rightarrow> Pubkey" where
  "get_steward_state_address lib program_id config =
     cl_find_program_address lib [seed ''steward_state'', config] program_id"

definition get_withdraw_authority_address :: "cli_lib \<Rightarrow> Pubkey \<Rightarrow> Pubkey" where
  "get_withdraw_authority_address lib pool = cl_find_withdraw_authority lib pool"

definition get_stake_address :: "cli_lib \<Rightarrow> Pubkey \<Rightarrow> Pubkey \<Rightarrow> Pubkey" where
  "get_stake_address lib vote pool = cl_find_stake_address lib vote pool"

definition get_transient_stake_address ::
  "cli_lib \<Rightarrow> Pubkey \<Rightarrow> Pubkey \<Rightarrow> ValidatorStakeInfo list \<Rightarrow> nat \<Rightarrow> Pubkey option" where
  "get_transient_stake_address lib vote pool vals i =
     (if i < length vals then Some (cl_find_transient_address lib vote pool (transient_seed_suffix (vals ! i))) else None)"

definition get_cluster_history_address :: "cli_lib \<Rightarrow> Pubkey \<Rightarrow> Pubkey" where
  "get_cluster_history_address lib program_id = cl_find_program_address lib [seed ''cluster-history''] program_id"

definition get_validator_history_address :: "cli_lib \<Rightarrow> Pubkey \<Rightarrow> Pubkey \<Rightarrow> Pubkey" where
  "get_validator_history_address lib vote program_id =
     cl_find_program_address lib [seed ''validator-history'', vote] program_id"

definition get_validator_history_config_address :: "cli_lib \<Rightarrow> Pubkey \<Rightarrow> Pubkey" where
  "get_validator_history_config_address lib program_id = cl_find_program_address lib [seed ''config''] program_id"

definition get_directed_stake_whitelist_address :: "cli_lib \<Rightarrow> Pubkey \<Rightarrow> Pubkey \<Rightarrow> Pubkey" where
  "get_directed_stake_whitelist_address lib config program_id =
     cl_find_program_address lib [seed ''whitelist'', config] program_id"

definition get_directed_stake_meta_address :: "cli_lib \<Rightarrow> Pubkey \<Rightarrow> Pubkey \<Rightarrow> Pubkey" where
  "get_directed_stake_meta_address lib config program_id =
     cl_find_program_address lib [seed ''meta'', config] program_id"

definition get_directed_stake_ticket_address :: "cli_lib \<Rightarrow> Pubkey \<Rightarrow> Pubkey \<Rightarrow> Pubkey \<Rightarrow> Pubkey" where
  "get_directed_stake_ticket_address lib config signer program_id =
     cl_find_program_address lib [seed ''ticket'', config, signer] program_id"

section \<open>Accounts\<close>

definition get_account :: "'w CliClient \<Rightarrow> Pubkey \<Rightarrow> ('w, Account) crank" where
  "get_account c k = crank_call JitoClientError (rpc_account c k)"

text \<open>An account that is fetched and parsed; the text of an error of the parser is left out.\<close>

definition fetch_parsed ::
  "'w CliClient \<Rightarrow> (8 word list \<Rightarrow> 'a option) \<Rightarrow> string \<Rightarrow> Pubkey \<Rightarrow> ('w, 'a) crank" where
  "fetch_parsed c parse message k =
     crank_bind (get_account c k) (\<lambda>a.
     lift_sum (case parse (ac_data a) of None \<Rightarrow> Inl (JitoCustom message) | Some x \<Rightarrow> Inr x))"

definition get_steward_config_account :: "'w CliClient \<Rightarrow> cli_lib \<Rightarrow> Pubkey \<Rightarrow> ('w, Config) crank" where
  "get_steward_config_account c lib config = fetch_parsed c (cl_config lib) ''Failed to deserialize config'' config"

definition get_steward_state_account :: "'w CliClient \<Rightarrow> cli_lib \<Rightarrow> Pubkey \<Rightarrow> Pubkey \<Rightarrow> ('w, StewardStateV2) crank" where
  "get_steward_state_account c lib program_id config =
     crank_bind (fetch_parsed c (cl_state lib) ''Failed to deserialize steward state account''
       (get_steward_state_address lib program_id config)) (\<lambda>(s, _). crank_return s)"

definition get_stake_pool_account :: "'w CliClient \<Rightarrow> cli_lib \<Rightarrow> Pubkey \<Rightarrow> ('w, StakePool) crank" where
  "get_stake_pool_account c lib pool = fetch_parsed c (cl_stake_pool lib) ''Failed to deserialize stake pool account'' pool"

definition get_validator_list_account :: "'w CliClient \<Rightarrow> cli_lib \<Rightarrow> Pubkey \<Rightarrow> ('w, ValidatorStakeInfo list) crank" where
  "get_validator_list_account c lib k =
     fetch_parsed c (cl_validator_list lib) ''Failed to deserialize validator list account'' k"

definition get_directed_stake_meta :: "'w CliClient \<Rightarrow> cli_lib \<Rightarrow> Pubkey \<Rightarrow> Pubkey \<Rightarrow> ('w, DirectedStakeMeta) crank" where
  "get_directed_stake_meta c lib config program_id =
     fetch_parsed c (cl_meta lib) ''Failed to deserialize directed stake meta account''
       (get_directed_stake_meta_address lib config program_id)"

text \<open>\<^verbatim>\<open>AllStewardAccounts\<close> with the addresses, which the keeper does not need.\<close>

record StewardAccounts = AllStewardAccounts +
  config_address :: Pubkey
  state_address :: Pubkey
  stake_pool_account :: StakePool
  stake_pool_address :: Pubkey
  stake_pool_withdraw_authority :: Pubkey
  validator_list_address :: Pubkey
  reserve_stake_account :: Account

definition get_all_steward_accounts :: "'w CliClient \<Rightarrow> cli_lib \<Rightarrow> Pubkey \<Rightarrow> Pubkey \<Rightarrow> ('w, StewardAccounts) crank" where
  "get_all_steward_accounts c lib program_id config =
     crank_bind (get_steward_config_account c lib config) (\<lambda>cfg.
     crank_bind (get_stake_pool_account c lib (c_stake_pool cfg)) (\<lambda>pool.
     crank_bind (get_validator_list_account c lib (sp_validator_list pool)) (\<lambda>vals.
     crank_bind (get_account c (sp_reserve_stake pool)) (\<lambda>reserve.
     crank_bind (get_steward_state_account c lib program_id config) (\<lambda>state.
     crank_return
       \<lparr>config_account = cfg, state_account = state, pool_validators = vals, config_address = config,
        state_address = get_steward_state_address lib program_id config, stake_pool_account = pool,
        stake_pool_address = c_stake_pool cfg,
        stake_pool_withdraw_authority = get_withdraw_authority_address lib (c_stake_pool cfg),
        validator_list_address = sp_validator_list pool, reserve_stake_account = reserve\<rparr>)))))"

section \<open>Keys\<close>

text \<open>A key file that cannot be read is a panic for some commands and an error for others.\<close>

definition read_keypair_or_panic :: "cli_lib \<Rightarrow> string \<Rightarrow> ('w, Pubkey) command" where
  "read_keypair_or_panic lib path = crank_pure (ok_or (cl_keypair_file lib path) Panic)"

definition read_keypair :: "cli_lib \<Rightarrow> string \<Rightarrow> ('w, Pubkey) command" where
  "read_keypair lib path =
     lift_sum (case cl_keypair_file lib path of None \<Rightarrow> Inl (CliKeypairError path) | Some k \<Rightarrow> Inr k)"

definition steward_accounts :: "'w CliClient \<Rightarrow> cli_lib \<Rightarrow> Pubkey \<Rightarrow> Pubkey \<Rightarrow> ('w, StewardAccounts) command" where
  "steward_accounts c lib program_id config =
     crank_map_err CliTransactionError (get_all_steward_accounts c lib program_id config)"

text \<open>
  Commands that can print a transaction for others to sign take the authority from the
  arguments or from the configuration on the chain in that case.
\<close>

definition config_of :: "'w CliClient \<Rightarrow> cli_lib \<Rightarrow> Pubkey \<Rightarrow> ('w, Config) command" where
  "config_of c lib config =
     crank_bind (crank_call CliClientError (rpc_account c config)) (\<lambda>a.
     lift_sum (case cl_config lib (ac_data a) of None \<Rightarrow> Inl CliDeserializeError | Some cfg \<Rightarrow> Inr cfg))"

definition prints :: "TransactionParameters \<Rightarrow> bool" where
  "prints tp \<longleftrightarrow> tp_print_tx tp \<or> tp_print_gov_tx tp"

definition authority_or_config ::
  "'w CliClient \<Rightarrow> cli_lib \<Rightarrow> (Config \<Rightarrow> Pubkey) \<Rightarrow> PermissionedParameters \<Rightarrow> ('w, Pubkey) command" where
  "authority_or_config c lib authority p =
     (if prints (pd_transaction_parameters p) then
        (case pd_authority_pubkey p of
           Some k \<Rightarrow> crank_return k
         | None \<Rightarrow> crank_bind (config_of c lib (pd_steward_config p)) (\<lambda>cfg. crank_return (authority cfg)))
      else read_keypair_or_panic lib (pd_authority_keypair_path p))"

text \<open>cli_signer.rs: the hardware signer or a key file.\<close>

definition cli_signer :: "cli_lib \<Rightarrow> string \<Rightarrow> ('w, Pubkey) command" where
  "cli_signer lib path =
     (if path = ''ledger'' then crank_pure (ok_or (cl_ledger lib) Panic) else read_keypair lib path)"

section \<open>Transactions\<close>

text \<open>
  \<^verbatim>\<open>Transaction::new_signed_with_payer\<close> panics unless the given keys are those that the payer and
  the instructions require.
\<close>

definition sign_command ::
  "'w CliClient \<Rightarrow> command_ix Instruction list \<Rightarrow> Pubkey \<Rightarrow> Pubkey list \<Rightarrow> Hash \<Rightarrow> command_ix Transaction result" where
  "sign_command c ixs payer keys blockhash =
     (if set keys = insert payer (set (concat (map ix_signers ixs)))
      then Ok \<lparr>tx_instructions = ixs, tx_blockhash = blockhash, tx_signature = sign_with c keys ixs blockhash\<rparr>
      else Err Panic)"

definition latest_blockhash :: "'w CliClient \<Rightarrow> ('w, Hash) command" where
  "latest_blockhash c = crank_call CliClientError (rpc_latest_blockhash c)"

definition latest_blockhash_or_panic :: "'w CliClient \<Rightarrow> ('w, Hash) command" where
  "latest_blockhash_or_panic c =
     crank_bind (crank_try (latest_blockhash c)) (\<lambda>r. crank_pure (case r of Inl e \<Rightarrow> Err Panic | Inr h \<Rightarrow> Ok h))"

definition send_and_confirm :: "'w CliClient \<Rightarrow> command_ix Transaction \<Rightarrow> ('w, outcome) command" where
  "send_and_confirm c tx =
     crank_bind (crank_call CliClientError (rpc_send_and_confirm c tx)) (\<lambda>s. crank_return (Signed s))"

definition configured :: "TransactionParameters \<Rightarrow> command_ix list \<Rightarrow> command_ix Instruction list" where
  "configured tp ixs =
     configure_instruction (map Ix ixs) (tp_priority_fee tp) (tp_compute_limit tp) (tp_heap_size tp)"

text \<open>utils/transactions.rs: \<open>True\<close> when the transaction was printed in one of the two formats.\<close>

definition maybe_print_tx :: "command_ix Instruction list \<Rightarrow> TransactionParameters \<Rightarrow> outcome option" where
  "maybe_print_tx ixs tp =
     (if tp_print_tx tp then Some (Printed [ixs])
      else if tp_print_gov_tx tp then Some (Printed [ixs]) else None)"

text \<open>
  The ends of the commands that make one transaction. The blockhash is fetched and the
  transaction is signed before the command looks at the flag; some fail with a panic when there
  is no blockhash.
\<close>

definition sign_then_print_or_send ::
  "'w CliClient \<Rightarrow> TransactionParameters \<Rightarrow> command_ix list \<Rightarrow> Pubkey \<Rightarrow> Pubkey list \<Rightarrow> Hash \<Rightarrow> ('w, outcome) command" where
  "sign_then_print_or_send c tp ixs payer keys blockhash =
     (let configured_ix = configured tp ixs in
      crank_bind (crank_pure (sign_command c configured_ix payer keys blockhash)) (\<lambda>tx.
      if tp_print_tx tp then crank_return (Printed [configured_ix]) else send_and_confirm c tx))"

definition finish_single ::
  "'w CliClient \<Rightarrow> TransactionParameters \<Rightarrow> command_ix list \<Rightarrow> Pubkey \<Rightarrow> ('w, outcome) command" where
  "finish_single c tp ixs payer =
     crank_bind (latest_blockhash c) (sign_then_print_or_send c tp ixs payer [payer])"

definition finish_single_or_panic ::
  "'w CliClient \<Rightarrow> TransactionParameters \<Rightarrow> command_ix list \<Rightarrow> Pubkey \<Rightarrow> ('w, outcome) command" where
  "finish_single_or_panic c tp ixs payer =
     crank_bind (latest_blockhash_or_panic c) (sign_then_print_or_send c tp ixs payer [payer])"

text \<open>Commands that print before they ask for the key.\<close>

definition print_or_sign_and_send ::
  "'w CliClient \<Rightarrow> TransactionParameters \<Rightarrow> command_ix list \<Rightarrow> ('w, Pubkey) command \<Rightarrow> ('w, Hash) command \<Rightarrow> ('w, outcome) command" where
  "print_or_sign_and_send c tp ixs authority blockhash =
     (let configured_ix = configured tp ixs in
      case maybe_print_tx configured_ix tp of
        Some out \<Rightarrow> crank_return out
      | None \<Rightarrow>
          crank_bind authority (\<lambda>k.
          crank_bind blockhash (\<lambda>h.
          crank_bind (crank_pure (sign_command c configured_ix k [k] h)) (send_and_confirm c))))"

text \<open>Commands that make several transactions.\<close>

definition submit_as ::
  "'w CliClient \<Rightarrow> Pubkey \<Rightarrow> command_ix Instruction list list \<Rightarrow> nat option \<Rightarrow> ('w, SubmitStats) command" where
  "submit_as c payer txs retry_count w =
     map_option (\<lambda>r. and_then r (\<lambda>(out, w). Ok (map_sum CliExecutionError id out, w)))
       (submit_packaged_transactions (c\<lparr>sign := sign_with c [payer]\<rparr>) txs retry_count None w)"

definition finish_batch ::
  "'w CliClient \<Rightarrow> TransactionParameters \<Rightarrow> command_ix list \<Rightarrow> nat \<Rightarrow> nat option \<Rightarrow> Pubkey \<Rightarrow> ('w, outcome) command" where
  "finish_batch c tp ixs default_chunk heap_size payer =
     crank_bind (crank_pure (package_instructions (map Ix ixs)
       (case tp_chunk_size tp of None \<Rightarrow> default_chunk | Some n \<Rightarrow> n) (tp_priority_fee tp)
       (case tp_compute_limit tp of None \<Rightarrow> Some 1400000 | Some l \<Rightarrow> Some l) heap_size)) (\<lambda>txs.
     if tp_print_tx tp then crank_return (Printed txs)
     else crank_bind (submit_as c payer txs None) (\<lambda>stats. crank_return (Submitted stats)))"

end
