(* ===== verification/Command_Cranks.thy ===== *)
theory Command_Cranks
  imports Command_Line
begin

text \<open>
  The commands that turn the crank of the steward by hand
  (utils/steward-cli/src/commands/cranks). Each reads the accounts, decides which instructions
  are due, and prints or sends them.
\<close>

section \<open>Stages of the cycle\<close>

abbreviation all_accounts :: "StewardAccounts \<Rightarrow> AllStewardAccounts" where
  "all_accounts accs \<equiv> AllStewardAccounts.truncate accs"

text \<open>A command that is only for one stage does nothing in the others.\<close>

definition in_stage :: "StewardStateEnum \<Rightarrow> StewardAccounts \<Rightarrow> ('w, outcome) command \<Rightarrow> ('w, outcome) command" where
  "in_stage stage accs m = (if state_tag (state_account accs) = stage then m else crank_return NothingDone)"

text \<open>The instructions of a stage, one for every validator that the stage has not done.\<close>

definition for_unprogressed ::
  "StewardAccounts \<Rightarrow> (nat \<Rightarrow> Pubkey \<Rightarrow> command_ix list) \<Rightarrow> command_ix list result" where
  "for_unprogressed accs f =
     and_then (get_unprogressed_validators (all_accounts accs)) (\<lambda>infos.
     Ok (concat (map (\<lambda>info. f (pi_index info) (pi_vote_account info)) infos)))"

definition compute_score_ix :: "cli_lib \<Rightarrow> Pubkey \<Rightarrow> Pubkey \<Rightarrow> StewardAccounts \<Rightarrow> nat \<Rightarrow> Pubkey \<Rightarrow> command_ix" where
  "compute_score_ix lib program_id config accs i vote =
     \<lparr>ix_program = program_id,
      ix_accounts = [Meta ''config'' config, Meta ''state_account'' (state_address accs),
        Meta ''validator_history'' (get_validator_history_address lib vote (cl_validator_history_id lib)),
        Meta ''validator_list'' (validator_list_address accs),
        Meta ''cluster_history'' (get_cluster_history_address lib (cl_validator_history_id lib))],
      ix_data = ComputeScoreData i\<rparr>"

definition command_crank_compute_score ::
  "'w CliClient \<Rightarrow> cli_lib \<Rightarrow> Pubkey \<Rightarrow> PermissionlessParameters \<Rightarrow> ('w, outcome) command" where
  "command_crank_compute_score c lib program_id args =
     crank_bind (read_keypair_or_panic lib (pl_payer_keypair_path args)) (\<lambda>payer.
     crank_bind (steward_accounts c lib program_id (pl_steward_config args)) (\<lambda>accs.
     crank_bind (crank_pure (for_unprogressed accs (\<lambda>i vote.
       [compute_score_ix lib program_id (pl_steward_config args) accs i vote]))) (\<lambda>ixs.
     finish_batch c (pl_transaction_parameters args) ixs 2 (tp_heap_size (pl_transaction_parameters args)) payer)))"

definition compute_delegations_ix :: "Pubkey \<Rightarrow> Pubkey \<Rightarrow> StewardAccounts \<Rightarrow> command_ix" where
  "compute_delegations_ix program_id config accs =
     \<lparr>ix_program = program_id,
      ix_accounts = [Meta ''config'' config, Meta ''state_account'' (state_address accs),
        Meta ''validator_list'' (validator_list_address accs)],
      ix_data = ComputeDelegationsData\<rparr>"

definition command_crank_compute_delegations ::
  "'w CliClient \<Rightarrow> cli_lib \<Rightarrow> Pubkey \<Rightarrow> PermissionlessParameters \<Rightarrow> ('w, outcome) command" where
  "command_crank_compute_delegations c lib program_id args =
     crank_bind (read_keypair_or_panic lib (pl_payer_keypair_path args)) (\<lambda>payer.
     crank_bind (steward_accounts c lib program_id (pl_steward_config args)) (\<lambda>accs.
     in_stage ComputeDelegations accs
       (finish_single c (pl_transaction_parameters args)
          [compute_delegations_ix program_id (pl_steward_config args) accs] payer)))"

definition idle_ix :: "Pubkey \<Rightarrow> Pubkey \<Rightarrow> StewardAccounts \<Rightarrow> command_ix" where
  "idle_ix program_id config accs =
     \<lparr>ix_program = program_id,
      ix_accounts = [Meta ''config'' config, Meta ''state_account'' (state_address accs),
        Meta ''validator_list'' (validator_list_address accs)],
      ix_data = IdleData\<rparr>"

definition command_crank_idle ::
  "'w CliClient \<Rightarrow> cli_lib \<Rightarrow> Pubkey \<Rightarrow> PermissionlessParameters \<Rightarrow> ('w, outcome) command" where
  "command_crank_idle c lib program_id args =
     crank_bind (read_keypair_or_panic lib (pl_payer_keypair_path args)) (\<lambda>payer.
     crank_bind (steward_accounts c lib program_id (pl_steward_config args)) (\<lambda>accs.
     in_stage Idle accs
       (finish_single c (pl_transaction_parameters args) [idle_ix program_id (pl_steward_config args) accs] payer)))"

definition compute_instant_unstake_ix ::
  "cli_lib \<Rightarrow> Pubkey \<Rightarrow> Pubkey \<Rightarrow> StewardAccounts \<Rightarrow> nat \<Rightarrow> Pubkey \<Rightarrow> command_ix" where
  "compute_instant_unstake_ix lib program_id config accs i vote =
     \<lparr>ix_program = program_id,
      ix_accounts = [Meta ''config'' config, Meta ''state_account'' (state_address accs),
        Meta ''validator_history'' (get_validator_history_address lib vote (cl_validator_history_id lib)),
        Meta ''validator_list'' (validator_list_address accs),
        Meta ''cluster_history'' (get_cluster_history_address lib (cl_validator_history_id lib))],
      ix_data = ComputeInstantUnstakeData i\<rparr>"

definition command_crank_compute_instant_unstake ::
  "'w CliClient \<Rightarrow> cli_lib \<Rightarrow> Pubkey \<Rightarrow> PermissionlessParameters \<Rightarrow> ('w, outcome) command" where
  "command_crank_compute_instant_unstake c lib program_id args =
     crank_bind (read_keypair_or_panic lib (pl_payer_keypair_path args)) (\<lambda>payer.
     crank_bind (steward_accounts c lib program_id (pl_steward_config args)) (\<lambda>accs.
     in_stage ComputeInstantUnstake accs
       (crank_bind (crank_pure (for_unprogressed accs (\<lambda>i vote.
          [compute_instant_unstake_ix lib program_id (pl_steward_config args) accs i vote]))) (\<lambda>ixs.
        finish_batch c (pl_transaction_parameters args) ixs 15 (tp_heap_size (pl_transaction_parameters args)) payer))))"

text \<open>
  A deposit that covers the rent of the accounts that are split off comes before every
  rebalance. The pool gives its tokens to the payer.
\<close>

definition deposit_sol_ix :: "cli_lib \<Rightarrow> StewardAccounts \<Rightarrow> Pubkey \<Rightarrow> nat \<Rightarrow> command_ix" where
  "deposit_sol_ix lib accs payer lamports =
     (let token = cl_associated_token_address lib payer (sp_pool_mint (stake_pool_account accs)) in
     \<lparr>ix_program = cl_stake_pool_id lib,
      ix_accounts = [Meta ''stake_pool'' (stake_pool_address accs), Meta ''withdraw_authority'' (stake_pool_withdraw_authority accs),
        Meta ''reserve_stake'' (sp_reserve_stake (stake_pool_account accs)), SignerMeta ''lamports_from'' payer,
        Meta ''pool_tokens_to'' token, Meta ''manager_fee'' (sp_manager_fee_account (stake_pool_account accs)),
        Meta ''referrer'' token, Meta ''pool_mint'' (sp_pool_mint (stake_pool_account accs)),
        Meta ''token_program'' (cl_token_program lib)],
      ix_data = PoolDepositSolData lamports\<rparr>)"

definition rebalance_ix :: "cli_lib \<Rightarrow> Pubkey \<Rightarrow> Pubkey \<Rightarrow> StewardAccounts \<Rightarrow> nat \<Rightarrow> Pubkey \<Rightarrow> command_ix" where
  "rebalance_ix lib program_id config accs i vote =
     \<lparr>ix_program = program_id,
      ix_accounts = [Meta ''config'' config, Meta ''state_account'' (state_address accs),
        Meta ''validator_history'' (get_validator_history_address lib vote (cl_validator_history_id lib)),
        Meta ''stake_pool_program'' (cl_stake_pool_id lib), Meta ''stake_pool'' (stake_pool_address accs),
        Meta ''withdraw_authority'' (stake_pool_withdraw_authority accs), Meta ''validator_list'' (validator_list_address accs),
        Meta ''reserve_stake'' (sp_reserve_stake (stake_pool_account accs)),
        Meta ''stake_account'' (cl_find_stake_address lib vote (stake_pool_address accs)),
        Meta ''transient_stake_account'' (cl_find_transient_address lib vote (stake_pool_address accs)
          (transient_seed_suffix (pool_validators accs ! i))),
        Meta ''vote_account'' vote, Meta ''system_program'' (cl_system_program lib), Meta ''stake_program'' (cl_stake_program lib),
        Meta ''rent'' (cl_rent lib), Meta ''clock'' (cl_clock lib), Meta ''stake_history'' (cl_stake_history lib),
        Meta ''stake_config'' (cl_stake_config lib),
        Meta ''directed_stake_meta'' (get_directed_stake_meta_address lib config program_id)],
      ix_data = RebalanceData i\<rparr>"

definition command_crank_rebalance ::
  "'w CliClient \<Rightarrow> cli_lib \<Rightarrow> Pubkey \<Rightarrow> PermissionlessParameters \<Rightarrow> ('w, outcome) command" where
  "command_crank_rebalance c lib program_id args =
     crank_bind (read_keypair_or_panic lib (pl_payer_keypair_path args)) (\<lambda>payer.
     crank_bind (steward_accounts c lib program_id (pl_steward_config args)) (\<lambda>accs.
     in_stage Rebalance accs
       (crank_bind (crank_pure (get_unprogressed_validators (all_accounts accs))) (\<lambda>infos.
        crank_bind (crank_call CliClientError (rpc_stake_rent c)) (\<lambda>stake_rent.
        let ixs = concat (map (\<lambda>info. [deposit_sol_ix lib accs payer stake_rent,
              rebalance_ix lib program_id (pl_steward_config args) accs (pi_index info) (pi_vote_account info)]) infos) in
        finish_batch c (pl_transaction_parameters args) ixs 2 None payer)))))"

text \<open>
  A target whose validator is not in the list has no transient account; a fresh key stands in
  its place.
\<close>

definition rebalance_directed_ix ::
  "cli_lib \<Rightarrow> Pubkey \<Rightarrow> StewardAccounts \<Rightarrow> DirectedRebalanceProgressionInfo \<Rightarrow> command_ix" where
  "rebalance_directed_ix lib program_id accs info =
     (let vote = dp_vote_account info in
     \<lparr>ix_program = program_id,
      ix_accounts = [Meta ''config'' (config_address accs), Meta ''state_account'' (state_address accs),
        Meta ''stake_pool_program'' (cl_stake_pool_id lib), Meta ''stake_pool'' (stake_pool_address accs),
        Meta ''withdraw_authority'' (stake_pool_withdraw_authority accs), Meta ''validator_list'' (validator_list_address accs),
        Meta ''reserve_stake'' (sp_reserve_stake (stake_pool_account accs)),
        Meta ''stake_account'' (get_stake_address lib vote (stake_pool_address accs)),
        Meta ''transient_stake_account'' (case get_transient_stake_address lib vote (stake_pool_address accs)
            (pool_validators accs) (dp_validator_list_index info) of None \<Rightarrow> cl_new_keypair lib | Some k \<Rightarrow> k),
        Meta ''vote_account'' vote, Meta ''system_program'' (cl_system_program lib), Meta ''stake_program'' (cl_stake_program lib),
        Meta ''rent'' (cl_rent lib), Meta ''clock'' (cl_clock lib), Meta ''stake_history'' (cl_stake_history lib),
        Meta ''stake_config'' (cl_stake_config lib),
        Meta ''directed_stake_meta'' (get_directed_stake_meta_address lib (config_address accs) program_id)],
      ix_data = RebalanceDirectedData (dp_directed_stake_meta_index info)\<rparr>)"

definition command_crank_rebalance_directed ::
  "'w CliClient \<Rightarrow> cli_lib \<Rightarrow> Pubkey \<Rightarrow> PermissionlessParameters \<Rightarrow> ('w, outcome) command" where
  "command_crank_rebalance_directed c lib program_id args =
     crank_bind (read_keypair_or_panic lib (pl_payer_keypair_path args)) (\<lambda>payer.
     crank_bind (steward_accounts c lib program_id (pl_steward_config args)) (\<lambda>accs.
     in_stage RebalanceDirected accs
       (crank_bind (crank_map_err CliTransactionError
          (get_directed_stake_meta c lib (config_address accs) program_id)) (\<lambda>meta.
        crank_bind (crank_pure (get_directed_staking_validators (all_accounts accs) meta)) (\<lambda>infos.
        finish_batch c (pl_transaction_parameters args) (map (rebalance_directed_ix lib program_id accs) infos) 1 None payer)))))"

section \<open>Maintenance\<close>

definition epoch_maintenance_ix :: "cli_lib \<Rightarrow> Pubkey \<Rightarrow> Pubkey \<Rightarrow> StewardAccounts \<Rightarrow> nat option \<Rightarrow> command_ix" where
  "epoch_maintenance_ix lib program_id config accs validator_index_to_remove =
     \<lparr>ix_program = program_id,
      ix_accounts = [Meta ''config'' config, Meta ''state_account'' (state_address accs),
        Meta ''validator_list'' (validator_list_address accs), Meta ''stake_pool'' (stake_pool_address accs),
        Meta ''directed_stake_meta'' (get_directed_stake_meta_address lib config program_id)],
      ix_data = EpochMaintenanceData validator_index_to_remove\<rparr>"

definition command_crank_epoch_maintenance ::
  "'w CliClient \<Rightarrow> cli_lib \<Rightarrow> Pubkey \<Rightarrow> PermissionlessParameters \<Rightarrow> nat option \<Rightarrow> ('w, outcome) command" where
  "command_crank_epoch_maintenance c lib program_id args validator_index_to_remove =
     crank_bind (read_keypair_or_panic lib (pl_payer_keypair_path args)) (\<lambda>payer.
     crank_bind (steward_accounts c lib program_id (pl_steward_config args)) (\<lambda>accs.
     crank_bind (crank_call CliClientError (rpc_epoch c)) (\<lambda>epoch.
     if epoch = current_epoch (state_account accs) then crank_return NothingDone
     else finish_single c (pl_transaction_parameters args)
       [epoch_maintenance_ix lib program_id (pl_steward_config args) accs validator_index_to_remove] payer)))"

definition instant_remove_ix :: "cli_lib \<Rightarrow> Pubkey \<Rightarrow> Pubkey \<Rightarrow> StewardAccounts \<Rightarrow> nat \<Rightarrow> command_ix" where
  "instant_remove_ix lib program_id config accs i =
     \<lparr>ix_program = program_id,
      ix_accounts = [Meta ''config'' config, Meta ''state_account'' (state_address accs),
        Meta ''validator_list'' (validator_list_address accs), Meta ''stake_pool'' (stake_pool_address accs),
        Meta ''directed_stake_meta'' (get_directed_stake_meta_address lib config program_id)],
      ix_data = InstantRemoveValidatorData i\<rparr>"

text \<open>The loop goes on whatever became of the transaction; the statistics are only added up.\<close>

definition instant_remove_turn ::
  "'w CliClient \<Rightarrow> cli_lib \<Rightarrow> Pubkey \<Rightarrow> Pubkey \<Rightarrow> Pubkey \<Rightarrow> BitMask \<times> SubmitStats \<Rightarrow> ('w, BitMask \<times> SubmitStats + SubmitStats) command" where
  "instant_remove_turn c lib program_id config payer = (\<lambda>(marks, stats).
     if mask_count marks = 0 then crank_return (Inr stats)
     else
       crank_bind (steward_accounts c lib program_id config) (\<lambda>accs.
       crank_bind (crank_map_err CliTransactionError
         (find_marked ''Error fetching bitmask index for immediate removed validator'' (length (pool_validators accs)) marks)) (\<lambda>found.
       crank_bind (crank_pure (ok_or found Panic)) (\<lambda>i.
       crank_bind (submit_as c payer
         [configure_instruction [Ix (instant_remove_ix lib program_id (config_address accs) accs i)] None (Some 1400000) None]
         (Some 50)) (\<lambda>new_stats.
       crank_bind (steward_accounts c lib program_id config) (\<lambda>accs.
       crank_return (Inl (validators_for_immediate_removal (state_account accs), combine stats new_stats))))))))"

definition command_crank_instant_remove_validators ::
  "'w CliClient \<Rightarrow> cli_lib \<Rightarrow> Pubkey \<Rightarrow> PermissionlessParameters \<Rightarrow> ('w, outcome) command" where
  "command_crank_instant_remove_validators c lib program_id args =
     crank_bind (read_keypair lib (pl_payer_keypair_path args)) (\<lambda>payer.
     crank_bind (steward_accounts c lib program_id (pl_steward_config args)) (\<lambda>accs.
     crank_bind (crank_loop (instant_remove_turn c lib program_id (pl_steward_config args) payer)
       (validators_for_immediate_removal (state_account accs), SubmitStats_default)) (\<lambda>stats.
     crank_return (Submitted stats))))"

section \<open>The stake pool\<close>

fun pool_command :: "cli_lib \<Rightarrow> StewardAccounts \<Rightarrow> keeper_ix \<Rightarrow> command_ix" where
  "pool_command lib accs (UpdateValidatorListBalanceIx votes start no_merge) =
     \<lparr>ix_program = cl_stake_pool_id lib,
      ix_accounts = [Meta ''stake_pool'' (stake_pool_address accs),
        Meta ''withdraw_authority'' (cl_find_withdraw_authority lib (stake_pool_address accs)),
        Meta ''validator_list'' (sp_validator_list (stake_pool_account accs)),
        Meta ''reserve_stake'' (sp_reserve_stake (stake_pool_account accs))],
      ix_data = PoolUpdateValidatorListBalanceData votes start no_merge\<rparr>"
| "pool_command lib accs UpdateStakePoolBalanceIx =
     \<lparr>ix_program = cl_stake_pool_id lib,
      ix_accounts = [Meta ''stake_pool'' (stake_pool_address accs),
        Meta ''withdraw_authority'' (cl_find_withdraw_authority lib (stake_pool_address accs)),
        Meta ''validator_list'' (sp_validator_list (stake_pool_account accs)),
        Meta ''reserve_stake'' (sp_reserve_stake (stake_pool_account accs)),
        Meta ''manager_fee'' (sp_manager_fee_account (stake_pool_account accs)),
        Meta ''pool_mint'' (sp_pool_mint (stake_pool_account accs)),
        Meta ''token_program'' (sp_token_program_id (stake_pool_account accs))],
      ix_data = PoolUpdateBalanceData\<rparr>"
| "pool_command lib accs _ =
     \<lparr>ix_program = cl_stake_pool_id lib,
      ix_accounts = [Meta ''stake_pool'' (stake_pool_address accs),
        Meta ''validator_list'' (sp_validator_list (stake_pool_account accs))],
      ix_data = PoolCleanupRemovedValidatorsData\<rparr>"

definition command_crank_update_stake_pool ::
  "'w CliClient \<Rightarrow> cli_lib \<Rightarrow> Pubkey \<Rightarrow> PermissionlessParameters \<Rightarrow> bool \<Rightarrow> ('w, outcome) command" where
  "command_crank_update_stake_pool c lib program_id args no_merge =
     (let tp = pl_transaction_parameters args;
          as_tx = (\<lambda>ix. configure_instruction [Ix ix] (tp_priority_fee tp)
            (case tp_compute_limit tp of None \<Rightarrow> Some 1400000 | Some l \<Rightarrow> Some l) None) in
     crank_bind (read_keypair_or_panic lib (pl_payer_keypair_path args)) (\<lambda>payer.
     crank_bind (steward_accounts c lib program_id (pl_steward_config args)) (\<lambda>accs.
     crank_bind (crank_call CliClientError (rpc_epoch c)) (\<lambda>epoch.
     crank_bind (crank_pure (update_list_instructions (keeper_lib.truncate lib) (pool_validators accs) no_merge epoch)) (\<lambda>updates.
     let update_ixs = map (pool_command lib accs) updates;
         final_ixs = [pool_command lib accs UpdateStakePoolBalanceIx, pool_command lib accs CleanupRemovedValidatorEntriesIx] in
     if tp_print_tx tp then crank_return (Printed (map (\<lambda>ix. [Ix ix]) update_ixs @ [map Ix final_ixs]))
     else
       crank_bind (if update_ixs = [] then crank_return SubmitStats_default
                   else submit_as c payer (map as_tx update_ixs) (Some 50)) (\<lambda>s1.
       crank_bind (submit_as c payer (map as_tx final_ixs) (Some 50)) (\<lambda>s2.
       crank_return (Submitted (combine s1 s2)))))))))"

section \<open>The whole crank\<close>

text \<open>The addresses that the keeper derives are those of the command line.\<close>

definition keeper_lib_of :: "cli_lib \<Rightarrow> state_lib" where
  "keeper_lib_of lib =
     (state_lib.truncate lib)\<lparr>lib_history_address := (\<lambda>v. get_validator_history_address lib v (cl_validator_history_id lib)),
       lib_stake_address := get_stake_address lib\<rparr>"

definition command_crank_steward ::
  "'w CliClient \<Rightarrow> cli_lib \<Rightarrow> Pubkey \<Rightarrow> PermissionlessParameters \<Rightarrow> ('w, outcome) command" where
  "command_crank_steward c lib program_id args =
     crank_bind (read_keypair_or_panic lib (pl_payer_keypair_path args)) (\<lambda>payer.
     crank_bind (steward_accounts c lib program_id (pl_steward_config args)) (\<lambda>accs.
     crank_bind (crank_map_err CliTransactionError
       (get_all_steward_validator_accounts (keeper_node c) (keeper_lib_of lib) (all_accounts accs))) (\<lambda>pool.
     crank_bind (crank_call CliClientError (get_vote_accounts_with_retry (keeper_node c) 5)) (\<lambda>votes.
     crank_bind (crank_map_err CliTransactionError
       (get_all_validator_accounts (keeper_node c) (keeper_lib_of lib) votes)) (\<lambda>active.
     crank_bind (crank_call CliClientError (rpc_epoch c)) (\<lambda>epoch.
     crank_bind (crank_map_err CliTransactionError
       (crank_steward (keeper_node c) (keeper_lib.truncate (keeper_lib_of lib)) epoch (all_accounts accs) pool active
          (tp_priority_fee (pl_transaction_parameters args)))) (\<lambda>stats.
     crank_return (Submitted stats))))))))"

section \<open>Directed stake\<close>

text \<open>What the command reports about the tickets before it computes the targets.\<close>

record TicketSummary =
  ts_num_tickets :: nat
  ts_tickets_with_balance :: nat
  ts_total_preferences :: nat
  ts_validators :: "Pubkey list"
  ts_final_targets :: "Pubkey list"

text \<open>The validators that the first \<^verbatim>\<open>num_preferences\<close> preferences of a ticket name.\<close>

definition named_validators :: "DirectedStakeTicket \<Rightarrow> Pubkey list result" where
  "named_validators t =
     for_each (\<lambda>i acc. and_then (arr_get (staker_preferences t) i) (\<lambda>p.
       Ok (if pr_vote_pubkey p = Pubkey_default then acc else List.insert (pr_vote_pubkey p) acc)))
       [0..<num_preferences t] []"

definition balance_of :: "'w CliClient \<Rightarrow> DirectedStakeTicket \<Rightarrow> ('w, nat) command" where
  "balance_of c t =
     crank_bind (crank_try (get_token_balance (keeper_node c) (ticket_update_authority t))) (\<lambda>r.
     crank_return (case r of Inl e \<Rightarrow> 0 | Inr b \<Rightarrow> b))"

definition summarize_ticket ::
  "'w CliClient \<Rightarrow> DirectedStakeTicket \<Rightarrow> TicketSummary \<times> (Pubkey \<rightharpoonup> nat) \<Rightarrow> ('w, TicketSummary \<times> (Pubkey \<rightharpoonup> nat)) command" where
  "summarize_ticket c t = (\<lambda>(s, balances).
     crank_bind (crank_pure (named_validators t)) (\<lambda>vs.
     crank_bind (balance_of c t) (\<lambda>balance.
     let s = s\<lparr>ts_total_preferences := ts_total_preferences s + num_preferences t,
               ts_validators := fold List.insert vs (ts_validators s)\<rparr> in
     crank_return (if 0 < balance
       then (s\<lparr>ts_tickets_with_balance := Suc (ts_tickets_with_balance s)\<rparr>, balances(ticket_update_authority t \<mapsto> balance))
       else (s, balances)))))"

definition summarize_tickets :: "'w CliClient \<Rightarrow> DirectedStakeTicket list \<Rightarrow> ('w, TicketSummary) command" where
  "summarize_tickets c tickets =
     crank_bind (crank_for (summarize_ticket c) tickets
       (\<lparr>ts_num_tickets = length tickets, ts_tickets_with_balance = 0, ts_total_preferences = 0, ts_validators = [],
         ts_final_targets = []\<rparr>, \<lambda>_. None)) (\<lambda>(s, balances).
     crank_bind (crank_pure (for_each (\<lambda>t acc.
         if (case balances (ticket_update_authority t) of None \<Rightarrow> 0 | Some b \<Rightarrow> b) = 0 then Ok acc
         else and_then (named_validators t) (\<lambda>vs. Ok (fold List.insert vs acc))) tickets [])) (\<lambda>finals.
     crank_return (s\<lparr>ts_final_targets := finals\<rparr>)))"

definition copy_targets_ix ::
  "cli_lib \<Rightarrow> Pubkey \<Rightarrow> Pubkey \<Rightarrow> Pubkey \<Rightarrow> Pubkey \<Rightarrow> Pubkey \<Rightarrow> nat \<Rightarrow> nat \<Rightarrow> command_ix" where
  "copy_targets_ix lib program_id config authority validator_list vote lamports i =
     \<lparr>ix_program = program_id,
      ix_accounts = [Meta ''config'' config,
        Meta ''directed_stake_meta'' (get_directed_stake_meta_address lib config program_id),
        SignerMeta ''authority'' authority, Meta ''clock'' (cl_clock lib), Meta ''validator_list'' validator_list],
      ix_data = CopyDirectedStakeTargetsData vote lamports i\<rparr>"

text \<open>The instructions of the library function are those that copy targets.\<close>

fun oracle_command :: "cli_lib \<Rightarrow> Pubkey \<Rightarrow> Pubkey \<Rightarrow> StewardAccounts \<Rightarrow> keeper_ix \<Rightarrow> command_ix list" where
  "oracle_command lib program_id authority accs (CopyDirectedStakeTargetsIx vote lamports i) =
     [copy_targets_ix lib program_id (config_address accs) authority (validator_list_address accs) vote lamports i]"
| "oracle_command lib program_id authority accs _ = []"

definition check_targets_readable :: "DirectedStakeMeta \<Rightarrow> unit result" where
  "check_targets_readable m =
     for_each (\<lambda>i _. and_then (arr_get (targets m) i) (\<lambda>_. Ok ())) [0..<total_stake_targets m] ()"

definition command_crank_compute_directed_stake_meta ::
  "'w CliClient \<Rightarrow> cli_lib \<Rightarrow> Pubkey \<Rightarrow> PermissionedParameters \<Rightarrow> ('w, outcome \<times> TicketSummary) command" where
  "command_crank_compute_directed_stake_meta c lib program_id args =
     crank_bind (crank_call CliTransactionError (rpc_tickets c)) (\<lambda>tickets.
     crank_bind (summarize_tickets c tickets) (\<lambda>summary.
     crank_bind (authority_or_config c lib c_parameters_authority args) (\<lambda>signer.
     crank_bind (steward_accounts c lib program_id (pd_steward_config args)) (\<lambda>accs.
     crank_bind (crank_map_err (\<lambda>_. CliCustom ''instruction error'') (compute_directed_stake_meta (keeper_node c))) (\<lambda>kixs.
     let ixs = map Ix (concat (map (oracle_command lib program_id signer accs) kixs)) in
     case maybe_print_tx ixs (pd_transaction_parameters args) of
       Some out \<Rightarrow> crank_return (out, summary)
     | None \<Rightarrow>
         crank_bind (read_keypair lib (pd_authority_keypair_path args)) (\<lambda>authority.
         crank_bind (crank_pure (package_instructions ixs 2 None None None)) (\<lambda>txs.
         crank_bind (submit_as c authority txs None) (\<lambda>stats.
         crank_bind (crank_map_err CliTransactionError (get_directed_stake_meta c lib (pd_steward_config args) program_id)) (\<lambda>m.
         crank_bind (crank_pure (check_targets_readable m)) (\<lambda>_.
         crank_return (Submitted stats, summary)))))))))))"

end
