(* ===== verification/Command_Actions.thy ===== *)
theory Command_Actions
  imports Command_Line
begin

text \<open>
  The commands of the authorities and of the directed stakers
  (utils/steward-cli/src/commands/actions): the blacklist, authorities and parameters, with or
  without a proposal to a multisignature wallet, validators by hand, pause, reset and removal
  of accounts, whitelist, tickets and targets of directed stake.
\<close>

section \<open>Proposals\<close>

text \<open>
  Three commands can wrap their instruction into a proposal of the Squads multisignature
  program; the vault must be the authority that the instruction needs. The number of the next
  transaction is computed in 64 bits.
\<close>

definition vault_transaction_ix ::
  "cli_lib \<Rightarrow> Pubkey \<Rightarrow> Pubkey \<Rightarrow> Pubkey \<Rightarrow> Pubkey \<Rightarrow> nat \<Rightarrow> 8 word list \<Rightarrow> string \<Rightarrow> command_ix" where
  "vault_transaction_ix lib program_id multisig transaction creator vault_index message memo =
     \<lparr>ix_program = program_id,
      ix_accounts = [Meta ''multisig'' multisig, Meta ''transaction'' transaction, SignerMeta ''creator'' creator,
        SignerMeta ''rent_payer'' creator, Meta ''system_program'' (cl_system_program lib)],
      ix_data = VaultTransactionCreateData vault_index message memo\<rparr>"

definition proposal_ix :: "cli_lib \<Rightarrow> Pubkey \<Rightarrow> Pubkey \<Rightarrow> Pubkey \<Rightarrow> Pubkey \<Rightarrow> nat \<Rightarrow> command_ix" where
  "proposal_ix lib program_id multisig proposal creator transaction_index =
     \<lparr>ix_program = program_id,
      ix_accounts = [Meta ''multisig'' multisig, SignerMeta ''creator'' creator, Meta ''proposal'' proposal,
        SignerMeta ''rent_payer'' creator, Meta ''system_program'' (cl_system_program lib)],
      ix_data = ProposalCreateData transaction_index False\<rparr>"

definition propose ::
  "'w CliClient \<Rightarrow> cli_lib \<Rightarrow> SquadsParameters \<Rightarrow> TransactionParameters \<Rightarrow> Pubkey \<Rightarrow> Pubkey \<Rightarrow> command_ix \<Rightarrow> string \<Rightarrow> ('w, outcome) command" where
  "propose c lib sq tp signer authority ix memo =
     (let squads = (case sq_program_id sq of None \<Rightarrow> cl_squads_id lib | Some k \<Rightarrow> k);
          vault = cl_vault_pda lib (sq_multisig sq) (sq_vault_index sq) squads in
     crank_bind (crank_call CliClientError (rpc_multisig_index c (sq_multisig sq))) (\<lambda>index.
     crank_bind (crank_pure (plus_or_panic U64_MAX index 1)) (\<lambda>transaction_index.
     if vault \<noteq> authority then lift_sum (Inl (VaultMismatch vault authority))
     else
       crank_bind (lift_sum (case cl_compile_message lib vault [ix] of None \<Rightarrow> Inl CliCompileError | Some m \<Rightarrow> Inr m)) (\<lambda>message.
       crank_bind (latest_blockhash c) (\<lambda>blockhash.
       let ixs = configured tp
             [vault_transaction_ix lib squads (sq_multisig sq) (cl_transaction_pda lib (sq_multisig sq) transaction_index squads)
                signer (sq_vault_index sq) message memo,
              proposal_ix lib squads (sq_multisig sq) (cl_proposal_pda lib (sq_multisig sq) transaction_index squads)
                signer transaction_index] in
       case maybe_print_tx ixs tp of
         Some out \<Rightarrow> crank_return out
       | None \<Rightarrow> crank_bind (crank_pure (sign_command c ixs signer [signer] blockhash)) (send_and_confirm c))))))"

text \<open>The same without a proposal: the signer of the command has to be the authority.\<close>

definition execute_directly ::
  "'w CliClient \<Rightarrow> TransactionParameters \<Rightarrow> Pubkey \<Rightarrow> command_ix \<Rightarrow> ('w, outcome) command" where
  "execute_directly c tp signer ix =
     crank_bind (latest_blockhash c) (\<lambda>blockhash.
     let ixs = configured tp [ix] in
     case maybe_print_tx ixs tp of
       Some out \<Rightarrow> crank_return out
     | None \<Rightarrow> crank_bind (crank_pure (sign_command c ixs signer [signer] blockhash)) (send_and_confirm c))"

definition propose_or_execute ::
  "'w CliClient \<Rightarrow> cli_lib \<Rightarrow> SquadsParameters \<Rightarrow> TransactionParameters \<Rightarrow> Pubkey \<Rightarrow> Pubkey \<Rightarrow> command_ix \<Rightarrow> string \<Rightarrow> ('w, outcome) command" where
  "propose_or_execute c lib sq tp signer authority ix memo =
     (if sq_proposal sq then propose c lib sq tp signer authority ix memo else execute_directly c tp signer ix)"

section \<open>Blacklist\<close>

text \<open>
  The index of the history account of a validator; a vote account without a history that can be
  read is passed over.
\<close>

definition push_history_index ::
  "'w CliClient \<Rightarrow> cli_lib \<Rightarrow> Pubkey \<Rightarrow> nat list \<Rightarrow> ('w, nat list) command" where
  "push_history_index c lib vote indices =
     crank_bind (crank_try (get_account c (get_validator_history_address lib vote (cl_validator_history_id lib)))) (\<lambda>r.
     crank_return (case r of
         Inl e \<Rightarrow> indices
       | Inr a \<Rightarrow> (case lib_history lib (ac_data a) of None \<Rightarrow> indices | Some vh \<Rightarrow> indices @ [vh_index vh])))"

definition add_to_blacklist_ix :: "Pubkey \<Rightarrow> Pubkey \<Rightarrow> Pubkey \<Rightarrow> nat list \<Rightarrow> command_ix" where
  "add_to_blacklist_ix program_id config authority indices =
     \<lparr>ix_program = program_id, ix_accounts = [Meta ''config'' config, SignerMeta ''authority'' authority],
      ix_data = AddValidatorsToBlacklistData indices\<rparr>"

definition remove_from_blacklist_ix :: "Pubkey \<Rightarrow> Pubkey \<Rightarrow> Pubkey \<Rightarrow> nat list \<Rightarrow> command_ix" where
  "remove_from_blacklist_ix program_id config authority indices =
     \<lparr>ix_program = program_id, ix_accounts = [Meta ''config'' config, SignerMeta ''authority'' authority],
      ix_data = RemoveValidatorsFromBlacklistData indices\<rparr>"

record BlacklistArgs =
  ba_permissioned_parameters :: PermissionedParameters
  ba_validator_history_indices :: "nat list"
  ba_vote_accounts :: "Pubkey list"
  ba_squads :: SquadsParameters

definition command_add_to_blacklist ::
  "'w CliClient \<Rightarrow> cli_lib \<Rightarrow> Pubkey \<Rightarrow> Pubkey \<Rightarrow> BlacklistArgs \<Rightarrow> ('w, outcome) command" where
  "command_add_to_blacklist c lib program_id signer args =
     (let p = ba_permissioned_parameters args in
     crank_bind (config_of c lib (pd_steward_config p)) (\<lambda>cfg.
     crank_bind (crank_for (push_history_index c lib) (ba_vote_accounts args) (ba_validator_history_indices args)) (\<lambda>indices.
     propose_or_execute c lib (ba_squads args) (pd_transaction_parameters p) signer (c_blacklist_authority cfg)
       (add_to_blacklist_ix program_id (pd_steward_config p) (c_blacklist_authority cfg) indices) ''Add validators to blacklist'')))"

definition command_remove_from_blacklist ::
  "'w CliClient \<Rightarrow> cli_lib \<Rightarrow> Pubkey \<Rightarrow> Pubkey \<Rightarrow> BlacklistArgs \<Rightarrow> ('w, outcome) command" where
  "command_remove_from_blacklist c lib program_id signer args =
     (let p = ba_permissioned_parameters args in
     crank_bind (config_of c lib (pd_steward_config p)) (\<lambda>cfg.
     crank_bind (crank_for (push_history_index c lib) (ba_vote_accounts args) (ba_validator_history_indices args)) (\<lambda>indices.
     propose_or_execute c lib (ba_squads args) (pd_transaction_parameters p) signer (c_blacklist_authority cfg)
       (remove_from_blacklist_ix program_id (pd_steward_config p) (c_blacklist_authority cfg) indices)
       ''Remove validators from blacklist'')))"

section \<open>Authorities and parameters\<close>

datatype AuthoritySubcommand =
    BlacklistSub PermissionedParameters Pubkey
  | AdminSub PermissionedParameters Pubkey
  | ParametersSub PermissionedParameters Pubkey
  | PriorityFeeParametersSub PermissionedParameters Pubkey
  | DirectedStakeMetaUploadSub PermissionedParameters Pubkey
  | DirectedStakeWhitelistSub PermissionedParameters Pubkey
  | DirectedStakeTicketOverrideAuthoritySub PermissionedParameters Pubkey

fun authority_change :: "AuthoritySubcommand \<Rightarrow> PermissionedParameters \<times> Pubkey \<times> AuthorityType" where
  "authority_change (BlacklistSub p k) = (p, k, SetBlacklistAuthority)"
| "authority_change (AdminSub p k) = (p, k, SetAdmin)"
| "authority_change (ParametersSub p k) = (p, k, SetParametersAuthority)"
| "authority_change (PriorityFeeParametersSub p k) = (p, k, SetPriorityFeeParameterAuthority)"
| "authority_change (DirectedStakeMetaUploadSub p k) = (p, k, SetDirectedStakeMetaUploadAuthority)"
| "authority_change (DirectedStakeWhitelistSub p k) = (p, k, SetDirectedStakeWhitelistAuthority)"
| "authority_change (DirectedStakeTicketOverrideAuthoritySub p k) = (p, k, SetDirectedStakeTicketOverrideAuthority)"

definition set_new_authority_ix :: "Pubkey \<Rightarrow> Pubkey \<Rightarrow> Pubkey \<Rightarrow> Pubkey \<Rightarrow> AuthorityType \<Rightarrow> command_ix" where
  "set_new_authority_ix program_id config new_authority admin authority_type =
     \<lparr>ix_program = program_id,
      ix_accounts = [Meta ''config'' config, Meta ''new_authority'' new_authority, SignerMeta ''admin'' admin],
      ix_data = SetNewAuthorityData authority_type\<rparr>"

definition command_update_authority ::
  "'w CliClient \<Rightarrow> cli_lib \<Rightarrow> Pubkey \<Rightarrow> Pubkey \<Rightarrow> SquadsParameters \<Rightarrow> AuthoritySubcommand \<Rightarrow> ('w, outcome) command" where
  "command_update_authority c lib program_id signer sq sub =
     (case authority_change sub of (p, new_authority, authority_type) \<Rightarrow>
     crank_bind (config_of c lib (pd_steward_config p)) (\<lambda>cfg.
     propose_or_execute c lib sq (pd_transaction_parameters p) signer (c_admin cfg)
       (set_new_authority_ix program_id (pd_steward_config p) new_authority (c_admin cfg) authority_type) ''Set new authority''))"

definition update_parameters_ix :: "Pubkey \<Rightarrow> Pubkey \<Rightarrow> Pubkey \<Rightarrow> UpdateParametersArgs \<Rightarrow> command_ix" where
  "update_parameters_ix program_id config authority params =
     \<lparr>ix_program = program_id, ix_accounts = [Meta ''config'' config, SignerMeta ''authority'' authority],
      ix_data = UpdateParametersData params\<rparr>"

definition command_update_config ::
  "'w CliClient \<Rightarrow> cli_lib \<Rightarrow> Pubkey \<Rightarrow> PermissionedParameters \<Rightarrow> ConfigParameters \<Rightarrow> ('w, outcome) command" where
  "command_update_config c lib program_id args params =
     crank_bind (authority_or_config c lib c_parameters_authority args) (\<lambda>authority.
     print_or_sign_and_send c (pd_transaction_parameters args)
       [update_parameters_ix program_id (pd_steward_config args) authority (UpdateParametersArgs_from params)]
       (read_keypair_or_panic lib (pd_authority_keypair_path args)) (latest_blockhash_or_panic c))"

definition update_priority_fee_parameters_ix ::
  "Pubkey \<Rightarrow> Pubkey \<Rightarrow> Pubkey \<Rightarrow> UpdatePriorityFeeParametersArgs \<Rightarrow> command_ix" where
  "update_priority_fee_parameters_ix program_id config authority params =
     \<lparr>ix_program = program_id, ix_accounts = [Meta ''config'' config, SignerMeta ''authority'' authority],
      ix_data = UpdatePriorityFeeParametersData params\<rparr>"

definition command_update_priority_fee_config ::
  "'w CliClient \<Rightarrow> cli_lib \<Rightarrow> Pubkey \<Rightarrow> PermissionedParameters \<Rightarrow> ConfigPriorityFeeParameters \<Rightarrow> ('w, outcome) command" where
  "command_update_priority_fee_config c lib program_id args params =
     crank_bind (authority_or_config c lib c_priority_fee_parameters_authority args) (\<lambda>authority.
     print_or_sign_and_send c (pd_transaction_parameters args)
       [update_priority_fee_parameters_ix program_id (pd_steward_config args) authority (UpdatePriorityFeeParametersArgs_from params)]
       (read_keypair_or_panic lib (pd_authority_keypair_path args)) (latest_blockhash_or_panic c))"

section \<open>Validators\<close>

definition admin_mark_ix :: "Pubkey \<Rightarrow> Pubkey \<Rightarrow> Pubkey \<Rightarrow> Pubkey \<Rightarrow> nat \<Rightarrow> nat \<Rightarrow> nat \<Rightarrow> command_ix" where
  "admin_mark_ix program_id state config authority i mark immediate =
     \<lparr>ix_program = program_id,
      ix_accounts = [Meta ''state_account'' state, Meta ''config'' config, SignerMeta ''authority'' authority],
      ix_data = AdminMarkForRemovalData i mark immediate\<rparr>"

record AdminMarkForRemovalArgs =
  am_permissioned_parameters :: PermissionedParameters
  am_mark_for_removal :: bool
  am_immediate :: bool
  am_validator_vote_account :: Pubkey
  am_submit_ix :: bool

text \<open>The flag that only prints is not asked for here: there is a flag of its own that sends.\<close>

definition command_admin_mark_for_removal ::
  "'w CliClient \<Rightarrow> cli_lib \<Rightarrow> Pubkey \<Rightarrow> AdminMarkForRemovalArgs \<Rightarrow> ('w, outcome) command" where
  "command_admin_mark_for_removal c lib program_id args =
     (let p = am_permissioned_parameters args;
          mark = (if am_mark_for_removal args then 255 else 0);
          immediate = (if am_immediate args then 255 else 0) in
     crank_bind (read_keypair lib (pd_authority_keypair_path p)) (\<lambda>authority.
     crank_bind (steward_accounts c lib program_id (pd_steward_config p)) (\<lambda>accs.
     crank_bind (lift_sum (case list_position (am_validator_vote_account args) (pool_validators accs) of
         None \<Rightarrow> Inl (NotInValidatorList (am_validator_vote_account args)) | Some i \<Rightarrow> Inr i)) (\<lambda>i.
     if am_submit_ix args then
       crank_bind (latest_blockhash c) (\<lambda>blockhash.
       crank_bind (crank_pure (sign_command c (configured (pd_transaction_parameters p)
           [admin_mark_ix program_id (get_steward_state_address lib program_id (pd_steward_config p)) (pd_steward_config p)
              authority i mark immediate]) authority [authority] blockhash)) (send_and_confirm c))
     else crank_return NothingDone))))"

definition auto_add_validator_ix :: "cli_lib \<Rightarrow> Pubkey \<Rightarrow> Pubkey \<Rightarrow> StewardAccounts \<Rightarrow> Pubkey \<Rightarrow> command_ix" where
  "auto_add_validator_ix lib program_id config accs vote =
     \<lparr>ix_program = program_id,
      ix_accounts = [Meta ''validator_history_account'' (get_validator_history_address lib vote (cl_validator_history_id lib)),
        Meta ''steward_state'' (state_address accs), Meta ''config'' config, Meta ''stake_pool_program'' (cl_stake_pool_id lib),
        Meta ''stake_pool'' (stake_pool_address accs), Meta ''reserve_stake'' (sp_reserve_stake (stake_pool_account accs)),
        Meta ''withdraw_authority'' (stake_pool_withdraw_authority accs), Meta ''validator_list'' (validator_list_address accs),
        Meta ''stake_account'' (cl_find_stake_address lib vote (stake_pool_address accs)), Meta ''vote_account'' vote,
        Meta ''rent'' (cl_rent lib), Meta ''clock'' (cl_clock lib), Meta ''stake_history'' (cl_stake_history lib),
        Meta ''stake_config'' (cl_stake_config lib), Meta ''system_program'' (cl_system_program lib),
        Meta ''stake_program'' (cl_stake_program lib)],
      ix_data = AutoAddValidatorData\<rparr>"

definition command_auto_add_validator_from_pool ::
  "'w CliClient \<Rightarrow> cli_lib \<Rightarrow> Pubkey \<Rightarrow> PermissionlessParameters \<Rightarrow> Pubkey \<Rightarrow> ('w, outcome) command" where
  "command_auto_add_validator_from_pool c lib program_id args vote =
     crank_bind (read_keypair_or_panic lib (pl_payer_keypair_path args)) (\<lambda>payer.
     crank_bind (steward_accounts c lib program_id (pl_steward_config args)) (\<lambda>accs.
     finish_single_or_panic c (pl_transaction_parameters args)
       [auto_add_validator_ix lib program_id (pl_steward_config args) accs vote] payer))"

definition auto_remove_validator_ix ::
  "cli_lib \<Rightarrow> Pubkey \<Rightarrow> Pubkey \<Rightarrow> StewardAccounts \<Rightarrow> nat \<Rightarrow> ValidatorStakeInfo \<Rightarrow> command_ix" where
  "auto_remove_validator_ix lib program_id config accs i info =
     (let vote = vote_account_address info in
     \<lparr>ix_program = program_id,
      ix_accounts = [Meta ''validator_history_account'' (get_validator_history_address lib vote (cl_validator_history_id lib)),
        Meta ''config'' config, Meta ''state_account'' (state_address accs), Meta ''stake_pool_program'' (cl_stake_pool_id lib),
        Meta ''stake_pool'' (stake_pool_address accs), Meta ''reserve_stake'' (sp_reserve_stake (stake_pool_account accs)),
        Meta ''withdraw_authority'' (stake_pool_withdraw_authority accs), Meta ''validator_list'' (validator_list_address accs),
        Meta ''stake_account'' (cl_find_stake_address lib vote (stake_pool_address accs)),
        Meta ''transient_stake_account'' (cl_find_transient_address lib vote (stake_pool_address accs) (transient_seed_suffix info)),
        Meta ''vote_account'' vote, Meta ''rent'' (cl_rent lib), Meta ''clock'' (cl_clock lib),
        Meta ''stake_history'' (cl_stake_history lib), Meta ''stake_config'' (cl_stake_config lib),
        Meta ''system_program'' (cl_system_program lib), Meta ''stake_program'' (cl_stake_program lib)],
      ix_data = AutoRemoveValidatorData i\<rparr>)"

definition command_auto_remove_validator_from_pool ::
  "'w CliClient \<Rightarrow> cli_lib \<Rightarrow> Pubkey \<Rightarrow> PermissionlessParameters \<Rightarrow> nat \<Rightarrow> ('w, outcome) command" where
  "command_auto_remove_validator_from_pool c lib program_id args i =
     crank_bind (read_keypair_or_panic lib (pl_payer_keypair_path args)) (\<lambda>payer.
     crank_bind (steward_accounts c lib program_id (pl_steward_config args)) (\<lambda>accs.
     crank_bind (crank_pure (arr_get (pool_validators accs) i)) (\<lambda>info.
     finish_single_or_panic c (pl_transaction_parameters args)
       [auto_remove_validator_ix lib program_id (pl_steward_config args) accs i info] payer)))"

definition instant_remove_validator_ix :: "cli_lib \<Rightarrow> Pubkey \<Rightarrow> Pubkey \<Rightarrow> StewardAccounts \<Rightarrow> nat \<Rightarrow> command_ix" where
  "instant_remove_validator_ix lib program_id config accs i =
     \<lparr>ix_program = program_id,
      ix_accounts = [Meta ''config'' config, Meta ''state_account'' (state_address accs),
        Meta ''validator_list'' (validator_list_address accs), Meta ''stake_pool'' (stake_pool_address accs),
        Meta ''directed_stake_meta'' (get_directed_stake_meta_address lib config program_id)],
      ix_data = InstantRemoveValidatorData i\<rparr>"

definition command_instant_remove_validator ::
  "'w CliClient \<Rightarrow> cli_lib \<Rightarrow> Pubkey \<Rightarrow> PermissionlessParameters \<Rightarrow> nat \<Rightarrow> ('w, outcome) command" where
  "command_instant_remove_validator c lib program_id args i =
     crank_bind (read_keypair_or_panic lib (pl_payer_keypair_path args)) (\<lambda>payer.
     crank_bind (steward_accounts c lib program_id (pl_steward_config args)) (\<lambda>accs.
     finish_single c (pl_transaction_parameters args)
       [instant_remove_validator_ix lib program_id (pl_steward_config args) accs i] payer))"

definition copy_vote_account_ix :: "cli_lib \<Rightarrow> Pubkey \<Rightarrow> Pubkey \<Rightarrow> Pubkey \<Rightarrow> command_ix" where
  "copy_vote_account_ix lib history vote signer =
     \<lparr>ix_program = cl_validator_history_id lib,
      ix_accounts = [Meta ''validator_history_account'' history, Meta ''vote_account'' vote, SignerMeta ''signer'' signer],
      ix_data = CopyVoteAccountData\<rparr>"

text \<open>Every validator of the list that has not been done, whether it is of this cycle or not.\<close>

definition unprogressed_in_list :: "StewardAccounts \<Rightarrow> (nat \<times> ValidatorStakeInfo) list result" where
  "unprogressed_in_list accs =
     for_each (\<lambda>(i, info) acc.
         and_then (unwrap (BitMask_get i (progress (state_account accs)))) (\<lambda>has_progressed.
         Ok (if has_progressed then acc else acc @ [(i, info)])))
       (enumerate 0 (pool_validators accs)) []"

definition command_manually_copy_all_vote_accounts ::
  "'w CliClient \<Rightarrow> cli_lib \<Rightarrow> Pubkey \<Rightarrow> PermissionlessParameters \<Rightarrow> ('w, outcome) command" where
  "command_manually_copy_all_vote_accounts c lib program_id args =
     crank_bind (read_keypair_or_panic lib (pl_payer_keypair_path args)) (\<lambda>payer.
     crank_bind (steward_accounts c lib program_id (pl_steward_config args)) (\<lambda>accs.
     crank_bind (crank_pure (unprogressed_in_list accs)) (\<lambda>vals.
     finish_batch c (pl_transaction_parameters args)
       (map (\<lambda>(i, info). copy_vote_account_ix lib
          (get_validator_history_address lib (vote_account_address info) (cl_validator_history_id lib))
          (vote_account_address info) payer) vals)
       1 (tp_heap_size (pl_transaction_parameters args)) payer)))"

text \<open>The address of the history is derived with the stake pool program.\<close>

definition command_manually_copy_vote_account ::
  "'w CliClient \<Rightarrow> cli_lib \<Rightarrow> Pubkey \<Rightarrow> PermissionlessParameters \<Rightarrow> nat \<Rightarrow> ('w, outcome) command" where
  "command_manually_copy_vote_account c lib program_id args i =
     (let tp = pl_transaction_parameters args in
     crank_bind (read_keypair_or_panic lib (pl_payer_keypair_path args)) (\<lambda>payer.
     crank_bind (steward_accounts c lib program_id (pl_steward_config args)) (\<lambda>accs.
     crank_bind (crank_pure (arr_get (pool_validators accs) i)) (\<lambda>info.
     let vote = vote_account_address info;
         ixs = configured tp [copy_vote_account_ix lib (get_validator_history_address lib vote (cl_stake_pool_id lib)) vote payer] in
     if tp_print_tx tp then crank_return (Printed [ixs])
     else crank_bind (submit_as c payer [ixs] (Some 1)) (\<lambda>stats. crank_return (Submitted stats))))))"

definition remove_validator_ix ::
  "cli_lib \<Rightarrow> Pubkey \<Rightarrow> Pubkey \<Rightarrow> StewardAccounts \<Rightarrow> Pubkey \<Rightarrow> nat \<Rightarrow> ValidatorStakeInfo \<Rightarrow> command_ix" where
  "remove_validator_ix lib program_id config accs admin i info =
     (let vote = vote_account_address info in
     \<lparr>ix_program = program_id,
      ix_accounts = [SignerMeta ''admin'' admin, Meta ''config'' config, Meta ''state_account'' (state_address accs),
        Meta ''stake_pool_program'' (cl_stake_pool_id lib), Meta ''stake_pool'' (stake_pool_address accs),
        Meta ''withdraw_authority'' (stake_pool_withdraw_authority accs), Meta ''validator_list'' (validator_list_address accs),
        Meta ''stake_account'' (cl_find_stake_address lib vote (stake_pool_address accs)),
        Meta ''transient_stake_account'' (cl_find_transient_address lib vote (stake_pool_address accs) (transient_seed_suffix info)),
        Meta ''clock'' (cl_clock lib), Meta ''system_program'' (cl_system_program lib), Meta ''stake_program'' (cl_stake_program lib)],
      ix_data = RemoveValidatorFromPoolData i\<rparr>)"

definition command_manually_remove_validator ::
  "'w CliClient \<Rightarrow> cli_lib \<Rightarrow> Pubkey \<Rightarrow> PermissionedParameters \<Rightarrow> nat \<Rightarrow> ('w, outcome) command" where
  "command_manually_remove_validator c lib program_id args i =
     crank_bind (read_keypair_or_panic lib (pd_authority_keypair_path args)) (\<lambda>authority.
     crank_bind (steward_accounts c lib program_id (pd_steward_config args)) (\<lambda>accs.
     crank_bind (crank_pure (arr_get (pool_validators accs) i)) (\<lambda>info.
     finish_single c (pd_transaction_parameters args)
       [remove_validator_ix lib program_id (pd_steward_config args) accs authority i info] authority)))"

text \<open>Validators of the list without a history account.\<close>

definition command_remove_bad_validators ::
  "'w CliClient \<Rightarrow> cli_lib \<Rightarrow> Pubkey \<Rightarrow> PermissionedParameters \<Rightarrow> ('w, outcome) command" where
  "command_remove_bad_validators c lib program_id args =
     (let tp = pd_transaction_parameters args in
     crank_bind (read_keypair_or_panic lib (pd_authority_keypair_path args)) (\<lambda>payer.
     crank_bind (steward_accounts c lib program_id (pd_steward_config args)) (\<lambda>accs.
     crank_bind (crank_pure (unprogressed_in_list accs)) (\<lambda>vals.
     crank_bind (crank_map_err CliTransactionError (fetch_accounts c (map (\<lambda>(i, info).
       get_validator_history_address lib (vote_account_address info) (cl_validator_history_id lib)) vals))) (\<lambda>histories.
     let ixs = map (\<lambda>(h, (i, info)). remove_validator_ix lib program_id (pd_steward_config args) accs payer i info)
           (filter (\<lambda>(h, _). h = None) (zip histories vals)) in
     crank_bind (crank_pure (package_instructions (map Ix ixs) (case tp_chunk_size tp of None \<Rightarrow> 1 | Some n \<Rightarrow> n)
       (tp_priority_fee tp) (case tp_compute_limit tp of None \<Rightarrow> Some 1400000 | Some l \<Rightarrow> Some l)
       (case tp_heap_size tp of None \<Rightarrow> Some (256 * 1024) | Some h \<Rightarrow> Some h))) (\<lambda>txs.
     if tp_print_tx tp then crank_return (Printed txs)
     else crank_bind (\<lambda>w. map_option (\<lambda>r. and_then r (\<lambda>(out, w). Ok (map_sum CliExecutionError id out, w)))
            (submit_transactions (c\<lparr>sign := sign_with c [payer]\<rparr>) txs 20 30 w)) (\<lambda>stats. crank_return (Submitted stats))))))))"

text \<open>No flag that only prints is asked for, and the flag against merging has no effect.\<close>

definition command_update_validator_list_balance ::
  "'w CliClient \<Rightarrow> cli_lib \<Rightarrow> Pubkey \<Rightarrow> PermissionlessParameters \<Rightarrow> nat \<Rightarrow> bool \<Rightarrow> ('w, outcome) command" where
  "command_update_validator_list_balance c lib program_id args i no_merge =
     crank_bind (read_keypair_or_panic lib (pl_payer_keypair_path args)) (\<lambda>payer.
     crank_bind (steward_accounts c lib program_id (pl_steward_config args)) (\<lambda>accs.
     crank_bind (crank_pure (arr_get (pool_validators accs) i)) (\<lambda>info.
     crank_bind (latest_blockhash c) (\<lambda>blockhash.
     crank_bind (crank_pure (sign_command c [Ix
         \<lparr>ix_program = cl_stake_pool_id lib,
          ix_accounts = [Meta ''stake_pool'' (stake_pool_address accs), Meta ''withdraw_authority'' (stake_pool_withdraw_authority accs),
            Meta ''validator_list'' (validator_list_address accs),
            Meta ''reserve_stake'' (sp_reserve_stake (stake_pool_account accs))],
          ix_data = PoolUpdateValidatorListBalanceData [vote_account_address info] i False\<rparr>] payer [payer] blockhash))
       (send_and_confirm c)))))"

section \<open>The steward as a whole\<close>

definition pause_ix :: "Pubkey \<Rightarrow> StewardAccounts \<Rightarrow> Pubkey \<Rightarrow> command_ix" where
  "pause_ix program_id accs authority =
     \<lparr>ix_program = program_id, ix_accounts = [Meta ''config'' (config_address accs), SignerMeta ''authority'' authority],
      ix_data = PauseStewardData\<rparr>"

definition resume_ix :: "Pubkey \<Rightarrow> StewardAccounts \<Rightarrow> Pubkey \<Rightarrow> command_ix" where
  "resume_ix program_id accs authority =
     \<lparr>ix_program = program_id, ix_accounts = [Meta ''config'' (config_address accs), SignerMeta ''authority'' authority],
      ix_data = ResumeStewardData\<rparr>"

definition reset_state_ix :: "Pubkey \<Rightarrow> Pubkey \<Rightarrow> StewardAccounts \<Rightarrow> Pubkey \<Rightarrow> command_ix" where
  "reset_state_ix program_id config accs authority =
     \<lparr>ix_program = program_id,
      ix_accounts = [Meta ''state_account'' (state_address accs), Meta ''config'' config, Meta ''stake_pool'' (stake_pool_address accs),
        Meta ''validator_list'' (validator_list_address accs), SignerMeta ''authority'' authority],
      ix_data = ResetStewardStateData\<rparr>"

definition reset_balances_ix :: "Pubkey \<Rightarrow> Pubkey \<Rightarrow> StewardAccounts \<Rightarrow> Pubkey \<Rightarrow> command_ix" where
  "reset_balances_ix program_id config accs authority =
     \<lparr>ix_program = program_id,
      ix_accounts = [Meta ''steward_state'' (state_address accs), Meta ''config'' config, SignerMeta ''authority'' authority],
      ix_data = ResetValidatorLamportBalancesData\<rparr>"

text \<open>The staker of the pool becomes the state account, by the manager of the pool, or the admin again.\<close>

definition pool_set_staker_ix :: "cli_lib \<Rightarrow> StewardAccounts \<Rightarrow> Pubkey \<Rightarrow> command_ix" where
  "pool_set_staker_ix lib accs authority =
     \<lparr>ix_program = cl_stake_pool_id lib,
      ix_accounts = [Meta ''stake_pool'' (stake_pool_address accs), SignerMeta ''set_staker_authority'' authority,
        Meta ''new_staker'' (state_address accs)],
      ix_data = PoolSetStakerData\<rparr>"

definition set_staker_ix :: "cli_lib \<Rightarrow> Pubkey \<Rightarrow> StewardAccounts \<Rightarrow> Pubkey \<Rightarrow> command_ix" where
  "set_staker_ix lib program_id accs authority =
     \<lparr>ix_program = program_id,
      ix_accounts = [Meta ''config'' (config_address accs), Meta ''stake_pool_program'' (cl_stake_pool_id lib),
        Meta ''stake_pool'' (stake_pool_address accs), Meta ''new_staker'' authority, SignerMeta ''admin'' authority,
        Meta ''state_account'' (state_address accs)],
      ix_data = SetStakerData\<rparr>"

definition close_steward_ix :: "Pubkey \<Rightarrow> StewardAccounts \<Rightarrow> Pubkey \<Rightarrow> command_ix" where
  "close_steward_ix program_id accs authority =
     \<lparr>ix_program = program_id,
      ix_accounts = [Meta ''config'' (config_address accs), SignerMeta ''authority'' authority, Meta ''state_account'' (state_address accs)],
      ix_data = CloseStewardAccountsData\<rparr>"

definition migrate_directed_ix :: "cli_lib \<Rightarrow> Pubkey \<Rightarrow> Pubkey \<Rightarrow> StewardAccounts \<Rightarrow> Pubkey \<Rightarrow> command_ix" where
  "migrate_directed_ix lib program_id config accs authority =
     \<lparr>ix_program = program_id,
      ix_accounts = [Meta ''config'' config,
        Meta ''directed_stake_meta'' (get_directed_stake_meta_address lib (config_address accs) program_id),
        SignerMeta ''authority'' authority],
      ix_data = MigrateDirectedToAlgorithmicData\<rparr>"

definition migrate_state_ix :: "cli_lib \<Rightarrow> Pubkey \<Rightarrow> Pubkey \<Rightarrow> command_ix" where
  "migrate_state_ix lib program_id config =
     \<lparr>ix_program = program_id,
      ix_accounts = [Meta ''state_account'' (get_steward_state_address lib program_id config), Meta ''config'' config],
      ix_data = MigrateStateToV2Data\<rparr>"

text \<open>The frame of the commands that make one transaction for an authority from the accounts of the steward.\<close>

definition authority_command ::
  "'w CliClient \<Rightarrow> cli_lib \<Rightarrow> Pubkey \<Rightarrow> PermissionedParameters \<Rightarrow> (StewardAccounts \<Rightarrow> Pubkey \<Rightarrow> command_ix list) \<Rightarrow> ('w, outcome) command" where
  "authority_command c lib program_id args build =
     crank_bind (read_keypair_or_panic lib (pd_authority_keypair_path args)) (\<lambda>authority.
     crank_bind (steward_accounts c lib program_id (pd_steward_config args)) (\<lambda>accs.
     finish_single c (pd_transaction_parameters args) (build accs authority) authority))"

definition command_pause :: "'w CliClient \<Rightarrow> cli_lib \<Rightarrow> Pubkey \<Rightarrow> PermissionedParameters \<Rightarrow> ('w, outcome) command" where
  "command_pause c lib program_id args =
     authority_command c lib program_id args (\<lambda>accs authority. [pause_ix program_id accs authority])"

definition command_resume :: "'w CliClient \<Rightarrow> cli_lib \<Rightarrow> Pubkey \<Rightarrow> PermissionedParameters \<Rightarrow> ('w, outcome) command" where
  "command_resume c lib program_id args =
     authority_command c lib program_id args (\<lambda>accs authority. [resume_ix program_id accs authority])"

definition command_reset_state :: "'w CliClient \<Rightarrow> cli_lib \<Rightarrow> Pubkey \<Rightarrow> PermissionedParameters \<Rightarrow> ('w, outcome) command" where
  "command_reset_state c lib program_id args =
     authority_command c lib program_id args
       (\<lambda>accs authority. [reset_state_ix program_id (pd_steward_config args) accs authority])"

definition command_reset_validator_lamport_balances ::
  "'w CliClient \<Rightarrow> cli_lib \<Rightarrow> Pubkey \<Rightarrow> PermissionedParameters \<Rightarrow> ('w, outcome) command" where
  "command_reset_validator_lamport_balances c lib program_id args =
     authority_command c lib program_id args
       (\<lambda>accs authority. [reset_balances_ix program_id (pd_steward_config args) accs authority])"

definition command_revert_staker :: "'w CliClient \<Rightarrow> cli_lib \<Rightarrow> Pubkey \<Rightarrow> PermissionedParameters \<Rightarrow> ('w, outcome) command" where
  "command_revert_staker c lib program_id args =
     authority_command c lib program_id args (\<lambda>accs authority. [set_staker_ix lib program_id accs authority])"

definition command_close_steward :: "'w CliClient \<Rightarrow> cli_lib \<Rightarrow> Pubkey \<Rightarrow> PermissionedParameters \<Rightarrow> ('w, outcome) command" where
  "command_close_steward c lib program_id args =
     authority_command c lib program_id args
       (\<lambda>accs authority. [set_staker_ix lib program_id accs authority, close_steward_ix program_id accs authority])"

definition command_migrate_directed_to_algorithmic ::
  "'w CliClient \<Rightarrow> cli_lib \<Rightarrow> Pubkey \<Rightarrow> PermissionedParameters \<Rightarrow> ('w, outcome) command" where
  "command_migrate_directed_to_algorithmic c lib program_id args =
     authority_command c lib program_id args
       (\<lambda>accs authority. [migrate_directed_ix lib program_id (pd_steward_config args) accs authority])"

text \<open>Both flags print here, but only after the transaction is signed.\<close>

definition command_set_staker :: "'w CliClient \<Rightarrow> cli_lib \<Rightarrow> Pubkey \<Rightarrow> PermissionedParameters \<Rightarrow> ('w, outcome) command" where
  "command_set_staker c lib program_id args =
     (let tp = pd_transaction_parameters args in
     crank_bind (read_keypair_or_panic lib (pd_authority_keypair_path args)) (\<lambda>authority.
     crank_bind (steward_accounts c lib program_id (pd_steward_config args)) (\<lambda>accs.
     crank_bind (latest_blockhash c) (\<lambda>blockhash.
     let ixs = configured tp [pool_set_staker_ix lib accs authority] in
     crank_bind (crank_pure (sign_command c ixs authority [authority] blockhash)) (\<lambda>tx.
     case maybe_print_tx ixs tp of Some out \<Rightarrow> crank_return out | None \<Rightarrow> send_and_confirm c tx)))))"

text \<open>The parameters of the transaction are not applied here.\<close>

definition command_migrate_state_to_v2 ::
  "'w CliClient \<Rightarrow> cli_lib \<Rightarrow> Pubkey \<Rightarrow> PermissionedParameters \<Rightarrow> ('w, outcome) command" where
  "command_migrate_state_to_v2 c lib program_id args =
     crank_bind (read_keypair_or_panic lib (pd_authority_keypair_path args)) (\<lambda>authority.
     let ixs = [Ix (migrate_state_ix lib program_id (pd_steward_config args))] in
     crank_bind (latest_blockhash c) (\<lambda>blockhash.
     crank_bind (crank_pure (sign_command c ixs authority [authority] blockhash)) (\<lambda>tx.
     if tp_print_tx (pd_transaction_parameters args) then crank_return (Printed [ixs]) else send_and_confirm c tx)))"

section \<open>Directed stake\<close>

fun parse_record_type :: "string \<Rightarrow> cli_error + DirectedStakeRecordType" where
  "parse_record_type s =
     (if s = ''validator'' then Inr ValidatorRecord
      else if s = ''protocol'' then Inr ProtocolRecord
      else if s = ''user'' then Inr UserRecord
      else Inl (UnknownRecordType s))"

record WhitelistArgs =
  wa_steward_config :: Pubkey
  wa_record_type :: string
  wa_record :: Pubkey
  wa_authority_keypair_path :: string
  wa_transaction_parameters :: TransactionParameters

definition add_to_whitelist_ix ::
  "cli_lib \<Rightarrow> Pubkey \<Rightarrow> Pubkey \<Rightarrow> StewardAccounts \<Rightarrow> Pubkey \<Rightarrow> DirectedStakeRecordType \<Rightarrow> Pubkey \<Rightarrow> command_ix" where
  "add_to_whitelist_ix lib program_id config accs authority record_type k =
     \<lparr>ix_program = program_id,
      ix_accounts = [Meta ''config'' config,
        Meta ''directed_stake_whitelist'' (get_directed_stake_whitelist_address lib config program_id),
        SignerMeta ''authority'' authority, Meta ''stake_pool'' (stake_pool_address accs),
        Meta ''validator_list'' (validator_list_address accs)],
      ix_data = AddToDirectedStakeWhitelistData record_type k\<rparr>"

definition command_add_to_directed_stake_whitelist ::
  "'w CliClient \<Rightarrow> cli_lib \<Rightarrow> Pubkey \<Rightarrow> WhitelistArgs \<Rightarrow> ('w, outcome) command" where
  "command_add_to_directed_stake_whitelist c lib program_id args =
     crank_bind (read_keypair lib (wa_authority_keypair_path args)) (\<lambda>authority.
     crank_bind (lift_sum (parse_record_type (wa_record_type args))) (\<lambda>record_type.
     crank_bind (steward_accounts c lib program_id (wa_steward_config args)) (\<lambda>accs.
     finish_single c (wa_transaction_parameters args)
       [add_to_whitelist_ix lib program_id (wa_steward_config args) accs authority record_type (wa_record args)] authority)))"

definition remove_from_whitelist_ix ::
  "cli_lib \<Rightarrow> Pubkey \<Rightarrow> Pubkey \<Rightarrow> Pubkey \<Rightarrow> DirectedStakeRecordType \<Rightarrow> Pubkey \<Rightarrow> command_ix" where
  "remove_from_whitelist_ix lib program_id config authority record_type k =
     \<lparr>ix_program = program_id,
      ix_accounts = [Meta ''config'' config,
        Meta ''directed_stake_whitelist'' (get_directed_stake_whitelist_address lib config program_id),
        SignerMeta ''authority'' authority],
      ix_data = RemoveFromDirectedStakeWhitelistData record_type k\<rparr>"

definition command_remove_from_directed_stake_whitelist ::
  "'w CliClient \<Rightarrow> cli_lib \<Rightarrow> Pubkey \<Rightarrow> WhitelistArgs \<Rightarrow> ('w, outcome) command" where
  "command_remove_from_directed_stake_whitelist c lib program_id args =
     crank_bind (read_keypair lib (wa_authority_keypair_path args)) (\<lambda>authority.
     crank_bind (lift_sum (parse_record_type (wa_record_type args))) (\<lambda>record_type.
     finish_single c (wa_transaction_parameters args)
       [remove_from_whitelist_ix lib program_id (wa_steward_config args) authority record_type (wa_record args)] authority))"

text \<open>sdk/src/utils/instructions.rs.\<close>

definition update_directed_stake_ticket ::
  "cli_lib \<Rightarrow> Pubkey \<Rightarrow> Pubkey \<Rightarrow> Pubkey \<Rightarrow> Pubkey \<Rightarrow> DirectedStakePreference list \<Rightarrow> command_ix" where
  "update_directed_stake_ticket lib program_id config ticket_authority signer preferences =
     \<lparr>ix_program = program_id,
      ix_accounts = [Meta ''config'' config,
        Meta ''whitelist_account'' (get_directed_stake_whitelist_address lib config program_id),
        Meta ''ticket_account'' (get_directed_stake_ticket_address lib config ticket_authority program_id),
        SignerMeta ''signer'' signer],
      ix_data = UpdateDirectedStakeTicketData preferences\<rparr>"

record UpdateTicketArgs =
  ut_permissioned_parameters :: PermissionedParameters
  ut_vote_pubkey :: "Pubkey list"
  ut_stake_share_bps :: "nat list"
  ut_ticket_update_authority :: Pubkey

definition command_update_directed_stake_ticket ::
  "'w CliClient \<Rightarrow> cli_lib \<Rightarrow> Pubkey \<Rightarrow> UpdateTicketArgs \<Rightarrow> ('w, outcome) command" where
  "command_update_directed_stake_ticket c lib program_id args =
     (let p = ut_permissioned_parameters args in
     crank_bind (if prints (pd_transaction_parameters p)
         then crank_bind (crank_map_err CliTransactionError (get_steward_config_account c lib (pd_steward_config p)))
           (\<lambda>cfg. crank_return (c_directed_stake_ticket_override_authority cfg))
         else read_keypair_or_panic lib (pd_authority_keypair_path p)) (\<lambda>signer.
     if length (ut_vote_pubkey args) \<noteq> length (ut_stake_share_bps args) then lift_sum (Inl LengthsDiffer)
     else print_or_sign_and_send c (pd_transaction_parameters p)
       [update_directed_stake_ticket lib program_id (pd_steward_config p) (ut_ticket_update_authority args) signer
          (map (\<lambda>(k, bps). \<lparr>pr_vote_pubkey = k, stake_share_bps = bps\<rparr>) (zip (ut_vote_pubkey args) (ut_stake_share_bps args)))]
       (read_keypair lib (pd_authority_keypair_path p)) (latest_blockhash c)))"

record CopyTargetsArgs =
  ct_permissioned_parameters :: PermissionedParameters
  ct_vote_pubkey :: "Pubkey list"
  ct_target_lamports :: "nat list"

definition copy_target_ix ::
  "cli_lib \<Rightarrow> Pubkey \<Rightarrow> Pubkey \<Rightarrow> Pubkey \<Rightarrow> Pubkey \<Rightarrow> Pubkey \<Rightarrow> nat \<Rightarrow> nat \<Rightarrow> command_ix" where
  "copy_target_ix lib program_id config authority validator_list vote lamports i =
     \<lparr>ix_program = program_id,
      ix_accounts = [Meta ''config'' config,
        Meta ''directed_stake_meta'' (get_directed_stake_meta_address lib config program_id),
        SignerMeta ''authority'' authority, Meta ''clock'' (cl_clock lib), Meta ''validator_list'' validator_list],
      ix_data = CopyDirectedStakeTargetsData vote lamports i\<rparr>"

definition command_copy_directed_stake_targets ::
  "'w CliClient \<Rightarrow> cli_lib \<Rightarrow> Pubkey \<Rightarrow> CopyTargetsArgs \<Rightarrow> ('w, outcome) command" where
  "command_copy_directed_stake_targets c lib program_id args =
     (let p = ct_permissioned_parameters args; config = pd_steward_config p in
     crank_bind (authority_or_config c lib c_directed_stake_meta_upload_authority p) (\<lambda>authority.
     if length (ct_vote_pubkey args) \<noteq> length (ct_target_lamports args) then lift_sum (Inl LengthsDiffer)
     else if ct_vote_pubkey args = [] then lift_sum (Inl NoVotePubkey)
     else
       crank_bind (crank_map_err CliTransactionError (get_steward_config_account c lib config)) (\<lambda>cfg.
       crank_bind (crank_map_err CliTransactionError (get_stake_pool_account c lib (c_stake_pool cfg))) (\<lambda>pool.
       crank_bind (crank_map_err CliTransactionError (get_validator_list_account c lib (sp_validator_list pool))) (\<lambda>vals.
       crank_bind (lift_sum (try_fold (\<lambda>(vote, lamports) ixs.
           case list_position vote vals of
             None \<Rightarrow> Inl (NotInValidatorList vote)
           | Some i \<Rightarrow> Inr (ixs @ [copy_target_ix lib program_id config authority (sp_validator_list pool) vote lamports (cast U32_MAX i)]))
         (zip (ct_vote_pubkey args) (ct_target_lamports args)) [])) (\<lambda>ixs.
       print_or_sign_and_send c (pd_transaction_parameters p) ixs
         (read_keypair lib (pd_authority_keypair_path p)) (latest_blockhash c)))))))"

definition sync_lamports_ix :: "cli_lib \<Rightarrow> Pubkey \<Rightarrow> StewardAccounts \<Rightarrow> Pubkey \<Rightarrow> command_ix" where
  "sync_lamports_ix lib program_id accs authority =
     \<lparr>ix_program = program_id,
      ix_accounts = [Meta ''config'' (config_address accs),
        Meta ''directed_stake_meta'' (get_directed_stake_meta_address lib (config_address accs) program_id),
        Meta ''clock'' (cl_clock lib), Meta ''validator_list'' (validator_list_address accs), SignerMeta ''authority'' authority],
      ix_data = SyncDirectedStakeLamportsData\<rparr>"

definition command_sync_directed_stake_lamports ::
  "'w CliClient \<Rightarrow> cli_lib \<Rightarrow> Pubkey \<Rightarrow> PermissionedParameters \<Rightarrow> ('w, outcome) command" where
  "command_sync_directed_stake_lamports c lib program_id args =
     authority_command c lib program_id args (\<lambda>accs authority. [sync_lamports_ix lib program_id accs authority])"

definition close_meta_ix :: "cli_lib \<Rightarrow> Pubkey \<Rightarrow> StewardAccounts \<Rightarrow> Pubkey \<Rightarrow> command_ix" where
  "close_meta_ix lib program_id accs authority =
     \<lparr>ix_program = program_id,
      ix_accounts = [Meta ''config'' (config_address accs),
        Meta ''directed_stake_meta'' (get_directed_stake_meta_address lib (config_address accs) program_id),
        SignerMeta ''authority'' authority],
      ix_data = CloseDirectedStakeMetaData\<rparr>"

definition command_close_directed_stake_meta ::
  "'w CliClient \<Rightarrow> cli_lib \<Rightarrow> Pubkey \<Rightarrow> PermissionedParameters \<Rightarrow> ('w, outcome) command" where
  "command_close_directed_stake_meta c lib program_id args =
     authority_command c lib program_id args (\<lambda>accs authority. [close_meta_ix lib program_id accs authority])"

definition close_whitelist_ix :: "cli_lib \<Rightarrow> Pubkey \<Rightarrow> StewardAccounts \<Rightarrow> Pubkey \<Rightarrow> command_ix" where
  "close_whitelist_ix lib program_id accs authority =
     \<lparr>ix_program = program_id,
      ix_accounts = [Meta ''config'' (config_address accs),
        Meta ''whitelist_account'' (get_directed_stake_whitelist_address lib (config_address accs) program_id),
        SignerMeta ''authority'' authority],
      ix_data = CloseDirectedStakeWhitelistData\<rparr>"

definition command_close_directed_stake_whitelist ::
  "'w CliClient \<Rightarrow> cli_lib \<Rightarrow> Pubkey \<Rightarrow> PermissionedParameters \<Rightarrow> ('w, outcome) command" where
  "command_close_directed_stake_whitelist c lib program_id args =
     authority_command c lib program_id args (\<lambda>accs authority. [close_whitelist_ix lib program_id accs authority])"

definition close_ticket_ix :: "cli_lib \<Rightarrow> Pubkey \<Rightarrow> Pubkey \<Rightarrow> StewardAccounts \<Rightarrow> Pubkey \<Rightarrow> command_ix" where
  "close_ticket_ix lib program_id config accs authority =
     \<lparr>ix_program = program_id,
      ix_accounts = [Meta ''config'' (config_address accs),
        Meta ''ticket_account'' (get_directed_stake_ticket_address lib config authority program_id),
        Meta ''whitelist_account'' (get_directed_stake_whitelist_address lib (config_address accs) program_id),
        SignerMeta ''authority'' authority],
      ix_data = CloseDirectedStakeTicketData\<rparr>"

definition command_close_directed_stake_ticket ::
  "'w CliClient \<Rightarrow> cli_lib \<Rightarrow> Pubkey \<Rightarrow> PermissionedParameters \<Rightarrow> ('w, outcome) command" where
  "command_close_directed_stake_ticket c lib program_id args =
     authority_command c lib program_id args
       (\<lambda>accs authority. [close_ticket_ix lib program_id (pd_steward_config args) accs authority])"

end
