(* ===== verification/Command_Growth.thy ===== *)
theory Command_Growth
  imports Command_Line Account_Growth
begin

text \<open>
  The commands that create the accounts of the steward and grow them to their full size
  (utils/steward-cli/src/commands/init). An account grows by one allocation per instruction,
  ten instructions to a transaction.
\<close>

section \<open>Creating accounts\<close>

record InitStewardArgs =
  is_authority_keypair_path :: string
  is_staker_keypair_path :: "string option"
  is_steward_config_keypair_path :: "string option"
  is_stake_pool :: Pubkey
  is_transaction_parameters :: TransactionParameters
  is_config_parameters :: ConfigParameters
  is_config_priority_fee_parameters :: ConfigPriorityFeeParameters

definition initialize_steward_ix ::
  "cli_lib \<Rightarrow> Pubkey \<Rightarrow> Pubkey \<Rightarrow> Pubkey \<Rightarrow> Pubkey \<Rightarrow> UpdateParametersArgs \<Rightarrow> UpdatePriorityFeeParametersArgs \<Rightarrow> command_ix" where
  "initialize_steward_ix lib program_id config pool staker params fee_params =
     \<lparr>ix_program = program_id,
      ix_accounts = [SignerMeta ''config'' config, Meta ''stake_pool'' pool,
        Meta ''state_account'' (get_steward_state_address lib (cl_steward_id lib) config),
        Meta ''stake_pool_program'' (cl_stake_pool_id lib), Meta ''system_program'' (cl_system_program lib),
        SignerMeta ''current_staker'' staker],
      ix_data = InitializeStewardData params fee_params\<rparr>"

definition command_init_steward :: "'w CliClient \<Rightarrow> cli_lib \<Rightarrow> Pubkey \<Rightarrow> InitStewardArgs \<Rightarrow> ('w, outcome) command" where
  "command_init_steward c lib program_id args =
     crank_bind (read_keypair_or_panic lib (is_authority_keypair_path args)) (\<lambda>authority.
     crank_bind (case is_staker_keypair_path args of
         None \<Rightarrow> crank_return authority | Some path \<Rightarrow> read_keypair_or_panic lib path) (\<lambda>staker.
     crank_bind (case is_steward_config_keypair_path args of
         None \<Rightarrow> crank_return (cl_new_keypair lib) | Some path \<Rightarrow> read_keypair_or_panic lib path) (\<lambda>config.
     crank_bind (crank_try (get_account c config)) (\<lambda>existing.
     if (case existing of Inl e \<Rightarrow> False | Inr a \<Rightarrow> ac_owner a = program_id) then crank_return NothingDone
     else
       crank_bind (latest_blockhash c) (sign_then_print_or_send c (is_transaction_parameters args)
         [initialize_steward_ix lib program_id config (is_stake_pool args) staker
            (UpdateParametersArgs_from (is_config_parameters args))
            (UpdatePriorityFeeParametersArgs_from (is_config_priority_fee_parameters args))]
         authority [authority, config, staker])))))"

record InitDirectedArgs =
  id_steward_config :: Pubkey
  id_authority_keypair_path :: string
  id_transaction_parameters :: TransactionParameters

definition initialize_meta_ix :: "cli_lib \<Rightarrow> Pubkey \<Rightarrow> Pubkey \<Rightarrow> Pubkey \<Rightarrow> command_ix" where
  "initialize_meta_ix lib program_id config authority =
     \<lparr>ix_program = program_id,
      ix_accounts = [Meta ''config'' config,
        Meta ''directed_stake_meta'' (cl_find_program_address lib [seed ''meta'', config] program_id),
        Meta ''clock'' (cl_clock lib), Meta ''system_program'' (cl_system_program lib), SignerMeta ''authority'' authority],
      ix_data = InitializeDirectedStakeMetaData\<rparr>"

definition command_init_directed_stake_meta ::
  "'w CliClient \<Rightarrow> cli_lib \<Rightarrow> Pubkey \<Rightarrow> InitDirectedArgs \<Rightarrow> ('w, outcome) command" where
  "command_init_directed_stake_meta c lib program_id args =
     crank_bind (read_keypair lib (id_authority_keypair_path args)) (\<lambda>authority.
     finish_single c (id_transaction_parameters args)
       [initialize_meta_ix lib program_id (id_steward_config args) authority] authority)"

definition initialize_whitelist_ix :: "cli_lib \<Rightarrow> Pubkey \<Rightarrow> Pubkey \<Rightarrow> Pubkey \<Rightarrow> command_ix" where
  "initialize_whitelist_ix lib program_id config authority =
     \<lparr>ix_program = program_id,
      ix_accounts = [Meta ''config'' config,
        Meta ''directed_stake_whitelist'' (cl_find_program_address lib [seed ''whitelist'', config] program_id),
        Meta ''system_program'' (cl_system_program lib), SignerMeta ''authority'' authority],
      ix_data = InitializeDirectedStakeWhitelistData\<rparr>"

definition command_init_directed_stake_whitelist ::
  "'w CliClient \<Rightarrow> cli_lib \<Rightarrow> Pubkey \<Rightarrow> InitDirectedArgs \<Rightarrow> ('w, outcome) command" where
  "command_init_directed_stake_whitelist c lib program_id args =
     crank_bind (read_keypair lib (id_authority_keypair_path args)) (\<lambda>authority.
     finish_single c (id_transaction_parameters args)
       [initialize_whitelist_ix lib program_id (id_steward_config args) authority] authority)"

record InitTicketArgs =
  it_permissioned_parameters :: PermissionedParameters
  it_ticket_update_authority :: Pubkey
  it_ticket_holder_is_protocol :: bool

definition initialize_ticket_ix :: "cli_lib \<Rightarrow> Pubkey \<Rightarrow> Pubkey \<Rightarrow> Pubkey \<Rightarrow> Pubkey \<Rightarrow> bool \<Rightarrow> command_ix" where
  "initialize_ticket_ix lib program_id config signer ticket_authority is_protocol =
     \<lparr>ix_program = program_id,
      ix_accounts = [Meta ''config'' config,
        Meta ''whitelist_account'' (get_directed_stake_whitelist_address lib config program_id),
        Meta ''ticket_account'' (get_directed_stake_ticket_address lib config ticket_authority program_id),
        Meta ''system_program'' (cl_system_program lib), SignerMeta ''signer'' signer],
      ix_data = InitializeDirectedStakeTicketData ticket_authority is_protocol\<rparr>"

definition command_init_directed_stake_ticket ::
  "'w CliClient \<Rightarrow> cli_lib \<Rightarrow> Pubkey \<Rightarrow> InitTicketArgs \<Rightarrow> ('w, outcome) command" where
  "command_init_directed_stake_ticket c lib program_id args =
     (let p = it_permissioned_parameters args; tp = pd_transaction_parameters p in
     crank_bind (read_keypair lib (pd_authority_keypair_path p)) (\<lambda>keypair.
     crank_bind (if tp_print_tx tp
         then crank_bind (crank_map_err CliTransactionError (get_steward_config_account c lib (pd_steward_config p)))
           (\<lambda>cfg. crank_return (c_directed_stake_ticket_override_authority cfg))
         else crank_return keypair) (\<lambda>authority.
     let ixs = configured tp [initialize_ticket_ix lib program_id (pd_steward_config p) authority
           (it_ticket_update_authority args) (it_ticket_holder_is_protocol args)] in
     if tp_print_tx tp then crank_return (Printed [ixs])
     else crank_bind (latest_blockhash c) (\<lambda>blockhash.
       crank_bind (crank_pure (sign_command c ixs authority [keypair] blockhash)) (send_and_confirm c)))))"

section \<open>Growing accounts\<close>

definition REALLOCS_PER_TX :: nat where "REALLOCS_PER_TX = 10"

text \<open>
  \<^verbatim>\<open>_realloc_x_times\<close>: one transaction with the same instruction several times. When it is only
  printed, the signature is the default one.
\<close>

definition realloc_x_times ::
  "'w CliClient \<Rightarrow> TransactionParameters \<Rightarrow> Pubkey \<Rightarrow> command_ix \<Rightarrow> nat \<Rightarrow> ('w, outcome) command" where
  "realloc_x_times c tp authority ix n = finish_single c tp (replicate n ix) authority"

text \<open>The loop over the transactions; the outcomes are collected.\<close>

function realloc_loop ::
  "'w CliClient \<Rightarrow> TransactionParameters \<Rightarrow> Pubkey \<Rightarrow> command_ix \<Rightarrow> nat \<Rightarrow> outcome list \<Rightarrow> ('w, outcome list) command" where
  "realloc_loop c tp authority ix left_to_run acc =
     (if left_to_run = 0 then crank_return acc
      else
        let n = min left_to_run REALLOCS_PER_TX in
        crank_bind (realloc_x_times c tp authority ix n) (\<lambda>out.
        realloc_loop c tp authority ix (left_to_run - n) (acc @ [out])))"
  by pat_completeness auto
termination
  by (relation "measure (\<lambda>(c, tp, authority, ix, left_to_run, acc). left_to_run)") (auto simp: REALLOCS_PER_TX_def)

declare realloc_loop.simps [simp del]

definition whats_left :: "nat \<Rightarrow> nat \<Rightarrow> nat" where
  "whats_left full_size data_length = full_size - min data_length full_size"

text \<open>The number of allocations as the command for the state computes it, and as the other two do.\<close>

definition reallocs_rounded_down :: "nat \<Rightarrow> nat" where
  "reallocs_rounded_down n = (max n MAX_ALLOC_BYTES - MAX_ALLOC_BYTES) div MAX_ALLOC_BYTES + 1"

definition reallocs_rounded_up :: "nat \<Rightarrow> nat" where
  "reallocs_rounded_up n = (n + MAX_ALLOC_BYTES - 1) div MAX_ALLOC_BYTES"

definition realloc_ix :: "cli_lib \<Rightarrow> Pubkey \<Rightarrow> string \<Rightarrow> Pubkey \<Rightarrow> Pubkey \<Rightarrow> Pubkey \<Rightarrow> Pubkey \<Rightarrow> command_data \<Rightarrow> command_ix" where
  "realloc_ix lib program_id name account config validator_list signer kind =
     \<lparr>ix_program = program_id,
      ix_accounts = [Meta name account, Meta ''config'' config, Meta ''validator_list'' validator_list,
        Meta ''system_program'' (cl_system_program lib), SignerMeta ''signer'' signer],
      ix_data = kind\<rparr>"

text \<open>
  What the three commands share: the key, the validator list from the pool of the
  configuration, and the account as it is.
\<close>

definition realloc_setup ::
  "'w CliClient \<Rightarrow> cli_lib \<Rightarrow> PermissionedParameters \<Rightarrow> Pubkey \<Rightarrow> ('w, Pubkey \<times> Pubkey \<times> 8 word list) command" where
  "realloc_setup c lib args account =
     crank_bind (read_keypair_or_panic lib (pd_authority_keypair_path args)) (\<lambda>authority.
     crank_bind (crank_map_err CliTransactionError (get_steward_config_account c lib (pd_steward_config args))) (\<lambda>cfg.
     crank_bind (crank_map_err CliTransactionError (get_stake_pool_account c lib (c_stake_pool cfg))) (\<lambda>pool.
     crank_bind (crank_call CliClientError (rpc_account c account)) (\<lambda>a.
     crank_return (authority, sp_validator_list pool, ac_data a)))))"

definition command_realloc_state ::
  "'w CliClient \<Rightarrow> cli_lib \<Rightarrow> Pubkey \<Rightarrow> PermissionedParameters \<Rightarrow> ('w, outcome list) command" where
  "command_realloc_state c lib program_id args =
     (let state = get_steward_state_address lib program_id (pd_steward_config args) in
     crank_bind (realloc_setup c lib args state) (\<lambda>(authority, validator_list, data).
     if length data = ACCOUNT_END \<and> cl_state_v1_initialized lib data = Some True then crank_return [NothingDone]
     else realloc_loop c (pd_transaction_parameters args) authority
       (realloc_ix lib program_id ''state_account'' state (pd_steward_config args) validator_list authority ReallocStateData)
       (reallocs_rounded_down (whats_left ACCOUNT_END (length data))) []))"

definition command_realloc_directed_stake_meta ::
  "'w CliClient \<Rightarrow> cli_lib \<Rightarrow> Pubkey \<Rightarrow> PermissionedParameters \<Rightarrow> ('w, outcome list) command" where
  "command_realloc_directed_stake_meta c lib program_id args =
     (let meta = get_directed_stake_meta_address lib (pd_steward_config args) program_id in
     crank_bind (realloc_setup c lib args meta) (\<lambda>(authority, validator_list, data).
     if length data = META_SIZE \<and> cl_meta lib data \<noteq> None then crank_return [NothingDone]
     else realloc_loop c (pd_transaction_parameters args) authority
       (realloc_ix lib program_id ''directed_stake_meta'' meta (pd_steward_config args) validator_list authority ReallocDirectedStakeMetaData)
       (reallocs_rounded_up (whats_left META_SIZE (length data))) []))"

definition WHITELIST_SIZE :: nat where
  "WHITELIST_SIZE = 8 + (32 * MAX_PERMISSIONED_DIRECTED_STAKERS + 32 * MAX_PERMISSIONED_DIRECTED_STAKERS + 32 * MAX_VALIDATORS +
     2 + 2 + 2 + 249 + 1)"

definition command_realloc_directed_stake_whitelist ::
  "'w CliClient \<Rightarrow> cli_lib \<Rightarrow> Pubkey \<Rightarrow> PermissionedParameters \<Rightarrow> ('w, outcome list) command" where
  "command_realloc_directed_stake_whitelist c lib program_id args =
     (let whitelist = get_directed_stake_whitelist_address lib (pd_steward_config args) program_id in
     crank_bind (realloc_setup c lib args whitelist) (\<lambda>(authority, validator_list, data).
     if length data = WHITELIST_SIZE \<and> cl_whitelist lib data \<noteq> None then crank_return [NothingDone]
     else realloc_loop c (pd_transaction_parameters args) authority
       (realloc_ix lib program_id ''directed_stake_whitelist'' whitelist (pd_steward_config args) validator_list authority
          ReallocDirectedStakeWhitelistData)
       (reallocs_rounded_up (whats_left WHITELIST_SIZE (length data))) []))"

end
