(* ===== verification/Command_Main.thy ===== *)
theory Command_Main
  imports Command_Cranks Command_Actions Command_Growth
begin

text \<open>
  The entry point of the command line of the steward, utils/steward-cli/src/main.rs: the
  commands and their dispatch, and the two small views \<open>view_next_index_to_remove\<close> and
  \<open>view_blacklist\<close>. The dispatch leaves out the views, which read accounts and print them.
\<close>

section \<open>Views\<close>

definition view_next_index_to_remove :: "'w CliClient \<Rightarrow> cli_lib \<Rightarrow> Pubkey \<Rightarrow> Pubkey \<Rightarrow> ('w, nat option) command" where
  "view_next_index_to_remove c lib program_id config =
     crank_bind (crank_map_err CliTransactionError (get_steward_state_account c lib program_id config)) (\<lambda>s.
     crank_pure (position (\<lambda>i. mask_get_unsafe i (validators_to_remove s)) [0..<num_pool_validators s]))"

definition view_blacklist :: "'w CliClient \<Rightarrow> cli_lib \<Rightarrow> Pubkey \<Rightarrow> Pubkey \<Rightarrow> ('w, (nat \<times> Pubkey) list) command" where
  "view_blacklist c lib program_id config =
     crank_bind (steward_accounts c lib program_id config) (\<lambda>accs.
     crank_bind (crank_map_err CliTransactionError (get_all_validator_history_accounts c lib)) (\<lambda>histories.
     crank_return (map (\<lambda>vh. (vh_index vh, vh_vote_account vh))
       (filter (\<lambda>vh. LargeBitMask_get (vh_index vh) (c_validator_history_blacklist (config_account accs)) = Ok True) histories))))"

section \<open>Dispatch\<close>

datatype (plugins only:) Commands =
    CloseSteward PermissionedParameters
  | InitSteward InitStewardArgs
  | UpdateConfig PermissionedParameters ConfigParameters
  | UpdatePriorityFeeConfig PermissionedParameters ConfigPriorityFeeParameters
  | UpdateAuthority SquadsParameters AuthoritySubcommand
  | SetStaker PermissionedParameters
  | RevertStaker PermissionedParameters
  | Pause PermissionedParameters
  | Resume PermissionedParameters
  | ReallocState PermissionedParameters
  | MigrateStateToV2 PermissionedParameters
  | ResetState PermissionedParameters
  | ResetValidatorLamportBalances PermissionedParameters
  | ManuallyCopyVoteAccount PermissionlessParameters nat
  | ManuallyCopyAllVoteAccounts PermissionlessParameters
  | ManuallyRemoveValidator PermissionedParameters nat
  | InstantRemoveValidator PermissionlessParameters nat
  | AutoRemoveValidatorFromPool PermissionlessParameters nat
  | AutoAddValidatorFromPool PermissionlessParameters Pubkey
  | RemoveBadValidators PermissionedParameters
  | AddToBlacklist BlacklistArgs
  | RemoveFromBlacklist BlacklistArgs
  | UpdateValidatorListBalance PermissionlessParameters nat bool
  | AdminMarkForRemoval AdminMarkForRemovalArgs
  | InitDirectedStakeMeta InitDirectedArgs
  | ReallocDirectedStakeMeta PermissionedParameters
  | InitDirectedStakeWhitelist InitDirectedArgs
  | ReallocDirectedStakeWhitelist PermissionedParameters
  | InitDirectedStakeTicket InitTicketArgs
  | AddToDirectedStakeWhitelist WhitelistArgs
  | UpdateDirectedStakeTicket UpdateTicketArgs
  | CopyDirectedStakeTargets CopyTargetsArgs
  | RemoveFromDirectedStakeWhitelist WhitelistArgs
  | SyncDirectedStakeLamports PermissionedParameters
  | CloseDirectedStakeTicket PermissionedParameters
  | CloseDirectedStakeWhitelist PermissionedParameters
  | CloseDirectedStakeMeta PermissionedParameters
  | MigrateDirectedToAlgorithmic PermissionedParameters
  | CrankSteward PermissionlessParameters
  | CrankEpochMaintenance PermissionlessParameters "nat option"
  | CrankComputeScore PermissionlessParameters
  | CrankComputeDelegations PermissionlessParameters
  | ComputeDirectedStakeMeta PermissionedParameters
  | CrankIdle PermissionlessParameters
  | CrankComputeInstantUnstake PermissionlessParameters
  | CrankRebalance PermissionlessParameters
  | CrankRebalanceDirected PermissionlessParameters
  | CrankUpdateStakePool PermissionlessParameters bool
  | CrankInstantRemoveValidators PermissionlessParameters

text \<open>
  Three commands need the signer that is given for the whole program; one of them fails with an
  error without it, the others with a panic.
\<close>

definition with_signer ::
  "cli_lib \<Rightarrow> string option \<Rightarrow> ('w, string) command \<Rightarrow> (Pubkey \<Rightarrow> ('w, outcome) command) \<Rightarrow> ('w, outcome) command" where
  "with_signer lib global_signer missing run =
     crank_bind (case global_signer of None \<Rightarrow> missing | Some path \<Rightarrow> crank_return path) (\<lambda>path.
     crank_bind (cli_signer lib path) run)"

definition as_list :: "('w, outcome) command \<Rightarrow> ('w, outcome list) command" where
  "as_list m = crank_bind m (\<lambda>out. crank_return [out])"

primrec run_command :: "'w CliClient \<Rightarrow> cli_lib \<Rightarrow> Pubkey \<Rightarrow> string option \<Rightarrow> Commands \<Rightarrow> ('w, outcome list) command" where
  "run_command c lib pid sg (CloseSteward p) = as_list (command_close_steward c lib pid p)"
| "run_command c lib pid sg (InitSteward a) = as_list (command_init_steward c lib pid a)"
| "run_command c lib pid sg (UpdateConfig p params) = as_list (command_update_config c lib pid p params)"
| "run_command c lib pid sg (UpdatePriorityFeeConfig p params) = as_list (command_update_priority_fee_config c lib pid p params)"
| "run_command c lib pid sg (UpdateAuthority sq sub) =
     as_list (with_signer lib sg (lift_sum (Inl SignerRequired)) (\<lambda>k. command_update_authority c lib pid k sq sub))"
| "run_command c lib pid sg (SetStaker p) = as_list (command_set_staker c lib pid p)"
| "run_command c lib pid sg (RevertStaker p) = as_list (command_revert_staker c lib pid p)"
| "run_command c lib pid sg (Pause p) = as_list (command_pause c lib pid p)"
| "run_command c lib pid sg (Resume p) = as_list (command_resume c lib pid p)"
| "run_command c lib pid sg (ReallocState p) = command_realloc_state c lib pid p"
| "run_command c lib pid sg (MigrateStateToV2 p) = as_list (command_migrate_state_to_v2 c lib pid p)"
| "run_command c lib pid sg (ResetState p) = as_list (command_reset_state c lib pid p)"
| "run_command c lib pid sg (ResetValidatorLamportBalances p) = as_list (command_reset_validator_lamport_balances c lib pid p)"
| "run_command c lib pid sg (ManuallyCopyVoteAccount p i) = as_list (command_manually_copy_vote_account c lib pid p i)"
| "run_command c lib pid sg (ManuallyCopyAllVoteAccounts p) = as_list (command_manually_copy_all_vote_accounts c lib pid p)"
| "run_command c lib pid sg (ManuallyRemoveValidator p i) = as_list (command_manually_remove_validator c lib pid p i)"
| "run_command c lib pid sg (InstantRemoveValidator p i) = as_list (command_instant_remove_validator c lib pid p i)"
| "run_command c lib pid sg (AutoRemoveValidatorFromPool p i) = as_list (command_auto_remove_validator_from_pool c lib pid p i)"
| "run_command c lib pid sg (AutoAddValidatorFromPool p k) = as_list (command_auto_add_validator_from_pool c lib pid p k)"
| "run_command c lib pid sg (RemoveBadValidators p) = as_list (command_remove_bad_validators c lib pid p)"
| "run_command c lib pid sg (AddToBlacklist a) =
     as_list (with_signer lib sg (crank_pure (Err Panic)) (\<lambda>k. command_add_to_blacklist c lib pid k a))"
| "run_command c lib pid sg (RemoveFromBlacklist a) =
     as_list (with_signer lib sg (crank_pure (Err Panic)) (\<lambda>k. command_remove_from_blacklist c lib pid k a))"
| "run_command c lib pid sg (UpdateValidatorListBalance p i no_merge) = as_list (command_update_validator_list_balance c lib pid p i no_merge)"
| "run_command c lib pid sg (AdminMarkForRemoval a) = as_list (command_admin_mark_for_removal c lib pid a)"
| "run_command c lib pid sg (InitDirectedStakeMeta a) = as_list (command_init_directed_stake_meta c lib pid a)"
| "run_command c lib pid sg (ReallocDirectedStakeMeta p) = command_realloc_directed_stake_meta c lib pid p"
| "run_command c lib pid sg (InitDirectedStakeWhitelist a) = as_list (command_init_directed_stake_whitelist c lib pid a)"
| "run_command c lib pid sg (ReallocDirectedStakeWhitelist p) = command_realloc_directed_stake_whitelist c lib pid p"
| "run_command c lib pid sg (InitDirectedStakeTicket a) = as_list (command_init_directed_stake_ticket c lib pid a)"
| "run_command c lib pid sg (AddToDirectedStakeWhitelist a) = as_list (command_add_to_directed_stake_whitelist c lib pid a)"
| "run_command c lib pid sg (UpdateDirectedStakeTicket a) = as_list (command_update_directed_stake_ticket c lib pid a)"
| "run_command c lib pid sg (CopyDirectedStakeTargets a) = as_list (command_copy_directed_stake_targets c lib pid a)"
| "run_command c lib pid sg (RemoveFromDirectedStakeWhitelist a) = as_list (command_remove_from_directed_stake_whitelist c lib pid a)"
| "run_command c lib pid sg (SyncDirectedStakeLamports p) = as_list (command_sync_directed_stake_lamports c lib pid p)"
| "run_command c lib pid sg (CloseDirectedStakeTicket p) = as_list (command_close_directed_stake_ticket c lib pid p)"
| "run_command c lib pid sg (CloseDirectedStakeWhitelist p) = as_list (command_close_directed_stake_whitelist c lib pid p)"
| "run_command c lib pid sg (CloseDirectedStakeMeta p) = as_list (command_close_directed_stake_meta c lib pid p)"
| "run_command c lib pid sg (MigrateDirectedToAlgorithmic p) = as_list (command_migrate_directed_to_algorithmic c lib pid p)"
| "run_command c lib pid sg (CrankSteward p) = as_list (command_crank_steward c lib pid p)"
| "run_command c lib pid sg (CrankEpochMaintenance p i) = as_list (command_crank_epoch_maintenance c lib pid p i)"
| "run_command c lib pid sg (CrankComputeScore p) = as_list (command_crank_compute_score c lib pid p)"
| "run_command c lib pid sg (CrankComputeDelegations p) = as_list (command_crank_compute_delegations c lib pid p)"
| "run_command c lib pid sg (ComputeDirectedStakeMeta p) =
     as_list (crank_bind (command_crank_compute_directed_stake_meta c lib pid p) (\<lambda>(out, _). crank_return out))"
| "run_command c lib pid sg (CrankIdle p) = as_list (command_crank_idle c lib pid p)"
| "run_command c lib pid sg (CrankComputeInstantUnstake p) = as_list (command_crank_compute_instant_unstake c lib pid p)"
| "run_command c lib pid sg (CrankRebalance p) = as_list (command_crank_rebalance c lib pid p)"
| "run_command c lib pid sg (CrankRebalanceDirected p) = as_list (command_crank_rebalance_directed c lib pid p)"
| "run_command c lib pid sg (CrankUpdateStakePool p no_merge) = as_list (command_crank_update_stake_pool c lib pid p no_merge)"
| "run_command c lib pid sg (CrankInstantRemoveValidators p) = as_list (command_crank_instant_remove_validators c lib pid p)"

end
