(* ===== verification/Command_Sample.thy ===== *)
theory Command_Sample
  imports Command_Main Ranking
begin

text \<open>
  A small world for the command line, for the witnesses: the addresses are the concatenated
  seeds, the accounts of the steward are recognised by one byte, and a sent transaction makes
  one account grow by an allocation for each of its instructions of a given kind. The world is
  the size of that account and the number of transactions that were sent.
\<close>

definition no_answer :: ClientError where
  "no_answer = \<lparr>ce_kind = CustomKind [], ce_transaction_error = None, ce_text = []\<rparr>"

text \<open>How often an instruction of one kind occurs in a transaction, and what it does to the size.\<close>

definition occurrences :: "command_data \<Rightarrow> command_ix Transaction \<Rightarrow> nat" where
  "occurrences kind tx =
     length (filter (\<lambda>i. case i of Ix ix \<Rightarrow> ix_data ix = kind | _ \<Rightarrow> False) (tx_instructions tx))"

definition grown :: "nat \<Rightarrow> nat \<Rightarrow> nat \<Rightarrow> nat" where
  "grown full n a = (case for_each (\<lambda>_. get_realloc_size full) [0..<n] a of Inl e \<Rightarrow> a | Inr b \<Rightarrow> b)"

definition desk_lib :: cli_lib where
  "desk_lib =
     \<lparr>lib_vote_program = [1], lib_stake_state = (\<lambda>_. None), lib_vote_epochs = (\<lambda>_. None), lib_history = (\<lambda>_. None),
      lib_stake_status = (\<lambda>_. None), lib_max_validators_to_update = 1, lib_parse_pubkey = (\<lambda>_. None),
      lib_show_pubkey = (\<lambda>_. []), lib_history_address = id, lib_stake_address = (\<lambda>v p. v),
      lib_tip_distribution_address = (\<lambda>v e. v), lib_priority_fee_distribution_address = (\<lambda>v e. v),
      lib_cluster_history_address = [], lib_slot_history_sysvar = [], lib_tip_distribution_program = [],
      lib_tip_has_merkle_root = (\<lambda>_. None), lib_slot_history = (\<lambda>_. None), lib_slot_check = (\<lambda>_ _. Found),
      lib_cluster_history = (\<lambda>_. None), lib_history_size = 65848, lib_debug_string = id,
      cl_keypair_file = (\<lambda>path. if path = ''id'' then Some [7] else None), cl_new_keypair = [8], cl_ledger = None,
      cl_steward_id = [20], cl_validator_history_id = [21], cl_stake_pool_id = [22], cl_squads_id = [23],
      cl_system_program = [24], cl_stake_program = [25], cl_token_program = [26], cl_rent = [27], cl_clock = [28],
      cl_stake_history = [29], cl_stake_config = [30],
      cl_find_program_address = (\<lambda>seeds p. concat seeds @ p), cl_find_withdraw_authority = (\<lambda>k. 31 # k),
      cl_find_stake_address = (\<lambda>v p. 32 # v), cl_find_transient_address = (\<lambda>v p n. 33 # v),
      cl_associated_token_address = (\<lambda>k m. 34 # k), cl_vault_pda = (\<lambda>m i p. 35 # m), cl_transaction_pda = (\<lambda>m i p. 36 # m),
      cl_proposal_pda = (\<lambda>m i p. 37 # m), cl_compile_message = (\<lambda>k ixs. Some []),
      cl_config = (\<lambda>d. if d = [1] then Some sample_config else None),
      cl_state = (\<lambda>d. if d = [4] then Some (sample_state, True) else None), cl_state_v1_initialized = (\<lambda>_. None),
      cl_stake_pool = (\<lambda>d. if d = [2] then Some \<lparr>sp_validator_list = [11], sp_reserve_stake = [12], sp_pool_mint = [13],
         sp_manager_fee_account = [14], sp_token_program_id = [15]\<rparr> else None),
      cl_validator_list = (\<lambda>d. if d = [3] then Some [] else None), cl_meta = (\<lambda>_. None), cl_whitelist = (\<lambda>_. None)\<rparr>"

text \<open>The configuration account is \<open>[10]\<close>, the program \<open>[20]\<close>; every other address is the account that grows.\<close>

definition desk_account :: "Pubkey \<Rightarrow> nat \<times> nat \<Rightarrow> Account" where
  "desk_account k w =
     \<lparr>ac_owner = [20],
      ac_data = (if k = [10] then [1] else if k = c_stake_pool sample_config then [2] else if k = [11] then [3]
        else replicate (fst w) 0)\<rparr>"

definition idle_node :: "('w, 'ix) StateClient" where
  "idle_node =
     \<lparr>rpc_latest_blockhash = (\<lambda>w. (Inl no_answer, w)), rpc_send_transaction = (\<lambda>tx w. (Inl no_answer, w)),
      rpc_signature_statuses = (\<lambda>sigs w. (Inl no_answer, w)), rpc_blockhash_valid = (\<lambda>h w. (Inl no_answer, w)),
      rpc_simulate = (\<lambda>tx w. (Inl no_answer, w)), rpc_sleep = (\<lambda>n w. w), sign = (\<lambda>ixs h. []), hash_order = id,
      packet_size = (\<lambda>tx. None), accounts_len = (\<lambda>ix. 0), data_len = (\<lambda>ix. 0),
      rpc_steward_state = (\<lambda>w. (Inl (JitoClientError no_answer), w)), rpc_epoch = (\<lambda>w. (Inl no_answer, w)),
      rpc_reserve_lamports = (\<lambda>w. (Inl no_answer, w)), rpc_stake_rent = (\<lambda>w. (Inl no_answer, w)),
      rpc_directed_stake_meta = (\<lambda>w. (Inl (JitoClientError no_answer), w)), rpc_tickets = (\<lambda>w. (Inl (JitoClientError no_answer), w)),
      rpc_stake_pool_totals = (\<lambda>w. (Inl (JitoClientError no_answer), w)), rpc_token_balance = (\<lambda>k w. (Inl no_answer, w)),
      rpc_validator_list = (\<lambda>w. (Inl (JitoClientError no_answer), w)), kobe_coinbase_balance = (\<lambda>n w. (Inl [], w)),
      rpc_slot = (\<lambda>w. (Inl no_answer, w)), rpc_epoch_info = (\<lambda>w. (Inl no_answer, w)), rpc_epoch_schedule = (\<lambda>w. (Inl no_answer, w)),
      rpc_finalized_account = (\<lambda>k w. (Inl no_answer, w)), rpc_vote_accounts = (\<lambda>w. (Inl no_answer, w)),
      rpc_multiple_accounts = (\<lambda>ks w. (Inl no_answer, w)), rpc_account = (\<lambda>k w. (Inl no_answer, w)),
      rpc_history_accounts = (\<lambda>w. (Inl no_answer, w)), rpc_balance = (\<lambda>w. (Inl no_answer, w)),
      rpc_steward_accounts = (\<lambda>w. (Inl (JitoClientError no_answer), w)), group_order = id\<rparr>"

definition desk :: "command_data \<Rightarrow> nat \<Rightarrow> (nat \<times> nat) CliClient" where
  "desk kind full =
     StateClient.extend (idle_node\<lparr>rpc_latest_blockhash := (\<lambda>w. (Inr [9], w)), rpc_account := (\<lambda>k w. (Inr (desk_account k w), w))\<rparr>)
       (CliClient.fields (\<lambda>tx w. (Inr (tx_signature tx), (grown full (occurrences kind tx) (fst w), Suc (snd w))))
          (\<lambda>k w. (Inl no_answer, w)) (\<lambda>ks ixs h. [99]) idle_node)"

lemma desk_simps [simp]:
  "rpc_latest_blockhash (desk kind full) = (\<lambda>w. (Inr [9], w))"
  "rpc_account (desk kind full) = (\<lambda>k w. (Inr (desk_account k w), w))"
  "rpc_send_and_confirm (desk kind full) =
     (\<lambda>tx w. (Inr (tx_signature tx), (grown full (occurrences kind tx) (fst w), Suc (snd w))))"
  "sign_with (desk kind full) = (\<lambda>ks ixs h. [99])"
  by (simp_all add: desk_def idle_node_def StateClient.extend_def CliClient.fields_def)

definition desk_tp :: "bool \<Rightarrow> TransactionParameters" where
  "desk_tp dry = \<lparr>tp_priority_fee = None, tp_compute_limit = None, tp_heap_size = None, tp_chunk_size = None,
     tp_print_tx = dry, tp_print_gov_tx = False\<rparr>"

definition desk_args :: "bool \<Rightarrow> PermissionedParameters" where
  "desk_args dry = \<lparr>pd_authority_keypair_path = ''id'', pd_authority_pubkey = None, pd_steward_config = [10],
     pd_transaction_parameters = desk_tp dry\<rparr>"

text \<open>The first steps of a command in this world.\<close>

lemma desk_key: "read_keypair_or_panic desk_lib (pd_authority_keypair_path (desk_args dry)) w = Some (Ok (Inr [7], w))"
  by (simp add: read_keypair_or_panic_def crank_pure_def desk_lib_def desk_args_def)

lemma desk_config: "get_steward_config_account (desk kind full) desk_lib (pd_steward_config (desk_args dry)) w = Some (Ok (Inr sample_config, w))"
  by (simp add: get_steward_config_account_def fetch_parsed_def get_account_def crank_bind_def crank_call_def lift_sum_def
      desk_account_def desk_args_def) (simp add: desk_lib_def)

lemma desk_pool:
  "get_stake_pool_account (desk kind full) desk_lib (c_stake_pool sample_config) w =
     Some (Ok (Inr \<lparr>sp_validator_list = [11], sp_reserve_stake = [12], sp_pool_mint = [13],
       sp_manager_fee_account = [14], sp_token_program_id = [15]\<rparr>, w))"
proof -
  have "length (c_stake_pool sample_config) = 32" by (simp add: sample_config_def)
  then have "c_stake_pool sample_config \<noteq> [10]" by auto
  then show ?thesis
    by (simp add: get_stake_pool_account_def fetch_parsed_def get_account_def crank_bind_def crank_call_def lift_sum_def
        desk_account_def) (simp add: desk_lib_def)
qed

lemma desk_setup:
  assumes "k \<notin> {[10], [11], c_stake_pool sample_config}"
  shows "realloc_setup (desk kind full) desk_lib (desk_args dry) k (a, b) = Some (Ok (Inr ([7], [11], replicate a 0), (a, b)))"
  using assms
  by (simp add: realloc_setup_def crank_bind_def crank_map_err_def desk_key desk_config desk_pool crank_call_def desk_account_def crank_return_def)

lemma desk_sends: "\<not> tp_print_tx (pd_transaction_parameters (desk_args False))"
  by (simp add: desk_args_def desk_tp_def)

lemma desk_addresses:
  "get_directed_stake_meta_address desk_lib (pd_steward_config (desk_args dry)) [20] \<notin> {[10], [11], c_stake_pool sample_config}"
  "get_steward_state_address desk_lib [20] (pd_steward_config (desk_args dry)) \<notin> {[10], [11], c_stake_pool sample_config}"
proof -
  have "length (get_directed_stake_meta_address desk_lib (pd_steward_config (desk_args dry)) [20]) = 6"
    "length (get_steward_state_address desk_lib [20] (pd_steward_config (desk_args dry))) = 15"
    by (simp_all add: get_directed_stake_meta_address_def get_steward_state_address_def desk_args_def seed_def) (simp_all add: desk_lib_def)
  moreover have "length (c_stake_pool sample_config) = 32" by (simp add: sample_config_def)
  ultimately show "get_directed_stake_meta_address desk_lib (pd_steward_config (desk_args dry)) [20] \<notin> {[10], [11], c_stake_pool sample_config}"
    "get_steward_state_address desk_lib [20] (pd_steward_config (desk_args dry)) \<notin> {[10], [11], c_stake_pool sample_config}"
    by auto
qed

end
