(* ===== verification/Command_Properties.thy ===== *)
theory Command_Properties
  imports Command_Sample
begin

text \<open>
  Dry runs of the command line of the steward: with the flags that only print, a command sends
  nothing and shows what it would send, and which commands do not look at the flags.
\<close>

section \<open>Dry runs\<close>

text \<open>
  The transaction parameters of a command, with the two flags that ask to print instead of
  running: \<^verbatim>\<open>--print-tx\<close> and \<^verbatim>\<open>--print-gov-tx\<close>.
\<close>

primrec transaction_parameters :: "Commands \<Rightarrow> TransactionParameters" where
  "transaction_parameters (CloseSteward p) = pd_transaction_parameters p"
| "transaction_parameters (InitSteward a) = is_transaction_parameters a"
| "transaction_parameters (UpdateConfig p params) = pd_transaction_parameters p"
| "transaction_parameters (UpdatePriorityFeeConfig p params) = pd_transaction_parameters p"
| "transaction_parameters (UpdateAuthority sq sub) = pd_transaction_parameters (fst (authority_change sub))"
| "transaction_parameters (SetStaker p) = pd_transaction_parameters p"
| "transaction_parameters (RevertStaker p) = pd_transaction_parameters p"
| "transaction_parameters (Pause p) = pd_transaction_parameters p"
| "transaction_parameters (Resume p) = pd_transaction_parameters p"
| "transaction_parameters (ReallocState p) = pd_transaction_parameters p"
| "transaction_parameters (MigrateStateToV2 p) = pd_transaction_parameters p"
| "transaction_parameters (ResetState p) = pd_transaction_parameters p"
| "transaction_parameters (ResetValidatorLamportBalances p) = pd_transaction_parameters p"
| "transaction_parameters (ManuallyCopyVoteAccount q i) = pl_transaction_parameters q"
| "transaction_parameters (ManuallyCopyAllVoteAccounts q) = pl_transaction_parameters q"
| "transaction_parameters (ManuallyRemoveValidator p i) = pd_transaction_parameters p"
| "transaction_parameters (InstantRemoveValidator q i) = pl_transaction_parameters q"
| "transaction_parameters (AutoRemoveValidatorFromPool q i) = pl_transaction_parameters q"
| "transaction_parameters (AutoAddValidatorFromPool q k) = pl_transaction_parameters q"
| "transaction_parameters (RemoveBadValidators p) = pd_transaction_parameters p"
| "transaction_parameters (AddToBlacklist a) = pd_transaction_parameters (ba_permissioned_parameters a)"
| "transaction_parameters (RemoveFromBlacklist a) = pd_transaction_parameters (ba_permissioned_parameters a)"
| "transaction_parameters (UpdateValidatorListBalance q i no_merge) = pl_transaction_parameters q"
| "transaction_parameters (AdminMarkForRemoval a) = pd_transaction_parameters (am_permissioned_parameters a)"
| "transaction_parameters (InitDirectedStakeMeta a) = id_transaction_parameters a"
| "transaction_parameters (ReallocDirectedStakeMeta p) = pd_transaction_parameters p"
| "transaction_parameters (InitDirectedStakeWhitelist a) = id_transaction_parameters a"
| "transaction_parameters (ReallocDirectedStakeWhitelist p) = pd_transaction_parameters p"
| "transaction_parameters (InitDirectedStakeTicket a) = pd_transaction_parameters (it_permissioned_parameters a)"
| "transaction_parameters (AddToDirectedStakeWhitelist a) = wa_transaction_parameters a"
| "transaction_parameters (UpdateDirectedStakeTicket a) = pd_transaction_parameters (ut_permissioned_parameters a)"
| "transaction_parameters (CopyDirectedStakeTargets a) = pd_transaction_parameters (ct_permissioned_parameters a)"
| "transaction_parameters (RemoveFromDirectedStakeWhitelist a) = wa_transaction_parameters a"
| "transaction_parameters (SyncDirectedStakeLamports p) = pd_transaction_parameters p"
| "transaction_parameters (CloseDirectedStakeTicket p) = pd_transaction_parameters p"
| "transaction_parameters (CloseDirectedStakeWhitelist p) = pd_transaction_parameters p"
| "transaction_parameters (CloseDirectedStakeMeta p) = pd_transaction_parameters p"
| "transaction_parameters (MigrateDirectedToAlgorithmic p) = pd_transaction_parameters p"
| "transaction_parameters (CrankSteward q) = pl_transaction_parameters q"
| "transaction_parameters (CrankEpochMaintenance q i) = pl_transaction_parameters q"
| "transaction_parameters (CrankComputeScore q) = pl_transaction_parameters q"
| "transaction_parameters (CrankComputeDelegations q) = pl_transaction_parameters q"
| "transaction_parameters (ComputeDirectedStakeMeta p) = pd_transaction_parameters p"
| "transaction_parameters (CrankIdle q) = pl_transaction_parameters q"
| "transaction_parameters (CrankComputeInstantUnstake q) = pl_transaction_parameters q"
| "transaction_parameters (CrankRebalance q) = pl_transaction_parameters q"
| "transaction_parameters (CrankRebalanceDirected q) = pl_transaction_parameters q"
| "transaction_parameters (CrankUpdateStakePool q no_merge) = pl_transaction_parameters q"
| "transaction_parameters (CrankInstantRemoveValidators q) = pl_transaction_parameters q"

text \<open>A command is a dry run when one of the flags is given.\<close>

definition dry_run :: "Commands \<Rightarrow> bool" where
  "dry_run cmd \<longleftrightarrow> prints (transaction_parameters cmd)"

text \<open>
  The commands that accept the flags and never look at them: three cranks, and
  \<^verbatim>\<open>admin-mark-for-removal\<close>, which has a flag of its own that sends. Only the commands of the
  second list look at \<^verbatim>\<open>--print-gov-tx\<close>.
\<close>

fun ignores_both_flags :: "Commands \<Rightarrow> bool" where
  "ignores_both_flags (CrankSteward q) \<longleftrightarrow> True"
| "ignores_both_flags (CrankInstantRemoveValidators q) \<longleftrightarrow> True"
| "ignores_both_flags (UpdateValidatorListBalance q i no_merge) \<longleftrightarrow> True"
| "ignores_both_flags (AdminMarkForRemoval a) \<longleftrightarrow> am_submit_ix a"
| "ignores_both_flags _ \<longleftrightarrow> False"

fun knows_gov_flag :: "Commands \<Rightarrow> bool" where
  "knows_gov_flag (UpdateConfig p params) \<longleftrightarrow> True"
| "knows_gov_flag (UpdatePriorityFeeConfig p params) \<longleftrightarrow> True"
| "knows_gov_flag (UpdateAuthority sq sub) \<longleftrightarrow> True"
| "knows_gov_flag (SetStaker p) \<longleftrightarrow> True"
| "knows_gov_flag (AddToBlacklist a) \<longleftrightarrow> True"
| "knows_gov_flag (RemoveFromBlacklist a) \<longleftrightarrow> True"
| "knows_gov_flag (UpdateDirectedStakeTicket a) \<longleftrightarrow> True"
| "knows_gov_flag (CopyDirectedStakeTargets a) \<longleftrightarrow> True"
| "knows_gov_flag (ComputeDirectedStakeMeta p) \<longleftrightarrow> True"
| "knows_gov_flag _ \<longleftrightarrow> False"

definition ignores_its_flags :: "Commands \<Rightarrow> bool" where
  "ignores_its_flags cmd \<longleftrightarrow> ignores_both_flags cmd \<or>
     \<not> tp_print_tx (transaction_parameters cmd) \<and> \<not> knows_gov_flag cmd"

text \<open>The same command with other transaction parameters, and without the flags.\<close>

primrec at_authority :: "(TransactionParameters \<Rightarrow> TransactionParameters) \<Rightarrow> AuthoritySubcommand \<Rightarrow> AuthoritySubcommand" where
  "at_authority f (BlacklistSub p k) = BlacklistSub (pd_transaction_parameters_update f p) k"
| "at_authority f (AdminSub p k) = AdminSub (pd_transaction_parameters_update f p) k"
| "at_authority f (ParametersSub p k) = ParametersSub (pd_transaction_parameters_update f p) k"
| "at_authority f (PriorityFeeParametersSub p k) = PriorityFeeParametersSub (pd_transaction_parameters_update f p) k"
| "at_authority f (DirectedStakeMetaUploadSub p k) = DirectedStakeMetaUploadSub (pd_transaction_parameters_update f p) k"
| "at_authority f (DirectedStakeWhitelistSub p k) = DirectedStakeWhitelistSub (pd_transaction_parameters_update f p) k"
| "at_authority f (DirectedStakeTicketOverrideAuthoritySub p k) = DirectedStakeTicketOverrideAuthoritySub (pd_transaction_parameters_update f p) k"

primrec at_parameters :: "(TransactionParameters \<Rightarrow> TransactionParameters) \<Rightarrow> Commands \<Rightarrow> Commands" where
  "at_parameters f (CloseSteward p) = CloseSteward (pd_transaction_parameters_update f p)"
| "at_parameters f (InitSteward a) = InitSteward (is_transaction_parameters_update f a)"
| "at_parameters f (UpdateConfig p params) = UpdateConfig (pd_transaction_parameters_update f p) params"
| "at_parameters f (UpdatePriorityFeeConfig p params) = UpdatePriorityFeeConfig (pd_transaction_parameters_update f p) params"
| "at_parameters f (UpdateAuthority sq sub) = UpdateAuthority sq (at_authority f sub)"
| "at_parameters f (SetStaker p) = SetStaker (pd_transaction_parameters_update f p)"
| "at_parameters f (RevertStaker p) = RevertStaker (pd_transaction_parameters_update f p)"
| "at_parameters f (Pause p) = Pause (pd_transaction_parameters_update f p)"
| "at_parameters f (Resume p) = Resume (pd_transaction_parameters_update f p)"
| "at_parameters f (ReallocState p) = ReallocState (pd_transaction_parameters_update f p)"
| "at_parameters f (MigrateStateToV2 p) = MigrateStateToV2 (pd_transaction_parameters_update f p)"
| "at_parameters f (ResetState p) = ResetState (pd_transaction_parameters_update f p)"
| "at_parameters f (ResetValidatorLamportBalances p) = ResetValidatorLamportBalances (pd_transaction_parameters_update f p)"
| "at_parameters f (ManuallyCopyVoteAccount q i) = ManuallyCopyVoteAccount (pl_transaction_parameters_update f q) i"
| "at_parameters f (ManuallyCopyAllVoteAccounts q) = ManuallyCopyAllVoteAccounts (pl_transaction_parameters_update f q)"
| "at_parameters f (ManuallyRemoveValidator p i) = ManuallyRemoveValidator (pd_transaction_parameters_update f p) i"
| "at_parameters f (InstantRemoveValidator q i) = InstantRemoveValidator (pl_transaction_parameters_update f q) i"
| "at_parameters f (AutoRemoveValidatorFromPool q i) = AutoRemoveValidatorFromPool (pl_transaction_parameters_update f q) i"
| "at_parameters f (AutoAddValidatorFromPool q k) = AutoAddValidatorFromPool (pl_transaction_parameters_update f q) k"
| "at_parameters f (RemoveBadValidators p) = RemoveBadValidators (pd_transaction_parameters_update f p)"
| "at_parameters f (AddToBlacklist a) = AddToBlacklist (ba_permissioned_parameters_update (pd_transaction_parameters_update f) a)"
| "at_parameters f (RemoveFromBlacklist a) = RemoveFromBlacklist (ba_permissioned_parameters_update (pd_transaction_parameters_update f) a)"
| "at_parameters f (UpdateValidatorListBalance q i no_merge) = UpdateValidatorListBalance (pl_transaction_parameters_update f q) i no_merge"
| "at_parameters f (AdminMarkForRemoval a) = AdminMarkForRemoval (am_permissioned_parameters_update (pd_transaction_parameters_update f) a)"
| "at_parameters f (InitDirectedStakeMeta a) = InitDirectedStakeMeta (id_transaction_parameters_update f a)"
| "at_parameters f (ReallocDirectedStakeMeta p) = ReallocDirectedStakeMeta (pd_transaction_parameters_update f p)"
| "at_parameters f (InitDirectedStakeWhitelist a) = InitDirectedStakeWhitelist (id_transaction_parameters_update f a)"
| "at_parameters f (ReallocDirectedStakeWhitelist p) = ReallocDirectedStakeWhitelist (pd_transaction_parameters_update f p)"
| "at_parameters f (InitDirectedStakeTicket a) = InitDirectedStakeTicket (it_permissioned_parameters_update (pd_transaction_parameters_update f) a)"
| "at_parameters f (AddToDirectedStakeWhitelist a) = AddToDirectedStakeWhitelist (wa_transaction_parameters_update f a)"
| "at_parameters f (UpdateDirectedStakeTicket a) = UpdateDirectedStakeTicket (ut_permissioned_parameters_update (pd_transaction_parameters_update f) a)"
| "at_parameters f (CopyDirectedStakeTargets a) = CopyDirectedStakeTargets (ct_permissioned_parameters_update (pd_transaction_parameters_update f) a)"
| "at_parameters f (RemoveFromDirectedStakeWhitelist a) = RemoveFromDirectedStakeWhitelist (wa_transaction_parameters_update f a)"
| "at_parameters f (SyncDirectedStakeLamports p) = SyncDirectedStakeLamports (pd_transaction_parameters_update f p)"
| "at_parameters f (CloseDirectedStakeTicket p) = CloseDirectedStakeTicket (pd_transaction_parameters_update f p)"
| "at_parameters f (CloseDirectedStakeWhitelist p) = CloseDirectedStakeWhitelist (pd_transaction_parameters_update f p)"
| "at_parameters f (CloseDirectedStakeMeta p) = CloseDirectedStakeMeta (pd_transaction_parameters_update f p)"
| "at_parameters f (MigrateDirectedToAlgorithmic p) = MigrateDirectedToAlgorithmic (pd_transaction_parameters_update f p)"
| "at_parameters f (CrankSteward q) = CrankSteward (pl_transaction_parameters_update f q)"
| "at_parameters f (CrankEpochMaintenance q i) = CrankEpochMaintenance (pl_transaction_parameters_update f q) i"
| "at_parameters f (CrankComputeScore q) = CrankComputeScore (pl_transaction_parameters_update f q)"
| "at_parameters f (CrankComputeDelegations q) = CrankComputeDelegations (pl_transaction_parameters_update f q)"
| "at_parameters f (ComputeDirectedStakeMeta p) = ComputeDirectedStakeMeta (pd_transaction_parameters_update f p)"
| "at_parameters f (CrankIdle q) = CrankIdle (pl_transaction_parameters_update f q)"
| "at_parameters f (CrankComputeInstantUnstake q) = CrankComputeInstantUnstake (pl_transaction_parameters_update f q)"
| "at_parameters f (CrankRebalance q) = CrankRebalance (pl_transaction_parameters_update f q)"
| "at_parameters f (CrankRebalanceDirected q) = CrankRebalanceDirected (pl_transaction_parameters_update f q)"
| "at_parameters f (CrankUpdateStakePool q no_merge) = CrankUpdateStakePool (pl_transaction_parameters_update f q) no_merge"
| "at_parameters f (CrankInstantRemoveValidators q) = CrankInstantRemoveValidators (pl_transaction_parameters_update f q)"

definition no_print :: "TransactionParameters \<Rightarrow> TransactionParameters" where
  "no_print tp = tp\<lparr>tp_print_tx := False, tp_print_gov_tx := False\<rparr>"

text \<open>The flag that makes a command print, command by command.\<close>

primrec only_prints :: "Commands \<Rightarrow> bool" where
  "only_prints (CloseSteward p) \<longleftrightarrow> tp_print_tx (pd_transaction_parameters p)"
| "only_prints (InitSteward a) \<longleftrightarrow> tp_print_tx (is_transaction_parameters a)"
| "only_prints (UpdateConfig p params) \<longleftrightarrow> prints (pd_transaction_parameters p)"
| "only_prints (UpdatePriorityFeeConfig p params) \<longleftrightarrow> prints (pd_transaction_parameters p)"
| "only_prints (UpdateAuthority sq sub) \<longleftrightarrow> prints (pd_transaction_parameters (fst (authority_change sub)))"
| "only_prints (SetStaker p) \<longleftrightarrow> prints (pd_transaction_parameters p)"
| "only_prints (RevertStaker p) \<longleftrightarrow> tp_print_tx (pd_transaction_parameters p)"
| "only_prints (Pause p) \<longleftrightarrow> tp_print_tx (pd_transaction_parameters p)"
| "only_prints (Resume p) \<longleftrightarrow> tp_print_tx (pd_transaction_parameters p)"
| "only_prints (ReallocState p) \<longleftrightarrow> tp_print_tx (pd_transaction_parameters p)"
| "only_prints (MigrateStateToV2 p) \<longleftrightarrow> tp_print_tx (pd_transaction_parameters p)"
| "only_prints (ResetState p) \<longleftrightarrow> tp_print_tx (pd_transaction_parameters p)"
| "only_prints (ResetValidatorLamportBalances p) \<longleftrightarrow> tp_print_tx (pd_transaction_parameters p)"
| "only_prints (ManuallyCopyVoteAccount q i) \<longleftrightarrow> tp_print_tx (pl_transaction_parameters q)"
| "only_prints (ManuallyCopyAllVoteAccounts q) \<longleftrightarrow> tp_print_tx (pl_transaction_parameters q)"
| "only_prints (ManuallyRemoveValidator p i) \<longleftrightarrow> tp_print_tx (pd_transaction_parameters p)"
| "only_prints (InstantRemoveValidator q i) \<longleftrightarrow> tp_print_tx (pl_transaction_parameters q)"
| "only_prints (AutoRemoveValidatorFromPool q i) \<longleftrightarrow> tp_print_tx (pl_transaction_parameters q)"
| "only_prints (AutoAddValidatorFromPool q k) \<longleftrightarrow> tp_print_tx (pl_transaction_parameters q)"
| "only_prints (RemoveBadValidators p) \<longleftrightarrow> tp_print_tx (pd_transaction_parameters p)"
| "only_prints (AddToBlacklist a) \<longleftrightarrow> prints (pd_transaction_parameters (ba_permissioned_parameters a))"
| "only_prints (RemoveFromBlacklist a) \<longleftrightarrow> prints (pd_transaction_parameters (ba_permissioned_parameters a))"
| "only_prints (UpdateValidatorListBalance q i no_merge) \<longleftrightarrow> False"
| "only_prints (AdminMarkForRemoval a) \<longleftrightarrow> \<not> am_submit_ix a"
| "only_prints (InitDirectedStakeMeta a) \<longleftrightarrow> tp_print_tx (id_transaction_parameters a)"
| "only_prints (ReallocDirectedStakeMeta p) \<longleftrightarrow> tp_print_tx (pd_transaction_parameters p)"
| "only_prints (InitDirectedStakeWhitelist a) \<longleftrightarrow> tp_print_tx (id_transaction_parameters a)"
| "only_prints (ReallocDirectedStakeWhitelist p) \<longleftrightarrow> tp_print_tx (pd_transaction_parameters p)"
| "only_prints (InitDirectedStakeTicket a) \<longleftrightarrow> tp_print_tx (pd_transaction_parameters (it_permissioned_parameters a))"
| "only_prints (AddToDirectedStakeWhitelist a) \<longleftrightarrow> tp_print_tx (wa_transaction_parameters a)"
| "only_prints (UpdateDirectedStakeTicket a) \<longleftrightarrow> prints (pd_transaction_parameters (ut_permissioned_parameters a))"
| "only_prints (CopyDirectedStakeTargets a) \<longleftrightarrow> prints (pd_transaction_parameters (ct_permissioned_parameters a))"
| "only_prints (RemoveFromDirectedStakeWhitelist a) \<longleftrightarrow> tp_print_tx (wa_transaction_parameters a)"
| "only_prints (SyncDirectedStakeLamports p) \<longleftrightarrow> tp_print_tx (pd_transaction_parameters p)"
| "only_prints (CloseDirectedStakeTicket p) \<longleftrightarrow> tp_print_tx (pd_transaction_parameters p)"
| "only_prints (CloseDirectedStakeWhitelist p) \<longleftrightarrow> tp_print_tx (pd_transaction_parameters p)"
| "only_prints (CloseDirectedStakeMeta p) \<longleftrightarrow> tp_print_tx (pd_transaction_parameters p)"
| "only_prints (MigrateDirectedToAlgorithmic p) \<longleftrightarrow> tp_print_tx (pd_transaction_parameters p)"
| "only_prints (CrankSteward q) \<longleftrightarrow> False"
| "only_prints (CrankEpochMaintenance q i) \<longleftrightarrow> tp_print_tx (pl_transaction_parameters q)"
| "only_prints (CrankComputeScore q) \<longleftrightarrow> tp_print_tx (pl_transaction_parameters q)"
| "only_prints (CrankComputeDelegations q) \<longleftrightarrow> tp_print_tx (pl_transaction_parameters q)"
| "only_prints (ComputeDirectedStakeMeta p) \<longleftrightarrow> prints (pd_transaction_parameters p)"
| "only_prints (CrankIdle q) \<longleftrightarrow> tp_print_tx (pl_transaction_parameters q)"
| "only_prints (CrankComputeInstantUnstake q) \<longleftrightarrow> tp_print_tx (pl_transaction_parameters q)"
| "only_prints (CrankRebalance q) \<longleftrightarrow> tp_print_tx (pl_transaction_parameters q)"
| "only_prints (CrankRebalanceDirected q) \<longleftrightarrow> tp_print_tx (pl_transaction_parameters q)"
| "only_prints (CrankUpdateStakePool q no_merge) \<longleftrightarrow> tp_print_tx (pl_transaction_parameters q)"
| "only_prints (CrankInstantRemoveValidators q) \<longleftrightarrow> False"

text \<open>
  A node that treats the transactions that it is sent in another way. A command whose runs are
  the same with both nodes sends nothing.
\<close>

definition sending_otherwise ::
  "(command_ix Transaction \<Rightarrow> 'w \<Rightarrow> (ClientError + Signature) \<times> 'w) \<Rightarrow>
   (command_ix Transaction \<Rightarrow> 'w \<Rightarrow> (ClientError + Signature) \<times> 'w) \<Rightarrow>
   (keeper_ix Transaction \<Rightarrow> 'w \<Rightarrow> (ClientError + Signature) \<times> 'w) \<Rightarrow> 'w CliClient \<Rightarrow> 'w CliClient" where
  "sending_otherwise f g h c =
     c\<lparr>rpc_send_transaction := f, rpc_send_and_confirm := g,
       keeper_node := (keeper_node c)\<lparr>rpc_send_transaction := h\<rparr>\<rparr>"

section \<open>Reading\<close>

named_theorems reads \<open>computations that send nothing\<close>

lemma keeper_node_update [simp]:
  "rpc_account (c\<lparr>keeper_node := k\<rparr>) = rpc_account c"
  "rpc_latest_blockhash (c\<lparr>keeper_node := k\<rparr>) = rpc_latest_blockhash c"
  "rpc_epoch (c\<lparr>keeper_node := k\<rparr>) = rpc_epoch c"
  "rpc_stake_rent (c\<lparr>keeper_node := k\<rparr>) = rpc_stake_rent c"
  "rpc_tickets (c\<lparr>keeper_node := k\<rparr>) = rpc_tickets c"
  "rpc_multiple_accounts (c\<lparr>keeper_node := k\<rparr>) = rpc_multiple_accounts c"
  by (cases c, simp)+

lemma node_reads [reads]:
  "rpc_account (sending_otherwise f g h c) = rpc_account c"
  "rpc_latest_blockhash (sending_otherwise f g h c) = rpc_latest_blockhash c"
  "rpc_epoch (sending_otherwise f g h c) = rpc_epoch c"
  "rpc_stake_rent (sending_otherwise f g h c) = rpc_stake_rent c"
  "rpc_tickets (sending_otherwise f g h c) = rpc_tickets c"
  "rpc_multiple_accounts (sending_otherwise f g h c) = rpc_multiple_accounts c"
  "rpc_multisig_index (sending_otherwise f g h c) = rpc_multisig_index c"
  "sign_with (sending_otherwise f g h c) = sign_with c"
  "keeper_node (sending_otherwise f g h c) = (keeper_node c)\<lparr>rpc_send_transaction := h\<rparr>"
  by (simp_all add: sending_otherwise_def)

lemma account_reads [reads]:
  "get_account (sending_otherwise f g h c) = get_account c"
  "fetch_parsed (sending_otherwise f g h c) = fetch_parsed c"
  "get_steward_config_account (sending_otherwise f g h c) = get_steward_config_account c"
  "get_steward_state_account (sending_otherwise f g h c) = get_steward_state_account c"
  "get_stake_pool_account (sending_otherwise f g h c) = get_stake_pool_account c"
  "get_validator_list_account (sending_otherwise f g h c) = get_validator_list_account c"
  "get_directed_stake_meta (sending_otherwise f g h c) = get_directed_stake_meta c"
  "get_all_steward_accounts (sending_otherwise f g h c) = get_all_steward_accounts c"
  "steward_accounts (sending_otherwise f g h c) = steward_accounts c"
  "config_of (sending_otherwise f g h c) = config_of c"
  by (simp_all add: fun_eq_iff get_account_def fetch_parsed_def get_steward_config_account_def get_steward_state_account_def
      get_stake_pool_account_def get_validator_list_account_def get_directed_stake_meta_def get_all_steward_accounts_def
      steward_accounts_def config_of_def reads)

lemma batch_reads [reads]: "get_multiple_accounts_batched (sending_otherwise f g h c) = get_multiple_accounts_batched c"
proof -
  have "get_multiple_accounts_with_retry (sending_otherwise f g h c) = get_multiple_accounts_with_retry c"
    by (intro ext) (simp add: get_multiple_accounts_with_retry_def reads)
  then show ?thesis by (intro ext) (simp add: get_multiple_accounts_batched_def)
qed

lemma authority_reads [reads]: "authority_or_config (sending_otherwise f g h c) = authority_or_config c"
  by (intro ext) (simp add: authority_or_config_def reads split: option.split)

lemma key_reads [reads]:
  "latest_blockhash (sending_otherwise f g h c) = latest_blockhash c"
  "latest_blockhash_or_panic (sending_otherwise f g h c) = latest_blockhash_or_panic c"
  "sign_command (sending_otherwise f g h c) = sign_command c"
  by (simp_all add: fun_eq_iff latest_blockhash_def latest_blockhash_or_panic_def sign_command_def reads)

lemma oracle_reads [reads]:
  "get_token_balance ((k :: ('w, keeper_ix) StateClient)\<lparr>rpc_send_transaction := h\<rparr>) = get_token_balance k"
  "collect_balances (k\<lparr>rpc_send_transaction := h\<rparr>) ts bs = collect_balances k ts bs"
  "compute_directed_stake_meta (k\<lparr>rpc_send_transaction := h\<rparr>) = compute_directed_stake_meta k"
proof -
  show balance: "get_token_balance (k\<lparr>rpc_send_transaction := h\<rparr>) = get_token_balance k" for k :: "('w, keeper_ix) StateClient"
    by (simp add: fun_eq_iff get_token_balance_def)
  show collect: "collect_balances (k\<lparr>rpc_send_transaction := h\<rparr>) ts bs = collect_balances k ts bs" for ts bs
    by (induction ts arbitrary: bs) (simp_all add: balance)
  show "compute_directed_stake_meta (k\<lparr>rpc_send_transaction := h\<rparr>) = compute_directed_stake_meta k"
    by (simp add: compute_directed_stake_meta_def collect)
qed

lemma ticket_reads [reads]:
  "balance_of (sending_otherwise f g h c) = balance_of c"
  "summarize_ticket (sending_otherwise f g h c) = summarize_ticket c"
  "summarize_tickets (sending_otherwise f g h c) = summarize_tickets c"
proof -
  show balance: "balance_of (sending_otherwise f g h c) = balance_of c"
    by (intro ext) (simp add: balance_of_def reads)
  show ticket: "summarize_ticket (sending_otherwise f g h c) = summarize_ticket c"
    by (intro ext) (simp add: summarize_ticket_def balance)
  show "summarize_tickets (sending_otherwise f g h c) = summarize_tickets c"
    by (intro ext) (simp add: summarize_tickets_def ticket)
qed

lemma push_reads [reads]: "push_history_index (sending_otherwise f g h c) = push_history_index c"
  by (simp add: fun_eq_iff push_history_index_def reads)

section \<open>Printing\<close>

text \<open>The ends of the commands send nothing when the flag is set.\<close>

lemma sign_reads [reads]:
  "tp_print_tx tp \<Longrightarrow> sign_then_print_or_send (sending_otherwise f g h c) tp = sign_then_print_or_send c tp"
  by (intro ext) (simp add: sign_then_print_or_send_def reads)

lemma finish_reads [reads]:
  assumes "tp_print_tx tp"
  shows "finish_single (sending_otherwise f g h c) tp = finish_single c tp"
    and "finish_single_or_panic (sending_otherwise f g h c) tp = finish_single_or_panic c tp"
    and "finish_batch (sending_otherwise f g h c) tp = finish_batch c tp"
    and "realloc_x_times (sending_otherwise f g h c) tp = realloc_x_times c tp"
proof -
  show single: "finish_single (sending_otherwise f g h c) tp = finish_single c tp"
    using assms by (intro ext) (simp add: finish_single_def reads)
  show "finish_single_or_panic (sending_otherwise f g h c) tp = finish_single_or_panic c tp"
    using assms by (intro ext) (simp add: finish_single_or_panic_def reads)
  show "finish_batch (sending_otherwise f g h c) tp = finish_batch c tp"
    using assms by (intro ext) (simp add: finish_batch_def)
  show "realloc_x_times (sending_otherwise f g h c) tp = realloc_x_times c tp"
    by (intro ext) (simp add: realloc_x_times_def single)
qed

lemma maybe_print_tx_prints: "prints tp \<Longrightarrow> maybe_print_tx ixs tp = Some (Printed [ixs])"
  by (auto simp: prints_def maybe_print_tx_def)

lemma print_reads [reads]:
  assumes "prints tp"
  shows "print_or_sign_and_send (sending_otherwise f g h c) tp = print_or_sign_and_send c tp"
    and "propose_or_execute (sending_otherwise f g h c) lib sq tp = propose_or_execute c lib sq tp"
  by (intro ext; simp add: print_or_sign_and_send_def propose_or_execute_def propose_def execute_directly_def Let_def
      maybe_print_tx_prints [OF assms] reads cong: if_cong)+

lemma realloc_reads [reads]:
  assumes "tp_print_tx tp"
  shows "realloc_loop (sending_otherwise f g h c) tp authority ix n acc = realloc_loop c tp authority ix n acc"
  using assms
proof (induction n arbitrary: acc rule: less_induct)
  case (less n)
  show ?case
  proof (cases "n = 0")
    case False
    then have "n - min n REALLOCS_PER_TX < n" by (simp add: REALLOCS_PER_TX_def)
    then show ?thesis
      by (subst (1 2) realloc_loop.simps) (simp add: less reads Let_def)
  qed (subst (1 2) realloc_loop.simps, simp)
qed

section \<open>Dry runs send nothing and show everything\<close>

lemmas command_defs =
  command_close_steward_def command_init_steward_def command_update_config_def command_update_priority_fee_config_def
  command_set_staker_def command_revert_staker_def command_pause_def command_resume_def
  command_realloc_state_def command_migrate_state_to_v2_def command_reset_state_def command_reset_validator_lamport_balances_def
  command_manually_copy_vote_account_def command_manually_copy_all_vote_accounts_def command_manually_remove_validator_def
  command_instant_remove_validator_def command_auto_remove_validator_from_pool_def command_auto_add_validator_from_pool_def
  command_remove_bad_validators_def command_add_to_blacklist_def command_remove_from_blacklist_def command_admin_mark_for_removal_def
  command_init_directed_stake_meta_def command_realloc_directed_stake_meta_def command_init_directed_stake_whitelist_def
  command_realloc_directed_stake_whitelist_def command_init_directed_stake_ticket_def command_add_to_directed_stake_whitelist_def
  command_update_directed_stake_ticket_def command_copy_directed_stake_targets_def command_remove_from_directed_stake_whitelist_def
  command_sync_directed_stake_lamports_def command_close_directed_stake_ticket_def command_close_directed_stake_whitelist_def
  command_close_directed_stake_meta_def command_migrate_directed_to_algorithmic_def command_crank_epoch_maintenance_def
  command_crank_compute_score_def command_crank_compute_delegations_def command_crank_compute_directed_stake_meta_def
  command_crank_idle_def command_crank_compute_instant_unstake_def command_crank_rebalance_def command_crank_rebalance_directed_def
  command_crank_update_stake_pool_def authority_command_def realloc_setup_def in_stage_def

lemma authority_change_reads [reads]:
  "prints (pd_transaction_parameters (fst (authority_change sub))) \<Longrightarrow>
   command_update_authority (sending_otherwise f g h c) lib pid k sq sub = command_update_authority c lib pid k sq sub"
  by (cases "authority_change sub") (simp add: command_update_authority_def reads)

lemma dry_run_sends_nothing:
  "only_prints cmd \<Longrightarrow> run_command (sending_otherwise f g h c) lib pid sg cmd = run_command c lib pid sg cmd"
  by (cases cmd; simp add: command_defs reads maybe_print_tx_prints Let_def cong: if_cong split: prod.split)

text \<open>What a dry run may end with, and computations that end with nothing else.\<close>

primrec shown :: "outcome \<Rightarrow> bool" where
  "shown (Printed txs) \<longleftrightarrow> True"
| "shown (Signed s) \<longleftrightarrow> False"
| "shown (Submitted stats) \<longleftrightarrow> False"
| "shown NothingDone \<longleftrightarrow> True"

definition ends_with :: "('a \<Rightarrow> bool) \<Rightarrow> ('w, 'e, 'a) action \<Rightarrow> bool" where
  "ends_with Q m \<longleftrightarrow> (\<forall>w x v. m w = Some (Ok (Inr x, v)) \<longrightarrow> Q x)"

named_theorems ends

lemma ends_with_basics [ends]:
  "Q x \<Longrightarrow> ends_with Q (crank_return x)"
  "(\<And>x. ends_with Q (k x)) \<Longrightarrow> ends_with Q (crank_bind m k)"
  "ends_with Q (lift_sum (Inl e))"
  "ends_with Q (crank_pure (Err e'))"
  by (auto simp: ends_with_def crank_return_def crank_bind_def lift_sum_def crank_pure_def
      split: option.splits sum.splits prod.splits)

lemma ends_with_bind:
  assumes "ends_with P m" "\<And>x. P x \<Longrightarrow> ends_with Q (k x)"
  shows "ends_with Q (crank_bind m k)"
  unfolding ends_with_def
proof (intro allI impI)
  fix w y v
  assume "crank_bind m k w = Some (Ok (Inr y, v))"
  then obtain x u where "m w = Some (Ok (Inr x, u))" "k x u = Some (Ok (Inr y, v))"
    by (auto simp: crank_bind_def split: option.splits sum.splits prod.splits)
  then show "Q y" using assms unfolding ends_with_def by blast
qed

lemma ends_with_as_list: "ends_with shown m \<Longrightarrow> ends_with (list_all shown) (as_list m)"
  unfolding as_list_def by (erule ends_with_bind) (simp add: ends)

lemma ends_with_signer [ends]: "(\<And>k. ends_with Q (run k)) \<Longrightarrow> ends_with Q (with_signer lib sg missing run)"
  unfolding with_signer_def by (intro ends) auto

lemma ends_with_finish [ends]:
  assumes "tp_print_tx tp"
  shows "ends_with shown (sign_then_print_or_send c tp ixs payer keys blockhash)"
    and "ends_with shown (finish_single c tp ixs payer)"
    and "ends_with shown (finish_single_or_panic c tp ixs payer)"
    and "ends_with shown (finish_batch c tp ixs n heap payer)"
  using assms
  by (auto simp: sign_then_print_or_send_def finish_single_def finish_single_or_panic_def finish_batch_def Let_def intro!: ends)

lemma ends_with_print [ends]:
  assumes "prints tp"
  shows "ends_with shown (print_or_sign_and_send c tp ixs authority blockhash)"
    and "ends_with shown (propose_or_execute c lib sq tp signer k ix memo)"
  by (auto simp: print_or_sign_and_send_def propose_or_execute_def propose_def execute_directly_def Let_def
      maybe_print_tx_prints [OF assms] intro!: ends)

lemma ends_with_realloc [ends]:
  assumes "tp_print_tx tp" "list_all shown acc"
  shows "ends_with (list_all shown) (realloc_loop c tp authority ix n acc)"
  using assms(2)
proof (induction n arbitrary: acc rule: less_induct)
  case (less n)
  show ?case
  proof (cases "n = 0")
    case False
    then have smaller: "n - min n REALLOCS_PER_TX < n" by (simp add: REALLOCS_PER_TX_def)
    have "ends_with shown (realloc_x_times c tp authority ix m)" for m
      unfolding realloc_x_times_def using assms(1) by (rule ends)
    then show ?thesis
      using False less smaller by (subst realloc_loop.simps) (auto simp: Let_def intro!: ends_with_bind)
  qed (subst realloc_loop.simps, simp add: ends less)
qed

lemma ends_with_authority_change [ends]:
  "prints (pd_transaction_parameters (fst (authority_change sub))) \<Longrightarrow>
   ends_with shown (command_update_authority c lib pid k sq sub)"
  by (cases "authority_change sub") (simp add: command_update_authority_def ends)

lemma ends_with_compute_meta:
  "prints (pd_transaction_parameters p) \<Longrightarrow>
   ends_with (\<lambda>(out, _). shown out) (command_crank_compute_directed_stake_meta c lib pid p)"
  by (auto simp: command_crank_compute_directed_stake_meta_def maybe_print_tx_prints Let_def intro!: ends)

lemma dry_run_shows: "only_prints cmd \<Longrightarrow> ends_with (list_all shown) (run_command c lib pid sg cmd)"
proof (cases cmd)
  case (ComputeDirectedStakeMeta p)
  assume "only_prints cmd"
  then show ?thesis
    unfolding ComputeDirectedStakeMeta run_command.simps
    by (intro ends_with_as_list ends_with_bind [OF ends_with_compute_meta]) (auto simp: ends)
qed (auto simp: command_defs maybe_print_tx_prints Let_def intro!: ends ends_with_as_list split: prod.split)

section \<open>Flags that are not looked at\<close>

lemma dry_run_only_prints: "dry_run cmd \<Longrightarrow> \<not> ignores_its_flags cmd \<Longrightarrow> only_prints cmd"
  by (cases cmd) (auto simp: dry_run_def ignores_its_flags_def prints_def)

lemma no_print_simps [simp]:
  "tp_print_tx (no_print tp) = False" "tp_print_gov_tx (no_print tp) = False"
  "tp_priority_fee (no_print tp) = tp_priority_fee tp" "tp_compute_limit (no_print tp) = tp_compute_limit tp"
  "tp_heap_size (no_print tp) = tp_heap_size tp" "tp_chunk_size (no_print tp) = tp_chunk_size tp"
  "configured (no_print tp) = configured tp"
  by (simp_all add: no_print_def configured_def fun_eq_iff)

named_theorems unflagged

lemma sign_unflagged [unflagged]:
  "\<not> tp_print_tx tp \<Longrightarrow> sign_then_print_or_send c (no_print tp) = sign_then_print_or_send c tp"
  by (simp add: fun_eq_iff sign_then_print_or_send_def)

lemma finish_unflagged [unflagged]:
  assumes "\<not> tp_print_tx tp"
  shows "finish_single c (no_print tp) = finish_single c tp"
    and "finish_single_or_panic c (no_print tp) = finish_single_or_panic c tp"
    and "finish_batch c (no_print tp) = finish_batch c tp"
    and "realloc_x_times c (no_print tp) = realloc_x_times c tp"
  using assms by (simp_all add: fun_eq_iff finish_single_def finish_single_or_panic_def finish_batch_def
      realloc_x_times_def unflagged)

lemma realloc_unflagged [unflagged]:
  assumes "\<not> tp_print_tx tp"
  shows "realloc_loop c (no_print tp) authority ix n acc = realloc_loop c tp authority ix n acc"
proof (induction n arbitrary: acc rule: less_induct)
  case (less n)
  show ?case
  proof (cases "n = 0")
    case False
    then have "n - min n REALLOCS_PER_TX < n" by (simp add: REALLOCS_PER_TX_def)
    then show ?thesis
      by (subst (1 2) realloc_loop.simps) (simp add: less unflagged assms Let_def)
  qed (subst (1 2) realloc_loop.simps, simp)
qed

lemma ignored_flags:
  "ignores_its_flags cmd \<Longrightarrow>
   run_command c lib pid sg (at_parameters no_print cmd) = run_command c lib pid sg cmd"
  by (cases cmd; simp add: ignores_its_flags_def command_defs command_crank_steward_def
      command_crank_instant_remove_validators_def command_update_validator_list_balance_def unflagged Let_def cong: if_cong option.case_cong)

section \<open>Properties\<close>

text \<open>
  C29. Which dry runs of the command line are dry. Take any command of the steward's command line
  that is given one of the two flags to print. Unless it is one of the named exceptions, its
  run is the same whatever the node does with transactions: none is sent, and not even by way of
  the keeper's client; and when it ends without an error, all that it leaves is printed
  transactions, or nothing when there is nothing to do. The exceptions run exactly as if the
  flags were not given, so they send: \<^verbatim>\<open>crank-steward\<close>, \<^verbatim>\<open>crank-instant-remove-validators\<close>,
  \<^verbatim>\<open>update-validator-list-balance\<close> and \<^verbatim>\<open>admin-mark-for-removal\<close> with its flag to submit, for
  both flags, and the commands that do not know \<^verbatim>\<open>--print-gov-tx\<close> when that is the only one.
\<close>

theorem dry_runs_send_nothing:
  assumes "dry_run cmd"
  shows "if ignores_its_flags cmd
    then run_command c lib program_id signer cmd = run_command c lib program_id signer (at_parameters no_print cmd)
    else run_command (sending_otherwise f g h c) lib program_id signer cmd = run_command c lib program_id signer cmd \<and>
      (\<forall>w outs v. run_command c lib program_id signer cmd w = Some (Ok (Inr outs, v)) \<longrightarrow> list_all shown outs)"
  using dry_run_shows [of cmd c lib program_id signer] dry_run_sends_nothing [of cmd f g h c lib program_id signer]
    dry_run_only_prints [OF assms] ignored_flags [of cmd c lib program_id signer]
  by (auto simp: ends_with_def)

text \<open>
  The sample: growing the directed stake account by its last byte prints one transaction with one
  instruction when the flag is set.
\<close>

lemma desk_dry_realloc:
  "\<exists>ix. command_realloc_directed_stake_meta (desk ReallocDirectedStakeMetaData META_SIZE) desk_lib [20] (desk_args True)
     (META_SIZE - 1, 0) = Some (Ok (Inr [Printed [[Ix ix]]], (META_SIZE - 1, 0)))"
proof -
  let ?ix = "realloc_ix desk_lib [20] ''directed_stake_meta'' (get_directed_stake_meta_address desk_lib (pd_steward_config (desk_args True)) [20])
    (pd_steward_config (desk_args True)) [11] [7] ReallocDirectedStakeMetaData"
  have "realloc_x_times (desk ReallocDirectedStakeMetaData META_SIZE) (desk_tp True) [7] ?ix 1 w =
      Some (Ok (Inr (Printed [[Ix ?ix]]), w))" for w
    by (simp add: realloc_x_times_def finish_single_def latest_blockhash_def sign_then_print_or_send_def configured_def
        configure_instruction_def desk_tp_def sign_command_def crank_bind_def crank_call_def crank_pure_def crank_return_def realloc_ix_def Let_def)
  moreover have "reallocs_rounded_up (whats_left META_SIZE (META_SIZE - 1)) = 1"
    by (simp add: reallocs_rounded_up_def whats_left_def META_SIZE_def MAX_VALIDATORS_def MAX_ALLOC_BYTES_def)
  moreover have "META_SIZE - 1 \<noteq> META_SIZE" by (simp add: META_SIZE_def)
  ultimately have "command_realloc_directed_stake_meta (desk ReallocDirectedStakeMetaData META_SIZE) desk_lib [20] (desk_args True)
     (META_SIZE - 1, 0) = Some (Ok (Inr [Printed [[Ix ?ix]]], (META_SIZE - 1, 0)))"
    by (simp add: command_realloc_directed_stake_meta_def Let_def crank_bind_def desk_setup [OF desk_addresses(1)])
      (simp add: realloc_loop.simps crank_bind_def crank_return_def REALLOCS_PER_TX_def desk_args_def)
  then show ?thesis by blast
qed

theorem dry_runs_send_nothing_witness:
  "\<exists>ix. run_command (sending_otherwise (\<lambda>tx w. (Inr [], (0, 9))) (\<lambda>tx w. (Inr [], (0, 9))) (\<lambda>tx w. (Inr [], (0, 9)))
       (desk ReallocDirectedStakeMetaData META_SIZE)) desk_lib [20] None (ReallocDirectedStakeMeta (desk_args True)) (META_SIZE - 1, 0) =
     Some (Ok (Inr [Printed [[Ix ix]]], (META_SIZE - 1, 0)))"
proof -
  let ?cmd = "ReallocDirectedStakeMeta (desk_args True)"
  have dry: "dry_run ?cmd" and knows: "\<not> ignores_its_flags ?cmd"
    by (simp_all add: dry_run_def ignores_its_flags_def prints_def desk_args_def desk_tp_def)
  note same = dry_runs_send_nothing [OF dry, unfolded if_not_P [OF knows], THEN conjunct1]
  show ?thesis unfolding same unfolding run_command.simps by (rule desk_dry_realloc)
qed

end
