(* ===== verification/Growth_Commands.thy ===== *)
theory Growth_Commands
  imports Command_Sample
begin

text \<open>
  What the commands that grow an account achieve (utils/steward-cli/src/commands/init): the
  directed stake account reaches its full size in one run, the state account may not.
\<close>

section \<open>A node on which an account grows\<close>

text \<open>
  The node answers, and each instruction of the given kind in a confirmed transaction has the
  effect that the program gives it on the size of the account, \<^verbatim>\<open>get_realloc_size\<close>.
\<close>

definition grows_account :: "'w CliClient \<Rightarrow> ('w \<Rightarrow> nat) \<Rightarrow> nat \<Rightarrow> command_data \<Rightarrow> bool" where
  "grows_account c account_size full kind \<longleftrightarrow>
     (\<forall>w. \<exists>h v. rpc_latest_blockhash c w = (Inr h, v) \<and> account_size v = account_size w) \<and>
     (\<forall>tx w. \<exists>s v. rpc_send_and_confirm c tx w = (Inr s, v) \<and> account_size v = grown full (occurrences kind tx) (account_size w))"

lemma grown_min:
  assumes "full + MAX_ALLOC_BYTES \<le> U64_MAX" "a \<le> full"
  shows "grown full n a = min full (a + n * MAX_ALLOC_BYTES)"
  by (simp add: grown_def steward_growth.grow_times [OF assms])

lemma occurrences_replicate:
  "tx_instructions tx = configured tp (replicate n ix) \<Longrightarrow> ix_data ix = kind \<Longrightarrow> occurrences kind tx = n"
  by (auto simp: occurrences_def configured_def configure_instruction_def split: option.splits)

text \<open>The only key that such a transaction needs is that of the authority.\<close>

lemma configured_signers:
  assumes "ix_signers (Ix ix) = [authority]"
  shows "insert authority (\<Union>x\<in>set (configured tp (replicate n ix)). set (ix_signers x)) = {authority}"
  using assms by (auto simp: configured_def configure_instruction_def split: option.splits)

section \<open>The loop over the transactions\<close>

lemma realloc_x_times_grows:
  assumes node: "grows_account c account_size full kind" and room: "full + MAX_ALLOC_BYTES \<le> U64_MAX"
    and ix: "ix_data ix = kind" "ix_signers (Ix ix) = [authority]"
    and "\<not> tp_print_tx tp" "account_size w \<le> full"
  obtains s v where "realloc_x_times c tp authority ix n w = Some (Ok (Inr (Signed s), v))"
    "account_size v = min full (account_size w + n * MAX_ALLOC_BYTES)"
proof -
  obtain h u where u: "rpc_latest_blockhash c w = (Inr h, u)" "account_size u = account_size w"
    using node unfolding grows_account_def by blast
  let ?tx = "\<lparr>tx_instructions = configured tp (replicate n ix), tx_blockhash = h,
    tx_signature = sign_with c [authority] (configured tp (replicate n ix)) h\<rparr>"
  obtain s v where v: "rpc_send_and_confirm c ?tx u = (Inr s, v)" "account_size v = grown full (occurrences kind ?tx) (account_size u)"
    using node unfolding grows_account_def by blast
  have "sign_command c (configured tp (replicate n ix)) authority [authority] h = Ok ?tx"
    using configured_signers [OF ix(2)] by (simp add: sign_command_def)
  then have "realloc_x_times c tp authority ix n w = Some (Ok (Inr (Signed s), v))"
    using assms(5) u v by (simp add: realloc_x_times_def finish_single_def latest_blockhash_def sign_then_print_or_send_def
        send_and_confirm_def crank_bind_def crank_call_def crank_pure_def crank_return_def)
  moreover have "account_size v = min full (account_size w + n * MAX_ALLOC_BYTES)"
    using v(2) u(2) assms(6) by (simp add: grown_min [OF room] occurrences_replicate ix(1))
  ultimately show thesis by (rule that)
qed

lemma realloc_loop_grows:
  assumes node: "grows_account c account_size full kind" and room: "full + MAX_ALLOC_BYTES \<le> U64_MAX"
    and ix: "ix_data ix = kind" "ix_signers (Ix ix) = [authority]" and sends: "\<not> tp_print_tx tp"
    and "account_size w \<le> full"
  shows "\<exists>outs v. realloc_loop c tp authority ix n acc w = Some (Ok (Inr (acc @ outs), v)) \<and>
    length outs = (n + 9) div 10 \<and> account_size v = min full (account_size w + n * MAX_ALLOC_BYTES)"
  using assms(6)
proof (induction n arbitrary: acc w rule: less_induct)
  case (less n)
  show ?case
  proof (cases "n = 0")
    case True
    then show ?thesis using less.prems by (subst realloc_loop.simps) (simp add: crank_return_def)
  next
    case False
    let ?m = "min n REALLOCS_PER_TX"
    obtain s u where s: "realloc_x_times c tp authority ix ?m w = Some (Ok (Inr (Signed s), u))"
      "account_size u = min full (account_size w + ?m * MAX_ALLOC_BYTES)"
      using realloc_x_times_grows [OF node room ix sends less.prems] by metis
    have "n - ?m < n" using False by (simp add: REALLOCS_PER_TX_def)
    then obtain outs v where v: "realloc_loop c tp authority ix (n - ?m) (acc @ [Signed s]) u = Some (Ok (Inr (acc @ Signed s # outs), v))"
      "length outs = (n - ?m + 9) div 10" "account_size v = min full (account_size u + (n - ?m) * MAX_ALLOC_BYTES)"
      using less.IH [of "n - ?m" u "acc @ [Signed s]"] s(2) by fastforce
    have "realloc_loop c tp authority ix n acc w = Some (Ok (Inr (acc @ Signed s # outs), v))"
      using False s(1) v(1) by (subst realloc_loop.simps) (simp add: Let_def crank_bind_def)
    moreover have "length (Signed s # outs) = (n + 9) div 10"
      using v(2) False by (simp add: REALLOCS_PER_TX_def min_def) linarith
    moreover have "account_size v = min full (account_size w + n * MAX_ALLOC_BYTES)"
    proof -
      have "?m * MAX_ALLOC_BYTES + (n - ?m) * MAX_ALLOC_BYTES = n * MAX_ALLOC_BYTES"
        by (metis add_mult_distrib le_add_diff_inverse min.cobounded1)
      then show ?thesis unfolding v(3) s(2) by (simp add: min_def)
    qed
    ultimately show ?thesis by blast
  qed
qed

section \<open>The numbers of allocations\<close>

lemma reallocs_rounded_up_enough: "left_over \<le> reallocs_rounded_up left_over * MAX_ALLOC_BYTES"
  unfolding reallocs_rounded_up_def MAX_ALLOC_BYTES_def by simp

lemma reallocs_rounded_down_value:
  "reallocs_rounded_down left_over = (if left_over < MAX_ALLOC_BYTES then 1 else left_over div MAX_ALLOC_BYTES)"
  by (auto simp: reallocs_rounded_down_def max_def MAX_ALLOC_BYTES_def)

lemma reallocs_rounded_down_enough:
  "left_over \<le> reallocs_rounded_down left_over * MAX_ALLOC_BYTES \<longleftrightarrow>
     left_over \<le> MAX_ALLOC_BYTES \<or> MAX_ALLOC_BYTES dvd left_over"
proof (cases "left_over < MAX_ALLOC_BYTES")
  case False
  have "left_over \<le> left_over div MAX_ALLOC_BYTES * MAX_ALLOC_BYTES \<longleftrightarrow> MAX_ALLOC_BYTES dvd left_over"
    by (metis dvd_div_mult_self dvd_triv_right le_antisym order_refl div_times_less_eq_dividend)
  then show ?thesis using False by (auto simp: reallocs_rounded_down_value)
qed (simp add: reallocs_rounded_down_value)

lemma reallocs_rounded_down_misses:
  "left_over - reallocs_rounded_down left_over * MAX_ALLOC_BYTES < MAX_ALLOC_BYTES"
  unfolding reallocs_rounded_down_value MAX_ALLOC_BYTES_def by simp linarith

lemma realloc_ix_parts:
  "ix_data (realloc_ix lib program_id nm account config vl authority kind) = kind"
  "ix_signers (Ix (realloc_ix lib program_id nm account config vl authority kind)) = [authority]"
  by (simp_all add: realloc_ix_def)

lemma full_sizes: "META_SIZE = 560088" "ACCOUNT_END = 182616" "MAX_ALLOC_BYTES = 10240"
  by (simp_all add: META_SIZE_def MAX_VALIDATORS_def MAX_ALLOC_BYTES_def)

section \<open>Properties\<close>

text \<open>
  C30. One run of the command that grows the directed stake account finishes the work. On a node
  that answers and on which the program's instructions take effect, the command ends without
  an error, the account has its full size, and at most six transactions were needed.
\<close>

theorem meta_growth_command_completes:
  assumes "grows_account c account_size META_SIZE ReallocDirectedStakeMetaData"
    and "\<not> tp_print_tx (pd_transaction_parameters args)"
    and "realloc_setup c lib args (get_directed_stake_meta_address lib (pd_steward_config args) program_id) w =
      Some (Ok (Inr (authority, validator_list, data), u))"
    and "account_size u = length data" "length data < META_SIZE"
  shows "\<exists>outs v. command_realloc_directed_stake_meta c lib program_id args w = Some (Ok (Inr outs, v)) \<and>
    account_size v = META_SIZE \<and> 1 \<le> length outs \<and> length outs \<le> 6"
proof -
  let ?n = "reallocs_rounded_up (whats_left META_SIZE (length data))"
  let ?ix = "realloc_ix lib program_id ''directed_stake_meta'' (get_directed_stake_meta_address lib (pd_steward_config args) program_id)
    (pd_steward_config args) validator_list authority ReallocDirectedStakeMetaData"
  have "META_SIZE + MAX_ALLOC_BYTES \<le> U64_MAX" "account_size u \<le> META_SIZE"
    using assms(4,5) by (simp_all add: full_sizes int_limits)
  from realloc_loop_grows [where ix = ?ix and n = ?n and acc = "[]", OF assms(1) this(1) realloc_ix_parts assms(2) this(2)]
  obtain outs v where v: "realloc_loop c (pd_transaction_parameters args) authority ?ix ?n [] u = Some (Ok (Inr outs, v))"
    "length outs = (?n + 9) div 10" "account_size v = min META_SIZE (account_size u + ?n * MAX_ALLOC_BYTES)"
    by auto
  have "account_size v = META_SIZE"
    using v(3) reallocs_rounded_up_enough [of "whats_left META_SIZE (length data)"] assms(4,5) by (simp add: whats_left_def)
  moreover have "1 \<le> ?n" "?n \<le> 55"
    using assms(5) by (auto simp: reallocs_rounded_up_def whats_left_def full_sizes)
  moreover have "command_realloc_directed_stake_meta c lib program_id args w = Some (Ok (Inr outs, v))"
    using assms(3,5) v(1) by (simp add: command_realloc_directed_stake_meta_def Let_def crank_bind_def)
  ultimately show ?thesis using v(2) by auto
qed

text \<open>
  C31. One run of the command that grows the state account may leave it short. On a node that
  answers and on which the program's instructions take effect, the command ends without an
  error; but the number of allocations is rounded down, so the account has its full size
  exactly when no more than one allocation was missing or the missing bytes were a multiple of
  one allocation. Less than one allocation is missing then, so a second run finishes.
\<close>

theorem state_growth_command_may_stop_short:
  assumes "grows_account c account_size ACCOUNT_END ReallocStateData"
    and "\<not> tp_print_tx (pd_transaction_parameters args)"
    and "realloc_setup c lib args (get_steward_state_address lib program_id (pd_steward_config args)) w =
      Some (Ok (Inr (authority, validator_list, data), u))"
    and "account_size u = length data" "length data < ACCOUNT_END"
  shows "\<exists>outs v. command_realloc_state c lib program_id args w = Some (Ok (Inr outs, v)) \<and>
    (account_size v = ACCOUNT_END \<longleftrightarrow>
       ACCOUNT_END - length data \<le> MAX_ALLOC_BYTES \<or> MAX_ALLOC_BYTES dvd ACCOUNT_END - length data) \<and>
    account_size v \<le> ACCOUNT_END \<and> ACCOUNT_END - account_size v < MAX_ALLOC_BYTES"
proof -
  let ?left = "whats_left ACCOUNT_END (length data)"
  let ?n = "reallocs_rounded_down ?left"
  let ?ix = "realloc_ix lib program_id ''state_account'' (get_steward_state_address lib program_id (pd_steward_config args))
    (pd_steward_config args) validator_list authority ReallocStateData"
  have "ACCOUNT_END + MAX_ALLOC_BYTES \<le> U64_MAX" "account_size u \<le> ACCOUNT_END"
    using assms(4,5) by (simp_all add: full_sizes int_limits)
  from realloc_loop_grows [where ix = ?ix and n = ?n and acc = "[]", OF assms(1) this(1) realloc_ix_parts assms(2) this(2)]
  obtain outs v where v: "realloc_loop c (pd_transaction_parameters args) authority ?ix ?n [] u = Some (Ok (Inr outs, v))"
    "account_size v = min ACCOUNT_END (account_size u + ?n * MAX_ALLOC_BYTES)"
    by auto
  have "account_size v = ACCOUNT_END \<longleftrightarrow> ?left \<le> MAX_ALLOC_BYTES \<or> MAX_ALLOC_BYTES dvd ?left"
    using v(2) reallocs_rounded_down_enough [of ?left] assms(4,5) by (auto simp: whats_left_def)
  moreover have "ACCOUNT_END - account_size v < MAX_ALLOC_BYTES"
    using v(2) reallocs_rounded_down_misses [of ?left] assms(4,5) by (auto simp: whats_left_def min_def full_sizes)
  moreover have "command_realloc_state c lib program_id args w = Some (Ok (Inr outs, v))"
    using assms(3,5) v(1) by (simp add: command_realloc_state_def Let_def crank_bind_def)
  ultimately show ?thesis using v(2) assms(5) by (auto simp: whats_left_def)
qed

section \<open>Witnesses\<close>

lemma desk_grows: "grows_account (desk kind full) fst full kind"
  by (simp add: grows_account_def)

theorem meta_growth_command_completes_witness:
  "\<exists>outs v. command_realloc_directed_stake_meta (desk ReallocDirectedStakeMetaData META_SIZE) desk_lib [20] (desk_args False)
     (MAX_ALLOC_BYTES, 0) = Some (Ok (Inr outs, v)) \<and> fst v = META_SIZE"
  using meta_growth_command_completes [OF desk_grows desk_sends desk_setup [OF desk_addresses(1)], of MAX_ALLOC_BYTES 0]
  by (auto simp: full_sizes)

theorem state_growth_command_may_stop_short_witness:
  "\<exists>outs v. command_realloc_state (desk ReallocStateData ACCOUNT_END) desk_lib [20] (desk_args False)
     (MAX_ALLOC_BYTES, 0) = Some (Ok (Inr outs, v)) \<and> fst v < ACCOUNT_END"
  using state_growth_command_may_stop_short [OF desk_grows desk_sends desk_setup [OF desk_addresses(2)], of MAX_ALLOC_BYTES 0]
  by (auto simp: full_sizes)

end
