(* ===== verification/History_Commands.thy ===== *)
theory History_Commands
  imports Command_Actions Gossip_Upload
begin

text \<open>
  The command line of the validator history, utils/validator-history-cli/src: creation of the
  accounts and the authorities (main.rs, commands/actions), the status reports, and the
  uploads that can be sent by hand (commands/cranks). Most commands of main.rs panic on any
  failure; those under commands/ return errors. Texts that are printed are left out, except
  what a report consists of.
\<close>

section \<open>Accounts and authorities\<close>

definition finish_expecting :: "'w CliClient \<Rightarrow> command_ix list \<Rightarrow> Pubkey \<Rightarrow> ('w, outcome) command" where
  "finish_expecting c ixs keypair =
     crank_bind (latest_blockhash_or_panic c) (\<lambda>blockhash.
     crank_bind (crank_pure (sign_command c (map Ix ixs) keypair [keypair] blockhash)) (\<lambda>tx.
     crank_bind (crank_try (send_and_confirm c tx)) (\<lambda>r.
     crank_pure (case r of Inl e \<Rightarrow> Err Panic | Inr out \<Rightarrow> Ok out))))"

definition history_config_address :: "cli_lib \<Rightarrow> Pubkey" where
  "history_config_address lib = get_validator_history_config_address lib (cl_validator_history_id lib)"

definition initialize_config_ix :: "cli_lib \<Rightarrow> Pubkey \<Rightarrow> command_ix" where
  "initialize_config_ix lib signer =
     \<lparr>ix_program = cl_validator_history_id lib,
      ix_accounts = [Meta ''config'' (history_config_address lib), Meta ''system_program'' (cl_system_program lib),
        SignerMeta ''signer'' signer],
      ix_data = InitializeConfigData signer\<rparr>"

definition set_new_tip_distribution_program_ix :: "cli_lib \<Rightarrow> Pubkey \<Rightarrow> Pubkey \<Rightarrow> command_ix" where
  "set_new_tip_distribution_program_ix lib program admin =
     \<lparr>ix_program = cl_validator_history_id lib,
      ix_accounts = [Meta ''config'' (history_config_address lib), Meta ''new_tip_distribution_program'' program,
        SignerMeta ''admin'' admin],
      ix_data = SetNewTipDistributionProgramData\<rparr>"

definition set_new_admin_ix :: "cli_lib \<Rightarrow> Pubkey \<Rightarrow> Pubkey \<Rightarrow> command_ix" where
  "set_new_admin_ix lib new_admin admin =
     \<lparr>ix_program = cl_validator_history_id lib,
      ix_accounts = [Meta ''config'' (history_config_address lib), Meta ''new_admin'' new_admin, SignerMeta ''admin'' admin],
      ix_data = SetNewAdminData\<rparr>"

definition set_new_oracle_authority_ix :: "cli_lib \<Rightarrow> Pubkey \<Rightarrow> Pubkey \<Rightarrow> command_ix" where
  "set_new_oracle_authority_ix lib new_authority admin =
     \<lparr>ix_program = cl_validator_history_id lib,
      ix_accounts = [Meta ''config'' (history_config_address lib), Meta ''new_oracle_authority'' new_authority,
        SignerMeta ''admin'' admin],
      ix_data = SetNewOracleAuthorityData\<rparr>"

text \<open>The admin is replaced before the oracle authority is set.\<close>

definition init_config_ixs :: "cli_lib \<Rightarrow> Pubkey \<Rightarrow> Pubkey \<Rightarrow> Pubkey option \<Rightarrow> Pubkey option \<Rightarrow> command_ix list" where
  "init_config_ixs lib keypair tip_program tip_authority stake_authority =
     [initialize_config_ix lib keypair, set_new_tip_distribution_program_ix lib tip_program keypair] @
     (case tip_authority of None \<Rightarrow> [] | Some k \<Rightarrow> [set_new_admin_ix lib k keypair]) @
     (case stake_authority of None \<Rightarrow> [] | Some k \<Rightarrow> [set_new_oracle_authority_ix lib k keypair])"

definition command_init_config ::
  "'w CliClient \<Rightarrow> cli_lib \<Rightarrow> string \<Rightarrow> Pubkey \<Rightarrow> Pubkey option \<Rightarrow> Pubkey option \<Rightarrow> ('w, outcome) command" where
  "command_init_config c lib keypair_path tip_program tip_authority stake_authority =
     crank_bind (read_keypair_or_panic lib keypair_path) (\<lambda>keypair.
     finish_expecting c (init_config_ixs lib keypair tip_program tip_authority stake_authority) keypair)"

definition command_realloc_config :: "'w CliClient \<Rightarrow> cli_lib \<Rightarrow> string \<Rightarrow> ('w, outcome) command" where
  "command_realloc_config c lib keypair_path =
     crank_bind (read_keypair_or_panic lib keypair_path) (\<lambda>keypair.
     finish_expecting c
       [\<lparr>ix_program = cl_validator_history_id lib,
         ix_accounts = [Meta ''config_account'' (history_config_address lib), Meta ''system_program'' (cl_system_program lib),
           SignerMeta ''payer'' keypair],
         ix_data = ReallocConfigAccountData\<rparr>] keypair)"

text \<open>The size of the cluster history account, from its structure.\<close>

definition CLUSTER_HISTORY_SIZE :: nat where
  "CLUSTER_HISTORY_SIZE = 8 + (8 + 1 + 7 + 8 + 232 + (8 + 1 + 7 + MAX_ITEMS * 256))"

definition cluster_account_ix :: "cli_lib \<Rightarrow> Pubkey \<Rightarrow> command_data \<Rightarrow> command_ix" where
  "cluster_account_ix lib signer kind =
     \<lparr>ix_program = cl_validator_history_id lib,
      ix_accounts = [Meta ''cluster_history_account'' (get_cluster_history_address lib (cl_validator_history_id lib)),
        Meta ''system_program'' (cl_system_program lib), SignerMeta ''signer'' signer],
      ix_data = kind\<rparr>"

definition num_cluster_reallocs :: nat where
  "num_cluster_reallocs = (CLUSTER_HISTORY_SIZE - HISTORY_MAX_ALLOC_BYTES) div HISTORY_MAX_ALLOC_BYTES + 1"

definition command_init_cluster_history :: "'w CliClient \<Rightarrow> cli_lib \<Rightarrow> string \<Rightarrow> ('w, outcome) command" where
  "command_init_cluster_history c lib keypair_path =
     crank_bind (read_keypair_or_panic lib keypair_path) (\<lambda>keypair.
     finish_expecting c
       (cluster_account_ix lib keypair InitializeClusterHistoryAccountData #
        replicate num_cluster_reallocs (cluster_account_ix lib keypair ReallocClusterHistoryAccountData)) keypair)"

definition command_update_oracle_authority :: "'w CliClient \<Rightarrow> cli_lib \<Rightarrow> string \<Rightarrow> Pubkey \<Rightarrow> ('w, outcome) command" where
  "command_update_oracle_authority c lib keypair_path oracle_authority =
     crank_bind (read_keypair_or_panic lib keypair_path) (\<lambda>keypair.
     finish_expecting c [set_new_oracle_authority_ix lib oracle_authority keypair] keypair)"

definition command_set_new_tip_distribution_program ::
  "'w CliClient \<Rightarrow> cli_lib \<Rightarrow> string \<Rightarrow> Pubkey \<Rightarrow> ('w, outcome) command" where
  "command_set_new_tip_distribution_program c lib keypair_path tip_program =
     crank_bind (read_keypair_or_panic lib keypair_path) (\<lambda>keypair.
     finish_expecting c [set_new_tip_distribution_program_ix lib tip_program keypair] keypair)"

section \<open>Single records\<close>

definition fetch_or_panic :: "'w CliClient \<Rightarrow> (8 word list \<Rightarrow> 'a option) \<Rightarrow> Pubkey \<Rightarrow> ('w, 'a) command" where
  "fetch_or_panic c parse k =
     crank_bind (crank_try (crank_call CliClientError (rpc_account c k))) (\<lambda>r.
     crank_pure (case r of Inl e \<Rightarrow> Err Panic | Inr a \<Rightarrow> ok_or (parse (ac_data a)) Panic))"

definition epoch_or_panic :: "'w CliClient \<Rightarrow> ('w, nat) command" where
  "epoch_or_panic c =
     crank_bind (crank_try (crank_call CliClientError (rpc_epoch_info c))) (\<lambda>r.
     crank_pure (case r of Inl e \<Rightarrow> Err Panic | Inr ei \<Rightarrow> Ok (ei_epoch ei)))"

definition backfill_total_blocks_ix :: "cli_lib \<Rightarrow> Pubkey \<Rightarrow> nat \<Rightarrow> nat \<Rightarrow> command_ix" where
  "backfill_total_blocks_ix lib signer epoch blocks_in_epoch =
     \<lparr>ix_program = cl_validator_history_id lib,
      ix_accounts = [Meta ''cluster_history_account'' (get_cluster_history_address lib (cl_validator_history_id lib)),
        Meta ''config'' (history_config_address lib), SignerMeta ''oracle_authority'' signer],
      ix_data = BackfillTotalBlocksData epoch blocks_in_epoch\<rparr>"

text \<open>Only the epoch after the last one can be filled in.\<close>

definition backfill_in_order :: "ClusterHistory \<Rightarrow> nat \<Rightarrow> unit result" where
  "backfill_in_order ch epoch =
     (if circ_is_empty (ch_history ch) then Ok ()
      else
        and_then (circ_last (ch_history ch)) (\<lambda>latest.
        and_then (ok_or latest Panic) (\<lambda>e.
        and_then (plus_or_panic U16_MAX (che_epoch e) 1) (\<lambda>next_epoch.
        if next_epoch = cast U16_MAX epoch then Ok () else Err Panic))))"

definition command_backfill_cluster_history ::
  "'w CliClient \<Rightarrow> cli_lib \<Rightarrow> string \<Rightarrow> nat \<Rightarrow> nat \<Rightarrow> ('w, outcome) command" where
  "command_backfill_cluster_history c lib keypair_path epoch blocks_in_epoch =
     crank_bind (read_keypair_or_panic lib keypair_path) (\<lambda>keypair.
     crank_bind (\<lambda>w. Some (Ok (Inr (), rpc_sleep c 5 w))) (\<lambda>_.
     crank_bind (fetch_or_panic c (lib_cluster_history lib) (get_cluster_history_address lib (cl_validator_history_id lib))) (\<lambda>ch.
     crank_bind (crank_pure (backfill_in_order ch epoch)) (\<lambda>_.
     finish_expecting c [backfill_total_blocks_ix lib keypair epoch blocks_in_epoch] keypair))))"

definition upload_validator_age_ix :: "cli_lib \<Rightarrow> Pubkey \<Rightarrow> Pubkey \<Rightarrow> nat \<Rightarrow> nat \<Rightarrow> command_ix" where
  "upload_validator_age_ix lib vote signer age epoch =
     \<lparr>ix_program = cl_validator_history_id lib,
      ix_accounts = [Meta ''validator_history_account'' (get_validator_history_address lib vote (cl_validator_history_id lib)),
        Meta ''vote_account'' vote, Meta ''config'' (history_config_address lib), SignerMeta ''oracle_authority'' signer],
      ix_data = UploadValidatorAgeData age epoch\<rparr>"

definition command_upload_validator_age ::
  "'w CliClient \<Rightarrow> cli_lib \<Rightarrow> string \<Rightarrow> Pubkey \<Rightarrow> nat \<Rightarrow> nat option \<Rightarrow> ('w, outcome) command" where
  "command_upload_validator_age c lib keypair_path vote age epoch =
     crank_bind (read_keypair_or_panic lib keypair_path) (\<lambda>keypair.
     crank_bind (case epoch of
         Some e \<Rightarrow> crank_return e
       | None \<Rightarrow> crank_bind (epoch_or_panic c) (\<lambda>e. crank_return (cast U16_MAX e))) (\<lambda>epoch.
     finish_expecting c [upload_validator_age_ix lib vote keypair age epoch] keypair))"

section \<open>Reports\<close>

definition get_entry :: "ValidatorHistory \<Rightarrow> nat \<Rightarrow> ValidatorHistoryEntry option" where
  "get_entry vh epoch = find (\<lambda>e. vhe_epoch e = cast U16_MAX epoch) (arr (vh_history vh))"

text \<open>How many validators have each field of an epoch.\<close>

record FieldCounts =
  fc_ips :: nat
  fc_versions :: nat
  fc_types :: nat
  fc_mev_comms :: nat
  fc_mev_earned :: nat
  fc_comms :: nat
  fc_epoch_credits :: nat
  fc_stakes :: nat
  fc_ranks :: nat

definition count_if :: "bool \<Rightarrow> nat \<Rightarrow> nat" where
  "count_if b n = (if b then n + 1 else n)"

definition count_fields :: "ValidatorHistoryEntry \<Rightarrow> FieldCounts \<Rightarrow> FieldCounts" where
  "count_fields e f =
     (let d = vhe_default in
     \<lparr>fc_ips = count_if (vhe_ip e \<noteq> vhe_ip d) (fc_ips f),
      fc_versions = count_if (vhe_version e \<noteq> vhe_version d) (fc_versions f),
      fc_types = count_if (vhe_client_type e \<noteq> vhe_client_type d) (fc_types f),
      fc_mev_comms = count_if (vhe_mev_commission e \<noteq> vhe_mev_commission d) (fc_mev_comms f),
      fc_mev_earned = count_if (vhe_mev_earned e \<noteq> vhe_mev_earned d) (fc_mev_earned f),
      fc_comms = count_if (vhe_commission e \<noteq> vhe_commission d) (fc_comms f),
      fc_epoch_credits = count_if (vhe_epoch_credits e \<noteq> vhe_epoch_credits d) (fc_epoch_credits f),
      fc_stakes = count_if (activated_stake_lamports e \<noteq> activated_stake_lamports d) (fc_stakes f),
      fc_ranks = count_if (vhe_rank e \<noteq> vhe_rank d) (fc_ranks f)\<rparr>)"

definition status_of :: "nat \<Rightarrow> ValidatorHistory list \<Rightarrow> (nat \<times> Pubkey \<times> ValidatorHistoryEntry option) list \<times> FieldCounts" where
  "status_of epoch histories =
     (let rows = map (\<lambda>vh. (vh_index vh, vh_vote_account vh, get_entry vh epoch)) (sort_key vh_index histories) in
     (rows, fold (\<lambda>(_, _, e) f. case e of None \<Rightarrow> f | Some e \<Rightarrow> count_fields e f) rows
        \<lparr>fc_ips = 0, fc_versions = 0, fc_types = 0, fc_mev_comms = 0, fc_mev_earned = 0, fc_comms = 0,
         fc_epoch_credits = 0, fc_stakes = 0, fc_ranks = 0\<rparr>))"

text \<open>
  The report on an epoch. It is refused unless there are as many history accounts as the
  configuration has counted; \<open>parse_config\<close> is the parser of the configuration account.
\<close>

definition command_cranker_status ::
  "'w CliClient \<Rightarrow> cli_lib \<Rightarrow> (8 word list \<Rightarrow> HistoryConfig option) \<Rightarrow> nat option
   \<Rightarrow> ('w, nat \<times> nat \<times> (nat \<times> Pubkey \<times> ValidatorHistoryEntry option) list \<times> FieldCounts) command" where
  "command_cranker_status c lib parse_config epoch =
     crank_bind (case epoch of Some e \<Rightarrow> crank_return e | None \<Rightarrow> epoch_or_panic c) (\<lambda>epoch.
     crank_bind (fetch_or_panic c parse_config (history_config_address lib)) (\<lambda>config.
     crank_bind (crank_try (crank_call CliClientError (rpc_history_accounts c))) (\<lambda>r.
     crank_bind (crank_pure (case r of
         Inl e \<Rightarrow> Err Panic
       | Inr accounts \<Rightarrow> map_result (\<lambda>(_, a). ok_or (lib_history lib (ac_data a)) Panic) accounts)) (\<lambda>histories.
     crank_bind (crank_pure (if length histories = hg_counter config then Ok () else Err Panic)) (\<lambda>_.
     crank_return (epoch, hg_counter config, status_of epoch histories))))))"

text \<open>The history of one validator, from its first epoch unless another one is given.\<close>

definition first_epoch :: "ValidatorHistory \<Rightarrow> nat" where
  "first_epoch vh =
     (let es = filter (\<lambda>e. 0 < e) (map vhe_epoch (arr (vh_history vh))) in if es = [] then 0 else Min (set es))"

definition command_history ::
  "'w CliClient \<Rightarrow> cli_lib \<Rightarrow> Pubkey \<Rightarrow> nat option \<Rightarrow> ('w, (nat \<times> ValidatorHistoryEntry option) list) command" where
  "command_history c lib validator from_epoch =
     crank_bind (fetch_or_panic c (lib_history lib) (get_validator_history_address lib validator (cl_validator_history_id lib))) (\<lambda>vh.
     crank_bind (epoch_or_panic c) (\<lambda>current_epoch.
     crank_return (map (\<lambda>epoch. (epoch, get_entry vh epoch))
       [(case from_epoch of Some e \<Rightarrow> e | None \<Rightarrow> first_epoch vh)..<current_epoch + 1])))"

text \<open>The loop shows the first empty entry too, before it stops.\<close>

primrec shown_entries :: "ClusterHistoryEntry list \<Rightarrow> (nat \<times> nat) list" where
  "shown_entries [] = []"
| "shown_entries (e # es) =
     (che_epoch e, che_total_blocks e) # (if che_epoch e = che_epoch ClusterHistoryEntry_default then [] else shown_entries es)"

definition command_cluster_history :: "'w CliClient \<Rightarrow> cli_lib \<Rightarrow> ('w, (nat \<times> nat) list) command" where
  "command_cluster_history c lib =
     crank_bind (fetch_or_panic c (lib_cluster_history lib) (get_cluster_history_address lib (cl_validator_history_id lib))) (\<lambda>ch.
     crank_return (shown_entries (arr (ch_history ch))))"

section \<open>Uploads by hand\<close>

definition history_address :: "cli_lib \<Rightarrow> Pubkey \<Rightarrow> Pubkey" where
  "history_address lib vote = get_validator_history_address lib vote (cl_validator_history_id lib)"

definition update_stake_history_ix :: "cli_lib \<Rightarrow> Pubkey \<Rightarrow> Pubkey \<Rightarrow> nat \<Rightarrow> nat \<Rightarrow> nat \<Rightarrow> bool \<Rightarrow> command_ix" where
  "update_stake_history_ix lib vote signer lamports epoch rank is_superminority =
     \<lparr>ix_program = cl_validator_history_id lib,
      ix_accounts = [Meta ''validator_history_account'' (history_address lib vote), Meta ''vote_account'' vote,
        Meta ''config'' (history_config_address lib), SignerMeta ''oracle_authority'' signer],
      ix_data = UpdateStakeHistoryData lamports epoch rank is_superminority\<rparr>"

definition command_update_stake_history :: "'w CliClient \<Rightarrow> cli_lib \<Rightarrow> string \<Rightarrow> Pubkey \<Rightarrow> ('w, outcome) command" where
  "command_update_stake_history c lib keypair_path vote_account =
     crank_bind (read_keypair lib keypair_path) (\<lambda>keypair.
     crank_bind (crank_call CliClientError (rpc_vote_accounts c)) (\<lambda>(vote_accounts, _).
     crank_bind (crank_call CliClientError (rpc_epoch_info c)) (\<lambda>ei.
     crank_bind (crank_pure (get_stake_rank_map_and_superminority_count vote_accounts)) (\<lambda>(rank_map, threshold).
     let key = lib_show_pubkey lib vote_account in
     crank_bind (lift_sum (case map_of rank_map key of
         None \<Rightarrow> Inl (CliCustom ''not found in current stake rank map'') | Some r \<Rightarrow> Inr r)) (\<lambda>rank.
     case find (\<lambda>v. vi_vote_pubkey v = key) vote_accounts of
       None \<Rightarrow> lift_sum (Inl (CliCustom ''not found in current vote accounts''))
     | Some info \<Rightarrow>
         crank_bind (crank_pure (ok_or (lib_parse_pubkey lib (vi_vote_pubkey info)) Panic)) (\<lambda>vote.
         crank_bind (crank_map_err (\<lambda>_. CliCustom ''Failed to fetch latest blockhash'') (latest_blockhash c)) (\<lambda>blockhash.
         crank_bind (crank_pure (sign_command c
           [Ix (update_stake_history_ix lib vote keypair (vi_activated_stake info) (ei_epoch ei) rank (rank \<le> threshold))]
           keypair [keypair] blockhash)) (\<lambda>tx.
         crank_bind (crank_call CliClientError (rpc_send_transaction c tx)) (\<lambda>s. crank_return (Signed s))))))))))"

definition copy_cluster_info_ix :: "cli_lib \<Rightarrow> Pubkey \<Rightarrow> command_ix" where
  "copy_cluster_info_ix lib signer =
     \<lparr>ix_program = cl_validator_history_id lib,
      ix_accounts = [Meta ''cluster_history_account'' (get_cluster_history_address lib (cl_validator_history_id lib)),
        Meta ''slot_history'' (lib_slot_history_sysvar lib), SignerMeta ''signer'' signer],
      ix_data = CopyClusterInfoData\<rparr>"

definition command_copy_cluster_info :: "'w CliClient \<Rightarrow> cli_lib \<Rightarrow> string \<Rightarrow> ('w, outcome) command" where
  "command_copy_cluster_info c lib keypair_path =
     crank_bind (read_keypair lib keypair_path) (\<lambda>keypair.
     crank_bind (latest_blockhash_or_panic c) (\<lambda>blockhash.
     crank_bind (crank_pure (sign_command c
       [SetComputeUnitPrice 20000, RequestHeapFrame (256 * 1024), SetComputeUnitLimit 1400000, Ix (copy_cluster_info_ix lib keypair)]
       keypair [keypair] blockhash)) (send_and_confirm c)))"

text \<open>The outcome of submitted instructions is only printed, even when it is an error.\<close>

definition submit_and_print :: "'w CliClient \<Rightarrow> Pubkey \<Rightarrow> command_ix list \<Rightarrow> ('w, outcome) command" where
  "submit_and_print c keypair ixs =
     crank_bind (crank_try (submit_instructions (c\<lparr>sign := sign_with c [keypair]\<rparr>) (group_order c) (map Ix ixs) 0 50 0
       (Some 300000) False)) (\<lambda>r.
     crank_return (case r of Inl e \<Rightarrow> NothingDone | Inr stats \<Rightarrow> Submitted stats))"

definition all_histories :: "'w CliClient \<Rightarrow> cli_lib \<Rightarrow> ('w, ValidatorHistory list) command" where
  "all_histories c lib = crank_map_err CliTransactionError (get_all_validator_history_accounts c lib)"

definition history_map :: "ValidatorHistory list \<Rightarrow> (Pubkey \<times> ValidatorHistory) list" where
  "history_map vhs = collect_map (map (\<lambda>vh. (vh_vote_account vh, vh)) vhs)"

definition pool_filter :: "'w CliClient \<Rightarrow> cli_lib \<Rightarrow> string option \<Rightarrow> ('w, Pubkey list option) command" where
  "pool_filter c lib validator_list_key =
     (case validator_list_key of
        None \<Rightarrow> crank_return None
      | Some text \<Rightarrow>
          crank_bind (lift_sum (case lib_parse_pubkey lib text of
              None \<Rightarrow> Inl (CliCustom ''Failed to parse validator list pubkey'') | Some k \<Rightarrow> Inr k)) (\<lambda>k.
          crank_bind (crank_map_err (\<lambda>_. CliCustom ''Failed to fetch validator list'') (get_validator_list_account c lib k)) (\<lambda>vals.
          crank_return (Some (map vote_account_address vals)))))"

definition command_copy_vote_accounts :: "'w CliClient \<Rightarrow> cli_lib \<Rightarrow> string \<Rightarrow> string option \<Rightarrow> ('w, outcome) command" where
  "command_copy_vote_accounts c lib keypair_path validator_list_key =
     crank_bind (read_keypair lib keypair_path) (\<lambda>keypair.
     crank_bind (crank_call CliClientError (rpc_epoch_info c)) (\<lambda>ei.
     crank_bind (all_histories c lib) (\<lambda>vhs.
     crank_bind (pool_filter c lib validator_list_key) (\<lambda>pool.
     crank_bind (crank_pure (filter_result (\<lambda>vh.
         if (case pool of None \<Rightarrow> False | Some keys \<Rightarrow> vh_vote_account vh \<notin> set keys) then Ok False
         else not_result (vote_account_uploaded_recently (history_map vhs) (vh_vote_account vh) (ei_epoch ei) (ei_absolute_slot ei)))
       vhs)) (\<lambda>due.
     submit_and_print c keypair (map (\<lambda>vh. copy_vote_account_ix lib (history_address lib (vh_vote_account vh))
       (vh_vote_account vh) keypair) due))))))"

definition copy_tip_distribution_ix :: "cli_lib \<Rightarrow> (Pubkey \<Rightarrow> nat \<Rightarrow> Pubkey) \<Rightarrow> Pubkey \<Rightarrow> nat \<Rightarrow> Pubkey \<Rightarrow> command_ix" where
  "copy_tip_distribution_ix lib tda signer epoch vote =
     \<lparr>ix_program = cl_validator_history_id lib,
      ix_accounts = [Meta ''validator_history_account'' (history_address lib vote), Meta ''vote_account'' vote,
        Meta ''tip_distribution_account'' (tda vote epoch), Meta ''config'' (history_config_address lib), SignerMeta ''signer'' signer],
      ix_data = CopyTipDistributionAccountData epoch\<rparr>"

text \<open>
  The tip distribution accounts of an epoch: \<open>tda\<close> derives their addresses for the program
  \<open>tip_program\<close>, and \<open>order\<close> is the order in which a hash map is traversed.
\<close>

definition command_copy_tip_distribution_accounts ::
  "'w CliClient \<Rightarrow> cli_lib \<Rightarrow> (Pubkey list \<Rightarrow> Pubkey list) \<Rightarrow> (Pubkey \<Rightarrow> nat \<Rightarrow> Pubkey) \<Rightarrow> string \<Rightarrow> Pubkey \<Rightarrow> nat option
   \<Rightarrow> ('w, outcome) command" where
  "command_copy_tip_distribution_accounts c lib order tda keypair_path tip_program epoch =
     crank_bind (read_keypair lib keypair_path) (\<lambda>keypair.
     crank_bind (crank_call CliClientError (rpc_epoch_info c)) (\<lambda>ei.
     let epoch = (case epoch of Some e \<Rightarrow> e | None \<Rightarrow> ei_epoch ei) in
     crank_bind (all_histories c lib) (\<lambda>vhs.
     let votes = order (map fst (history_map vhs)) in
     crank_bind (crank_map_err CliTransactionError (fetch_accounts c (map (\<lambda>v. tda v epoch) votes))) (\<lambda>accounts.
     let valid = map fst (filter (\<lambda>(_, a). case a of None \<Rightarrow> False | Some a \<Rightarrow> ac_owner a = tip_program) (zip votes accounts)) in
     crank_bind (crank_pure (filter_result (\<lambda>v. not_result (mev_commission_uploaded (history_map vhs) v epoch)) (order valid))) (\<lambda>due.
     if due = [] then crank_return NothingDone
     else submit_and_print c keypair (map (copy_tip_distribution_ix lib tda keypair epoch) due))))))"

definition copy_is_bam_connected_ix :: "cli_lib \<Rightarrow> Pubkey \<Rightarrow> nat \<Rightarrow> Pubkey \<Rightarrow> nat \<Rightarrow> command_ix" where
  "copy_is_bam_connected_ix lib signer epoch vote is_bam_connected =
     \<lparr>ix_program = cl_validator_history_id lib,
      ix_accounts = [Meta ''config'' (history_config_address lib), Meta ''validator_history_account'' (history_address lib vote),
        Meta ''vote_account'' vote, SignerMeta ''oracle_authority'' signer],
      ix_data = CopyIsBamConnectedData epoch is_bam_connected\<rparr>"

definition parse_connection_rate :: "(string \<Rightarrow> f64 option) \<Rightarrow> string \<Rightarrow> string + f64" where
  "parse_connection_rate parse_f64 s =
     (case parse_f64 s of
        None \<Rightarrow> Inl ''not a valid number''
      | Some v \<Rightarrow> if f64_le (Fin 0) v \<and> f64_le v (Fin 1) then Inr v else Inl ''connection rate must be between 0.0 and 1.0'')"

text \<open>The vote accounts among the candidates that exist and belong to the vote program.\<close>

definition live_vote_accounts :: "'w CliClient \<Rightarrow> cli_lib \<Rightarrow> Pubkey list \<Rightarrow> ('w, Pubkey list) command" where
  "live_vote_accounts c lib candidates =
     crank_for (\<lambda>chunk live.
       crank_bind (crank_call CliClientError (rpc_multiple_accounts c chunk)) (\<lambda>accs.
       crank_return (live @ map fst (filter (\<lambda>(_, a). is_live_vote_account (lib_vote_program lib) a) (zip chunk accs)))))
     (chunks_of 100 candidates) []"

text \<open>One transaction for each instruction, in batches that share a blockhash; failures are counted.\<close>

definition send_batch :: "'w CliClient \<Rightarrow> Pubkey \<Rightarrow> command_ix list \<Rightarrow> nat \<times> nat \<Rightarrow> ('w, nat \<times> nat) command" where
  "send_batch c keypair batch = (\<lambda>(sent, failed).
     crank_bind (latest_blockhash c) (\<lambda>blockhash.
     crank_bind (crank_pure (map_result (\<lambda>ix. sign_command c [Ix ix] keypair [keypair] blockhash) batch)) (\<lambda>txs.
     crank_bind (\<lambda>w. case run_tasks (map (rpc_send_transaction c) txs) w of (rs, w) \<Rightarrow> Some (Ok (Inr rs, w))) (\<lambda>rs.
     let successes = length (filter (\<lambda>r. case r of Inl e \<Rightarrow> False | Inr s \<Rightarrow> True) rs) in
     crank_return (sent + successes, failed + (length rs - successes))))))"

text \<open>
  The service is asked about the epoch before, and its answer is recorded for the epoch itself.
  The result is the number of transactions that were sent and of those that failed.
\<close>

definition command_copy_is_bam_connected ::
  "'w CliClient \<Rightarrow> cli_lib \<Rightarrow> 'w kobe_validators \<Rightarrow> string \<Rightarrow> nat option \<Rightarrow> f64 \<Rightarrow> ('w, nat \<times> nat) command" where
  "command_copy_is_bam_connected c lib kobe keypair_path epoch min_rate =
     crank_bind (read_keypair lib keypair_path) (\<lambda>keypair.
     crank_bind (crank_call CliClientError (rpc_epoch_info c)) (\<lambda>ei.
     let epoch = (case epoch of Some e \<Rightarrow> e | None \<Rightarrow> ei_epoch ei); last_epoch = saturating_sub epoch 1 in
     crank_bind (all_histories c lib) (\<lambda>vhs.
     let candidates = map vh_vote_account vhs in
     if candidates = [] then crank_return (0, 0)
     else
       crank_bind (live_vote_accounts c lib candidates) (\<lambda>live.
       let votes = filter (\<lambda>k. k \<in> set live) candidates in
       if votes = [] then crank_return (0, 0)
       else
         crank_bind (crank_call (\<lambda>_. CliCustom ''Failed to fetch validators'') (kobe last_epoch)) (\<lambda>validators.
         let bam = bam_vote_accounts lib min_rate validators;
             ixs = map (\<lambda>v. copy_is_bam_connected_ix lib keypair epoch v (if v \<in> set bam then 1 else 0)) votes in
         crank_for (send_batch c keypair) (chunks_of 20 ixs) (0, 0))))))"

section \<open>Gossip by hand\<close>

definition gossip_update_tx :: "cli_lib \<Rightarrow> Pubkey \<Rightarrow> Pubkey \<Rightarrow> GossipEntry \<Rightarrow> command_ix Instruction list result" where
  "gossip_update_tx lib ed25519 instructions_sysvar entry =
     and_then (build_verify_signature_ix (ge_signature entry) (ge_identity entry) (ge_message entry)) (\<lambda>data.
     Ok [SetComputeUnitLimit 100000, SetComputeUnitPrice 0,
         Ix \<lparr>ix_program = ed25519, ix_accounts = [], ix_data = VerifySignatureData data\<rparr>,
         Ix \<lparr>ix_program = cl_validator_history_id lib,
             ix_accounts = [Meta ''validator_history_account'' (history_address lib (ge_vote_account entry)),
               Meta ''vote_account'' (ge_vote_account entry), Meta ''instructions'' instructions_sysvar,
               Meta ''config'' (history_config_address lib), SignerMeta ''oracle_authority'' (ge_signer entry)],
             ix_data = CopyGossipContactInfoData\<rparr>])"

text \<open>
  The entry point is \<open>None\<close> when its text cannot be parsed. An entry point that does not answer
  is a panic.
\<close>

definition command_copy_gossip_contact_info ::
  "'w CliClient \<Rightarrow> cli_lib \<Rightarrow> ('w, 'ep) gossip_network \<Rightarrow> Pubkey \<Rightarrow> Pubkey \<Rightarrow> string \<Rightarrow> 'ep option \<Rightarrow> ('w, outcome) command" where
  "command_copy_gossip_contact_info c lib net ed25519 instructions_sysvar keypair_path entrypoint =
     crank_bind (crank_call CliClientError (get_vote_accounts_with_retry c 5)) (\<lambda>vote_accounts.
     crank_bind (lift_sum (case entrypoint of None \<Rightarrow> Inl (CliCustom ''Failed to parse gossip entrypoint'') | Some ep \<Rightarrow> Inr ep)) (\<lambda>ep.
     crank_bind (read_keypair lib keypair_path) (\<lambda>keypair.
     crank_bind (crank_map_err (\<lambda>_. CliCustom ''Failed to read validator histories'') (get_all_validator_history_accounts c lib)) (\<lambda>vhs.
     crank_bind (\<lambda>w. case gn_echo net ep w of (r, w) \<Rightarrow> Some (Ok (Inr r, w))) (\<lambda>read.
     crank_bind (crank_pure (and_then (fetch_ip_and_shred_version read) (\<lambda>r. case r of Inl e \<Rightarrow> Err Panic | Inr res \<Rightarrow> Ok res))) (\<lambda>res.
     crank_bind (\<lambda>w. case gn_discover net ep (echo_ip res) (case echo_shred_version res of None \<Rightarrow> 0 | Some v \<Rightarrow> v) w of
         (r, w) \<Rightarrow> Some (Ok (Inr r, w))) (\<lambda>table.
     crank_bind (lift_sum (case table of None \<Rightarrow> Inl (CliCustom ''poisoned lock'') | Some crds \<Rightarrow> Inr crds)) (\<lambda>crds.
     let found = List.map_filter (\<lambda>info.
           Option.bind (lib_parse_pubkey lib (vi_vote_pubkey info)) (\<lambda>vote.
           Option.bind (map_of (history_map vhs) vote) (\<lambda>vh. build_gossip_entry lib crds keypair info vh))) vote_accounts in
     if found = [] then lift_sum (Inl (CliCustom ''Could not find gossip entries''))
     else
       crank_bind (crank_pure (map_result (gossip_update_tx lib ed25519 instructions_sysvar) found)) (\<lambda>txs.
       crank_bind (crank_map_err CliExecutionError (submit_transactions (c\<lparr>sign := sign_with c [keypair]\<rparr>) txs 5 5)) (\<lambda>stats.
       crank_return (Submitted stats)))))))))))"

end
