(* ===== verification/Age_Backfill.thy ===== *)
theory Age_Backfill
  imports History_Commands
begin

text \<open>
  The backfill of validator ages, utils/validator-history-cli/src/commands/backfill_validator_age.rs:
  a table of vote credits from before the histories began is joined with the histories on the
  chain, and the number of epochs in which a validator voted is uploaded as its age.
\<close>

section \<open>The table\<close>

record SourceData =
  sd_vote_account :: Pubkey
  sd_epoch :: nat
  sd_credits :: nat

text \<open>\<^verbatim>\<open>str::split\<close> at a character, and \<^verbatim>\<open>str::parse\<close> for an unsigned integer with the given maximum.\<close>

fun split_at :: "char \<Rightarrow> string \<Rightarrow> string list" where
  "split_at c [] = [[]]"
| "split_at c (x # xs) =
     (if x = c then [] # split_at c xs else case split_at c xs of [] \<Rightarrow> [[x]] | p # ps \<Rightarrow> (x # p) # ps)"

definition digit :: "char \<Rightarrow> nat option" where
  "digit x = (let n = of_char x :: nat in if 48 \<le> n \<and> n \<le> 57 then Some (n - 48) else None)"

fun parse_digits :: "nat \<Rightarrow> nat \<Rightarrow> string \<Rightarrow> nat option" where
  "parse_digits m acc [] = Some acc"
| "parse_digits m acc (x # xs) =
     Option.bind (digit x) (\<lambda>d.
     if m < acc * 10 + d then None else parse_digits m (acc * 10 + d) xs)"

definition parse_unsigned :: "nat \<Rightarrow> string \<Rightarrow> nat option" where
  "parse_unsigned m s =
     (let digits = (case s of x # xs \<Rightarrow> if x = CHR ''+'' then xs else s | [] \<Rightarrow> s) in
      if digits = [] then None else parse_digits m 0 digits)"

definition parse_line :: "('y) state_lib_scheme \<Rightarrow> string \<Rightarrow> SourceData result" where
  "parse_line lib line =
     (case split_at (CHR '','') line of
        [a, b, d] \<Rightarrow>
          and_then (ok_or (lib_parse_pubkey lib a) Panic) (\<lambda>vote.
          and_then (ok_or (parse_unsigned U16_MAX b) Panic) (\<lambda>epoch.
          and_then (ok_or (parse_unsigned U32_MAX d) Panic) (\<lambda>credits.
          Ok \<lparr>sd_vote_account = vote, sd_epoch = epoch, sd_credits = credits\<rparr>)))
      | _ \<Rightarrow> Err Panic)"

text \<open>The lines of the file, \<open>None\<close> for one that cannot be read. The first is the header.\<close>

definition read_oracle_data :: "('y) state_lib_scheme \<Rightarrow> string option list option \<Rightarrow> SourceData list result" where
  "read_oracle_data lib file =
     and_then (ok_or file Panic) (\<lambda>lines.
     map_result (\<lambda>line. and_then (ok_or line Panic) (parse_line lib)) (drop 1 lines))"

section \<open>Ages\<close>

definition find_first_epoch_with_credits :: "ValidatorHistory \<Rightarrow> nat option" where
  "find_first_epoch_with_credits vh =
     fold (\<lambda>e first.
       if vhe_epoch e = vhe_epoch vhe_default then first
       else if vhe_epoch_credits e = vhe_epoch_credits vhe_default then first
       else if 0 < vhe_epoch_credits e then
         (case first of None \<Rightarrow> Some (vhe_epoch e) | Some f \<Rightarrow> if vhe_epoch e < f then Some (vhe_epoch e) else first)
       else first) (arr (vh_history vh)) None"

text \<open>The counters have 32 bits.\<close>

definition count_onchain_epochs_with_credits :: "ValidatorHistory \<Rightarrow> nat result" where
  "count_onchain_epochs_with_credits vh =
     for_each (\<lambda>e n.
       if vhe_epoch e = vhe_epoch vhe_default then Ok n
       else if 0 < vhe_epoch_credits e \<and> vhe_epoch_credits e \<noteq> vhe_epoch_credits vhe_default then plus_or_panic U32_MAX n 1
       else Ok n) (arr (vh_history vh)) 0"

definition count_oracle_epochs :: "(SourceData \<Rightarrow> bool) \<Rightarrow> SourceData list \<Rightarrow> nat result" where
  "count_oracle_epochs p rows =
     for_each (\<lambda>d n. if 0 < sd_credits d \<and> p d then plus_or_panic U32_MAX n 1 else Ok n) rows 0"

definition validator_age_of :: "SourceData list \<Rightarrow> ValidatorHistory \<Rightarrow> nat result" where
  "validator_age_of oracle vh =
     (let rows = filter (\<lambda>d. sd_vote_account d = vh_vote_account vh) oracle in
     case find_first_epoch_with_credits vh of
       Some first \<Rightarrow>
         and_then (count_oracle_epochs (\<lambda>d. sd_epoch d < first) rows) (\<lambda>n.
         and_then (count_onchain_epochs_with_credits vh) (\<lambda>onchain. plus_or_panic U32_MAX n onchain))
     | None \<Rightarrow> count_oracle_epochs (\<lambda>_. True) rows)"

definition compute_validator_ages :: "SourceData list \<Rightarrow> ValidatorHistory list \<Rightarrow> (Pubkey \<times> nat) list result" where
  "compute_validator_ages oracle histories =
     for_each (\<lambda>vh ages.
       and_then (validator_age_of oracle vh) (\<lambda>age.
       Ok (if 0 < age then ages @ [(vh_vote_account vh, age)] else ages))) histories []"

section \<open>The command\<close>

definition validate_validator_history_accounts ::
  "'w CliClient \<Rightarrow> cli_lib \<Rightarrow> ValidatorHistory list \<Rightarrow> ('w, ValidatorHistory list) command" where
  "validate_validator_history_accounts c lib accounts =
     crank_for (\<lambda>vh validated.
       crank_bind (crank_try (crank_call CliClientError (rpc_account c (vh_vote_account vh)))) (\<lambda>r.
       crank_return (case r of
           Inl e \<Rightarrow> validated
         | Inr a \<Rightarrow> if ac_owner a = lib_vote_program lib then validated @ [vh] else validated))) accounts []"

definition build_and_submit_transaction :: "'w CliClient \<Rightarrow> command_ix list \<Rightarrow> Pubkey \<Rightarrow> ('w, outcome) command" where
  "build_and_submit_transaction c ixs signer =
     crank_bind (latest_blockhash_or_panic c) (\<lambda>blockhash.
     crank_bind (crank_pure (sign_command c (SetComputeUnitLimit 1400000 # map Ix ixs) signer [signer] blockhash))
       (send_and_confirm c))"

text \<open>At most three attempts, with a pause between them; a chunk that fails is given up.\<close>

primrec submit_with_retries :: "'w CliClient \<Rightarrow> command_ix list \<Rightarrow> Pubkey \<Rightarrow> nat \<Rightarrow> ('w, outcome) command" where
  "submit_with_retries c ixs signer 0 = crank_return NothingDone"
| "submit_with_retries c ixs signer (Suc n) =
     crank_bind (crank_try (build_and_submit_transaction c ixs signer)) (\<lambda>r.
     case r of
       Inr out \<Rightarrow> crank_return out
     | Inl e \<Rightarrow>
         if n = 0 then crank_return NothingDone
         else crank_bind (\<lambda>w. Some (Ok (Inr (), rpc_sleep c 2 w))) (\<lambda>_. submit_with_retries c ixs signer n))"

definition command_backfill_validator_age ::
  "'w CliClient \<Rightarrow> cli_lib \<Rightarrow> string \<Rightarrow> string option list option \<Rightarrow> ('w, outcome list) command" where
  "command_backfill_validator_age c lib keypair_path file =
     crank_bind (read_keypair_or_panic lib keypair_path) (\<lambda>keypair.
     crank_bind (crank_pure (read_oracle_data lib file)) (\<lambda>oracle.
     crank_bind (epoch_or_panic c) (\<lambda>current_epoch.
     crank_bind (crank_try (all_histories c lib)) (\<lambda>r.
     crank_bind (crank_pure (case r of Inl e \<Rightarrow> Err Panic | Inr vhs \<Rightarrow> Ok vhs)) (\<lambda>vhs.
     crank_bind (validate_validator_history_accounts c lib vhs) (\<lambda>accounts.
     crank_bind (crank_pure (compute_validator_ages oracle accounts)) (\<lambda>ages.
     crank_for (\<lambda>chunk outs.
       crank_bind (submit_with_retries c (map (\<lambda>(vote, age). upload_validator_age_ix lib vote keypair age (cast U16_MAX current_epoch)) chunk)
         keypair 3) (\<lambda>out. crank_return (outs @ [out]))) (chunks_of 10 ages) [])))))))"

end
