(* ===== verification/Backfill_Properties.thy ===== *)
theory Backfill_Properties
  imports Age_Backfill
begin

text \<open>
  What the command line of the validator history achieves: the ages that the backfill computes,
  against a definition by sets of epochs, and the configuration that the initialisation leaves
  when the program executes its transaction.
\<close>

section \<open>Ages\<close>

text \<open>
  The epochs in which a validator is known to have voted: those of its history, and those of
  the table that lie before all of them.
\<close>

definition has_credits :: "ValidatorHistoryEntry \<Rightarrow> bool" where
  "has_credits e \<longleftrightarrow> vhe_epoch e \<noteq> vhe_epoch vhe_default \<and> vhe_epoch_credits e \<noteq> vhe_epoch_credits vhe_default \<and>
     0 < vhe_epoch_credits e"

definition credited_epochs :: "ValidatorHistory \<Rightarrow> nat set" where
  "credited_epochs vh = vhe_epoch ` set (filter has_credits (arr (vh_history vh)))"

definition known_epochs :: "SourceData list \<Rightarrow> ValidatorHistory \<Rightarrow> nat set" where
  "known_epochs table vh = credited_epochs vh \<union>
     sd_epoch ` set (filter (\<lambda>d. sd_vote_account d = vh_vote_account vh \<and> 0 < sd_credits d \<and>
       (\<forall>x\<in>credited_epochs vh. sd_epoch d < x)) table)"

lemma for_each_count:
  "a + length (filter P xs) \<le> m \<Longrightarrow>
   for_each (\<lambda>x n. if P x then plus_or_panic m n 1 else Ok n) xs a = Ok (a + length (filter P xs))"
  by (induction xs arbitrary: a) (auto simp: plus_or_panic_def checked_add_def)

lemma has_credits_credited: "has_credits e \<longleftrightarrow> vhe_epoch e \<noteq> EPOCH_UNSET \<and> credited e"
  by (auto simp: has_credits_def credited_def ValidatorHistoryEntry_default_def)

lemma credits_in_entries:
  assumes "vh_inv vh"
  shows "length (filter has_credits (arr (vh_history vh))) = length (filter credited (vh_entries vh))"
    and "credited_epochs vh = vhe_epoch ` set (filter credited (vh_entries vh))"
proof -
  note D = circ_invD [OF assms]
  have "length (filter has_credits (arr (vh_history vh))) = length (filter has_credits (layout (vh_history vh)))"
    using D(1,2) by (simp add: layout_split flip: filter_append length_append)
      (metis append_take_drop_id filter_append length_append add.commute)
  also have "\<dots> = length (filter credited (vh_entries vh))"
    unfolding entries_def filter_filter by (rule arg_cong [where f = length], rule filter_cong) (auto simp: has_credits_credited)
  finally show "length (filter has_credits (arr (vh_history vh))) = length (filter credited (vh_entries vh))" .
  have "set (layout (vh_history vh)) = set (arr (vh_history vh))" by (simp add: layout_def)
  then show "credited_epochs vh = vhe_epoch ` set (filter credited (vh_entries vh))"
    by (auto simp: credited_epochs_def entries_def has_credits_credited)
qed

lemma card_credited_epochs:
  assumes "vh_inv vh"
  shows "card (credited_epochs vh) = length (filter has_credits (arr (vh_history vh)))"
proof -
  have "distinct (map vhe_epoch (vh_entries vh))"
    using vh_log.recs_sorted [OF assms] by (simp add: strict_sorted_iff)
  then have "distinct (map vhe_epoch (filter credited (vh_entries vh)))" by (rule distinct_map_filter)
  then show ?thesis
    by (metis credits_in_entries(1) [OF assms] credits_in_entries(2) [OF assms] distinct_card length_map list.set_map)
qed

lemma count_onchain_eq:
  assumes "vh_inv vh"
  shows "count_onchain_epochs_with_credits vh = Ok (card (credited_epochs vh))"
proof -
  have "(\<lambda>e n. if vhe_epoch e = vhe_epoch vhe_default then Ok n
       else if 0 < vhe_epoch_credits e \<and> vhe_epoch_credits e \<noteq> vhe_epoch_credits vhe_default then plus_or_panic U32_MAX n 1
       else Ok n) = (\<lambda>e n. if has_credits e then plus_or_panic U32_MAX n 1 else Ok n)"
    by (auto simp: has_credits_def fun_eq_iff)
  moreover have "length (filter has_credits (arr (vh_history vh))) \<le> U32_MAX"
    using circ_invD(1) [OF assms] MAX_ITEMS_bounds(3) length_filter_le [of has_credits "arr (vh_history vh)"] by linarith
  ultimately show ?thesis
    using for_each_count [of 0 has_credits "arr (vh_history vh)" U32_MAX]
    by (simp add: count_onchain_epochs_with_credits_def card_credited_epochs [OF assms])
qed

text \<open>The loop keeps the least epoch so far.\<close>

definition least :: "nat set \<Rightarrow> nat option" where
  "least S = (if S = {} then None else Some (Min S))"

lemma find_first_eq: "find_first_epoch_with_credits vh = least (credited_epochs vh)"
proof -
  let ?f = "\<lambda>e first.
       if vhe_epoch e = vhe_epoch vhe_default then first
       else if vhe_epoch_credits e = vhe_epoch_credits vhe_default then first
       else if 0 < vhe_epoch_credits e then
         (case first of None \<Rightarrow> Some (vhe_epoch e) | Some f \<Rightarrow> if vhe_epoch e < f then Some (vhe_epoch e) else first)
       else first"
  have step: "?f e (least S) = least (if has_credits e then insert (vhe_epoch e) S else S)" if "finite S" for e S
    using that by (cases "S = {}") (simp_all add: has_credits_def least_def min_def del: Min_less_iff Min_le_iff Min_ge_iff Min_gr_iff)
  have "fold ?f es (least S) = least (S \<union> vhe_epoch ` set (filter has_credits es))" if "finite S" for es S
    using that
  proof (induction es arbitrary: S)
    case (Cons e es)
    have "finite (if has_credits e then insert (vhe_epoch e) S else S)" using Cons.prems by simp
    then show ?case
      using Cons.IH step [OF Cons.prems, of e]
      by (simp only: fold_simps o_apply filter.simps) (auto intro!: arg_cong [where f = least])
  qed simp
  from this [of "{}" "arr (vh_history vh)"] show ?thesis
    by (simp add: find_first_epoch_with_credits_def least_def credited_epochs_def)
qed

lemma count_oracle_eq:
  assumes "length rows \<le> U32_MAX" "distinct (map sd_epoch rows)"
  shows "count_oracle_epochs p rows = Ok (card (sd_epoch ` set (filter (\<lambda>d. 0 < sd_credits d \<and> p d) rows)))"
proof -
  let ?P = "\<lambda>d. 0 < sd_credits d \<and> p d"
  have "length (filter ?P rows) = card (sd_epoch ` set (filter ?P rows))"
    using distinct_map_filter [OF assms(2), of ?P] by (metis distinct_card length_map list.set_map)
  moreover have "length (filter ?P rows) \<le> U32_MAX" using length_filter_le [of ?P rows] assms(1) by linarith
  ultimately show ?thesis using for_each_count [of 0 ?P rows U32_MAX] by (simp add: count_oracle_epochs_def)
qed

lemma validator_age_eq:
  assumes inv: "vh_inv vh" and rows: "distinct (map (\<lambda>d. (sd_vote_account d, sd_epoch d)) table)"
    and bound: "length table + MAX_ITEMS \<le> U32_MAX"
  shows "validator_age_of table vh = Ok (card (known_epochs table vh))"
proof -
  let ?rows = "filter (\<lambda>d. sd_vote_account d = vh_vote_account vh) table"
  let ?C = "credited_epochs vh"
  have fin: "finite ?C" by (simp add: credited_epochs_def)
  have len: "length ?rows \<le> length table" by simp
  have dist: "distinct (map sd_epoch ?rows)"
    using rows by (auto simp: distinct_map inj_on_def)
  have onchain: "card ?C \<le> MAX_ITEMS"
    using card_credited_epochs [OF inv] circ_invD(1) [OF inv] length_filter_le [of has_credits "arr (vh_history vh)"] by simp
  show ?thesis
  proof (cases "?C = {}")
    case True
    then have "known_epochs table vh = sd_epoch ` set (filter (\<lambda>d. 0 < sd_credits d \<and> True) ?rows)"
      by (auto simp: known_epochs_def)
    then show ?thesis
      using True count_oracle_eq [OF _ dist, of "\<lambda>_. True"] len bound
      by (simp add: validator_age_of_def find_first_eq least_def)
  next
    case False
    let ?O = "sd_epoch ` set (filter (\<lambda>d. 0 < sd_credits d \<and> sd_epoch d < Min ?C) ?rows)"
    have known: "known_epochs table vh = ?O \<union> ?C"
      using fin False by (auto simp: known_epochs_def)
    have "card (known_epochs table vh) = card ?O + card ?C"
      unfolding known using fin False by (intro card_Un_disjoint) auto
    moreover have "card ?O \<le> length table"
    proof -
      have "card ?O \<le> card (set (filter (\<lambda>d. 0 < sd_credits d \<and> sd_epoch d < Min ?C) ?rows))" by (intro card_image_le) simp
      also have "\<dots> \<le> length table" by (rule order_trans [OF card_length]) (rule order_trans [OF length_filter_le len])
      finally show ?thesis .
    qed
    ultimately show ?thesis
      using False count_oracle_eq [OF _ dist, of "\<lambda>d. sd_epoch d < Min ?C"] len bound onchain
      by (simp add: validator_age_of_def find_first_eq least_def count_onchain_eq [OF inv] plus_or_panic_def checked_add_def)
  qed
qed

lemma compute_ages_eq:
  assumes "\<And>vh. vh \<in> set histories \<Longrightarrow> validator_age_of table vh = Ok (f vh)"
  shows "compute_validator_ages table histories =
    Ok (map (\<lambda>vh. (vh_vote_account vh, f vh)) (filter (\<lambda>vh. 0 < f vh) histories))"
proof -
  have "for_each (\<lambda>vh ages. and_then (validator_age_of table vh) (\<lambda>age.
       Ok (if 0 < age then ages @ [(vh_vote_account vh, age)] else ages))) hs acc =
    Ok (acc @ map (\<lambda>vh. (vh_vote_account vh, f vh)) (filter (\<lambda>vh. 0 < f vh) hs))" if "set hs \<subseteq> set histories" for hs acc
    using that assms by (induction hs arbitrary: acc) auto
  from this [of histories "[]"] show ?thesis by (simp add: compute_validator_ages_def)
qed

section \<open>The configuration\<close>

text \<open>
  What the program does with the instructions of the initialisation. \<open>executable\<close> tells which
  accounts are programs and \<open>bump\<close> is that of the address of the configuration.
\<close>

fun meta_named :: "string \<Rightarrow> account_meta list \<Rightarrow> Pubkey" where
  "meta_named nm [] = Pubkey_default"
| "meta_named nm (Meta n k # ms) = (if n = nm then k else meta_named nm ms)"
| "meta_named nm (SignerMeta n k # ms) = (if n = nm then k else meta_named nm ms)"

definition execute_config :: "(Pubkey \<Rightarrow> bool) \<Rightarrow> nat \<Rightarrow> command_ix \<Rightarrow> HistoryConfig \<Rightarrow> HistoryConfig result" where
  "execute_config executable bump ix config =
     (let account = (\<lambda>nm. meta_named nm (ix_accounts ix)) in
     case ix_data ix of
       InitializeConfigData authority \<Rightarrow> Ok (handle_initialize_config authority bump config)
     | SetNewTipDistributionProgramData \<Rightarrow>
         handle_set_new_tip_distribution_program (account ''admin'') (account ''new_tip_distribution_program'')
           (executable (account ''new_tip_distribution_program'')) config
     | SetNewAdminData \<Rightarrow> handle_set_new_admin (account ''admin'') (account ''new_admin'') config
     | SetNewOracleAuthorityData \<Rightarrow> handle_set_new_oracle_authority (account ''admin'') (account ''new_oracle_authority'') config
     | _ \<Rightarrow> Ok config)"

lemmas config_ix_defs = initialize_config_ix_def set_new_tip_distribution_program_ix_def set_new_admin_ix_def
  set_new_oracle_authority_ix_def

lemmas config_handler_defs = handle_initialize_config_def handle_set_new_tip_distribution_program_def handle_set_new_admin_def
  handle_set_new_oracle_authority_def has_one_def

section \<open>Properties\<close>

text \<open>
  C32. The backfill computes ages without gaps and without counting twice. For a table with at
  most one row for a validator and an epoch, and for well-formed histories, the command does not
  panic, and it uploads for every validator that is known to have voted, and for no other, the
  number of distinct epochs in which it is known to have voted: by its history, or by the table
  before the history begins.
\<close>

theorem backfilled_ages_count_the_known_epochs:
  assumes "\<And>vh. vh \<in> set histories \<Longrightarrow> vh_inv vh"
    and "distinct (map (\<lambda>d. (sd_vote_account d, sd_epoch d)) table)"
    and "length table + MAX_ITEMS \<le> U32_MAX"
  shows "compute_validator_ages table histories =
    Ok (map (\<lambda>vh. (vh_vote_account vh, card (known_epochs table vh)))
      (filter (\<lambda>vh. known_epochs table vh \<noteq> {}) histories))"
proof -
  have fin: "finite (known_epochs table vh)" for vh by (simp add: known_epochs_def credited_epochs_def)
  show ?thesis
    using compute_ages_eq [of histories "table" "\<lambda>vh. card (known_epochs table vh)"] validator_age_eq assms
    by (simp add: card_gt_0_iff fin)
qed

theorem backfilled_ages_count_the_known_epochs_witness:
  "compute_validator_ages
     [\<lparr>sd_vote_account = replicate 32 1, sd_epoch = 98, sd_credits = 5\<rparr>,
      \<lparr>sd_vote_account = replicate 32 1, sd_epoch = 99, sd_credits = 0\<rparr>,
      \<lparr>sd_vote_account = replicate 32 1, sd_epoch = 100, sd_credits = 7\<rparr>] [sample_history] = Ok [(replicate 32 1, 2)]"
proof -
  let ?t = "[\<lparr>sd_vote_account = replicate 32 1, sd_epoch = 98, sd_credits = 5\<rparr>,
      \<lparr>sd_vote_account = replicate 32 1, sd_epoch = 99, sd_credits = 0\<rparr>,
      \<lparr>sd_vote_account = replicate 32 1, sd_epoch = 100, sd_credits = 7\<rparr>] :: SourceData list"
  have inv: "vh_inv sample_history" using sample_history_inv by simp
  have "credited_epochs sample_history = {100}"
    using credits_in_entries(2) [OF inv] by (simp add: credited_def int_limits)
  moreover have "vh_vote_account sample_history = replicate 32 1" by (simp add: sample_history_def)
  ultimately have "known_epochs ?t sample_history = {100, 98}" by (auto simp: known_epochs_def)
  then show ?thesis
    using backfilled_ages_count_the_known_epochs [of "[sample_history]" ?t] inv
    by (simp add: \<open>vh_vote_account sample_history = replicate 32 1\<close> MAX_ITEMS_def int_limits)
qed

text \<open>
  C34. The initialisation of the history program's configuration fails when both authorities are
  given. The transaction of the command, executed by the program, sets the admin, the oracle
  authority and the tip distribution program that were asked for, with the signer in the place
  of an authority that was not given; but when both an admin other than the signer and an
  oracle authority are given, the last instruction is signed by an admin that has already been
  replaced, and the whole transaction fails.
\<close>

theorem init_config_with_both_authorities_fails:
  "for_each (execute_config executable bump) (init_config_ixs lib keypair tip_program tip_authority stake_authority) config =
    (if \<not> executable tip_program then Err ConstraintExecutable
     else if (\<exists>k. tip_authority = Some k \<and> k \<noteq> keypair) \<and> stake_authority \<noteq> None then Err ConstraintHasOne
     else Ok (config\<lparr>hg_admin := case tip_authority of None \<Rightarrow> keypair | Some k \<Rightarrow> k,
       hg_oracle_authority := case stake_authority of None \<Rightarrow> keypair | Some k \<Rightarrow> k,
       hg_tip_distribution_program := tip_program, hg_bump := bump, hg_counter := 0\<rparr>))"
  by (cases tip_authority; cases stake_authority)
    (auto simp: init_config_ixs_def execute_config_def config_ix_defs config_handler_defs Let_def)

end
