(* ===== verification/State_Views.thy ===== *)
theory State_Views
  imports Command_Main "HOL-Library.Product_Lexorder"
begin

text \<open>
  What the steward command line reports: the state of the steward, in short and validator by
  validator (utils/steward-cli/src/commands/info/view_state.rs), the accounts of the directed
  stake (view_directed_stake_*.rs), and the codes and pictures of the status flags
  (sdk/src/utils/debug.rs). A report is the data that the program prints with \<^verbatim>\<open>print_json\<close>;
  the text that it prints otherwise has the same data. Theorem: the overall ranks.
\<close>

section \<open>Status flags\<close>

datatype StateCode = NoState | CodeComputeScore | CodeComputeDelegations | CodePreLoopIdle
  | CodeComputeInstantUnstake | CodeRebalance | CodePostLoopIdle | CodeRebalanceDirectedComplete

primrec state_code_value :: "StateCode \<Rightarrow> nat" where
  "state_code_value NoState = 0"
| "state_code_value CodeComputeScore = 2 ^ 0"
| "state_code_value CodeComputeDelegations = 2 ^ 1"
| "state_code_value CodePreLoopIdle = 2 ^ 2"
| "state_code_value CodeComputeInstantUnstake = 2 ^ 3"
| "state_code_value CodeRebalance = 2 ^ 4"
| "state_code_value CodePostLoopIdle = 2 ^ 5"
| "state_code_value CodeRebalanceDirectedComplete = 2 ^ 6"

definition steward_state_to_state_code :: "StewardStateV2 \<Rightarrow> StateCode" where
  "steward_state_to_state_code s =
     (if has_flag POST_LOOP_IDLE s then CodePostLoopIdle
      else if has_flag REBALANCE s then CodeRebalance
      else if has_flag COMPUTE_INSTANT_UNSTAKES s then CodeComputeInstantUnstake
      else if has_flag PRE_LOOP_IDLE s then CodePreLoopIdle
      else if has_flag COMPUTE_DELEGATIONS s then CodeComputeDelegations
      else if has_flag COMPUTE_SCORE s then CodeComputeScore
      else if has_flag REBALANCE_DIRECTED_COMPLETE s then CodeRebalanceDirectedComplete
      else NoState)"

text \<open>A string with characters beyond ASCII is the list of its code points: a filled box, an
  empty one, an arrow and a circle.\<close>

definition flag_box :: "32 word \<Rightarrow> StewardStateV2 \<Rightarrow> nat" where
  "flag_box flag s = (if has_flag flag s then 0x25A3 else 0x25A1)"

definition format_steward_state_string :: "StewardStateV2 \<Rightarrow> nat list" where
  "format_steward_state_string s =
     [flag_box EPOCH_MAINTENANCE s, 0x20, 0x21E2, 0x20, flag_box COMPUTE_SCORE s, flag_box COMPUTE_DELEGATIONS s,
      0x20, 0x21BA, 0x20, flag_box PRE_LOOP_IDLE s, flag_box COMPUTE_INSTANT_UNSTAKES s, flag_box REBALANCE s,
      flag_box REBALANCE_DIRECTED_COMPLETE s, flag_box POST_LOOP_IDLE s]"

definition flag_letter :: "32 word \<Rightarrow> char \<Rightarrow> StewardStateV2 \<Rightarrow> char" where
  "flag_letter flag x s = (if has_flag flag s then x else CHR ''-'')"

definition format_simple_steward_state_string :: "StewardStateV2 \<Rightarrow> string" where
  "format_simple_steward_state_string s =
     [flag_letter EPOCH_MAINTENANCE (CHR ''M'') s, flag_letter COMPUTE_SCORE (CHR ''S'') s,
      flag_letter COMPUTE_DELEGATIONS (CHR ''D'') s, flag_letter PRE_LOOP_IDLE (CHR ''0'') s,
      flag_letter COMPUTE_INSTANT_UNSTAKES (CHR ''U'') s, flag_letter REBALANCE (CHR ''R'') s,
      flag_letter REBALANCE_DIRECTED_COMPLETE (CHR ''C'') s, flag_letter POST_LOOP_IDLE (CHR ''1'') s]"

section \<open>The state in short\<close>

text \<open>\<open>to_sol\<close> is the conversion of lamports of the Solana library.\<close>

record LamportBalance =
  lb_lamports :: nat
  lb_sol :: f64

definition LamportBalance_new :: "(nat \<Rightarrow> f64) \<Rightarrow> nat \<Rightarrow> LamportBalance" where
  "LamportBalance_new to_sol n = \<lparr>lb_lamports = n, lb_sol = to_sol n\<rparr>"

record StateProgress =
  pg_completed :: nat
  pg_total :: nat
  pg_remaining :: nat

record DirectedStakeProgress =
  dp_rebalanced :: nat
  dp_total_targets :: nat
  dp_remaining :: nat

record StateInfo =
  si_state_tag :: string
  si_progress :: StateProgress
  si_validator_lamport_balances_count :: nat
  si_scores_count :: nat
  si_sorted_score_indices_count :: nat
  si_raw_scores_count :: nat
  si_sorted_raw_score_indices_count :: nat
  si_delegations_count :: nat
  si_instant_unstake_count :: nat
  si_start_computing_scores_slot :: nat
  si_current_epoch :: nat
  si_next_cycle_epoch :: nat
  si_num_pool_validators :: nat
  si_scoring_unstake_total :: nat
  si_instant_unstake_total :: nat
  si_stake_deposit_unstake_total :: nat
  si_validators_to_remove_count :: nat
  si_validators_for_immediate_removal_count :: nat
  si_validators_added :: nat
  si_non_zero_scores :: nat
  si_directed_stake_progress :: "DirectedStakeProgress option"

record LamportSummary =
  ls_total_staked :: LamportBalance
  ls_total_transient :: LamportBalance
  ls_reserve :: LamportBalance

record ValidatorCounts =
  vc_active :: nat
  vc_deactivating_transient :: nat
  vc_deactivating_all :: nat
  vc_deactivating :: nat
  vc_ready_for_removal :: nat

record DefaultStateOutput =
  do_config :: string
  do_state_address :: string
  do_state :: StateInfo
  do_lamports :: LamportSummary
  do_validator_counts :: ValidatorCounts
  do_detailed :: "nat list"
  do_simple :: string

text \<open>The counters have the range up to \<open>m\<close>.\<close>

definition count_status :: "nat \<Rightarrow> StakeStatus \<Rightarrow> ValidatorCounts \<Rightarrow> ValidatorCounts result" where
  "count_status m st v =
     (case st of
        Active \<Rightarrow> and_then (plus_or_panic m (vc_active v) 1) (\<lambda>n. Ok (v\<lparr>vc_active := n\<rparr>))
      | DeactivatingTransient \<Rightarrow>
          and_then (plus_or_panic m (vc_deactivating_transient v) 1) (\<lambda>n. Ok (v\<lparr>vc_deactivating_transient := n\<rparr>))
      | ReadyForRemoval \<Rightarrow>
          and_then (plus_or_panic m (vc_ready_for_removal v) 1) (\<lambda>n. Ok (v\<lparr>vc_ready_for_removal := n\<rparr>))
      | DeactivatingValidator \<Rightarrow> and_then (plus_or_panic m (vc_deactivating v) 1) (\<lambda>n. Ok (v\<lparr>vc_deactivating := n\<rparr>))
      | DeactivatingAll \<Rightarrow>
          and_then (plus_or_panic m (vc_deactivating_all v) 1) (\<lambda>n. Ok (v\<lparr>vc_deactivating_all := n\<rparr>)))"

definition no_validators :: ValidatorCounts where
  "no_validators = \<lparr>vc_active = 0, vc_deactivating_transient = 0, vc_deactivating_all = 0, vc_deactivating = 0,
     vc_ready_for_removal = 0\<rparr>"

definition sum_validator ::
  "nat \<Rightarrow> ('y) keeper_lib_scheme \<Rightarrow> ValidatorStakeInfo \<Rightarrow> nat \<times> nat \<times> ValidatorCounts \<Rightarrow> (nat \<times> nat \<times> ValidatorCounts) result" where
  "sum_validator m lib v = (\<lambda>(staked, transient, counts).
     and_then (plus_or_panic U64_MAX staked (active_stake_lamports v)) (\<lambda>staked.
     and_then (plus_or_panic U64_MAX transient (transient_stake_lamports v)) (\<lambda>transient.
     and_then (ok_or (lib_stake_status lib (status_byte v)) Panic) (\<lambda>st.
     and_then (count_status m st counts) (\<lambda>counts. Ok (staked, transient, counts))))))"

definition directed_progress :: "StewardStateV2 \<Rightarrow> DirectedStakeMeta \<Rightarrow> DirectedStakeProgress" where
  "directed_progress s dm =
     (let active_targets = filter (\<lambda>t. t_vote_pubkey t \<noteq> Pubkey_default) (targets dm);
          rebalanced = length (filter (\<lambda>t. staked_last_updated_epoch t = current_epoch s) active_targets) in
     \<lparr>dp_rebalanced = rebalanced, dp_total_targets = length active_targets,
      dp_remaining = saturating_sub (length active_targets) rebalanced\<rparr>)"

definition non_zero_score_count :: "StewardStateV2 \<Rightarrow> nat" where
  "non_zero_score_count s = length (filter (\<lambda>x. x \<noteq> 0) (take (num_pool_validators s) (scores s)))"

definition state_info :: "StewardStateV2 \<Rightarrow> DirectedStakeMeta option \<Rightarrow> StateInfo result" where
  "state_info s dm =
     and_then (minus_or_panic (num_pool_validators s) (mask_count (progress s))) (\<lambda>remaining.
     Ok \<lparr>si_state_tag = StewardStateEnum_fmt (state_tag s),
         si_progress = \<lparr>pg_completed = mask_count (progress s), pg_total = num_pool_validators s, pg_remaining = remaining\<rparr>,
         si_validator_lamport_balances_count = length (validator_lamport_balances s),
         si_scores_count = length (scores s),
         si_sorted_score_indices_count = length (sorted_score_indices s),
         si_raw_scores_count = length (raw_scores s),
         si_sorted_raw_score_indices_count = length (sorted_raw_score_indices s),
         si_delegations_count = length (delegations s),
         si_instant_unstake_count = mask_count (instant_unstake s),
         si_start_computing_scores_slot = start_computing_scores_slot s,
         si_current_epoch = current_epoch s,
         si_next_cycle_epoch = next_cycle_epoch s,
         si_num_pool_validators = num_pool_validators s,
         si_scoring_unstake_total = scoring_unstake_total s,
         si_instant_unstake_total = instant_unstake_total s,
         si_stake_deposit_unstake_total = stake_deposit_unstake_total s,
         si_validators_to_remove_count = mask_count (validators_to_remove s),
         si_validators_for_immediate_removal_count = mask_count (validators_for_immediate_removal s),
         si_validators_added = validators_added s,
         si_non_zero_scores = cast U32_MAX (non_zero_score_count s),
         si_directed_stake_progress = map_option (directed_progress s) dm\<rparr>)"

definition build_default_state_output ::
  "cli_lib \<Rightarrow> (nat \<Rightarrow> f64) \<Rightarrow> Pubkey \<Rightarrow> Pubkey \<Rightarrow> StewardStateV2 \<Rightarrow> ValidatorStakeInfo list \<Rightarrow> nat \<Rightarrow> DirectedStakeMeta option
   \<Rightarrow> DefaultStateOutput result" where
  "build_default_state_output lib to_sol config address s vals reserve_lamports dm =
     and_then (for_each (sum_validator U32_MAX lib) vals (0, 0, no_validators)) (\<lambda>(staked, transient, counts).
     and_then (state_info s dm) (\<lambda>info.
     Ok \<lparr>do_config = lib_show_pubkey lib config, do_state_address = lib_show_pubkey lib address, do_state = info,
         do_lamports = \<lparr>ls_total_staked = LamportBalance_new to_sol staked,
           ls_total_transient = LamportBalance_new to_sol transient, ls_reserve = LamportBalance_new to_sol reserve_lamports\<rparr>,
         do_validator_counts = counts, do_detailed = format_steward_state_string s,
         do_simple = format_simple_steward_state_string s\<rparr>))"

section \<open>Validator by validator\<close>

definition put_rank :: "nat \<times> nat \<times> 64 word \<times> 64 word \<Rightarrow> nat list \<Rightarrow> nat list result" where
  "put_rank = (\<lambda>(rank, index, _, _) ranks. arr_set ranks index rank)"

definition compute_overall_ranks :: "StewardStateV2 \<Rightarrow> nat list result" where
  "compute_overall_ranks s =
     (let n = num_pool_validators s in
     and_then (map_result (\<lambda>i.
         and_then (arr_get (scores s) i) (\<lambda>score.
         and_then (arr_get (raw_scores s) i) (\<lambda>raw. Ok (i, score, raw)))) [0..<n]) (\<lambda>indices.
     for_each put_rank
       (enumerate 0 (sort_key (\<lambda>(_, score, raw). (- uint score, - uint raw)) indices)) (replicate n 0)))"

record ValidatorDetails =
  vd_vote_account :: string
  vd_stake_account :: string
  vd_transient_stake_account :: string
  vd_steward_list_index :: nat
  vd_overall_rank :: "nat option"
  vd_score :: "64 word"
  vd_validator_score :: ValidatorScoreComponents
  vd_passing_eligibility_criteria :: string
  vd_target_delegation_percent :: f64
  vd_is_instant_unstake :: bool
  vd_history :: "(nat \<times> bool) option"
  vd_active :: LamportBalance
  vd_transient :: LamportBalance
  vd_steward_internal :: "nat option"
  vd_status :: StakeStatus
  vd_marked_for_removal :: bool
  vd_marked_for_immediate_removal :: bool

record VerboseStateOutput =
  vo_validators :: "ValidatorDetails list"
  vo_ranked_validators :: "(string \<times> 64 word) list option"

text \<open>\<^verbatim>\<open>slice::get\<close>, and \<^verbatim>\<open>unwrap_or_default\<close> on a bit of a mask.\<close>

definition get_at :: "'a list \<Rightarrow> nat \<Rightarrow> 'a option" where
  "get_at xs i = (if i < length xs then Some (xs ! i) else None)"

definition bit_or_default :: "BitMask \<Rightarrow> nat \<Rightarrow> bool result" where
  "bit_or_default msk i = (case BitMask_get i msk of Inr b \<Rightarrow> Ok b | Inl e \<Rightarrow> if e = Panic then Err Panic else Ok False)"

definition history_output :: "Config \<Rightarrow> ValidatorHistory option \<Rightarrow> (nat \<times> bool) option result" where
  "history_output config vh =
     (case vh of
        None \<Rightarrow> Ok None
      | Some vh \<Rightarrow>
          and_then (mask_get_unsafe (vh_index vh) (c_validator_history_blacklist config)) (\<lambda>b. Ok (Some (vh_index vh, b))))"

definition target_percent :: "Delegation \<Rightarrow> f64" where
  "target_percent d =
     (if denominator d \<noteq> 0
      then f64_mul (f64_div (f64_of_nat (numerator d)) (f64_of_nat (denominator d))) (Fin 100) else Fin 0)"

definition validator_details ::
  "cli_lib \<Rightarrow> (nat \<Rightarrow> f64) \<Rightarrow> StewardStateV2 \<Rightarrow> Config \<Rightarrow> nat list \<Rightarrow> (Pubkey \<rightharpoonup> Account option) \<Rightarrow> nat \<Rightarrow> ValidatorStakeInfo
   \<Rightarrow> ValidatorDetails result" where
  "validator_details lib to_sol s config ranks histories index v =
     (let vote = vote_account_address v;
          history_info = Option.bind (Option.bind (histories vote) (\<lambda>a. a)) (\<lambda>a. lib_history lib (ac_data a));
          score = (case get_at (scores s) index of None \<Rightarrow> 0 | Some x \<Rightarrow> x);
          raw_score = (case get_at (raw_scores s) index of None \<Rightarrow> 0 | Some x \<Rightarrow> x);
          delegation = (case get_at (delegations s) index of None \<Rightarrow> Delegation_default | Some d \<Rightarrow> d);
          internal = Option.bind (get_at (validator_lamport_balances s) index)
            (\<lambda>n. if n = LAMPORT_BALANCE_DEFAULT then None else Some n) in
     and_then (bit_or_default (instant_unstake s) index) (\<lambda>is_instant_unstake.
     and_then (history_output config history_info) (\<lambda>history.
     and_then (ok_or (lib_stake_status lib (status_byte v)) Panic) (\<lambda>status.
     and_then (bit_or_default (validators_to_remove s) index) (\<lambda>marked.
     and_then (bit_or_default (validators_for_immediate_removal s) index) (\<lambda>marked_immediate.
     Ok \<lparr>vd_vote_account = lib_show_pubkey lib vote,
         vd_stake_account = lib_show_pubkey lib (cl_find_stake_address lib vote (c_stake_pool config)),
         vd_transient_stake_account = lib_show_pubkey lib
           (cl_find_transient_address lib vote (c_stake_pool config) (transient_seed_suffix v)),
         vd_steward_list_index = index,
         vd_overall_rank = map_option (\<lambda>r. r + 1) (get_at ranks index),
         vd_score = score,
         vd_validator_score = decode raw_score,
         vd_passing_eligibility_criteria = (if score = 0 then ''No'' else ''Yes''),
         vd_target_delegation_percent = target_percent delegation,
         vd_is_instant_unstake = is_instant_unstake,
         vd_history = history,
         vd_active = LamportBalance_new to_sol (active_stake_lamports v),
         vd_transient = LamportBalance_new to_sol (transient_stake_lamports v),
         vd_steward_internal = internal,
         vd_status = status,
         vd_marked_for_removal = marked,
         vd_marked_for_immediate_removal = marked_immediate\<rparr>))))))"

text \<open>Only the validator that is asked for, if one is.\<close>

definition shown_validators :: "Pubkey option \<Rightarrow> ValidatorStakeInfo list \<Rightarrow> (nat \<times> ValidatorStakeInfo) list" where
  "shown_validators vote vals =
     filter (\<lambda>(_, v). case vote of None \<Rightarrow> True | Some k \<Rightarrow> k = vote_account_address v) (enumerate 0 vals)"

definition build_verbose_state_output ::
  "cli_lib \<Rightarrow> (nat \<Rightarrow> f64) \<Rightarrow> StewardStateV2 \<Rightarrow> Config \<Rightarrow> ValidatorStakeInfo list \<Rightarrow> (Pubkey \<rightharpoonup> Account option) \<Rightarrow> Pubkey option
   \<Rightarrow> VerboseStateOutput result" where
  "build_verbose_state_output lib to_sol s config vals histories vote =
     and_then (compute_overall_ranks s) (\<lambda>ranks.
     and_then (map_result (\<lambda>(i, v). validator_details lib to_sol s config ranks histories i v) (shown_validators vote vals)) (\<lambda>details.
     let top_scores = map (\<lambda>d. (vd_vote_account d, vd_score d)) (filter (\<lambda>d. vd_score d \<noteq> 0) details) in
     Ok \<lparr>vo_validators = details,
         vo_ranked_validators =
           (if vote = None then Some (sort_key (\<lambda>(_, score). - uint score) top_scores) else None)\<rparr>))"

datatype state_report = DefaultReport DefaultStateOutput | VerboseReport VerboseStateOutput

text \<open>\<open>lamports_of\<close> is the balance of an account that was fetched.\<close>

definition command_view_state ::
  "'w CliClient \<Rightarrow> cli_lib \<Rightarrow> (nat \<Rightarrow> f64) \<Rightarrow> (Account \<Rightarrow> nat) \<Rightarrow> Pubkey \<Rightarrow> Pubkey \<Rightarrow> bool \<Rightarrow> Pubkey option \<Rightarrow> ('w, state_report) command" where
  "command_view_state c lib to_sol lamports_of program_id config verbose vote =
     crank_bind (steward_accounts c lib program_id config) (\<lambda>accs.
     crank_bind (crank_try (get_directed_stake_meta c lib config program_id)) (\<lambda>dm.
     if verbose \<or> vote \<noteq> None then
       let votes = map vote_account_address (pool_validators accs) in
       crank_bind (crank_for (\<lambda>chunk all.
           crank_bind (crank_call CliClientError (rpc_multiple_accounts c chunk)) (\<lambda>accounts. crank_return (all @ accounts)))
         (chunks_of 100 (map (\<lambda>v. get_validator_history_address lib v (cl_validator_history_id lib)) votes)) []) (\<lambda>raw.
       crank_bind (crank_pure (build_verbose_state_output lib to_sol (state_account accs) (config_account accs)
         (pool_validators accs) (map_of (collect_map (zip votes raw))) vote)) (\<lambda>out.
       crank_return (VerboseReport out)))
     else
       crank_bind (crank_pure (build_default_state_output lib to_sol config (state_address accs) (state_account accs)
         (pool_validators accs) (lamports_of (reserve_stake_account accs)) (case dm of Inl e \<Rightarrow> None | Inr dm \<Rightarrow> Some dm))) (\<lambda>out.
       crank_return (DefaultReport out))))"

section \<open>Directed stake\<close>

text \<open>Every target is fetched by its index, and one that does not exist would panic.\<close>

definition view_directed_stake_meta ::
  "'w CliClient \<Rightarrow> cli_lib \<Rightarrow> Pubkey \<Rightarrow> Pubkey \<Rightarrow> Pubkey option \<Rightarrow> ('w, nat \<times> nat \<times> (nat \<times> DirectedStakeTarget) list) command" where
  "view_directed_stake_meta c lib program_id config vote =
     crank_bind (crank_map_err CliTransactionError (get_directed_stake_meta c lib config program_id)) (\<lambda>dm.
     crank_bind (crank_pure (map_result (\<lambda>i. and_then (arr_get (targets dm) i) (\<lambda>t. Ok (i + 1, t))) [0..<total_stake_targets dm])) (\<lambda>ts.
     crank_return (total_stake_targets dm, directed_unstake_total dm,
       filter (\<lambda>(_, t). t_vote_pubkey t \<noteq> Pubkey_default \<and> (case vote of None \<Rightarrow> True | Some k \<Rightarrow> t_vote_pubkey t = k)) ts)))"

definition shown_keys :: "Pubkey list \<Rightarrow> nat \<Rightarrow> Pubkey list result" where
  "shown_keys ks n = and_then (map_result (arr_get ks) [0..<n]) (\<lambda>xs. Ok (filter (\<lambda>k. k \<noteq> Pubkey_default) xs))"

definition get_directed_stake_whitelist :: "'w CliClient \<Rightarrow> cli_lib \<Rightarrow> Pubkey \<Rightarrow> Pubkey \<Rightarrow> ('w, DirectedStakeWhitelist) crank" where
  "get_directed_stake_whitelist c lib config program_id =
     fetch_parsed c (cl_whitelist lib) ''Failed to deserialize directed stake whitelist account''
       (get_directed_stake_whitelist_address lib config program_id)"

definition view_directed_stake_whitelist ::
  "'w CliClient \<Rightarrow> cli_lib \<Rightarrow> Pubkey \<Rightarrow> Pubkey \<Rightarrow> ('w, (Pubkey list \<times> Pubkey list \<times> Pubkey list) \<times> nat \<times> nat \<times> nat) command" where
  "view_directed_stake_whitelist c lib program_id config =
     crank_bind (crank_map_err CliTransactionError (get_directed_stake_whitelist c lib config program_id)) (\<lambda>wl.
     crank_bind (crank_pure (shown_keys (permissioned_user_stakers wl) (total_permissioned_user_stakers wl))) (\<lambda>users.
     crank_bind (crank_pure (shown_keys (permissioned_protocol_stakers wl) (total_permissioned_protocol_stakers wl))) (\<lambda>protocols.
     crank_bind (crank_pure (shown_keys (permissioned_validators wl) (total_permissioned_validators wl))) (\<lambda>validators.
     crank_return ((users, protocols, validators), total_permissioned_user_stakers wl,
       total_permissioned_protocol_stakers wl, total_permissioned_validators wl)))))"

definition bps_percent :: "nat \<Rightarrow> f64" where
  "bps_percent bps = f64_div (f64_of_nat bps) (Fin 100)"

record TicketReport =
  tk_authority :: Pubkey
  tk_is_protocol :: bool
  tk_num_preferences :: nat
  tk_preferences :: "(Pubkey \<times> nat \<times> f64) list"
  tk_total_bps :: nat
  tk_total_percent :: f64

definition ticket_report :: "DirectedStakeTicket \<Rightarrow> TicketReport result" where
  "ticket_report t =
     and_then (map_result (arr_get (staker_preferences t)) [0..<num_preferences t]) (\<lambda>prefs.
     and_then (total_bps prefs) (\<lambda>bps.
     Ok \<lparr>tk_authority = ticket_update_authority t, tk_is_protocol = U8Bool_is_true (ticket_holder_is_protocol t),
         tk_num_preferences = num_preferences t,
         tk_preferences = map (\<lambda>p. (pr_vote_pubkey p, stake_share_bps p, bps_percent (stake_share_bps p))) prefs,
         tk_total_bps = bps, tk_total_percent = bps_percent bps\<rparr>))"

text \<open>The tickets come in the order of a hash map, that of the answer of the node.\<close>

definition view_directed_stake_tickets :: "'w CliClient \<Rightarrow> ('w, TicketReport list \<times> nat) command" where
  "view_directed_stake_tickets c =
     crank_bind (crank_call CliTransactionError (rpc_tickets c)) (\<lambda>tickets.
     crank_bind (crank_pure (map_result ticket_report tickets)) (\<lambda>reports.
     crank_return (reports, length tickets)))"

text \<open>One ticket, with all the slots for preferences; \<open>parse\<close> is the parser of the account.\<close>

definition get_directed_stake_ticket ::
  "'w CliClient \<Rightarrow> cli_lib \<Rightarrow> (8 word list \<Rightarrow> DirectedStakeTicket option) \<Rightarrow> Pubkey \<Rightarrow> Pubkey \<Rightarrow> Pubkey \<Rightarrow> ('w, DirectedStakeTicket) crank" where
  "get_directed_stake_ticket c lib parse config signer program_id =
     fetch_parsed c parse ''Failed to deserialize directed stake ticket account''
       (get_directed_stake_ticket_address lib config signer program_id)"

definition view_directed_stake_ticket ::
  "'w CliClient \<Rightarrow> cli_lib \<Rightarrow> (8 word list \<Rightarrow> DirectedStakeTicket option) \<Rightarrow> Pubkey \<Rightarrow> Pubkey \<Rightarrow> Pubkey
   \<Rightarrow> ('w, nat \<times> (Pubkey \<times> nat) list \<times> Pubkey \<times> U8Bool) command" where
  "view_directed_stake_ticket c lib parse program_id config signer =
     crank_bind (crank_map_err CliTransactionError (get_directed_stake_ticket c lib parse config signer program_id)) (\<lambda>t.
     crank_return (num_preferences t, map (\<lambda>p. (pr_vote_pubkey p, stake_share_bps p)) (staker_preferences t),
       ticket_update_authority t, ticket_holder_is_protocol t))"

end
