(* ===== verification/View_Properties.thy ===== *)
theory View_Properties
  imports State_Views Command_Sample
begin

text \<open>
  What the report of the steward's state shows: the overall ranks, against a definition by
  counting and against the ranking that the steward keeps on the chain.
\<close>

section \<open>Stable sorting\<close>

text \<open>A list in ascending order of \<open>g\<close>, sorted by \<open>f\<close>, is in ascending order of both.\<close>

definition tie_order :: "('a \<Rightarrow> 'k :: linorder) \<Rightarrow> ('a \<Rightarrow> nat) \<Rightarrow> 'a \<Rightarrow> 'a \<Rightarrow> bool" where
  "tie_order f g a b \<longleftrightarrow> f a < f b \<or> f a = f b \<and> g a < g b"

lemma tie_order_trans: "tie_order f g a b \<Longrightarrow> tie_order f g b c \<Longrightarrow> tie_order f g a c"
  by (auto simp: tie_order_def)

lemma tie_order_asym: "tie_order f g a b \<Longrightarrow> \<not> tie_order f g b a"
  by (auto simp: tie_order_def)

lemma insort_tie_order:
  assumes "sorted_wrt (tie_order f g) ys" "\<forall>y\<in>set ys. g a < g y"
  shows "sorted_wrt (tie_order f g) (insort_key f a ys)"
  using assms
proof (induction ys)
  case (Cons y ys)
  show ?case
  proof (cases "f a \<le> f y")
    case True
    then have "tie_order f g a y" using Cons.prems by (auto simp: tie_order_def)
    then show ?thesis using True Cons.prems by (auto intro: tie_order_trans)
  next
    case False
    then show ?thesis using Cons by (auto simp: set_insort_key tie_order_def)
  qed
qed simp

lemma sort_key_tie_order: "sorted_wrt (\<lambda>a b. g a < g b) xs \<Longrightarrow> sorted_wrt (tie_order f g) (sort_key f xs)"
  by (induction xs) (auto intro!: insort_tie_order)

text \<open>In such a list the position of an element is the number of those that come before it.\<close>

lemma position_eq_card:
  assumes "sorted_wrt (tie_order f g) zs" "p < length zs"
  shows "card {z \<in> set zs. tie_order f g z (zs ! p)} = p"
proof -
  have lt: "i < j \<Longrightarrow> j < length zs \<Longrightarrow> tie_order f g (zs ! i) (zs ! j)" for i j
    using assms(1) by (simp add: sorted_wrt_iff_nth_less)
  have iff: "tie_order f g (zs ! i) (zs ! p) \<longleftrightarrow> i < p" if "i < length zs" for i
    using lt [of i p] lt [of p i] that assms(2) tie_order_asym [of f g]
    by (metis linorder_less_linear)
  have "{z \<in> set zs. tie_order f g z (zs ! p)} = (!) zs ` {..<p}"
  proof (rule set_eqI)
    fix z
    show "z \<in> {z \<in> set zs. tie_order f g z (zs ! p)} \<longleftrightarrow> z \<in> (!) zs ` {..<p}"
      using assms(2) iff by (auto simp: in_set_conv_nth image_iff) (metis order.strict_trans)
  qed
  moreover have "inj_on ((!) zs) {..<p}"
  proof (rule inj_onI)
    fix i j assume "i \<in> {..<p}" "j \<in> {..<p}" "zs ! i = zs ! j"
    then show "i = j"
      using lt [of i j] lt [of j i] assms(2) tie_order_asym [of f g] by (metis lessThan_iff linorder_less_linear order.strict_trans)
  qed
  ultimately show ?thesis by (simp add: card_image)
qed

section \<open>Ranks\<close>

definition ranked_before :: "StewardStateV2 \<Rightarrow> nat \<Rightarrow> nat \<Rightarrow> bool" where
  "ranked_before s j i \<longleftrightarrow> scores s ! i < scores s ! j \<or>
     scores s ! j = scores s ! i \<and> (raw_scores s ! i < raw_scores s ! j \<or> raw_scores s ! j = raw_scores s ! i \<and> j < i)"

definition rank_of :: "StewardStateV2 \<Rightarrow> nat \<Rightarrow> nat" where
  "rank_of s i = card {j. j < num_pool_validators s \<and> ranked_before s j i}"

text \<open>Filling an array by a list of distinct places.\<close>

lemma fill_ranks:
  assumes "\<forall>z\<in>set zs. fst z < length rs" "distinct (map fst zs)"
  shows "\<exists>out. for_each put_rank (enumerate k zs) rs = Ok out \<and>
    length out = length rs \<and> (\<forall>p < length zs. out ! fst (zs ! p) = k + p) \<and> (\<forall>i. i \<notin> fst ` set zs \<longrightarrow> out ! i = rs ! i)"
  using assms
proof (induction zs arbitrary: k rs)
  case (Cons z zs)
  obtain i a b where z: "z = (i, a, b)" by (cases z)
  from Cons.prems obtain out where out:
    "for_each put_rank (enumerate (Suc k) zs) (rs[i := k]) = Ok out"
    "length out = length rs" "\<forall>p < length zs. out ! fst (zs ! p) = Suc k + p"
    "\<forall>j. j \<notin> fst ` set zs \<longrightarrow> out ! j = rs[i := k] ! j"
    using Cons.IH [of "rs[i := k]" "Suc k"] by (auto simp: z put_rank_def)
  have "out ! fst ((z # zs) ! p) = k + p" if "p < length (z # zs)" for p
    using that out(3,4) Cons.prems by (cases p) (auto simp: z)
  moreover have "out ! j = rs ! j" if "j \<notin> fst ` set (z # zs)" for j
    using that out(4) by (auto simp: z)
  ultimately show ?case using out(1,2) Cons.prems by (auto simp: z put_rank_def)
qed simp

lemma compute_overall_ranks_eq:
  assumes "num_pool_validators s \<le> length (scores s)" "num_pool_validators s \<le> length (raw_scores s)"
  shows "compute_overall_ranks s = Ok (map (rank_of s) [0..<num_pool_validators s])"
proof -
  let ?n = "num_pool_validators s"
  let ?t = "\<lambda>i. (i, scores s ! i, raw_scores s ! i)"
  let ?f = "\<lambda>(_ :: nat, score :: 64 word, raw :: 64 word). (- uint score, - uint raw)"
  let ?zs = "sort_key ?f (map ?t [0..<?n])"
  have sorted: "sorted_wrt (tie_order ?f fst) ?zs"
    by (rule sort_key_tie_order) (simp add: sorted_wrt_map)
  have order: "tie_order ?f fst (?t j) (?t i) \<longleftrightarrow> ranked_before s j i" for j i
    by (auto simp: tie_order_def ranked_before_def word_less_alt word_uint_eq_iff)
  have dist: "distinct (map fst ?zs)"
  proof -
    have "mset (map fst ?zs) = mset (map fst (map ?t [0..<?n]))" by (simp only: mset_map mset_sort)
    also have "map fst (map ?t [0..<?n]) = [0..<?n]" by (simp add: o_def)
    finally have "mset (map fst ?zs) = mset [0..<?n]" .
    then show ?thesis using mset_eq_imp_distinct_iff [of "map fst ?zs" "[0..<?n]"] by simp
  qed
  have set: "set ?zs = ?t ` {..<?n}" by (auto simp: atLeast0LessThan)
  obtain out where out:
    "for_each put_rank (enumerate 0 ?zs) (replicate ?n 0) = Ok out"
    "length out = ?n" "\<forall>p < length ?zs. out ! fst (?zs ! p) = p"
    using fill_ranks [of ?zs "replicate ?n 0" 0] dist by (auto simp: set)
  have "out ! i = rank_of s i" if i: "i < ?n" for i
  proof -
    obtain p where p: "p < length ?zs" "?zs ! p = ?t i"
      using i set by (metis (no_types, lifting) in_set_conv_nth imageI lessThan_iff)
    have "card {z \<in> set ?zs. tie_order ?f fst z (?t i)} = p" using position_eq_card [OF sorted p(1)] p(2) by simp
    moreover have "{z \<in> set ?zs. tie_order ?f fst z (?t i)} = ?t ` {j. j < ?n \<and> ranked_before s j i}"
      unfolding set using order by auto
    moreover have "inj_on ?t {j. j < ?n \<and> ranked_before s j i}" by (simp add: inj_on_def)
    ultimately have "rank_of s i = p" by (simp add: rank_of_def card_image)
    then show ?thesis using out(3) p by auto
  qed
  then have "out = map (rank_of s) [0..<?n]" using out(2) by (intro nth_equalityI) auto
  moreover have "map_result (\<lambda>i. and_then (arr_get (scores s) i) (\<lambda>score.
      and_then (arr_get (raw_scores s) i) (\<lambda>raw. Ok (i, score, raw)))) [0..<?n] = Ok (map ?t [0..<?n])"
    using assms by (intro map_result_pure) auto
  ultimately show ?thesis using out(1) by (simp add: compute_overall_ranks_def Let_def)
qed

section \<open>Ranks are an order\<close>

lemma ranked_before_trans: "ranked_before s k j \<Longrightarrow> ranked_before s j i \<Longrightarrow> ranked_before s k i"
  by (auto simp: ranked_before_def)

lemma ranked_before_irrefl: "\<not> ranked_before s i i"
  by (simp add: ranked_before_def)

lemma ranked_before_total: "i \<noteq> j \<Longrightarrow> ranked_before s i j \<or> ranked_before s j i"
  by (auto simp: ranked_before_def)

lemma rank_of_mono:
  assumes "j < num_pool_validators s" "ranked_before s j i"
  shows "rank_of s j < rank_of s i"
  unfolding rank_of_def
proof (rule psubset_card_mono)
  show "{k. k < num_pool_validators s \<and> ranked_before s k j} \<subset> {k. k < num_pool_validators s \<and> ranked_before s k i}"
    using assms ranked_before_trans [of s _ j i] ranked_before_irrefl [of s j] by blast
qed simp

lemma rank_of_bij: "bij_betw (rank_of s) {..<num_pool_validators s} {..<num_pool_validators s}"
proof -
  let ?n = "num_pool_validators s"
  have "inj_on (rank_of s) {..<?n}"
  proof (rule inj_onI)
    fix i j assume "i \<in> {..<?n}" "j \<in> {..<?n}" "rank_of s i = rank_of s j"
    then show "i = j" using rank_of_mono [of i s j] rank_of_mono [of j s i] ranked_before_total [of i j s] by auto
  qed
  moreover have "rank_of s i < ?n" if "i < ?n" for i
  proof -
    have "{j. j < ?n \<and> ranked_before s j i} \<subset> {..<?n}" using that ranked_before_irrefl [of s i] by auto
    then have "card {j. j < ?n \<and> ranked_before s j i} < card {..<?n}" by (intro psubset_card_mono) simp_all
    then show ?thesis by (simp add: rank_of_def)
  qed
  then have "rank_of s ` {..<?n} \<subseteq> {..<?n}" by auto
  ultimately show ?thesis using endo_inj_surj [of "{..<?n}" "rank_of s"] by (simp add: bij_betw_def)
qed

section \<open>The report\<close>

lemma bit_or_default_ok: "mask_invar MAX_VALIDATORS msk \<Longrightarrow> bit_or_default msk i = Ok (i < MAX_VALIDATORS \<and> i \<in> mask_bits msk)"
  by (simp add: bit_or_default_def mask_get_eq)

lemma history_output_ok:
  assumes "mask_invar LARGE_BITMASK_INDEXES (c_validator_history_blacklist config)"
    and "\<And>h. vh = Some h \<Longrightarrow> vh_index h < LARGE_BITMASK_INDEXES"
  shows "\<exists>out. history_output config vh = Ok out"
  using assms by (cases vh) (simp_all add: history_output_def mask_get_unsafe_eq mask_get_eq)

text \<open>The accounts that a report can be made of: known statuses, and history indices within the blacklist.\<close>

definition reportable :: "cli_lib \<Rightarrow> Config \<Rightarrow> ValidatorStakeInfo list \<Rightarrow> (Pubkey \<rightharpoonup> Account option) \<Rightarrow> bool" where
  "reportable lib config vals histories \<longleftrightarrow>
     mask_invar LARGE_BITMASK_INDEXES (c_validator_history_blacklist config) \<and>
     (\<forall>v\<in>set vals. lib_stake_status lib (status_byte v) \<noteq> None \<and>
       (\<forall>a vh. histories (vote_account_address v) = Some (Some a) \<longrightarrow> lib_history lib (ac_data a) = Some vh \<longrightarrow>
         vh_index vh < LARGE_BITMASK_INDEXES))"

lemma validator_details_ok:
  assumes "state_wf s" "reportable lib config vals histories" "v \<in> set vals"
  shows "\<exists>d. validator_details lib to_sol s config ranks histories i v = Ok d \<and> vd_steward_list_index d = i \<and>
    vd_vote_account d = lib_show_pubkey lib (vote_account_address v) \<and>
    vd_overall_rank d = map_option (\<lambda>r. r + 1) (get_at ranks i)"
proof -
  let ?h = "Option.bind (histories (vote_account_address v)) (\<lambda>y. Option.bind y (\<lambda>a. lib_history lib (ac_data a)))"
  obtain st where st: "lib_stake_status lib (status_byte v) = Some st" using assms(2,3) by (auto simp: reportable_def)
  have "vh_index h < LARGE_BITMASK_INDEXES" if "?h = Some h" for h
    using that assms(2,3) by (auto simp: reportable_def bind_eq_Some_conv)
  then obtain out where out: "history_output config ?h = Ok out"
    using history_output_ok [of config ?h] assms(2) by (auto simp: reportable_def)
  show ?thesis
    using assms(1) by (simp add: validator_details_def Let_def out st bit_or_default_ok state_wf_def)
qed

lemma map_result_indexed:
  assumes "\<And>i x. i < length xs \<Longrightarrow> \<exists>d. f (k + i, xs ! i) = Ok d \<and> P (k + i) (xs ! i) d"
  shows "\<exists>ds. map_result f (enumerate k xs) = Ok ds \<and> length ds = length xs \<and> (\<forall>i < length xs. P (k + i) (xs ! i) (ds ! i))"
  using assms
proof (induction xs arbitrary: k)
  case (Cons x xs)
  obtain d where d: "f (k, x) = Ok d" "P k x d" using Cons.prems [of 0] by auto
  have "\<exists>ds. map_result f (enumerate (Suc k) xs) = Ok ds \<and> length ds = length xs \<and>
    (\<forall>i < length xs. P (Suc k + i) (xs ! i) (ds ! i))"
    using Cons.prems [of "Suc i" for i] by (intro Cons.IH) auto
  then obtain ds where ds: "map_result f (enumerate (Suc k) xs) = Ok ds" "length ds = length xs"
    "\<forall>i < length xs. P (Suc k + i) (xs ! i) (ds ! i)" by blast
  have "P (k + i) ((x # xs) ! i) ((d # ds) ! i)" if "i < length (x # xs)" for i
    using that ds(3) d(2) by (cases i) auto
  then show ?case using d ds by auto
qed simp

section \<open>Properties\<close>

text \<open>
  C33. The report on the validators of the pool ranks them like the steward. Once the steward has
  ranked the pool, the report on a pool with known statuses does not panic; it has one entry for
  every validator of the list, and the validators that have been scored get the ranks from one
  to their number, each once: one more than the number of validators with a better score, or
  with the same score and a better raw score, or with the same of both and a smaller index. A
  validator that the steward ranks before another one with a smaller score, as it does when it
  delegates, has the smaller rank in the report.
\<close>

theorem report_ranks_like_the_steward:
  assumes wf: "state_wf s" and "reportable lib config vals histories"
    and ranking: "ranked (scores s) (sorted_score_indices s) {..<num_pool_validators s}"
  shows "\<exists>out. build_verbose_state_output lib to_sol s config vals histories None = Ok out \<and>
    length (vo_validators out) = length vals \<and>
    (\<forall>i < length vals. vd_steward_list_index (vo_validators out ! i) = i \<and>
       vd_vote_account (vo_validators out ! i) = lib_show_pubkey lib (vote_account_address (vals ! i)) \<and>
       vd_overall_rank (vo_validators out ! i) = (if i < num_pool_validators s then Some (rank_of s i + 1) else None)) \<and>
    bij_betw (rank_of s) {..<num_pool_validators s} {..<num_pool_validators s} \<and>
    (\<forall>p q. p < q \<and> q < num_pool_validators s \<longrightarrow>
       (let a = sorted_score_indices s ! p; b = sorted_score_indices s ! q in
        scores s ! a \<noteq> scores s ! b \<longrightarrow> rank_of s a < rank_of s b))"
proof -
  let ?n = "num_pool_validators s" and ?ranks = "map (rank_of s) [0..<num_pool_validators s]"
  have ranks: "compute_overall_ranks s = Ok ?ranks"
    using wf by (intro compute_overall_ranks_eq) (auto simp: state_wf_def)
  have rank: "map_option (\<lambda>r. r + 1) (get_at ?ranks i) = (if i < ?n then Some (rank_of s i + 1) else None)" for i
    by (simp add: get_at_def)
  let ?f = "\<lambda>(i, v). validator_details lib to_sol s config ?ranks histories i v"
  let ?P = "\<lambda>i v d. vd_steward_list_index d = i \<and> vd_vote_account d = lib_show_pubkey lib (vote_account_address v) \<and>
    vd_overall_rank d = (if i < ?n then Some (rank_of s i + 1) else None)"
  have "\<exists>d. ?f (i, vals ! i) = Ok d \<and> ?P i (vals ! i) d" if "i < length vals" for i
    using validator_details_ok [OF wf assms(2) nth_mem [OF that], of to_sol ?ranks i] unfolding rank by simp
  then obtain ds where ds: "map_result ?f (enumerate 0 vals) = Ok ds" "length ds = length vals"
    "\<forall>i < length vals. ?P i (vals ! i) (ds ! i)"
    using map_result_indexed [of vals ?f 0 ?P] unfolding add_0 by blast
  have sorted: "set (take ?n (sorted_score_indices s)) = {..<?n}" "by_score (scores s) (take ?n (sorted_score_indices s))"
    "?n \<le> length (sorted_score_indices s)"
    using ranking ranked_set [OF ranking] by (auto simp: ranked_def)
  have "rank_of s (sorted_score_indices s ! p) < rank_of s (sorted_score_indices s ! q)"
    if pq: "p < q" "q < ?n" and ne: "scores s ! (sorted_score_indices s ! p) \<noteq> scores s ! (sorted_score_indices s ! q)" for p q
  proof (rule rank_of_mono)
    have "take ?n (sorted_score_indices s) ! p \<in> {..<?n}" unfolding sorted(1) [symmetric] using pq sorted(3) by (intro nth_mem) simp
    then show "sorted_score_indices s ! p < ?n" using pq by simp
    have "scores s ! (sorted_score_indices s ! q) \<le> scores s ! (sorted_score_indices s ! p)"
      using sorted(2,3) pq by (fastforce simp: by_score_def sorted_wrt_iff_nth_less)
    then show "ranked_before s (sorted_score_indices s ! p) (sorted_score_indices s ! q)"
      using ne by (simp add: ranked_before_def)
  qed
  moreover have "shown_validators None vals = enumerate 0 vals" by (simp add: shown_validators_def)
  ultimately show ?thesis
    using ds rank_of_bij by (simp add: build_verbose_state_output_def ranks Let_def)
qed

text \<open>The three validators of the sample pool have the ranks two, three and one.\<close>

definition view_lib :: cli_lib where
  "view_lib = desk_lib\<lparr>lib_stake_status := \<lambda>_. Some Active\<rparr>"

lemma sample_scores:
  "scores sample_state ! 0 = 5" "scores sample_state ! 1 = 0" "scores sample_state ! 2 = 7"
  by (simp_all add: sample_state_def)

lemma rank_of_sample: "rank_of sample_state 0 = 1" "rank_of sample_state 1 = 2" "rank_of sample_state 2 = 0"
proof -
  have "ranked_before sample_state j i \<longleftrightarrow> (j, i) \<in> {(2, 0), (0, 1), (2, 1)}" if "i < 3" "j < 3" for i j
  proof -
    have "i = 0 \<or> i = 1 \<or> i = 2" "j = 0 \<or> j = 1 \<or> j = 2" using that by auto
    then show ?thesis by (elim disjE) (simp_all add: ranked_before_def sample_scores [unfolded One_nat_def])
  qed
  then have "{j. j < 3 \<and> ranked_before sample_state j 0} = {2}" "{j. j < 3 \<and> ranked_before sample_state j 1} = {0, 2}"
    "{j. j < 3 \<and> ranked_before sample_state j 2} = {}" by auto
  then show "rank_of sample_state 0 = 1" "rank_of sample_state 1 = 2" "rank_of sample_state 2 = 0"
    by (simp_all add: rank_of_def)
qed

theorem report_ranks_like_the_steward_witness:
  "\<exists>out. build_verbose_state_output view_lib (\<lambda>_. Fin 0) sample_state sample_config sample_infos (\<lambda>_. None) None = Ok out \<and>
    map vd_overall_rank (vo_validators out) = [Some 2, Some 3, Some 1]"
proof -
  have rep: "reportable view_lib sample_config sample_infos (\<lambda>_. None)"
    by (simp add: reportable_def view_lib_def sample_config_def LARGE_BITMASK_INDEXES_def)
  obtain out where out: "build_verbose_state_output view_lib (\<lambda>_. Fin 0) sample_state sample_config sample_infos (\<lambda>_. None) None = Ok out"
    "length (vo_validators out) = 3"
    "\<forall>i < 3. vd_overall_rank (vo_validators out ! i) = Some (rank_of sample_state i + 1)"
    using report_ranks_like_the_steward [OF sample_state_wf rep sample_state_ranked, of "\<lambda>_. Fin 0"]
    by (auto simp: sample_infos_def)
  have "map vd_overall_rank (vo_validators out) = map (\<lambda>i. Some (rank_of sample_state i + 1)) [0..<3]"
    using out(2,3) by (intro nth_equalityI) auto
  also have "[0..<3 :: nat] = [0, 1, 2]" by (simp add: upt_rec)
  finally have "map vd_overall_rank (vo_validators out) = [Some 2, Some 3, Some 1]"
    using rank_of_sample by simp
  with out(1) show ?thesis by (intro exI conjI)
qed

end
