(* ===== verification/Keeper_Metrics.thy ===== *)
theory Keeper_Metrics
  imports Keeper_Loop History_Commands State_Views
begin

text \<open>
  The numbers that the bot reports, keepers/stakenet-keeper/src/operations/metrics_emit.rs: how
  far the histories are filled, the state and the parameters of the steward, and the progress
  of the directed stake. A datapoint is a record of its values. Theorem: which validators the
  count of connection statuses misses.
\<close>

section \<open>Histories\<close>

text \<open>The counters of the loop; none can exceed the number of accounts.\<close>

record MetricCounts =
  mc_ips :: nat
  mc_versions :: nat
  mc_types :: nat
  mc_mev_comms :: nat
  mc_mev_earns :: nat
  mc_comms :: nat
  mc_epoch_credits :: nat
  mc_stakes :: nat
  mc_bam_status_reported :: nat

definition no_counts :: MetricCounts where
  "no_counts = \<lparr>mc_ips = 0, mc_versions = 0, mc_types = 0, mc_mev_comms = 0, mc_mev_earns = 0, mc_comms = 0,
     mc_epoch_credits = 0, mc_stakes = 0, mc_bam_status_reported = 0\<rparr>"

definition count_current :: "ValidatorHistoryEntry \<Rightarrow> MetricCounts \<Rightarrow> MetricCounts" where
  "count_current e n =
     (let d = vhe_default in
     n\<lparr>mc_ips := count_if (vhe_ip e \<noteq> vhe_ip d) (mc_ips n),
       mc_versions := count_if (vhe_version e \<noteq> vhe_version d) (mc_versions n),
       mc_types := count_if (vhe_client_type e \<noteq> vhe_client_type d) (mc_types n),
       mc_mev_comms := count_if (vhe_mev_commission e \<noteq> vhe_mev_commission d) (mc_mev_comms n),
       mc_comms := count_if (vhe_commission e \<noteq> vhe_commission d) (mc_comms n),
       mc_epoch_credits := count_if (vhe_epoch_credits e \<noteq> vhe_epoch_credits d) (mc_epoch_credits n),
       mc_stakes := count_if (activated_stake_lamports e \<noteq> activated_stake_lamports d) (mc_stakes n)\<rparr>)"

definition count_previous :: "ValidatorHistoryEntry \<Rightarrow> MetricCounts \<Rightarrow> MetricCounts" where
  "count_previous e n =
     n\<lparr>mc_mev_earns := count_if (vhe_mev_earned e \<noteq> vhe_mev_earned vhe_default) (mc_mev_earns n),
       mc_bam_status_reported := count_if (vhe_is_bam_connected e \<noteq> vhe_is_bam_connected vhe_default) (mc_bam_status_reported n)\<rparr>"

definition previous_entry :: "nat \<Rightarrow> ValidatorHistory \<Rightarrow> ValidatorHistoryEntry option result" where
  "previous_entry epoch vh =
     and_then (minus_or_panic epoch 1) (\<lambda>p. Ok (find (\<lambda>e. vhe_epoch e = cast U16_MAX p) (arr (vh_history vh))))"

text \<open>A history whose last record is not of the running epoch is left at once.\<close>

definition count_history :: "nat \<Rightarrow> ValidatorHistory \<Rightarrow> MetricCounts \<Rightarrow> MetricCounts result" where
  "count_history epoch vh n =
     and_then (circ_last (vh_history vh)) (\<lambda>latest.
     if (case latest of None \<Rightarrow> False | Some e \<Rightarrow> vhe_epoch e \<noteq> epoch) then Ok n
     else
       let n = (case latest of None \<Rightarrow> n | Some e \<Rightarrow> count_current e n) in
       and_then (previous_entry epoch vh) (\<lambda>entry.
       Ok (case entry of None \<Rightarrow> n | Some e \<Rightarrow> count_previous e n)))"

record HistoryStats =
  hs_num_validators :: nat
  hs_live :: nat
  hs_counts :: MetricCounts
  hs_cluster_history_blocks :: nat
  hs_slot_index :: nat
  hs_responses :: nat
  hs_voting :: nat

text \<open>A cluster history that was never fetched is zero in every byte, and its last entry is of epoch 0.\<close>

definition cluster_last_epoch :: "KeeperState \<Rightarrow> nat option result" where
  "cluster_last_epoch ks =
     (case ks_cluster_history ks of
        None \<Rightarrow> Ok (Some 0)
      | Some ch \<Rightarrow> and_then (circ_last (ch_history ch)) (\<lambda>e. Ok (map_option che_epoch e)))"

definition emit_validator_history_metrics :: "('y) state_lib_scheme \<Rightarrow> KeeperState \<Rightarrow> HistoryStats result" where
  "emit_validator_history_metrics lib ks =
     (let epoch = ei_epoch (ks_epoch_info ks);
          responses = filter (\<lambda>v. case lib_parse_pubkey lib (vi_vote_pubkey v) of
              None \<Rightarrow> False | Some k \<Rightarrow> k \<in> set (map fst (validator_history_map ks))) (map snd (vote_account_map ks));
          histories = map snd (validator_history_map ks) in
     and_then (for_each (count_history epoch) histories no_counts) (\<lambda>counts.
     and_then (cluster_last_epoch ks) (\<lambda>last_epoch.
     Ok \<lparr>hs_num_validators = length histories,
         hs_live = length (get_live_vote_accounts (lib_vote_program lib) ks),
         hs_counts = counts,
         hs_cluster_history_blocks = (if last_epoch = Some epoch then 1 else 0),
         hs_slot_index = ei_slot_index (ks_epoch_info ks),
         hs_responses = length responses,
         hs_voting = length (filter (\<lambda>v. vi_epoch_credits v \<noteq> [] \<and> fst (last (vi_epoch_credits v)) = epoch) responses)\<rparr>)))"

section \<open>The steward\<close>

record StewardStats =
  ss_state :: string
  ss_state_progress :: "nat list"
  ss_simple_state_progress :: string
  ss_state_code :: nat
  ss_status_flags :: "32 word"
  ss_progress_count :: nat
  ss_num_pool_validators :: nat
  ss_current_epoch :: nat
  ss_actual_epoch :: nat
  ss_validators_to_remove_count :: nat
  ss_stake_deposit_unstake_total :: nat
  ss_scoring_unstake_total :: nat
  ss_instant_unstake_count :: nat
  ss_instant_unstake_total :: nat
  ss_validators_added :: nat
  ss_next_cycle_epoch :: nat
  ss_validator_list_len :: nat
  ss_stake_pool_lamports :: nat
  ss_reserve_stake_lamports :: nat
  ss_total_staked_lamports :: nat
  ss_total_transient_lamports :: nat
  ss_validator_counts :: ValidatorCounts
  ss_non_zero_score_count :: nat

record StewardConfigStats =
  sc_parameters :: Parameters
  sc_undirected_stake_ceiling_lamports :: nat
  sc_implied_available_directed_stake_lamports :: int

text \<open>\<^verbatim>\<open>as i64\<close> and the subtraction of such numbers.\<close>

definition as_i64 :: "nat \<Rightarrow> int" where
  "as_i64 n = sint (word_of_nat n :: 64 word)"

definition i64_minus_or_panic :: "int \<Rightarrow> int \<Rightarrow> int result" where
  "i64_minus_or_panic a b = (if - (2 ^ 63) \<le> a - b \<and> a - b < 2 ^ 63 then Ok (a - b) else Err Panic)"

definition steward_config_stats :: "nat \<Rightarrow> Parameters \<Rightarrow> StewardConfigStats result" where
  "steward_config_stats stake_pool_lamports p =
     and_then (i64_minus_or_panic (as_i64 stake_pool_lamports) (as_i64 (undirected_stake_ceiling_lamports p))) (\<lambda>implied.
     Ok \<lparr>sc_parameters = p, sc_undirected_stake_ceiling_lamports = undirected_stake_ceiling_lamports p,
         sc_implied_available_directed_stake_lamports = implied\<rparr>)"

text \<open>The balances of the pool and of its reserve are arguments: the model of the accounts does not hold them.\<close>

definition emit_steward_stats ::
  "('y) state_lib_scheme \<Rightarrow> nat \<Rightarrow> nat \<Rightarrow> KeeperState \<Rightarrow> (StewardStats \<times> StewardConfigStats) option result" where
  "emit_steward_stats lib stake_pool_lamports reserve_lamports ks =
     (case ks_steward_accounts ks of
        None \<Rightarrow> Ok None
      | Some accs \<Rightarrow>
          let s = state_account accs in
          and_then (for_each (sum_validator (2 ^ 31 - 1) lib) (pool_validators accs) (0, 0, no_validators)) (\<lambda>(staked, transient, counts).
          and_then (steward_config_stats stake_pool_lamports (c_parameters (config_account accs))) (\<lambda>config_stats.
          Ok (Some (\<lparr>ss_state = StewardStateEnum_fmt (state_tag s),
              ss_state_progress = format_steward_state_string s,
              ss_simple_state_progress = format_simple_steward_state_string s,
              ss_state_code = state_code_value (steward_state_to_state_code s),
              ss_status_flags = status_flags s,
              ss_progress_count = mask_count (progress s),
              ss_num_pool_validators = num_pool_validators s,
              ss_current_epoch = current_epoch s,
              ss_actual_epoch = ei_epoch (ks_epoch_info ks),
              ss_validators_to_remove_count = mask_count (validators_to_remove s),
              ss_stake_deposit_unstake_total = stake_deposit_unstake_total s,
              ss_scoring_unstake_total = scoring_unstake_total s,
              ss_instant_unstake_count = mask_count (instant_unstake s),
              ss_instant_unstake_total = instant_unstake_total s,
              ss_validators_added = validators_added s,
              ss_next_cycle_epoch = next_cycle_epoch s,
              ss_validator_list_len = length (pool_validators accs),
              ss_stake_pool_lamports = stake_pool_lamports,
              ss_reserve_stake_lamports = reserve_lamports,
              ss_total_staked_lamports = staked,
              ss_total_transient_lamports = transient,
              ss_validator_counts = counts,
              ss_non_zero_score_count = non_zero_score_count s\<rparr>, config_stats)))))"

section \<open>Directed stake\<close>

record MetaStats =
  ms_current_epoch :: nat
  ms_epoch_progress :: f64
  ms_state :: string
  ms_total_stake_targets :: nat
  ms_directed_unstake_total :: nat
  ms_stake_updated_count :: nat
  ms_target_updated_count :: nat

text \<open>A target with its place among the active ones and whether its stake and its target are up to date.\<close>

record DirectedStats =
  ds_meta :: MetaStats
  ds_targets :: "(nat \<times> DirectedStakeTarget \<times> bool \<times> bool) list"
  ds_whitelist :: "((nat \<times> nat \<times> nat) \<times> (nat \<times> Pubkey) list \<times> (nat \<times> Pubkey) list \<times> (nat \<times> Pubkey) list) option"

definition meta_stats :: "EpochInfo \<Rightarrow> StewardStateV2 \<Rightarrow> DirectedStakeMeta \<Rightarrow> MetaStats \<times> (nat \<times> DirectedStakeTarget \<times> bool \<times> bool) list" where
  "meta_stats ei s dm =
     (let active_targets = filter (\<lambda>t. t_vote_pubkey t \<noteq> Pubkey_default) (targets dm);
          stake_updated = (\<lambda>t. staked_last_updated_epoch t = current_epoch s);
          target_updated = (\<lambda>t. target_last_updated_epoch t = current_epoch s) in
     (\<lparr>ms_current_epoch = current_epoch s,
       ms_epoch_progress = f64_div (f64_of_nat (ei_slot_index ei)) (f64_of_nat (ei_slots_in_epoch ei)),
       ms_state = StewardStateEnum_fmt (state_tag s), ms_total_stake_targets = total_stake_targets dm,
       ms_directed_unstake_total = directed_unstake_total dm,
       ms_stake_updated_count = length (filter stake_updated active_targets),
       ms_target_updated_count = length (filter target_updated active_targets)\<rparr>,
      map (\<lambda>(i, t). (i, t, stake_updated t, target_updated t)) (enumerate 0 active_targets)))"

definition whitelist_stats ::
  "DirectedStakeWhitelist \<Rightarrow> (nat \<times> nat \<times> nat) \<times> (nat \<times> Pubkey) list \<times> (nat \<times> Pubkey) list \<times> (nat \<times> Pubkey) list" where
  "whitelist_stats wl =
     ((total_permissioned_user_stakers wl, total_permissioned_protocol_stakers wl, total_permissioned_validators wl),
      enumerate 0 (take (total_permissioned_user_stakers wl) (permissioned_user_stakers wl)),
      enumerate 0 (take (total_permissioned_protocol_stakers wl) (permissioned_protocol_stakers wl)),
      enumerate 0 (take (total_permissioned_validators wl) (permissioned_validators wl)))"

text \<open>\<open>whitelist\<close> fetches the whitelist; its failure is only logged, that of the other account is an error.\<close>

definition emit_directed_stake_stats ::
  "('w, 'ix, 'z) OracleClient_scheme \<Rightarrow> ('w \<Rightarrow> (JitoTransactionError + DirectedStakeWhitelist) \<times> 'w) \<Rightarrow> KeeperState
   \<Rightarrow> ('w, DirectedStats option) crank" where
  "emit_directed_stake_stats c whitelist ks =
     (case ks_steward_accounts ks of
        None \<Rightarrow> crank_return None
      | Some accs \<Rightarrow>
          crank_bind (crank_call id (rpc_directed_stake_meta c)) (\<lambda>dm.
          case meta_stats (ks_epoch_info ks) (state_account accs) dm of (st, ts) \<Rightarrow>
          crank_bind (crank_try (crank_call id whitelist)) (\<lambda>r :: JitoTransactionError + DirectedStakeWhitelist.
          crank_return (Some \<lparr>ds_meta = st, ds_targets = ts,
            ds_whitelist = (case r of Inl e \<Rightarrow> None | Inr wl \<Rightarrow> Some (whitelist_stats wl))\<rparr>))))"

record MetricsReport =
  mr_history :: HistoryStats
  mr_balance_lamports :: nat
  mr_steward :: "(StewardStats \<times> StewardConfigStats) option"
  mr_directed :: "DirectedStats option"

text \<open>The whole operation: an instance of what the loop of the bot is told to emit.\<close>

definition emit_metrics ::
  "('w, 'ix, 'z) OracleClient_scheme \<Rightarrow> ('y) state_lib_scheme \<Rightarrow> ('w \<Rightarrow> (JitoTransactionError + DirectedStakeWhitelist) \<times> 'w)
   \<Rightarrow> nat \<Rightarrow> nat \<Rightarrow> KeeperState \<Rightarrow> ('w, MetricsReport) crank" where
  "emit_metrics c lib whitelist stake_pool_lamports reserve_lamports ks =
     crank_bind (crank_pure (emit_validator_history_metrics lib ks)) (\<lambda>hs.
     crank_bind (crank_pure (emit_steward_stats lib stake_pool_lamports reserve_lamports ks)) (\<lambda>ss.
     crank_bind (emit_directed_stake_stats c whitelist ks) (\<lambda>ds.
     crank_return \<lparr>mr_history = hs, mr_balance_lamports = keeper_balance ks, mr_steward = ss, mr_directed = ds\<rparr>)))"

section \<open>What the counts miss\<close>

text \<open>
  The count of connection statuses is documented as that of the validators with a known status
  in the previous epoch. A history lags when its last record is not of the running epoch.
\<close>

definition status_reported :: "nat \<Rightarrow> ValidatorHistory \<Rightarrow> bool" where
  "status_reported epoch vh =
     (case find (\<lambda>e. vhe_epoch e = cast U16_MAX (epoch - 1)) (arr (vh_history vh)) of
        None \<Rightarrow> False | Some e \<Rightarrow> vhe_is_bam_connected e \<noteq> vhe_is_bam_connected vhe_default)"

definition lags :: "nat \<Rightarrow> ValidatorHistory \<Rightarrow> bool" where
  "lags epoch vh = (case circ_last (vh_history vh) of Inr (Some e) \<Rightarrow> vhe_epoch e \<noteq> epoch | _ \<Rightarrow> False)"

lemma count_history_status:
  assumes "0 < epoch" "vh_inv vh"
  shows "\<exists>n'. count_history epoch vh n = Ok n' \<and>
    mc_bam_status_reported n' = count_if (status_reported epoch vh \<and> \<not> lags epoch vh) (mc_bam_status_reported n)"
proof -
  obtain latest where latest: "circ_last (vh_history vh) = Ok latest" using circ_last_eq [OF assms(2)] by blast
  have previous: "previous_entry epoch vh = Ok (find (\<lambda>e. vhe_epoch e = cast U16_MAX (epoch - 1)) (arr (vh_history vh)))"
    using assms(1) by (simp add: previous_entry_def minus_or_panic_def checked_sub_def)
  show ?thesis
    by (auto simp: count_history_def latest previous lags_def status_reported_def count_previous_def count_current_def
        count_if_def Let_def split: option.split)
qed

lemma count_histories_status:
  assumes "0 < epoch" "\<And>vh. vh \<in> set vhs \<Longrightarrow> vh_inv vh"
  shows "\<exists>n'. for_each (count_history epoch) vhs n = Ok n' \<and>
    mc_bam_status_reported n' + length (filter (\<lambda>vh. status_reported epoch vh \<and> lags epoch vh) vhs) =
    mc_bam_status_reported n + length (filter (status_reported epoch) vhs)"
  using assms(2)
proof (induction vhs arbitrary: n)
  case (Cons vh vhs)
  obtain n' where n': "count_history epoch vh n = Ok n'"
    "mc_bam_status_reported n' = count_if (status_reported epoch vh \<and> \<not> lags epoch vh) (mc_bam_status_reported n)"
    using count_history_status [OF assms(1)] Cons.prems by (metis list.set_intros(1))
  obtain n'' where "for_each (count_history epoch) vhs n' = Ok n''"
    "mc_bam_status_reported n'' + length (filter (\<lambda>vh. status_reported epoch vh \<and> lags epoch vh) vhs) =
     mc_bam_status_reported n' + length (filter (status_reported epoch) vhs)"
    using Cons.IH [of n'] Cons.prems by auto
  then show ?case using n' by (auto simp: count_if_def)
qed simp

text \<open>
  The count of connection statuses falls short of what it is documented to be by the validators
  that have a status in the previous epoch and no record of the running one.
\<close>

theorem status_count_misses_lagging_histories:
  assumes "0 < ei_epoch (ks_epoch_info ks)"
    and "\<And>vh. vh \<in> set (map snd (validator_history_map ks)) \<Longrightarrow> vh_inv vh"
    and "cluster_last_epoch ks = Ok last_epoch"
  shows "\<exists>st. emit_validator_history_metrics lib ks = Ok st \<and>
    mc_bam_status_reported (hs_counts st) +
      length (filter (\<lambda>vh. status_reported (ei_epoch (ks_epoch_info ks)) vh \<and> lags (ei_epoch (ks_epoch_info ks)) vh)
        (map snd (validator_history_map ks))) =
    length (filter (status_reported (ei_epoch (ks_epoch_info ks))) (map snd (validator_history_map ks)))"
  using count_histories_status [OF assms(1), of "map snd (validator_history_map ks)" no_counts] assms(2,3)
  by (auto simp: emit_validator_history_metrics_def Let_def no_counts_def)

end
