(* ===== verification/Spec2Isabelle.thy ===== *)
theory Spec2Isabelle
  imports Crank_Properties Admin_Properties History_Properties Account_Growth Var_Int
    Keeper_Maintenance Oracle_Properties Keeper_Loop Keeper_Properties Block_Properties Upload_Properties
    Command_Properties Growth_Commands Backfill_Properties View_Properties
    Keeper_Metrics
begin

text \<open>
  A verification development of StakeNet: two on-chain programs and the programs around them
  that manage the stake of a Solana stake pool.

  \<^bold>\<open>The program and its parts\<close>

  The \<^emph>\<open>validator history\<close> program (programs/validator-history) keeps for every validator a
  circular buffer with one record per epoch: vote credits, commissions, stake, blocks, gossip
  data. The \<^emph>\<open>steward\<close> program (programs/steward) reads these histories, scores the validators
  of a stake pool, chooses the best ones and moves the stake of the pool towards them; part of
  the stake follows the wishes of token holders (directed stake). Its state machine is turned
  by instructions that anyone may send. The \<^emph>\<open>keeper\<close> (keepers/stakenet-keeper) is the bot
  that sends them and that uploads data to the history program, over the transaction engine of
  the client library (sdk). The \<^emph>\<open>command lines\<close> (utils/steward-cli and
  utils/validator-history-cli) build the same instructions for people. The parts meet in the
  accounts: the keeper and the command lines write only through instructions, the steward only
  reads the histories, and the stake pool, a program of another repository, answers
  calls of the steward.

  \<^bold>\<open>Conventions\<close>

  \<^item> Fallible code returns an error or a value; a panic is an error of its own (\<open>Prelude\<close>).
    Integers whose bits matter are words; amounts, epochs and indices are natural numbers, and
    every operation that can leave the range of its type names the range and what Rust does
    there. Floats are \<open>F64\<close>, rounded rationals, as far as the programs use them.
  \<^item> An account is a record with the fields of the source. A handler is a function from the
    accounts it reads and changes to the new accounts and the emitted events, and the conditions
    of its account declaration are its first steps.
  \<^item> Code of other repositories is an argument of the definitions that use it: the sysvars, the
    outcome of a stake pool instruction, deserialised accounts of other programs, the bincode
    library (\<open>bincode_fixint\<close> states its documented encoding), discriminators, the derivation of
    addresses. Where a theorem relies on such code, a named hypothesis says what it relies on
    and a witness shows a function for which it holds.
  \<^item> Off chain, a computation maps a world to an optional result with the next world (\<open>action\<close> in
    \<open>Keeper_Crank\<close>): the remote node is a record of functions on an arbitrary world, so every
    call may fail and may answer differently each time. The order of a hash map is an arbitrary
    permutation. An SQL statement is what its text says of a list of rows, and any may fail.
  \<^item> Loops are recursion over a list or with a measure. A loop that depends on answers of the
    node is \<open>iterate\<close> (\<open>Iteration\<close>), whose value \<open>None\<close> means that it never ends; there is no
    fuel, and that a loop ends is proved where it does (\<open>submission_returns\<close>,
    \<open>keeper_maintenance_reaches_the_epoch\<close>, \<open>meta_growth_command_completes\<close>) and refuted where it
    does not (\<open>keeper_maintenance_can_run_forever\<close>).

  \<^bold>\<open>Theories and sources: the validator history program\<close>

  \<^item> \<open>Circ_Buf\<close>: the circular buffers of state.rs. The locale \<open>epoch_log\<close> is their contract, a
    bounded log in ascending epochs; \<open>Validator_History\<close> interprets it for both record types.
  \<^item> \<open>Validator_History\<close>, \<open>Credits_And_Age\<close>: accounts, readers and setters of state.rs and
    utils.rs. The locale \<open>history_setter\<close> holds what all setters share; the credits and the age
    are shown equal to direct definitions (\<open>validator_age_incremental_eq_recount\<close>).
  \<^item> \<open>Vote_State\<close> (utils/vote-state): the navigation through the bytes of a vote account reads back
    what was serialised. \<open>Var_Int\<close> (serde_varint.rs): the encoding is canonical. \<open>Slot_Blocks\<close>
    (copy_cluster_info.rs): counting 64 slots at a time equals counting slot by slot.
  \<^item> \<open>History_Instructions\<close>, \<open>History_Properties\<close>: the handlers; whatever instructions run, a
    history stays an ordered log of one validator, with authentic gossip data.

  \<^bold>\<open>Theories and sources: the steward program\<close>

  \<^item> \<open>BitMask\<close> (bitmask.rs, large_bitmask.rs) with the locale \<open>bit_array\<close>; \<open>Config_Params\<close>
    (parameters.rs, accounts.rs); \<open>Validator_List\<close> (utils.rs); \<open>Directed_Stake\<close>
    (directed_stake.rs) with the locale \<open>key_list\<close> for the three whitelists.
  \<^item> \<open>Score\<close> (score.rs): the packed score orders like its components. \<open>Steward_State\<close>
    (steward_state.rs), \<open>Ranking\<close>: scoring in any order, with validators added in between, ranks what was
    scored, the whole pool among it; delegation gives equal shares to the best of a ranked pool, and
    panics when a validator added during the stage was scored into it. \<open>Removal\<close>: removal follows the list. \<open>Transitions\<close>: the transitions are
    those of the diagram.
  \<^item> \<open>Undirected_Delegation\<close> (delegation.rs), \<open>Directed_Delegation\<close> (directed_delegation.rs,
    rebalance_directed.rs): caps, order of service, convergence to the targets, accounting.
  \<^item> \<open>Crank\<close>, \<open>Admin\<close>, \<open>Passthrough\<close>: the handlers of instructions/. \<open>Crank_Invariants\<close> and
    \<open>Steward_Machine\<close> make a step relation of them, without conditions of its own: the states of a
    run are well formed exactly when the run has none of three steps that do not compare the
    number of validators with the size of the arrays (locale \<open>step_system_upto\<close> of \<open>Prelude\<close>).
    \<open>Crank_Properties\<close>, \<open>Admin_Properties\<close>: the stake ceiling, the authority of each part of the
    configuration, tickets, synchronisation.
  \<^item> \<open>State_Migration\<close> (migrate_state_to_v2.rs, realloc_state.rs): the migration in place, on
    bytes, refines the change of the structure. \<open>Account_Growth\<close>: growth of accounts, and the
    byte that is tested for initialisation.

  \<^bold>\<open>Theories and sources: off chain\<close>

  \<^item> \<open>Client_Submission\<close>, \<open>Submission_Properties\<close> (sdk/src/utils/transactions.rs): what is reported
    as executed has landed, the engine returns when blockhashes expire, packing loses nothing that
    simulates.
  \<^item> \<open>Keeper_Crank\<close> (entries/crank_steward.rs), \<open>Keeper_Maintenance\<close>: the keeper together with the
    steward program. \<open>Directed_Oracle\<close>, \<open>Oracle_Properties\<close> (helpers.rs, instructions.rs): targets
    are backed by balances.
  \<^item> \<open>Slot_Database\<close> (block_metadata/db.rs), \<open>Keeper_State\<close> (state/), \<open>Upload_Operations\<close>,
    \<open>Gossip_Upload\<close>, \<open>Block_Metadata\<close> (operations/, entries/), \<open>Keeper_Loop\<close> (main.rs): the whole
    bot. \<open>Action_Rules\<close> has Hoare rules for its computations; \<open>Slot_Lifecycle\<close>, \<open>Block_Properties\<close>,
    \<open>Keeper_Properties\<close> and \<open>Upload_Properties\<close> use them: decided slots are final, the sums are
    those of the rows, the tallies fit the schedule, and what the history program does with the
    uploads.
    \<open>Keeper_Metrics\<close> (metrics_emit.rs): the reported numbers, and which validators a count misses.
  \<^item> \<open>Command_Args\<close>, \<open>Command_Line\<close>, \<open>Command_Cranks\<close>, \<open>Command_Actions\<close>, \<open>Command_Growth\<close>,
    \<open>Command_Main\<close> (utils/steward-cli): arguments, frame, the commands and their dispatch.
    \<open>Command_Properties\<close>: dry runs send nothing, except those of the commands that ignore the
    flags. \<open>Growth_Commands\<close>: what the commands that grow
    accounts reach. \<open>Command_Sample\<close> is the world of their witnesses. \<open>State_Views\<close>,
    \<open>View_Properties\<close> (commands/info, sdk/src/utils/debug.rs): the reports, whose ranks agree
    with the ranking that the steward keeps.
  \<^item> \<open>History_Commands\<close>, \<open>Age_Backfill\<close> (utils/validator-history-cli): accounts, authorities, reports
    and uploads of the validator history by hand. \<open>Backfill_Properties\<close>: backfilled ages count the
    distinct epochs that are known, and what the initialisation of the configuration leaves.

  \<^bold>\<open>Not modelled, and why\<close>

  \<^item> The entry points and the handlers with empty bodies: the Anchor framework dispatches, and
    creates or closes the accounts. The allocators work on raw pointers. The wrappers of the
    stake pool's types only delegate to its library, and the IDL code only describes types.
  \<^item> The formats of metrics, printed transactions and reports, the views of the configurations,
    and the grammar of the command lines: output and parsing without effect on the state. The execution variant for a local test node is not called.
  \<^item> Of the command line of the validator history, the stake by country and the backfill of
    priority fees, which ask services of others about places and fees. The tests.
  \<^item> The account lists of the instructions that the keeper sends: an instruction of the keeper is
    its kind with the data that it carries and, for gossip, the key given as the oracle authority.
    The command line has the account lists.
\<close>

end
